(* ===== verification/Shiliu_Prelude.thy ===== *)
theory Shiliu_Prelude
  imports
    Complex_Main
    "HOL-Library.AList"
    "HOL-Library.Char_ord"
    "HOL-Library.List_Lexorder"
    "HOL-Library.Product_Lexorder"
    "HOL-Library.Multiset"
begin

text \<open>
  Shared vocabulary of the development: Python exceptions as values of a sum type, insertion
  ordered dictionaries as association lists, \<open>list(dict.fromkeys(xs))\<close>, stable sorting by a key,
  and aware timestamps, with the generic lemmas the component theories rest on.

  Python \<open>str\<close> is \<open>string\<close>: a list of characters compared lexicographically by code.
  A \<open>char\<close> stands for one code point below 256; text beyond that range is outside the model.
\<close>

declare split_paired_All [simp del] split_paired_Ex [simp del]

section \<open>Errors as values\<close>

text \<open>
  The exceptions the modelled code raises. \<open>Contract_Error\<close> carries the \<open>code\<close> attribute of
  EvidenceContractError, EvidenceDecisionContractError and ContinuationContractError, \<open>Conflict\<close>
  the message of a CoordinationConflict, \<open>Value_Error\<close> the message of a ValueError, \<open>Runtime_Error\<close>
  that of a RuntimeError.
  \<open>Validation_Error\<close> is a failed pydantic validation. The \<open>Research_\<close> errors are those of
  research/errors.py with an English rendering of their message, \<open>Storage_Error\<close> carries the
  SQLSTATE of a storage.errors.StorageError.
\<close>

datatype py_error =
    Validation_Error
  | Value_Error string
  | Key_Error
  | Type_Error
  | Contract_Error string
  | Conflict string
  | Runtime_Error string
  | Research_Conflict string
  | Research_Not_Found string
  | Research_Validation string
  | Research_Unsafe string
  | Storage_Error string
  | Simulated_Crash

type_synonym 'a result = "py_error + 'a"

definition ebind :: "'a result \<Rightarrow> ('a \<Rightarrow> 'b result) \<Rightarrow> 'b result" where
  "ebind r f = (case r of Inl e \<Rightarrow> Inl e | Inr x \<Rightarrow> f x)"

definition guard_or :: "bool \<Rightarrow> py_error \<Rightarrow> unit result" where
  "guard_or b e = (if b then Inr () else Inl e)"

lemma ebind_Inl [simp]: "ebind (Inl e) f = Inl e"
  by (simp add: ebind_def)

lemma ebind_Inr [simp]: "ebind (Inr x) f = f x"
  by (simp add: ebind_def)

lemma ebind_eq_Inr: "ebind r f = Inr y \<longleftrightarrow> (\<exists>x. r = Inr x \<and> f x = Inr y)"
  by (cases r) auto

lemma ebind_eq_Inl: "ebind r f = Inl e \<longleftrightarrow> r = Inl e \<or> (\<exists>x. r = Inr x \<and> f x = Inl e)"
  by (cases r) auto

lemma guard_or_Inr [simp]: "guard_or b e = Inr u \<longleftrightarrow> b"
  by (simp add: guard_or_def)

lemma guard_or_Inl [simp]: "guard_or b e = Inl e' \<longleftrightarrow> \<not> b \<and> e' = e"
  by (auto simp: guard_or_def)

lemma guard_or_True [simp]: "guard_or True e = Inr ()"
  by (simp add: guard_or_def)

lemma guard_or_False [simp]: "guard_or False e = Inl e"
  by (simp add: guard_or_def)

fun emap :: "('a \<Rightarrow> 'b result) \<Rightarrow> 'a list \<Rightarrow> 'b list result" where
  "emap f [] = Inr []"
| "emap f (x # xs) = ebind (f x) (\<lambda>y. ebind (emap f xs) (\<lambda>ys. Inr (y # ys)))"

lemma emap_eq_Inr: "emap f xs = Inr ys \<longleftrightarrow> map f xs = map Inr ys"
proof (induction xs arbitrary: ys)
  case Nil
  then show ?case by auto
next
  case (Cons x xs)
  then show ?case by (cases ys) (auto simp: ebind_eq_Inr)
qed

lemma emap_all_Inr: "(\<And>x. x \<in> set xs \<Longrightarrow> f x = Inr (g x)) \<Longrightarrow> emap f xs = Inr (map g xs)"
  by (induction xs) auto

lemma emap_Inr_elem: "emap f xs = Inr ys \<Longrightarrow> y \<in> set ys \<Longrightarrow> \<exists>x \<in> set xs. f x = Inr y"
  by (induction xs arbitrary: ys) (auto simp: ebind_eq_Inr)

lemma emap_length: "emap f xs = Inr ys \<Longrightarrow> length ys = length xs"
  by (induction xs arbitrary: ys) (auto simp: ebind_eq_Inr)

section \<open>Dictionaries in insertion order\<close>

text \<open>
  \<open>fromkeys xs\<close> is \<open>list(dict.fromkeys(xs))\<close>: the first occurrence of every element, in order.
  \<open>dict_of k xs\<close> is \<open>{k(x): x for x in xs}\<close>: a later element replaces an earlier one with the
  same key but keeps its position.
\<close>

fun fromkeys :: "'a list \<Rightarrow> 'a list" where
  "fromkeys [] = []"
| "fromkeys (x # xs) = x # removeAll x (fromkeys xs)"

lemma set_fromkeys [simp]: "set (fromkeys xs) = set xs"
  by (induction xs) auto

lemma distinct_removeAll_id: "distinct xs \<Longrightarrow> distinct (removeAll x xs)"
  by (simp add: distinct_removeAll)

lemma distinct_fromkeys [simp]: "distinct (fromkeys xs)"
  by (induction xs) (auto simp: distinct_removeAll)

lemma fromkeys_distinct_id: "distinct xs \<Longrightarrow> fromkeys xs = xs"
  by (induction xs) auto

lemma fromkeys_idem [simp]: "fromkeys (fromkeys xs) = fromkeys xs"
  by (simp add: fromkeys_distinct_id)

lemma fromkeys_eq_Nil [simp]: "fromkeys xs = [] \<longleftrightarrow> xs = []"
  by (cases xs) auto

lemma length_fromkeys_le: "length (fromkeys xs) \<le> length xs"
proof (induction xs)
  case (Cons x xs)
  then show ?case
    using le_trans [OF length_filter_le Cons.IH, of "(\<noteq>) x"]
    by (simp add: removeAll_filter_not_eq)
qed simp

lemma length_fromkeys_card: "length (fromkeys xs) = card (set xs)"
  by (metis distinct_card distinct_fromkeys set_fromkeys)

definition dict_of :: "('a \<Rightarrow> 'k) \<Rightarrow> 'a list \<Rightarrow> ('k \<times> 'a) list" where
  "dict_of key xs = fold (\<lambda>x d. AList.update (key x) x d) xs []"

lemma map_of_update: "map_of (AList.update k v d) = (map_of d)(k \<mapsto> v)"
  by (simp add: update_conv')

lemma set_update_subset: "set (AList.update k v d) \<subseteq> insert (k, v) (set d)"
  by (induction d) auto

lemma keys_of_update: "fst ` set (AList.update k v d) = insert k (fst ` set d)"
  using dom_update [of k v d] by (simp add: dom_map_of_conv_image_fst)

lemma emap_total:
  assumes "\<And>x. x \<in> set xs \<Longrightarrow> \<exists>y. f x = Inr y"
  shows "\<exists>ys. emap f xs = Inr ys"
  using assms
proof (induction xs)
  case (Cons x xs)
  obtain y where "f x = Inr y" using Cons.prems [of x] by auto
  moreover obtain ys where "emap f xs = Inr ys" using Cons by auto
  ultimately show ?case by simp
qed simp

lemma find_append:
  "find P (xs @ ys) = (case find P xs of Some x \<Rightarrow> Some x | None \<Rightarrow> find P ys)"
  by (induction xs) auto

lemma map_of_dict_fold:
  "map_of (fold (\<lambda>x d. AList.update (key x) x d) xs d) k =
     (case find (\<lambda>x. key x = k) (rev xs) of Some x \<Rightarrow> Some x | None \<Rightarrow> map_of d k)"
  by (induction xs arbitrary: d)
     (auto simp: map_of_update find_append split: option.splits)

lemma map_of_dict_of: "map_of (dict_of key xs) k = find (\<lambda>x. key x = k) (rev xs)"
  by (simp add: dict_of_def map_of_dict_fold split: option.splits)

lemma find_unique_key:
  assumes "distinct (map key xs)" and "x \<in> set xs"
  shows "find (\<lambda>y. key y = key x) xs = Some x"
  using assms by (induction xs) (auto simp: rev_image_eqI)

lemma map_of_dict_of_distinct:
  assumes "distinct (map key xs)" and "x \<in> set xs"
  shows "map_of (dict_of key xs) (key x) = Some x"
proof -
  have "distinct (map key (rev xs))" using assms(1) by (simp add: rev_map [symmetric])
  then show ?thesis
    using find_unique_key [of key "rev xs" x] assms(2) by (simp add: map_of_dict_of)
qed

lemma find_SomeD: "find P xs = Some x \<Longrightarrow> x \<in> set xs \<and> P x"
  by (induction xs) (auto split: if_splits)

lemma dict_of_entry: "map_of (dict_of key xs) k = Some x \<Longrightarrow> x \<in> set xs \<and> key x = k"
  unfolding map_of_dict_of by (drule find_SomeD) simp

section \<open>Sorting by a key\<close>

text \<open>\<open>sorted(xs, key=k)\<close> is \<open>sort_key k xs\<close>: both are stable.\<close>

lemma sort_key_sorted_id: "sorted (map f xs) \<Longrightarrow> sort_key f xs = xs"
  by (simp add: sort_key_id_if_sorted)

lemma sort_key_idem [simp]: "sort_key f (sort_key f xs) = sort_key f xs"
  by (simp add: sort_key_id_if_sorted)

lemma distinct_map_sort_key [simp]: "distinct (map g (sort_key f xs)) \<longleftrightarrow> distinct (map g xs)"
  by (simp add: distinct_map)

lemma set_map_sort_key [simp]: "set (map g (sort_key f xs)) = set (map g xs)"
  by simp

lemma sort_key_perm:
  "mset xs = mset ys \<Longrightarrow> inj_on f (set xs) \<Longrightarrow> sort_key f xs = sort_key f ys"
  by (rule sort_key_inj_key_eq) simp_all

section \<open>Timestamps\<close>

text \<open>
  A Python \<open>datetime\<close>: the instant in microseconds and the UTC offset, \<open>None\<close> for a naive value.
  Aware values are compared by their instant; the code compares aware values only, since every
  model that carries a timestamp rejects a naive one.
\<close>

record datetime =
  dt_instant :: int
  dt_offset :: "int option"

definition aware :: "datetime \<Rightarrow> bool" where
  "aware t \<longleftrightarrow> dt_offset t \<noteq> None"

definition later :: "datetime \<Rightarrow> datetime \<Rightarrow> bool" where
  "later a b \<longleftrightarrow> dt_instant a > dt_instant b"

section \<open>Strings\<close>

definition removeprefix :: "string \<Rightarrow> string \<Rightarrow> string" where
  "removeprefix p s = (if take (length p) s = p then drop (length p) s else s)"

definition lower_hex :: "char \<Rightarrow> bool" where
  "lower_hex c \<longleftrightarrow> c \<in> set ''0123456789abcdef''"

definition hex_text :: "nat \<Rightarrow> string \<Rightarrow> bool" where
  "hex_text n s \<longleftrightarrow> length s = n \<and> list_all lower_hex s"

definition len_between :: "nat \<Rightarrow> nat \<Rightarrow> 'a list \<Rightarrow> bool" where
  "len_between lo hi s \<longleftrightarrow> lo \<le> length s \<and> length s \<le> hi"

lemma list_all_replicate [simp]: "list_all P (replicate n x) \<longleftrightarrow> n = 0 \<or> P x"
  by (induction n) auto

lemma removeprefix_append [simp]: "removeprefix p (p @ s) = s"
  by (simp add: removeprefix_def)

lemma hex_text_take: "hex_text n s \<Longrightarrow> m \<le> n \<Longrightarrow> hex_text m (take m s)"
  by (auto simp: hex_text_def list_all_iff dest: in_set_takeD)

end
