(* ===== verification/Canonical_Json.thy ===== *)
theory Canonical_Json
  imports Shiliu_Prelude
begin

text \<open>
  The canonical JSON text and the SHA-256 identities of src/shiliu/evidence/decision.py
  (\<open>canonical_json\<close>, \<open>sha256_identity\<close>, \<open>scope_hash\<close>).

  \<open>json\<close> holds the values the modelled contracts dump: no floats occur in them. The printer is
  \<open>json.dumps(ensure_ascii=False, sort_keys=True, separators=(",", ":"))\<close> with the escapes of
  Python's encoder. The digest and pydantic's JSON text of a timestamp are code outside the
  repository: the record \<open>platform\<close> carries both as functions, and every definition that uses
  them takes it as its first argument.
\<close>

section \<open>JSON values and their canonical text\<close>

datatype json =
    JNull
  | JBool bool
  | JInt int
  | JStr string
  | JArr "json list"
  | JObj "(string \<times> json) list"

fun digits_of :: "nat \<Rightarrow> string" where
  "digits_of n =
     (if n < 10 then [char_of (48 + n)] else digits_of (n div 10) @ [char_of (48 + n mod 10)])"

declare digits_of.simps [simp del]

definition int_text :: "int \<Rightarrow> string" where
  "int_text i = (if i < 0 then CHR ''-'' # digits_of (nat (- i)) else digits_of (nat i))"

definition hex_digit :: "nat \<Rightarrow> char" where
  "hex_digit n = ''0123456789abcdef'' ! (n mod 16)"

definition escape_char :: "char \<Rightarrow> string" where
  "escape_char c =
     (let n = (of_char c :: nat) in
      if n = 34 then [CHR 0x5C, CHR 0x22]
      else if n = 92 then [CHR 0x5C, CHR 0x5C]
      else if n = 8 then [CHR 0x5C, CHR ''b'']
      else if n = 9 then [CHR 0x5C, CHR ''t'']
      else if n = 10 then [CHR 0x5C, CHR ''n'']
      else if n = 12 then [CHR 0x5C, CHR ''f'']
      else if n = 13 then [CHR 0x5C, CHR ''r'']
      else if n < 32 then [CHR 0x5C, CHR ''u'', CHR ''0'', CHR ''0'', hex_digit (n div 16), hex_digit n]
      else [c])"

definition string_text :: "string \<Rightarrow> string" where
  "string_text s = [CHR 0x22] @ concat (map escape_char s) @ [CHR 0x22]"

fun join :: "string \<Rightarrow> string list \<Rightarrow> string" where
  "join sep [] = []"
| "join sep [x] = x"
| "join sep (x # y # ys) = x @ sep @ join sep (y # ys)"

fun canonical_json :: "json \<Rightarrow> string" where
  "canonical_json JNull = ''null''"
| "canonical_json (JBool b) = (if b then ''true'' else ''false'')"
| "canonical_json (JInt i) = int_text i"
| "canonical_json (JStr s) = string_text s"
| "canonical_json (JArr vs) = ''['' @ join '','' (map canonical_json vs) @ '']''"
| "canonical_json (JObj kvs) =
     ''{'' @ join '','' (map (\<lambda>(k, t). string_text k @ '':'' @ t)
       (sort_key fst (map (\<lambda>(k, v). (k, canonical_json v)) kvs))) @ ''}''"

text \<open>The order in which a dictionary was filled does not reach its canonical text.\<close>

lemma canonical_json_perm:
  assumes "mset kvs = mset kvs'" and "distinct (map fst kvs)"
  shows "canonical_json (JObj kvs) = canonical_json (JObj kvs')"
proof -
  let ?t = "\<lambda>(k, v). (k, canonical_json v)"
  have fsts: "map fst (map ?t xs) = map fst xs" for xs :: "(string \<times> json) list"
    by (induction xs) auto
  have "mset (map ?t kvs) = mset (map ?t kvs')" using assms(1) by simp
  moreover have "distinct (map fst (map ?t kvs))"
    unfolding fsts by (rule assms(2))
  then have "inj_on fst (set (map ?t kvs))" by (simp only: distinct_map)
  ultimately have "sort_key fst (map ?t kvs) = sort_key fst (map ?t kvs')"
    by (rule sort_key_perm)
  then show ?thesis by simp
qed

section \<open>Identities\<close>

record platform =
  sha256_hexdigest :: "string \<Rightarrow> string"
  json_datetime :: "datetime \<Rightarrow> string"

text \<open>The bytes \<open>str.encode("utf-8")\<close> produces: one byte below 128, two from there to 255.\<close>

definition utf8_char :: "char \<Rightarrow> string" where
  "utf8_char c =
     (let n = (of_char c :: nat) in
      if n < 128 then [c] else [char_of (192 + n div 64), char_of (128 + n mod 64)])"

definition utf8_encode :: "string \<Rightarrow> string" where
  "utf8_encode s = concat (map utf8_char s)"

definition sha256_identity :: "platform \<Rightarrow> json \<Rightarrow> string" where
  "sha256_identity P v = ''sha256:'' @ sha256_hexdigest P (utf8_encode (canonical_json v))"

definition scope_hash :: "platform \<Rightarrow> json \<Rightarrow> string" where
  "scope_hash P v = sha256_identity P v"

text \<open>\<open>pattern=r"^sha256:[0-9a-f]{64}$"\<close> and \<open>pattern=r"^<prefix>[0-9a-f]{32}$"\<close>.\<close>

definition sha256_ref :: "string \<Rightarrow> bool" where
  "sha256_ref s \<longleftrightarrow> take 7 s = ''sha256:'' \<and> hex_text 64 (drop 7 s)"

definition hex32_id :: "string \<Rightarrow> string \<Rightarrow> bool" where
  "hex32_id p s \<longleftrightarrow> take (length p) s = p \<and> hex_text 32 (drop (length p) s)"

text \<open>
  What the code relies on from hashlib: a SHA-256 hexdigest has 64 lower case hex digits.
\<close>

definition sha256_platform :: "platform \<Rightarrow> bool" where
  "sha256_platform P \<longleftrightarrow> (\<forall>bytes. hex_text 64 (sha256_hexdigest P bytes))"

lemma sha256_identity_ref [simp]: "sha256_platform P \<Longrightarrow> sha256_ref (sha256_identity P v)"
  by (simp add: sha256_ref_def sha256_identity_def sha256_platform_def)

lemma hex32_of_identity [simp]:
  assumes "sha256_platform P"
  shows "hex32_id p (p @ take 32 (removeprefix ''sha256:'' (sha256_identity P v)))"
  using assms
  by (simp only: hex32_id_def sha256_identity_def removeprefix_append sha256_platform_def)
     (auto intro: hex_text_take [of 64])

text \<open>\<open>exclude_none=True\<close>: the fields whose value is not \<open>None\<close>.\<close>

definition present :: "(string \<times> json option) list \<Rightarrow> json" where
  "present fs = JObj (concat (map (\<lambda>(k, v). case v of None \<Rightarrow> [] | Some j \<Rightarrow> [(k, j)]) fs))"

definition strs :: "string list \<Rightarrow> json" where
  "strs ss = JArr (map JStr ss)"

text \<open>A platform for the examples.\<close>

definition sample_platform :: platform where
  "sample_platform = \<lparr>sha256_hexdigest = (\<lambda>_. replicate 64 CHR ''a''), json_datetime = (\<lambda>_. ''t'')\<rparr>"

lemma sample_platform [simp]: "sha256_platform sample_platform"
  by (simp add: sha256_platform_def sample_platform_def hex_text_def lower_hex_def)

end
