(* ===== verification/Evidence_Types.thy ===== *)
theory Evidence_Types
  imports Canonical_Json
begin

text \<open>
  The contract types of src/shiliu/evidence/decision.py: its enums with their string values, and
  its frozen pydantic models as records. A field constraint or \<open>model_validator\<close> is a bool valued
  predicate \<open>valid_\<dots>\<close>; constructing a model that fails it raises, so \<open>mk_\<dots>\<close> returns
  \<open>Validation_Error\<close>. A \<open>Literal\<close> field with a single value carries no state; it appears in the
  JSON of its record only.
\<close>

section \<open>Enums\<close>

datatype requirement_origin =
    Explicit_User
  | Product_Rule
  | Bounded_Inference
  | Origin_Unknown

fun origin_value :: "requirement_origin \<Rightarrow> string" where
  "origin_value Explicit_User = ''explicit_user''"
| "origin_value Product_Rule = ''product_rule''"
| "origin_value Bounded_Inference = ''bounded_inference''"
| "origin_value Origin_Unknown = ''unknown''"

datatype scope_match_status =
    Scope_Exact
  | Scope_Compatible
  | Scope_Mismatch
  | Scope_Unknown

fun scope_match_value :: "scope_match_status \<Rightarrow> string" where
  "scope_match_value Scope_Exact = ''exact''"
| "scope_match_value Scope_Compatible = ''compatible''"
| "scope_match_value Scope_Mismatch = ''mismatch''"
| "scope_match_value Scope_Unknown = ''unknown''"

datatype source_version_status =
    Version_Current
  | Version_Stale
  | Version_Invalid
  | Version_Unavailable
  | Version_Unknown

fun version_value :: "source_version_status \<Rightarrow> string" where
  "version_value Version_Current = ''current''"
| "version_value Version_Stale = ''stale''"
| "version_value Version_Invalid = ''invalid''"
| "version_value Version_Unavailable = ''unavailable''"
| "version_value Version_Unknown = ''unknown''"

datatype reference_scope_status =
    In_Scope
  | Out_Of_Scope
  | Reference_Scope_Unknown

fun reference_scope_value :: "reference_scope_status \<Rightarrow> string" where
  "reference_scope_value In_Scope = ''in_scope''"
| "reference_scope_value Out_Of_Scope = ''out_of_scope''"
| "reference_scope_value Reference_Scope_Unknown = ''unknown''"

datatype authorization_status =
    Authorized
  | Unauthorized
  | Authorization_Unknown

fun authorization_value :: "authorization_status \<Rightarrow> string" where
  "authorization_value Authorized = ''authorized''"
| "authorization_value Unauthorized = ''unauthorized''"
| "authorization_value Authorization_Unknown = ''unknown''"

datatype coverage_status =
    Covered
  | Partial
  | Open_Aspect
  | Coverage_Unknown

fun coverage_value :: "coverage_status \<Rightarrow> string" where
  "coverage_value Covered = ''covered''"
| "coverage_value Partial = ''partial''"
| "coverage_value Open_Aspect = ''open''"
| "coverage_value Coverage_Unknown = ''unknown''"

datatype new_material_status =
    No_Relevant_New_Material
  | Relevant_New_Material
  | Not_Checked
  | Check_Failed

fun new_material_value :: "new_material_status \<Rightarrow> string" where
  "new_material_value No_Relevant_New_Material = ''no_relevant_new_material''"
| "new_material_value Relevant_New_Material = ''relevant_new_material''"
| "new_material_value Not_Checked = ''not_checked''"
| "new_material_value Check_Failed = ''check_failed''"

datatype freshness_status =
    Fresh
  | New_Material
  | Freshness_Unknown
  | Freshness_Check_Failed

fun freshness_value :: "freshness_status \<Rightarrow> string" where
  "freshness_value Fresh = ''fresh''"
| "freshness_value New_Material = ''new_material''"
| "freshness_value Freshness_Unknown = ''unknown''"
| "freshness_value Freshness_Check_Failed = ''check_failed''"

datatype conflict_status =
    Potential
  | Confirmed
  | Resolved
  | Dismissed

fun conflict_value :: "conflict_status \<Rightarrow> string" where
  "conflict_value Potential = ''potential''"
| "conflict_value Confirmed = ''confirmed''"
| "conflict_value Resolved = ''resolved''"
| "conflict_value Dismissed = ''dismissed''"

datatype contribution_kind =
    Old
  | Reused
  | New
  | Dropped

fun contribution_value :: "contribution_kind \<Rightarrow> string" where
  "contribution_value Old = ''old''"
| "contribution_value Reused = ''reused''"
| "contribution_value New = ''new''"
| "contribution_value Dropped = ''dropped''"

datatype gate_name =
    G_Requirements
  | G_Scope
  | G_Coverage
  | G_Source_Version
  | G_Library_Freshness
  | G_Conflict
  | G_Authority

fun gate_value :: "gate_name \<Rightarrow> string" where
  "gate_value G_Requirements = ''requirements''"
| "gate_value G_Scope = ''scope''"
| "gate_value G_Coverage = ''coverage''"
| "gate_value G_Source_Version = ''source_version''"
| "gate_value G_Library_Freshness = ''library_freshness''"
| "gate_value G_Conflict = ''conflict''"
| "gate_value G_Authority = ''authority''"

datatype gate_outcome =
    Pass
  | Fail
  | Unknown

fun outcome_value :: "gate_outcome \<Rightarrow> string" where
  "outcome_value Pass = ''pass''"
| "outcome_value Fail = ''fail''"
| "outcome_value Unknown = ''unknown''"

datatype decision_action =
    Answer_Fresh
  | Direct_Reuse
  | Targeted_Refresh
  | Deep_Research
  | Clarify
  | Partial_Answer
  | Abstain

fun action_value :: "decision_action \<Rightarrow> string" where
  "action_value Answer_Fresh = ''answer_fresh''"
| "action_value Direct_Reuse = ''direct_reuse''"
| "action_value Targeted_Refresh = ''targeted_refresh''"
| "action_value Deep_Research = ''deep_research''"
| "action_value Clarify = ''clarify''"
| "action_value Partial_Answer = ''partial_answer''"
| "action_value Abstain = ''abstain''"

datatype fail_closed_outcome =
    Allow_Current_Evidence
  | Allow_Direct_Reuse
  | Require_Refresh
  | Require_Deep_Research
  | Require_Clarification
  | Partial_Only
  | Insufficient

fun fail_closed_value :: "fail_closed_outcome \<Rightarrow> string" where
  "fail_closed_value Allow_Current_Evidence = ''allow_current_evidence''"
| "fail_closed_value Allow_Direct_Reuse = ''allow_direct_reuse''"
| "fail_closed_value Require_Refresh = ''require_refresh''"
| "fail_closed_value Require_Deep_Research = ''require_deep_research''"
| "fail_closed_value Require_Clarification = ''require_clarification''"
| "fail_closed_value Partial_Only = ''partial_only''"
| "fail_closed_value Insufficient = ''insufficient''"

datatype reason_code =
    R_Requirements_Resolved
  | R_Explicit_Requirement_Precedence
  | R_Bounded_Inference_Present
  | R_Requirement_Unknown
  | R_Scope_Exact
  | R_Scope_Compatible
  | R_Scope_Mismatch
  | R_Scope_Unknown
  | R_Coverage_Complete
  | R_Coverage_Incomplete
  | R_Coverage_Unknown
  | R_Source_Version_Current
  | R_Source_Version_Stale
  | R_Source_Version_Invalid
  | R_Source_Version_Unavailable
  | R_Source_Version_Unknown
  | R_Library_Fresh
  | R_Local_Corpus_New_Material
  | R_Library_Freshness_Unknown
  | R_Library_Freshness_Check_Failed
  | R_No_Blocking_Conflict
  | R_Blocking_Conflict
  | R_Authority_Valid
  | R_Evidence_Unauthorized
  | R_Evidence_Out_Of_Scope
  | R_Evidence_Authority_Unknown
  | R_Current_Evidence_Available
  | R_Reused_Evidence_Available
  | R_No_Safe_Coverage
  | R_Semantic_Advice_Non_Authoritative

fun reason_value :: "reason_code \<Rightarrow> string" where
  "reason_value R_Requirements_Resolved = ''requirements_resolved''"
| "reason_value R_Explicit_Requirement_Precedence = ''explicit_requirement_precedence''"
| "reason_value R_Bounded_Inference_Present = ''bounded_inference_present''"
| "reason_value R_Requirement_Unknown = ''requirement_unknown''"
| "reason_value R_Scope_Exact = ''scope_exact''"
| "reason_value R_Scope_Compatible = ''scope_compatible''"
| "reason_value R_Scope_Mismatch = ''scope_mismatch''"
| "reason_value R_Scope_Unknown = ''scope_unknown''"
| "reason_value R_Coverage_Complete = ''coverage_complete''"
| "reason_value R_Coverage_Incomplete = ''coverage_incomplete''"
| "reason_value R_Coverage_Unknown = ''coverage_unknown''"
| "reason_value R_Source_Version_Current = ''source_version_current''"
| "reason_value R_Source_Version_Stale = ''source_version_stale''"
| "reason_value R_Source_Version_Invalid = ''source_version_invalid''"
| "reason_value R_Source_Version_Unavailable = ''source_version_unavailable''"
| "reason_value R_Source_Version_Unknown = ''source_version_unknown''"
| "reason_value R_Library_Fresh = ''library_fresh''"
| "reason_value R_Local_Corpus_New_Material = ''local_corpus_new_material''"
| "reason_value R_Library_Freshness_Unknown = ''library_freshness_unknown''"
| "reason_value R_Library_Freshness_Check_Failed = ''library_freshness_check_failed''"
| "reason_value R_No_Blocking_Conflict = ''no_blocking_conflict''"
| "reason_value R_Blocking_Conflict = ''blocking_conflict''"
| "reason_value R_Authority_Valid = ''authority_valid''"
| "reason_value R_Evidence_Unauthorized = ''evidence_unauthorized''"
| "reason_value R_Evidence_Out_Of_Scope = ''evidence_out_of_scope''"
| "reason_value R_Evidence_Authority_Unknown = ''evidence_authority_unknown''"
| "reason_value R_Current_Evidence_Available = ''current_evidence_available''"
| "reason_value R_Reused_Evidence_Available = ''reused_evidence_available''"
| "reason_value R_No_Safe_Coverage = ''no_safe_coverage''"
| "reason_value R_Semantic_Advice_Non_Authoritative = ''semantic_advice_non_authoritative''"

datatype advice_kind =
    Advise_Requirement
  | Advise_Scope
  | Advise_Time_Sensitivity
  | Advise_Conflict
  | Advise_Claim_Support

fun advice_value :: "advice_kind \<Rightarrow> string" where
  "advice_value Advise_Requirement = ''requirement''"
| "advice_value Advise_Scope = ''scope''"
| "advice_value Advise_Time_Sensitivity = ''time_sensitivity''"
| "advice_value Advise_Conflict = ''conflict''"
| "advice_value Advise_Claim_Support = ''claim_support''"

text \<open>The frozen precedence of requirement origins, and the linear order it gives them.\<close>

fun requirement_precedence :: "requirement_origin \<Rightarrow> int" where
  "requirement_precedence Explicit_User = 0"
| "requirement_precedence Product_Rule = 1"
| "requirement_precedence Bounded_Inference = 2"
| "requirement_precedence Origin_Unknown = 3"

lemma requirement_precedence_inject [simp]:
  "requirement_precedence a = requirement_precedence b \<longleftrightarrow> a = b"
  by (cases a; cases b) simp_all

lemma requirement_precedence_range: "0 \<le> requirement_precedence a \<and> requirement_precedence a \<le> 3"
  by (cases a) simp_all

instantiation requirement_origin :: linorder
begin

definition less_eq_requirement_origin :: "requirement_origin \<Rightarrow> requirement_origin \<Rightarrow> bool" where
  "less_eq_requirement_origin a b \<longleftrightarrow> requirement_precedence a \<le> requirement_precedence b"

definition less_requirement_origin :: "requirement_origin \<Rightarrow> requirement_origin \<Rightarrow> bool" where
  "less_requirement_origin a b \<longleftrightarrow> requirement_precedence a < requirement_precedence b"

instance
  by standard (auto simp: less_eq_requirement_origin_def less_requirement_origin_def)

end

section \<open>Contract models\<close>

record evidence_requirement =
  rq_aspect_id :: string
  rq_description :: string
  rq_origin :: requirement_origin
  rq_precedence :: int

definition valid_requirement :: "evidence_requirement \<Rightarrow> bool" where
  "valid_requirement r \<longleftrightarrow>
     len_between 1 160 (rq_aspect_id r) \<and> len_between 1 1000 (rq_description r) \<and>
     0 \<le> rq_precedence r \<and> rq_precedence r \<le> 3"

text \<open>The validator \<open>bind_precedence_to_origin\<close> overwrites a precedence that disagrees.\<close>

definition mk_requirement :: "string \<Rightarrow> string \<Rightarrow> requirement_origin \<Rightarrow> int \<Rightarrow> evidence_requirement result" where
  "mk_requirement aspect description origin precedence =
     (let r = \<lparr>rq_aspect_id = aspect, rq_description = description, rq_origin = origin,
               rq_precedence = precedence\<rparr> in
      if valid_requirement r
      then Inr (if precedence \<noteq> requirement_precedence origin
                then r\<lparr>rq_precedence := requirement_precedence origin\<rparr> else r)
      else Inl Validation_Error)"

definition bound_precedence :: "evidence_requirement \<Rightarrow> bool" where
  "bound_precedence r \<longleftrightarrow> rq_precedence r = requirement_precedence (rq_origin r)"

lemma mk_requirement_bound:
  "mk_requirement a d orig p = Inr r \<Longrightarrow> bound_precedence r \<and> valid_requirement r"
  using requirement_precedence_range [of orig]
  by (auto simp: mk_requirement_def bound_precedence_def valid_requirement_def Let_def
           split: if_splits)

record scope_assessment =
  sc_status :: scope_match_status
  sc_requested_scope_hash :: string
  sc_candidate_scope_hash :: "string option"
  sc_explanation :: string
  sc_compared_reference_ids :: "string list"

definition valid_scope :: "scope_assessment \<Rightarrow> bool" where
  "valid_scope s \<longleftrightarrow>
     sha256_ref (sc_requested_scope_hash s) \<and>
     (case sc_candidate_scope_hash s of None \<Rightarrow> True | Some h \<Rightarrow> sha256_ref h) \<and>
     len_between 1 1000 (sc_explanation s) \<and> length (sc_compared_reference_ids s) \<le> 32 \<and>
     \<not> (sc_status s \<noteq> Scope_Unknown \<and> sc_candidate_scope_hash s = None)"

text \<open>
  \<open>AuthorityReference\<close> is the union of the two reference models, told apart by \<open>kind\<close>.
\<close>

datatype authority_reference =
    EvidenceAuthorityReference
      (reference_id: string) (source_artifact_id: string) (source_version: string)
      (timeline_run_id: string) (segment_ids: "string list")
      (ref_version_status: source_version_status) (ref_scope_status: reference_scope_status)
      (ref_authorization_status: authorization_status)
  | FactRevisionAuthorityReference
      (reference_id: string) (evidence_reference_ids: "string list")
      (ref_version_status: source_version_status) (ref_scope_status: reference_scope_status)
      (ref_authorization_status: authorization_status)

fun valid_reference :: "authority_reference \<Rightarrow> bool" where
  "valid_reference (EvidenceAuthorityReference rid art ver run segs _ _ _) \<longleftrightarrow>
     len_between 1 200 rid \<and> len_between 1 240 art \<and> len_between 1 240 ver \<and>
     len_between 1 240 run \<and> 1 \<le> length segs"
| "valid_reference (FactRevisionAuthorityReference rid refs _ _ _) \<longleftrightarrow>
     len_between 1 200 rid \<and> len_between 1 32 refs"

record aspect_coverage =
  ac_aspect_id :: string
  ac_status :: coverage_status
  ac_authority_references :: "authority_reference list"
  ac_explanation :: string

definition valid_coverage :: "aspect_coverage \<Rightarrow> bool" where
  "valid_coverage c \<longleftrightarrow>
     len_between 1 160 (ac_aspect_id c) \<and> len_between 1 1000 (ac_explanation c) \<and>
     \<not> (ac_status c \<in> {Covered, Partial} \<and> ac_authority_references c = [])"

record corpus_new_material_check =
  nm_status :: new_material_status
  nm_recorded_check_time :: datetime
  nm_previous_check_time :: "datetime option"
  nm_bounded_query_hash :: string
  nm_candidate_reference_ids :: "string list"
  nm_relevant_material_reference_ids :: "string list"

definition valid_new_material_check :: "corpus_new_material_check \<Rightarrow> bool" where
  "valid_new_material_check c \<longleftrightarrow>
     sha256_ref (nm_bounded_query_hash c) \<and>
     length (nm_relevant_material_reference_ids c) \<le> 32 \<and>
     aware (nm_recorded_check_time c) \<and>
     (case nm_previous_check_time c of
        None \<Rightarrow> True
      | Some p \<Rightarrow> aware p \<and> \<not> later p (nm_recorded_check_time c)) \<and>
     \<not> (nm_status c = Relevant_New_Material \<and> nm_relevant_material_reference_ids c = []) \<and>
     \<not> (nm_status c = No_Relevant_New_Material \<and> nm_relevant_material_reference_ids c \<noteq> [])"

record library_freshness =
  lf_status :: freshness_status
  lf_check :: corpus_new_material_check

fun freshness_of_check :: "new_material_status \<Rightarrow> freshness_status" where
  "freshness_of_check No_Relevant_New_Material = Fresh"
| "freshness_of_check Relevant_New_Material = New_Material"
| "freshness_of_check Not_Checked = Freshness_Unknown"
| "freshness_of_check Check_Failed = Freshness_Check_Failed"

definition valid_freshness :: "library_freshness \<Rightarrow> bool" where
  "valid_freshness f \<longleftrightarrow> lf_status f = freshness_of_check (nm_status (lf_check f))"

record conflict_observation =
  co_conflict_id :: string
  co_status :: conflict_status
  co_left_reference_ids :: "string list"
  co_right_reference_ids :: "string list"
  co_observed_at :: datetime
  co_explanation :: string

definition valid_conflict :: "conflict_observation \<Rightarrow> bool" where
  "valid_conflict c \<longleftrightarrow>
     len_between 1 200 (co_conflict_id c) \<and> len_between 1 16 (co_left_reference_ids c) \<and>
     len_between 1 16 (co_right_reference_ids c) \<and> len_between 1 1000 (co_explanation c) \<and>
     aware (co_observed_at c)"

record evidence_contribution =
  cn_kind :: contribution_kind
  cn_reference_id :: string
  cn_aspect_ids :: "string list"

definition valid_contribution :: "evidence_contribution \<Rightarrow> bool" where
  "valid_contribution c \<longleftrightarrow> len_between 1 200 (cn_reference_id c) \<and> length (cn_aspect_ids c) \<le> 24"

record semantic_advice =
  sa_advice_id :: string
  sa_kind :: advice_kind
  sa_proposed_value :: string
  sa_supporting_reference_ids :: "string list"

definition valid_advice :: "semantic_advice \<Rightarrow> bool" where
  "valid_advice a \<longleftrightarrow>
     len_between 1 200 (sa_advice_id a) \<and> len_between 1 1000 (sa_proposed_value a) \<and>
     length (sa_supporting_reference_ids a) \<le> 32"

record gate_result =
  gr_gate :: gate_name
  gr_outcome :: gate_outcome
  gr_reason_codes :: "reason_code list"

definition mk_gate :: "gate_name \<Rightarrow> gate_outcome \<Rightarrow> reason_code list \<Rightarrow> gate_result result" where
  "mk_gate g out reasons =
     (if len_between 1 16 reasons
      then Inr \<lparr>gr_gate = g, gr_outcome = out, gr_reason_codes = reasons\<rparr>
      else Inl Validation_Error)"

end
