(* ===== verification/Evidence_Json.thy ===== *)
theory Evidence_Json
  imports Evidence_Types
begin

text \<open>
  The inputs and results of the decision (\<open>EvidenceDecisionInput\<close>, \<open>EvidenceDecision\<close>) and the
  JSON every contract model dumps, \<open>model_dump(mode="json", exclude_none=True)\<close>: the text the
  identities of a decision hash.
\<close>

section \<open>Decision input and decision\<close>

definition MAX_REQUIREMENTS :: nat where "MAX_REQUIREMENTS = 24"
definition MAX_INFERRED_REQUIREMENTS :: nat where "MAX_INFERRED_REQUIREMENTS = 8"
definition MAX_CONFLICTS :: nat where "MAX_CONFLICTS = 16"
definition MAX_SEMANTIC_ADVICE :: nat where "MAX_SEMANTIC_ADVICE = 16"

record evidence_decision_input =
  di_normalized_question :: string
  di_parent_decision_id :: "string option"
  di_requirements :: "evidence_requirement list"
  di_scope :: scope_assessment
  di_coverage :: "aspect_coverage list"
  di_library_freshness :: library_freshness
  di_conflicts :: "conflict_observation list"
  di_contributions :: "evidence_contribution list"
  di_semantic_advice :: "semantic_advice list"

definition inferred_count :: "evidence_requirement list \<Rightarrow> nat" where
  "inferred_count rs = length (filter (\<lambda>r. rq_origin r = Bounded_Inference) rs)"

definition valid_decision_input :: "evidence_decision_input \<Rightarrow> bool" where
  "valid_decision_input v \<longleftrightarrow>
     len_between 1 4000 (di_normalized_question v) \<and>
     (case di_parent_decision_id v of None \<Rightarrow> True | Some p \<Rightarrow> hex32_id ''evd_'' p) \<and>
     len_between 1 MAX_REQUIREMENTS (di_requirements v) \<and>
     len_between 1 MAX_REQUIREMENTS (di_coverage v) \<and>
     length (di_conflicts v) \<le> MAX_CONFLICTS \<and>
     length (di_semantic_advice v) \<le> MAX_SEMANTIC_ADVICE \<and>
     distinct (map rq_aspect_id (di_requirements v)) \<and>
     distinct (map ac_aspect_id (di_coverage v)) \<and>
     set (map rq_aspect_id (di_requirements v)) = set (map ac_aspect_id (di_coverage v)) \<and>
     inferred_count (di_requirements v) \<le> MAX_INFERRED_REQUIREMENTS"

definition mk_decision_input :: "evidence_decision_input \<Rightarrow> evidence_decision_input result" where
  "mk_decision_input v = (if valid_decision_input v then Inr v else Inl Validation_Error)"

text \<open>An input all of whose parts went through their constructors.\<close>

definition wf_input :: "evidence_decision_input \<Rightarrow> bool" where
  "wf_input v \<longleftrightarrow>
     valid_decision_input v \<and> valid_scope (di_scope v) \<and>
     valid_freshness (di_library_freshness v) \<and>
     valid_new_material_check (lf_check (di_library_freshness v)) \<and>
     list_all valid_requirement (di_requirements v) \<and>
     list_all bound_precedence (di_requirements v) \<and>
     list_all valid_coverage (di_coverage v) \<and>
     list_all (\<lambda>c. list_all valid_reference (ac_authority_references c)) (di_coverage v) \<and>
     list_all valid_conflict (di_conflicts v) \<and>
     list_all valid_contribution (di_contributions v) \<and>
     list_all valid_advice (di_semantic_advice v)"

record evidence_decision =
  ed_decision_id :: string
  ed_parent_decision_id :: "string option"
  ed_recorded_at :: datetime
  ed_normalized_question :: string
  ed_requirements :: "evidence_requirement list"
  ed_scope :: scope_assessment
  ed_coverage :: "aspect_coverage list"
  ed_library_freshness :: library_freshness
  ed_conflicts :: "conflict_observation list"
  ed_contributions :: "evidence_contribution list"
  ed_semantic_advice :: "semantic_advice list"
  ed_deterministic_gates :: "gate_result list"
  ed_covered_aspects :: "string list"
  ed_open_aspects :: "string list"
  ed_action :: decision_action
  ed_reason_codes :: "reason_code list"
  ed_fail_closed_outcome :: fail_closed_outcome
  ed_input_hash :: string
  ed_authority_hash :: string
  ed_decision_hash :: string
  ed_provider_authority_granted :: bool

definition valid_decision :: "evidence_decision \<Rightarrow> bool" where
  "valid_decision d \<longleftrightarrow>
     hex32_id ''evd_'' (ed_decision_id d) \<and>
     (case ed_parent_decision_id d of None \<Rightarrow> True | Some p \<Rightarrow> hex32_id ''evd_'' p) \<and>
     len_between 1 4000 (ed_normalized_question d) \<and>
     sha256_ref (ed_input_hash d) \<and> sha256_ref (ed_authority_hash d) \<and>
     sha256_ref (ed_decision_hash d) \<and> \<not> ed_provider_authority_granted d \<and>
     ed_parent_decision_id d \<noteq> Some (ed_decision_id d) \<and> aware (ed_recorded_at d)"

definition mk_decision :: "evidence_decision \<Rightarrow> evidence_decision result" where
  "mk_decision d = (if valid_decision d then Inr d else Inl Validation_Error)"

definition input_from_decision :: "evidence_decision \<Rightarrow> evidence_decision_input result" where
  "input_from_decision d = mk_decision_input
     \<lparr>di_normalized_question = ed_normalized_question d,
      di_parent_decision_id = ed_parent_decision_id d,
      di_requirements = ed_requirements d,
      di_scope = ed_scope d,
      di_coverage = ed_coverage d,
      di_library_freshness = ed_library_freshness d,
      di_conflicts = ed_conflicts d,
      di_contributions = ed_contributions d,
      di_semantic_advice = ed_semantic_advice d\<rparr>"

section \<open>JSON of the contract models\<close>

definition requirement_json :: "evidence_requirement \<Rightarrow> json" where
  "requirement_json r = JObj
     [(''aspect_id'', JStr (rq_aspect_id r)), (''description'', JStr (rq_description r)),
      (''origin'', JStr (origin_value (rq_origin r))), (''precedence'', JInt (rq_precedence r))]"

definition scope_json :: "scope_assessment \<Rightarrow> json" where
  "scope_json s = present
     [(''status'', Some (JStr (scope_match_value (sc_status s)))),
      (''requested_scope_hash'', Some (JStr (sc_requested_scope_hash s))),
      (''candidate_scope_hash'', map_option JStr (sc_candidate_scope_hash s)),
      (''explanation'', Some (JStr (sc_explanation s))),
      (''compared_reference_ids'', Some (strs (sc_compared_reference_ids s)))]"

fun reference_json :: "authority_reference \<Rightarrow> json" where
  "reference_json (EvidenceAuthorityReference rid art ver run segs sv sc au) = JObj
     [(''kind'', JStr ''evidence''), (''reference_id'', JStr rid),
      (''source_artifact_id'', JStr art), (''source_version'', JStr ver),
      (''timeline_run_id'', JStr run), (''segment_ids'', strs segs),
      (''source_version_status'', JStr (version_value sv)),
      (''scope_status'', JStr (reference_scope_value sc)),
      (''authorization_status'', JStr (authorization_value au))]"
| "reference_json (FactRevisionAuthorityReference rid refs sv sc au) = JObj
     [(''kind'', JStr ''fact_revision''), (''reference_id'', JStr rid),
      (''evidence_reference_ids'', strs refs),
      (''source_version_status'', JStr (version_value sv)),
      (''scope_status'', JStr (reference_scope_value sc)),
      (''authorization_status'', JStr (authorization_value au))]"

definition coverage_json :: "aspect_coverage \<Rightarrow> json" where
  "coverage_json c = JObj
     [(''aspect_id'', JStr (ac_aspect_id c)), (''status'', JStr (coverage_value (ac_status c))),
      (''authority_references'', JArr (map reference_json (ac_authority_references c))),
      (''explanation'', JStr (ac_explanation c))]"

definition check_json :: "platform \<Rightarrow> corpus_new_material_check \<Rightarrow> json" where
  "check_json P c = present
     [(''corpus_scope'', Some (JStr ''local_shiliu_corpus'')),
      (''status'', Some (JStr (new_material_value (nm_status c)))),
      (''recorded_check_time'', Some (JStr (json_datetime P (nm_recorded_check_time c)))),
      (''previous_check_time'', map_option (\<lambda>t. JStr (json_datetime P t)) (nm_previous_check_time c)),
      (''bounded_query_hash'', Some (JStr (nm_bounded_query_hash c))),
      (''candidate_reference_ids'', Some (strs (nm_candidate_reference_ids c))),
      (''relevant_material_reference_ids'', Some (strs (nm_relevant_material_reference_ids c))),
      (''internet_freshness_claimed'', Some (JBool False))]"

definition freshness_json :: "platform \<Rightarrow> library_freshness \<Rightarrow> json" where
  "freshness_json P f = JObj
     [(''status'', JStr (freshness_value (lf_status f))),
      (''corpus_new_material_check'', check_json P (lf_check f))]"

definition conflict_json :: "platform \<Rightarrow> conflict_observation \<Rightarrow> json" where
  "conflict_json P c = JObj
     [(''conflict_id'', JStr (co_conflict_id c)), (''status'', JStr (conflict_value (co_status c))),
      (''left_reference_ids'', strs (co_left_reference_ids c)),
      (''right_reference_ids'', strs (co_right_reference_ids c)),
      (''observed_at'', JStr (json_datetime P (co_observed_at c))),
      (''explanation'', JStr (co_explanation c))]"

definition contribution_json :: "evidence_contribution \<Rightarrow> json" where
  "contribution_json c = JObj
     [(''kind'', JStr (contribution_value (cn_kind c))),
      (''reference_id'', JStr (cn_reference_id c)), (''aspect_ids'', strs (cn_aspect_ids c))]"

definition advice_json :: "semantic_advice \<Rightarrow> json" where
  "advice_json a = JObj
     [(''advice_id'', JStr (sa_advice_id a)), (''kind'', JStr (advice_value (sa_kind a))),
      (''proposed_value'', JStr (sa_proposed_value a)),
      (''supporting_reference_ids'', strs (sa_supporting_reference_ids a)),
      (''non_authoritative'', JBool True)]"

definition gate_json :: "gate_result \<Rightarrow> json" where
  "gate_json g = JObj
     [(''gate'', JStr (gate_value (gr_gate g))), (''outcome'', JStr (outcome_value (gr_outcome g))),
      (''reason_codes'', strs (map reason_value (gr_reason_codes g)))]"

text \<open>
  The fields of an input other than \<open>semantic_advice\<close>: what \<open>_authority_payload\<close> keeps.
\<close>

definition authority_fields :: "platform \<Rightarrow> evidence_decision_input \<Rightarrow> (string \<times> json option) list" where
  "authority_fields P v =
     [(''normalized_question'', Some (JStr (di_normalized_question v))),
      (''parent_decision_id'', map_option JStr (di_parent_decision_id v)),
      (''requirements'', Some (JArr (map requirement_json (di_requirements v)))),
      (''scope'', Some (scope_json (di_scope v))),
      (''coverage'', Some (JArr (map coverage_json (di_coverage v)))),
      (''library_freshness'', Some (freshness_json P (di_library_freshness v))),
      (''conflicts'', Some (JArr (map (conflict_json P) (di_conflicts v)))),
      (''contributions'', Some (JArr (map contribution_json (di_contributions v))))]"

definition input_payload :: "platform \<Rightarrow> evidence_decision_input \<Rightarrow> json" where
  "input_payload P v = present (authority_fields P v @
     [(''semantic_advice'', Some (JArr (map advice_json (di_semantic_advice v))))])"

definition authority_payload :: "platform \<Rightarrow> evidence_decision_input \<Rightarrow> json" where
  "authority_payload P v = present
     ((''authority_hash_version'', Some (JStr ''v5.6-evidence-authority-hash-v1'')) #
      authority_fields P v)"

definition decision_fields :: "platform \<Rightarrow> evidence_decision \<Rightarrow> (string \<times> json option) list" where
  "decision_fields P d =
     [(''schema_version'', Some (JStr ''v5.6-evidence-decision-v1'')),
      (''identity_version'', Some (JStr ''v5.6-evidence-decision-identity-v1'')),
      (''serializer_version'', Some (JStr ''v5.6-canonical-json-v1'')),
      (''authority_hash_version'', Some (JStr ''v5.6-evidence-authority-hash-v1'')),
      (''decision_id'', Some (JStr (ed_decision_id d))),
      (''parent_decision_id'', map_option JStr (ed_parent_decision_id d)),
      (''recorded_at'', Some (JStr (json_datetime P (ed_recorded_at d)))),
      (''normalized_question'', Some (JStr (ed_normalized_question d))),
      (''requirements'', Some (JArr (map requirement_json (ed_requirements d)))),
      (''scope'', Some (scope_json (ed_scope d))),
      (''coverage'', Some (JArr (map coverage_json (ed_coverage d)))),
      (''library_freshness'', Some (freshness_json P (ed_library_freshness d))),
      (''conflicts'', Some (JArr (map (conflict_json P) (ed_conflicts d)))),
      (''contributions'', Some (JArr (map contribution_json (ed_contributions d)))),
      (''semantic_advice'', Some (JArr (map advice_json (ed_semantic_advice d)))),
      (''deterministic_gates'', Some (JArr (map gate_json (ed_deterministic_gates d)))),
      (''covered_aspects'', Some (strs (ed_covered_aspects d))),
      (''open_aspects'', Some (strs (ed_open_aspects d))),
      (''action'', Some (JStr (action_value (ed_action d)))),
      (''reason_codes'', Some (strs (map reason_value (ed_reason_codes d)))),
      (''fail_closed_outcome'', Some (JStr (fail_closed_value (ed_fail_closed_outcome d)))),
      (''input_hash'', Some (JStr (ed_input_hash d))),
      (''authority_hash'', Some (JStr (ed_authority_hash d))),
      (''provider_authority_granted'', Some (JBool (ed_provider_authority_granted d))),
      (''fact_authority_granted'', Some (JBool False)),
      (''citation_authority_granted'', Some (JBool False)),
      (''raw_evidence_authority_granted'', Some (JBool False))]"

text \<open>\<open>model_dump(mode="json", exclude_none=True)\<close> of a decision, without and with its own hash.\<close>

definition unsealed_decision_json :: "platform \<Rightarrow> evidence_decision \<Rightarrow> json" where
  "unsealed_decision_json P d = present (decision_fields P d)"

definition decision_json :: "platform \<Rightarrow> evidence_decision \<Rightarrow> json" where
  "decision_json P d =
     present (decision_fields P d @ [(''decision_hash'', Some (JStr (ed_decision_hash d)))])"

end
