(* ===== verification/Evidence_Decision.thy ===== *)
theory Evidence_Decision
  imports Evidence_Json
begin

text \<open>
  The decision procedure of src/shiliu/evidence/decision.py: requirement resolution, reference
  eligibility, the seven deterministic gates, action selection, creation and integrity check of
  a decision.
\<close>

section \<open>Requirement resolution\<close>

text \<open>
  The \<open>selected\<close> dictionary: a requirement replaces the stored one of its aspect only when its
  precedence is strictly smaller. \<open>AList.update\<close> keeps the position of an existing key, as a
  Python dictionary does.
\<close>

fun select_requirements ::
  "evidence_requirement list \<Rightarrow> (string \<times> evidence_requirement) list \<Rightarrow> (string \<times> evidence_requirement) list"
where
  "select_requirements [] selected = selected"
| "select_requirements (r # rs) selected =
     select_requirements rs
       (case map_of selected (rq_aspect_id r) of
          None \<Rightarrow> AList.update (rq_aspect_id r) r selected
        | Some current \<Rightarrow>
            if rq_precedence r < rq_precedence current
            then AList.update (rq_aspect_id r) r selected else selected)"

definition requirement_key :: "evidence_requirement \<Rightarrow> int \<times> string" where
  "requirement_key r = (rq_precedence r, rq_aspect_id r)"

definition resolve_requirements :: "evidence_requirement list \<Rightarrow> evidence_requirement list result" where
  "resolve_requirements requirements =
     (let resolved = sort_key requirement_key (map snd (select_requirements requirements [])) in
      if resolved = [] then Inl (Contract_Error ''requirements_empty'')
      else if length resolved > MAX_REQUIREMENTS
      then Inl (Contract_Error ''requirements_unbounded'')
      else if inferred_count resolved > MAX_INFERRED_REQUIREMENTS
      then Inl (Contract_Error ''inferred_requirements_unbounded'')
      else Inr resolved)"

section \<open>Reference eligibility\<close>

fun version_reason :: "source_version_status \<Rightarrow> reason_code list" where
  "version_reason Version_Current = []"
| "version_reason Version_Stale = [R_Source_Version_Stale]"
| "version_reason Version_Invalid = [R_Source_Version_Invalid]"
| "version_reason Version_Unavailable = [R_Source_Version_Unavailable]"
| "version_reason Version_Unknown = [R_Source_Version_Unknown]"

fun reference_scope_reason :: "reference_scope_status \<Rightarrow> reason_code list" where
  "reference_scope_reason In_Scope = []"
| "reference_scope_reason Out_Of_Scope = [R_Evidence_Out_Of_Scope]"
| "reference_scope_reason Reference_Scope_Unknown = [R_Evidence_Authority_Unknown]"

fun authorization_reason :: "authorization_status \<Rightarrow> reason_code list" where
  "authorization_reason Authorized = []"
| "authorization_reason Unauthorized = [R_Evidence_Unauthorized]"
| "authorization_reason Authorization_Unknown = [R_Evidence_Authority_Unknown]"

definition reference_eligibility :: "authority_reference \<Rightarrow> bool \<times> bool \<times> reason_code list" where
  "reference_eligibility r =
     (let reasons = version_reason (ref_version_status r) @
                    reference_scope_reason (ref_scope_status r) @
                    authorization_reason (ref_authorization_status r);
          unknown = (ref_version_status r = Version_Unknown \<or>
                     ref_scope_status r = Reference_Scope_Unknown \<or>
                     ref_authorization_status r = Authorization_Unknown)
      in (reasons = [], unknown, fromkeys reasons))"

definition eligible :: "authority_reference \<Rightarrow> bool" where
  "eligible r \<longleftrightarrow> fst (reference_eligibility r)"

definition eligibility_reasons :: "authority_reference \<Rightarrow> reason_code list" where
  "eligibility_reasons r = snd (snd (reference_eligibility r))"

definition all_references :: "evidence_decision_input \<Rightarrow> authority_reference list" where
  "all_references v = concat (map ac_authority_references (di_coverage v))"

section \<open>Deterministic gates\<close>

definition requirements_gate :: "evidence_decision_input \<Rightarrow> gate_result result" where
  "requirements_gate v =
     (let unknown = list_ex (\<lambda>r. rq_origin r = Origin_Unknown) (di_requirements v);
          reasons =
            (if list_ex (\<lambda>r. rq_origin r = Explicit_User) (di_requirements v)
             then [R_Explicit_Requirement_Precedence] else []) @
            (if list_ex (\<lambda>r. rq_origin r = Bounded_Inference) (di_requirements v)
             then [R_Bounded_Inference_Present] else []) @
            (if unknown then [R_Requirement_Unknown] else [])
      in mk_gate G_Requirements (if unknown then Unknown else Pass)
           (if reasons = [] then [R_Requirements_Resolved] else reasons))"

fun scope_reason :: "scope_match_status \<Rightarrow> reason_code" where
  "scope_reason Scope_Exact = R_Scope_Exact"
| "scope_reason Scope_Compatible = R_Scope_Compatible"
| "scope_reason Scope_Mismatch = R_Scope_Mismatch"
| "scope_reason Scope_Unknown = R_Scope_Unknown"

definition scope_gate :: "evidence_decision_input \<Rightarrow> gate_result result" where
  "scope_gate v =
     (let status = sc_status (di_scope v)
      in mk_gate G_Scope
           (if status = Scope_Mismatch then Fail
            else if status = Scope_Unknown then Unknown else Pass)
           [scope_reason status])"

definition coverage_gate :: "evidence_decision_input \<Rightarrow> gate_result result" where
  "coverage_gate v =
     (let statuses = set (map ac_status (di_coverage v));
          unknown = Coverage_Unknown \<in> statuses;
          complete = (statuses = {Covered})
      in mk_gate G_Coverage
           (if complete then Pass else if unknown then Unknown else Fail)
           [if complete then R_Coverage_Complete
            else if unknown then R_Coverage_Unknown else R_Coverage_Incomplete])"

definition reasons_among :: "reason_code list \<Rightarrow> evidence_decision_input \<Rightarrow> reason_code list" where
  "reasons_among codes v =
     fromkeys (filter (\<lambda>r. r \<in> set codes) (concat (map eligibility_reasons (all_references v))))"

definition source_gate :: "evidence_decision_input \<Rightarrow> gate_result result" where
  "source_gate v =
     (let reasons = reasons_among
            [R_Source_Version_Stale, R_Source_Version_Invalid, R_Source_Version_Unavailable,
             R_Source_Version_Unknown] v
      in mk_gate G_Source_Version
           (if R_Source_Version_Unknown \<in> set reasons then Unknown
            else if reasons \<noteq> [] then Fail else Pass)
           (if reasons = [] then [R_Source_Version_Current] else reasons))"

fun freshness_reason :: "freshness_status \<Rightarrow> reason_code" where
  "freshness_reason Fresh = R_Library_Fresh"
| "freshness_reason New_Material = R_Local_Corpus_New_Material"
| "freshness_reason Freshness_Unknown = R_Library_Freshness_Unknown"
| "freshness_reason Freshness_Check_Failed = R_Library_Freshness_Check_Failed"

definition freshness_gate :: "evidence_decision_input \<Rightarrow> gate_result result" where
  "freshness_gate v =
     (let status = lf_status (di_library_freshness v)
      in mk_gate G_Library_Freshness
           (if status = Fresh then Pass else if status = New_Material then Fail else Unknown)
           [freshness_reason status])"

definition blocking_conflict :: "conflict_observation list \<Rightarrow> bool" where
  "blocking_conflict cs \<longleftrightarrow> list_ex (\<lambda>c. co_status c = Potential \<or> co_status c = Confirmed) cs"

definition conflict_gate :: "evidence_decision_input \<Rightarrow> gate_result result" where
  "conflict_gate v =
     (let blocking = blocking_conflict (di_conflicts v)
      in mk_gate G_Conflict (if blocking then Fail else Pass)
           [if blocking then R_Blocking_Conflict else R_No_Blocking_Conflict])"

definition authority_gate :: "evidence_decision_input \<Rightarrow> gate_result result" where
  "authority_gate v =
     (let reasons = reasons_among
            [R_Evidence_Unauthorized, R_Evidence_Out_Of_Scope, R_Evidence_Authority_Unknown] v
      in mk_gate G_Authority
           (if R_Evidence_Authority_Unknown \<in> set reasons then Unknown
            else if reasons \<noteq> [] then Fail else Pass)
           (if reasons = [] then [R_Authority_Valid] else reasons))"

definition evaluate_gates :: "evidence_decision_input \<Rightarrow> gate_result list result" where
  "evaluate_gates v = emap (\<lambda>gate. gate v)
     [requirements_gate, scope_gate, coverage_gate, source_gate, freshness_gate, conflict_gate,
      authority_gate]"

section \<open>Action selection\<close>

text \<open>
  \<open>gate_in gates name outs\<close> is \<open>by_name[name].outcome in outs\<close> for the dictionary
  \<open>{gate.gate: gate for gate in gates}\<close>; a missing name is a KeyError.
\<close>

definition gate_in :: "gate_result list \<Rightarrow> gate_name \<Rightarrow> gate_outcome list \<Rightarrow> bool result" where
  "gate_in gates name outs =
     (case map_of (dict_of gr_gate gates) name of
        None \<Rightarrow> Inl Key_Error
      | Some g \<Rightarrow> Inr (gr_outcome g \<in> set outs))"

definition either_gate :: "bool result \<Rightarrow> bool result \<Rightarrow> bool result" where
  "either_gate p q = ebind p (\<lambda>b. if b then Inr True else q)"

type_synonym selection = "decision_action \<times> reason_code list \<times> fail_closed_outcome"

definition safe_references :: "evidence_decision_input \<Rightarrow> authority_reference list" where
  "safe_references v = filter eligible (all_references v)"

definition has_reused :: "evidence_decision_input \<Rightarrow> bool" where
  "has_reused v \<longleftrightarrow>
     list_ex (\<lambda>c. cn_kind c = Reused \<and> cn_reference_id c \<in> set (map reference_id (safe_references v)))
       (di_contributions v)"

definition select_action :: "evidence_decision_input \<Rightarrow> gate_result list \<Rightarrow> selection result" where
  "select_action v gates =
     (let reasons = concat (map gr_reason_codes gates) @
            (if di_semantic_advice v \<noteq> [] then [R_Semantic_Advice_Non_Authoritative] else []);
          safe = safe_references v \<noteq> [];
          refresh_or_research = (\<lambda>rs. (if safe then Targeted_Refresh else Deep_Research, fromkeys rs,
                                       if safe then Require_Refresh else Require_Deep_Research));
          research = (Deep_Research, fromkeys reasons, Require_Deep_Research)
      in
      ebind (either_gate (gate_in gates G_Requirements [Unknown]) (gate_in gates G_Scope [Unknown]))
        (\<lambda>unclear. if unclear then Inr (Clarify, fromkeys reasons, Require_Clarification) else
      ebind (gate_in gates G_Conflict [Fail])
        (\<lambda>conflict. if conflict then Inr research else
      ebind (either_gate (gate_in gates G_Source_Version [Fail, Unknown])
                         (gate_in gates G_Authority [Fail, Unknown]))
        (\<lambda>ineligible. if ineligible then Inr research else
      ebind (gate_in gates G_Scope [Fail])
        (\<lambda>mismatch. if mismatch then Inr research else
      ebind (gate_in gates G_Library_Freshness [Pass])
        (\<lambda>fresh. if \<not> fresh then Inr (refresh_or_research reasons) else
      ebind (gate_in gates G_Coverage [Pass])
        (\<lambda>complete. if \<not> complete then
           Inr (refresh_or_research (reasons @
             [if safe then R_Current_Evidence_Available else R_No_Safe_Coverage])) else
      if sc_status (di_scope v) \<noteq> Scope_Exact \<and> has_reused v
      then Inr (Targeted_Refresh, fromkeys reasons, Require_Refresh)
      else if has_reused v
      then Inr (Direct_Reuse, fromkeys (reasons @ [R_Reused_Evidence_Available]), Allow_Direct_Reuse)
      else Inr (Answer_Fresh, fromkeys (reasons @ [R_Current_Evidence_Available]),
                Allow_Current_Evidence))))))))"

section \<open>Creation and integrity\<close>

definition validate_time_causality :: "evidence_decision_input \<Rightarrow> datetime \<Rightarrow> unit result" where
  "validate_time_causality v recorded_at =
     (if later (nm_recorded_check_time (lf_check (di_library_freshness v))) recorded_at
      then Inl (Contract_Error ''corpus_check_after_decision'')
      else if list_ex (\<lambda>c. later (co_observed_at c) recorded_at) (di_conflicts v)
      then Inl (Contract_Error ''conflict_observation_after_decision'')
      else Inr ())"

definition key_lookup :: "('k \<times> 'v) list \<Rightarrow> 'k \<Rightarrow> 'v result" where
  "key_lookup d k = (case map_of d k of None \<Rightarrow> Inl Key_Error | Some x \<Rightarrow> Inr x)"

text \<open>
  The input with its requirements resolved; the coverage follows their order, and is rebuilt only
  when the resolution changed something.
\<close>

definition resolved_input :: "evidence_decision_input \<Rightarrow> evidence_decision_input result" where
  "resolved_input v =
     ebind (resolve_requirements (di_requirements v)) (\<lambda>requirements.
       if requirements \<noteq> di_requirements v
       then ebind (emap (\<lambda>r. key_lookup (dict_of ac_aspect_id (di_coverage v)) (rq_aspect_id r))
                     requirements)
              (\<lambda>coverage. Inr (v\<lparr>di_requirements := requirements, di_coverage := coverage\<rparr>))
       else Inr v)"

definition aspect_covered :: "aspect_coverage \<Rightarrow> bool" where
  "aspect_covered c \<longleftrightarrow>
     ac_status c = Covered \<and> ac_authority_references c \<noteq> [] \<and>
     list_all eligible (ac_authority_references c)"

definition covered_aspects :: "evidence_decision_input \<Rightarrow> string list" where
  "covered_aspects v = map ac_aspect_id (filter aspect_covered (di_coverage v))"

definition open_aspects :: "evidence_decision_input \<Rightarrow> string list" where
  "open_aspects v = filter (\<lambda>a. a \<notin> set (covered_aspects v)) (map ac_aspect_id (di_coverage v))"

definition decision_id_of :: "platform \<Rightarrow> string option \<Rightarrow> string \<Rightarrow> string \<Rightarrow> string" where
  "decision_id_of P parent input_hash authority_hash =
     ''evd_'' @ take 32 (removeprefix ''sha256:'' (sha256_identity P (JObj
       [(''identity_version'', JStr ''v5.6-evidence-decision-identity-v1''),
        (''schema_version'', JStr ''v5.6-evidence-decision-v1''),
        (''parent_decision_id'', (case parent of None \<Rightarrow> JNull | Some p \<Rightarrow> JStr p)),
        (''input_hash'', JStr input_hash), (''authority_hash'', JStr authority_hash)])))"

text \<open>
  Everything a decision records about its resolved input, gates and selection, before its own
  hash: \<open>payload\<close> with the placeholder hash of sixty-four zeros.
\<close>

definition decision_payload ::
  "platform \<Rightarrow> evidence_decision_input \<Rightarrow> gate_result list \<Rightarrow> selection \<Rightarrow> datetime \<Rightarrow> evidence_decision"
where
  "decision_payload P v gates sel recorded_at =
     (let input_hash = sha256_identity P (input_payload P v);
          authority_hash = sha256_identity P (authority_payload P v)
      in \<lparr>ed_decision_id = decision_id_of P (di_parent_decision_id v) input_hash authority_hash,
          ed_parent_decision_id = di_parent_decision_id v,
          ed_recorded_at = recorded_at,
          ed_normalized_question = di_normalized_question v,
          ed_requirements = di_requirements v,
          ed_scope = di_scope v,
          ed_coverage = di_coverage v,
          ed_library_freshness = di_library_freshness v,
          ed_conflicts = di_conflicts v,
          ed_contributions = di_contributions v,
          ed_semantic_advice = di_semantic_advice v,
          ed_deterministic_gates = gates,
          ed_covered_aspects = covered_aspects v,
          ed_open_aspects = open_aspects v,
          ed_action = fst sel,
          ed_reason_codes = fst (snd sel),
          ed_fail_closed_outcome = snd (snd sel),
          ed_input_hash = input_hash,
          ed_authority_hash = authority_hash,
          ed_decision_hash = ''sha256:'' @ replicate 64 CHR ''0'',
          ed_provider_authority_granted = False\<rparr>)"

definition seal_decision :: "platform \<Rightarrow> evidence_decision \<Rightarrow> evidence_decision result" where
  "seal_decision P payload =
     ebind (mk_decision payload) (\<lambda>d.
       mk_decision (payload\<lparr>ed_decision_hash := sha256_identity P (unsealed_decision_json P d)\<rparr>))"

definition create_evidence_decision ::
  "platform \<Rightarrow> evidence_decision_input \<Rightarrow> datetime \<Rightarrow> evidence_decision result"
where
  "create_evidence_decision P value recorded_at =
     (if \<not> aware recorded_at then Inl (Contract_Error ''recorded_at_invalid'')
      else ebind (validate_time_causality value recorded_at) (\<lambda>_.
           ebind (resolved_input value) (\<lambda>v.
           ebind (evaluate_gates v) (\<lambda>gates.
           ebind (select_action v gates) (\<lambda>sel.
             seal_decision P (decision_payload P v gates sel recorded_at))))))"

definition same_interpretation :: "evidence_decision \<Rightarrow> evidence_decision \<Rightarrow> bool" where
  "same_interpretation d e \<longleftrightarrow>
     ed_decision_id d = ed_decision_id e \<and> ed_input_hash d = ed_input_hash e \<and>
     ed_authority_hash d = ed_authority_hash e \<and> ed_decision_hash d = ed_decision_hash e \<and>
     ed_deterministic_gates d = ed_deterministic_gates e \<and>
     ed_covered_aspects d = ed_covered_aspects e \<and> ed_open_aspects d = ed_open_aspects e \<and>
     ed_action d = ed_action e \<and> ed_reason_codes d = ed_reason_codes e \<and>
     ed_fail_closed_outcome d = ed_fail_closed_outcome e"

definition verify_integrity :: "platform \<Rightarrow> evidence_decision \<Rightarrow> unit result" where
  "verify_integrity P d =
     ebind (input_from_decision d) (\<lambda>v.
     ebind (create_evidence_decision P v (ed_recorded_at d)) (\<lambda>expected.
       if same_interpretation d expected then Inr ()
       else Inl (Contract_Error ''decision_integrity_failed'')))"

definition serialize_evidence_decision :: "platform \<Rightarrow> evidence_decision \<Rightarrow> string result" where
  "serialize_evidence_decision P d =
     ebind (verify_integrity P d) (\<lambda>_. Inr (canonical_json (decision_json P d)))"

end
