(* ===== verification/Evidence_Facts.thy ===== *)
theory Evidence_Facts
  imports Evidence_Decision
begin

text \<open>
  Correctness of the decision procedure: requirement resolution, totality of the gates, the
  abstract decision table \<open>spec_action\<close> and the refinement of it by \<open>select_action\<close>, and what
  creation, integrity check and serialisation of a decision guarantee.
\<close>

section \<open>Requirement resolution\<close>

lemma update_fresh: "k \<notin> fst ` set d \<Longrightarrow> AList.update k v d = d @ [(k, v)]"
  by (induction d) auto

lemma keys_update: "map fst (AList.update k v d) = (if k \<in> fst ` set d then map fst d else map fst d @ [k])"
  by (induction d) auto

text \<open>Without repeated aspects the dictionary is the input list.\<close>

lemma select_requirements_distinct:
  assumes "distinct (map rq_aspect_id rs)" and "set (map rq_aspect_id rs) \<inter> fst ` set d = {}"
  shows "select_requirements rs d = d @ map (\<lambda>r. (rq_aspect_id r, r)) rs"
  using assms
proof (induction rs arbitrary: d)
  case (Cons r rs)
  then have fresh: "rq_aspect_id r \<notin> fst ` set d" by auto
  then have none: "map_of d (rq_aspect_id r) = None" by (simp add: map_of_eq_None_iff)
  have "select_requirements rs (d @ [(rq_aspect_id r, r)]) =
        (d @ [(rq_aspect_id r, r)]) @ map (\<lambda>r. (rq_aspect_id r, r)) rs"
    using Cons.prems by (intro Cons.IH) auto
  then show ?case by (simp add: none update_fresh [OF fresh])
qed simp

definition keyed :: "(string \<times> evidence_requirement) list \<Rightarrow> bool" where
  "keyed d \<longleftrightarrow> distinct (map fst d) \<and> (\<forall>(a, r) \<in> set d. rq_aspect_id r = a)"

lemma keyed_update: "keyed d \<Longrightarrow> keyed (AList.update (rq_aspect_id r) r d)"
  using set_update_subset [of "rq_aspect_id r" r d]
  by (auto simp: keyed_def distinct_update)

lemma keyed_select: "keyed d \<Longrightarrow> keyed (select_requirements rs d)"
  by (induction rs arbitrary: d) (auto simp: keyed_update split: option.splits)

lemma dom_select:
  "dom (map_of (select_requirements rs d)) = dom (map_of d) \<union> set (map rq_aspect_id rs)"
  by (induction rs arbitrary: d) (auto simp: update_conv' split: option.splits)

text \<open>Every aspect keeps a requirement of the least precedence offered for it.\<close>

lemma select_least:
  assumes "map_of (select_requirements rs d) a = Some r"
  shows "(r \<in> set rs \<and> rq_aspect_id r = a \<or> map_of d a = Some r) \<and>
         (\<forall>q \<in> set rs. rq_aspect_id q = a \<longrightarrow> rq_precedence r \<le> rq_precedence q) \<and>
         (\<forall>q. map_of d a = Some q \<longrightarrow> rq_precedence r \<le> rq_precedence q)"
  using assms
proof (induction rs arbitrary: d)
  case Nil
  then show ?case by simp
next
  case (Cons p rs)
  let ?d = "case map_of d (rq_aspect_id p) of
              None \<Rightarrow> AList.update (rq_aspect_id p) p d
            | Some c \<Rightarrow> if rq_precedence p < rq_precedence c
                        then AList.update (rq_aspect_id p) p d else d"
  have "map_of (select_requirements rs ?d) a = Some r" using Cons.prems by simp
  note IH = Cons.IH [OF this]
  show ?case
    using IH by (cases "rq_aspect_id p = a"; cases "map_of d (rq_aspect_id p)")
                (force simp: update_conv' split: if_splits)+
qed

lemma resolve_requirements_Inr:
  "resolve_requirements rs = Inr out \<longleftrightarrow>
     out = sort_key requirement_key (map snd (select_requirements rs [])) \<and> out \<noteq> [] \<and>
     length out \<le> MAX_REQUIREMENTS \<and> inferred_count out \<le> MAX_INFERRED_REQUIREMENTS"
  by (auto simp: resolve_requirements_def Let_def)

lemma inferred_count_sort [simp]: "inferred_count (sort_key k rs) = inferred_count rs"
proof -
  have "mset (filter P (sort_key k rs)) = mset (filter P rs)" for P :: "evidence_requirement \<Rightarrow> bool"
    by (simp add: mset_filter)
  then have "length (filter P (sort_key k rs)) = length (filter P rs)" for P :: "evidence_requirement \<Rightarrow> bool"
    by (metis size_mset)
  then show ?thesis by (simp add: inferred_count_def)
qed

lemma resolve_distinct:
  assumes "valid_decision_input v"
  shows "resolve_requirements (di_requirements v) = Inr (sort_key requirement_key (di_requirements v))"
proof -
  have "select_requirements (di_requirements v) [] =
        map (\<lambda>r. (rq_aspect_id r, r)) (di_requirements v)"
    using assms by (subst select_requirements_distinct) (auto simp: valid_decision_input_def)
  then have "map snd (select_requirements (di_requirements v) []) = di_requirements v"
    by (simp add: comp_def)
  with assms show ?thesis
    by (auto simp: resolve_requirements_Inr valid_decision_input_def len_between_def
             dest: arg_cong [of _ _ length])
qed

section \<open>Eligibility and gates\<close>

lemma eligible_iff:
  "eligible r \<longleftrightarrow> ref_version_status r = Version_Current \<and> ref_scope_status r = In_Scope \<and>
     ref_authorization_status r = Authorized"
  by (cases "ref_version_status r"; cases "ref_scope_status r"; cases "ref_authorization_status r")
     (simp_all add: eligible_def reference_eligibility_def)

lemma eligible_no_reasons: "eligible r \<longleftrightarrow> eligibility_reasons r = []"
  by (simp add: eligible_def eligibility_reasons_def reference_eligibility_def Let_def)

abbreviation version_codes :: "reason_code list" where
  "version_codes \<equiv> [R_Source_Version_Stale, R_Source_Version_Invalid,
     R_Source_Version_Unavailable, R_Source_Version_Unknown]"

abbreviation authority_codes :: "reason_code list" where
  "authority_codes \<equiv> [R_Evidence_Unauthorized, R_Evidence_Out_Of_Scope, R_Evidence_Authority_Unknown]"

lemma eligibility_reasons_known: "set (eligibility_reasons r) \<subseteq> set (version_codes @ authority_codes)"
  by (cases "ref_version_status r"; cases "ref_scope_status r"; cases "ref_authorization_status r")
     (simp_all add: eligibility_reasons_def reference_eligibility_def)

lemma set_reasons_among:
  "set (reasons_among codes v) = set codes \<inter> (\<Union>r \<in> set (all_references v). set (eligibility_reasons r))"
  by (auto simp: reasons_among_def)

lemma length_reasons_among: "length (reasons_among codes v) \<le> length codes"
proof -
  have "length (reasons_among codes v) = card (set (reasons_among codes v))"
    by (simp add: reasons_among_def length_fromkeys_card)
  also have "\<dots> \<le> card (set codes)" by (rule card_mono) (auto simp: set_reasons_among)
  also have "\<dots> \<le> length codes" by (rule card_length)
  finally show ?thesis .
qed

lemma no_reasons_among:
  "reasons_among version_codes v = [] \<and> reasons_among authority_codes v = [] \<longleftrightarrow>
     list_all eligible (all_references v)"
proof -
  have "reasons_among version_codes v = [] \<and> reasons_among authority_codes v = [] \<longleftrightarrow>
        (\<forall>r \<in> set (all_references v).
           set (eligibility_reasons r) \<inter> set (version_codes @ authority_codes) = {})"
    unfolding set_empty [symmetric] set_reasons_among by auto
  also have "\<dots> \<longleftrightarrow> (\<forall>r \<in> set (all_references v). eligibility_reasons r = [])"
    using eligibility_reasons_known by (metis Int_absorb2 set_empty)
  finally show ?thesis by (simp add: list_all_iff eligible_no_reasons)
qed

definition gate_ok :: "gate_result result \<Rightarrow> gate_name \<Rightarrow> (gate_outcome \<Rightarrow> bool) \<Rightarrow> bool" where
  "gate_ok r g P \<longleftrightarrow>
     (\<exists>out rs. r = Inr \<lparr>gr_gate = g, gr_outcome = out, gr_reason_codes = rs\<rparr> \<and>
               len_between 1 16 rs \<and> P out)"

lemma mk_gate_ok: "len_between 1 16 rs \<Longrightarrow> P out \<Longrightarrow> gate_ok (mk_gate g out rs) g P"
  by (auto simp: gate_ok_def mk_gate_def)

definition clear_request :: "evidence_decision_input \<Rightarrow> bool" where
  "clear_request v \<longleftrightarrow>
     list_all (\<lambda>r. rq_origin r \<noteq> Origin_Unknown) (di_requirements v) \<and>
     sc_status (di_scope v) \<noteq> Scope_Unknown"

definition complete_coverage :: "evidence_decision_input \<Rightarrow> bool" where
  "complete_coverage v \<longleftrightarrow> di_coverage v \<noteq> [] \<and> list_all (\<lambda>c. ac_status c = Covered) (di_coverage v)"

lemma requirements_gate_ok:
  "gate_ok (requirements_gate v) G_Requirements
     (\<lambda>out. out = Unknown \<longleftrightarrow> list_ex (\<lambda>r. rq_origin r = Origin_Unknown) (di_requirements v))"
  unfolding requirements_gate_def Let_def by (rule mk_gate_ok) (auto simp: len_between_def)

lemma scope_gate_ok:
  "gate_ok (scope_gate v) G_Scope
     (\<lambda>out. (out = Unknown \<longleftrightarrow> sc_status (di_scope v) = Scope_Unknown) \<and>
            (out = Fail \<longleftrightarrow> sc_status (di_scope v) = Scope_Mismatch))"
  unfolding scope_gate_def Let_def by (rule mk_gate_ok) (auto simp: len_between_def)

lemma coverage_gate_ok: "gate_ok (coverage_gate v) G_Coverage (\<lambda>out. out = Pass \<longleftrightarrow> complete_coverage v)"
proof -
  have "set (map ac_status (di_coverage v)) = {Covered} \<longleftrightarrow> complete_coverage v"
    by (cases "di_coverage v") (auto simp: complete_coverage_def list_all_iff)
  then show ?thesis
    unfolding coverage_gate_def Let_def by (intro mk_gate_ok) (auto simp: len_between_def)
qed

lemma source_gate_ok:
  "gate_ok (source_gate v) G_Source_Version (\<lambda>out. out = Pass \<longleftrightarrow> reasons_among version_codes v = [])"
  unfolding source_gate_def Let_def
  using length_reasons_among [of version_codes v]
  by (intro mk_gate_ok) (auto simp: len_between_def Suc_le_eq)

lemma authority_gate_ok:
  "gate_ok (authority_gate v) G_Authority (\<lambda>out. out = Pass \<longleftrightarrow> reasons_among authority_codes v = [])"
  unfolding authority_gate_def Let_def
  using length_reasons_among [of authority_codes v]
  by (intro mk_gate_ok) (auto simp: len_between_def Suc_le_eq)

lemma freshness_gate_ok:
  "gate_ok (freshness_gate v) G_Library_Freshness
     (\<lambda>out. out = Pass \<longleftrightarrow> lf_status (di_library_freshness v) = Fresh)"
  unfolding freshness_gate_def Let_def by (rule mk_gate_ok) (auto simp: len_between_def)

lemma conflict_gate_ok:
  "gate_ok (conflict_gate v) G_Conflict (\<lambda>out. out = Fail \<longleftrightarrow> blocking_conflict (di_conflicts v))"
  unfolding conflict_gate_def Let_def by (rule mk_gate_ok) (auto simp: len_between_def)

lemmas gate_oks = requirements_gate_ok scope_gate_ok coverage_gate_ok source_gate_ok
  freshness_gate_ok conflict_gate_ok authority_gate_ok

text \<open>
  \<open>seven_gates\<close> is the shape of every evaluated gate list; \<open>evaluate_gates_ok\<close> says that the
  gates are total, no constructor in \<open>_evaluate_gates\<close> can raise, and what each outcome means.
\<close>

abbreviation seven_gates where
  "seven_gates o1 r1 o2 r2 o3 r3 o4 r4 o5 r5 o6 r6 o7 r7 \<equiv>
     [\<lparr>gr_gate = G_Requirements, gr_outcome = o1, gr_reason_codes = r1\<rparr>,
      \<lparr>gr_gate = G_Scope, gr_outcome = o2, gr_reason_codes = r2\<rparr>,
      \<lparr>gr_gate = G_Coverage, gr_outcome = o3, gr_reason_codes = r3\<rparr>,
      \<lparr>gr_gate = G_Source_Version, gr_outcome = o4, gr_reason_codes = r4\<rparr>,
      \<lparr>gr_gate = G_Library_Freshness, gr_outcome = o5, gr_reason_codes = r5\<rparr>,
      \<lparr>gr_gate = G_Conflict, gr_outcome = o6, gr_reason_codes = r6\<rparr>,
      \<lparr>gr_gate = G_Authority, gr_outcome = o7, gr_reason_codes = r7\<rparr>]"

lemma evaluate_gates_ok:
  "\<exists>o1 r1 o2 r2 o3 r3 o4 r4 o5 r5 o6 r6 o7 r7.
     evaluate_gates v = Inr (seven_gates o1 r1 o2 r2 o3 r3 o4 r4 o5 r5 o6 r6 o7 r7) \<and>
     list_all (len_between 1 16) [r1, r2, r3, r4, r5, r6, r7] \<and>
     (o1 = Unknown \<or> o2 = Unknown \<longleftrightarrow> \<not> clear_request v) \<and>
     (o2 = Fail \<longleftrightarrow> sc_status (di_scope v) = Scope_Mismatch) \<and>
     (o3 = Pass \<longleftrightarrow> complete_coverage v) \<and>
     (o4 = Pass \<and> o7 = Pass \<longleftrightarrow> list_all eligible (all_references v)) \<and>
     (o5 = Pass \<longleftrightarrow> lf_status (di_library_freshness v) = Fresh) \<and>
     (o6 = Fail \<longleftrightarrow> blocking_conflict (di_conflicts v))"
proof -
  have clear: "list_ex (\<lambda>r. rq_origin r = Origin_Unknown) (di_requirements v) \<or>
      sc_status (di_scope v) = Scope_Unknown \<longleftrightarrow> \<not> clear_request v"
    by (auto simp: clear_request_def list_all_iff list_ex_iff)
  obtain o1 r1 where g1: "requirements_gate v =
        Inr \<lparr>gr_gate = G_Requirements, gr_outcome = o1, gr_reason_codes = r1\<rparr>" "len_between 1 16 r1"
      "o1 = Unknown \<longleftrightarrow> list_ex (\<lambda>r. rq_origin r = Origin_Unknown) (di_requirements v)"
    using requirements_gate_ok [of v] unfolding gate_ok_def by blast
  obtain o2 r2 where g2: "scope_gate v =
        Inr \<lparr>gr_gate = G_Scope, gr_outcome = o2, gr_reason_codes = r2\<rparr>" "len_between 1 16 r2"
      "o2 = Unknown \<longleftrightarrow> sc_status (di_scope v) = Scope_Unknown"
      "o2 = Fail \<longleftrightarrow> sc_status (di_scope v) = Scope_Mismatch"
    using scope_gate_ok [of v] unfolding gate_ok_def by blast
  obtain o3 r3 where g3: "coverage_gate v =
        Inr \<lparr>gr_gate = G_Coverage, gr_outcome = o3, gr_reason_codes = r3\<rparr>" "len_between 1 16 r3"
      "o3 = Pass \<longleftrightarrow> complete_coverage v"
    using coverage_gate_ok [of v] unfolding gate_ok_def by blast
  obtain o4 r4 where g4: "source_gate v =
        Inr \<lparr>gr_gate = G_Source_Version, gr_outcome = o4, gr_reason_codes = r4\<rparr>" "len_between 1 16 r4"
      "o4 = Pass \<longleftrightarrow> reasons_among version_codes v = []"
    using source_gate_ok [of v] unfolding gate_ok_def by blast
  obtain o5 r5 where g5: "freshness_gate v =
        Inr \<lparr>gr_gate = G_Library_Freshness, gr_outcome = o5, gr_reason_codes = r5\<rparr>" "len_between 1 16 r5"
      "o5 = Pass \<longleftrightarrow> lf_status (di_library_freshness v) = Fresh"
    using freshness_gate_ok [of v] unfolding gate_ok_def by blast
  obtain o6 r6 where g6: "conflict_gate v =
        Inr \<lparr>gr_gate = G_Conflict, gr_outcome = o6, gr_reason_codes = r6\<rparr>" "len_between 1 16 r6"
      "o6 = Fail \<longleftrightarrow> blocking_conflict (di_conflicts v)"
    using conflict_gate_ok [of v] unfolding gate_ok_def by blast
  obtain o7 r7 where g7: "authority_gate v =
        Inr \<lparr>gr_gate = G_Authority, gr_outcome = o7, gr_reason_codes = r7\<rparr>" "len_between 1 16 r7"
      "o7 = Pass \<longleftrightarrow> reasons_among authority_codes v = []"
    using authority_gate_ok [of v] unfolding gate_ok_def by blast
  have "evaluate_gates v = Inr (seven_gates o1 r1 o2 r2 o3 r3 o4 r4 o5 r5 o6 r6 o7 r7)"
    by (simp add: evaluate_gates_def g1(1) g2(1) g3(1) g4(1) g5(1) g6(1) g7(1))
  then show ?thesis
    using g1(2,3) g2(2-) g3(2-) g4(2-) g5(2-) g6(2-) g7(2-) clear no_reasons_among [of v]
    by (intro exI conjI) (assumption | simp)+
qed

section \<open>The decision table\<close>

text \<open>
  What a decision means, without gates and reason codes: an abstract specification over the
  predicates a reader of the contract cares about.
\<close>

definition trusted :: "evidence_decision_input \<Rightarrow> bool" where
  "trusted v \<longleftrightarrow> list_all eligible (all_references v)"

definition safe_answer :: "evidence_decision_input \<Rightarrow> bool" where
  "safe_answer v \<longleftrightarrow>
     clear_request v \<and> \<not> blocking_conflict (di_conflicts v) \<and> trusted v \<and>
     sc_status (di_scope v) \<noteq> Scope_Mismatch \<and>
     lf_status (di_library_freshness v) = Fresh \<and> complete_coverage v"

definition spec_action :: "evidence_decision_input \<Rightarrow> decision_action" where
  "spec_action v =
     (if \<not> clear_request v then Clarify
      else if blocking_conflict (di_conflicts v) \<or> \<not> trusted v \<or>
              sc_status (di_scope v) = Scope_Mismatch then Deep_Research
      else if lf_status (di_library_freshness v) \<noteq> Fresh \<or> \<not> complete_coverage v
      then (if safe_references v \<noteq> [] then Targeted_Refresh else Deep_Research)
      else if has_reused v
      then (if sc_status (di_scope v) = Scope_Exact then Direct_Reuse else Targeted_Refresh)
      else Answer_Fresh)"

fun outcome_of :: "decision_action \<Rightarrow> fail_closed_outcome" where
  "outcome_of Answer_Fresh = Allow_Current_Evidence"
| "outcome_of Direct_Reuse = Allow_Direct_Reuse"
| "outcome_of Targeted_Refresh = Require_Refresh"
| "outcome_of Deep_Research = Require_Deep_Research"
| "outcome_of Clarify = Require_Clarification"
| "outcome_of Partial_Answer = Partial_Only"
| "outcome_of Abstain = Insufficient"

lemma gate_in_present:
  "find (\<lambda>g. gr_gate g = name) (rev gates) = Some g \<Longrightarrow>
   gate_in gates name outs = Inr (gr_outcome g \<in> set outs)"
  by (simp add: gate_in_def map_of_dict_of)

lemma not_Pass: "out \<noteq> Pass \<longleftrightarrow> out = Fail \<or> out = Unknown"
  by (cases out) auto

lemma select_action_spec:
  assumes "evaluate_gates v = Inr gates"
  shows "\<exists>reasons. select_action v gates = Inr (spec_action v, reasons, outcome_of (spec_action v))"
proof -
  obtain o1 r1 o2 r2 o3 r3 o4 r4 o5 r5 o6 r6 o7 r7 where
    "evaluate_gates v = Inr (seven_gates o1 r1 o2 r2 o3 r3 o4 r4 o5 r5 o6 r6 o7 r7)"
    and out: "o1 = Unknown \<or> o2 = Unknown \<longleftrightarrow> \<not> clear_request v"
      "o2 = Fail \<longleftrightarrow> sc_status (di_scope v) = Scope_Mismatch"
      "o3 = Pass \<longleftrightarrow> complete_coverage v"
      "o4 = Pass \<and> o7 = Pass \<longleftrightarrow> trusted v"
      "o5 = Pass \<longleftrightarrow> lf_status (di_library_freshness v) = Fresh"
      "o6 = Fail \<longleftrightarrow> blocking_conflict (di_conflicts v)"
    using evaluate_gates_ok [of v] unfolding trusted_def by blast
  with assms have gates: "gates = seven_gates o1 r1 o2 r2 o3 r3 o4 r4 o5 r5 o6 r6 o7 r7" by simp
  have lookups:
    "gate_in gates G_Requirements outs = Inr (o1 \<in> set outs)"
    "gate_in gates G_Scope outs = Inr (o2 \<in> set outs)"
    "gate_in gates G_Coverage outs = Inr (o3 \<in> set outs)"
    "gate_in gates G_Source_Version outs = Inr (o4 \<in> set outs)"
    "gate_in gates G_Library_Freshness outs = Inr (o5 \<in> set outs)"
    "gate_in gates G_Conflict outs = Inr (o6 \<in> set outs)"
    "gate_in gates G_Authority outs = Inr (o7 \<in> set outs)" for outs
    by (simp_all add: gates gate_in_present)
  have steps:
    "either_gate (gate_in gates G_Requirements [Unknown]) (gate_in gates G_Scope [Unknown]) =
       Inr (\<not> clear_request v)"
    "gate_in gates G_Conflict [Fail] = Inr (blocking_conflict (di_conflicts v))"
    "either_gate (gate_in gates G_Source_Version [Fail, Unknown])
       (gate_in gates G_Authority [Fail, Unknown]) = Inr (\<not> trusted v)"
    "gate_in gates G_Scope [Fail] = Inr (sc_status (di_scope v) = Scope_Mismatch)"
    "gate_in gates G_Library_Freshness [Pass] = Inr (lf_status (di_library_freshness v) = Fresh)"
    "gate_in gates G_Coverage [Pass] = Inr (complete_coverage v)"
    unfolding lookups either_gate_def
    using out not_Pass [of o4] not_Pass [of o7] by auto
  show ?thesis
    unfolding select_action_def Let_def steps spec_action_def ebind_Inr
    by (simp split: if_split)
qed

lemma spec_action_answers: "spec_action v \<in> {Answer_Fresh, Direct_Reuse} \<longleftrightarrow>
    safe_answer v \<and> (has_reused v \<longrightarrow> sc_status (di_scope v) = Scope_Exact)"
  by (auto simp: spec_action_def safe_answer_def)

lemma spec_action_range: "spec_action v \<noteq> Partial_Answer \<and> spec_action v \<noteq> Abstain"
  by (simp add: spec_action_def)

section \<open>Resolved inputs\<close>

definition reordered :: "evidence_decision_input \<Rightarrow> evidence_decision_input \<Rightarrow> bool" where
  "reordered v v' \<longleftrightarrow>
     (\<exists>cov. v' = v\<lparr>di_requirements := sort_key requirement_key (di_requirements v),
                  di_coverage := cov\<rparr> \<and>
            set cov = set (di_coverage v) \<and> distinct (map ac_aspect_id cov))"

lemma coverage_lookup:
  assumes "valid_decision_input v" and "r \<in> set (di_requirements v)"
  obtains c where "c \<in> set (di_coverage v)" and "ac_aspect_id c = rq_aspect_id r"
    and "key_lookup (dict_of ac_aspect_id (di_coverage v)) (rq_aspect_id r) = Inr c"
proof -
  have "rq_aspect_id r \<in> set (map ac_aspect_id (di_coverage v))"
    using assms unfolding valid_decision_input_def by (metis imageI set_map)
  then obtain c where c: "c \<in> set (di_coverage v)" "ac_aspect_id c = rq_aspect_id r" by auto
  moreover have "map_of (dict_of ac_aspect_id (di_coverage v)) (ac_aspect_id c) = Some c"
    using assms(1) c(1) by (intro map_of_dict_of_distinct) (auto simp: valid_decision_input_def)
  ultimately show thesis by (intro that) (auto simp: key_lookup_def)
qed

lemma resolved_input_ok:
  assumes valid: "valid_decision_input v"
  shows "\<exists>v'. resolved_input v = Inr v' \<and> reordered v v'"
proof (cases "sort_key requirement_key (di_requirements v) = di_requirements v")
  case True
  then show ?thesis
    using valid resolve_distinct [OF valid]
    by (auto simp: resolved_input_def reordered_def valid_decision_input_def intro!: exI [of _ "di_coverage v"])
next
  case False
  let ?rs = "sort_key requirement_key (di_requirements v)"
  let ?look = "\<lambda>r. key_lookup (dict_of ac_aspect_id (di_coverage v)) (rq_aspect_id r)"
  define pick where "pick r = projr (?look r)" for r :: evidence_requirement
  have pick: "?look r = Inr (pick r) \<and> pick r \<in> set (di_coverage v) \<and> ac_aspect_id (pick r) = rq_aspect_id r"
    if "r \<in> set (di_requirements v)" for r
    using coverage_lookup [OF valid that] by (metis pick_def sum.sel(2))
  have ids: "distinct (map rq_aspect_id (di_requirements v))"
      "distinct (map ac_aspect_id (di_coverage v))"
      "set (map rq_aspect_id (di_requirements v)) = set (map ac_aspect_id (di_coverage v))"
    using valid by (auto simp: valid_decision_input_def)
  have "emap ?look ?rs = Inr (map pick ?rs)" using pick by (intro emap_all_Inr) auto
  moreover have "map ac_aspect_id (map pick ?rs) = map rq_aspect_id ?rs" using pick by auto
  moreover have "distinct (map rq_aspect_id ?rs)"
    using ids(1) by (simp add: distinct_map)
  moreover have "set (map pick ?rs) = set (di_coverage v)"
  proof
    show "set (map pick ?rs) \<subseteq> set (di_coverage v)" using pick by auto
    show "set (di_coverage v) \<subseteq> set (map pick ?rs)"
    proof
      fix c assume c: "c \<in> set (di_coverage v)"
      then obtain r where r: "r \<in> set (di_requirements v)" "rq_aspect_id r = ac_aspect_id c"
        using ids(3) by (metis (no_types, lifting) imageE imageI set_map)
      then have "pick r = c"
        using pick [OF r(1)] c ids(2) by (metis distinct_map inj_onD)
      then show "c \<in> set (map pick ?rs)" using r(1) by auto
    qed
  qed
  ultimately show ?thesis
    using False resolve_distinct [OF valid]
    by (auto simp: resolved_input_def reordered_def simp del: map_map)
qed

lemma reordered_facts:
  assumes "reordered v v'"
  shows "set (di_requirements v') = set (di_requirements v)"
    and "set (di_coverage v') = set (di_coverage v)"
    and "di_scope v' = di_scope v" and "di_library_freshness v' = di_library_freshness v"
    and "di_conflicts v' = di_conflicts v" and "di_contributions v' = di_contributions v"
    and "di_semantic_advice v' = di_semantic_advice v"
    and "di_parent_decision_id v' = di_parent_decision_id v"
    and "di_normalized_question v' = di_normalized_question v"
    and "di_requirements v' = sort_key requirement_key (di_requirements v)"
    and "distinct (map ac_aspect_id (di_coverage v'))"
proof -
  obtain cov where v': "v' = v\<lparr>di_requirements := sort_key requirement_key (di_requirements v),
      di_coverage := cov\<rparr>" and cov: "set cov = set (di_coverage v)" "distinct (map ac_aspect_id cov)"
    using assms unfolding reordered_def by blast
  show "set (di_requirements v') = set (di_requirements v)"
    and "set (di_coverage v') = set (di_coverage v)"
    and "di_scope v' = di_scope v" and "di_library_freshness v' = di_library_freshness v"
    and "di_conflicts v' = di_conflicts v" and "di_contributions v' = di_contributions v"
    and "di_semantic_advice v' = di_semantic_advice v"
    and "di_parent_decision_id v' = di_parent_decision_id v"
    and "di_normalized_question v' = di_normalized_question v"
    and "di_requirements v' = sort_key requirement_key (di_requirements v)"
    and "distinct (map ac_aspect_id (di_coverage v'))"
    unfolding v' using cov by simp_all
qed

text \<open>The abstract predicates look at the requirements and the coverage as sets.\<close>

lemma reordered_spec:
  assumes "reordered v v'"
  shows "spec_action v' = spec_action v" and "safe_answer v' = safe_answer v"
    and "has_reused v' = has_reused v"
proof -
  note facts = reordered_facts [OF assms]
  have refs: "set (all_references v') = set (all_references v)"
    by (simp add: all_references_def facts)
  have "clear_request v' = clear_request v" and "complete_coverage v' = complete_coverage v"
    using facts by (auto simp: clear_request_def complete_coverage_def list_all_iff
        simp flip: set_empty)
  moreover have "trusted v' = trusted v" by (simp add: trusted_def list_all_iff refs)
  moreover have "set (safe_references v') = set (safe_references v)" by (simp add: safe_references_def refs)
  then have "safe_references v' = [] \<longleftrightarrow> safe_references v = []"
    and reused: "has_reused v' = has_reused v"
    by (simp_all add: has_reused_def facts flip: set_empty)
  ultimately show "spec_action v' = spec_action v" and "safe_answer v' = safe_answer v"
    and "has_reused v' = has_reused v"
    by (simp_all add: spec_action_def safe_answer_def facts)
qed

lemma distinct_same_length:
  assumes "distinct xs" and "distinct ys" and "set xs = set ys"
  shows "length xs = length ys"
  using assms by (metis distinct_card)

lemma reordered_valid:
  assumes "reordered v v'" and valid: "valid_decision_input v"
  shows "valid_decision_input v'" and "resolved_input v' = Inr v'"
proof -
  note facts = reordered_facts [OF assms(1)]
  have "length (di_coverage v') = length (di_coverage v)"
    using valid facts(2,11)
    by (intro distinct_same_length) (auto simp: valid_decision_input_def distinct_map)
  moreover have "set (map rq_aspect_id (di_requirements v')) = set (map ac_aspect_id (di_coverage v'))"
    using valid facts(1,2) unfolding valid_decision_input_def by (metis set_map)
  moreover have "distinct (map rq_aspect_id (di_requirements v'))"
    using valid facts(10) by (simp add: valid_decision_input_def distinct_map)
  ultimately show valid': "valid_decision_input v'"
    using valid facts by (simp add: valid_decision_input_def len_between_def)
  have "sort_key requirement_key (di_requirements v') = di_requirements v'" by (simp add: facts(10))
  then show "resolved_input v' = Inr v'"
    using resolve_distinct [OF valid'] by (simp add: resolved_input_def)
qed

section \<open>Creation\<close>

lemma create_Inr:
  assumes "create_evidence_decision P v t = Inr d"
  obtains v' gates sel where "resolved_input v = Inr v'" and "evaluate_gates v' = Inr gates"
    and "select_action v' gates = Inr sel" and "aware t"
    and "validate_time_causality v t = Inr ()"
    and "seal_decision P (decision_payload P v' gates sel t) = Inr d"
  using assms that
  by (auto simp: create_evidence_decision_def ebind_eq_Inr split: if_splits)

lemma seal_Inr:
  "seal_decision P p = Inr d \<Longrightarrow>
     d = p\<lparr>ed_decision_hash := sha256_identity P (unsealed_decision_json P p)\<rparr> \<and>
     valid_decision p \<and> valid_decision d"
  by (auto simp: seal_decision_def ebind_eq_Inr mk_decision_def split: if_splits)

lemma decision_id_hex [simp]: "sha256_platform P \<Longrightarrow> hex32_id ''evd_'' (decision_id_of P parent h a)"
  unfolding decision_id_of_def by (rule hex32_of_identity)

lemma payload_fields [simp]:
  "ed_decision_id (decision_payload P v gates sel t) =
     decision_id_of P (di_parent_decision_id v) (sha256_identity P (input_payload P v))
       (sha256_identity P (authority_payload P v))"
  "ed_parent_decision_id (decision_payload P v gates sel t) = di_parent_decision_id v"
  "ed_recorded_at (decision_payload P v gates sel t) = t"
  "ed_normalized_question (decision_payload P v gates sel t) = di_normalized_question v"
  "ed_requirements (decision_payload P v gates sel t) = di_requirements v"
  "ed_scope (decision_payload P v gates sel t) = di_scope v"
  "ed_coverage (decision_payload P v gates sel t) = di_coverage v"
  "ed_library_freshness (decision_payload P v gates sel t) = di_library_freshness v"
  "ed_conflicts (decision_payload P v gates sel t) = di_conflicts v"
  "ed_contributions (decision_payload P v gates sel t) = di_contributions v"
  "ed_semantic_advice (decision_payload P v gates sel t) = di_semantic_advice v"
  "ed_deterministic_gates (decision_payload P v gates sel t) = gates"
  "ed_covered_aspects (decision_payload P v gates sel t) = covered_aspects v"
  "ed_open_aspects (decision_payload P v gates sel t) = open_aspects v"
  "ed_action (decision_payload P v gates sel t) = fst sel"
  "ed_reason_codes (decision_payload P v gates sel t) = fst (snd sel)"
  "ed_fail_closed_outcome (decision_payload P v gates sel t) = snd (snd sel)"
  "ed_input_hash (decision_payload P v gates sel t) = sha256_identity P (input_payload P v)"
  "ed_authority_hash (decision_payload P v gates sel t) = sha256_identity P (authority_payload P v)"
  "ed_provider_authority_granted (decision_payload P v gates sel t) = False"
  by (simp_all add: decision_payload_def Let_def)

lemma input_eta:
  "\<lparr>di_normalized_question = di_normalized_question v,
    di_parent_decision_id = di_parent_decision_id v, di_requirements = di_requirements v,
    di_scope = di_scope v, di_coverage = di_coverage v,
    di_library_freshness = di_library_freshness v, di_conflicts = di_conflicts v,
    di_contributions = di_contributions v, di_semantic_advice = di_semantic_advice v\<rparr> = v"
  by simp

lemma create_fields:
  assumes created: "create_evidence_decision P v t = Inr d" and valid: "valid_decision_input v"
  obtains v' gates where "reordered v v'" and "evaluate_gates v' = Inr gates"
    and "input_from_decision d = Inr v'" and "ed_recorded_at d = t"
    and "ed_action d = spec_action v" and "ed_fail_closed_outcome d = outcome_of (spec_action v)"
    and "ed_deterministic_gates d = gates"
    and "ed_covered_aspects d = covered_aspects v'" and "ed_open_aspects d = open_aspects v'"
    and "ed_input_hash d = sha256_identity P (input_payload P v')"
    and "ed_authority_hash d = sha256_identity P (authority_payload P v')"
    and "create_evidence_decision P v' t = Inr d"
    and "valid_decision d"
proof -
  obtain v' gates sel where c: "resolved_input v = Inr v'" "evaluate_gates v' = Inr gates"
      "select_action v' gates = Inr sel" "aware t" "validate_time_causality v t = Inr ()"
      "seal_decision P (decision_payload P v' gates sel t) = Inr d"
    using create_Inr [OF created] .
  have r: "reordered v v'" using resolved_input_ok [OF valid] c(1) by auto
  note valid' = reordered_valid [OF r valid]
  have d: "d = (decision_payload P v' gates sel t)
      \<lparr>ed_decision_hash := sha256_identity P
         (unsealed_decision_json P (decision_payload P v' gates sel t))\<rparr>" and vd: "valid_decision d"
    using seal_Inr [OF c(6)] by auto
  obtain reasons where sel: "sel = (spec_action v, reasons, outcome_of (spec_action v))"
    using select_action_spec [OF c(2)] c(3) reordered_spec(1) [OF r] by auto
  have "validate_time_causality v' t = Inr ()"
    using c(5) by (auto simp: validate_time_causality_def reordered_facts [OF r] split: if_splits)
  then have again: "create_evidence_decision P v' t = Inr d"
    using c valid'(2) by (simp add: create_evidence_decision_def)
  have "input_from_decision d = Inr v'"
    using valid'(1) by (simp add: d input_from_decision_def input_eta mk_decision_input_def)
  then show thesis
    using r c(2) again vd by (intro that) (simp_all add: d sel)
qed

lemma create_resolved:
  assumes created: "create_evidence_decision P v t = Inr d" and valid: "valid_decision_input v"
  obtains v' where "resolved_input v = Inr v'" and "reordered v v'"
    and "evaluate_gates v' = Inr (ed_deterministic_gates d)"
    and "ed_action d = spec_action v" and "ed_fail_closed_outcome d = outcome_of (spec_action v)"
    and "ed_covered_aspects d = covered_aspects v'" and "ed_open_aspects d = open_aspects v'"
    and "ed_authority_hash d = sha256_identity P (authority_payload P v')"
    and "ed_requirements d = di_requirements v'" and "ed_coverage d = di_coverage v'"
proof -
  obtain v' gates sel where c: "resolved_input v = Inr v'" "evaluate_gates v' = Inr gates"
      "select_action v' gates = Inr sel" "seal_decision P (decision_payload P v' gates sel t) = Inr d"
    using create_Inr [OF created] .
  have r: "reordered v v'" using resolved_input_ok [OF valid] c(1) by auto
  obtain reasons where sel: "sel = (spec_action v, reasons, outcome_of (spec_action v))"
    using select_action_spec [OF c(2)] c(3) reordered_spec(1) [OF r] by auto
  from seal_Inr [OF c(4)] have "d = (decision_payload P v' gates sel t)
      \<lparr>ed_decision_hash := sha256_identity P
         (unsealed_decision_json P (decision_payload P v' gates sel t))\<rparr>" by simp
  then show thesis using c(1,2) r by (intro that) (simp_all add: sel)
qed

section \<open>Semantic advice\<close>

lemma resolved_input_advice:
  "resolved_input (v\<lparr>di_semantic_advice := advice\<rparr>) =
     ebind (resolved_input v) (\<lambda>v'. Inr (v'\<lparr>di_semantic_advice := advice\<rparr>))"
  by (cases "resolve_requirements (di_requirements v)")
     (auto simp: resolved_input_def ebind_def split: sum.splits)

lemma advice_irrelevant:
  "evaluate_gates (v\<lparr>di_semantic_advice := advice\<rparr>) = evaluate_gates v"
  "spec_action (v\<lparr>di_semantic_advice := advice\<rparr>) = spec_action v"
  "covered_aspects (v\<lparr>di_semantic_advice := advice\<rparr>) = covered_aspects v"
  "open_aspects (v\<lparr>di_semantic_advice := advice\<rparr>) = open_aspects v"
  "authority_payload P (v\<lparr>di_semantic_advice := advice\<rparr>) = authority_payload P v"
proof -
  let ?w = "v\<lparr>di_semantic_advice := advice\<rparr>"
  have refs: "all_references ?w = all_references v" by (simp add: all_references_def)
  then have among: "reasons_among codes ?w = reasons_among codes v" for codes
    by (simp add: reasons_among_def)
  show "evaluate_gates ?w = evaluate_gates v"
    by (simp add: evaluate_gates_def requirements_gate_def scope_gate_def coverage_gate_def
        source_gate_def freshness_gate_def conflict_gate_def authority_gate_def among)
  have "safe_references ?w = safe_references v" by (simp add: safe_references_def refs)
  then show "spec_action ?w = spec_action v"
    by (simp add: spec_action_def clear_request_def trusted_def refs complete_coverage_def has_reused_def)
  show "covered_aspects ?w = covered_aspects v" "open_aspects ?w = open_aspects v"
    by (simp_all add: covered_aspects_def open_aspects_def)
  show "authority_payload P ?w = authority_payload P v"
    by (simp add: authority_payload_def authority_fields_def)
qed

text \<open>A created decision passes its own integrity check, so it serialises.\<close>

lemma created_verifies:
  assumes "create_evidence_decision P v t = Inr d" and "valid_decision_input v"
  shows "verify_integrity P d = Inr ()"
proof -
  obtain v' where "input_from_decision d = Inr v'" "ed_recorded_at d = t"
      "create_evidence_decision P v' t = Inr d"
    using create_fields [OF assms] by metis
  then show ?thesis by (simp add: verify_integrity_def same_interpretation_def)
qed

text \<open>
  What the integrity check of a stored decision establishes: its recorded interpretation is the
  one the decision table gives its own input.
\<close>

lemma verified_interpretation:
  assumes "verify_integrity P d = Inr ()"
  obtains v v' where "input_from_decision d = Inr v" and "valid_decision_input v" and "reordered v v'"
    and "ed_action d = spec_action v" and "ed_fail_closed_outcome d = outcome_of (spec_action v)"
    and "ed_covered_aspects d = covered_aspects v'" and "ed_open_aspects d = open_aspects v'"
proof -
  from assms obtain v e where v: "input_from_decision d = Inr v"
      "create_evidence_decision P v (ed_recorded_at d) = Inr e" "same_interpretation d e"
    by (auto simp: verify_integrity_def ebind_eq_Inr split: if_splits)
  have valid: "valid_decision_input v"
    using v(1) by (auto simp: input_from_decision_def mk_decision_input_def split: if_splits)
  obtain v' where "reordered v v'" "ed_action e = spec_action v"
      "ed_fail_closed_outcome e = outcome_of (spec_action v)"
      "ed_covered_aspects e = covered_aspects v'" "ed_open_aspects e = open_aspects v'"
    using create_fields [OF v(2) valid] by metis
  with v valid show thesis by (intro that [of v v']) (auto simp: same_interpretation_def)
qed

text \<open>A valid root input with an acceptable timestamp always yields a decision.\<close>

lemma create_total_child:
  assumes "valid_decision_input v" and "sha256_platform P" and "aware t"
    and parent: "\<And>p x y. di_parent_decision_id v = Some p \<Longrightarrow>
      decision_id_of P (Some p) (sha256_identity P x) (sha256_identity P y) \<noteq> p" and causal: "validate_time_causality v t = Inr ()"
  shows "\<exists>d. create_evidence_decision P v t = Inr d"
proof -
  obtain v' where v': "resolved_input v = Inr v'" "reordered v v'"
    using resolved_input_ok [OF assms(1)] by blast
  obtain gates where gates: "evaluate_gates v' = Inr gates" using evaluate_gates_ok [of v'] by blast
  obtain sel where sel: "select_action v' gates = Inr sel" using select_action_spec [OF gates] by blast
  have "valid_decision_input v'" using reordered_valid [OF v'(2) assms(1)] by simp
  then have "valid_decision ((decision_payload P v' gates sel t)\<lparr>ed_decision_hash := h\<rparr>)"
    if "sha256_ref h" for h
    using that assms(2,3) reordered_facts(8) [OF v'(2)] parent
    by (cases "di_parent_decision_id v") (auto simp: valid_decision_def valid_decision_input_def, metis)
  note ok = this
  have zeros: "sha256_ref (''sha256:'' @ replicate 64 CHR ''0'')"
    by (simp add: sha256_ref_def hex_text_def lower_hex_def)
  have same: "(decision_payload P v' gates sel t)\<lparr>ed_decision_hash := ''sha256:'' @ replicate 64 CHR ''0''\<rparr>
      = decision_payload P v' gates sel t"
    by (simp add: decision_payload_def Let_def)
  have "valid_decision (decision_payload P v' gates sel t)" using ok [OF zeros] unfolding same .
  then show ?thesis
    using assms(3) causal v'(1) gates sel ok assms(2)
    by (simp add: create_evidence_decision_def seal_decision_def mk_decision_def)
qed

lemma create_total:
  assumes "valid_decision_input v" and "sha256_platform P" and "di_parent_decision_id v = None"
    and "aware t" and "validate_time_causality v t = Inr ()"
  shows "\<exists>d. create_evidence_decision P v t = Inr d"
  using create_total_child [OF assms(1,2,4) _ assms(5)] assms(3) by simp

section \<open>Aspects and reasons of a created decision\<close>

lemma created_aspects:
  assumes "create_evidence_decision P v t = Inr d" and "valid_decision_input v"
  shows "distinct (ed_covered_aspects d @ ed_open_aspects d) \<and>
    set (ed_covered_aspects d @ ed_open_aspects d) = set (map rq_aspect_id (ed_requirements d)) \<and>
    set (map rq_aspect_id (ed_requirements d)) = set (map rq_aspect_id (di_requirements v))"
proof -
  obtain v' where v': "reordered v v'" "ed_covered_aspects d = covered_aspects v'"
      "ed_open_aspects d = open_aspects v'" "ed_requirements d = di_requirements v'"
    using create_resolved [OF assms] by metis
  have ids: "distinct (map ac_aspect_id (di_coverage v'))"
      "set (map rq_aspect_id (di_requirements v')) = set (map ac_aspect_id (di_coverage v'))"
    using reordered_valid(1) [OF v'(1) assms(2)] unfolding valid_decision_input_def by blast+
  have "distinct (covered_aspects v')" "set (covered_aspects v') \<subseteq> set (map ac_aspect_id (di_coverage v'))"
    using ids(1) by (auto simp: covered_aspects_def distinct_map_filter)
  with ids show ?thesis
    using reordered_facts(1) [OF v'(1)] v'(2-4) by (auto simp: open_aspects_def)
qed

lemma select_action_reasons:
  assumes "select_action v gates = Inr sel"
  shows "distinct (fst (snd sel))"
  using assms unfolding select_action_def Let_def ebind_eq_Inr
  by (elim exE conjE) (auto simp: ebind_eq_Inr split: if_splits)

definition all_reasons :: "reason_code list" where
  "all_reasons = [R_Requirements_Resolved, R_Explicit_Requirement_Precedence, R_Bounded_Inference_Present,
     R_Requirement_Unknown, R_Scope_Exact, R_Scope_Compatible, R_Scope_Mismatch, R_Scope_Unknown,
     R_Coverage_Complete, R_Coverage_Incomplete, R_Coverage_Unknown, R_Source_Version_Current,
     R_Source_Version_Stale, R_Source_Version_Invalid, R_Source_Version_Unavailable, R_Source_Version_Unknown,
     R_Library_Fresh, R_Local_Corpus_New_Material, R_Library_Freshness_Unknown, R_Library_Freshness_Check_Failed,
     R_No_Blocking_Conflict, R_Blocking_Conflict, R_Authority_Valid, R_Evidence_Unauthorized,
     R_Evidence_Out_Of_Scope, R_Evidence_Authority_Unknown, R_Current_Evidence_Available,
     R_Reused_Evidence_Available, R_No_Safe_Coverage, R_Semantic_Advice_Non_Authoritative]"

lemma in_all_reasons: "r \<in> set all_reasons"
  by (cases r) (simp_all add: all_reasons_def)

lemma distinct_reasons_bound: "distinct rs \<Longrightarrow> length rs \<le> 30" for rs :: "reason_code list"
proof -
  assume "distinct rs"
  then have "length rs = card (set rs)" by (simp add: distinct_card)
  also have "\<dots> \<le> card (set all_reasons)" by (rule card_mono) (use in_all_reasons in auto)
  also have "\<dots> \<le> length all_reasons" by (rule card_length)
  finally show ?thesis by (simp add: all_reasons_def)
qed

lemma created_reasons_bound:
  assumes "create_evidence_decision P v t = Inr d"
  shows "length (ed_reason_codes d) \<le> 30"
proof -
  obtain v' gates sel where "select_action v' gates = Inr sel"
      "seal_decision P (decision_payload P v' gates sel t) = Inr d"
    using create_Inr [OF assms] .
  then show ?thesis using seal_Inr distinct_reasons_bound [OF select_action_reasons] by fastforce
qed

end
