(* ===== verification/Evidence_Properties.thy ===== *)
theory Evidence_Properties
  imports Evidence_Facts
begin

text \<open>
  What src/shiliu/evidence/decision.py promises, over the definitions of \<open>Evidence_Decision\<close>,
  with a sample input on which the hypotheses of the theorems hold.
\<close>

section \<open>A sample input\<close>

definition sample_time :: datetime where
  "sample_time = \<lparr>dt_instant = 1000, dt_offset = Some 0\<rparr>"

definition sample_hash :: string where
  "sample_hash = ''sha256:'' @ replicate 64 CHR ''a''"

definition sample_reference :: authority_reference where
  "sample_reference = EvidenceAuthorityReference ''ref'' ''artifact'' ''v1'' ''run'' [''seg'']
     Version_Current In_Scope Authorized"

definition sample_input :: evidence_decision_input where
  "sample_input =
     \<lparr>di_normalized_question = ''what changed'', di_parent_decision_id = None,
      di_requirements =
        [\<lparr>rq_aspect_id = ''b'', rq_description = ''second'', rq_origin = Bounded_Inference, rq_precedence = 2\<rparr>,
         \<lparr>rq_aspect_id = ''a'', rq_description = ''first'', rq_origin = Explicit_User, rq_precedence = 0\<rparr>],
      di_scope = \<lparr>sc_status = Scope_Exact, sc_requested_scope_hash = sample_hash,
                  sc_candidate_scope_hash = Some sample_hash, sc_explanation = ''same'',
                  sc_compared_reference_ids = []\<rparr>,
      di_coverage =
        [\<lparr>ac_aspect_id = ''b'', ac_status = Covered, ac_authority_references = [sample_reference],
          ac_explanation = ''found''\<rparr>,
         \<lparr>ac_aspect_id = ''a'', ac_status = Covered, ac_authority_references = [sample_reference],
          ac_explanation = ''found''\<rparr>],
      di_library_freshness =
        \<lparr>lf_status = Fresh,
         lf_check = \<lparr>nm_status = No_Relevant_New_Material, nm_recorded_check_time = sample_time,
                     nm_previous_check_time = None, nm_bounded_query_hash = sample_hash,
                     nm_candidate_reference_ids = [], nm_relevant_material_reference_ids = []\<rparr>\<rparr>,
      di_conflicts = [],
      di_contributions = [\<lparr>cn_kind = Reused, cn_reference_id = ''ref'', cn_aspect_ids = [''a'']\<rparr>],
      di_semantic_advice = []\<rparr>"

lemma sample_input_wf: "wf_input sample_input"
  by (simp add: wf_input_def sample_input_def valid_decision_input_def len_between_def inferred_count_def
      MAX_REQUIREMENTS_def MAX_CONFLICTS_def MAX_SEMANTIC_ADVICE_def MAX_INFERRED_REQUIREMENTS_def
      valid_scope_def sha256_ref_def sample_hash_def hex_text_def lower_hex_def valid_freshness_def
      valid_new_material_check_def aware_def sample_time_def valid_requirement_def bound_precedence_def
      valid_coverage_def sample_reference_def valid_contribution_def insert_commute)

lemma sample_input_valid: "valid_decision_input sample_input"
  using sample_input_wf by (simp add: wf_input_def)

lemma sample_spec: "spec_action sample_input = Direct_Reuse"
  by (simp add: spec_action_def clear_request_def sample_input_def blocking_conflict_def trusted_def
      all_references_def eligible_iff sample_reference_def complete_coverage_def safe_references_def
      has_reused_def)

section \<open>Shared facts\<close>

lemma input_from_decision_fields:
  assumes "input_from_decision d = Inr v"
  shows "di_requirements v = ed_requirements d" and "di_coverage v = ed_coverage d"
    and "di_scope v = ed_scope d" and "di_conflicts v = ed_conflicts d"
    and "di_library_freshness v = ed_library_freshness d"
    and "di_contributions v = ed_contributions d"
  using assms by (auto simp: input_from_decision_def mk_decision_input_def split: if_splits)

lemma sample_created:
  obtains d where "create_evidence_decision sample_platform sample_input sample_time = Inr d"
    and "verify_integrity sample_platform d = Inr ()" and "ed_action d = Direct_Reuse"
proof -
  have "validate_time_causality sample_input sample_time = Inr ()"
    by (simp add: validate_time_causality_def sample_input_def later_def)
  then obtain d where d: "create_evidence_decision sample_platform sample_input sample_time = Inr d"
    using create_total [OF sample_input_valid sample_platform, of sample_time]
    by (auto simp: sample_input_def sample_time_def aware_def)
  moreover have "ed_action d = Direct_Reuse"
    using create_fields [OF d sample_input_valid] sample_spec by metis
  ultimately show thesis
    using created_verifies [OF d sample_input_valid] that by blast
qed

lemma safe_answer_coverage:
  assumes "safe_answer v" and "c \<in> set (di_coverage v)"
  shows "ac_status c = Covered" and "list_all eligible (ac_authority_references c)"
  using assms by (auto simp: safe_answer_def complete_coverage_def trusted_def all_references_def list_all_iff)

text \<open>What an answering action means on the recorded fields of a decision.\<close>

definition answerable :: "evidence_decision \<Rightarrow> bool" where
  "answerable d \<longleftrightarrow>
     list_all (\<lambda>r. rq_origin r \<noteq> Origin_Unknown) (ed_requirements d) \<and>
     sc_status (ed_scope d) \<in> {Scope_Exact, Scope_Compatible} \<and>
     lf_status (ed_library_freshness d) = Fresh \<and>
     list_all (\<lambda>c. co_status c \<notin> {Potential, Confirmed}) (ed_conflicts d) \<and>
     list_all (\<lambda>c. ac_status c = Covered \<and>
       list_all (\<lambda>r. ref_version_status r = Version_Current \<and> ref_scope_status r = In_Scope \<and>
                     ref_authorization_status r = Authorized) (ac_authority_references c))
       (ed_coverage d)"

lemma safe_answer_answerable:
  assumes "input_from_decision d = Inr v" and safe: "safe_answer v"
  shows "answerable d"
proof -
  note fields = input_from_decision_fields [OF assms(1), symmetric]
  have "list_all (\<lambda>c. ac_status c = Covered \<and> list_all eligible (ac_authority_references c)) (ed_coverage d)"
    using safe_answer_coverage [OF safe] by (auto simp: list_all_iff fields)
  moreover have "sc_status (di_scope v) \<in> {Scope_Exact, Scope_Compatible}"
    using safe scope_match_status.exhaust [of "sc_status (di_scope v)"]
    by (auto simp: safe_answer_def clear_request_def)
  ultimately show ?thesis
    using safe
    by (auto simp: answerable_def safe_answer_def clear_request_def fields blocking_conflict_def
        list_all_iff list_ex_iff eligible_iff)
qed

definition sample_advice :: semantic_advice where
  "sample_advice = \<lparr>sa_advice_id = ''x'', sa_kind = Advise_Scope, sa_proposed_value = ''wider'',
     sa_supporting_reference_ids = []\<rparr>"

section \<open>Properties\<close>

text \<open>
  C1: A stored decision that passes the integrity check and allows an answer is safe: its
  requirements and scope are clear, the library is fresh, no conflict blocks, and every aspect is
  covered by references that are all current, in scope and authorized.
\<close>

theorem verified_answer_is_safe:
  assumes "verify_integrity P d = Inr ()" and "ed_action d \<in> {Answer_Fresh, Direct_Reuse}"
  shows "answerable d"
proof -
  obtain v where v: "input_from_decision d = Inr v" "ed_action d = spec_action v"
    using verified_interpretation [OF assms(1)] by metis
  with assms(2) have "safe_answer v" using spec_action_answers by simp
  with v(1) show ?thesis by (rule safe_answer_answerable)
qed

theorem verified_answer_is_safe_witness:
  "\<exists>d. verify_integrity sample_platform d = Inr () \<and> ed_action d = Direct_Reuse \<and> answerable d"
proof -
  obtain d where d: "verify_integrity sample_platform d = Inr ()" "ed_action d = Direct_Reuse"
    using sample_created by metis
  then have "answerable d" using verified_answer_is_safe [OF d(1)] by simp
  with d show ?thesis by blast
qed

text \<open>
  C9: Creation implements the decision table: whatever order the requirements, the coverage and
  the gates come in, the recorded action is \<open>spec_action\<close> of the input and the fail-closed outcome
  the one that belongs to that action.
\<close>

theorem create_refines_table:
  assumes "create_evidence_decision P v t = Inr d" and "valid_decision_input v"
  shows "ed_action d = spec_action v \<and> ed_fail_closed_outcome d = outcome_of (spec_action v) \<and>
    ed_action d \<notin> {Partial_Answer, Abstain}"
proof -
  have "ed_action d = spec_action v" "ed_fail_closed_outcome d = outcome_of (spec_action v)"
    using create_fields [OF assms] by metis+
  then show ?thesis using spec_action_range by simp
qed

theorem create_refines_table_witness:
  "\<exists>d. create_evidence_decision sample_platform sample_input sample_time = Inr d \<and>
       ed_action d = Direct_Reuse \<and> ed_fail_closed_outcome d = Allow_Direct_Reuse"
proof -
  obtain d where d: "create_evidence_decision sample_platform sample_input sample_time = Inr d"
    using sample_created by metis
  from create_refines_table [OF d sample_input_valid] d show ?thesis
    by (auto simp: sample_spec)
qed

text \<open>
  C25: A decision the code creates passes its own integrity check and serialises to its canonical
  JSON text: recreating it from its recorded fields reorders nothing and changes no hash.
\<close>

theorem created_decision_serializes:
  assumes "create_evidence_decision P v t = Inr d" and "valid_decision_input v"
  shows "verify_integrity P d = Inr () \<and>
    serialize_evidence_decision P d = Inr (canonical_json (decision_json P d))"
  using created_verifies [OF assms] by (simp add: serialize_evidence_decision_def)

theorem created_decision_serializes_witness:
  "\<exists>d. create_evidence_decision sample_platform sample_input sample_time = Inr d \<and>
       serialize_evidence_decision sample_platform d = Inr (canonical_json (decision_json sample_platform d))"
proof -
  obtain d where d: "create_evidence_decision sample_platform sample_input sample_time = Inr d"
    using sample_created by metis
  with created_decision_serializes [OF d sample_input_valid] show ?thesis by blast
qed

text \<open>
  Semantic advice has no authority: replacing it changes neither the gates, the action, the
  fail-closed outcome, the covered and open aspects nor the authority hash.
\<close>

lemma advice_is_not_authoritative:
  assumes "create_evidence_decision P v t = Inr d"
    and "create_evidence_decision P (v\<lparr>di_semantic_advice := advice\<rparr>) t = Inr e"
    and "valid_decision_input v" and "length advice \<le> MAX_SEMANTIC_ADVICE"
  shows "ed_deterministic_gates e = ed_deterministic_gates d \<and> ed_action e = ed_action d \<and>
    ed_fail_closed_outcome e = ed_fail_closed_outcome d \<and>
    ed_covered_aspects e = ed_covered_aspects d \<and> ed_open_aspects e = ed_open_aspects d \<and>
    ed_authority_hash e = ed_authority_hash d"
proof -
  let ?w = "v\<lparr>di_semantic_advice := advice\<rparr>"
  have valid: "valid_decision_input ?w" using assms(3,4) by (simp add: valid_decision_input_def)
  obtain v' where v': "resolved_input v = Inr v'" "evaluate_gates v' = Inr (ed_deterministic_gates d)"
      "ed_action d = spec_action v" "ed_fail_closed_outcome d = outcome_of (spec_action v)"
      "ed_covered_aspects d = covered_aspects v'" "ed_open_aspects d = open_aspects v'"
      "ed_authority_hash d = sha256_identity P (authority_payload P v')"
    using create_resolved [OF assms(1,3)] by metis
  obtain w' where w': "resolved_input ?w = Inr w'" "evaluate_gates w' = Inr (ed_deterministic_gates e)"
      "ed_action e = spec_action ?w" "ed_fail_closed_outcome e = outcome_of (spec_action ?w)"
      "ed_covered_aspects e = covered_aspects w'" "ed_open_aspects e = open_aspects w'"
      "ed_authority_hash e = sha256_identity P (authority_payload P w')"
    using create_resolved [OF assms(2) valid] by metis
  have "w' = v'\<lparr>di_semantic_advice := advice\<rparr>"
    using v'(1) w'(1) resolved_input_advice [of advice v] by simp
  then show ?thesis using v' w' by (simp add: advice_irrelevant)
qed

text \<open>
  C26: Creation raises exactly on a naive timestamp, a corpus check or a conflict observed after
  the decision; every other valid root input yields a decision.
\<close>

theorem create_succeeds_exactly:
  assumes "valid_decision_input v" and "sha256_platform P" and "di_parent_decision_id v = None"
  shows "(\<not> aware t \<longrightarrow> create_evidence_decision P v t = Inl (Contract_Error ''recorded_at_invalid'')) \<and>
    (aware t \<and> later (nm_recorded_check_time (lf_check (di_library_freshness v))) t \<longrightarrow>
       create_evidence_decision P v t = Inl (Contract_Error ''corpus_check_after_decision'')) \<and>
    (aware t \<and> \<not> later (nm_recorded_check_time (lf_check (di_library_freshness v))) t \<and>
       (\<exists>c \<in> set (di_conflicts v). later (co_observed_at c) t) \<longrightarrow>
       create_evidence_decision P v t = Inl (Contract_Error ''conflict_observation_after_decision'')) \<and>
    (aware t \<and> \<not> later (nm_recorded_check_time (lf_check (di_library_freshness v))) t \<and>
       (\<forall>c \<in> set (di_conflicts v). \<not> later (co_observed_at c) t) \<longrightarrow>
       (\<exists>d. create_evidence_decision P v t = Inr d))"
proof -
  have "\<exists>d. create_evidence_decision P v t = Inr d"
    if "aware t" and "validate_time_causality v t = Inr ()"
    using create_total [OF assms that] .
  then show ?thesis
    by (auto simp: create_evidence_decision_def validate_time_causality_def list_ex_iff)
qed

theorem create_succeeds_exactly_witness:
  "\<exists>d. create_evidence_decision sample_platform sample_input sample_time = Inr d"
  using create_succeeds_exactly [OF sample_input_valid sample_platform, of sample_time]
  by (simp add: sample_input_def sample_time_def aware_def later_def)

text \<open>
  The covered and the open aspects of a created decision partition its requirements: each
  requirement is in exactly one of the two lists, and once.
\<close>

lemma aspects_partitioned:
  assumes "create_evidence_decision P v t = Inr d" and "valid_decision_input v"
  shows "distinct (ed_covered_aspects d @ ed_open_aspects d) \<and>
    set (ed_covered_aspects d @ ed_open_aspects d) = set (map rq_aspect_id (ed_requirements d)) \<and>
    set (map rq_aspect_id (ed_requirements d)) = set (map rq_aspect_id (di_requirements v))"
  by (rule created_aspects [OF assms])

text \<open>
  Evaluating the gates never raises: it yields the seven gates in their fixed order, each with
  one to sixteen reason codes, the bounds of \<open>DeterministicGateResult\<close>.
\<close>

lemma gates_total_and_bounded:
  "\<exists>gates. evaluate_gates v = Inr gates \<and>
     map gr_gate gates = [G_Requirements, G_Scope, G_Coverage, G_Source_Version,
       G_Library_Freshness, G_Conflict, G_Authority] \<and>
     list_all (\<lambda>g. 1 \<le> length (gr_reason_codes g) \<and> length (gr_reason_codes g) \<le> 16) gates"
  using evaluate_gates_ok [of v] by (elim exE) (auto simp: len_between_def)

text \<open>
  C15: Direct reuse needs an exact scope match and a contribution marked reused whose reference is
  one of the recorded ones and is current, in scope and authorized.
\<close>

theorem direct_reuse_is_exact_and_safe:
  assumes "verify_integrity P d = Inr ()" and "ed_action d = Direct_Reuse"
  shows "sc_status (ed_scope d) = Scope_Exact \<and>
    (\<exists>c r. c \<in> set (ed_contributions d) \<and> cn_kind c = Reused \<and> cn_reference_id c = reference_id r \<and>
       r \<in> set (concat (map ac_authority_references (ed_coverage d))) \<and>
       ref_version_status r = Version_Current \<and> ref_scope_status r = In_Scope \<and>
       ref_authorization_status r = Authorized)"
proof -
  obtain v where v: "input_from_decision d = Inr v" "ed_action d = spec_action v"
    using verified_interpretation [OF assms(1)] by metis
  note fields = input_from_decision_fields [OF v(1), symmetric]
  have "has_reused v" "sc_status (di_scope v) = Scope_Exact"
    using v(2) assms(2) by (auto simp: spec_action_def split: if_splits)
  then show ?thesis
    by (auto simp: fields has_reused_def list_ex_iff safe_references_def all_references_def eligible_iff)
qed

theorem direct_reuse_is_exact_and_safe_witness:
  "\<exists>d. verify_integrity sample_platform d = Inr () \<and> ed_action d = Direct_Reuse \<and>
       sc_status (ed_scope d) = Scope_Exact"
proof -
  obtain d where d: "verify_integrity sample_platform d = Inr ()" "ed_action d = Direct_Reuse"
    using sample_created by metis
  with direct_reuse_is_exact_and_safe [OF d] show ?thesis by blast
qed

text \<open>
  C27: Requirement resolution keeps one requirement per aspect, of the least precedence offered for
  that aspect, drops no aspect, sorts by precedence and aspect, and stays within the bounds.
\<close>

theorem resolve_requirements_correct:
  assumes "resolve_requirements rs = Inr out"
  shows "distinct (map rq_aspect_id out) \<and>
    set (map rq_aspect_id out) = set (map rq_aspect_id rs) \<and>
    (\<forall>r \<in> set out. r \<in> set rs \<and>
       (\<forall>q \<in> set rs. rq_aspect_id q = rq_aspect_id r \<longrightarrow> rq_precedence r \<le> rq_precedence q)) \<and>
    sorted (map requirement_key out) \<and>
    1 \<le> length out \<and> length out \<le> MAX_REQUIREMENTS \<and> inferred_count out \<le> MAX_INFERRED_REQUIREMENTS"
proof -
  let ?d = "select_requirements rs []"
  have out: "out = sort_key requirement_key (map snd ?d)" "out \<noteq> []" "length out \<le> MAX_REQUIREMENTS"
      "inferred_count out \<le> MAX_INFERRED_REQUIREMENTS"
    using assms by (auto simp: resolve_requirements_Inr)
  have keyed: "keyed ?d" by (rule keyed_select) (simp add: keyed_def)
  have fsts: "map rq_aspect_id (map snd ?d) = map fst ?d"
    using keyed by (auto simp: keyed_def)
  have dist: "distinct (map rq_aspect_id (map snd ?d))"
    unfolding fsts using keyed by (simp add: keyed_def)
  have ids: "set (map rq_aspect_id (map snd ?d)) = set (map rq_aspect_id rs)"
    unfolding fsts using dom_select [of rs "[]"] by (simp add: dom_map_of_conv_image_fst)
  have least: "r \<in> set rs \<and> (\<forall>q \<in> set rs. rq_aspect_id q = rq_aspect_id r \<longrightarrow> rq_precedence r \<le> rq_precedence q)"
    if r: "r \<in> set out" for r
  proof -
    have "(rq_aspect_id r, r) \<in> set ?d" using r keyed by (auto simp: out(1) keyed_def)
    then have "map_of ?d (rq_aspect_id r) = Some r"
      using keyed by (simp add: keyed_def map_of_is_SomeI)
    from select_least [OF this] show ?thesis by simp
  qed
  have "distinct (map rq_aspect_id out)" "set (map rq_aspect_id out) = set (map rq_aspect_id rs)"
    using dist ids unfolding out(1) distinct_map_sort_key set_map_sort_key .
  moreover have "1 \<le> length out" using out(2) by (cases out) auto
  ultimately show ?thesis using least out(1,3,4) by (auto simp: sorted_sort_key)
qed

theorem resolve_requirements_correct_witness:
  "\<exists>out. resolve_requirements (di_requirements sample_input) = Inr out \<and>
         set (map rq_aspect_id out) = {''a'', ''b''} \<and> sorted (map requirement_key out)"
proof -
  let ?out = "sort_key requirement_key (di_requirements sample_input)"
  have r: "resolve_requirements (di_requirements sample_input) = Inr ?out"
    by (rule resolve_distinct [OF sample_input_valid])
  from resolve_requirements_correct [OF r]
  have "set (map rq_aspect_id ?out) = set (map rq_aspect_id (di_requirements sample_input)) \<and>
        sorted (map requirement_key ?out)" by blast
  moreover have "set (map rq_aspect_id (di_requirements sample_input)) = {''a'', ''b''}"
    by (auto simp: sample_input_def)
  ultimately show ?thesis using r by blast
qed

end
