(* ===== verification/Python_Values.thy ===== *)
theory Python_Values
  imports Canonical_Json
begin

text \<open>
  The pieces of Python's runtime the components share: splitting and stripping of text, the text
  of a JSON object whose members are already rendered, and floating point numbers.

  A finite \<open>float\<close> is the rational it denotes (the two zeros are one value; infinities and NaN are
  outside the model unless a datatype says otherwise). An arithmetic operation is the exact one
  followed by a rounding, the argument \<open>rnd\<close>: the binary64 rounding of the machine. The code relies
  on it through \<open>float_rounding\<close> only. Comparisons are exact, as they are in Python.
\<close>

section \<open>Text\<close>

text \<open>\<open>str.isspace\<close> on the code points below 256.\<close>

definition is_space :: "char \<Rightarrow> bool" where
  "is_space c \<longleftrightarrow> (of_char c :: nat) \<in> {9, 10, 11, 12, 13, 28, 29, 30, 31, 32, 133, 160}"

text \<open>\<open>text.split()\<close>, the characters of the current word in the second argument.\<close>

fun words_of :: "string \<Rightarrow> string \<Rightarrow> string list" where
  "words_of [] acc = (if acc = [] then [] else [acc])"
| "words_of (c # cs) acc =
     (if is_space c then (if acc = [] then words_of cs [] else acc # words_of cs [])
      else words_of cs (acc @ [c]))"

definition strip :: "string \<Rightarrow> string" where
  "strip s = rev (dropWhile is_space (rev (dropWhile is_space s)))"

text \<open>\<open>s.rstrip(chars)\<close>\<close>

definition rstrip_chars :: "string \<Rightarrow> string \<Rightarrow> string" where
  "rstrip_chars cs s = rev (dropWhile (\<lambda>c. c \<in> set cs) (rev s))"

lemma strip_strip: "strip (strip s) = strip s"
proof -
  define u where "u = dropWhile is_space s"
  define v where "v = dropWhile is_space (rev u)"
  have strip: "strip s = rev v" by (simp add: strip_def u_def v_def)
  have "dropWhile is_space (rev v) = rev v"
  proof (cases "v = []")
    case False
    obtain w where w: "rev u = w @ v" unfolding v_def by (metis takeWhile_dropWhile_id)
    then have u: "u = rev v @ rev w" by (metis rev_append rev_rev_ident)
    with False have "u \<noteq> []" by simp
    then have "\<not> is_space (hd u)" unfolding u_def by (rule hd_dropWhile)
    moreover have "hd u = hd (rev v)" using False by (simp add: u hd_append)
    ultimately show ?thesis using False by (cases "rev v") auto
  qed simp
  moreover have "dropWhile is_space v = v" by (simp add: v_def)
  ultimately show ?thesis unfolding strip by (simp add: strip_def)
qed

lemma strip_eq_Nil: "strip s = [] \<longleftrightarrow> list_all is_space s"
proof -
  have "strip s = [] \<longleftrightarrow> (\<forall>c \<in> set (dropWhile is_space s). is_space c)"
    by (simp add: strip_def)
  also have "\<dots> \<longleftrightarrow> list_all is_space s"
  proof
    assume all: "\<forall>c \<in> set (dropWhile is_space s). is_space c"
    have "dropWhile is_space s = []"
    proof (rule ccontr)
      assume ne: "dropWhile is_space s \<noteq> []"
      then show False using hd_dropWhile [OF ne] all hd_in_set [OF ne] by blast
    qed
    then show "list_all is_space s" by (simp add: list_all_iff)
  qed (auto simp: list_all_iff dest: set_dropWhileD)
  finally show ?thesis .
qed

lemma join_eq_Nil: "sep \<noteq> [] \<Longrightarrow> join sep xs = [] \<longleftrightarrow> xs = [] \<or> xs = [[]]"
  by (cases xs rule: remdups_adj.cases) auto

lemma length_join:
  "int (length (join sep (x # xs))) =
     int (length x) + (\<Sum>y \<leftarrow> xs. int (length sep) + int (length y))"
  by (induction xs arbitrary: x) auto

text \<open>
  The text of \<open>{k: v, \<dots>}\<close> with sorted keys and the separators of \<open>canonical_json\<close>, from the texts
  of its values.
\<close>

definition object_text :: "(string \<times> string) list \<Rightarrow> string" where
  "object_text kts =
     ''{'' @ join '','' (map (\<lambda>(k, t). string_text k @ '':'' @ t) (sort_key fst kts)) @ ''}''"

lemma object_text_canonical:
  "canonical_json (JObj kvs) = object_text (map (\<lambda>(k, v). (k, canonical_json v)) kvs)"
  by (simp add: object_text_def)

section \<open>Floating point\<close>

text \<open>
  What the code relies on from the rounding of a float operation: it is monotone, a float is its
  own rounding, and the integers a double holds exactly are floats.
\<close>

definition float_rounding :: "(rat \<Rightarrow> rat) \<Rightarrow> bool" where
  "float_rounding rnd \<longleftrightarrow>
     mono rnd \<and> (\<forall>x. rnd (rnd x) = rnd x) \<and>
     (\<forall>i. \<bar>i\<bar> \<le> 2 ^ 53 \<longrightarrow> rnd (of_int i) = of_int i)"

definition is_float :: "(rat \<Rightarrow> rat) \<Rightarrow> rat \<Rightarrow> bool" where
  "is_float rnd x \<longleftrightarrow> rnd x = x"

lemma float_rounding_mono: "float_rounding rnd \<Longrightarrow> x \<le> y \<Longrightarrow> rnd x \<le> rnd y"
  by (simp add: float_rounding_def mono_def)

lemma float_rounding_0 [simp]: "float_rounding rnd \<Longrightarrow> rnd 0 = 0"
  unfolding float_rounding_def by (metis abs_zero of_int_0 zero_le_numeral zero_le_power)

lemma rounded_ge:
  "float_rounding rnd \<Longrightarrow> is_float rnd x \<Longrightarrow> x \<le> y \<Longrightarrow> x \<le> rnd y"
  using float_rounding_mono [of rnd x y] by (simp add: is_float_def)

lemma is_float_rnd [simp]: "float_rounding rnd \<Longrightarrow> is_float rnd (rnd x)"
  by (simp add: is_float_def float_rounding_def)

text \<open>A rounding to multiples of \<open>2 ^ -10\<close>, for the examples.\<close>

definition round_down :: "rat \<Rightarrow> rat" where
  "round_down x = of_int \<lfloor>x * 1024\<rfloor> / 1024"

lemma round_down_float [simp]: "float_rounding round_down"
proof -
  have "mono round_down"
    by (rule monoI) (simp add: round_down_def floor_mono divide_right_mono)
  moreover have "round_down (round_down x) = round_down x" for x
    by (simp add: round_down_def)
  moreover have "round_down (of_int i) = of_int i" for i
  proof -
    have "(of_int i * 1024 :: rat) = of_int (i * 1024)" by simp
    then show ?thesis unfolding round_down_def by (metis floor_of_int nonzero_mult_div_cancel_right
          of_int_mult of_int_numeral zero_neq_numeral)
  qed
  ultimately show ?thesis by (simp add: float_rounding_def)
qed

end
