(* ===== verification/Continuation_Types.thy ===== *)
theory Continuation_Types
  imports Evidence_Facts Python_Values
begin

text \<open>
  The contract of src/shiliu/evidence/continuation.py: its enums, its frozen models with their
  constraints, the JSON of an envelope, and sealing and verification of an envelope.
\<close>

section \<open>Enums\<close>

definition MAX_REFRESH_ROUNDS :: int where "MAX_REFRESH_ROUNDS = 3"

datatype continuation_target = T_Fast | T_Deep | T_Research | T_Knowledge_Reuse

fun target_value :: "continuation_target \<Rightarrow> string" where
  "target_value T_Fast = ''fast''"
| "target_value T_Deep = ''deep''"
| "target_value T_Research = ''research''"
| "target_value T_Knowledge_Reuse = ''knowledge_reuse''"

datatype failure_state =
    F_None
  | F_Evidence_Insufficient
  | F_Evidence_Unavailable
  | F_Source_Conflict
  | F_Generation_Failure
  | F_Provider_Failure
  | F_Transport_Failure
  | F_Interrupted
  | F_Unknown_Side_Effect
  | F_Budget_Exhausted
  | F_Deadline_Exhausted

fun failure_value :: "failure_state \<Rightarrow> string" where
  "failure_value F_None = ''none''"
| "failure_value F_Evidence_Insufficient = ''evidence_insufficient''"
| "failure_value F_Evidence_Unavailable = ''evidence_unavailable''"
| "failure_value F_Source_Conflict = ''source_conflict''"
| "failure_value F_Generation_Failure = ''generation_failure''"
| "failure_value F_Provider_Failure = ''provider_failure''"
| "failure_value F_Transport_Failure = ''transport_failure''"
| "failure_value F_Interrupted = ''interrupted''"
| "failure_value F_Unknown_Side_Effect = ''unknown_side_effect''"
| "failure_value F_Budget_Exhausted = ''budget_exhausted''"
| "failure_value F_Deadline_Exhausted = ''deadline_exhausted''"

datatype receipt_state =
    RS_Not_Applicable
  | RS_Not_Started
  | RS_Reserved
  | RS_In_Flight
  | RS_Receipted
  | RS_Failed
  | RS_Unknown

fun receipt_value :: "receipt_state \<Rightarrow> string" where
  "receipt_value RS_Not_Applicable = ''not_applicable''"
| "receipt_value RS_Not_Started = ''not_started''"
| "receipt_value RS_Reserved = ''reserved''"
| "receipt_value RS_In_Flight = ''in_flight''"
| "receipt_value RS_Receipted = ''receipted''"
| "receipt_value RS_Failed = ''failed''"
| "receipt_value RS_Unknown = ''unknown''"

datatype side_effect_state = SE_None | SE_Confirmed_None | SE_Confirmed | SE_Unknown

fun side_effect_value :: "side_effect_state \<Rightarrow> string" where
  "side_effect_value SE_None = ''none''"
| "side_effect_value SE_Confirmed_None = ''confirmed_none''"
| "side_effect_value SE_Confirmed = ''confirmed''"
| "side_effect_value SE_Unknown = ''unknown''"

datatype stop_reason =
    Stop_Coverage_Complete
  | Stop_No_New_Eligible_Evidence
  | Stop_Repeated_Query
  | Stop_Repeated_Action
  | Stop_Repeated_Evidence_Identity
  | Stop_Lineage_Drift
  | Stop_Conflict_Unresolved
  | Stop_Deadline_Exhausted
  | Stop_Tool_Budget_Exhausted
  | Stop_Unknown_Side_Effect
  | Stop_Action_Boundary
  | Stop_Interrupted
  | Stop_Receipt_Prevents_Replay
  | Stop_Max_Refresh_Rounds

fun stop_value :: "stop_reason \<Rightarrow> string" where
  "stop_value Stop_Coverage_Complete = ''coverage_complete''"
| "stop_value Stop_No_New_Eligible_Evidence = ''no_new_eligible_evidence''"
| "stop_value Stop_Repeated_Query = ''repeated_query''"
| "stop_value Stop_Repeated_Action = ''repeated_action''"
| "stop_value Stop_Repeated_Evidence_Identity = ''repeated_evidence_identity''"
| "stop_value Stop_Lineage_Drift = ''source_or_citation_lineage_drift''"
| "stop_value Stop_Conflict_Unresolved = ''conflict_unresolved''"
| "stop_value Stop_Deadline_Exhausted = ''deadline_exhausted''"
| "stop_value Stop_Tool_Budget_Exhausted = ''tool_budget_exhausted''"
| "stop_value Stop_Unknown_Side_Effect = ''unknown_side_effect''"
| "stop_value Stop_Action_Boundary = ''action_boundary''"
| "stop_value Stop_Interrupted = ''interrupted''"
| "stop_value Stop_Receipt_Prevents_Replay = ''receipt_prevents_replay''"
| "stop_value Stop_Max_Refresh_Rounds = ''max_refresh_rounds''"

section \<open>Models\<close>

record search_reference =
  sx_execution_id :: "string option"
  sx_search_trace_id :: string
  sx_query :: string
  sx_relation_kind :: string
  sx_trace_persisted :: bool

definition valid_search_reference :: "search_reference \<Rightarrow> bool" where
  "valid_search_reference s \<longleftrightarrow>
     (case sx_execution_id s of None \<Rightarrow> True | Some i \<Rightarrow> length i \<le> 240) \<and>
     len_between 1 240 (sx_search_trace_id s) \<and> len_between 1 2000 (sx_query s) \<and>
     len_between 1 80 (sx_relation_kind s)"

record inherited_evidence =
  ih_reference_id :: string
  ih_citation_identity_version :: string
  ih_source_artifact_id :: string
  ih_source_version :: string
  ih_timeline_run_id :: string
  ih_segment_ids :: "string list"
  ih_citation_lineage_hash :: string
  ih_search_execution_ids :: "string list"

definition valid_inherited :: "inherited_evidence \<Rightarrow> bool" where
  "valid_inherited i \<longleftrightarrow>
     len_between 1 200 (ih_reference_id i) \<and> len_between 1 120 (ih_citation_identity_version i) \<and>
     len_between 1 240 (ih_source_artifact_id i) \<and> len_between 1 240 (ih_source_version i) \<and>
     len_between 1 240 (ih_timeline_run_id i) \<and> 1 \<le> length (ih_segment_ids i) \<and>
     sha256_ref (ih_citation_lineage_hash i) \<and> length (ih_search_execution_ids i) \<le> 32"

record continuation_requirement =
  cq_aspect_id :: string
  cq_description :: string
  cq_origin :: string

definition valid_continuation_requirement :: "continuation_requirement \<Rightarrow> bool" where
  "valid_continuation_requirement r \<longleftrightarrow>
     len_between 1 160 (cq_aspect_id r) \<and> len_between 1 1000 (cq_description r) \<and> len_between 1 80 (cq_origin r)"

record continuation_budget =
  cb_refresh_rounds_completed :: int
  cb_remaining_tool_calls :: int
  cb_deadline_at :: "datetime option"

definition valid_continuation_budget :: "continuation_budget \<Rightarrow> bool" where
  "valid_continuation_budget b \<longleftrightarrow>
     0 \<le> cb_refresh_rounds_completed b \<and> cb_refresh_rounds_completed b \<le> MAX_REFRESH_ROUNDS \<and>
     0 \<le> cb_remaining_tool_calls b \<and> cb_remaining_tool_calls b \<le> 64 \<and>
     (case cb_deadline_at b of None \<Rightarrow> True | Some t \<Rightarrow> aware t)"

definition mk_budget :: "continuation_budget \<Rightarrow> continuation_budget result" where
  "mk_budget b = (if valid_continuation_budget b then Inr b else Inl Validation_Error)"

definition default_budget :: continuation_budget where
  "default_budget = \<lparr>cb_refresh_rounds_completed = 0, cb_remaining_tool_calls = 12, cb_deadline_at = None\<rparr>"

record continuation_envelope =
  ce_envelope_id :: string
  ce_parent_run_id :: string
  ce_child_run_id :: "string option"
  ce_parent_decision_id :: string
  ce_parent_decision_hash :: string
  ce_target :: continuation_target
  ce_original_question :: string
  ce_normalized_scope :: "(string \<times> json) list"
  ce_explicit_requirements :: "continuation_requirement list"
  ce_covered_aspects :: "string list"
  ce_open_aspects :: "string list"
  ce_inherited_evidence :: "inherited_evidence list"
  ce_search_executions :: "search_reference list"
  ce_current_action :: decision_action
  ce_reason_codes :: "reason_code list"
  ce_contributions :: "evidence_contribution list"
  ce_budget :: continuation_budget
  ce_failure_state :: failure_state
  ce_receipt_state :: receipt_state
  ce_side_effect_state :: side_effect_state
  ce_stop_reason :: "stop_reason option"
  ce_envelope_hash :: string

definition valid_envelope :: "continuation_envelope \<Rightarrow> bool" where
  "valid_envelope e \<longleftrightarrow>
     hex32_id ''cont_'' (ce_envelope_id e) \<and> len_between 1 240 (ce_parent_run_id e) \<and>
     (case ce_child_run_id e of None \<Rightarrow> True | Some c \<Rightarrow> length c \<le> 240) \<and>
     hex32_id ''evd_'' (ce_parent_decision_id e) \<and> sha256_ref (ce_parent_decision_hash e) \<and>
     len_between 1 4000 (ce_original_question e) \<and>
     len_between 1 24 (ce_explicit_requirements e) \<and>
     length (ce_covered_aspects e) \<le> 24 \<and> length (ce_open_aspects e) \<le> 24 \<and>
     length (ce_inherited_evidence e) \<le> 64 \<and> length (ce_search_executions e) \<le> 64 \<and>
     length (ce_reason_codes e) \<le> 64 \<and> sha256_ref (ce_envelope_hash e) \<and>
     set (ce_covered_aspects e) \<subseteq> set (map cq_aspect_id (ce_explicit_requirements e)) \<and>
     set (ce_open_aspects e) \<subseteq> set (map cq_aspect_id (ce_explicit_requirements e)) \<and>
     set (ce_covered_aspects e) \<inter> set (ce_open_aspects e) = {} \<and>
     \<not> (ce_side_effect_state e = SE_Unknown \<and>
        ce_failure_state e \<notin> {F_Unknown_Side_Effect, F_Interrupted})"

definition mk_envelope :: "continuation_envelope \<Rightarrow> continuation_envelope result" where
  "mk_envelope e = (if valid_envelope e then Inr e else Inl Validation_Error)"

record refresh_observation =
  ob_aspect_id :: string
  ob_aspect_complete :: bool
  ob_authority_references :: "authority_reference list"
  ob_dropped_reference_ids :: "string list"
  ob_search_executions :: "search_reference list"
  ob_conflicts :: "conflict_observation list"
  ob_failure_state :: failure_state
  ob_receipt_state :: receipt_state
  ob_side_effect_state :: side_effect_state

record refresh_round =
  rr_round_number :: int
  rr_queried_aspects :: "string list"
  rr_new_reference_ids :: "string list"
  rr_dropped_reference_ids :: "string list"
  rr_decision_id :: string
  rr_action :: decision_action
  rr_reason_codes :: "reason_code list"

record execution_result =
  xr_final_decision :: evidence_decision
  xr_envelope :: continuation_envelope
  xr_rounds :: "refresh_round list"
  xr_stop_reason :: stop_reason
  xr_search_executions :: "search_reference list"
  xr_contributions :: "evidence_contribution list"
  xr_failure_state :: failure_state

section \<open>JSON of an envelope\<close>

text \<open>\<open>_jsonable\<close> and \<open>exclude_none\<close> drop the members of an object whose value is \<open>None\<close>, at any depth.\<close>

fun strip_none :: "json \<Rightarrow> json" where
  "strip_none (JObj kvs) = JObj (filter (\<lambda>kv. snd kv \<noteq> JNull) (map (\<lambda>(k, v). (k, strip_none v)) kvs))"
| "strip_none (JArr vs) = JArr (map strip_none vs)"
| "strip_none v = v"

definition search_json :: "search_reference \<Rightarrow> json" where
  "search_json s = present
     [(''execution_id'', map_option JStr (sx_execution_id s)),
      (''search_trace_id'', Some (JStr (sx_search_trace_id s))),
      (''query'', Some (JStr (sx_query s))), (''relation_kind'', Some (JStr (sx_relation_kind s))),
      (''trace_persisted'', Some (JBool (sx_trace_persisted s)))]"

definition inherited_json :: "inherited_evidence \<Rightarrow> json" where
  "inherited_json i = JObj
     [(''reference_id'', JStr (ih_reference_id i)),
      (''citation_identity_version'', JStr (ih_citation_identity_version i)),
      (''source_artifact_id'', JStr (ih_source_artifact_id i)),
      (''source_version'', JStr (ih_source_version i)), (''timeline_run_id'', JStr (ih_timeline_run_id i)),
      (''segment_ids'', strs (ih_segment_ids i)),
      (''citation_lineage_hash'', JStr (ih_citation_lineage_hash i)),
      (''search_execution_ids'', strs (ih_search_execution_ids i))]"

definition continuation_requirement_json :: "continuation_requirement \<Rightarrow> json" where
  "continuation_requirement_json r = JObj
     [(''aspect_id'', JStr (cq_aspect_id r)), (''description'', JStr (cq_description r)),
      (''origin'', JStr (cq_origin r))]"

definition budget_json :: "platform \<Rightarrow> continuation_budget \<Rightarrow> json" where
  "budget_json P b = present
     [(''refresh_rounds_completed'', Some (JInt (cb_refresh_rounds_completed b))),
      (''max_refresh_rounds'', Some (JInt MAX_REFRESH_ROUNDS)),
      (''remaining_tool_calls'', Some (JInt (cb_remaining_tool_calls b))),
      (''deadline_at'', map_option (\<lambda>t. JStr (json_datetime P t)) (cb_deadline_at b))]"

text \<open>Every field but the envelope's own id and hash.\<close>

definition envelope_fields :: "platform \<Rightarrow> continuation_envelope \<Rightarrow> (string \<times> json option) list" where
  "envelope_fields P e =
     [(''schema_version'', Some (JStr ''v5.6-continuation-envelope-v1'')),
      (''serializer_version'', Some (JStr ''v5.6-continuation-json-v1'')),
      (''parent_run_id'', Some (JStr (ce_parent_run_id e))),
      (''child_run_id'', map_option JStr (ce_child_run_id e)),
      (''parent_decision_id'', Some (JStr (ce_parent_decision_id e))),
      (''parent_decision_hash'', Some (JStr (ce_parent_decision_hash e))),
      (''target'', Some (JStr (target_value (ce_target e)))),
      (''original_question'', Some (JStr (ce_original_question e))),
      (''normalized_scope'', Some (strip_none (JObj (ce_normalized_scope e)))),
      (''explicit_requirements'', Some (JArr (map continuation_requirement_json (ce_explicit_requirements e)))),
      (''covered_aspects'', Some (strs (ce_covered_aspects e))),
      (''open_aspects'', Some (strs (ce_open_aspects e))),
      (''inherited_evidence'', Some (JArr (map inherited_json (ce_inherited_evidence e)))),
      (''search_executions'', Some (JArr (map search_json (ce_search_executions e)))),
      (''current_action'', Some (JStr (action_value (ce_current_action e)))),
      (''reason_codes'', Some (strs (map reason_value (ce_reason_codes e)))),
      (''contributions'', Some (JArr (map contribution_json (ce_contributions e)))),
      (''budget'', Some (budget_json P (ce_budget e))),
      (''failure_state'', Some (JStr (failure_value (ce_failure_state e)))),
      (''receipt_state'', Some (JStr (receipt_value (ce_receipt_state e)))),
      (''side_effect_state'', Some (JStr (side_effect_value (ce_side_effect_state e)))),
      (''stop_reason'', map_option (\<lambda>s. JStr (stop_value s)) (ce_stop_reason e)),
      (''provider_authority_granted'', Some (JBool False)),
      (''provider_authority_inherited'', Some (JBool False))]"

definition envelope_id_of :: "platform \<Rightarrow> continuation_envelope \<Rightarrow> string" where
  "envelope_id_of P e =
     ''cont_'' @ take 32 (removeprefix ''sha256:'' (sha256_identity P (present (envelope_fields P e))))"

definition envelope_hash_of :: "platform \<Rightarrow> continuation_envelope \<Rightarrow> string" where
  "envelope_hash_of P e = sha256_identity P
     (present (envelope_fields P e @ [(''envelope_id'', Some (JStr (ce_envelope_id e)))]))"

section \<open>Sealing and verification\<close>

definition seal_envelope :: "platform \<Rightarrow> continuation_envelope \<Rightarrow> continuation_envelope result" where
  "seal_envelope P e =
     (let named = e\<lparr>ce_envelope_id := envelope_id_of P e\<rparr>
      in mk_envelope (named\<lparr>ce_envelope_hash := envelope_hash_of P named\<rparr>))"

definition verify_envelope :: "platform \<Rightarrow> continuation_envelope \<Rightarrow> unit result" where
  "verify_envelope P e =
     (if ce_envelope_id e \<noteq> envelope_id_of P e \<or> ce_envelope_hash e \<noteq> envelope_hash_of P e
      then Inl (Contract_Error ''continuation_integrity_failed'') else Inr ())"

record envelope_options =
  eo_inherited :: "inherited_evidence list"
  eo_searches :: "search_reference list"
  eo_budget :: "continuation_budget option"
  eo_failure :: failure_state
  eo_receipt :: receipt_state
  eo_side_effect :: side_effect_state
  eo_stop :: "stop_reason option"
  eo_contributions :: "evidence_contribution list option"

text \<open>
  A continuation requirement re-validates the aspect and description a decision requirement already
  carries, so its constructor cannot fail on a valid requirement.
\<close>

definition mk_continuation_requirement :: "evidence_requirement \<Rightarrow> continuation_requirement result" where
  "mk_continuation_requirement r =
     (let q = \<lparr>cq_aspect_id = rq_aspect_id r, cq_description = rq_description r,
               cq_origin = origin_value (rq_origin r)\<rparr>
      in if valid_continuation_requirement q then Inr q else Inl Validation_Error)"

definition create_continuation_envelope ::
  "platform \<Rightarrow> string \<Rightarrow> evidence_decision \<Rightarrow> continuation_target \<Rightarrow> string \<Rightarrow> (string \<times> json) list
    \<Rightarrow> envelope_options \<Rightarrow> continuation_envelope result"
where
  "create_continuation_envelope P parent_run decision target question scope opts =
     ebind (emap mk_continuation_requirement (ed_requirements decision)) (\<lambda>requirements.
     seal_envelope P
       \<lparr>ce_envelope_id = [], ce_parent_run_id = parent_run, ce_child_run_id = None,
        ce_parent_decision_id = ed_decision_id decision, ce_parent_decision_hash = ed_decision_hash decision,
        ce_target = target, ce_original_question = question, ce_normalized_scope = scope,
        ce_explicit_requirements = requirements,
        ce_covered_aspects = ed_covered_aspects decision, ce_open_aspects = ed_open_aspects decision,
        ce_inherited_evidence = eo_inherited opts, ce_search_executions = eo_searches opts,
        ce_current_action = ed_action decision, ce_reason_codes = ed_reason_codes decision,
        ce_contributions = (case eo_contributions opts of None \<Rightarrow> ed_contributions decision | Some c \<Rightarrow> c),
        ce_budget = (case eo_budget opts of None \<Rightarrow> default_budget | Some b \<Rightarrow> b),
        ce_failure_state = eo_failure opts, ce_receipt_state = eo_receipt opts,
        ce_side_effect_state = eo_side_effect opts, ce_stop_reason = eo_stop opts,
        ce_envelope_hash = []\<rparr>)"

definition bind_continuation_child :: "platform \<Rightarrow> continuation_envelope \<Rightarrow> string \<Rightarrow> continuation_envelope result" where
  "bind_continuation_child P e child = seal_envelope P (e\<lparr>ce_child_run_id := Some child\<rparr>)"

definition envelope_json :: "platform \<Rightarrow> continuation_envelope \<Rightarrow> json" where
  "envelope_json P e = present (envelope_fields P e @
     [(''envelope_id'', Some (JStr (ce_envelope_id e))), (''envelope_hash'', Some (JStr (ce_envelope_hash e)))])"

definition serialize_continuation_envelope :: "platform \<Rightarrow> continuation_envelope \<Rightarrow> string result" where
  "serialize_continuation_envelope P e =
     ebind (verify_envelope P e) (\<lambda>_. Inr (canonical_json (envelope_json P e)))"

text \<open>
  \<open>parse_continuation_envelope\<close> of an envelope's own dump: the model and its parts are validated
  again and its integrity checked.
\<close>

definition valid_envelope_parts :: "continuation_envelope \<Rightarrow> bool" where
  "valid_envelope_parts e \<longleftrightarrow>
     valid_continuation_budget (ce_budget e) \<and> list_all valid_inherited (ce_inherited_evidence e) \<and>
     list_all valid_search_reference (ce_search_executions e) \<and>
     list_all valid_continuation_requirement (ce_explicit_requirements e) \<and>
     list_all valid_contribution (ce_contributions e)"

definition reparse_envelope :: "platform \<Rightarrow> continuation_envelope \<Rightarrow> continuation_envelope result" where
  "reparse_envelope P e =
     (if valid_envelope e \<and> valid_envelope_parts e then ebind (verify_envelope P e) (\<lambda>_. Inr e)
      else Inl (Contract_Error ''invalid_continuation_envelope''))"

end
