(* ===== verification/Continuation_Refresh.thy ===== *)
theory Continuation_Refresh
  imports Continuation_Types
begin

text \<open>
  Consumption checks and the targeted refresh of src/shiliu/evidence/continuation.py. The refresh
  callback and the clock are code outside the module and may answer differently every time:
  \<open>refresh n aspect query round\<close> is the answer of the n-th call (an error is an exception of the
  callback), \<open>now n\<close> the n-th clock reading. Unicode NFKC normalisation is the argument \<open>nfkc\<close>.
\<close>

section \<open>Questions\<close>

definition normalize_question :: "(string \<Rightarrow> string) \<Rightarrow> string \<Rightarrow> string result" where
  "normalize_question nfkc value =
     (let normalized = join '' '' (words_of (nfkc value) [])
      in if normalized = [] then Inl (Contract_Error ''continuation_question_mismatch'') else Inr normalized)"

section \<open>Replay safety\<close>

text \<open>\<open>current_time >= deadline\<close> of aware timestamps.\<close>

definition deadline_passed :: "datetime option \<Rightarrow> datetime \<Rightarrow> bool" where
  "deadline_passed deadline t = (case deadline of None \<Rightarrow> False | Some d \<Rightarrow> \<not> later d t)"

definition unsafe_replay_stop :: "continuation_envelope \<Rightarrow> datetime \<Rightarrow> stop_reason option" where
  "unsafe_replay_stop e t =
     (if ce_side_effect_state e = SE_Unknown \<or> ce_failure_state e = F_Unknown_Side_Effect
      then Some Stop_Unknown_Side_Effect
      else if ce_failure_state e = F_Interrupted then Some Stop_Interrupted
      else if ce_receipt_state e \<in> {RS_In_Flight, RS_Unknown} then Some Stop_Receipt_Prevents_Replay
      else if deadline_passed (cb_deadline_at (ce_budget e)) t then Some Stop_Deadline_Exhausted
      else if cb_remaining_tool_calls (ce_budget e) \<le> 0 then Some Stop_Tool_Budget_Exhausted
      else if cb_refresh_rounds_completed (ce_budget e) \<ge> MAX_REFRESH_ROUNDS then Some Stop_Max_Refresh_Rounds
      else None)"

definition observation_stop :: "refresh_observation \<Rightarrow> (stop_reason \<times> failure_state) option" where
  "observation_stop o1 =
     (if ob_side_effect_state o1 = SE_Unknown \<or> ob_failure_state o1 = F_Unknown_Side_Effect
      then Some (Stop_Unknown_Side_Effect, F_Unknown_Side_Effect)
      else if ob_failure_state o1 = F_Interrupted then Some (Stop_Interrupted, F_Interrupted)
      else if ob_receipt_state o1 \<in> {RS_In_Flight, RS_Unknown}
      then Some (Stop_Receipt_Prevents_Replay, ob_failure_state o1)
      else if ob_failure_state o1 \<noteq> F_None then Some (Stop_Action_Boundary, ob_failure_state o1)
      else None)"

definition validate_parent_binding ::
  "platform \<Rightarrow> evidence_decision \<Rightarrow> continuation_envelope \<Rightarrow> unit result"
where
  "validate_parent_binding P d e =
     ebind (verify_envelope P e) (\<lambda>_.
       if ce_parent_decision_id e \<noteq> ed_decision_id d \<or> ce_parent_decision_hash e \<noteq> ed_decision_hash d
       then Inl (Contract_Error ''parent_decision_mismatch'')
       else if ce_original_question e \<noteq> ed_normalized_question d
       then Inl (Contract_Error ''original_question_mismatch'')
       else Inr ())"

text \<open>Any exception of the decision's serialisation becomes one contract error.\<close>

definition validate_continuation_consumption ::
  "platform \<Rightarrow> (string \<Rightarrow> string) \<Rightarrow> evidence_decision \<Rightarrow> continuation_envelope \<Rightarrow> string
    \<Rightarrow> (string \<times> json) list \<Rightarrow> continuation_target \<Rightarrow> datetime \<Rightarrow> continuation_envelope result"
where
  "validate_continuation_consumption P nfkc d e question scope target t =
     (case serialize_evidence_decision P d of
        Inl _ \<Rightarrow> Inl (Contract_Error ''continuation_decision_integrity_failed'')
      | Inr _ \<Rightarrow>
          ebind (reparse_envelope P e) (\<lambda>v.
            if ce_parent_decision_id v \<noteq> ed_decision_id d \<or> ce_parent_decision_hash v \<noteq> ed_decision_hash d
            then Inl (Contract_Error ''parent_decision_mismatch'')
            else if ed_provider_authority_granted d
            then Inl (Contract_Error ''continuation_provider_authority_forbidden'')
            else
              ebind (normalize_question nfkc question) (\<lambda>current.
              ebind (normalize_question nfkc (ce_original_question v)) (\<lambda>original.
              ebind (normalize_question nfkc (ed_normalized_question d)) (\<lambda>decided.
                if current \<noteq> original \<or> decided \<noteq> original
                then Inl (Contract_Error ''continuation_question_mismatch'')
                else if canonical_json (strip_none (JObj scope)) \<noteq>
                        canonical_json (strip_none (JObj (ce_normalized_scope v)))
                then Inl (Contract_Error ''continuation_scope_mismatch'')
                else if sc_requested_scope_hash (ed_scope d) \<noteq>
                        scope_hash P (strip_none (JObj (ce_normalized_scope v)))
                then Inl (Contract_Error ''continuation_scope_mismatch'')
                else if ce_target v \<noteq> target
                then Inl (Contract_Error ''continuation_target_mismatch'')
                else if unsafe_replay_stop v t \<in> {Some Stop_Unknown_Side_Effect, Some Stop_Interrupted,
                                                  Some Stop_Receipt_Prevents_Replay}
                then Inl (Contract_Error ''continuation_replay_unsafe'')
                else Inr v)))))"

section \<open>Terminal results\<close>

definition follow_up_options ::
  "continuation_envelope \<Rightarrow> search_reference list \<Rightarrow> continuation_budget \<Rightarrow> failure_state \<Rightarrow> stop_reason \<Rightarrow> envelope_options"
where
  "follow_up_options e searches budget failure stop =
     \<lparr>eo_inherited = ce_inherited_evidence e, eo_searches = searches, eo_budget = Some budget,
      eo_failure = failure, eo_receipt = ce_receipt_state e, eo_side_effect = ce_side_effect_state e,
      eo_stop = Some stop, eo_contributions = None\<rparr>"

definition terminal_result ::
  "platform \<Rightarrow> evidence_decision \<Rightarrow> continuation_envelope \<Rightarrow> stop_reason \<Rightarrow> execution_result result"
where
  "terminal_result P d e reason =
     ebind (create_continuation_envelope P (ce_parent_run_id e) d (ce_target e) (ce_original_question e)
              (ce_normalized_scope e)
              (follow_up_options e (ce_search_executions e) (ce_budget e) (ce_failure_state e) reason))
       (\<lambda>updated. Inr \<lparr>xr_final_decision = d, xr_envelope = updated, xr_rounds = [], xr_stop_reason = reason,
          xr_search_executions = ce_search_executions e, xr_contributions = ed_contributions d,
          xr_failure_state = ce_failure_state e\<rparr>)"

section \<open>The refresh loop\<close>

definition mk_contribution :: "contribution_kind \<Rightarrow> string \<Rightarrow> string list \<Rightarrow> evidence_contribution result" where
  "mk_contribution kind rid aspects =
     (let c = \<lparr>cn_kind = kind, cn_reference_id = rid, cn_aspect_ids = aspects\<rparr>
      in if valid_contribution c then Inr c else Inl Validation_Error)"

definition contribution_key :: "evidence_contribution \<Rightarrow> contribution_kind \<times> string \<times> string list" where
  "contribution_key c = (cn_kind c, cn_reference_id c, cn_aspect_ids c)"

definition dedupe_contributions :: "evidence_contribution list \<Rightarrow> evidence_contribution list" where
  "dedupe_contributions cs = map snd (dict_of contribution_key cs)"

text \<open>
  The variables of the loop. \<open>rs_calls\<close> records the arguments of every callback invocation and
  \<open>rs_ticks\<close> counts the clock readings; both are observations of the model only.
\<close>

record refresh_state =
  rs_current :: evidence_decision
  rs_coverage :: "(string \<times> aspect_coverage) list"
  rs_known :: "(string \<times> authority_reference) list"
  rs_contributions :: "evidence_contribution list"
  rs_searches :: "search_reference list"
  rs_rounds :: "refresh_round list"
  rs_fingerprints :: "string list"
  rs_decision_ids :: "string list"
  rs_action_keys :: "(string \<times> string list) list"
  rs_remaining :: int
  rs_stop :: stop_reason
  rs_failure :: failure_state
  rs_calls :: "(string \<times> string \<times> int) list"
  rs_ticks :: nat

type_synonym refresh_callback = "nat \<Rightarrow> string \<Rightarrow> string \<Rightarrow> int \<Rightarrow> refresh_observation result"

definition fingerprint_of :: "platform \<Rightarrow> string \<Rightarrow> string \<Rightarrow> string" where
  "fingerprint_of P aspect query =
     sha256_identity P (JObj [(''aspect_id'', JStr aspect), (''query'', JStr query)])"

text \<open>The searches of one round; the last component says whether the round was cut short.\<close>

fun query_aspects ::
  "platform \<Rightarrow> refresh_callback \<Rightarrow> (string \<times> evidence_requirement) list \<Rightarrow> int \<Rightarrow> string list
    \<Rightarrow> refresh_observation list \<Rightarrow> refresh_state \<Rightarrow> (refresh_observation list \<times> refresh_state \<times> bool) result"
where
  "query_aspects P refresh reqs n [] obs s = Inr (obs, s, False)"
| "query_aspects P refresh reqs n (a # as) obs s =
     (if rs_remaining s \<le> 0
      then Inr (obs, s\<lparr>rs_stop := Stop_Tool_Budget_Exhausted, rs_failure := F_Budget_Exhausted\<rparr>, True)
      else ebind (key_lookup reqs a) (\<lambda>r.
        if fingerprint_of P a (rq_description r) \<in> set (rs_fingerprints s)
        then Inr (obs, s\<lparr>rs_stop := Stop_Repeated_Query\<rparr>, True)
        else ebind (refresh (length (rs_calls s)) a (rq_description r) n) (\<lambda>ob.
          if ob_aspect_id ob \<noteq> a then Inl (Contract_Error ''refresh_aspect_mismatch'')
          else
            let s1 = s\<lparr>rs_fingerprints := rs_fingerprints s @ [fingerprint_of P a (rq_description r)],
                       rs_remaining := rs_remaining s - 1,
                       rs_calls := rs_calls s @ [(a, rq_description r, n)]\<rparr>
            in case observation_stop ob of
                 Some (stop, failure) \<Rightarrow>
                   Inr (obs @ [ob], s1\<lparr>rs_stop := stop, rs_failure := failure\<rparr>, True)
               | None \<Rightarrow> query_aspects P refresh reqs n as (obs @ [ob]) s1)))"

text \<open>What a round gathers while it folds the observations into the coverage.\<close>

record gathered =
  ga_new :: "string list"
  ga_dropped :: "string list"
  ga_drift :: bool
  ga_conflicts :: "conflict_observation list"

fun drop_references ::
  "string \<Rightarrow> string list \<Rightarrow> gathered \<times> evidence_contribution list \<Rightarrow> (gathered \<times> evidence_contribution list) result"
where
  "drop_references aspect [] (g, cs) = Inr (g, cs)"
| "drop_references aspect (rid # rids) (g, cs) =
     ebind (mk_contribution Dropped rid [aspect]) (\<lambda>c.
       drop_references aspect rids (g\<lparr>ga_dropped := ga_dropped g @ [rid]\<rparr>, cs @ [c]))"

text \<open>\<open>_eligible\<close> is the eligibility of the decision procedure.\<close>

definition eligible_reference :: "authority_reference \<Rightarrow> bool" where
  "eligible_reference r \<longleftrightarrow>
     ref_version_status r = Version_Current \<and> ref_scope_status r = In_Scope \<and>
     ref_authorization_status r = Authorized"

type_synonym intake =
  "gathered \<times> evidence_contribution list \<times> (string \<times> authority_reference) list \<times> authority_reference list"

fun take_references :: "string \<Rightarrow> authority_reference list \<Rightarrow> intake \<Rightarrow> intake result" where
  "take_references aspect [] i = Inr i"
| "take_references aspect (r # rs) (g, cs, known, good) =
     (let existing = map_of known (reference_id r); rid = reference_id r in
      if existing \<noteq> None \<and> existing \<noteq> Some r
      then take_references aspect rs
             (g\<lparr>ga_drift := True, ga_dropped := ga_dropped g @ [rid]\<rparr>, cs, known, good)
      else if eligible_reference r
      then if existing = None
           then ebind (mk_contribution New rid [aspect]) (\<lambda>c.
                  take_references aspect rs
                    (g\<lparr>ga_new := ga_new g @ [rid]\<rparr>, cs @ [c], AList.update rid r known, good @ [r]))
           else take_references aspect rs (g, cs, AList.update rid r known, good @ [r])
      else ebind (mk_contribution Dropped rid [aspect]) (\<lambda>c.
             take_references aspect rs (g\<lparr>ga_dropped := ga_dropped g @ [rid]\<rparr>, cs @ [c], known, good)))"

definition refreshed_coverage ::
  "refresh_observation \<Rightarrow> aspect_coverage \<Rightarrow> authority_reference list \<Rightarrow> aspect_coverage result"
where
  "refreshed_coverage ob prior good =
     (let combined = map snd (dict_of reference_id (ac_authority_references prior @ good));
          c = \<lparr>ac_aspect_id = ob_aspect_id ob,
               ac_status = (if ob_aspect_complete ob \<and> good \<noteq> [] then Covered
                            else if combined \<noteq> [] then Partial else Open_Aspect),
               ac_authority_references = combined,
               ac_explanation = ''targeted refresh over the canonical open aspect''\<rparr>
      in if valid_coverage c then Inr c else Inl Validation_Error)"

fun absorb :: "refresh_observation list \<Rightarrow> gathered \<times> refresh_state \<Rightarrow> (gathered \<times> refresh_state) result" where
  "absorb [] gs = Inr gs"
| "absorb (ob # obs) (g, s) =
     ebind (drop_references (ob_aspect_id ob) (ob_dropped_reference_ids ob) (g, rs_contributions s))
       (\<lambda>(g1, cs1).
     ebind (take_references (ob_aspect_id ob) (ob_authority_references ob) (g1, cs1, rs_known s, []))
       (\<lambda>(g2, cs2, known, good).
     ebind (key_lookup (rs_coverage s) (ob_aspect_id ob)) (\<lambda>prior.
     ebind (refreshed_coverage ob prior good) (\<lambda>c.
       absorb obs
         (g2\<lparr>ga_conflicts := ga_conflicts g2 @ ob_conflicts ob\<rparr>,
          s\<lparr>rs_contributions := cs2, rs_known := known,
            rs_coverage := AList.update (ob_aspect_id ob) c (rs_coverage s),
            rs_searches := rs_searches s @ ob_search_executions ob\<rparr>)))))"

definition child_input ::
  "platform \<Rightarrow> int \<Rightarrow> datetime \<Rightarrow> gathered \<Rightarrow> refresh_state \<Rightarrow> evidence_decision_input result"
where
  "child_input P n t g s =
     (let current = rs_current s;
          check = \<lparr>nm_status = No_Relevant_New_Material, nm_recorded_check_time = t,
                   nm_previous_check_time = Some (nm_recorded_check_time (lf_check (ed_library_freshness current))),
                   nm_bounded_query_hash = sha256_identity P (JObj [(''round'', JInt n),
                     (''open_aspects'', strs (ed_open_aspects current))]),
                   nm_candidate_reference_ids = ga_new g, nm_relevant_material_reference_ids = []\<rparr>
      in ebind (emap (\<lambda>r. key_lookup (rs_coverage s) (rq_aspect_id r)) (ed_requirements current)) (\<lambda>coverage.
         if \<not> valid_new_material_check check then Inl Validation_Error
         else mk_decision_input
           \<lparr>di_normalized_question = ed_normalized_question current,
            di_parent_decision_id = Some (ed_decision_id current),
            di_requirements = ed_requirements current, di_scope = ed_scope current, di_coverage = coverage,
            di_library_freshness = \<lparr>lf_status = Fresh, lf_check = check\<rparr>,
            di_conflicts = ga_conflicts g,
            di_contributions = dedupe_contributions (rs_contributions s),
            di_semantic_advice = ed_semantic_advice current\<rparr>))"

text \<open>
  What follows the child decision: its round record, and whether the loop goes on. \<open>halt\<close> is set
  when the evidence already decided to stop.
\<close>

definition close_round ::
  "int \<Rightarrow> refresh_observation list \<Rightarrow> gathered \<Rightarrow> bool \<Rightarrow> evidence_decision \<Rightarrow> refresh_state \<Rightarrow> refresh_state \<times> bool"
where
  "close_round n obs g halt child s =
     (let s1 = s\<lparr>rs_rounds := rs_rounds s @
                  [\<lparr>rr_round_number = n, rr_queried_aspects = map ob_aspect_id obs,
                    rr_new_reference_ids = fromkeys (ga_new g),
                    rr_dropped_reference_ids = fromkeys (ga_dropped g),
                    rr_decision_id = ed_decision_id child, rr_action = ed_action child,
                    rr_reason_codes = ed_reason_codes child\<rparr>],
                 rs_current := child\<rparr>;
          key = (action_value (ed_action child), ed_open_aspects child)
      in if halt then (s1, False)
         else if ed_decision_id child \<in> set (rs_decision_ids s1)
         then (s1\<lparr>rs_stop := Stop_Repeated_Evidence_Identity\<rparr>, False)
         else
           let s2 = s1\<lparr>rs_decision_ids := rs_decision_ids s1 @ [ed_decision_id child]\<rparr>
           in if key \<in> set (rs_action_keys s2) then (s2\<lparr>rs_stop := Stop_Repeated_Action\<rparr>, False)
              else
                let s3 = s2\<lparr>rs_action_keys := rs_action_keys s2 @ [key]\<rparr>
                in if ed_open_aspects child = [] then (s3\<lparr>rs_stop := Stop_Coverage_Complete\<rparr>, False)
                   else if ed_action child \<noteq> Targeted_Refresh
                   then (s3\<lparr>rs_stop := Stop_Action_Boundary\<rparr>, False)
                   else (s3, True))"

definition tick :: "refresh_state \<Rightarrow> refresh_state" where
  "tick s = s\<lparr>rs_ticks := Suc (rs_ticks s)\<rparr>"

definition refresh_round_step ::
  "platform \<Rightarrow> refresh_callback \<Rightarrow> (nat \<Rightarrow> datetime) \<Rightarrow> (string \<times> evidence_requirement) list
    \<Rightarrow> datetime option \<Rightarrow> int \<Rightarrow> refresh_state \<Rightarrow> (refresh_state \<times> bool) result"
where
  "refresh_round_step P refresh now reqs deadline n s0 =
     (let s = (if deadline = None then s0 else tick s0)
      in if deadline_passed deadline (now (rs_ticks s0))
         then Inr (s\<lparr>rs_stop := Stop_Deadline_Exhausted, rs_failure := F_Deadline_Exhausted\<rparr>, False)
         else
           ebind (query_aspects P refresh reqs n (ed_open_aspects (rs_current s)) [] s) (\<lambda>(obs, s1, stopped).
             if stopped then Inr (s1, False)
             else
               ebind (absorb obs (\<lparr>ga_new = [], ga_dropped = [], ga_drift = False,
                                   ga_conflicts = ed_conflicts (rs_current s1)\<rparr>, s1)) (\<lambda>(g, s2).
                 if ga_drift g then Inr (s2\<lparr>rs_stop := Stop_Lineage_Drift\<rparr>, False)
                 else
                   let s3 = (if blocking_conflict (ga_conflicts g)
                             then s2\<lparr>rs_stop := Stop_Conflict_Unresolved, rs_failure := F_Source_Conflict\<rparr>
                             else if ga_new g = []
                             then s2\<lparr>rs_stop := Stop_No_New_Eligible_Evidence,
                                     rs_failure := F_Evidence_Insufficient\<rparr>
                             else s2);
                       halt = (blocking_conflict (ga_conflicts g) \<or> ga_new g = []);
                       t = now (rs_ticks s3)
                   in ebind (child_input P n t g s3) (\<lambda>input.
                      ebind (create_evidence_decision P input t) (\<lambda>child.
                        Inr (close_round n obs g halt child (tick s3)))))))"

fun refresh_rounds ::
  "platform \<Rightarrow> refresh_callback \<Rightarrow> (nat \<Rightarrow> datetime) \<Rightarrow> (string \<times> evidence_requirement) list
    \<Rightarrow> datetime option \<Rightarrow> int list \<Rightarrow> refresh_state \<Rightarrow> refresh_state result"
where
  "refresh_rounds P refresh now reqs deadline [] s = Inr s"
| "refresh_rounds P refresh now reqs deadline (n # ns) s =
     ebind (refresh_round_step P refresh now reqs deadline n s) (\<lambda>(s1, more).
       if more then refresh_rounds P refresh now reqs deadline ns s1 else Inr s1)"

definition initial_state :: "evidence_decision \<Rightarrow> continuation_envelope \<Rightarrow> refresh_state" where
  "initial_state d e =
     \<lparr>rs_current = d, rs_coverage = dict_of ac_aspect_id (ed_coverage d),
      rs_known = dict_of reference_id (concat (map ac_authority_references (ed_coverage d))),
      rs_contributions = ed_contributions d, rs_searches = ce_search_executions e, rs_rounds = [],
      rs_fingerprints = [], rs_decision_ids = [ed_decision_id d],
      rs_action_keys = [(action_value (ed_action d), ed_open_aspects d)],
      rs_remaining = cb_remaining_tool_calls (ce_budget e), rs_stop = Stop_Max_Refresh_Rounds,
      rs_failure = ce_failure_state e, rs_calls = [], rs_ticks = 1\<rparr>"

definition round_numbers :: "continuation_envelope \<Rightarrow> int list" where
  "round_numbers e = [cb_refresh_rounds_completed (ce_budget e) + 1..MAX_REFRESH_ROUNDS]"

definition refreshed_result ::
  "platform \<Rightarrow> continuation_envelope \<Rightarrow> refresh_state \<Rightarrow> execution_result result"
where
  "refreshed_result P e s =
     ebind (mk_budget \<lparr>cb_refresh_rounds_completed =
                  min (cb_refresh_rounds_completed (ce_budget e) + int (length (rs_rounds s))) MAX_REFRESH_ROUNDS,
                cb_remaining_tool_calls = rs_remaining s, cb_deadline_at = cb_deadline_at (ce_budget e)\<rparr>) (\<lambda>budget.
     ebind (create_continuation_envelope P (ce_parent_run_id e) (rs_current s) (ce_target e)
              (ce_original_question e) (ce_normalized_scope e)
              (follow_up_options e (rs_searches s) budget (rs_failure s) (rs_stop s)))
       (\<lambda>updated. Inr \<lparr>xr_final_decision = rs_current s, xr_envelope = updated, xr_rounds = rs_rounds s,
          xr_stop_reason = rs_stop s, xr_search_executions = rs_searches s,
          xr_contributions = dedupe_contributions (rs_contributions s), xr_failure_state = rs_failure s\<rparr>))"

text \<open>The result, with the callback invocations that led to it.\<close>

definition run_targeted_refresh ::
  "platform \<Rightarrow> refresh_callback \<Rightarrow> (nat \<Rightarrow> datetime) \<Rightarrow> evidence_decision \<Rightarrow> continuation_envelope
    \<Rightarrow> (execution_result \<times> (string \<times> string \<times> int) list) result"
where
  "run_targeted_refresh P refresh now d e =
     ebind (validate_parent_binding P d e) (\<lambda>_.
       case unsafe_replay_stop e (now 0) of
         Some reason \<Rightarrow> ebind (terminal_result P d e reason) (\<lambda>r. Inr (r, []))
       | None \<Rightarrow>
           if ed_action d \<noteq> Targeted_Refresh
           then ebind (terminal_result P d e
                  (if ed_open_aspects d = [] then Stop_Coverage_Complete else Stop_Action_Boundary))
                  (\<lambda>r. Inr (r, []))
           else
             ebind (refresh_rounds P refresh now (dict_of rq_aspect_id (ed_requirements d))
                      (cb_deadline_at (ce_budget e)) (round_numbers e) (initial_state d e)) (\<lambda>s.
             ebind (refreshed_result P e s) (\<lambda>r. Inr (r, rs_calls s))))"

end
