(* ===== verification/Continuation_Facts.thy ===== *)
theory Continuation_Facts
  imports Continuation_Refresh
begin

text \<open>
  Lemmas on the continuation: sealing and binding of envelopes, and what a search round and the
  absorption of its observations change.
\<close>

section \<open>Envelopes\<close>

lemma envelope_fields_sealed [simp]:
  "envelope_fields P (e\<lparr>ce_envelope_id := i\<rparr>) = envelope_fields P e"
  "envelope_fields P (e\<lparr>ce_envelope_hash := h\<rparr>) = envelope_fields P e"
  by (simp_all add: envelope_fields_def)

lemma envelope_id_sealed [simp]:
  "envelope_id_of P (e\<lparr>ce_envelope_id := i\<rparr>) = envelope_id_of P e"
  "envelope_id_of P (e\<lparr>ce_envelope_hash := h\<rparr>) = envelope_id_of P e"
  "envelope_hash_of P (e\<lparr>ce_envelope_hash := h\<rparr>) = envelope_hash_of P e"
  by (simp_all add: envelope_id_of_def envelope_hash_of_def)

lemma seal_Inr_fields:
  assumes "seal_envelope P e = Inr s"
  shows "s = e\<lparr>ce_envelope_id := envelope_id_of P e,
               ce_envelope_hash := envelope_hash_of P (e\<lparr>ce_envelope_id := envelope_id_of P e\<rparr>)\<rparr>"
    and "valid_envelope s" and "verify_envelope P s = Inr ()"
proof -
  show s: "s = e\<lparr>ce_envelope_id := envelope_id_of P e,
               ce_envelope_hash := envelope_hash_of P (e\<lparr>ce_envelope_id := envelope_id_of P e\<rparr>)\<rparr>"
    and "valid_envelope s"
    using assms by (auto simp: seal_envelope_def mk_envelope_def Let_def split: if_splits)
  show "verify_envelope P s = Inr ()" by (simp add: verify_envelope_def s)
qed

lemma create_envelope_Inr:
  assumes "create_continuation_envelope P run d target question scope opts = Inr e"
  shows "valid_envelope e" and "verify_envelope P e = Inr ()"
    and "ce_parent_decision_id e = ed_decision_id d" and "ce_parent_decision_hash e = ed_decision_hash d"
    and "ce_original_question e = question" and "ce_target e = target" and "ce_normalized_scope e = scope"
    and "ce_covered_aspects e = ed_covered_aspects d" and "ce_open_aspects e = ed_open_aspects d"
    and "ce_budget e = (case eo_budget opts of None \<Rightarrow> default_budget | Some b \<Rightarrow> b)"
    and "ce_current_action e = ed_action d" and "ce_stop_reason e = eo_stop opts"
    and "ce_failure_state e = eo_failure opts" and "ce_receipt_state e = eo_receipt opts"
    and "ce_side_effect_state e = eo_side_effect opts" and "ce_parent_run_id e = run"
    and "ce_child_run_id e = None" and "ce_inherited_evidence e = eo_inherited opts"
proof -
  obtain requirements where sealed: "seal_envelope P
       \<lparr>ce_envelope_id = [], ce_parent_run_id = run, ce_child_run_id = None,
        ce_parent_decision_id = ed_decision_id d, ce_parent_decision_hash = ed_decision_hash d,
        ce_target = target, ce_original_question = question, ce_normalized_scope = scope,
        ce_explicit_requirements = requirements,
        ce_covered_aspects = ed_covered_aspects d, ce_open_aspects = ed_open_aspects d,
        ce_inherited_evidence = eo_inherited opts, ce_search_executions = eo_searches opts,
        ce_current_action = ed_action d, ce_reason_codes = ed_reason_codes d,
        ce_contributions = (case eo_contributions opts of None \<Rightarrow> ed_contributions d | Some c \<Rightarrow> c),
        ce_budget = (case eo_budget opts of None \<Rightarrow> default_budget | Some b \<Rightarrow> b),
        ce_failure_state = eo_failure opts, ce_receipt_state = eo_receipt opts,
        ce_side_effect_state = eo_side_effect opts, ce_stop_reason = eo_stop opts,
        ce_envelope_hash = []\<rparr> = Inr e"
    using assms by (auto simp: create_continuation_envelope_def ebind_eq_Inr)
  show "valid_envelope e" and "verify_envelope P e = Inr ()" by (rule seal_Inr_fields [OF sealed])+
  note fields = seal_Inr_fields(1) [OF sealed]
  show "ce_parent_decision_id e = ed_decision_id d" "ce_parent_decision_hash e = ed_decision_hash d"
    "ce_original_question e = question" "ce_target e = target" "ce_normalized_scope e = scope"
    "ce_covered_aspects e = ed_covered_aspects d" "ce_open_aspects e = ed_open_aspects d"
    "ce_budget e = (case eo_budget opts of None \<Rightarrow> default_budget | Some b \<Rightarrow> b)"
    "ce_current_action e = ed_action d" "ce_stop_reason e = eo_stop opts"
    "ce_failure_state e = eo_failure opts" "ce_receipt_state e = eo_receipt opts"
    "ce_side_effect_state e = eo_side_effect opts" "ce_parent_run_id e = run" "ce_child_run_id e = None"
    "ce_inherited_evidence e = eo_inherited opts"
    by (simp_all add: fields)
qed

section \<open>One round of searches\<close>

text \<open>The part of the loop state a search does not touch.\<close>

definition same_evidence :: "refresh_state \<Rightarrow> refresh_state \<Rightarrow> bool" where
  "same_evidence s s' \<longleftrightarrow>
     rs_current s' = rs_current s \<and> rs_coverage s' = rs_coverage s \<and> rs_rounds s' = rs_rounds s \<and>
     rs_contributions s' = rs_contributions s \<and> rs_known s' = rs_known s \<and>
     rs_decision_ids s' = rs_decision_ids s \<and> rs_action_keys s' = rs_action_keys s"

definition calls_of :: "(string \<times> evidence_requirement) list \<Rightarrow> int \<Rightarrow> string list \<Rightarrow> (string \<times> string \<times> int) list" where
  "calls_of reqs n as = map (\<lambda>a. (a, rq_description (the (map_of reqs a)), n)) as"

definition fingerprints_of :: "platform \<Rightarrow> (string \<times> string \<times> int) list \<Rightarrow> string list" where
  "fingerprints_of P calls = map (\<lambda>(a, q, n). fingerprint_of P a q) calls"

lemma calls_of_simps [simp]:
  "calls_of reqs n [] = []"
  "calls_of reqs n (a # as) = (a, rq_description (the (map_of reqs a)), n) # calls_of reqs n as"
  "length (calls_of reqs n as) = length as"
  by (simp_all add: calls_of_def)

lemma key_lookup_Inr [simp]: "key_lookup d k = Inr x \<longleftrightarrow> map_of d k = Some x"
  by (simp add: key_lookup_def split: option.splits)

lemma query_aspects_Inr:
  assumes "query_aspects P refresh reqs n as obs s = Inr (obs', s', stopped)"
  shows "\<exists>k \<le> length as. rs_calls s' = rs_calls s @ calls_of reqs n (take k as) \<and>
      rs_remaining s' = rs_remaining s - int k \<and> (0 < k \<longrightarrow> 0 \<le> rs_remaining s') \<and>
      rs_fingerprints s' = rs_fingerprints s @ fingerprints_of P (calls_of reqs n (take k as)) \<and>
      map ob_aspect_id obs' = map ob_aspect_id obs @ take k as \<and> (\<not> stopped \<longrightarrow> k = length as) \<and>
      same_evidence s s'"
  using assms
proof (induction P refresh reqs n as obs s rule: query_aspects.induct)
  case (1 P refresh reqs n obs s)
  then show ?case by (auto simp: fingerprints_of_def same_evidence_def)
next
  case (2 P refresh reqs n a as obs s)
  show ?case
  proof (cases "rs_remaining s \<le> 0")
    case True
    with 2(2) show ?thesis by (intro exI [of _ 0]) (auto simp: fingerprints_of_def same_evidence_def)
  next
    case pos: False
    obtain r where r: "map_of reqs a = Some r"
      using 2(2) pos by (auto simp: ebind_eq_Inr)
    show ?thesis
    proof (cases "fingerprint_of P a (rq_description r) \<in> set (rs_fingerprints s)")
      case True
      with 2(2) pos r show ?thesis
        by (intro exI [of _ 0]) (auto simp: fingerprints_of_def same_evidence_def key_lookup_def)
    next
      case new: False
      obtain ob where ob: "refresh (length (rs_calls s)) a (rq_description r) n = Inr ob" "ob_aspect_id ob = a"
        using 2(2) pos r new by (auto simp: ebind_eq_Inr key_lookup_def split: if_splits)
      define s1 where "s1 = s\<lparr>rs_fingerprints := rs_fingerprints s @ [fingerprint_of P a (rq_description r)],
                       rs_remaining := rs_remaining s - 1,
                       rs_calls := rs_calls s @ [(a, rq_description r, n)]\<rparr>"
      show ?thesis
      proof (cases "observation_stop ob")
        case (Some sf)
        then have "obs' = obs @ [ob]" "s' = s1\<lparr>rs_stop := fst sf, rs_failure := snd sf\<rparr>" "stopped"
          using 2(2) pos r new ob by (auto simp: key_lookup_def s1_def Let_def split: prod.splits)
        then show ?thesis
          using pos r ob by (intro exI [of _ 1]) (auto simp: s1_def fingerprints_of_def same_evidence_def)
      next
        case None
        then have rest: "query_aspects P refresh reqs n as (obs @ [ob]) s1 = Inr (obs', s', stopped)"
          using 2(2) pos r new ob by (simp add: key_lookup_def s1_def Let_def)
        have "\<exists>k \<le> length as. rs_calls s' = rs_calls s1 @ calls_of reqs n (take k as) \<and>
            rs_remaining s' = rs_remaining s1 - int k \<and> (0 < k \<longrightarrow> 0 \<le> rs_remaining s') \<and>
            rs_fingerprints s' = rs_fingerprints s1 @ fingerprints_of P (calls_of reqs n (take k as)) \<and>
            map ob_aspect_id obs' = map ob_aspect_id (obs @ [ob]) @ take k as \<and> (\<not> stopped \<longrightarrow> k = length as) \<and>
            same_evidence s1 s'"
          using 2(1) [of r ob s1] pos r new ob None rest by (simp add: key_lookup_def s1_def)
        then obtain k where k: "k \<le> length as" "rs_calls s' = rs_calls s1 @ calls_of reqs n (take k as)"
            "rs_remaining s' = rs_remaining s1 - int k" "0 < k \<longrightarrow> 0 \<le> rs_remaining s'"
            "rs_fingerprints s' = rs_fingerprints s1 @ fingerprints_of P (calls_of reqs n (take k as))"
            "map ob_aspect_id obs' = map ob_aspect_id (obs @ [ob]) @ take k as" "\<not> stopped \<longrightarrow> k = length as"
            "same_evidence s1 s'" by blast
        show ?thesis
          using k pos r ob by (intro exI [of _ "Suc k"]) (auto simp: s1_def fingerprints_of_def same_evidence_def)
      qed
    qed
  qed
qed

section \<open>Absorbing observations\<close>

definition coverage_keyed :: "refresh_state \<Rightarrow> bool" where
  "coverage_keyed s \<longleftrightarrow> (\<forall>k c. map_of (rs_coverage s) k = Some c \<longrightarrow> ac_aspect_id c = k)"

lemma coverage_keyed_cong: "rs_coverage s = rs_coverage s' \<Longrightarrow> coverage_keyed s = coverage_keyed s'"
  by (simp add: coverage_keyed_def)

lemma refreshed_coverage_id: "refreshed_coverage ob prior good = Inr c \<Longrightarrow> ac_aspect_id c = ob_aspect_id ob"
  by (auto simp: refreshed_coverage_def Let_def split: if_splits)

lemma absorb_Inr:
  assumes "absorb obs (g, s) = Inr (g', s')"
  shows "rs_current s' = rs_current s \<and> rs_rounds s' = rs_rounds s \<and> rs_calls s' = rs_calls s \<and>
     rs_remaining s' = rs_remaining s \<and> rs_fingerprints s' = rs_fingerprints s \<and>
     rs_decision_ids s' = rs_decision_ids s \<and> rs_action_keys s' = rs_action_keys s \<and>
     (\<forall>a. a \<notin> set (map ob_aspect_id obs) \<longrightarrow> map_of (rs_coverage s') a = map_of (rs_coverage s) a) \<and>
     (coverage_keyed s \<longrightarrow> coverage_keyed s')"
  using assms
proof (induction obs arbitrary: g s)
  case Nil
  then show ?case by simp
next
  case (Cons ob obs g s)
  obtain g1 cs1 where one: "drop_references (ob_aspect_id ob) (ob_dropped_reference_ids ob)
      (g, rs_contributions s) = Inr (g1, cs1)" using Cons.prems by (auto simp: ebind_eq_Inr)
  obtain g2 cs2 known good where two: "take_references (ob_aspect_id ob) (ob_authority_references ob)
      (g1, cs1, rs_known s, []) = Inr (g2, cs2, known, good)"
    using Cons.prems one by (auto simp: ebind_eq_Inr)
  obtain prior where prior: "map_of (rs_coverage s) (ob_aspect_id ob) = Some prior"
    using Cons.prems one two by (auto simp: ebind_eq_Inr)
  obtain c where c: "refreshed_coverage ob prior good = Inr c"
    using Cons.prems one two prior by (auto simp: ebind_eq_Inr key_lookup_def)
  let ?s = "s\<lparr>rs_contributions := cs2, rs_known := known,
            rs_coverage := AList.update (ob_aspect_id ob) c (rs_coverage s),
            rs_searches := rs_searches s @ ob_search_executions ob\<rparr>"
  have rest: "absorb obs (g2\<lparr>ga_conflicts := ga_conflicts g2 @ ob_conflicts ob\<rparr>, ?s) = Inr (g', s')"
    using Cons.prems one two prior c by (simp add: key_lookup_def)
  have keyed: "coverage_keyed s \<Longrightarrow> coverage_keyed ?s"
    using refreshed_coverage_id [OF c] by (auto simp: coverage_keyed_def map_of_update)
  show ?case using Cons.IH [OF rest] keyed by (simp add: map_of_update)
qed

section \<open>The child decision\<close>

lemma open_aspects_iff:
  assumes "distinct (map ac_aspect_id (di_coverage v))"
  shows "a \<in> set (open_aspects v) \<longleftrightarrow> (\<exists>c\<in>set (di_coverage v). ac_aspect_id c = a \<and> \<not> aspect_covered c)"
proof -
  have unique: "c = c'" if "c \<in> set (di_coverage v)" "c' \<in> set (di_coverage v)" "ac_aspect_id c = ac_aspect_id c'" for c c'
    using that assms by (auto simp: distinct_map dest: inj_onD)
  show ?thesis
    using unique by (fastforce simp: open_aspects_def covered_aspects_def)
qed

lemma reordered_open:
  assumes "reordered v v'" and "valid_decision_input v"
  shows "set (open_aspects v') = set (open_aspects v)"
proof -
  have "distinct (map ac_aspect_id (di_coverage v))" using assms(2) by (simp add: valid_decision_input_def)
  note one = open_aspects_iff [OF this]
  note two = open_aspects_iff [OF reordered_facts(11) [OF assms(1)]]
  show ?thesis using one two reordered_facts(2) [OF assms(1)] by auto
qed

lemma emap_lookup:
  "emap (\<lambda>r. key_lookup d (f r)) rs = Inr cs \<Longrightarrow> map (\<lambda>r. map_of d (f r)) rs = map Some cs"
  by (induction rs arbitrary: cs) (auto simp: ebind_eq_Inr)

lemma child_input_Inr:
  assumes "child_input P n t g s = Inr v"
  shows "valid_decision_input v" and "di_requirements v = ed_requirements (rs_current s)"
    and "map (\<lambda>r. map_of (rs_coverage s) (rq_aspect_id r)) (ed_requirements (rs_current s)) = map Some (di_coverage v)"
    and "di_normalized_question v = ed_normalized_question (rs_current s)"
    and "di_scope v = ed_scope (rs_current s)" and "lf_status (di_library_freshness v) = Fresh"
    and "di_parent_decision_id v = Some (ed_decision_id (rs_current s))"
proof -
  obtain cov where cov: "emap (\<lambda>r. key_lookup (rs_coverage s) (rq_aspect_id r)) (ed_requirements (rs_current s)) = Inr cov"
    using assms by (auto simp: child_input_def Let_def ebind_eq_Inr)
  have "map (\<lambda>r. map_of (rs_coverage s) (rq_aspect_id r)) (ed_requirements (rs_current s)) = map Some cov"
    by (rule emap_lookup [OF cov])
  then show "valid_decision_input v" "di_requirements v = ed_requirements (rs_current s)"
    "map (\<lambda>r. map_of (rs_coverage s) (rq_aspect_id r)) (ed_requirements (rs_current s)) = map Some (di_coverage v)"
    "di_normalized_question v = ed_normalized_question (rs_current s)"
    "di_scope v = ed_scope (rs_current s)" "lf_status (di_library_freshness v) = Fresh"
    "di_parent_decision_id v = Some (ed_decision_id (rs_current s))"
    using assms cov by (auto simp: child_input_def Let_def mk_decision_input_def split: if_splits)
qed

text \<open>
  When the coverage of the aspects the current decision has covered is untouched, the child has no
  open aspect the current decision did not have.
\<close>

lemma child_open_subset:
  assumes verified: "verify_integrity P (rs_current s) = Inr ()"
    and input: "child_input P n t g s = Inr v" and created: "create_evidence_decision P v t = Inr child"
    and keyed: "coverage_keyed s"
    and kept: "\<And>a. a \<notin> set (ed_open_aspects (rs_current s)) \<Longrightarrow>
      map_of (rs_coverage s) a = map_of (dict_of ac_aspect_id (ed_coverage (rs_current s))) a"
  shows "set (ed_open_aspects child) \<subseteq> set (ed_open_aspects (rs_current s))"
proof
  let ?d = "rs_current s"
  note child = child_input_Inr [OF input]
  obtain w w' where w: "input_from_decision ?d = Inr w" "valid_decision_input w" "reordered w w'"
      "ed_open_aspects ?d = open_aspects w'"
    using verified_interpretation [OF verified] by metis
  have w_fields: "di_coverage w = ed_coverage ?d"
    using w(1) by (auto simp: input_from_decision_def mk_decision_input_def split: if_splits)
  have distinct: "distinct (map ac_aspect_id (ed_coverage ?d))"
    using w(2) w_fields by (simp add: valid_decision_input_def)
  obtain v' where v': "reordered v v'" "ed_open_aspects child = open_aspects v'"
    using create_resolved [OF created child(1)] by metis
  fix a assume "a \<in> set (ed_open_aspects child)"
  then have "a \<in> set (open_aspects v)" using v' reordered_open [OF v'(1) child(1)] by simp
  then obtain c where c: "c \<in> set (di_coverage v)" "ac_aspect_id c = a" "\<not> aspect_covered c"
    using open_aspects_iff child(1) by (auto simp: valid_decision_input_def)
  show "a \<in> set (ed_open_aspects ?d)"
  proof (rule ccontr)
    assume closed: "a \<notin> set (ed_open_aspects ?d)"
    have "Some c \<in> set (map Some (di_coverage v))" using c(1) by simp
    then obtain r where r: "r \<in> set (ed_requirements ?d)" "map_of (rs_coverage s) (rq_aspect_id r) = Some c"
      unfolding child(3) [symmetric] by auto
    have reqs: "set (map rq_aspect_id (di_requirements v)) = set (map ac_aspect_id (di_coverage v))"
      "distinct (map rq_aspect_id (di_requirements v))"
      "set (map rq_aspect_id (di_requirements w)) = set (map ac_aspect_id (di_coverage w))"
      using child(1) w(2) by (simp_all add: valid_decision_input_def)
    have w_reqs: "di_requirements w = ed_requirements ?d"
      using w(1) by (auto simp: input_from_decision_def mk_decision_input_def split: if_splits)
    have "rq_aspect_id r = a" using keyed r(2) c(2) by (simp add: coverage_keyed_def)
    then have "map_of (dict_of ac_aspect_id (ed_coverage ?d)) (rq_aspect_id r) = Some c" using kept closed r(2) by simp
    moreover obtain c0 where c0: "c0 \<in> set (ed_coverage ?d)" "ac_aspect_id c0 = rq_aspect_id r"
      using reqs(3) r(1) w_fields w_reqs by (metis (no_types, lifting) image_iff list.set_map)
    ultimately have "c \<in> set (ed_coverage ?d)" using map_of_dict_of_distinct [OF distinct c0(1)] c0 by simp
    then have "a \<in> set (open_aspects w)" using open_aspects_iff [of w] c(2,3) distinct w_fields by auto
    then show False using closed w(4) reordered_open [OF w(3,2)] by simp
  qed
qed

section \<open>Rounds\<close>

lemma close_round_fields:
  assumes "close_round n obs g halt child s = (s', again)"
  shows "rs_current s' = child \<and> rs_calls s' = rs_calls s \<and> rs_remaining s' = rs_remaining s \<and>
    rs_fingerprints s' = rs_fingerprints s \<and> rs_coverage s' = rs_coverage s \<and>
    length (rs_rounds s') = Suc (length (rs_rounds s)) \<and> (again \<longrightarrow> ed_open_aspects child \<noteq> [] \<and> \<not> halt) \<and>
    (halt \<longrightarrow> rs_stop s' = rs_stop s)"
  using assms by (auto simp: close_round_def Let_def split: if_splits)

lemma step_cases:
  assumes "refresh_round_step P refresh now reqs deadline n s = Inr (s', again)"
  obtains (late) "\<not> again" "same_evidence s s'" "rs_calls s' = rs_calls s" "rs_remaining s' = rs_remaining s"
      "rs_stop s' = Stop_Deadline_Exhausted"
    | (stopped) obs s0 where "query_aspects P refresh reqs n (ed_open_aspects (rs_current s)) [] s0 = Inr (obs, s', True)"
        "same_evidence s s0" "rs_calls s0 = rs_calls s" "rs_remaining s0 = rs_remaining s"
        "rs_fingerprints s0 = rs_fingerprints s" "\<not> again"
    | (drift) obs s0 s1 g s2 where "query_aspects P refresh reqs n (ed_open_aspects (rs_current s)) [] s0 = Inr (obs, s1, False)"
        "same_evidence s s0" "rs_calls s0 = rs_calls s" "rs_remaining s0 = rs_remaining s"
        "rs_fingerprints s0 = rs_fingerprints s"
        "absorb obs (\<lparr>ga_new = [], ga_dropped = [], ga_drift = False, ga_conflicts = ed_conflicts (rs_current s1)\<rparr>, s1) = Inr (g, s2)"
        "s' = s2\<lparr>rs_stop := Stop_Lineage_Drift\<rparr>" "\<not> again"
    | (closed) obs s0 s1 g s2 s3 v child t where "query_aspects P refresh reqs n (ed_open_aspects (rs_current s)) [] s0 = Inr (obs, s1, False)"
        "same_evidence s s0" "rs_calls s0 = rs_calls s" "rs_remaining s0 = rs_remaining s"
        "rs_fingerprints s0 = rs_fingerprints s"
        "absorb obs (\<lparr>ga_new = [], ga_dropped = [], ga_drift = False, ga_conflicts = ed_conflicts (rs_current s1)\<rparr>, s1) = Inr (g, s2)"
        "s3 = (if blocking_conflict (ga_conflicts g)
                             then s2\<lparr>rs_stop := Stop_Conflict_Unresolved, rs_failure := F_Source_Conflict\<rparr>
                             else if ga_new g = []
                             then s2\<lparr>rs_stop := Stop_No_New_Eligible_Evidence,
                                     rs_failure := F_Evidence_Insufficient\<rparr>
                             else s2)"
        "child_input P n t g s3 = Inr v" "create_evidence_decision P v t = Inr child"
        "close_round n obs g (blocking_conflict (ga_conflicts g) \<or> ga_new g = []) child (tick s3) = (s', again)"
proof -
  define s0 where "s0 = (if deadline = None then s else tick s)"
  have s0: "same_evidence s s0" "rs_calls s0 = rs_calls s" "rs_remaining s0 = rs_remaining s"
      "rs_fingerprints s0 = rs_fingerprints s" "rs_current s0 = rs_current s"
    by (simp_all add: s0_def tick_def same_evidence_def)
  show thesis
  proof (cases "deadline_passed deadline (now (rs_ticks s))")
    case True
    then have "s' = s0\<lparr>rs_stop := Stop_Deadline_Exhausted, rs_failure := F_Deadline_Exhausted\<rparr>" "\<not> again"
      using assms by (simp_all add: refresh_round_step_def Let_def s0_def)
    with s0 late show thesis by (simp add: same_evidence_def)
  next
    case False
    then obtain obs s1 st where q: "query_aspects P refresh reqs n (ed_open_aspects (rs_current s)) [] s0 = Inr (obs, s1, st)"
      using assms s0(5) by (auto simp: refresh_round_step_def Let_def s0_def [symmetric] ebind_eq_Inr)
    note body = assms [unfolded refresh_round_step_def, folded s0_def, unfolded Let_def s0(5) q ebind_Inr prod.case]
    show thesis
    proof (cases st)
      case True
      with body False have "s' = s1" "\<not> again" by simp_all
      with q True have "query_aspects P refresh reqs n (ed_open_aspects (rs_current s)) [] s0 = Inr (obs, s', True)" by simp
      from stopped [OF this s0(1-4) \<open>\<not> again\<close>] show thesis .
    next
      case go: False
      then have q1: "query_aspects P refresh reqs n (ed_open_aspects (rs_current s)) [] s0 = Inr (obs, s1, False)" using q by simp
      obtain g s2 where a: "absorb obs (\<lparr>ga_new = [], ga_dropped = [], ga_drift = False,
          ga_conflicts = ed_conflicts (rs_current s1)\<rparr>, s1) = Inr (g, s2)"
        using body False go by (auto simp: ebind_eq_Inr)
      define s3 where "s3 = (if blocking_conflict (ga_conflicts g)
                             then s2\<lparr>rs_stop := Stop_Conflict_Unresolved, rs_failure := F_Source_Conflict\<rparr>
                             else if ga_new g = []
                             then s2\<lparr>rs_stop := Stop_No_New_Eligible_Evidence,
                                     rs_failure := F_Evidence_Insufficient\<rparr>
                             else s2)"
      note body2 = body [unfolded a ebind_Inr prod.case, folded s3_def]
      show thesis
      proof (cases "ga_drift g")
        case True
        with body2 False go have "s' = s2\<lparr>rs_stop := Stop_Lineage_Drift\<rparr>" "\<not> again" by simp_all
        from drift [OF q1 s0(1-4) a this] show thesis .
      next
        case nodrift: False
        obtain v where v: "child_input P n (now (rs_ticks s3)) g s3 = Inr v"
          using body2 False go nodrift by (auto simp: ebind_eq_Inr)
        obtain child where child: "create_evidence_decision P v (now (rs_ticks s3)) = Inr child"
          using body2 False go nodrift v by (auto simp: ebind_eq_Inr)
        have "close_round n obs g (blocking_conflict (ga_conflicts g) \<or> ga_new g = []) child (tick s3) = (s', again)"
          using body2 False go nodrift v child by simp
        from closed [OF q1 s0(1-4) a s3_def v child this] show thesis .
      qed
    qed
  qed
qed

text \<open>What one round can do, from a state whose coverage is that of its verified current decision.\<close>

lemma round_effect:
  assumes step: "refresh_round_step P refresh now reqs deadline n s = Inr (s', again)"
    and verified: "verify_integrity P (rs_current s) = Inr ()" and keyed: "coverage_keyed s"
    and cover: "rs_coverage s = dict_of ac_aspect_id (ed_coverage (rs_current s))"
  shows "\<exists>k \<le> length (ed_open_aspects (rs_current s)).
      rs_calls s' = rs_calls s @ calls_of reqs n (take k (ed_open_aspects (rs_current s))) \<and>
      rs_remaining s' = rs_remaining s - int k \<and> (0 < k \<longrightarrow> 0 \<le> rs_remaining s') \<and>
      length (rs_rounds s') \<le> Suc (length (rs_rounds s)) \<and>
      (again \<longrightarrow> rs_fingerprints s' = rs_fingerprints s @ fingerprints_of P (calls_of reqs n (ed_open_aspects (rs_current s))) \<and>
         ed_open_aspects (rs_current s') \<noteq> [] \<and>
         set (ed_open_aspects (rs_current s')) \<subseteq> set (ed_open_aspects (rs_current s)))"
  using step
proof (cases rule: step_cases)
  case late
  then show ?thesis by (intro exI [of _ 0]) (auto simp: same_evidence_def)
next
  case (stopped obs s0)
  from query_aspects_Inr [OF stopped(1)] obtain k where "k \<le> length (ed_open_aspects (rs_current s))"
      "rs_calls s' = rs_calls s0 @ calls_of reqs n (take k (ed_open_aspects (rs_current s)))"
      "rs_remaining s' = rs_remaining s0 - int k" "0 < k \<longrightarrow> 0 \<le> rs_remaining s'" "same_evidence s0 s'" by blast
  with stopped show ?thesis by (intro exI [of _ k]) (simp add: same_evidence_def)
next
  case (drift obs s0 s1 g s2)
  from query_aspects_Inr [OF drift(1)] obtain k where "k \<le> length (ed_open_aspects (rs_current s))"
      "rs_calls s1 = rs_calls s0 @ calls_of reqs n (take k (ed_open_aspects (rs_current s)))"
      "rs_remaining s1 = rs_remaining s0 - int k" "0 < k \<longrightarrow> 0 \<le> rs_remaining s1" "same_evidence s0 s1" by blast
  with drift absorb_Inr [OF drift(6)] show ?thesis by (intro exI [of _ k]) (simp add: same_evidence_def)
next
  case (closed obs s0 s1 g s2 s3 v child t)
  let ?open = "ed_open_aspects (rs_current s)"
  from query_aspects_Inr [OF closed(1)] have q: "rs_calls s1 = rs_calls s0 @ calls_of reqs n ?open"
      "rs_remaining s1 = rs_remaining s0 - int (length ?open)" "?open \<noteq> [] \<longrightarrow> 0 \<le> rs_remaining s1"
      "rs_fingerprints s1 = rs_fingerprints s0 @ fingerprints_of P (calls_of reqs n ?open)"
      "map ob_aspect_id obs = ?open" "same_evidence s0 s1" by auto
  note ab = absorb_Inr [OF closed(6)]
  have s3: "rs_current s3 = rs_current s2" "rs_coverage s3 = rs_coverage s2" "rs_calls s3 = rs_calls s2"
      "rs_remaining s3 = rs_remaining s2" "rs_fingerprints s3 = rs_fingerprints s2" "rs_rounds s3 = rs_rounds s2"
    by (simp_all add: closed(7))
  note cl = close_round_fields [OF closed(10)]
  have cur: "rs_current s3 = rs_current s" using ab q(6) closed(2) s3 by (simp add: same_evidence_def)
  have "set (ed_open_aspects child) \<subseteq> set (ed_open_aspects (rs_current s3))"
  proof (rule child_open_subset [OF _ closed(8,9)])
    show "verify_integrity P (rs_current s3) = Inr ()" using verified cur by simp
    show "coverage_keyed s3"
    proof -
      have "rs_coverage s1 = rs_coverage s" using q(6) closed(2) unfolding same_evidence_def by metis
      then have "coverage_keyed s1" using keyed coverage_keyed_cong by metis
      then have "coverage_keyed s2" using ab by blast
      then show ?thesis using s3(2) coverage_keyed_cong by metis
    qed
    fix a assume "a \<notin> set (ed_open_aspects (rs_current s3))"
    then have "a \<notin> set (map ob_aspect_id obs)" unfolding q(5) cur .
    then have "map_of (rs_coverage s2) a = map_of (rs_coverage s1) a" using ab by blast
    moreover have "rs_coverage s1 = dict_of ac_aspect_id (ed_coverage (rs_current s))"
      using q(6) closed(2) cover unfolding same_evidence_def by metis
    ultimately show "map_of (rs_coverage s3) a = map_of (dict_of ac_aspect_id (ed_coverage (rs_current s3))) a"
      unfolding s3(2) cur by (simp only:)
  qed
  then have "again \<longrightarrow> ed_open_aspects (rs_current s') \<noteq> [] \<and> set (ed_open_aspects (rs_current s')) \<subseteq> set ?open"
    using cl cur by simp
  moreover have "rs_calls s' = rs_calls s @ calls_of reqs n ?open" "rs_remaining s' = rs_remaining s - int (length ?open)"
      "rs_fingerprints s' = rs_fingerprints s @ fingerprints_of P (calls_of reqs n ?open)"
      "length (rs_rounds s') = Suc (length (rs_rounds s))"
    using q(1,2,4,6) ab cl s3 closed(2-5) by (simp_all add: same_evidence_def tick_def)
  moreover have "?open \<noteq> [] \<longrightarrow> 0 \<le> rs_remaining s'" using q(2,3) calculation(3) closed(4) by simp
  ultimately show ?thesis by (intro exI [of _ "length ?open"]) simp
qed

text \<open>
  A round either records nothing and keeps the current decision, or it has searched every open aspect
  and records exactly that, with the decision it made.
\<close>

definition records_round :: "int \<Rightarrow> string list \<Rightarrow> evidence_decision \<Rightarrow> refresh_round \<Rightarrow> bool" where
  "records_round n asked child q \<longleftrightarrow> rr_round_number q = n \<and> rr_queried_aspects q = asked \<and>
     rr_decision_id q = ed_decision_id child \<and> rr_action q = ed_action child"

lemma close_round_records:
  assumes "close_round n obs g halt child s = (s', again)"
  shows "\<exists>q. rs_rounds s' = rs_rounds s @ [q] \<and> records_round n (map ob_aspect_id obs) child q"
  using assms by (auto simp: close_round_def records_round_def Let_def split: if_splits)

lemma round_recorded:
  assumes "refresh_round_step P refresh now reqs deadline n s = Inr (s', again)"
  shows "(rs_rounds s' = rs_rounds s \<and> rs_current s' = rs_current s) \<or>
    (\<exists>q. rs_rounds s' = rs_rounds s @ [q] \<and> records_round n (ed_open_aspects (rs_current s)) (rs_current s') q \<and>
       rs_calls s' = rs_calls s @ calls_of reqs n (ed_open_aspects (rs_current s)))"
  using assms
proof (cases rule: step_cases)
  case late
  then show ?thesis by (simp add: same_evidence_def)
next
  case (stopped obs s0)
  from query_aspects_Inr [OF stopped(1)] stopped(2) show ?thesis by (auto simp: same_evidence_def)
next
  case (drift obs s0 s1 g s2)
  from query_aspects_Inr [OF drift(1)] absorb_Inr [OF drift(6)] drift(2,7) show ?thesis by (auto simp: same_evidence_def)
next
  case (closed obs s0 s1 g s2 s3 v child t)
  let ?open = "ed_open_aspects (rs_current s)"
  from query_aspects_Inr [OF closed(1)] have q: "rs_calls s1 = rs_calls s0 @ calls_of reqs n ?open"
      "map ob_aspect_id obs = ?open" "same_evidence s0 s1" by auto
  have "rs_calls (tick s3) = rs_calls s @ calls_of reqs n ?open" "rs_rounds (tick s3) = rs_rounds s"
    using q(1,3) absorb_Inr [OF closed(6)] closed(2,3) by (simp_all add: closed(7) same_evidence_def tick_def)
  with close_round_fields [OF closed(10)] close_round_records [OF closed(10)] q(2) show ?thesis by auto
qed

text \<open>A round whose open aspects have all been searched already neither searches nor records anything.\<close>

lemma exhausted_round:
  assumes step: "refresh_round_step P refresh now reqs deadline n s = Inr (s', again)"
    and some_open: "ed_open_aspects (rs_current s) \<noteq> []"
    and seen: "\<And>a r. a \<in> set (ed_open_aspects (rs_current s)) \<Longrightarrow> map_of reqs a = Some r \<Longrightarrow>
                 fingerprint_of P a (rq_description r) \<in> set (rs_fingerprints s)"
  shows "\<not> again \<and> rs_calls s' = rs_calls s \<and> rs_remaining s' = rs_remaining s \<and> rs_rounds s' = rs_rounds s \<and>
    rs_current s' = rs_current s"
proof -
  obtain a as where open_def: "ed_open_aspects (rs_current s) = a # as" using some_open by (cases "ed_open_aspects (rs_current s)") auto
  have stops: "st \<and> rs_calls s1 = rs_calls s0 \<and> rs_remaining s1 = rs_remaining s0 \<and> same_evidence s0 s1"
    if "query_aspects P refresh reqs n (ed_open_aspects (rs_current s)) [] s0 = Inr (obs, s1, st)"
      and "rs_fingerprints s0 = rs_fingerprints s" for obs s0 s1 st
    using that seen [of a] unfolding open_def
    by (auto simp: ebind_eq_Inr key_lookup_def same_evidence_def split: if_splits option.splits)
  from step show ?thesis
  proof (cases rule: step_cases)
    case late
    then show ?thesis by (simp add: same_evidence_def)
  next
    case (stopped obs s0)
    from stops [OF stopped(1,5)] stopped show ?thesis by (simp add: same_evidence_def)
  next
    case (drift obs s0 s1 g s2)
    from stops [OF drift(1,5)] show ?thesis by simp
  next
    case (closed obs s0 s1 g s2 s3 v child t)
    from stops [OF closed(1,5)] show ?thesis by simp
  qed
qed

end
