(* ===== verification/Continuation_Properties.thy ===== *)
theory Continuation_Properties
  imports Continuation_Facts Evidence_Properties
begin

text \<open>
  What a continuation promises: envelopes that can always be sealed and always verify, a consumption
  check that admits only the frozen question, scope, target and a safe replay, and a refresh that
  searches each open aspect at most once, within its budget, and hands back a bound envelope.
\<close>

section \<open>Creating envelopes\<close>

lemma emap_requirements:
  "list_all valid_requirement rs \<Longrightarrow> \<exists>qs. emap mk_continuation_requirement rs = Inr qs \<and>
     map cq_aspect_id qs = map rq_aspect_id rs \<and> length qs = length rs \<and> list_all valid_continuation_requirement qs"
proof (induction rs)
  case (Cons r rs)
  have "len_between 1 80 (origin_value (rq_origin r))"
    by (cases "rq_origin r") (simp_all add: len_between_def)
  then have "\<exists>q. mk_continuation_requirement r = Inr q \<and> cq_aspect_id q = rq_aspect_id r \<and> valid_continuation_requirement q"
    using Cons.prems by (simp add: mk_continuation_requirement_def valid_requirement_def valid_continuation_requirement_def Let_def)
  with Cons show ?case by auto
qed simp

lemma seal_total:
  assumes "sha256_platform P" and "\<And>i h. hex32_id ''cont_'' i \<Longrightarrow> sha256_ref h \<Longrightarrow>
      valid_envelope (e\<lparr>ce_envelope_id := i, ce_envelope_hash := h\<rparr>)"
  shows "\<exists>s. seal_envelope P e = Inr s"
proof -
  have "hex32_id ''cont_'' (envelope_id_of P e)" unfolding envelope_id_of_def by (rule hex32_of_identity [OF assms(1)])
  moreover have "sha256_ref (envelope_hash_of P (e\<lparr>ce_envelope_id := envelope_id_of P e\<rparr>))"
    unfolding envelope_hash_of_def using assms(1) by simp
  ultimately show ?thesis using assms(2) by (simp add: seal_envelope_def mk_envelope_def Let_def)
qed

lemma envelope_for_decision:
  assumes P: "sha256_platform P" and d: "create_evidence_decision P v t = Inr d" and wf: "wf_input v"
    and run: "len_between 1 240 run" and question: "len_between 1 4000 question"
    and sizes: "length (eo_inherited opts) \<le> 64" "length (eo_searches opts) \<le> 64"
    and effect: "eo_side_effect opts = SE_Unknown \<longrightarrow> eo_failure opts \<in> {F_Unknown_Side_Effect, F_Interrupted}"
  shows "\<exists>e. create_continuation_envelope P run d target question scope opts = Inr e"
proof -
  have valid: "valid_decision_input v" using wf by (simp add: wf_input_def)
  obtain v' where v': "reordered v v'" "ed_requirements d = di_requirements v'"
    using create_resolved [OF d valid] by metis
  have dv: "valid_decision d" using create_fields [OF d valid] by metis
  have reqs: "list_all valid_requirement (ed_requirements d)"
    using wf reordered_facts(1) [OF v'(1)] v'(2) by (simp add: wf_input_def list_all_iff)
  then obtain qs where qs: "emap mk_continuation_requirement (ed_requirements d) = Inr qs"
      "map cq_aspect_id qs = map rq_aspect_id (ed_requirements d)" "length qs = length (ed_requirements d)"
    using emap_requirements by blast
  note aspects = created_aspects [OF d valid]
  have count: "len_between 1 24 (ed_requirements d)"
    using reordered_valid(1) [OF v'(1) valid] v'(2) by (simp add: valid_decision_input_def MAX_REQUIREMENTS_def)
  have "length (ed_covered_aspects d @ ed_open_aspects d) = card (set (ed_covered_aspects d @ ed_open_aspects d))"
    using aspects by (metis distinct_card)
  also have "\<dots> = card (set (map rq_aspect_id (ed_requirements d)))" using aspects by metis
  also have "\<dots> \<le> length (map rq_aspect_id (ed_requirements d))" by (rule card_length)
  finally have lens: "length (ed_covered_aspects d) \<le> 24" "length (ed_open_aspects d) \<le> 24"
    using count by (simp_all add: len_between_def)
  have ids: "set (map cq_aspect_id qs) = set (ed_covered_aspects d) \<union> set (ed_open_aspects d)"
    using aspects qs(2) by (metis set_append)
  have disj: "set (ed_covered_aspects d) \<inter> set (ed_open_aspects d) = {}" using aspects by auto
  have reasons: "length (ed_reason_codes d) \<le> 64" using created_reasons_bound [OF d] by simp
  show ?thesis
    unfolding create_continuation_envelope_def qs(1) ebind_Inr
  proof (rule seal_total [OF P])
    fix i h assume ih: "hex32_id ''cont_'' i" "sha256_ref h"
    have "len_between 1 24 qs" using count qs(3) by (simp add: len_between_def)
    moreover have "hex32_id ''evd_'' (ed_decision_id d)" "sha256_ref (ed_decision_hash d)"
      using dv by (simp_all add: valid_decision_def)
    ultimately show "valid_envelope
       (\<lparr>ce_envelope_id = [], ce_parent_run_id = run, ce_child_run_id = None,
        ce_parent_decision_id = ed_decision_id d, ce_parent_decision_hash = ed_decision_hash d,
        ce_target = target, ce_original_question = question, ce_normalized_scope = scope,
        ce_explicit_requirements = qs,
        ce_covered_aspects = ed_covered_aspects d, ce_open_aspects = ed_open_aspects d,
        ce_inherited_evidence = eo_inherited opts, ce_search_executions = eo_searches opts,
        ce_current_action = ed_action d, ce_reason_codes = ed_reason_codes d,
        ce_contributions = (case eo_contributions opts of None \<Rightarrow> ed_contributions d | Some c \<Rightarrow> c),
        ce_budget = (case eo_budget opts of None \<Rightarrow> default_budget | Some b \<Rightarrow> b),
        ce_failure_state = eo_failure opts, ce_receipt_state = eo_receipt opts,
        ce_side_effect_state = eo_side_effect opts, ce_stop_reason = eo_stop opts,
        ce_envelope_hash = []\<rparr>\<lparr>ce_envelope_id := i, ce_envelope_hash := h\<rparr>)"
      using ih run question sizes effect lens ids disj reasons
      by (simp add: valid_envelope_def)
  qed
qed

section \<open>The loop\<close>

lemma refresh_rounds_effect:
  assumes rounds: "refresh_rounds P refresh now reqs deadline ns s = Inr s'"
    and verified: "verify_integrity P (rs_current s) = Inr ()" and keyed: "coverage_keyed s"
    and cover: "rs_coverage s = dict_of ac_aspect_id (ed_coverage (rs_current s))"
    and start: "rs_rounds s = []" "rs_calls s = []"
  shows "\<exists>k \<le> length (ed_open_aspects (rs_current s)).
      rs_calls s' = calls_of reqs (hd ns) (take k (ed_open_aspects (rs_current s))) \<and>
      rs_remaining s' = rs_remaining s - int k \<and> (0 < k \<longrightarrow> 0 \<le> rs_remaining s') \<and>
      (rs_rounds s' = [] \<and> rs_current s' = rs_current s \<or>
       (\<exists>q. rs_rounds s' = [q] \<and> k = length (ed_open_aspects (rs_current s)) \<and>
          records_round (hd ns) (ed_open_aspects (rs_current s)) (rs_current s') q))"
proof (cases ns)
  case Nil
  with rounds start show ?thesis by (intro exI [of _ 0]) simp
next
  case (Cons n ms)
  let ?open = "ed_open_aspects (rs_current s)"
  obtain s1 go where step: "refresh_round_step P refresh now reqs deadline n s = Inr (s1, go)"
      and rest: "(if go then refresh_rounds P refresh now reqs deadline ms s1 else Inr s1) = Inr s'"
    using rounds Cons by (auto simp: ebind_eq_Inr)
  obtain k where k: "k \<le> length ?open" "rs_calls s1 = calls_of reqs n (take k ?open)"
      "rs_remaining s1 = rs_remaining s - int k" "0 < k \<longrightarrow> 0 \<le> rs_remaining s1" "length (rs_rounds s1) \<le> 1"
      "go \<longrightarrow> rs_fingerprints s1 = rs_fingerprints s @ fingerprints_of P (calls_of reqs n ?open) \<and>
         ed_open_aspects (rs_current s1) \<noteq> [] \<and> set (ed_open_aspects (rs_current s1)) \<subseteq> set ?open"
    using round_effect [OF step verified keyed cover] start by auto
  have recorded: "rs_rounds s1 = [] \<and> rs_current s1 = rs_current s \<or>
      (\<exists>q. rs_rounds s1 = [q] \<and> k = length ?open \<and> records_round n ?open (rs_current s1) q)"
    using round_recorded [OF step] start k(1,2) by (auto dest: arg_cong [of _ _ length])
  have "rs_calls s' = rs_calls s1 \<and> rs_remaining s' = rs_remaining s1 \<and> rs_rounds s' = rs_rounds s1 \<and>
      rs_current s' = rs_current s1"
  proof (cases go)
    case False
    with rest show ?thesis by simp
  next
    case True
    have seen: "fingerprint_of P a (rq_description r) \<in> set (rs_fingerprints s1)"
      if "a \<in> set (ed_open_aspects (rs_current s1))" "map_of reqs a = Some r" for a r
    proof -
      have "a \<in> set ?open" using that(1) k(6) True by auto
      with that(2) show ?thesis
        using k(6) True by (auto simp: fingerprints_of_def calls_of_def image_iff intro!: bexI [of _ a])
    qed
    show ?thesis
    proof (cases ms)
      case Nil
      with rest True show ?thesis by simp
    next
      case (Cons m ls)
      then obtain s2 go2 where step2: "refresh_round_step P refresh now reqs deadline m s1 = Inr (s2, go2)"
          and rest2: "(if go2 then refresh_rounds P refresh now reqs deadline ls s2 else Inr s2) = Inr s'"
        using rest True by (auto simp: ebind_eq_Inr)
      have "ed_open_aspects (rs_current s1) \<noteq> []" using k(6) True by blast
      from exhausted_round [OF step2 this seen] rest2 show ?thesis by auto
    qed
  qed
  with k recorded Cons show ?thesis by (intro exI [of _ k]) simp
qed

text \<open>The current decision of the loop stays verified and about the same question.\<close>

definition on_question :: "platform \<Rightarrow> string \<Rightarrow> refresh_state \<Rightarrow> bool" where
  "on_question P q s \<longleftrightarrow> verify_integrity P (rs_current s) = Inr () \<and> ed_normalized_question (rs_current s) = q"

lemma created_question:
  assumes "create_evidence_decision P v t = Inr d" and "valid_decision_input v"
  shows "ed_normalized_question d = di_normalized_question v"
proof -
  obtain v' where "reordered v v'" "input_from_decision d = Inr v'" using create_fields [OF assms] by metis
  then show ?thesis
    using reordered_facts(9) by (fastforce simp: input_from_decision_def mk_decision_input_def split: if_splits)
qed

lemma round_on_question:
  assumes "refresh_round_step P refresh now reqs deadline n s = Inr (s', go)" and "on_question P q s"
  shows "on_question P q s'"
  using assms(1)
proof (cases rule: step_cases)
  case late
  with assms(2) show ?thesis by (simp add: on_question_def same_evidence_def)
next
  case (stopped obs s0)
  from query_aspects_Inr [OF stopped(1)] have "same_evidence s0 s'" by blast
  with stopped(2) assms(2) show ?thesis by (simp add: on_question_def same_evidence_def)
next
  case (drift obs s0 s1 g s2)
  from query_aspects_Inr [OF drift(1)] have "same_evidence s0 s1" by blast
  then have "rs_current s2 = rs_current s"
    using drift(2) absorb_Inr [OF drift(6)] by (simp add: same_evidence_def)
  with drift(7) assms(2) show ?thesis by (simp add: on_question_def)
next
  case (closed obs s0 s1 g s2 s3 v child t)
  from query_aspects_Inr [OF closed(1)] have "same_evidence s0 s1" by blast
  then have "rs_current s2 = rs_current s"
    using closed(2) absorb_Inr [OF closed(6)] by (simp add: same_evidence_def)
  then have cur: "rs_current s3 = rs_current s" by (simp add: closed(7))
  note input = child_input_Inr [OF closed(8)]
  have "rs_current s' = child" using close_round_fields [OF closed(10)] by blast
  moreover have "verify_integrity P child = Inr ()" by (rule created_verifies [OF closed(9) input(1)])
  moreover have "ed_normalized_question child = q"
    using created_question [OF closed(9) input(1)] input(4) cur assms(2) by (simp add: on_question_def)
  ultimately show ?thesis by (simp add: on_question_def)
qed

lemma rounds_on_question:
  assumes "refresh_rounds P refresh now reqs deadline ns s = Inr s'" and "on_question P q s"
  shows "on_question P q s'"
  using assms
proof (induction ns arbitrary: s)
  case (Cons n ns)
  then obtain s1 go where "refresh_round_step P refresh now reqs deadline n s = Inr (s1, go)"
      "(if go then refresh_rounds P refresh now reqs deadline ns s1 else Inr s1) = Inr s'"
    by (auto simp: ebind_eq_Inr)
  with Cons.IH Cons.prems(2) round_on_question show ?case by (metis (full_types) sum.inject(2))
qed simp

section \<open>Running a refresh\<close>

lemma run_cases:
  assumes "run_targeted_refresh P refresh now d e = Inr (r, calls)"
  obtains (terminal) reason where "validate_parent_binding P d e = Inr ()" "terminal_result P d e reason = Inr r"
      "calls = []" "unsafe_replay_stop e (now 0) = Some reason \<or> unsafe_replay_stop e (now 0) = None \<and> ed_action d \<noteq> Targeted_Refresh"
    | (refreshed) s where "validate_parent_binding P d e = Inr ()" "unsafe_replay_stop e (now 0) = None"
      "ed_action d = Targeted_Refresh"
      "refresh_rounds P refresh now (dict_of rq_aspect_id (ed_requirements d)) (cb_deadline_at (ce_budget e))
         (round_numbers e) (initial_state d e) = Inr s"
      "refreshed_result P e s = Inr r" "calls = rs_calls s"
proof -
  have bound: "validate_parent_binding P d e = Inr ()" using assms by (auto simp: run_targeted_refresh_def ebind_eq_Inr)
  show thesis
  proof (cases "unsafe_replay_stop e (now 0)")
    case (Some reason)
    with assms bound show thesis by (intro terminal [of reason]) (auto simp: run_targeted_refresh_def ebind_eq_Inr)
  next
    case None
    show thesis
    proof (cases "ed_action d = Targeted_Refresh")
      case False
      with assms bound None show thesis
        by (intro terminal [of "if ed_open_aspects d = [] then Stop_Coverage_Complete else Stop_Action_Boundary"])
           (auto simp: run_targeted_refresh_def ebind_eq_Inr)
    next
      case True
      with assms bound None obtain s where "refresh_rounds P refresh now (dict_of rq_aspect_id (ed_requirements d))
          (cb_deadline_at (ce_budget e)) (round_numbers e) (initial_state d e) = Inr s"
          "refreshed_result P e s = Inr r" "calls = rs_calls s"
        by (auto simp: run_targeted_refresh_def ebind_eq_Inr)
      with bound None True show thesis by (intro refreshed) simp_all
    qed
  qed
qed

lemma terminal_Inr:
  assumes "terminal_result P d e reason = Inr r"
  shows "xr_final_decision r = d" and "xr_rounds r = []" and "xr_stop_reason r = reason"
    and "create_continuation_envelope P (ce_parent_run_id e) d (ce_target e) (ce_original_question e)
       (ce_normalized_scope e)
       (follow_up_options e (ce_search_executions e) (ce_budget e) (ce_failure_state e) reason) = Inr (xr_envelope r)"
  using assms by (auto simp: terminal_result_def ebind_eq_Inr)

lemma refreshed_Inr:
  assumes "refreshed_result P e s = Inr r"
  obtains budget where "xr_final_decision r = rs_current s" and "xr_rounds r = rs_rounds s" and "xr_stop_reason r = rs_stop s"
    and "budget = \<lparr>cb_refresh_rounds_completed =
         min (cb_refresh_rounds_completed (ce_budget e) + int (length (rs_rounds s))) MAX_REFRESH_ROUNDS,
         cb_remaining_tool_calls = rs_remaining s, cb_deadline_at = cb_deadline_at (ce_budget e)\<rparr>"
    and "valid_continuation_budget budget"
    and "create_continuation_envelope P (ce_parent_run_id e) (rs_current s) (ce_target e) (ce_original_question e)
       (ce_normalized_scope e)
       (follow_up_options e (rs_searches s) budget (rs_failure s) (rs_stop s)) = Inr (xr_envelope r)"
  using assms by (auto simp: refreshed_result_def mk_budget_def ebind_eq_Inr split: if_splits)

lemma envelope_budget:
  "create_continuation_envelope P run d target question scope (follow_up_options e searches budget failure stop) = Inr e' \<Longrightarrow>
   ce_budget e' = budget"
  using create_envelope_Inr(10) by (fastforce simp: follow_up_options_def)

lemma initial_cover:
  "coverage_keyed (initial_state d e)"
  "rs_coverage (initial_state d e) = dict_of ac_aspect_id (ed_coverage (rs_current (initial_state d e)))"
proof -
  have "ac_aspect_id c = k" if "map_of (dict_of ac_aspect_id cs) k = Some c" for cs :: "aspect_coverage list" and k c
    using that by (auto simp: map_of_dict_of find_Some_iff)
  then show "coverage_keyed (initial_state d e)" by (simp add: coverage_keyed_def initial_state_def)
  show "rs_coverage (initial_state d e) = dict_of ac_aspect_id (ed_coverage (rs_current (initial_state d e)))"
    by (simp add: initial_state_def)
qed

section \<open>A sample continuation\<close>

text \<open>
  A platform that tells a root decision's identity text from a child's by its length, so that a
  child of the sample decision has another id than its parent.
\<close>

definition parent_platform :: platform where
  "parent_platform =
     \<lparr>sha256_hexdigest = (\<lambda>s. if length s = 306 then replicate 64 CHR ''a'' else replicate 64 CHR ''b''),
      json_datetime = (\<lambda>_. ''t'')\<rparr>"

lemma parent_platform [simp]: "sha256_platform parent_platform"
  by (simp add: sha256_platform_def parent_platform_def hex_text_def lower_hex_def)

definition sample_hashes :: "string list" where
  "sample_hashes = [''sha256:'' @ replicate 64 CHR ''a'', ''sha256:'' @ replicate 64 CHR ''b'']"

lemma parent_hash: "sha256_identity parent_platform x \<in> set sample_hashes"
  by (simp add: sha256_identity_def parent_platform_def sample_hashes_def)

definition root_id :: string where
  "root_id = ''evd_'' @ replicate 32 CHR ''a''"

lemma root_ids: "list_all (\<lambda>h. list_all (\<lambda>g. decision_id_of parent_platform None h g = root_id) sample_hashes) sample_hashes"
  by code_simp

lemma child_ids: "list_all (\<lambda>h. list_all (\<lambda>g. decision_id_of parent_platform (Some root_id) h g \<noteq> root_id) sample_hashes) sample_hashes"
  by code_simp

definition open_input :: evidence_decision_input where
  "open_input = sample_input\<lparr>di_coverage :=
     [\<lparr>ac_aspect_id = ''b'', ac_status = Open_Aspect, ac_authority_references = [], ac_explanation = ''missing''\<rparr>,
      \<lparr>ac_aspect_id = ''a'', ac_status = Covered, ac_authority_references = [sample_reference],
          ac_explanation = ''found''\<rparr>], di_contributions := []\<rparr>"

lemma open_input_wf: "wf_input open_input"
  by (simp add: wf_input_def open_input_def sample_input_def valid_decision_input_def len_between_def inferred_count_def
      MAX_REQUIREMENTS_def MAX_CONFLICTS_def MAX_SEMANTIC_ADVICE_def MAX_INFERRED_REQUIREMENTS_def
      valid_scope_def sha256_ref_def sample_hash_def hex_text_def lower_hex_def valid_freshness_def
      valid_new_material_check_def aware_def sample_time_def valid_requirement_def bound_precedence_def
      valid_coverage_def sample_reference_def insert_commute)

lemma open_input_valid: "valid_decision_input open_input"
  using open_input_wf by (simp add: wf_input_def)

definition plain_options :: envelope_options where
  "plain_options = \<lparr>eo_inherited = [], eo_searches = [], eo_budget = None, eo_failure = F_None,
     eo_receipt = RS_Not_Applicable, eo_side_effect = SE_None, eo_stop = None, eo_contributions = None\<rparr>"

text \<open>A search that goes well and finds nothing.\<close>

definition quiet_refresh :: refresh_callback where
  "quiet_refresh call aspect query n = Inr \<lparr>ob_aspect_id = aspect, ob_aspect_complete = False,
     ob_authority_references = [], ob_dropped_reference_ids = [], ob_search_executions = [], ob_conflicts = [],
     ob_failure_state = F_None, ob_receipt_state = RS_Not_Applicable, ob_side_effect_state = SE_None\<rparr>"

lemma open_resolved:
  "resolved_input open_input = Inr (open_input\<lparr>di_requirements := rev (di_requirements open_input),
     di_coverage := rev (di_coverage open_input)\<rparr>)"
  by (simp add: resolved_input_def resolve_requirements_def open_input_def sample_input_def sort_key_def
      requirement_key_def MAX_REQUIREMENTS_def MAX_INFERRED_REQUIREMENTS_def inferred_count_def dict_of_def key_lookup_def)

lemma root_created:
  assumes "create_evidence_decision parent_platform v t = Inr d" and "resolved_input v = Inr v'"
    and "di_parent_decision_id v' = None"
  obtains gates sel h where "d = (decision_payload parent_platform v' gates sel t)\<lparr>ed_decision_hash := h\<rparr>"
    and "ed_decision_id d = root_id"
proof -
  obtain gates sel where c: "seal_decision parent_platform (decision_payload parent_platform v' gates sel t) = Inr d"
    using create_Inr [OF assms(1)] assms(2) by fastforce
  from seal_Inr [OF c] obtain h where h: "d = (decision_payload parent_platform v' gates sel t)\<lparr>ed_decision_hash := h\<rparr>"
    by blast
  have "decision_id_of parent_platform None h g = root_id"
    if "h \<in> set sample_hashes" and "g \<in> set sample_hashes" for h g
    using root_ids that by (simp add: list_all_iff)
  then have "decision_id_of parent_platform None (sha256_identity parent_platform x)
      (sha256_identity parent_platform y) = root_id" for x y
    using parent_hash by blast
  then have "ed_decision_id d = root_id" by (simp add: h assms(3))
  with h show thesis by (rule that)
qed

definition open_requirement :: evidence_requirement where
  "open_requirement = \<lparr>rq_aspect_id = ''b'', rq_description = ''second'', rq_origin = Bounded_Inference, rq_precedence = 2\<rparr>"

lemma open_created:
  obtains d where "create_evidence_decision parent_platform open_input sample_time = Inr d"
    and "verify_integrity parent_platform d = Inr ()" and "ed_action d = Targeted_Refresh"
    and "ed_open_aspects d = [''b'']" and "ed_decision_id d = root_id"
    and "ed_coverage d = rev (di_coverage open_input)" and "ed_requirements d = rev (di_requirements open_input)"
    and "ed_conflicts d = []" and "ed_contributions d = []" and "ed_semantic_advice d = []"
    and "ed_normalized_question d = ''what changed''" and "ed_scope d = di_scope open_input"
    and "ed_library_freshness d = di_library_freshness open_input"
proof -
  have "validate_time_causality open_input sample_time = Inr ()"
    by (simp add: validate_time_causality_def open_input_def sample_input_def later_def)
  then obtain d where d: "create_evidence_decision parent_platform open_input sample_time = Inr d"
    using create_total [OF open_input_valid parent_platform, of sample_time]
    by (auto simp: open_input_def sample_input_def sample_time_def aware_def)
  have "spec_action open_input = Targeted_Refresh"
    by (simp add: spec_action_def clear_request_def open_input_def sample_input_def blocking_conflict_def trusted_def
        all_references_def eligible_iff sample_reference_def complete_coverage_def safe_references_def)
  then have action: "ed_action d = Targeted_Refresh" using create_resolved [OF d open_input_valid] by metis
  have parentless: "di_parent_decision_id (open_input\<lparr>di_requirements := rev (di_requirements open_input),
     di_coverage := rev (di_coverage open_input)\<rparr>) = None" by (simp add: open_input_def sample_input_def)
  obtain gates sel h where h: "d = (decision_payload parent_platform (open_input\<lparr>di_requirements := rev (di_requirements open_input),
     di_coverage := rev (di_coverage open_input)\<rparr>) gates sel sample_time)\<lparr>ed_decision_hash := h\<rparr>"
    and id: "ed_decision_id d = root_id"
    by (rule root_created [OF d open_resolved parentless])
  have fields: "ed_coverage d = rev (di_coverage open_input)" "ed_requirements d = rev (di_requirements open_input)"
    "ed_conflicts d = []" "ed_contributions d = []" "ed_semantic_advice d = []"
    "ed_normalized_question d = ''what changed''" "ed_scope d = di_scope open_input"
    "ed_library_freshness d = di_library_freshness open_input"
    by (simp_all add: h) (simp_all add: open_input_def sample_input_def)
  have "ed_open_aspects d = [''b'']"
    by (simp add: h open_aspects_def covered_aspects_def open_input_def sample_input_def aspect_covered_def
        sample_reference_def eligible_iff)
  from that [OF d created_verifies [OF d open_input_valid] action this id fields] show thesis .
qed

text \<open>The decision after the quiet round: the open aspect is still open, under a new explanation.\<close>

definition quiet_coverage :: "aspect_coverage list" where
  "quiet_coverage =
     [\<lparr>ac_aspect_id = ''a'', ac_status = Covered, ac_authority_references = [sample_reference], ac_explanation = ''found''\<rparr>,
      \<lparr>ac_aspect_id = ''b'', ac_status = Open_Aspect, ac_authority_references = [],
       ac_explanation = ''targeted refresh over the canonical open aspect''\<rparr>]"

definition quiet_input :: evidence_decision_input where
  "quiet_input = open_input\<lparr>di_parent_decision_id := Some root_id, di_requirements := rev (di_requirements open_input),
     di_coverage := quiet_coverage, di_library_freshness := \<lparr>lf_status = Fresh,
       lf_check = \<lparr>nm_status = No_Relevant_New_Material, nm_recorded_check_time = sample_time,
         nm_previous_check_time = Some sample_time,
         nm_bounded_query_hash = sha256_identity parent_platform (JObj [(''round'', JInt 1), (''open_aspects'', strs [''b''])]),
         nm_candidate_reference_ids = [], nm_relevant_material_reference_ids = []\<rparr>\<rparr>\<rparr>"

lemma sample_hash_ref: "sha256_ref sample_hash"
  by (simp add: sha256_ref_def sample_hash_def hex_text_def lower_hex_def)

lemma root_hex: "hex32_id ''evd_'' root_id"
  by (simp add: root_id_def hex32_id_def hex_text_def lower_hex_def)

lemma quiet_input_wf: "wf_input quiet_input"
  by (simp add: wf_input_def quiet_input_def quiet_coverage_def open_input_def sample_input_def valid_decision_input_def
      len_between_def inferred_count_def MAX_REQUIREMENTS_def MAX_CONFLICTS_def MAX_SEMANTIC_ADVICE_def
      MAX_INFERRED_REQUIREMENTS_def root_hex sample_hash_ref valid_scope_def valid_freshness_def
      valid_new_material_check_def aware_def sample_time_def later_def valid_requirement_def bound_precedence_def
      valid_coverage_def sample_reference_def insert_commute)

lemma quiet_created:
  obtains child where "create_evidence_decision parent_platform quiet_input sample_time = Inr child"
proof -
  have valid: "valid_decision_input quiet_input" using quiet_input_wf by (simp add: wf_input_def)
  have "decision_id_of parent_platform (Some root_id) h g \<noteq> root_id"
    if "h \<in> set sample_hashes" and "g \<in> set sample_hashes" for h g
    using child_ids that by (simp add: list_all_iff)
  then have fresh: "decision_id_of parent_platform (Some p) (sha256_identity parent_platform x)
      (sha256_identity parent_platform y) \<noteq> p" if "di_parent_decision_id quiet_input = Some p" for p x y
    using that parent_hash by (auto simp: quiet_input_def)
  have "validate_time_causality quiet_input sample_time = Inr ()"
    by (simp add: quiet_input_def open_input_def sample_input_def validate_time_causality_def later_def)
  moreover have "aware sample_time" by (simp add: sample_time_def aware_def)
  ultimately show thesis using that create_total_child [OF valid parent_platform _ fresh] by blast
qed

lemma open_envelope:
  assumes "create_evidence_decision parent_platform open_input sample_time = Inr d"
  obtains e where "create_continuation_envelope parent_platform ''run'' d T_Deep ''what changed'' [] plain_options = Inr e"
proof -
  have "\<exists>e. create_continuation_envelope parent_platform ''run'' d T_Deep ''what changed'' [] plain_options = Inr e"
    by (rule envelope_for_decision [OF parent_platform assms open_input_wf])
       (simp_all add: plain_options_def len_between_def)
  then show thesis using that by blast
qed

text \<open>One round is recorded: the loop stops because nothing new was found.\<close>

lemma quiet_round:
  assumes d: "ed_open_aspects d = [''b'']" "ed_decision_id d = root_id"
    "ed_coverage d = rev (di_coverage open_input)" "ed_requirements d = rev (di_requirements open_input)"
    "ed_conflicts d = []" "ed_contributions d = []" "ed_semantic_advice d = []"
    "ed_normalized_question d = ''what changed''" "ed_scope d = di_scope open_input"
    "ed_library_freshness d = di_library_freshness open_input"
    and e: "ce_budget e = default_budget" "ce_search_executions e = []"
    and child: "create_evidence_decision parent_platform quiet_input sample_time = Inr child"
  obtains s where "refresh_rounds parent_platform quiet_refresh (\<lambda>_. sample_time) (dict_of rq_aspect_id (ed_requirements d))
      (cb_deadline_at (ce_budget e)) (round_numbers e) (initial_state d e) = Inr s"
    and "rs_calls s = [(''b'', ''second'', 1)]" and "rs_current s = child" and "length (rs_rounds s) = 1"
    and "rs_remaining s = 11" and "rs_searches s = []" and "rs_failure s = F_Evidence_Insufficient"
proof -
  have nums: "round_numbers e = [1, 2, 3]"
    by (simp add: round_numbers_def e default_budget_def MAX_REFRESH_ROUNDS_def upto.simps)
  define s3 where "s3 = (initial_state d e)\<lparr>rs_fingerprints := [fingerprint_of parent_platform ''b'' ''second''],
     rs_remaining := 11, rs_calls := [(''b'', ''second'', 1)],
     rs_coverage := AList.update ''b'' (quiet_coverage ! 1) (dict_of ac_aspect_id (ed_coverage d)),
     rs_stop := Stop_No_New_Eligible_Evidence, rs_failure := F_Evidence_Insufficient\<rparr>"
  define g where "g = \<lparr>ga_new = [], ga_dropped = [], ga_drift = False, ga_conflicts = []\<rparr>"
  have coverage: "emap (\<lambda>r. key_lookup (rs_coverage s3) (rq_aspect_id r)) (ed_requirements d) = Inr quiet_coverage"
    by (simp add: s3_def initial_state_def d quiet_coverage_def open_input_def sample_input_def dict_of_def key_lookup_def)
  have current: "rs_current s3 = d" "rs_contributions s3 = []" by (simp_all add: s3_def initial_state_def d)
  have prior: "nm_recorded_check_time (lf_check (ed_library_freshness d)) = sample_time"
    by (simp add: d open_input_def sample_input_def)
  have valid: "valid_new_material_check (lf_check (di_library_freshness quiet_input))" "valid_decision_input quiet_input"
    using quiet_input_wf by (simp_all add: wf_input_def)
  have same: "quiet_input = \<lparr>di_normalized_question = ''what changed'', di_parent_decision_id = Some root_id,
      di_requirements = rev (di_requirements open_input), di_scope = di_scope open_input, di_coverage = quiet_coverage,
      di_library_freshness = di_library_freshness quiet_input, di_conflicts = [], di_contributions = [],
      di_semantic_advice = []\<rparr>"
    by (simp add: quiet_input_def open_input_def sample_input_def)
  have "child_input parent_platform 1 sample_time g s3 = mk_decision_input quiet_input"
    using valid(1)
    by (subst same) (simp add: child_input_def current prior [unfolded d(10)] coverage [unfolded d(4)] d g_def dedupe_contributions_def dict_of_def quiet_input_def Let_def)
  then have input: "child_input parent_platform 1 sample_time g s3 = Inr quiet_input"
    using valid(2) by (simp add: mk_decision_input_def)
  define ob where "ob = \<lparr>ob_aspect_id = ''b'', ob_aspect_complete = False,
     ob_authority_references = [], ob_dropped_reference_ids = [], ob_search_executions = [], ob_conflicts = [],
     ob_failure_state = F_None, ob_receipt_state = RS_Not_Applicable, ob_side_effect_state = SE_None\<rparr>"
  define s1 where "s1 = (initial_state d e)\<lparr>rs_fingerprints := [fingerprint_of parent_platform ''b'' ''second''],
     rs_remaining := 11, rs_calls := [(''b'', ''second'', 1)]\<rparr>"
  define s2 where "s2 = s1\<lparr>rs_coverage := AList.update ''b'' (quiet_coverage ! 1) (dict_of ac_aspect_id (ed_coverage d))\<rparr>"
  have start: "rs_current (initial_state d e) = d" by (simp add: initial_state_def)
  have described: "map_of (dict_of rq_aspect_id (ed_requirements d)) ''b'' = Some open_requirement"
    by (simp add: d open_input_def sample_input_def dict_of_def open_requirement_def)
  have asked: "query_aspects parent_platform quiet_refresh (dict_of rq_aspect_id (ed_requirements d)) 1 [''b''] []
      (initial_state d e) = Inr ([ob], s1, False)"
    by (simp add: key_lookup_def described) (simp add: open_requirement_def quiet_refresh_def observation_stop_def ob_def s1_def
        initial_state_def e default_budget_def Let_def)
  have prior_b: "map_of (dict_of ac_aspect_id (ed_coverage d)) ''b'' = Some \<lparr>ac_aspect_id = ''b'', ac_status = Open_Aspect,
      ac_authority_references = [], ac_explanation = ''missing''\<rparr>"
    by (simp add: d open_input_def sample_input_def dict_of_def)
  have refreshed: "refreshed_coverage ob \<lparr>ac_aspect_id = ''b'', ac_status = Open_Aspect, ac_authority_references = [],
      ac_explanation = ''missing''\<rparr> [] = Inr (quiet_coverage ! 1)"
    by (simp add: refreshed_coverage_def ob_def quiet_coverage_def dict_of_def valid_coverage_def len_between_def Let_def)
  have absorbed: "absorb [ob] (g, s1) = Inr (g, s2)"
    using refreshed prior_b
    by (simp add: ob_def s1_def s2_def g_def key_lookup_def initial_state_def)
  have s3: "s3 = s2\<lparr>rs_stop := Stop_No_New_Eligible_Evidence, rs_failure := F_Evidence_Insufficient\<rparr>"
    by (simp add: s3_def s2_def s1_def)
  obtain s where s: "close_round 1 [ob] g True child (tick s3) = (s, False)" by (simp add: close_round_def Let_def)
  have deadline: "cb_deadline_at (ce_budget e) = None" by (simp add: e default_budget_def)
  have conflicts: "\<lparr>ga_new = [], ga_dropped = [], ga_drift = False, ga_conflicts = ed_conflicts (rs_current s1)\<rparr> = g"
    by (simp add: g_def s1_def start d)
  have g: "ga_new g = []" "ga_drift g = False" "ga_conflicts g = []" by (simp_all add: g_def)
  have "refresh_round_step parent_platform quiet_refresh (\<lambda>_. sample_time) (dict_of rq_aspect_id (ed_requirements d))
      None 1 (initial_state d e) = Inr (s, False)"
    using input child s
    by (simp add: refresh_round_step_def deadline_passed_def start d(1) asked conflicts absorbed g s3 blocking_conflict_def Let_def
        del: query_aspects.simps absorb.simps)
  then have loop: "refresh_rounds parent_platform quiet_refresh (\<lambda>_. sample_time) (dict_of rq_aspect_id (ed_requirements d))
      (cb_deadline_at (ce_budget e)) (round_numbers e) (initial_state d e) = Inr s"
    by (simp add: nums deadline)
  have fields: "rs_calls s = [(''b'', ''second'', 1)]" "rs_current s = child" "length (rs_rounds s) = 1" "rs_remaining s = 11"
      "rs_searches s = []" "rs_failure s = F_Evidence_Insufficient"
    using s by (auto simp: close_round_def Let_def tick_def s3_def initial_state_def e)
  show thesis by (rule that [OF loop fields])
qed

lemma quiet_run:
  obtains d e r where "verify_integrity parent_platform d = Inr ()"
    and "ce_budget e = default_budget" and "xr_rounds r \<noteq> []"
    and "run_targeted_refresh parent_platform quiet_refresh (\<lambda>_. sample_time) d e = Inr (r, [(''b'', ''second'', 1)])"
proof -
  obtain d where d: "create_evidence_decision parent_platform open_input sample_time = Inr d"
    "verify_integrity parent_platform d = Inr ()" "ed_action d = Targeted_Refresh"
    "ed_open_aspects d = [''b'']" "ed_decision_id d = root_id"
    "ed_coverage d = rev (di_coverage open_input)" "ed_requirements d = rev (di_requirements open_input)"
    "ed_conflicts d = []" "ed_contributions d = []" "ed_semantic_advice d = []"
    "ed_normalized_question d = ''what changed''" "ed_scope d = di_scope open_input"
    "ed_library_freshness d = di_library_freshness open_input"
    by (rule open_created)
  obtain e where e: "create_continuation_envelope parent_platform ''run'' d T_Deep ''what changed'' [] plain_options = Inr e"
    by (rule open_envelope [OF d(1)])
  note env = create_envelope_Inr [OF e]
  have budget: "ce_budget e = default_budget" using env(10) by (simp add: plain_options_def)
  have searches: "ce_search_executions e = []"
    using e by (auto simp: create_continuation_envelope_def ebind_eq_Inr plain_options_def dest!: seal_Inr_fields(1))
  have bound: "validate_parent_binding parent_platform d e = Inr ()"
    using env(2-5) d(11) by (simp add: validate_parent_binding_def)
  have safe: "unsafe_replay_stop e sample_time = None"
    using env(13-15) budget by (simp add: unsafe_replay_stop_def plain_options_def default_budget_def deadline_passed_def MAX_REFRESH_ROUNDS_def)
  obtain child where child: "create_evidence_decision parent_platform quiet_input sample_time = Inr child"
    by (rule quiet_created)
  obtain s where loop: "refresh_rounds parent_platform quiet_refresh (\<lambda>_. sample_time) (dict_of rq_aspect_id (ed_requirements d))
      (cb_deadline_at (ce_budget e)) (round_numbers e) (initial_state d e) = Inr s"
    and s: "rs_calls s = [(''b'', ''second'', 1)]" "rs_current s = child" "length (rs_rounds s) = 1"
    "rs_remaining s = 11" "rs_searches s = []" "rs_failure s = F_Evidence_Insufficient"
    by (rule quiet_round [OF d(4-13) budget searches child])
  define budget' where "budget' = \<lparr>cb_refresh_rounds_completed = 1, cb_remaining_tool_calls = 11, cb_deadline_at = None\<rparr>"
  have "\<exists>e'. create_continuation_envelope parent_platform (ce_parent_run_id e) child (ce_target e) (ce_original_question e)
       (ce_normalized_scope e) (follow_up_options e [] budget' (rs_failure s) (rs_stop s)) = Inr e'"
    by (rule envelope_for_decision [OF parent_platform child quiet_input_wf])
       (use env(1,15) in \<open>simp_all add: valid_envelope_def follow_up_options_def plain_options_def\<close>)
  then obtain r where r: "refreshed_result parent_platform e s = Inr r" "xr_rounds r = rs_rounds s"
    by (auto simp: refreshed_result_def s budget default_budget_def budget'_def mk_budget_def
        valid_continuation_budget_def MAX_REFRESH_ROUNDS_def ebind_def)
  have "run_targeted_refresh parent_platform quiet_refresh (\<lambda>_. sample_time) d e = Inr (r, [(''b'', ''second'', 1)])"
    using bound safe d(3) loop r(1) by (simp add: run_targeted_refresh_def s(1))
  moreover have "xr_rounds r \<noteq> []" using r(2) s(3) by auto
  ultimately show thesis using that d(2) budget by blast
qed

section \<open>Properties\<close>

text \<open>
  C28: a refresh searches each open aspect at most once and accounts for it. For a decision that verifies,
  the callback is invoked for a prefix of its open aspects, in their order, with the description of the
  requirement and the number of the round, never more often than tool calls remain. Either no round is
  recorded and the decision stays, or exactly one is: it has the next round number, asked every open
  aspect and names the new decision. The follow-up budget is lower by the calls and its count of
  completed rounds higher by the recorded rounds, exactly.
\<close>

theorem refresh_searches_open_once:
  assumes "verify_integrity P d = Inr ()" and "run_targeted_refresh P refresh now d e = Inr (r, calls)"
  shows "(\<exists>k \<le> length (ed_open_aspects d). calls =
      calls_of (dict_of rq_aspect_id (ed_requirements d)) (cb_refresh_rounds_completed (ce_budget e) + 1)
        (take k (ed_open_aspects d))) \<and>
    (calls \<noteq> [] \<longrightarrow> int (length calls) \<le> cb_remaining_tool_calls (ce_budget e)) \<and>
    (xr_rounds r = [] \<and> xr_final_decision r = d \<or>
     (\<exists>q. xr_rounds r = [q] \<and> length calls = length (ed_open_aspects d) \<and>
        records_round (cb_refresh_rounds_completed (ce_budget e) + 1) (ed_open_aspects d) (xr_final_decision r) q)) \<and>
    cb_remaining_tool_calls (ce_budget (xr_envelope r)) =
      cb_remaining_tool_calls (ce_budget e) - int (length calls) \<and>
    cb_refresh_rounds_completed (ce_budget (xr_envelope r)) =
      cb_refresh_rounds_completed (ce_budget e) + int (length (xr_rounds r))"
  using assms(2)
proof (cases rule: run_cases)
  case (terminal reason)
  have "ce_budget (xr_envelope r) = ce_budget e" by (rule envelope_budget [OF terminal_Inr(4) [OF terminal(2)]])
  with terminal(3) terminal_Inr(1,2) [OF terminal(2)] show ?thesis by (intro conjI exI [of _ 0]) simp_all
next
  case (refreshed s)
  let ?s0 = "initial_state d e" and ?done = "cb_refresh_rounds_completed (ce_budget e)"
  have start: "rs_current ?s0 = d" "rs_rounds ?s0 = []" "rs_calls ?s0 = []"
      "rs_remaining ?s0 = cb_remaining_tool_calls (ce_budget e)" by (simp_all add: initial_state_def)
  have fewer: "?done < MAX_REFRESH_ROUNDS" using refreshed(2) by (auto simp: unsafe_replay_stop_def split: if_splits)
  then have first: "hd (round_numbers e) = ?done + 1" by (simp add: round_numbers_def upto_rec1)
  have "verify_integrity P (rs_current ?s0) = Inr ()" using assms(1) start(1) by simp
  from refresh_rounds_effect [OF refreshed(4) this initial_cover start(2,3)]
  obtain k where k: "k \<le> length (ed_open_aspects d)"
      "calls = calls_of (dict_of rq_aspect_id (ed_requirements d)) (?done + 1) (take k (ed_open_aspects d))"
      "rs_remaining s = cb_remaining_tool_calls (ce_budget e) - int k" "0 < k \<longrightarrow> 0 \<le> rs_remaining s"
    and rounds: "rs_rounds s = [] \<and> rs_current s = d \<or> (\<exists>q. rs_rounds s = [q] \<and> k = length (ed_open_aspects d) \<and>
          records_round (?done + 1) (ed_open_aspects d) (rs_current s) q)"
    using start refreshed(6) first by auto
  have len: "length calls = k" using k(1,2) by simp
  from refreshed_Inr [OF refreshed(5)] obtain budget where b: "xr_rounds r = rs_rounds s" "xr_final_decision r = rs_current s"
      "budget = \<lparr>cb_refresh_rounds_completed = min (?done + int (length (rs_rounds s))) MAX_REFRESH_ROUNDS,
         cb_remaining_tool_calls = rs_remaining s, cb_deadline_at = cb_deadline_at (ce_budget e)\<rparr>"
      "ce_budget (xr_envelope r) = budget"
    using envelope_budget by metis
  have "?done + int (length (rs_rounds s)) \<le> MAX_REFRESH_ROUNDS" using rounds fewer by auto
  then have "cb_refresh_rounds_completed (ce_budget (xr_envelope r)) = ?done + int (length (rs_rounds s))"
    by (simp add: b(3,4))
  with k len b rounds show ?thesis by auto
qed

text \<open>A search without a finding records one round of one call.\<close>

lemma refresh_searches_open_once_witness:
  "\<exists>d e r. run_targeted_refresh parent_platform quiet_refresh (\<lambda>_. sample_time) d e = Inr (r, [(''b'', ''second'', 1)]) \<and>
     (\<exists>q. xr_rounds r = [q] \<and> rr_round_number q = 1) \<and>
     cb_remaining_tool_calls (ce_budget (xr_envelope r)) = 11 \<and>
     cb_refresh_rounds_completed (ce_budget (xr_envelope r)) = 1"
proof -
  obtain d e r where "verify_integrity parent_platform d = Inr ()" and e: "ce_budget e = default_budget" "xr_rounds r \<noteq> []"
    and run: "run_targeted_refresh parent_platform quiet_refresh (\<lambda>_. sample_time) d e = Inr (r, [(''b'', ''second'', 1)])"
    by (rule quiet_run)
  from refresh_searches_open_once [OF this(1) run] e
  obtain q where "xr_rounds r = [q]" "rr_round_number q = 1" "cb_remaining_tool_calls (ce_budget (xr_envelope r)) = 11"
      "cb_refresh_rounds_completed (ce_budget (xr_envelope r)) = 1"
    by (auto simp: default_budget_def records_round_def)
  with run show ?thesis by blast
qed

text \<open>
  A refresh result can be continued. The final decision verifies and answers the same question,
  and the new envelope verifies, is bound to it, carries its aspects, action and the stop reason,
  and keeps the target, scope, receipt and side-effect state of the old one.
\<close>

lemma refresh_result_is_bound:
  assumes "verify_integrity P d = Inr ()" and "run_targeted_refresh P refresh now d e = Inr (r, calls)"
  shows "verify_integrity P (xr_final_decision r) = Inr () \<and>
    validate_parent_binding P (xr_final_decision r) (xr_envelope r) = Inr () \<and>
    valid_envelope (xr_envelope r) \<and>
    ce_open_aspects (xr_envelope r) = ed_open_aspects (xr_final_decision r) \<and>
    ce_covered_aspects (xr_envelope r) = ed_covered_aspects (xr_final_decision r) \<and>
    ce_current_action (xr_envelope r) = ed_action (xr_final_decision r) \<and>
    ce_stop_reason (xr_envelope r) = Some (xr_stop_reason r) \<and>
    ce_target (xr_envelope r) = ce_target e \<and> ce_normalized_scope (xr_envelope r) = ce_normalized_scope e \<and>
    ce_receipt_state (xr_envelope r) = ce_receipt_state e \<and>
    ce_side_effect_state (xr_envelope r) = ce_side_effect_state e"
proof -
  have shape: "?thesis" if final: "verify_integrity P f = Inr ()" "ed_normalized_question f = ce_original_question e"
      and res: "xr_final_decision r = f" "xr_stop_reason r = stop"
      and env: "create_continuation_envelope P (ce_parent_run_id e) f (ce_target e) (ce_original_question e)
       (ce_normalized_scope e) (follow_up_options e searches budget failure stop) = Inr (xr_envelope r)"
    for f stop searches budget failure
    using create_envelope_Inr [OF env] final
    by (simp add: res validate_parent_binding_def follow_up_options_def)
  have question: "ed_normalized_question d = ce_original_question e" if "validate_parent_binding P d e = Inr ()"
    using that by (auto simp: validate_parent_binding_def ebind_eq_Inr split: if_splits)
  from assms(2) show ?thesis
  proof (cases rule: run_cases)
    case (terminal reason)
    note t = terminal_Inr [OF terminal(2)]
    show ?thesis by (rule shape [OF assms(1) question [OF terminal(1)] t(1,3,4)])
  next
    case (refreshed s)
    have "on_question P (ce_original_question e) (initial_state d e)"
      using assms(1) question [OF refreshed(1)] by (simp add: on_question_def initial_state_def)
    from rounds_on_question [OF refreshed(4) this]
    have final: "verify_integrity P (rs_current s) = Inr ()" "ed_normalized_question (rs_current s) = ce_original_question e"
      by (simp_all add: on_question_def)
    obtain budget where r: "xr_final_decision r = rs_current s" "xr_stop_reason r = rs_stop s"
        "create_continuation_envelope P (ce_parent_run_id e) (rs_current s) (ce_target e) (ce_original_question e)
       (ce_normalized_scope e) (follow_up_options e (rs_searches s) budget (rs_failure s) (rs_stop s)) = Inr (xr_envelope r)"
      using refreshed_Inr [OF refreshed(5)] by metis
    show ?thesis by (rule shape [OF final r])
  qed
qed

text \<open>
  An unsafe envelope starts no search. When the envelope records an unknown side effect, an
  interruption, an in-flight or unknown receipt, a passed deadline, no tool calls or no rounds
  left, a run performs no callback and records no round, and returns the decision it was given.
\<close>

lemma unsafe_envelope_searches_nothing:
  assumes "unsafe_replay_stop e (now 0) \<noteq> None" and "run_targeted_refresh P refresh now d e = Inr (r, calls)"
  shows "calls = [] \<and> xr_rounds r = [] \<and> xr_final_decision r = d \<and>
    Some (xr_stop_reason r) = unsafe_replay_stop e (now 0)"
proof -
  have stop: "xr_stop_reason r = the (unsafe_replay_stop e (now 0))"
    using assms by (auto simp: run_targeted_refresh_def ebind_eq_Inr terminal_result_def)
  from assms(2) show ?thesis
  proof (cases rule: run_cases)
    case (terminal reason)
    with assms(1) stop terminal_Inr(1,2) [OF terminal(2)] show ?thesis by auto
  next
    case (refreshed s)
    with assms(1) show ?thesis by simp
  qed
qed

text \<open>
  Only the frozen continuation is consumed. When the consumption check accepts, the decision
  verifies and is the envelope's parent, the envelope verifies and is returned unchanged, the current,
  original and decided questions normalise to the same text, the current scope and the scope the
  decision was made for have the envelope's canonical scope, the target is the service's, and no
  unknown side effect, interruption or open receipt makes a replay unsafe.
\<close>

lemma consumption_admits_frozen_only:
  assumes "validate_continuation_consumption P nfkc d e question scope target t = Inr v"
  shows "v = e \<and> verify_integrity P d = Inr () \<and> verify_envelope P e = Inr () \<and> valid_envelope e \<and>
    ce_parent_decision_id e = ed_decision_id d \<and> ce_parent_decision_hash e = ed_decision_hash d \<and>
    (\<exists>q. normalize_question nfkc question = Inr q \<and> normalize_question nfkc (ce_original_question e) = Inr q \<and>
         normalize_question nfkc (ed_normalized_question d) = Inr q) \<and>
    canonical_json (strip_none (JObj scope)) = canonical_json (strip_none (JObj (ce_normalized_scope e))) \<and>
    sc_requested_scope_hash (ed_scope d) = scope_hash P (strip_none (JObj (ce_normalized_scope e))) \<and>
    ce_target e = target \<and> ce_side_effect_state e \<noteq> SE_Unknown \<and>
    ce_failure_state e \<notin> {F_Unknown_Side_Effect, F_Interrupted} \<and>
    ce_receipt_state e \<notin> {RS_In_Flight, RS_Unknown}"
proof -
  obtain dump where ser: "serialize_evidence_decision P d = Inr dump"
    using assms by (auto simp: validate_continuation_consumption_def split: sum.splits)
  then have ver: "verify_integrity P d = Inr ()" by (auto simp: serialize_evidence_decision_def ebind_eq_Inr)
  note body = assms [unfolded validate_continuation_consumption_def ser sum.case]
  obtain w where w: "reparse_envelope P e = Inr w" using body by (auto simp: ebind_eq_Inr)
  then have env: "w = e" "valid_envelope e" "verify_envelope P e = Inr ()"
    by (auto simp: reparse_envelope_def ebind_eq_Inr split: if_splits)
  note body2 = body [unfolded w ebind_Inr env(1)]
  have parent: "ce_parent_decision_id e = ed_decision_id d" "ce_parent_decision_hash e = ed_decision_hash d"
    using body2 by (simp_all split: if_splits)
  have auth: "\<not> ed_provider_authority_granted d" using body2 parent by (simp split: if_splits)
  obtain q1 where q1: "normalize_question nfkc question = Inr q1"
    using body2 parent auth by (auto simp: ebind_eq_Inr)
  obtain q2 where q2: "normalize_question nfkc (ce_original_question e) = Inr q2"
    using body2 parent auth q1 by (auto simp: ebind_eq_Inr)
  obtain q3 where q3: "normalize_question nfkc (ed_normalized_question d) = Inr q3"
    using body2 parent auth q1 q2 by (auto simp: ebind_eq_Inr)
  note body3 = body2 [unfolded q1 q2 q3 ebind_Inr]
  have eqs: "q1 = q2" "q3 = q2"
      "canonical_json (strip_none (JObj scope)) = canonical_json (strip_none (JObj (ce_normalized_scope e)))"
      "sc_requested_scope_hash (ed_scope d) = scope_hash P (strip_none (JObj (ce_normalized_scope e)))"
      "ce_target e = target" "v = e"
      "unsafe_replay_stop e t \<notin> {Some Stop_Unknown_Side_Effect, Some Stop_Interrupted, Some Stop_Receipt_Prevents_Replay}"
    using body3 parent auth by (simp_all split: if_splits del: strip_none.simps canonical_json.simps)
  have "ce_side_effect_state e \<noteq> SE_Unknown \<and> ce_failure_state e \<notin> {F_Unknown_Side_Effect, F_Interrupted} \<and>
    ce_receipt_state e \<notin> {RS_In_Flight, RS_Unknown}"
    using eqs(7) by (auto simp: unsafe_replay_stop_def split: if_splits)
  then show ?thesis using eqs ver env parent q1 q2 q3 by blast
qed

text \<open>
  Binding a child run reseals the envelope. The bound envelope differs from the original one in
  the child run, the id and the hash only, verifies, and serialises to its canonical JSON; binding
  again replaces the child.
\<close>

lemma bind_child_reseals:
  assumes "bind_continuation_child P e child = Inr b"
  shows "verify_envelope P b = Inr () \<and> valid_envelope b \<and> ce_child_run_id b = Some child \<and>
    b\<lparr>ce_child_run_id := ce_child_run_id e, ce_envelope_id := ce_envelope_id e, ce_envelope_hash := ce_envelope_hash e\<rparr> = e \<and>
    serialize_continuation_envelope P b = Inr (canonical_json (envelope_json P b)) \<and>
    bind_continuation_child P b child' = bind_continuation_child P e child'"
proof -
  note sealed = assms [unfolded bind_continuation_child_def]
  note fields = seal_Inr_fields [OF sealed]
  have again: "seal_envelope P (e\<lparr>ce_envelope_id := i, ce_envelope_hash := h\<rparr>) = seal_envelope P e" for e i h
    by (simp add: seal_envelope_def Let_def envelope_hash_of_def)
  have "b\<lparr>ce_child_run_id := Some child'\<rparr> = (e\<lparr>ce_child_run_id := Some child'\<rparr>)
      \<lparr>ce_envelope_id := ce_envelope_id b, ce_envelope_hash := ce_envelope_hash b\<rparr>"
    by (simp add: fields(1))
  then have "bind_continuation_child P b child' = bind_continuation_child P e child'"
    by (simp add: bind_continuation_child_def again)
  then show ?thesis
    using fields(2,3) by (simp add: fields(1) serialize_continuation_envelope_def del: canonical_json.simps)
qed

end
