(* ===== verification/Sql_Table.thy ===== *)
theory Sql_Table
  imports Shiliu_Prelude
begin

text \<open>
  PostgreSQL tables as association lists from primary keys to rows, with the statements the
  storage modules issue: SELECT by key, INSERT, INSERT \<dots> ON CONFLICT DO NOTHING, UPDATE by key
  and UPDATE by predicate, and sums over rows. A transaction is a function from the database to
  an error or the new database: an exception aborts the caller's transaction, so it carries no
  state. \<open>FOR UPDATE\<close> serialises the operations on the rows they lock; each operation is one
  atomic step of the model.
\<close>

type_synonym ('k, 'v) table = "('k \<times> 'v) list"

definition select_row :: "('k, 'v) table \<Rightarrow> 'k \<Rightarrow> 'v option" where
  "select_row t k = map_of t k"

definition insert_row :: "'k \<Rightarrow> 'v \<Rightarrow> ('k, 'v) table \<Rightarrow> ('k, 'v) table" where
  "insert_row k v t = t @ [(k, v)]"

definition insert_or_ignore :: "'k \<Rightarrow> 'v \<Rightarrow> ('k, 'v) table \<Rightarrow> ('k, 'v) table" where
  "insert_or_ignore k v t = (if map_of t k = None then insert_row k v t else t)"

definition update_where :: "('k \<Rightarrow> 'v \<Rightarrow> bool) \<Rightarrow> ('v \<Rightarrow> 'v) \<Rightarrow> ('k, 'v) table \<Rightarrow> ('k, 'v) table" where
  "update_where P f t = map (\<lambda>(k, v). if P k v then (k, f v) else (k, v)) t"

definition update_row :: "'k \<Rightarrow> ('v \<Rightarrow> 'v) \<Rightarrow> ('k, 'v) table \<Rightarrow> ('k, 'v) table" where
  "update_row k f t = update_where (\<lambda>k' _. k' = k) f t"

definition keys_distinct :: "('k, 'v) table \<Rightarrow> bool" where
  "keys_distinct t \<longleftrightarrow> distinct (map fst t)"

definition sum_rows :: "('k \<Rightarrow> 'v \<Rightarrow> 'a::linordered_idom) \<Rightarrow> ('k, 'v) table \<Rightarrow> 'a" where
  "sum_rows g t = sum_list (map (\<lambda>(k, v). g k v) t)"

named_theorems table_simps

lemma select_insert_row [table_simps]:
  "select_row (insert_row k v t) k' =
     (case select_row t k' of Some x \<Rightarrow> Some x | None \<Rightarrow> if k' = k then Some v else None)"
  by (auto simp: select_row_def insert_row_def map_add_def split: option.splits)

lemma select_insert_or_ignore [table_simps]:
  "select_row (insert_or_ignore k v t) k' =
     (if k' = k \<and> select_row t k = None then Some v else select_row t k')"
  by (auto simp: insert_or_ignore_def select_row_def insert_row_def map_add_def split: option.splits)

lemma select_update_where [table_simps]:
  "select_row (update_where P f t) k = map_option (\<lambda>v. if P k v then f v else v) (select_row t k)"
  by (induction t) (auto simp: update_where_def select_row_def)

lemma select_update_row [table_simps]:
  "select_row (update_row k f t) k' = (if k' = k then map_option f (select_row t k) else select_row t k')"
  by (simp add: update_row_def select_update_where option.map_ident)

lemma keys_update_where [table_simps]: "map fst (update_where P f t) = map fst t"
  by (induction t) (auto simp: update_where_def)

lemma keys_distinct_updates [table_simps]:
  "keys_distinct (update_where P f t) = keys_distinct t"
  "keys_distinct (update_row k f t) = keys_distinct t"
  by (simp_all add: keys_distinct_def update_row_def keys_update_where)

lemma keys_distinct_insert:
  "keys_distinct t \<Longrightarrow> select_row t k = None \<Longrightarrow> keys_distinct (insert_row k v t)"
  by (auto simp: keys_distinct_def insert_row_def select_row_def map_of_eq_None_iff)

lemma keys_distinct_insert_or_ignore:
  "keys_distinct t \<Longrightarrow> keys_distinct (insert_or_ignore k v t)"
  using keys_distinct_insert [of t k v]
  by (auto simp: insert_or_ignore_def select_row_def)

lemma select_row_in: "keys_distinct t \<Longrightarrow> select_row t k = Some v \<longleftrightarrow> (k, v) \<in> set t"
  by (auto simp: keys_distinct_def select_row_def map_of_is_SomeI dest: map_of_SomeD)

lemma select_row_mem: "select_row t k = Some v \<Longrightarrow> (k, v) \<in> set t"
  by (auto simp: select_row_def dest: map_of_SomeD)

lemma update_row_absent: "select_row t k = None \<Longrightarrow> update_row k f t = t"
  by (induction t) (auto simp: update_row_def update_where_def select_row_def split: if_splits)

lemma update_row_twice: "update_row k f (update_row k g t) = update_row k (\<lambda>v. f (g v)) t"
  by (induction t) (auto simp: update_row_def update_where_def)

section \<open>Sums over rows\<close>

lemma sum_rows_Nil [simp]: "sum_rows g [] = 0"
  by (simp add: sum_rows_def)

lemma sum_rows_Cons [simp]: "sum_rows g ((k, v) # t) = g k v + sum_rows g t"
  by (simp add: sum_rows_def)

lemma sum_insert_row [table_simps]: "sum_rows g (insert_row k v t) = sum_rows g t + g k v"
  by (simp add: sum_rows_def insert_row_def)

lemma update_row_Cons:
  "update_row k f ((k', v) # t) = (if k' = k then (k', f v) else (k', v)) # update_row k f t"
  by (simp add: update_row_def update_where_def)

lemma sum_update_row:
  assumes "keys_distinct t" and "select_row t k = Some v"
  shows "sum_rows g (update_row k f t) = sum_rows g t - g k v + g k (f v)"
  using assms
proof (induction t)
  case (Cons p t)
  obtain k' v' where p: "p = (k', v')" by (cases p)
  show ?case
  proof (cases "k' = k")
    case True
    have "select_row t k = None"
      using Cons.prems(1) True by (auto simp: p keys_distinct_def select_row_def map_of_eq_None_iff)
    with Cons.prems(2) True show ?thesis
      by (simp add: p update_row_Cons update_row_absent select_row_def)
  next
    case False
    with Cons show ?thesis by (simp add: p update_row_Cons keys_distinct_def select_row_def)
  qed
qed (simp add: select_row_def)

lemma sum_rows_zero: "(\<And>k v. (k, v) \<in> set t \<Longrightarrow> g k v = 0) \<Longrightarrow> sum_rows g t = 0"
  by (induction t) auto

lemma sum_rows_nonneg: "(\<And>k v. (k, v) \<in> set t \<Longrightarrow> 0 \<le> g k v) \<Longrightarrow> 0 \<le> sum_rows g t"
  by (induction t) (auto intro: add_nonneg_nonneg)

lemma sum_rows_member_le:
  assumes "\<And>k v. (k, v) \<in> set t \<Longrightarrow> 0 \<le> g k v" and "(k, v) \<in> set t"
  shows "g k v \<le> sum_rows g t"
  using assms
proof (induction t)
  case (Cons p t)
  obtain k' v' where p: "p = (k', v')" by (cases p)
  have nn: "0 \<le> g k' v'" "0 \<le> sum_rows g t"
    using Cons.prems(1) p by (auto intro: sum_rows_nonneg)
  show ?case
  proof (cases "(k', v') = (k, v)")
    case True
    with nn(2) show ?thesis by (simp add: p)
  next
    case False
    with Cons.prems(2) p have "(k, v) \<in> set t" by auto
    then have "g k v \<le> sum_rows g t" using Cons.IH Cons.prems(1) by simp
    with nn(1) show ?thesis by (simp add: p)
  qed
qed simp

end
