(* ===== verification/Storage_Budget.thy ===== *)
theory Storage_Budget
  imports Canonical_Json Sql_Table
begin

text \<open>
  Atomic dispatch reservation and settlement: src/shiliu/storage/budget.py. The two tables are
  \<open>assistant_model_budget_days\<close>, keyed by owner, day and lane, and \<open>model_dispatch_receipts\<close>, keyed
  by owner and dispatch. Days and clock readings are integers. Provider usage values are
  numbers, non-finite floats, or values of another type (booleans, text, objects); finite floats
  are exact rationals here, so rounding is outside the model.
\<close>

section \<open>State\<close>

record resource_context =
  workspace_id :: string
  user_id :: string

datatype usage_value = U_Num rat | U_Nonfinite | U_Other json

type_synonym usage = "(string \<times> usage_value) list"

datatype dispatch_status = Reserved | Settled | Unknown_Usage | Released

record budget_day =
  bd_request_limit :: int
  bd_requests_used :: int
  bd_usage :: "(string \<times> rat) list"
  bd_updated_at :: int

record dispatch_receipt =
  dr_run_id :: "string option"
  dr_job_id :: "string option"
  dr_lane :: string
  dr_budget_day :: int
  dr_status :: dispatch_status
  dr_reserved_requests :: int
  dr_usage :: "usage option"
  dr_request_hash :: "string option"
  dr_created_at :: int
  dr_settled_at :: "int option"

type_synonym day_key = "resource_context \<times> int \<times> string"
type_synonym dispatch_key = "resource_context \<times> string"

record budget_db =
  budget_days :: "(day_key, budget_day) table"
  dispatch_receipts :: "(dispatch_key, dispatch_receipt) table"

section \<open>Operations\<close>

definition same_binding ::
  "dispatch_receipt \<Rightarrow> int \<Rightarrow> string \<Rightarrow> int \<Rightarrow> string option \<Rightarrow> string option \<Rightarrow> string \<Rightarrow> unit result"
where
  "same_binding receipt day lane requests run_id job_id request_hash =
     (if dr_request_hash receipt = None then Inl (Conflict ''dispatch_input_identity_unverifiable'')
      else if (dr_budget_day receipt, dr_lane receipt, dr_reserved_requests receipt, dr_run_id receipt,
               dr_job_id receipt, dr_request_hash receipt)
              \<noteq> (day, lane, requests, run_id, job_id, Some request_hash)
      then Inl (Conflict ''dispatch_identity_mismatch'')
      else Inr ())"

record dispatch_request =
  rq_dispatch_id :: string
  rq_lane :: string
  rq_request_limit :: int
  rq_request_hash :: string
  rq_requests :: int
  rq_run_id :: "string option"
  rq_job_id :: "string option"
  rq_day :: "int option"

text \<open>
  \<open>today\<close> is the database's calendar day in Asia/Shanghai and \<open>now\<close> its clock. A bad argument is
  a ValueError before any statement; the day row is created on demand; a known dispatch replays
  its receipt; a new one needs room under the limit.
\<close>

definition reserve_dispatch ::
  "budget_db \<Rightarrow> resource_context \<Rightarrow> dispatch_request \<Rightarrow> int \<Rightarrow> int \<Rightarrow> (dispatch_receipt \<times> budget_db) result"
where
  "reserve_dispatch db ctx rq today now =
     (if \<not> hex_text 64 (rq_request_hash rq)
      then Inl (Value_Error ''explicit_dispatch_request_hash_required'')
      else if rq_lane rq \<notin> {''foreground'', ''background''} \<or> rq_requests rq < 1 \<or> rq_request_limit rq < 1
      then Inl (Value_Error ''invalid_budget_reservation'')
      else
        let day = (case rq_day rq of None \<Rightarrow> today | Some d \<Rightarrow> d);
            dk = (ctx, day, rq_lane rq);
            k = (ctx, rq_dispatch_id rq);
            days = insert_or_ignore dk \<lparr>bd_request_limit = rq_request_limit rq, bd_requests_used = 0,
                                        bd_usage = [], bd_updated_at = now\<rparr> (budget_days db)
        in case select_row days dk of
             None \<Rightarrow> Inl Key_Error
           | Some budget \<Rightarrow>
               if bd_request_limit budget \<noteq> rq_request_limit rq
               then Inl (Conflict ''budget_policy_mismatch'')
               else (case select_row (dispatch_receipts db) k of
                   Some old \<Rightarrow>
                     ebind (same_binding old day (rq_lane rq) (rq_requests rq) (rq_run_id rq)
                              (rq_job_id rq) (rq_request_hash rq))
                       (\<lambda>_. Inr (old, db\<lparr>budget_days := days\<rparr>))
                 | None \<Rightarrow>
                     if bd_requests_used budget + rq_requests rq > rq_request_limit rq
                     then Inl (Conflict ''budget_exhausted'')
                     else
                       let receipt = \<lparr>dr_run_id = rq_run_id rq, dr_job_id = rq_job_id rq,
                             dr_lane = rq_lane rq, dr_budget_day = day, dr_status = Reserved,
                             dr_reserved_requests = rq_requests rq, dr_usage = None,
                             dr_request_hash = Some (rq_request_hash rq), dr_created_at = now,
                             dr_settled_at = None\<rparr>
                       in Inr (receipt,
                            \<lparr>budget_days = update_row dk
                               (\<lambda>b. b\<lparr>bd_requests_used := bd_requests_used b + rq_requests rq,
                                      bd_updated_at := now\<rparr>) days,
                             dispatch_receipts = insert_row k receipt (dispatch_receipts db)\<rparr>)))"

text \<open>Python's \<open>int(q)\<close> of a number truncates towards zero; \<open>aggregate.get(key, 0)\<close>.\<close>

definition int_of_number :: "rat \<Rightarrow> int" where
  "int_of_number q = (if 0 \<le> q then \<lfloor>q\<rfloor> else \<lceil>q\<rceil>)"

definition aggregate_get :: "(string \<times> rat) list \<Rightarrow> string \<Rightarrow> rat" where
  "aggregate_get agg k = (case map_of agg k of None \<Rightarrow> 0 | Some q \<Rightarrow> q)"

fun add_usage :: "usage \<Rightarrow> (string \<times> rat) list \<Rightarrow> (string \<times> rat) list" where
  "add_usage [] agg = agg"
| "add_usage ((k, U_Num q) # us) agg = add_usage us (AList.update k (aggregate_get agg k + q) agg)"
| "add_usage ((k, _) # us) agg = add_usage us agg"

definition bump_counter :: "string \<Rightarrow> (string \<times> rat) list \<Rightarrow> (string \<times> rat) list" where
  "bump_counter k agg = AList.update k (of_int (int_of_number (aggregate_get agg k) + 1)) agg"

text \<open>Equality of two dictionaries, whatever the order of their keys.\<close>

definition same_usage :: "usage option \<Rightarrow> usage option \<Rightarrow> bool" where
  "same_usage a b =
     (case (a, b) of
        (None, None) \<Rightarrow> True
      | (Some u, Some w) \<Rightarrow>
          list_all (\<lambda>k. map_of u k = map_of w k) (map fst u @ map fst w)
      | _ \<Rightarrow> False)"

definition nonfinite_usage :: "usage option \<Rightarrow> bool" where
  "nonfinite_usage u = (case u of None \<Rightarrow> False | Some us \<Rightarrow> U_Nonfinite \<in> set (map snd us))"

definition day_of :: "resource_context \<Rightarrow> dispatch_receipt \<Rightarrow> day_key" where
  "day_of ctx row = (ctx, dr_budget_day row, dr_lane row)"

definition set_aggregate :: "day_key \<Rightarrow> (string \<times> rat) list \<Rightarrow> int \<Rightarrow> budget_db \<Rightarrow> budget_db" where
  "set_aggregate dk agg now db =
     db\<lparr>budget_days := update_row dk (\<lambda>b. b\<lparr>bd_usage := agg, bd_updated_at := now\<rparr>) (budget_days db)\<rparr>"

definition set_receipt :: "dispatch_key \<Rightarrow> dispatch_receipt \<Rightarrow> budget_db \<Rightarrow> budget_db" where
  "set_receipt k row db =
     db\<lparr>dispatch_receipts := update_row k (\<lambda>_. row) (dispatch_receipts db)\<rparr>"

definition settle_dispatch ::
  "budget_db \<Rightarrow> resource_context \<Rightarrow> string \<Rightarrow> usage option \<Rightarrow> int \<Rightarrow> (dispatch_receipt \<times> budget_db) result"
where
  "settle_dispatch db ctx dispatch_id usage now =
     (if nonfinite_usage usage then Inl (Value_Error ''nonfinite_usage'')
      else case select_row (dispatch_receipts db) (ctx, dispatch_id) of
        None \<Rightarrow> Inl (Conflict ''dispatch_not_reserved'')
      | Some row \<Rightarrow>
          (case select_row (budget_days db) (day_of ctx row) of
             None \<Rightarrow> Inl Key_Error
           | Some budget \<Rightarrow>
               if dr_settled_at row \<noteq> None then
                 if same_usage (dr_usage row) usage then Inr (row, db)
                 else (case usage of
                     Some us \<Rightarrow>
                       if dr_status row = Unknown_Usage \<and> dr_usage row = None then
                         let agg = AList.update ''unknown_responses''
                               (of_int (max 0 (int_of_number (aggregate_get (bd_usage budget)
                                  ''unknown_responses'') - 1))) (bd_usage budget);
                             row' = row\<lparr>dr_status := Settled, dr_usage := Some us\<rparr>
                         in Inr (row', set_receipt (ctx, dispatch_id) row'
                                         (set_aggregate (day_of ctx row) (add_usage us agg) now db))
                       else Inl (Conflict ''dispatch_settlement_mismatch'')
                   | None \<Rightarrow> Inl (Conflict ''dispatch_settlement_mismatch''))
               else
                 let agg = bump_counter ''responses'' (bd_usage budget);
                     agg' = (case usage of
                               None \<Rightarrow> bump_counter ''unknown_responses'' agg
                             | Some us \<Rightarrow> add_usage us agg);
                     row' = row\<lparr>dr_status := (if usage = None then Unknown_Usage else Settled),
                                dr_usage := usage, dr_settled_at := Some now\<rparr>
                 in Inr (row', set_receipt (ctx, dispatch_id) row'
                                 (set_aggregate (day_of ctx row) agg' now db))))"

text \<open>
  The UPDATE of the day row carries \<open>requests_used >= reserved\<close>; a row count other than one is an
  inconsistent reservation.
\<close>

definition release_dispatch ::
  "budget_db \<Rightarrow> resource_context \<Rightarrow> string \<Rightarrow> int \<Rightarrow> (dispatch_receipt \<times> budget_db) result"
where
  "release_dispatch db ctx dispatch_id now =
     (case select_row (dispatch_receipts db) (ctx, dispatch_id) of
        None \<Rightarrow> Inl (Conflict ''dispatch_not_reserved'')
      | Some receipt \<Rightarrow>
          if dr_status receipt = Released then Inr (receipt, db)
          else if dr_status receipt \<noteq> Reserved \<or> dr_settled_at receipt \<noteq> None
          then Inl (Conflict ''dispatch_already_sent_or_settled'')
          else (case select_row (budget_days db) (day_of ctx receipt) of
              Some budget \<Rightarrow>
                if bd_requests_used budget \<ge> dr_reserved_requests receipt then
                  let receipt' = receipt\<lparr>dr_status := Released, dr_settled_at := Some now\<rparr>
                  in Inr (receipt', set_receipt (ctx, dispatch_id) receipt'
                       (db\<lparr>budget_days := update_row (day_of ctx receipt)
                          (\<lambda>b. b\<lparr>bd_requests_used := bd_requests_used b - dr_reserved_requests receipt,
                                 bd_updated_at := now\<rparr>) (budget_days db)\<rparr>))
                else Inl (Conflict ''budget_reservation_inconsistent'')
            | None \<Rightarrow> Inl (Conflict ''budget_reservation_inconsistent'')))"

end
