(* ===== verification/Budget_Facts.thy ===== *)
theory Budget_Facts
  imports Storage_Budget
begin

text \<open>
  The ledger of model dispatches balances: in every state the reservation, settlement and release
  operations can reach, a day's \<open>requests_used\<close> is the sum of the reservations not released, never
  above its limit, and its response counters count the settled receipts.
\<close>

section \<open>The ledger invariant\<close>

definition held_by :: "day_key \<Rightarrow> dispatch_key \<Rightarrow> dispatch_receipt \<Rightarrow> int" where
  "held_by dk k r = (if day_of (fst k) r = dk \<and> dr_status r \<noteq> Released then dr_reserved_requests r else 0)"

definition held_requests :: "day_key \<Rightarrow> budget_db \<Rightarrow> int" where
  "held_requests dk db = sum_rows (held_by dk) (dispatch_receipts db)"

definition receipt_ok :: "budget_db \<Rightarrow> dispatch_key \<Rightarrow> dispatch_receipt \<Rightarrow> bool" where
  "receipt_ok db k r \<longleftrightarrow>
     select_row (budget_days db) (day_of (fst k) r) \<noteq> None \<and> 1 \<le> dr_reserved_requests r \<and>
     (dr_settled_at r = None \<longleftrightarrow> dr_status r = Reserved) \<and>
     (dr_usage r = None \<longleftrightarrow> dr_status r \<noteq> Settled) \<and> dr_request_hash r \<noteq> None"

definition ledger_inv :: "budget_db \<Rightarrow> bool" where
  "ledger_inv db \<longleftrightarrow>
     keys_distinct (budget_days db) \<and> keys_distinct (dispatch_receipts db) \<and>
     (\<forall>k r. select_row (dispatch_receipts db) k = Some r \<longrightarrow> receipt_ok db k r) \<and>
     (\<forall>dk b. select_row (budget_days db) dk = Some b \<longrightarrow>
        bd_requests_used b = held_requests dk db \<and> bd_requests_used b \<le> bd_request_limit b)"

lemma ledgerI:
  assumes "keys_distinct (budget_days db)" and "keys_distinct (dispatch_receipts db)"
    and "\<And>k r. select_row (dispatch_receipts db) k = Some r \<Longrightarrow> receipt_ok db k r"
    and "\<And>dk b. select_row (budget_days db) dk = Some b \<Longrightarrow>
           bd_requests_used b = held_requests dk db \<and> bd_requests_used b \<le> bd_request_limit b"
  shows "ledger_inv db"
  using assms unfolding ledger_inv_def by blast

definition empty_budget :: budget_db where
  "empty_budget = \<lparr>budget_days = [], dispatch_receipts = []\<rparr>"

lemma ledger_empty [simp]: "ledger_inv empty_budget"
  by (simp add: ledger_inv_def empty_budget_def keys_distinct_def select_row_def)

lemma ledger_receipt:
  "ledger_inv db \<Longrightarrow> select_row (dispatch_receipts db) k = Some r \<Longrightarrow> receipt_ok db k r"
  by (simp add: ledger_inv_def)

lemma ledger_day:
  "ledger_inv db \<Longrightarrow> select_row (budget_days db) dk = Some b \<Longrightarrow>
   bd_requests_used b = held_requests dk db \<and> bd_requests_used b \<le> bd_request_limit b"
  unfolding ledger_inv_def by blast

lemma ledger_keys:
  "ledger_inv db \<Longrightarrow> keys_distinct (budget_days db)"
  "ledger_inv db \<Longrightarrow> keys_distinct (dispatch_receipts db)"
  by (simp_all add: ledger_inv_def)

lemma held_by_le:
  assumes "ledger_inv db" and "select_row (dispatch_receipts db) k = Some r"
  shows "held_by dk k r \<le> held_requests dk db" and "0 \<le> held_requests dk db"
proof -
  have "0 \<le> held_by dk k' r'" if "(k', r') \<in> set (dispatch_receipts db)" for k' r'
    using that assms(1) select_row_in [of "dispatch_receipts db" k' r']
    by (auto simp: held_by_def ledger_keys receipt_ok_def dest!: ledger_receipt)
  note nonneg = this
  show "held_by dk k r \<le> held_requests dk db"
    unfolding held_requests_def
    by (rule sum_rows_member_le [OF nonneg select_row_mem [OF assms(2)]])
  show "0 \<le> held_requests dk db"
    unfolding held_requests_def by (rule sum_rows_nonneg [OF nonneg])
qed

lemma held_nonneg: "ledger_inv db \<Longrightarrow> 0 \<le> held_requests dk db"
  unfolding held_requests_def
proof (rule sum_rows_nonneg)
  fix k r assume "ledger_inv db" "(k, r) \<in> set (dispatch_receipts db)"
  then show "0 \<le> held_by dk k r"
    using select_row_in [of "dispatch_receipts db" k r]
    by (auto simp: held_by_def ledger_keys receipt_ok_def dest!: ledger_receipt)
qed

lemma held_set_receipt:
  assumes "keys_distinct (dispatch_receipts db)" and "select_row (dispatch_receipts db) k = Some r"
  shows "held_requests dk (set_receipt k r' db) = held_requests dk db - held_by dk k r + held_by dk k r'"
  using sum_update_row [OF assms, of "held_by dk" "\<lambda>_. r'"]
  by (simp add: held_requests_def set_receipt_def)

lemma held_days_only [simp]: "held_requests dk (db\<lparr>budget_days := days\<rparr>) = held_requests dk db"
  by (simp add: held_requests_def)

text \<open>The day table may change under the invariant as long as keys, limits and use stay.\<close>

definition same_use :: "(day_key, budget_day) table \<Rightarrow> (day_key, budget_day) table \<Rightarrow> bool" where
  "same_use t t' \<longleftrightarrow> map fst t' = map fst t \<and>
     (\<forall>dk. map_option (\<lambda>b. (bd_requests_used b, bd_request_limit b)) (select_row t' dk) =
           map_option (\<lambda>b. (bd_requests_used b, bd_request_limit b)) (select_row t dk))"

lemma same_use_set_aggregate:
  "same_use (budget_days db) (budget_days (set_aggregate dk agg now db))"
proof -
  let ?p = "\<lambda>b. (bd_requests_used b, bd_request_limit b)"
  have "map_option ?p (map_option (\<lambda>b. if P then b\<lparr>bd_usage := agg, bd_updated_at := now\<rparr> else b) x) =
        map_option ?p x" for P and x :: "budget_day option"
    by (cases x) auto
  then show ?thesis
    by (simp add: same_use_def set_aggregate_def update_row_def keys_update_where select_update_where)
qed

lemma ledger_settle:
  assumes inv: "ledger_inv db" and row: "select_row (dispatch_receipts db) k = Some r"
    and days: "same_use (budget_days db) days'"
    and same: "day_of (fst k) r' = day_of (fst k) r" "dr_reserved_requests r' = dr_reserved_requests r"
      "dr_request_hash r' = dr_request_hash r"
    and live: "dr_status r \<noteq> Released" "dr_status r' \<noteq> Released"
    and ok: "dr_settled_at r' = None \<longleftrightarrow> dr_status r' = Reserved" "dr_usage r' = None \<longleftrightarrow> dr_status r' \<noteq> Settled"
  shows "ledger_inv (set_receipt k r' (db\<lparr>budget_days := days'\<rparr>))"
proof -
  let ?db = "set_receipt k r' (db\<lparr>budget_days := days'\<rparr>)"
  have "held_by dk k r' = held_by dk k r" for dk using same live by (simp add: held_by_def)
  then have held: "held_requests dk ?db = held_requests dk db" for dk
    using held_set_receipt [of "db\<lparr>budget_days := days'\<rparr>" k r dk r'] row ledger_keys(2) [OF inv] by simp
  have pairs: "map_option (\<lambda>b. (bd_requests_used b, bd_request_limit b)) (select_row days' dk) =
        map_option (\<lambda>b. (bd_requests_used b, bd_request_limit b)) (select_row (budget_days db) dk)" for dk
    using days unfolding same_use_def by blast
  have present: "(select_row days' dk = None) = (select_row (budget_days db) dk = None)" for dk
    using pairs [of dk] by (cases "select_row days' dk"; cases "select_row (budget_days db) dk") auto
  have use: "\<exists>b0. select_row (budget_days db) dk = Some b0 \<and> bd_requests_used b0 = bd_requests_used b \<and>
        bd_request_limit b0 = bd_request_limit b" if "select_row days' dk = Some b" for dk b
    using pairs [of dk] that by (cases "select_row (budget_days db) dk") auto
  have receipts: "receipt_ok ?db k' q" if "select_row (dispatch_receipts ?db) k' = Some q" for k' q
  proof (cases "k' = k")
    case True
    with that row have "q = r'" by (simp add: set_receipt_def table_simps)
    then show ?thesis
      using ledger_receipt [OF inv row] same ok True by (simp add: receipt_ok_def set_receipt_def present)
  next
    case False
    with that have "select_row (dispatch_receipts db) k' = Some q" by (simp add: set_receipt_def table_simps)
    from ledger_receipt [OF inv this] show ?thesis by (simp add: receipt_ok_def set_receipt_def present)
  qed
  have use': "bd_requests_used b = held_requests dk ?db \<and> bd_requests_used b \<le> bd_request_limit b"
    if "select_row (budget_days ?db) dk = Some b" for dk b
  proof -
    have "select_row days' dk = Some b" using that by (simp add: set_receipt_def)
    then obtain b0 where "select_row (budget_days db) dk = Some b0"
        "bd_requests_used b0 = bd_requests_used b" "bd_request_limit b0 = bd_request_limit b"
      using use by blast
    then show ?thesis using ledger_day [OF inv, of dk b0] by (simp add: held)
  qed
  have "keys_distinct days'"
    using days ledger_keys(1) [OF inv] by (simp add: same_use_def keys_distinct_def)
  then have "keys_distinct (budget_days ?db)" "keys_distinct (dispatch_receipts ?db)"
    using ledger_keys [OF inv] by (simp_all add: set_receipt_def table_simps)
  then show ?thesis using receipts use' by (rule ledgerI)
qed

section \<open>Every operation keeps the ledger\<close>

lemma reserve_cases:
  assumes "reserve_dispatch db ctx rq today now = Inr (row, db')"
  obtains (replay) days where
      "days = insert_or_ignore (ctx, (case rq_day rq of None \<Rightarrow> today | Some d \<Rightarrow> d), rq_lane rq)
         \<lparr>bd_request_limit = rq_request_limit rq, bd_requests_used = 0, bd_usage = [], bd_updated_at = now\<rparr>
         (budget_days db)"
      "select_row (dispatch_receipts db) (ctx, rq_dispatch_id rq) = Some row"
      "db' = db\<lparr>budget_days := days\<rparr>"
      "same_binding row (case rq_day rq of None \<Rightarrow> today | Some d \<Rightarrow> d) (rq_lane rq) (rq_requests rq)
         (rq_run_id rq) (rq_job_id rq) (rq_request_hash rq) = Inr ()"
      "1 \<le> rq_request_limit rq"
    | (fresh) days budget dk where
      "dk = (ctx, (case rq_day rq of None \<Rightarrow> today | Some d \<Rightarrow> d), rq_lane rq)"
      "days = insert_or_ignore dk
         \<lparr>bd_request_limit = rq_request_limit rq, bd_requests_used = 0, bd_usage = [], bd_updated_at = now\<rparr>
         (budget_days db)"
      "select_row days dk = Some budget" "bd_request_limit budget = rq_request_limit rq"
      "bd_requests_used budget + rq_requests rq \<le> rq_request_limit rq"
      "select_row (dispatch_receipts db) (ctx, rq_dispatch_id rq) = None"
      "day_of ctx row = dk" "dr_status row = Reserved" "dr_reserved_requests row = rq_requests rq"
      "dr_usage row = None" "dr_settled_at row = None" "dr_request_hash row = Some (rq_request_hash rq)"
      "dr_run_id row = rq_run_id rq" "dr_job_id row = rq_job_id rq"
      "db' = \<lparr>budget_days = update_row dk
               (\<lambda>b. b\<lparr>bd_requests_used := bd_requests_used b + rq_requests rq, bd_updated_at := now\<rparr>) days,
             dispatch_receipts = insert_row (ctx, rq_dispatch_id rq) row (dispatch_receipts db)\<rparr>"
      "1 \<le> rq_requests rq" "1 \<le> rq_request_limit rq"
proof (cases "select_row (dispatch_receipts db) (ctx, rq_dispatch_id rq)")
  case (Some old)
  with assms replay show thesis
    by (auto simp: reserve_dispatch_def Let_def ebind_eq_Inr split: if_splits option.splits)
next
  case None
  with assms fresh show thesis
    by (auto simp: reserve_dispatch_def Let_def day_of_def split: if_splits option.splits)
qed

lemma ledger_new_day:
  assumes inv: "ledger_inv db" and limit: "0 \<le> limit"
  shows "ledger_inv (db\<lparr>budget_days := insert_or_ignore dk
      \<lparr>bd_request_limit = limit, bd_requests_used = 0, bd_usage = [], bd_updated_at = now\<rparr> (budget_days db)\<rparr>)"
    (is "ledger_inv ?db")
proof -
  have none: "held_requests dk db = 0" if absent: "select_row (budget_days db) dk = None"
  proof -
    have "held_by dk k r = 0" if "(k, r) \<in> set (dispatch_receipts db)" for k r
    proof -
      have "select_row (dispatch_receipts db) k = Some r"
        using that select_row_in [OF ledger_keys(2) [OF inv]] by blast
      then have "receipt_ok db k r" by (rule ledger_receipt [OF inv])
      then show ?thesis using absent by (auto simp: held_by_def receipt_ok_def)
    qed
    then show ?thesis unfolding held_requests_def by (rule sum_rows_zero)
  qed
  have receipts: "receipt_ok ?db k r" if "select_row (dispatch_receipts db) k = Some r" for k r
    using ledger_receipt [OF inv that] by (auto simp: receipt_ok_def table_simps)
  have days: "bd_requests_used b = held_requests dk' db \<and> bd_requests_used b \<le> bd_request_limit b"
    if "select_row (budget_days ?db) dk' = Some b" for dk' b
    using that none limit ledger_day [OF inv, of dk' b]
    by (auto simp: table_simps split: if_splits)
  have "receipt_ok ?db k r" if "select_row (dispatch_receipts ?db) k = Some r" for k r
    using that receipts by simp
  moreover have "keys_distinct (budget_days ?db)" "keys_distinct (dispatch_receipts ?db)"
    using ledger_keys [OF inv] by (simp_all add: keys_distinct_insert_or_ignore)
  moreover have "bd_requests_used b = held_requests dk' ?db \<and> bd_requests_used b \<le> bd_request_limit b"
    if "select_row (budget_days ?db) dk' = Some b" for dk' b
    using days [OF that] by simp
  ultimately show ?thesis by (intro ledgerI)
qed

lemma reserve_keeps_ledger:
  assumes inv: "ledger_inv db" and res: "reserve_dispatch db ctx rq today now = Inr (row, db')"
  shows "ledger_inv db'"
  using res
proof (cases rule: reserve_cases)
  case (replay days)
  then show ?thesis using ledger_new_day [OF inv] by simp
next
  case (fresh days budget dk)
  let ?k = "(ctx, rq_dispatch_id rq)"
  have inv1: "ledger_inv (db\<lparr>budget_days := days\<rparr>)"
    using ledger_new_day [OF inv, of "rq_request_limit rq"] fresh(2,17) by simp
  have rec: "dispatch_receipts db' = insert_row ?k row (dispatch_receipts db)"
    and day: "budget_days db' = update_row dk
      (\<lambda>b. b\<lparr>bd_requests_used := bd_requests_used b + rq_requests rq, bd_updated_at := now\<rparr>) days"
    using fresh(15) by simp_all
  have held: "held_requests d db' = held_requests d db + (if d = dk then rq_requests rq else 0)" for d
    using fresh(7-9) by (auto simp: held_requests_def rec sum_insert_row held_by_def)
  have receipts: "receipt_ok db' k r" if "select_row (dispatch_receipts db') k = Some r" for k r
  proof (cases "k = ?k")
    case True
    then have "r = row" using that fresh(6) by (simp add: rec table_simps)
    then show ?thesis using fresh True by (simp add: receipt_ok_def day table_simps)
  next
    case False
    then have "select_row (dispatch_receipts (db\<lparr>budget_days := days\<rparr>)) k = Some r"
      using that by (simp add: rec table_simps split: option.splits)
    from ledger_receipt [OF inv1 this] show ?thesis by (auto simp: receipt_ok_def day table_simps)
  qed
  have days: "bd_requests_used b = held_requests d db' \<and> bd_requests_used b \<le> bd_request_limit b"
    if "select_row (budget_days db') d = Some b" for d b
  proof (cases "d = dk")
    case True
    then have "bd_requests_used b = bd_requests_used budget + rq_requests rq" "bd_request_limit b = bd_request_limit budget"
      using that fresh(3) by (auto simp: day table_simps)
    then show ?thesis
      using ledger_day [OF inv1, of dk budget] fresh(3,4,5) True by (simp add: held)
  next
    case False
    then have "select_row (budget_days (db\<lparr>budget_days := days\<rparr>)) d = Some b"
      using that by (simp add: day table_simps)
    from ledger_day [OF inv1 this] show ?thesis using False by (simp add: held)
  qed
  have "keys_distinct (budget_days db')" "keys_distinct (dispatch_receipts db')"
    using ledger_keys [OF inv1] fresh(6) by (simp_all add: rec day table_simps keys_distinct_insert)
  then show ?thesis using receipts days by (rule ledgerI)
qed

lemma settle_cases:
  assumes "settle_dispatch db ctx i usage now = Inr (row', db')"
  obtains (replay) row where "select_row (dispatch_receipts db) (ctx, i) = Some row" "row' = row" "db' = db"
      "dr_settled_at row \<noteq> None" "same_usage (dr_usage row) usage"
    | (upgrade) row budget us where "select_row (dispatch_receipts db) (ctx, i) = Some row"
      "select_row (budget_days db) (day_of ctx row) = Some budget"
      "usage = Some us" "dr_settled_at row \<noteq> None" "dr_status row = Unknown_Usage" "dr_usage row = None"
      "row' = row\<lparr>dr_status := Settled, dr_usage := Some us\<rparr>"
      "db' = set_receipt (ctx, i) row' (set_aggregate (day_of ctx row)
               (add_usage us (AList.update ''unknown_responses''
                  (of_int (max 0 (int_of_number (aggregate_get (bd_usage budget) ''unknown_responses'') - 1)))
                  (bd_usage budget))) now db)"
    | (first) row budget where "select_row (dispatch_receipts db) (ctx, i) = Some row"
      "select_row (budget_days db) (day_of ctx row) = Some budget" "dr_settled_at row = None"
      "row' = row\<lparr>dr_status := (if usage = None then Unknown_Usage else Settled), dr_usage := usage,
                  dr_settled_at := Some now\<rparr>"
      "db' = set_receipt (ctx, i) row' (set_aggregate (day_of ctx row)
               (case usage of
                  None \<Rightarrow> bump_counter ''unknown_responses'' (bump_counter ''responses'' (bd_usage budget))
                | Some us \<Rightarrow> add_usage us (bump_counter ''responses'' (bd_usage budget))) now db)"
proof -
  obtain row where row: "select_row (dispatch_receipts db) (ctx, i) = Some row"
    using assms by (auto simp: settle_dispatch_def split: if_splits option.splits)
  obtain budget where budget: "select_row (budget_days db) (day_of ctx row) = Some budget"
    using assms row by (auto simp: settle_dispatch_def split: if_splits option.splits)
  show thesis
  proof (cases "dr_settled_at row")
    case None
    then show thesis
      using assms row budget by (intro first) (auto simp: settle_dispatch_def Let_def split: if_splits)
  next
    case (Some t)
    show thesis
    proof (cases "same_usage (dr_usage row) usage")
      case True
      then have "row' = row" "db' = db"
        using assms row budget Some by (simp_all add: settle_dispatch_def split: if_splits)
      with row Some True show thesis by (intro replay) simp_all
    next
      case False
      then obtain us where us: "usage = Some us" "dr_status row = Unknown_Usage" "dr_usage row = None"
        using assms row budget Some
        by (simp add: settle_dispatch_def split: if_splits option.splits)
      show thesis
        using assms row budget Some False us
        by (intro upgrade [OF row budget us(1) _ us(2,3)])
           (auto simp: settle_dispatch_def Let_def split: if_splits)
    qed
  qed
qed

lemma set_aggregate_days: "set_aggregate dk agg now db = db\<lparr>budget_days := budget_days (set_aggregate dk agg now db)\<rparr>"
  by (simp add: set_aggregate_def)

lemma settle_keeps_ledger:
  assumes inv: "ledger_inv db" and "settle_dispatch db ctx i usage now = Inr (row', db')"
  shows "ledger_inv db'"
  using assms(2)
proof (cases rule: settle_cases)
  case (replay row)
  then show ?thesis using inv by simp
next
  case (upgrade row budget us)
  show ?thesis
    unfolding upgrade(8) using upgrade(4-7)
    by (subst set_aggregate_days) (rule ledger_settle [OF inv upgrade(1) same_use_set_aggregate];
        simp add: day_of_def)
next
  case (first row budget)
  have "dr_status row = Reserved" using ledger_receipt [OF inv first(1)] first(3) by (simp add: receipt_ok_def)
  then show ?thesis
    unfolding first(5) using first(3,4)
    by (subst set_aggregate_days) (rule ledger_settle [OF inv first(1) same_use_set_aggregate];
        auto simp: day_of_def)
qed

lemma release_cases:
  assumes "release_dispatch db ctx i now = Inr (row', db')"
  obtains (replay) "select_row (dispatch_receipts db) (ctx, i) = Some row'" "db' = db" "dr_status row' = Released"
    | (release) row budget where "select_row (dispatch_receipts db) (ctx, i) = Some row"
      "dr_status row = Reserved" "dr_settled_at row = None"
      "select_row (budget_days db) (day_of ctx row) = Some budget"
      "dr_reserved_requests row \<le> bd_requests_used budget"
      "row' = row\<lparr>dr_status := Released, dr_settled_at := Some now\<rparr>"
      "db' = set_receipt (ctx, i) row' (db\<lparr>budget_days := update_row (day_of ctx row)
               (\<lambda>b. b\<lparr>bd_requests_used := bd_requests_used b - dr_reserved_requests row,
                      bd_updated_at := now\<rparr>) (budget_days db)\<rparr>)"
proof -
  obtain row where row: "select_row (dispatch_receipts db) (ctx, i) = Some row"
    using assms by (auto simp: release_dispatch_def split: option.splits)
  show thesis
  proof (cases "dr_status row = Released")
    case True
    with assms row show thesis by (intro replay) (auto simp: release_dispatch_def)
  next
    case False
    then have live: "dr_status row = Reserved" "dr_settled_at row = None"
      using assms row by (simp_all add: release_dispatch_def split: if_splits)
    obtain budget where "select_row (budget_days db) (day_of ctx row) = Some budget"
        "dr_reserved_requests row \<le> bd_requests_used budget"
      using assms row live by (auto simp: release_dispatch_def split: option.splits if_splits)
    with assms row live show thesis
      by (intro release [OF row live]) (auto simp: release_dispatch_def Let_def)
  qed
qed

lemma release_keeps_ledger:
  assumes inv: "ledger_inv db" and "release_dispatch db ctx i now = Inr (row', db')"
  shows "ledger_inv db'"
  using assms(2)
proof (cases rule: release_cases)
  case replay
  then show ?thesis using inv by simp
next
  case (release row budget)
  let ?k = "(ctx, i)" and ?dk = "day_of ctx row"
  have days: "budget_days db' = update_row ?dk
      (\<lambda>b. b\<lparr>bd_requests_used := bd_requests_used b - dr_reserved_requests row, bd_updated_at := now\<rparr>)
      (budget_days db)"
    and recs: "dispatch_receipts db' = update_row ?k (\<lambda>_. row') (dispatch_receipts db)"
    by (simp_all add: release(7) set_receipt_def)
  have held: "held_requests d db' = held_requests d db - (if d = ?dk then dr_reserved_requests row else 0)" for d
    using sum_update_row [OF ledger_keys(2) [OF inv] release(1), of "held_by d" "\<lambda>_. row'"] release(2,6)
    by (simp add: held_requests_def recs held_by_def)
  have ok: "receipt_ok db ?k row" by (rule ledger_receipt [OF inv release(1)])
  have receipts: "receipt_ok db' k r" if "select_row (dispatch_receipts db') k = Some r" for k r
  proof (cases "k = ?k")
    case True
    then show ?thesis using that release(1,2,6) ok
      by (auto simp: recs days table_simps receipt_ok_def day_of_def)
  next
    case False
    then have "receipt_ok db k r" using that ledger_receipt [OF inv] by (simp add: recs table_simps)
    then show ?thesis by (auto simp: receipt_ok_def days table_simps)
  qed
  have use: "bd_requests_used b = held_requests d db' \<and> bd_requests_used b \<le> bd_request_limit b"
    if "select_row (budget_days db') d = Some b" for d b
  proof (cases "d = ?dk")
    case True
    then have b: "bd_requests_used b = bd_requests_used budget - dr_reserved_requests row"
        "bd_request_limit b = bd_request_limit budget"
      using that release(4) by (auto simp: days table_simps)
    show ?thesis
      using ledger_day [OF inv release(4)] ok True by (simp add: held b receipt_ok_def)
  next
    case False
    then have "select_row (budget_days db) d = Some b" using that by (simp add: days table_simps)
    from ledger_day [OF inv this] False show ?thesis by (simp add: held)
  qed
  have "keys_distinct (budget_days db')" "keys_distinct (dispatch_receipts db')"
    using ledger_keys [OF inv] by (simp_all add: days recs table_simps)
  then show ?thesis using receipts use by (rule ledgerI)
qed

end
