(* ===== verification/Budget_Properties.thy ===== *)
theory Budget_Properties
  imports Budget_Facts
begin

text \<open>
  What the dispatch ledger promises: the states its three operations reach, exact accounting of
  requests and provider usage, idempotent reservation and settlement, and release as the inverse
  of an unsent reservation.
\<close>

section \<open>Reachable states\<close>

text \<open>
  The states reached from empty tables by any sequence of the three operations, with every settled
  usage satisfying \<open>allowed\<close>. A failing operation rolls back and leaves the state as it was.
\<close>

inductive budget_reach :: "(usage \<Rightarrow> bool) \<Rightarrow> budget_db \<Rightarrow> bool" for allowed where
  start: "budget_reach allowed empty_budget"
| reserve: "budget_reach allowed db \<Longrightarrow> reserve_dispatch db ctx rq today now = Inr (row, db') \<Longrightarrow>
    budget_reach allowed db'"
| settle: "budget_reach allowed db \<Longrightarrow> settle_dispatch db ctx i usage now = Inr (row, db') \<Longrightarrow>
    (\<And>us. usage = Some us \<Longrightarrow> allowed us) \<Longrightarrow> budget_reach allowed db'"
| release: "budget_reach allowed db \<Longrightarrow> release_dispatch db ctx i now = Inr (row, db') \<Longrightarrow>
    budget_reach allowed db'"

lemma budget_reach_ledger: "budget_reach allowed db \<Longrightarrow> ledger_inv db"
  by (induction rule: budget_reach.induct)
     (auto intro: reserve_keeps_ledger settle_keeps_ledger release_keeps_ledger)

section \<open>Usage accounting\<close>

definition reported :: "string \<Rightarrow> usage \<Rightarrow> rat" where
  "reported k us = sum_list (map (\<lambda>(k', v). case v of U_Num q \<Rightarrow> if k' = k then q else 0 | _ \<Rightarrow> 0) us)"

lemma aggregate_get_update: "aggregate_get (AList.update k q agg) k' = (if k' = k then q else aggregate_get agg k')"
  by (simp add: aggregate_get_def map_of_update)

lemma aggregate_get_add_usage: "aggregate_get (add_usage us agg) k = aggregate_get agg k + reported k us"
  by (induction us agg rule: add_usage.induct) (auto simp: reported_def aggregate_get_update)

lemma int_of_number_of_int [simp]: "int_of_number (of_int n) = n"
  by (simp add: int_of_number_def)

definition is_counter :: "string \<Rightarrow> bool" where
  "is_counter k \<longleftrightarrow> k \<in> {''responses'', ''unknown_responses''}"

text \<open>What one receipt contributes to the aggregate of its day under a key.\<close>

definition receipt_total :: "string \<Rightarrow> dispatch_receipt \<Rightarrow> rat" where
  "receipt_total k r =
     (if k = ''responses'' then (if dr_status r \<in> {Settled, Unknown_Usage} then 1 else 0)
      else if k = ''unknown_responses'' then (if dr_status r = Unknown_Usage then 1 else 0)
      else case dr_usage r of None \<Rightarrow> 0 | Some us \<Rightarrow> reported k us)"

definition day_total :: "string \<Rightarrow> day_key \<Rightarrow> budget_db \<Rightarrow> rat" where
  "day_total k dk db =
     sum_rows (\<lambda>key r. if day_of (fst key) r = dk then receipt_total k r else 0) (dispatch_receipts db)"

definition counter_free :: "usage \<Rightarrow> bool" where
  "counter_free us \<longleftrightarrow> list_all (\<lambda>(k, _). \<not> is_counter k) us"

definition metered :: "budget_db \<Rightarrow> bool" where
  "metered db \<longleftrightarrow> (\<forall>dk b k. select_row (budget_days db) dk = Some b \<longrightarrow>
     aggregate_get (bd_usage b) k = day_total k dk db)"

lemma meteredI:
  assumes "\<And>dk b k. select_row (budget_days db) dk = Some b \<Longrightarrow> aggregate_get (bd_usage b) k = day_total k dk db"
  shows "metered db"
  using assms unfolding metered_def by blast

lemma meteredD: "metered db \<Longrightarrow> select_row (budget_days db) dk = Some b \<Longrightarrow>
    aggregate_get (bd_usage b) k = day_total k dk db"
  unfolding metered_def by blast

lemma reported_counter: "counter_free us \<Longrightarrow> is_counter k \<Longrightarrow> reported k us = 0"
  unfolding counter_free_def reported_def
  by (induction us) (auto split: usage_value.splits)

lemma day_total_none:
  assumes "ledger_inv db" and "select_row (budget_days db) dk = None"
  shows "day_total k dk db = 0"
  unfolding day_total_def
proof (rule sum_rows_zero)
  fix key r assume "(key, r) \<in> set (dispatch_receipts db)"
  then have "select_row (dispatch_receipts db) key = Some r"
    using select_row_in [OF ledger_keys(2) [OF assms(1)]] by blast
  from ledger_receipt [OF assms(1) this] show "(if day_of (fst key) r = dk then receipt_total k r else 0) = 0"
    using assms(2) by (auto simp: receipt_ok_def)
qed

lemma day_total_set_receipt:
  assumes "ledger_inv db" and "select_row (dispatch_receipts db) key = Some r"
    and "dispatch_receipts db' = update_row key (\<lambda>_. r') (dispatch_receipts db)"
    and "day_of (fst key) r' = day_of (fst key) r"
  shows "day_total k dk db' = day_total k dk db +
           (if dk = day_of (fst key) r then receipt_total k r' - receipt_total k r else 0)"
  using assms(4)
  by (simp add: day_total_def assms(3) sum_update_row [OF ledger_keys(2) [OF assms(1)] assms(2)])

lemma reserve_keeps_metered:
  assumes inv: "ledger_inv db" and met: "metered db"
    and res: "reserve_dispatch db ctx rq today now = Inr (row, db')"
  shows "metered db'"
  using res
proof (cases rule: reserve_cases)
  case (replay days)
  show ?thesis
  proof (rule meteredI)
    fix dk b k assume b: "select_row (budget_days db') dk = Some b"
    have "day_total k dk db' = day_total k dk db" by (simp add: replay(3) day_total_def)
    then show "aggregate_get (bd_usage b) k = day_total k dk db'"
      using b meteredD [OF met, of dk b k] day_total_none [OF inv, of dk k]
      by (auto simp: replay(3) replay(1) table_simps aggregate_get_def split: if_splits)
  qed
next
  case (fresh days budget dk0)
  show ?thesis
  proof (rule meteredI)
    fix dk b k assume b: "select_row (budget_days db') dk = Some b"
    have "receipt_total k row = 0" using fresh(8,10) by (simp add: receipt_total_def)
    then have tot: "day_total k dk db' = day_total k dk db"
      by (simp add: fresh(15) day_total_def sum_insert_row)
    from b obtain b0 where b0: "select_row days dk = Some b0" "bd_usage b = bd_usage b0"
      by (auto simp: fresh(15) table_simps split: if_splits)
    then show "aggregate_get (bd_usage b) k = day_total k dk db'"
      using meteredD [OF met, of dk b0 k] day_total_none [OF inv, of dk k]
      by (auto simp: tot fresh(2) table_simps aggregate_get_def split: if_splits)
  qed
qed
lemma metered_settle:
  assumes inv: "ledger_inv db" and met: "metered db"
    and row: "select_row (dispatch_receipts db) key = Some r"
    and budget: "select_row (budget_days db) (day_of (fst key) r) = Some budget"
    and day: "day_of (fst key) r' = day_of (fst key) r"
    and agg: "\<And>k. aggregate_get agg k = aggregate_get (bd_usage budget) k + (receipt_total k r' - receipt_total k r)"
  shows "metered (set_receipt key r' (set_aggregate (day_of (fst key) r) agg now db))"
    (is "metered ?db")
proof (rule meteredI)
  fix dk b k assume b: "select_row (budget_days ?db) dk = Some b"
  have "dispatch_receipts ?db = update_row key (\<lambda>_. r') (dispatch_receipts db)"
    by (simp add: set_receipt_def set_aggregate_def)
  note tot = day_total_set_receipt [OF inv row this day, of k dk]
  show "aggregate_get (bd_usage b) k = day_total k dk ?db"
  proof (cases "dk = day_of (fst key) r")
    case True
    then have "bd_usage b = agg"
      using b budget by (auto simp: set_receipt_def set_aggregate_def table_simps)
    with tot True show ?thesis by (simp add: agg meteredD [OF met budget])
  next
    case False
    then have "select_row (budget_days db) dk = Some b"
      using b by (simp add: set_receipt_def set_aggregate_def table_simps)
    from meteredD [OF met this] False show ?thesis by (simp add: tot)
  qed
qed

lemma sum_rows_Ints: "(\<And>k v. g k v \<in> \<int>) \<Longrightarrow> sum_rows g t \<in> \<int>"
  by (induction t) auto

lemma day_counter_int:
  assumes "is_counter k" obtains n :: int where "day_total k dk db = of_int n"
proof -
  have "day_total k dk db \<in> \<int>"
    unfolding day_total_def by (rule sum_rows_Ints) (use assms in \<open>auto simp: receipt_total_def is_counter_def\<close>)
  then show thesis using that by (auto elim: Ints_cases)
qed

lemma unknown_counter_pos:
  assumes "ledger_inv db" and "select_row (dispatch_receipts db) key = Some r" and "dr_status r = Unknown_Usage"
  shows "1 \<le> day_total ''unknown_responses'' (day_of (fst key) r) db"
proof -
  let ?g = "\<lambda>key' q. if day_of (fst key') q = day_of (fst key) r
                    then receipt_total ''unknown_responses'' q else 0"
  have "?g key r \<le> sum_rows ?g (dispatch_receipts db)"
    by (rule sum_rows_member_le [OF _ select_row_mem [OF assms(2)]]) (simp add: receipt_total_def)
  then show ?thesis using assms(3) by (simp add: day_total_def receipt_total_def)
qed

lemma bump_counter_int:
  "aggregate_get agg k = of_int n \<Longrightarrow> aggregate_get (bump_counter k agg) k' =
     (if k' = k then of_int n + 1 else aggregate_get agg k')"
  by (simp add: bump_counter_def aggregate_get_update)

lemma settle_keeps_metered:
  assumes inv: "ledger_inv db" and met: "metered db"
    and res: "settle_dispatch db ctx i usage now = Inr (row', db')"
    and free: "\<And>us. usage = Some us \<Longrightarrow> counter_free us"
  shows "metered db'"
  using res
proof (cases rule: settle_cases)
  case (replay row)
  then show ?thesis using met by simp
next
  case (upgrade row budget us)
  let ?u = "''unknown_responses''" and ?dk = "day_of ctx row"
  have budget: "select_row (budget_days db) (day_of (fst (ctx, i)) row) = Some budget" using upgrade(2) by simp
  obtain n where n: "day_total ?u ?dk db = of_int n" by (rule day_counter_int [of ?u]) (auto simp: is_counter_def)
  have "1 \<le> n" using unknown_counter_pos [OF inv upgrade(1,5)] n by simp
  moreover have agg: "aggregate_get (bd_usage budget) ?u = of_int n" using meteredD [OF met upgrade(2)] n by simp
  ultimately have dec: "aggregate_get (AList.update ?u (of_int (max 0 (int_of_number
      (aggregate_get (bd_usage budget) ?u) - 1))) (bd_usage budget)) k =
      aggregate_get (bd_usage budget) k - (if k = ?u then 1 else 0)" for k
    by (auto simp: aggregate_get_update)
  have rep: "is_counter k \<Longrightarrow> reported k us = 0" for k using reported_counter free upgrade(3) by blast
  have day: "day_of (fst (ctx, i)) row' = day_of (fst (ctx, i)) row" by (simp add: upgrade(7) day_of_def)
  have step: "reported k us - (if k = ?u then 1 else 0) = receipt_total k row' - receipt_total k row" for k
    using rep [of k] by (auto simp: upgrade(5-7) receipt_total_def is_counter_def)
  have "metered (set_receipt (ctx, i) row' (set_aggregate (day_of (fst (ctx, i)) row)
      (add_usage us (AList.update ?u (of_int (max 0 (int_of_number
         (aggregate_get (bd_usage budget) ?u) - 1))) (bd_usage budget))) now db))"
    by (rule metered_settle [OF inv met upgrade(1) budget day])
       (simp add: aggregate_get_add_usage dec step [symmetric])
  then show ?thesis by (simp add: upgrade(8))
next
  case (first row budget)
  let ?u = "''unknown_responses''" and ?r = "''responses''" and ?dk = "day_of ctx row"
  have budget: "select_row (budget_days db) (day_of (fst (ctx, i)) row) = Some budget" using first(2) by simp
  have res: "dr_status row = Reserved" "dr_usage row = None"
    using ledger_receipt [OF inv first(1)] first(3) by (simp_all add: receipt_ok_def)
  obtain n where "day_total ?r ?dk db = of_int n" by (rule day_counter_int [of ?r]) (auto simp: is_counter_def)
  then have aggr: "aggregate_get (bd_usage budget) ?r = of_int n" using meteredD [OF met first(2)] by simp
  obtain m where "day_total ?u ?dk db = of_int m" by (rule day_counter_int [of ?u]) (auto simp: is_counter_def)
  then have aggu: "aggregate_get (bd_usage budget) ?u = of_int m" using meteredD [OF met first(2)] by simp
  have bump: "aggregate_get (bump_counter ?r (bd_usage budget)) k =
      aggregate_get (bd_usage budget) k + (if k = ?r then 1 else 0)" for k
    using aggr by (simp add: bump_counter_int)
  have "aggregate_get (bump_counter ?r (bd_usage budget)) ?u = of_int m" using aggu by (simp add: bump)
  then have bump2: "aggregate_get (bump_counter ?u (bump_counter ?r (bd_usage budget))) k =
      aggregate_get (bd_usage budget) k + (if k = ?r \<or> k = ?u then 1 else 0)" for k
    by (auto simp: bump_counter_int bump aggu)
  have day: "day_of (fst (ctx, i)) row' = day_of (fst (ctx, i)) row" by (simp add: first(4) day_of_def)
  have "metered (set_receipt (ctx, i) row' (set_aggregate (day_of (fst (ctx, i)) row)
      (case usage of None \<Rightarrow> bump_counter ?u (bump_counter ?r (bd_usage budget))
         | Some us \<Rightarrow> add_usage us (bump_counter ?r (bd_usage budget))) now db))"
  proof (rule metered_settle [OF inv met first(1) budget day], cases usage)
    fix k assume "usage = None"
    then show "aggregate_get (case usage of None \<Rightarrow> bump_counter ?u (bump_counter ?r (bd_usage budget))
         | Some us \<Rightarrow> add_usage us (bump_counter ?r (bd_usage budget))) k =
        aggregate_get (bd_usage budget) k + (receipt_total k row' - receipt_total k row)"
      by (simp add: bump2 res first(4) receipt_total_def)
  next
    fix k us assume us: "usage = Some us"
    then have "is_counter k \<Longrightarrow> reported k us = 0" using reported_counter free by blast
    with us show "aggregate_get (case usage of None \<Rightarrow> bump_counter ?u (bump_counter ?r (bd_usage budget))
         | Some us \<Rightarrow> add_usage us (bump_counter ?r (bd_usage budget))) k =
        aggregate_get (bd_usage budget) k + (receipt_total k row' - receipt_total k row)"
      by (auto simp: bump res first(4) receipt_total_def is_counter_def aggregate_get_add_usage)
  qed
  then show ?thesis by (simp add: first(5))
qed

lemma release_keeps_metered:
  assumes inv: "ledger_inv db" and met: "metered db"
    and res: "release_dispatch db ctx i now = Inr (row', db')"
  shows "metered db'"
  using res
proof (cases rule: release_cases)
  case replay
  then show ?thesis using met by simp
next
  case (release row budget)
  have recs: "dispatch_receipts db' = update_row (ctx, i) (\<lambda>_. row') (dispatch_receipts db)"
    by (simp add: release(7) set_receipt_def)
  have day: "day_of (fst (ctx, i)) row' = day_of (fst (ctx, i)) row" by (simp add: release(6) day_of_def)
  have "dr_usage row = None" using ledger_receipt [OF inv release(1)] release(2) by (simp add: receipt_ok_def)
  then have same: "day_total k dk db' = day_total k dk db" for k dk
    using day_total_set_receipt [OF inv release(1) recs day, of k dk] release(2,6)
    by (simp add: receipt_total_def)
  show ?thesis
  proof (rule meteredI)
    fix dk b k assume b: "select_row (budget_days db') dk = Some b"
    then obtain b0 where "select_row (budget_days db) dk = Some b0" "bd_usage b = bd_usage b0"
      by (auto simp: release(7) set_receipt_def table_simps split: if_splits)
    then show "aggregate_get (bd_usage b) k = day_total k dk db'"
      using meteredD [OF met, of dk b0 k] by (simp add: same)
  qed
qed

lemma budget_reach_metered: "budget_reach counter_free db \<Longrightarrow> metered db"
proof (induction rule: budget_reach.induct)
  case start
  show ?case by (rule meteredI) (simp add: empty_budget_def select_row_def)
next
  case (reserve db ctx rq today now row db')
  then show ?case using reserve_keeps_metered budget_reach_ledger by blast
next
  case (settle db ctx i usage now row db')
  then show ?case using settle_keeps_metered budget_reach_ledger by blast
next
  case (release db ctx i now row db')
  then show ?case using release_keeps_metered budget_reach_ledger by blast
qed

section \<open>Retries\<close>

lemma same_usage_refl [simp]: "same_usage u u"
  by (cases u) (simp_all add: same_usage_def list_all_iff)

lemma settled_row:
  assumes "settle_dispatch db ctx i usage now = Inr (row, db')"
  shows "select_row (dispatch_receipts db') (ctx, i) = Some row \<and> dr_settled_at row \<noteq> None \<and>
         select_row (budget_days db') (day_of ctx row) \<noteq> None \<and> same_usage (dr_usage row) usage \<and>
         \<not> nonfinite_usage usage"
proof -
  have fin: "\<not> nonfinite_usage usage" using assms by (auto simp: settle_dispatch_def split: if_splits)
  from assms show ?thesis
  proof (cases rule: settle_cases)
    case (replay row0)
    moreover have "select_row (budget_days db) (day_of ctx row0) \<noteq> None"
      using assms replay(1) by (auto simp: settle_dispatch_def split: if_splits option.splits)
    ultimately show ?thesis using fin by simp
  next
    case (upgrade row0 budget us)
    then show ?thesis
      using fin by (simp add: set_receipt_def set_aggregate_def table_simps day_of_def)
  next
    case (first row0 budget)
    then show ?thesis
      using fin by (simp add: set_receipt_def set_aggregate_def table_simps day_of_def)
  qed
qed

lemma reserved_row:
  assumes "reserve_dispatch db ctx rq today now = Inr (row, db')"
    and "day = (case rq_day rq of None \<Rightarrow> today | Some d \<Rightarrow> d)"
  shows "select_row (dispatch_receipts db') (ctx, rq_dispatch_id rq) = Some row"
    and "\<exists>b. select_row (budget_days db') (ctx, day, rq_lane rq) = Some b \<and> bd_request_limit b = rq_request_limit rq"
    and "same_binding row day (rq_lane rq) (rq_requests rq) (rq_run_id rq) (rq_job_id rq) (rq_request_hash rq) = Inr ()"
    and "hex_text 64 (rq_request_hash rq) \<and> rq_lane rq \<in> {''foreground'', ''background''} \<and>
         1 \<le> rq_requests rq \<and> 1 \<le> rq_request_limit rq"
proof -
  show "hex_text 64 (rq_request_hash rq) \<and> rq_lane rq \<in> {''foreground'', ''background''} \<and>
      1 \<le> rq_requests rq \<and> 1 \<le> rq_request_limit rq"
    using assms(1) unfolding reserve_dispatch_def by (simp split: if_splits add: not_less)
  have limit: "\<exists>b. select_row (insert_or_ignore (ctx, day, rq_lane rq)
         \<lparr>bd_request_limit = rq_request_limit rq, bd_requests_used = 0, bd_usage = [], bd_updated_at = now\<rparr>
         (budget_days db)) (ctx, day, rq_lane rq) = Some b \<and> bd_request_limit b = rq_request_limit rq"
    using assms unfolding reserve_dispatch_def Let_def by (auto split: if_splits option.splits)
  from assms(1) have "select_row (dispatch_receipts db') (ctx, rq_dispatch_id rq) = Some row \<and>
     (\<exists>b. select_row (budget_days db') (ctx, day, rq_lane rq) = Some b \<and> bd_request_limit b = rq_request_limit rq) \<and>
     same_binding row day (rq_lane rq) (rq_requests rq) (rq_run_id rq) (rq_job_id rq) (rq_request_hash rq) = Inr ()"
  proof (cases rule: reserve_cases)
    case (replay days)
    with limit show ?thesis by (simp add: assms(2) [symmetric])
  next
    case (fresh days budget dk)
    have dk: "dk = (ctx, day, rq_lane rq)" using fresh(1) assms(2) by simp
    have "same_binding row day (rq_lane rq) (rq_requests rq) (rq_run_id rq) (rq_job_id rq) (rq_request_hash rq) = Inr ()"
      using fresh(7) by (simp add: same_binding_def dk fresh(9,12-14) day_of_def)
    with fresh show ?thesis by (simp add: dk table_simps)
  qed
  then show "select_row (dispatch_receipts db') (ctx, rq_dispatch_id rq) = Some row"
    and "\<exists>b. select_row (budget_days db') (ctx, day, rq_lane rq) = Some b \<and> bd_request_limit b = rq_request_limit rq"
    and "same_binding row day (rq_lane rq) (rq_requests rq) (rq_run_id rq) (rq_job_id rq) (rq_request_hash rq) = Inr ()"
    by blast+
qed

lemma reserve_again:
  assumes "select_row (dispatch_receipts db) (ctx, rq_dispatch_id rq) = Some row"
    and "hex_text 64 (rq_request_hash rq) \<and> rq_lane rq \<in> {''foreground'', ''background''} \<and>
         1 \<le> rq_requests rq \<and> 1 \<le> rq_request_limit rq"
    and "day = (case rq_day rq of None \<Rightarrow> today | Some d \<Rightarrow> d)"
  shows "reserve_dispatch db ctx rq today now =
    (let days = insert_or_ignore (ctx, day, rq_lane rq)
          \<lparr>bd_request_limit = rq_request_limit rq, bd_requests_used = 0, bd_usage = [], bd_updated_at = now\<rparr>
          (budget_days db)
     in if \<exists>b. select_row days (ctx, day, rq_lane rq) = Some b \<and> bd_request_limit b = rq_request_limit rq
        then ebind (same_binding row day (rq_lane rq) (rq_requests rq) (rq_run_id rq) (rq_job_id rq)
               (rq_request_hash rq)) (\<lambda>_. Inr (row, db\<lparr>budget_days := days\<rparr>))
        else Inl (Conflict ''budget_policy_mismatch''))"
  using assms by (auto simp: reserve_dispatch_def Let_def table_simps split: option.splits)

section \<open>Properties\<close>

definition used_on :: "day_key \<Rightarrow> budget_db \<Rightarrow> int" where
  "used_on dk db = (case select_row (budget_days db) dk of None \<Rightarrow> 0 | Some b \<Rightarrow> bd_requests_used b)"

definition sample_ctx :: resource_context where
  "sample_ctx = \<lparr>workspace_id = ''w'', user_id = ''u''\<rparr>"

definition sample_request :: dispatch_request where
  "sample_request = \<lparr>rq_dispatch_id = ''d1'', rq_lane = ''foreground'', rq_request_limit = 2,
     rq_request_hash = replicate 64 CHR ''a'', rq_requests = 2, rq_run_id = None, rq_job_id = None,
     rq_day = None\<rparr>"

definition sample_receipt :: dispatch_receipt where
  "sample_receipt = \<lparr>dr_run_id = None, dr_job_id = None, dr_lane = ''foreground'', dr_budget_day = 20,
     dr_status = Reserved, dr_reserved_requests = 2, dr_usage = None,
     dr_request_hash = Some (replicate 64 CHR ''a''), dr_created_at = 100, dr_settled_at = None\<rparr>"

definition sample_day :: day_key where
  "sample_day = (sample_ctx, 20, ''foreground'')"

definition sample_budget :: budget_db where
  "sample_budget =
     \<lparr>budget_days = [(sample_day, \<lparr>bd_request_limit = 2, bd_requests_used = 2, bd_usage = [], bd_updated_at = 100\<rparr>)],
      dispatch_receipts = [((sample_ctx, ''d1''), sample_receipt)]\<rparr>"

lemma hex_sample: "hex_text 64 (replicate 64 CHR ''a'')"
  by (simp add: hex_text_def lower_hex_def)

lemma sample_reserve: "reserve_dispatch empty_budget sample_ctx sample_request 20 100 = Inr (sample_receipt, sample_budget)"
  by (simp add: reserve_dispatch_def sample_request_def hex_sample empty_budget_def insert_or_ignore_def
      insert_row_def select_row_def Let_def sample_receipt_def sample_budget_def sample_day_def
      update_row_def update_where_def del: replicate.simps)

lemma sample_reach: "budget_reach allowed sample_budget"
  by (rule budget_reach.reserve [OF budget_reach.start sample_reserve])

text \<open>
  C3: a dispatch budget is never overspent. In every state that reservations, settlements and
  releases reach, the requests a day has used are exactly the reservations of its receipts that
  were not released, and never more than the day's limit.
\<close>

theorem budget_never_overspent:
  assumes "budget_reach allowed db" and "select_row (budget_days db) dk = Some b"
  shows "bd_requests_used b = held_requests dk db \<and> 0 \<le> bd_requests_used b \<and>
         bd_requests_used b \<le> bd_request_limit b"
proof -
  have inv: "ledger_inv db" by (rule budget_reach_ledger [OF assms(1)])
  have "0 \<le> held_requests dk db" by (rule held_nonneg [OF inv])
  then show ?thesis using ledger_day [OF inv assms(2)] by simp
qed

lemma budget_never_overspent_witness:
  "held_requests sample_day sample_budget = 2 \<and> (2::int) \<le> 2"
proof -
  have "select_row (budget_days sample_budget) sample_day =
      Some \<lparr>bd_request_limit = 2, bd_requests_used = 2, bd_usage = [], bd_updated_at = 100\<rparr>"
    by (simp add: sample_budget_def select_row_def)
  from budget_never_overspent [OF sample_reach this] show ?thesis by simp
qed

text \<open>
  Usage is metered exactly. As long as providers do not report keys named like the two
  counters, the day's aggregate holds under every key the sum of what the settled receipts of that
  day reported, under \<open>responses\<close> the number of receipts with a response and under
  \<open>unknown_responses\<close> the number whose cost is still unknown; a late upgrade of an unknown receipt
  moves it from one count to the other and never counts it twice.
\<close>

lemma usage_accounted_exactly:
  assumes "budget_reach counter_free db" and "select_row (budget_days db) dk = Some b"
  shows "aggregate_get (bd_usage b) k = day_total k dk db"
  by (rule meteredD [OF budget_reach_metered [OF assms(1)] assms(2)])

definition sample_late :: "usage" where
  "sample_late = [(''cost'', U_Num (3/2)), (''model'', U_Other (JStr ''m''))]"

text \<open>
  A reservation is charged once. Repeating a successful reservation returns the same receipt
  and leaves the database as it is, at any later time of the same budget day; on another day it is
  rejected without an effect.
\<close>

lemma reservation_charged_once:
  assumes "reserve_dispatch db ctx rq today now = Inr (row, db')"
  shows "reserve_dispatch db' ctx rq today again = Inr (row, db') \<and>
         (rq_day rq = None \<and> today' \<noteq> today \<longrightarrow>
            reserve_dispatch db' ctx rq today' again = Inl (Conflict ''dispatch_identity_mismatch'') \<or>
            reserve_dispatch db' ctx rq today' again = Inl (Conflict ''budget_policy_mismatch''))"
proof -
  define day where "day = (case rq_day rq of None \<Rightarrow> today | Some d \<Rightarrow> d)"
  note row = reserved_row [OF assms day_def]
  obtain b where b: "select_row (budget_days db') (ctx, day, rq_lane rq) = Some b"
      "bd_request_limit b = rq_request_limit rq" using row(2) by blast
  then have kept: "insert_or_ignore (ctx, day, rq_lane rq) v (budget_days db') = budget_days db'" for v
    by (simp add: insert_or_ignore_def select_row_def)
  have same: "reserve_dispatch db' ctx rq today again = Inr (row, db')"
    using b by (simp add: reserve_again [OF row(1,4) day_def] kept row(3))
  have day: "rq_day rq = None \<Longrightarrow> dr_budget_day row = today"
    using row(3) by (auto simp: same_binding_def day_def split: if_splits)
  have other: "same_binding row today' (rq_lane rq) (rq_requests rq) (rq_run_id rq) (rq_job_id rq) (rq_request_hash rq) =
      Inl (Conflict ''dispatch_identity_mismatch'')" if "rq_day rq = None" "today' \<noteq> today"
    using that day row(3) by (auto simp: same_binding_def split: if_splits)
  have "rq_day rq = None \<and> today' \<noteq> today \<longrightarrow>
            reserve_dispatch db' ctx rq today' again = Inl (Conflict ''dispatch_identity_mismatch'') \<or>
            reserve_dispatch db' ctx rq today' again = Inl (Conflict ''budget_policy_mismatch'')"
  proof (intro impI)
    assume new: "rq_day rq = None \<and> today' \<noteq> today"
    then have d': "today' = (case rq_day rq of None \<Rightarrow> today' | Some d \<Rightarrow> d)" by simp
    show "reserve_dispatch db' ctx rq today' again = Inl (Conflict ''dispatch_identity_mismatch'') \<or>
        reserve_dispatch db' ctx rq today' again = Inl (Conflict ''budget_policy_mismatch'')"
      using other new by (simp add: reserve_again [OF row(1,4) d'] Let_def)
  qed
  with same show ?thesis by blast
qed

text \<open>
  A settlement is recorded once. Repeating it with the same usage returns the same receipt and
  leaves the database as it is; a different finite usage for a receipt whose cost is known (or
  that was released) is a conflict.
\<close>

lemma settlement_recorded_once:
  assumes "settle_dispatch db ctx i usage now = Inr (row, db')"
  shows "settle_dispatch db' ctx i usage again = Inr (row, db') \<and>
         (\<not> same_usage (dr_usage row) usage' \<and> \<not> nonfinite_usage usage' \<and> dr_status row \<noteq> Unknown_Usage \<longrightarrow>
            settle_dispatch db' ctx i usage' again = Inl (Conflict ''dispatch_settlement_mismatch''))"
proof -
  obtain t b where facts: "select_row (dispatch_receipts db') (ctx, i) = Some row" "dr_settled_at row = Some t"
      "select_row (budget_days db') (day_of ctx row) = Some b" "same_usage (dr_usage row) usage"
      "\<not> nonfinite_usage usage"
    using settled_row [OF assms] by blast
  show ?thesis
    by (simp add: settle_dispatch_def facts split: option.split)
qed

text \<open>
  Releasing an unsent reservation undoes it. In a reachable state the release never finds the
  ledger inconsistent; releasing a fresh reservation succeeds and gives every day back exactly the
  requests it had used before.
\<close>

lemma release_undoes_reservation:
  assumes "budget_reach allowed db"
  shows "release_dispatch db ctx i now \<noteq> Inl (Conflict ''budget_reservation_inconsistent'') \<and>
    (select_row (dispatch_receipts db) (ctx, rq_dispatch_id rq) = None \<and>
     reserve_dispatch db ctx rq today now = Inr (row, db1) \<longrightarrow>
     (\<exists>row2 db2. release_dispatch db1 ctx (rq_dispatch_id rq) again = Inr (row2, db2) \<and>
        dr_status row2 = Released \<and> used_on dk db2 = used_on dk db))"
proof -
  have consistent: "release_dispatch d ctx i t \<noteq> Inl (Conflict ''budget_reservation_inconsistent'')"
    if inv: "ledger_inv d" for d i t
  proof (cases "select_row (dispatch_receipts d) (ctx, i)")
    case None
    then show ?thesis by (simp add: release_dispatch_def)
  next
    case (Some r)
    have ok: "receipt_ok d (ctx, i) r" by (rule ledger_receipt [OF inv Some])
    then obtain b where b: "select_row (budget_days d) (day_of ctx r) = Some b" by (auto simp: receipt_ok_def)
    have "dr_status r = Reserved \<Longrightarrow> dr_reserved_requests r \<le> bd_requests_used b"
      using held_by_le(1) [OF inv Some, of "day_of ctx r"] ledger_day [OF inv b] by (simp add: held_by_def)
    then show ?thesis using Some b by (simp add: release_dispatch_def Let_def)
  qed
  have inv: "ledger_inv db" by (rule budget_reach_ledger [OF assms])
  have undo: "\<exists>row2 db2. release_dispatch db1 ctx (rq_dispatch_id rq) again = Inr (row2, db2) \<and>
        dr_status row2 = Released \<and> used_on dk db2 = used_on dk db"
    if none: "select_row (dispatch_receipts db) (ctx, rq_dispatch_id rq) = None"
      and res: "reserve_dispatch db ctx rq today now = Inr (row, db1)"
    using res
  proof (cases rule: reserve_cases)
    case (replay days)
    with none show ?thesis by simp
  next
    case (fresh days budget dk0)
    have "ledger_inv db1" by (rule reserve_keeps_ledger [OF inv res])
    note cons = consistent [OF this, of "rq_dispatch_id rq" again]
    have row: "select_row (dispatch_receipts db1) (ctx, rq_dispatch_id rq) = Some row"
      using fresh(6) by (simp add: fresh(15) table_simps)
    obtain row2 db2 where rel: "release_dispatch db1 ctx (rq_dispatch_id rq) again = Inr (row2, db2)"
      using cons row fresh(8,11) by (auto simp: release_dispatch_def Let_def split: option.splits if_splits)
    then have "dr_status row2 = Released \<and> used_on dk db2 = used_on dk db"
    proof (cases rule: release_cases)
      case replay
      with row fresh(8) show ?thesis by simp
    next
      case (release r b)
      have r: "r = row" using release(1) row by simp
      have "used_on dk db2 = used_on dk (db\<lparr>budget_days := days\<rparr>)"
        by (auto simp: used_on_def release(7) r fresh(7,9,15) set_receipt_def table_simps split: option.splits)
      also have "\<dots> = used_on dk db"
        by (auto simp: used_on_def fresh(2) table_simps split: option.splits)
      finally show ?thesis by (simp add: release(6))
    qed
    with rel show ?thesis by blast
  qed
  show ?thesis using consistent [OF inv] undo by blast
qed

end
