(* ===== verification/Storage_Scheduler.thy ===== *)
theory Storage_Scheduler
  imports Storage_Budget
begin

text \<open>
  Job and lane leases: src/shiliu/storage/scheduler.py over the tables \<open>assistant_jobs\<close> (keyed by
  id), \<open>scheduler_lanes\<close> (one model-maintenance lane per owner), \<open>assistant_scheduler_events\<close>, and
  the two backfill tables it reads. Times and lease lengths are microseconds. An operation reads
  the database clock once, as its argument \<open>now\<close>; row locks make each operation one atomic step,
  so \<open>SKIP LOCKED\<close> never skips. SQL NULL is \<open>None\<close>.
\<close>

section \<open>State\<close>

record job =
  j_owner :: resource_context
  j_kind :: string
  j_status :: string
  j_attempt :: int
  j_not_before :: int
  j_lease_owner :: "string option"
  j_lease_until :: "int option"
  j_lease_epoch :: int
  j_proposal :: "json option"
  j_created_at :: int
  j_updated_at :: int
  j_completed_at :: "int option"

record lane =
  ln_active :: "string option"
  ln_epoch :: int
  ln_until :: "int option"

record job_hold =
  jh_workspace :: string
  jh_run :: string
  jh_video :: int

record backfill_operation =
  bo_workspace :: string
  bo_run :: string
  bo_video :: int
  bo_state :: string

record scheduler_db =
  jobs :: "(string, job) table"
  lanes :: "(resource_context, lane) table"
  scheduler_events :: "(resource_context \<times> string \<times> string \<times> int) list"
  job_holds :: "(string, job_hold) table"
  backfill_operations :: "backfill_operation list"

definition LOCAL_KINDS :: "string list" where
  "LOCAL_KINDS = [''memory_purge'', ''memory_index'', ''source_reconcile'']"

definition MODEL_KINDS :: "string list" where
  "MODEL_KINDS = [''memory_extract'', ''source_extract'', ''wiki_integrate'', ''external_material_integrate'']"

definition waiting_statuses :: "string list" where
  "waiting_statuses = [''queued'', ''retry_wait'', ''budget_wait'']"

section \<open>Lane and candidates\<close>

definition lease_valid :: "int option \<Rightarrow> int \<Rightarrow> bool" where
  "lease_valid until now = (case until of None \<Rightarrow> False | Some t \<Rightarrow> t > now)"

definition fresh_lane :: lane where
  "fresh_lane = \<lparr>ln_active = None, ln_epoch = 0, ln_until = None\<rparr>"

definition ensure_lane :: "resource_context \<Rightarrow> scheduler_db \<Rightarrow> scheduler_db" where
  "ensure_lane ctx db = db\<lparr>lanes := insert_or_ignore ctx fresh_lane (lanes db)\<rparr>"

definition lane_row :: "resource_context \<Rightarrow> scheduler_db \<Rightarrow> lane" where
  "lane_row ctx db = (case select_row (lanes db) ctx of None \<Rightarrow> fresh_lane | Some l \<Rightarrow> l)"

text \<open>\<open>lane["active_job_id"] and lane["valid"]\<close>: an empty id is falsy.\<close>

definition lane_busy :: "resource_context \<Rightarrow> int \<Rightarrow> scheduler_db \<Rightarrow> bool" where
  "lane_busy ctx now db \<longleftrightarrow>
     ln_active (lane_row ctx db) \<notin> {None, Some []} \<and> lease_valid (ln_until (lane_row ctx db)) now"

definition held :: "scheduler_db \<Rightarrow> resource_context \<Rightarrow> string \<Rightarrow> bool" where
  "held db ctx i \<longleftrightarrow>
     (case select_row (job_holds db) i of None \<Rightarrow> False | Some h \<Rightarrow> jh_workspace h = workspace_id ctx)"

definition eligible :: "scheduler_db \<Rightarrow> resource_context \<Rightarrow> string list \<Rightarrow> int \<Rightarrow> string \<times> job \<Rightarrow> bool" where
  "eligible db ctx kinds now row \<longleftrightarrow>
     j_owner (snd row) = ctx \<and> j_kind (snd row) \<in> set kinds \<and> j_status (snd row) \<in> set waiting_statuses \<and>
     j_not_before (snd row) \<le> now \<and> \<not> held db ctx (fst row)"

definition kind_rank :: "string \<Rightarrow> int" where
  "kind_rank k = (if k = ''memory_purge'' then 0 else if k = ''memory_index'' then 1 else 2)"

definition job_order :: "string \<times> job \<Rightarrow> int \<times> int \<times> string" where
  "job_order row = (kind_rank (j_kind (snd row)), j_created_at (snd row), fst row)"

definition candidate ::
  "scheduler_db \<Rightarrow> resource_context \<Rightarrow> string list \<Rightarrow> int \<Rightarrow> (string \<times> job) option"
where
  "candidate db ctx kinds now =
     (case sort_key job_order (filter (eligible db ctx kinds now) (jobs db)) of
        [] \<Rightarrow> None | row # _ \<Rightarrow> Some row)"

section \<open>Claims\<close>

definition claimed :: "string \<Rightarrow> int \<Rightarrow> int \<Rightarrow> job \<Rightarrow> job" where
  "claimed owner lease now j =
     j\<lparr>j_status := ''running'', j_lease_owner := Some owner, j_lease_epoch := j_lease_epoch j + 1,
       j_attempt := j_attempt j + 1, j_lease_until := Some (now + lease), j_updated_at := now\<rparr>"

definition set_job :: "string \<Rightarrow> job \<Rightarrow> scheduler_db \<Rightarrow> scheduler_db" where
  "set_job i j db = db\<lparr>jobs := update_row i (\<lambda>_. j) (jobs db)\<rparr>"

definition assign_job ::
  "scheduler_db \<Rightarrow> resource_context \<Rightarrow> string \<Rightarrow> string \<times> job \<Rightarrow> bool \<Rightarrow> int \<Rightarrow> int \<Rightarrow> (string \<times> job) \<times> scheduler_db"
where
  "assign_job db ctx owner row model lease now =
     (let j = claimed owner lease now (snd row);
          db1 = set_job (fst row) j db;
          db2 = (if model
                 then db1\<lparr>lanes := update_row ctx (\<lambda>_. \<lparr>ln_active = Some (fst row),
                             ln_epoch = j_lease_epoch j, ln_until = j_lease_until j\<rparr>) (lanes db1)\<rparr>
                 else db1)
      in ((fst row, j), db2\<lparr>scheduler_events := scheduler_events db2 @ [(ctx, fst row, ''claimed'', now)]\<rparr>))"

definition lease_limit :: int where
  "lease_limit = 120 * 1000000"

definition wanted :: "string list option \<Rightarrow> string list \<Rightarrow> string list" where
  "wanted kinds available = (case kinds of None \<Rightarrow> available | Some ks \<Rightarrow> filter (\<lambda>k. k \<in> set ks) available)"

record claim_options =
  allow_model_jobs :: bool
  allow_maintenance :: bool
  activity_allowed :: bool
  budget_allowed :: bool
  only_kinds :: "string list option"

definition claim_job ::
  "scheduler_db \<Rightarrow> resource_context \<Rightarrow> string \<Rightarrow> int \<Rightarrow> claim_options \<Rightarrow> int
    \<Rightarrow> ((string \<times> job) option \<times> scheduler_db) result"
where
  "claim_job db ctx owner lease opts now =
     (if owner = [] \<or> \<not> (0 < lease \<and> lease \<le> lease_limit) then Inl (Value_Error ''invalid_job_lease'')
      else case candidate db ctx (wanted (only_kinds opts) LOCAL_KINDS) now of
        Some row \<Rightarrow>
          (let (j, db') = assign_job db ctx owner row False lease now in Inr (Some j, db'))
      | None \<Rightarrow>
          if allow_maintenance opts \<and> allow_model_jobs opts \<and> activity_allowed opts \<and> budget_allowed opts
          then
            let db1 = ensure_lane ctx db in
            if lane_busy ctx now db1 then Inr (None, db1)
            else case candidate db1 ctx (wanted (only_kinds opts) MODEL_KINDS) now of
                None \<Rightarrow> Inr (None, db1)
              | Some row \<Rightarrow>
                  (let (j, db') = assign_job db1 ctx owner row True lease now in Inr (Some j, db'))
          else Inr (None, db))"

definition owned_job :: "scheduler_db \<Rightarrow> resource_context \<Rightarrow> string \<Rightarrow> job option" where
  "owned_job db ctx i =
     (case select_row (jobs db) i of None \<Rightarrow> None | Some j \<Rightarrow> if j_owner j = ctx then Some j else None)"

definition backfill_row :: "scheduler_db \<Rightarrow> resource_context \<Rightarrow> string \<Rightarrow> string \<Rightarrow> int \<Rightarrow> job option" where
  "backfill_row db ctx i run now =
     (case owned_job db ctx i of
        None \<Rightarrow> None
      | Some j \<Rightarrow>
          if j_kind j \<in> {''source_reconcile'', ''wiki_integrate''} \<and> j_status j \<in> set waiting_statuses \<and>
             j_not_before j \<le> now \<and>
             (case select_row (job_holds db) i of
                None \<Rightarrow> False
              | Some h \<Rightarrow> jh_workspace h = workspace_id ctx \<and> jh_run h = run \<and>
                  list_ex (\<lambda>b. bo_workspace b = jh_workspace h \<and> bo_run b = jh_run h \<and>
                                bo_video b = jh_video h \<and>
                                bo_state b \<in> {''applied'', ''rollback_pending''}) (backfill_operations db))
          then Some j else None)"

definition claim_backfill_job ::
  "scheduler_db \<Rightarrow> resource_context \<Rightarrow> string \<Rightarrow> string \<Rightarrow> string \<Rightarrow> int \<Rightarrow> int
    \<Rightarrow> ((string \<times> job) option \<times> scheduler_db) result"
where
  "claim_backfill_job db ctx owner i run lease now =
     (if owner = [] \<or> \<not> (0 < lease \<and> lease \<le> lease_limit) then Inl (Value_Error ''invalid_job_lease'')
      else case owned_job db ctx i of
        None \<Rightarrow> Inr (None, db)
      | Some j0 \<Rightarrow>
          let model = j_kind j0 \<notin> set LOCAL_KINDS;
              db1 = (if model then ensure_lane ctx db else db)
          in if model \<and> lane_busy ctx now db1 then Inr (None, db1)
             else case backfill_row db1 ctx i run now of
                 None \<Rightarrow> Inr (None, db1)
               | Some j \<Rightarrow>
                   (let (r, db') = assign_job db1 ctx owner (i, j) model lease now in Inr (Some r, db')))"

section \<open>Guard, transition, recovery\<close>

definition guard_job ::
  "scheduler_db \<Rightarrow> resource_context \<Rightarrow> string \<Rightarrow> string \<Rightarrow> int \<Rightarrow> int \<Rightarrow> ((job \<times> lane option) \<times> scheduler_db) result"
where
  "guard_job db ctx i owner ep now =
     (case owned_job db ctx i of
        None \<Rightarrow> Inl (Conflict ''job_missing'')
      | Some j \<Rightarrow>
          let model = j_kind j \<notin> set LOCAL_KINDS;
              db1 = (if model then ensure_lane ctx db else db);
              l = (if model then Some (lane_row ctx db1) else None)
          in if j_status j \<noteq> ''running'' \<or> j_lease_owner j \<noteq> Some owner \<or> j_lease_epoch j \<noteq> ep \<or>
                \<not> lease_valid (j_lease_until j) now
             then Inl (Conflict ''job_fenced'')
             else if (case l of None \<Rightarrow> False
                      | Some r \<Rightarrow> ln_active r \<noteq> Some i \<or> ln_epoch r \<noteq> ep \<or> \<not> lease_valid (ln_until r) now)
             then Inl (Conflict ''lane_fenced'')
             else Inr ((j, l), db1))"

definition update_lane ::
  "resource_context \<Rightarrow> string \<Rightarrow> int \<Rightarrow> (lane \<Rightarrow> lane) \<Rightarrow> scheduler_db \<Rightarrow> scheduler_db"
where
  "update_lane ctx i ep f db =
     db\<lparr>lanes := update_where (\<lambda>c l. c = ctx \<and> ln_active l = Some i \<and> ln_epoch l = ep) f (lanes db)\<rparr>"

definition clear_lane :: "lane \<Rightarrow> lane" where
  "clear_lane l = l\<lparr>ln_active := None, ln_until := None\<rparr>"

text \<open>\<open>(10, 60, 300)[min(max(attempt - 1, 0), 2)]\<close> seconds.\<close>

definition retry_delay :: "int \<Rightarrow> int" where
  "retry_delay attempt = [10, 60, 300] ! nat (min (max (attempt - 1) 0) 2) * 1000000"

datatype job_action = Heartbeat | Stage | Complete | Fail | Defer

fun action_of :: "string \<Rightarrow> job_action option" where
  "action_of s =
     (if s = ''heartbeat'' then Some Heartbeat else if s = ''stage'' then Some Stage
      else if s = ''complete'' then Some Complete else if s = ''fail'' then Some Fail
      else if s = ''defer'' then Some Defer else None)"

definition released_job :: "job_action \<Rightarrow> int \<Rightarrow> job \<Rightarrow> job" where
  "released_job act now j =
     j\<lparr>j_status := (if act = Fail then (if j_attempt j \<ge> 3 then ''blocked'' else ''retry_wait'')
                    else if act = Complete then ''completed'' else ''queued''),
       j_lease_owner := None, j_lease_until := None,
       j_attempt := (if act = Defer then max 0 (j_attempt j - 1) else j_attempt j),
       j_not_before := (if act = Fail then now + retry_delay (j_attempt j) else j_not_before j),
       j_updated_at := now,
       j_completed_at := (if act = Complete then Some now else j_completed_at j)\<rparr>"

definition job_transition ::
  "scheduler_db \<Rightarrow> resource_context \<Rightarrow> string \<Rightarrow> string \<Rightarrow> int \<Rightarrow> string \<Rightarrow> int \<Rightarrow> json option \<Rightarrow> int
    \<Rightarrow> scheduler_db result"
where
  "job_transition db ctx i owner ep action lease proposal now =
     (case action_of action of
        None \<Rightarrow> Inl (Value_Error ''invalid_job_action'')
      | Some act \<Rightarrow>
          if \<not> (0 < lease \<and> lease \<le> lease_limit) then Inl (Value_Error ''invalid_job_lease'')
          else if act = Stage \<and> proposal = None then Inl (Value_Error ''proposal_required'')
          else ebind (guard_job db ctx i owner ep now) (\<lambda>((j, l), db1).
            case act of
              Heartbeat \<Rightarrow>
                (let db2 = set_job i (j\<lparr>j_lease_until := Some (now + lease), j_updated_at := now\<rparr>) db1
                 in Inr (if l = None then db2
                         else update_lane ctx i ep (\<lambda>r. r\<lparr>ln_until := Some (now + lease)\<rparr>) db2))
            | Stage \<Rightarrow> Inr (set_job i (j\<lparr>j_proposal := proposal, j_updated_at := now\<rparr>) db1)
            | _ \<Rightarrow>
                (let db2 = set_job i (released_job act now j) db1
                 in Inr (if l = None then db2 else update_lane ctx i ep clear_lane db2))))"

definition recovery_status :: "string \<Rightarrow> string option" where
  "recovery_status d =
     (if d \<in> {''staged'', ''replay_safe''} then Some ''retry_wait''
      else if d \<in> {''unknown'', ''exhausted''} then Some ''blocked'' else None)"

definition recover_job ::
  "scheduler_db \<Rightarrow> resource_context \<Rightarrow> string \<Rightarrow> string \<Rightarrow> int \<Rightarrow> (bool \<times> scheduler_db) result"
where
  "recover_job db ctx i disposition now =
     (case recovery_status disposition of
        None \<Rightarrow> Inl (Value_Error ''invalid_recovery_class'')
      | Some base \<Rightarrow>
          let db1 = ensure_lane ctx db in
          case owned_job db1 ctx i of
            None \<Rightarrow> Inr (False, db1)
          | Some j \<Rightarrow>
              if j_status j \<noteq> ''running'' \<or> lease_valid (j_lease_until j) now then Inr (False, db1)
              else if disposition = ''staged'' \<and> j_proposal j = None
              then Inl (Conflict ''proposal_missing'')
              else
                let db2 = set_job i (j\<lparr>j_status := (if j_attempt j \<ge> 3 then ''blocked'' else base),
                                       j_lease_owner := None, j_lease_until := None,
                                       j_updated_at := now\<rparr>) db1
                in Inr (True, update_lane ctx i (j_lease_epoch j) clear_lane db2))"

end
