(* ===== verification/Coordination_Interfaces.thy ===== *)
theory Coordination_Interfaces
  imports Shiliu_Prelude
begin

text \<open>
  The two contracts the storage layer builds on: a lease that carries an epoch which every claim
  raises, and an event log whose sequence numbers are allocated as one more than the largest.
\<close>

section \<open>Fenced leases\<close>

text \<open>
  \<open>step\<close> is any transition of the store, \<open>claims s k who e s'\<close> a claim of \<open>k\<close> by \<open>who\<close> that returned
  epoch \<open>e\<close>, and \<open>passes s k who e\<close> says that the ownership guard accepts \<open>who\<close> at epoch \<open>e\<close>.
\<close>

locale fenced_lease =
  fixes step :: "'s \<Rightarrow> 's \<Rightarrow> bool"
    and epoch :: "'s \<Rightarrow> 'k \<Rightarrow> int option"
    and claims :: "'s \<Rightarrow> 'k \<Rightarrow> 'who \<Rightarrow> int \<Rightarrow> 's \<Rightarrow> bool"
    and passes :: "'s \<Rightarrow> 'k \<Rightarrow> 'who \<Rightarrow> int \<Rightarrow> bool"
  assumes epoch_mono: "step s s' \<Longrightarrow> epoch s k = Some e \<Longrightarrow> \<exists>e'. epoch s' k = Some e' \<and> e \<le> e'"
    and claims_raise: "claims s k who e s' \<Longrightarrow> \<exists>e0. epoch s k = Some e0 \<and> e0 < e \<and> epoch s' k = Some e"
    and passes_epoch: "passes s k who e \<Longrightarrow> epoch s k = Some e"
    and passes_owner: "passes s k who e \<Longrightarrow> passes s k who' e' \<Longrightarrow> who' = who"
begin

lemma epoch_mono_star:
  assumes "step\<^sup>*\<^sup>* s s'" and "epoch s k = Some e"
  shows "\<exists>e'. epoch s' k = Some e' \<and> e \<le> e'"
  using assms
proof (induction rule: rtranclp_induct)
  case (step s1 s2)
  then obtain e1 where "epoch s1 k = Some e1" "e \<le> e1" by blast
  with epoch_mono [OF step.hyps(2)] show ?case by (meson order_trans)
qed simp

lemma reclaimed_higher:
  assumes "epoch s k = Some e" and "step\<^sup>*\<^sup>* s s1" and "claims s1 k who e' s2"
  shows "e < e'"
proof -
  obtain e1 where "epoch s1 k = Some e1" "e \<le> e1" using epoch_mono_star [OF assms(2,1)] by blast
  with claims_raise [OF assms(3)] show ?thesis by auto
qed

lemma claims_distinct:
  assumes "claims s k who e s'" and "step\<^sup>*\<^sup>* s' s1" and "claims s1 k who' e' s2"
  shows "e < e'"
  using claims_raise [OF assms(1)] reclaimed_higher [OF _ assms(2,3)] by blast

text \<open>Once another claim has succeeded, the guard never again accepts the superseded epoch.\<close>

lemma stale_never_passes:
  assumes "epoch s k = Some e" and "step\<^sup>*\<^sup>* s s1" and "claims s1 k who e' s2" and "step\<^sup>*\<^sup>* s2 s3"
  shows "\<not> passes s3 k who'' e"
proof
  assume "passes s3 k who'' e"
  then have "epoch s3 k = Some e" by (rule passes_epoch)
  moreover have "e < e'" by (rule reclaimed_higher [OF assms(1,2,3)])
  moreover obtain e3 where "epoch s3 k = Some e3" "e' \<le> e3"
    using claims_raise [OF assms(3)] epoch_mono_star [OF assms(4)] by blast
  ultimately show False by simp
qed

lemma one_holder:
  assumes "passes s k who e" and "passes s k who' e'"
  shows "who' = who \<and> e' = e"
  using passes_epoch [OF assms(1)] passes_epoch [OF assms(2)] passes_owner [OF assms] by simp

end

section \<open>Sequenced event logs\<close>

definition next_seq :: "int list \<Rightarrow> int" where
  "next_seq xs = (if xs = [] then 0 else Max (set xs)) + 1"

definition gapless :: "int list \<Rightarrow> bool" where
  "gapless xs \<longleftrightarrow> xs = map int [1..<Suc (length xs)]"

lemma gapless_Nil [simp]: "gapless []"
  by (simp add: gapless_def)

lemma Max_map_int: "0 < n \<Longrightarrow> Max (set (map int [1..<Suc n])) = int n"
  by (rule Max_eqI) auto

lemma gapless_next: "gapless xs \<Longrightarrow> next_seq xs = int (length xs) + 1"
proof (cases "xs = []")
  case False
  assume "gapless xs"
  then have "set xs = set (map int [1..<Suc (length xs)])" by (simp only: gapless_def)
  then have "Max (set xs) = int (length xs)" using False Max_map_int [of "length xs"] by simp
  with False show ?thesis by (simp add: next_seq_def)
qed (simp add: next_seq_def)

lemma gapless_append: "gapless xs \<Longrightarrow> gapless (xs @ [next_seq xs])"
proof -
  assume g: "gapless xs"
  then have "map int [1..<Suc (length xs)] = xs" by (simp only: gapless_def)
  then show ?thesis using g by (simp only: gapless_def [of "xs @ _"] gapless_next) simp
qed

lemma gapless_distinct: "gapless xs \<Longrightarrow> distinct xs"
proof -
  assume "gapless xs"
  then have "distinct xs = distinct (map int [1..<Suc (length xs)])" by (simp only: gapless_def)
  then show "distinct xs" by (simp add: distinct_map)
qed

locale sequenced_log =
  fixes step :: "'s \<Rightarrow> 's \<Rightarrow> bool"
    and seqs :: "'s \<Rightarrow> 'k \<Rightarrow> int list"
  assumes step_seqs: "step s s' \<Longrightarrow> seqs s' k = seqs s k \<or> seqs s' k = seqs s k @ [next_seq (seqs s k)]"
begin

lemma stays_gapless:
  assumes "step\<^sup>*\<^sup>* s s'" and "gapless (seqs s k)"
  shows "gapless (seqs s' k)"
  using assms
proof (induction rule: rtranclp_induct)
  case (step s1 s2)
  then show ?case using step_seqs [OF step.hyps(2), of k] gapless_append by metis
qed

lemma append_only:
  assumes "step\<^sup>*\<^sup>* s s'"
  shows "\<exists>new. seqs s' k = seqs s k @ new"
  using assms
proof (induction rule: rtranclp_induct)
  case (step s1 s2)
  then show ?case using step_seqs [OF step.hyps(2), of k] by auto
qed simp

end

end
