(* ===== verification/Scheduler_Facts.thy ===== *)
theory Scheduler_Facts
  imports Storage_Scheduler Coordination_Interfaces
begin

text \<open>
  Invariants of the scheduler: what each operation does to the tables, the lane invariant behind
  the single running model job, the bound on attempts, and the interpretation of the lease
  contract for jobs.
\<close>

section \<open>Effects of the primitives\<close>

named_theorems sched_simps

lemma ensure_lane_simps [sched_simps, simp]:
  "jobs (ensure_lane ctx db) = jobs db"
  "job_holds (ensure_lane ctx db) = job_holds db"
  "backfill_operations (ensure_lane ctx db) = backfill_operations db"
  "scheduler_events (ensure_lane ctx db) = scheduler_events db"
  by (simp_all add: ensure_lane_def)

lemma lane_row_ensure [sched_simps, simp]: "lane_row c (ensure_lane ctx db) = lane_row c db"
  by (auto simp: lane_row_def ensure_lane_def table_simps split: option.splits)

lemma lane_present_ensure [simp]: "select_row (lanes (ensure_lane ctx db)) ctx \<noteq> None"
  by (simp add: ensure_lane_def table_simps)

lemma set_job_simps [sched_simps, simp]:
  "jobs (set_job i j db) = update_row i (\<lambda>_. j) (jobs db)"
  "lanes (set_job i j db) = lanes db"
  "lane_row c (set_job i j db) = lane_row c db"
  by (simp_all add: set_job_def lane_row_def)

lemma update_lane_simps [sched_simps, simp]: "jobs (update_lane ctx i ep f db) = jobs db"
  by (simp add: update_lane_def)

lemma lane_row_update_lane:
  "lane_row c (update_lane ctx i ep f db) =
     (if c = ctx \<and> select_row (lanes db) ctx \<noteq> None \<and> ln_active (lane_row ctx db) = Some i \<and>
         ln_epoch (lane_row ctx db) = ep
      then f (lane_row ctx db) else lane_row c db)"
  by (auto simp: lane_row_def update_lane_def table_simps split: option.splits)

lemma lane_present_active: "ln_active (lane_row ctx db) = Some i \<Longrightarrow> select_row (lanes db) ctx \<noteq> None"
  by (auto simp: lane_row_def fresh_lane_def split: option.splits)

lemma candidate_Some:
  assumes "candidate db ctx kinds now = Some row"
  shows "row \<in> set (jobs db)" and "eligible db ctx kinds now row"
    and "\<And>row'. row' \<in> set (jobs db) \<Longrightarrow> eligible db ctx kinds now row' \<Longrightarrow> job_order row \<le> job_order row'"
proof -
  let ?xs = "filter (eligible db ctx kinds now) (jobs db)"
  obtain rest where xs: "sort_key job_order ?xs = row # rest"
    using assms by (auto simp: candidate_def split: list.splits)
  then have mem: "set (row # rest) = set ?xs" by (metis set_sort)
  then have "row \<in> set ?xs" by auto
  then show "row \<in> set (jobs db)" "eligible db ctx kinds now row" by simp_all
  fix row' assume "row' \<in> set (jobs db)" "eligible db ctx kinds now row'"
  then have "row' \<in> set (row # rest)" unfolding mem by simp
  moreover have "sorted (map job_order (row # rest))" by (metis xs sorted_sort_key)
  ultimately show "job_order row \<le> job_order row'" by auto
qed

lemma candidate_None:
  "candidate db ctx kinds now = None \<Longrightarrow> row \<in> set (jobs db) \<Longrightarrow> \<not> eligible db ctx kinds now row"
proof
  assume "candidate db ctx kinds now = None" and row: "row \<in> set (jobs db)" "eligible db ctx kinds now row"
  then have "sort_key job_order (filter (eligible db ctx kinds now) (jobs db)) = []"
    by (auto simp: candidate_def split: list.splits)
  then have "set (filter (eligible db ctx kinds now) (jobs db)) = {}" by (metis set_sort set_empty)
  with row show False by auto
qed

lemma owned_job_select: "owned_job db ctx i = Some j \<longleftrightarrow> select_row (jobs db) i = Some j \<and> j_owner j = ctx"
  by (auto simp: owned_job_def split: option.splits)

lemma owned_job_ensure [simp]: "owned_job (ensure_lane c db) ctx i = owned_job db ctx i"
  by (simp add: owned_job_def)

section \<open>Every operation as a case list\<close>

text \<open>
  An operation leaves the jobs alone and at most creates its lane, assigns a waiting job, or
  rewrites one job that its guard accepted or that recovery found expired.
\<close>

lemma claim_cases:
  assumes "claim_job db ctx owner lease opts now = Inr (res, db')"
  obtains (idle) "res = None" "db' = db"
    | (lane) "res = None" "db' = ensure_lane ctx db"
    | (local_job) row where "candidate db ctx (wanted (only_kinds opts) LOCAL_KINDS) now = Some row"
        "res = Some (fst (assign_job db ctx owner row False lease now))"
        "db' = snd (assign_job db ctx owner row False lease now)" "0 < lease" "owner \<noteq> []"
    | (model_job) row where "candidate db ctx (wanted (only_kinds opts) LOCAL_KINDS) now = None"
        "candidate (ensure_lane ctx db) ctx (wanted (only_kinds opts) MODEL_KINDS) now = Some row"
        "\<not> lane_busy ctx now (ensure_lane ctx db)" "allow_maintenance opts" "allow_model_jobs opts"
        "activity_allowed opts" "budget_allowed opts"
        "res = Some (fst (assign_job (ensure_lane ctx db) ctx owner row True lease now))"
        "db' = snd (assign_job (ensure_lane ctx db) ctx owner row True lease now)" "0 < lease" "owner \<noteq> []"
proof (cases "candidate db ctx (wanted (only_kinds opts) LOCAL_KINDS) now")
  case (Some row)
  with assms show thesis
    by (intro local_job) (auto simp: claim_job_def split: if_splits prod.splits)
next
  case None
  show thesis
  proof (cases "res")
    case None
    with \<open>candidate db ctx _ now = None\<close> assms have "db' = db \<or> db' = ensure_lane ctx db"
      by (auto simp: claim_job_def Let_def split: if_splits prod.splits option.splits)
    with None show thesis using idle lane by blast
  next
    case (Some j)
    with None assms obtain row where "candidate (ensure_lane ctx db) ctx (wanted (only_kinds opts) MODEL_KINDS) now = Some row"
      by (auto simp: claim_job_def Let_def split: if_splits prod.splits option.splits)
    with None Some assms show thesis
      by (intro model_job) (auto simp: claim_job_def Let_def split: if_splits prod.splits)
  qed
qed

lemma backfill_cases:
  assumes "claim_backfill_job db ctx owner i run lease now = Inr (res, db')"
  obtains (idle) "res = None" "db' = db \<or> db' = ensure_lane ctx db"
    | (assign) j db1 where "db1 = (if j_kind j \<notin> set LOCAL_KINDS then ensure_lane ctx db else db)"
        "backfill_row db1 ctx i run now = Some j" "owned_job db ctx i = Some j"
        "j_kind j \<notin> set LOCAL_KINDS \<Longrightarrow> \<not> lane_busy ctx now db1"
        "res = Some (fst (assign_job db1 ctx owner (i, j) (j_kind j \<notin> set LOCAL_KINDS) lease now))"
        "db' = snd (assign_job db1 ctx owner (i, j) (j_kind j \<notin> set LOCAL_KINDS) lease now)"
        "0 < lease" "owner \<noteq> []"
proof (cases "owned_job db ctx i")
  case None
  with assms idle show thesis by (auto simp: claim_backfill_job_def split: if_splits)
next
  case (Some j0)
  define db1 where "db1 = (if j_kind j0 \<notin> set LOCAL_KINDS then ensure_lane ctx db else db)"
  have own1: "owned_job db1 ctx i = Some j0" using Some by (simp add: db1_def)
  show thesis
  proof (cases res)
    case None
    with assms Some have "db' = db1"
      by (auto simp: claim_backfill_job_def Let_def db1_def split: if_splits prod.splits option.splits)
    with None show thesis using idle db1_def by (cases "j_kind j0 \<notin> set LOCAL_KINDS") auto
  next
    case (Some r)
    from assms have ok: "0 < lease" "owner \<noteq> []" by (auto simp: claim_backfill_job_def split: if_splits)
    from assms Some \<open>owned_job db ctx i = Some j0\<close>
    have busy: "\<not> (j_kind j0 \<notin> set LOCAL_KINDS \<and> lane_busy ctx now db1)"
      unfolding claim_backfill_job_def Let_def db1_def by (auto split: if_splits)
    from assms Some \<open>owned_job db ctx i = Some j0\<close> busy ok
    obtain j where j: "backfill_row db1 ctx i run now = Some j"
      unfolding claim_backfill_job_def Let_def db1_def
      by (auto split: if_splits option.splits)
    then have "j = j0" using own1 by (auto simp: backfill_row_def split: if_splits)
    with j assms Some \<open>owned_job db ctx i = Some j0\<close> busy ok show thesis
      by (intro assign [of db1 j]) (auto simp: db1_def claim_backfill_job_def Let_def split: if_splits prod.splits)
  qed
qed

lemma guard_Inr:
  assumes "guard_job db ctx i owner ep now = Inr ((j, l), db')"
  shows "owned_job db ctx i = Some j" and "j_status j = ''running''" and "j_lease_owner j = Some owner"
    and "j_lease_epoch j = ep" and "lease_valid (j_lease_until j) now"
    and "db' = (if j_kind j \<notin> set LOCAL_KINDS then ensure_lane ctx db else db)"
    and "l = (if j_kind j \<notin> set LOCAL_KINDS then Some (lane_row ctx db) else None)"
    and "j_kind j \<notin> set LOCAL_KINDS \<Longrightarrow> ln_active (lane_row ctx db) = Some i \<and>
           ln_epoch (lane_row ctx db) = ep \<and> lease_valid (ln_until (lane_row ctx db)) now"
proof -
  obtain q where q: "owned_job db ctx i = Some q"
    using assms by (auto simp: guard_job_def split: option.splits)
  note unfolded = assms [unfolded guard_job_def q option.case Let_def]
  from unfolded have live: "q = j" "j_status j = ''running''" "j_lease_owner j = Some owner" "j_lease_epoch j = ep"
      "lease_valid (j_lease_until j) now"
    by (simp_all split: if_splits)
  from unfolded live show "owned_job db ctx i = Some j" "j_status j = ''running''" "j_lease_owner j = Some owner"
    "j_lease_epoch j = ep" "lease_valid (j_lease_until j) now"
    using q by simp_all
  from unfolded live show "db' = (if j_kind j \<notin> set LOCAL_KINDS then ensure_lane ctx db else db)"
    and "l = (if j_kind j \<notin> set LOCAL_KINDS then Some (lane_row ctx db) else None)"
    and "j_kind j \<notin> set LOCAL_KINDS \<Longrightarrow> ln_active (lane_row ctx db) = Some i \<and>
           ln_epoch (lane_row ctx db) = ep \<and> lease_valid (ln_until (lane_row ctx db)) now"
    by (simp_all split: if_splits)
qed

lemma transition_cases:
  assumes "job_transition db ctx i owner ep action lease proposal now = Inr db'"
  obtains (guarded) act j l db1 where "action_of action = Some act" "0 < lease"
      "guard_job db ctx i owner ep now = Inr ((j, l), db1)"
      "db' = (case act of
              Heartbeat \<Rightarrow>
                (let db2 = set_job i (j\<lparr>j_lease_until := Some (now + lease), j_updated_at := now\<rparr>) db1
                 in (if l = None then db2
                         else update_lane ctx i ep (\<lambda>r. r\<lparr>ln_until := Some (now + lease)\<rparr>) db2))
            | Stage \<Rightarrow> set_job i (j\<lparr>j_proposal := proposal, j_updated_at := now\<rparr>) db1
            | _ \<Rightarrow>
                (let db2 = set_job i (released_job act now j) db1
                 in (if l = None then db2 else update_lane ctx i ep clear_lane db2)))"
proof -
  obtain act where act: "action_of action = Some act"
    using assms by (auto simp: job_transition_def simp del: action_of.simps split: option.splits)
  note unfolded = assms [unfolded job_transition_def act option.case Let_def]
  obtain g where g: "guard_job db ctx i owner ep now = Inr g"
    using unfolded by (auto simp: ebind_eq_Inr split: if_splits)
  obtain j l db1 where "g = ((j, l), db1)" by (cases g) auto
  with g unfolded act show thesis
    by (intro guarded [of act j l db1]) (auto split: if_splits job_action.splits simp: Let_def simp del: action_of.simps)
qed

lemma recover_cases:
  assumes "recover_job db ctx i disposition now = Inr (done, db')"
  obtains (idle) "done = False" "db' = ensure_lane ctx db"
    | (recovered) j base where "done = True" "owned_job db ctx i = Some j" "j_status j = ''running''"
      "\<not> lease_valid (j_lease_until j) now" "recovery_status disposition = Some base"
      "db' = update_lane ctx i (j_lease_epoch j) clear_lane
         (set_job i (j\<lparr>j_status := (if j_attempt j \<ge> 3 then ''blocked'' else base),
                      j_lease_owner := None, j_lease_until := None, j_updated_at := now\<rparr>) (ensure_lane ctx db))"
proof -
  obtain base where base: "recovery_status disposition = Some base"
    using assms by (auto simp: recover_job_def split: option.splits)
  note unfolded = assms [unfolded recover_job_def base option.case Let_def]
  show thesis
  proof (cases "owned_job db ctx i")
    case None
    with unfolded idle show thesis by simp
  next
    case (Some j)
    with unfolded base show thesis
      by (cases "j_status j \<noteq> ''running'' \<or> lease_valid (j_lease_until j) now")
         (auto intro: idle recovered split: if_splits)
  qed
qed

section \<open>The lane invariant\<close>

definition job_ok :: "string \<Rightarrow> job \<Rightarrow> bool" where
  "job_ok i j \<longleftrightarrow> i \<noteq> [] \<and> 0 \<le> j_attempt j \<and> j_attempt j \<le> 3 \<and>
     (j_status j \<in> set waiting_statuses \<longrightarrow> j_attempt j \<le> 2)"

definition live_model :: "int \<Rightarrow> job \<Rightarrow> bool" where
  "live_model t j \<longleftrightarrow> j_kind j \<notin> set LOCAL_KINDS \<and> j_status j = ''running'' \<and> lease_valid (j_lease_until j) t"

definition lane_agrees :: "scheduler_db \<Rightarrow> string \<Rightarrow> job \<Rightarrow> bool" where
  "lane_agrees db i j \<longleftrightarrow>
     ln_active (lane_row (j_owner j) db) = Some i \<and> ln_epoch (lane_row (j_owner j) db) = j_lease_epoch j \<and>
     ln_until (lane_row (j_owner j) db) = j_lease_until j"

definition sched_inv :: "scheduler_db \<Rightarrow> int \<Rightarrow> bool" where
  "sched_inv db t \<longleftrightarrow> keys_distinct (jobs db) \<and>
     (\<forall>i j. select_row (jobs db) i = Some j \<longrightarrow> job_ok i j \<and> (live_model t j \<longrightarrow> lane_agrees db i j))"

lemma sched_invI:
  assumes "keys_distinct (jobs db)"
    and "\<And>i j. select_row (jobs db) i = Some j \<Longrightarrow> job_ok i j"
    and "\<And>i j. select_row (jobs db) i = Some j \<Longrightarrow> live_model t j \<Longrightarrow> lane_agrees db i j"
  shows "sched_inv db t"
  using assms unfolding sched_inv_def by blast

lemma sched_invD:
  assumes "sched_inv db t"
  shows "keys_distinct (jobs db)"
    and "select_row (jobs db) i = Some j \<Longrightarrow> job_ok i j"
    and "select_row (jobs db) i = Some j \<Longrightarrow> live_model t j \<Longrightarrow> lane_agrees db i j"
  using assms unfolding sched_inv_def by blast+

lemma lease_valid_earlier: "lease_valid u now \<Longrightarrow> t \<le> now \<Longrightarrow> lease_valid u t"
  by (auto simp: lease_valid_def split: option.splits)

lemma live_model_earlier: "live_model now j \<Longrightarrow> t \<le> now \<Longrightarrow> live_model t j"
  by (auto simp: live_model_def intro: lease_valid_earlier)

lemma sched_inv_lanes:
  assumes "sched_inv db t" and "t \<le> now" and "jobs db' = jobs db" and "\<And>c. lane_row c db' = lane_row c db"
  shows "sched_inv db' now"
  using sched_invD [OF assms(1)] assms(2-4) live_model_earlier [OF _ assms(2)]
  by (intro sched_invI) (auto simp: lane_agrees_def)

lemma sched_inv_update:
  assumes inv: "sched_inv db t" and time: "t \<le> now" and job: "select_row (jobs db) i = Some j"
    and upd: "jobs db' = update_row i (\<lambda>_. j') (jobs db)" and ok: "job_ok i j'"
    and new: "live_model now j' \<Longrightarrow> lane_agrees db' i j'"
    and others: "\<And>k q. k \<noteq> i \<Longrightarrow> select_row (jobs db) k = Some q \<Longrightarrow> live_model now q \<Longrightarrow>
                   lane_agrees db k q \<Longrightarrow> lane_agrees db' k q"
  shows "sched_inv db' now"
proof (rule sched_invI)
  show "keys_distinct (jobs db')" using sched_invD(1) [OF inv] by (simp add: upd table_simps)
next
  fix k q assume q: "select_row (jobs db') k = Some q"
  then show "job_ok k q" using ok job sched_invD(2) [OF inv] by (auto simp: upd table_simps split: if_splits)
next
  fix k q assume q: "select_row (jobs db') k = Some q" and live: "live_model now q"
  show "lane_agrees db' k q"
  proof (cases "k = i")
    case True
    with q job have "q = j'" by (simp add: upd table_simps)
    with live new True show ?thesis by simp
  next
    case False
    then have "select_row (jobs db) k = Some q" using q by (simp add: upd table_simps)
    with False live others sched_invD(3) [OF inv this live_model_earlier [OF live time]] show ?thesis by blast
  qed
qed

lemma assign_simps [sched_simps]:
  "jobs (snd (assign_job db ctx owner row model lease now)) =
     update_row (fst row) (\<lambda>_. claimed owner lease now (snd row)) (jobs db)"
  "lane_row c (snd (assign_job db ctx owner row model lease now)) =
     (if model \<and> c = ctx \<and> select_row (lanes db) ctx \<noteq> None
      then \<lparr>ln_active = Some (fst row), ln_epoch = j_lease_epoch (snd row) + 1, ln_until = Some (now + lease)\<rparr>
      else lane_row c db)"
  "fst (assign_job db ctx owner row model lease now) = (fst row, claimed owner lease now (snd row))"
  by (auto simp: assign_job_def Let_def lane_row_def table_simps claimed_def split: option.splits)

lemma assign_keeps:
  assumes inv: "sched_inv db t" and time: "t \<le> now" and job: "select_row (jobs db) i = Some j"
    and own: "j_owner j = ctx" and waiting: "j_status j \<in> set waiting_statuses"
    and kind: "model \<longleftrightarrow> j_kind j \<notin> set LOCAL_KINDS"
    and free: "model \<Longrightarrow> \<not> lane_busy ctx now db \<and> select_row (lanes db) ctx \<noteq> None"
  shows "sched_inv (snd (assign_job db ctx owner (i, j) model lease now)) now"
proof (rule sched_inv_update [OF inv time job])
  show "jobs (snd (assign_job db ctx owner (i, j) model lease now)) =
      update_row i (\<lambda>_. claimed owner lease now j) (jobs db)" by (simp add: assign_simps)
  show "job_ok i (claimed owner lease now j)"
    using sched_invD(2) [OF inv job] waiting by (auto simp: job_ok_def claimed_def waiting_statuses_def)
next
  assume "live_model now (claimed owner lease now j)"
  then have "model" by (simp add: live_model_def claimed_def kind)
  with free own show "lane_agrees (snd (assign_job db ctx owner (i, j) model lease now)) i (claimed owner lease now j)"
    by (simp add: lane_agrees_def assign_simps claimed_def)
next
  fix k q assume q: "k \<noteq> i" "select_row (jobs db) k = Some q" "live_model now q" "lane_agrees db k q"
  have "\<not> (model \<and> j_owner q = ctx)"
  proof
    assume m: "model \<and> j_owner q = ctx"
    have "k \<noteq> []" using sched_invD(2) [OF inv q(2)] by (simp add: job_ok_def)
    with q(3,4) m have "lane_busy ctx now db" by (simp add: lane_busy_def lane_agrees_def live_model_def)
    with m free show False by simp
  qed
  then show "lane_agrees (snd (assign_job db ctx owner (i, j) model lease now)) k q"
    using q(4) by (auto simp: lane_agrees_def assign_simps)
qed

lemma select_candidate:
  "keys_distinct (jobs db) \<Longrightarrow> candidate db ctx kinds now = Some row \<Longrightarrow>
     select_row (jobs db) (fst row) = Some (snd row)"
  using candidate_Some(1) select_row_in [of "jobs db" "fst row" "snd row"] by auto

lemma wanted_subset: "set (wanted kinds available) \<subseteq> set available"
  by (auto simp: wanted_def split: option.splits)

lemma kinds_disjoint: "k \<in> set MODEL_KINDS \<Longrightarrow> k \<notin> set LOCAL_KINDS"
  by (auto simp: MODEL_KINDS_def LOCAL_KINDS_def)

lemma claim_keeps:
  assumes inv: "sched_inv db t" and time: "t \<le> now"
    and claim: "claim_job db ctx owner lease opts now = Inr (res, db')"
  shows "sched_inv db' now"
  using claim
proof (cases rule: claim_cases)
  case idle
  then show ?thesis using sched_inv_lanes [OF inv time] by simp
next
  case lane
  then show ?thesis using sched_inv_lanes [OF inv time] by simp
next
  case (local_job row)
  note el = candidate_Some(2) [OF local_job(1), unfolded eligible_def]
  have "j_kind (snd row) \<in> set LOCAL_KINDS" using el wanted_subset by blast
  then show ?thesis
    using assign_keeps [OF inv time select_candidate [OF sched_invD(1) [OF inv] local_job(1)], of ctx False]
      el local_job(3) by simp
next
  case (model_job row)
  have inv1: "sched_inv (ensure_lane ctx db) now" by (rule sched_inv_lanes [OF inv time]) simp_all
  note el = candidate_Some(2) [OF model_job(2), unfolded eligible_def]
  have "j_kind (snd row) \<notin> set LOCAL_KINDS" using el wanted_subset kinds_disjoint by blast
  then show ?thesis
    using assign_keeps [OF inv1 order_refl select_candidate [OF sched_invD(1) [OF inv1] model_job(2)], of ctx True]
      el model_job(3,9) by simp
qed

lemma backfill_keeps:
  assumes inv: "sched_inv db t" and time: "t \<le> now"
    and claim: "claim_backfill_job db ctx owner i run lease now = Inr (res, db')"
  shows "sched_inv db' now"
  using claim
proof (cases rule: backfill_cases)
  case idle
  then show ?thesis using sched_inv_lanes [OF inv time] by auto
next
  case (assign j db1)
  have inv1: "sched_inv db1 now" using sched_inv_lanes [OF inv time] assign(1) by simp
  have own: "select_row (jobs db1) i = Some j" "j_owner j = ctx"
    using assign(1,3) by (simp_all add: owned_job_select)
  have wait: "j_status j \<in> set waiting_statuses"
    using assign(2) by (auto simp: backfill_row_def split: option.splits if_splits)
  have "j_kind j \<notin> set LOCAL_KINDS \<Longrightarrow> select_row (lanes db1) ctx \<noteq> None"
    using assign(1) lane_present_ensure by simp
  then show ?thesis
    unfolding assign(6) using assign(4)
    by (intro assign_keeps [OF inv1 order_refl own(1,2) wait refl]) auto
qed

lemma transition_keeps:
  assumes inv: "sched_inv db t" and time: "t \<le> now"
    and step: "job_transition db ctx i owner ep action lease proposal now = Inr db'"
  shows "sched_inv db' now"
  using step
proof (cases rule: transition_cases)
  case (guarded act j l db1)
  note g = guard_Inr [OF guarded(3)]
  have job: "select_row (jobs db) i = Some j" and own: "j_owner j = ctx" using g(1) by (simp_all add: owned_job_select)
  have ok: "job_ok i j" by (rule sched_invD(2) [OF inv job])
  have lane: "lane_row c db1 = lane_row c db" "jobs db1 = jobs db" for c using g(6) by simp_all
  have present: "j_kind j \<notin> set LOCAL_KINDS \<Longrightarrow> select_row (lanes db1) ctx \<noteq> None"
    using g(6) lane_present_ensure by simp
  have model: "l = None \<longleftrightarrow> j_kind j \<in> set LOCAL_KINDS" using g(7) by simp
  have alone: "\<not> (l \<noteq> None \<and> j_owner q = ctx)"
    if "k \<noteq> i" "lane_agrees db k q" for k q
    using that g(8) model by (auto simp: lane_agrees_def)
  have released: "sched_inv (let db2 = set_job i (released_job act now j) db1
        in if l = None then db2 else update_lane ctx i ep clear_lane db2) now"
    if "act \<notin> {Heartbeat, Stage}"
  proof (rule sched_inv_update [OF inv time job])
    show "jobs (let db2 = set_job i (released_job act now j) db1
        in if l = None then db2 else update_lane ctx i ep clear_lane db2) =
        update_row i (\<lambda>_. released_job act now j) (jobs db)" by (simp add: Let_def lane)
    show "job_ok i (released_job act now j)"
      using ok that by (cases act) (auto simp: job_ok_def released_job_def waiting_statuses_def)
  next
    assume "live_model now (released_job act now j)"
    then show "lane_agrees (let db2 = set_job i (released_job act now j) db1
        in if l = None then db2 else update_lane ctx i ep clear_lane db2) i (released_job act now j)"
      by (simp add: live_model_def released_job_def lease_valid_def)
  next
    fix k q assume "k \<noteq> i" "lane_agrees db k q"
    with alone [of k q] show "lane_agrees (let db2 = set_job i (released_job act now j) db1
        in if l = None then db2 else update_lane ctx i ep clear_lane db2) k q"
      by (auto simp: Let_def lane_agrees_def lane lane_row_update_lane)
  qed
  show ?thesis
  proof (cases act)
    case Heartbeat
    define j' where "j' = j\<lparr>j_lease_until := Some (now + lease), j_updated_at := now\<rparr>"
    have db': "db' = (if l = None then set_job i j' db1
         else update_lane ctx i ep (\<lambda>r. r\<lparr>ln_until := Some (now + lease)\<rparr>) (set_job i j' db1))"
      using guarded(4) Heartbeat by (simp add: j'_def Let_def)
    show ?thesis
    proof (rule sched_inv_update [OF inv time job, of db' j'])
      show "jobs db' = update_row i (\<lambda>_. j') (jobs db)" by (simp add: db' lane)
      show "job_ok i j'" using ok by (simp add: job_ok_def j'_def)
    next
      assume "live_model now j'"
      then have "l \<noteq> None" "j_kind j \<notin> set LOCAL_KINDS" using model by (auto simp: live_model_def j'_def)
      then show "lane_agrees db' i j'"
        using g(4,8) present own by (auto simp: lane_agrees_def db' lane_row_update_lane lane j'_def)
    next
      fix k q assume "k \<noteq> i" "lane_agrees db k q"
      with alone [of k q] show "lane_agrees db' k q"
        by (auto simp: db' lane_agrees_def lane lane_row_update_lane)
    qed
  next
    case Stage
    define j' where "j' = j\<lparr>j_proposal := proposal, j_updated_at := now\<rparr>"
    have db': "db' = set_job i j' db1" using guarded(4) Stage by (simp add: j'_def)
    show ?thesis
    proof (rule sched_inv_update [OF inv time job, of db' j'])
      show "jobs db' = update_row i (\<lambda>_. j') (jobs db)" by (simp add: db' lane)
      show "job_ok i j'" using ok by (simp add: job_ok_def j'_def)
    next
      assume "live_model now j'"
      then have "live_model now j" by (simp add: live_model_def j'_def)
      then have "lane_agrees db i j" by (rule sched_invD(3) [OF inv job live_model_earlier [OF _ time]])
      then show "lane_agrees db' i j'" by (simp add: lane_agrees_def db' lane j'_def)
    qed (simp add: db' lane_agrees_def lane)
  next
    case Complete with released guarded(4) show ?thesis by simp
  next
    case Fail with released guarded(4) show ?thesis by simp
  next
    case Defer with released guarded(4) show ?thesis by simp
  qed
qed

lemma recover_keeps:
  assumes inv: "sched_inv db t" and time: "t \<le> now"
    and step: "recover_job db ctx i disposition now = Inr (done, db')"
  shows "sched_inv db' now"
  using step
proof (cases rule: recover_cases)
  case idle
  then show ?thesis using sched_inv_lanes [OF inv time] by simp
next
  case (recovered j base)
  have job: "select_row (jobs db) i = Some j" and own: "j_owner j = ctx"
    using recovered(2) by (simp_all add: owned_job_select)
  define j' where "j' = j\<lparr>j_status := (if j_attempt j \<ge> 3 then ''blocked'' else base),
                      j_lease_owner := None, j_lease_until := None, j_updated_at := now\<rparr>"
  have db': "db' = update_lane ctx i (j_lease_epoch j) clear_lane (set_job i j' (ensure_lane ctx db))"
    using recovered(6) by (simp add: j'_def)
  have base: "base \<noteq> ''running''" using recovered(5) by (auto simp: recovery_status_def split: if_splits)
  show ?thesis
  proof (rule sched_inv_update [OF inv time job, of db' j'])
    show "jobs db' = update_row i (\<lambda>_. j') (jobs db)" by (simp add: db')
    show "job_ok i j'"
      using sched_invD(2) [OF inv job] by (auto simp: job_ok_def j'_def waiting_statuses_def)
  next
    assume "live_model now j'"
    then show "lane_agrees db' i j'" by (simp add: live_model_def j'_def lease_valid_def)
  next
    fix k q assume "k \<noteq> i" "lane_agrees db k q"
    then show "lane_agrees db' k q" by (auto simp: db' lane_agrees_def lane_row_update_lane)
  qed
qed

section \<open>Steps of the store\<close>

text \<open>
  A state is the database with the last clock reading; job ids are a primary key. Besides the five operations, another part
  of the application may enqueue a new job, change the backfill tables, or let time pass. The
  relation records what a step did.
\<close>

datatype sched_event =
    Claimed resource_context string string job
  | Changed
  | Enqueued string

inductive sched_step :: "scheduler_db \<times> int \<Rightarrow> sched_event \<Rightarrow> scheduler_db \<times> int \<Rightarrow> bool" where
  claim: "t \<le> now \<Longrightarrow> claim_job db ctx owner lease opts now = Inr (Some (i, j), db') \<Longrightarrow>
    sched_step (db, t) (Claimed ctx owner i j) (db', now)"
| no_claim: "t \<le> now \<Longrightarrow> claim_job db ctx owner lease opts now = Inr (None, db') \<Longrightarrow>
    sched_step (db, t) Changed (db', now)"
| backfill: "t \<le> now \<Longrightarrow> claim_backfill_job db ctx owner i run lease now = Inr (Some (i', j), db') \<Longrightarrow>
    sched_step (db, t) (Claimed ctx owner i' j) (db', now)"
| no_backfill: "t \<le> now \<Longrightarrow> claim_backfill_job db ctx owner i run lease now = Inr (None, db') \<Longrightarrow>
    sched_step (db, t) Changed (db', now)"
| guard: "t \<le> now \<Longrightarrow> guard_job db ctx i owner ep now = Inr (r, db') \<Longrightarrow> sched_step (db, t) Changed (db', now)"
| transition: "t \<le> now \<Longrightarrow> job_transition db ctx i owner ep action lease proposal now = Inr db' \<Longrightarrow>
    sched_step (db, t) Changed (db', now)"
| recover: "t \<le> now \<Longrightarrow> recover_job db ctx i disposition now = Inr (done, db') \<Longrightarrow>
    sched_step (db, t) Changed (db', now)"
| enqueue: "t \<le> now \<Longrightarrow> select_row (jobs db) i = None \<Longrightarrow> i \<noteq> [] \<Longrightarrow> j_attempt j = 0 \<Longrightarrow>
    j_status j = ''queued'' \<Longrightarrow> j_lease_epoch j = 0 \<Longrightarrow>
    sched_step (db, t) (Enqueued i) (db\<lparr>jobs := insert_row i j (jobs db)\<rparr>, now)"
| elsewhere: "t \<le> now \<Longrightarrow>
    sched_step (db, t) Changed (db\<lparr>job_holds := h, backfill_operations := b\<rparr>, now)"

inductive_cases sched_stepE: "sched_step s e s'"

definition sched_next :: "scheduler_db \<times> int \<Rightarrow> scheduler_db \<times> int \<Rightarrow> bool" where
  "sched_next s s' \<longleftrightarrow> keys_distinct (jobs (fst s)) \<and> (\<exists>e. sched_step s e s')"

definition empty_scheduler :: scheduler_db where
  "empty_scheduler = \<lparr>jobs = [], lanes = [], scheduler_events = [], job_holds = [], backfill_operations = []\<rparr>"

definition sched_reach :: "scheduler_db \<Rightarrow> int \<Rightarrow> bool" where
  "sched_reach db t \<longleftrightarrow> (\<exists>t0. sched_next\<^sup>*\<^sup>* (empty_scheduler, t0) (db, t))"

lemma enqueue_keeps:
  assumes inv: "sched_inv db t" and "t \<le> now" and none: "select_row (jobs db) i = None"
    and new: "i \<noteq> []" "j_attempt j = 0" "j_status j = ''queued''"
  shows "sched_inv (db\<lparr>jobs := insert_row i j (jobs db)\<rparr>) now"
proof (rule sched_invI)
  show "keys_distinct (jobs (db\<lparr>jobs := insert_row i j (jobs db)\<rparr>))"
    using sched_invD(1) [OF inv] none by (simp add: keys_distinct_insert)
next
  fix k q assume "select_row (jobs (db\<lparr>jobs := insert_row i j (jobs db)\<rparr>)) k = Some q"
  then have "select_row (jobs db) k = Some q \<or> (k = i \<and> q = j)"
    by (auto simp: table_simps split: option.splits if_splits)
  then show "job_ok k q" using sched_invD(2) [OF inv] new by (auto simp: job_ok_def waiting_statuses_def)
next
  fix k q assume "select_row (jobs (db\<lparr>jobs := insert_row i j (jobs db)\<rparr>)) k = Some q" and live: "live_model now q"
  then have "select_row (jobs db) k = Some q"
    using new by (auto simp: table_simps live_model_def split: option.splits if_splits)
  then have "lane_agrees db k q" using live live_model_earlier [OF live assms(2)] sched_invD(3) [OF inv] by blast
  then show "lane_agrees (db\<lparr>jobs := insert_row i j (jobs db)\<rparr>) k q" by (simp add: lane_agrees_def lane_row_def)
qed

lemma sched_step_keeps:
  assumes "sched_step s e s'" and "sched_inv (fst s) (snd s)"
  shows "sched_inv (fst s') (snd s')"
  using assms
proof (cases rule: sched_step.cases)
  case (guard t now db ctx i owner ep r db')
  obtain j l where "r = (j, l)" by (cases r)
  with guard guard_Inr(6) [of db ctx i owner ep now j l db'] assms(2) show ?thesis
    using sched_inv_lanes [of db t now db'] by simp
next
  case (elsewhere t now db b h)
  then show ?thesis using assms(2) sched_inv_lanes [of db t now "db\<lparr>job_holds := h, backfill_operations := b\<rparr>"]
    by (simp add: lane_row_def)
qed (use assms(2) in \<open>auto intro: claim_keeps backfill_keeps transition_keeps recover_keeps enqueue_keeps\<close>)

lemma sched_reach_inv: "sched_reach db t \<Longrightarrow> sched_inv db t"
proof -
  assume "sched_reach db t"
  then obtain t0 where star: "sched_next\<^sup>*\<^sup>* (empty_scheduler, t0) (db, t)" unfolding sched_reach_def by blast
  have "sched_inv empty_scheduler t0"
    by (rule sched_invI) (simp_all add: empty_scheduler_def keys_distinct_def select_row_def)
  then have "sched_inv (fst (empty_scheduler, t0)) (snd (empty_scheduler, t0))" by simp
  with star have "sched_inv (fst (db, t)) (snd (db, t))"
    by (induction rule: rtranclp_induct) (auto simp: sched_next_def dest: sched_step_keeps)
  then show ?thesis by simp
qed

section \<open>What a claim does\<close>

lemma assigned:
  assumes distinct: "keys_distinct (jobs db)" and row: "row \<in> set (jobs db)"
  shows "select_row (jobs db) (fst row) = Some (snd row)"
  using select_row_in [OF distinct, of "fst row" "snd row"] row by simp

lemma claim_effect:
  assumes "keys_distinct (jobs db)" and "claim_job db ctx owner lease opts now = Inr (Some (i, j), db')"
  obtains j0 where "select_row (jobs db) i = Some j0" "j_owner j0 = ctx" "j = claimed owner lease now j0"
    "jobs db' = update_row i (\<lambda>_. j) (jobs db)" "j_status j0 \<in> set waiting_statuses" "j_not_before j0 \<le> now"
    "\<not> held db ctx i"
  using assms(2)
proof (cases rule: claim_cases)
  case (local_job row)
  note el = candidate_Some(2) [OF local_job(1), unfolded eligible_def]
  show thesis
    by (rule that [of "snd row"])
       (use local_job(2,3) el select_candidate [OF assms(1) local_job(1)] in \<open>simp_all add: assign_simps\<close>)
next
  case (model_job row)
  have "keys_distinct (jobs (ensure_lane ctx db))" using assms(1) by simp
  note sel = select_candidate [OF this model_job(2)]
  note el = candidate_Some(2) [OF model_job(2), unfolded eligible_def held_def]
  show thesis
    by (rule that [of "snd row"]) (use model_job(8,9) el sel in \<open>simp_all add: assign_simps held_def\<close>)
qed simp_all

lemma backfill_effect:
  assumes "claim_backfill_job db ctx owner k run lease now = Inr (Some (i, j), db')"
  obtains j0 where "i = k" "select_row (jobs db) i = Some j0" "j_owner j0 = ctx" "j = claimed owner lease now j0"
    "jobs db' = update_row i (\<lambda>_. j) (jobs db)"
  using assms
proof (cases rule: backfill_cases)
  case (assign j0 db1)
  show thesis
    by (rule that [of j0]) (use assign in \<open>simp_all add: assign_simps owned_job_select split: if_splits\<close>)
qed simp

section \<open>The lease contract for jobs\<close>

definition job_epoch :: "scheduler_db \<times> int \<Rightarrow> string \<Rightarrow> int option" where
  "job_epoch s i = map_option j_lease_epoch (select_row (jobs (fst s)) i)"

definition job_claims ::
  "scheduler_db \<times> int \<Rightarrow> string \<Rightarrow> resource_context \<times> string \<Rightarrow> int \<Rightarrow> scheduler_db \<times> int \<Rightarrow> bool"
where
  "job_claims s i who ep s' \<longleftrightarrow> keys_distinct (jobs (fst s)) \<and>
     (\<exists>j. sched_step s (Claimed (fst who) (snd who) i j) s' \<and> j_lease_epoch j = ep)"

definition job_passes :: "scheduler_db \<times> int \<Rightarrow> string \<Rightarrow> resource_context \<times> string \<Rightarrow> int \<Rightarrow> bool" where
  "job_passes s i who ep \<longleftrightarrow> \<not> isl (guard_job (fst s) (fst who) i (snd who) ep (snd s))"

lemma epoch_kept:
  "jobs db' = update_row i (\<lambda>_. j') (jobs db) \<Longrightarrow> select_row (jobs db) i = Some j0 \<Longrightarrow>
     j_lease_epoch j0 \<le> j_lease_epoch j' \<Longrightarrow> select_row (jobs db) k = Some q \<Longrightarrow>
     \<exists>q'. select_row (jobs db') k = Some q' \<and> j_lease_epoch q \<le> j_lease_epoch q'"
  by (cases "k = i") (auto simp: table_simps)

lemma claimed_epoch [simp]: "j_lease_epoch (claimed owner lease now j) = j_lease_epoch j + 1"
  by (simp add: claimed_def)

lemma released_epoch [simp]: "j_lease_epoch (released_job act now j) = j_lease_epoch j"
  by (simp add: released_job_def)

lemma sched_step_epoch:
  assumes distinct: "keys_distinct (jobs (fst s))" and step: "sched_step s e s'"
    and job: "select_row (jobs (fst s)) k = Some q"
  shows "\<exists>q'. select_row (jobs (fst s')) k = Some q' \<and> j_lease_epoch q \<le> j_lease_epoch q'"
  using step
proof (cases rule: sched_step.cases)
  case (claim t now db ctx owner lease opts i j db')
  have "keys_distinct (jobs db)" using distinct claim(1) by simp
  from claim_effect [OF this claim(5)] obtain j0 where "select_row (jobs db) i = Some j0"
      "j = claimed owner lease now j0" "jobs db' = update_row i (\<lambda>_. j) (jobs db)" by metis
  with epoch_kept [of db' i j db j0 k q] job claim(1,3) show ?thesis by simp
next
  case (no_claim t now db ctx owner lease opts db')
  from no_claim(5) have "jobs db' = jobs db" by (cases rule: claim_cases) simp_all
  with no_claim job show ?thesis by simp
next
  case (backfill t now db ctx owner i run lease i' j db')
  from backfill_effect [OF backfill(5)] obtain j0 where "select_row (jobs db) i' = Some j0"
      "j = claimed owner lease now j0" "jobs db' = update_row i' (\<lambda>_. j) (jobs db)" by metis
  with epoch_kept [of db' i' j db j0 k q] job backfill(1,3) show ?thesis by simp
next
  case (no_backfill t now db ctx owner i run lease db')
  from no_backfill(5) have "jobs db' = jobs db" by (cases rule: backfill_cases) auto
  with no_backfill job show ?thesis by simp
next
  case (guard t now db ctx i owner ep r db')
  obtain j l where "r = (j, l)" by (cases r)
  with guard guard_Inr(6) [of db ctx i owner ep now j l db'] job show ?thesis by simp
next
  case (transition t now db ctx i owner ep action lease proposal db')
  from transition(5) show ?thesis
  proof (cases rule: transition_cases)
    case (guarded act j l db1)
    have j: "select_row (jobs db) i = Some j" using guard_Inr(1) [OF guarded(3)] by (simp add: owned_job_select)
    have "jobs db1 = jobs db" using guard_Inr(6) [OF guarded(3)] by simp
    then obtain j' where "jobs db' = update_row i (\<lambda>_. j') (jobs db)" "j_lease_epoch j' = j_lease_epoch j"
      using guarded(4) by (cases act) (auto simp: Let_def split: if_splits)
    with epoch_kept [of db' i j' db j k q] j job transition(1,3) show ?thesis by simp
  qed
next
  case (recover t now db ctx i disposition fin db')
  from recover(5) show ?thesis
  proof (cases rule: recover_cases)
    case idle
    with job recover(1,3) show ?thesis by simp
  next
    case (recovered j base)
    have "select_row (jobs db) i = Some j" using recovered(2) by (simp add: owned_job_select)
    with epoch_kept [OF _ this, of db' _ k q] recovered(6) job recover(1,3) show ?thesis by simp
  qed
next
  case (enqueue t now db i j)
  with job show ?thesis by (auto simp: table_simps)
next
  case (elsewhere t now db b h)
  with job show ?thesis by simp
qed

lemma claim_step_effect:
  assumes "keys_distinct (jobs (fst s))" and "sched_step s (Claimed ctx owner i j) s'"
  obtains j0 where "select_row (jobs (fst s)) i = Some j0" "j_lease_epoch j = j_lease_epoch j0 + 1"
    "select_row (jobs (fst s')) i = Some j" "j_owner j = ctx" "j_lease_owner j = Some owner"
  using assms(2)
proof (cases rule: sched_step.cases)
  case (claim t now db lease opts db')
  have "keys_distinct (jobs db)" using assms(1) claim(1) by simp
  from claim_effect [OF this claim(4)] obtain j0 where "select_row (jobs db) i = Some j0" "j_owner j0 = ctx"
      "j = claimed owner lease now j0" "jobs db' = update_row i (\<lambda>_. j) (jobs db)" by metis
  with claim(1,2) that show thesis by (simp add: table_simps claimed_def)
next
  case (backfill t now db k run lease db')
  from backfill_effect [OF backfill(4)] obtain j0 where "select_row (jobs db) i = Some j0" "j_owner j0 = ctx"
      "j = claimed owner lease now j0" "jobs db' = update_row i (\<lambda>_. j) (jobs db)" by metis
  with backfill(1,2) that show thesis by (simp add: table_simps claimed_def)
qed

lemma job_passes_guard:
  assumes "job_passes s i who ep"
  obtains j where "select_row (jobs (fst s)) i = Some j" "j_owner j = fst who"
    "j_lease_owner j = Some (snd who)" "j_lease_epoch j = ep"
proof -
  obtain r where "guard_job (fst s) (fst who) i (snd who) ep (snd s) = Inr r"
    using assms by (cases "guard_job (fst s) (fst who) i (snd who) ep (snd s)") (auto simp: job_passes_def)
  moreover obtain j l db' where "r = ((j, l), db')" by (cases r) auto
  ultimately show thesis using guard_Inr(1,3,4) that by (metis owned_job_select)
qed

interpretation job_lease: fenced_lease sched_next job_epoch job_claims job_passes
proof unfold_locales
  fix s s' k ep
  assume "sched_next s s'" and "job_epoch s k = Some ep"
  then show "\<exists>e'. job_epoch s' k = Some e' \<and> ep \<le> e'"
    using sched_step_epoch by (fastforce simp: sched_next_def job_epoch_def)
next
  fix s k who ep s'
  assume "job_claims s k who ep s'"
  then show "\<exists>e0. job_epoch s k = Some e0 \<and> e0 < ep \<and> job_epoch s' k = Some ep"
    by (auto simp: job_claims_def job_epoch_def elim!: claim_step_effect)
next
  fix s k who ep
  assume "job_passes s k who ep"
  then show "job_epoch s k = Some ep" by (rule job_passes_guard) (simp add: job_epoch_def)
next
  fix s k who ep who' e'
  assume a: "job_passes s k who ep" and b: "job_passes s k who' e'"
  show "who' = who" using a b by (auto elim!: job_passes_guard intro: prod_eqI)
qed

end
