(* ===== verification/Scheduler_Properties.thy ===== *)
theory Scheduler_Properties
  imports Scheduler_Facts
begin

text \<open>
  What the scheduler promises: one running model job per owner, superseded owners fenced for good,
  bounded attempts with back-off, claims in priority order, and operations that stay inside their
  owner's rows.
\<close>

section \<open>A sample history\<close>

definition who :: resource_context where
  "who = \<lparr>workspace_id = ''w'', user_id = ''u''\<rparr>"

definition waiting_job :: "string \<Rightarrow> job" where
  "waiting_job kind = \<lparr>j_owner = who, j_kind = kind, j_status = ''queued'', j_attempt = 0, j_not_before = 0,
     j_lease_owner = None, j_lease_until = None, j_lease_epoch = 0, j_proposal = None, j_created_at = 0,
     j_updated_at = 0, j_completed_at = None\<rparr>"

definition any_job :: claim_options where
  "any_job = \<lparr>allow_model_jobs = True, allow_maintenance = True, activity_allowed = True,
     budget_allowed = True, only_kinds = None\<rparr>"

definition queued_db :: scheduler_db where
  "queued_db = empty_scheduler\<lparr>jobs := [(''j1'', waiting_job ''wiki_integrate'')]\<rparr>"

definition running_job :: job where
  "running_job = claimed ''a'' 10 1 (waiting_job ''wiki_integrate'')"

definition running_db :: scheduler_db where
  "running_db = \<lparr>jobs = [(''j1'', running_job)],
     lanes = [(who, \<lparr>ln_active = Some ''j1'', ln_epoch = 1, ln_until = Some 11\<rparr>)],
     scheduler_events = [(who, ''j1'', ''claimed'', 1)], job_holds = [], backfill_operations = []\<rparr>"

definition recovered_job :: job where
  "recovered_job = running_job\<lparr>j_status := ''retry_wait'', j_lease_owner := None, j_lease_until := None,
     j_updated_at := 20\<rparr>"

definition recovered_db :: scheduler_db where
  "recovered_db = running_db\<lparr>jobs := [(''j1'', recovered_job)],
     lanes := [(who, \<lparr>ln_active = None, ln_epoch = 1, ln_until = None\<rparr>)]\<rparr>"

definition reclaimed_job :: job where
  "reclaimed_job = claimed ''b'' 10 21 recovered_job"

definition reclaimed_db :: scheduler_db where
  "reclaimed_db = \<lparr>jobs = [(''j1'', reclaimed_job)],
     lanes = [(who, \<lparr>ln_active = Some ''j1'', ln_epoch = 2, ln_until = Some 31\<rparr>)],
     scheduler_events = [(who, ''j1'', ''claimed'', 1), (who, ''j1'', ''claimed'', 21)],
     job_holds = [], backfill_operations = []\<rparr>"

lemmas sample_defs = waiting_job_def any_job_def queued_db_def running_job_def running_db_def
  recovered_job_def recovered_db_def reclaimed_job_def reclaimed_db_def empty_scheduler_def claimed_def

lemmas scheduler_run = claim_job_def recover_job_def candidate_def eligible_def held_def owned_job_def
  assign_job_def ensure_lane_def lane_row_def lane_busy_def fresh_lane_def wanted_def LOCAL_KINDS_def MODEL_KINDS_def
  waiting_statuses_def lease_limit_def recovery_status_def lease_valid_def set_job_def update_lane_def
  clear_lane_def select_row_def insert_or_ignore_def insert_row_def update_row_def update_where_def
  job_order_def kind_rank_def Let_def

lemma sample_claim:
  "claim_job queued_db who ''a'' 10 any_job 1 = Inr (Some (''j1'', running_job), running_db)"
  by (simp add: scheduler_run sample_defs)

lemma sample_recover: "recover_job running_db who ''j1'' ''replay_safe'' 20 = Inr (True, recovered_db)"
  by (simp add: scheduler_run sample_defs)

lemma sample_reclaim:
  "claim_job recovered_db who ''b'' 10 any_job 21 = Inr (Some (''j1'', reclaimed_job), reclaimed_db)"
  by (simp add: scheduler_run sample_defs)

lemma sample_enqueue: "sched_step (empty_scheduler, 0) (Enqueued ''j1'') (queued_db, 0)"
  using sched_step.enqueue [of 0 0 empty_scheduler "''j1''" "waiting_job ''wiki_integrate''"]
  by (simp add: empty_scheduler_def select_row_def waiting_job_def insert_row_def queued_db_def)

lemma sample_keys:
  "keys_distinct (jobs empty_scheduler)" "keys_distinct (jobs queued_db)" "keys_distinct (jobs running_db)"
  "keys_distinct (jobs recovered_db)" "keys_distinct (jobs reclaimed_db)"
  by (simp_all add: keys_distinct_def empty_scheduler_def queued_db_def running_db_def recovered_db_def reclaimed_db_def)

lemma sample_running_reach: "sched_reach running_db 1"
proof -
  have "sched_next (empty_scheduler, 0) (queued_db, 0)"
    using sample_enqueue sample_keys by (auto simp: sched_next_def)
  moreover have "sched_next (queued_db, 0) (running_db, 1)"
    using sched_step.claim [OF _ sample_claim, of 0] sample_keys by (auto simp: sched_next_def)
  ultimately have "sched_next\<^sup>*\<^sup>* (empty_scheduler, 0) (running_db, 1)" by auto
  then show ?thesis unfolding sched_reach_def by blast
qed

lemma sample_recover_steps: "sched_next\<^sup>*\<^sup>* (running_db, 1) (recovered_db, 20)"
  using sched_step.recover [OF _ sample_recover, of 1] sample_keys
  by (intro r_into_rtranclp) (auto simp: sched_next_def)

lemma sample_reclaim_step: "sched_step (recovered_db, 20) (Claimed who ''b'' ''j1'' reclaimed_job) (reclaimed_db, 21)"
  using sched_step.claim [OF _ sample_reclaim, of 20] by simp

section \<open>Properties\<close>

text \<open>
  C29: one model job at a time. In every reachable state an owner has at most one running model job
  with a valid lease, and the owner's lane names that job with its epoch and expiry.
\<close>

theorem single_model_job:
  assumes "sched_reach db t"
    and "select_row (jobs db) i = Some j" and "live_model t j"
    and "select_row (jobs db) i' = Some j'" and "live_model t j'" and "j_owner j' = j_owner j"
  shows "i' = i \<and> lane_row (j_owner j) db =
    \<lparr>ln_active = Some i, ln_epoch = j_lease_epoch j, ln_until = j_lease_until j\<rparr>"
proof -
  have inv: "sched_inv db t" by (rule sched_reach_inv [OF assms(1)])
  have "lane_agrees db i j" "lane_agrees db i' j'"
    using sched_invD(3) [OF inv assms(2,3)] sched_invD(3) [OF inv assms(4,5)] by simp_all
  then show ?thesis using assms(6) by (simp add: lane_agrees_def)
qed

lemma single_model_job_witness:
  "lane_row who running_db = \<lparr>ln_active = Some ''j1'', ln_epoch = 1, ln_until = Some 11\<rparr>"
proof -
  have job: "select_row (jobs running_db) ''j1'' = Some running_job" by (simp add: running_db_def select_row_def)
  have live: "live_model 1 running_job"
    by (simp add: live_model_def running_job_def claimed_def waiting_job_def LOCAL_KINDS_def lease_valid_def)
  from single_model_job [OF sample_running_reach job live job live refl] show ?thesis
    by (simp add: running_job_def claimed_def waiting_job_def)
qed

text \<open>
  C5: a superseded owner is fenced for good. Once a job held at some epoch has been claimed again,
  in no later state does the ownership guard accept that epoch from anyone, so no transition of
  the old owner takes effect.
\<close>

theorem stale_owner_fenced:
  assumes "select_row (jobs (fst s)) i = Some old" and "sched_next\<^sup>*\<^sup>* s s1"
    and "keys_distinct (jobs (fst s1))" and "sched_step s1 (Claimed ctx owner i j) s2"
    and "sched_next\<^sup>*\<^sup>* s2 (db, t)"
  shows "isl (guard_job db ctx' i owner' (j_lease_epoch old) t) \<and>
         isl (job_transition db ctx' i owner' (j_lease_epoch old) action lease proposal t)"
proof -
  have "job_epoch s i = Some (j_lease_epoch old)" using assms(1) by (simp add: job_epoch_def)
  moreover have "job_claims s1 i (ctx, owner) (j_lease_epoch j) s2" using assms(3,4) by (auto simp: job_claims_def)
  ultimately have "\<not> job_passes (db, t) i (ctx', owner') (j_lease_epoch old)"
    using assms(2,5) by (intro job_lease.stale_never_passes)
  then have guard: "isl (guard_job db ctx' i owner' (j_lease_epoch old) t)" by (simp add: job_passes_def)
  have "isl (job_transition db ctx' i owner' (j_lease_epoch old) action lease proposal t)"
  proof (cases "job_transition db ctx' i owner' (j_lease_epoch old) action lease proposal t")
    case (Inr db')
    then obtain r where "guard_job db ctx' i owner' (j_lease_epoch old) t = Inr r" by (rule transition_cases) blast
    with guard show ?thesis by simp
  qed simp
  with guard show ?thesis by simp
qed

lemma stale_owner_fenced_witness:
  "isl (guard_job reclaimed_db who ''j1'' ''a'' 1 21) \<and>
   isl (job_transition reclaimed_db who ''j1'' ''a'' 1 ''complete'' 10 None 21) \<and>
   \<not> isl (guard_job reclaimed_db who ''j1'' ''b'' 2 21)"
proof -
  have job: "select_row (jobs (fst (running_db, 1))) ''j1'' = Some running_job"
    and ep: "j_lease_epoch running_job = 1"
    by (simp_all add: running_db_def select_row_def running_job_def claimed_def waiting_job_def)
  have "keys_distinct (jobs (fst (recovered_db, 20)))" using sample_keys by simp
  from stale_owner_fenced [OF job sample_recover_steps this sample_reclaim_step rtranclp.rtrancl_refl,
      of who "''a''" "''complete''" 10 None, unfolded ep]
  have "isl (guard_job reclaimed_db who ''j1'' ''a'' 1 21)"
    "isl (job_transition reclaimed_db who ''j1'' ''a'' 1 ''complete'' 10 None 21)" by simp_all
  moreover have "\<not> isl (guard_job reclaimed_db who ''j1'' ''b'' 2 21)"
    by (simp add: guard_job_def scheduler_run sample_defs)
  ultimately show ?thesis by simp
qed

text \<open>
  A job is attempted at most three times. In every reachable state the attempt counter is
  between 0 and 3, and a job that is still waiting to be claimed has used at most two.
\<close>

lemma attempts_bounded:
  assumes "sched_reach db t" and "select_row (jobs db) i = Some j"
  shows "0 \<le> j_attempt j \<and> j_attempt j \<le> 3 \<and> (j_status j \<in> set waiting_statuses \<longrightarrow> j_attempt j \<le> 2)"
  using sched_invD(2) [OF sched_reach_inv [OF assms(1)] assms(2)] by (simp add: job_ok_def)

text \<open>
  A failure backs off or blocks. When its owner reports a failure, a job that has used fewer
  than three attempts waits 10, then 60 seconds before it can be claimed again, and the third
  failure blocks it; owner and lease are gone, the epoch stays, and the lane is free.
\<close>

lemma failure_backs_off:
  assumes "job_transition db ctx i owner ep ''fail'' lease proposal now = Inr db'"
  shows "\<exists>j j'. select_row (jobs db) i = Some j \<and> select_row (jobs db') i = Some j' \<and>
     j_status j' = (if j_attempt j \<ge> 3 then ''blocked'' else ''retry_wait'') \<and>
     j_not_before j' = now + (if j_attempt j \<le> 1 then 10 else if j_attempt j = 2 then 60 else 300) * 1000000 \<and>
     j_lease_owner j' = None \<and> j_lease_until j' = None \<and> j_lease_epoch j' = ep \<and>
     j_attempt j' = j_attempt j \<and> j_proposal j' = j_proposal j \<and>
     (j_kind j \<notin> set LOCAL_KINDS \<longrightarrow> ln_active (lane_row ctx db') = None)"
  using assms
proof (cases rule: transition_cases)
  case (guarded act j l db1)
  note g = guard_Inr [OF guarded(3)]
  have act: "act = Fail" using guarded(1) by simp
  have job: "select_row (jobs db) i = Some j" using g(1) by (simp add: owned_job_select)
  have db': "db' = (if l = None then set_job i (released_job Fail now j) db1
      else update_lane ctx i ep clear_lane (set_job i (released_job Fail now j) db1))"
    using guarded(4) by (simp add: act Let_def)
  have job': "select_row (jobs db') i = Some (released_job Fail now j)"
    using job g(6) by (simp add: db' table_simps)
  have delay: "retry_delay a = (if a \<le> 1 then 10 else if a = 2 then 60 else 300) * 1000000" for a
    by (auto simp: retry_delay_def min_def max_def numeral_2_eq_2)
  have "ln_active (lane_row ctx db') = None" if "j_kind j \<notin> set LOCAL_KINDS"
    using g(6-8) that lane_present_ensure [of ctx db]
    by (simp add: db' lane_row_update_lane clear_lane_def)
  then show ?thesis
    using job job' g(4) by (intro exI [of _ j] exI [of _ "released_job Fail now j"]) (auto simp: released_job_def delay)
qed

text \<open>
  C30: claims follow the priority. The job a claim returns was waiting, due, not held and of the
  caller; it comes back running with one more attempt, the next epoch and a full lease. No eligible
  local job precedes it in the order (purge, index, other; creation; id), and a model job is
  handed out only when there is no eligible local job and the lane is free.
\<close>

theorem claim_takes_first:
  assumes "keys_distinct (jobs db)" and "claim_job db ctx owner lease opts now = Inr (Some (i, j'), db')"
  shows "\<exists>j. select_row (jobs db) i = Some j \<and> select_row (jobs db') i = Some j' \<and>
     j' = claimed owner lease now j \<and>
     (let local = wanted (only_kinds opts) LOCAL_KINDS; model = wanted (only_kinds opts) MODEL_KINDS in
      eligible db ctx local now (i, j) \<and>
        list_all (\<lambda>r. eligible db ctx local now r \<longrightarrow> job_order (i, j) \<le> job_order r) (jobs db)
      \<or> eligible db ctx model now (i, j) \<and> \<not> lane_busy ctx now db \<and>
        list_all (\<lambda>r. \<not> eligible db ctx local now r) (jobs db) \<and>
        list_all (\<lambda>r. eligible db ctx model now r \<longrightarrow> job_order (i, j) \<le> job_order r) (jobs db))"
  using assms(2)
proof (cases rule: claim_cases)
  case (local_job row)
  note c = candidate_Some [OF local_job(1)]
  have row: "row = (i, snd row)" "j' = claimed owner lease now (snd row)"
    using local_job(2) by (auto simp: assign_simps)
  have "select_row (jobs db) i = Some (snd row)" using assigned [OF assms(1) c(1)] row(1) by (metis fst_conv)
  moreover have "select_row (jobs db') i = Some j'"
    using calculation row by (simp add: local_job(3) assign_simps table_simps) (metis fst_conv)
  ultimately show ?thesis
    using c(2,3) row by (intro exI [of _ "snd row"]) (simp add: Let_def list_all_iff)
next
  case (model_job row)
  note c = candidate_Some [OF model_job(2)]
  have row: "row = (i, snd row)" "j' = claimed owner lease now (snd row)"
    using model_job(8) by (auto simp: assign_simps)
  have el: "eligible (ensure_lane ctx db) ctx ks now r = eligible db ctx ks now r" for ks r
    by (simp add: eligible_def held_def)
  have busy: "\<not> lane_busy ctx now db" using model_job(3) by (simp add: lane_busy_def)
  have none: "list_all (\<lambda>r. \<not> eligible db ctx (wanted (only_kinds opts) LOCAL_KINDS) now r) (jobs db)"
    using candidate_None [OF model_job(1)] by (auto simp: list_all_iff)
  have "select_row (jobs db) i = Some (snd row)" using assigned [OF assms(1)] c(1) row(1) by (metis ensure_lane_simps(1) fst_conv)
  moreover have "select_row (jobs db') i = Some j'"
    using calculation row by (simp add: model_job(9) assign_simps table_simps) (metis fst_conv)
  ultimately show ?thesis
    using c(2,3) row none busy by (intro exI [of _ "snd row"]) (simp add: Let_def list_all_iff el)
qed simp_all

lemma claim_takes_first_witness:
  "\<exists>j. select_row (jobs queued_db) ''j1'' = Some j \<and> running_job = claimed ''a'' 10 1 j"
  using claim_takes_first [OF sample_keys(2) sample_claim] by blast

text \<open>
  Operations stay inside their owner's rows. A claim, backfill claim, transition or recovery on
  behalf of one owner leaves every job and lane of every other owner as it was.
\<close>

lemma scheduler_tenant_isolation:
  assumes "keys_distinct (jobs db)" and "select_row (jobs db) k = Some q" and "j_owner q \<noteq> ctx" and "c \<noteq> ctx"
    and "claim_job db ctx owner lease opts now = Inr (res, db') \<or>
         claim_backfill_job db ctx owner i run lease now = Inr (res, db') \<or>
         job_transition db ctx i owner ep action lease proposal now = Inr db' \<or>
         recover_job db ctx i disposition now = Inr (recovered, db')"
  shows "select_row (jobs db') k = Some q \<and> lane_row c db' = lane_row c db"
  using assms(5)
proof (elim disjE)
  assume claim: "claim_job db ctx owner lease opts now = Inr (res, db')"
  then show ?thesis
  proof (cases rule: claim_cases)
    case (local_job row)
    then show ?thesis
      using assms(2-4) candidate_Some(2) [OF local_job(1)] select_candidate [OF assms(1) local_job(1)]
      by (auto simp: assign_simps table_simps eligible_def)
  next
    case (model_job row)
    have "keys_distinct (jobs (ensure_lane ctx db))" using assms(1) by simp
    note sel = select_candidate [OF this model_job(2)]
    show ?thesis
      using assms(2-4) candidate_Some(2) [OF model_job(2)] sel
      by (auto simp: model_job(9) assign_simps table_simps eligible_def)
  qed (use assms(2-4) in simp_all)
next
  assume "claim_backfill_job db ctx owner i run lease now = Inr (res, db')"
  then show ?thesis
  proof (cases rule: backfill_cases)
    case (assign j db1)
    then show ?thesis using assms(2-4) by (auto simp: assign_simps table_simps owned_job_select)
  qed (use assms(2-4) in auto)
next
  assume "job_transition db ctx i owner ep action lease proposal now = Inr db'"
  then show ?thesis
  proof (cases rule: transition_cases)
    case (guarded act j l db1)
    have "select_row (jobs db) i = Some j" "j_owner j = ctx"
      using guard_Inr(1) [OF guarded(3)] by (simp_all add: owned_job_select)
    then have "k \<noteq> i" using assms(2,3) by auto
    then show ?thesis
      using assms(2-4) guarded(4) guard_Inr(6) [OF guarded(3)]
      by (cases act) (auto simp: Let_def table_simps lane_row_update_lane split: if_splits)
  qed
next
  assume "recover_job db ctx i disposition now = Inr (recovered, db')"
  then show ?thesis
  proof (cases rule: recover_cases)
    case (recovered j base)
    then show ?thesis
      using assms(2-4) by (auto simp: table_simps lane_row_update_lane owned_job_select)
  qed (use assms(2-4) in simp)
qed

definition other_owner :: resource_context where
  "other_owner = \<lparr>workspace_id = ''w2'', user_id = ''v''\<rparr>"

end
