(* ===== verification/Storage_Fences.thy ===== *)
theory Storage_Fences
  imports Storage_Budget Coordination_Interfaces
begin

text \<open>
  Run and task fences and replay receipts: src/shiliu/storage/fences.py, src/shiliu/storage/receipts.py
  and \<open>assistant_run_dto\<close> of src/shiliu/storage/dto.py. The tables keep the columns these modules
  read or write; surrogate ids of event and receipt rows come from \<open>uuid4\<close> and are an argument.
  An operation reads the database clock once, as \<open>now\<close>, in microseconds, and is one atomic step
  under its row locks, so re-reading a locked row finds it unchanged and the compare-and-set of a
  locked task succeeds.
\<close>

section \<open>State\<close>

record workspace_guard =
  wg_membership_highwater :: int
  wg_dependency_epoch :: int

record thread =
  th_workspace :: string
  th_principal :: string

record run =
  rn_workspace :: string
  rn_thread :: string
  rn_request :: string
  rn_status :: string
  rn_epoch :: int
  rn_cancel_requested :: bool
  rn_working_state :: json
  rn_insertion_seq :: int
  rn_error_code :: "string option"
  rn_updated_at :: int
  rn_completed_at :: "int option"

record run_event =
  re_workspace :: string
  re_run :: string
  re_seq :: int
  re_type :: string
  re_payload :: json
  re_created_at :: int

record research_task =
  rt_workspace :: string
  rt_owner_user :: string
  rt_status :: string
  rt_owner :: "string option"
  rt_epoch :: int
  rt_version :: int
  rt_lease_until :: "int option"
  rt_updated_at :: int

record research_attempt =
  ra_task :: string
  ra_status :: string
  ra_epoch :: int

record side_effect =
  se_workspace :: string
  se_task :: string
  se_kind :: string
  se_key :: string
  se_request_hash :: string
  se_status :: string
  se_epoch :: int
  se_updated_at :: int

record task_event =
  te_id :: string
  te_workspace :: string
  te_task :: string
  te_seq :: int
  te_type :: string
  te_payload :: json
  te_command :: "string option"
  te_epoch :: int
  te_created_at :: int

record command_receipt =
  cr_id :: string
  cr_workspace :: string
  cr_task :: string
  cr_command :: string
  cr_type :: string
  cr_payload_hash :: string
  cr_status :: string
  cr_response :: json
  cr_epoch :: int
  cr_created_at :: int
  cr_completed_at :: "int option"

record mutation_receipt =
  mr_operation :: string
  mr_result :: "(string \<times> json) list"

record coordination_db =
  workspace_guards :: "(string, workspace_guard) table"
  threads :: "(string, thread) table"
  runs :: "(string, run) table"
  run_events :: "run_event list"
  tasks :: "(string, research_task) table"
  attempts :: "(string, research_attempt) table"
  side_effects :: "(string, side_effect) table"
  task_events :: "task_event list"
  command_receipts :: "command_receipt list"
  mutation_receipts :: "(resource_context \<times> string, mutation_receipt) table"

section \<open>Locks\<close>

definition lock_workspace :: "coordination_db \<Rightarrow> resource_context \<Rightarrow> workspace_guard result" where
  "lock_workspace db ctx =
     (case select_row (workspace_guards db) (workspace_id ctx) of
        None \<Rightarrow> Inl (Conflict ''workspace_missing'') | Some g \<Rightarrow> Inr g)"

definition owned_thread :: "coordination_db \<Rightarrow> resource_context \<Rightarrow> string \<Rightarrow> bool" where
  "owned_thread db ctx i \<longleftrightarrow>
     (case select_row (threads db) i of
        None \<Rightarrow> False
      | Some th \<Rightarrow> th_workspace th = workspace_id ctx \<and> th_principal th = user_id ctx)"

definition lock_thread_run :: "coordination_db \<Rightarrow> resource_context \<Rightarrow> string \<Rightarrow> run result" where
  "lock_thread_run db ctx i =
     (case select_row (runs db) i of
        None \<Rightarrow> Inl (Conflict ''run_missing'')
      | Some r \<Rightarrow>
          if rn_workspace r \<noteq> workspace_id ctx then Inl (Conflict ''run_missing'')
          else if \<not> owned_thread db ctx (rn_thread r) then Inl (Conflict ''run_owner_mismatch'')
          else Inr r)"

section \<open>Tool guard\<close>

text \<open>Python truth of a JSON value, and \<open>text.replace("Z", "+00:00")\<close>.\<close>

fun truthy :: "json \<Rightarrow> bool" where
  "truthy JNull = False"
| "truthy (JBool b) = b"
| "truthy (JInt i) = (i \<noteq> 0)"
| "truthy (JStr s) = (s \<noteq> [])"
| "truthy (JArr vs) = (vs \<noteq> [])"
| "truthy (JObj kvs) = (kvs \<noteq> [])"

definition get_truthy :: "(string \<times> json) list \<Rightarrow> string \<Rightarrow> bool" where
  "get_truthy d k = (case map_of d k of None \<Rightarrow> False | Some v \<Rightarrow> truthy v)"

definition replace_z :: "string \<Rightarrow> string" where
  "replace_z s = concat (map (\<lambda>c. if c = CHR ''Z'' then ''+00:00'' else [c]) s)"

text \<open>
  \<open>parse\<close> is \<open>datetime.fromisoformat\<close>, \<open>None\<close> for a ValueError. The deadline of a budget object, or
  \<open>None\<close> where the code raises KeyError, TypeError, ValueError or AttributeError.
\<close>

definition budget_deadline :: "(string \<Rightarrow> datetime option) \<Rightarrow> json \<Rightarrow> datetime option" where
  "budget_deadline parse budget =
     (case budget of
        JObj b \<Rightarrow>
          if get_truthy b ''final_dispatched'' then None
          else (case map_of b ''deadline_at'' of
              Some (JStr text) \<Rightarrow>
                (case parse (replace_z text) of
                   Some d \<Rightarrow> if aware d then Some d else None
                 | None \<Rightarrow> None)
            | _ \<Rightarrow> None)
      | _ \<Rightarrow> None)"

definition guard_tool_operation ::
  "(string \<Rightarrow> datetime option) \<Rightarrow> coordination_db \<Rightarrow> resource_context \<Rightarrow> string \<Rightarrow> int \<Rightarrow> int \<Rightarrow> run result"
where
  "guard_tool_operation parse db ctx i expected now =
     (if expected < 1 then Inl (Conflict ''expected_epoch_required'')
      else ebind (lock_thread_run db ctx i) (\<lambda>r.
        case rn_working_state r of
          JObj state \<Rightarrow>
            if rn_epoch r \<noteq> expected \<or> rn_status r \<noteq> ''running'' \<or> rn_cancel_requested r \<or>
               get_truthy state ''finish_requested''
            then Inl (Conflict ''run_fenced'')
            else (case map_of state ''execution_budget'' of
                None \<Rightarrow> Inr r
              | Some budget \<Rightarrow>
                  (case budget_deadline parse budget of
                     None \<Rightarrow> Inl (Conflict ''run_fenced'')
                   | Some d \<Rightarrow> if dt_instant d > now then Inr r else Inl (Conflict ''run_fenced'')))
        | _ \<Rightarrow> Inl (Conflict ''run_fenced'')))"

section \<open>Run events and cancellation\<close>

definition run_seqs :: "coordination_db \<Rightarrow> string \<times> string \<Rightarrow> int list" where
  "run_seqs db k = map re_seq (filter (\<lambda>e. (re_workspace e, re_run e) = k) (run_events db))"

definition append_run_event ::
  "coordination_db \<Rightarrow> resource_context \<Rightarrow> string \<Rightarrow> string \<Rightarrow> json \<Rightarrow> int \<Rightarrow> (int \<times> coordination_db) result"
where
  "append_run_event db ctx i type payload now =
     ebind (lock_thread_run db ctx i) (\<lambda>_.
       let seq = next_seq (run_seqs db (workspace_id ctx, i))
       in Inr (seq, db\<lparr>run_events := run_events db @
            [\<lparr>re_workspace = workspace_id ctx, re_run = i, re_seq = seq, re_type = type,
              re_payload = payload, re_created_at = now\<rparr>]\<rparr>))"

definition abandonable :: "string list" where
  "abandonable = [''queued'', ''running'', ''interrupted'', ''budget_exhausted'', ''failed'']"

definition cancelled :: "int \<Rightarrow> run \<Rightarrow> run" where
  "cancelled now r = r\<lparr>rn_cancel_requested := True, rn_epoch := rn_epoch r + 1, rn_status := ''cancelled'',
                       rn_updated_at := now, rn_completed_at := Some now\<rparr>"

definition cancel_run ::
  "coordination_db \<Rightarrow> resource_context \<Rightarrow> string \<Rightarrow> int \<Rightarrow> (run option \<times> coordination_db) result"
where
  "cancel_run db ctx i now =
     ebind (lock_thread_run db ctx i) (\<lambda>r.
       if rn_status r \<in> set abandonable
       then
         let db1 = db\<lparr>runs := update_row i (cancelled now) (runs db)\<rparr>
         in ebind (append_run_event db1 ctx i ''run_cancelled'' (JObj [(''reason'', JStr ''user_abandoned'')]) now)
              (\<lambda>(_, db2). Inr (select_row (runs db2) i, db2))
       else Inr (select_row (runs db) i, db))"

section \<open>Task ownership\<close>

definition task_lease_valid :: "int option \<Rightarrow> int \<Rightarrow> bool" where
  "task_lease_valid until now = (case until of None \<Rightarrow> False | Some t \<Rightarrow> t > now)"

definition owned_task :: "coordination_db \<Rightarrow> resource_context \<Rightarrow> string \<Rightarrow> research_task option" where
  "owned_task db ctx i =
     (case select_row (tasks db) i of
        None \<Rightarrow> None
      | Some t \<Rightarrow> if rt_workspace t = workspace_id ctx \<and> rt_owner_user t = user_id ctx then Some t else None)"

definition guard_task_owner ::
  "coordination_db \<Rightarrow> resource_context \<Rightarrow> string \<Rightarrow> string \<Rightarrow> int \<Rightarrow> int \<Rightarrow> research_task result"
where
  "guard_task_owner db ctx i owner ep now =
     (case owned_task db ctx i of
        None \<Rightarrow> Inl (Conflict ''task_fenced'')
      | Some t \<Rightarrow>
          if rt_status t \<noteq> ''running'' \<or> rt_owner t \<noteq> Some owner \<or> rt_epoch t \<noteq> ep \<or>
             \<not> task_lease_valid (rt_lease_until t) now
          then Inl (Conflict ''task_fenced'') else Inr t)"

definition task_seqs :: "coordination_db \<Rightarrow> string \<times> string \<Rightarrow> int list" where
  "task_seqs db k = map te_seq (filter (\<lambda>e. (te_workspace e, te_task e) = k) (task_events db))"

definition append_task_event ::
  "coordination_db \<Rightarrow> resource_context \<Rightarrow> string \<Rightarrow> string \<Rightarrow> json \<Rightarrow> string option \<Rightarrow> string \<Rightarrow> int
    \<Rightarrow> coordination_db result"
where
  "append_task_event db ctx i type payload command uuid now =
     (case owned_task db ctx i of
        None \<Rightarrow> Inl (Conflict ''task_missing'')
      | Some t \<Rightarrow>
          Inr (db\<lparr>task_events := task_events db @
            [\<lparr>te_id = ''evt_'' @ uuid, te_workspace = workspace_id ctx, te_task = i,
              te_seq = next_seq (task_seqs db (workspace_id ctx, i)), te_type = type, te_payload = payload,
              te_command = command, te_epoch = rt_epoch t, te_created_at = now\<rparr>]\<rparr>))"

text \<open>
  The research service appends to the same log: \<open>_event\<close> of research/service.py locks the caller's task
  and writes the epoch and time of its command. Its goal, attempt and checkpoint columns are left
  null by fences.py and are not kept here (\<open>append_event\<close> of \<open>Research_Kernel\<close> has them).
\<close>

definition append_service_event ::
  "coordination_db \<Rightarrow> resource_context \<Rightarrow> string \<Rightarrow> string \<Rightarrow> json \<Rightarrow> string option \<Rightarrow> int \<Rightarrow> string \<Rightarrow> int
    \<Rightarrow> (string \<times> coordination_db) result"
where
  "append_service_event db ctx i type payload command ep uuid now =
     (case owned_task db ctx i of
        None \<Rightarrow> Inl (Research_Not_Found ''task not found'')
      | Some _ \<Rightarrow>
          let event_id = ''event_'' @ uuid in
          Inr (event_id, db\<lparr>task_events := task_events db @
            [\<lparr>te_id = event_id, te_workspace = workspace_id ctx, te_task = i,
              te_seq = next_seq (task_seqs db (workspace_id ctx, i)), te_type = type, te_payload = payload,
              te_command = command, te_epoch = ep, te_created_at = now\<rparr>]\<rparr>))"

definition taken_over :: "string \<Rightarrow> int \<Rightarrow> int \<Rightarrow> research_task \<Rightarrow> research_task" where
  "taken_over owner lease now t =
     t\<lparr>rt_status := ''running'', rt_owner := Some owner, rt_epoch := rt_epoch t + 1,
       rt_version := rt_version t + 1, rt_lease_until := Some (now + lease), rt_updated_at := now\<rparr>"

definition task_lease_limit :: int where
  "task_lease_limit = 60 * 1000000"

definition claim_task_root ::
  "coordination_db \<Rightarrow> resource_context \<Rightarrow> string \<Rightarrow> string \<Rightarrow> int \<Rightarrow> string \<Rightarrow> int
    \<Rightarrow> (research_task option \<times> coordination_db) result"
where
  "claim_task_root db ctx i owner lease uuid now =
     (if owner = [] \<or> \<not> (0 < lease \<and> lease \<le> task_lease_limit) then Inl (Value_Error ''invalid_task_lease'')
      else case owned_task db ctx i of
        None \<Rightarrow> Inr (None, db)
      | Some t \<Rightarrow>
          if rt_status t \<notin> {''ready'', ''running''} then Inr (None, db)
          else if rt_status t = ''running'' \<and> task_lease_valid (rt_lease_until t) now then Inr (None, db)
          else
            let t' = taken_over owner lease now t;
                db1 = db\<lparr>tasks := update_row i (\<lambda>_. t') (tasks db),
                         attempts := update_where (\<lambda>_ a. ra_task a = i \<and> ra_status a \<in> {''pending'', ''running''})
                           (\<lambda>a. a\<lparr>ra_epoch := rt_epoch t', ra_status := ''running''\<rparr>) (attempts db),
                         side_effects := update_where (\<lambda>_ s. se_task s = i \<and> se_status s = ''reserved'')
                           (\<lambda>s. s\<lparr>se_epoch := rt_epoch t', se_updated_at := now\<rparr>) (side_effects db)\<rparr>
            in ebind (append_task_event db1 ctx i ''owner_claimed'' (JObj [(''owner_epoch'', JInt (rt_epoch t'))])
                        None uuid now)
                 (\<lambda>db2. Inr (Some t', db2)))"

section \<open>Request replay\<close>

record run_actions =
  act_resume :: bool
  act_abandon :: bool
  act_terminated :: bool
  act_current :: bool
  act_reason :: "string option"

text \<open>
  \<open>int(working_state.get(key, 0))\<close>: integers and booleans; any other value is an error here.
\<close>

definition state_counter :: "json \<Rightarrow> string \<Rightarrow> int result" where
  "state_counter state key =
     (case state of
        JObj kvs \<Rightarrow>
          (case map_of kvs key of
             None \<Rightarrow> Inr 0
           | Some (JInt n) \<Rightarrow> Inr n
           | Some (JBool b) \<Rightarrow> Inr (if b then 1 else 0)
           | _ \<Rightarrow> Inl (Value_Error ''int''))
      | _ \<Rightarrow> Inl (Value_Error ''working_state''))"

definition assistant_run_dto :: "run \<Rightarrow> bool \<Rightarrow> (run \<times> run_actions) result" where
  "assistant_run_dto r current =
     (let status = rn_status r; code = (case rn_error_code r of None \<Rightarrow> [] | Some c \<Rightarrow> c) in
      ebind (state_counter (rn_working_state r) ''context_recovery_attempts'') (\<lambda>recovery.
      ebind (state_counter (rn_working_state r) ''compaction_retries'') (\<lambda>compaction.
        Inr (r, \<lparr>act_resume = current \<and>
                   (status \<in> {''interrupted'', ''budget_exhausted''} \<and>
                      (code \<noteq> ''context_budget_exceeded'' \<or> recovery = 0) \<or>
                    status = ''failed'' \<and> code = ''context_compaction_failed'' \<and> compaction = 0),
                 act_abandon = current \<and> status \<in> set abandonable,
                 act_terminated = (status = ''cancelled''),
                 act_current = current,
                 act_reason = (if \<not> current \<and> status \<in> {''interrupted'', ''budget_exhausted''}
                               then Some ''run_superseded''
                               else if code = [] then None else Some code)\<rparr>))))"

definition recency :: "string \<times> run \<Rightarrow> int \<times> int" where
  "recency row = (if rn_status (snd row) \<in> {''queued'', ''running''} then 0 else 1, - rn_insertion_seq (snd row))"

definition thread_runs :: "coordination_db \<Rightarrow> resource_context \<Rightarrow> string \<Rightarrow> (string \<times> run) list" where
  "thread_runs db ctx th =
     filter (\<lambda>row. rn_workspace (snd row) = workspace_id ctx \<and> rn_thread (snd row) = th) (runs db)"

definition current_run :: "coordination_db \<Rightarrow> resource_context \<Rightarrow> string \<Rightarrow> string option" where
  "current_run db ctx th =
     (case sort_key recency (thread_runs db ctx th) of
        [] \<Rightarrow> None
      | row # _ \<Rightarrow> if rn_status (snd row) \<in> set abandonable then Some (fst row) else None)"

definition assistant_request_replay ::
  "coordination_db \<Rightarrow> resource_context \<Rightarrow> string \<Rightarrow> string \<Rightarrow> (string \<times> run \<times> run_actions) option result"
where
  "assistant_request_replay db ctx th request =
     (if \<not> owned_thread db ctx th then Inl (Conflict ''thread_owner_mismatch'')
      else case find (\<lambda>row. rn_request (snd row) = request) (thread_runs db ctx th) of
        None \<Rightarrow> Inr None
      | Some (i, r) \<Rightarrow>
          ebind (assistant_run_dto r (Some i = current_run db ctx th)) (\<lambda>dto. Inr (Some (i, dto))))"

definition mutation_replay ::
  "coordination_db \<Rightarrow> resource_context \<Rightarrow> string \<Rightarrow> string option \<Rightarrow> mutation_receipt option result"
where
  "mutation_replay db ctx key proposal =
     (case select_row (mutation_receipts db) (ctx, key) of
        None \<Rightarrow> Inr None
      | Some row \<Rightarrow>
          (case proposal of
             None \<Rightarrow> Inr (Some row)
           | Some p \<Rightarrow>
               if map_of (mr_result row) ''proposal_id'' \<noteq> Some (JStr p)
               then Inl (Conflict ''proposal_id_mismatch'') else Inr (Some row)))"

section \<open>Research receipts\<close>

record command_replay =
  rp_row :: "command_receipt option"
  rp_mismatch :: bool

definition raise_after_commit :: "command_replay \<Rightarrow> command_receipt option result" where
  "raise_after_commit r =
     (if rp_mismatch r then Inl (Conflict ''command_payload_mismatch'') else Inr (rp_row r))"

definition find_receipt :: "coordination_db \<Rightarrow> resource_context \<Rightarrow> string \<Rightarrow> string \<Rightarrow> command_receipt option" where
  "find_receipt db ctx i command =
     find (\<lambda>r. cr_workspace r = workspace_id ctx \<and> cr_task r = i \<and> cr_command r = command) (command_receipts db)"

definition research_command_replay ::
  "coordination_db \<Rightarrow> resource_context \<Rightarrow> string \<Rightarrow> string \<Rightarrow> string \<Rightarrow> string \<Rightarrow> int
    \<Rightarrow> (command_replay \<times> coordination_db) result"
where
  "research_command_replay db ctx i command hash uuid now =
     (if owned_task db ctx i = None then Inl (Conflict ''task_owner_mismatch'')
      else case find_receipt db ctx i command of
        None \<Rightarrow> Inr (\<lparr>rp_row = None, rp_mismatch = False\<rparr>, db)
      | Some row \<Rightarrow>
          if cr_payload_hash row \<noteq> hash
          then ebind (append_task_event db ctx i ''command_payload_mismatch_rejected''
                        (JObj [(''command_id'', JStr command),
                               (''stored_payload_hash'', JStr (cr_payload_hash row)),
                               (''received_payload_hash'', JStr hash)]) (Some command) uuid now)
                 (\<lambda>db'. Inr (\<lparr>rp_row = Some row, rp_mismatch = True\<rparr>, db'))
          else Inr (\<lparr>rp_row = Some row, rp_mismatch = False\<rparr>, db))"

definition research_effect_replay ::
  "coordination_db \<Rightarrow> resource_context \<Rightarrow> string \<Rightarrow> string \<Rightarrow> string \<Rightarrow> string \<Rightarrow> side_effect option result"
where
  "research_effect_replay db ctx i kind key hash =
     (if owned_task db ctx i = None then Inl (Conflict ''task_owner_mismatch'')
      else case find (\<lambda>(_, s). se_workspace s = workspace_id ctx \<and> se_task s = i \<and> se_kind s = kind \<and> se_key s = key)
                  (side_effects db) of
        None \<Rightarrow> Inr None
      | Some (_, s) \<Rightarrow>
          if se_request_hash s \<noteq> hash then Inl (Conflict ''effect_payload_mismatch'') else Inr (Some s))"

definition committed_command ::
  "resource_context \<Rightarrow> string \<Rightarrow> string \<Rightarrow> string \<Rightarrow> string \<Rightarrow> int \<Rightarrow> json \<Rightarrow> string \<Rightarrow> int \<Rightarrow> command_receipt"
where
  "committed_command ctx i command hash type ep response uuid now =
     \<lparr>cr_id = ''receipt_'' @ uuid, cr_workspace = workspace_id ctx, cr_task = i, cr_command = command,
       cr_type = type, cr_payload_hash = hash, cr_status = ''committed'', cr_response = response,
       cr_epoch = ep, cr_created_at = now, cr_completed_at = Some now\<rparr>"

definition record_research_command ::
  "coordination_db \<Rightarrow> resource_context \<Rightarrow> string \<Rightarrow> string \<Rightarrow> string \<Rightarrow> string \<Rightarrow> int \<Rightarrow> json \<Rightarrow> string \<Rightarrow> int
    \<Rightarrow> (command_replay \<times> coordination_db) result"
where
  "record_research_command db ctx i command hash type ep response uuid now =
     ebind (research_command_replay db ctx i command hash uuid now) (\<lambda>(result, db1).
       if rp_row result \<noteq> None then Inr (result, db1)
       else
         let db2 = db1\<lparr>command_receipts := command_receipts db1 @
                     [committed_command ctx i command hash type ep response uuid now]\<rparr>
         in research_command_replay db2 ctx i command hash uuid now)"

end
