(* ===== verification/Fences_Properties.thy ===== *)
theory Fences_Properties
  imports Storage_Fences
begin

text \<open>
  Runs and research tasks: gapless event logs, a tool guard that only admits a live run, task
  ownership that fences its predecessors, commands recorded once, and a single current run.
\<close>

section \<open>Effects of the operations\<close>

lemma owned_task_select:
  "owned_task db ctx i = Some t \<longleftrightarrow>
     select_row (tasks db) i = Some t \<and> rt_workspace t = workspace_id ctx \<and> rt_owner_user t = user_id ctx"
  by (auto simp: owned_task_def split: option.splits)

lemma append_run_Inr:
  assumes "append_run_event db ctx i type payload now = Inr (seq, db')"
  shows "run_seqs db' k = run_seqs db k @ (if k = (workspace_id ctx, i) then [seq] else [])"
    and "seq = next_seq (run_seqs db (workspace_id ctx, i))"
    and "task_events db' = task_events db" and "tasks db' = tasks db" and "runs db' = runs db"
  using assms by (auto simp: append_run_event_def ebind_eq_Inr Let_def run_seqs_def)

lemma append_task_Inr:
  assumes "append_task_event db ctx i type payload command uuid now = Inr db'"
  shows "task_seqs db' k = task_seqs db k @
           (if k = (workspace_id ctx, i) then [next_seq (task_seqs db (workspace_id ctx, i))] else [])"
    and "run_events db' = run_events db" and "tasks db' = tasks db" and "command_receipts db' = command_receipts db"
    and "attempts db' = attempts db" and "side_effects db' = side_effects db"
  using assms by (auto simp: append_task_event_def task_seqs_def split: option.splits)

lemma service_event_Inr:
  assumes "append_service_event db ctx i type payload command ep uuid now = Inr (event_id, db')"
  shows "task_seqs db' k = task_seqs db k @
           (if k = (workspace_id ctx, i) then [next_seq (task_seqs db (workspace_id ctx, i))] else [])"
    and "run_events db' = run_events db" and "tasks db' = tasks db"
  using assms by (auto simp: append_service_event_def task_seqs_def Let_def split: option.splits)

lemma cancel_cases:
  assumes "cancel_run db ctx i now = Inr (r', db')"
  obtains (unchanged) r where "lock_thread_run db ctx i = Inr r" "rn_status r \<notin> set abandonable"
      "db' = db" "r' = select_row (runs db) i"
    | (cancelled) r seq where "lock_thread_run db ctx i = Inr r" "rn_status r \<in> set abandonable"
      "append_run_event (db\<lparr>runs := update_row i (cancelled now) (runs db)\<rparr>) ctx i ''run_cancelled''
         (JObj [(''reason'', JStr ''user_abandoned'')]) now = Inr (seq, db')"
      "r' = select_row (runs db') i"
  using assms by (auto simp: cancel_run_def ebind_eq_Inr Let_def split: if_splits)

lemma claim_task_cases:
  assumes "claim_task_root db ctx i owner lease uuid now = Inr (res, db')"
  obtains (idle) "res = None" "db' = db"
    | (claimed) t db1 where "owned_task db ctx i = Some t" "rt_status t \<in> {''ready'', ''running''}"
      "\<not> (rt_status t = ''running'' \<and> task_lease_valid (rt_lease_until t) now)"
      "res = Some (taken_over owner lease now t)" "0 < lease"
      "db1 = db\<lparr>tasks := update_row i (\<lambda>_. taken_over owner lease now t) (tasks db),
         attempts := update_where (\<lambda>_ a. ra_task a = i \<and> ra_status a \<in> {''pending'', ''running''})
           (\<lambda>a. a\<lparr>ra_epoch := rt_epoch t + 1, ra_status := ''running''\<rparr>) (attempts db),
         side_effects := update_where (\<lambda>_ s. se_task s = i \<and> se_status s = ''reserved'')
           (\<lambda>s. s\<lparr>se_epoch := rt_epoch t + 1, se_updated_at := now\<rparr>) (side_effects db)\<rparr>"
      "append_task_event db1 ctx i ''owner_claimed'' (JObj [(''owner_epoch'', JInt (rt_epoch t + 1))]) None uuid now = Inr db'"
proof (cases "owned_task db ctx i")
  case None
  with assms idle show thesis by (auto simp: claim_task_root_def split: if_splits)
next
  case (Some t)
  show thesis
  proof (cases res)
    case None
    with assms Some idle show thesis by (auto simp: claim_task_root_def Let_def ebind_eq_Inr split: if_splits)
  next
    case (Some r)
    with assms \<open>owned_task db ctx i = Some t\<close> show thesis
      by (intro claimed [OF _ _ _ _ _ refl])
         (auto simp: claim_task_root_def Let_def ebind_eq_Inr taken_over_def split: if_splits)
  qed
qed

lemma command_replay_cases:
  assumes "research_command_replay db ctx i command hash uuid now = Inr (r, db')"
  obtains (fresh) "find_receipt db ctx i command = None" "r = \<lparr>rp_row = None, rp_mismatch = False\<rparr>" "db' = db"
    | (replay) row where "find_receipt db ctx i command = Some row" "cr_payload_hash row = hash"
      "r = \<lparr>rp_row = Some row, rp_mismatch = False\<rparr>" "db' = db"
    | (mismatch) row where "find_receipt db ctx i command = Some row" "cr_payload_hash row \<noteq> hash"
      "r = \<lparr>rp_row = Some row, rp_mismatch = True\<rparr>"
      "append_task_event db ctx i ''command_payload_mismatch_rejected''
         (JObj [(''command_id'', JStr command), (''stored_payload_hash'', JStr (cr_payload_hash row)),
                (''received_payload_hash'', JStr hash)]) (Some command) uuid now = Inr db'"
  using assms
  by (auto simp: research_command_replay_def ebind_eq_Inr split: if_splits option.splits)

section \<open>Steps\<close>

text \<open>
  Any of the operations of fences.py and receipts.py, an event of the research service (its \<open>_event\<close>,
  the only other code of the program that writes \<open>research_events\<close>; nothing else writes
  \<open>assistant_run_events\<close>), or a change made elsewhere to the other tables: runs, threads, attempts,
  effects and receipts are rewritten and tasks are created or updated, without lowering an epoch.
  A call of the research service is a sequence of such steps. The import of a legacy database, which
  fills an empty one, is not a step.
\<close>

inductive fence_step :: "coordination_db \<Rightarrow> coordination_db \<Rightarrow> bool" where
  run_event: "append_run_event db ctx i type payload now = Inr (seq, db') \<Longrightarrow> fence_step db db'"
| cancel: "cancel_run db ctx i now = Inr (r, db') \<Longrightarrow> fence_step db db'"
| task_event: "append_task_event db ctx i type payload command uuid now = Inr db' \<Longrightarrow> fence_step db db'"
| service_event: "append_service_event db ctx i type payload command ep uuid now = Inr (event_id, db') \<Longrightarrow>
    fence_step db db'"
| claim: "claim_task_root db ctx i owner lease uuid now = Inr (res, db') \<Longrightarrow> fence_step db db'"
| replay: "research_command_replay db ctx i command hash uuid now = Inr (rp, db') \<Longrightarrow> fence_step db db'"
| elsewhere: "run_events db' = run_events db \<Longrightarrow> task_events db' = task_events db \<Longrightarrow>
    (\<And>k t. select_row (tasks db) k = Some t \<Longrightarrow>
       \<exists>t'. select_row (tasks db') k = Some t' \<and> rt_epoch t \<le> rt_epoch t') \<Longrightarrow> fence_step db db'"

lemma record_cases:
  assumes "record_research_command db ctx i command hash type ep response uuid now = Inr (rp, db')"
  obtains (known) row where "rp_row rp = Some row" "research_command_replay db ctx i command hash uuid now = Inr (rp, db')"
    | (recorded) r db1 db2 where "research_command_replay db ctx i command hash uuid now = Inr (r, db1)" "rp_row r = None"
      "db2 = db1\<lparr>command_receipts := command_receipts db1 @
         [committed_command ctx i command hash type ep response uuid now]\<rparr>"
      "research_command_replay db2 ctx i command hash uuid now = Inr (rp, db')"
proof -
  obtain p where p: "research_command_replay db ctx i command hash uuid now = Inr p"
    using assms by (auto simp: record_research_command_def ebind_eq_Inr)
  obtain r db1 where r: "p = (r, db1)" by (cases p)
  note unfolded = assms [unfolded record_research_command_def p r ebind_Inr prod.case]
  show thesis
  proof (cases "rp_row r")
    case (Some row)
    with unfolded have "rp = r" "db' = db1" by simp_all
    with Some p r show thesis by (intro known) simp_all
  next
    case None
    with unfolded have "research_command_replay (db1\<lparr>command_receipts := command_receipts db1 @
         [committed_command ctx i command hash type ep response uuid now]\<rparr>) ctx i command hash uuid now = Inr (rp, db')"
      by (simp add: Let_def)
    with None p r show thesis by (intro recorded [of r db1]) simp_all
  qed
qed

lemma record_is_steps:
  assumes "record_research_command db ctx i command hash type ep response uuid now = Inr (rp, db')"
  shows "fence_step\<^sup>*\<^sup>* db db'"
  using assms
proof (cases rule: record_cases)
  case (known row)
  from fence_step.replay [OF known(2)] show ?thesis by simp
next
  case (recorded r db1 db2)
  have "fence_step db1 db2" by (rule fence_step.elsewhere) (auto simp: recorded(3))
  with fence_step.replay [OF recorded(1)] fence_step.replay [OF recorded(4)] show ?thesis
    by (meson converse_rtranclp_into_rtranclp rtranclp.rtrancl_refl)
qed

section \<open>The log contracts\<close>

lemma run_seqs_events: "run_events db' = run_events db \<Longrightarrow> run_seqs db' k = run_seqs db k"
  by (simp add: run_seqs_def)

lemma task_seqs_events: "task_events db' = task_events db \<Longrightarrow> task_seqs db' k = task_seqs db k"
  by (simp add: task_seqs_def)

lemma claim_task_logs:
  assumes "claim_task_root db ctx i owner lease uuid now = Inr (res, db')"
  shows "run_events db' = run_events db \<and>
    (task_seqs db' k = task_seqs db k \<or> task_seqs db' k = task_seqs db k @ [next_seq (task_seqs db k)])"
  using assms
proof (cases rule: claim_task_cases)
  case (claimed t db1)
  have "task_seqs db1 k' = task_seqs db k'" "run_events db1 = run_events db" for k'
    by (simp_all add: claimed(6) task_seqs_def)
  with append_task_Inr(1,2) [OF claimed(7)] show ?thesis
    by (cases "k = (workspace_id ctx, i)") simp_all
qed simp

lemma replay_logs:
  assumes "research_command_replay db ctx i command hash uuid now = Inr (r, db')"
  shows "run_events db' = run_events db \<and> tasks db' = tasks db \<and>
    (task_seqs db' k = task_seqs db k \<or> task_seqs db' k = task_seqs db k @ [next_seq (task_seqs db k)])"
  using assms
proof (cases rule: command_replay_cases)
  case (mismatch row)
  from append_task_Inr(1,2,3) [OF mismatch(4)] show ?thesis
    by (cases "k = (workspace_id ctx, i)") simp_all
qed simp_all

lemma step_run_seqs:
  assumes "fence_step db db'"
  shows "run_seqs db' k = run_seqs db k \<or> run_seqs db' k = run_seqs db k @ [next_seq (run_seqs db k)]"
  using assms
proof (cases rule: fence_step.cases)
  case (run_event ctx i type payload now seq)
  from append_run_Inr(1,2) [OF run_event] show ?thesis
    by (cases "k = (workspace_id ctx, i)") simp_all
next
  case (cancel ctx i now r)
  then show ?thesis
  proof (cases rule: cancel_cases)
    case (cancelled r0 seq)
    have "run_seqs (db\<lparr>runs := update_row i (cancelled now) (runs db)\<rparr>) k' = run_seqs db k'" for k'
      by (simp add: run_seqs_def)
    with append_run_Inr(1,2) [OF cancelled(3)] show ?thesis
      by (cases "k = (workspace_id ctx, i)") simp_all
  qed simp
next
  case (task_event ctx i type payload command uuid now)
  from append_task_Inr(2) [OF task_event] show ?thesis by (intro disjI1 run_seqs_events) simp
next
  case (service_event ctx i type payload command ep uuid now event_id)
  from service_event_Inr(2) [OF service_event] show ?thesis by (intro disjI1 run_seqs_events) simp
next
  case (claim ctx i owner lease uuid now res)
  from claim_task_logs [OF claim] show ?thesis by (intro disjI1 run_seqs_events) simp
next
  case (replay ctx i command hash uuid now rp)
  from replay_logs [OF replay] show ?thesis by (intro disjI1 run_seqs_events) simp
next
  case elsewhere
  then show ?thesis by (intro disjI1 run_seqs_events) simp
qed

lemma cancel_tasks:
  assumes "cancel_run db ctx i now = Inr (r, db')"
  shows "task_events db' = task_events db \<and> tasks db' = tasks db"
  using assms
proof (cases rule: cancel_cases)
  case (cancelled r0 seq)
  from append_run_Inr(3,4) [OF cancelled(3)] show ?thesis by simp
qed simp

lemma step_task_seqs:
  assumes "fence_step db db'"
  shows "task_seqs db' k = task_seqs db k \<or> task_seqs db' k = task_seqs db k @ [next_seq (task_seqs db k)]"
  using assms
proof (cases rule: fence_step.cases)
  case (run_event ctx i type payload now seq)
  from append_run_Inr(3) [OF run_event] show ?thesis by (intro disjI1 task_seqs_events) simp
next
  case (cancel ctx i now r)
  from cancel_tasks [OF cancel] show ?thesis by (intro disjI1 task_seqs_events) simp
next
  case (task_event ctx i type payload command uuid now)
  from append_task_Inr(1) [OF task_event, of k] show ?thesis
    by (cases "k = (workspace_id ctx, i)") simp_all
next
  case (service_event ctx i type payload command ep uuid now event_id)
  from service_event_Inr(1) [OF service_event, of k] show ?thesis
    by (cases "k = (workspace_id ctx, i)") simp_all
next
  case (claim ctx i owner lease uuid now res)
  from claim_task_logs [OF claim] show ?thesis by simp
next
  case (replay ctx i command hash uuid now rp)
  from replay_logs [OF replay] show ?thesis by simp
next
  case elsewhere
  then show ?thesis by (intro disjI1 task_seqs_events) simp
qed

interpretation run_log: sequenced_log fence_step run_seqs
  by unfold_locales (rule step_run_seqs)

interpretation task_log: sequenced_log fence_step task_seqs
  by unfold_locales (rule step_task_seqs)

section \<open>The lease contract for research tasks\<close>

definition task_epoch :: "coordination_db \<Rightarrow> string \<Rightarrow> int option" where
  "task_epoch db i = map_option rt_epoch (select_row (tasks db) i)"

definition task_claims ::
  "coordination_db \<Rightarrow> string \<Rightarrow> resource_context \<times> string \<Rightarrow> int \<Rightarrow> coordination_db \<Rightarrow> bool"
where
  "task_claims db i who ep db' \<longleftrightarrow>
     (\<exists>lease uuid now t. claim_task_root db (fst who) i (snd who) lease uuid now = Inr (Some t, db') \<and> rt_epoch t = ep)"

definition task_passes :: "coordination_db \<Rightarrow> string \<Rightarrow> resource_context \<times> string \<Rightarrow> int \<Rightarrow> bool" where
  "task_passes db i who ep \<longleftrightarrow> (\<exists>now. \<not> isl (guard_task_owner db (fst who) i (snd who) ep now))"

lemma task_passes_row:
  "task_passes db i who ep \<Longrightarrow> \<exists>t. select_row (tasks db) i = Some t \<and> rt_epoch t = ep \<and>
     rt_owner t = Some (snd who) \<and> rt_workspace t = workspace_id (fst who) \<and> rt_owner_user t = user_id (fst who)"
  by (auto simp: task_passes_def guard_task_owner_def owned_task_def split: option.splits if_splits)

lemma claim_task_tasks:
  assumes "claim_task_root db ctx i owner lease uuid now = Inr (Some t', db')"
  obtains t where "owned_task db ctx i = Some t" "t' = taken_over owner lease now t"
    "tasks db' = update_row i (\<lambda>_. t') (tasks db)"
  using assms
proof (cases rule: claim_task_cases)
  case (claimed t db1)
  with that append_task_Inr(3) [OF claimed(7)] show thesis by simp
qed simp

lemma step_task_epoch:
  assumes "fence_step db db'" and "select_row (tasks db) k = Some q"
  shows "\<exists>q'. select_row (tasks db') k = Some q' \<and> rt_epoch q \<le> rt_epoch q'"
  using assms(1)
proof (cases rule: fence_step.cases)
  case (run_event ctx i type payload now seq)
  from append_run_Inr(4) [OF run_event] assms(2) show ?thesis by simp
next
  case (cancel ctx i now r)
  from cancel_tasks [OF cancel] assms(2) show ?thesis by simp
next
  case (task_event ctx i type payload command uuid now)
  from append_task_Inr(3) [OF task_event] assms(2) show ?thesis by simp
next
  case (service_event ctx i type payload command ep uuid now event_id)
  from service_event_Inr(3) [OF service_event] assms(2) show ?thesis by simp
next
  case (claim ctx i owner lease uuid now res)
  show ?thesis
  proof (cases res)
    case None
    from claim None assms(2) show ?thesis by (cases rule: claim_task_cases) simp_all
  next
    case (Some t')
    from claim_task_tasks [OF claim [unfolded Some]] obtain t where "owned_task db ctx i = Some t"
        "t' = taken_over owner lease now t" "tasks db' = update_row i (\<lambda>_. t') (tasks db)" by blast
    then show ?thesis using assms(2) by (auto simp: table_simps taken_over_def owned_task_select)
  qed
next
  case (replay ctx i command hash uuid now rp)
  from replay_logs [OF replay] assms(2) show ?thesis by simp
next
  case elsewhere
  then show ?thesis using assms(2) by blast
qed

interpretation task_lease: fenced_lease fence_step task_epoch task_claims task_passes
proof unfold_locales
  fix s s' k ep
  assume "fence_step s s'" and "task_epoch s k = Some ep"
  then show "\<exists>e'. task_epoch s' k = Some e' \<and> ep \<le> e'"
    using step_task_epoch by (fastforce simp: task_epoch_def)
next
  fix s k who ep s'
  assume "task_claims s k who ep s'"
  then show "\<exists>e0. task_epoch s k = Some e0 \<and> e0 < ep \<and> task_epoch s' k = Some ep"
    by (auto simp: task_claims_def task_epoch_def owned_task_select table_simps taken_over_def elim!: claim_task_tasks)
next
  fix s k who ep
  assume "task_passes s k who ep"
  from task_passes_row [OF this] show "task_epoch s k = Some ep" by (auto simp: task_epoch_def)
next
  fix s k and who who' :: "resource_context \<times> string" and ep e'
  assume "task_passes s k who ep" and "task_passes s k who' e'"
  then show "who' = who"
    by (auto dest!: task_passes_row intro!: prod_eqI resource_context.equality)
qed

lemma tool_guard_lock:
  assumes "guard_tool_operation parse db ctx i expected now = Inr r"
  shows "1 \<le> expected" and "lock_thread_run db ctx i = Inr r" and "rn_status r = ''running''"
proof -
  show pos: "1 \<le> expected" using assms by (auto simp: guard_tool_operation_def split: if_splits)
  obtain q where q: "lock_thread_run db ctx i = Inr q"
    using assms pos by (cases "lock_thread_run db ctx i") (auto simp: guard_tool_operation_def)
  note body = assms [unfolded guard_tool_operation_def q ebind_Inr]
  obtain state where state: "rn_working_state q = JObj state"
    using body by (auto split: json.splits if_splits)
  have st: "rn_status q = ''running''" using body pos by (simp add: state split: if_splits)
  have "q = r" using body pos by (simp add: state split: if_splits option.splits)
  with q st show "lock_thread_run db ctx i = Inr r" "rn_status r = ''running''" by simp_all
qed

section \<open>Sample state\<close>

definition member :: resource_context where
  "member = \<lparr>workspace_id = ''w'', user_id = ''u''\<rparr>"

definition sample_run :: run where
  "sample_run = \<lparr>rn_workspace = ''w'', rn_thread = ''t'', rn_request = ''q'', rn_status = ''running'', rn_epoch = 1,
     rn_cancel_requested = False, rn_working_state = JObj [], rn_insertion_seq = 1, rn_error_code = None,
     rn_updated_at = 0, rn_completed_at = None\<rparr>"

definition sample_task :: research_task where
  "sample_task = \<lparr>rt_workspace = ''w'', rt_owner_user = ''u'', rt_status = ''ready'', rt_owner = None, rt_epoch = 0,
     rt_version = 0, rt_lease_until = None, rt_updated_at = 0\<rparr>"

definition sample_coord :: coordination_db where
  "sample_coord = \<lparr>workspace_guards = [], threads = [(''t'', \<lparr>th_workspace = ''w'', th_principal = ''u''\<rparr>)],
     runs = [(''r'', sample_run)], run_events = [], tasks = [(''k'', sample_task)],
     attempts = [(''a'', \<lparr>ra_task = ''k'', ra_status = ''pending'', ra_epoch = 0\<rparr>)], side_effects = [],
     task_events = [], command_receipts = [], mutation_receipts = []\<rparr>"

definition no_iso :: "string \<Rightarrow> datetime option" where
  "no_iso s = None"

lemmas coord_run = lock_thread_run_def owned_thread_def owned_task_def select_row_def update_row_def update_where_def
  sample_coord_def sample_run_def sample_task_def member_def

section \<open>Properties\<close>

text \<open>
  C20: event logs are gapless. Starting from logs numbered 1, 2, 3, \<dots> without a gap, every sequence
  of operations of fences.py and receipts.py, of events the research service appends itself, and of
  changes to other tables only appends to the log of a run or of a task and leaves it numbered without
  a gap or repetition, so the unique (run, seq) and (task, sequence) keys are never violated.
\<close>

theorem event_logs_gapless:
  assumes "fence_step\<^sup>*\<^sup>* db db'" and "gapless (run_seqs db k)" and "gapless (task_seqs db k')"
  shows "gapless (run_seqs db' k) \<and> gapless (task_seqs db' k') \<and>
         distinct (run_seqs db' k) \<and> distinct (task_seqs db' k') \<and>
         (\<exists>new. run_seqs db' k = run_seqs db k @ new) \<and> (\<exists>new. task_seqs db' k' = task_seqs db k' @ new)"
  using run_log.stays_gapless [OF assms(1,2)] task_log.stays_gapless [OF assms(1,3)]
    run_log.append_only [OF assms(1), of k] task_log.append_only [OF assms(1), of k'] gapless_distinct
  by blast

lemma event_logs_gapless_witness:
  "\<exists>db1 db2. cancel_run sample_coord member ''r'' 5 = Inr (select_row (runs db1) ''r'', db1) \<and>
     append_run_event db1 member ''r'' ''note'' JNull 6 = Inr (2, db2) \<and> gapless (run_seqs db2 (''w'', ''r''))"
proof -
  obtain db1 where one: "cancel_run sample_coord member ''r'' 5 = Inr (select_row (runs db1) ''r'', db1)"
      and seqs: "run_seqs db1 (''w'', ''r'') = [1]" and live: "\<not> isl (lock_thread_run db1 member ''r'')"
    by (simp add: cancel_run_def append_run_event_def coord_run Let_def abandonable_def run_seqs_def next_seq_def
        cancelled_def)
  obtain r where r: "lock_thread_run db1 member ''r'' = Inr r"
    using live by (cases "lock_thread_run db1 member ''r''") auto
  obtain db2 where two: "append_run_event db1 member ''r'' ''note'' JNull 6 = Inr (2, db2)"
    using r seqs by (simp add: append_run_event_def Let_def member_def next_seq_def)
  have "fence_step\<^sup>*\<^sup>* sample_coord db2"
    using fence_step.cancel [OF one] fence_step.run_event [OF two] by simp
  moreover have "gapless (run_seqs sample_coord (''w'', ''r''))" "gapless (task_seqs sample_coord (''w'', ''k''))"
    by (simp_all add: sample_coord_def run_seqs_def task_seqs_def)
  ultimately have "gapless (run_seqs db2 (''w'', ''r''))" using event_logs_gapless by blast
  with one two show ?thesis by blast
qed

text \<open>
  Tools run only for a live run. When the tool guard lets an operation pass, the run belongs to
  the caller's thread, has the expected epoch, is running and not cancelled, was not asked to
  finish, and has either no execution budget or one whose final dispatch is not made and whose
  zoned deadline lies in the future.
\<close>

lemma tool_guard_sound:
  assumes "guard_tool_operation parse db ctx i expected now = Inr r"
  shows "select_row (runs db) i = Some r \<and> rn_workspace r = workspace_id ctx \<and> owned_thread db ctx (rn_thread r) \<and>
    1 \<le> expected \<and> rn_epoch r = expected \<and> rn_status r = ''running'' \<and> \<not> rn_cancel_requested r \<and>
    (\<exists>state. rn_working_state r = JObj state \<and> \<not> get_truthy state ''finish_requested'' \<and>
       (map_of state ''execution_budget'' = None \<or>
        (\<exists>b text d. map_of state ''execution_budget'' = Some (JObj b) \<and> \<not> get_truthy b ''final_dispatched'' \<and>
           map_of b ''deadline_at'' = Some (JStr text) \<and> parse (replace_z text) = Some d \<and> aware d \<and>
           now < dt_instant d)))"
proof -
  have pos: "1 \<le> expected" and lock: "lock_thread_run db ctx i = Inr r" by (rule tool_guard_lock [OF assms])+
  obtain state where state: "rn_working_state r = JObj state"
    using assms lock by (auto simp: guard_tool_operation_def split: if_splits json.splits)
  have live: "rn_epoch r = expected" "rn_status r = ''running''" "\<not> rn_cancel_requested r"
      "\<not> get_truthy state ''finish_requested''"
    using assms lock state by (simp_all add: guard_tool_operation_def split: if_splits)
  have row: "select_row (runs db) i = Some r" "rn_workspace r = workspace_id ctx" "owned_thread db ctx (rn_thread r)"
    using lock by (simp_all add: lock_thread_run_def split: option.splits if_splits)
  have "\<exists>b text d. budget = JObj b \<and> \<not> get_truthy b ''final_dispatched'' \<and>
           map_of b ''deadline_at'' = Some (JStr text) \<and> parse (replace_z text) = Some d \<and> aware d \<and>
           now < dt_instant d" if present: "map_of state ''execution_budget'' = Some budget" for budget
  proof -
    obtain d where d: "budget_deadline parse budget = Some d" "now < dt_instant d"
      using assms [unfolded guard_tool_operation_def lock ebind_Inr state json.case present option.case]
      by (simp split: option.splits if_splits)
    then show ?thesis
      by (auto simp: budget_deadline_def split: json.splits if_splits option.splits)
  qed
  then show ?thesis using pos state live row by (cases "map_of state ''execution_budget''") auto
qed

text \<open>
  C19: cancellation stops the tools. After a successful cancellation no tool operation of that run
  is admitted, at any epoch and time.
\<close>

theorem cancelled_run_admits_no_tool:
  assumes "cancel_run db ctx i now = Inr (res, db')"
  shows "isl (guard_tool_operation parse db' ctx' i expected now')"
proof (rule ccontr)
  assume "\<not> isl (guard_tool_operation parse db' ctx' i expected now')"
  then obtain r where "guard_tool_operation parse db' ctx' i expected now' = Inr r"
    by (cases "guard_tool_operation parse db' ctx' i expected now'") auto
  then have lock: "lock_thread_run db' ctx' i = Inr r" and st: "rn_status r = ''running''"
    by (rule tool_guard_lock)+
  have row: "select_row (runs db') i = Some r" using lock by (simp add: lock_thread_run_def split: option.splits if_splits)
  from assms show False
  proof (cases rule: cancel_cases)
    case (unchanged r0)
    then have "select_row (runs db) i = Some r0" by (simp add: lock_thread_run_def split: option.splits if_splits)
    with unchanged row st show False by (simp add: abandonable_def)
  next
    case (cancelled r0 seq)
    have "select_row (runs db) i = Some r0" using cancelled(1) by (simp add: lock_thread_run_def split: option.splits if_splits)
    with row append_run_Inr(5) [OF cancelled(3)] have "r = Storage_Fences.cancelled now r0" by (simp add: table_simps)
    with st show False by (simp add: cancelled_def)
  qed
qed

lemma cancelled_run_admits_no_tool_witness:
  "\<exists>res db'. cancel_run sample_coord member ''r'' 5 = Inr (res, db') \<and> isl (guard_tool_operation no_iso db' member ''r'' 2 6)"
proof -
  obtain res db' where run: "cancel_run sample_coord member ''r'' 5 = Inr (res, db')"
    by (simp add: cancel_run_def append_run_event_def coord_run Let_def abandonable_def run_seqs_def cancelled_def)
  from cancelled_run_admits_no_tool [OF run] run show ?thesis by blast
qed

text \<open>
  Claiming a task takes over its work. A claim succeeds only on a ready task or on a running one
  whose lease has lapsed; the new owner passes the guard with the new epoch until the lease ends,
  attempts still open and effects still reserved carry the new epoch, effects already dispatched
  and everything of other tasks stay as they were.
\<close>

lemma task_claim_takes_over:
  assumes "claim_task_root db ctx i owner lease uuid now = Inr (Some t', db')" and "now' < now + lease"
  shows "(\<exists>t. owned_task db ctx i = Some t \<and> rt_epoch t' = rt_epoch t + 1 \<and>
            (rt_status t = ''ready'' \<or> rt_status t = ''running'' \<and> \<not> task_lease_valid (rt_lease_until t) now)) \<and>
         guard_task_owner db' ctx i owner (rt_epoch t') now' = Inr t' \<and>
         select_row (attempts db') a = map_option (\<lambda>x. if ra_task x = i \<and> ra_status x \<in> {''pending'', ''running''}
            then x\<lparr>ra_epoch := rt_epoch t', ra_status := ''running''\<rparr> else x) (select_row (attempts db) a) \<and>
         select_row (side_effects db') e = map_option (\<lambda>x. if se_task x = i \<and> se_status x = ''reserved''
            then x\<lparr>se_epoch := rt_epoch t', se_updated_at := now\<rparr> else x) (select_row (side_effects db) e) \<and>
         (k \<noteq> i \<longrightarrow> select_row (tasks db') k = select_row (tasks db) k)"
  using assms(1)
proof (cases rule: claim_task_cases)
  case (claimed t db1)
  have t': "t' = taken_over owner lease now t" using claimed(4) by simp
  have ep: "rt_epoch t' = rt_epoch t + 1" by (simp add: t' taken_over_def)
  have tabs: "tasks db' = update_row i (\<lambda>_. t') (tasks db)" "attempts db' = attempts db1" "side_effects db' = side_effects db1"
    using append_task_Inr(3,5,6) [OF claimed(7)] by (simp_all add: claimed(6) t')
  have own: "owned_task db' ctx i = Some t'"
    using claimed(1) by (simp add: owned_task_select tabs table_simps t' taken_over_def)
  have "guard_task_owner db' ctx i owner (rt_epoch t') now' = Inr t'"
    using assms(2) by (simp add: guard_task_owner_def own) (simp add: t' taken_over_def task_lease_valid_def)
  moreover have "select_row (attempts db') a = map_option (\<lambda>x. if ra_task x = i \<and> ra_status x \<in> {''pending'', ''running''}
            then x\<lparr>ra_epoch := rt_epoch t', ra_status := ''running''\<rparr> else x) (select_row (attempts db) a)"
    and "select_row (side_effects db') e = map_option (\<lambda>x. if se_task x = i \<and> se_status x = ''reserved''
            then x\<lparr>se_epoch := rt_epoch t', se_updated_at := now\<rparr> else x) (select_row (side_effects db) e)"
    unfolding ep by (simp_all add: tabs claimed(6) table_simps)
  moreover have "k \<noteq> i \<longrightarrow> select_row (tasks db') k = select_row (tasks db) k" by (simp add: tabs table_simps)
  ultimately show ?thesis using claimed(1-3) ep by blast
qed simp

lemma sample_task_claim:
  "\<exists>t' db'. claim_task_root sample_coord member ''k'' ''own'' 100 ''00'' 5 = Inr (Some t', db') \<and> rt_epoch t' = 1"
  by (simp add: claim_task_root_def task_lease_limit_def coord_run Let_def taken_over_def append_task_event_def)

text \<open>
  A superseded task owner is fenced for good. Once a later claim of the task has succeeded, no
  later state accepts the earlier epoch from anyone, whatever steps happened between.
\<close>

lemma stale_task_owner_fenced:
  assumes "claim_task_root db ctx i owner lease uuid now = Inr (Some t, db1)" and "fence_step\<^sup>*\<^sup>* db1 db2"
    and "claim_task_root db2 ctx2 i owner2 lease2 uuid2 now2 = Inr (Some t2, db3)" and "fence_step\<^sup>*\<^sup>* db3 db4"
  shows "rt_epoch t < rt_epoch t2 \<and> isl (guard_task_owner db4 ctx' i owner' (rt_epoch t) now')"
proof -
  have one: "task_claims db i (ctx, owner) (rt_epoch t) db1" using assms(1) by (auto simp: task_claims_def)
  have two: "task_claims db2 i (ctx2, owner2) (rt_epoch t2) db3" using assms(3) by (auto simp: task_claims_def)
  have "task_epoch db1 i = Some (rt_epoch t)" using task_lease.claims_raise [OF one] by blast
  from task_lease.stale_never_passes [OF this assms(2) two assms(4), of "(ctx', owner')"]
  have "isl (guard_task_owner db4 ctx' i owner' (rt_epoch t) now')" by (auto simp: task_passes_def)
  with task_lease.claims_distinct [OF one assms(2) two] show ?thesis by simp
qed

end
