(* ===== verification/Receipts_Properties.thy ===== *)
theory Receipts_Properties
  imports Fences_Properties
begin

text \<open>
  Replay of requests and commands: a research command is recorded once and its mismatches are
  audited, and at most one run of a thread is offered for recovery.
\<close>

section \<open>Recorded commands\<close>

lemma replay_known:
  assumes "owned_task db ctx i \<noteq> None" and "find_receipt db ctx i command = Some row"
  shows "research_command_replay db ctx i command (cr_payload_hash row) uuid now =
           Inr (\<lparr>rp_row = Some row, rp_mismatch = False\<rparr>, db)"
    and "hash \<noteq> cr_payload_hash row \<Longrightarrow>
           \<exists>db'. research_command_replay db ctx i command hash uuid now =
                   Inr (\<lparr>rp_row = Some row, rp_mismatch = True\<rparr>, db') \<and>
                 command_receipts db' = command_receipts db \<and>
                 task_seqs db' (workspace_id ctx, i) = task_seqs db (workspace_id ctx, i) @
                   [next_seq (task_seqs db (workspace_id ctx, i))]"
  using assms
  by (auto simp: research_command_replay_def append_task_event_def task_seqs_def)

lemma find_committed:
  assumes "find_receipt db ctx i command = None"
  shows "find_receipt (db\<lparr>command_receipts := command_receipts db @
           [committed_command ctx i command hash type ep response uuid now]\<rparr>) ctx i command =
         Some (committed_command ctx i command hash type ep response uuid now)"
  using assms by (simp add: find_receipt_def find_append committed_command_def)

lemma owned_task_receipts [simp]: "owned_task (db\<lparr>command_receipts := c\<rparr>) ctx i = owned_task db ctx i"
  by (simp add: owned_task_def)

lemma replay_owned:
  "research_command_replay db ctx i command hash uuid now = Inr p \<Longrightarrow> owned_task db ctx i \<noteq> None"
  by (auto simp: research_command_replay_def split: if_splits)

lemma recorded_state:
  assumes "record_research_command db ctx i command hash type ep response uuid now = Inr (rp, db')"
    and "\<not> rp_mismatch rp"
  shows "\<exists>row. rp = \<lparr>rp_row = Some row, rp_mismatch = False\<rparr> \<and> cr_payload_hash row = hash \<and>
           find_receipt db' ctx i command = Some row \<and> owned_task db' ctx i \<noteq> None"
  using assms(1)
proof (cases rule: record_cases)
  case (known row)
  have own: "owned_task db ctx i \<noteq> None" by (rule replay_owned [OF known(2)])
  from known(2) show ?thesis
    by (cases rule: command_replay_cases) (use known(1) own assms(2) in auto)
next
  case (recorded r db1 db2)
  have own: "owned_task db ctx i \<noteq> None" by (rule replay_owned [OF recorded(1)])
  from recorded(1) have fresh: "find_receipt db ctx i command = None" "db1 = db"
    by (cases rule: command_replay_cases; use recorded(2) in simp)+
  define row where "row = committed_command ctx i command hash type ep response uuid now"
  have "find_receipt db2 ctx i command = Some row"
    using find_committed [OF fresh(1)] by (simp add: recorded(3) fresh(2) row_def)
  moreover have "owned_task db2 ctx i \<noteq> None" using own by (simp add: recorded(3) fresh(2))
  moreover have "cr_payload_hash row = hash" by (simp add: row_def committed_command_def)
  ultimately show ?thesis using replay_known(1) [of db2 ctx i command row uuid now] recorded(4) by auto
qed

text \<open>
  A command is recorded once. After a command has been recorded or replayed without a mismatch,
  recording it again with the same payload hash, whatever the new response, returns the stored
  receipt and changes nothing; with another payload hash it leaves the receipts alone, appends one
  audit event to the task and is refused after the commit.
\<close>

lemma command_recorded_once:
  assumes "record_research_command db ctx i command hash type ep response uuid now = Inr (rp, db')"
    and "\<not> rp_mismatch rp"
  shows "record_research_command db' ctx i command hash type' ep' response' uuid' now' = Inr (rp, db') \<and>
    raise_after_commit rp = Inr (rp_row rp) \<and> rp_row rp \<noteq> None \<and>
    (hash' \<noteq> hash \<longrightarrow>
      (\<exists>rp' db''. record_research_command db' ctx i command hash' type' ep' response' uuid' now' = Inr (rp', db'') \<and>
         rp_row rp' = rp_row rp \<and> command_receipts db'' = command_receipts db' \<and>
         task_seqs db'' (workspace_id ctx, i) = task_seqs db' (workspace_id ctx, i) @
           [next_seq (task_seqs db' (workspace_id ctx, i))] \<and>
         raise_after_commit rp' = Inl (Conflict ''command_payload_mismatch'')))"
proof -
  obtain row where rp: "rp = \<lparr>rp_row = Some row, rp_mismatch = False\<rparr>" and hash: "cr_payload_hash row = hash"
    and found: "find_receipt db' ctx i command = Some row" and own: "owned_task db' ctx i \<noteq> None"
    using recorded_state [OF assms] by blast
  have again: "record_research_command db' ctx i command hash type' ep' response' uuid' now' = Inr (rp, db')"
    using replay_known(1) [OF own found, of uuid' now'] by (simp add: record_research_command_def hash rp)
  have other: "\<exists>rp' db''. record_research_command db' ctx i command hash' type' ep' response' uuid' now' = Inr (rp', db'') \<and>
         rp_row rp' = rp_row rp \<and> command_receipts db'' = command_receipts db' \<and>
         task_seqs db'' (workspace_id ctx, i) = task_seqs db' (workspace_id ctx, i) @
           [next_seq (task_seqs db' (workspace_id ctx, i))] \<and>
         raise_after_commit rp' = Inl (Conflict ''command_payload_mismatch'')" if "hash' \<noteq> hash"
  proof -
    obtain db'' where "research_command_replay db' ctx i command hash' uuid' now' =
           Inr (\<lparr>rp_row = Some row, rp_mismatch = True\<rparr>, db'')"
        "command_receipts db'' = command_receipts db'"
        "task_seqs db'' (workspace_id ctx, i) = task_seqs db' (workspace_id ctx, i) @
           [next_seq (task_seqs db' (workspace_id ctx, i))]"
      using replay_known(2) [OF own found, of hash' uuid' now'] \<open>hash' \<noteq> hash\<close> hash by blast
    then show ?thesis by (simp add: record_research_command_def raise_after_commit_def rp)
  qed
  show ?thesis using again other by (auto simp: rp raise_after_commit_def)
qed

section \<open>The current run\<close>

lemma replay_row:
  assumes "assistant_request_replay db ctx th request = Inr (Some (i, r, act))"
  shows "(i, r) \<in> set (thread_runs db ctx th)" and "rn_request r = request"
    and "act_current act \<longleftrightarrow> current_run db ctx th = Some i"
    and "act_resume act \<or> act_abandon act \<Longrightarrow> act_current act"
proof -
  obtain r0 where found: "find (\<lambda>row. rn_request (snd row) = request) (thread_runs db ctx th) = Some (i, r0)"
    and dto: "assistant_run_dto r0 (Some i = current_run db ctx th) = Inr (r, act)"
    using assms by (auto simp: assistant_request_replay_def ebind_eq_Inr split: if_splits option.splits)
  have r: "r0 = r" using dto by (auto simp: assistant_run_dto_def Let_def ebind_eq_Inr)
  from found show "(i, r) \<in> set (thread_runs db ctx th)" "rn_request r = request"
    by (auto simp: r dest: find_SomeD)
  have cur: "act_current act = (Some i = current_run db ctx th)"
    using dto by (auto simp: assistant_run_dto_def Let_def ebind_eq_Inr)
  then show "act_current act \<longleftrightarrow> current_run db ctx th = Some i" by auto
  have "act_resume act \<or> act_abandon act \<Longrightarrow> Some i = current_run db ctx th"
    using dto by (auto simp: assistant_run_dto_def Let_def ebind_eq_Inr)
  then show "act_resume act \<or> act_abandon act \<Longrightarrow> act_current act" using cur by simp
qed

lemma current_run_least:
  assumes "current_run db ctx th = Some i"
  obtains r where "(i, r) \<in> set (thread_runs db ctx th)" "rn_status r \<in> set abandonable"
    "\<And>row. row \<in> set (thread_runs db ctx th) \<Longrightarrow> recency (i, r) \<le> recency row"
proof -
  obtain row rest where sorted_rows: "sort_key recency (thread_runs db ctx th) = row # rest"
    and row: "fst row = i" "rn_status (snd row) \<in> set abandonable"
    using assms by (auto simp: current_run_def split: list.splits if_splits)
  have mem: "set (row # rest) = set (thread_runs db ctx th)" by (metis sorted_rows set_sort)
  have "sorted (map recency (row # rest))" by (metis sorted_rows sorted_sort_key)
  then have "recency row \<le> recency row'" if "row' \<in> set (thread_runs db ctx th)" for row'
    using that mem by auto
  moreover have "row = (i, snd row)" using row(1) by (metis prod.collapse)
  ultimately show thesis using that [of "snd row"] mem row(2) by (metis list.set_intros(1))
qed

text \<open>
  One run of a thread can be recovered. A replayed request offers resume or abandon only for the
  current run; two requests of a thread whose replays are both current name the same run; and when
  some run of the thread is queued or running, the current one is too.
\<close>

lemma one_current_run:
  assumes "assistant_request_replay db ctx th request = Inr (Some (i, r, act))"
    and "assistant_request_replay db ctx th request' = Inr (Some (i', r', act'))"
    and "keys_distinct (runs db)"
  shows "(act_resume act \<or> act_abandon act \<longrightarrow> act_current act) \<and>
    (act_current act \<and> act_current act' \<longrightarrow> i' = i) \<and>
    (act_current act \<and> rn_status r' \<in> {''queued'', ''running''} \<longrightarrow> rn_status r \<in> {''queued'', ''running''})"
proof -
  note one = replay_row [OF assms(1)] and two = replay_row [OF assms(2)]
  have "rn_status r \<in> {''queued'', ''running''}" if "act_current act" "rn_status r' \<in> {''queued'', ''running''}"
  proof -
    have "current_run db ctx th = Some i" using one(3) that(1) by blast
    then obtain q where q: "(i, q) \<in> set (thread_runs db ctx th)"
        "recency (i, q) \<le> recency (i', r')"
      using current_run_least two(1) by metis
    have "(i, q) \<in> set (runs db)" "(i, r) \<in> set (runs db)" using q(1) one(1) by (auto simp: thread_runs_def)
    then have "q = r" using select_row_in [OF assms(3)] by (metis option.inject)
    with q(2) that(2) show ?thesis by (auto simp: recency_def less_eq_prod_def split: if_splits)
  qed
  then show ?thesis using one(3,4) two(3) by auto
qed

end
