(* ===== verification/Retrieval_Chunking.thy ===== *)
theory Retrieval_Chunking
  imports Python_Values
begin

text \<open>
  The raw subtitle chunks of src/shiliu/retrieval/chunking.py. The two nested while loops keep their
  cursor into the list of usable segments, so that the order of reads, the early exits and the
  backward step of the overlap are those of the code.
\<close>

section \<open>Configuration and data\<close>

record chunking_config =
  cc_target_characters :: int
  cc_maximum_characters :: int
  cc_maximum_duration :: rat
  cc_trailing_overlap :: bool

definition default_chunking :: chunking_config where
  "default_chunking = \<lparr>cc_target_characters = 800, cc_maximum_characters = 1200,
     cc_maximum_duration = 120, cc_trailing_overlap = True\<rparr>"

definition mk_chunking_config :: "chunking_config \<Rightarrow> chunking_config result" where
  "mk_chunking_config c =
     (if cc_target_characters c \<le> 0 then Inl (Value_Error ''target_characters must be positive'')
      else if cc_maximum_characters c < cc_target_characters c
      then Inl (Value_Error ''maximum_characters must be >= target_characters'')
      else if cc_maximum_duration c \<le> 0
      then Inl (Value_Error ''maximum_duration_seconds must be positive'')
      else Inr c)"

record subtitle_segment =
  sg_start :: rat
  sg_end :: rat
  sg_content :: string

record raw_chunk =
  rc_chunk_id :: string
  rc_start_time :: rat
  rc_end_time :: rat
  rc_text :: string
  rc_content_hash :: string
  rc_segment_count :: nat

record chunk_source =
  cs_platform :: string
  cs_source_id :: string
  cs_part :: int
  cs_source_type :: string

section \<open>Identity of a chunk\<close>

text \<open>\<open>float_repr\<close> is \<open>float.__repr__\<close>, the text \<open>json.dumps\<close> writes for a float.\<close>

definition make_chunk ::
  "platform \<Rightarrow> (rat \<Rightarrow> string) \<Rightarrow> chunk_source \<Rightarrow> rat \<Rightarrow> rat \<Rightarrow> string \<Rightarrow> nat \<Rightarrow> raw_chunk"
where
  "make_chunk P float_repr src start end_time body number =
     (let content_hash = sha256_hexdigest P (utf8_encode body);
          identity = object_text
            [(''platform'', string_text (cs_platform src)), (''source_id'', string_text (cs_source_id src)),
             (''part'', int_text (cs_part src)), (''source_type'', string_text (cs_source_type src)),
             (''start_time'', float_repr start), (''end_time'', float_repr end_time),
             (''content_hash'', string_text content_hash)]
      in \<lparr>rc_chunk_id = ''chunk_'' @ take 32 (sha256_hexdigest P (utf8_encode identity)),
          rc_start_time = start, rc_end_time = end_time, rc_text = body,
          rc_content_hash = content_hash, rc_segment_count = number\<rparr>)"

section \<open>The loops\<close>

definition seg_text :: "subtitle_segment \<Rightarrow> string" where
  "seg_text s = strip (sg_content s)"

definition usable_segments :: "subtitle_segment list \<Rightarrow> subtitle_segment list" where
  "usable_segments = filter (\<lambda>s. seg_text s \<noteq> [])"

text \<open>\<open>next_characters\<close> and \<open>exceeds_bound\<close> of the candidate after the selected segments.\<close>

definition next_characters :: "subtitle_segment list \<Rightarrow> int \<Rightarrow> subtitle_segment \<Rightarrow> int" where
  "next_characters selected characters candidate =
     characters + (if selected \<noteq> [] then 1 else 0) + int (length (seg_text candidate))"

definition exceeds_bound ::
  "(rat \<Rightarrow> rat) \<Rightarrow> chunking_config \<Rightarrow> subtitle_segment list \<Rightarrow> int \<Rightarrow> subtitle_segment \<Rightarrow> bool"
where
  "exceeds_bound rnd cfg selected characters candidate \<longleftrightarrow>
     selected \<noteq> [] \<and>
     (next_characters selected characters candidate > cc_maximum_characters cfg \<or>
      rnd (sg_end candidate - sg_start (hd selected)) > cc_maximum_duration cfg)"

text \<open>The inner loop: the selected segments and the cursor it leaves.\<close>

function select_segments ::
  "(rat \<Rightarrow> rat) \<Rightarrow> chunking_config \<Rightarrow> subtitle_segment list \<Rightarrow> nat \<Rightarrow> subtitle_segment list \<Rightarrow> int
    \<Rightarrow> subtitle_segment list \<times> nat"
where
  "select_segments rnd cfg usable cursor selected characters =
     (if cursor < length usable then
        let candidate = usable ! cursor;
            chars = next_characters selected characters candidate
        in if exceeds_bound rnd cfg selected characters candidate then (selected, cursor)
           else if chars \<ge> cc_target_characters cfg then (selected @ [candidate], cursor + 1)
           else select_segments rnd cfg usable (cursor + 1) (selected @ [candidate]) chars
      else (selected, cursor))"
  by pat_completeness auto

termination
  by (relation "measure (\<lambda>(rnd, cfg, usable, cursor, selected, characters). length usable - cursor)") auto

declare select_segments.simps [simp del]

definition chunk_text :: "subtitle_segment list \<Rightarrow> string" where
  "chunk_text selected = join '' '' (map seg_text selected)"

definition chunk_of ::
  "platform \<Rightarrow> (rat \<Rightarrow> string) \<Rightarrow> chunk_source \<Rightarrow> subtitle_segment list \<Rightarrow> raw_chunk"
where
  "chunk_of P float_repr src selected =
     make_chunk P float_repr src (sg_start (hd selected)) (sg_end (last selected))
       (chunk_text selected) (length selected)"

text \<open>Where the next chunk starts: one segment back for the overlap, but never at or before its own start.\<close>

definition next_cursor :: "chunking_config \<Rightarrow> nat \<Rightarrow> nat \<Rightarrow> nat \<Rightarrow> nat \<Rightarrow> nat" where
  "next_cursor cfg size_all start number cursor =
     (let stepped = (if cursor < size_all \<and> cc_trailing_overlap cfg \<and> number > 1 then cursor - 1 else cursor)
      in if stepped \<le> start then start + 1 else stepped)"

lemma next_cursor_progress: "start < next_cursor cfg size_all start number cursor"
  by (simp add: next_cursor_def Let_def)

function chunk_loop ::
  "platform \<Rightarrow> (rat \<Rightarrow> string) \<Rightarrow> (rat \<Rightarrow> rat) \<Rightarrow> chunk_source \<Rightarrow> chunking_config
    \<Rightarrow> subtitle_segment list \<Rightarrow> nat \<Rightarrow> raw_chunk list"
where
  "chunk_loop P float_repr rnd src cfg usable start =
     (if start < length usable then
        case select_segments rnd cfg usable start [] 0 of (selected, cursor) \<Rightarrow>
          if selected = [] then chunk_loop P float_repr rnd src cfg usable (start + 1)
          else (if chunk_text selected \<noteq> [] then [chunk_of P float_repr src selected] else []) @
               chunk_loop P float_repr rnd src cfg usable
                 (next_cursor cfg (length usable) start (length selected) cursor)
      else [])"
  by pat_completeness auto

termination
  by (relation "measure (\<lambda>(P, float_repr, rnd, src, cfg, usable, start). length usable - start)")
     (use next_cursor_progress in \<open>auto intro!: diff_less_mono2\<close>)

declare chunk_loop.simps [simp del]

definition build_raw_subtitle_chunks ::
  "platform \<Rightarrow> (rat \<Rightarrow> string) \<Rightarrow> (rat \<Rightarrow> rat) \<Rightarrow> chunk_source \<Rightarrow> subtitle_segment list
    \<Rightarrow> chunking_config option \<Rightarrow> raw_chunk list"
where
  "build_raw_subtitle_chunks P float_repr rnd src segments config =
     chunk_loop P float_repr rnd src (case config of None \<Rightarrow> default_chunking | Some c \<Rightarrow> c)
       (usable_segments segments) 0"

section \<open>What the inner loop selects\<close>

text \<open>
  A span \<open>(lo, hi)\<close> stands for the usable segments from \<open>lo\<close> to \<open>hi - 1\<close>. Its size in characters
  counts one separator between two segments.
\<close>

definition span_of :: "'a list \<Rightarrow> nat \<times> nat \<Rightarrow> 'a list" where
  "span_of xs = (\<lambda>(lo, hi). take (hi - lo) (drop lo xs))"

definition span_characters :: "subtitle_segment list \<Rightarrow> int" where
  "span_characters ss = int (length (chunk_text ss))"

definition within_bounds :: "(rat \<Rightarrow> rat) \<Rightarrow> chunking_config \<Rightarrow> subtitle_segment list \<Rightarrow> bool" where
  "within_bounds rnd cfg ss \<longleftrightarrow>
     length ss \<le> 1 \<or>
     (span_characters ss \<le> cc_maximum_characters cfg \<and>
      rnd (sg_end (last ss) - sg_start (hd ss)) \<le> cc_maximum_duration cfg)"

text \<open>Why a span stops where it does: the target, the end of the segments, or a bound.\<close>

definition closed_span :: "(rat \<Rightarrow> rat) \<Rightarrow> chunking_config \<Rightarrow> subtitle_segment list \<Rightarrow> nat \<times> nat \<Rightarrow> bool" where
  "closed_span rnd cfg usable s \<longleftrightarrow>
     span_characters (span_of usable s) \<ge> cc_target_characters cfg \<or>
     snd s = length usable \<or>
     \<not> within_bounds rnd cfg (span_of usable (fst s, Suc (snd s)))"

lemma span_of_Suc:
  "lo \<le> hi \<Longrightarrow> hi < length xs \<Longrightarrow> span_of xs (lo, Suc hi) = span_of xs (lo, hi) @ [xs ! hi]"
  by (simp add: span_of_def Suc_diff_le take_Suc_conv_app_nth)

lemma length_span_of [simp]: "hi \<le> length xs \<Longrightarrow> length (span_of xs (lo, hi)) = hi - lo"
  by (simp add: span_of_def)

lemma join_snoc: "join sep (xs @ [x]) = (if xs = [] then x else join sep xs @ sep @ x)"
  by (induction sep xs rule: join.induct) auto

lemma span_characters_snoc:
  "span_characters (ss @ [c]) = next_characters ss (span_characters ss) c"
  by (auto simp: span_characters_def chunk_text_def next_characters_def join_snoc)

lemma span_characters_Nil [simp]: "span_characters [] = 0"
  by (simp add: span_characters_def chunk_text_def)

lemma exceeds_bound_within:
  "exceeds_bound rnd cfg ss (span_characters ss) c \<longleftrightarrow> \<not> within_bounds rnd cfg (ss @ [c])"
  using span_characters_snoc [of ss c]
  by (cases "ss = []") (auto simp: exceeds_bound_def within_bounds_def not_le)

lemma select_segments_span:
  assumes "lo \<le> cursor" "cursor \<le> length usable"
    and "selected = span_of usable (lo, cursor)" "characters = span_characters selected"
    and "within_bounds rnd cfg selected"
    and "select_segments rnd cfg usable cursor selected characters = (result, final)"
  shows "result = span_of usable (lo, final) \<and> cursor \<le> final \<and> final \<le> length usable \<and>
    (lo = cursor \<and> cursor < length usable \<longrightarrow> lo < final) \<and>
    within_bounds rnd cfg result \<and> closed_span rnd cfg usable (lo, final)"
  using assms
proof (induction rnd cfg usable cursor selected characters arbitrary: result final rule: select_segments.induct)
  case (1 rnd cfg usable cursor selected characters)
  show ?case
  proof (cases "cursor < length usable")
    case False
    then have "result = selected" "final = cursor"
      using 1(7) by (simp_all add: select_segments.simps [of rnd cfg usable cursor])
    then show ?thesis using 1(2-6) False by (simp add: closed_span_def)
  next
    case True
    let ?c = "usable ! cursor" and ?n = "next_characters selected characters (usable ! cursor)"
    have snoc: "selected @ [?c] = span_of usable (lo, Suc cursor)"
      using 1(2,4) True by (simp add: span_of_Suc)
    have n: "?n = span_characters (selected @ [?c])"
      using 1(5) by (simp add: span_characters_snoc)
    consider (bound) "exceeds_bound rnd cfg selected characters ?c"
      | (target) "\<not> exceeds_bound rnd cfg selected characters ?c" "?n \<ge> cc_target_characters cfg"
      | (grow) "\<not> exceeds_bound rnd cfg selected characters ?c" "\<not> ?n \<ge> cc_target_characters cfg"
      by blast
    then show ?thesis
    proof cases
      case bound
      then have "result = selected" "final = cursor"
        using 1(7) True by (simp_all add: select_segments.simps [of rnd cfg usable cursor] Let_def)
      moreover have "selected \<noteq> []" using bound by (simp add: exceeds_bound_def)
      then have "lo \<noteq> cursor" using 1(4) by (auto simp: span_of_def)
      moreover have "\<not> within_bounds rnd cfg (span_of usable (lo, Suc cursor))"
        using bound 1(5) snoc by (simp add: exceeds_bound_within)
      ultimately show ?thesis using 1(2-6) by (simp add: closed_span_def)
    next
      case target
      then have "result = selected @ [?c]" "final = Suc cursor"
        using 1(7) True by (simp_all add: select_segments.simps [of rnd cfg usable cursor] Let_def)
      then show ?thesis
        using target True n 1(2,5) by (simp add: snoc closed_span_def exceeds_bound_within)
    next
      case grow
      then have rec: "select_segments rnd cfg usable (cursor + 1) (selected @ [?c]) ?n = (result, final)"
        using 1(7) True by (simp add: select_segments.simps [of rnd cfg usable cursor] Let_def)
      have "within_bounds rnd cfg (selected @ [?c])"
        using grow(1) 1(5) by (simp add: exceeds_bound_within)
      then show ?thesis
        using 1(1) [OF True refl refl grow(1) grow(2) _ _ _ n _ rec] 1(2) True
        by (auto simp: snoc)
    qed
  qed
qed


section \<open>What the outer loop emits\<close>

text \<open>
  The spans of consecutive chunks: the next one starts where the previous one ended, or one
  segment earlier when overlap is on and the previous chunk had more than one segment; it never
  starts at or before the previous start, and never ends before the previous end.
\<close>

definition follows :: "chunking_config \<Rightarrow> nat \<times> nat \<Rightarrow> nat \<times> nat \<Rightarrow> bool" where
  "follows cfg s t \<longleftrightarrow>
     fst s < fst t \<and> snd s \<le> snd t \<and>
     (fst t = snd s \<or> cc_trailing_overlap cfg \<and> snd s - fst s > 1 \<and> Suc (fst t) = snd s)"

definition chunk_span :: "(rat \<Rightarrow> rat) \<Rightarrow> chunking_config \<Rightarrow> subtitle_segment list \<Rightarrow> nat \<times> nat \<Rightarrow> bool" where
  "chunk_span rnd cfg usable s \<longleftrightarrow>
     fst s < snd s \<and> snd s \<le> length usable \<and>
     within_bounds rnd cfg (span_of usable s) \<and> closed_span rnd cfg usable s"

lemma chunk_text_span:
  assumes "list_all (\<lambda>s. seg_text s \<noteq> []) ss" and "ss \<noteq> []"
  shows "chunk_text ss \<noteq> []"
  using assms by (cases ss) (auto simp: chunk_text_def join_eq_Nil)

lemma span_of_list_all: "list_all P xs \<Longrightarrow> list_all P (span_of xs s)"
  by (auto simp: span_of_def list_all_iff split: prod.splits dest!: in_set_takeD in_set_dropD)

lemma next_cursor_follows:
  assumes "lo < hi" "hi < total_segments"
  shows "next_cursor cfg total_segments lo (hi - lo) hi =
    (if cc_trailing_overlap cfg \<and> hi - lo > 1 then hi - 1 else hi)"
  using assms by (auto simp: next_cursor_def Let_def)

lemma chunk_loop_spans:
  assumes "list_all (\<lambda>s. seg_text s \<noteq> []) usable" and "start \<le> length usable"
  shows "\<exists>spans. chunk_loop P float_repr rnd src cfg usable start =
        map (\<lambda>s. chunk_of P float_repr src (span_of usable s)) spans \<and>
      list_all (chunk_span rnd cfg usable) spans \<and> successively (follows cfg) spans \<and>
      (start < length usable \<longrightarrow>
        spans \<noteq> [] \<and> fst (hd spans) = start \<and> snd (last spans) = length usable)"
  using assms
proof (induction P float_repr rnd src cfg usable start rule: chunk_loop.induct)
  case (1 P float_repr rnd src cfg usable start)
  show ?case
  proof (cases "start < length usable")
    case False
    then show ?thesis by (intro exI [of _ "[]"]) (simp add: chunk_loop.simps)
  next
    case True
    obtain sel hi where sel: "select_segments rnd cfg usable start [] 0 = (sel, hi)" by fastforce
    have span: "sel = span_of usable (start, hi)" "start < hi" "hi \<le> length usable"
      "within_bounds rnd cfg sel" "closed_span rnd cfg usable (start, hi)"
      using select_segments_span [OF order_refl _ _ _ _ sel] 1(4) True
      by (auto simp: span_of_def within_bounds_def)
    have ne: "sel \<noteq> []" using span(1-3) by (auto simp: span_of_def)
    have len: "length sel = hi - start" using span by simp
    have nonblank: "chunk_text sel \<noteq> []"
      using chunk_text_span ne span_of_list_all [OF 1(3)] span(1) by blast
    let ?next = "next_cursor cfg (length usable) start (length sel) hi"
    let ?span = "(start, hi)"
    have step: "chunk_loop P float_repr rnd src cfg usable start =
        chunk_of P float_repr src (span_of usable ?span) # chunk_loop P float_repr rnd src cfg usable ?next"
      using True sel ne nonblank span(1) by (simp add: chunk_loop.simps [of P float_repr rnd src cfg usable start])
    have this_span: "chunk_span rnd cfg usable ?span"
      using span by (simp add: chunk_span_def)
    show ?thesis
    proof (cases "hi = length usable")
      case True
      have "?next \<ge> length usable" using True span(2) by (simp add: next_cursor_def)
      then have "chunk_loop P float_repr rnd src cfg usable ?next = []"
        by (simp add: chunk_loop.simps [of P float_repr rnd src cfg usable ?next])
      then show ?thesis
        using step this_span True by (intro exI [of _ "[?span]"]) simp
    next
      case False
      then have hi: "hi < length usable" using span(3) by simp
      have nxt: "?next = (if cc_trailing_overlap cfg \<and> hi - start > 1 then hi - 1 else hi)"
        unfolding len by (rule next_cursor_follows [OF span(2) hi])
      have lt: "?next < length usable" unfolding nxt using hi span(2) by (simp; linarith)
      obtain spans where rest: "chunk_loop P float_repr rnd src cfg usable ?next =
            map (\<lambda>s. chunk_of P float_repr src (span_of usable s)) spans"
          "list_all (chunk_span rnd cfg usable) spans" "successively (follows cfg) spans"
          "spans \<noteq> []" "fst (hd spans) = ?next" "snd (last spans) = length usable"
        using 1(2) [OF True sel [symmetric] ne] 1(3) lt by auto
      have hd_span: "chunk_span rnd cfg usable (hd spans)"
        using rest(2,4) by (cases spans) simp_all
      have "follows cfg ?span (hd spans)"
        using nxt hd_span rest(5) span(2) by (auto simp: follows_def chunk_span_def split: if_splits)
      then have "successively (follows cfg) (?span # spans)"
        using rest(3,4) by (cases spans) simp_all
      then show ?thesis
        using step rest this_span by (intro exI [of _ "?span # spans"]) simp
    qed
  qed
qed


section \<open>Coverage of the segments\<close>

lemma follows_cover:
  assumes "list_all (chunk_span rnd cfg usable) spans" and "successively (follows cfg) spans"
    and "spans \<noteq> []" and "fst (hd spans) \<le> i" and "i < snd (last spans)"
  shows "\<exists>s \<in> set spans. fst s \<le> i \<and> i < snd s"
  using assms
proof (induction spans)
  case (Cons s spans)
  show ?case
  proof (cases "i < snd s")
    case True
    then show ?thesis using Cons.prems(4) by auto
  next
    case False
    then have ne: "spans \<noteq> []" using Cons.prems(5) by auto
    then obtain t ts where ts: "spans = t # ts" by (cases spans) auto
    have "fst t \<le> i" using Cons.prems(2) False by (auto simp: ts follows_def)
    then show ?thesis using Cons by (simp add: ts)
  qed
qed simp

lemma follows_starts:
  assumes "successively (follows cfg) spans"
  shows "sorted_wrt (<) (map fst spans)"
proof -
  have "successively (<) (map fst spans)"
    using assms by (auto simp: successively_map follows_def elim!: successively_mono)
  then show ?thesis by (simp add: successively_conv_sorted_wrt)
qed

lemma span_count_bound:
  assumes "list_all (chunk_span rnd cfg usable) spans" and "successively (follows cfg) spans"
  shows "length spans \<le> length usable"
proof -
  have "distinct (map fst spans)"
    using follows_starts [OF assms(2)] by (simp add: strict_sorted_iff)
  moreover have "set (map fst spans) \<subseteq> {..<length usable}"
    using assms(1) by (auto simp: list_all_iff chunk_span_def)
  ultimately show ?thesis
    using card_mono [of "{..<length usable}" "set (map fst spans)"] distinct_card by fastforce
qed

lemma span_of_append:
  assumes "lo \<le> mid" "mid \<le> hi" "hi \<le> length xs"
  shows "span_of xs (lo, mid) @ span_of xs (mid, hi) = span_of xs (lo, hi)"
proof -
  have "drop mid xs = drop (mid - lo) (drop lo xs)" using assms by simp
  moreover have "hi - lo = (mid - lo) + (hi - mid)" using assms by simp
  ultimately show ?thesis by (simp only: span_of_def take_add prod.case)
qed

lemma spans_partition:
  assumes "\<not> cc_trailing_overlap cfg" and "list_all (chunk_span rnd cfg usable) spans"
    and "successively (follows cfg) spans" and "spans \<noteq> []"
  shows "concat (map (span_of usable) spans) = span_of usable (fst (hd spans), snd (last spans)) \<and>
    fst (hd spans) \<le> snd (last spans) \<and> snd (last spans) \<le> length usable"
  using assms
proof (induction spans)
  case (Cons s spans)
  show ?case
  proof (cases spans)
    case Nil
    then show ?thesis using Cons.prems by (simp add: chunk_span_def)
  next
    case (Cons t ts)
    note ts = this
    have "fst t = snd s" using Cons.prems(1,3) by (auto simp: ts follows_def)
    moreover have "fst s < snd s" using Cons.prems(2) by (simp add: chunk_span_def)
    ultimately show ?thesis
      using Cons.IH Cons.prems span_of_append [of "fst s" "snd s" "snd (last spans)" usable]
      by (simp add: ts)
  qed
qed simp

lemma usable_nonblank: "list_all (\<lambda>s. seg_text s \<noteq> []) (usable_segments segments)"
  by (simp add: usable_segments_def list_all_iff)

section \<open>Properties\<close>

text \<open>
  C31: The chunks of a subtitle are spans of its usable segments, in order: the first starts at the
  first segment, the last ends at the last one, every segment lies in a span, there are no more
  chunks than segments, and each chunk carries the text, times and identity of its span. A chunk
  with more than one segment respects both bounds; a chunk stops only because it reached the
  target, because a further segment would break a bound, or at the end. Consecutive spans share at
  most one segment, and none at all when overlap is off: then the spans partition the segments.
\<close>

theorem chunks_cover_segments:
  fixes segments cfg
  defines "U \<equiv> usable_segments segments"
  shows "\<exists>spans. build_raw_subtitle_chunks P float_repr rnd src segments (Some cfg) =
        map (\<lambda>s. chunk_of P float_repr src (span_of U s)) spans \<and>
      list_all (chunk_span rnd cfg U) spans \<and> successively (follows cfg) spans \<and>
      length spans \<le> length U \<and>
      (\<forall>i < length U. \<exists>s \<in> set spans. fst s \<le> i \<and> i < snd s) \<and>
      (cc_trailing_overlap cfg \<or> concat (map (span_of U) spans) = U)"
proof -
  obtain spans where s: "build_raw_subtitle_chunks P float_repr rnd src segments (Some cfg) =
        map (\<lambda>s. chunk_of P float_repr src (span_of U s)) spans"
      "list_all (chunk_span rnd cfg U) spans" "successively (follows cfg) spans"
      "U \<noteq> [] \<Longrightarrow> spans \<noteq> [] \<and> fst (hd spans) = 0 \<and> snd (last spans) = length U"
    using chunk_loop_spans [OF usable_nonblank, of 0 segments P float_repr rnd src cfg]
    by (auto simp: build_raw_subtitle_chunks_def U_def)
  have cover: "\<exists>s \<in> set spans. fst s \<le> i \<and> i < snd s" if "i < length U" for i
    using follows_cover [OF s(2,3), of i] s(4) that by (cases "U = []") auto
  have part: "cc_trailing_overlap cfg \<or> concat (map (span_of U) spans) = U"
  proof (cases "U = []")
    case True
    then show ?thesis using s(2) by (cases spans) (auto simp: chunk_span_def)
  next
    case False
    then show ?thesis using spans_partition [OF _ s(2,3)] s(4) by (auto simp: span_of_def)
  qed
  show ?thesis
    using s(1-3) span_count_bound [OF s(2,3)] cover part by blast
qed

definition sample_segments :: "subtitle_segment list" where
  "sample_segments =
     [\<lparr>sg_start = 0, sg_end = 2, sg_content = ''one ''\<rparr>, \<lparr>sg_start = 2, sg_end = 3, sg_content = ''  ''\<rparr>,
      \<lparr>sg_start = 3, sg_end = 5, sg_content = ''two''\<rparr>, \<lparr>sg_start = 5, sg_end = 9, sg_content = ''three''\<rparr>]"

definition sample_chunking :: chunking_config where
  "sample_chunking = \<lparr>cc_target_characters = 7, cc_maximum_characters = 10, cc_maximum_duration = 6,
     cc_trailing_overlap = True\<rparr>"

definition sample_source :: chunk_source where
  "sample_source = \<lparr>cs_platform = ''bilibili'', cs_source_id = ''BV1'', cs_part = 1, cs_source_type = ''ai''\<rparr>"

lemma usable_sample:
  "usable_segments sample_segments =
     [\<lparr>sg_start = 0, sg_end = 2, sg_content = ''one ''\<rparr>, \<lparr>sg_start = 3, sg_end = 5, sg_content = ''two''\<rparr>,
      \<lparr>sg_start = 5, sg_end = 9, sg_content = ''three''\<rparr>]"
  by (simp add: usable_segments_def sample_segments_def seg_text_def strip_def is_space_def)

lemma chunks_cover_segments_witness:
  "\<exists>spans. build_raw_subtitle_chunks sample_platform (\<lambda>_. ''0.0'') round_down sample_source sample_segments
        (Some sample_chunking) =
        map (\<lambda>s. chunk_of sample_platform (\<lambda>_. ''0.0'') sample_source
               (span_of (usable_segments sample_segments) s)) spans \<and>
      length spans \<le> 3 \<and> (\<exists>s \<in> set spans. fst s \<le> 2 \<and> 2 < snd s)"
proof -
  let ?U = "usable_segments sample_segments"
  obtain spans where s: "build_raw_subtitle_chunks sample_platform (\<lambda>_. ''0.0'') round_down sample_source
        sample_segments (Some sample_chunking) =
        map (\<lambda>s. chunk_of sample_platform (\<lambda>_. ''0.0'') sample_source (span_of ?U s)) spans"
      "length spans \<le> length ?U" "\<forall>i < length ?U. \<exists>s \<in> set spans. fst s \<le> i \<and> i < snd s"
    using chunks_cover_segments [of sample_platform "\<lambda>_. ''0.0''" round_down sample_source sample_segments
        sample_chunking] by (elim exE conjE)
  have "length ?U = 3" by (simp add: usable_sample)
  then show ?thesis using s(1,2) s(3) [rule_format, of 2] by (intro exI [of _ spans]) simp
qed

end
