(* ===== verification/Retrieval_Models.thy ===== *)
theory Retrieval_Models
  imports Python_Values
begin

text \<open>
  The result types of src/shiliu/retrieval/models.py. The three result classes repeat the fields of
  the retrieved unit; here they extend one record.
\<close>

datatype unit_type = Video_Unit | Transcript_Chunk

datatype search_level = Level_Video | Level_Transcript_Chunk | Level_All

record folder_context =
  fc_source_db_id :: int
  fc_folder_id :: int
  fc_folder_title :: string
  fc_favorite_time :: "int option"

record retrieval_filters =
  rf_source_db_id :: "int option"
  rf_folder_id :: "int option"
  rf_favorite_time_from :: "int option"
  rf_favorite_time_to :: "int option"
  rf_reading_state :: "string option"
  rf_is_marked :: "bool option"
  rf_uploader :: "string option"
  rf_uploader_contains :: "string option"
  rf_archived :: "bool option"
  rf_video_ids :: "int list option"

record found_unit =
  fu_unit_id :: string
  fu_unit_type :: unit_type
  fu_video_id :: int
  fu_platform :: string
  fu_source_id :: string
  fu_part :: int
  fu_title :: string
  fu_uploader :: string
  fu_chunk_id :: "string option"
  fu_source_type :: string
  fu_start_time :: "rat option"
  fu_end_time :: "rat option"
  fu_matched_excerpt :: string
  fu_retrieval_method :: string
  fu_index_version :: string
  fu_reading_state :: string
  fu_is_marked :: bool
  fu_is_ignored :: bool
  fu_archived :: bool
  fu_folders :: "folder_context list"

record search_result = found_unit +
  sr_lexical_score :: rat

record dense_result = found_unit +
  dr_dense_score :: rat
  dr_dense_index_version :: string
  dr_model_id :: string
  dr_projection_version :: string

record hybrid_result = found_unit +
  hr_lexical_score :: "rat option"
  hr_dense_score :: "rat option"
  hr_lexical_rank :: "nat option"
  hr_dense_rank :: "nat option"
  hr_rrf_score :: rat
  hr_lexical_retrieval_method :: "string option"
  hr_fusion_version :: string
  hr_lexical_index_version :: string
  hr_dense_index_version :: string
  hr_model_id :: string
  hr_projection_version :: string

end
