(* ===== verification/Retrieval_Hybrid.thy ===== *)
theory Retrieval_Hybrid
  imports Retrieval_Models
begin

text \<open>
  Reciprocal rank fusion of src/shiliu/retrieval/hybrid.py. The two rankings come from services
  with their own index: they are functions of the request here, and may fail. The clock is
  \<open>now n\<close>, its n-th reading. The loop runs over a Python set, whose order is not specified:
  \<open>order\<close> is the order of that run.
\<close>

section \<open>Requests and services\<close>

definition FUSION_VERSION :: string where "FUSION_VERSION = ''v3-stage2-rrf-v1''"
definition RANKING_VERSION :: string where "RANKING_VERSION = ''pg-collection-chunk-bm25-v1''"
definition INDEX_VERSION :: string where "INDEX_VERSION = ''pg-collection-lexical-v1''"

record search_call =
  ca_query :: string
  ca_level :: search_level
  ca_top_k :: int
  ca_filters :: "retrieval_filters option"
  ca_include_ignored :: bool

record dense_meta =
  me_dense_index_version :: string
  me_projection_version :: string

record hybrid_service =
  hs_lexical_search :: "search_call \<Rightarrow> search_result list result"
  hs_dense_search :: "search_call \<Rightarrow> dense_result list result"
  hs_statistics_index :: "dense_meta result"
  hs_model_id :: string

record hybrid_execution =
  hx_results :: "hybrid_result list"
  hx_lexical_candidate_count :: nat
  hx_dense_candidate_count :: nat
  hx_lexical_ms :: rat
  hx_dense_ms :: rat
  hx_fusion_ms :: rat

section \<open>Fusion\<close>

text \<open>\<open>{item.unit_id: (rank, item) for rank, item in enumerate(items, 1)}\<close>\<close>

definition ranked_by_id :: "'a found_unit_scheme list \<Rightarrow> (string \<times> nat \<times> 'a found_unit_scheme) list" where
  "ranked_by_id items = dict_of (\<lambda>(rank, item). fu_unit_id item) (List.enumerate 1 items)"

definition rank_share :: "(rat \<Rightarrow> rat) \<Rightarrow> int \<Rightarrow> nat option \<Rightarrow> rat" where
  "rank_share rnd rrf_k rank =
     (case rank of None \<Rightarrow> 0 | Some r \<Rightarrow> if r = 0 then 0 else rnd (1 / of_int (rrf_k + int r)))"

definition rrf_score :: "(rat \<Rightarrow> rat) \<Rightarrow> int \<Rightarrow> nat option \<Rightarrow> nat option \<Rightarrow> rat" where
  "rrf_score rnd rrf_k lr dr = rnd (rank_share rnd rrf_k lr + rank_share rnd rrf_k dr)"

definition lexical_version :: "search_level \<Rightarrow> string \<Rightarrow> string" where
  "lexical_version level query =
     (if level = Level_Transcript_Chunk \<and> length (join '' '' (words_of query [])) \<ge> 3
      then RANKING_VERSION else INDEX_VERSION)"

text \<open>The body of the loop. A key of neither dictionary would subscript \<open>None\<close>.\<close>

definition fuse_unit ::
  "(rat \<Rightarrow> rat) \<Rightarrow> int \<Rightarrow> search_level \<Rightarrow> string \<Rightarrow> string \<Rightarrow> dense_meta
    \<Rightarrow> (string \<times> nat \<times> search_result) list \<Rightarrow> (string \<times> nat \<times> dense_result) list \<Rightarrow> string \<Rightarrow> hybrid_result result"
where
  "fuse_unit rnd rrf_k level query model meta lexical_by_id dense_by_id unit_id =
     (let lexical_pair = map_of lexical_by_id unit_id;
          dense_pair = map_of dense_by_id unit_id;
          lr = map_option fst lexical_pair;
          dr = map_option fst dense_pair
      in ebind (case dense_pair of
                  Some (r, item) \<Rightarrow> Inr (found_unit.truncate item)
                | None \<Rightarrow> (case lexical_pair of
                    Some (r, item) \<Rightarrow> Inr (found_unit.truncate item)
                  | None \<Rightarrow> Inl Type_Error)) (\<lambda>source.
         Inr (found_unit.extend
           (source\<lparr>fu_retrieval_method := ''hybrid'', fu_index_version := FUSION_VERSION\<rparr>)
           (hybrid_result.fields
             (map_option (sr_lexical_score \<circ> snd) lexical_pair)
             (map_option (dr_dense_score \<circ> snd) dense_pair)
             lr dr (rrf_score rnd rrf_k lr dr)
             (map_option (fu_retrieval_method \<circ> snd) lexical_pair)
             FUSION_VERSION (lexical_version level query) (me_dense_index_version meta) model
             (me_projection_version meta)))))"

definition hybrid_sort_key :: "hybrid_result \<Rightarrow> rat \<times> string" where
  "hybrid_sort_key item = (- hr_rrf_score item, fu_unit_id item)"

definition union_keys :: "(string \<times> 'a) list \<Rightarrow> (string \<times> 'b) list \<Rightarrow> string list" where
  "union_keys d e = fromkeys (map fst d @ map fst e)"

definition milliseconds :: "(rat \<Rightarrow> rat) \<Rightarrow> rat \<Rightarrow> rat \<Rightarrow> rat" where
  "milliseconds rnd started stopped = rnd (rnd (stopped - started) * 1000)"

definition candidate_count :: "int option \<Rightarrow> int \<Rightarrow> int" where
  "candidate_count candidate_k top_k =
     (case candidate_k of
        None \<Rightarrow> max 50 (top_k * 5)
      | Some k \<Rightarrow> if k = 0 then max 50 (top_k * 5) else k)"

definition search_with_trace ::
  "(rat \<Rightarrow> rat) \<Rightarrow> (string list \<Rightarrow> string list) \<Rightarrow> (nat \<Rightarrow> rat) \<Rightarrow> hybrid_service \<Rightarrow> search_call \<Rightarrow> int \<Rightarrow> int option
    \<Rightarrow> hybrid_execution result"
where
  "search_with_trace rnd order now S call rrf_k candidate_k =
     (let top_k = ca_top_k call; candidates = candidate_count candidate_k top_k
      in if rrf_k \<le> 0 then Inl (Value_Error ''rrf_k must be positive'')
         else if \<not> (1 \<le> top_k \<and> top_k \<le> 100)
         then Inl (Value_Error ''top_k must be between 1 and 100'')
         else if candidates < top_k \<or> candidates > 500
         then Inl (Value_Error ''candidate_k must be between top_k and 500'')
         else ebind (hs_lexical_search S (call\<lparr>ca_top_k := candidates\<rparr>)) (\<lambda>lexical.
              ebind (hs_dense_search S (call\<lparr>ca_top_k := candidates\<rparr>)) (\<lambda>dense.
              ebind (hs_statistics_index S) (\<lambda>meta.
                let lexical_by_id = ranked_by_id lexical; dense_by_id = ranked_by_id dense
                in ebind (emap (fuse_unit rnd rrf_k (ca_level call) (ca_query call) (hs_model_id S) meta
                                 lexical_by_id dense_by_id)
                            (order (union_keys lexical_by_id dense_by_id))) (\<lambda>merged.
                     Inr \<lparr>hx_results = take (nat top_k) (sort_key hybrid_sort_key merged),
                          hx_lexical_candidate_count = length lexical,
                          hx_dense_candidate_count = length dense,
                          hx_lexical_ms = milliseconds rnd (now 0) (now 1),
                          hx_dense_ms = milliseconds rnd (now 2) (now 3),
                          hx_fusion_ms = milliseconds rnd (now 4) (now 5)\<rparr>)))))"

text \<open>\<open>search\<close> returns the results of the trace.\<close>

definition hybrid_search ::
  "(rat \<Rightarrow> rat) \<Rightarrow> (string list \<Rightarrow> string list) \<Rightarrow> (nat \<Rightarrow> rat) \<Rightarrow> hybrid_service \<Rightarrow> search_call \<Rightarrow> int \<Rightarrow> int option
    \<Rightarrow> hybrid_result list result"
where
  "hybrid_search rnd order now S call rrf_k candidate_k =
     ebind (search_with_trace rnd order now S call rrf_k candidate_k) (\<lambda>x. Inr (hx_results x))"

end
