(* ===== verification/Hybrid_Properties.thy ===== *)
theory Hybrid_Properties
  imports Retrieval_Hybrid
begin

text \<open>
  Facts and properties of rank fusion: the rank of a unit in a list, that fusing a unit of either
  list succeeds, and the independence of the result of the order in which the set is visited.
\<close>

section \<open>Ranks\<close>

definition unit_ids :: "'a found_unit_scheme list \<Rightarrow> string set" where
  "unit_ids items = set (map fu_unit_id items)"

text \<open>The rank of a unit counts from one; of several entries of one unit the last one counts.\<close>

definition is_rank :: "'a found_unit_scheme list \<Rightarrow> string \<Rightarrow> nat option \<Rightarrow> bool" where
  "is_rank items u rank =
     (case rank of
        None \<Rightarrow> u \<notin> unit_ids items
      | Some r \<Rightarrow> 1 \<le> r \<and> r \<le> length items \<and> fu_unit_id (items ! (r - 1)) = u \<and> u \<notin> unit_ids (drop r items))"

abbreviation entry :: "'a found_unit_scheme list \<Rightarrow> string \<Rightarrow> (nat \<times> 'a found_unit_scheme) option" where
  "entry items u \<equiv> map_of (ranked_by_id items) u"

lemma entry_find:
  "entry items u = find (\<lambda>(rank, item). fu_unit_id item = u) (rev (List.enumerate 1 items))"
  by (simp add: ranked_by_id_def map_of_dict_of case_prod_unfold)

lemma entry_id: "entry items u = Some (r, item) \<Longrightarrow> fu_unit_id item = u"
  by (auto simp: entry_find find_Some_iff)

lemma entry_rank: "is_rank items u (map_option fst (entry items u))"
proof (induction items rule: rev_induct)
  case Nil
  then show ?case by (simp add: entry_find is_rank_def unit_ids_def)
next
  case (snoc x xs)
  show ?case
  proof (cases "fu_unit_id x = u")
    case True
    then show ?thesis
      by (simp add: entry_find enumerate_append_eq is_rank_def unit_ids_def nth_append)
  next
    case False
    then have "entry (xs @ [x]) u = entry xs u" by (simp add: entry_find enumerate_append_eq)
    then show ?thesis using snoc.IH False
      by (auto simp: is_rank_def unit_ids_def nth_append split: option.splits)
  qed
qed

lemma entry_None: "entry items u = None \<longleftrightarrow> u \<notin> unit_ids items"
  using entry_rank [of items u] by (cases "entry items u") (auto simp: is_rank_def unit_ids_def)

lemma ranked_keys: "set (map fst (ranked_by_id items)) = unit_ids items"
proof -
  have "u \<in> set (map fst (ranked_by_id items)) \<longleftrightarrow> entry items u \<noteq> None" for u
    by (simp add: map_of_eq_None_iff)
  then show ?thesis by (auto simp: entry_None)
qed

lemma set_union_keys: "set (union_keys (ranked_by_id xs) (ranked_by_id ys)) = unit_ids xs \<union> unit_ids ys"
  unfolding union_keys_def set_fromkeys set_append ranked_keys by (rule refl)

lemma entry_nonzero: "map_option fst (entry items u) \<noteq> Some 0"
  using entry_rank [of items u] by (auto simp: is_rank_def split: option.splits)

section \<open>Scores\<close>

text \<open>\<open>a\<close> is at least as good a rank as \<open>b\<close>; no rank is the worst.\<close>

definition as_good :: "nat option \<Rightarrow> nat option \<Rightarrow> bool" where
  "as_good a b \<longleftrightarrow> (case b of None \<Rightarrow> True | Some s \<Rightarrow> (case a of None \<Rightarrow> False | Some r \<Rightarrow> r \<le> s))"

lemma rank_share_mono:
  assumes "float_rounding rnd" "0 < k" "as_good a b" "a \<noteq> Some 0"
  shows "rank_share rnd k b \<le> rank_share rnd k a"
proof -
  have pos: "0 \<le> rnd (1 / of_int (k + int n))" for n
    using float_rounding_mono [OF assms(1), of 0] assms(1,2) by (simp add: add_pos_nonneg less_imp_le)
  have le: "rnd (1 / of_int (k + int s)) \<le> rnd (1 / of_int (k + int r))" if "r \<le> s" for r s
    using assms(2) that by (intro float_rounding_mono [OF assms(1)] divide_left_mono mult_pos_pos) auto
  show ?thesis
    using assms(3,4) pos le by (auto simp: rank_share_def as_good_def split: option.splits)
qed

lemma rrf_score_mono:
  assumes "float_rounding rnd" "0 < k" "as_good a b" "a \<noteq> Some 0" "as_good c d" "c \<noteq> Some 0"
  shows "rrf_score rnd k b d \<le> rrf_score rnd k a c"
  unfolding rrf_score_def
  by (intro float_rounding_mono [OF assms(1)] add_mono rank_share_mono assms)

section \<open>Fusing one unit\<close>

definition unit_score ::
  "(rat \<Rightarrow> rat) \<Rightarrow> int \<Rightarrow> 'a found_unit_scheme list \<Rightarrow> 'b found_unit_scheme list \<Rightarrow> string \<Rightarrow> rat"
where
  "unit_score rnd k lexical dense u =
     rrf_score rnd k (map_option fst (entry lexical u)) (map_option fst (entry dense u))"

lemma fuse_unit_ok:
  assumes "u \<in> unit_ids lexical \<union> unit_ids dense"
  shows "\<exists>r. fuse_unit rnd k level query model meta (ranked_by_id lexical) (ranked_by_id dense) u = Inr r \<and>
     fu_unit_id r = u \<and> hr_lexical_rank r = map_option fst (entry lexical u) \<and>
     hr_dense_rank r = map_option fst (entry dense u) \<and> hr_rrf_score r = unit_score rnd k lexical dense u"
proof -
  consider r i where "entry dense u = Some (r, i)"
    | r i where "entry dense u = None" "entry lexical u = Some (r, i)"
    using assms by (metis Un_iff entry_None not_None_eq surj_pair)
  then show ?thesis
    by cases (auto simp: fuse_unit_def Let_def unit_score_def found_unit.defs hybrid_result.defs dest: entry_id)
qed

definition fused ::
  "(rat \<Rightarrow> rat) \<Rightarrow> int \<Rightarrow> search_level \<Rightarrow> string \<Rightarrow> string \<Rightarrow> dense_meta \<Rightarrow> search_result list
    \<Rightarrow> dense_result list \<Rightarrow> string \<Rightarrow> hybrid_result"
where
  "fused rnd k level query model meta lexical dense u =
     (case fuse_unit rnd k level query model meta (ranked_by_id lexical) (ranked_by_id dense) u of
        Inr r \<Rightarrow> r | Inl _ \<Rightarrow> undefined)"

lemma fused_facts:
  assumes "u \<in> unit_ids lexical \<union> unit_ids dense"
  shows "fuse_unit rnd k level query model meta (ranked_by_id lexical) (ranked_by_id dense) u =
      Inr (fused rnd k level query model meta lexical dense u)"
    and "fu_unit_id (fused rnd k level query model meta lexical dense u) = u"
    and "hr_lexical_rank (fused rnd k level query model meta lexical dense u) = map_option fst (entry lexical u)"
    and "hr_dense_rank (fused rnd k level query model meta lexical dense u) = map_option fst (entry dense u)"
    and "hr_rrf_score (fused rnd k level query model meta lexical dense u) = unit_score rnd k lexical dense u"
  using fuse_unit_ok [OF assms, of rnd k level query model meta] by (auto simp: fused_def)

section \<open>The order of a set\<close>

text \<open>An enumeration of a set of strings: every element once, in some order.\<close>

definition set_order :: "(string list \<Rightarrow> string list) \<Rightarrow> bool" where
  "set_order order \<longleftrightarrow> (\<forall>xs. distinct xs \<longrightarrow> mset (order xs) = mset xs)"

lemma set_order_rev: "set_order rev"
  by (simp add: set_order_def)

lemma set_order_id: "set_order (\<lambda>xs. xs)"
  by (simp add: set_order_def)

lemma set_order_facts:
  assumes "set_order order"
  shows "mset (order (union_keys d e)) = mset (union_keys d e)"
    and "set (order (union_keys d e)) = set (union_keys d e)" and "distinct (order (union_keys d e))"
proof -
  show m: "mset (order (union_keys d e)) = mset (union_keys d e)"
    using assms by (simp add: set_order_def union_keys_def)
  show "set (order (union_keys d e)) = set (union_keys d e)" using m by (rule mset_eq_setD)
  show "distinct (order (union_keys d e))"
    using m by (metis distinct_fromkeys mset_eq_imp_distinct_iff union_keys_def)
qed

lemma emap_fused:
  assumes "set us \<subseteq> unit_ids lexical \<union> unit_ids dense"
  shows "emap (fuse_unit rnd k level query model meta (ranked_by_id lexical) (ranked_by_id dense)) us =
     Inr (map (fused rnd k level query model meta lexical dense) us)"
  using assms by (intro emap_all_Inr fused_facts(1)) auto

text \<open>What the loop and the sort produce: the fused units of both lists, best first.\<close>

abbreviation ranking ::
  "(rat \<Rightarrow> rat) \<Rightarrow> int \<Rightarrow> search_level \<Rightarrow> string \<Rightarrow> string \<Rightarrow> dense_meta \<Rightarrow> search_result list
    \<Rightarrow> dense_result list \<Rightarrow> hybrid_result list"
where
  "ranking rnd k level query model meta lexical dense \<equiv>
     sort_key hybrid_sort_key (map (fused rnd k level query model meta lexical dense)
       (union_keys (ranked_by_id lexical) (ranked_by_id dense)))"

lemma inj_hybrid_key:
  assumes "set us \<subseteq> unit_ids lexical \<union> unit_ids dense"
  shows "inj_on hybrid_sort_key (set (map (fused rnd k level query model meta lexical dense) us))"
proof (rule inj_onI)
  fix x y
  assume mem: "x \<in> set (map (fused rnd k level query model meta lexical dense) us)"
    "y \<in> set (map (fused rnd k level query model meta lexical dense) us)"
    and eq: "hybrid_sort_key x = hybrid_sort_key y"
  obtain a b where ab: "x = fused rnd k level query model meta lexical dense a" "a \<in> set us"
    "y = fused rnd k level query model meta lexical dense b" "b \<in> set us" using mem by auto
  have "a \<in> unit_ids lexical \<union> unit_ids dense" "b \<in> unit_ids lexical \<union> unit_ids dense"
    using assms ab(2,4) by auto
  then have "fu_unit_id x = a" "fu_unit_id y = b" using ab(1,3) by (simp_all add: fused_facts(2))
  then have "a = b" using eq by (simp add: hybrid_sort_key_def)
  then show "x = y" using ab by simp
qed

lemma loop_any_order:
  fixes lexical :: "search_result list" and dense :: "dense_result list"
  assumes "set_order order"
  defines "us \<equiv> union_keys (ranked_by_id lexical) (ranked_by_id dense)"
  shows "emap (fuse_unit rnd k level query model meta (ranked_by_id lexical) (ranked_by_id dense)) (order us) =
      Inr (map (fused rnd k level query model meta lexical dense) (order us))"
    and "sort_key hybrid_sort_key (map (fused rnd k level query model meta lexical dense) (order us)) =
      ranking rnd k level query model meta lexical dense"
proof -
  have sub: "set (order us) \<subseteq> unit_ids lexical \<union> unit_ids dense"
    unfolding us_def set_order_facts(2) [OF assms(1)] set_union_keys by (rule order_refl)
  show "emap (fuse_unit rnd k level query model meta (ranked_by_id lexical) (ranked_by_id dense)) (order us) =
      Inr (map (fused rnd k level query model meta lexical dense) (order us))"
    by (rule emap_fused [OF sub])
  have "mset (map (fused rnd k level query model meta lexical dense) (order us)) =
      mset (map (fused rnd k level query model meta lexical dense) us)"
    unfolding us_def mset_map set_order_facts(1) [OF assms(1)] by (rule refl)
  then show "sort_key hybrid_sort_key (map (fused rnd k level query model meta lexical dense) (order us)) =
      ranking rnd k level query model meta lexical dense"
    unfolding us_def by (rule sort_key_perm) (rule inj_hybrid_key [OF sub [unfolded us_def]])
qed

lemma search_with_trace_ranking:
  assumes "set_order order"
  shows "search_with_trace rnd order now S call rrf_k candidate_k =
    (let top_k = ca_top_k call; candidates = candidate_count candidate_k top_k
     in if rrf_k \<le> 0 then Inl (Value_Error ''rrf_k must be positive'')
        else if \<not> (1 \<le> top_k \<and> top_k \<le> 100)
        then Inl (Value_Error ''top_k must be between 1 and 100'')
        else if candidates < top_k \<or> candidates > 500
        then Inl (Value_Error ''candidate_k must be between top_k and 500'')
        else ebind (hs_lexical_search S (call\<lparr>ca_top_k := candidates\<rparr>)) (\<lambda>lexical.
             ebind (hs_dense_search S (call\<lparr>ca_top_k := candidates\<rparr>)) (\<lambda>dense.
             ebind (hs_statistics_index S) (\<lambda>meta.
               Inr \<lparr>hx_results = take (nat top_k) (ranking rnd rrf_k (ca_level call) (ca_query call)
                      (hs_model_id S) meta lexical dense),
                    hx_lexical_candidate_count = length lexical,
                    hx_dense_candidate_count = length dense,
                    hx_lexical_ms = milliseconds rnd (now 0) (now 1),
                    hx_dense_ms = milliseconds rnd (now 2) (now 3),
                    hx_fusion_ms = milliseconds rnd (now 4) (now 5)\<rparr>))))"
  unfolding search_with_trace_def Let_def loop_any_order [OF assms] ebind_Inr by (rule refl)

text \<open>What the first \<open>top_k\<close> units of the ranking satisfy.\<close>

definition best_units ::
  "(rat \<Rightarrow> rat) \<Rightarrow> int \<Rightarrow> search_result list \<Rightarrow> dense_result list \<Rightarrow> int \<Rightarrow> hybrid_result list \<Rightarrow> bool"
where
  "best_units rnd rrf_k lexical dense top_k R \<longleftrightarrow>
     (let U = unit_ids lexical \<union> unit_ids dense
      in distinct (map fu_unit_id R) \<and> set (map fu_unit_id R) \<subseteq> U \<and>
         int (length R) = min top_k (int (card U)) \<and> sorted (map hybrid_sort_key R) \<and>
         (\<forall>r \<in> set R. is_rank lexical (fu_unit_id r) (hr_lexical_rank r) \<and>
            is_rank dense (fu_unit_id r) (hr_dense_rank r) \<and>
            hr_rrf_score r = rrf_score rnd rrf_k (hr_lexical_rank r) (hr_dense_rank r)) \<and>
         (\<forall>u \<in> U. \<forall>r \<in> set R. u \<notin> set (map fu_unit_id R) \<longrightarrow>
            hybrid_sort_key r < (- unit_score rnd rrf_k lexical dense u, u) \<and>
            \<not> (as_good (map_option fst (entry lexical u)) (hr_lexical_rank r) \<and>
               as_good (map_option fst (entry dense u)) (hr_dense_rank r) \<and> u < fu_unit_id r)))"

lemma best_units_take:
  assumes "float_rounding rnd" and "0 < rrf_k" and "1 \<le> top_k"
  shows "best_units rnd rrf_k lexical dense top_k
    (take (nat top_k) (ranking rnd rrf_k level query model meta lexical dense))"
proof -
  let ?f = "fused rnd rrf_k level query model meta lexical dense"
  let ?us = "union_keys (ranked_by_id lexical) (ranked_by_id dense)"
  let ?L = "ranking rnd rrf_k level query model meta lexical dense" and ?n = "nat top_k"
  let ?U = "unit_ids lexical \<union> unit_ids dense"
  have U: "set ?us = ?U" by (rule set_union_keys)
  have ids: "map (fu_unit_id \<circ> ?f) ?us = ?us"
    using fused_facts(2) U by (intro map_idI) simp
  have dist_us: "distinct ?us" by (simp add: union_keys_def)
  have dist: "distinct (map fu_unit_id ?L)"
    using ids dist_us by simp
  have set_ids: "set (map fu_unit_id ?L) = ?U"
    using ids U by (metis list.map_comp set_map_sort_key)
  have len: "length ?L = card ?U" using U dist_us by (metis distinct_card length_map length_sort)
  have elem: "\<exists>u \<in> ?U. r = ?f u" if "r \<in> set ?L" for r using that U by auto
  have split: "?L = take ?n ?L @ drop ?n ?L" by simp
  have srt: "sorted (map hybrid_sort_key (take ?n ?L @ drop ?n ?L))" by simp
  show ?thesis
    unfolding best_units_def Let_def
  proof (intro conjI ballI impI)
    show "distinct (map fu_unit_id (take ?n ?L))" using dist by (simp add: take_map [symmetric])
    show "set (map fu_unit_id (take ?n ?L)) \<subseteq> ?U"
      using set_ids by (metis set_take_subset take_map)
    show "int (length (take ?n ?L)) = min top_k (int (card ?U))" using len assms(3) by simp
    show "sorted (map hybrid_sort_key (take ?n ?L))"
      using srt by (simp only: map_append sorted_append)
  next
    fix r assume "r \<in> set (take ?n ?L)"
    then obtain u where u: "u \<in> ?U" "r = ?f u" using elem by (meson in_set_takeD)
    show "is_rank lexical (fu_unit_id r) (hr_lexical_rank r)" "is_rank dense (fu_unit_id r) (hr_dense_rank r)"
      "hr_rrf_score r = rrf_score rnd rrf_k (hr_lexical_rank r) (hr_dense_rank r)"
      unfolding u(2) fused_facts(2-5) [OF u(1)] unit_score_def by (simp_all add: entry_rank)
  next
    fix u r
    assume u: "u \<in> ?U" and r: "r \<in> set (take ?n ?L)" and out: "u \<notin> set (map fu_unit_id (take ?n ?L))"
    have "?f u \<in> set ?L" using u U by simp
    moreover have "?f u \<notin> set (take ?n ?L)" using out fused_facts(2) [OF u] by (metis image_eqI list.set_map)
    ultimately have "?f u \<in> set (drop ?n ?L)" by (metis Un_iff set_append split)
    then have le: "hybrid_sort_key r \<le> hybrid_sort_key (?f u)"
      using srt r unfolding map_append sorted_append by auto
    have key: "hybrid_sort_key (?f u) = (- unit_score rnd rrf_k lexical dense u, u)"
      by (simp add: hybrid_sort_key_def fused_facts(2,5) [OF u])
    have "fu_unit_id r \<noteq> u" using out r by (metis image_eqI list.set_map)
    then have "hybrid_sort_key r \<noteq> hybrid_sort_key (?f u)" unfolding key by (simp add: hybrid_sort_key_def)
    then show less: "hybrid_sort_key r < (- unit_score rnd rrf_k lexical dense u, u)"
      using le key by simp
    obtain v where v: "v \<in> ?U" "r = ?f v" using elem r by (meson in_set_takeD)
    show "\<not> (as_good (map_option fst (entry lexical u)) (hr_lexical_rank r) \<and>
        as_good (map_option fst (entry dense u)) (hr_dense_rank r) \<and> u < fu_unit_id r)"
    proof
      assume good: "as_good (map_option fst (entry lexical u)) (hr_lexical_rank r) \<and>
        as_good (map_option fst (entry dense u)) (hr_dense_rank r) \<and> u < fu_unit_id r"
      have ranks: "hr_lexical_rank r = map_option fst (entry lexical v)"
        "hr_dense_rank r = map_option fst (entry dense v)" "hr_rrf_score r = unit_score rnd rrf_k lexical dense v"
        unfolding v(2) fused_facts(3-5) [OF v(1)] by simp_all
      have "unit_score rnd rrf_k lexical dense v \<le> unit_score rnd rrf_k lexical dense u"
        unfolding unit_score_def
        by (rule rrf_score_mono [OF assms(1,2) _ entry_nonzero _ entry_nonzero]) (use good ranks in simp_all)
      then have "hr_rrf_score r \<le> unit_score rnd rrf_k lexical dense u" using ranks by simp
      moreover have "\<not> fu_unit_id r < u" using good less_not_sym by blast
      ultimately show False using less by (auto simp: hybrid_sort_key_def)
    qed
  qed
qed

section \<open>Properties\<close>

text \<open>
  C32: The answer of a hybrid search does not depend on the order in which Python visits the set of
  unit ids: whatever two orders two runs have, the same services, clock and request give the same
  execution or the same error.
\<close>

theorem fusion_independent_of_set_order:
  assumes "set_order order" and "set_order order'"
  shows "search_with_trace rnd order now S call rrf_k candidate_k =
    search_with_trace rnd order' now S call rrf_k candidate_k"
  unfolding search_with_trace_ranking [OF assms(1)] search_with_trace_ranking [OF assms(2)] by (rule refl)

definition sample_unit :: "string \<Rightarrow> found_unit" where
  "sample_unit u = \<lparr>fu_unit_id = u, fu_unit_type = Transcript_Chunk, fu_video_id = 1, fu_platform = ''bilibili'',
     fu_source_id = ''BV1'', fu_part = 1, fu_title = ''t'', fu_uploader = ''u'', fu_chunk_id = None,
     fu_source_type = ''ai'', fu_start_time = Some 0, fu_end_time = Some 1, fu_matched_excerpt = ''e'',
     fu_retrieval_method = ''m'', fu_index_version = ''i'', fu_reading_state = ''unread'', fu_is_marked = False,
     fu_is_ignored = False, fu_archived = False, fu_folders = []\<rparr>"

definition sample_service :: hybrid_service where
  "sample_service = \<lparr>hs_lexical_search = (\<lambda>c. Inr (map (\<lambda>u. found_unit.extend (sample_unit u) (search_result.fields 1))
       [''a'', ''b''])),
     hs_dense_search = (\<lambda>c. Inr (map (\<lambda>u. found_unit.extend (sample_unit u) (dense_result.fields 1 ''v'' ''m'' ''p''))
       [''b'', ''c''])),
     hs_statistics_index = Inr \<lparr>me_dense_index_version = ''v'', me_projection_version = ''p''\<rparr>,
     hs_model_id = ''m''\<rparr>"

definition sample_call :: search_call where
  "sample_call = \<lparr>ca_query = ''q'', ca_level = Level_All, ca_top_k = 2, ca_filters = None, ca_include_ignored = False\<rparr>"

lemma fusion_independent_of_set_order_witness:
  "search_with_trace round_down rev (\<lambda>n. of_nat n) sample_service sample_call 60 None =
    search_with_trace round_down (\<lambda>us. us) (\<lambda>n. of_nat n) sample_service sample_call 60 None"
  by (rule fusion_independent_of_set_order [OF set_order_rev set_order_id])

text \<open>
  C33: A successful hybrid search asked both services for the same number of candidates, between
  \<open>top_k\<close> and 500, and returns the best \<open>top_k\<close> units of the union of their answers: each unit once,
  with its ranks in the two lists and the reciprocal rank score of these, sorted by score and unit
  id. A unit left out is worse than every unit returned; in particular a unit that ranks at least
  as well in both lists as a returned one, with a smaller id, is returned too.
\<close>

theorem fusion_returns_best_units:
  assumes "search_with_trace rnd order now S call rrf_k candidate_k = Inr x"
    and "set_order order" and "float_rounding rnd"
  shows "\<exists>lexical dense candidates.
      hs_lexical_search S (call\<lparr>ca_top_k := candidates\<rparr>) = Inr lexical \<and>
      hs_dense_search S (call\<lparr>ca_top_k := candidates\<rparr>) = Inr dense \<and>
      ca_top_k call \<le> candidates \<and> candidates \<le> 500 \<and>
      best_units rnd rrf_k lexical dense (ca_top_k call) (hx_results x)"
proof -
  let ?c = "candidate_count candidate_k (ca_top_k call)"
  obtain lexical dense meta where ok: "0 < rrf_k" "1 \<le> ca_top_k call" "ca_top_k call \<le> ?c" "?c \<le> 500"
      "hs_lexical_search S (call\<lparr>ca_top_k := ?c\<rparr>) = Inr lexical"
      "hs_dense_search S (call\<lparr>ca_top_k := ?c\<rparr>) = Inr dense"
      and R: "hx_results x = take (nat (ca_top_k call))
        (ranking rnd rrf_k (ca_level call) (ca_query call) (hs_model_id S) meta lexical dense)"
    using assms(1) unfolding search_with_trace_ranking [OF assms(2)] Let_def
    by (auto simp: ebind_eq_Inr split: if_splits)
  have "best_units rnd rrf_k lexical dense (ca_top_k call) (hx_results x)"
    unfolding R using best_units_take assms(3) ok(1,2) by blast
  then show ?thesis
    using ok(3-6) by blast
qed

lemma fusion_returns_best_units_witness:
  "\<exists>x lexical dense. search_with_trace round_down rev (\<lambda>n. of_nat n) sample_service sample_call 60 None = Inr x \<and>
     best_units round_down 60 lexical dense 2 (hx_results x)"
proof -
  obtain x where x: "search_with_trace round_down rev (\<lambda>n. of_nat n) sample_service sample_call 60 None = Inr x"
    unfolding search_with_trace_ranking [OF set_order_rev]
    by (auto simp: sample_service_def sample_call_def candidate_count_def)
  then show ?thesis
    using fusion_returns_best_units [OF x set_order_rev round_down_float] by (auto simp: sample_call_def)
qed

end
