(* ===== verification/Retrieval_Consolidation.thy ===== *)
theory Retrieval_Consolidation
  imports Python_Values
begin

text \<open>
  Consolidation of raw hits into videos and temporal windows, src/shiliu/retrieval/consolidation.py,
  with the raw hit of src/shiliu/retrieval/orchestrator.py. Hits come from stored rows, so a time may
  be any number, a boolean or missing; the code tests for it and so does the model. An integer too
  large for a double, for which \<open>float\<close> raises, is outside the model.
\<close>

section \<open>Hits\<close>

datatype time_value =
    No_Time
  | Bool_Time bool
  | Int_Time int
  | Float_Time rat
  | Infinite_Time bool
  | Nan_Time

record raw_hit =
  rh_unit_id :: string
  rh_video_id :: int
  rh_unit_type :: string
  rh_rank :: int
  rh_score :: rat
  rh_retrieval_method :: string
  rh_lexical_rank :: "int option"
  rh_lexical_score :: "rat option"
  rh_dense_rank :: "int option"
  rh_dense_score :: "rat option"
  rh_rrf_score :: "rat option"
  rh_title :: string
  rh_uploader :: string
  rh_subtitle_source :: string
  rh_start_time :: time_value
  rh_end_time :: time_value
  rh_excerpt :: string

definition hit_key :: "raw_hit \<Rightarrow> int \<times> rat \<times> string" where
  "hit_key h = (rh_rank h, - rh_score h, rh_unit_id h)"

text \<open>\<open>float(t)\<close> of a time that is a finite number, and the number itself.\<close>

fun float_of_time :: "(rat \<Rightarrow> rat) \<Rightarrow> time_value \<Rightarrow> rat option" where
  "float_of_time rnd (Int_Time i) = Some (rnd (of_int i))"
| "float_of_time rnd (Float_Time x) = Some x"
| "float_of_time rnd t = None"

fun time_number :: "time_value \<Rightarrow> rat" where
  "time_number (Int_Time i) = of_int i"
| "time_number (Float_Time x) = x"
| "time_number (Bool_Time b) = (if b then 1 else 0)"
| "time_number t = 0"

definition valid_time :: "(rat \<Rightarrow> rat) \<Rightarrow> raw_hit \<Rightarrow> bool" where
  "valid_time rnd h \<longleftrightarrow>
     (case float_of_time rnd (rh_start_time h) of
        None \<Rightarrow> False
      | Some s \<Rightarrow> (case float_of_time rnd (rh_end_time h) of None \<Rightarrow> False | Some e \<Rightarrow> 0 \<le> s \<and> s \<le> e))"

definition hit_start :: "(rat \<Rightarrow> rat) \<Rightarrow> raw_hit \<Rightarrow> rat" where
  "hit_start rnd h = (case float_of_time rnd (rh_start_time h) of None \<Rightarrow> 0 | Some s \<Rightarrow> s)"

definition hit_end :: "(rat \<Rightarrow> rat) \<Rightarrow> raw_hit \<Rightarrow> rat" where
  "hit_end rnd h = (case float_of_time rnd (rh_end_time h) of None \<Rightarrow> 0 | Some e \<Rightarrow> e)"

text \<open>\<open>_methods\<close>: the sorted set of the methods that found a hit.\<close>

definition hit_methods :: "raw_hit \<Rightarrow> string list" where
  "hit_methods h =
     (if rh_lexical_rank h \<noteq> None then [''lexical''] else []) @
     (if rh_dense_rank h \<noteq> None then [''dense''] else []) @
     (if rh_lexical_rank h = None \<and> rh_dense_rank h = None then [rh_retrieval_method h] else [])"

definition methods_of :: "raw_hit list \<Rightarrow> string list" where
  "methods_of hits = sort (fromkeys (concat (map hit_methods hits)))"

section \<open>Windows\<close>

record evidence_window =
  ew_window_start :: rat
  ew_window_end :: rat
  ew_component_hits :: "raw_hit list"
  ew_best_hit :: raw_hit
  ew_excerpt :: string
  ew_jump_time :: "rat option"
  ew_jump_source :: string
  ew_anchor_confidence :: string
  ew_anchor_segment_start :: "rat option"
  ew_anchor_segment_end :: "rat option"
  ew_matched_terms :: "string list"
  ew_chapter :: "json option"

definition new_window :: "(rat \<Rightarrow> rat) \<Rightarrow> raw_hit \<Rightarrow> evidence_window" where
  "new_window rnd h =
     \<lparr>ew_window_start = hit_start rnd h, ew_window_end = hit_end rnd h, ew_component_hits = [h],
      ew_best_hit = h, ew_excerpt = [], ew_jump_time = None, ew_jump_source = ''chunk_start_fallback'',
      ew_anchor_confidence = ''fallback'', ew_anchor_segment_start = None, ew_anchor_segment_end = None,
      ew_matched_terms = [], ew_chapter = None\<rparr>"

definition component_chunk_ids :: "evidence_window \<Rightarrow> string list" where
  "component_chunk_ids w = map rh_unit_id (sort_key hit_key (ew_component_hits w))"

definition component_raw_ranks :: "evidence_window \<Rightarrow> int list" where
  "component_raw_ranks w = sort (fromkeys (map rh_rank (ew_component_hits w)))"

definition window_methods :: "evidence_window \<Rightarrow> string list" where
  "window_methods w = methods_of (ew_component_hits w)"

definition subtitle_sources :: "evidence_window \<Rightarrow> string list" where
  "subtitle_sources w = sort (fromkeys (map rh_subtitle_source (ew_component_hits w)))"

text \<open>\<open>min(hits, key=\<dots>)\<close> is the first hit with the smallest key.\<close>

definition extend_window :: "(rat \<Rightarrow> rat) \<Rightarrow> raw_hit \<Rightarrow> evidence_window \<Rightarrow> evidence_window" where
  "extend_window rnd h w =
     w\<lparr>ew_window_end := max (ew_window_end w) (hit_end rnd h),
       ew_component_hits := ew_component_hits w @ [h],
       ew_best_hit := arg_min_list hit_key (ew_component_hits w @ [h])\<rparr>"

definition add_to_windows :: "(rat \<Rightarrow> rat) \<Rightarrow> rat \<Rightarrow> raw_hit \<Rightarrow> evidence_window list \<Rightarrow> evidence_window list" where
  "add_to_windows rnd gap h ws =
     (if ws \<noteq> [] \<and> hit_start rnd h \<le> rnd (ew_window_end (last ws) + gap)
      then butlast ws @ [extend_window rnd h (last ws)]
      else ws @ [new_window rnd h])"

definition temporal_key :: "raw_hit \<Rightarrow> rat \<times> rat \<times> int \<times> string" where
  "temporal_key h = (time_number (rh_start_time h), time_number (rh_end_time h), rh_rank h, rh_unit_id h)"

definition window_key :: "evidence_window \<Rightarrow> int \<times> rat \<times> rat" where
  "window_key w = (rh_rank (ew_best_hit w), - rh_score (ew_best_hit w), ew_window_start w)"

definition merge_windows :: "(rat \<Rightarrow> rat) \<Rightarrow> rat \<Rightarrow> raw_hit list \<Rightarrow> evidence_window list" where
  "merge_windows rnd gap hits = fold (add_to_windows rnd gap) (sort_key temporal_key hits) []"

definition windows_of :: "(rat \<Rightarrow> rat) \<Rightarrow> rat \<Rightarrow> raw_hit list \<Rightarrow> evidence_window list" where
  "windows_of rnd gap hits = sort_key window_key (merge_windows rnd gap hits)"

section \<open>Groups\<close>

record video_group =
  vg_video_id :: int
  vg_hits :: "raw_hit list"
  vg_best_hit :: raw_hit
  vg_windows :: "evidence_window list"
  vg_unwindowed_chunk_count :: int
  vg_title :: string
  vg_uploader :: string
  vg_bvid :: string
  vg_video_url :: string
  vg_duration :: "rat option"
  vg_warnings :: "(string \<times> string) list list"

definition group_methods :: "video_group \<Rightarrow> string list" where
  "group_methods g = methods_of (vg_hits g)"

record consolidation_result =
  cr_groups :: "video_group list"
  cr_duplicate_raw_hit_count :: int
  cr_unique_video_count :: int
  cr_total_window_count :: int

definition TEMPORAL_MERGE_GAP_SECONDS :: rat where "TEMPORAL_MERGE_GAP_SECONDS = 20"

definition keep_better :: "raw_hit \<Rightarrow> (string \<times> raw_hit) list \<Rightarrow> (string \<times> raw_hit) list" where
  "keep_better h d =
     (case map_of d (rh_unit_id h) of
        None \<Rightarrow> AList.update (rh_unit_id h) h d
      | Some current \<Rightarrow> if hit_key h < hit_key current then AList.update (rh_unit_id h) h d else d)"

definition deduplicated :: "raw_hit list \<Rightarrow> (string \<times> raw_hit) list" where
  "deduplicated hits = fold keep_better hits []"

text \<open>\<open>by_video.setdefault(hit.video_id, []).append(hit)\<close>\<close>

definition add_to_video :: "raw_hit \<Rightarrow> (int \<times> raw_hit list) list \<Rightarrow> (int \<times> raw_hit list) list" where
  "add_to_video h d =
     AList.update (rh_video_id h) ((case map_of d (rh_video_id h) of None \<Rightarrow> [] | Some hs \<Rightarrow> hs) @ [h]) d"

definition video_group_of :: "(rat \<Rightarrow> rat) \<Rightarrow> rat \<Rightarrow> int \<times> raw_hit list \<Rightarrow> video_group" where
  "video_group_of rnd gap = (\<lambda>(video_id, hits).
     let best = arg_min_list hit_key hits;
         chunks = filter (\<lambda>h. rh_unit_type h = ''transcript_chunk'') hits;
         valid = filter (valid_time rnd) chunks
     in \<lparr>vg_video_id = video_id, vg_hits = hits, vg_best_hit = best, vg_windows = windows_of rnd gap valid,
         vg_unwindowed_chunk_count = int (length chunks) - int (length valid),
         vg_title = rh_title best, vg_uploader = rh_uploader best, vg_bvid = [], vg_video_url = [],
         vg_duration = None, vg_warnings = []\<rparr>)"

definition group_key :: "video_group \<Rightarrow> int \<times> rat \<times> int" where
  "group_key g = (rh_rank (vg_best_hit g), - rh_score (vg_best_hit g), vg_video_id g)"

definition ordered_hits :: "raw_hit list \<Rightarrow> raw_hit list" where
  "ordered_hits raw_hits = sort_key hit_key (map snd (deduplicated raw_hits))"

definition hits_by_video :: "raw_hit list \<Rightarrow> (int \<times> raw_hit list) list" where
  "hits_by_video ordered = fold add_to_video ordered []"

definition consolidate :: "(rat \<Rightarrow> rat) \<Rightarrow> rat \<Rightarrow> raw_hit list \<Rightarrow> consolidation_result" where
  "consolidate rnd gap raw_hits =
     (let ordered = ordered_hits raw_hits;
          groups = sort_key group_key (map (video_group_of rnd gap) (hits_by_video ordered))
      in \<lparr>cr_groups = groups,
          cr_duplicate_raw_hit_count = int (length raw_hits) - int (length ordered),
          cr_unique_video_count = int (length groups),
          cr_total_window_count = sum_list (map (int \<circ> length \<circ> vg_windows) groups)\<rparr>)"

end
