(* ===== verification/Consolidation_Properties.thy ===== *)
theory Consolidation_Properties
  imports Retrieval_Consolidation
begin

text \<open>
  Properties of consolidation: the windows of a video are the maximal runs of hits whose gaps stay
  within the merge gap, and the groups partition the best hit of every unit by video.
\<close>

section \<open>Lists\<close>

lemma sorted_wrt_insort_key:
  assumes sym: "\<And>x y. P x y \<Longrightarrow> P y x"
  shows "sorted_wrt P (insort_key f x xs) \<longleftrightarrow> (\<forall>y \<in> set xs. P x y) \<and> sorted_wrt P xs"
  by (induction xs) (auto simp: set_insort_key intro: sym)

lemma sorted_wrt_sort_key:
  assumes sym: "\<And>x y. P x y \<Longrightarrow> P y x" and "sorted_wrt P xs"
  shows "sorted_wrt P (sort_key f xs)"
  using assms(2) by (induction xs) (auto simp: sorted_wrt_insort_key [of P, OF sym])

lemma arg_min_list_least: "x \<in> set xs \<Longrightarrow> f (arg_min_list f xs) \<le> (f x :: 'b :: linorder)"
  by (metis List.finite_set Min_le empty_iff empty_set f_arg_min_list_f finite_imageI imageI)

section \<open>Windows\<close>

text \<open>The times a valid hit carries are the values of a float.\<close>

definition float_times :: "(rat \<Rightarrow> rat) \<Rightarrow> raw_hit \<Rightarrow> bool" where
  "float_times rnd h \<longleftrightarrow>
     (\<forall>x. rh_start_time h = Float_Time x \<or> rh_end_time h = Float_Time x \<longrightarrow> is_float rnd x)"

text \<open>The end of a run of hits, and that every hit of the run starts within the gap after the ones before it.\<close>

definition run_end :: "(rat \<Rightarrow> rat) \<Rightarrow> raw_hit list \<Rightarrow> rat" where
  "run_end rnd hs = foldl max (hit_end rnd (hd hs)) (map (hit_end rnd) (tl hs))"

definition gap_connected :: "(rat \<Rightarrow> rat) \<Rightarrow> rat \<Rightarrow> raw_hit list \<Rightarrow> bool" where
  "gap_connected rnd gap hs \<longleftrightarrow>
     (\<forall>i. 0 < i \<and> i < length hs \<longrightarrow> hit_start rnd (hs ! i) \<le> rnd (run_end rnd (take i hs) + gap))"

definition good_window :: "(rat \<Rightarrow> rat) \<Rightarrow> rat \<Rightarrow> evidence_window \<Rightarrow> bool" where
  "good_window rnd gap w \<longleftrightarrow>
     (let hs = ew_component_hits w
      in hs \<noteq> [] \<and> ew_window_start w = hit_start rnd (hd hs) \<and> ew_window_end w = run_end rnd hs \<and>
         (\<forall>h \<in> set hs. ew_window_start w \<le> hit_start rnd h \<and> hit_end rnd h \<le> ew_window_end w) \<and>
         gap_connected rnd gap hs \<and> ew_best_hit w \<in> set hs \<and>
         (\<forall>h \<in> set hs. hit_key (ew_best_hit w) \<le> hit_key h))"

text \<open>Two windows are apart when one starts beyond the gap after the other.\<close>

definition apart :: "(rat \<Rightarrow> rat) \<Rightarrow> rat \<Rightarrow> evidence_window \<Rightarrow> evidence_window \<Rightarrow> bool" where
  "apart rnd gap v w \<longleftrightarrow>
     rnd (ew_window_end v + gap) < ew_window_start w \<or> rnd (ew_window_end w + gap) < ew_window_start v"

lemma apart_sym: "apart rnd gap v w \<Longrightarrow> apart rnd gap w v"
  by (auto simp: apart_def)

lemma run_end_snoc: "hs \<noteq> [] \<Longrightarrow> run_end rnd (hs @ [h]) = max (run_end rnd hs) (hit_end rnd h)"
  by (cases hs) (simp_all add: run_end_def)

lemma gap_connected_snoc:
  assumes "gap_connected rnd gap hs" "hs \<noteq> []" "hit_start rnd h \<le> rnd (run_end rnd hs + gap)"
  shows "gap_connected rnd gap (hs @ [h])"
  using assms by (auto simp: gap_connected_def nth_append less_Suc_eq)

lemma good_new_window: "good_window rnd gap (new_window rnd h)"
  by (auto simp: good_window_def new_window_def run_end_def gap_connected_def Let_def)

lemma good_extend_window:
  assumes "good_window rnd gap w" "hit_start rnd h \<le> rnd (ew_window_end w + gap)"
    and "ew_window_start w \<le> hit_start rnd h"
  shows "good_window rnd gap (extend_window rnd h w)"
proof -
  let ?hs = "ew_component_hits w" and ?w = "extend_window rnd h w"
  note good = assms(1) [unfolded good_window_def Let_def]
  note ne = good [THEN conjunct1]
    and start = good [THEN conjunct2, THEN conjunct1]
    and stop = good [THEN conjunct2, THEN conjunct2, THEN conjunct1]
    and inside = good [THEN conjunct2, THEN conjunct2, THEN conjunct2, THEN conjunct1, rule_format]
    and conn = good [THEN conjunct2, THEN conjunct2, THEN conjunct2, THEN conjunct2, THEN conjunct1]
  have parts: "ew_component_hits ?w = ?hs @ [h]" "ew_window_start ?w = ew_window_start w"
    "ew_window_end ?w = max (ew_window_end w) (hit_end rnd h)" "ew_best_hit ?w = arg_min_list hit_key (?hs @ [h])"
    by (simp_all add: extend_window_def)
  have least: "\<forall>x \<in> set (?hs @ [h]). hit_key (arg_min_list hit_key (?hs @ [h])) \<le> hit_key x"
    by (intro ballI arg_min_list_least)
  have conn': "gap_connected rnd gap (?hs @ [h])" using gap_connected_snoc [OF conn ne] assms(2) stop by simp
  have inside': "\<forall>x \<in> set (?hs @ [h]). ew_window_start w \<le> hit_start rnd x \<and>
      hit_end rnd x \<le> max (ew_window_end w) (hit_end rnd h)"
    using inside assms(3) by (simp add: le_max_iff_disj)
  show ?thesis
    unfolding good_window_def Let_def parts
    using ne start stop inside' conn' least arg_min_list_in [of "?hs @ [h]" hit_key]
    by (intro conjI) (simp_all add: run_end_snoc)
qed

text \<open>The windows built so far, for hits processed in the order of their start.\<close>

definition good_windows :: "(rat \<Rightarrow> rat) \<Rightarrow> rat \<Rightarrow> raw_hit list \<Rightarrow> evidence_window list \<Rightarrow> bool" where
  "good_windows rnd gap hs ws \<longleftrightarrow>
     list_all (good_window rnd gap) ws \<and>
     sorted_wrt (\<lambda>v w. rnd (ew_window_end v + gap) < ew_window_start w) ws \<and>
     concat (map ew_component_hits ws) = hs"

lemma add_to_windows_good:
  assumes good: "good_windows rnd gap hs ws"
    and late: "\<And>x. x \<in> set hs \<Longrightarrow> hit_start rnd x \<le> hit_start rnd h"
  shows "good_windows rnd gap (hs @ [h]) (add_to_windows rnd gap h ws)"
proof (cases "ws = []")
  case True
  then show ?thesis using good
    by (simp add: good_windows_def add_to_windows_def good_new_window) (simp add: new_window_def)
next
  case False
  then obtain vs w where ws: "ws = vs @ [w]" by (metis rev_exhaust)
  have w: "good_window rnd gap w" using good by (simp add: good_windows_def ws)
  have before: "\<And>v. v \<in> set vs \<Longrightarrow> rnd (ew_window_end v + gap) < ew_window_start w"
    using good by (simp add: good_windows_def ws sorted_wrt_append)
  have "hd (ew_component_hits w) \<in> set hs"
    using w good by (auto simp: good_window_def good_windows_def ws Let_def)
  then have start: "ew_window_start w \<le> hit_start rnd h" using late w by (auto simp: good_window_def Let_def)
  show ?thesis
  proof (cases "hit_start rnd h \<le> rnd (ew_window_end w + gap)")
    case True
    then have "add_to_windows rnd gap h ws = vs @ [extend_window rnd h w]"
      by (simp add: add_to_windows_def ws)
    then show ?thesis
      using good good_extend_window [OF w True start]
      by (simp add: good_windows_def ws sorted_wrt_append) (simp add: extend_window_def)
  next
    case False
    then have "add_to_windows rnd gap h ws = ws @ [new_window rnd h]"
      by (simp add: add_to_windows_def ws)
    moreover have "rnd (ew_window_end v + gap) < hit_start rnd h" if "v \<in> set ws" for v
      using that before [of v] start False by (auto simp: ws)
    ultimately show ?thesis
      using good good_new_window [of rnd gap h]
      by (simp add: good_windows_def sorted_wrt_append) (simp add: new_window_def)
  qed
qed

lemma fold_windows_good:
  assumes "good_windows rnd gap hs ws"
    and "sorted (map (hit_start rnd) (hs @ new))"
  shows "good_windows rnd gap (hs @ new) (fold (add_to_windows rnd gap) new ws)"
  using assms
proof (induction new arbitrary: hs ws)
  case (Cons h new)
  have "good_windows rnd gap (hs @ [h]) (add_to_windows rnd gap h ws)"
    using Cons.prems by (intro add_to_windows_good) (auto simp: sorted_append)
  then show ?case using Cons.IH [of "hs @ [h]"] Cons.prems(2) by simp
qed simp

lemma hit_start_mono:
  assumes "float_rounding rnd" "valid_time rnd a" "valid_time rnd b" "float_times rnd a" "float_times rnd b"
    and "time_number (rh_start_time a) \<le> time_number (rh_start_time b)"
  shows "hit_start rnd a \<le> hit_start rnd b"
proof -
  have num: "hit_start rnd h = rnd (time_number (rh_start_time h))"
    if "valid_time rnd h" "float_times rnd h" for h
    using that by (cases "rh_start_time h") (auto simp: valid_time_def hit_start_def float_times_def is_float_def)
  show ?thesis using assms by (simp add: num float_rounding_mono)
qed

lemma temporal_sorted:
  assumes "float_rounding rnd" "list_all (valid_time rnd) hits" "list_all (float_times rnd) hits"
  shows "sorted (map (hit_start rnd) (sort_key temporal_key hits))"
proof -
  have "sorted (map temporal_key (sort_key temporal_key hits))" by simp
  then have "sorted_wrt (\<lambda>a b. temporal_key a \<le> temporal_key b) (sort_key temporal_key hits)"
    by (simp only: sorted_map)
  then have "sorted_wrt (\<lambda>a b. hit_start rnd a \<le> hit_start rnd b) (sort_key temporal_key hits)"
  proof (rule sorted_wrt_mono_rel [rotated])
    fix a b
    assume "a \<in> set (sort_key temporal_key hits)" "b \<in> set (sort_key temporal_key hits)"
      "temporal_key a \<le> temporal_key b"
    then show "hit_start rnd a \<le> hit_start rnd b"
      using assms by (intro hit_start_mono [OF assms(1)]) (auto simp: list_all_iff temporal_key_def)
  qed
  then show ?thesis by (simp only: sorted_map)
qed

lemma merge_windows_good:
  assumes "float_rounding rnd" "list_all (valid_time rnd) hits" "list_all (float_times rnd) hits"
  shows "good_windows rnd gap (sort_key temporal_key hits) (merge_windows rnd gap hits)"
  using fold_windows_good [of rnd gap "[]" "[]" "sort_key temporal_key hits"] temporal_sorted [OF assms]
  by (simp add: merge_windows_def good_windows_def)

lemma windows_of_facts:
  assumes "float_rounding rnd" "list_all (valid_time rnd) hits" "list_all (float_times rnd) hits"
  shows "list_all (good_window rnd gap) (windows_of rnd gap hits)"
    and "sorted_wrt (apart rnd gap) (windows_of rnd gap hits)"
    and "mset (concat (map ew_component_hits (windows_of rnd gap hits))) = mset hits"
    and "sorted (map window_key (windows_of rnd gap hits))"
proof -
  note good = merge_windows_good [OF assms, of gap, unfolded good_windows_def]
  show "list_all (good_window rnd gap) (windows_of rnd gap hits)"
    using good by (auto simp: windows_of_def list_all_iff)
  have "sorted_wrt (apart rnd gap) (merge_windows rnd gap hits)"
    using good by (auto simp: apart_def elim!: sorted_wrt_mono_rel [rotated])
  then show "sorted_wrt (apart rnd gap) (windows_of rnd gap hits)"
    unfolding windows_of_def by (rule sorted_wrt_sort_key [rotated]) (rule apart_sym)
  have "mset (concat (map ew_component_hits (sort_key f ws))) = mset (concat (map ew_component_hits ws))"
    for f :: "evidence_window \<Rightarrow> int \<times> rat \<times> rat" and ws
    by (simp add: mset_concat) (metis mset_map mset_sort sum_mset_sum_list)
  then show "mset (concat (map ew_component_hits (windows_of rnd gap hits))) = mset hits"
    using good by (simp add: windows_of_def)
  show "sorted (map window_key (windows_of rnd gap hits))" by (simp add: windows_of_def)
qed


section \<open>Groups\<close>

text \<open>A dictionary of the first best hit of every unit among \<open>hits\<close>.\<close>

definition best_per_unit :: "raw_hit list \<Rightarrow> (string \<times> raw_hit) list \<Rightarrow> bool" where
  "best_per_unit hits d \<longleftrightarrow>
     distinct (map fst d) \<and>
     (\<forall>u. case map_of d u of
            None \<Rightarrow> u \<notin> rh_unit_id ` set hits
          | Some h \<Rightarrow> h \<in> set hits \<and> rh_unit_id h = u \<and>
              (\<forall>x \<in> set hits. rh_unit_id x = u \<longrightarrow> hit_key h \<le> hit_key x))"

lemma keep_better_best:
  assumes "best_per_unit hits d"
  shows "best_per_unit (hits @ [h]) (keep_better h d)"
proof -
  let ?u = "rh_unit_id h"
  have old: "case map_of d u of None \<Rightarrow> u \<notin> rh_unit_id ` set hits
      | Some c \<Rightarrow> c \<in> set hits \<and> rh_unit_id c = u \<and> (\<forall>x \<in> set hits. rh_unit_id x = u \<longrightarrow> hit_key c \<le> hit_key x)"
    for u using assms by (simp add: best_per_unit_def)
  have dist: "distinct (map fst (keep_better h d))"
    using assms by (auto simp: keep_better_def best_per_unit_def distinct_update split: option.splits)
  have maps: "map_of (keep_better h d) u =
      (if u = ?u then Some (case map_of d ?u of None \<Rightarrow> h | Some c \<Rightarrow> if hit_key h < hit_key c then h else c)
       else map_of d u)" for u
    by (simp add: keep_better_def map_of_update split: option.splits)
  have "case map_of (keep_better h d) u of None \<Rightarrow> u \<notin> rh_unit_id ` set (hits @ [h])
      | Some c \<Rightarrow> c \<in> set (hits @ [h]) \<and> rh_unit_id c = u \<and>
          (\<forall>x \<in> set (hits @ [h]). rh_unit_id x = u \<longrightarrow> hit_key c \<le> hit_key x)" for u
  proof (cases "u = ?u")
    case False
    then show ?thesis using old [of u] by (auto simp: maps split: option.splits)
  next
    case True
    show ?thesis
    proof (cases "map_of d ?u")
      case None
      then have "?u \<notin> rh_unit_id ` set hits" using old [of ?u] by simp
      then have "rh_unit_id x \<noteq> ?u" if "x \<in> set hits" for x using that by (metis image_eqI)
      then show ?thesis using None True by (simp add: maps)
    next
      case (Some c)
      then have c: "c \<in> set hits" "rh_unit_id c = ?u" "\<And>x. x \<in> set hits \<Longrightarrow> rh_unit_id x = ?u \<Longrightarrow> hit_key c \<le> hit_key x"
        using old [of ?u] by auto
      show ?thesis
      proof (cases "hit_key h < hit_key c")
        case less: True
        have "hit_key h \<le> hit_key x" if "x \<in> set hits" "rh_unit_id x = ?u" for x
          using less c(3) [OF that] by order
        then show ?thesis using Some True less by (simp add: maps)
      next
        case False
        then have "hit_key c \<le> hit_key h" by order
        then show ?thesis using Some True False c by (simp add: maps)
      qed
    qed
  qed
  then show ?thesis using dist by (simp add: best_per_unit_def)
qed

lemma deduplicated_best: "best_per_unit hits (deduplicated hits)"
proof (induction hits rule: rev_induct)
  case Nil
  then show ?case by (simp add: best_per_unit_def deduplicated_def)
next
  case (snoc h hits)
  then show ?case using keep_better_best by (simp add: deduplicated_def)
qed

lemma best_per_unit_lookup:
  assumes "best_per_unit hits d"
  shows "map_of d u = None \<Longrightarrow> u \<notin> rh_unit_id ` set hits"
    and "map_of d u = Some h \<Longrightarrow> h \<in> set hits \<and> rh_unit_id h = u \<and>
      (\<forall>x \<in> set hits. rh_unit_id x = u \<longrightarrow> hit_key h \<le> hit_key x)"
proof -
  note now = assms [unfolded best_per_unit_def, THEN conjunct2, THEN spec, of u]
  show "u \<notin> rh_unit_id ` set hits" if "map_of d u = None"
    using now unfolding that option.case .
  show "h \<in> set hits \<and> rh_unit_id h = u \<and> (\<forall>x \<in> set hits. rh_unit_id x = u \<longrightarrow> hit_key h \<le> hit_key x)"
    if "map_of d u = Some h"
    using now unfolding that option.case .
qed

lemma best_per_unit_entry:
  assumes "best_per_unit hits d" "(u, h) \<in> set d"
  shows "h \<in> set hits" and "rh_unit_id h = u"
    and "x \<in> set hits \<Longrightarrow> rh_unit_id x = u \<Longrightarrow> hit_key h \<le> hit_key x"
proof -
  have "map_of d u = Some h" using assms by (simp add: best_per_unit_def)
  note facts = best_per_unit_lookup(2) [OF assms(1) this]
  show "h \<in> set hits" "rh_unit_id h = u" using facts by blast+
  show "x \<in> set hits \<Longrightarrow> rh_unit_id x = u \<Longrightarrow> hit_key h \<le> hit_key x" using facts by blast
qed

lemma map_snd_unit_ids: "best_per_unit hits d \<Longrightarrow> map rh_unit_id (map snd d) = map fst d"
  by (auto intro: best_per_unit_entry(2))

lemma best_per_unit_keys:
  assumes "best_per_unit hits d"
  shows "set (map fst d) = rh_unit_id ` set hits"
proof -
  have "u \<in> set (map fst d) \<longleftrightarrow> u \<in> rh_unit_id ` set hits" for u
  proof (cases "map_of d u")
    case None
    then have "u \<notin> rh_unit_id ` set hits" by (rule best_per_unit_lookup(1) [OF assms])
    then show ?thesis using None by (simp add: map_of_eq_None_iff)
  next
    case (Some h)
    then have mem: "(u, h) \<in> set d" by (rule map_of_SomeD)
    have "u \<in> rh_unit_id ` set hits"
      using imageI [OF best_per_unit_entry(1) [OF assms mem], of rh_unit_id]
      unfolding best_per_unit_entry(2) [OF assms mem] .
    then show ?thesis using mem by force
  qed
  then show ?thesis by blast
qed

text \<open>What the ordered hits of a search are: the best hit of every unit, sorted.\<close>

lemma ordered_hits_facts:
  shows "distinct (map rh_unit_id (ordered_hits raw))"
    and "set (map rh_unit_id (ordered_hits raw)) = rh_unit_id ` set raw"
    and "set (ordered_hits raw) \<subseteq> set raw"
    and "h \<in> set (ordered_hits raw) \<Longrightarrow> x \<in> set raw \<Longrightarrow> rh_unit_id x = rh_unit_id h \<Longrightarrow> hit_key h \<le> hit_key x"
    and "sorted (map hit_key (ordered_hits raw))"
proof -
  note best = deduplicated_best [of raw]
  have ids: "map rh_unit_id (map snd (deduplicated raw)) = map fst (deduplicated raw)"
    by (rule map_snd_unit_ids [OF best])
  show "distinct (map rh_unit_id (ordered_hits raw))"
    unfolding ordered_hits_def distinct_map_sort_key ids using best by (simp add: best_per_unit_def)
  show "set (map rh_unit_id (ordered_hits raw)) = rh_unit_id ` set raw"
    unfolding ordered_hits_def set_map_sort_key ids by (rule best_per_unit_keys [OF best])
  show "set (ordered_hits raw) \<subseteq> set raw"
    using best_per_unit_entry(1) [OF best] by (auto simp: ordered_hits_def)
  show "h \<in> set (ordered_hits raw) \<Longrightarrow> x \<in> set raw \<Longrightarrow> rh_unit_id x = rh_unit_id h \<Longrightarrow> hit_key h \<le> hit_key x"
    using best_per_unit_entry(2,3) [OF best] by (auto simp: ordered_hits_def)
  show "sorted (map hit_key (ordered_hits raw))" by (simp add: ordered_hits_def)
qed

text \<open>Grouping keeps the hits of each video in their order.\<close>

definition grouped :: "raw_hit list \<Rightarrow> (int \<times> raw_hit list) list \<Rightarrow> bool" where
  "grouped hits d \<longleftrightarrow>
     distinct (map fst d) \<and>
     (\<forall>v. map_of d v = (if v \<in> rh_video_id ` set hits then Some (filter (\<lambda>h. rh_video_id h = v) hits) else None))"

lemma hits_by_video_grouped: "grouped hits (hits_by_video hits)"
proof (induction hits rule: rev_induct)
  case Nil
  then show ?case by (simp add: grouped_def hits_by_video_def)
next
  case (snoc h hits)
  have none: "filter (\<lambda>x. rh_video_id x = v) hits = []" if "v \<notin> rh_video_id ` set hits" for v
    using that by (auto simp: filter_empty_conv)
  have "hits_by_video (hits @ [h]) = add_to_video h (hits_by_video hits)" by (simp add: hits_by_video_def)
  then show ?case
    using snoc none by (auto simp: grouped_def add_to_video_def map_of_update distinct_update)
qed

lemma hits_by_video_entry:
  "(v, hs) \<in> set (hits_by_video hits) \<longleftrightarrow>
     v \<in> rh_video_id ` set hits \<and> hs = filter (\<lambda>h. rh_video_id h = v) hits"
proof -
  note g = hits_by_video_grouped [of hits, unfolded grouped_def]
  have "(v, hs) \<in> set (hits_by_video hits) \<longleftrightarrow> map_of (hits_by_video hits) v = Some hs"
    by (rule map_of_eq_Some_iff [OF g [THEN conjunct1], symmetric])
  also have "map_of (hits_by_video hits) v =
      (if v \<in> rh_video_id ` set hits then Some (filter (\<lambda>h. rh_video_id h = v) hits) else None)"
    using g by blast
  finally show ?thesis by (cases "v \<in> rh_video_id ` set hits") auto
qed

lemma arg_min_list_sorted: "xs \<noteq> [] \<Longrightarrow> sorted (map f xs) \<Longrightarrow> arg_min_list f xs = hd xs"
  by (induction f xs rule: arg_min_list.induct) (auto simp: Let_def dest: arg_min_list_in)


lemma hits_by_video_keys: "set (map fst (hits_by_video hits)) = rh_video_id ` set hits"
proof -
  have "v \<in> set (map fst (hits_by_video hits)) \<longleftrightarrow> v \<in> rh_video_id ` set hits" for v
  proof -
    have "v \<in> set (map fst (hits_by_video hits)) \<longleftrightarrow> (\<exists>hs. (v, hs) \<in> set (hits_by_video hits))" by force
    then show ?thesis unfolding hits_by_video_entry by simp
  qed
  then show ?thesis by blast
qed

lemma sorted_map_filter: "sorted (map f xs) \<Longrightarrow> sorted (map f (filter P xs))"
  by (simp only: sorted_map sorted_wrt_filter)

text \<open>The group of one video, from the ordered hits.\<close>

lemma group_of_video:
  assumes "g \<in> set (cr_groups (consolidate rnd gap raw))"
  defines "hs \<equiv> filter (\<lambda>h. rh_video_id h = vg_video_id g) (ordered_hits raw)"
    and "valid \<equiv> filter (valid_time rnd) (filter (\<lambda>h. rh_unit_type h = ''transcript_chunk'')
           (filter (\<lambda>h. rh_video_id h = vg_video_id g) (ordered_hits raw)))"
  shows "hs \<noteq> []" and "vg_hits g = hs" and "vg_best_hit g = hd hs"
    and "vg_windows g = windows_of rnd gap valid"
    and "vg_unwindowed_chunk_count g =
      int (length (filter (\<lambda>h. rh_unit_type h = ''transcript_chunk'' \<and> \<not> valid_time rnd h) hs))"
    and "vg_title g = rh_title (hd hs)" and "vg_uploader g = rh_uploader (hd hs)"
proof -
  obtain v vs where e: "(v, vs) \<in> set (hits_by_video (ordered_hits raw))" "g = video_group_of rnd gap (v, vs)"
    using assms(1) by (auto simp: consolidate_def Let_def)
  have v: "vg_video_id g = v" by (simp add: e(2) video_group_of_def Let_def)
  have vs: "vs = hs" and ne: "hs \<noteq> []"
    using e(1) unfolding hits_by_video_entry hs_def v by (auto simp: filter_empty_conv)
  show "hs \<noteq> []" by (rule ne)
  show "vg_hits g = hs" by (simp add: e(2) vs video_group_of_def Let_def)
  have "sorted (map hit_key hs)" unfolding hs_def by (intro sorted_map_filter ordered_hits_facts(5))
  then have best: "arg_min_list hit_key hs = hd hs" by (rule arg_min_list_sorted [OF ne])
  show "vg_best_hit g = hd hs" "vg_title g = rh_title (hd hs)" "vg_uploader g = rh_uploader (hd hs)"
    by (simp_all add: e(2) vs video_group_of_def Let_def best)
  show "vg_windows g = windows_of rnd gap valid"
    unfolding valid_def hs_def [symmetric] vs [symmetric]
    by (simp add: e(2) video_group_of_def Let_def)
  have "int (length (filter P xs)) - int (length (filter Q (filter P xs))) =
      int (length (filter (\<lambda>h. P h \<and> \<not> Q h) xs))"
    for P Q and xs :: "raw_hit list" by (induction xs) auto
  then show "vg_unwindowed_chunk_count g =
      int (length (filter (\<lambda>h. rh_unit_type h = ''transcript_chunk'' \<and> \<not> valid_time rnd h) hs))"
    by (simp only: e(2) vs video_group_of_def Let_def prod.case video_group.simps)
qed

section \<open>Properties\<close>

text \<open>
  C34: The windows of a video are the maximal runs of its transcript hits with a valid time: every
  such hit lies in exactly one window, a window spans exactly the times of its hits, each hit of it
  starts within the merge gap after the hits before it, and any two windows are further apart than
  the gap; its best hit has the smallest key, and the windows are sorted by best rank, score and
  start. The hits without a valid time are counted, not windowed.
\<close>

theorem consolidated_windows:
  assumes "float_rounding rnd" and "list_all (float_times rnd) raw"
    and "g \<in> set (cr_groups (consolidate rnd gap raw))"
  shows "list_all (good_window rnd gap) (vg_windows g) \<and> sorted_wrt (apart rnd gap) (vg_windows g) \<and>
    sorted (map window_key (vg_windows g)) \<and>
    mset (concat (map ew_component_hits (vg_windows g))) =
      mset (filter (\<lambda>h. rh_unit_type h = ''transcript_chunk'' \<and> valid_time rnd h) (vg_hits g)) \<and>
    vg_unwindowed_chunk_count g =
      int (length (filter (\<lambda>h. rh_unit_type h = ''transcript_chunk'' \<and> \<not> valid_time rnd h) (vg_hits g)))"
proof -
  note group = group_of_video [OF assms(3)]
  let ?valid = "filter (valid_time rnd) (filter (\<lambda>h. rh_unit_type h = ''transcript_chunk'') (vg_hits g))"
  have valid: "list_all (valid_time rnd) ?valid" by (simp add: list_all_iff)
  have "set ?valid \<subseteq> set raw" using ordered_hits_facts(3) [of raw] by (auto simp: group(2))
  then have floats: "list_all (float_times rnd) ?valid" using assms(2) by (auto simp: list_all_iff)
  have "?valid = filter (\<lambda>h. rh_unit_type h = ''transcript_chunk'' \<and> valid_time rnd h) (vg_hits g)"
    by (simp add: conj_commute)
  then show ?thesis
    using windows_of_facts [OF assms(1) valid floats, of gap] group(2,4,5) by simp
qed

text \<open>
  Consolidation keeps one hit per unit, the first one with the smallest key, and groups the kept
  hits by video: every video of a kept hit has one group, which holds exactly its kept hits in the
  order of their key, with the best of them first; the groups are sorted by the rank and score of
  their best hit. The counts are the number of dropped hits, of groups and of windows.
\<close>

lemma consolidated_groups:
  fixes raw rnd gap
  defines "R \<equiv> consolidate rnd gap raw" and "kept \<equiv> ordered_hits raw"
  shows "distinct (map rh_unit_id kept) \<and> set (map rh_unit_id kept) = rh_unit_id ` set raw \<and>
    set kept \<subseteq> set raw \<and> sorted (map hit_key kept) \<and>
    (\<forall>h \<in> set kept. \<forall>x \<in> set raw. rh_unit_id x = rh_unit_id h \<longrightarrow> hit_key h \<le> hit_key x) \<and>
    distinct (map vg_video_id (cr_groups R)) \<and>
    set (map vg_video_id (cr_groups R)) = rh_video_id ` set kept \<and>
    sorted (map group_key (cr_groups R)) \<and>
    (\<forall>g \<in> set (cr_groups R). vg_hits g = filter (\<lambda>h. rh_video_id h = vg_video_id g) kept \<and>
       vg_hits g \<noteq> [] \<and> vg_best_hit g = hd (vg_hits g)) \<and>
    cr_duplicate_raw_hit_count R = int (length raw) - int (length kept) \<and>
    cr_unique_video_count R = int (card (rh_video_id ` set kept)) \<and>
    cr_total_window_count R = (\<Sum>g \<leftarrow> cr_groups R. int (length (vg_windows g)))"
proof -
  have ids: "map vg_video_id (map (video_group_of rnd gap) d) = map fst d" for d
    by (induction d) (auto simp: video_group_of_def Let_def)
  have dist: "distinct (map fst (hits_by_video kept))"
    using hits_by_video_grouped [of kept] by (simp add: grouped_def)
  have groups: "cr_groups R = sort_key group_key (map (video_group_of rnd gap) (hits_by_video kept))"
    and counts: "cr_duplicate_raw_hit_count R = int (length raw) - int (length kept)"
      "cr_unique_video_count R = int (length (cr_groups R))"
      "cr_total_window_count R = (\<Sum>g \<leftarrow> cr_groups R. int (length (vg_windows g)))"
    by (simp_all add: R_def consolidate_def Let_def kept_def comp_def)
  have d: "distinct (map vg_video_id (cr_groups R))" unfolding groups distinct_map_sort_key ids by (rule dist)
  have s: "set (map vg_video_id (cr_groups R)) = rh_video_id ` set kept"
    unfolding groups set_map_sort_key ids by (rule hits_by_video_keys)
  have n: "length (cr_groups R) = card (rh_video_id ` set kept)"
    using distinct_card [OF d] s by simp
  have g: "\<forall>g \<in> set (cr_groups R). vg_hits g = filter (\<lambda>h. rh_video_id h = vg_video_id g) kept \<and>
       vg_hits g \<noteq> [] \<and> vg_best_hit g = hd (vg_hits g)"
    using group_of_video(1-3) unfolding R_def kept_def by metis
  have "sorted (map group_key (cr_groups R))" by (simp add: groups)
  then show ?thesis
    using ordered_hits_facts [where raw = raw] d s g counts n unfolding kept_def by auto
qed

definition sample_hit :: "string \<Rightarrow> int \<Rightarrow> int \<Rightarrow> int \<Rightarrow> int \<Rightarrow> raw_hit" where
  "sample_hit u v rank s e = \<lparr>rh_unit_id = u, rh_video_id = v, rh_unit_type = ''transcript_chunk'', rh_rank = rank,
     rh_score = 1, rh_retrieval_method = ''hybrid'', rh_lexical_rank = None, rh_lexical_score = None,
     rh_dense_rank = None, rh_dense_score = None, rh_rrf_score = None, rh_title = ''t'', rh_uploader = ''u'',
     rh_subtitle_source = ''ai'', rh_start_time = Int_Time s, rh_end_time = Int_Time e, rh_excerpt = []\<rparr>"

definition sample_hits :: "raw_hit list" where
  "sample_hits = [sample_hit ''a'' 7 1 0 10, sample_hit ''b'' 7 2 25 30, sample_hit ''c'' 7 3 90 95,
     sample_hit ''a'' 7 4 0 10]"

lemma sample_float_times: "list_all (float_times rnd) sample_hits"
  by (simp add: sample_hits_def sample_hit_def float_times_def)

lemma consolidated_windows_witness:
  "\<exists>g \<in> set (cr_groups (consolidate round_down 20 sample_hits)).
     vg_video_id g = 7 \<and> sorted_wrt (apart round_down 20) (vg_windows g)"
proof -
  have ne: "ordered_hits sample_hits \<noteq> []"
  proof
    assume "ordered_hits sample_hits = []"
    then have "rh_unit_id ` set sample_hits = {}"
      using ordered_hits_facts(2) [of sample_hits] by (simp only: list.map list.set)
    then show False by (simp add: sample_hits_def)
  qed
  let ?h = "hd (ordered_hits sample_hits)"
  have h: "?h \<in> set (ordered_hits sample_hits)" by (rule hd_in_set [OF ne])
  have "list_all (\<lambda>h. rh_video_id h = 7) sample_hits" by (simp add: sample_hits_def sample_hit_def)
  moreover have "?h \<in> set sample_hits" by (rule subsetD [OF ordered_hits_facts(3) h])
  ultimately have seven: "rh_video_id ?h = 7" by (simp only: list_all_iff)
  have "7 \<in> rh_video_id ` set (ordered_hits sample_hits)"
    using imageI [OF h, of rh_video_id] unfolding seven .
  then have "(7, filter (\<lambda>h. rh_video_id h = 7) (ordered_hits sample_hits)) \<in>
      set (hits_by_video (ordered_hits sample_hits))" by (simp add: hits_by_video_entry)
  then obtain g where g: "g \<in> set (cr_groups (consolidate round_down 20 sample_hits))" "vg_video_id g = 7"
    by (force simp: consolidate_def Let_def video_group_of_def)
  then show ?thesis
    using consolidated_windows [OF round_down_float sample_float_times g(1)] by blast
qed

end
