(* ===== verification/Ask_Runtime.thy ===== *)
theory Ask_Runtime
  imports Python_Values
begin

text \<open>
  Values the ask package reads from JSON columns and keeps in dictionaries, and the jump URL of
  src/shiliu/retrieval/product_search.py. The conversions of Python's runtime that take any value
  (\<open>str\<close>, \<open>float\<close>, \<open>int\<close>, the sum of floats, the texts of the json module) and of urllib are the fields of the record \<open>runtime\<close>; \<open>None\<close> stands for a value
  \<open>float\<close> or \<open>int\<close> rejects with TypeError or ValueError, and for one pydantic's float field rejects.
\<close>

datatype jvalue =
    VNull
  | VBool bool
  | VInt int
  | VFloat rat
  | VStr string
  | VList "jvalue list"
  | VDict "(string \<times> jvalue) list"

fun truthy :: "jvalue \<Rightarrow> bool" where
  "truthy VNull = False"
| "truthy (VBool b) = b"
| "truthy (VInt i) = (i \<noteq> 0)"
| "truthy (VFloat x) = (x \<noteq> 0)"
| "truthy (VStr s) = (s \<noteq> [])"
| "truthy (VList vs) = (vs \<noteq> [])"
| "truthy (VDict kvs) = (kvs \<noteq> [])"

type_synonym jdict = "(string \<times> jvalue) list"

text \<open>\<open>d.get(k)\<close>\<close>

definition dict_get :: "jdict \<Rightarrow> string \<Rightarrow> jvalue" where
  "dict_get d k = (case map_of d k of None \<Rightarrow> VNull | Some v \<Rightarrow> v)"

text \<open>\<open>isinstance(v, int)\<close> holds of booleans too, which are the integers 0 and 1.\<close>

fun int_instance :: "jvalue \<Rightarrow> int option" where
  "int_instance (VInt i) = Some i"
| "int_instance (VBool b) = Some (if b then 1 else 0)"
| "int_instance v = None"

fun dict_instance :: "jvalue \<Rightarrow> jdict option" where
  "dict_instance (VDict d) = Some d"
| "dict_instance v = None"

text \<open>\<open>v == i\<close> for an integer: a boolean or a float may equal it.\<close>

fun equals_int :: "jvalue \<Rightarrow> int \<Rightarrow> bool" where
  "equals_int (VInt j) i = (j = i)"
| "equals_int (VBool b) i = ((if b then 1 else 0) = i)"
| "equals_int (VFloat x) i = (x = of_int i)"
| "equals_int v i = False"

record split_url =
  su_scheme :: string
  su_netloc :: string
  su_path :: string
  su_query :: string
  su_fragment :: string

record runtime =
  rt_str :: "jvalue \<Rightarrow> string"
  rt_float :: "jvalue \<Rightarrow> rat option"
  rt_float_field :: "jvalue \<Rightarrow> rat option"
  rt_int :: "jvalue \<Rightarrow> int option"
  rt_sum :: "rat list \<Rightarrow> rat"
  rt_float_repr :: "rat \<Rightarrow> string"
  rt_json_dumps :: "jvalue \<Rightarrow> string"
  rt_json_loads :: "string \<Rightarrow> jvalue result"
  rt_urlsplit :: "string \<Rightarrow> split_url result"
  rt_parse_qsl :: "string \<Rightarrow> (string \<times> string) list result"
  rt_urlencode :: "(string \<times> string) list \<Rightarrow> string"
  rt_urlunsplit :: "split_url \<Rightarrow> string"

text \<open>\<open>str(v or "")\<close>\<close>

definition str_or_empty :: "runtime \<Rightarrow> jvalue \<Rightarrow> string" where
  "str_or_empty R v = rt_str R (if truthy v then v else VStr [])"

text \<open>\<open>canonical_json\<close> of src/shiliu/evidence/decision.py and \<open>sha256_identity\<close>, of a value with floats.\<close>

fun value_text :: "runtime \<Rightarrow> jvalue \<Rightarrow> string" where
  "value_text R VNull = ''null''"
| "value_text R (VBool b) = (if b then ''true'' else ''false'')"
| "value_text R (VInt i) = int_text i"
| "value_text R (VFloat x) = rt_float_repr R x"
| "value_text R (VStr s) = string_text s"
| "value_text R (VList vs) = ''['' @ join '','' (map (value_text R) vs) @ '']''"
| "value_text R (VDict kvs) = object_text (map (\<lambda>(k, v). (k, value_text R v)) kvs)"

definition value_identity :: "platform \<Rightarrow> runtime \<Rightarrow> jvalue \<Rightarrow> string" where
  "value_identity P R v = ''sha256:'' @ sha256_hexdigest P (utf8_encode (value_text R v))"

definition vstrs :: "string list \<Rightarrow> jvalue" where
  "vstrs ss = VList (map VStr ss)"

section \<open>Jump URLs\<close>

definition jump_base :: "string \<Rightarrow> string \<Rightarrow> string" where
  "jump_base video_url bvid =
     (let base = strip video_url; identity = strip bvid;
          base = (if base = [] \<and> identity \<noteq> [] then ''https://www.bilibili.com/video/'' @ identity else base)
      in if take 2 base = ''//'' then ''https:'' @ base else base)"

definition jump_seconds :: "runtime \<Rightarrow> jvalue \<Rightarrow> int" where
  "jump_seconds R jump_time =
     (case rt_float R (if truthy jump_time then jump_time else VInt 0) of None \<Rightarrow> 0 | Some x \<Rightarrow> max 0 \<lfloor>x\<rfloor>)"

definition build_bilibili_jump_url :: "runtime \<Rightarrow> string \<Rightarrow> string \<Rightarrow> jvalue \<Rightarrow> string option result" where
  "build_bilibili_jump_url R video_url bvid jump_time =
     (let base = jump_base video_url bvid; seconds = jump_seconds R jump_time
      in if base = [] then Inr None
         else ebind (rt_urlsplit R base) (\<lambda>parsed.
           if su_scheme parsed \<notin> {''http'', ''https''} \<or> su_netloc parsed = [] then Inr None
           else ebind (rt_parse_qsl R (su_query parsed)) (\<lambda>pairs.
             let query = filter (\<lambda>(key, v). key \<noteq> ''t'') pairs @ [(''t'', int_text seconds)]
             in Inr (Some (rt_urlunsplit R (parsed\<lparr>su_query := rt_urlencode R query\<rparr>))))))"

text \<open>A runtime for the examples: it knows one site and no query.\<close>

definition sample_runtime :: runtime where
  "sample_runtime =
     \<lparr>rt_str = (\<lambda>v. case v of VStr s \<Rightarrow> s | VInt i \<Rightarrow> int_text i | _ \<Rightarrow> ''value''),
      rt_float = (\<lambda>v. case v of VInt i \<Rightarrow> Some (of_int i) | VFloat x \<Rightarrow> Some x | _ \<Rightarrow> None),
      rt_float_field = (\<lambda>v. case v of VInt i \<Rightarrow> Some (of_int i) | VFloat x \<Rightarrow> Some x | _ \<Rightarrow> None),
      rt_int = (\<lambda>v. case v of VInt i \<Rightarrow> Some i | _ \<Rightarrow> None), rt_sum = sum_list,
      rt_float_repr = (\<lambda>x. ''1.0''), rt_json_dumps = (\<lambda>_. ''{}''), rt_json_loads = (\<lambda>_. Inr (VList [])),
      rt_urlsplit = (\<lambda>s. Inr \<lparr>su_scheme = ''https'', su_netloc = ''www.bilibili.com'', su_path = ''/video'',
                            su_query = [], su_fragment = []\<rparr>),
      rt_parse_qsl = (\<lambda>_. Inr []),
      rt_urlencode = (\<lambda>q. concat (map (\<lambda>(k, v). k @ ''='' @ v) q)),
      rt_urlunsplit = (\<lambda>u. su_scheme u @ ''://'' @ su_netloc u @ su_path u @ ''?'' @ su_query u)\<rparr>"

end
