(* ===== verification/Ask_Candidates.thy ===== *)
theory Ask_Candidates
  imports Ask_Runtime
begin

text \<open>
  The disclosure of retrieved candidates, src/shiliu/ask/candidates.py, with its two contract models
  of src/shiliu/ask/contracts.py. The five tables it reads are lists of rows in the order PostgreSQL
  returns them; the projector issues SELECTs only. The title of a missing video is Chinese text and
  so an argument, \<open>missing_title\<close>.
\<close>

section \<open>Contracts\<close>

datatype candidate_kind = Transcript_Candidate | Metadata_Lead

datatype identity_status = Current_Identity | Stale_Identity | Unavailable_Identity

record retrieved_candidate =
  ca_kind :: candidate_kind
  ca_identity :: identity_status
  ca_search_trace_id :: string
  ca_search_query :: string
  ca_search_rank :: int
  ca_video_id :: int
  ca_title :: string
  ca_video_status :: string
  ca_unit_id :: "string option"
  ca_start_time :: "rat option"
  ca_end_time :: "rat option"
  ca_excerpt :: "string option"
  ca_jump_url :: "string option"
  ca_detail_url :: "string option"

definition not_negative :: "rat option \<Rightarrow> bool" where
  "not_negative t \<longleftrightarrow> (case t of None \<Rightarrow> True | Some x \<Rightarrow> 0 \<le> x)"

definition valid_candidate :: "retrieved_candidate \<Rightarrow> bool" where
  "valid_candidate c \<longleftrightarrow>
     1 \<le> ca_search_rank c \<and> 1 \<le> ca_video_id c \<and> not_negative (ca_start_time c) \<and> not_negative (ca_end_time c) \<and>
     \<not> (ca_kind c = Metadata_Lead \<and>
        \<not> (ca_unit_id c = None \<and> ca_start_time c = None \<and> ca_end_time c = None \<and> ca_excerpt c = None)) \<and>
     \<not> (ca_kind c = Transcript_Candidate \<and> ca_identity c = Current_Identity \<and>
        (ca_unit_id c \<in> {None, Some []} \<or> ca_start_time c = None \<or> ca_end_time c = None)) \<and>
     (case (ca_start_time c, ca_end_time c) of (Some s, Some e) \<Rightarrow> \<not> e < s | _ \<Rightarrow> True)"

definition mk_candidate :: "retrieved_candidate \<Rightarrow> retrieved_candidate result" where
  "mk_candidate c = (if valid_candidate c then Inr c else Inl Validation_Error)"

record disclosure =
  ds_candidates :: "retrieved_candidate list"
  ds_inspected_search_trace_count :: int
  ds_available_presentation_count :: int
  ds_failed_or_unavailable_trace_count :: int
  ds_reconstructed_candidate_count :: int
  ds_truncated :: bool
  ds_empty_reason :: "string option"

definition mk_disclosure :: "disclosure \<Rightarrow> disclosure result" where
  "mk_disclosure d =
     (if length (ds_candidates d) \<le> 8 \<and> 0 \<le> ds_inspected_search_trace_count d \<and>
         0 \<le> ds_available_presentation_count d \<and> 0 \<le> ds_failed_or_unavailable_trace_count d \<and>
         0 \<le> ds_reconstructed_candidate_count d
      then Inr d else Inl Validation_Error)"

section \<open>Tables\<close>

definition DEFAULT_CANDIDATE_LIMIT :: int where "DEFAULT_CANDIDATE_LIMIT = 5"
definition HARD_CANDIDATE_LIMIT :: int where "HARD_CANDIDATE_LIMIT = 8"
definition MAX_SEARCH_TRACES :: nat where "MAX_SEARCH_TRACES = 12"
definition MAX_GROUPS_PER_TRACE :: nat where "MAX_GROUPS_PER_TRACE = 8"
definition MAX_EXCERPT_CHARACTERS :: nat where "MAX_EXCERPT_CHARACTERS = 360"

record link_row =
  lk_workspace_id :: string
  lk_run_id :: string
  lk_sequence :: int
  lk_search_trace_id :: string
  lk_query :: "string option"
  lk_trace_persisted :: bool

record presentation_row =
  pr_workspace_id :: string
  pr_trace_id :: string
  pr_status :: string
  pr_group_summary_json :: jvalue

record trace_row =
  tr_workspace_id :: string
  tr_trace_id :: string
  tr_trace_version :: string
  tr_status :: string
  tr_raw_hits_json :: jvalue

record video_row =
  vr_workspace_id :: string
  vr_id :: int
  vr_source_id :: "string option"
  vr_title :: string
  vr_video_url :: "string option"
  vr_status :: string
  vr_removed_at :: "string option"

record unit_row =
  ur_workspace_id :: string
  ur_unit_id :: string
  ur_video_id :: int
  ur_unit_type :: string
  ur_source_text :: string

record candidate_db =
  db_workspace_id :: string
  db_links :: "link_row list"
  db_presentations :: "presentation_row list"
  db_traces :: "trace_row list"
  db_videos :: "video_row list"
  db_units :: "unit_row list"

section \<open>Lineage and groups\<close>

definition run_links :: "candidate_db \<Rightarrow> string \<Rightarrow> link_row list" where
  "run_links db run_id =
     filter (\<lambda>r. lk_workspace_id r = db_workspace_id db \<and> lk_run_id r = run_id) (db_links db)"

definition lineage :: "candidate_db \<Rightarrow> string \<Rightarrow> link_row list \<times> int" where
  "lineage db run_id =
     (take MAX_SEARCH_TRACES (sort_key lk_sequence (run_links db run_id)), int (length (run_links db run_id)))"

text \<open>\<open>json_array\<close> of src/shiliu/storage/dto.py on a column value.\<close>

definition column_array :: "runtime \<Rightarrow> jvalue \<Rightarrow> jvalue list result" where
  "column_array R v =
     (case v of
        VNull \<Rightarrow> Inr []
      | VStr s \<Rightarrow> ebind (rt_json_loads R (if s = [] then ''[]'' else s)) (\<lambda>w.
          case w of VList vs \<Rightarrow> Inr vs | _ \<Rightarrow> Inl (Value_Error ''JSON array required''))
      | VList vs \<Rightarrow> Inr vs
      | _ \<Rightarrow> Inl (Value_Error ''JSON array required''))"

definition dicts_in :: "jvalue list \<Rightarrow> jdict list" where
  "dicts_in vs = concat (map (\<lambda>v. case dict_instance v of None \<Rightarrow> [] | Some d \<Rightarrow> [d]) vs)"

text \<open>One group per video of the stored hits, the first hit of the video.\<close>

definition f1_group :: "int \<Rightarrow> jdict \<Rightarrow> jdict" where
  "f1_group video_id hit =
     [(''video_id'', VInt video_id), (''best_rank'', dict_get hit ''rank''),
      (''windows'', VList [VDict
        [(''best_chunk_id'', dict_get hit ''unit_id''), (''window_start'', dict_get hit ''start_time''),
         (''window_end'', dict_get hit ''end_time''), (''jump_time'', dict_get hit ''start_time'')]])]"

definition add_f1_hit :: "jvalue \<Rightarrow> (int \<times> jdict) list \<Rightarrow> (int \<times> jdict) list" where
  "add_f1_hit v groups =
     (case dict_instance v of
        None \<Rightarrow> groups
      | Some hit \<Rightarrow> (case int_instance (dict_get hit ''video_id'') of
          None \<Rightarrow> groups
        | Some i \<Rightarrow> if map_of groups i = None then groups @ [(i, f1_group i hit)] else groups))"

text \<open>\<open>except (TypeError, ValueError)\<close>; JSONDecodeError is a ValueError.\<close>

definition array_or_none :: "runtime \<Rightarrow> jvalue \<Rightarrow> jvalue list option" where
  "array_or_none R v = (case column_array R v of Inl _ \<Rightarrow> None | Inr vs \<Rightarrow> Some vs)"

definition f1_groups :: "runtime \<Rightarrow> candidate_db \<Rightarrow> string \<Rightarrow> jdict list option" where
  "f1_groups R db trace_id =
     (case find (\<lambda>r. tr_workspace_id r = db_workspace_id db \<and> tr_trace_id r = trace_id) (db_traces db) of
        None \<Rightarrow> None
      | Some row \<Rightarrow>
          if tr_trace_version row \<noteq> ''deep-v2-f1'' \<or> tr_status row \<noteq> ''complete'' then None
          else map_option (\<lambda>hits. map snd (fold add_f1_hit (take 50 hits) []))
                 (array_or_none R (tr_raw_hits_json row)))"

definition presentation_groups :: "runtime \<Rightarrow> candidate_db \<Rightarrow> string \<Rightarrow> jdict list option" where
  "presentation_groups R db trace_id =
     (case find (\<lambda>r. pr_workspace_id r = db_workspace_id db \<and> pr_trace_id r = trace_id) (db_presentations db) of
        None \<Rightarrow> f1_groups R db trace_id
      | Some row \<Rightarrow>
          if pr_status row \<noteq> ''success'' then f1_groups R db trace_id
          else map_option dicts_in (array_or_none R (pr_group_summary_json row)))"

section \<open>Candidates\<close>

record raw_candidate =
  rw_sequence :: int
  rw_search_trace_id :: string
  rw_search_query :: string
  rw_search_rank :: int
  rw_video_id :: int
  rw_kind :: candidate_kind
  rw_unit_id :: "string option"
  rw_start_time :: jvalue
  rw_end_time :: jvalue
  rw_jump_time :: jvalue

definition first_window :: "jdict \<Rightarrow> jdict option" where
  "first_window grp =
     (case dict_get grp ''windows'' of VList (w # ws) \<Rightarrow> dict_instance w | _ \<Rightarrow> None)"

text \<open>The truth of a dictionary is that it has a member: an empty first window counts as none.\<close>

definition real_window :: "jdict \<Rightarrow> jdict option" where
  "real_window grp = (case first_window grp of None \<Rightarrow> None | Some w \<Rightarrow> if w = [] then None else Some w)"

definition candidate_identity :: "runtime \<Rightarrow> link_row \<Rightarrow> jdict \<Rightarrow> raw_candidate option" where
  "candidate_identity R link grp =
     (case int_instance (dict_get grp ''video_id'') of
        None \<Rightarrow> None
      | Some video_id \<Rightarrow> if video_id \<le> 0 then None else
          (case int_instance (dict_get grp ''best_rank'') of
             None \<Rightarrow> None
           | Some rank \<Rightarrow> if rank \<le> 0 then None else
               let window = real_window grp;
                   field = (\<lambda>k. case window of None \<Rightarrow> VNull | Some w \<Rightarrow> dict_get w k);
                   unit_id = (case window of None \<Rightarrow> [] | Some w \<Rightarrow> str_or_empty R (dict_get w ''best_chunk_id''))
               in Some \<lparr>rw_sequence = lk_sequence link, rw_search_trace_id = lk_search_trace_id link,
                    rw_search_query = (case lk_query link of None \<Rightarrow> [] | Some q \<Rightarrow> q), rw_search_rank = rank,
                    rw_video_id = video_id,
                    rw_kind = (if window \<noteq> None then Transcript_Candidate else Metadata_Lead),
                    rw_unit_id = (if unit_id = [] then None else Some unit_id),
                    rw_start_time = field ''window_start'', rw_end_time = field ''window_end'',
                    rw_jump_time = field ''jump_time''\<rparr>))"

definition video_metadata :: "candidate_db \<Rightarrow> raw_candidate list \<Rightarrow> (int \<times> video_row) list" where
  "video_metadata db candidates =
     dict_of vr_id (filter (\<lambda>r. vr_workspace_id r = db_workspace_id db \<and> vr_id r \<in> set (map rw_video_id candidates))
       (db_videos db))"

definition transcript_units :: "candidate_db \<Rightarrow> raw_candidate list \<Rightarrow> (string \<times> unit_row) list" where
  "transcript_units db candidates =
     dict_of ur_unit_id (filter (\<lambda>r. ur_workspace_id r = db_workspace_id db \<and>
         Some (ur_unit_id r) \<in> set (map rw_unit_id candidates)) (db_units db))"

definition identity_of :: "raw_candidate \<Rightarrow> video_row option \<Rightarrow> unit_row option \<Rightarrow> identity_status" where
  "identity_of v video unit =
     (if video = None then Unavailable_Identity
      else if rw_kind v = Transcript_Candidate \<and>
        (rw_unit_id v = None \<or> rw_start_time v = VNull \<or> rw_end_time v = VNull \<or>
         (case unit of
            None \<Rightarrow> True
          | Some u \<Rightarrow> ur_video_id u \<noteq> rw_video_id v \<or> ur_unit_type u \<noteq> ''transcript_chunk''))
      then Stale_Identity
      else Current_Identity)"

text \<open>A time of a transcript candidate as the field of the contract reads it.\<close>

definition time_field :: "runtime \<Rightarrow> raw_candidate \<Rightarrow> jvalue \<Rightarrow> rat option result" where
  "time_field R v t =
     (if rw_kind v \<noteq> Transcript_Candidate \<or> t = VNull then Inr None
      else case rt_float_field R t of None \<Rightarrow> Inl Validation_Error | Some x \<Rightarrow> Inr (Some x))"

definition project_candidate ::
  "runtime \<Rightarrow> (int \<Rightarrow> string) \<Rightarrow> (int \<times> video_row) list \<Rightarrow> (string \<times> unit_row) list \<Rightarrow> raw_candidate
    \<Rightarrow> retrieved_candidate result"
where
  "project_candidate R missing_title metadata units v =
     (let video = map_of metadata (rw_video_id v);
          unit = (case rw_unit_id v of None \<Rightarrow> None | Some u \<Rightarrow> map_of units u);
          status = identity_of v video unit;
          body = (case unit of
             None \<Rightarrow> []
           | Some u \<Rightarrow> if status = Current_Identity then take MAX_EXCERPT_CHARACTERS (strip (ur_source_text u)) else []);
          text_of = (\<lambda>s. case s of None \<Rightarrow> [] | Some t \<Rightarrow> t)
      in ebind (case video of
                  None \<Rightarrow> Inr None
                | Some r \<Rightarrow>
                    if rw_kind v = Metadata_Lead \<or> status = Current_Identity
                    then build_bilibili_jump_url R (text_of (vr_video_url r)) (text_of (vr_source_id r)) (rw_jump_time v)
                    else Inr None) (\<lambda>jump_url.
         ebind (time_field R v (rw_start_time v)) (\<lambda>start_time.
         ebind (time_field R v (rw_end_time v)) (\<lambda>end_time.
           mk_candidate
             \<lparr>ca_kind = rw_kind v, ca_identity = status, ca_search_trace_id = rw_search_trace_id v,
              ca_search_query = rw_search_query v, ca_search_rank = rw_search_rank v, ca_video_id = rw_video_id v,
              ca_title = (case video of None \<Rightarrow> missing_title (rw_video_id v) | Some r \<Rightarrow> vr_title r),
              ca_video_status = (case video of
                  None \<Rightarrow> ''unavailable''
                | Some r \<Rightarrow> if vr_removed_at r = None then vr_status r else ''removed''),
              ca_unit_id = (if rw_kind v = Transcript_Candidate then rw_unit_id v else None),
              ca_start_time = start_time, ca_end_time = end_time,
              ca_excerpt = (if body = [] then None else Some body),
              ca_jump_url = jump_url,
              ca_detail_url = map_option (\<lambda>_. ''/videos/'' @ int_text (rw_video_id v) @ ''/transcript'') video\<rparr>))))"

text \<open>\<open>float(citation[k])\<close>, \<open>None\<close> for the errors the code skips.\<close>

definition citation_time :: "runtime \<Rightarrow> jdict \<Rightarrow> string \<Rightarrow> rat option" where
  "citation_time R citation k = (case map_of citation k of None \<Rightarrow> None | Some v \<Rightarrow> rt_float R v)"

definition citation_adopts :: "runtime \<Rightarrow> retrieved_candidate \<Rightarrow> jdict \<Rightarrow> bool" where
  "citation_adopts R c citation \<longleftrightarrow>
     equals_int (dict_get citation ''video_id'') (ca_video_id c) \<and>
     (ca_kind c = Metadata_Lead \<or>
      (case (citation_time R citation ''start_time'', citation_time R citation ''end_time'') of
         (Some cs, Some ce) \<Rightarrow>
           (case (ca_start_time c, ca_end_time c) of
              (Some s, Some e) \<Rightarrow> max s cs \<le> min e ce
            | _ \<Rightarrow> False)
       | _ \<Rightarrow> False))"

definition adopted_by_answer :: "runtime \<Rightarrow> retrieved_candidate \<Rightarrow> jdict list \<Rightarrow> bool" where
  "adopted_by_answer R c citations \<longleftrightarrow> list_ex (citation_adopts R c) citations"

fun kind_priority :: "candidate_kind \<Rightarrow> nat" where
  "kind_priority Transcript_Candidate = 0"
| "kind_priority Metadata_Lead = 1"

fun identity_priority :: "identity_status \<Rightarrow> nat" where
  "identity_priority Current_Identity = 0"
| "identity_priority Stale_Identity = 1"
| "identity_priority Unavailable_Identity = 2"

definition preference :: "int \<times> retrieved_candidate \<Rightarrow> nat \<times> nat \<times> int \<times> int" where
  "preference = (\<lambda>(sequence, c).
     (kind_priority (ca_kind c), identity_priority (ca_identity c), sequence, ca_search_rank c))"

definition display_order :: "int \<times> retrieved_candidate \<Rightarrow> int \<times> int \<times> int" where
  "display_order = (\<lambda>(sequence, c). (sequence, ca_search_rank c, ca_video_id c))"

definition first_per_video :: "(int \<times> retrieved_candidate) list \<Rightarrow> (int \<times> int \<times> retrieved_candidate) list" where
  "first_per_video cs =
     fold (\<lambda>x d. if map_of d (ca_video_id (snd x)) = None then d @ [(ca_video_id (snd x), x)] else d) cs []"

definition unique_videos :: "(int \<times> retrieved_candidate) list \<Rightarrow> retrieved_candidate list" where
  "unique_videos candidates =
     map snd (sort_key display_order (map snd (first_per_video (sort_key preference candidates))))"

section \<open>The projection\<close>

record scan =
  sn_candidates :: "raw_candidate list"
  sn_available :: int
  sn_unavailable :: int
  sn_groups_truncated :: bool

definition scan_link :: "runtime \<Rightarrow> candidate_db \<Rightarrow> link_row \<Rightarrow> scan \<Rightarrow> scan" where
  "scan_link R db link s =
     (case presentation_groups R db (lk_search_trace_id link) of
        None \<Rightarrow> s\<lparr>sn_unavailable := sn_unavailable s + 1\<rparr>
      | Some groups \<Rightarrow>
          s\<lparr>sn_available := sn_available s + 1,
            sn_groups_truncated := sn_groups_truncated s \<or> length groups > MAX_GROUPS_PER_TRACE,
            sn_candidates := sn_candidates s @
              List.map_filter (candidate_identity R link) (take MAX_GROUPS_PER_TRACE groups)\<rparr>)"

definition scan_links :: "runtime \<Rightarrow> candidate_db \<Rightarrow> link_row list \<Rightarrow> scan" where
  "scan_links R db links =
     fold (scan_link R db) links
       \<lparr>sn_candidates = [], sn_available = 0, sn_unavailable = 0, sn_groups_truncated = False\<rparr>"

definition empty_disclosure :: "string \<Rightarrow> disclosure result" where
  "empty_disclosure reason = mk_disclosure
     \<lparr>ds_candidates = [], ds_inspected_search_trace_count = 0, ds_available_presentation_count = 0,
      ds_failed_or_unavailable_trace_count = 0, ds_reconstructed_candidate_count = 0, ds_truncated = False,
      ds_empty_reason = Some reason\<rparr>"

text \<open>\<open>run\<close> is the citations of \<open>run_store.get_run(run_id)\<close>, \<open>None\<close> when there is no such run.\<close>

definition unadopted ::
  "runtime \<Rightarrow> (int \<Rightarrow> string) \<Rightarrow> candidate_db \<Rightarrow> jdict list \<Rightarrow> raw_candidate list
    \<Rightarrow> (int \<times> retrieved_candidate) list result"
where
  "unadopted R missing_title db citations raws =
     ebind (emap (\<lambda>v. ebind (project_candidate R missing_title (video_metadata db raws) (transcript_units db raws) v)
                        (\<lambda>c. Inr (rw_sequence v, c))) raws)
       (\<lambda>projected. Inr (filter (\<lambda>x. \<not> adopted_by_answer R (snd x) citations) projected))"

definition project ::
  "runtime \<Rightarrow> (int \<Rightarrow> string) \<Rightarrow> candidate_db \<Rightarrow> string \<Rightarrow> jvalue list option \<Rightarrow> int \<Rightarrow> disclosure result"
where
  "project R missing_title db run_id run limit =
     (if \<not> (1 \<le> limit \<and> limit \<le> HARD_CANDIDATE_LIMIT)
      then Inl (Value_Error ''candidate disclosure limit must be between 1 and 8'')
      else case run of
        None \<Rightarrow> empty_disclosure ''ask_run_unavailable''
      | Some citations \<Rightarrow>
          let links = fst (lineage db run_id); total_links = snd (lineage db run_id); s = scan_links R db links
          in ebind (unadopted R missing_title db (dicts_in citations) (sn_candidates s)) (\<lambda>projected.
             let unique = unique_videos projected
             in mk_disclosure
               \<lparr>ds_candidates = take (nat limit) unique,
                ds_inspected_search_trace_count = int (length links),
                ds_available_presentation_count = sn_available s,
                ds_failed_or_unavailable_trace_count = sn_unavailable s,
                ds_reconstructed_candidate_count = int (length unique),
                ds_truncated = (int (length unique) > limit \<or> total_links > int (length links) \<or>
                                sn_groups_truncated s),
                ds_empty_reason =
                  (if links = [] then Some ''no_durable_search_lineage''
                   else if sn_available s = 0 then Some ''search_presentations_unavailable''
                   else if unique = [] then Some ''no_unadopted_candidates''
                   else None)\<rparr>))"

end
