(* ===== verification/Candidates_Properties.thy ===== *)
theory Candidates_Properties
  imports Ask_Candidates
begin

text \<open>
  What a candidate disclosure promises: bounded, one candidate per video, nothing the answer already
  cites, and no claim of a current transcript identity without the stored unit behind it.
\<close>

section \<open>One candidate per video\<close>

abbreviation video_of :: "int \<times> retrieved_candidate \<Rightarrow> int" where
  "video_of x \<equiv> ca_video_id (snd x)"

lemma first_per_video_find:
  "distinct (map fst (first_per_video cs)) \<and> map_of (first_per_video cs) v = find (\<lambda>x. video_of x = v) cs"
proof (induction cs arbitrary: v rule: rev_induct)
  case Nil
  then show ?case by (simp add: first_per_video_def)
next
  case (snoc x cs)
  let ?d = "first_per_video cs"
  have step: "first_per_video (cs @ [x]) = (if map_of ?d (video_of x) = None then ?d @ [(video_of x, x)] else ?d)"
    by (simp add: first_per_video_def)
  have dist: "distinct (map fst ?d)" using snoc by blast
  have look: "map_of ?d w = find (\<lambda>x. video_of x = w) cs" for w using snoc by blast
  have "distinct (map fst (first_per_video (cs @ [x])))"
    using dist by (auto simp: step map_of_eq_None_iff)
  moreover have "map_of (first_per_video (cs @ [x])) v = find (\<lambda>x. video_of x = v) (cs @ [x])"
    by (auto simp: step look map_add_def find_append split: option.splits)
  ultimately show ?case by blast
qed

lemma first_per_video_entry:
  assumes "(v, x) \<in> set (first_per_video cs)"
  shows "find (\<lambda>x. video_of x = v) cs = Some x"
proof -
  note fpv = first_per_video_find [of cs v]
  have "map_of (first_per_video cs) v = Some x"
    using assms map_of_eq_Some_iff [OF fpv [THEN conjunct1]] by blast
  then show ?thesis unfolding fpv [THEN conjunct2] .
qed

lemma find_sorted_least:
  assumes "sorted (map f xs)" "find P xs = Some x" "y \<in> set xs" "P y"
  shows "f x \<le> f y"
  using assms by (induction xs) (auto split: if_splits)

text \<open>The chosen candidates, their videos, and that each is the most preferred of its video.\<close>

lemma chosen_facts:
  fixes cs :: "(int \<times> retrieved_candidate) list"
  defines "chosen \<equiv> map snd (first_per_video (sort_key preference cs))"
  shows "distinct (map video_of chosen)" and "set (map video_of chosen) = set (map video_of cs)"
    and "x \<in> set chosen \<Longrightarrow> x \<in> set cs"
    and "x \<in> set chosen \<Longrightarrow> y \<in> set cs \<Longrightarrow> video_of y = video_of x \<Longrightarrow> preference x \<le> preference y"
proof -
  let ?d = "first_per_video (sort_key preference cs)"
  have entry: "find (\<lambda>x. video_of x = v) (sort_key preference cs) = Some x" if "(v, x) \<in> set ?d" for v x
    using that by (rule first_per_video_entry)
  have key: "video_of x = v" "x \<in> set cs" if "(v, x) \<in> set ?d" for v x
    using find_SomeD [OF entry [OF that]] by simp_all
  have keys: "map video_of chosen = map fst ?d"
    unfolding chosen_def by (simp add: key(1))
  show "distinct (map video_of chosen)" unfolding keys using first_per_video_find by blast
  show "x \<in> set cs" if "x \<in> set chosen" using that key(2) by (auto simp: chosen_def)
  show "preference x \<le> preference y"
    if "x \<in> set chosen" "y \<in> set cs" "video_of y = video_of x"
  proof -
    obtain v where v: "(v, x) \<in> set ?d" using \<open>x \<in> set chosen\<close> unfolding chosen_def by fastforce
    show ?thesis
      using find_sorted_least [of preference "sort_key preference cs", OF _ entry [OF v]] that(2,3) key(1) [OF v]
      by simp
  qed
  have "v \<in> set (map fst ?d) \<longleftrightarrow> v \<in> set (map video_of cs)" for v
  proof -
    have "v \<notin> set (map fst ?d) \<longleftrightarrow> map_of ?d v = None" by (simp add: map_of_eq_None_iff)
    also have "\<dots> \<longleftrightarrow> find (\<lambda>x. video_of x = v) (sort_key preference cs) = None"
      using first_per_video_find [of "sort_key preference cs" v] by simp
    also have "\<dots> \<longleftrightarrow> v \<notin> set (map video_of cs)" by (auto simp: find_None_iff)
    finally show ?thesis by blast
  qed
  then show "set (map video_of chosen) = set (map video_of cs)" unfolding keys by blast
qed

lemma unique_videos_facts:
  shows "distinct (map ca_video_id (unique_videos cs))"
    and "set (map ca_video_id (unique_videos cs)) = set (map video_of cs)"
    and "c \<in> set (unique_videos cs) \<Longrightarrow> \<exists>n. (n, c) \<in> set cs \<and>
      (\<forall>y \<in> set cs. video_of y = ca_video_id c \<longrightarrow> preference (n, c) \<le> preference y)"
proof -
  have ids: "map ca_video_id (map snd xs) = map video_of xs" for xs by simp
  show "distinct (map ca_video_id (unique_videos cs))"
    unfolding unique_videos_def ids distinct_map_sort_key by (rule chosen_facts(1))
  show "set (map ca_video_id (unique_videos cs)) = set (map video_of cs)"
    unfolding unique_videos_def ids set_map_sort_key by (rule chosen_facts(2))
  show "\<exists>n. (n, c) \<in> set cs \<and> (\<forall>y \<in> set cs. video_of y = ca_video_id c \<longrightarrow> preference (n, c) \<le> preference y)"
    if "c \<in> set (unique_videos cs)"
  proof -
    have "c \<in> snd ` set (map snd (first_per_video (sort_key preference cs)))"
      using \<open>c \<in> set (unique_videos cs)\<close> by (simp only: unique_videos_def set_map set_sort)
    then obtain x where x: "x \<in> set (map snd (first_per_video (sort_key preference cs)))" "c = snd x" by blast
    then show ?thesis using chosen_facts(3,4) [OF x(1)] by (intro exI [of _ "fst x"]) simp
  qed
qed

section \<open>Scanning the lineage\<close>

text \<open>What a scan is: per search, in order, the candidates of its first groups.\<close>

definition groups_of :: "runtime \<Rightarrow> candidate_db \<Rightarrow> link_row \<Rightarrow> jdict list option" where
  "groups_of R db link = presentation_groups R db (lk_search_trace_id link)"

definition candidates_of :: "runtime \<Rightarrow> candidate_db \<Rightarrow> link_row \<Rightarrow> raw_candidate list" where
  "candidates_of R db link =
     (case groups_of R db link of None \<Rightarrow> [] | Some gs \<Rightarrow> List.map_filter (candidate_identity R link) (take 8 gs))"

definition many_groups :: "runtime \<Rightarrow> candidate_db \<Rightarrow> link_row \<Rightarrow> bool" where
  "many_groups R db link \<longleftrightarrow> (case groups_of R db link of None \<Rightarrow> False | Some gs \<Rightarrow> 8 < length gs)"

lemma scan_link_is:
  "scan_link R db link s =
     \<lparr>sn_candidates = sn_candidates s @ candidates_of R db link,
      sn_available = sn_available s + (if groups_of R db link = None then 0 else 1),
      sn_unavailable = sn_unavailable s + (if groups_of R db link = None then 1 else 0),
      sn_groups_truncated = (sn_groups_truncated s \<or> many_groups R db link)\<rparr>"
  by (cases "groups_of R db link")
    (simp_all add: scan_link_def groups_of_def [symmetric] candidates_of_def many_groups_def MAX_GROUPS_PER_TRACE_def)

lemma scan_fold:
  "fold (scan_link R db) links s =
     \<lparr>sn_candidates = sn_candidates s @ concat (map (candidates_of R db) links),
      sn_available = sn_available s + int (length (filter (\<lambda>l. groups_of R db l \<noteq> None) links)),
      sn_unavailable = sn_unavailable s + int (length (filter (\<lambda>l. groups_of R db l = None) links)),
      sn_groups_truncated = (sn_groups_truncated s \<or> list_ex (many_groups R db) links)\<rparr>"
proof (induction links arbitrary: s)
  case (Cons link links)
  show ?case unfolding fold_Cons o_apply Cons.IH by (simp add: scan_link_is)
qed simp

lemma scan_links_is:
  "sn_candidates (scan_links R db links) = concat (map (candidates_of R db) links)"
  "sn_available (scan_links R db links) = int (length (filter (\<lambda>l. groups_of R db l \<noteq> None) links))"
  "sn_unavailable (scan_links R db links) = int (length (filter (\<lambda>l. groups_of R db l = None) links))"
  "sn_groups_truncated (scan_links R db links) \<longleftrightarrow> (\<exists>l \<in> set links. many_groups R db l)"
  by (simp_all add: scan_links_def scan_fold list_ex_iff)

text \<open>A trace without an available presentation adds no candidate.\<close>

lemma none_available:
  "\<forall>l \<in> set links. groups_of R db l = None \<Longrightarrow> concat (map (candidates_of R db) links) = []"
  by (auto simp: candidates_of_def)

section \<open>Projection\<close>

lemma project_candidate_facts:
  assumes "project_candidate R missing_title metadata units v = Inr c"
  shows "valid_candidate c" and "ca_video_id c = rw_video_id v" and "ca_kind c = rw_kind v"
    and "ca_identity c = identity_of v (map_of metadata (rw_video_id v))
      (case rw_unit_id v of None \<Rightarrow> None | Some u \<Rightarrow> map_of units u)"
    and "ca_kind c = Transcript_Candidate \<Longrightarrow> ca_unit_id c = rw_unit_id v"
  using assms by (auto simp: project_candidate_def Let_def mk_candidate_def ebind_eq_Inr split: if_splits)

text \<open>A current identity is backed by the rows it names.\<close>

definition backed :: "candidate_db \<Rightarrow> retrieved_candidate \<Rightarrow> bool" where
  "backed db c \<longleftrightarrow>
     (\<exists>r \<in> set (db_videos db). vr_workspace_id r = db_workspace_id db \<and> vr_id r = ca_video_id c) \<and>
     (ca_kind c = Transcript_Candidate \<longrightarrow>
       (\<exists>u \<in> set (db_units db). ur_workspace_id u = db_workspace_id db \<and> ca_unit_id c = Some (ur_unit_id u) \<and>
          ur_video_id u = ca_video_id c \<and> ur_unit_type u = ''transcript_chunk''))"

lemma current_backed:
  assumes "project_candidate R missing_title (video_metadata db raws) (transcript_units db raws) v = Inr c"
    and "ca_identity c = Current_Identity"
  shows "backed db c"
proof -
  note f = project_candidate_facts [OF assms(1)]
  obtain r where r: "map_of (video_metadata db raws) (rw_video_id v) = Some r"
    using assms(2) f(4) by (auto simp: identity_of_def split: if_splits)
  have "\<exists>r \<in> set (db_videos db). vr_workspace_id r = db_workspace_id db \<and> vr_id r = ca_video_id c"
    using dict_of_entry [OF r [unfolded video_metadata_def]] f(2) by auto
  moreover have "\<exists>u \<in> set (db_units db). ur_workspace_id u = db_workspace_id db \<and> ca_unit_id c = Some (ur_unit_id u) \<and>
      ur_video_id u = ca_video_id c \<and> ur_unit_type u = ''transcript_chunk''"
    if t: "ca_kind c = Transcript_Candidate"
  proof -
    obtain k u where u: "rw_unit_id v = Some k" "map_of (transcript_units db raws) k = Some u"
        "ur_video_id u = rw_video_id v" "ur_unit_type u = ''transcript_chunk''"
      using assms(2) f(3,4) t by (auto simp: identity_of_def split: if_splits option.splits)
    then show ?thesis
      using dict_of_entry [OF u(2) [unfolded transcript_units_def]] f(2) f(5) [OF t] by auto
  qed
  ultimately show ?thesis by (simp add: backed_def)
qed

lemma unadopted_entry:
  assumes "unadopted R missing_title db citations raws = Inr xs" and "(n, c) \<in> set xs"
  shows "\<exists>v \<in> set raws. n = rw_sequence v \<and> \<not> adopted_by_answer R c citations \<and>
    project_candidate R missing_title (video_metadata db raws) (transcript_units db raws) v = Inr c"
proof -
  let ?p = "\<lambda>v. ebind (project_candidate R missing_title (video_metadata db raws) (transcript_units db raws) v)
    (\<lambda>c. Inr (rw_sequence v, c))"
  obtain ys where ys: "map ?p raws = map Inr ys" "xs = filter (\<lambda>x. \<not> adopted_by_answer R (snd x) citations) ys"
    using assms(1) by (auto simp: unadopted_def ebind_eq_Inr emap_eq_Inr)
  have "(n, c) \<in> set ys" using assms(2) ys(2) by simp
  then have "Inr (n, c) \<in> set (map ?p raws)" unfolding ys(1) by simp
  then obtain v where "v \<in> set raws" "?p v = Inr (n, c)" by auto
  then show ?thesis using assms(2) ys(2) by (auto simp: ebind_eq_Inr)
qed


section \<open>Properties\<close>

text \<open>
  C35: A candidate disclosure of a run shows at most \<open>limit\<close> candidates, each of another video. Each is
  valid, is the projection of a candidate of the first eight groups of the run's first twelve searches,
  overlaps no citation of the answer, and is the most preferred unadopted candidate of its video; one that
  claims a current identity has the stored video and, for a transcript, the stored unit of that video behind
  it. The searches with and without an available presentation are counted. The disclosure says that it is
  truncated exactly when a candidate, a search or a group of a search was left out, and it gives a reason
  exactly when it shows nothing: that there were no searches, that none had a presentation, or that no
  candidate was left.
\<close>

theorem disclosure_is_honest:
  assumes "project R missing_title db run_id (Some citations) limit = Inr d"
  defines "links \<equiv> fst (lineage db run_id)"
    and "raws \<equiv> concat (map (candidates_of R db) (fst (lineage db run_id)))"
  shows "\<exists>projected. unadopted R missing_title db (dicts_in citations) raws = Inr projected \<and>
     int (length (ds_candidates d)) = min limit (ds_reconstructed_candidate_count d) \<and> limit \<le> 8 \<and>
     ds_reconstructed_candidate_count d = int (card (video_of ` set projected)) \<and>
     distinct (map ca_video_id (ds_candidates d)) \<and>
     (\<forall>c \<in> set (ds_candidates d). valid_candidate c \<and> \<not> adopted_by_answer R c (dicts_in citations) \<and>
        (ca_identity c = Current_Identity \<longrightarrow> backed db c) \<and>
        (\<exists>n. (n, c) \<in> set projected \<and>
           (\<forall>y \<in> set projected. video_of y = ca_video_id c \<longrightarrow> preference (n, c) \<le> preference y))) \<and>
     ds_inspected_search_trace_count d = int (length links) \<and> links = take 12 (sort_key lk_sequence (run_links db run_id)) \<and>
     ds_available_presentation_count d = int (length (filter (\<lambda>l. groups_of R db l \<noteq> None) links)) \<and>
     ds_failed_or_unavailable_trace_count d = int (length (filter (\<lambda>l. groups_of R db l = None) links)) \<and>
     (ds_truncated d \<longleftrightarrow> int (card (video_of ` set projected)) > limit \<or>
        length (run_links db run_id) > length links \<or> (\<exists>l \<in> set links. many_groups R db l)) \<and>
     (ds_empty_reason d = None \<longleftrightarrow> ds_candidates d \<noteq> []) \<and>
     (ds_candidates d = [] \<longrightarrow> ds_empty_reason d =
        Some (if links = [] then ''no_durable_search_lineage''
              else if \<forall>l \<in> set links. groups_of R db l = None then ''search_presentations_unavailable''
              else ''no_unadopted_candidates''))"
proof -
  let ?s = "scan_links R db links"
  have scan: "sn_candidates (scan_links R db (fst (lineage db run_id))) = raws" by (simp add: raws_def scan_links_is)
  obtain projected where p: "unadopted R missing_title db (dicts_in citations) raws = Inr projected"
    and range: "1 \<le> limit" "limit \<le> 8"
    and d: "d = \<lparr>ds_candidates = take (nat limit) (unique_videos projected),
        ds_inspected_search_trace_count = int (length links), ds_available_presentation_count = sn_available ?s,
        ds_failed_or_unavailable_trace_count = sn_unavailable ?s,
        ds_reconstructed_candidate_count = int (length (unique_videos projected)),
        ds_truncated = (int (length (unique_videos projected)) > limit \<or> snd (lineage db run_id) > int (length links) \<or>
                        sn_groups_truncated ?s),
        ds_empty_reason =
          (if links = [] then Some ''no_durable_search_lineage''
           else if sn_available ?s = 0 then Some ''search_presentations_unavailable''
           else if unique_videos projected = [] then Some ''no_unadopted_candidates'' else None)\<rparr>"
    using assms(1) scan unfolding project_def links_def HARD_CANDIDATE_LIMIT_def
    by (auto simp: ebind_eq_Inr mk_disclosure_def Let_def split: if_splits)
  note u = unique_videos_facts [where cs = projected]
  have count: "length (unique_videos projected) = card (video_of ` set projected)"
    using distinct_card [OF u(1)] u(2) by simp
  have available: "sn_available ?s = 0 \<longleftrightarrow> (\<forall>l \<in> set links. groups_of R db l = None)"
    by (auto simp: scan_links_is filter_empty_conv)
  have none: "unique_videos projected = []" if "\<forall>l \<in> set links. groups_of R db l = None"
  proof -
    have "raws = []" using none_available [OF that] by (simp only: raws_def links_def)
    with p u(2) show ?thesis by (simp add: unadopted_def)
  qed
  have each: "valid_candidate c \<and> \<not> adopted_by_answer R c (dicts_in citations) \<and>
        (ca_identity c = Current_Identity \<longrightarrow> backed db c) \<and>
        (\<exists>n. (n, c) \<in> set projected \<and>
           (\<forall>y \<in> set projected. video_of y = ca_video_id c \<longrightarrow> preference (n, c) \<le> preference y))"
    if "c \<in> set (ds_candidates d)" for c
  proof -
    have "c \<in> set (unique_videos projected)" using that by (auto simp: d dest: in_set_takeD)
    then obtain n where n: "(n, c) \<in> set projected"
        "\<forall>y \<in> set projected. video_of y = ca_video_id c \<longrightarrow> preference (n, c) \<le> preference y"
      using u(3) by blast
    obtain v where v: "\<not> adopted_by_answer R c (dicts_in citations)"
        "project_candidate R missing_title (video_metadata db raws) (transcript_units db raws) v = Inr c"
      using unadopted_entry [OF p n(1)] by blast
    then show ?thesis using n project_candidate_facts(1) [OF v(2)] current_backed [OF v(2)] by blast
  qed
  have dist: "distinct (map ca_video_id (ds_candidates d))"
    using u(1) by (simp add: d take_map [symmetric])
  have links: "links = take 12 (sort_key lk_sequence (run_links db run_id))" by (simp add: links_def lineage_def MAX_SEARCH_TRACES_def)
  have shown: "ds_candidates d = [] \<longleftrightarrow> unique_videos projected = []" using range(1) by (simp add: d)
  have empty: "ds_empty_reason d = (if links = [] then Some ''no_durable_search_lineage''
      else if \<forall>l \<in> set links. groups_of R db l = None then Some ''search_presentations_unavailable''
      else if unique_videos projected = [] then Some ''no_unadopted_candidates'' else None)"
    unfolding available [symmetric] by (simp add: d)
  have reason: "ds_empty_reason d = None \<longleftrightarrow> ds_candidates d \<noteq> []"
    "ds_candidates d = [] \<longrightarrow> ds_empty_reason d =
        Some (if links = [] then ''no_durable_search_lineage''
              else if \<forall>l \<in> set links. groups_of R db l = None then ''search_presentations_unavailable''
              else ''no_unadopted_candidates'')"
    using none unfolding shown empty by (cases "links = []", auto)+
  have truncated: "ds_truncated d \<longleftrightarrow> int (card (video_of ` set projected)) > limit \<or>
        length (run_links db run_id) > length links \<or> (\<exists>l \<in> set links. many_groups R db l)"
    by (simp add: d count scan_links_is lineage_def)
  have counts: "int (length (ds_candidates d)) = min limit (ds_reconstructed_candidate_count d)"
      "ds_reconstructed_candidate_count d = int (card (video_of ` set projected))"
      "ds_inspected_search_trace_count d = int (length links)"
      "ds_available_presentation_count d = int (length (filter (\<lambda>l. groups_of R db l \<noteq> None) links))"
      "ds_failed_or_unavailable_trace_count d = int (length (filter (\<lambda>l. groups_of R db l = None) links))"
    using range(1) by (simp_all add: d count scan_links_is)
  show ?thesis
    by (intro exI [of _ projected] conjI ballI p counts range(2) dist each links truncated reason)
qed

definition sample_candidate_db :: candidate_db where
  "sample_candidate_db = \<lparr>db_workspace_id = ''w'',
     db_links = [\<lparr>lk_workspace_id = ''w'', lk_run_id = ''r'', lk_sequence = 1, lk_search_trace_id = ''t'',
                  lk_query = None, lk_trace_persisted = True\<rparr>],
     db_presentations = [\<lparr>pr_workspace_id = ''w'', pr_trace_id = ''t'', pr_status = ''success'',
        pr_group_summary_json = VList [VDict [(''video_id'', VInt 7), (''best_rank'', VInt 1)]]\<rparr>],
     db_traces = [], db_videos = [], db_units = []\<rparr>"

lemma sample_projection:
  "project sample_runtime (\<lambda>_. ''missing'') sample_candidate_db ''r'' (Some []) 5 = Inr
     \<lparr>ds_candidates = [\<lparr>ca_kind = Metadata_Lead, ca_identity = Unavailable_Identity, ca_search_trace_id = ''t'',
        ca_search_query = [], ca_search_rank = 1, ca_video_id = 7, ca_title = ''missing'',
        ca_video_status = ''unavailable'', ca_unit_id = None, ca_start_time = None, ca_end_time = None,
        ca_excerpt = None, ca_jump_url = None, ca_detail_url = None\<rparr>],
      ds_inspected_search_trace_count = 1, ds_available_presentation_count = 1,
      ds_failed_or_unavailable_trace_count = 0, ds_reconstructed_candidate_count = 1, ds_truncated = False,
      ds_empty_reason = None\<rparr>"
  by (simp add: project_def HARD_CANDIDATE_LIMIT_def sample_candidate_db_def lineage_def run_links_def
      MAX_SEARCH_TRACES_def scan_links_def scan_link_def presentation_groups_def array_or_none_def column_array_def
      dicts_in_def MAX_GROUPS_PER_TRACE_def map_filter_simps candidate_identity_def dict_get_def real_window_def
      first_window_def unadopted_def project_candidate_def video_metadata_def transcript_units_def dict_of_def
      identity_of_def time_field_def mk_candidate_def valid_candidate_def not_negative_def adopted_by_answer_def
      unique_videos_def first_per_video_def mk_disclosure_def Let_def)

lemma disclosure_is_honest_witness:
  "\<exists>d. project sample_runtime (\<lambda>_. ''missing'') sample_candidate_db ''r'' (Some []) 5 = Inr d \<and>
     length (ds_candidates d) = 1 \<and> distinct (map ca_video_id (ds_candidates d))"
  using disclosure_is_honest [OF sample_projection] sample_projection by auto

end
