(* ===== verification/Ask_Contracts.thy ===== *)
theory Ask_Contracts
  imports Ask_Runtime
begin

text \<open>
  Evidence spans, citations and answer drafts of src/shiliu/ask/contracts.py, the raw segment of
  src/shiliu/evidence/contracts.py, and the identity of a citation, src/shiliu/ask/citations.py.
\<close>

section \<open>Segments, spans and citations\<close>

definition CITATION_IDENTITY_VERSION :: string where
  "CITATION_IDENTITY_VERSION = ''v4-citation-identity-v1''"

datatype citation_source_type = Source_Human | Source_Ai | Source_Asr | Source_Unknown

record evidence_segment =
  es_segment_id :: string
  es_original_ordinal :: int
  es_run_local_ordinal :: int
  es_start_time :: rat
  es_end_time :: rat
  es_source_text :: string

record raw_evidence_segment =
  rs_segment_id :: string
  rs_source_artifact_id :: string
  rs_source_version :: string
  rs_original_ordinal :: int
  rs_start_time :: rat
  rs_end_time :: rat
  rs_source_text :: string
  rs_source_type :: string
  rs_source_language :: string
  rs_segment_digest :: string
  rs_timeline_run_id :: string
  rs_run_local_ordinal :: int

record evidence_span =
  sp_citation_id :: string
  sp_citation_identity_version :: string
  sp_video_id :: int
  sp_bvid :: string
  sp_title :: string
  sp_source_type :: citation_source_type
  sp_source_language :: string
  sp_source_artifact_id :: string
  sp_source_version :: string
  sp_source_version_authority :: string
  sp_timeline_run_id :: string
  sp_segment_ids :: "string list"
  sp_segment_ordinals :: "int list"
  sp_start_time :: rat
  sp_end_time :: rat
  sp_quote_text :: string
  sp_jump_url :: string
  sp_parent_chunk_ids :: "string list"
  sp_retrieval_provenance :: "jdict list"
  sp_segments :: "evidence_segment list"
  sp_fusion_score :: rat

record citation =
  ci_citation_id :: string
  ci_citation_identity_version :: string
  ci_video_id :: int
  ci_bvid :: string
  ci_title :: string
  ci_source_type :: citation_source_type
  ci_source_language :: string
  ci_source_artifact_id :: string
  ci_source_version :: string
  ci_timeline_run_id :: string
  ci_segment_ids :: "string list"
  ci_start_time :: rat
  ci_end_time :: rat
  ci_quote_text :: string
  ci_jump_url :: string

definition valid_citation :: "citation \<Rightarrow> bool" where
  "valid_citation c \<longleftrightarrow>
     1 \<le> length (ci_segment_ids c) \<and> 0 \<le> ci_start_time c \<and> 0 \<le> ci_end_time c \<and>
     \<not> ci_end_time c < ci_start_time c \<and> strip (ci_quote_text c) \<noteq> []"

definition as_citation :: "evidence_span \<Rightarrow> citation result" where
  "as_citation s =
     (let c = \<lparr>ci_citation_id = sp_citation_id s, ci_citation_identity_version = sp_citation_identity_version s,
               ci_video_id = sp_video_id s, ci_bvid = sp_bvid s, ci_title = sp_title s,
               ci_source_type = sp_source_type s, ci_source_language = sp_source_language s,
               ci_source_artifact_id = sp_source_artifact_id s, ci_source_version = sp_source_version s,
               ci_timeline_run_id = sp_timeline_run_id s, ci_segment_ids = sp_segment_ids s,
               ci_start_time = sp_start_time s, ci_end_time = sp_end_time s,
               ci_quote_text = sp_quote_text s, ci_jump_url = sp_jump_url s\<rparr>
      in if valid_citation c then Inr c else Inl Validation_Error)"

section \<open>The identity of a citation\<close>

text \<open>A citation may be built from raw segments, whose lineage is checked, or from projected ones.\<close>

datatype cited_segment = Raw raw_evidence_segment | Projected evidence_segment

fun cited_id :: "cited_segment \<Rightarrow> string" where
  "cited_id (Raw s) = rs_segment_id s"
| "cited_id (Projected s) = es_segment_id s"

fun cited_ordinal :: "cited_segment \<Rightarrow> int" where
  "cited_ordinal (Raw s) = rs_original_ordinal s"
| "cited_ordinal (Projected s) = es_original_ordinal s"

fun cited_local_ordinal :: "cited_segment \<Rightarrow> int" where
  "cited_local_ordinal (Raw s) = rs_run_local_ordinal s"
| "cited_local_ordinal (Projected s) = es_run_local_ordinal s"

fun shares_lineage :: "string \<Rightarrow> string \<Rightarrow> string \<Rightarrow> cited_segment \<Rightarrow> bool" where
  "shares_lineage artifact version run (Raw s) \<longleftrightarrow>
     rs_source_artifact_id s = artifact \<and> rs_source_version s = version \<and> rs_timeline_run_id s = run"
| "shares_lineage artifact version run (Projected s) \<longleftrightarrow> True"

definition citation_identity_json :: "string \<Rightarrow> string \<Rightarrow> string \<Rightarrow> string list \<Rightarrow> json" where
  "citation_identity_json artifact version run segment_ids = JObj
     [(''citation_identity_version'', JStr CITATION_IDENTITY_VERSION), (''source_artifact_id'', JStr artifact),
      (''source_version'', JStr version), (''timeline_run_id'', JStr run), (''ordered_segment_ids'', strs segment_ids)]"

definition stable_citation_id ::
  "platform \<Rightarrow> string \<Rightarrow> string \<Rightarrow> string \<Rightarrow> cited_segment list \<Rightarrow> bool \<Rightarrow> string result"
where
  "stable_citation_id P artifact version run segments require_contiguous =
     (if segments = [] then Inl (Contract_Error ''citation_segment_invalid'')
      else
        let segment_ids = map cited_id segments; ordinals = map cited_ordinal segments;
            local_ordinals = map cited_local_ordinal segments
        in if length (fromkeys segment_ids) \<noteq> length segment_ids
           then Inl (Contract_Error ''citation_segment_duplicate'')
           else if list_ex (\<lambda>(l, r). l \<ge> r) (zip ordinals (tl ordinals))
           then Inl (Contract_Error ''citation_segment_order_invalid'')
           else if require_contiguous \<and> list_ex (\<lambda>(l, r). r \<noteq> l + 1) (zip local_ordinals (tl local_ordinals))
           then Inl (Contract_Error ''citation_segment_continuity_invalid'')
           else if \<not> list_all (shares_lineage artifact version run) segments
           then Inl (Contract_Error ''citation_lineage_invalid'')
           else Inr (''citation_v1_'' @ sha256_hexdigest P (utf8_encode (canonical_json
                  (citation_identity_json artifact version run segment_ids)))))"

section \<open>Drafts and their validation\<close>

datatype answer_status = Status_Complete | Status_Partial | Status_Insufficient

datatype execution_outcome =
    O_Answer_Generated | O_Source_Lookup_Complete | O_Evidence_Insufficient | O_Generation_Failed
  | O_Evidence_Unavailable | O_Claim_Support_Insufficient | O_Claim_Verifier_Failed | O_Claim_Verifier_Unknown

datatype termination_reason =
    T_Answer_Ready | T_Budget_Exhausted | T_Tool_Budget_Exhausted | T_Controller_Budget_Exhausted
  | T_Invalid_Structured_Output | T_Timeout | T_Cancelled | T_No_New_Evidence | T_Repeated_Search
  | T_Provider_Error | T_Evidence_Unavailable | T_Claim_Support_Insufficient | T_Claim_Verifier_Failed
  | T_Claim_Verifier_Unknown


record draft_block =
  db_text :: string
  db_citation_ids :: "string list"

definition mk_draft_block :: "string \<Rightarrow> string list \<Rightarrow> draft_block result" where
  "mk_draft_block body citation_ids =
     (if strip body = [] then Inl Validation_Error
      else Inr \<lparr>db_text = strip body, db_citation_ids = map strip citation_ids\<rparr>)"

record answer_block =
  ab_text :: string
  ab_citation_ids :: "string list"

definition mk_answer_block :: "string \<Rightarrow> string list \<Rightarrow> answer_block result" where
  "mk_answer_block body citation_ids =
     (if strip body = [] \<or> citation_ids = [] \<or> list_ex (\<lambda>i. strip i = []) citation_ids
      then Inl Validation_Error
      else Inr \<lparr>ab_text = strip body, ab_citation_ids = map strip citation_ids\<rparr>)"

record grounded_draft =
  gd_intro :: "string option"
  gd_outro :: "string option"
  gd_status :: answer_status
  gd_answer_blocks :: "draft_block list"
  gd_limitations :: "string list"

definition normalize_framing :: "string option \<Rightarrow> string option" where
  "normalize_framing v = (case v of None \<Rightarrow> None | Some s \<Rightarrow> if strip s = [] then None else Some (strip s))"

definition mk_grounded_draft :: "grounded_draft \<Rightarrow> grounded_draft result" where
  "mk_grounded_draft d =
     ebind (emap (\<lambda>b. mk_draft_block (db_text b) (db_citation_ids b)) (gd_answer_blocks d)) (\<lambda>blocks.
       Inr (d\<lparr>gd_intro := normalize_framing (gd_intro d), gd_outro := normalize_framing (gd_outro d),
              gd_answer_blocks := blocks\<rparr>))"

record validation_issue =
  vi_code :: string
  vi_path :: string
  vi_message :: string

text \<open>
  The text two blocks are compared by, with \<open>str.casefold\<close> as an argument. The full width stop and
  exclamation mark the code also strips are no code points of the model.
\<close>

definition normalized_block :: "(string \<Rightarrow> string) \<Rightarrow> string \<Rightarrow> string" where
  "normalized_block casefold body = rstrip_chars ''.!?'' (join '' '' (words_of (casefold body) []))"

fun duplicate_issues :: "(string \<Rightarrow> string) \<Rightarrow> draft_block list \<Rightarrow> nat \<Rightarrow> (string \<times> nat) list \<Rightarrow> validation_issue list" where
  "duplicate_issues casefold [] i seen = []"
| "duplicate_issues casefold (b # bs) i seen =
     (let key = normalized_block casefold (db_text b)
      in case map_of seen key of
           Some previous \<Rightarrow>
             \<lparr>vi_code = ''duplicate_answer_block'', vi_path = ''answer_blocks.'' @ int_text (int i) @ ''.text'',
              vi_message = ''answer block repeats the normalized text of answer_blocks.'' @ int_text (int previous)\<rparr>
             # duplicate_issues casefold bs (i + 1) seen
         | None \<Rightarrow> duplicate_issues casefold bs (i + 1) ((key, i) # seen))"

definition shape_issues :: "grounded_draft \<Rightarrow> validation_issue list" where
  "shape_issues d =
     (let unexplained = \<not> list_ex (\<lambda>v. strip v \<noteq> []) (gd_limitations d) in
      (if gd_status d = Status_Insufficient \<and> gd_answer_blocks d \<noteq> []
       then [\<lparr>vi_code = ''insufficient_has_blocks'', vi_path = ''answer_blocks'',
              vi_message = ''insufficient output must not contain answer blocks''\<rparr>] else []) @
      (if gd_status d \<noteq> Status_Insufficient \<and> gd_answer_blocks d = []
       then [\<lparr>vi_code = ''answer_blocks_missing'', vi_path = ''answer_blocks'',
              vi_message = ''complete or partial output requires answer blocks''\<rparr>] else []) @
      (if gd_status d = Status_Partial \<and> unexplained
       then [\<lparr>vi_code = ''partial_limitations_missing'', vi_path = ''limitations'',
              vi_message = ''partial output must identify the remaining evidence gap''\<rparr>] else []) @
      (if gd_status d = Status_Insufficient \<and> unexplained
       then [\<lparr>vi_code = ''insufficient_limitations_missing'', vi_path = ''limitations'',
              vi_message = ''insufficient output must explain the evidence limitation''\<rparr>] else []))"

definition validate_grounded_answer :: "(string \<Rightarrow> string) \<Rightarrow> grounded_draft \<Rightarrow> validation_issue list" where
  "validate_grounded_answer casefold d =
     shape_issues d @ duplicate_issues casefold (gd_answer_blocks d) 0 []"

end
