(* ===== verification/Ask_Context.thy ===== *)
theory Ask_Context
  imports Ask_Contracts
begin

text \<open>
  Fusing evidence and building the model context, src/shiliu/ask/context.py. Spans keep the values of
  src/shiliu/ask/contracts.py; a span is merged with another of the same lineage through the
  authoritative ordinals of their segments, which gives it a new citation identity.
\<close>

section \<open>Fusion\<close>

text \<open>\<open>_unique_dicts\<close>: the first of the dictionaries with the same JSON text.\<close>

definition unique_dicts :: "runtime \<Rightarrow> jdict list \<Rightarrow> jdict list" where
  "unique_dicts R values =
     map snd (fold (\<lambda>v d. let key = rt_json_dumps R (VDict v) in if map_of d key = None then d @ [(key, v)] else d)
       values [])"

text \<open>\<open>1.0 / (60.0 + max(1, int(value.get("rank", 1))))\<close>; \<open>int\<close> rejects some values.\<close>

definition provenance_share :: "runtime \<Rightarrow> (rat \<Rightarrow> rat) \<Rightarrow> jdict \<Rightarrow> rat result" where
  "provenance_share R rnd value =
     (case rt_int R (case map_of value ''rank'' of None \<Rightarrow> VInt 1 | Some v \<Rightarrow> v) of
        None \<Rightarrow> Inl Type_Error
      | Some n \<Rightarrow> Inr (rnd (1 / rnd (60 + rnd (of_int (max 1 n))))))"

definition provenance_score :: "runtime \<Rightarrow> (rat \<Rightarrow> rat) \<Rightarrow> evidence_span \<Rightarrow> rat result" where
  "provenance_score R rnd sp =
     ebind (emap (provenance_share R rnd) (sp_retrieval_provenance sp)) (\<lambda>shares. Inr (rt_sum R shares))"

definition fuse_into ::
  "runtime \<Rightarrow> (rat \<Rightarrow> rat) \<Rightarrow> evidence_span \<Rightarrow> rat \<Rightarrow> (string \<times> evidence_span) list \<Rightarrow> (string \<times> evidence_span) list"
where
  "fuse_into R rnd sp score by_identity =
     (case map_of by_identity (sp_citation_id sp) of
        None \<Rightarrow> AList.update (sp_citation_id sp) (sp\<lparr>sp_fusion_score := score\<rparr>) by_identity
      | Some existing \<Rightarrow> AList.update (sp_citation_id sp)
          (existing\<lparr>sp_retrieval_provenance :=
               unique_dicts R (sp_retrieval_provenance existing @ sp_retrieval_provenance sp),
             sp_parent_chunk_ids := fromkeys (sp_parent_chunk_ids existing @ sp_parent_chunk_ids sp),
             sp_fusion_score := rnd (sp_fusion_score existing + score)\<rparr>) by_identity)"

fun fuse_loop ::
  "runtime \<Rightarrow> (rat \<Rightarrow> rat) \<Rightarrow> evidence_span list \<Rightarrow> (string \<times> evidence_span) list
    \<Rightarrow> (string \<times> evidence_span) list result"
where
  "fuse_loop R rnd [] by_identity = Inr by_identity"
| "fuse_loop R rnd (sp # spans) by_identity =
     ebind (provenance_score R rnd sp) (\<lambda>score.
       fuse_loop R rnd spans (fuse_into R rnd sp score by_identity))"

definition fusion_key :: "evidence_span \<Rightarrow> rat \<times> int \<times> rat \<times> string" where
  "fusion_key s = (- sp_fusion_score s, sp_video_id s, sp_start_time s, sp_citation_id s)"

definition fuse_evidence :: "runtime \<Rightarrow> (rat \<Rightarrow> rat) \<Rightarrow> evidence_span list \<Rightarrow> evidence_span list result" where
  "fuse_evidence R rnd spans =
     ebind (fuse_loop R rnd spans []) (\<lambda>by_identity. Inr (sort_key fusion_key (map snd by_identity)))"

section \<open>Spans over segments\<close>

text \<open>The quote of a list of segments: their stripped texts, blank ones left out, line by line.\<close>

definition quote_of :: "evidence_segment list \<Rightarrow> string" where
  "quote_of segments =
     join [char_of (10 :: nat)] (filter (\<lambda>t. t \<noteq> []) (map (\<lambda>s. strip (es_source_text s)) segments))"

definition span_with_segments ::
  "platform \<Rightarrow> runtime \<Rightarrow> evidence_span \<Rightarrow> evidence_segment list \<Rightarrow> jdict list option \<Rightarrow> string list option
    \<Rightarrow> rat option \<Rightarrow> evidence_span result"
where
  "span_with_segments P R sp segments provenance parents fusion_score =
     (if segments = [] then Inl Type_Error
      else
        let start_time = es_start_time (hd segments) in
        ebind (stable_citation_id P (sp_source_artifact_id sp) (sp_source_version sp) (sp_timeline_run_id sp)
                 (map Projected segments) True) (\<lambda>citation_id.
        ebind (build_bilibili_jump_url R (sp_jump_url sp) (sp_bvid sp) (VFloat start_time)) (\<lambda>jump_url.
          case jump_url of
            None \<Rightarrow> Inl (Value_Error ''unable to rebuild citation jump URL'')
          | Some url \<Rightarrow> Inr (sp\<lparr>
              sp_citation_id := citation_id,
              sp_segment_ids := map es_segment_id segments,
              sp_segment_ordinals := map es_original_ordinal segments,
              sp_start_time := start_time,
              sp_end_time := es_end_time (last segments),
              sp_quote_text := quote_of segments,
              sp_jump_url := url,
              sp_segments := segments,
              sp_retrieval_provenance := (case provenance of
                  None \<Rightarrow> sp_retrieval_provenance sp
                | Some p \<Rightarrow> if p = [] then sp_retrieval_provenance sp else p),
              sp_parent_chunk_ids := (case parents of
                  None \<Rightarrow> sp_parent_chunk_ids sp
                | Some p \<Rightarrow> if p = [] then sp_parent_chunk_ids sp else p),
              sp_fusion_score := (case fusion_score of None \<Rightarrow> sp_fusion_score sp | Some x \<Rightarrow> x)\<rparr>))))"

fun fitting_segments :: "int \<Rightarrow> evidence_segment list \<Rightarrow> evidence_segment list \<Rightarrow> evidence_segment list" where
  "fitting_segments budget selected [] = selected"
| "fitting_segments budget selected (s # ss) =
     (if int (length (quote_of (selected @ [s]))) > budget then selected
      else fitting_segments budget (selected @ [s]) ss)"

definition fit_span :: "platform \<Rightarrow> runtime \<Rightarrow> evidence_span \<Rightarrow> int \<Rightarrow> evidence_span option result" where
  "fit_span P R sp budget =
     (let selected = fitting_segments budget [] (sp_segments sp)
      in if selected = [] then Inr None
         else if length selected = length (sp_segments sp) then Inr (Some sp)
         else ebind (span_with_segments P R sp selected None None None) (\<lambda>s. Inr (Some s)))"

definition same_lineage :: "evidence_span \<Rightarrow> evidence_span \<Rightarrow> bool" where
  "same_lineage l r \<longleftrightarrow>
     sp_video_id l = sp_video_id r \<and> sp_source_artifact_id l = sp_source_artifact_id r \<and>
     sp_source_version l = sp_source_version r \<and> sp_timeline_run_id l = sp_timeline_run_id r"

datatype segment_relation = Overlap | Adjacent | Separate

definition local_ordinals :: "evidence_span \<Rightarrow> int list" where
  "local_ordinals s = map es_run_local_ordinal (sp_segments s)"

text \<open>The extremum of an empty set raises.\<close>

definition max_of :: "int list \<Rightarrow> int result" where
  "max_of xs = (if xs = [] then Inl (Value_Error ''max() arg is an empty sequence'') else Inr (fold max (tl xs) (hd xs)))"

definition min_of :: "int list \<Rightarrow> int result" where
  "min_of xs = (if xs = [] then Inl (Value_Error ''min() arg is an empty sequence'') else Inr (fold min (tl xs) (hd xs)))"

definition segment_relation :: "evidence_span \<Rightarrow> evidence_span \<Rightarrow> segment_relation result" where
  "segment_relation l r =
     (let lv = local_ordinals l; rv = local_ordinals r
      in if list_ex (\<lambda>x. x \<in> set rv) lv then Inr Overlap
         else ebind (max_of lv) (\<lambda>lmax. ebind (min_of rv) (\<lambda>rmin.
           if lmax + 1 = rmin then Inr Adjacent
           else ebind (max_of rv) (\<lambda>rmax. ebind (min_of lv) (\<lambda>lmin.
             Inr (if rmax + 1 = lmin then Adjacent else Separate))))))"

definition merge_spans :: "platform \<Rightarrow> runtime \<Rightarrow> evidence_span \<Rightarrow> evidence_span \<Rightarrow> evidence_span result" where
  "merge_spans P R l r =
     (let by_id = dict_of es_segment_id (sp_segments l @ sp_segments r);
          segments = sort_key es_original_ordinal (map snd by_id)
      in span_with_segments P R l segments
           (Some (unique_dicts R (sp_retrieval_provenance l @ sp_retrieval_provenance r)))
           (Some (fromkeys (sp_parent_chunk_ids l @ sp_parent_chunk_ids r)))
           (Some (max (sp_fusion_score l) (sp_fusion_score r))))"

section \<open>The builder\<close>

record context_builder =
  cx_per_span_budget :: int
  cx_total_budget :: int
  cx_max_spans :: int

definition mk_context_builder :: "context_builder \<Rightarrow> context_builder result" where
  "mk_context_builder b =
     (if cx_per_span_budget b \<le> 0 \<or> cx_total_budget b \<le> 0
      then Inl (Value_Error ''context character budgets must be positive'')
      else if cx_max_spans b \<le> 0 then Inl (Value_Error ''max_spans must be positive'')
      else Inr b)"

definition default_context_builder :: context_builder where
  "default_context_builder = \<lparr>cx_per_span_budget = 2500, cx_total_budget = 12000, cx_max_spans = 12\<rparr>"

record context_result =
  cx_spans :: "evidence_span list"
  cx_model_context :: string
  cx_citation_allowlist :: "string list"
  cx_truncated :: bool
  cx_dropped_span_count :: nat

record build_state =
  bs_selected :: "evidence_span list"
  bs_total :: int
  bs_truncated :: bool
  bs_dropped :: nat

definition quote_length :: "evidence_span \<Rightarrow> int" where
  "quote_length s = int (length (sp_quote_text s))"

definition drop_one :: "build_state \<Rightarrow> build_state" where
  "drop_one s = s\<lparr>bs_truncated := True, bs_dropped := bs_dropped s + 1\<rparr>"

text \<open>
  The inner loop from \<open>index\<close> on: it tries to merge the sp into each selected sp of its lineage.
  The flag is \<open>merged\<close>; a merge that does not fit sets it too in two cases, and the loop goes on.
\<close>

function merge_loop ::
  "platform \<Rightarrow> runtime \<Rightarrow> context_builder \<Rightarrow> evidence_span \<Rightarrow> nat \<Rightarrow> bool \<Rightarrow> build_state \<Rightarrow> (bool \<times> build_state) result"
where
  "merge_loop P R b sp index merged s =
     (if index \<ge> length (bs_selected s) then Inr (merged, s)
      else
        let existing = bs_selected s ! index in
        if \<not> same_lineage existing sp then merge_loop P R b sp (index + 1) merged s
        else ebind (segment_relation existing sp) (\<lambda>relation.
          if relation = Separate then merge_loop P R b sp (index + 1) merged s
          else ebind (merge_spans P R existing sp) (\<lambda>candidate.
            if quote_length candidate > cx_per_span_budget b
            then (if relation = Overlap then merge_loop P R b sp (index + 1) True (drop_one s)
                  else merge_loop P R b sp (index + 1) merged s)
            else
              let delta = quote_length candidate - quote_length existing in
              if bs_total s + delta > cx_total_budget b then merge_loop P R b sp (index + 1) True (drop_one s)
              else Inr (True, s\<lparr>bs_selected := (bs_selected s)[index := candidate], bs_total := bs_total s + delta\<rparr>))))"
  by pat_completeness auto

termination
  by (relation "measure (\<lambda>(P, R, b, sp, index, merged, s). length (bs_selected s) - index)")
     (auto simp: drop_one_def)

declare merge_loop.simps [simp del]

definition add_span ::
  "platform \<Rightarrow> runtime \<Rightarrow> context_builder \<Rightarrow> evidence_span \<Rightarrow> build_state \<Rightarrow> build_state result"
where
  "add_span P R b source s =
     ebind (fit_span P R source (cx_per_span_budget b)) (\<lambda>fitted.
       case fitted of
         None \<Rightarrow> Inr (drop_one s)
       | Some sp \<Rightarrow>
           let s1 = (if sp_segment_ids sp \<noteq> sp_segment_ids source then s\<lparr>bs_truncated := True\<rparr> else s)
           in ebind (merge_loop P R b sp 0 False s1) (\<lambda>(merged, s2).
                if merged then Inr s2
                else if int (length (bs_selected s2)) \<ge> cx_max_spans b \<or>
                        bs_total s2 + quote_length sp > cx_total_budget b
                then Inr (drop_one s2)
                else Inr (s2\<lparr>bs_selected := bs_selected s2 @ [sp], bs_total := bs_total s2 + quote_length sp\<rparr>)))"

fun add_spans ::
  "platform \<Rightarrow> runtime \<Rightarrow> context_builder \<Rightarrow> evidence_span list \<Rightarrow> build_state \<Rightarrow> build_state result"
where
  "add_spans P R b [] s = Inr s"
| "add_spans P R b (sp # spans) s = ebind (add_span P R b sp s) (add_spans P R b spans)"

definition initial_build :: build_state where
  "initial_build = \<lparr>bs_selected = [], bs_total = 0, bs_truncated = False, bs_dropped = 0\<rparr>"

text \<open>\<open>json.dumps\<close> without sorted keys writes the members in the order they were given.\<close>

definition members_text :: "(string \<times> string) list \<Rightarrow> string" where
  "members_text kts = ''{'' @ join '','' (map (\<lambda>(k, t). string_text k @ '':'' @ t) kts) @ ''}''"

definition array_text :: "string list \<Rightarrow> string" where
  "array_text ts = ''['' @ join '','' ts @ '']''"

definition context_item :: "runtime \<Rightarrow> evidence_span \<Rightarrow> string" where
  "context_item R s = members_text
     [(''citation_id'', string_text (sp_citation_id s)), (''video_id'', int_text (sp_video_id s)),
      (''video_title'', string_text (sp_title s)), (''start_time'', rt_float_repr R (sp_start_time s)),
      (''end_time'', rt_float_repr R (sp_end_time s)), (''quote'', string_text (sp_quote_text s))]"

definition model_context :: "runtime \<Rightarrow> string \<Rightarrow> string \<Rightarrow> evidence_span list \<Rightarrow> string" where
  "model_context R query normalized_intent selected = members_text
     [(''user_query'', string_text query), (''normalized_intent'', string_text normalized_intent),
      (''citation_allowlist'', array_text (map (\<lambda>s. string_text (sp_citation_id s)) selected)),
      (''transcript_evidence'', array_text (map (context_item R) selected))]"

definition build_context ::
  "platform \<Rightarrow> runtime \<Rightarrow> context_builder \<Rightarrow> string \<Rightarrow> string \<Rightarrow> evidence_span list \<Rightarrow> context_result result"
where
  "build_context P R b query normalized_intent spans =
     ebind (add_spans P R b spans initial_build) (\<lambda>s.
       Inr \<lparr>cx_spans = bs_selected s, cx_model_context = model_context R query normalized_intent (bs_selected s),
            cx_citation_allowlist = map sp_citation_id (bs_selected s), cx_truncated = bs_truncated s,
            cx_dropped_span_count = bs_dropped s\<rparr>)"

end
