(* ===== verification/Context_Properties.thy ===== *)
theory Context_Properties
  imports Ask_Context
begin

text \<open>
  What the model context promises: its budgets, that it holds nothing but the evidence it was given,
  and that it says so when it leaves evidence out.
\<close>

section \<open>Spans and their segments\<close>

text \<open>A span whose ids and quote are those of its segments, as every constructor of a span makes it.\<close>

definition wf_span :: "evidence_span \<Rightarrow> bool" where
  "wf_span s \<longleftrightarrow>
     sp_segment_ids s = map es_segment_id (sp_segments s) \<and> sp_quote_text s = quote_of (sp_segments s)"

definition lineage_of :: "evidence_span \<Rightarrow> int \<times> string \<times> string \<times> string" where
  "lineage_of s = (sp_video_id s, sp_source_artifact_id s, sp_source_version s, sp_timeline_run_id s)"

definition segment_set :: "evidence_span \<Rightarrow> string set" where
  "segment_set s = es_segment_id ` set (sp_segments s)"

lemma same_lineage_iff: "same_lineage l r \<longleftrightarrow> lineage_of l = lineage_of r"
  by (auto simp: same_lineage_def lineage_of_def)

lemma span_with_segments_facts:
  assumes "span_with_segments P R x segments provenance parents score = Inr s"
  shows "sp_segments s = segments" and "wf_span s" and "lineage_of s = lineage_of x"
  using assms
  by (auto simp: span_with_segments_def wf_span_def lineage_of_def Let_def ebind_eq_Inr
      split: if_splits option.splits)

lemma fitting_segments_facts:
  "\<exists>k. fitting_segments budget selected ss = selected @ take k ss \<and>
     (k = 0 \<or> int (length (quote_of (selected @ take k ss))) \<le> budget)"
proof (induction ss arbitrary: selected)
  case (Cons s ss)
  show ?case
  proof (cases "int (length (quote_of (selected @ [s]))) > budget")
    case True
    then show ?thesis by (intro exI [of _ 0]) simp
  next
    case False
    obtain k where "fitting_segments budget (selected @ [s]) ss = (selected @ [s]) @ take k ss"
      "k = 0 \<or> int (length (quote_of ((selected @ [s]) @ take k ss))) \<le> budget"
      using Cons by blast
    then show ?thesis using False by (intro exI [of _ "Suc k"]) auto
  qed
qed simp

lemma fit_span_facts:
  assumes "fit_span P R x budget = Inr (Some s)" and "wf_span x"
  shows "wf_span s" and "lineage_of s = lineage_of x" and "segment_set s \<subseteq> segment_set x"
    and "quote_length s \<le> budget"
    and "sp_segment_ids s = sp_segment_ids x \<Longrightarrow> segment_set s = segment_set x"
proof -
  let ?sel = "fitting_segments budget [] (sp_segments x)"
  obtain k where k: "?sel = take k (sp_segments x)" "k = 0 \<or> int (length (quote_of (take k (sp_segments x)))) \<le> budget"
    using fitting_segments_facts [of budget "[]" "sp_segments x"] by auto
  have ne: "?sel \<noteq> []" using assms(1) by (auto simp: fit_span_def Let_def)
  have facts: "sp_segments s = ?sel" "wf_span s" "lineage_of s = lineage_of x"
  proof -
    consider (all) "length ?sel = length (sp_segments x)" "s = x"
      | (part) "span_with_segments P R x ?sel None None None = Inr s"
      using assms(1) ne by (auto simp: fit_span_def Let_def ebind_eq_Inr split: if_splits)
    then have "sp_segments s = ?sel \<and> wf_span s \<and> lineage_of s = lineage_of x"
    proof cases
      case all
      then show ?thesis using assms(2) k(1) by simp
    next
      case part
      then show ?thesis using span_with_segments_facts [OF part] by simp
    qed
    then show "sp_segments s = ?sel" "wf_span s" "lineage_of s = lineage_of x" by simp_all
  qed
  show "wf_span s" "lineage_of s = lineage_of x" by (rule facts)+
  show "segment_set s \<subseteq> segment_set x"
    using facts(1) k(1) by (auto simp: segment_set_def dest: in_set_takeD)
  show "quote_length s \<le> budget"
    using facts(1,2) k ne by (auto simp: quote_length_def wf_span_def)
  show "segment_set s = segment_set x" if "sp_segment_ids s = sp_segment_ids x"
    using that facts(2) assms(2) unfolding wf_span_def segment_set_def by (metis list.set_map)
qed

lemma set_map_dict_of: "set (map key (map snd (dict_of key xs))) = key ` set xs"
proof -
  have "k \<in> set (map key (map snd (dict_of key xs))) \<longleftrightarrow> k \<in> key ` set xs" for k
  proof -
    have dist: "distinct (map fst (dict_of key xs))"
      unfolding dict_of_def
      by (induction xs rule: rev_induct) (simp_all add: distinct_update)
    have entry: "(k, x) \<in> set (dict_of key xs) \<Longrightarrow> x \<in> set xs \<and> key x = k" for k x
      using dict_of_entry [of key xs k x] dist by (simp add: map_of_eq_Some_iff)
    show ?thesis
    proof
      assume "k \<in> set (map key (map snd (dict_of key xs)))"
      then obtain l x where "(l, x) \<in> set (dict_of key xs)" "k = key x" by auto
      then show "k \<in> key ` set xs" using entry by blast
    next
      assume k: "k \<in> key ` set xs"
      then have "map_of (dict_of key xs) k \<noteq> None"
        by (auto simp: map_of_dict_of find_None_iff)
      then obtain x where "(k, x) \<in> set (dict_of key xs)" using map_of_SomeD by fastforce
      moreover from this have "key x = k" using entry by blast
      ultimately show "k \<in> set (map key (map snd (dict_of key xs)))" by force
    qed
  qed
  then show ?thesis by blast
qed

lemma merge_spans_facts:
  assumes "merge_spans P R l r = Inr s"
  shows "wf_span s" and "lineage_of s = lineage_of l" and "segment_set s = segment_set l \<union> segment_set r"
proof -
  note f = span_with_segments_facts [OF assms [unfolded merge_spans_def Let_def]]
  show "wf_span s" "lineage_of s = lineage_of l" using f by simp_all
  have "segment_set s = set (map es_segment_id (map snd (dict_of es_segment_id (sp_segments l @ sp_segments r))))"
    unfolding segment_set_def f(1) by (simp only: set_sort set_map)
  then show "segment_set s = segment_set l \<union> segment_set r"
    by (simp only: set_map_dict_of segment_set_def set_append image_Un)
qed

section \<open>The loops\<close>

definition within_budget :: "context_builder \<Rightarrow> build_state \<Rightarrow> bool" where
  "within_budget b s \<longleftrightarrow>
     bs_total s = sum_list (map quote_length (bs_selected s)) \<and> bs_total s \<le> cx_total_budget b \<and>
     int (length (bs_selected s)) \<le> cx_max_spans b \<and>
     list_all (\<lambda>x. wf_span x \<and> quote_length x \<le> cx_per_span_budget b) (bs_selected s) \<and>
     (bs_dropped s > 0 \<longrightarrow> bs_truncated s)"

text \<open>A selected span stays, or takes in the segments of the new span of its lineage.\<close>

definition absorbs :: "evidence_span \<Rightarrow> evidence_span \<Rightarrow> evidence_span \<Rightarrow> bool" where
  "absorbs new x y \<longleftrightarrow>
     y = x \<or> (lineage_of x = lineage_of new \<and> lineage_of y = lineage_of x \<and>
             segment_set y = segment_set x \<union> segment_set new)"

text \<open>The new span is inside one of the selected ones.\<close>

definition contained :: "evidence_span \<Rightarrow> evidence_span list \<Rightarrow> bool" where
  "contained x selected \<longleftrightarrow> (\<exists>y \<in> set selected. lineage_of y = lineage_of x \<and> segment_set x \<subseteq> segment_set y)"

lemma within_budget_drop [simp]: "within_budget b s \<Longrightarrow> within_budget b (drop_one s)"
  by (simp add: within_budget_def drop_one_def)

lemma drop_one_fields [simp]:
  "bs_selected (drop_one s) = bs_selected s" "bs_truncated (drop_one s) = True" "bs_total (drop_one s) = bs_total s"
  by (simp_all add: drop_one_def)

lemma sum_list_map_update:
  "i < length xs \<Longrightarrow> sum_list (map f (xs[i := y])) = sum_list (map f xs) + (f y - f (xs ! i) :: int)"
  by (induction xs arbitrary: i) (auto split: nat.splits)

lemma absorbs_self: "absorbs x y y"
  by (simp add: absorbs_def)

lemma absorbs_refl: "list_all2 (absorbs x) xs xs"
  by (simp add: list_all2_conv_all_nth absorbs_self)

lemma merge_step:
  assumes "within_budget b s" "i < length (bs_selected s)" "merge_spans P R (bs_selected s ! i) x = Inr c"
    and "same_lineage (bs_selected s ! i) x" "\<not> quote_length c > cx_per_span_budget b"
    and "\<not> bs_total s + (quote_length c - quote_length (bs_selected s ! i)) > cx_total_budget b"
  defines "t \<equiv> s\<lparr>bs_selected := (bs_selected s)[i := c],
      bs_total := bs_total s + (quote_length c - quote_length (bs_selected s ! i))\<rparr>"
  shows "within_budget b t" and "list_all2 (absorbs x) (bs_selected s) (bs_selected t)" and "contained x (bs_selected t)"
proof -
  note c = merge_spans_facts [OF assms(3)]
  have "list_all (\<lambda>x. wf_span x \<and> quote_length x \<le> cx_per_span_budget b) ((bs_selected s)[i := c])"
    using assms(1,5) c(1) set_update_subset_insert [of "bs_selected s" i c]
    by (auto simp: within_budget_def list_all_iff)
  then show "within_budget b t"
    using assms(1,2,6) by (simp add: within_budget_def t_def sum_list_map_update)
  have new: "absorbs x (bs_selected s ! i) c"
    using c(2,3) assms(4) by (simp add: absorbs_def same_lineage_iff)
  then show "list_all2 (absorbs x) (bs_selected s) (bs_selected t)"
    unfolding t_def list_all2_conv_all_nth
  proof (intro conjI allI impI)
    fix j assume "j < length (bs_selected s)"
    then show "absorbs x (bs_selected s ! j) (bs_selected (s\<lparr>bs_selected := (bs_selected s)[i := c],
        bs_total := bs_total s + (quote_length c - quote_length (bs_selected s ! i))\<rparr>) ! j)"
      using new absorbs_self by (cases "j = i") simp_all
  qed simp
  show "contained x (bs_selected t)"
    unfolding contained_def
  proof (rule bexI [of _ c])
    show "lineage_of c = lineage_of x \<and> segment_set x \<subseteq> segment_set c"
      using c(2,3) assms(4) by (simp add: same_lineage_iff)
    show "c \<in> set (bs_selected t)" using assms(2) by (simp add: t_def set_update_memI)
  qed
qed

lemma merge_loop_facts:
  assumes "merge_loop P R b x i merged s = Inr (m, t)" and "within_budget b s"
  shows "within_budget b t \<and> list_all2 (absorbs x) (bs_selected s) (bs_selected t) \<and>
    (bs_truncated s \<longrightarrow> bs_truncated t) \<and> (m \<and> \<not> merged \<and> \<not> bs_truncated t \<longrightarrow> contained x (bs_selected t))"
  using assms
proof (induction P R b x i merged s arbitrary: m t rule: merge_loop.induct)
  case (1 P R b x i merged s)
  note unfold = 1(6) [unfolded merge_loop.simps [of P R b x i merged s] Let_def]
  show ?case
  proof (cases "i \<ge> length (bs_selected s)")
    case True
    then show ?thesis using unfold 1(7) by (auto simp: absorbs_refl)
  next
    case False
    let ?x = "bs_selected s ! i"
    show ?thesis
    proof (cases "same_lineage ?x x")
      case other: False
      then show ?thesis using 1(1) [OF False refl other] unfold 1(7) False by simp
    next
      case same: True
      obtain rel where rel: "segment_relation ?x x = Inr rel" using unfold False same by (auto simp: ebind_eq_Inr)
      show ?thesis
      proof (cases "rel = Separate")
        case True
        then show ?thesis using 1(2) [OF False refl _ True] same rel unfold 1(7) False by simp
      next
        case near: False
        obtain c where c: "merge_spans P R ?x x = Inr c"
          using unfold False same rel near by (auto simp: ebind_eq_Inr)
        consider (long) "quote_length c > cx_per_span_budget b"
          | (total) "\<not> quote_length c > cx_per_span_budget b"
              "bs_total s + (quote_length c - quote_length ?x) > cx_total_budget b"
          | (fits) "\<not> quote_length c > cx_per_span_budget b"
              "\<not> bs_total s + (quote_length c - quote_length ?x) > cx_total_budget b" by blast
        then show ?thesis
        proof cases
          case long
          then show ?thesis
            using 1(3,4) [OF False refl _ near long] same rel c unfold 1(7) False near by (cases rel) auto
        next
          case total
          then show ?thesis
            using 1(5) [OF False refl _ near total(1) refl total(2)] same rel c unfold 1(7) False near by auto
        next
          case fits
          then have "m" and t: "t = s\<lparr>bs_selected := (bs_selected s)[i := c],
              bs_total := bs_total s + (quote_length c - quote_length ?x)\<rparr>"
            using unfold False same rel near c by auto
          then show ?thesis
            using merge_step [OF 1(7) _ c same fits] False by auto
        qed
      qed
    qed
  qed
qed


lemma absorbs_contained:
  assumes "list_all2 (absorbs x) xs ys" "contained z xs"
  shows "contained z ys"
proof -
  obtain i where i: "i < length xs" "lineage_of (xs ! i) = lineage_of z" "segment_set z \<subseteq> segment_set (xs ! i)"
    using assms(2) by (auto simp: contained_def in_set_conv_nth)
  have "absorbs x (xs ! i) (ys ! i)" "i < length ys"
    using assms(1) i(1) by (auto simp: list_all2_conv_all_nth)
  moreover from this(2) have "ys ! i \<in> set ys" by (rule nth_mem)
  ultimately show ?thesis using i unfolding contained_def absorbs_def by (metis Un_upper1 subset_trans)
qed

text \<open>Every segment of a selected span comes from a given span of its lineage.\<close>

definition from_given :: "evidence_span list \<Rightarrow> evidence_span list \<Rightarrow> bool" where
  "from_given given selected \<longleftrightarrow>
     (\<forall>y \<in> set selected. \<forall>i \<in> segment_set y. \<exists>x \<in> set given. lineage_of x = lineage_of y \<and> i \<in> segment_set x)"

lemma absorbs_from_given:
  assumes "list_all2 (absorbs x) xs ys" "from_given given xs" "z \<in> set given"
    and "lineage_of x = lineage_of z" "segment_set x \<subseteq> segment_set z"
  shows "from_given given ys"
  unfolding from_given_def
proof (intro ballI)
  fix y i
  assume "y \<in> set ys" "i \<in> segment_set y"
  then obtain w where w: "w \<in> set xs" "absorbs x w y"
    using assms(1) by (metis in_set_conv_nth list_all2_conv_all_nth)
  then show "\<exists>v \<in> set given. lineage_of v = lineage_of y \<and> i \<in> segment_set v"
    using assms(2-5) \<open>i \<in> segment_set y\<close> unfolding from_given_def absorbs_def by (metis Un_iff subset_iff)
qed

definition context_inv :: "context_builder \<Rightarrow> evidence_span list \<Rightarrow> build_state \<Rightarrow> bool" where
  "context_inv b given s \<longleftrightarrow>
     within_budget b s \<and> from_given given (bs_selected s) \<and>
     (bs_truncated s \<or> (\<forall>x \<in> set given. contained x (bs_selected s)))"

lemma from_given_mono: "from_given given xs \<Longrightarrow> set given \<subseteq> set given' \<Longrightarrow> from_given given' xs"
  by (fastforce simp: from_given_def)

lemma add_span_inv:
  assumes "add_span P R b x s = Inr t" and "context_inv b given s" and "wf_span x"
  shows "context_inv b (given @ [x]) t"
proof -
  obtain fitted where fit: "fit_span P R x (cx_per_span_budget b) = Inr fitted"
    using assms(1) by (auto simp: add_span_def ebind_eq_Inr)
  have given: "from_given (given @ [x]) (bs_selected s)" "within_budget b s"
    using assms(2) by (auto simp: context_inv_def elim: from_given_mono)
  show ?thesis
  proof (cases fitted)
    case None
    then have "t = drop_one s" using assms(1) fit by (simp add: add_span_def)
    then show ?thesis using given by (simp add: context_inv_def)
  next
    case (Some y)
    note y = fit_span_facts [OF fit [unfolded Some] assms(3)]
    define s1 where "s1 = (if sp_segment_ids y \<noteq> sp_segment_ids x then s\<lparr>bs_truncated := True\<rparr> else s)"
    have s1: "within_budget b s1" "bs_selected s1 = bs_selected s"
      "\<not> bs_truncated s1 \<Longrightarrow> \<not> bs_truncated s \<and> segment_set y = segment_set x"
      using given(2) y(5)
      by (cases "sp_segment_ids y = sp_segment_ids x"; simp add: s1_def within_budget_def)+
    obtain m s2 where loop: "merge_loop P R b y 0 False s1 = Inr (m, s2)"
      and t: "t = (if m then s2
          else if int (length (bs_selected s2)) \<ge> cx_max_spans b \<or> bs_total s2 + quote_length y > cx_total_budget b
          then drop_one s2
          else s2\<lparr>bs_selected := bs_selected s2 @ [y], bs_total := bs_total s2 + quote_length y\<rparr>)"
      using assms(1) fit Some
      by (auto simp: add_span_def ebind_eq_Inr s1_def [symmetric] Let_def split: if_splits)
    note l = merge_loop_facts [OF loop s1(1)]
    have selected: "list_all2 (absorbs y) (bs_selected s) (bs_selected s2)" using l s1(2) by simp
    have from2: "from_given (given @ [x]) (bs_selected s2)"
      by (rule absorbs_from_given [OF selected given(1), of x]) (use y(2,3) in simp_all)
    have old: "\<forall>z \<in> set given. contained z (bs_selected s2)" if "\<not> bs_truncated s2"
    proof -
      have "\<not> bs_truncated s" using that l s1(3) by blast
      then show ?thesis using assms(2) absorbs_contained [OF selected] unfolding context_inv_def by blast
    qed
    have into: "contained x zs" if "contained y zs" "\<not> bs_truncated s2" for zs
      using that l s1(3) y(2) by (auto simp: contained_def)
    consider (merged) "m" "t = s2" | (dropped) "t = drop_one s2"
      | (added) "\<not> m" "int (length (bs_selected s2)) < cx_max_spans b"
          "bs_total s2 + quote_length y \<le> cx_total_budget b"
          "t = s2\<lparr>bs_selected := bs_selected s2 @ [y], bs_total := bs_total s2 + quote_length y\<rparr>"
      using t by (auto split: if_splits)
    then show ?thesis
    proof cases
      case merged
      then show ?thesis using l from2 old into by (auto simp: context_inv_def)
    next
      case dropped
      then show ?thesis using l from2 by (simp add: context_inv_def)
    next
      case added
      have "within_budget b t"
        using l added y(1,4) by (auto simp: within_budget_def)
      moreover have "from_given (given @ [x]) (bs_selected t)"
        using from2 added(4) y(2,3) by (auto simp: from_given_def)
      moreover have "contained y (bs_selected t)" using added(4) by (auto simp: contained_def)
      moreover have "contained z (bs_selected t)" if "contained z (bs_selected s2)" for z
        using that added(4) by (auto simp: contained_def)
      ultimately show ?thesis using added(4) old into by (auto simp: context_inv_def)
    qed
  qed
qed

lemma add_spans_inv:
  assumes "add_spans P R b xs s = Inr t" and "context_inv b given s" and "list_all wf_span xs"
  shows "context_inv b (given @ xs) t"
  using assms
proof (induction xs arbitrary: s given)
  case (Cons x xs)
  obtain u where u: "add_span P R b x s = Inr u" "add_spans P R b xs u = Inr t"
    using Cons.prems(1) by (auto simp: ebind_eq_Inr)
  have "context_inv b (given @ [x]) u" using add_span_inv [OF u(1) Cons.prems(2)] Cons.prems(3) by simp
  then show ?case using Cons.IH [OF u(2)] Cons.prems(3) by fastforce
qed simp

lemma build_context_inv:
  assumes "build_context P R b query intent spans = Inr r" and "mk_context_builder b = Inr b" and "list_all wf_span spans"
  shows "\<exists>t. context_inv b spans t \<and> cx_spans r = bs_selected t \<and>
    cx_citation_allowlist r = map sp_citation_id (bs_selected t) \<and> cx_truncated r = bs_truncated t \<and>
    cx_dropped_span_count r = bs_dropped t"
proof -
  obtain t where t: "add_spans P R b spans initial_build = Inr t" "cx_spans r = bs_selected t"
      "cx_citation_allowlist r = map sp_citation_id (bs_selected t)" "cx_truncated r = bs_truncated t"
      "cx_dropped_span_count r = bs_dropped t"
    using assms(1) by (auto simp: build_context_def ebind_eq_Inr)
  have "context_inv b [] initial_build"
    using assms(2) by (auto simp: context_inv_def within_budget_def from_given_def initial_build_def
        mk_context_builder_def split: if_splits)
  then have "context_inv b spans t" using add_spans_inv [OF t(1) _ assms(3)] by fastforce
  then show ?thesis using t by blast
qed

section \<open>Properties\<close>

text \<open>
  C7: The context built from well-formed spans keeps its budgets: at most \<open>max_spans\<close> spans, each
  quote within the budget of a span, all quotes together within the total budget. Every segment of
  it is a segment of a given span of the same video, artifact, version and timeline run, and the
  allowlist is the citation ids of its spans. When it is not marked truncated, nothing was left out:
  no span was dropped, and every given span is inside a span of the context.
\<close>

theorem context_is_bounded_and_honest:
  assumes "build_context P R b query intent spans = Inr r" and "mk_context_builder b = Inr b"
    and "list_all wf_span spans"
  shows "int (length (cx_spans r)) \<le> cx_max_spans b \<and>
    (\<Sum>s \<leftarrow> cx_spans r. quote_length s) \<le> cx_total_budget b \<and>
    list_all (\<lambda>s. wf_span s \<and> quote_length s \<le> cx_per_span_budget b) (cx_spans r) \<and>
    from_given spans (cx_spans r) \<and> cx_citation_allowlist r = map sp_citation_id (cx_spans r) \<and>
    (cx_truncated r \<or> (cx_dropped_span_count r = 0 \<and> (\<forall>x \<in> set spans. contained x (cx_spans r))))"
  using build_context_inv [OF assms] by (auto simp: context_inv_def within_budget_def)

definition sample_span :: "string \<Rightarrow> int \<Rightarrow> string \<Rightarrow> evidence_span" where
  "sample_span i n body =
     (let seg = \<lparr>es_segment_id = i, es_original_ordinal = n, es_run_local_ordinal = n, es_start_time = of_int n,
                 es_end_time = of_int n + 1, es_source_text = body\<rparr>
      in \<lparr>sp_citation_id = ''c'' @ i, sp_citation_identity_version = CITATION_IDENTITY_VERSION, sp_video_id = 7,
          sp_bvid = ''BV1'', sp_title = ''t'', sp_source_type = Source_Ai, sp_source_language = ''en'',
          sp_source_artifact_id = ''a'', sp_source_version = ''v'', sp_source_version_authority = ''x'',
          sp_timeline_run_id = ''r'', sp_segment_ids = [i], sp_segment_ordinals = [n], sp_start_time = of_int n,
          sp_end_time = of_int n + 1, sp_quote_text = quote_of [seg], sp_jump_url = ''u'',
          sp_parent_chunk_ids = [], sp_retrieval_provenance = [], sp_segments = [seg], sp_fusion_score = 0\<rparr>)"

lemma sample_span_wf: "list_all wf_span [sample_span ''s1'' 1 ''one'', sample_span ''s9'' 9 ''nine'']"
  by (simp add: sample_span_def wf_span_def Let_def)

lemma context_is_bounded_and_honest_witness:
  "\<exists>r. build_context sample_platform sample_runtime default_context_builder ''q'' ''i''
      [sample_span ''s1'' 1 ''one'', sample_span ''s9'' 9 ''nine''] = Inr r \<and>
    length (cx_spans r) = 2 \<and> (\<Sum>s \<leftarrow> cx_spans r. quote_length s) \<le> 12000"
proof -
  have "\<exists>r. build_context sample_platform sample_runtime default_context_builder ''q'' ''i''
      [sample_span ''s1'' 1 ''one'', sample_span ''s9'' 9 ''nine''] = Inr r \<and> length (cx_spans r) = 2"
    by (simp add: build_context_def add_span_def fit_span_def sample_span_def Let_def quote_of_def strip_def
        is_space_def default_context_builder_def initial_build_def merge_loop.simps same_lineage_def
        segment_relation_def local_ordinals_def max_of_def min_of_def quote_length_def)
  then obtain r where r: "build_context sample_platform sample_runtime default_context_builder ''q'' ''i''
      [sample_span ''s1'' 1 ''one'', sample_span ''s9'' 9 ''nine''] = Inr r" "length (cx_spans r) = 2" by blast
  have "mk_context_builder default_context_builder = Inr default_context_builder"
    by (simp add: mk_context_builder_def default_context_builder_def)
  from context_is_bounded_and_honest [OF r(1) this sample_span_wf]
  show ?thesis using r by (auto simp: default_context_builder_def)
qed


section \<open>The dropped count\<close>

text \<open>
  The inner loop goes on after a merge that does not fit, and counts again: one span that overlaps
  two selected ones and fits into neither is counted twice.
\<close>

definition numbered_segment :: "int \<Rightarrow> evidence_segment" where
  "numbered_segment n = \<lparr>es_segment_id = int_text n, es_original_ordinal = n, es_run_local_ordinal = n,
     es_start_time = 0, es_end_time = 1, es_source_text = ''five!''\<rparr>"

definition numbered_span :: "int list \<Rightarrow> evidence_span" where
  "numbered_span ns = (sample_span ''x'' 0 ''x'')
     \<lparr>sp_segment_ids := map int_text ns, sp_segments := map numbered_segment ns,
      sp_quote_text := quote_of (map numbered_segment ns)\<rparr>"

definition small_builder :: context_builder where
  "small_builder = \<lparr>cx_per_span_budget = 20, cx_total_budget = 100, cx_max_spans = 5\<rparr>"

lemma dropped_counts_one_span_twice:
  "\<exists>r. build_context sample_platform sample_runtime small_builder ''q'' ''i''
      [numbered_span [1, 2], numbered_span [4, 5], numbered_span [2, 3, 4]] = Inr r \<and>
    length (cx_spans r) = 2 \<and> cx_dropped_span_count r = 2"
proof -
  let ?s = "\<lparr>bs_selected = [numbered_span [1, 2], numbered_span [4, 5]], bs_total = 22, bs_truncated = False,
     bs_dropped = 0\<rparr>"
  note defs = numbered_span_def numbered_segment_def sample_span_def Let_def quote_of_def strip_def is_space_def
    int_text_def digits_of.simps
  have fit: "fit_span P R (numbered_span ns) 20 = Inr (Some (numbered_span ns))"
    if "ns \<in> {[1, 2], [4, 5], [2, 3, 4]}" for P R ns
    using that by (auto simp: fit_span_def defs)
  have rel: "segment_relation (numbered_span [1, 2]) (numbered_span [4, 5]) = Inr Separate"
    "segment_relation (numbered_span [1, 2]) (numbered_span [2, 3, 4]) = Inr Overlap"
    "segment_relation (numbered_span [4, 5]) (numbered_span [2, 3, 4]) = Inr Overlap"
    by (simp_all add: segment_relation_def local_ordinals_def max_of_def min_of_def defs)
  have same: "same_lineage (numbered_span ns) (numbered_span ms)" for ns ms
    by (simp add: same_lineage_def numbered_span_def)
  have len: "quote_length (numbered_span [1, 2]) = 11" "quote_length (numbered_span [4, 5]) = 11"
    by (simp_all add: quote_length_def defs)
  have merge: "\<exists>c. merge_spans sample_platform sample_runtime (numbered_span [1, 2]) (numbered_span [2, 3, 4]) = Inr c \<and>
      quote_length c = 23"
    "\<exists>c. merge_spans sample_platform sample_runtime (numbered_span [4, 5]) (numbered_span [2, 3, 4]) = Inr c \<and>
      quote_length c = 23"
    by (simp_all add: merge_spans_def span_with_segments_def stable_citation_id_def build_bilibili_jump_url_def
        jump_base_def jump_seconds_def sample_runtime_def dict_of_def unique_dicts_def quote_length_def defs)
  then obtain c d where cd:
    "merge_spans sample_platform sample_runtime (numbered_span [1, 2]) (numbered_span [2, 3, 4]) = Inr c"
    "quote_length c = 23"
    "merge_spans sample_platform sample_runtime (numbered_span [4, 5]) (numbered_span [2, 3, 4]) = Inr d"
    "quote_length d = 23" by blast
  have "add_spans sample_platform sample_runtime small_builder
      [numbered_span [1, 2], numbered_span [4, 5], numbered_span [2, 3, 4]] initial_build =
    Inr (drop_one (drop_one ?s))"
    by (simp add: add_span_def small_builder_def fit initial_build_def merge_loop.simps rel same len cd drop_one_def)
  then show ?thesis by (simp add: build_context_def drop_one_def)
qed

end
