(* ===== verification/Ask_Adaptive.thy ===== *)
theory Ask_Adaptive
  imports Ask_Context Continuation_Refresh
begin

text \<open>
  The adapters of src/shiliu/ask/adaptive.py between the ask package and the evidence decision: the
  decision over current evidence, the envelope of a completed run, revalidation of inherited evidence
  and the targeted refresh over the search service. The run store, the search service, the
  materializer and pydantic's reading of a citation are arguments.
\<close>

section \<open>Directives\<close>

datatype directive = Dir_Finalize | Dir_Targeted_Refresh | Dir_Deep_Research | Dir_Stop

definition decision_directive :: "evidence_decision \<Rightarrow> directive" where
  "decision_directive d =
     (if ed_action d \<in> {Answer_Fresh, Direct_Reuse} then Dir_Finalize
      else if ed_action d = Targeted_Refresh then Dir_Targeted_Refresh
      else if ed_action d = Deep_Research then Dir_Deep_Research
      else Dir_Stop)"

section \<open>A decision over current evidence\<close>

definition evidence_reference :: "evidence_span \<Rightarrow> authority_reference result" where
  "evidence_reference s =
     (let r = EvidenceAuthorityReference (sp_citation_id s) (sp_source_artifact_id s) (sp_source_version s)
                (sp_timeline_run_id s) (sp_segment_ids s) Version_Current In_Scope Authorized
      in if valid_reference r then Inr r else Inl Validation_Error)"

definition mk_coverage :: "aspect_coverage \<Rightarrow> aspect_coverage result" where
  "mk_coverage c = (if valid_coverage c then Inr c else Inl Validation_Error)"

definition mk_scope :: "scope_assessment \<Rightarrow> scope_assessment result" where
  "mk_scope s = (if valid_scope s then Inr s else Inl Validation_Error)"

definition mk_freshness :: "corpus_new_material_check \<Rightarrow> library_freshness result" where
  "mk_freshness check =
     (let f = \<lparr>lf_status = Fresh, lf_check = check\<rparr>
      in if valid_new_material_check check \<and> valid_freshness f then Inr f else Inl Validation_Error)"

text \<open>\<open>references_by_id.setdefault(reference.reference_id, reference)\<close> for each span.\<close>

fun references_of :: "evidence_span list \<Rightarrow> (string \<times> authority_reference) list \<Rightarrow> authority_reference list result" where
  "references_of [] d = Inr (map snd d)"
| "references_of (s # ss) d =
     ebind (evidence_reference s) (\<lambda>r.
       references_of ss (if map_of d (reference_id r) = None then d @ [(reference_id r, r)] else d))"

record current_request =
  cu_question :: string
  cu_scope :: "(string \<times> json) list"
  cu_requirements :: "evidence_requirement list option"
  cu_parent_decision_id :: "string option"
  cu_contribution_kind :: contribution_kind
  cu_existing_reference_ids :: "string list"
  cu_inherited_contributions :: "evidence_contribution list"
  cu_recorded_at :: "datetime option"

text \<open>\<open>requirements or (\<dots>)\<close>: missing and empty requirements both give the default one.\<close>

definition bounded_requirements :: "current_request \<Rightarrow> evidence_requirement list result" where
  "bounded_requirements q =
     (case cu_requirements q of
        Some (r # rs) \<Rightarrow> Inr (r # rs)
      | _ \<Rightarrow> ebind (mk_requirement ''question'' (cu_question q) Explicit_User 0) (\<lambda>r. Inr [r]))"

definition current_coverage :: "authority_reference list \<Rightarrow> evidence_requirement \<Rightarrow> aspect_coverage result" where
  "current_coverage references r = mk_coverage
     \<lparr>ac_aspect_id = rq_aspect_id r, ac_status = (if references \<noteq> [] then Covered else Open_Aspect),
      ac_authority_references = references,
      ac_explanation = (if references \<noteq> [] then ''current Evidence acquired for the requirement''
                        else ''no eligible current Evidence acquired'')\<rparr>"

definition current_contribution ::
  "current_request \<Rightarrow> evidence_requirement list \<Rightarrow> authority_reference \<Rightarrow> evidence_contribution result"
where
  "current_contribution q requirements r = mk_contribution
     (if reference_id r \<in> set (cu_existing_reference_ids q) then Reused else cu_contribution_kind q)
     (reference_id r) (map rq_aspect_id requirements)"

definition current_input ::
  "platform \<Rightarrow> current_request \<Rightarrow> datetime \<Rightarrow> evidence_requirement list \<Rightarrow> authority_reference list
    \<Rightarrow> evidence_decision_input result"
where
  "current_input P q current_time requirements references =
     ebind (emap (current_coverage references) requirements) (\<lambda>coverage.
     ebind (emap (current_contribution q requirements) references) (\<lambda>contributions.
     ebind (mk_scope \<lparr>sc_status = Scope_Exact, sc_requested_scope_hash = scope_hash P (JObj (cu_scope q)),
              sc_candidate_scope_hash = Some (scope_hash P (JObj (cu_scope q))),
              sc_explanation = ''current execution uses the requested normalized scope'',
              sc_compared_reference_ids = []\<rparr>) (\<lambda>scope.
     ebind (mk_freshness \<lparr>nm_status = No_Relevant_New_Material, nm_recorded_check_time = current_time,
              nm_previous_check_time = None,
              nm_bounded_query_hash = sha256_identity P
                (JObj [(''question'', JStr (cu_question q)), (''scope'', JObj (cu_scope q))]),
              nm_candidate_reference_ids = map reference_id references,
              nm_relevant_material_reference_ids = []\<rparr>) (\<lambda>freshness.
       mk_decision_input
         \<lparr>di_normalized_question = cu_question q, di_parent_decision_id = cu_parent_decision_id q,
          di_requirements = requirements, di_scope = scope, di_coverage = coverage,
          di_library_freshness = freshness, di_conflicts = [],
          di_contributions = cu_inherited_contributions q @ contributions, di_semantic_advice = []\<rparr>))))"

definition create_current_evidence_decision ::
  "platform \<Rightarrow> runtime \<Rightarrow> (rat \<Rightarrow> rat) \<Rightarrow> datetime \<Rightarrow> current_request \<Rightarrow> evidence_span list \<Rightarrow> evidence_decision result"
where
  "create_current_evidence_decision P R rnd now q spans =
     (let current_time = (case cu_recorded_at q of None \<Rightarrow> now | Some t \<Rightarrow> t)
      in ebind (bounded_requirements q) (\<lambda>requirements.
         ebind (fuse_evidence R rnd spans) (\<lambda>fused_spans.
         ebind (references_of fused_spans []) (\<lambda>references.
         ebind (current_input P q current_time requirements references) (\<lambda>input.
           create_evidence_decision P input current_time)))))"

section \<open>The envelope of a completed run\<close>

text \<open>The fields of a stored citation that its lineage hash binds.\<close>

record citation_payload =
  cp_citation_id :: string
  cp_citation_identity_version :: string
  cp_source_artifact_id :: string
  cp_source_version :: string
  cp_timeline_run_id :: string
  cp_segment_ids :: "string list"

definition evidence_lineage_hash :: "platform \<Rightarrow> citation_payload \<Rightarrow> string" where
  "evidence_lineage_hash P c = sha256_identity P (JObj
     [(''citation_id'', JStr (cp_citation_id c)),
      (''citation_identity_version'', JStr (cp_citation_identity_version c)),
      (''source_artifact_id'', JStr (cp_source_artifact_id c)), (''source_version'', JStr (cp_source_version c)),
      (''timeline_run_id'', JStr (cp_timeline_run_id c)), (''segment_ids'', strs (cp_segment_ids c))])"

definition search_reference_of :: "runtime \<Rightarrow> jdict \<Rightarrow> search_reference result" where
  "search_reference_of R v =
     (case map_of v ''search_trace_id'' of
        None \<Rightarrow> Inl Key_Error
      | Some trace \<Rightarrow>
          let or_else = (\<lambda>k text. if truthy (dict_get v k) then rt_str R (dict_get v k) else text);
              s = \<lparr>sx_execution_id = (if truthy (dict_get v ''execution_id'')
                     then Some (rt_str R (dict_get v ''execution_id'')) else None),
                   sx_search_trace_id = rt_str R trace,
                   sx_query = or_else ''query'' ''unknown'', sx_relation_kind = or_else ''relation_kind'' ''retrieval'',
                   sx_trace_persisted = (case map_of v ''trace_persisted'' of None \<Rightarrow> True | Some b \<Rightarrow> truthy b)\<rparr>
          in if valid_search_reference s then Inr s else Inl Validation_Error)"

definition inherited_of :: "platform \<Rightarrow> string list \<Rightarrow> citation_payload \<Rightarrow> inherited_evidence result" where
  "inherited_of P execution_ids c =
     (let i = \<lparr>ih_reference_id = cp_citation_id c, ih_citation_identity_version = cp_citation_identity_version c,
               ih_source_artifact_id = cp_source_artifact_id c, ih_source_version = cp_source_version c,
               ih_timeline_run_id = cp_timeline_run_id c, ih_segment_ids = cp_segment_ids c,
               ih_citation_lineage_hash = evidence_lineage_hash P c, ih_search_execution_ids = execution_ids\<rparr>
      in if valid_inherited i then Inr i else Inl Validation_Error)"

definition envelope_for_completed_run ::
  "platform \<Rightarrow> runtime \<Rightarrow> string \<Rightarrow> evidence_decision \<Rightarrow> continuation_target \<Rightarrow> string \<Rightarrow> (string \<times> json) list
    \<Rightarrow> citation_payload list \<Rightarrow> jdict list \<Rightarrow> failure_state \<Rightarrow> continuation_envelope result"
where
  "envelope_for_completed_run P R run_id decision target question filters citations executions failure =
     ebind (emap (search_reference_of R) executions) (\<lambda>searches.
     ebind (emap (inherited_of P (List.map_filter sx_execution_id searches)) citations) (\<lambda>inherited.
       create_continuation_envelope P run_id decision target question filters
         \<lparr>eo_inherited = inherited, eo_searches = searches, eo_budget = None, eo_failure = failure,
          eo_receipt = RS_Not_Applicable, eo_side_effect = SE_None, eo_stop = None,
          eo_contributions = Some (fromkeys (ed_contributions decision))\<rparr>))"

section \<open>Revalidation\<close>

record parent_run =
  pn_lifecycle_status :: string
  pn_citations :: "jdict list"
  pn_search_executions :: "jdict list"
  pn_query :: jvalue

record revalidated =
  rv_decision :: evidence_decision
  rv_spans :: "evidence_span list"
  rv_dropped_reference_ids :: "string list"
  rv_failure_state :: failure_state

definition payload_of_citation :: "citation \<Rightarrow> citation_payload" where
  "payload_of_citation c =
     \<lparr>cp_citation_id = ci_citation_id c, cp_citation_identity_version = ci_citation_identity_version c,
      cp_source_artifact_id = ci_source_artifact_id c, cp_source_version = ci_source_version c,
      cp_timeline_run_id = ci_timeline_run_id c, cp_segment_ids = ci_segment_ids c\<rparr>"

definition citation_matches_envelope :: "platform \<Rightarrow> citation \<Rightarrow> inherited_evidence \<Rightarrow> bool" where
  "citation_matches_envelope P c i \<longleftrightarrow>
     ci_citation_identity_version c = ih_citation_identity_version i \<and>
     ci_source_artifact_id c = ih_source_artifact_id i \<and> ci_source_version c = ih_source_version i \<and>
     ci_timeline_run_id c = ih_timeline_run_id i \<and> ci_segment_ids c = ih_segment_ids i \<and>
     evidence_lineage_hash P (payload_of_citation c) = ih_citation_lineage_hash i"

definition citations_by_id ::
  "runtime \<Rightarrow> (jdict \<Rightarrow> citation result) \<Rightarrow> jdict list \<Rightarrow> (string \<times> citation) list result"
where
  "citations_by_id R validate values =
     ebind (emap (\<lambda>v. case map_of v ''citation_id'' of
                None \<Rightarrow> Inl Key_Error
              | Some i \<Rightarrow> ebind (validate v) (\<lambda>c. Inr (rt_str R i, c))) values)
       (\<lambda>pairs. Inr (fold (\<lambda>(k, c) d. AList.update k c d) pairs []))"

definition searches_by_id :: "runtime \<Rightarrow> jdict list \<Rightarrow> (string \<times> jdict) list" where
  "searches_by_id R values =
     dict_of (\<lambda>v. rt_str R (dict_get v ''execution_id'')) (filter (\<lambda>v. truthy (dict_get v ''execution_id'')) values)"

text \<open>The first of the reference's searches the parent run recorded, or no field at all.\<close>

definition inherited_search :: "(string \<times> jdict) list \<Rightarrow> inherited_evidence \<Rightarrow> jdict" where
  "inherited_search by_id i =
     (case List.map_filter (map_of by_id) (ih_search_execution_ids i) of [] \<Rightarrow> [] | v # vs \<Rightarrow> v)"

type_synonym reconstruction = "citation \<Rightarrow> string \<Rightarrow> string \<Rightarrow> string \<Rightarrow> evidence_span result"

text \<open>
  The clause \<open>except (EvidenceContractError, ValueError, KeyError, TypeError)\<close>: pydantic's error is
  a \<open>ValueError\<close>; a \<open>RuntimeError\<close>, which a storage conflict is too, goes through.
\<close>

fun caught_by_replay :: "py_error \<Rightarrow> bool" where
  "caught_by_replay (Conflict _) = False"
| "caught_by_replay (Runtime_Error _) = False"
| "caught_by_replay _ = True"

definition replay_citation ::
  "platform \<Rightarrow> runtime \<Rightarrow> reconstruction \<Rightarrow> (string \<times> citation) list \<Rightarrow> (string \<times> jdict) list \<Rightarrow> jvalue
    \<Rightarrow> inherited_evidence \<Rightarrow> evidence_span option result"
where
  "replay_citation P R reconstruct citations searches query i =
     (case map_of citations (ih_reference_id i) of
        None \<Rightarrow> Inr None
      | Some c \<Rightarrow>
          if \<not> citation_matches_envelope P c i then Inr None
          else
            let search = inherited_search searches i;
                or_else = (\<lambda>k v. rt_str R (if truthy (dict_get search k) then dict_get search k else v))
            in case reconstruct c (or_else ''execution_id'' (VStr ''inherited''))
                      (or_else ''search_trace_id'' (VStr ''inherited'')) (or_else ''query'' query) of
                 Inl err \<Rightarrow> if caught_by_replay err then Inr None else Inl err
               | Inr s \<Rightarrow> Inr (Some s))"

text \<open>The lists \<open>valid\<close> and \<open>dropped\<close> that the loop fills, from the outcome of each replay.\<close>

definition replayed_spans :: "evidence_span option list \<Rightarrow> evidence_span list" where
  "replayed_spans outcomes = List.map_filter id outcomes"

definition dropped_ids :: "inherited_evidence list \<Rightarrow> evidence_span option list \<Rightarrow> string list" where
  "dropped_ids inherited outcomes =
     map (\<lambda>(i, outcome). ih_reference_id i) (filter (\<lambda>(i, outcome). outcome = None) (zip inherited outcomes))"

fun mark_current :: "authority_reference \<Rightarrow> authority_reference" where
  "mark_current (EvidenceAuthorityReference i a v r ss _ _ _) =
     EvidenceAuthorityReference i a v r ss Version_Current In_Scope Authorized"
| "mark_current (FactRevisionAuthorityReference i rs _ _ _) =
     FactRevisionAuthorityReference i rs Version_Current In_Scope Authorized"

fun mark_stale :: "authority_reference \<Rightarrow> authority_reference" where
  "mark_stale (EvidenceAuthorityReference i a v r ss _ sc au) =
     EvidenceAuthorityReference i a v r ss Version_Stale sc au"
| "mark_stale (FactRevisionAuthorityReference i rs _ sc au) = FactRevisionAuthorityReference i rs Version_Stale sc au"

definition revalidated_reference :: "string list \<Rightarrow> string list \<Rightarrow> authority_reference \<Rightarrow> authority_reference option" where
  "revalidated_reference valid dropped r =
     (if reference_id r \<in> set valid then Some (mark_current r)
      else if reference_id r \<in> set dropped then Some (mark_stale r)
      else None)"

definition revalidated_coverage :: "string list \<Rightarrow> string list \<Rightarrow> aspect_coverage \<Rightarrow> aspect_coverage result" where
  "revalidated_coverage valid dropped item =
     (let references = List.map_filter (revalidated_reference valid dropped) (ac_authority_references item)
      in mk_coverage
        \<lparr>ac_aspect_id = ac_aspect_id item,
         ac_status = (if list_ex (\<lambda>r. ref_version_status r = Version_Current) references then Covered else Open_Aspect),
         ac_authority_references = references,
         ac_explanation = ''inherited Evidence was revalidated for this child execution''\<rparr>)"

definition revalidated_contribution ::
  "string list \<Rightarrow> string list \<Rightarrow> evidence_contribution \<Rightarrow> evidence_contribution option"
where
  "revalidated_contribution valid dropped c =
     (if cn_reference_id c \<in> set valid then Some (c\<lparr>cn_kind := Reused\<rparr>)
      else if cn_reference_id c \<in> set dropped then Some (c\<lparr>cn_kind := Dropped\<rparr>)
      else None)"

definition revalidated_decision ::
  "platform \<Rightarrow> datetime \<Rightarrow> evidence_decision \<Rightarrow> string list \<Rightarrow> string list \<Rightarrow> evidence_decision result"
where
  "revalidated_decision P now d valid dropped =
     ebind (emap (revalidated_coverage valid dropped) (ed_coverage d)) (\<lambda>coverage.
     ebind (mk_freshness \<lparr>nm_status = No_Relevant_New_Material, nm_recorded_check_time = now,
              nm_previous_check_time = Some (nm_recorded_check_time (lf_check (ed_library_freshness d))),
              nm_bounded_query_hash = sha256_identity P (JObj
                [(''parent_decision_id'', JStr (ed_decision_id d)),
                 (''revalidated'', strs (sort (fromkeys valid)))]),
              nm_candidate_reference_ids = sort (fromkeys valid), nm_relevant_material_reference_ids = []\<rparr>)
       (\<lambda>freshness.
     ebind (mk_decision_input
         \<lparr>di_normalized_question = ed_normalized_question d, di_parent_decision_id = Some (ed_decision_id d),
          di_requirements = ed_requirements d, di_scope = ed_scope d, di_coverage = coverage,
          di_library_freshness = freshness, di_conflicts = ed_conflicts d,
          di_contributions = List.map_filter (revalidated_contribution valid dropped) (ed_contributions d),
          di_semantic_advice = ed_semantic_advice d\<rparr>) (\<lambda>input.
       create_evidence_decision P input now)))"

definition revalidate_inherited_evidence ::
  "platform \<Rightarrow> runtime \<Rightarrow> (jdict \<Rightarrow> citation result) \<Rightarrow> reconstruction \<Rightarrow> (string \<Rightarrow> parent_run option) \<Rightarrow> datetime
    \<Rightarrow> evidence_decision \<Rightarrow> continuation_envelope \<Rightarrow> revalidated result"
where
  "revalidate_inherited_evidence P R validate reconstruct get_run now d e =
     (if ce_parent_decision_id e \<noteq> ed_decision_id d
      then Inl (Value_Error ''continuation parent decision mismatch'')
      else
        let unavailable = Inr \<lparr>rv_decision = d, rv_spans = [],
              rv_dropped_reference_ids = map ih_reference_id (ce_inherited_evidence e),
              rv_failure_state = F_Evidence_Unavailable\<rparr>
        in case get_run (ce_parent_run_id e) of
          None \<Rightarrow> unavailable
        | Some parent \<Rightarrow>
            if pn_lifecycle_status parent \<noteq> ''completed'' then unavailable
            else ebind (citations_by_id R validate (pn_citations parent)) (\<lambda>citations.
              ebind (emap (replay_citation P R reconstruct citations
                      (searches_by_id R (pn_search_executions parent)) (pn_query parent)) (ce_inherited_evidence e)) (\<lambda>outcomes.
              let valid = replayed_spans outcomes; dropped = dropped_ids (ce_inherited_evidence e) outcomes
              in ebind (revalidated_decision P now d (map sp_citation_id valid) dropped) (\<lambda>revalidated.
                   Inr \<lparr>rv_decision = revalidated, rv_spans = valid, rv_dropped_reference_ids = dropped,
                        rv_failure_state = (if valid \<noteq> [] \<or> ce_inherited_evidence e = [] then F_None
                                            else F_Evidence_Unavailable)\<rparr>))))"

section \<open>The targeted refresh over the search service\<close>

record search_execution =
  xs_execution_id :: string
  xs_trace_id :: string
  xs_query :: string
  xs_trace_persisted :: bool

text \<open>
  \<open>service n query index\<close> is the outcome of the n-th search: the execution and the spans the
  materializer makes of it, or the exception of any of the three calls.
\<close>

type_synonym search_service = "nat \<Rightarrow> string \<Rightarrow> int \<Rightarrow> (search_execution \<times> evidence_span list) result"

definition failed_observation :: "string \<Rightarrow> refresh_observation" where
  "failed_observation aspect =
     \<lparr>ob_aspect_id = aspect, ob_aspect_complete = False, ob_authority_references = [], ob_dropped_reference_ids = [],
      ob_search_executions = [], ob_conflicts = [], ob_failure_state = F_Evidence_Unavailable,
      ob_receipt_state = RS_Not_Applicable, ob_side_effect_state = SE_None\<rparr>"

text \<open>The bounds \<open>RefreshObservation\<close> puts on its fields; a breach raises pydantic's error.\<close>

definition mk_observation :: "refresh_observation \<Rightarrow> refresh_observation result" where
  "mk_observation ob =
     (if len_between 1 160 (ob_aspect_id ob) \<and> length (ob_authority_references ob) \<le> 16 \<and>
         length (ob_dropped_reference_ids ob) \<le> 16 \<and> length (ob_search_executions ob) \<le> 16 \<and>
         length (ob_conflicts ob) \<le> 16
      then Inr ob else Inl Validation_Error)"

text \<open>
  Only the three calls of the search are inside the \<open>try\<close>: an observation that breaks its bounds
  raises out of the callback.
\<close>

definition search_callback :: "search_service \<Rightarrow> refresh_callback" where
  "search_callback service n aspect query round_number =
     (case service n query (round_number - 1) of
        Inl _ \<Rightarrow> mk_observation (failed_observation aspect)
      | Inr (execution, spans) \<Rightarrow>
          ebind (emap evidence_reference spans) (\<lambda>references.
            let s = \<lparr>sx_execution_id = Some (xs_execution_id execution), sx_search_trace_id = xs_trace_id execution,
                     sx_query = xs_query execution, sx_relation_kind = ''targeted_refresh'',
                     sx_trace_persisted = xs_trace_persisted execution\<rparr>
            in if \<not> valid_search_reference s then Inl Validation_Error
               else mk_observation ((failed_observation aspect)\<lparr>ob_aspect_complete := spans \<noteq> [],
                 ob_authority_references := references, ob_search_executions := [s],
                 ob_failure_state := F_None\<rparr>)))"

text \<open>The spans \<open>new_spans\<close> has collected after the given calls.\<close>

definition collected_spans :: "search_service \<Rightarrow> (string \<times> string \<times> int) list \<Rightarrow> evidence_span list" where
  "collected_spans service calls =
     concat (map (\<lambda>(n, aspect, query, round_number).
       case service n query (round_number - 1) of Inl _ \<Rightarrow> [] | Inr (execution, spans) \<Rightarrow> spans)
       (List.enumerate 0 calls))"

record adaptive_output =
  ao_execution :: execution_result
  ao_inherited_spans :: "evidence_span list"
  ao_new_spans :: "evidence_span list"

definition output_spans :: "runtime \<Rightarrow> (rat \<Rightarrow> rat) \<Rightarrow> adaptive_output \<Rightarrow> evidence_span list result" where
  "output_spans R rnd out = fuse_evidence R rnd (ao_inherited_spans out @ ao_new_spans out)"

definition execute_targeted_refresh ::
  "platform \<Rightarrow> runtime \<Rightarrow> (rat \<Rightarrow> rat) \<Rightarrow> search_service \<Rightarrow> (nat \<Rightarrow> datetime) \<Rightarrow> evidence_decision
    \<Rightarrow> continuation_envelope \<Rightarrow> evidence_span list \<Rightarrow> adaptive_output result"
where
  "execute_targeted_refresh P R rnd service now d e inherited_spans =
     ebind (run_targeted_refresh P (search_callback service) now d e) (\<lambda>(execution, calls).
     ebind (fuse_evidence R rnd (collected_spans service calls)) (\<lambda>new_spans.
       Inr \<lparr>ao_execution = execution, ao_inherited_spans = inherited_spans, ao_new_spans = new_spans\<rparr>))"

end
