(* ===== verification/Adaptive_Properties.thy ===== *)
theory Adaptive_Properties
  imports Ask_Adaptive Evidence_Properties Continuation_Properties
begin

text \<open>
  Revalidation of inherited evidence: a decision made again rests on spans replayed from their source
  only, and without its parent run a decision is returned as it was. A search that finds more than
  sixteen spans ends the refresh with an error.
\<close>

section \<open>Coverage after revalidation\<close>

lemma mk_coverage_Inr: "mk_coverage c = Inr d \<longleftrightarrow> d = c \<and> valid_coverage c"
  by (auto simp: mk_coverage_def)

lemma marked_id [simp]: "reference_id (mark_current r) = reference_id r" "reference_id (mark_stale r) = reference_id r"
  by (cases r; simp)+

lemma stale_not_eligible [simp]: "\<not> eligible (mark_stale r)"
  by (cases r) (simp_all add: eligible_iff)

lemma map_filter_elem: "y \<in> set (List.map_filter f xs) \<longleftrightarrow> (\<exists>x \<in> set xs. f x = Some y)"
  by (force simp: List.map_filter_def)

lemma revalidated_eligible:
  assumes "revalidated_coverage valid dropped item = Inr c" and "r \<in> set (ac_authority_references c)"
    and "eligible r"
  shows "reference_id r \<in> set valid"
  using assms
  by (auto simp: revalidated_coverage_def mk_coverage_Inr map_filter_elem revalidated_reference_def Let_def
      split: if_splits)

lemma revalidated_covered:
  assumes "revalidated_coverage valid dropped item = Inr c" and "ac_status c = Covered"
  shows "ac_authority_references c \<noteq> []"
  using assms by (auto simp: revalidated_coverage_def mk_coverage_Inr Let_def split: if_splits)

lemma revalidated_decision_Inr:
  assumes "revalidated_decision P now d valid dropped = Inr e"
  obtains v where "emap (revalidated_coverage valid dropped) (ed_coverage d) = Inr (di_coverage v)"
    and "di_parent_decision_id v = Some (ed_decision_id d)" and "valid_decision_input v"
    and "create_evidence_decision P v now = Inr e"
proof -
  obtain coverage freshness input where
    c: "emap (revalidated_coverage valid dropped) (ed_coverage d) = Inr coverage"
      "mk_decision_input \<lparr>di_normalized_question = ed_normalized_question d,
          di_parent_decision_id = Some (ed_decision_id d), di_requirements = ed_requirements d,
          di_scope = ed_scope d, di_coverage = coverage, di_library_freshness = freshness,
          di_conflicts = ed_conflicts d,
          di_contributions = List.map_filter (revalidated_contribution valid dropped) (ed_contributions d),
          di_semantic_advice = ed_semantic_advice d\<rparr> = Inr input"
      "create_evidence_decision P input now = Inr e"
    using assms unfolding revalidated_decision_def ebind_eq_Inr by blast
  from c(2) have "di_coverage input = coverage" "di_parent_decision_id input = Some (ed_decision_id d)"
      "valid_decision_input input"
    by (auto simp: mk_decision_input_def split: if_splits)
  then show thesis using that [of input] c(1,3) by simp
qed

lemma revalidated_answer:
  assumes "revalidated_decision P now d valid dropped = Inr e"
    and "ed_action e \<in> {Answer_Fresh, Direct_Reuse}" and c: "c \<in> set (ed_coverage e)"
  shows "ac_authority_references c \<noteq> [] \<and> reference_id ` set (ac_authority_references c) \<subseteq> set valid"
proof -
  obtain v where v: "emap (revalidated_coverage valid dropped) (ed_coverage d) = Inr (di_coverage v)"
      "valid_decision_input v" "create_evidence_decision P v now = Inr e"
    using revalidated_decision_Inr [OF assms(1)] by metis
  obtain v' where v': "reordered v v'" "ed_action e = spec_action v" "ed_coverage e = di_coverage v'"
    using create_resolved [OF v(3,2)] by metis
  have safe: "safe_answer v" using assms(2) v'(2) spec_action_answers by simp
  have cv: "c \<in> set (di_coverage v)" using c v'(1,3) by (simp add: reordered_facts)
  from emap_Inr_elem [OF v(1) cv] obtain item where item: "revalidated_coverage valid dropped item = Inr c"
    by blast
  note sc = safe_answer_coverage [OF safe cv]
  show ?thesis
    using revalidated_covered [OF item sc(1)] revalidated_eligible [OF item] sc(2)
    by (auto simp: list_all_iff)
qed

lemma created_parent:
  assumes "create_evidence_decision P v t = Inr d" and "valid_decision_input v"
  shows "ed_parent_decision_id d = di_parent_decision_id v"
proof -
  obtain v' gates sel where c: "resolved_input v = Inr v'"
      "seal_decision P (decision_payload P v' gates sel t) = Inr d"
    using create_Inr [OF assms(1)] by metis
  from resolved_input_ok [OF assms(2)] c(1) have "reordered v v'" by auto
  with seal_Inr [OF c(2)] show ?thesis by (simp add: reordered_facts)
qed

lemma revalidated_parent:
  assumes "revalidated_decision P now d valid dropped = Inr e"
  shows "ed_parent_decision_id e = Some (ed_decision_id d)"
  using revalidated_decision_Inr [OF assms] created_parent by metis

lemma replays_split:
  "length outcomes = length inherited \<Longrightarrow>
     length (replayed_spans outcomes) + length (dropped_ids inherited outcomes) = length inherited"
  by (induction outcomes inherited rule: list_induct2)
     (auto simp: replayed_spans_def dropped_ids_def List.map_filter_simps split: option.splits)

text \<open>
  A span that was replayed: the materializer built it again from a citation the parent run recorded
  under an inherited reference and whose identity is still the one inherited.
\<close>

definition replayed_from ::
  "platform \<Rightarrow> reconstruction \<Rightarrow> inherited_evidence list \<Rightarrow> evidence_span \<Rightarrow> bool" where
  "replayed_from P reconstruct inherited s \<longleftrightarrow>
     (\<exists>i \<in> set inherited. \<exists>c execution trace query. citation_matches_envelope P c i \<and>
        reconstruct c execution trace query = Inr s)"

lemma replay_citation_from:
  assumes "replay_citation P R reconstruct citations searches query i = Inr (Some s)" and "i \<in> set inherited"
  shows "replayed_from P reconstruct inherited s"
proof -
  have from_citation: "\<exists>x t q. reconstruct c x t q = Inr s"
    if "(case reconstruct c x t q of Inl err \<Rightarrow> if caught_by_replay err then Inr None else Inl err
         | Inr s \<Rightarrow> Inr (Some s)) = Inr (Some s)" for c x t q
    using that by (auto split: sum.splits if_splits)
  from assms(1) obtain c where c: "map_of citations (ih_reference_id i) = Some c" "citation_matches_envelope P c i"
    by (auto simp: replay_citation_def Let_def split: option.splits if_split_asm)
  with from_citation assms show ?thesis unfolding replayed_from_def replay_citation_def Let_def
    by (simp only: option.case not_True_eq_False if_False) blast
qed

lemma replayed_spans_from:
  assumes "emap (replay_citation P R reconstruct citations searches query) inherited = Inr outcomes"
    and "s \<in> set (replayed_spans outcomes)"
  shows "replayed_from P reconstruct inherited s"
proof -
  have "Some s \<in> set outcomes" using assms(2) by (simp add: replayed_spans_def map_filter_elem)
  with emap_Inr_elem [OF assms(1)] replay_citation_from show ?thesis by metis
qed

lemma dropped_ids_inherited: "set (dropped_ids inherited outcomes) \<subseteq> set (map ih_reference_id inherited)"
  by (auto simp: dropped_ids_def dest: set_zip_leftD)

section \<open>A revalidation that drops what the decision rested on\<close>

definition sample_inherited :: inherited_evidence where
  "sample_inherited =
     \<lparr>ih_reference_id = ''ref'', ih_citation_identity_version = CITATION_IDENTITY_VERSION,
      ih_source_artifact_id = ''artifact'', ih_source_version = ''v1'', ih_timeline_run_id = ''run'',
      ih_segment_ids = [''seg''], ih_citation_lineage_hash = sample_hash, ih_search_execution_ids = []\<rparr>"

definition sample_parent :: parent_run where
  "sample_parent = \<lparr>pn_lifecycle_status = ''completed'', pn_citations = [], pn_search_executions = [],
     pn_query = VStr ''what changed''\<rparr>"

definition inherited_options :: envelope_options where
  "inherited_options = plain_options\<lparr>eo_inherited := [sample_inherited]\<rparr>"

lemma sample_resolved:
  "resolved_input sample_input = Inr (sample_input\<lparr>di_requirements := rev (di_requirements sample_input),
     di_coverage := rev (di_coverage sample_input)\<rparr>)"
  by (simp add: resolved_input_def resolve_requirements_def sample_input_def sort_key_def requirement_key_def
      MAX_REQUIREMENTS_def MAX_INFERRED_REQUIREMENTS_def inferred_count_def dict_of_def key_lookup_def)

lemma sample_parent_decision:
  obtains d where "create_evidence_decision parent_platform sample_input sample_time = Inr d"
    and "ed_decision_id d = root_id" and "ed_action d = Direct_Reuse"
    and "ed_coverage d = rev (di_coverage sample_input)" and "ed_conflicts d = []"
    and "ed_requirements d = rev (di_requirements sample_input)"
    and "ed_normalized_question d = ''what changed''" and "ed_scope d = di_scope sample_input"
    and "ed_library_freshness d = di_library_freshness sample_input"
    and "ed_contributions d = di_contributions sample_input" and "ed_semantic_advice d = []"
proof -
  have "validate_time_causality sample_input sample_time = Inr ()"
    by (simp add: validate_time_causality_def sample_input_def later_def)
  then obtain d where d: "create_evidence_decision parent_platform sample_input sample_time = Inr d"
    using create_total [OF sample_input_valid parent_platform, of sample_time]
    by (auto simp: sample_input_def sample_time_def aware_def)
  obtain v' gates sel where c: "resolved_input sample_input = Inr v'"
      "seal_decision parent_platform (decision_payload parent_platform v' gates sel sample_time) = Inr d"
    using create_Inr [OF d] by metis
  have v': "v' = sample_input\<lparr>di_requirements := rev (di_requirements sample_input),
      di_coverage := rev (di_coverage sample_input)\<rparr>" using c(1) sample_resolved by simp
  have "decision_id_of parent_platform None h g = root_id"
    if "h \<in> set sample_hashes" and "g \<in> set sample_hashes" for h g
    using root_ids that by (simp add: list_all_iff)
  then have id: "decision_id_of parent_platform None (sha256_identity parent_platform x)
      (sha256_identity parent_platform y) = root_id" for x y
    using parent_hash by blast
  have action: "ed_action d = Direct_Reuse"
    using create_fields [OF d sample_input_valid] sample_spec by metis
  define payload where "payload = decision_payload parent_platform v' gates sel sample_time"
  from seal_Inr [OF c(2)] obtain h where h: "d = payload\<lparr>ed_decision_hash := h\<rparr>"
    unfolding payload_def by blast
  have fields: "ed_decision_id d = root_id" "ed_coverage d = rev (di_coverage sample_input)" "ed_conflicts d = []"
    "ed_requirements d = rev (di_requirements sample_input)" "ed_normalized_question d = ''what changed''"
    "ed_scope d = di_scope sample_input" "ed_library_freshness d = di_library_freshness sample_input"
    "ed_contributions d = di_contributions sample_input" "ed_semantic_advice d = []"
    by (simp_all add: h payload_def v' id) (simp_all add: sample_input_def id)
  show thesis by (rule that [OF d fields(1) action fields(2-9)])
qed

lemma sample_envelope:
  assumes "create_evidence_decision parent_platform sample_input sample_time = Inr d"
  obtains e where "create_continuation_envelope parent_platform ''run'' d T_Deep ''what changed'' [] inherited_options = Inr e"
    and "ce_inherited_evidence e = [sample_inherited]" and "ce_parent_decision_id e = ed_decision_id d"
proof -
  have "\<exists>e. create_continuation_envelope parent_platform ''run'' d T_Deep ''what changed'' [] inherited_options = Inr e"
    by (rule envelope_for_decision [OF parent_platform assms sample_input_wf])
       (simp_all add: inherited_options_def plain_options_def len_between_def)
  then obtain e where e: "create_continuation_envelope parent_platform ''run'' d T_Deep ''what changed'' [] inherited_options = Inr e"
    by blast
  have "ce_inherited_evidence e = [sample_inherited]"
    using create_envelope_Inr(18) [OF e] by (simp add: inherited_options_def)
  then show thesis using that [OF e] create_envelope_Inr(3) [OF e] by blast
qed

definition stale_reference :: authority_reference where
  "stale_reference = mark_stale sample_reference"

lemma sample_revalidated:
  assumes "create_evidence_decision parent_platform sample_input sample_time = Inr d"
    and "ed_decision_id d = root_id"
    and "ed_coverage d = rev (di_coverage sample_input)" and "ed_conflicts d = []"
    and "ed_requirements d = rev (di_requirements sample_input)"
    and "ed_normalized_question d = ''what changed''" and "ed_scope d = di_scope sample_input"
    and "ed_library_freshness d = di_library_freshness sample_input"
    and "ed_contributions d = di_contributions sample_input" and "ed_semantic_advice d = []"
  shows "\<exists>e. revalidated_decision parent_platform sample_time d [] [''ref''] = Inr e"
proof -
  define coverage where "coverage = map (\<lambda>a. \<lparr>ac_aspect_id = a, ac_status = Open_Aspect, ac_authority_references = [stale_reference],
      ac_explanation = ''inherited Evidence was revalidated for this child execution''\<rparr>) [''a'', ''b'']"
  have coverage: "emap (revalidated_coverage [] [''ref'']) (ed_coverage d) = Inr coverage"
    by (simp add: coverage_def assms(3) sample_input_def revalidated_coverage_def revalidated_reference_def sample_reference_def
        List.map_filter_simps mk_coverage_def valid_coverage_def len_between_def stale_reference_def)
  define check where "check = \<lparr>nm_status = No_Relevant_New_Material, nm_recorded_check_time = sample_time,
     nm_previous_check_time = Some sample_time,
     nm_bounded_query_hash = sha256_identity parent_platform
       (JObj [(''parent_decision_id'', JStr (ed_decision_id d)), (''revalidated'', strs [])]),
     nm_candidate_reference_ids = [], nm_relevant_material_reference_ids = []\<rparr>"
  have check: "mk_freshness check = Inr \<lparr>lf_status = Fresh, lf_check = check\<rparr>"
    by (simp add: mk_freshness_def check_def valid_new_material_check_def valid_freshness_def aware_def sample_time_def later_def)
  define v where "v = \<lparr>di_normalized_question = ed_normalized_question d, di_parent_decision_id = Some (ed_decision_id d),
     di_requirements = ed_requirements d, di_scope = ed_scope d, di_coverage = coverage,
     di_library_freshness = \<lparr>lf_status = Fresh, lf_check = check\<rparr>, di_conflicts = ed_conflicts d,
     di_contributions = List.map_filter (revalidated_contribution [] [''ref'']) (ed_contributions d),
     di_semantic_advice = ed_semantic_advice d\<rparr>"
  have valid: "valid_decision_input v"
    by (simp add: v_def coverage_def assms valid_decision_input_def sample_input_def len_between_def root_id_def hex32_id_def
        hex_text_def lower_hex_def MAX_REQUIREMENTS_def MAX_CONFLICTS_def MAX_SEMANTIC_ADVICE_def
        MAX_INFERRED_REQUIREMENTS_def inferred_count_def insert_commute)
  have "decision_id_of parent_platform (Some root_id) h g \<noteq> root_id"
    if "h \<in> set sample_hashes" and "g \<in> set sample_hashes" for h g
    using child_ids that by (simp add: list_all_iff)
  then have fresh: "decision_id_of parent_platform (Some p) (sha256_identity parent_platform x)
      (sha256_identity parent_platform y) \<noteq> p" if "di_parent_decision_id v = Some p" for p x y
    using that parent_hash assms(2) by (auto simp: v_def)
  have "validate_time_causality v sample_time = Inr ()"
    by (simp add: v_def assms(4) check_def validate_time_causality_def later_def)
  moreover have "aware sample_time" by (simp add: sample_time_def aware_def)
  ultimately obtain e where e: "create_evidence_decision parent_platform v sample_time = Inr e"
    using create_total_child [OF valid parent_platform _ fresh] by blast
  have prior: "nm_recorded_check_time (lf_check (ed_library_freshness d)) = sample_time"
    by (simp add: assms(8) sample_input_def)
  have "revalidated_decision parent_platform sample_time d [] [''ref''] = Inr e"
    using e valid
    by (simp add: revalidated_decision_def coverage prior check [unfolded check_def] mk_decision_input_def v_def
        check_def)
  then show ?thesis by blast
qed

lemma revalidated_has_coverage:
  assumes "revalidated_decision P now d valid dropped = Inr e"
  shows "ed_coverage e \<noteq> []"
proof -
  obtain v where v: "valid_decision_input v" "create_evidence_decision P v now = Inr e"
    using revalidated_decision_Inr [OF assms] by metis
  obtain v' where v': "reordered v v'" "ed_coverage e = di_coverage v'"
    using create_resolved [OF v(2,1)] by metis
  have "di_coverage v \<noteq> []" using v(1) by (auto simp: valid_decision_input_def len_between_def)
  then show ?thesis using reordered_facts(2) [OF v'(1)] v'(2) by (metis set_empty)
qed

section \<open>A search with more spans than an observation holds\<close>

lemma many_spans_raise:
  assumes "service n query (k - 1) = Inr (execution, spans)" and "length spans > 16"
  shows "\<exists>err. search_callback service n aspect query k = Inl err"
proof (cases "emap evidence_reference spans")
  case (Inr references)
  with assms emap_length [OF Inr] show ?thesis
    by (simp add: search_callback_def mk_observation_def Let_def)
qed (simp add: search_callback_def assms(1))

section \<open>Properties\<close>

definition parent_available :: "(string \<Rightarrow> parent_run option) \<Rightarrow> continuation_envelope \<Rightarrow> bool" where
  "parent_available get_run e \<longleftrightarrow>
     (case get_run (ce_parent_run_id e) of None \<Rightarrow> False | Some p \<Rightarrow> pn_lifecycle_status p = ''completed'')"

lemma revalidate_available:
  assumes "revalidate_inherited_evidence P R validate reconstruct get_run now d e = Inr r"
    and "parent_available get_run e"
  obtains outcomes where "length outcomes = length (ce_inherited_evidence e)"
    and "rv_spans r = replayed_spans outcomes"
    and "rv_dropped_reference_ids r = dropped_ids (ce_inherited_evidence e) outcomes"
    and "revalidated_decision P now d (map sp_citation_id (rv_spans r)) (rv_dropped_reference_ids r) = Inr (rv_decision r)"
    and "rv_failure_state r = (if rv_spans r \<noteq> [] \<or> ce_inherited_evidence e = [] then F_None else F_Evidence_Unavailable)"
    and "\<forall>s \<in> set (rv_spans r). replayed_from P reconstruct (ce_inherited_evidence e) s"
proof -
  obtain p where p: "get_run (ce_parent_run_id e) = Some p" "pn_lifecycle_status p = ''completed''"
    using assms(2) by (auto simp: parent_available_def split: option.splits)
  have bound: "ce_parent_decision_id e = ed_decision_id d"
    using assms(1) by (auto simp: revalidate_inherited_evidence_def split: if_splits)
  note unfolded = assms(1) [unfolded revalidate_inherited_evidence_def Let_def]
  obtain outcomes n where n: "length outcomes = length (ce_inherited_evidence e)"
    "revalidated_decision P now d (map sp_citation_id (replayed_spans outcomes))
       (dropped_ids (ce_inherited_evidence e) outcomes) = Inr n"
    "r = \<lparr>rv_decision = n, rv_spans = replayed_spans outcomes,
          rv_dropped_reference_ids = dropped_ids (ce_inherited_evidence e) outcomes,
          rv_failure_state = (if replayed_spans outcomes \<noteq> [] \<or> ce_inherited_evidence e = [] then F_None
                              else F_Evidence_Unavailable)\<rparr>"
    "\<forall>s \<in> set (replayed_spans outcomes). replayed_from P reconstruct (ce_inherited_evidence e) s"
    using unfolded emap_length [of _ "ce_inherited_evidence e"] replayed_spans_from [of P R reconstruct _ _ _ "ce_inherited_evidence e"]
    by (simp add: bound p ebind_eq_Inr) blast
  show thesis by (rule that [of outcomes]) (simp_all add: n)
qed

text \<open>
  The sample decision may reuse an earlier answer. When its parent run is not found, the revalidation
  replays nothing and still returns a decision that allows finalizing; its callers look at that only.
\<close>

lemma missing_parent_still_finalizes:
  "\<exists>d e r. ce_inherited_evidence e \<noteq> [] \<and>
     revalidate_inherited_evidence P R validate reconstruct (\<lambda>_. None) now d e = Inr r \<and>
     rv_spans r = [] \<and> rv_failure_state r = F_Evidence_Unavailable \<and> decision_directive (rv_decision r) = Dir_Finalize"
proof -
  obtain d where d: "create_evidence_decision parent_platform sample_input sample_time = Inr d" "ed_action d = Direct_Reuse"
    using sample_parent_decision .
  obtain e where
      "create_continuation_envelope parent_platform ''run'' d T_Deep ''what changed'' [] inherited_options = Inr e"
      and e: "ce_inherited_evidence e = [sample_inherited]" "ce_parent_decision_id e = ed_decision_id d"
    using sample_envelope [OF d(1)] .
  show ?thesis
    by (rule exI [of _ d], rule exI [of _ e]) (simp add: revalidate_inherited_evidence_def e d(2) decision_directive_def)
qed

text \<open>
  C36: a revalidated answer rests on replayed spans. Every span the revalidation returns was built again from
  its source, through a citation of the parent run that still has the inherited identity. When the
  parent run is there, the inherited references split into replayed spans and dropped ids, the new
  decision is a child of the old one, and if it allows finalizing then every aspect of it rests on
  references and all of them are citations of replayed spans. When the parent run is gone or not
  completed, nothing is decided again: everything is dropped and the failure says so, but the decision
  is the old one, so an answer it allowed is still allowed, with no span behind it.
\<close>

theorem revalidation_rests_on_replayed:
  assumes "revalidate_inherited_evidence P R validate reconstruct get_run now d e = Inr r"
  shows "(\<forall>s \<in> set (rv_spans r). replayed_from P reconstruct (ce_inherited_evidence e) s) \<and>
    (if parent_available get_run e
     then ed_parent_decision_id (rv_decision r) = Some (ed_decision_id d) \<and>
      length (rv_spans r) + length (rv_dropped_reference_ids r) = length (ce_inherited_evidence e) \<and>
      set (rv_dropped_reference_ids r) \<subseteq> set (map ih_reference_id (ce_inherited_evidence e)) \<and>
      (rv_failure_state r = F_Evidence_Unavailable \<longleftrightarrow> rv_spans r = [] \<and> ce_inherited_evidence e \<noteq> []) \<and>
      (decision_directive (rv_decision r) = Dir_Finalize \<longrightarrow> rv_spans r \<noteq> [] \<and>
         (\<forall>c \<in> set (ed_coverage (rv_decision r)). ac_authority_references c \<noteq> [] \<and>
            reference_id ` set (ac_authority_references c) \<subseteq> set (map sp_citation_id (rv_spans r))))
     else rv_decision r = d \<and> decision_directive (rv_decision r) = decision_directive d \<and> rv_spans r = [] \<and>
      rv_dropped_reference_ids r = map ih_reference_id (ce_inherited_evidence e) \<and>
      rv_failure_state r = F_Evidence_Unavailable)"
proof (cases "parent_available get_run e")
  case True
  obtain outcomes where r: "length outcomes = length (ce_inherited_evidence e)" "rv_spans r = replayed_spans outcomes"
    "rv_dropped_reference_ids r = dropped_ids (ce_inherited_evidence e) outcomes"
    and dec: "revalidated_decision P now d (map sp_citation_id (rv_spans r)) (rv_dropped_reference_ids r) = Inr (rv_decision r)"
    and failure: "rv_failure_state r = (if rv_spans r \<noteq> [] \<or> ce_inherited_evidence e = [] then F_None else F_Evidence_Unavailable)"
    and source: "\<forall>s \<in> set (rv_spans r). replayed_from P reconstruct (ce_inherited_evidence e) s"
    using revalidate_available [OF assms True] by metis
  have "length (rv_spans r) + length (rv_dropped_reference_ids r) = length (ce_inherited_evidence e)"
    using replays_split [OF r(1)] by (simp add: r)
  moreover have "set (rv_dropped_reference_ids r) \<subseteq> set (map ih_reference_id (ce_inherited_evidence e))"
    unfolding r(3) by (rule dropped_ids_inherited)
  moreover have "rv_spans r \<noteq> [] \<and> (\<forall>c \<in> set (ed_coverage (rv_decision r)). ac_authority_references c \<noteq> [] \<and>
      reference_id ` set (ac_authority_references c) \<subseteq> set (map sp_citation_id (rv_spans r)))"
    if "decision_directive (rv_decision r) = Dir_Finalize"
  proof -
    have "ed_action (rv_decision r) \<in> {Answer_Fresh, Direct_Reuse}"
      using that by (auto simp: decision_directive_def split: if_splits)
    note rests = revalidated_answer [OF dec this]
    obtain c where "c \<in> set (ed_coverage (rv_decision r))"
      using revalidated_has_coverage [OF dec] by (meson list.set_sel(1))
    from rests [OF this] rests show ?thesis by auto
  qed
  moreover have "rv_failure_state r = F_Evidence_Unavailable \<longleftrightarrow> rv_spans r = [] \<and> ce_inherited_evidence e \<noteq> []"
    using failure by simp
  ultimately show ?thesis
    using True revalidated_parent [OF dec] source by simp
next
  case False
  with assms show ?thesis
    by (auto simp: parent_available_def revalidate_inherited_evidence_def split: if_splits option.splits)
qed

lemma revalidation_rests_on_replayed_witness:
  "\<exists>d e r. ed_action d = Direct_Reuse \<and>
     revalidate_inherited_evidence parent_platform sample_runtime (\<lambda>_. Inl Validation_Error)
       (\<lambda>_ _ _ _. Inl Validation_Error) (\<lambda>_. Some sample_parent) sample_time d e = Inr r \<and>
     rv_dropped_reference_ids r = [''ref''] \<and> rv_spans r = [] \<and>
     ed_parent_decision_id (rv_decision r) = Some (ed_decision_id d) \<and>
     decision_directive (rv_decision r) \<noteq> Dir_Finalize"
proof -
  obtain d where d: "create_evidence_decision parent_platform sample_input sample_time = Inr d"
      "ed_decision_id d = root_id" "ed_action d = Direct_Reuse"
      "ed_coverage d = rev (di_coverage sample_input)" "ed_conflicts d = []"
      "ed_requirements d = rev (di_requirements sample_input)" "ed_normalized_question d = ''what changed''"
      "ed_scope d = di_scope sample_input" "ed_library_freshness d = di_library_freshness sample_input"
      "ed_contributions d = di_contributions sample_input" "ed_semantic_advice d = []"
    using sample_parent_decision .
  obtain e where
      "create_continuation_envelope parent_platform ''run'' d T_Deep ''what changed'' [] inherited_options = Inr e"
      and e: "ce_inherited_evidence e = [sample_inherited]" "ce_parent_decision_id e = ed_decision_id d"
    using sample_envelope [OF d(1)] .
  obtain n where n: "revalidated_decision parent_platform sample_time d [] [''ref''] = Inr n"
    using sample_revalidated [OF d(1,2) d(4-11)] by blast
  have "\<exists>r. revalidate_inherited_evidence parent_platform sample_runtime (\<lambda>_. Inl Validation_Error)
       (\<lambda>_ _ _ _. Inl Validation_Error) (\<lambda>_. Some sample_parent) sample_time d e = Inr r \<and> rv_decision r = n \<and>
       rv_spans r = [] \<and> rv_dropped_reference_ids r = [''ref'']"
    using n by (simp add: revalidate_inherited_evidence_def e sample_parent_def citations_by_id_def
        replay_citation_def replayed_spans_def dropped_ids_def List.map_filter_simps sample_inherited_def)
  then obtain r where r: "revalidate_inherited_evidence parent_platform sample_runtime (\<lambda>_. Inl Validation_Error)
       (\<lambda>_ _ _ _. Inl Validation_Error) (\<lambda>_. Some sample_parent) sample_time d e = Inr r" "rv_decision r = n"
       "rv_spans r = []" "rv_dropped_reference_ids r = [''ref'']" by blast
  have "parent_available (\<lambda>_. Some sample_parent) e" by (simp add: parent_available_def sample_parent_def)
  with revalidation_rests_on_replayed [OF r(1)] have "decision_directive n \<noteq> Dir_Finalize"
    by (auto simp: r(2,3))
  moreover have "ed_parent_decision_id (rv_decision r) = Some (ed_decision_id d)"
    using revalidated_parent [OF n] r(2) by simp
  ultimately show ?thesis using d(3) r by (intro exI [of _ d] exI [of _ e] exI [of _ r] conjI) simp_all
qed

end
