(* ===== verification/Deep_Contracts.thy ===== *)
theory Deep_Contracts
  imports Ask_Context
begin

text \<open>
  The contracts of the deep search: queries (src/shiliu/retrieval/planner.py and
  src/shiliu/ask/contracts.py), the models of src/shiliu/ask/deep/contracts.py with their validators,
  and the budget of src/shiliu/ask/deep/budget.py. Unicode normalization and case folding are the
  fields of \<open>text_functions\<close>. A constructor \<open>mk_\<dots>\<close> is the validation of a model: it returns the
  normalized value or raises.
\<close>

section \<open>Queries\<close>

record text_functions =
  tx_nfkc :: "string \<Rightarrow> string"
  tx_casefold :: "string \<Rightarrow> string"

definition collapsed :: "text_functions \<Rightarrow> string \<Rightarrow> string" where
  "collapsed T s = join '' '' (words_of (tx_nfkc T s) [])"

definition normalize_query :: "text_functions \<Rightarrow> string \<Rightarrow> string result" where
  "normalize_query T raw_query =
     (let normalized = collapsed T raw_query
      in if normalized = [] then Inl (Value_Error ''query must not be empty'')
         else if length normalized > 500 then Inl (Value_Error ''normalized query must not exceed 500 characters'')
         else Inr normalized)"

definition ASK_QUERY_MAX_CHARACTERS :: nat where
  "ASK_QUERY_MAX_CHARACTERS = 4096"

definition normalize_ask_query :: "text_functions \<Rightarrow> string \<Rightarrow> string result" where
  "normalize_ask_query T v =
     (let normalized = collapsed T v
      in if normalized = [] then Inl (Value_Error ''query must not be empty'')
         else if length normalized > ASK_QUERY_MAX_CHARACTERS
         then Inl (Value_Error ''normalized Ask query must not exceed 4096 characters'')
         else Inr normalized)"

section \<open>Actions and decisions\<close>

datatype agent_action =
    Search_Navigation string
  | Search_Transcripts string "int list"
  | Read_Transcript_Window string int int
  | Finish string
  | Stop string

fun action_kind :: "agent_action \<Rightarrow> string" where
  "action_kind (Search_Navigation _) = ''search_navigation''"
| "action_kind (Search_Transcripts _ _) = ''search_transcripts''"
| "action_kind (Read_Transcript_Window _ _ _) = ''read_transcript_window''"
| "action_kind (Finish _) = ''finish''"
| "action_kind (Stop _) = ''stop''"

text \<open>A failing validator is pydantic's error, whatever it raised.\<close>

definition validated :: "'a result \<Rightarrow> 'a result" where
  "validated r = (case r of Inl _ \<Rightarrow> Inl Validation_Error | Inr x \<Rightarrow> Inr x)"

fun mk_action :: "text_functions \<Rightarrow> agent_action \<Rightarrow> agent_action result" where
  "mk_action T (Search_Navigation q) = ebind (validated (normalize_query T q)) (\<lambda>q'. Inr (Search_Navigation q'))"
| "mk_action T (Search_Transcripts q vs) =
     ebind (validated (normalize_query T q)) (\<lambda>q'.
       if list_ex (\<lambda>v. v \<le> 0) vs \<or> length (fromkeys vs) > 8 then Inl Validation_Error
       else Inr (Search_Transcripts q' (fromkeys vs)))"
| "mk_action T (Read_Transcript_Window a b c) =
     (if strip a = [] \<or> \<not> (0 \<le> b \<and> b \<le> 4 \<and> 0 \<le> c \<and> c \<le> 4) then Inl Validation_Error
      else Inr (Read_Transcript_Window (strip a) b c))"
| "mk_action T (Finish summary) = (if length summary > 500 then Inl Validation_Error else Inr (Finish summary))"
| "mk_action T (Stop summary) = (if length summary > 500 then Inl Validation_Error else Inr (Stop summary))"

record resolved_suggestion =
  sg_question :: string
  sg_citation_ids :: "string list"

definition mk_suggestion :: "text_functions \<Rightarrow> resolved_suggestion \<Rightarrow> resolved_suggestion result" where
  "mk_suggestion T s =
     (if \<not> len_between 1 12 (sg_citation_ids s) then Inl Validation_Error
      else ebind (validated (normalize_ask_query T (sg_question s))) (\<lambda>q. Inr (s\<lparr>sg_question := q\<rparr>)))"

record agent_decision =
  ag_action :: agent_action
  ag_open_questions :: "string list"
  ag_resolved_questions :: "resolved_suggestion list"

definition mk_agent_decision :: "text_functions \<Rightarrow> agent_decision \<Rightarrow> agent_decision result" where
  "mk_agent_decision T d =
     (if length (ag_open_questions d) > 6 \<or> length (ag_resolved_questions d) > 6 then Inl Validation_Error
      else ebind (mk_action T (ag_action d)) (\<lambda>action.
           ebind (validated (emap (normalize_ask_query T) (ag_open_questions d))) (\<lambda>open_questions.
           ebind (emap (mk_suggestion T) (ag_resolved_questions d)) (\<lambda>resolved.
             Inr \<lparr>ag_action = action, ag_open_questions = take 6 (fromkeys open_questions),
                  ag_resolved_questions = resolved\<rparr>))))"

section \<open>Observations\<close>

datatype label_priority = Priority_High | Priority_Medium | Priority_Low | Priority_Enrichment

record navigation_source_label =
  nl_source :: string
  nl_navigation_allowed :: bool
  nl_citation_allowed :: bool
  nl_priority :: label_priority

text \<open>The authority of a document is always \<open>navigation_only\<close>.\<close>

record navigation_document =
  nd_video_id :: int
  nd_bvid :: string
  nd_title :: string
  nd_uploader :: string
  nd_description :: string
  nd_summary_sections :: "string list"
  nd_user_notes :: "string list"
  nd_cleaned_transcript :: "string list"
  nd_metadata :: jdict
  nd_matched_excerpt :: string
  nd_matched_sources :: "string list"
  nd_source_labels :: "(string \<times> navigation_source_label) list"

record deep_execution =
  dx_execution_id :: "string option"
  dx_search_trace_id :: string
  dx_trace_persisted :: bool
  dx_trace_error :: "(string \<times> string) list option"
  dx_query :: string

datatype observation_kind = Obs_Navigation | Obs_Transcript_Search | Obs_Transcript_Window

record tool_observation =
  to_kind :: observation_kind
  to_summary :: string
  to_navigation_documents :: "navigation_document list"
  to_evidence_spans :: "evidence_span list"
  to_stale_reasons :: "string list"
  to_dropped_evidence_count :: int
  to_error :: "string option"
  to_latency_ms :: rat
  to_search_executions :: "deep_execution list"

definition mk_tool_observation :: "tool_observation \<Rightarrow> tool_observation result" where
  "mk_tool_observation ob =
     (if length (to_summary ob) \<le> 1000 \<and> 0 \<le> to_dropped_evidence_count ob \<and>
         (case to_error ob of None \<Rightarrow> True | Some e \<Rightarrow> length e \<le> 500) \<and> 0 \<le> to_latency_ms ob \<and>
         length (to_search_executions ob) \<le> 3 \<and>
         list_all (\<lambda>x. dx_search_trace_id x \<noteq> []) (to_search_executions ob)
      then Inr ob else Inl Validation_Error)"

section \<open>The state\<close>

text \<open>The dictionaries the reducer appends to \<open>events\<close>, one constructor for each \<open>event_type\<close>.\<close>

datatype deep_event =
    Decision_Event int agent_action jdict
  | Decision_Error_Event int string jdict string
  | Guard_Allowed_Event int string
  | Guard_Rejected_Event termination_reason string
  | Finalize_Event "termination_reason option" int
  | Fallback_Event "string option" agent_action
  | Observation_Event int observation_kind string "int list" "string list" int rat int "deep_execution list"

record deep_state =
  ds_run_id :: string
  ds_query :: string
  ds_filters :: jdict
  ds_open_questions :: "string list"
  ds_resolved_questions :: "resolved_suggestion list"
  ds_evidence_spans :: "evidence_span list"
  ds_navigation_documents :: "navigation_document list"
  ds_visited_video_ids :: "int list"
  ds_visited_segment_ids :: "string list"
  ds_previous_queries :: "string list"
  ds_repeated_action_keys :: "string list"
  ds_decision_rounds :: int
  ds_tool_calls :: int
  ds_consecutive_no_new_evidence :: int
  ds_navigation_result_count :: int
  ds_started_at :: rat
  ds_search_deadline :: rat
  ds_total_deadline :: rat
  ds_last_action :: "agent_action option"
  ds_last_observation_summary :: string
  ds_pending_observation :: "tool_observation option"
  ds_errors :: "string list"
  ds_stale_reasons :: "string list"
  ds_events :: "deep_event list"
  ds_usage :: "jdict list"
  ds_termination_reason :: "termination_reason option"

section \<open>The budget\<close>

record deep_budget =
  db_max_decision_rounds :: int
  db_max_tool_calls :: int
  db_focused_video_limit :: int
  db_consecutive_no_new_evidence_limit :: int
  db_window_default_each_side :: int
  db_window_max_each_side :: int
  db_final_evidence_context_chars :: int
  db_total_runtime_seconds :: rat
  db_search_phase_cutoff_seconds :: rat
  db_final_answer_reserve_seconds :: rat

definition default_deep_budget :: deep_budget where
  "default_deep_budget =
     \<lparr>db_max_decision_rounds = 6, db_max_tool_calls = 12, db_focused_video_limit = 8,
      db_consecutive_no_new_evidence_limit = 2, db_window_default_each_side = 2, db_window_max_each_side = 4,
      db_final_evidence_context_chars = 12000, db_total_runtime_seconds = 360,
      db_search_phase_cutoff_seconds = 150, db_final_answer_reserve_seconds = 210\<rparr>"

text \<open>\<open>1e-9\<close> is taken as the rational it stands for.\<close>

definition mk_deep_budget :: "(rat \<Rightarrow> rat) \<Rightarrow> deep_budget \<Rightarrow> deep_budget result" where
  "mk_deep_budget rnd b =
     (if db_max_decision_rounds b \<le> 0 \<or> db_max_tool_calls b \<le> 0
      then Inl (Value_Error ''round and tool budgets must be positive'')
      else if \<not> (1 \<le> db_focused_video_limit b \<and> db_focused_video_limit b \<le> 8)
      then Inl (Value_Error ''focused video limit must be between 1 and 8'')
      else if db_consecutive_no_new_evidence_limit b \<le> 0
      then Inl (Value_Error ''no-new-evidence limit must be positive'')
      else if \<not> (0 \<le> db_window_default_each_side b \<and> db_window_default_each_side b \<le> db_window_max_each_side b \<and>
                 db_window_max_each_side b \<le> 4)
      then Inl (Value_Error ''window budgets must satisfy 0 <= default <= max <= 4'')
      else if db_final_evidence_context_chars b \<le> 0
      then Inl (Value_Error ''evidence context budget must be positive'')
      else if db_total_runtime_seconds b \<le> 0 \<or> db_search_phase_cutoff_seconds b \<le> 0 \<or>
              db_final_answer_reserve_seconds b \<le> 0
      then Inl (Value_Error ''runtime deadlines must be positive'')
      else if \<bar>rnd (rnd (db_search_phase_cutoff_seconds b + db_final_answer_reserve_seconds b)
                    - db_total_runtime_seconds b)\<bar> > 1 / 1000000000
      then Inl (Value_Error ''search cutoff and answer reserve must equal total runtime'')
      else Inr b)"

definition before_decision :: "deep_budget \<Rightarrow> deep_state \<Rightarrow> rat \<Rightarrow> termination_reason option" where
  "before_decision b s now =
     (if now \<ge> ds_total_deadline s \<or> now \<ge> ds_search_deadline s then Some T_Budget_Exhausted
      else if ds_decision_rounds s \<ge> db_max_decision_rounds b then Some T_Budget_Exhausted
      else None)"

definition before_tool :: "deep_budget \<Rightarrow> deep_state \<Rightarrow> rat \<Rightarrow> termination_reason option" where
  "before_tool b s now =
     (if now \<ge> ds_total_deadline s \<or> now \<ge> ds_search_deadline s then Some T_Budget_Exhausted
      else if ds_tool_calls s \<ge> db_max_tool_calls b then Some T_Budget_Exhausted
      else None)"

definition remaining_total :: "(rat \<Rightarrow> rat) \<Rightarrow> deep_state \<Rightarrow> rat \<Rightarrow> rat" where
  "remaining_total rnd s now = max 0 (rnd (ds_total_deadline s - now))"

end
