(* ===== verification/Deep_Reducer.thy ===== *)
theory Deep_Reducer
  imports Deep_Contracts
begin

text \<open>
  The reducer of the deep search, src/shiliu/ask/deep/reducer.py: one function per method, from the
  state to the state it returns. A method copies the lists of the state before it appends to them, so
  the model updates a record. An exception the reducer records is a value of \<open>raised\<close>: its class name,
  its text and the attributes the code asks for.
\<close>

record raised =
  ra_type :: string
  ra_text :: string
  ra_code :: "jvalue option"
  ra_completion_metadata :: "jvalue option"
  ra_trace_id :: "jvalue option"
  ra_trace_persisted :: "jvalue option"

text \<open>\<open>f"{type(error).__name__}: {error}"[:500]\<close>\<close>

definition error_text :: "raised \<Rightarrow> string" where
  "error_text x = take 500 (ra_type x @ '': '' @ ra_text x)"

definition pick :: "jdict \<Rightarrow> string list \<Rightarrow> jdict" where
  "pick d ks = map (\<lambda>k. (k, dict_get d k)) ks"

text \<open>\<open>{"role": "agent_action", **usage}\<close>\<close>

definition usage_entry :: "jdict \<Rightarrow> jdict" where
  "usage_entry usage = fold (\<lambda>(k, v) d. AList.update k v d) usage [(''role'', VStr ''agent_action'')]"

definition retry_count_of :: "jdict \<Rightarrow> jvalue" where
  "retry_count_of metadata = (case map_of metadata ''retry_count'' of None \<Rightarrow> VInt 0 | Some v \<Rightarrow> v)"

section \<open>Decisions\<close>

fun add_open_questions :: "text_functions \<Rightarrow> string list \<Rightarrow> string list \<Rightarrow> string list result" where
  "add_open_questions T [] opened = Inr opened"
| "add_open_questions T (q # qs) opened =
     ebind (normalize_ask_query T q) (\<lambda>normalized.
       add_open_questions T qs
         (if normalized \<notin> set opened \<and> length opened < 6 then opened @ [normalized] else opened))"

text \<open>The comprehension that drops a resolved question: it normalizes every open question it compares.\<close>

fun without_question :: "text_functions \<Rightarrow> string \<Rightarrow> string list \<Rightarrow> string list result" where
  "without_question T question [] = Inr []"
| "without_question T question (v # vs) =
     ebind (normalize_ask_query T v) (\<lambda>nv.
     ebind (normalize_ask_query T question) (\<lambda>nq.
     ebind (without_question T question vs) (\<lambda>rest. Inr (if nv \<noteq> nq then v # rest else rest))))"

fun resolve_questions ::
  "text_functions \<Rightarrow> string list \<Rightarrow> resolved_suggestion list \<Rightarrow> string list \<times> resolved_suggestion list
    \<Rightarrow> (string list \<times> resolved_suggestion list) result"
where
  "resolve_questions T allowed [] st = Inr st"
| "resolve_questions T allowed (g # gs) (opened, resolved) =
     (if set (sg_citation_ids g) \<subseteq> set allowed
      then ebind (without_question T (sg_question g) opened) (\<lambda>remaining.
             resolve_questions T allowed gs (remaining, resolved @ [g]))
      else resolve_questions T allowed gs (opened, resolved))"

definition last_n :: "nat \<Rightarrow> 'a list \<Rightarrow> 'a list" where
  "last_n n xs = drop (length xs - n) xs"

definition record_decision :: "text_functions \<Rightarrow> deep_state \<Rightarrow> agent_decision \<Rightarrow> jdict \<Rightarrow> deep_state result" where
  "record_decision T s d metadata =
     ebind (add_open_questions T (ag_open_questions d) (ds_open_questions s)) (\<lambda>opened.
     ebind (resolve_questions T (map sp_citation_id (ds_evidence_spans s)) (ag_resolved_questions d)
              (opened, ds_resolved_questions s)) (\<lambda>(opened', resolved).
       Inr (s\<lparr>ds_decision_rounds := ds_decision_rounds s + 1,
              ds_last_action := Some (ag_action d),
              ds_usage := (case dict_instance (dict_get metadata ''usage'') of
                  None \<Rightarrow> ds_usage s | Some usage \<Rightarrow> ds_usage s @ [usage_entry usage]),
              ds_open_questions := opened', ds_resolved_questions := last_n 6 resolved,
              ds_events := ds_events s @ [Decision_Event (ds_decision_rounds s + 1) (ag_action d)
                (pick metadata [''latency_ms'', ''usage'', ''finish_reason'', ''response_id'']
                 @ [(''retry_count'', retry_count_of metadata)])]\<rparr>)))"

definition error_code :: "runtime \<Rightarrow> raised \<Rightarrow> string" where
  "error_code R x = (case ra_code x of None \<Rightarrow> ra_type x | Some v \<Rightarrow> rt_str R v)"

definition record_decision_error :: "runtime \<Rightarrow> deep_state \<Rightarrow> raised \<Rightarrow> deep_state" where
  "record_decision_error R s x =
     (let metadata = (case ra_completion_metadata x of None \<Rightarrow> []
            | Some v \<Rightarrow> (case dict_instance v of None \<Rightarrow> [] | Some d \<Rightarrow> d))
      in s\<lparr>ds_decision_rounds := ds_decision_rounds s + 1,
           ds_errors := ds_errors s @ [error_text x],
           ds_termination_reason := Some (if error_code R x = ''deadline_exhausted'' then T_Budget_Exhausted
                                          else T_Provider_Error),
           ds_events := ds_events s @ [Decision_Error_Event (ds_decision_rounds s + 1) (error_code R x)
             (pick metadata [''finish_reason'', ''usage'', ''latency_ms'', ''response_id'']
              @ [(''retry_count'', retry_count_of metadata)]) (error_text x)]\<rparr>)"

section \<open>Guards\<close>

definition approve_tool :: "deep_state \<Rightarrow> string \<Rightarrow> deep_state" where
  "approve_tool s key =
     s\<lparr>ds_tool_calls := ds_tool_calls s + 1, ds_previous_queries := ds_previous_queries s @ [key],
       ds_repeated_action_keys := ds_repeated_action_keys s @ [key],
       ds_events := ds_events s @ [Guard_Allowed_Event (ds_tool_calls s + 1) key]\<rparr>"

definition reject_state :: "deep_state \<Rightarrow> termination_reason \<Rightarrow> string \<Rightarrow> deep_state" where
  "reject_state s reason detail =
     s\<lparr>ds_termination_reason := Some reason,
       ds_events := ds_events s @ [Guard_Rejected_Event reason (take 500 detail)]\<rparr>"

definition record_finalize :: "deep_state \<Rightarrow> deep_state" where
  "record_finalize s =
     s\<lparr>ds_events := ds_events s @
         [Finalize_Event (ds_termination_reason s) (int (length (ds_evidence_spans s)))]\<rparr>"

definition action_key :: "text_functions \<Rightarrow> agent_action \<Rightarrow> string option result" where
  "action_key T action =
     (case action of
        Search_Navigation q \<Rightarrow>
          ebind (normalize_query T q) (\<lambda>n. Inr (Some (''navigation:'' @ tx_casefold T n)))
      | Search_Transcripts q vs \<Rightarrow>
          ebind (normalize_query T q) (\<lambda>n.
            Inr (Some (''transcripts:'' @ tx_casefold T n @ '':'' @ join '','' (map int_text (sort (fromkeys vs))))))
      | Read_Transcript_Window anchor before after \<Rightarrow>
          Inr (Some (''window:'' @ anchor @ '':'' @ int_text before @ '':'' @ int_text after))
      | _ \<Rightarrow> Inr None)"

text \<open>\<open>SearchNavigationAction.model_validate(last_action)\<close> accepts a navigation action only.\<close>

definition correct_empty_navigation :: "text_functions \<Rightarrow> deep_state \<Rightarrow> deep_state result" where
  "correct_empty_navigation T s =
     (case ds_last_action s of
        Some (Search_Navigation q) \<Rightarrow>
          ebind (mk_action T (Search_Navigation q)) (\<lambda>action.
            case action of
              Search_Navigation q1 \<Rightarrow>
                ebind (mk_action T (Search_Transcripts q1 [])) (\<lambda>fallback.
                ebind (action_key T action) (\<lambda>key.
                  Inr (s\<lparr>ds_last_action := Some fallback,
                         ds_events := ds_events s @ [Fallback_Event key fallback]\<rparr>)))
            | _ \<Rightarrow> Inl Validation_Error)
      | _ \<Rightarrow> Inl Validation_Error)"

section \<open>Observations\<close>

definition observe_navigation :: "deep_state \<Rightarrow> tool_observation \<Rightarrow> deep_state" where
  "observe_navigation s ob =
     s\<lparr>ds_navigation_documents :=
         last_n 8 (map snd (dict_of nd_video_id (ds_navigation_documents s @ to_navigation_documents ob))),
       ds_navigation_result_count := ds_navigation_result_count s + int (length (to_navigation_documents ob)),
       ds_visited_video_ids :=
         fromkeys (ds_visited_video_ids s @ map nd_video_id (to_navigation_documents ob))\<rparr>"

definition observed_segments :: "tool_observation \<Rightarrow> string list" where
  "observed_segments ob = concat (map sp_segment_ids (to_evidence_spans ob))"

definition observe_evidence :: "runtime \<Rightarrow> (rat \<Rightarrow> rat) \<Rightarrow> deep_state \<Rightarrow> tool_observation \<Rightarrow> deep_state result" where
  "observe_evidence R rnd s ob =
     ebind (fuse_evidence R rnd (ds_evidence_spans s @ to_evidence_spans ob)) (\<lambda>fused.
       let new = fromkeys (observed_segments ob);
           progressed = list_ex (\<lambda>x. x \<notin> set (ds_visited_segment_ids s)) new
       in Inr (s\<lparr>ds_evidence_spans := fused,
                 ds_visited_segment_ids := fromkeys (ds_visited_segment_ids s @ new),
                 ds_visited_video_ids := fromkeys (ds_visited_video_ids s @ map sp_video_id (to_evidence_spans ob)),
                 ds_consecutive_no_new_evidence :=
                   (if progressed then 0 else ds_consecutive_no_new_evidence s + 1)\<rparr>))"

definition observation_event :: "deep_state \<Rightarrow> tool_observation \<Rightarrow> nat \<Rightarrow> deep_event" where
  "observation_event s ob evidence_count =
     Observation_Event (ds_tool_calls s) (to_kind ob) (take 500 (to_summary ob))
       (map nd_video_id (to_navigation_documents ob))
       (take 60 (filter (\<lambda>x. x \<notin> set (ds_visited_segment_ids s)) (observed_segments ob)))
       (int evidence_count) (to_latency_ms ob) (to_dropped_evidence_count ob) (to_search_executions ob)"

definition quote_total :: "evidence_span list \<Rightarrow> int" where
  "quote_total spans = (\<Sum>s \<leftarrow> spans. quote_length s)"

text \<open>The two checks after the observation is recorded; the later one overrides.\<close>

definition deep_observation_stop :: "deep_budget \<Rightarrow> tool_observation \<Rightarrow> deep_state \<Rightarrow> deep_state" where
  "deep_observation_stop b ob s =
     (let s1 = (if to_kind ob \<noteq> Obs_Navigation \<and>
                   ds_consecutive_no_new_evidence s \<ge> db_consecutive_no_new_evidence_limit b
                then s\<lparr>ds_termination_reason := Some
                         (if ds_evidence_spans s = [] \<and> ds_stale_reasons s \<noteq> [] then T_Evidence_Unavailable
                          else T_No_New_Evidence)\<rparr>
                else s)
      in if quote_total (ds_evidence_spans s1) \<ge> db_final_evidence_context_chars b
         then s1\<lparr>ds_termination_reason := Some T_Budget_Exhausted\<rparr> else s1)"

definition record_observation ::
  "runtime \<Rightarrow> (rat \<Rightarrow> rat) \<Rightarrow> deep_budget \<Rightarrow> deep_state \<Rightarrow> tool_observation \<Rightarrow> deep_state result"
where
  "record_observation R rnd b s ob =
     ebind (if to_kind ob = Obs_Navigation then Inr (observe_navigation s ob) else observe_evidence R rnd s ob)
       (\<lambda>s1. Inr (deep_observation_stop b ob (s1\<lparr>
          ds_stale_reasons := ds_stale_reasons s1 @ to_stale_reasons ob,
          ds_errors := ds_errors s1 @ (case to_error ob of None \<Rightarrow> [] | Some e \<Rightarrow> if e = [] then [] else [take 500 e]),
          ds_last_observation_summary := take 1000 (to_summary ob),
          ds_pending_observation := None,
          ds_events := ds_events s1 @ [observation_event s ob (length (ds_evidence_spans s1))]\<rparr>)))"

end
