(* ===== verification/Deep_Graph.thy ===== *)
theory Deep_Graph
  imports Deep_Reducer
begin

text \<open>
  The graph of the deep search, src/shiliu/ask/deep/graph.py, and the decision service of
  src/shiliu/ask/deep/decision.py. langgraph runs the nodes one after another along the edges, from
  START to END, and raises when \<open>recursion_limit\<close> nodes have run without reaching END. The model
  provider, the three tools and the clock are fields of \<open>deep_env\<close>; each is also a function of the
  number of the node execution, so it may answer differently every time.
\<close>

record transcript_result =
  tr_spans :: "evidence_span list"
  tr_stale_reasons :: "string list"
  tr_dropped_span_count :: int
  tr_execution_id :: string
  tr_search_trace_id :: string
  tr_trace_persisted :: bool
  tr_trace_error :: "(string \<times> string) list option"
  tr_query :: string

record window_result =
  wr_span :: evidence_span
  wr_before_boundary :: bool
  wr_after_boundary :: bool

text \<open>
  \<open>de_clock n k\<close> is the k-th reading of the clock in the n-th node execution. The provider receives
  the projected view and its timeout; what it returns is validated here. \<open>de_invalid n\<close> is pydantic's
  exception when a model built in the n-th execution breaks its constraints.
\<close>

record deep_env =
  de_runtime :: runtime
  de_text :: text_functions
  de_rnd :: "rat \<Rightarrow> rat"
  de_clock :: "nat \<Rightarrow> nat \<Rightarrow> rat"
  de_provider :: "nat \<Rightarrow> jdict \<Rightarrow> rat \<Rightarrow> raised + (agent_decision \<times> jdict)"
  de_navigation :: "nat \<Rightarrow> string \<Rightarrow> jdict \<Rightarrow> int \<Rightarrow> raised + (navigation_document list \<times> deep_execution list)"
  de_transcripts :: "nat \<Rightarrow> string \<Rightarrow> jdict \<Rightarrow> int list option \<Rightarrow> int \<Rightarrow> raised + transcript_result"
  de_windows :: "nat \<Rightarrow> int \<Rightarrow> string \<Rightarrow> int \<Rightarrow> int \<Rightarrow> raised + window_result"
  de_invalid :: "nat \<Rightarrow> raised"

section \<open>The view of the agent\<close>

definition view_navigation :: "navigation_document \<Rightarrow> jvalue" where
  "view_navigation d = VDict
     [(''video_id'', VInt (nd_video_id d)), (''title'', VStr (nd_title d)), (''uploader'', VStr (nd_uploader d)),
      (''matched_excerpt'', VStr (take 240 (nd_matched_excerpt d))), (''authority'', VStr ''navigation_only'')]"

definition view_span :: "evidence_span \<Rightarrow> jvalue" where
  "view_span s = VDict
     [(''citation_id'', VStr (sp_citation_id s)), (''video_id'', VInt (sp_video_id s)), (''title'', VStr (sp_title s)),
      (''start_time'', VFloat (sp_start_time s)), (''end_time'', VFloat (sp_end_time s)),
      (''quote'', VStr (take 360 (sp_quote_text s)))]"

definition view_anchor :: "evidence_span \<Rightarrow> jvalue" where
  "view_anchor s = VDict
     [(''citation_id'', VStr (sp_citation_id s)), (''video_id'', VInt (sp_video_id s)),
      (''anchor_segment_id'', VStr (sp_segment_ids s ! (length (sp_segment_ids s) div 2)))]"

definition view_suggestion :: "resolved_suggestion \<Rightarrow> jvalue" where
  "view_suggestion g = VDict
     [(''question'', VStr (sg_question g)), (''citation_ids'', VList (map VStr (sg_citation_ids g)))]"

fun view_action :: "agent_action \<Rightarrow> jvalue" where
  "view_action (Search_Navigation q) = VDict [(''kind'', VStr ''search_navigation''), (''query'', VStr q)]"
| "view_action (Search_Transcripts q vs) =
     VDict [(''kind'', VStr ''search_transcripts''), (''query'', VStr q), (''video_ids'', VList (map VInt vs))]"
| "view_action (Read_Transcript_Window a b c) =
     VDict [(''kind'', VStr ''read_transcript_window''), (''anchor_segment_id'', VStr a), (''before'', VInt b),
            (''after'', VInt c)]"
| "view_action (Finish t) = VDict [(''kind'', VStr ''finish''), (''summary'', VStr t)]"
| "view_action (Stop t) = VDict [(''kind'', VStr ''stop''), (''summary'', VStr t)]"

definition view_remaining :: "(rat \<Rightarrow> rat) \<Rightarrow> deep_budget \<Rightarrow> deep_state \<Rightarrow> rat \<Rightarrow> jdict" where
  "view_remaining rnd b s now =
     [(''decision_rounds'', VInt (max 0 (db_max_decision_rounds b - ds_decision_rounds s))),
      (''tool_calls'', VInt (max 0 (db_max_tool_calls b - ds_tool_calls s))),
      (''search_seconds'', VFloat (max 0 (rnd (ds_search_deadline s - now)))),
      (''total_seconds'', VFloat (max 0 (rnd (ds_total_deadline s - now)))),
      (''context_characters'', VInt (max 0 (db_final_evidence_context_chars b - quote_total (ds_evidence_spans s))))]"

definition project_view :: "(rat \<Rightarrow> rat) \<Rightarrow> deep_budget \<Rightarrow> deep_state \<Rightarrow> rat \<Rightarrow> jdict" where
  "project_view rnd b s now =
     (let evidence = last_n 12 (ds_evidence_spans s)
      in [(''question'', VStr (ds_query s)),
          (''priority_open_question'', VStr (case ds_open_questions s of [] \<Rightarrow> ds_query s | q # qs \<Rightarrow> q)),
          (''open_questions'', VList (map VStr (take 6 (ds_open_questions s)))),
          (''resolved_questions'', VList (map view_suggestion (last_n 6 (ds_resolved_questions s)))),
          (''last_action'', (case ds_last_action s of None \<Rightarrow> VNull | Some a \<Rightarrow> view_action a)),
          (''last_observation_summary'', VStr (take 600 (ds_last_observation_summary s))),
          (''navigation_documents'', VList (map view_navigation (last_n 8 (ds_navigation_documents s)))),
          (''transcript_evidence'', VList (map view_span evidence)),
          (''window_anchors'', VList (map view_anchor (filter (\<lambda>x. sp_segment_ids x \<noteq> []) evidence))),
          (''visited_summary'', VDict
            [(''video_count'', VInt (int (length (ds_visited_video_ids s)))),
             (''segment_count'', VInt (int (length (ds_visited_segment_ids s)))),
             (''recent_video_ids'', VList (map VInt (last_n 8 (ds_visited_video_ids s))))]),
          (''previous_scoped_query_keys'', VList (map VStr (last_n 12 (ds_previous_queries s)))),
          (''remaining'', VDict (view_remaining rnd b s now))])"

text \<open>\<open>max(0.001, \<dots>)\<close>: a millisecond at least; the literal is the rational it stands for.\<close>

definition provider_timeout :: "(rat \<Rightarrow> rat) \<Rightarrow> deep_state \<Rightarrow> rat \<Rightarrow> rat" where
  "provider_timeout rnd s now =
     min (max (1 / 1000) (rnd (ds_search_deadline s - now))) (max (1 / 1000) (rnd (ds_total_deadline s - now)))"

definition decide :: "deep_env \<Rightarrow> deep_budget \<Rightarrow> nat \<Rightarrow> deep_state \<Rightarrow> raised + (agent_decision \<times> jdict)" where
  "decide E b n s =
     (let now = de_clock E n 1
      in case de_provider E n (project_view (de_rnd E) b s now) (provider_timeout (de_rnd E) s now) of
           Inl x \<Rightarrow> Inl x
         | Inr (raw, metadata) \<Rightarrow>
             (case mk_agent_decision (de_text E) raw of
                Inl _ \<Rightarrow> Inl (de_invalid E n)
              | Inr d \<Rightarrow> Inr (d, metadata)))"

section \<open>Nodes\<close>

definition decision_from_state :: "deep_env \<Rightarrow> deep_state \<Rightarrow> agent_action result" where
  "decision_from_state E s =
     (case ds_last_action s of
        None \<Rightarrow> Inl (Runtime_Error ''deep state has no last action'')
      | Some a \<Rightarrow> mk_action (de_text E) a)"

definition decide_node :: "deep_env \<Rightarrow> deep_budget \<Rightarrow> nat \<Rightarrow> deep_state \<Rightarrow> deep_state result" where
  "decide_node E b n s =
     (case before_decision b s (de_clock E n 0) of
        Some reason \<Rightarrow> Inr (reject_state s reason ''decision budget or search deadline reached'')
      | None \<Rightarrow>
          (case decide E b n s of
             Inl x \<Rightarrow> Inr (record_decision_error (de_runtime E) s x)
           | Inr (d, metadata) \<Rightarrow> record_decision (de_text E) s d metadata))"

definition has_fallback :: "deep_state \<Rightarrow> bool" where
  "has_fallback s \<longleftrightarrow> list_ex (\<lambda>e. case e of Fallback_Event _ _ \<Rightarrow> True | _ \<Rightarrow> False) (ds_events s)"

definition guard_tool_action ::
  "deep_env \<Rightarrow> deep_budget \<Rightarrow> nat \<Rightarrow> deep_state \<Rightarrow> agent_action \<Rightarrow> deep_state result"
where
  "guard_tool_action E b n s action =
     (case before_tool b s (de_clock E n 0) of
        Some reason \<Rightarrow> Inr (reject_state s reason ''tool budget or deadline reached'')
      | None \<Rightarrow>
          ebind (action_key (de_text E) action) (\<lambda>maybe_key.
            case maybe_key of
              None \<Rightarrow> Inr (reject_state s T_Provider_Error ''agent returned an unsupported action'')
            | Some key \<Rightarrow>
                if key \<in> set (ds_repeated_action_keys s)
                then Inr (reject_state s T_Repeated_Search (''repeated action: '' @ key))
                else (case action of
                    Search_Transcripts q vs \<Rightarrow>
                      if int (length vs) > db_focused_video_limit b
                      then Inr (reject_state s T_Budget_Exhausted ''focused video limit exceeded'')
                      else Inr (approve_tool s key)
                  | Read_Transcript_Window anchor before after \<Rightarrow>
                      if anchor \<notin> set (concat (map sp_segment_ids (ds_evidence_spans s)))
                      then Inr (reject_state s T_Evidence_Unavailable ''unknown window anchor'')
                      else Inr (approve_tool s key)
                  | _ \<Rightarrow> Inr (approve_tool s key))))"

definition guard_node :: "deep_env \<Rightarrow> deep_budget \<Rightarrow> nat \<Rightarrow> deep_state \<Rightarrow> deep_state result" where
  "guard_node E b n s =
     (if ds_termination_reason s \<noteq> None then Inr s
      else ebind (decision_from_state E s) (\<lambda>action.
        case action of
          Finish _ \<Rightarrow>
            Inr (reject_state s (if ds_evidence_spans s \<noteq> [] then T_Answer_Ready else T_Evidence_Unavailable)
              (''agent suggested '' @ action_kind action))
        | Stop _ \<Rightarrow>
            Inr (reject_state s (if ds_evidence_spans s \<noteq> [] then T_No_New_Evidence else T_Evidence_Unavailable)
              (''agent suggested '' @ action_kind action))
        | Search_Navigation q \<Rightarrow>
            if has_fallback s
            then Inr (reject_state s T_Repeated_Search
              ''navigation already returned empty and used its bounded transcript fallback'')
            else guard_tool_action E b n s action
        | _ \<Rightarrow> guard_tool_action E b n s action))"

text \<open>\<open>max(0, (self.clock() - started) * 1000)\<close>, the k-th reading after the first.\<close>

definition tool_latency :: "deep_env \<Rightarrow> nat \<Rightarrow> nat \<Rightarrow> rat" where
  "tool_latency E n k = max 0 (de_rnd E (de_rnd E (de_clock E n k - de_clock E n 0) * 1000))"

definition failed_execution :: "runtime \<Rightarrow> raised \<Rightarrow> string \<Rightarrow> deep_execution list" where
  "failed_execution R x query =
     (case ra_trace_id x of
        None \<Rightarrow> []
      | Some trace \<Rightarrow>
          if truthy trace then [\<lparr>dx_execution_id = None, dx_search_trace_id = rt_str R trace,
              dx_trace_persisted = (case ra_trace_persisted x of None \<Rightarrow> True | Some v \<Rightarrow> truthy v),
              dx_trace_error = None, dx_query = query\<rparr>]
          else [])"

definition observation_of ::
  "observation_kind \<Rightarrow> string \<Rightarrow> evidence_span list \<Rightarrow> string option \<Rightarrow> rat \<Rightarrow> deep_execution list \<Rightarrow> tool_observation"
where
  "observation_of kind summary spans err latency executions =
     \<lparr>to_kind = kind, to_summary = summary, to_navigation_documents = [], to_evidence_spans = spans,
      to_stale_reasons = [], to_dropped_evidence_count = 0, to_error = err, to_latency_ms = latency,
      to_search_executions = executions\<rparr>"

text \<open>
  The \<open>try\<close> of a tool node: a tool that raises gives the failed observation, and so does an
  observation that breaks its model, with pydantic's exception and one more reading of the clock.
\<close>

definition observed ::
  "deep_env \<Rightarrow> nat \<Rightarrow> deep_state \<Rightarrow> raised + tool_observation \<Rightarrow> (raised \<Rightarrow> rat \<Rightarrow> tool_observation) \<Rightarrow> deep_state result"
where
  "observed E n s attempt failed =
     ebind (case attempt of
         Inl x \<Rightarrow> mk_tool_observation (failed x (tool_latency E n 1))
       | Inr ob \<Rightarrow>
           (case mk_tool_observation ob of
              Inl _ \<Rightarrow> mk_tool_observation (failed (de_invalid E n) (tool_latency E n 2))
            | Inr ob' \<Rightarrow> Inr ob'))
       (\<lambda>ob. Inr (s\<lparr>ds_pending_observation := Some ob\<rparr>))"

definition failed_search :: "deep_env \<Rightarrow> observation_kind \<Rightarrow> string \<Rightarrow> string \<Rightarrow> raised \<Rightarrow> rat \<Rightarrow> tool_observation" where
  "failed_search E kind summary query x latency =
     observation_of kind summary [] (Some (error_text x)) latency (failed_execution (de_runtime E) x query)"

definition navigation_attempt ::
  "deep_env \<Rightarrow> deep_budget \<Rightarrow> nat \<Rightarrow> deep_state \<Rightarrow> string \<Rightarrow> raised + tool_observation"
where
  "navigation_attempt E b n s query =
     (case de_navigation E n query (ds_filters s) (db_focused_video_limit b) of
        Inl x \<Rightarrow> Inl x
      | Inr (documents, executions) \<Rightarrow>
          Inr ((observation_of Obs_Navigation
             (''navigation returned '' @ int_text (int (length documents)) @ '' videos'') [] None
             (tool_latency E n 1) executions)\<lparr>to_navigation_documents := documents\<rparr>))"

definition navigation_node :: "deep_env \<Rightarrow> deep_budget \<Rightarrow> nat \<Rightarrow> deep_state \<Rightarrow> deep_state result" where
  "navigation_node E b n s =
     ebind (decision_from_state E s) (\<lambda>action.
       case action of
         Search_Navigation query \<Rightarrow>
           observed E n s (navigation_attempt E b n s query)
             (failed_search E Obs_Navigation ''navigation failed'' query)
       | _ \<Rightarrow> Inl (Runtime_Error ''AssertionError''))"

definition transcripts_attempt ::
  "deep_env \<Rightarrow> nat \<Rightarrow> deep_state \<Rightarrow> string \<Rightarrow> int list \<Rightarrow> raised + tool_observation"
where
  "transcripts_attempt E n s query vs =
     (case de_transcripts E n query (ds_filters s) (if vs = [] then None else Some vs) (ds_tool_calls s - 1) of
        Inl x \<Rightarrow> Inl x
      | Inr r \<Rightarrow>
          Inr ((observation_of Obs_Transcript_Search
             (''transcript search returned '' @ int_text (int (length (tr_spans r))) @ '' spans and '' @
              int_text (int (length (tr_stale_reasons r))) @ '' stale hits; '' @
              int_text (tr_dropped_span_count r) @ '' spans were deterministically bounded'')
             (tr_spans r) None (tool_latency E n 1)
             [\<lparr>dx_execution_id = Some (tr_execution_id r), dx_search_trace_id = tr_search_trace_id r,
               dx_trace_persisted = tr_trace_persisted r, dx_trace_error = tr_trace_error r,
               dx_query = tr_query r\<rparr>])
             \<lparr>to_stale_reasons := tr_stale_reasons r, to_dropped_evidence_count := tr_dropped_span_count r\<rparr>))"

definition transcripts_node :: "deep_env \<Rightarrow> nat \<Rightarrow> deep_state \<Rightarrow> deep_state result" where
  "transcripts_node E n s =
     ebind (decision_from_state E s) (\<lambda>action.
       case action of
         Search_Transcripts query vs \<Rightarrow>
           observed E n s (transcripts_attempt E n s query vs)
             (failed_search E Obs_Transcript_Search ''transcript search failed'' query)
       | _ \<Rightarrow> Inl (Runtime_Error ''AssertionError''))"

definition window_attempt ::
  "deep_env \<Rightarrow> nat \<Rightarrow> int \<Rightarrow> string \<Rightarrow> int \<Rightarrow> int \<Rightarrow> raised + tool_observation"
where
  "window_attempt E n video_id anchor before after =
     (case de_windows E n video_id anchor before after of
        Inl x \<Rightarrow> Inl x
      | Inr r \<Rightarrow> Inr (observation_of Obs_Transcript_Window
          (''window read '' @ int_text (int (length (sp_segment_ids (wr_span r)))) @ '' authoritative segments'')
          [wr_span r] None (tool_latency E n 1) []))"

definition failed_window :: "raised \<Rightarrow> rat \<Rightarrow> tool_observation" where
  "failed_window x latency =
     observation_of Obs_Transcript_Window ''transcript window read failed'' [] (Some (error_text x)) latency []"

text \<open>\<open>next(\<dots>)\<close> without a default raises when no span holds the anchor.\<close>

definition window_node :: "deep_env \<Rightarrow> nat \<Rightarrow> deep_state \<Rightarrow> deep_state result" where
  "window_node E n s =
     ebind (decision_from_state E s) (\<lambda>action.
       case action of
         Read_Transcript_Window anchor before after \<Rightarrow>
           (case find (\<lambda>x. anchor \<in> set (sp_segment_ids x)) (ds_evidence_spans s) of
              None \<Rightarrow> Inl (Runtime_Error ''StopIteration'')
            | Some anchor_span \<Rightarrow>
                observed E n s (window_attempt E n (sp_video_id anchor_span) anchor before after) failed_window)
       | _ \<Rightarrow> Inl (Runtime_Error ''AssertionError''))"

definition reduce_node :: "deep_env \<Rightarrow> deep_budget \<Rightarrow> nat \<Rightarrow> deep_state \<Rightarrow> deep_state result" where
  "reduce_node E b n s =
     (case ds_pending_observation s of
        None \<Rightarrow> Inr (reject_state s T_Provider_Error ''tool produced no observation'')
      | Some ob \<Rightarrow>
          ebind (record_observation (de_runtime E) (de_rnd E) b s ob) (\<lambda>updated.
            if to_kind ob = Obs_Navigation \<and> to_navigation_documents ob = [] \<and> to_error ob = None
            then correct_empty_navigation (de_text E) updated
            else if ds_termination_reason updated = None then
              (case before_decision b updated (de_clock E n 0) of
                 None \<Rightarrow> Inr updated
               | Some reason \<Rightarrow> Inr (reject_state updated reason
                   ''decision budget or search deadline reached after observation''))
            else Inr updated))"

section \<open>The graph\<close>

datatype graph_node =
  Decide_Action | Guard_Action | Node_Navigation | Node_Transcripts | Node_Window | Reduce_Observation | Finalize

fun run_node :: "deep_env \<Rightarrow> deep_budget \<Rightarrow> nat \<Rightarrow> graph_node \<Rightarrow> deep_state \<Rightarrow> deep_state result" where
  "run_node E b n Decide_Action s = decide_node E b n s"
| "run_node E b n Guard_Action s = guard_node E b n s"
| "run_node E b n Node_Navigation s = navigation_node E b n s"
| "run_node E b n Node_Transcripts s = transcripts_node E n s"
| "run_node E b n Node_Window s = window_node E n s"
| "run_node E b n Reduce_Observation s = reduce_node E b n s"
| "run_node E b n Finalize s = Inr (record_finalize s)"

text \<open>A route the edge map does not name is a KeyError of langgraph.\<close>

definition route_guard :: "deep_env \<Rightarrow> deep_state \<Rightarrow> graph_node result" where
  "route_guard E s =
     (if ds_termination_reason s \<noteq> None then Inr Finalize
      else ebind (decision_from_state E s) (\<lambda>action.
        case action of
          Search_Navigation _ \<Rightarrow> Inr Node_Navigation
        | Search_Transcripts _ _ \<Rightarrow> Inr Node_Transcripts
        | Read_Transcript_Window _ _ _ \<Rightarrow> Inr Node_Window
        | _ \<Rightarrow> Inl Key_Error))"

definition route_reducer :: "deep_state \<Rightarrow> graph_node" where
  "route_reducer s =
     (if ds_termination_reason s \<noteq> None then Finalize
      else if ds_events s \<noteq> [] \<and> (case last (ds_events s) of Fallback_Event _ _ \<Rightarrow> True | _ \<Rightarrow> False)
      then Guard_Action else Decide_Action)"

fun next_node :: "deep_env \<Rightarrow> graph_node \<Rightarrow> deep_state \<Rightarrow> graph_node option result" where
  "next_node E Decide_Action s = Inr (Some Guard_Action)"
| "next_node E Guard_Action s = ebind (route_guard E s) (\<lambda>m. Inr (Some m))"
| "next_node E Reduce_Observation s = Inr (Some (route_reducer s))"
| "next_node E Finalize s = Inr None"
| "next_node E _ s = Inr (Some Reduce_Observation)"

text \<open>\<open>limit\<close> node executions are left; \<open>n\<close> have been done.\<close>

fun run_graph :: "deep_env \<Rightarrow> deep_budget \<Rightarrow> nat \<Rightarrow> nat \<Rightarrow> graph_node \<Rightarrow> deep_state \<Rightarrow> deep_state result" where
  "run_graph E b 0 n node s = Inl (Runtime_Error ''GraphRecursionError'')"
| "run_graph E b (Suc limit) n node s =
     ebind (run_node E b n node s) (\<lambda>s1.
     ebind (next_node E node s1) (\<lambda>following.
       case following of None \<Rightarrow> Inr s1 | Some m \<Rightarrow> run_graph E b limit (Suc n) m s1))"

definition RECURSION_LIMIT :: nat where
  "RECURSION_LIMIT = 80"

definition run_deep_search :: "deep_env \<Rightarrow> deep_budget \<Rightarrow> deep_state \<Rightarrow> deep_state result" where
  "run_deep_search E b s = run_graph E b RECURSION_LIMIT 0 Decide_Action s"

text \<open>\<open>_initial_state\<close> of src/shiliu/ask/deep/service.py, of a run with this budget.\<close>

definition initial_deep_state ::
  "(rat \<Rightarrow> rat) \<Rightarrow> deep_budget \<Rightarrow> string \<Rightarrow> string \<Rightarrow> jdict \<Rightarrow> rat \<Rightarrow> deep_state"
where
  "initial_deep_state rnd b run_id query filters started =
     \<lparr>ds_run_id = run_id, ds_query = query, ds_filters = filters, ds_open_questions = [query],
      ds_resolved_questions = [], ds_evidence_spans = [], ds_navigation_documents = [],
      ds_visited_video_ids = [], ds_visited_segment_ids = [], ds_previous_queries = [],
      ds_repeated_action_keys = [], ds_decision_rounds = 0, ds_tool_calls = 0,
      ds_consecutive_no_new_evidence = 0, ds_navigation_result_count = 0, ds_started_at = started,
      ds_search_deadline = rnd (started + db_search_phase_cutoff_seconds b),
      ds_total_deadline = rnd (started + db_total_runtime_seconds b), ds_last_action = None,
      ds_last_observation_summary = [], ds_pending_observation = None, ds_errors = [],
      ds_stale_reasons = [], ds_events = [], ds_usage = [], ds_termination_reason = None\<rparr>"

end
