(* ===== verification/Deep_Facts.thy ===== *)
theory Deep_Facts
  imports Deep_Graph
begin

text \<open>
  Invariants of the deep search graph. \<open>deep_within\<close> holds of every state a node returns and needs
  nothing of the environment; \<open>workable\<close> is what makes every node return for \<open>sound_text\<close> (or the reducer raise);
  \<open>steps_left\<close> bounds the node executions that may follow.
\<close>

section \<open>Fusing keeps the content of spans\<close>

definition content :: "evidence_span \<Rightarrow> evidence_span" where
  "content s = s\<lparr>sp_retrieval_provenance := [], sp_parent_chunk_ids := [], sp_fusion_score := 0\<rparr>"

definition ranked :: "runtime \<Rightarrow> evidence_span \<Rightarrow> bool" where
  "ranked R s \<longleftrightarrow> list_all (\<lambda>v. rt_int R (case map_of v ''rank'' of None \<Rightarrow> VInt 1 | Some v \<Rightarrow> v) \<noteq> None)
     (sp_retrieval_provenance s)"

lemma content_simps [simp]:
  "content (s\<lparr>sp_fusion_score := x\<rparr>) = content s"
  "content (s\<lparr>sp_retrieval_provenance := p\<rparr>) = content s"
  "content (s\<lparr>sp_parent_chunk_ids := c\<rparr>) = content s"
  by (simp_all add: content_def)

lemma content_fields:
  "sp_citation_id (content s) = sp_citation_id s" "sp_segment_ids (content s) = sp_segment_ids s"
  "sp_quote_text (content s) = sp_quote_text s"
  by (simp_all add: content_def)

lemma content_ids:
  assumes "content s = content t"
  shows "sp_citation_id s = sp_citation_id t" "sp_segment_ids s = sp_segment_ids t" "sp_quote_text s = sp_quote_text t"
  using content_fields [of s] content_fields [of t] assms by simp_all

lemma ranked_score: "ranked R s \<Longrightarrow> \<exists>x. provenance_score R rnd s = Inr x"
proof -
  assume "ranked R s"
  then have "\<exists>shares. emap (provenance_share R rnd) (sp_retrieval_provenance s) = Inr shares"
    by (intro emap_total) (auto simp: ranked_def list_all_iff provenance_share_def split: option.splits)
  then show ?thesis by (auto simp: provenance_score_def)
qed

lemma set_unique_dicts: "set (unique_dicts R vs) \<subseteq> set vs"
proof -
  have "snd ` set (fold (\<lambda>v d. let key = rt_json_dumps R (VDict v) in if map_of d key = None then d @ [(key, v)] else d) vs d)
      \<subseteq> snd ` set d \<union> set vs" for d
  proof (induction vs arbitrary: d)
    case (Cons v vs)
    let ?d = "let key = rt_json_dumps R (VDict v) in if map_of d key = None then d @ [(key, v)] else d"
    have "snd ` set ?d \<subseteq> insert v (snd ` set d)" by (auto simp: Let_def)
    with Cons [of ?d] show ?case by auto
  qed simp
  from this [of "[]"] show ?thesis by (simp add: unique_dicts_def)
qed

text \<open>What the loop of the fusion keeps: the spans it holds are those of the list, up to their ranking.\<close>

definition fused_from :: "evidence_span list \<Rightarrow> (string \<times> evidence_span) list \<Rightarrow> bool" where
  "fused_from spans d \<longleftrightarrow>
     (\<forall>(k, s) \<in> set d. sp_citation_id s = k \<and> (\<exists>t \<in> set spans. content s = content t)) \<and>
     fst ` set d = sp_citation_id ` set spans"

lemma fused_update:
  assumes "fused_from spans d" and "sp_citation_id s' = sp_citation_id s"
    and new: "\<exists>t \<in> set (spans @ [s]). content s' = content t"
  shows "fused_from (spans @ [s]) (AList.update (sp_citation_id s) s' d)"
  unfolding fused_from_def
proof (intro conjI ballI)
  show "fst ` set (AList.update (sp_citation_id s) s' d) = sp_citation_id ` set (spans @ [s])"
    using assms(1) by (simp add: fused_from_def keys_of_update)
next
  fix kt assume "kt \<in> set (AList.update (sp_citation_id s) s' d)"
  from subsetD [OF set_update_subset this] have "kt = (sp_citation_id s, s') \<or> kt \<in> set d" by simp
  then show "case kt of (k, t) \<Rightarrow> sp_citation_id t = k \<and> (\<exists>u \<in> set (spans @ [s]). content t = content u)"
  proof
    assume "kt = (sp_citation_id s, s')"
    then show ?thesis unfolding prod.case using assms(2) new by simp
  next
    assume "kt \<in> set d"
    then have "case kt of (k, t) \<Rightarrow> sp_citation_id t = k \<and> (\<exists>u \<in> set spans. content t = content u)"
      using assms(1) unfolding fused_from_def by blast
    then show ?thesis by (cases kt) auto
  qed
qed

lemma fuse_into_fused:
  assumes "fused_from spans d"
  shows "fused_from (spans @ [s]) (fuse_into R rnd s score d)"
proof (cases "map_of d (sp_citation_id s)")
  case None
  then show ?thesis using fused_update [OF assms, of "s\<lparr>sp_fusion_score := score\<rparr>" s] by (simp add: fuse_into_def)
next
  case (Some t)
  then have "(sp_citation_id s, t) \<in> set d" by (rule map_of_SomeD)
  with assms obtain u where u: "sp_citation_id t = sp_citation_id s" "u \<in> set spans" "content t = content u"
    by (auto simp: fused_from_def)
  show ?thesis
    unfolding fuse_into_def Some option.case
    by (rule fused_update [OF assms]) (use u in auto)
qed

lemma ranked_update:
  assumes "\<forall>(k, t) \<in> set d. ranked R t" and "ranked R s"
  shows "\<forall>(k, t) \<in> set (AList.update c s d). ranked R t"
  using assms set_update_subset [of c s d] by auto

lemma fuse_into_ranked:
  assumes "\<forall>(k, t) \<in> set d. ranked R t" and "ranked R s"
  shows "\<forall>(k, t) \<in> set (fuse_into R rnd s score d). ranked R t"
proof (cases "map_of d (sp_citation_id s)")
  case None
  show ?thesis
    unfolding fuse_into_def None option.case by (rule ranked_update) (use assms in \<open>auto simp: ranked_def\<close>)
next
  case (Some t)
  then have "ranked R t" using assms(1) map_of_SomeD [OF Some] by auto
  with assms show ?thesis
    unfolding fuse_into_def Some option.case
    using set_unique_dicts [of R "sp_retrieval_provenance t @ sp_retrieval_provenance s"]
    by (intro ranked_update) (auto simp: ranked_def list_all_iff)
qed

lemma fuse_loop_facts:
  assumes "fuse_loop R rnd spans d = Inr d'" and "fused_from before d"
  shows "fused_from (before @ spans) d' \<and>
    ((\<forall>(k, t) \<in> set d. ranked R t) \<and> list_all (ranked R) spans \<longrightarrow> (\<forall>(k, t) \<in> set d'. ranked R t))"
  using assms
proof (induction spans arbitrary: d before)
  case (Cons s spans)
  then obtain score where score: "fuse_loop R rnd spans (fuse_into R rnd s score d) = Inr d'"
    by (auto simp: ebind_eq_Inr)
  from Cons.IH [OF this fuse_into_fused [OF Cons.prems(2)]]
  show ?case using fuse_into_ranked [of d R s rnd score] by auto
qed simp

lemma fuse_loop_total:
  assumes "list_all (ranked R) spans"
  shows "\<exists>d'. fuse_loop R rnd spans d = Inr d'"
  using assms
proof (induction spans arbitrary: d)
  case (Cons s spans)
  then obtain score where "provenance_score R rnd s = Inr score" using ranked_score [of R s rnd] by auto
  with Cons show ?case by simp
qed simp

lemma fuse_evidence_facts:
  assumes "fuse_evidence R rnd spans = Inr out"
  shows "sp_citation_id ` set out = sp_citation_id ` set spans" and
    "s \<in> set out \<Longrightarrow> \<exists>t \<in> set spans. content s = content t" and
    "list_all (ranked R) spans \<Longrightarrow> list_all (ranked R) out"
proof -
  obtain d where d: "fuse_loop R rnd spans [] = Inr d" "out = sort_key fusion_key (map snd d)"
    using assms by (auto simp: fuse_evidence_def ebind_eq_Inr)
  have start: "fused_from [] []" by (simp add: fused_from_def)
  note facts = fuse_loop_facts [OF d(1) start, simplified]
  have "sp_citation_id ` snd ` set d = fst ` set d"
    unfolding image_image by (rule image_cong) (use facts in \<open>auto simp: fused_from_def\<close>)
  then show "sp_citation_id ` set out = sp_citation_id ` set spans"
    using facts by (auto simp: d(2) fused_from_def)
  show "s \<in> set out \<Longrightarrow> \<exists>t \<in> set spans. content s = content t"
    using facts by (fastforce simp: d(2) fused_from_def)
  show "list_all (ranked R) spans \<Longrightarrow> list_all (ranked R) out"
    using facts by (fastforce simp: d(2) list_all_iff)
qed

lemma fuse_evidence_total: "list_all (ranked R) spans \<Longrightarrow> \<exists>out. fuse_evidence R rnd spans = Inr out"
  using fuse_loop_total [of R spans rnd "[]"] by (auto simp: fuse_evidence_def)

section \<open>Questions of a decision\<close>

lemma add_open_bound:
  "add_open_questions T qs opened = Inr opened' \<Longrightarrow> length opened \<le> 6 \<Longrightarrow> length opened' \<le> 6"
  by (induction qs arbitrary: opened) (auto simp: ebind_eq_Inr split: if_splits)

lemma without_question_facts:
  "without_question T q vs = Inr out \<Longrightarrow> length out \<le> length vs \<and> set out \<subseteq> set vs"
proof (induction vs arbitrary: out)
  case (Cons v vs)
  then obtain rest where "without_question T q vs = Inr rest" "out = v # rest \<or> out = rest"
    by (auto simp: ebind_eq_Inr split: if_splits)
  with Cons.IH show ?case by auto
qed simp

lemma resolve_questions_facts:
  assumes "resolve_questions T allowed gs (opened, resolved) = Inr (opened', resolved')"
  shows "length opened' \<le> length opened \<and> set opened' \<subseteq> set opened \<and>
    (\<forall>g \<in> set resolved'. g \<in> set resolved \<or> set (sg_citation_ids g) \<subseteq> set allowed)"
  using assms
proof (induction gs arbitrary: opened resolved)
  case (Cons g gs)
  show ?case
  proof (cases "set (sg_citation_ids g) \<subseteq> set allowed")
    case True
    then obtain remaining where r: "without_question T (sg_question g) opened = Inr remaining"
        "resolve_questions T allowed gs (remaining, resolved @ [g]) = Inr (opened', resolved')"
      using Cons.prems by (auto simp: ebind_eq_Inr)
    from Cons.IH [OF r(2)] without_question_facts [OF r(1)] True show ?thesis by auto
  next
    case False
    then show ?thesis using Cons.IH Cons.prems by auto
  qed
qed simp

lemma set_last_n: "set (last_n n xs) \<subseteq> set xs"
  by (simp add: last_n_def set_drop_subset)

lemma length_last_n: "length (last_n n xs) \<le> n"
  by (simp add: last_n_def)

section \<open>What every returned state keeps\<close>

definition fallbacks :: "deep_state \<Rightarrow> nat" where
  "fallbacks s = length (filter (\<lambda>e. case e of Fallback_Event _ _ \<Rightarrow> True | _ \<Rightarrow> False) (ds_events s))"

lemma has_fallback_iff: "has_fallback s \<longleftrightarrow> fallbacks s > 0"
  by (auto simp: has_fallback_def fallbacks_def list_ex_iff filter_empty_conv)

definition evidence_ids :: "deep_state \<Rightarrow> string set" where
  "evidence_ids s = sp_citation_id ` set (ds_evidence_spans s)"

definition deep_within :: "deep_budget \<Rightarrow> deep_state \<Rightarrow> bool" where
  "deep_within b s \<longleftrightarrow>
     0 \<le> ds_decision_rounds s \<and> ds_decision_rounds s \<le> db_max_decision_rounds b \<and>
     ds_tool_calls s = int (length (ds_repeated_action_keys s)) \<and> ds_tool_calls s \<le> db_max_tool_calls b \<and>
     distinct (ds_repeated_action_keys s) \<and> fallbacks s \<le> 1 \<and>
     length (ds_navigation_documents s) \<le> 8 \<and> length (ds_open_questions s) \<le> 6 \<and>
     length (ds_resolved_questions s) \<le> 6 \<and>
     (\<forall>g \<in> set (ds_resolved_questions s). set (sg_citation_ids g) \<subseteq> evidence_ids s) \<and>
     (ds_termination_reason s = Some T_Answer_Ready \<longrightarrow> ds_evidence_spans s \<noteq> [])"

text \<open>What holds when a node is entered.\<close>

fun at_node :: "graph_node \<Rightarrow> deep_state \<Rightarrow> bool" where
  "at_node Decide_Action s \<longleftrightarrow> ds_termination_reason s = None"
| "at_node Guard_Action s \<longleftrightarrow> True"
| "at_node Node_Navigation s \<longleftrightarrow> ds_termination_reason s = None \<and> \<not> has_fallback s"
| "at_node Reduce_Observation s \<longleftrightarrow> ds_termination_reason s = None \<and>
     (\<forall>ob. ds_pending_observation s = Some ob \<and> to_kind ob = Obs_Navigation \<longrightarrow> \<not> has_fallback s)"
| "at_node Finalize s \<longleftrightarrow> ds_termination_reason s \<noteq> None"
| "at_node _ s \<longleftrightarrow> ds_termination_reason s = None"

definition rounds_left :: "deep_budget \<Rightarrow> deep_state \<Rightarrow> nat" where
  "rounds_left b s = nat (db_max_decision_rounds b - ds_decision_rounds s)"

definition fallback_steps :: "deep_state \<Rightarrow> nat" where
  "fallback_steps s = (if has_fallback s then 0 else 3)"

fun steps_left :: "deep_budget \<Rightarrow> graph_node \<Rightarrow> deep_state \<Rightarrow> nat" where
  "steps_left b Decide_Action s = 4 * rounds_left b s + fallback_steps s + 3"
| "steps_left b Guard_Action s =
     (if ds_termination_reason s \<noteq> None then 2 else 4 * rounds_left b s + fallback_steps s + 6)"
| "steps_left b Reduce_Observation s = 4 * rounds_left b s + fallback_steps s + 4"
| "steps_left b Finalize s = 1"
| "steps_left b _ s = 4 * rounds_left b s + fallback_steps s + 5"

text \<open>A step of the graph keeps the bounds and uses up a step.\<close>

definition step_ok :: "deep_env \<Rightarrow> deep_budget \<Rightarrow> graph_node \<Rightarrow> deep_state \<Rightarrow> deep_state \<Rightarrow> bool" where
  "step_ok E b node s s1 \<longleftrightarrow> deep_within b s1 \<and>
     (\<forall>m. next_node E node s1 = Inr (Some m) \<longrightarrow> at_node m s1 \<and> steps_left b m s1 < steps_left b node s)"

lemma event_simps [simp]:
  "fallbacks (s\<lparr>ds_events := ds_events s @ [e]\<rparr>) =
     fallbacks s + (case e of Fallback_Event _ _ \<Rightarrow> 1 | _ \<Rightarrow> 0)"
  by (cases e) (simp_all add: fallbacks_def)

lemma reject_fields [simp]:
  "fallbacks (reject_state s r t) = fallbacks s" "ds_termination_reason (reject_state s r t) = Some r"
  "ds_decision_rounds (reject_state s r t) = ds_decision_rounds s"
  by (simp_all add: reject_state_def fallbacks_def)

lemma within_reject:
  assumes "deep_within b s" and "r = T_Answer_Ready \<longrightarrow> ds_evidence_spans s \<noteq> []"
  shows "deep_within b (reject_state s r t)"
  using assms by (auto simp: deep_within_def reject_state_def fallbacks_def evidence_ids_def)

lemma decide_step:
  assumes "deep_within b s" and "at_node Decide_Action s" and "decide_node E b n s = Inr s1"
  shows "step_ok E b Decide_Action s s1"
proof (cases "before_decision b s (de_clock E n 0)")
  case (Some r)
  then have s1: "s1 = reject_state s r ''decision budget or search deadline reached''" and r: "r = T_Budget_Exhausted"
    using assms(3) by (auto simp: decide_node_def before_decision_def split: if_splits)
  show ?thesis using within_reject [OF assms(1), of r] by (simp add: step_ok_def s1 r)
next
  case None
  then have room: "ds_decision_rounds s < db_max_decision_rounds b" by (auto simp: before_decision_def split: if_splits)
  show ?thesis
  proof (cases "decide E b n s")
    case (Inl x)
    then have s1: "s1 = record_decision_error (de_runtime E) s x" using assms(3) None by (simp add: decide_node_def)
    have "deep_within b s1" "ds_termination_reason s1 \<noteq> None"
      using assms(1) room by (auto simp: s1 record_decision_error_def deep_within_def fallbacks_def evidence_ids_def Let_def)
    then show ?thesis by (simp add: step_ok_def)
  next
    case (Inr dm)
    obtain d metadata where dm: "dm = (d, metadata)" by (cases dm)
    have rec: "record_decision (de_text E) s d metadata = Inr s1" using assms(3) None Inr by (simp add: decide_node_def dm)
    then obtain opened opened' resolved where q:
        "add_open_questions (de_text E) (ag_open_questions d) (ds_open_questions s) = Inr opened"
        "resolve_questions (de_text E) (map sp_citation_id (ds_evidence_spans s)) (ag_resolved_questions d)
           (opened, ds_resolved_questions s) = Inr (opened', resolved)"
        and fields: "ds_decision_rounds s1 = ds_decision_rounds s + 1" "ds_open_questions s1 = opened'"
        "ds_resolved_questions s1 = last_n 6 resolved" "fallbacks s1 = fallbacks s"
        "ds_termination_reason s1 = ds_termination_reason s" "ds_evidence_spans s1 = ds_evidence_spans s"
        "ds_tool_calls s1 = ds_tool_calls s" "ds_repeated_action_keys s1 = ds_repeated_action_keys s"
        "ds_navigation_documents s1 = ds_navigation_documents s"
      by (auto simp: record_decision_def ebind_eq_Inr fallbacks_def)
    have "length opened \<le> 6" using add_open_bound [OF q(1)] assms(1) by (simp add: deep_within_def)
    with resolve_questions_facts [OF q(2)] have opened: "length opened' \<le> 6" by linarith
    have backed: "set (sg_citation_ids g) \<subseteq> evidence_ids s1" if "g \<in> set resolved" for g
    proof -
      from resolve_questions_facts [OF q(2)] that
      have "g \<in> set (ds_resolved_questions s) \<or> set (sg_citation_ids g) \<subseteq> evidence_ids s"
        by (simp add: evidence_ids_def)
      moreover have "evidence_ids s1 = evidence_ids s" by (simp add: evidence_ids_def fields)
      ultimately show ?thesis using assms(1) by (auto simp: deep_within_def)
    qed
    have "deep_within b s1"
      using assms(1,2) room length_last_n [of 6 resolved] set_last_n [of 6 resolved]
        opened backed
      by (auto simp: deep_within_def fields)
    moreover have "rounds_left b s = Suc (rounds_left b s1)" using room by (simp add: rounds_left_def fields)
    ultimately show ?thesis using assms(2) by (simp add: step_ok_def fields fallback_steps_def has_fallback_iff)
  qed
qed

lemma within_approve:
  assumes "deep_within b s" and "before_tool b s t = None" and "key \<notin> set (ds_repeated_action_keys s)"
  shows "deep_within b (approve_tool s key)"
  using assms
  by (auto simp: deep_within_def approve_tool_def fallbacks_def evidence_ids_def before_tool_def split: if_splits)

lemma approve_fields [simp]:
  "fallbacks (approve_tool s key) = fallbacks s" "ds_termination_reason (approve_tool s key) = ds_termination_reason s"
  "ds_decision_rounds (approve_tool s key) = ds_decision_rounds s" "ds_last_action (approve_tool s key) = ds_last_action s"
  by (simp_all add: approve_tool_def fallbacks_def)

text \<open>The guard leaves a finished state alone, finishes it, or approves a new key.\<close>

lemma guard_tool_cases:
  assumes "guard_tool_action E b n s action = Inr s1"
  obtains r t where "s1 = reject_state s r t" and "r \<noteq> T_Answer_Ready"
  | key where "s1 = approve_tool s key" and "key \<notin> set (ds_repeated_action_keys s)"
      and "before_tool b s (de_clock E n 0) = None"
proof (cases "before_tool b s (de_clock E n 0)")
  case (Some r)
  with assms that(1) show thesis by (auto simp: guard_tool_action_def before_tool_def split: if_splits)
next
  case None
  then obtain k where k: "action_key (de_text E) action = Inr k"
    using assms by (auto simp: guard_tool_action_def ebind_eq_Inr)
  show thesis
  proof (cases k)
    case None
    with assms k \<open>before_tool b s (de_clock E n 0) = None\<close> that(1) show thesis by (auto simp: guard_tool_action_def)
  next
    case (Some key)
    with assms k None that(1) that(2) [of key] show thesis
      by (auto simp: guard_tool_action_def split: if_splits agent_action.splits)
  qed
qed

lemma guard_cases:
  assumes "guard_node E b n s = Inr s1"
  obtains (1) "ds_termination_reason s \<noteq> None" and "s1 = s"
  | (2) r t where "ds_termination_reason s = None" and "s1 = reject_state s r t"
      and "r = T_Answer_Ready \<longrightarrow> ds_evidence_spans s \<noteq> []"
  | (3) action key where "ds_termination_reason s = None" and "decision_from_state E s = Inr action"
      and "s1 = approve_tool s key" and "key \<notin> set (ds_repeated_action_keys s)"
      and "before_tool b s (de_clock E n 0) = None"
      and "(\<exists>q. action = Search_Navigation q) \<longrightarrow> \<not> has_fallback s"
      and "guard_tool_action E b n s action = Inr s1"
proof (cases "ds_termination_reason s")
  case None
  then obtain action where a: "decision_from_state E s = Inr action"
    using assms by (auto simp: guard_node_def ebind_eq_Inr)
  have guarded: thesis
    if g: "guard_tool_action E b n s action = Inr s1" and f: "(\<exists>q. action = Search_Navigation q) \<longrightarrow> \<not> has_fallback s"
    using g
  proof (cases rule: guard_tool_cases)
    case (1 r t)
    show thesis by (rule 2 [OF None 1(1)]) (use 1(2) in simp)
  next
    case (2 key)
    show thesis by (rule 3 [OF None a 2(1,2,3) f g])
  qed
  show thesis
  proof (cases action)
    case (Search_Navigation q)
    show thesis
    proof (cases "has_fallback s")
      case True
      with assms None a Search_Navigation 2 show thesis by (auto simp: guard_node_def)
    next
      case False
      with assms None a Search_Navigation guarded show thesis by (simp add: guard_node_def)
    qed
  qed (use assms None a 2 guarded in \<open>auto simp: guard_node_def\<close>)
next
  case (Some r)
  have "s1 = s" using assms Some by (simp add: guard_node_def)
  with Some show thesis by (intro 1) simp_all
qed

lemma guard_step:
  assumes "deep_within b s" and "guard_node E b n s = Inr s1"
  shows "step_ok E b Guard_Action s s1"
  using assms(2)
proof (cases rule: guard_cases)
  case 1
  then show ?thesis using assms(1) by (auto simp: step_ok_def route_guard_def)
next
  case (2 r t)
  then show ?thesis using within_reject [OF assms(1)] by (auto simp: step_ok_def route_guard_def)
next
  case (3 action key)
  have w: "deep_within b s1" unfolding 3(3) by (rule within_approve [OF assms(1) 3(5,4)])
  have route: "route_guard E s1 = (case action of
          Search_Navigation _ \<Rightarrow> Inr Node_Navigation
        | Search_Transcripts _ _ \<Rightarrow> Inr Node_Transcripts
        | Read_Transcript_Window _ _ _ \<Rightarrow> Inr Node_Window
        | _ \<Rightarrow> Inl Key_Error)"
    using 3(1,2) by (simp add: route_guard_def 3(3) decision_from_state_def)
  have same: "ds_termination_reason s1 = None" "has_fallback s1 = has_fallback s" "rounds_left b s1 = rounds_left b s"
    using 3(1) by (simp_all add: 3(3) has_fallback_iff rounds_left_def)
  show ?thesis
    using w same 3(1,6) by (cases action) (auto simp: step_ok_def route fallback_steps_def)
qed

section \<open>Tools and the reducer\<close>

lemma observed_cases:
  assumes "observed E n s attempt failed = Inr s1"
  obtains ob where "s1 = s\<lparr>ds_pending_observation := Some ob\<rparr>" and "attempt = Inr ob \<or> (\<exists>x l. ob = failed x l)"
  using assms
  by (auto simp: observed_def ebind_eq_Inr mk_tool_observation_def split: sum.splits if_splits)

lemma pending_step:
  assumes "deep_within b s" and "ds_termination_reason s = None" and "s1 = s\<lparr>ds_pending_observation := Some ob\<rparr>"
    and "to_kind ob = Obs_Navigation \<longrightarrow> \<not> has_fallback s"
    and "node \<in> {Node_Navigation, Node_Transcripts, Node_Window}"
  shows "step_ok E b node s s1"
  using assms
  by (auto simp: step_ok_def deep_within_def fallbacks_def evidence_ids_def has_fallback_def rounds_left_def
      fallback_steps_def)

text \<open>The spans the two transcript tools can return.\<close>

definition tool_spans :: "deep_env \<Rightarrow> evidence_span set" where
  "tool_spans E = {x. (\<exists>n q f v i r. de_transcripts E n q f v i = Inr r \<and> x \<in> set (tr_spans r)) \<or>
                      (\<exists>n v a i j r. de_windows E n v a i j = Inr r \<and> x = wr_span r)}"

lemma tool_spansI:
  "de_transcripts E n q f v i = Inr r \<Longrightarrow> set (tr_spans r) \<subseteq> tool_spans E"
  "de_windows E n w a k j = Inr u \<Longrightarrow> wr_span u \<in> tool_spans E"
  unfolding tool_spans_def by blast+

text \<open>What a tool node returns: the state with a pending observation of its kind.\<close>

definition pending_of :: "deep_env \<Rightarrow> observation_kind \<Rightarrow> deep_state \<Rightarrow> deep_state \<Rightarrow> bool" where
  "pending_of E kind s s1 \<longleftrightarrow>
     (\<exists>ob. s1 = s\<lparr>ds_pending_observation := Some ob\<rparr> \<and> to_kind ob = kind \<and>
        set (to_evidence_spans ob) \<subseteq> tool_spans E \<and> (kind = Obs_Navigation \<longrightarrow> to_evidence_spans ob = []))"

lemma observed_pending:
  assumes "observed E n s attempt failed = Inr s1"
    and "\<And>ob. attempt = Inr ob \<Longrightarrow> to_kind ob = kind \<and> set (to_evidence_spans ob) \<subseteq> tool_spans E \<and>
      (kind = Obs_Navigation \<longrightarrow> to_evidence_spans ob = [])"
    and "\<And>x l. to_kind (failed x l) = kind \<and> to_evidence_spans (failed x l) = []"
  shows "pending_of E kind s s1"
  using assms(1)
proof (cases rule: observed_cases)
  case (1 ob)
  from 1(2) have "to_kind ob = kind \<and> set (to_evidence_spans ob) \<subseteq> tool_spans E \<and>
      (kind = Obs_Navigation \<longrightarrow> to_evidence_spans ob = [])"
    using assms(2,3) by auto
  with 1(1) show ?thesis unfolding pending_of_def by blast
qed

lemma failed_search_fields [simp]:
  "to_kind (failed_search E kind summary query x l) = kind"
  "to_evidence_spans (failed_search E kind summary query x l) = []"
  by (simp_all add: failed_search_def observation_of_def)

lemma failed_window_fields [simp]:
  "to_kind (failed_window x l) = Obs_Transcript_Window" "to_evidence_spans (failed_window x l) = []"
  by (simp_all add: failed_window_def observation_of_def)

lemma navigation_pending:
  assumes "navigation_node E b n s = Inr s1"
  shows "pending_of E Obs_Navigation s s1"
proof -
  obtain action where a: "decision_from_state E s = Inr action"
    using assms by (auto simp: navigation_node_def ebind_eq_Inr)
  then obtain q where q: "action = Search_Navigation q"
    using assms by (cases action) (auto simp: navigation_node_def)
  have "observed E n s (navigation_attempt E b n s q) (failed_search E Obs_Navigation ''navigation failed'' q) = Inr s1"
    using assms by (simp add: navigation_node_def a q)
  then show ?thesis
    by (rule observed_pending)
       (auto simp: navigation_attempt_def observation_of_def split: sum.splits)
qed

lemma transcripts_pending:
  assumes "transcripts_node E n s = Inr s1"
  shows "pending_of E Obs_Transcript_Search s s1"
proof -
  obtain action where a: "decision_from_state E s = Inr action"
    using assms by (auto simp: transcripts_node_def ebind_eq_Inr)
  then obtain q vs where q: "action = Search_Transcripts q vs"
    using assms by (cases action) (auto simp: transcripts_node_def)
  have "observed E n s (transcripts_attempt E n s q vs)
      (failed_search E Obs_Transcript_Search ''transcript search failed'' q) = Inr s1"
    using assms by (simp add: transcripts_node_def a q)
  then show ?thesis
  proof (rule observed_pending)
    fix ob assume "transcripts_attempt E n s q vs = Inr ob"
    then obtain r where r: "de_transcripts E n q (ds_filters s) (if vs = [] then None else Some vs) (ds_tool_calls s - 1) = Inr r"
      "to_kind ob = Obs_Transcript_Search" "to_evidence_spans ob = tr_spans r"
      by (auto simp: transcripts_attempt_def observation_of_def split: sum.splits)
    from tool_spansI(1) [OF r(1)] r(2,3)
    show "to_kind ob = Obs_Transcript_Search \<and> set (to_evidence_spans ob) \<subseteq> tool_spans E \<and>
        (Obs_Transcript_Search = Obs_Navigation \<longrightarrow> to_evidence_spans ob = [])" by simp
  qed simp
qed

lemma window_pending:
  assumes "window_node E n s = Inr s1"
  shows "pending_of E Obs_Transcript_Window s s1"
proof -
  obtain action where a: "decision_from_state E s = Inr action"
    using assms by (auto simp: window_node_def ebind_eq_Inr)
  then obtain x i j where q: "action = Read_Transcript_Window x i j"
    using assms by (cases action) (auto simp: window_node_def)
  obtain sp where "find (\<lambda>y. x \<in> set (sp_segment_ids y)) (ds_evidence_spans s) = Some sp"
    using assms by (cases "find (\<lambda>y. x \<in> set (sp_segment_ids y)) (ds_evidence_spans s)") (auto simp: window_node_def a q)
  then have "observed E n s (window_attempt E n (sp_video_id sp) x i j) failed_window = Inr s1"
    using assms by (simp add: window_node_def a q)
  then show ?thesis
  proof (rule observed_pending)
    fix ob assume "window_attempt E n (sp_video_id sp) x i j = Inr ob"
    then obtain r where r: "de_windows E n (sp_video_id sp) x i j = Inr r"
      "to_kind ob = Obs_Transcript_Window" "to_evidence_spans ob = [wr_span r]"
      by (auto simp: window_attempt_def observation_of_def split: sum.splits)
    from tool_spansI(2) [OF r(1)] r(2,3)
    show "to_kind ob = Obs_Transcript_Window \<and> set (to_evidence_spans ob) \<subseteq> tool_spans E \<and>
        (Obs_Transcript_Window = Obs_Navigation \<longrightarrow> to_evidence_spans ob = [])" by simp
  qed simp
qed

text \<open>What recording an observation leaves alone, and how the evidence grows.\<close>

lemma stop_fields [simp]:
  "ds_decision_rounds (deep_observation_stop b ob s) = ds_decision_rounds s"
  "ds_tool_calls (deep_observation_stop b ob s) = ds_tool_calls s"
  "ds_repeated_action_keys (deep_observation_stop b ob s) = ds_repeated_action_keys s"
  "ds_navigation_documents (deep_observation_stop b ob s) = ds_navigation_documents s"
  "ds_open_questions (deep_observation_stop b ob s) = ds_open_questions s"
  "ds_resolved_questions (deep_observation_stop b ob s) = ds_resolved_questions s"
  "ds_evidence_spans (deep_observation_stop b ob s) = ds_evidence_spans s"
  "ds_events (deep_observation_stop b ob s) = ds_events s"
  "ds_last_action (deep_observation_stop b ob s) = ds_last_action s"
  "ds_pending_observation (deep_observation_stop b ob s) = ds_pending_observation s"
  by (simp_all add: deep_observation_stop_def Let_def)

lemma stop_reason: "ds_termination_reason (deep_observation_stop b ob s) = ds_termination_reason s \<or>
    ds_termination_reason (deep_observation_stop b ob s) \<in>
      {Some T_Evidence_Unavailable, Some T_No_New_Evidence, Some T_Budget_Exhausted}"
  by (simp add: deep_observation_stop_def Let_def)

lemma record_observation_facts:
  assumes "record_observation R rnd b s ob = Inr s1"
  shows "ds_decision_rounds s1 = ds_decision_rounds s" and "ds_tool_calls s1 = ds_tool_calls s"
    and "ds_repeated_action_keys s1 = ds_repeated_action_keys s" and "ds_open_questions s1 = ds_open_questions s"
    and "ds_resolved_questions s1 = ds_resolved_questions s" and "ds_last_action s1 = ds_last_action s"
    and "ds_pending_observation s1 = None"
    and "ds_events s1 = ds_events s @ [observation_event s ob (length (ds_evidence_spans s1))]"
    and "ds_termination_reason s1 = ds_termination_reason s \<or> ds_termination_reason s1 \<in>
      {Some T_Evidence_Unavailable, Some T_No_New_Evidence, Some T_Budget_Exhausted}"
    and "to_kind ob = Obs_Navigation \<Longrightarrow> ds_evidence_spans s1 = ds_evidence_spans s"
    and "to_kind ob \<noteq> Obs_Navigation \<Longrightarrow>
      fuse_evidence R rnd (ds_evidence_spans s @ to_evidence_spans ob) = Inr (ds_evidence_spans s1)"
    and "length (ds_navigation_documents s1) \<le> max 8 (length (ds_navigation_documents s))"
proof -
  obtain s0 where s0: "(if to_kind ob = Obs_Navigation then Inr (observe_navigation s ob)
      else observe_evidence R rnd s ob) = Inr s0"
    and s1: "s1 = deep_observation_stop b ob (s0\<lparr>
          ds_stale_reasons := ds_stale_reasons s0 @ to_stale_reasons ob,
          ds_errors := ds_errors s0 @ (case to_error ob of None \<Rightarrow> [] | Some e \<Rightarrow> if e = [] then [] else [take 500 e]),
          ds_last_observation_summary := take 1000 (to_summary ob),
          ds_pending_observation := None,
          ds_events := ds_events s0 @ [observation_event s ob (length (ds_evidence_spans s0))]\<rparr>)"
    using assms by (auto simp: record_observation_def ebind_eq_Inr)
  have kept: "ds_decision_rounds s0 = ds_decision_rounds s \<and> ds_tool_calls s0 = ds_tool_calls s \<and>
    ds_repeated_action_keys s0 = ds_repeated_action_keys s \<and> ds_open_questions s0 = ds_open_questions s \<and>
    ds_resolved_questions s0 = ds_resolved_questions s \<and> ds_last_action s0 = ds_last_action s \<and>
    ds_events s0 = ds_events s \<and> ds_termination_reason s0 = ds_termination_reason s \<and>
    length (ds_navigation_documents s0) \<le> max 8 (length (ds_navigation_documents s)) \<and>
    (to_kind ob = Obs_Navigation \<longrightarrow> ds_evidence_spans s0 = ds_evidence_spans s) \<and>
    (to_kind ob \<noteq> Obs_Navigation \<longrightarrow>
      fuse_evidence R rnd (ds_evidence_spans s @ to_evidence_spans ob) = Inr (ds_evidence_spans s0))"
    using s0 length_last_n [of 8]
    by (auto simp: observe_navigation_def observe_evidence_def ebind_eq_Inr Let_def le_max_iff_disj split: if_splits)
  show "ds_decision_rounds s1 = ds_decision_rounds s" "ds_tool_calls s1 = ds_tool_calls s"
    "ds_repeated_action_keys s1 = ds_repeated_action_keys s" "ds_open_questions s1 = ds_open_questions s"
    "ds_resolved_questions s1 = ds_resolved_questions s" "ds_last_action s1 = ds_last_action s"
    "ds_pending_observation s1 = None"
    "ds_events s1 = ds_events s @ [observation_event s ob (length (ds_evidence_spans s1))]"
    "to_kind ob = Obs_Navigation \<Longrightarrow> ds_evidence_spans s1 = ds_evidence_spans s"
    "to_kind ob \<noteq> Obs_Navigation \<Longrightarrow>
      fuse_evidence R rnd (ds_evidence_spans s @ to_evidence_spans ob) = Inr (ds_evidence_spans s1)"
    "length (ds_navigation_documents s1) \<le> max 8 (length (ds_navigation_documents s))"
    using kept by (simp_all add: s1)
  show "ds_termination_reason s1 = ds_termination_reason s \<or> ds_termination_reason s1 \<in>
      {Some T_Evidence_Unavailable, Some T_No_New_Evidence, Some T_Budget_Exhausted}"
    using kept stop_reason [of b ob "s0\<lparr>
          ds_stale_reasons := ds_stale_reasons s0 @ to_stale_reasons ob,
          ds_errors := ds_errors s0 @ (case to_error ob of None \<Rightarrow> [] | Some e \<Rightarrow> if e = [] then [] else [take 500 e]),
          ds_last_observation_summary := take 1000 (to_summary ob),
          ds_pending_observation := None,
          ds_events := ds_events s0 @ [observation_event s ob (length (ds_evidence_spans s0))]\<rparr>"]
    unfolding s1 [symmetric] by simp
qed

lemma correct_cases:
  assumes "correct_empty_navigation T s = Inr s1"
  obtains key fallback where "s1 = s\<lparr>ds_last_action := Some fallback, ds_events := ds_events s @ [Fallback_Event key fallback]\<rparr>"
proof -
  obtain q where q: "ds_last_action s = Some (Search_Navigation q)"
    using assms by (auto simp: correct_empty_navigation_def split: option.splits agent_action.splits)
  show thesis using assms that by (auto simp: correct_empty_navigation_def ebind_eq_Inr q)
qed

lemma recorded_within:
  assumes "deep_within b s" and "record_observation R rnd b s ob = Inr s1"
  shows "deep_within b s1" and "fallbacks s1 = fallbacks s" and "rounds_left b s1 = rounds_left b s"
    and "\<not> (case last (ds_events s1) of Fallback_Event _ _ \<Rightarrow> True | _ \<Rightarrow> False)" and "ds_events s1 \<noteq> []"
proof -
  note facts = record_observation_facts [OF assms(2)]
  have grows: "evidence_ids s \<subseteq> evidence_ids s1"
  proof (cases "to_kind ob = Obs_Navigation")
    case True
    then show ?thesis using facts(10) by (simp add: evidence_ids_def)
  next
    case False
    then show ?thesis using fuse_evidence_facts(1) [OF facts(11)] by (auto simp: evidence_ids_def)
  qed
  show fallbacks: "fallbacks s1 = fallbacks s" by (simp add: fallbacks_def facts(8) observation_event_def)
  show "rounds_left b s1 = rounds_left b s" by (simp add: rounds_left_def facts(1))
  show "\<not> (case last (ds_events s1) of Fallback_Event _ _ \<Rightarrow> True | _ \<Rightarrow> False)" "ds_events s1 \<noteq> []"
    by (simp_all add: facts(8) observation_event_def)
  have docs: "length (ds_navigation_documents s1) \<le> 8" using facts(12) assms(1) by (simp add: deep_within_def)
  have ready: "ds_evidence_spans s1 \<noteq> []" if "ds_termination_reason s1 = Some T_Answer_Ready"
  proof -
    have "ds_termination_reason s = Some T_Answer_Ready" using facts(9) that by auto
    then have "evidence_ids s \<noteq> {}" using assms(1) by (simp add: deep_within_def evidence_ids_def)
    with grows show ?thesis by (auto simp: evidence_ids_def)
  qed
  have backed: "set (sg_citation_ids g) \<subseteq> evidence_ids s1" if "g \<in> set (ds_resolved_questions s)" for g
    using assms(1) grows that by (auto simp: deep_within_def)
  show "deep_within b s1"
    using assms(1) fallbacks docs ready backed by (simp add: deep_within_def facts(1-5))
qed

lemma reduce_step:
  assumes "deep_within b s" and "at_node Reduce_Observation s" and "reduce_node E b n s = Inr s1"
  shows "step_ok E b Reduce_Observation s s1"
proof (cases "ds_pending_observation s")
  case None
  then have s1: "s1 = reject_state s T_Provider_Error ''tool produced no observation''"
    using assms(3) by (simp add: reduce_node_def)
  show ?thesis using within_reject [OF assms(1), of T_Provider_Error] by (simp add: step_ok_def s1 route_reducer_def)
next
  case (Some ob)
  then obtain u where u: "record_observation (de_runtime E) (de_rnd E) b s ob = Inr u"
    using assms(3) by (auto simp: reduce_node_def ebind_eq_Inr)
  note w = recorded_within [OF assms(1) u]
  show ?thesis
  proof (cases "to_kind ob = Obs_Navigation \<and> to_navigation_documents ob = [] \<and> to_error ob = None")
    case True
    then have "correct_empty_navigation (de_text E) u = Inr s1"
      using assms(3) Some u by (simp add: reduce_node_def)
    then obtain key fallback where
      s1: "s1 = u\<lparr>ds_last_action := Some fallback, ds_events := ds_events u @ [Fallback_Event key fallback]\<rparr>"
      by (rule correct_cases)
    have none: "fallbacks s = 0" using assms(2) Some True by (simp add: has_fallback_iff)
    have fields: "fallbacks s1 = 1" "rounds_left b s1 = rounds_left b s"
      using none w(2,3) by (simp_all add: s1 fallbacks_def rounds_left_def)
    have "deep_within b s1" using w(1) fields(1) by (simp add: deep_within_def s1 evidence_ids_def fallbacks_def)
    then show ?thesis using fields none
      by (auto simp: step_ok_def route_reducer_def s1 [symmetric] fallback_steps_def has_fallback_iff)
  next
    case False
    then consider (kept) "s1 = u" | (blocked) r t where "s1 = reject_state u r t" "r = T_Budget_Exhausted"
      using assms(3) Some u
      by (auto simp: reduce_node_def before_decision_def split: if_splits)
    then show ?thesis
    proof cases
      case kept
      then show ?thesis using w by (auto simp: step_ok_def route_reducer_def fallback_steps_def has_fallback_iff)
    next
      case blocked
      then show ?thesis using within_reject [OF w(1), of r] by (simp add: step_ok_def route_reducer_def)
    qed
  qed
qed

lemma tool_step:
  assumes "deep_within b s" and "at_node node s" and "run_node E b n node s = Inr s1"
    and "node \<in> {Node_Navigation, Node_Transcripts, Node_Window}"
  shows "step_ok E b node s s1"
proof -
  obtain kind where p: "pending_of E kind s s1" "kind = Obs_Navigation \<longrightarrow> node = Node_Navigation"
  proof (cases node)
    case Node_Navigation
    then have "pending_of E Obs_Navigation s s1" using assms(3) navigation_pending by simp
    then show thesis using that Node_Navigation by blast
  next
    case Node_Transcripts
    then have "pending_of E Obs_Transcript_Search s s1" using assms(3) transcripts_pending by simp
    then show thesis using that by blast
  next
    case Node_Window
    then have "pending_of E Obs_Transcript_Window s s1" using assms(3) window_pending by simp
    then show thesis using that by blast
  qed (use assms(4) in simp_all)
  then obtain ob where ob: "s1 = s\<lparr>ds_pending_observation := Some ob\<rparr>" "to_kind ob = kind"
    by (auto simp: pending_of_def)
  show ?thesis
    by (rule pending_step [OF assms(1) _ ob(1) _ assms(4)]) (use assms(2,4) ob(2) p(2) in auto)
qed

lemma node_step:
  assumes "deep_within b s" and "at_node node s" and "run_node E b n node s = Inr s1"
  shows "step_ok E b node s s1"
proof (cases node)
  case Decide_Action
  with assms decide_step show ?thesis by simp
next
  case Guard_Action
  with assms guard_step show ?thesis by simp
next
  case Reduce_Observation
  with assms reduce_step show ?thesis by simp
next
  case Finalize
  then have "s1 = record_finalize s" using assms(3) by simp
  then show ?thesis using assms(1) Finalize
    by (simp add: step_ok_def record_finalize_def deep_within_def fallbacks_def evidence_ids_def)
qed (use assms tool_step in simp_all)

text \<open>A run that returns ends in \<open>Finalize\<close>, in a state that keeps the bounds.\<close>

lemma run_within:
  assumes "run_graph E b limit n node s = Inr s1" and "deep_within b s" and "at_node node s"
  shows "deep_within b s1 \<and> ds_termination_reason s1 \<noteq> None \<and>
    (\<exists>k. last (ds_events s1) = Finalize_Event (ds_termination_reason s1) k)"
  using assms
proof (induction limit arbitrary: n node s)
  case (Suc limit)
  then obtain t where t: "run_node E b n node s = Inr t" by (auto simp: ebind_eq_Inr)
  note ok = node_step [OF Suc.prems(2,3) t]
  obtain following where f: "next_node E node t = Inr following" using Suc.prems(1) t by (auto simp: ebind_eq_Inr)
  show ?case
  proof (cases following)
    case None
    then have "node = Finalize" using f by (cases node) (auto simp: ebind_eq_Inr)
    then show ?thesis using Suc.prems t f None ok by (auto simp: step_ok_def record_finalize_def)
  next
    case (Some m)
    then have "run_graph E b limit (Suc n) m t = Inr s1" using Suc.prems(1) t f by simp
    with Suc.IH ok f Some show ?thesis unfolding step_ok_def by blast
  qed
qed simp

end
