(* ===== verification/Deep_Properties.thy ===== *)
theory Deep_Properties
  imports Deep_Facts Context_Properties
begin

text \<open>
  What the deep search promises: whatever the agent, the tools and the clock do, it returns within
  langgraph's limit, with a reason; it stays within its budget; and its evidence comes from the
  transcript tools only.
\<close>

section \<open>Normalizing twice\<close>

text \<open>What the code relies on from Unicode: text that is normalized and collapsed stays as it is.\<close>

definition text_stable :: "text_functions \<Rightarrow> bool" where
  "text_stable T \<longleftrightarrow> (\<forall>s. collapsed T (collapsed T s) = collapsed T s)"

lemma normalize_query_again: "text_stable T \<Longrightarrow> normalize_query T q = Inr q' \<Longrightarrow> normalize_query T q' = Inr q'"
  by (auto simp: text_stable_def normalize_query_def Let_def split: if_splits)

lemma normalize_ask_query_again:
  "text_stable T \<Longrightarrow> normalize_ask_query T q = Inr q' \<Longrightarrow> normalize_ask_query T q' = Inr q'"
  by (auto simp: text_stable_def normalize_ask_query_def Let_def split: if_splits)

lemma validated_Inr [simp]: "validated r = Inr x \<longleftrightarrow> r = Inr x"
  by (cases r) (simp_all add: validated_def)

lemma mk_action_again:
  assumes T: "text_stable T" and a: "mk_action T a = Inr a'"
  shows "mk_action T a' = Inr a'"
  using a
proof (cases a)
  case (Search_Transcripts q vs)
  with a show ?thesis
    by (auto simp: ebind_eq_Inr list_ex_iff normalize_query_again [OF T] split: if_splits)
qed (auto simp: ebind_eq_Inr normalize_query_again [OF T] strip_strip split: if_splits)

definition normal_questions :: "text_functions \<Rightarrow> string list \<Rightarrow> bool" where
  "normal_questions T qs \<longleftrightarrow> list_all (\<lambda>q. normalize_ask_query T q = Inr q) qs"

lemma agent_decision_normal:
  assumes T: "text_stable T" and d: "mk_agent_decision T raw = Inr d"
  shows "mk_action T (ag_action d) = Inr (ag_action d)" and "normal_questions T (ag_open_questions d)"
    and "normal_questions T (map sg_question (ag_resolved_questions d))"
proof -
  obtain qs gs where q: "mk_action T (ag_action raw) = Inr (ag_action d)"
      "emap (normalize_ask_query T) (ag_open_questions raw) = Inr qs" "ag_open_questions d = take 6 (fromkeys qs)"
      "emap (mk_suggestion T) (ag_resolved_questions raw) = Inr gs" "ag_resolved_questions d = gs"
    using d by (auto simp: mk_agent_decision_def ebind_eq_Inr split: if_splits)
  show "mk_action T (ag_action d) = Inr (ag_action d)" by (rule mk_action_again [OF T q(1)])
  show "normal_questions T (ag_open_questions d)"
    using emap_Inr_elem [OF q(2)] normalize_ask_query_again [OF T] set_take_subset [of 6 "fromkeys qs"]
    by (fastforce simp: normal_questions_def list_all_iff q(3))
  have "normalize_ask_query T (sg_question g) = Inr (sg_question g)" if "g \<in> set gs" for g
  proof -
    from emap_Inr_elem [OF q(4) that] obtain g0 where "mk_suggestion T g0 = Inr g" by auto
    then show ?thesis
      by (auto simp: mk_suggestion_def ebind_eq_Inr normalize_ask_query_again [OF T] split: if_splits)
  qed
  then show "normal_questions T (map sg_question (ag_resolved_questions d))"
    by (simp add: normal_questions_def list_all_iff q(5))
qed

section \<open>Every node returns\<close>

lemma add_open_total:
  "normal_questions T qs \<Longrightarrow> normal_questions T opened \<Longrightarrow>
     \<exists>opened'. add_open_questions T qs opened = Inr opened' \<and> normal_questions T opened'"
  by (induction qs arbitrary: opened) (auto simp: normal_questions_def)

lemma without_question_total:
  "normal_questions T vs \<Longrightarrow> normalize_ask_query T q = Inr q \<Longrightarrow> \<exists>out. without_question T q vs = Inr out"
  by (induction vs) (auto simp: normal_questions_def)

lemma resolve_total:
  assumes "normal_questions T (map sg_question gs)" and "normal_questions T opened"
  shows "\<exists>opened' resolved'. resolve_questions T allowed gs (opened, resolved) = Inr (opened', resolved')"
  using assms
proof (induction gs arbitrary: opened resolved)
  case (Cons g gs)
  have rest: "normal_questions T (map sg_question gs)" and g: "normalize_ask_query T (sg_question g) = Inr (sg_question g)"
    using Cons.prems(1) by (simp_all add: normal_questions_def)
  show ?case
  proof (cases "set (sg_citation_ids g) \<subseteq> set allowed")
    case True
    obtain out where out: "without_question T (sg_question g) opened = Inr out"
      using without_question_total [OF Cons.prems(2) g] by blast
    then have "normal_questions T out"
      using without_question_facts [OF out] Cons.prems(2) by (auto simp: normal_questions_def list_all_iff)
    from Cons.IH [OF rest this] show ?thesis by (simp add: True out)
  next
    case False
    from Cons.IH [OF rest Cons.prems(2)] show ?thesis by (simp add: False)
  qed
qed simp

lemma record_decision_total:
  assumes "text_stable T" and "mk_agent_decision T raw = Inr d" and "normal_questions T (ds_open_questions s)"
  shows "\<exists>s1. record_decision T s d metadata = Inr s1 \<and> normal_questions T (ds_open_questions s1) \<and>
    ds_last_action s1 = Some (ag_action d) \<and> ds_evidence_spans s1 = ds_evidence_spans s"
proof -
  note normal = agent_decision_normal [OF assms(1,2)]
  obtain opened where o: "add_open_questions T (ag_open_questions d) (ds_open_questions s) = Inr opened"
      "normal_questions T opened" using add_open_total [OF normal(2) assms(3)] by blast
  obtain opened' resolved where r: "resolve_questions T (map sp_citation_id (ds_evidence_spans s))
      (ag_resolved_questions d) (opened, ds_resolved_questions s) = Inr (opened', resolved)"
    using resolve_total [OF normal(3) o(2)] by blast
  have "normal_questions T opened'"
    using resolve_questions_facts [OF r] o(2) by (auto simp: normal_questions_def list_all_iff)
  then show ?thesis by (simp add: record_decision_def o(1) r)
qed

text \<open>
  What the code relies on from its surroundings: stable Unicode text, and \<open>str\<close> of a truthy value is
  not empty. It also calls \<open>int\<close> on the provenance ranks of the spans the tools return, outside of
  any \<open>try\<close>: a rank without an integer value ends the run with the error of the conversion.
\<close>

definition sound_text :: "deep_env \<Rightarrow> bool" where
  "sound_text E \<longleftrightarrow> text_stable (de_text E) \<and> (\<forall>v. truthy v \<longrightarrow> rt_str (de_runtime E) v \<noteq> [])"

definition all_ranked :: "deep_env \<Rightarrow> bool" where
  "all_ranked E \<longleftrightarrow> (\<forall>x \<in> tool_spans E. ranked (de_runtime E) x)"

lemma failed_valid:
  assumes "sound_text E" and "0 \<le> l" and "length summary \<le> 1000"
  shows "mk_tool_observation (failed_search E kind summary q x l) = Inr (failed_search E kind summary q x l)"
  using assms
  by (auto simp: mk_tool_observation_def failed_search_def observation_of_def error_text_def failed_execution_def
      sound_text_def split: option.splits)

lemma failed_window_valid: "0 \<le> l \<Longrightarrow> mk_tool_observation (failed_window x l) = Inr (failed_window x l)"
  by (simp add: mk_tool_observation_def failed_window_def observation_of_def error_text_def)

lemma observed_total:
  assumes "\<And>x l. 0 \<le> l \<Longrightarrow> mk_tool_observation (failed x l) = Inr (failed x l)"
  shows "\<exists>s1. observed E n s attempt failed = Inr s1"
proof -
  have late: "0 \<le> tool_latency E n k" for k by (simp add: tool_latency_def)
  show ?thesis
    using assms [OF late]
    by (cases attempt) (auto simp: observed_def mk_tool_observation_def)
qed

text \<open>What lets a node return, beyond \<open>at_node\<close>.\<close>

definition last_action_is :: "deep_env \<Rightarrow> deep_state \<Rightarrow> agent_action \<Rightarrow> bool" where
  "last_action_is E s a \<longleftrightarrow> ds_last_action s = Some a \<and> mk_action (de_text E) a = Inr a"

fun node_ready :: "deep_env \<Rightarrow> graph_node \<Rightarrow> deep_state \<Rightarrow> bool" where
  "node_ready E Guard_Action s \<longleftrightarrow> (ds_termination_reason s = None \<longrightarrow> (\<exists>a. last_action_is E s a))"
| "node_ready E Node_Navigation s \<longleftrightarrow> (\<exists>q. last_action_is E s (Search_Navigation q))"
| "node_ready E Node_Transcripts s \<longleftrightarrow> (\<exists>q vs. last_action_is E s (Search_Transcripts q vs))"
| "node_ready E Node_Window s \<longleftrightarrow> (\<exists>x i j. last_action_is E s (Read_Transcript_Window x i j) \<and>
     x \<in> set (concat (map sp_segment_ids (ds_evidence_spans s))))"
| "node_ready E Reduce_Observation s \<longleftrightarrow>
     (\<forall>ob. ds_pending_observation s = Some ob \<longrightarrow> set (to_evidence_spans ob) \<subseteq> tool_spans E \<and>
        (to_kind ob = Obs_Navigation \<longrightarrow> (\<exists>q. last_action_is E s (Search_Navigation q))))"
| "node_ready E _ s \<longleftrightarrow> True"

definition workable :: "deep_env \<Rightarrow> graph_node \<Rightarrow> deep_state \<Rightarrow> bool" where
  "workable E node s \<longleftrightarrow> node_ready E node s \<and>
     (all_ranked E \<longrightarrow> list_all (ranked (de_runtime E)) (ds_evidence_spans s)) \<and>
     normal_questions (de_text E) (ds_open_questions s)"

definition returns :: "deep_env \<Rightarrow> deep_budget \<Rightarrow> nat \<Rightarrow> graph_node \<Rightarrow> deep_state \<Rightarrow> bool" where
  "returns E b n node s \<longleftrightarrow>
     (\<exists>s1 following. run_node E b n node s = Inr s1 \<and> next_node E node s1 = Inr following \<and>
        (\<forall>m. following = Some m \<longrightarrow> workable E m s1)) \<or>
     (\<not> all_ranked E \<and> node = Reduce_Observation \<and> isl (run_node E b n node s))"

lemma returnsI:
  "run_node E b n node s = Inr s1 \<Longrightarrow> next_node E node s1 = Inr following \<Longrightarrow>
     (\<And>m. following = Some m \<Longrightarrow> workable E m s1) \<Longrightarrow> returns E b n node s"
  by (auto simp: returns_def)

lemma reject_kept [simp]:
  "ds_evidence_spans (reject_state s r t) = ds_evidence_spans s" "ds_open_questions (reject_state s r t) = ds_open_questions s"
  "ds_evidence_spans (approve_tool s key) = ds_evidence_spans s" "ds_open_questions (approve_tool s key) = ds_open_questions s"
  by (simp_all add: reject_state_def approve_tool_def)

lemma decide_returns:
  assumes "sound_text E" and "workable E Decide_Action s"
  shows "returns E b n Decide_Action s"
proof (cases "before_decision b s (de_clock E n 0)")
  case (Some r)
  show ?thesis
    by (rule returnsI [of _ _ _ _ _ "reject_state s r ''decision budget or search deadline reached''" "Some Guard_Action"])
       (use assms(2) Some in \<open>auto simp: decide_node_def workable_def\<close>)
next
  case None
  show ?thesis
  proof (cases "decide E b n s")
    case (Inl x)
    have "ds_termination_reason (record_decision_error (de_runtime E) s x) \<noteq> None"
      "ds_evidence_spans (record_decision_error (de_runtime E) s x) = ds_evidence_spans s"
      "ds_open_questions (record_decision_error (de_runtime E) s x) = ds_open_questions s"
      by (simp_all add: record_decision_error_def Let_def)
    with assms(2) show ?thesis
      by (intro returnsI [of _ _ _ _ _ "record_decision_error (de_runtime E) s x" "Some Guard_Action"])
         (auto simp: decide_node_def None Inl workable_def)
  next
    case (Inr dm)
    obtain d metadata where dm: "dm = (d, metadata)" by (cases dm)
    obtain raw where raw: "mk_agent_decision (de_text E) raw = Inr d"
      using Inr by (auto simp: decide_def dm Let_def split: sum.splits)
    have T: "text_stable (de_text E)" using assms(1) by (simp add: sound_text_def)
    obtain s1 where s1: "record_decision (de_text E) s d metadata = Inr s1" "normal_questions (de_text E) (ds_open_questions s1)"
        "ds_last_action s1 = Some (ag_action d)" "ds_evidence_spans s1 = ds_evidence_spans s"
      using record_decision_total [OF T raw] assms(2) by (auto simp: workable_def)
    with assms(2) agent_decision_normal(1) [OF T raw] show ?thesis
      by (intro returnsI [of _ _ _ _ _ s1 "Some Guard_Action"])
         (auto simp: decide_node_def None Inr dm workable_def last_action_is_def)
  qed
qed

lemma action_key_total: "mk_action T a = Inr a \<Longrightarrow> \<exists>k. action_key T a = Inr k"
  by (cases a) (auto simp: action_key_def ebind_eq_Inr split: if_splits)

lemma guard_tool_total:
  assumes "mk_action (de_text E) a = Inr a"
  shows "\<exists>s1. guard_tool_action E b n s a = Inr s1"
proof -
  obtain k where "action_key (de_text E) a = Inr k" using action_key_total [OF assms] by blast
  then show ?thesis by (auto simp: guard_tool_action_def split: option.splits agent_action.splits)
qed

lemma guard_node_total:
  assumes "node_ready E Guard_Action s"
  shows "\<exists>s1. guard_node E b n s = Inr s1"
proof (cases "ds_termination_reason s")
  case None
  with assms obtain a where a: "last_action_is E s a" by auto
  then have d: "decision_from_state E s = Inr a" by (simp add: last_action_is_def decision_from_state_def)
  from guard_tool_total [of E a b n s] a
  obtain s1 where "guard_tool_action E b n s a = Inr s1" by (auto simp: last_action_is_def)
  then show ?thesis by (cases a) (auto simp: guard_node_def None d)
qed (simp add: guard_node_def)

text \<open>An approved action is one of the three searches, and a window has a known anchor.\<close>

lemma approved_action:
  assumes "guard_tool_action E b n s a = Inr (approve_tool s key)" and "ds_termination_reason s = None"
  shows "(case a of Search_Navigation _ \<Rightarrow> True | Search_Transcripts _ _ \<Rightarrow> True
      | Read_Transcript_Window x _ _ \<Rightarrow> x \<in> set (concat (map sp_segment_ids (ds_evidence_spans s)))
      | _ \<Rightarrow> False)"
proof -
  have neq: "reject_state s r t \<noteq> approve_tool s key" for r t
    using assms(2) by (metis approve_fields(2) option.distinct(1) reject_fields(2))
  show ?thesis
    using assms(1) neq
    by (auto simp: guard_tool_action_def action_key_def ebind_eq_Inr split: agent_action.splits option.splits if_splits)
qed

lemma guard_returns:
  assumes "workable E Guard_Action s"
  shows "returns E b n Guard_Action s"
proof -
  have "node_ready E Guard_Action s" using assms by (simp add: workable_def)
  from guard_node_total [OF this] obtain s1 where s1: "guard_node E b n s = Inr s1" by blast
  from s1 show ?thesis
  proof (cases rule: guard_cases)
    case 1
    with s1 assms show ?thesis
      by (intro returnsI [of _ _ _ _ _ s1 "Some Finalize"]) (auto simp: route_guard_def workable_def)
  next
    case (2 r t)
    with s1 assms show ?thesis
      by (intro returnsI [of _ _ _ _ _ s1 "Some Finalize"]) (auto simp: route_guard_def workable_def)
  next
    case (3 a key)
    have a: "last_action_is E s a"
      using 3(1,2) assms by (auto simp: workable_def last_action_is_def decision_from_state_def)
    note action = approved_action [OF 3(7) [unfolded 3(3)] 3(1)]
    obtain m where m: "route_guard E s1 = Inr m" "node_ready E m s1"
      using a action 3(1,2)
      by (cases a) (auto simp: route_guard_def 3(3) decision_from_state_def last_action_is_def)
    with s1 assms show ?thesis
      by (intro returnsI [of _ _ _ _ _ s1 "Some m"]) (simp_all add: 3(3) workable_def)
  qed
qed

lemma pending_returns:
  assumes "workable E node s" and "run_node E b n node s = Inr s1" and "pending_of E kind s s1"
    and "node \<in> {Node_Navigation, Node_Transcripts, Node_Window}"
    and "kind = Obs_Navigation \<longrightarrow> (\<exists>q. last_action_is E s (Search_Navigation q))"
  shows "returns E b n node s"
proof -
  obtain ob where ob: "s1 = s\<lparr>ds_pending_observation := Some ob\<rparr>" "to_kind ob = kind"
      "set (to_evidence_spans ob) \<subseteq> tool_spans E"
    using assms(3) by (auto simp: pending_of_def)
  then have "workable E Reduce_Observation s1" using assms(1,5) by (auto simp: workable_def last_action_is_def)
  with assms(2,4) show ?thesis by (intro returnsI [of _ _ _ _ _ s1 "Some Reduce_Observation"]) auto
qed

lemma tool_returns:
  assumes env: "sound_text E" and w: "workable E node s" and tool: "node \<in> {Node_Navigation, Node_Transcripts, Node_Window}"
  shows "returns E b n node s"
proof (cases node)
  case Node_Navigation
  then obtain q where q: "last_action_is E s (Search_Navigation q)" using w by (auto simp: workable_def)
  then have d: "decision_from_state E s = Inr (Search_Navigation q)"
    by (simp add: last_action_is_def decision_from_state_def)
  have "\<exists>s1. observed E n s (navigation_attempt E b n s q) (failed_search E Obs_Navigation ''navigation failed'' q) = Inr s1"
    by (rule observed_total) (rule failed_valid [OF env], simp_all)
  then obtain s1 where "navigation_node E b n s = Inr s1" by (auto simp: navigation_node_def d)
  then have run: "run_node E b n node s = Inr s1" and p: "pending_of E Obs_Navigation s s1"
    using navigation_pending Node_Navigation by simp_all
  show ?thesis by (rule pending_returns [OF w run p tool]) (use q in auto)
next
  case Node_Transcripts
  then obtain q vs where q: "last_action_is E s (Search_Transcripts q vs)" using w by (auto simp: workable_def)
  then have d: "decision_from_state E s = Inr (Search_Transcripts q vs)"
    by (simp add: last_action_is_def decision_from_state_def)
  have "\<exists>s1. observed E n s (transcripts_attempt E n s q vs)
      (failed_search E Obs_Transcript_Search ''transcript search failed'' q) = Inr s1"
    by (rule observed_total) (rule failed_valid [OF env], simp_all)
  then obtain s1 where "transcripts_node E n s = Inr s1" by (auto simp: transcripts_node_def d)
  then have run: "run_node E b n node s = Inr s1" and p: "pending_of E Obs_Transcript_Search s s1"
    using transcripts_pending Node_Transcripts by simp_all
  show ?thesis by (rule pending_returns [OF w run p tool]) (use q in auto)
next
  case Node_Window
  then obtain x i j where q: "last_action_is E s (Read_Transcript_Window x i j)"
      and x: "x \<in> set (concat (map sp_segment_ids (ds_evidence_spans s)))" using w by (auto simp: workable_def)
  then have d: "decision_from_state E s = Inr (Read_Transcript_Window x i j)"
    by (simp add: last_action_is_def decision_from_state_def)
  from x obtain sp where sp: "find (\<lambda>y. x \<in> set (sp_segment_ids y)) (ds_evidence_spans s) = Some sp"
    by (cases "find (\<lambda>y. x \<in> set (sp_segment_ids y)) (ds_evidence_spans s)") (auto simp: find_None_iff)
  have "\<exists>s1. observed E n s (window_attempt E n (sp_video_id sp) x i j) failed_window = Inr s1"
    by (rule observed_total) (rule failed_window_valid)
  then obtain s1 where "window_node E n s = Inr s1" by (auto simp: window_node_def d sp)
  then have run: "run_node E b n node s = Inr s1" and p: "pending_of E Obs_Transcript_Window s s1"
    using window_pending Node_Window by simp_all
  show ?thesis by (rule pending_returns [OF w run p tool]) (use q in auto)
qed (use tool in simp_all)

lemma record_observation_total:
  assumes "all_ranked E \<longrightarrow> list_all (ranked R) (ds_evidence_spans s) \<and> list_all (ranked R) (to_evidence_spans ob)"
  shows "(\<exists>s1. record_observation R rnd b s ob = Inr s1 \<and> (all_ranked E \<longrightarrow> list_all (ranked R) (ds_evidence_spans s1))) \<or>
    (\<not> all_ranked E \<and> isl (record_observation R rnd b s ob))"
proof (cases "record_observation R rnd b s ob")
  case (Inr s1)
  note facts = record_observation_facts [OF this]
  have "list_all (ranked R) (ds_evidence_spans s1)" if all: "all_ranked E"
  proof -
    have ranked: "list_all (ranked R) (ds_evidence_spans s @ to_evidence_spans ob)" using assms all by simp
    show ?thesis
      using facts(10,11) fuse_evidence_facts(3) [OF _ ranked] assms all
      by (cases "to_kind ob = Obs_Navigation") auto
  qed
  with Inr show ?thesis by blast
next
  case (Inl x)
  have "\<not> all_ranked E"
  proof
    assume "all_ranked E"
    then have "list_all (ranked R) (ds_evidence_spans s @ to_evidence_spans ob)" using assms by simp
    then obtain fused where "fuse_evidence R rnd (ds_evidence_spans s @ to_evidence_spans ob) = Inr fused"
      using fuse_evidence_total by blast
    with Inl show False
      by (cases "to_kind ob = Obs_Navigation")
         (simp_all add: record_observation_def observe_evidence_def Let_def)
  qed
  with Inl show ?thesis by simp
qed

lemma correct_total:
  assumes "ds_last_action s = Some (Search_Navigation q)" and "mk_action T (Search_Navigation q) = Inr (Search_Navigation q)"
  shows "\<exists>key. correct_empty_navigation T s = Inr (s\<lparr>ds_last_action := Some (Search_Transcripts q []),
    ds_events := ds_events s @ [Fallback_Event key (Search_Transcripts q [])]\<rparr>) \<and>
    mk_action T (Search_Transcripts q []) = Inr (Search_Transcripts q [])"
  using assms by (auto simp: correct_empty_navigation_def action_key_def ebind_eq_Inr)

lemma reduce_returns:
  assumes env: "sound_text E" and w: "workable E Reduce_Observation s" and b: "deep_within b s"
  shows "returns E b n Reduce_Observation s"
proof (cases "ds_pending_observation s")
  case None
  have "workable E m (reject_state s T_Provider_Error t)" if "m = Finalize" for m t
    using w that by (simp add: workable_def)
  then show ?thesis
    by (intro returnsI [of _ _ _ _ _ "reject_state s T_Provider_Error ''tool produced no observation''" "Some Finalize"])
       (simp_all add: reduce_node_def None route_reducer_def)
next
  case (Some ob)
  have "all_ranked E \<longrightarrow> list_all (ranked (de_runtime E)) (ds_evidence_spans s) \<and>
      list_all (ranked (de_runtime E)) (to_evidence_spans ob)"
    using w Some by (auto simp: workable_def all_ranked_def list_all_iff)
  from record_observation_total [OF this, of "de_rnd E" b]
  consider (recorded) u where "record_observation (de_runtime E) (de_rnd E) b s ob = Inr u"
      "all_ranked E \<longrightarrow> list_all (ranked (de_runtime E)) (ds_evidence_spans u)"
    | (raised) "\<not> all_ranked E" "isl (record_observation (de_runtime E) (de_rnd E) b s ob)" by blast
  then show ?thesis
  proof cases
  case raised
  then have "isl (run_node E b n Reduce_Observation s)" by (auto simp: reduce_node_def Some isl_def)
  with raised(1) show ?thesis by (simp add: returns_def)
  next
  case u: (recorded u)
  note facts = record_observation_facts [OF u(1)]
  have open_questions: "normal_questions (de_text E) (ds_open_questions u)" using w facts(4) by (simp add: workable_def)
  show ?thesis
  proof (cases "to_kind ob = Obs_Navigation \<and> to_navigation_documents ob = [] \<and> to_error ob = None")
    case True
    with w Some obtain q where "last_action_is E s (Search_Navigation q)" by (auto simp: workable_def)
    then have "ds_last_action u = Some (Search_Navigation q)"
      "mk_action (de_text E) (Search_Navigation q) = Inr (Search_Navigation q)"
      using facts(6) by (auto simp: last_action_is_def)
    from correct_total [OF this] obtain key where key:
      "correct_empty_navigation (de_text E) u = Inr (u\<lparr>ds_last_action := Some (Search_Transcripts q []),
         ds_events := ds_events u @ [Fallback_Event key (Search_Transcripts q [])]\<rparr>)"
      "mk_action (de_text E) (Search_Transcripts q []) = Inr (Search_Transcripts q [])" by blast
    have "workable E m (u\<lparr>ds_last_action := Some (Search_Transcripts q []),
         ds_events := ds_events u @ [Fallback_Event key (Search_Transcripts q [])]\<rparr>)"
      if "m = Guard_Action \<or> m = Finalize" for m
    proof -
      have "last_action_is E (u\<lparr>ds_last_action := Some (Search_Transcripts q []),
         ds_events := ds_events u @ [Fallback_Event key (Search_Transcripts q [])]\<rparr>) (Search_Transcripts q [])"
        using key(2) by (simp add: last_action_is_def)
      then show ?thesis using that u(2) open_questions by (auto simp: workable_def)
    qed
    then show ?thesis
      by (intro returnsI [of _ _ _ _ _ "u\<lparr>ds_last_action := Some (Search_Transcripts q []),
         ds_events := ds_events u @ [Fallback_Event key (Search_Transcripts q [])]\<rparr>"])
         (auto simp: reduce_node_def Some u(1) True key(1) route_reducer_def)
  next
    case False
    let ?s1 = "if ds_termination_reason u = None then
              (case before_decision b u (de_clock E n 0) of
                 None \<Rightarrow> u
               | Some reason \<Rightarrow> reject_state u reason
                   ''decision budget or search deadline reached after observation'')
            else u"
    have run: "reduce_node E b n s = Inr ?s1"
      using False by (auto simp: reduce_node_def Some u(1) split: option.splits)
    have "workable E m ?s1" if "m = Decide_Action \<or> m = Finalize" for m
      using that u(2) open_questions by (auto simp: workable_def split: option.splits)
    moreover have "route_reducer ?s1 = Decide_Action \<or> route_reducer ?s1 = Finalize"
      using recorded_within(4) [OF b u(1)]
      by (auto simp: route_reducer_def split: option.splits)
    ultimately show ?thesis
      by (intro returnsI [of _ _ _ _ _ ?s1]) (use run in auto)
  qed
  qed
qed

lemma node_returns:
  assumes "sound_text E" and "workable E node s" and "deep_within b s"
  shows "returns E b n node s"
proof (cases node)
  case Decide_Action
  with assms decide_returns show ?thesis by simp
next
  case Guard_Action
  with assms guard_returns show ?thesis by simp
next
  case Reduce_Observation
  with assms reduce_returns show ?thesis by simp
next
  case Finalize
  then show ?thesis by (simp add: returns_def)
qed (use tool_returns [OF assms(1,2)] in simp_all)

text \<open>The run ended with an error that some visit of the reduce node raised.\<close>

definition raised_in_reducer :: "deep_env \<Rightarrow> deep_budget \<Rightarrow> deep_state result \<Rightarrow> bool" where
  "raised_in_reducer E b out \<longleftrightarrow> (\<exists>err n s. out = Inl err \<and> run_node E b n Reduce_Observation s = Inl err)"

lemma run_returns:
  assumes "sound_text E" and "workable E node s" and "deep_within b s" and "at_node node s"
    and "steps_left b node s \<le> limit"
  shows "(\<exists>s1. run_graph E b limit n node s = Inr s1) \<or> \<not> all_ranked E \<and> raised_in_reducer E b (run_graph E b limit n node s)"
  using assms(2-)
proof (induction limit arbitrary: n node s)
  case 0
  then show ?case by (cases node) (auto split: if_splits)
next
  case (Suc limit)
  from node_returns [OF assms(1) Suc.prems(1,2), of n] consider
    (ok) s1 following where "run_node E b n node s = Inr s1" "next_node E node s1 = Inr following"
      "\<And>m. following = Some m \<Longrightarrow> workable E m s1"
  | (raised) "\<not> all_ranked E" "node = Reduce_Observation" "isl (run_node E b n node s)"
    unfolding returns_def by blast
  then show ?case
  proof cases
    case (ok s1 following)
    note step = node_step [OF Suc.prems(2,3) ok(1)]
    show ?thesis
    proof (cases following)
      case (Some m)
      with step ok(2) have "deep_within b s1" "at_node m s1" "steps_left b m s1 \<le> limit"
        using Suc.prems(4) by (auto simp: step_ok_def)
      with Suc.IH [OF ok(3) [OF Some]] ok Some show ?thesis by simp
    qed (use ok in simp)
  next
    case raised
    then obtain err where err: "run_node E b n Reduce_Observation s = Inl err" by (auto simp: isl_def)
    with raised(2) have "run_graph E b (Suc limit) n node s = Inl err" by simp
    with raised(1) err show ?thesis unfolding raised_in_reducer_def by auto
  qed
qed

section \<open>Where the evidence comes from\<close>

definition sourced :: "deep_env \<Rightarrow> deep_state \<Rightarrow> bool" where
  "sourced E s \<longleftrightarrow>
     (\<forall>x \<in> set (ds_evidence_spans s). \<exists>t \<in> tool_spans E. content x = content t) \<and>
     (\<forall>ob. ds_pending_observation s = Some ob \<longrightarrow> set (to_evidence_spans ob) \<subseteq> tool_spans E)"

lemma sourced_same:
  "sourced E s \<Longrightarrow> ds_evidence_spans s1 = ds_evidence_spans s \<Longrightarrow>
     ds_pending_observation s1 = ds_pending_observation s \<Longrightarrow> sourced E s1"
  by (simp add: sourced_def)

lemma sourced_pending: "sourced E s \<Longrightarrow> pending_of E kind s s1 \<Longrightarrow> sourced E s1"
  by (auto simp: sourced_def pending_of_def)

lemma sourced_recorded:
  assumes "sourced E s" and "ds_pending_observation s = Some ob" and "record_observation R rnd b s ob = Inr s1"
  shows "sourced E s1"
proof -
  note facts = record_observation_facts [OF assms(3)]
  have "\<exists>t \<in> tool_spans E. content x = content t" if x: "x \<in> set (ds_evidence_spans s1)" for x
  proof (cases "to_kind ob = Obs_Navigation")
    case True
    with x facts(10) assms(1) show ?thesis by (simp add: sourced_def)
  next
    case False
    from fuse_evidence_facts(2) [OF facts(11) [OF False] x]
    obtain y where y: "y \<in> set (ds_evidence_spans s) \<or> y \<in> set (to_evidence_spans ob)" "content x = content y" by auto
    from y(1) have "\<exists>t \<in> tool_spans E. content y = content t"
    proof
      assume "y \<in> set (ds_evidence_spans s)"
      with assms(1) show ?thesis by (simp add: sourced_def)
    next
      assume "y \<in> set (to_evidence_spans ob)"
      with assms(1,2) have "y \<in> tool_spans E" by (auto simp: sourced_def)
      then show ?thesis by blast
    qed
    with y(2) show ?thesis by simp
  qed
  with facts(7) show ?thesis by (simp add: sourced_def)
qed

lemma record_decision_keeps:
  assumes "record_decision T s d metadata = Inr s1"
  shows "ds_evidence_spans s1 = ds_evidence_spans s \<and> ds_pending_observation s1 = ds_pending_observation s"
  using assms by (auto simp: record_decision_def ebind_eq_Inr)

lemma sourced_step:
  assumes "sourced E s" and "run_node E b n node s = Inr s1"
  shows "sourced E s1"
proof (cases node)
  case Decide_Action
  then have run: "decide_node E b n s = Inr s1" using assms(2) by simp
  have "ds_evidence_spans s1 = ds_evidence_spans s \<and> ds_pending_observation s1 = ds_pending_observation s"
  proof (cases "before_decision b s (de_clock E n 0)")
    case None
    with run show ?thesis
      using record_decision_keeps
      by (fastforce simp: decide_node_def record_decision_error_def Let_def split: sum.splits)
  qed (use run in \<open>auto simp: decide_node_def reject_state_def\<close>)
  then show ?thesis using sourced_same [OF assms(1)] by blast
next
  case Guard_Action
  then have "guard_node E b n s = Inr s1" using assms(2) by simp
  then have "ds_evidence_spans s1 = ds_evidence_spans s \<and> ds_pending_observation s1 = ds_pending_observation s"
    by (cases rule: guard_cases) (auto simp: reject_state_def approve_tool_def)
  then show ?thesis using sourced_same [OF assms(1)] by blast
next
  case Node_Navigation
  with assms sourced_pending navigation_pending show ?thesis by fastforce
next
  case Node_Transcripts
  with assms sourced_pending transcripts_pending show ?thesis by fastforce
next
  case Node_Window
  with assms sourced_pending window_pending show ?thesis by fastforce
next
  case Reduce_Observation
  then have run: "reduce_node E b n s = Inr s1" using assms(2) by simp
  show ?thesis
  proof (cases "ds_pending_observation s")
    case None
    with run have "s1 = reject_state s T_Provider_Error ''tool produced no observation''" by (simp add: reduce_node_def)
    then show ?thesis using sourced_same [OF assms(1), of s1] by (simp add: reject_state_def)
  next
    case (Some ob)
    then obtain u where u: "record_observation (de_runtime E) (de_rnd E) b s ob = Inr u"
      using run by (auto simp: reduce_node_def ebind_eq_Inr)
    have "ds_evidence_spans s1 = ds_evidence_spans u \<and> ds_pending_observation s1 = ds_pending_observation u"
    proof (cases "to_kind ob = Obs_Navigation \<and> to_navigation_documents ob = [] \<and> to_error ob = None")
      case True
      then have "correct_empty_navigation (de_text E) u = Inr s1" using run Some u by (simp add: reduce_node_def)
      then show ?thesis by (rule correct_cases) simp
    next
      case False
      then show ?thesis
        using run Some u by (auto simp: reduce_node_def reject_state_def split: if_splits option.splits)
    qed
    then show ?thesis using sourced_same [OF sourced_recorded [OF assms(1) Some u]] by blast
  qed
next
  case Finalize
  with assms show ?thesis by (auto simp: record_finalize_def sourced_def)
qed

lemma run_sourced:
  assumes "run_graph E b limit n node s = Inr s1" and "sourced E s"
  shows "sourced E s1"
  using assms
proof (induction limit arbitrary: n node s)
  case (Suc limit)
  then obtain t following where t: "run_node E b n node s = Inr t" "next_node E node t = Inr following"
    by (auto simp: ebind_eq_Inr)
  have "sourced E t" by (rule sourced_step [OF Suc.prems(2) t(1)])
  with Suc t show ?case by (cases following) auto
qed simp

section \<open>The whole run\<close>

text \<open>The run stops within the recursion limit of langgraph when the budget has at most 18 rounds.\<close>

lemma initial_within:
  "mk_deep_budget rnd b = Inr b \<Longrightarrow> deep_within b (initial_deep_state rnd b i q f t)"
  by (simp add: deep_within_def initial_deep_state_def fallbacks_def mk_deep_budget_def split: if_splits)

lemma initial_steps:
  "db_max_decision_rounds b \<le> 18 \<Longrightarrow>
     steps_left b Decide_Action (initial_deep_state rnd b i q f t) \<le> RECURSION_LIMIT"
  by (simp add: initial_deep_state_def rounds_left_def fallback_steps_def has_fallback_def RECURSION_LIMIT_def)

lemma deep_run_total:
  assumes "sound_text E" and "mk_deep_budget rnd b = Inr b" and "db_max_decision_rounds b \<le> 18"
    and "normalize_ask_query (de_text E) raw = Inr q"
  shows "(\<exists>s. run_deep_search E b (initial_deep_state rnd b i q f t) = Inr s) \<or>
    \<not> all_ranked E \<and> raised_in_reducer E b (run_deep_search E b (initial_deep_state rnd b i q f t))"
proof -
  have "normalize_ask_query (de_text E) q = Inr q"
    using assms(1,4) by (auto simp: sound_text_def intro: normalize_ask_query_again)
  then have "workable E Decide_Action (initial_deep_state rnd b i q f t)"
    by (simp add: workable_def normal_questions_def initial_deep_state_def)
  moreover have "at_node Decide_Action (initial_deep_state rnd b i q f t)"
    by (simp add: initial_deep_state_def)
  ultimately show ?thesis
    using run_returns [OF assms(1)] initial_within [OF assms(2)] initial_steps [OF assms(3)]
    by (simp only: run_deep_search_def)
qed

section \<open>A sample run\<close>

lemma words_of_plain: "list_all (\<lambda>c. \<not> is_space c) w \<Longrightarrow> words_of (w @ cs) acc = words_of cs (acc @ w)"
  by (induction w arbitrary: acc) simp_all

definition plain_word :: "string \<Rightarrow> bool" where
  "plain_word w \<longleftrightarrow> w \<noteq> [] \<and> list_all (\<lambda>c. \<not> is_space c) w"

lemma words_plain: "list_all (\<lambda>c. \<not> is_space c) acc \<Longrightarrow> list_all plain_word (words_of s acc)"
  by (induction s acc rule: words_of.induct) (auto simp: plain_word_def)

lemma space_is_space: "is_space (CHR '' '')"
  by (simp add: is_space_def)

lemma words_of_join: "list_all plain_word ws \<Longrightarrow> words_of (join '' '' ws) [] = ws"
proof (induction ws rule: induct_list012)
  case (2 w)
  then show ?case using words_of_plain [of w "[]" "[]"] by (simp add: plain_word_def)
next
  case (3 w v ws)
  then show ?case
    using words_of_plain [of w "CHR '' '' # join '' '' (v # ws)" "[]"] by (simp add: plain_word_def space_is_space)
qed simp

definition sample_text :: text_functions where
  "sample_text = \<lparr>tx_nfkc = (\<lambda>s. s), tx_casefold = (\<lambda>s. s)\<rparr>"

lemma sample_text_stable: "text_stable sample_text"
  by (simp add: text_stable_def collapsed_def sample_text_def words_of_join words_plain)

text \<open>The agent searches the transcripts once and finishes on what it found.\<close>

definition sample_result :: transcript_result where
  "sample_result = \<lparr>tr_spans = [sample_span ''s1'' 1 ''one''], tr_stale_reasons = [], tr_dropped_span_count = 0,
     tr_execution_id = ''e1'', tr_search_trace_id = ''t1'', tr_trace_persisted = True, tr_trace_error = None,
     tr_query = ''clouds''\<rparr>"

definition sample_raise :: raised where
  "sample_raise = \<lparr>ra_type = ''ValueError'', ra_text = ''no'', ra_code = None, ra_completion_metadata = None,
     ra_trace_id = None, ra_trace_persisted = None\<rparr>"

definition sample_answers :: "nat \<Rightarrow> agent_decision" where
  "sample_answers n = \<lparr>ag_action = (if n = 0 then Search_Transcripts ''clouds'' [] else Finish ''enough''),
     ag_open_questions = [], ag_resolved_questions = []\<rparr>"

definition sample_deep_runtime :: runtime where
  "sample_deep_runtime = sample_runtime\<lparr>rt_str := (\<lambda>v. ''x'')\<rparr>"

definition sample_env :: deep_env where
  "sample_env = \<lparr>de_runtime = sample_deep_runtime, de_text = sample_text, de_rnd = (\<lambda>x. x),
     de_clock = (\<lambda>n k. of_nat n), de_provider = (\<lambda>n view timeout. Inr (sample_answers n, [])),
     de_navigation = (\<lambda>n q f k. Inl sample_raise), de_transcripts = (\<lambda>n q f v i. Inr sample_result),
     de_windows = (\<lambda>n v a i j. Inl sample_raise), de_invalid = (\<lambda>n. sample_raise)\<rparr>"

lemma sample_env_sound: "sound_text sample_env"
  by (simp add: sound_text_def sample_text_stable sample_env_def sample_deep_runtime_def)

lemma sample_env_ranked: "all_ranked sample_env"
  by (simp add: all_ranked_def tool_spans_def sample_env_def sample_result_def sample_deep_runtime_def
      sample_span_def ranked_def Let_def)

definition sample_deep_start :: deep_state where
  "sample_deep_start = initial_deep_state (\<lambda>x. x) default_deep_budget ''r'' ''clouds'' [] 0"

text \<open>
  C12: The deep search returns. Whatever the agent answers, whatever the tools return or raise and
  whatever the clock shows, a run of a validated budget of at most 18 decision rounds ends within
  langgraph's recursion limit of 80 nodes, with a termination reason, and its last event is the
  finalize event of that reason. The only other outcome is an error raised in the reduce node, and it
  takes a tool that returned a span with a provenance rank \<open>int\<close> cannot convert.
\<close>

theorem deep_search_returns:
  assumes "sound_text E" and "mk_deep_budget rnd b = Inr b" and "db_max_decision_rounds b \<le> 18"
    and "normalize_ask_query (de_text E) raw = Inr q"
  shows "(\<exists>s reason k. run_deep_search E b (initial_deep_state rnd b i q f t) = Inr s \<and>
      ds_termination_reason s = Some reason \<and> last (ds_events s) = Finalize_Event (Some reason) k) \<or>
    (\<exists>x \<in> tool_spans E. \<not> ranked (de_runtime E) x) \<and>
      raised_in_reducer E b (run_deep_search E b (initial_deep_state rnd b i q f t))"
proof -
  from deep_run_total [OF assms] consider
    (ended) s where "run_deep_search E b (initial_deep_state rnd b i q f t) = Inr s"
  | (raised) "\<not> all_ranked E" "raised_in_reducer E b (run_deep_search E b (initial_deep_state rnd b i q f t))"
    by blast
  then show ?thesis
  proof cases
    case (ended s)
    have "at_node Decide_Action (initial_deep_state rnd b i q f t)" by (simp add: initial_deep_state_def)
    from run_within [OF ended [unfolded run_deep_search_def] initial_within [OF assms(2)] this]
    obtain k where "ds_termination_reason s \<noteq> None" "last (ds_events s) = Finalize_Event (ds_termination_reason s) k"
      by blast
    with ended show ?thesis by (cases "ds_termination_reason s") simp_all
  qed (simp add: all_ranked_def)
qed

lemma sample_budget: "mk_deep_budget (\<lambda>x. x) default_deep_budget = Inr default_deep_budget"
  by (simp add: mk_deep_budget_def default_deep_budget_def)

lemma sample_query: "normalize_ask_query sample_text ''clouds'' = Inr ''clouds''"
  by code_simp

lemma deep_search_returns_witness:
  "\<exists>s reason k. run_deep_search sample_env default_deep_budget sample_deep_start = Inr s \<and>
     ds_termination_reason s = Some reason \<and> last (ds_events s) = Finalize_Event (Some reason) k"
proof -
  have "db_max_decision_rounds default_deep_budget \<le> 18" by (simp add: default_deep_budget_def)
  moreover have "normalize_ask_query (de_text sample_env) ''clouds'' = Inr ''clouds''"
    using sample_query by (simp add: sample_env_def)
  ultimately show ?thesis
    using deep_search_returns [OF sample_env_sound sample_budget] sample_env_ranked
    unfolding sample_deep_start_def all_ranked_def by blast
qed

lemma deep_sample_run:
  "case run_deep_search sample_env default_deep_budget sample_deep_start of Inl x \<Rightarrow> False
     | Inr s \<Rightarrow> ds_termination_reason s = Some T_Answer_Ready"
  by code_simp

text \<open>
  C21: The deep search stays in its budget, whatever its surroundings do: it takes at most the decision
  rounds and the tool calls of the budget, runs no tool action twice (the approved action keys are
  distinct and count the tool calls), falls back from an empty navigation at most once, and keeps at
  most 8 navigation documents, 6 open questions and 6 resolved questions.
\<close>

theorem deep_search_stays_in_budget:
  assumes "mk_deep_budget rnd b = Inr b"
    and "run_deep_search E b (initial_deep_state rnd b i q f t) = Inr s"
  shows "0 \<le> ds_decision_rounds s \<and> ds_decision_rounds s \<le> db_max_decision_rounds b \<and>
    ds_tool_calls s = int (length (ds_repeated_action_keys s)) \<and> distinct (ds_repeated_action_keys s) \<and>
    ds_tool_calls s \<le> db_max_tool_calls b \<and>
    length (filter (\<lambda>e. case e of Fallback_Event _ _ \<Rightarrow> True | _ \<Rightarrow> False) (ds_events s)) \<le> 1 \<and>
    length (ds_navigation_documents s) \<le> 8 \<and> length (ds_open_questions s) \<le> 6 \<and>
    length (ds_resolved_questions s) \<le> 6"
proof -
  have "at_node Decide_Action (initial_deep_state rnd b i q f t)" by (simp add: initial_deep_state_def)
  from run_within [OF assms(2) [unfolded run_deep_search_def] initial_within [OF assms(1)] this]
  show ?thesis by (simp add: deep_within_def fallbacks_def)
qed

lemma sample_run_ends:
  "\<exists>s. run_deep_search sample_env default_deep_budget sample_deep_start = Inr s \<and>
     ds_termination_reason s = Some T_Answer_Ready"
  using deep_sample_run by (auto split: sum.splits)

lemma deep_search_stays_in_budget_witness:
  "\<exists>s. run_deep_search sample_env default_deep_budget sample_deep_start = Inr s \<and>
     ds_decision_rounds s \<le> 6 \<and> distinct (ds_repeated_action_keys s)"
proof -
  from sample_run_ends obtain s where s: "run_deep_search sample_env default_deep_budget sample_deep_start = Inr s"
    by blast
  from deep_search_stays_in_budget [OF sample_budget s [unfolded sample_deep_start_def]] s
  show ?thesis by (auto simp: default_deep_budget_def)
qed

text \<open>
  C37: The evidence of the deep search comes from its transcript tools. Every collected span is, apart
  from its provenance and score, a span that the transcript search or the window tool returned, never
  text of a navigation document or of the agent. A question counts as resolved only with citations of
  collected evidence, and the run reports an answer as ready only when it has evidence.
\<close>

theorem deep_evidence_comes_from_tools:
  assumes "mk_deep_budget rnd b = Inr b"
    and "run_deep_search E b (initial_deep_state rnd b i q f t) = Inr s"
  shows "(\<forall>x \<in> set (ds_evidence_spans s). \<exists>y \<in> tool_spans E. content x = content y) \<and>
    (\<forall>g \<in> set (ds_resolved_questions s). set (sg_citation_ids g) \<subseteq> sp_citation_id ` set (ds_evidence_spans s)) \<and>
    (ds_termination_reason s = Some T_Answer_Ready \<longrightarrow> ds_evidence_spans s \<noteq> [])"
proof -
  have start: "at_node Decide_Action (initial_deep_state rnd b i q f t)" by (simp add: initial_deep_state_def)
  note run = assms(2) [unfolded run_deep_search_def]
  have "sourced E (initial_deep_state rnd b i q f t)" by (simp add: sourced_def initial_deep_state_def)
  from run_sourced [OF run this] run_within [OF run initial_within [OF assms(1)] start]
  show ?thesis by (simp add: sourced_def deep_within_def evidence_ids_def)
qed

lemma deep_evidence_comes_from_tools_witness:
  "\<exists>s. run_deep_search sample_env default_deep_budget sample_deep_start = Inr s \<and> ds_evidence_spans s \<noteq> [] \<and>
     (\<forall>x \<in> set (ds_evidence_spans s). \<exists>y \<in> tool_spans sample_env. content x = content y)"
proof -
  from sample_run_ends obtain s where s: "run_deep_search sample_env default_deep_budget sample_deep_start = Inr s"
      "ds_termination_reason s = Some T_Answer_Ready" by blast
  from deep_evidence_comes_from_tools [OF sample_budget s(1) [unfolded sample_deep_start_def]] s
  show ?thesis by auto
qed

end
