(* ===== verification/Ask_Trust.thy ===== *)
theory Ask_Trust
  imports Ask_Context
begin

text \<open>
  The gate every answer passes before it is published, and the review after it, src/shiliu/ask/trust.py.
  The messages the code writes in Chinese are outside the character set of the model: \<open>notice\<close> names
  them with their numbers and \<open>say\<close> gives their texts. What \<open>validate_current\<close> decides is the
  predicate \<open>current\<close>. An event sink is told the number of events before; it may raise.
\<close>

section \<open>Notices and events\<close>

datatype notice =
    N_Hidden_Blocks nat | N_All_Hidden | N_No_Evidence | N_Retrieval_Failed | N_Need_Input | N_Stale_Citations
  | N_Over_Budget | N_Deadline | N_Model_Failed | N_Not_Repaired | N_Provider_Fault | N_Not_Found | N_Truncated
  | N_Stop termination_reason | N_Open_Aspects nat | N_Conflicts nat
  | N_Review_Open nat | N_Review_Conflicts nat | N_Review_Source

datatype block_outcome = Block_Allow | Block_Downgrade | Block_Remove

record trust_disposition =
  td_claim_id :: string
  td_answer_block_id :: string
  td_outcome :: block_outcome
  td_accepted_reference_ids :: "string list"
  td_rejected_reference_ids :: "string list"
  td_reason_codes :: "string list"
  td_support_class :: string

datatype overall_outcome = Overall_Allow | Overall_Partial | Overall_Insufficient

datatype verifier_state = V_Not_Needed | V_Disabled | V_Committed | V_Failed | V_Unknown

record trust_summary =
  ts_overall_outcome :: overall_outcome
  ts_semantic_passes :: int
  ts_verifier_logical_calls :: int
  ts_verifier_http_attempts :: int
  ts_verifier_state :: verifier_state
  ts_input_hash :: string
  ts_answer_snapshot_hash :: string
  ts_dispositions :: "trust_disposition list"
  ts_reason_codes :: "string list"

text \<open>What a stream of provisional blocks measures; \<open>sm_ended\<close> holds the two entries \<open>finish\<close> adds.\<close>

record stream_metrics =
  sm_started_at_ms :: rat
  sm_first_block_ms :: "rat option"
  sm_delivered_blocks :: nat
  sm_resets :: nat
  sm_delivery_error :: bool
  sm_ended :: "(rat \<times> rat) option"

text \<open>The events of an answer, with the parts of their payload; \<open>generation\<close> last in those of a stream.\<close>

datatype answer_event =
    Trust_Started string nat
  | Trust_Passed string answer_status nat "string list" trust_summary
  | Trust_Failed string execution_outcome trust_summary
  | Evidence_Preview "citation list"
  | Generation_Started stream_metrics nat
  | Stream_Reset nat
  | Answer_Framing "string option" "string option" nat
  | Answer_Part "string option" "string option" "nat option" answer_block "citation list" rat nat
  | Generation_Finished stream_metrics nat

type_synonym event_sink = "nat \<Rightarrow> answer_event \<Rightarrow> unit result"

text \<open>The events a sink was given, each with whether it took it.\<close>

type_synonym event_log = "(answer_event \<times> bool) list"

definition emit :: "event_sink option \<Rightarrow> event_log \<Rightarrow> answer_event \<Rightarrow> event_log result" where
  "emit sink seen e =
     (case sink of
        None \<Rightarrow> Inr seen
      | Some f \<Rightarrow> ebind (f (length seen) e) (\<lambda>u. Inr (seen @ [(e, True)])))"

section \<open>The answer as JSON\<close>

fun source_type_text :: "citation_source_type \<Rightarrow> string" where
  "source_type_text Source_Human = ''human''"
| "source_type_text Source_Ai = ''ai''"
| "source_type_text Source_Asr = ''asr''"
| "source_type_text Source_Unknown = ''unknown''"

fun status_text :: "answer_status \<Rightarrow> string" where
  "status_text Status_Complete = ''complete''"
| "status_text Status_Partial = ''partial''"
| "status_text Status_Insufficient = ''insufficient''"

fun block_outcome_text :: "block_outcome \<Rightarrow> string" where
  "block_outcome_text Block_Allow = ''allow''"
| "block_outcome_text Block_Downgrade = ''downgrade''"
| "block_outcome_text Block_Remove = ''remove''"

definition dump_citation :: "citation \<Rightarrow> jvalue" where
  "dump_citation c = VDict
     [(''citation_id'', VStr (ci_citation_id c)), (''citation_identity_version'', VStr (ci_citation_identity_version c)),
      (''video_id'', VInt (ci_video_id c)), (''bvid'', VStr (ci_bvid c)), (''title'', VStr (ci_title c)),
      (''source_type'', VStr (source_type_text (ci_source_type c))), (''source_language'', VStr (ci_source_language c)),
      (''source_artifact_id'', VStr (ci_source_artifact_id c)), (''source_version'', VStr (ci_source_version c)),
      (''timeline_run_id'', VStr (ci_timeline_run_id c)), (''segment_ids'', vstrs (ci_segment_ids c)),
      (''start_time'', VFloat (ci_start_time c)), (''end_time'', VFloat (ci_end_time c)),
      (''quote_text'', VStr (ci_quote_text c)), (''jump_url'', VStr (ci_jump_url c))]"

definition dump_block :: "string \<Rightarrow> string list \<Rightarrow> jvalue" where
  "dump_block body ids = VDict [(''text'', VStr body), (''citation_ids'', vstrs ids)]"

definition dump_disposition :: "trust_disposition \<Rightarrow> jvalue" where
  "dump_disposition d = VDict
     [(''claim_id'', VStr (td_claim_id d)), (''answer_block_id'', VStr (td_answer_block_id d)),
      (''outcome'', VStr (block_outcome_text (td_outcome d))),
      (''accepted_reference_ids'', vstrs (td_accepted_reference_ids d)),
      (''rejected_reference_ids'', vstrs (td_rejected_reference_ids d)),
      (''reason_codes'', vstrs (td_reason_codes d)), (''support_class'', VStr (td_support_class d))]"

definition optional_text :: "string option \<Rightarrow> jvalue" where
  "optional_text v = (case v of None \<Rightarrow> VNull | Some s \<Rightarrow> VStr s)"

section \<open>The gate\<close>

text \<open>The arguments both passes of the finalizer share.\<close>

record trust_kwargs =
  tk_run_id :: string
  tk_citations :: "citation list"
  tk_spans :: "evidence_span list"
  tk_status :: answer_status
  tk_limitations :: "string list"
  tk_termination_reason :: termination_reason
  tk_intro :: "string option"
  tk_outro :: "string option"

record trusted_answer =
  ta_status :: answer_status
  ta_execution_outcome :: execution_outcome
  ta_termination_reason :: termination_reason
  ta_answer_blocks :: "answer_block list"
  ta_citations :: "citation list"
  ta_limitations :: "string list"
  ta_summary :: trust_summary

definition answer_snapshot :: "trust_kwargs \<Rightarrow> draft_block list \<Rightarrow> jvalue" where
  "answer_snapshot k blocks = VDict
     ([(''blocks'', VList (map (\<lambda>b. dump_block (db_text b) (db_citation_ids b)) blocks)),
       (''citations'', VList (map dump_citation (tk_citations k))),
       (''status'', VStr (status_text (tk_status k))), (''limitations'', vstrs (tk_limitations k))] @
      (if tk_intro k \<noteq> None \<or> tk_outro k \<noteq> None
       then [(''intro'', optional_text (tk_intro k)), (''outro'', optional_text (tk_outro k))] else []))"

definition reference_reason ::
  "(evidence_span \<Rightarrow> bool) \<Rightarrow> (string \<times> evidence_span) list \<Rightarrow> (string \<times> citation) list \<Rightarrow> string \<Rightarrow> string option"
where
  "reference_reason current span_by_id citation_by_id r =
     (case map_of span_by_id r of
        None \<Rightarrow> Some ''citation_not_allowed''
      | Some sp \<Rightarrow>
          if r = [] then Some ''citation_not_allowed''
          else if map_of citation_by_id r = None then Some ''citation_unmapped''
          else if \<not> current sp then Some ''citation_not_current''
          else None)"

definition block_reasons :: "(string \<Rightarrow> string option) \<Rightarrow> string list \<Rightarrow> string list" where
  "block_reasons reason refs =
     fromkeys ((if refs = [] then [''citation_missing''] else []) @ List.map_filter reason refs)"

definition claim_id_of :: "platform \<Rightarrow> runtime \<Rightarrow> string \<Rightarrow> string \<Rightarrow> nat \<Rightarrow> string \<Rightarrow> string" where
  "claim_id_of P R run_id snapshot_hash index body =
     ''claim_'' @ take 32 (drop 7 (value_identity P R
       (VList [VStr run_id, VStr snapshot_hash, VInt (int index), VStr body])))"

text \<open>One pass of the loop over the blocks: the surviving block, when there is one, and its disposition.\<close>

definition review_block ::
  "platform \<Rightarrow> runtime \<Rightarrow> string \<Rightarrow> string \<Rightarrow> (string \<Rightarrow> string option) \<Rightarrow> nat \<Rightarrow> draft_block
    \<Rightarrow> (answer_block option \<times> trust_disposition) result"
where
  "review_block P R run_id snapshot_hash reason index b =
     (let refs = fromkeys (db_citation_ids b); reasons = block_reasons reason refs;
          claim_id = claim_id_of P R run_id snapshot_hash index (db_text b);
          block_id = ''answer_block_'' @ int_text (int index + 1)
      in if reasons \<noteq> []
         then Inr (None, \<lparr>td_claim_id = claim_id, td_answer_block_id = block_id, td_outcome = Block_Remove,
                td_accepted_reference_ids = [],
                td_rejected_reference_ids = fromkeys (filter (\<lambda>r. reason r \<noteq> None) refs),
                td_reason_codes = reasons, td_support_class = ''unobserved''\<rparr>)
         else ebind (mk_answer_block (db_text b) refs) (\<lambda>strict.
           Inr (Some strict, \<lparr>td_claim_id = claim_id, td_answer_block_id = block_id, td_outcome = Block_Allow,
                td_accepted_reference_ids = refs, td_rejected_reference_ids = [], td_reason_codes = [],
                td_support_class = ''unobserved''\<rparr>)))"

fun review_blocks ::
  "platform \<Rightarrow> runtime \<Rightarrow> string \<Rightarrow> string \<Rightarrow> (string \<Rightarrow> string option) \<Rightarrow> nat \<Rightarrow> draft_block list
    \<Rightarrow> (answer_block list \<times> trust_disposition list) result"
where
  "review_blocks P R run_id snapshot_hash reason index [] = Inr ([], [])"
| "review_blocks P R run_id snapshot_hash reason index (b # bs) =
     ebind (review_block P R run_id snapshot_hash reason index b) (\<lambda>(maybe, d).
     ebind (review_blocks P R run_id snapshot_hash reason (index + 1) bs) (\<lambda>(blocks, ds).
       Inr ((case maybe of None \<Rightarrow> blocks | Some strict \<Rightarrow> strict # blocks), d # ds)))"

definition failed_verifier :: "verifier_state \<Rightarrow> execution_outcome \<times> termination_reason" where
  "failed_verifier v =
     (case v of V_Unknown \<Rightarrow> (O_Claim_Verifier_Unknown, T_Claim_Verifier_Unknown)
      | V_Failed \<Rightarrow> (O_Claim_Verifier_Failed, T_Claim_Verifier_Failed)
      | _ \<Rightarrow> (O_Claim_Support_Insufficient, T_Claim_Support_Insufficient))"

definition trust_insufficient ::
  "(notice \<Rightarrow> string) \<Rightarrow> string \<Rightarrow> string list \<Rightarrow> verifier_state \<Rightarrow> string list \<Rightarrow> trust_disposition list
    \<Rightarrow> string \<Rightarrow> event_sink option \<Rightarrow> event_log \<Rightarrow> (trusted_answer \<times> event_log) result"
where
  "trust_insufficient say snapshot_hash limitations verifier reason_codes dispositions input_hash sink seen =
     (let summary = \<lparr>ts_overall_outcome = Overall_Insufficient, ts_semantic_passes = 0,
            ts_verifier_logical_calls = 0, ts_verifier_http_attempts = 0, ts_verifier_state = verifier,
            ts_input_hash = input_hash, ts_answer_snapshot_hash = snapshot_hash, ts_dispositions = dispositions,
            ts_reason_codes = fromkeys reason_codes\<rparr>;
          (failed, termination) = failed_verifier verifier
      in ebind (emit sink seen (Trust_Failed snapshot_hash failed summary)) (\<lambda>seen1.
           Inr (\<lparr>ta_status = Status_Insufficient, ta_execution_outcome = failed, ta_termination_reason = termination,
                 ta_answer_blocks = [], ta_citations = [],
                 ta_limitations = fromkeys (limitations @ [say N_All_Hidden]), ta_summary = summary\<rparr>, seen1)))"

definition cited_ids :: "answer_block list \<Rightarrow> string list" where
  "cited_ids blocks = concat (map ab_citation_ids blocks)"

definition apply_answer_trust ::
  "platform \<Rightarrow> runtime \<Rightarrow> (notice \<Rightarrow> string) \<Rightarrow> trust_kwargs \<Rightarrow> draft_block list \<Rightarrow> (evidence_span \<Rightarrow> bool)
    \<Rightarrow> event_sink option \<Rightarrow> event_log \<Rightarrow> (trusted_answer \<times> event_log) result"
where
  "apply_answer_trust P R say k blocks current sink seen =
     (let snapshot_hash = value_identity P R (answer_snapshot k blocks);
          span_by_id = dict_of sp_citation_id (tk_spans k);
          citation_by_id = dict_of ci_citation_id (tk_citations k)
      in ebind (emit sink seen (Trust_Started snapshot_hash (length blocks))) (\<lambda>seen1.
         ebind (review_blocks P R (tk_run_id k) snapshot_hash (reference_reason current span_by_id citation_by_id)
                  0 blocks) (\<lambda>(surviving, dispositions).
         let reason_codes = fromkeys (concat (map td_reason_codes dispositions));
             input_hash = value_identity P R (VDict
               [(''answer_snapshot_hash'', VStr snapshot_hash), (''allowlist'', vstrs (map fst span_by_id)),
                (''dispositions'', VList (map dump_disposition dispositions))])
         in if surviving = []
            then trust_insufficient say snapshot_hash (tk_limitations k) V_Not_Needed
                   (if reason_codes = [] then [''claim_authority_missing''] else reason_codes) dispositions
                   input_hash sink seen1
            else
              let citations = map snd (filter (\<lambda>(i, c). i \<in> set (cited_ids surviving)) citation_by_id);
                  hidden = length blocks - length surviving;
                  partial = hidden \<noteq> 0 \<or> tk_status k = Status_Partial;
                  status = (if partial then Status_Partial else tk_status k);
                  summary = \<lparr>ts_overall_outcome = (if partial then Overall_Partial else Overall_Allow),
                    ts_semantic_passes = 0, ts_verifier_logical_calls = 0, ts_verifier_http_attempts = 0,
                    ts_verifier_state = V_Not_Needed, ts_input_hash = input_hash,
                    ts_answer_snapshot_hash = snapshot_hash, ts_dispositions = dispositions,
                    ts_reason_codes = reason_codes\<rparr>
              in ebind (emit sink seen1 (Trust_Passed snapshot_hash status (length surviving)
                          (map ci_citation_id citations) summary)) (\<lambda>seen2.
                   Inr (\<lparr>ta_status = status, ta_execution_outcome = O_Answer_Generated,
                         ta_termination_reason = tk_termination_reason k, ta_answer_blocks = surviving,
                         ta_citations = citations,
                         ta_limitations = fromkeys (tk_limitations k @
                           (if hidden = 0 then [] else [say (N_Hidden_Blocks hidden)])),
                         ta_summary = summary\<rparr>, seen2)))))"

section \<open>The review after publication\<close>

text \<open>Iterating a value: a list, the characters of a string, the keys of a dictionary.\<close>

fun iter_value :: "jvalue \<Rightarrow> jvalue list result" where
  "iter_value (VList vs) = Inr vs"
| "iter_value (VStr s) = Inr (map (\<lambda>c. VStr [c]) s)"
| "iter_value (VDict kvs) = Inr (map (\<lambda>(k, v). VStr k) kvs)"
| "iter_value v = Inl Type_Error"

text \<open>\<open>tuple(projection.get(key) or ())\<close>\<close>

definition projected_list :: "jdict \<Rightarrow> string \<Rightarrow> jvalue list result" where
  "projected_list projection key =
     (let v = dict_get projection key in if truthy v then iter_value v else Inr [])"

definition confirmed_conflict :: "runtime \<Rightarrow> jvalue \<Rightarrow> bool" where
  "confirmed_conflict R v =
     (case dict_instance v of None \<Rightarrow> False | Some d \<Rightarrow> str_or_empty R (dict_get d ''status'') = ''confirmed'')"

record published_answer =
  pa_answer_blocks :: "answer_block list"
  pa_citations :: "citation list"
  pa_limitations :: "string list"
  pa_status :: answer_status

definition published_hash :: "platform \<Rightarrow> runtime \<Rightarrow> published_answer \<Rightarrow> int \<Rightarrow> string" where
  "published_hash P R p version = value_identity P R (VDict
     [(''answer_blocks'', VList (map (\<lambda>b. dump_block (ab_text b) (ab_citation_ids b)) (pa_answer_blocks p))),
      (''citations'', VList (map dump_citation (pa_citations p))), (''limitations'', vstrs (pa_limitations p)),
      (''status'', VStr (status_text (pa_status p))), (''answer_version'', VInt version)])"

record soft_review =
  sr_answer :: published_answer
  sr_execution_outcome :: execution_outcome
  sr_termination_reason :: "termination_reason option"
  sr_answer_version :: int
  sr_previous_answer_snapshot_hash :: string
  sr_answer_snapshot_hash :: string
  sr_changed :: bool
  sr_reasons :: "string list"
  sr_open_aspects :: "string list"
  sr_blocking_conflict_count :: nat
  sr_contribution_count :: nat

text \<open>The answer that is left, with the limitations the review adds.\<close>

definition reviewed_answer ::
  "(notice \<Rightarrow> string) \<Rightarrow> published_answer \<Rightarrow> string list \<Rightarrow> nat \<Rightarrow> nat \<Rightarrow> published_answer"
where
  "reviewed_answer say p invalid open_count conflict_count =
     (let limitations = fromkeys (pa_limitations p @
            (if open_count = 0 then [] else [say (N_Review_Open open_count)]) @
            (if conflict_count = 0 then [] else [say (N_Review_Conflicts conflict_count)]) @
            (if invalid = [] then [] else [say N_Review_Source]));
          blocks = filter (\<lambda>b. \<not> list_ex (\<lambda>i. i \<in> set invalid) (ab_citation_ids b)) (pa_answer_blocks p);
          removed = length (pa_answer_blocks p) - length blocks;
          changed = limitations \<noteq> pa_limitations p \<or> removed > 0
      in \<lparr>pa_answer_blocks = blocks,
          pa_citations = filter (\<lambda>c. ci_citation_id c \<in> set (cited_ids blocks)) (pa_citations p),
          pa_limitations = limitations,
          pa_status = (if blocks = [] then Status_Insufficient
            else if removed \<noteq> 0 \<or> changed \<and> pa_status p = Status_Complete then Status_Partial
            else pa_status p)\<rparr>)"

definition provider_free_soft_review ::
  "platform \<Rightarrow> runtime \<Rightarrow> (notice \<Rightarrow> string) \<Rightarrow> published_answer \<Rightarrow> jdict \<Rightarrow> (string \<Rightarrow> bool) \<Rightarrow> soft_review result"
where
  "provider_free_soft_review P R say p projection valid =
     ebind (projected_list projection ''open_aspects'') (\<lambda>aspects.
     ebind (projected_list projection ''conflicts'') (\<lambda>conflicts.
     ebind (projected_list projection ''contributions'') (\<lambda>contributions.
       let blocking = filter (confirmed_conflict R) conflicts;
           invalid = filter (\<lambda>i. \<not> valid i) (map ci_citation_id (pa_citations p));
           q = reviewed_answer say p invalid (length aspects) (length blocking);
           changed = pa_limitations q \<noteq> pa_limitations p \<or> length (pa_answer_blocks q) < length (pa_answer_blocks p);
           version = (if changed then 2 else 1)
       in Inr \<lparr>sr_answer = q,
            sr_execution_outcome = (if pa_answer_blocks q = [] then O_Evidence_Unavailable else O_Answer_Generated),
            sr_termination_reason = (if pa_answer_blocks q = [] then Some T_Evidence_Unavailable else None),
            sr_answer_version = version,
            sr_previous_answer_snapshot_hash = published_hash P R p 1,
            sr_answer_snapshot_hash = published_hash P R q version, sr_changed = changed,
            sr_reasons = fromkeys (map (\<lambda>i. ''soft_review_source_changed'') invalid @
              (if aspects = [] then [] else [''soft_review_open_aspects_remain'']) @
              (if blocking = [] then [] else [''soft_review_blocking_conflict''])),
            sr_open_aspects = map (rt_str R) aspects,
            sr_blocking_conflict_count = length blocking, sr_contribution_count = length contributions\<rparr>)))"

end
