(* ===== verification/Ask_Answer.thy ===== *)
theory Ask_Answer
  imports Ask_Trust
begin

text \<open>
  Generating the answer, src/shiliu/ask/answer.py: a call of the model, a deterministic validation of
  its draft, and at most one repair. The prompt texts with pydantic's schema are fields of
  \<open>answer_env\<close>, as are the model providers and the clock; the readings of the clock are named by the
  place that takes them, so that each may be anything.
\<close>

section \<open>Providers\<close>

text \<open>
  The exceptions this code inspects: their class, text and attributes. \<open>completion_metadata\<close> is read
  when it is a dictionary.
\<close>

record failure =
  fl_type :: string
  fl_text :: string
  fl_code :: "jvalue option"
  fl_completion_metadata :: "jdict option"
  fl_timeout :: bool

text \<open>
  What a provider returns: \<open>ar_output\<close> is \<open>None\<close> for a value that has not the shape of a draft.
\<close>

record answer_response =
  ar_output :: "grounded_draft option"
  ar_usage :: jvalue
  ar_latency_ms :: jvalue
  ar_finish_reason :: jvalue
  ar_retry_count :: "jvalue option"

datatype call_kind = Call_Initial | Call_Validation_Repair | Call_Generation_Recovery

fun call_kind_text :: "call_kind \<Rightarrow> string" where
  "call_kind_text Call_Initial = ''initial''"
| "call_kind_text Call_Validation_Repair = ''validation_repair''"
| "call_kind_text Call_Generation_Recovery = ''generation_recovery''"

type_synonym message = "string \<times> string"

record answer_request =
  aq_messages :: "message list"
  aq_max_tokens :: int
  aq_timeout_seconds :: "rat option"

text \<open>What a provider tells the callbacks \<open>on_content\<close> and \<open>on_reset\<close> before it returns or raises.\<close>

datatype stream_input = Stream_Content string | Stream_Restart

text \<open>The calls an answer makes; each is made once at most.\<close>

datatype answer_step = Step_First | Step_Second | Step_Local

record answer_provider =
  ap_model :: "string option"
  ap_thinking_enabled :: "bool option"
  ap_reasoning_effort :: "string option"
  ap_supports_answer_streaming :: bool
  ap_generate :: "answer_step \<Rightarrow> answer_request \<Rightarrow> stream_input list \<times> (failure + answer_response)"

datatype reading =
    R_Timeout answer_step | R_Deadline answer_step | R_Delivery_Start | R_Part nat | R_Delivery_End
  | R_Start_Answer | R_May_Repair | R_Repair_Due | R_Repair_Started | R_Patch_Cap | R_Patch_Deadline | R_Repair_Ended

text \<open>A pass of the gate: of the n-th provisional block, before and after a local repair.\<close>

datatype trust_pass = Pass_Part nat | Pass_Preflight | Pass_Final

text \<open>
  \<open>an_wall_clock\<close> is \<open>time.time()\<close> at the end and at the start of a stream. \<open>an_raw_decode\<close> is
  \<open>raw_decode\<close> of Python's JSON decoder on the characters that are left: the value and the number of
  characters after the first that it takes; \<open>None\<close> is a JSONDecodeError. \<open>an_current\<close> says whether
  \<open>validate_current\<close> accepts a span.
\<close>

record answer_env =
  an_platform :: platform
  an_runtime :: runtime
  an_rnd :: "rat \<Rightarrow> rat"
  an_say :: "notice \<Rightarrow> string"
  an_casefold :: "string \<Rightarrow> string"
  an_clock :: "reading \<Rightarrow> rat"
  an_wall_clock :: "bool \<Rightarrow> rat"
  an_raw_decode :: "string \<Rightarrow> (jvalue \<times> nat) option"
  an_current :: "trust_pass \<Rightarrow> evidence_span \<Rightarrow> bool"
  an_factory :: "answer_step \<Rightarrow> string \<Rightarrow> failure + answer_provider"
  an_instructions :: string
  an_repair_instructions :: string
  an_local_repair_instructions :: string
  an_fast_request_preflight :: bool
  an_invalid :: failure
  an_not_an_integer :: failure

section \<open>Errors\<close>

definition failure_text :: "failure \<Rightarrow> string" where
  "failure_text x = take 500 (fl_type x @ '': '' @ fl_text x)"

text \<open>\<open>_error_code(exc, fallback=\<dots>)\<close>; an attribute that is \<open>None\<close> counts as absent.\<close>

definition failure_code :: "runtime \<Rightarrow> failure \<Rightarrow> string option \<Rightarrow> string" where
  "failure_code R x fallback =
     (case fl_code x of
        None \<Rightarrow> (case fallback of None \<Rightarrow> fl_type x | Some t \<Rightarrow> t)
      | Some v \<Rightarrow> if v = VNull then (case fallback of None \<Rightarrow> fl_type x | Some t \<Rightarrow> t) else rt_str R v)"

definition plain_failure :: "string \<Rightarrow> string \<Rightarrow> failure" where
  "plain_failure cls body =
     \<lparr>fl_type = cls, fl_text = body, fl_code = None, fl_completion_metadata = None, fl_timeout = False\<rparr>"

definition deadline_failure :: failure where
  "deadline_failure = (plain_failure ''TimeoutError'' ''grounded answer deadline exhausted'')\<lparr>fl_timeout := True\<rparr>"

definition context_too_large :: failure where
  "context_too_large =
     (plain_failure ''PipelineError'' ''Fast request exceeds the 1,000,000 token window byte bound'')
       \<lparr>fl_code := Some (VStr ''context_too_large'')\<rparr>"

definition remaining_time :: "answer_env \<Rightarrow> rat option \<Rightarrow> reading \<Rightarrow> failure + rat option" where
  "remaining_time A deadline r =
     (case deadline of
        None \<Rightarrow> Inr None
      | Some d \<Rightarrow> let left = an_rnd A (d - an_clock A r) in if left \<le> 0 then Inl deadline_failure else Inr (Some left))"

definition deadline_reached :: "answer_env \<Rightarrow> rat option \<Rightarrow> reading \<Rightarrow> bool" where
  "deadline_reached A deadline r = (case deadline of None \<Rightarrow> False | Some d \<Rightarrow> an_clock A r \<ge> d)"

section \<open>Messages\<close>

text \<open>\<open>json.dumps(value, ensure_ascii=False, separators=(",", ":"))\<close>, members in their order.\<close>

fun compact_text :: "runtime \<Rightarrow> jvalue \<Rightarrow> string" where
  "compact_text R VNull = ''null''"
| "compact_text R (VBool b) = (if b then ''true'' else ''false'')"
| "compact_text R (VInt i) = int_text i"
| "compact_text R (VFloat x) = rt_float_repr R x"
| "compact_text R (VStr s) = string_text s"
| "compact_text R (VList vs) = array_text (map (compact_text R) vs)"
| "compact_text R (VDict kvs) = members_text (map (\<lambda>(k, v). (k, compact_text R v)) kvs)"

definition dump_issue :: "validation_issue \<Rightarrow> jvalue" where
  "dump_issue i = VDict [(''code'', VStr (vi_code i)), (''path'', VStr (vi_path i)), (''message'', VStr (vi_message i))]"

definition newline :: string where
  "newline = [char_of (10 :: nat)]"

definition answer_messages :: "answer_env \<Rightarrow> string \<Rightarrow> context_result \<Rightarrow> message list" where
  "answer_messages A query cx =
     [(''system'', an_instructions A),
      (''user'', ''Question: '' @ query @ newline @ ''Grounded context: '' @ cx_model_context cx)]"

definition repair_messages :: "answer_env \<Rightarrow> string \<Rightarrow> context_result \<Rightarrow> validation_issue list \<Rightarrow> message list" where
  "repair_messages A query cx issues =
     [(''system'', an_repair_instructions A),
      (''user'', ''Question: '' @ query @ newline @ ''Grounded context: '' @ cx_model_context cx @ newline @
         ''Deterministic validation errors: '' @ compact_text (an_runtime A) (VList (map dump_issue issues)))]"

text \<open>The request of a local repair: the failed blocks follow in \<open>json.dumps\<close>'s default form.\<close>

definition local_repair_messages ::
  "answer_env \<Rightarrow> string \<Rightarrow> context_result \<Rightarrow> validation_issue list \<Rightarrow> draft_block list \<Rightarrow> message list"
where
  "local_repair_messages A query cx issues failed =
     (case repair_messages A query cx issues of
        [(r0, t0), (r1, t1)] \<Rightarrow>
          if failed = [] then [(r0, t0), (r1, t1)]
          else [(r0, t0 @ an_local_repair_instructions A),
                (r1, t1 @ newline @ ''Failed original blocks: '' @
                   rt_json_dumps (an_runtime A) (VList (map (\<lambda>b. dump_block (db_text b) (db_citation_ids b)) failed)))]
      | ms \<Rightarrow> ms)"

definition request_body :: "answer_provider \<Rightarrow> answer_request \<Rightarrow> bool \<Rightarrow> jvalue" where
  "request_body p q streaming = VDict
     ([(''model'', VStr (case ap_model p of None \<Rightarrow> ''deepseek-v4-flash'' | Some m \<Rightarrow> m)),
       (''messages'', VList (map (\<lambda>(role, body). VDict [(''role'', VStr role), (''content'', VStr body)]) (aq_messages q))),
       (''max_tokens'', VInt (aq_max_tokens q)), (''response_format'', VDict [(''type'', VStr ''json_object'')])] @
      (case ap_thinking_enabled p of None \<Rightarrow> []
       | Some b \<Rightarrow> [(''thinking'', VDict [(''type'', VStr (if b then ''enabled'' else ''disabled''))])]) @
      (case ap_reasoning_effort p of None \<Rightarrow> []
       | Some e \<Rightarrow> if ap_thinking_enabled p \<noteq> Some False \<and> e \<noteq> [] then [(''reasoning_effort'', VStr e)] else []) @
      (if ap_thinking_enabled p = Some False then [(''temperature'', VInt 0)] else []) @
      (if streaming then [(''stream'', VBool True), (''stream_options'', VDict [(''include_usage'', VBool True)])]
       else []))"

definition fast_request_fits :: "runtime \<Rightarrow> answer_provider \<Rightarrow> answer_request \<Rightarrow> bool \<Rightarrow> bool" where
  "fast_request_fits R p q streaming \<longleftrightarrow>
     int (length (utf8_encode (compact_text R (request_body p q streaming)))) + 4096 + aq_max_tokens q \<le> 1000000"

section \<open>One call of the model\<close>

record call_result =
  cr_draft :: "grounded_draft option"
  cr_error :: "string option"
  cr_error_code :: "string option"
  cr_repairable :: bool
  cr_transport_retry_count :: int

definition ROLE_RECOVERY_ERROR_CODES :: "string list" where
  "ROLE_RECOVERY_ERROR_CODES = [''output_budget_exhausted'', ''empty_model_output'']"

text \<open>\<open>int(d.get("retry_count", 0))\<close>\<close>

definition retry_count :: "answer_env \<Rightarrow> jvalue option \<Rightarrow> failure + int" where
  "retry_count A v =
     (case v of None \<Rightarrow> Inr 0
      | Some x \<Rightarrow> (case rt_int (an_runtime A) x of None \<Rightarrow> Inl (an_not_an_integer A) | Some i \<Rightarrow> Inr i))"

fun dedupe_blocks :: "string list \<Rightarrow> draft_block list \<Rightarrow> draft_block list \<Rightarrow> draft_block list" where
  "dedupe_blocks allowed seen [] = []"
| "dedupe_blocks allowed seen (b # bs) =
     (if db_citation_ids b = [] \<or> \<not> set (db_citation_ids b) \<subseteq> set allowed
      then b # dedupe_blocks allowed seen bs
      else if b \<in> set seen then dedupe_blocks allowed seen bs
      else b # dedupe_blocks allowed (b # seen) bs)"

definition deduplicated_draft :: "string list \<Rightarrow> grounded_draft \<Rightarrow> grounded_draft" where
  "deduplicated_draft allowed d = d\<lparr>gd_answer_blocks := dedupe_blocks allowed [] (gd_answer_blocks d)\<rparr>"

text \<open>\<open>isinstance(v, (int, float))\<close> and \<open>float(v)\<close>.\<close>

definition float_of_number :: "(rat \<Rightarrow> rat) \<Rightarrow> jvalue \<Rightarrow> rat option" where
  "float_of_number rnd v = (case v of VFloat x \<Rightarrow> Some x | _ \<Rightarrow> map_option (\<lambda>i. rnd (of_int i)) (int_instance v))"

definition response_usage :: "answer_env \<Rightarrow> answer_response \<Rightarrow> int \<Rightarrow> call_kind \<Rightarrow> jdict" where
  "response_usage A r retries kind =
     (let d0 = (case dict_instance (ar_usage r) of None \<Rightarrow> [] | Some d \<Rightarrow> d);
          d1 = (case float_of_number (an_rnd A) (ar_latency_ms r) of None \<Rightarrow> d0
                | Some x \<Rightarrow> AList.update ''latency_ms'' (VFloat x) d0);
          d2 = (if ar_finish_reason r = VNull then d1
                else AList.update ''finish_reason'' (VStr (rt_str (an_runtime A) (ar_finish_reason r))) d1)
      in AList.update ''call_kind'' (VStr (call_kind_text kind)) (AList.update ''retry_count'' (VInt retries) d2))"

definition failure_usage :: "jdict \<Rightarrow> call_kind \<Rightarrow> jdict" where
  "failure_usage metadata kind =
     (let d0 = (case dict_instance (dict_get metadata ''usage'') of None \<Rightarrow> [] | Some d \<Rightarrow> d)
      in AList.update ''call_kind'' (VStr (call_kind_text kind))
           (fold (\<lambda>key d. if dict_get metadata key = VNull then d else AList.update key (dict_get metadata key) d)
              [''finish_reason'', ''latency_ms'', ''retry_count''] d0))"

text \<open>The \<open>except\<close> of \<open>_call\<close>; converting the retry count may raise out of it.\<close>

definition failed_call :: "answer_env \<Rightarrow> failure \<Rightarrow> bool \<Rightarrow> call_kind \<Rightarrow> failure + (call_result \<times> jdict list)" where
  "failed_call A x got_response kind =
     (let code = failure_code (an_runtime A) x None;
          build = (\<lambda>retries content_received usage. Inr
            (\<lparr>cr_draft = None, cr_error = Some (failure_text x), cr_error_code = Some code,
              cr_repairable = (got_response \<or> code \<in> set ROLE_RECOVERY_ERROR_CODES \<or>
                code = ''invalid_model_output'' \<and> content_received),
              cr_transport_retry_count = retries\<rparr>, usage))
      in case fl_completion_metadata x of
           None \<Rightarrow> build 0 got_response []
         | Some metadata \<Rightarrow>
             (case retry_count A (map_of metadata ''retry_count'') of
                Inl e \<Rightarrow> Inl e
              | Inr retries \<Rightarrow>
                  build retries (truthy (dict_get metadata ''content_received'')) [failure_usage metadata kind]))"

definition received_draft :: "answer_response \<Rightarrow> grounded_draft result" where
  "received_draft r = (case ar_output r of None \<Rightarrow> Inl Validation_Error | Some raw \<Rightarrow> mk_grounded_draft raw)"

definition call_model ::
  "answer_env \<Rightarrow> answer_provider \<Rightarrow> answer_step \<Rightarrow> message list \<Rightarrow> string list \<Rightarrow> rat option \<Rightarrow> call_kind \<Rightarrow> bool
    \<Rightarrow> stream_input list \<times> (failure + (call_result \<times> jdict list))"
where
  "call_model A p step messages allowlist timeout kind callbacks =
     (let q = \<lparr>aq_messages = messages, aq_max_tokens = 8192, aq_timeout_seconds = timeout\<rparr>;
          streaming = (callbacks \<and> ap_supports_answer_streaming p)
      in if an_fast_request_preflight A \<and> \<not> fast_request_fits (an_runtime A) p q streaming
         then ([], failed_call A context_too_large False kind)
         else
           let (inputs, reply) = ap_generate p step q
           in (if streaming then inputs else [],
               case reply of
                 Inl x \<Rightarrow> failed_call A x False kind
               | Inr r \<Rightarrow>
                   (case received_draft r of
                      Inl e \<Rightarrow> failed_call A (an_invalid A) True kind
                    | Inr d \<Rightarrow>
                        (case retry_count A (ar_retry_count r) of
                           Inl x \<Rightarrow> failed_call A x True kind
                         | Inr retries \<Rightarrow> Inr
                             (\<lparr>cr_draft = Some (deduplicated_draft allowlist d), cr_error = None, cr_error_code = None,
                               cr_repairable = False, cr_transport_retry_count = retries\<rparr>,
                              [response_usage A r retries kind])))))"

section \<open>The answer\<close>

record grounded_result =
  gr_draft :: "grounded_draft option"
  gr_repair_used :: bool
  gr_usage :: "jdict list"
  gr_answer_calls :: int
  gr_repair_calls :: int
  gr_provider_call_count :: int
  gr_transport_retry_count :: int
  gr_initial_validation_errors :: "validation_issue list"
  gr_initial_provider_error :: "string option"
  gr_initial_provider_error_code :: "string option"
  gr_validation_errors :: "validation_issue list"
  gr_provider_error :: "string option"
  gr_provider_error_code :: "string option"

definition downgraded :: "grounded_draft \<Rightarrow> grounded_draft" where
  "downgraded d =
     (if gd_status d = Status_Complete \<and> list_ex (\<lambda>v. strip v \<noteq> []) (gd_limitations d)
      then d\<lparr>gd_status := Status_Partial\<rparr> else d)"

text \<open>\<open>a or b\<close> of optional texts: the empty text is false.\<close>

fun text_or :: "string option \<Rightarrow> string option \<Rightarrow> string option" where
  "text_or (Some a) b = (if a = [] then b else Some a)"
| "text_or None b = b"

definition invalid_output :: "string option \<Rightarrow> string \<Rightarrow> validation_issue" where
  "invalid_output error fallback =
     \<lparr>vi_code = ''provider_output_invalid'', vi_path = ''$'',
      vi_message = (case text_or error (Some fallback) of None \<Rightarrow> fallback | Some t \<Rightarrow> t)\<rparr>"

definition call_issues :: "answer_env \<Rightarrow> call_result \<Rightarrow> string \<Rightarrow> validation_issue list" where
  "call_issues A c fallback =
     (case cr_draft c of
        Some d \<Rightarrow> validate_grounded_answer (an_casefold A) d
      | None \<Rightarrow> [invalid_output (cr_error c) fallback])"

definition first_result :: "jdict list \<Rightarrow> call_result \<Rightarrow> grounded_draft option \<Rightarrow> grounded_result" where
  "first_result usage c draft =
     \<lparr>gr_draft = draft, gr_repair_used = False, gr_usage = usage, gr_answer_calls = 1, gr_repair_calls = 0,
      gr_provider_call_count = 1, gr_transport_retry_count = cr_transport_retry_count c,
      gr_initial_validation_errors = [], gr_initial_provider_error = cr_error c,
      gr_initial_provider_error_code = cr_error_code c, gr_validation_errors = [],
      gr_provider_error = cr_error c, gr_provider_error_code = cr_error_code c\<rparr>"

definition no_provider :: "answer_env \<Rightarrow> failure \<Rightarrow> grounded_result" where
  "no_provider A x =
     (let code = Some (failure_code (an_runtime A) x (Some ''provider_factory_error''))
      in \<lparr>gr_draft = None, gr_repair_used = False, gr_usage = [], gr_answer_calls = 1, gr_repair_calls = 0,
          gr_provider_call_count = 0, gr_transport_retry_count = 0, gr_initial_validation_errors = [],
          gr_initial_provider_error = Some (failure_text x), gr_initial_provider_error_code = code,
          gr_validation_errors = [], gr_provider_error = Some (failure_text x), gr_provider_error_code = code\<rparr>)"

definition first_deadline_result :: "jdict list \<Rightarrow> call_result \<Rightarrow> grounded_result" where
  "first_deadline_result usage c =
     \<lparr>gr_draft = None, gr_repair_used = False, gr_usage = usage, gr_answer_calls = 1, gr_repair_calls = 0,
      gr_provider_call_count = 1, gr_transport_retry_count = cr_transport_retry_count c,
      gr_initial_validation_errors = [], gr_initial_provider_error = None, gr_initial_provider_error_code = None,
      gr_validation_errors = [], gr_provider_error = Some ''grounded answer exceeded total runtime deadline'',
      gr_provider_error_code = Some ''deadline_exhausted''\<rparr>"

text \<open>A result after the first call \<open>c\<close> was not accepted because of \<open>issues\<close>.\<close>

definition repaired_result ::
  "call_result \<Rightarrow> validation_issue list \<Rightarrow> jdict list \<Rightarrow> int \<Rightarrow> int \<Rightarrow> grounded_draft option \<Rightarrow> validation_issue list
    \<Rightarrow> string option \<Rightarrow> string option \<Rightarrow> grounded_result"
where
  "repaired_result c issues usage calls retries draft errors error code =
     \<lparr>gr_draft = draft, gr_repair_used = True, gr_usage = usage, gr_answer_calls = 1, gr_repair_calls = 1,
      gr_provider_call_count = calls, gr_transport_retry_count = retries,
      gr_initial_validation_errors = issues, gr_initial_provider_error = cr_error c,
      gr_initial_provider_error_code = cr_error_code c, gr_validation_errors = errors,
      gr_provider_error = error, gr_provider_error_code = code\<rparr>"

definition repair_call ::
  "answer_env \<Rightarrow> answer_provider \<Rightarrow> string \<Rightarrow> context_result \<Rightarrow> rat option \<Rightarrow> call_kind \<Rightarrow> call_result \<Rightarrow> jdict list
    \<Rightarrow> validation_issue list \<Rightarrow> failure + grounded_result"
where
  "repair_call A p query cx deadline kind c usage issues =
     (case remaining_time A deadline (R_Timeout Step_Second) of
        Inl x \<Rightarrow> Inl x
      | Inr timeout \<Rightarrow>
          (case snd (call_model A p Step_Second (repair_messages A query cx issues) (cx_citation_allowlist cx)
                       timeout kind False) of
             Inl x \<Rightarrow> Inl x
           | Inr (r, usage') \<Rightarrow>
               let retries = cr_transport_retry_count c + cr_transport_retry_count r;
                   errors = call_issues A r ''repair output is invalid''
               in Inr (if deadline_reached A deadline (R_Deadline Step_Second)
                  then repaired_result c issues (usage @ usage') 2 retries None []
                         (Some ''grounded answer exceeded total runtime deadline'') (Some ''deadline_exhausted'')
                  else if errors = []
                  then repaired_result c issues (usage @ usage') 2 retries (map_option downgraded (cr_draft r)) [] None None
                  else repaired_result c issues (usage @ usage') 2 retries None errors
                         (text_or (cr_error r) (text_or (cr_error c) (Some ''grounded answer validation failed'')))
                         (text_or (cr_error_code r) (Some ''answer_validation_failed'')))))"

definition repair_first ::
  "answer_env \<Rightarrow> answer_provider \<Rightarrow> string \<Rightarrow> context_result \<Rightarrow> rat option \<Rightarrow> call_result \<Rightarrow> jdict list
    \<Rightarrow> validation_issue list \<Rightarrow> failure + grounded_result"
where
  "repair_first A p query cx deadline c usage issues =
     (if cr_error_code c \<in> Some ` set ROLE_RECOVERY_ERROR_CODES
      then (case an_factory A Step_Second ''grounded_answer_recovery'' of
              Inl x \<Rightarrow> Inr (repaired_result c issues usage 1 (cr_transport_retry_count c) None [] (Some (failure_text x))
                        (Some (failure_code (an_runtime A) x (Some ''provider_factory_error''))))
            | Inr recovery \<Rightarrow> repair_call A recovery query cx deadline Call_Generation_Recovery c usage issues)
      else repair_call A p query cx deadline Call_Validation_Repair c usage issues)"

definition judge_first ::
  "answer_env \<Rightarrow> answer_provider \<Rightarrow> string \<Rightarrow> context_result \<Rightarrow> rat option \<Rightarrow> bool \<Rightarrow> call_result \<Rightarrow> jdict list
    \<Rightarrow> stream_input list \<times> (failure + grounded_result)"
where
  "judge_first A p query cx deadline callbacks c usage =
     (let issues = call_issues A c ''provider output is invalid''
      in if deadline_reached A deadline (R_Deadline Step_First) then ([], Inr (first_deadline_result usage c))
         else if cr_draft c \<noteq> None \<and> issues = []
         then ([], Inr (first_result usage c (map_option downgraded (cr_draft c))))
         else if cr_draft c = None \<and> \<not> cr_repairable c then ([], Inr (first_result usage c None))
         else (if callbacks then [Stream_Restart] else [], repair_first A p query cx deadline c usage issues))"

definition answer ::
  "answer_env \<Rightarrow> string \<Rightarrow> context_result \<Rightarrow> rat option \<Rightarrow> bool \<Rightarrow> stream_input list \<times> (failure + grounded_result)"
where
  "answer A query cx deadline callbacks =
     (case an_factory A Step_First ''grounded_answer'' of
        Inl x \<Rightarrow> ([], Inr (no_provider A x))
      | Inr p \<Rightarrow>
          (case remaining_time A deadline (R_Timeout Step_First) of
             Inl x \<Rightarrow> ([], Inl x)
           | Inr timeout \<Rightarrow>
               let (inputs, called) = call_model A p Step_First (answer_messages A query cx)
                     (cx_citation_allowlist cx) timeout Call_Initial callbacks
               in (case called of
                     Inl x \<Rightarrow> (inputs, Inl x)
                   | Inr (c, usage) \<Rightarrow>
                       let (restarts, r) = judge_first A p query cx deadline callbacks c usage
                       in (inputs @ restarts, r))))"

text \<open>The repair of the citations of single blocks.\<close>

definition local_result ::
  "validation_issue list \<Rightarrow> jdict list \<Rightarrow> int \<Rightarrow> int \<Rightarrow> grounded_draft option \<Rightarrow> validation_issue list
    \<Rightarrow> string option \<Rightarrow> string option \<Rightarrow> grounded_result"
where
  "local_result issues usage calls retries draft errors error code =
     \<lparr>gr_draft = draft, gr_repair_used = True, gr_usage = usage, gr_answer_calls = 0, gr_repair_calls = 1,
      gr_provider_call_count = calls, gr_transport_retry_count = retries, gr_initial_validation_errors = issues,
      gr_initial_provider_error = None, gr_initial_provider_error_code = None, gr_validation_errors = errors,
      gr_provider_error = error, gr_provider_error_code = code\<rparr>"

definition repair ::
  "answer_env \<Rightarrow> string \<Rightarrow> context_result \<Rightarrow> validation_issue list \<Rightarrow> draft_block list \<Rightarrow> rat option
    \<Rightarrow> failure + grounded_result"
where
  "repair A query cx issues failed deadline =
     (case an_factory A Step_Local ''grounded_answer'' of
        Inl x \<Rightarrow> Inr (local_result issues [] 0 0 None [] (Some (failure_text x))
                  (Some (failure_code (an_runtime A) x (Some ''provider_factory_error''))))
      | Inr p \<Rightarrow>
          (case remaining_time A deadline (R_Timeout Step_Local) of
             Inl x \<Rightarrow> Inl x
           | Inr timeout \<Rightarrow>
               (case snd (call_model A p Step_Local (local_repair_messages A query cx issues failed)
                            (cx_citation_allowlist cx) timeout Call_Validation_Repair False) of
                  Inl x \<Rightarrow> Inl x
                | Inr (c, usage) \<Rightarrow>
                    let errors = call_issues A c ''repair output is invalid'';
                        draft = (if errors = [] then map_option downgraded (cr_draft c) else None)
                    in Inr (local_result issues usage 1 (cr_transport_retry_count c) draft errors (cr_error c)
                         (if draft = None then cr_error_code c else None)))))"

end
