(* ===== verification/Ask_Streaming.thy ===== *)
theory Ask_Streaming
  imports Ask_Answer
begin

text \<open>
  Showing the blocks of an answer while the model writes them, src/shiliu/ask/streaming.py: an
  incremental reader of the JSON text, and a delivery that checks every block before it is shown. The
  reader keeps the characters it has not consumed, \<open>buffer[position:]\<close>, and the length of the buffer.
\<close>

section \<open>The incremental reader\<close>

datatype stream_phase =
    Ph_Start | Ph_Key | Ph_Colon | Ph_Value | Ph_Block | Ph_Separator | Ph_Block_Separator | Ph_Done | Ph_Disabled

record json_stream =
  js_rest :: string
  js_length :: nat
  js_phase :: stream_phase
  js_key :: "string option"
  js_keys :: "string list"
  js_index :: nat

definition new_stream :: json_stream where
  "new_stream = \<lparr>js_rest = [], js_length = 0, js_phase = Ph_Start, js_key = None, js_keys = [], js_index = 0\<rparr>"

text \<open>The calls of \<open>receive(field, index, value)\<close> and \<open>invalid()\<close>.\<close>

datatype stream_item = Received string "nat option" jvalue | Invalid_Stream

text \<open>One pass of the loop; \<open>None\<close> ends it. An empty rest is the loop condition.\<close>

definition stream_disabled :: "json_stream \<Rightarrow> (json_stream \<times> stream_item list) option" where
  "stream_disabled p = Some (p\<lparr>js_phase := Ph_Disabled\<rparr>, [Invalid_Stream])"

definition stream_step ::
  "(string \<Rightarrow> (jvalue \<times> nat) option) \<Rightarrow> json_stream \<Rightarrow> (json_stream \<times> stream_item list) option"
where
  "stream_step decode p =
     (case js_rest p of
        [] \<Rightarrow> None
      | c # cs \<Rightarrow>
          if js_phase p = Ph_Disabled then None
          else if is_space c then Some (p\<lparr>js_rest := cs\<rparr>, [])
          else
            (case js_phase p of
               Ph_Start \<Rightarrow>
                 if c = CHR ''{'' then Some (p\<lparr>js_rest := cs, js_phase := Ph_Key\<rparr>, []) else stream_disabled p
             | Ph_Key \<Rightarrow>
                 if c = CHR ''}'' then Some (p\<lparr>js_rest := cs, js_phase := Ph_Done\<rparr>, [])
                 else (case decode (c # cs) of
                     None \<Rightarrow> None
                   | Some (VStr k, n) \<Rightarrow>
                       if k \<in> set (js_keys p) then stream_disabled p
                       else Some (p\<lparr>js_key := Some k, js_keys := k # js_keys p, js_rest := drop n cs,
                              js_phase := Ph_Colon\<rparr>, [])
                   | Some (_, n) \<Rightarrow> stream_disabled p)
             | Ph_Colon \<Rightarrow>
                 if c = CHR '':'' then Some (p\<lparr>js_rest := cs, js_phase := Ph_Value\<rparr>, []) else stream_disabled p
             | Ph_Value \<Rightarrow>
                 if js_key p = Some ''answer_blocks''
                 then (if c = CHR ''['' then Some (p\<lparr>js_rest := cs, js_phase := Ph_Block\<rparr>, []) else stream_disabled p)
                 else (case decode (c # cs) of
                     None \<Rightarrow> None
                   | Some (v, n) \<Rightarrow> Some (p\<lparr>js_rest := drop n cs, js_phase := Ph_Separator\<rparr>,
                       [Received (the (js_key p)) None v]))
             | Ph_Block \<Rightarrow>
                 if c = CHR '']''
                 then Some (p\<lparr>js_rest := cs, js_phase := Ph_Separator\<rparr>, [Received ''answer_blocks_end'' None VNull])
                 else (case decode (c # cs) of
                     None \<Rightarrow> None
                   | Some (v, n) \<Rightarrow> Some (p\<lparr>js_rest := drop n cs, js_index := js_index p + 1,
                       js_phase := Ph_Block_Separator\<rparr>, [Received ''answer_block'' (Some (js_index p)) v]))
             | Ph_Separator \<Rightarrow>
                 if c = CHR '','' then Some (p\<lparr>js_rest := cs, js_phase := Ph_Key\<rparr>, [])
                 else if c = CHR ''}'' then Some (p\<lparr>js_rest := cs, js_phase := Ph_Done\<rparr>, [])
                 else stream_disabled p
             | Ph_Block_Separator \<Rightarrow>
                 if c = CHR '','' then Some (p\<lparr>js_rest := cs, js_phase := Ph_Block\<rparr>, [])
                 else if c = CHR '']''
                 then Some (p\<lparr>js_rest := cs, js_phase := Ph_Separator\<rparr>, [Received ''answer_blocks_end'' None VNull])
                 else stream_disabled p
             | _ \<Rightarrow> stream_disabled p))"

definition stream_fuel :: "json_stream \<Rightarrow> nat" where
  "stream_fuel p = (if js_phase p = Ph_Disabled then 0 else Suc (length (js_rest p)))"

lemma stream_step_decreases: "stream_step decode p = Some (p', items) \<Longrightarrow> stream_fuel p' < stream_fuel p"
  by (auto simp: stream_step_def stream_disabled_def stream_fuel_def
      split: list.splits if_splits stream_phase.splits option.splits prod.splits jvalue.splits)

function stream_loop ::
  "(string \<Rightarrow> (jvalue \<times> nat) option) \<Rightarrow> json_stream \<Rightarrow> json_stream \<times> stream_item list"
where
  "stream_loop decode p =
     (case stream_step decode p of
        None \<Rightarrow> (p, [])
      | Some (p', items) \<Rightarrow> let (q, later) = stream_loop decode p' in (q, items @ later))"
  by pat_completeness auto

termination
  by (relation "measure (\<lambda>(decode, p). stream_fuel p)") (auto simp: stream_step_decreases)

declare stream_loop.simps [simp del]

definition STREAM_MAX_CHARACTERS :: nat where
  "STREAM_MAX_CHARACTERS = 1000000"

definition feed_stream ::
  "(string \<Rightarrow> (jvalue \<times> nat) option) \<Rightarrow> json_stream \<Rightarrow> string \<Rightarrow> json_stream \<times> stream_item list"
where
  "feed_stream decode p content =
     (if js_phase p = Ph_Disabled then (p, [])
      else
        let p1 = p\<lparr>js_rest := js_rest p @ content, js_length := js_length p + length content\<rparr>
        in if js_length p1 > STREAM_MAX_CHARACTERS then (p1\<lparr>js_phase := Ph_Disabled\<rparr>, [Invalid_Stream])
           else stream_loop decode p1)"

section \<open>The delivery of provisional blocks\<close>

record delivery =
  dv_stream :: json_stream
  dv_generation :: nat
  dv_intro :: "string option"
  dv_outro :: "string option"
  dv_array_complete :: bool
  dv_has_blocks :: bool
  dv_insufficient :: bool
  dv_seen :: "(string \<times> string list) list"
  dv_parts :: nat
  dv_metrics :: stream_metrics
  dv_events :: event_log

text \<open>
  What the delivery is built with. \<open>dv_parts\<close> counts the blocks that were put before the gate; it
  names the readings of the clock.
\<close>

record delivery_config =
  dc_env :: answer_env
  dc_context :: context_result
  dc_run_id :: string
  dc_sink :: event_sink

text \<open>\<open>emit\<close>: a sink that raises leaves a mark in the metrics.\<close>

definition deliver_event :: "delivery_config \<Rightarrow> answer_event \<Rightarrow> delivery \<Rightarrow> bool \<times> delivery" where
  "deliver_event C e s =
     (let ok = (case dc_sink C (length (dv_events s)) e of Inl x \<Rightarrow> False | Inr u \<Rightarrow> True)
      in (ok, s\<lparr>dv_events := dv_events s @ [(e, ok)],
                dv_metrics := (if ok then dv_metrics s else (dv_metrics s)\<lparr>sm_delivery_error := True\<rparr>)\<rparr>))"

definition new_parser :: "delivery \<Rightarrow> delivery" where
  "new_parser s = s\<lparr>dv_intro := None, dv_outro := None, dv_array_complete := False, dv_has_blocks := False,
     dv_insufficient := False, dv_seen := [], dv_stream := new_stream\<rparr>"

definition start_delivery :: "delivery_config \<Rightarrow> event_log \<Rightarrow> delivery" where
  "start_delivery C seen =
     (let metrics = \<lparr>sm_started_at_ms = an_rnd (dc_env C) (an_wall_clock (dc_env C) False * 1000),
            sm_first_block_ms = None, sm_delivered_blocks = 0, sm_resets = 0, sm_delivery_error = False,
            sm_ended = None\<rparr>;
          s = \<lparr>dv_stream = new_stream, dv_generation = 0, dv_intro = None, dv_outro = None,
               dv_array_complete = False, dv_has_blocks = False, dv_insufficient = False, dv_seen = [], dv_parts = 0,
               dv_metrics = metrics, dv_events = seen\<rparr>
      in new_parser (snd (deliver_event C (Generation_Started metrics 0) s)))"

definition retract :: "delivery_config \<Rightarrow> delivery \<Rightarrow> delivery" where
  "retract C s = snd (deliver_event C (Stream_Reset (dv_generation s)) (s\<lparr>dv_has_blocks := False\<rparr>))"

definition reset_delivery :: "delivery_config \<Rightarrow> delivery \<Rightarrow> delivery" where
  "reset_delivery C s =
     new_parser (retract C (s\<lparr>dv_generation := dv_generation s + 1,
       dv_metrics := (dv_metrics s)\<lparr>sm_resets := sm_resets (dv_metrics s) + 1\<rparr>\<rparr>))"

definition shown_outro :: "delivery \<Rightarrow> string option" where
  "shown_outro s = (if dv_array_complete s then dv_outro s else None)"

definition deliver_framing :: "delivery_config \<Rightarrow> delivery \<Rightarrow> delivery" where
  "deliver_framing C s = snd (deliver_event C (Answer_Framing (dv_intro s) (shown_outro s) (dv_generation s)) s)"

text \<open>\<open>AnswerDraftBlock.model_validate(value)\<close>: no other members, texts are strings.\<close>

fun text_value :: "jvalue \<Rightarrow> string result" where
  "text_value (VStr s) = Inr s"
| "text_value v = Inl Validation_Error"

fun text_list_value :: "jvalue \<Rightarrow> string list result" where
  "text_list_value (VList vs) = emap text_value vs"
| "text_list_value v = Inl Validation_Error"

fun draft_block_of :: "jvalue \<Rightarrow> draft_block result" where
  "draft_block_of (VDict d) =
     (if \<not> set (map fst d) \<subseteq> {''text'', ''citation_ids''} then Inl Validation_Error
      else (case map_of d ''text'' of
          None \<Rightarrow> Inl Validation_Error
        | Some t \<Rightarrow>
            ebind (text_value t) (\<lambda>body.
            ebind (case map_of d ''citation_ids'' of None \<Rightarrow> Inr [] | Some v \<Rightarrow> text_list_value v)
              (mk_draft_block body))))"
| "draft_block_of v = Inl Validation_Error"

definition block_signature :: "(string \<Rightarrow> string) \<Rightarrow> draft_block \<Rightarrow> string \<times> string list" where
  "block_signature casefold b = (normalized_block casefold (db_text b), sort (fromkeys (db_citation_ids b)))"

text \<open>The gate for one provisional block, over the spans it cites.\<close>

definition provisional_trust :: "delivery_config \<Rightarrow> nat \<Rightarrow> draft_block \<Rightarrow> trusted_answer result" where
  "provisional_trust C n b =
     (let A = dc_env C;
          selected = filter (\<lambda>s. sp_citation_id s \<in> set (db_citation_ids b)) (cx_spans (dc_context C))
      in ebind (emap as_citation selected) (\<lambda>citations.
         ebind (apply_answer_trust (an_platform A) (an_runtime A) (an_say A)
             \<lparr>tk_run_id = dc_run_id C, tk_citations = citations, tk_spans = selected, tk_status = Status_Complete,
              tk_limitations = [], tk_termination_reason = T_Answer_Ready, tk_intro = None, tk_outro = None\<rparr>
             [b] (an_current A (Pass_Part n)) None [])
           (\<lambda>(trusted, seen). Inr trusted)))"

definition show_block :: "delivery_config \<Rightarrow> nat option \<Rightarrow> draft_block \<Rightarrow> trusted_answer \<Rightarrow> delivery \<Rightarrow> delivery" where
  "show_block C index b trusted s =
     (let A = dc_env C; signature = block_signature (an_casefold A) b
      in case ta_answer_blocks trusted of
           [] \<Rightarrow> s
         | shown # _ \<Rightarrow>
             if signature \<in> set (dv_seen s) then s
             else
               let elapsed = an_rnd A (an_rnd A (an_clock A (R_Part (dv_parts s)) - an_clock A R_Delivery_Start) * 1000);
                   s1 = s\<lparr>dv_seen := signature # dv_seen s, dv_has_blocks := True\<rparr>;
                   (ok, s2) = deliver_event C (Answer_Part (dv_intro s) (shown_outro s) index shown
                                (ta_citations trusted) elapsed (dv_generation s)) s1
               in if ok
                  then s2\<lparr>dv_metrics := (dv_metrics s2)
                         \<lparr>sm_first_block_ms := (case sm_first_block_ms (dv_metrics s2) of None \<Rightarrow> Some elapsed | Some x \<Rightarrow> Some x),
                          sm_delivered_blocks := sm_delivered_blocks (dv_metrics s2) + 1\<rparr>\<rparr>
                  else s2)"

definition receive_block :: "delivery_config \<Rightarrow> nat option \<Rightarrow> jvalue \<Rightarrow> delivery \<Rightarrow> delivery result" where
  "receive_block C index v s =
     (case draft_block_of v of
        Inl x \<Rightarrow> Inr s
      | Inr b \<Rightarrow>
          if db_citation_ids b = [] \<or> \<not> set (db_citation_ids b) \<subseteq> set (cx_citation_allowlist (dc_context C))
          then Inr s
          else ebind (provisional_trust C (dv_parts s) b) (\<lambda>trusted.
                 Inr ((show_block C index b trusted s)\<lparr>dv_parts := dv_parts s + 1\<rparr>)))"

text \<open>\<open>(value.strip() or None) if value is not None else None\<close>, where the value may be framing.\<close>

fun framing_value :: "jvalue \<Rightarrow> string option option" where
  "framing_value VNull = Some None"
| "framing_value (VStr s) = Some (normalize_framing (Some s))"
| "framing_value v = None"

definition receive :: "delivery_config \<Rightarrow> string \<Rightarrow> nat option \<Rightarrow> jvalue \<Rightarrow> delivery \<Rightarrow> delivery result" where
  "receive C field index v s =
     (if field = ''status'' \<and> v = VStr ''insufficient'' then Inr (retract C (s\<lparr>dv_insufficient := True\<rparr>))
      else if field \<in> {''intro'', ''outro''} \<and> framing_value v \<noteq> None then
        let t = the (framing_value v);
            s1 = (if field = ''intro'' then s\<lparr>dv_intro := t\<rparr> else s\<lparr>dv_outro := t\<rparr>)
        in Inr (if dv_has_blocks s1 then deliver_framing C s1 else s1)
      else if field = ''answer_blocks_end'' then
        let s1 = s\<lparr>dv_array_complete := True\<rparr>
        in Inr (if dv_has_blocks s1 \<and> dv_outro s1 \<noteq> None then deliver_framing C s1 else s1)
      else if field = ''answer_block'' \<and> \<not> dv_insufficient s then receive_block C index v s
      else Inr s)"

text \<open>
  \<open>feed\<close>: the reader calls back for each item; a callback that raises disables the reader, marks the
  metrics and retracts.
\<close>

definition broken_delivery :: "delivery_config \<Rightarrow> delivery \<Rightarrow> delivery" where
  "broken_delivery C s =
     retract C (s\<lparr>dv_metrics := (dv_metrics s)\<lparr>sm_delivery_error := True\<rparr>,
                  dv_stream := (dv_stream s)\<lparr>js_phase := Ph_Disabled\<rparr>\<rparr>)"

fun receive_items :: "delivery_config \<Rightarrow> stream_item list \<Rightarrow> delivery \<Rightarrow> delivery" where
  "receive_items C [] s = s"
| "receive_items C (Invalid_Stream # items) s = receive_items C items (retract C s)"
| "receive_items C (Received field index v # items) s =
     (case receive C field index v s of
        Inl x \<Rightarrow> broken_delivery C (s\<lparr>dv_parts := dv_parts s + 1\<rparr>)
      | Inr s1 \<Rightarrow> receive_items C items s1)"

definition feed_delivery :: "delivery_config \<Rightarrow> string \<Rightarrow> delivery \<Rightarrow> delivery" where
  "feed_delivery C content s =
     (let (p, items) = feed_stream (an_raw_decode (dc_env C)) (dv_stream s) content
      in receive_items C items (s\<lparr>dv_stream := p\<rparr>))"

fun stream_input_step :: "delivery_config \<Rightarrow> delivery \<Rightarrow> stream_input \<Rightarrow> delivery" where
  "stream_input_step C s (Stream_Content content) = feed_delivery C content s"
| "stream_input_step C s Stream_Restart = reset_delivery C s"

definition run_delivery :: "delivery_config \<Rightarrow> stream_input list \<Rightarrow> delivery \<Rightarrow> delivery" where
  "run_delivery C inputs s = foldl (stream_input_step C) s inputs"

definition finish_delivery :: "delivery_config \<Rightarrow> delivery \<Rightarrow> delivery" where
  "finish_delivery C s =
     (let A = dc_env C;
          metrics = (dv_metrics s)\<lparr>sm_ended := Some
            (an_rnd A (an_rnd A (an_clock A R_Delivery_End - an_clock A R_Delivery_Start) * 1000),
             an_rnd A (an_wall_clock A True * 1000))\<rparr>
      in snd (deliver_event C (Generation_Finished metrics (dv_generation s)) (s\<lparr>dv_metrics := metrics\<rparr>)))"

end
