(* ===== verification/Ask_Finalize.thy ===== *)
theory Ask_Finalize
  imports Ask_Streaming
begin

text \<open>
  Finishing an answer, src/shiliu/ask/finalize.py: evidence is fused and fitted, the answer generated,
  its citations repaired once at most, and every block put before the gate of
  src/shiliu/ask/trust.py. The diagnostics of \<open>trace\<close> are a dictionary like the code's.
\<close>

record finalizer =
  fz_env :: answer_env
  fz_builder :: context_builder
  fz_verifier_enabled :: bool

record finalize_request =
  fq_query :: string
  fq_normalized_intent :: string
  fq_spans :: "evidence_span list"
  fq_stale_reasons :: "string list"
  fq_termination_reason :: termination_reason
  fq_retrieval_errors :: "string list"
  fq_deadline :: "rat option"
  fq_decision_projection :: "jdict option"
  fq_run_id :: string
  fq_event_sink :: "event_sink option"
  fq_prepared_context :: "context_result option"
  fq_clarification_requests :: "string list"

record finalized_answer =
  fa_status :: answer_status
  fa_execution_outcome :: execution_outcome
  fa_answer_blocks :: "answer_block list"
  fa_citations :: "citation list"
  fa_limitations :: "string list"
  fa_termination_reason :: termination_reason
  fa_valid_evidence_count :: int
  fa_context_span_count :: nat
  fa_context_truncated :: bool
  fa_stale_evidence_count :: nat
  fa_repair_used :: bool
  fa_trace :: jdict
  fa_intro :: "string option"
  fa_outro :: "string option"

section \<open>Diagnostics\<close>

definition trace_update :: "jdict \<Rightarrow> jdict \<Rightarrow> jdict" where
  "trace_update new trace = fold (\<lambda>(k, v) d. AList.update k v d) new trace"

definition trace_int :: "jdict \<Rightarrow> string \<Rightarrow> int" where
  "trace_int trace key = (case map_of trace key of Some (VInt i) \<Rightarrow> i | _ \<Rightarrow> 0)"

fun outcome_text :: "execution_outcome \<Rightarrow> string" where
  "outcome_text O_Answer_Generated = ''answer_generated''"
| "outcome_text O_Source_Lookup_Complete = ''source_lookup_complete''"
| "outcome_text O_Evidence_Insufficient = ''evidence_insufficient''"
| "outcome_text O_Generation_Failed = ''generation_failed''"
| "outcome_text O_Evidence_Unavailable = ''evidence_unavailable''"
| "outcome_text O_Claim_Support_Insufficient = ''claim_support_insufficient''"
| "outcome_text O_Claim_Verifier_Failed = ''claim_verifier_failed''"
| "outcome_text O_Claim_Verifier_Unknown = ''claim_verifier_unknown''"

fun overall_text :: "overall_outcome \<Rightarrow> string" where
  "overall_text Overall_Allow = ''allow''"
| "overall_text Overall_Partial = ''partial''"
| "overall_text Overall_Insufficient = ''insufficient''"

fun verifier_text :: "verifier_state \<Rightarrow> string" where
  "verifier_text V_Not_Needed = ''not_needed''"
| "verifier_text V_Disabled = ''disabled''"
| "verifier_text V_Committed = ''committed''"
| "verifier_text V_Failed = ''failed''"
| "verifier_text V_Unknown = ''unknown''"

definition dump_summary :: "trust_summary \<Rightarrow> jvalue" where
  "dump_summary s = VDict
     [(''schema_version'', VStr ''v5.6-answer-trust-v1''), (''claim_unit'', VStr ''answer_block''),
      (''claim_support_schema_version'', VStr ''v5.6-bounded-claim-support-v1''),
      (''overall_outcome'', VStr (overall_text (ts_overall_outcome s))), (''deterministic_passes'', VInt 1),
      (''semantic_passes'', VInt (ts_semantic_passes s)),
      (''verifier_logical_calls'', VInt (ts_verifier_logical_calls s)),
      (''verifier_http_attempts'', VInt (ts_verifier_http_attempts s)), (''semantic_answer_repairs'', VInt 0),
      (''verifier_state'', VStr (verifier_text (ts_verifier_state s))), (''input_hash'', VStr (ts_input_hash s)),
      (''answer_snapshot_hash'', VStr (ts_answer_snapshot_hash s)), (''answer_version'', VInt 1),
      (''previous_answer_snapshot_hash'', VNull),
      (''dispositions'', VList (map dump_disposition (ts_dispositions s))),
      (''reason_codes'', vstrs (ts_reason_codes s))]"

definition dump_metrics :: "stream_metrics \<Rightarrow> jvalue" where
  "dump_metrics m = VDict
     ([(''started_at_ms'', VFloat (sm_started_at_ms m)),
       (''first_block_ms'', (case sm_first_block_ms m of None \<Rightarrow> VNull | Some x \<Rightarrow> VFloat x)),
       (''delivered_blocks'', VInt (int (sm_delivered_blocks m))), (''resets'', VInt (int (sm_resets m)))] @
      (if sm_delivery_error m then [(''delivery_error'', VBool True)] else []) @
      (case sm_ended m of None \<Rightarrow> []
       | Some (generation, ended) \<Rightarrow> [(''generation_ms'', VFloat generation), (''completed_at_ms'', VFloat ended)]))"

definition answer_trace :: "grounded_result \<Rightarrow> jdict" where
  "answer_trace g =
     [(''answer_usage'', VList (map VDict (gr_usage g))), (''answer_calls'', VInt (gr_answer_calls g)),
      (''repair_calls'', VInt (gr_repair_calls g)),
      (''answer_provider_call_count'', VInt (gr_provider_call_count g)),
      (''transport_retry_count'', VInt (gr_transport_retry_count g)), (''repair_used'', VBool (gr_repair_used g)),
      (''initial_answer_validation_errors'', VList (map dump_issue (gr_initial_validation_errors g))),
      (''initial_answer_provider_error'', optional_text (gr_initial_provider_error g)),
      (''initial_provider_error_code'', optional_text (gr_initial_provider_error_code g)),
      (''answer_validation_errors'', VList (map dump_issue (gr_validation_errors g))),
      (''answer_provider_error'', optional_text (gr_provider_error g)),
      (''provider_error_code'', optional_text (gr_provider_error_code g))]"

text \<open>\<open>str(getattr(exc, "code", type(exc).__name__))\<close>\<close>

definition code_text :: "runtime \<Rightarrow> failure \<Rightarrow> string" where
  "code_text R x = (case fl_code x of None \<Rightarrow> fl_type x | Some v \<Rightarrow> rt_str R v)"

definition failed_answer_trace :: "runtime \<Rightarrow> failure \<Rightarrow> jdict" where
  "failed_answer_trace R x =
     [(''answer_calls'', VInt 1), (''repair_calls'', VInt 0), (''answer_provider_call_count'', VInt 0),
      (''transport_retry_count'', VInt 0), (''repair_used'', VBool False),
      (''provider_error_code'', VStr (code_text R x)), (''answer_provider_error'', VStr (failure_text x))]"

section \<open>Insufficient answers\<close>

definition insufficient ::
  "string list \<Rightarrow> execution_outcome \<Rightarrow> termination_reason \<Rightarrow> nat \<Rightarrow> jdict \<Rightarrow> nat \<Rightarrow> bool \<Rightarrow> bool \<Rightarrow> finalized_answer"
where
  "insufficient limitations outcome termination stale trace context_spans truncated repair_used =
     \<lparr>fa_status = Status_Insufficient, fa_execution_outcome = outcome, fa_answer_blocks = [], fa_citations = [],
      fa_limitations = limitations, fa_termination_reason = termination,
      fa_valid_evidence_count = trace_int trace ''valid_evidence_count'', fa_context_span_count = context_spans,
      fa_context_truncated = truncated, fa_stale_evidence_count = stale, fa_repair_used = repair_used,
      fa_trace = trace, fa_intro = None, fa_outro = None\<rparr>"

definition no_evidence_reason :: "termination_reason \<Rightarrow> termination_reason" where
  "no_evidence_reason r = (if r = T_Answer_Ready then T_Evidence_Unavailable else r)"

definition without_evidence :: "finalizer \<Rightarrow> finalize_request \<Rightarrow> jdict \<Rightarrow> finalized_answer" where
  "without_evidence F q trace =
     (let say = an_say (fz_env F); stale = length (fq_stale_reasons q);
          retrieval_failed = (if fq_retrieval_errors q = [] then [] else [say N_Retrieval_Failed])
      in if fq_clarification_requests q \<noteq> [] \<and> fq_termination_reason q \<in> {T_Answer_Ready, T_Evidence_Unavailable}
         then insufficient
                ([say N_Need_Input] @ fq_clarification_requests q @
                 (if fq_stale_reasons q = [] then [] else [say N_Stale_Citations]) @ retrieval_failed)
                (if fq_stale_reasons q \<noteq> [] \<or> fq_retrieval_errors q \<noteq> [] then O_Evidence_Unavailable
                 else O_Evidence_Insufficient)
                (fq_termination_reason q) stale
                (trace_update [(''clarification_requests'', vstrs (fq_clarification_requests q))] trace) 0 False False
         else insufficient ([say N_No_Evidence] @ retrieval_failed) O_Evidence_Unavailable
                (no_evidence_reason (fq_termination_reason q)) stale trace 0 False False)"

text \<open>\<open>_insufficient_stop_limitation\<close>: the table has no entry for three reasons.\<close>

definition stop_limitation :: "(notice \<Rightarrow> string) \<Rightarrow> termination_reason \<Rightarrow> string result" where
  "stop_limitation say r =
     (if r \<in> {T_Claim_Support_Insufficient, T_Claim_Verifier_Failed, T_Claim_Verifier_Unknown} then Inl Key_Error
      else Inr (say (N_Stop r)))"

definition insufficient_draft ::
  "finalizer \<Rightarrow> finalize_request \<Rightarrow> context_result \<Rightarrow> jdict \<Rightarrow> bool \<Rightarrow> finalized_answer result"
where
  "insufficient_draft F q cx trace repair_used =
     (let say = an_say (fz_env F)
      in ebind (if fq_termination_reason q = T_Answer_Ready then Inr []
                else ebind (stop_limitation say (fq_termination_reason q)) (\<lambda>t. Inr [t])) (\<lambda>stop.
         Inr (insufficient ([say N_Not_Found] @ (if cx_truncated cx then [say N_Truncated] else []) @ stop)
           O_Evidence_Insufficient (fq_termination_reason q) (length (fq_stale_reasons q)) trace
           (length (cx_spans cx)) (cx_truncated cx) repair_used)))"

definition failed_draft ::
  "finalizer \<Rightarrow> finalize_request \<Rightarrow> context_result \<Rightarrow> jdict \<Rightarrow> grounded_result \<Rightarrow> finalized_answer"
where
  "failed_draft F q cx trace g =
     insufficient [an_say (fz_env F) (if gr_repair_used g then N_Not_Repaired else N_Provider_Fault)]
       O_Generation_Failed
       (if gr_provider_error_code g = Some ''deadline_exhausted'' then T_Budget_Exhausted else T_Provider_Error)
       (length (fq_stale_reasons q)) trace (length (cx_spans cx)) (cx_truncated cx) (gr_repair_used g)"

section \<open>Gaps and repairs\<close>

text \<open>\<open>_merge_explicit_answer_gaps\<close>\<close>

definition merge_answer_gaps ::
  "runtime \<Rightarrow> (notice \<Rightarrow> string) \<Rightarrow> answer_status \<Rightarrow> string list \<Rightarrow> jdict option \<Rightarrow> (answer_status \<times> string list) result"
where
  "merge_answer_gaps R say status limitations projection =
     (let d = (case projection of None \<Rightarrow> [] | Some d \<Rightarrow> d)
      in ebind (projected_list d ''open_aspects'') (\<lambda>aspects.
         ebind (projected_list d ''conflicts'') (\<lambda>conflicts.
           let confirmed = filter (confirmed_conflict R) conflicts
           in Inr (if status = Status_Complete \<and> (limitations \<noteq> [] \<or> aspects \<noteq> [] \<or> confirmed \<noteq> [])
                   then Status_Partial else status,
                   fromkeys (limitations @
                     (if aspects = [] then [] else [say (N_Open_Aspects (length aspects))]) @
                     (if confirmed = [] then [] else [say (N_Conflicts (length confirmed))]))))))"

definition REPAIRABLE :: "string list" where
  "REPAIRABLE = [''citation_missing'', ''citation_not_allowed'', ''citation_unmapped'']"

definition failed_indices :: "trust_disposition list \<Rightarrow> nat list" where
  "failed_indices ds = filter (\<lambda>i. td_outcome (ds ! i) = Block_Remove \<and> td_reason_codes (ds ! i) \<noteq> [] \<and>
     set (td_reason_codes (ds ! i)) \<subseteq> set REPAIRABLE) [0..<length ds]"

definition repair_issues :: "trust_disposition list \<Rightarrow> nat list \<Rightarrow> validation_issue list" where
  "repair_issues ds failed = concat (map (\<lambda>i. map (\<lambda>reason.
     \<lparr>vi_code = reason, vi_path = ''answer_blocks.'' @ int_text (int i),
      vi_message = ''Correct the citation IDs for this original block only''\<rparr>) (td_reason_codes (ds ! i))) failed)"

text \<open>\<open>originals\<close>: of two failed blocks with the same text the later one is meant.\<close>

definition originals_of :: "draft_block list \<Rightarrow> nat list \<Rightarrow> (string \<times> nat) list" where
  "originals_of blocks failed = dict_of (\<lambda>i. db_text (blocks ! i)) failed"

definition patch_block :: "string list \<Rightarrow> (string \<times> nat) list \<Rightarrow> draft_block \<Rightarrow> draft_block list \<Rightarrow> draft_block list" where
  "patch_block allowed originals patch blocks =
     (let i = the (map_of originals (db_text patch));
          before = set (db_citation_ids (blocks ! i)); after = set (db_citation_ids patch)
      in if after = {} \<or> \<not> after \<subseteq> set allowed \<or> \<not> before \<inter> set allowed \<subseteq> after then blocks
         else if before - set allowed \<noteq> {} \<and> after - before \<inter> set allowed = {} then blocks
         else blocks[i := patch])"

definition patched_blocks :: "string list \<Rightarrow> nat list \<Rightarrow> draft_block list \<Rightarrow> draft_block list \<Rightarrow> draft_block list option" where
  "patched_blocks allowed failed patches blocks =
     (let originals = originals_of blocks failed
      in if length (fromkeys (map db_text patches)) \<noteq> length patches \<or>
            list_ex (\<lambda>b. map_of originals (db_text b) = None) patches
         then None else Some (fold (patch_block allowed originals) patches blocks))"

definition time_left :: "finalizer \<Rightarrow> finalize_request \<Rightarrow> reading \<Rightarrow> bool" where
  "time_left F q r =
     (case fq_deadline q of None \<Rightarrow> True | Some d \<Rightarrow> an_rnd (fz_env F) (d - an_clock (fz_env F) r) \<ge> 1)"

definition repair_cap :: "finalizer \<Rightarrow> rat" where
  "repair_cap F = an_rnd (fz_env F) (an_clock (fz_env F) R_Repair_Started + 30)"

definition patch_in_time :: "finalizer \<Rightarrow> finalize_request \<Rightarrow> bool" where
  "patch_in_time F q \<longleftrightarrow> an_clock (fz_env F) R_Patch_Cap \<le> repair_cap F \<and>
     (case fq_deadline q of None \<Rightarrow> True | Some d \<Rightarrow> an_clock (fz_env F) R_Patch_Deadline \<le> d)"

text \<open>The local repair: the blocks, the diagnostics and those of the repair after it.\<close>

definition local_repair ::
  "finalizer \<Rightarrow> finalize_request \<Rightarrow> context_result \<Rightarrow> trust_disposition list \<Rightarrow> nat list \<Rightarrow> draft_block list \<Rightarrow> jdict
    \<Rightarrow> draft_block list \<times> jdict \<times> jdict"
where
  "local_repair F q cx ds failed blocks trace =
     (let A = fz_env F;
          limit = (case fq_deadline q of None \<Rightarrow> repair_cap F | Some d \<Rightarrow> min d (repair_cap F))
      in case repair A (fq_query q) cx (repair_issues ds failed) (map ((!) blocks) failed) (Some limit) of
           Inl x \<Rightarrow> (blocks, trace,
             [(''provider_error'', VStr (failure_text x)), (''provider_error_code'', VStr (code_text (an_runtime A) x))])
         | Inr g \<Rightarrow>
             let trace1 = trace_update
                   [(''answer_usage'', VList ((case dict_get trace ''answer_usage'' of VList us \<Rightarrow> us | _ \<Rightarrow> []) @
                       map VDict (gr_usage g))),
                    (''repair_calls'', VInt (trace_int trace ''repair_calls'' + gr_repair_calls g)),
                    (''answer_provider_call_count'', VInt (trace_int trace ''answer_provider_call_count''
                       + gr_provider_call_count g)),
                    (''transport_retry_count'', VInt (trace_int trace ''transport_retry_count''
                       + gr_transport_retry_count g))] trace;
                 notes = [(''provider_error'', optional_text (gr_provider_error g)),
                    (''provider_error_code'', optional_text (gr_provider_error_code g)),
                    (''validation_errors'', VList (map dump_issue (gr_validation_errors g)))]
             in (case gr_draft g of
                   None \<Rightarrow> (blocks, trace1, notes)
                 | Some d \<Rightarrow>
                     if \<not> patch_in_time F q then (blocks, trace1, notes)
                     else (case patched_blocks (cx_citation_allowlist cx) failed (gd_answer_blocks d) blocks of
                        None \<Rightarrow> (blocks, trace1, notes @ [(''rejected_reason'', VStr ''changed_or_extra_block_text'')])
                      | Some blocks' \<Rightarrow> (blocks', trace1, notes))))"

definition repair_latency :: "finalizer \<Rightarrow> rat" where
  "repair_latency F = an_rnd (fz_env F)
     (an_rnd (fz_env F) (an_clock (fz_env F) R_Repair_Ended - an_clock (fz_env F) R_Repair_Started) * 1000)"

definition local_repair_entry :: "nat list \<Rightarrow> nat list \<Rightarrow> bool \<Rightarrow> jdict \<Rightarrow> jvalue" where
  "local_repair_entry failed recovered attempted notes = VDict
     ([(''failed_block_indices'', VList (map (\<lambda>i. VInt (int i)) failed)),
       (''recovered_block_indices'', VList (map (\<lambda>i. VInt (int i)) recovered)),
       (''attempted'', VBool attempted), (''timeout_cap_seconds'', VInt 30)] @ notes)"

definition needs_repair :: "context_result \<Rightarrow> draft_block list \<Rightarrow> bool" where
  "needs_repair cx blocks \<longleftrightarrow> list_ex (\<lambda>b. db_citation_ids b = [] \<or>
     \<not> set (db_citation_ids b) \<subseteq> set (cx_citation_allowlist cx)) blocks"

text \<open>The repair, when there is something to repair and time for it: whether it was attempted, and its results.\<close>

definition citation_repair ::
  "finalizer \<Rightarrow> finalize_request \<Rightarrow> context_result \<Rightarrow> grounded_result \<Rightarrow> trust_disposition list \<Rightarrow> draft_block list \<Rightarrow> jdict
    \<Rightarrow> bool \<times> draft_block list \<times> jdict \<times> jdict"
where
  "citation_repair F q cx g ds blocks trace =
     (let failed = failed_indices ds
      in if failed \<noteq> [] \<and> \<not> gr_repair_used g \<and> time_left F q R_Repair_Due
         then (let (bs, t, notes) = local_repair F q cx ds failed blocks trace
               in (True, bs, trace_update [(''repair_used'', VBool True)] t,
                   notes @ [(''latency_ms'', VFloat (repair_latency F))]))
         else (False, blocks, trace,
               if failed = [] then []
               else [(''skipped_reason'', VStr (if gr_repair_used g then ''repair_budget_used''
                                                else ''deadline_exhausted''))]))"

text \<open>From the accepted draft to the published answer.\<close>

definition publish ::
  "finalizer \<Rightarrow> finalize_request \<Rightarrow> int \<Rightarrow> context_result \<Rightarrow> jdict \<Rightarrow> event_log \<Rightarrow> grounded_result \<Rightarrow> grounded_draft
    \<Rightarrow> (finalized_answer \<times> event_log) result"
where
  "publish F q evidence cx trace seen g d =
     (let A = fz_env F; blocks = gd_answer_blocks d in
      ebind (merge_answer_gaps (an_runtime A) (an_say A) (gd_status d) (gd_limitations d) (fq_decision_projection q))
        (\<lambda>(status, limitations).
      ebind (emap as_citation (cx_spans cx)) (\<lambda>citations.
        let kwargs = \<lparr>tk_run_id = fq_run_id q, tk_citations = citations, tk_spans = cx_spans cx, tk_status = status,
              tk_limitations = limitations @ (if cx_truncated cx then [an_say A N_Truncated] else []),
              tk_termination_reason = fq_termination_reason q, tk_intro = gd_intro d, tk_outro = gd_outro d\<rparr>;
            may_repair = (\<not> gr_repair_used g \<and> needs_repair cx blocks \<and> time_left F q R_May_Repair);
            trust = (\<lambda>pass sink bs seen. apply_answer_trust (an_platform A) (an_runtime A) (an_say A) kwargs bs
              (an_current A pass) sink seen)
        in ebind (trust Pass_Preflight (if may_repair then None else fq_event_sink q) blocks seen)
             (\<lambda>(preflight, seen1).
             let ds = ts_dispositions (ta_summary preflight); failed = failed_indices ds;
                 (attempted, blocks1, trace1, notes) = citation_repair F q cx g ds blocks trace
             in ebind (if may_repair then trust Pass_Final (fq_event_sink q) blocks1 seen1 else Inr (preflight, seen1))
                  (\<lambda>(trusted, seen2).
                  let recovered = filter (\<lambda>i. td_outcome (ts_dispositions (ta_summary trusted) ! i) = Block_Allow) failed
                  in Inr (\<lparr>fa_status = ta_status trusted, fa_execution_outcome = ta_execution_outcome trusted,
                        fa_answer_blocks = ta_answer_blocks trusted, fa_citations = ta_citations trusted,
                        fa_limitations = ta_limitations trusted, fa_termination_reason = ta_termination_reason trusted,
                        fa_valid_evidence_count = evidence, fa_context_span_count = length (cx_spans cx),
                        fa_context_truncated = cx_truncated cx,
                        fa_stale_evidence_count = length (fq_stale_reasons q),
                        fa_repair_used = (gr_repair_used g \<or> attempted),
                        fa_trace = trace_update
                          [(''local_citation_repair'', local_repair_entry failed recovered attempted notes),
                           (''trust_summary'', dump_summary (ta_summary trusted))] trace1,
                        fa_intro = (if ta_answer_blocks trusted = [] then None else gd_intro d),
                        fa_outro = (if ta_answer_blocks trusted = [] then None else gd_outro d)\<rparr>, seen2))))))"

section \<open>The finalizer\<close>

text \<open>The preview of three citations; a failure of its projection or delivery is only logged.\<close>

definition preview_evidence :: "finalize_request \<Rightarrow> context_result \<Rightarrow> event_log" where
  "preview_evidence q cx =
     (case fq_event_sink q of
        None \<Rightarrow> []
      | Some sink \<Rightarrow>
          (case emap as_citation (take 3 (cx_spans cx)) of
             Inl x \<Rightarrow> []
           | Inr items \<Rightarrow> [(Evidence_Preview items,
               case sink 0 (Evidence_Preview items) of Inl x \<Rightarrow> False | Inr u \<Rightarrow> True)]))"

definition delivery_config_of :: "finalizer \<Rightarrow> finalize_request \<Rightarrow> context_result \<Rightarrow> delivery_config option" where
  "delivery_config_of F q cx =
     (case fq_event_sink q of
        None \<Rightarrow> None
      | Some sink \<Rightarrow>
          if fz_verifier_enabled F then None
          else Some \<lparr>dc_env = fz_env F, dc_context = cx, dc_run_id = fq_run_id q, dc_sink = sink\<rparr>)"

text \<open>
  What the callbacks of an answer leave behind: the delivery, finished. \<open>retract_first\<close> is the
  \<open>except\<close> branch, which retracts before \<open>finally\<close> finishes; \<open>retract_last\<close> retracts after it.
\<close>

definition streamed ::
  "delivery_config option \<Rightarrow> stream_input list \<Rightarrow> bool \<Rightarrow> bool \<Rightarrow> event_log \<Rightarrow> jdict \<times> event_log"
where
  "streamed maybe inputs retract_first retract_last seen =
     (case maybe of
        None \<Rightarrow> ([], seen)
      | Some C \<Rightarrow>
          let s1 = run_delivery C inputs (start_delivery C seen);
              s2 = finish_delivery C (if retract_first then retract C s1 else s1);
              s3 = (if retract_last then retract C s2 else s2)
          in ([(''answer_stream'', dump_metrics (dv_metrics s3))], dv_events s3))"

definition generate_answer ::
  "finalizer \<Rightarrow> finalize_request \<Rightarrow> int \<Rightarrow> context_result \<Rightarrow> jdict \<Rightarrow> event_log \<Rightarrow> (finalized_answer \<times> event_log) result"
where
  "generate_answer F q evidence cx trace seen =
     (let A = fz_env F; config = delivery_config_of F q cx;
          (inputs, answered) = answer A (fq_query q) cx (fq_deadline q) (config \<noteq> None)
      in case answered of
           Inl x \<Rightarrow>
             (let (streaming, seen1) = streamed config inputs True False seen;
                  trace1 = trace_update streaming (trace_update (failed_answer_trace (an_runtime A) x) trace)
              in Inr (insufficient [an_say A N_Model_Failed] O_Generation_Failed
                   (if fl_timeout x then T_Budget_Exhausted else T_Provider_Error) (length (fq_stale_reasons q)) trace1
                   (length (cx_spans cx)) (cx_truncated cx) False, seen1))
         | Inr g \<Rightarrow>
             (let withdrawn = (case gr_draft g of None \<Rightarrow> True | Some d \<Rightarrow> gd_status d = Status_Insufficient);
                  (streaming, seen1) = streamed config inputs False withdrawn seen;
                  trace1 = trace_update (answer_trace g) (trace_update streaming trace)
              in case gr_draft g of
                   None \<Rightarrow> Inr (failed_draft F q cx trace1 g, seen1)
                 | Some d \<Rightarrow>
                     if gd_status d = Status_Insufficient
                     then ebind (insufficient_draft F q cx trace1 (gr_repair_used g)) (\<lambda>a. Inr (a, seen1))
                     else publish F q evidence cx trace1 seen1 g d))"

definition finalize :: "finalizer \<Rightarrow> finalize_request \<Rightarrow> (finalized_answer \<times> event_log) result" where
  "finalize F q =
     (let A = fz_env F in
      ebind (case fq_prepared_context q of
               Some cx \<Rightarrow> Inr (cx_spans cx)
             | None \<Rightarrow> fuse_evidence (an_runtime A) (an_rnd A) (fq_spans q)) (\<lambda>fused.
      let trace = [(''valid_evidence_count'', VInt (int (length fused))),
            (''generation_policy'', VStr ''bounded_grounded_synthesis_v1''),
            (''answer_structure_version'', VStr ''framed-answer-v1'')]
      in if fused = [] then Inr (without_evidence F q trace, [])
         else ebind (case fq_prepared_context q of
                Some cx \<Rightarrow> Inr cx
              | None \<Rightarrow> build_context (an_platform A) (an_runtime A) (fz_builder F) (fq_query q)
                  (fq_normalized_intent q) fused) (\<lambda>cx.
           let trace1 = trace_update
                 [(''context_span_count'', VInt (int (length (cx_spans cx)))),
                  (''context_truncated'', VBool (cx_truncated cx)),
                  (''context_dropped_span_count'', VInt (int (cx_dropped_span_count cx))),
                  (''citation_allowlist'', vstrs (cx_citation_allowlist cx))] trace;
               stale = length (fq_stale_reasons q)
           in if cx_spans cx = []
              then Inr (insufficient [an_say A N_Over_Budget] O_Evidence_Unavailable
                     (no_evidence_reason (fq_termination_reason q)) stale trace1 0 True False, [])
              else
                let seen = preview_evidence q cx
                in if deadline_reached A (fq_deadline q) R_Start_Answer
                   then Inr (insufficient [an_say A N_Deadline] O_Generation_Failed T_Budget_Exhausted stale trace1
                          (length (cx_spans cx)) (cx_truncated cx) False, seen)
                   else generate_answer F q (int (length fused)) cx trace1 seen)))"

section \<open>The response\<close>

text \<open>The answer part of \<open>AskResponse\<close> of src/shiliu/ask/contracts.py and its validator.\<close>

record ask_response =
  rp_intro :: "string option"
  rp_outro :: "string option"
  rp_status :: answer_status
  rp_execution_outcome :: "execution_outcome option"
  rp_answer_blocks :: "answer_block list"
  rp_citations :: "citation list"
  rp_source_matches :: "jdict list"
  rp_limitations :: "string list"
  rp_termination_reason :: termination_reason

definition inferred_outcome :: "ask_response \<Rightarrow> execution_outcome" where
  "inferred_outcome r =
     (case rp_execution_outcome r of
        Some o' \<Rightarrow> o'
      | None \<Rightarrow>
          if rp_status r \<noteq> Status_Insufficient then O_Answer_Generated
          else if rp_termination_reason r \<in> {T_Provider_Error, T_Budget_Exhausted} then O_Generation_Failed
          else if rp_termination_reason r = T_Evidence_Unavailable then O_Evidence_Unavailable
          else O_Evidence_Insufficient)"

definition mk_ask_response :: "ask_response \<Rightarrow> ask_response result" where
  "mk_ask_response r =
     (let out = inferred_outcome r;
          shown = (\<lambda>t. if out \<noteq> O_Answer_Generated then None else normalize_framing t);
          lookup = (out = O_Source_Lookup_Complete \<and> rp_source_matches r \<noteq> []);
          ids = map ci_citation_id (rp_citations r)
      in if (rp_status r = Status_Insufficient \<and> rp_answer_blocks r \<noteq> []) \<or>
            (rp_status r \<noteq> Status_Insufficient \<and> rp_answer_blocks r = [] \<and> \<not> lookup) \<or>
            (lookup \<and> (rp_status r \<noteq> Status_Complete \<or> rp_answer_blocks r \<noteq> [] \<or> rp_citations r \<noteq> [])) \<or>
            (out = O_Answer_Generated \<and> rp_status r = Status_Insufficient) \<or>
            (out \<noteq> O_Answer_Generated \<and> rp_answer_blocks r \<noteq> []) \<or>
            list_ex (\<lambda>b. \<not> set (ab_citation_ids b) \<subseteq> set ids) (rp_answer_blocks r)
         then Inl Validation_Error
         else Inr (r\<lparr>rp_execution_outcome := Some out, rp_intro := shown (rp_intro r), rp_outro := shown (rp_outro r)\<rparr>))"

text \<open>What the services of the fast and the deep answer build from a finalized answer.\<close>

definition response_of :: "jdict list \<Rightarrow> finalized_answer \<Rightarrow> ask_response" where
  "response_of matches a =
     \<lparr>rp_intro = fa_intro a, rp_outro = fa_outro a, rp_status = fa_status a,
      rp_execution_outcome = Some (fa_execution_outcome a), rp_answer_blocks = fa_answer_blocks a,
      rp_citations = fa_citations a, rp_source_matches = matches, rp_limitations = fa_limitations a,
      rp_termination_reason = fa_termination_reason a\<rparr>"

end
