(* ===== verification/Answer_Facts.thy ===== *)
theory Answer_Facts
  imports Ask_Finalize
begin

text \<open>
  Facts on the generation, the gate and the delivery of an answer: what survives the gate, that drafts
  are normalized wherever they come from, and what a local repair may change.
\<close>

section \<open>Normalized blocks\<close>

definition normal_block :: "draft_block \<Rightarrow> bool" where
  "normal_block b \<longleftrightarrow> db_text b \<noteq> [] \<and> strip (db_text b) = db_text b \<and> map strip (db_citation_ids b) = db_citation_ids b"

lemma mk_draft_block_normal: "mk_draft_block body ids = Inr b \<Longrightarrow> normal_block b"
  by (auto simp: mk_draft_block_def normal_block_def strip_strip split: if_splits)

lemma dedupe_blocks_subset: "set (dedupe_blocks allowed seen bs) \<subseteq> set bs"
  by (induction bs arbitrary: seen) auto

lemma mk_grounded_draft_normal:
  assumes "mk_grounded_draft raw = Inr d"
  shows "list_all normal_block (gd_answer_blocks d)"
proof -
  obtain bs where bs: "emap (\<lambda>b. mk_draft_block (db_text b) (db_citation_ids b)) (gd_answer_blocks raw) = Inr bs"
      "gd_answer_blocks d = bs"
    using assms by (auto simp: mk_grounded_draft_def ebind_eq_Inr)
  have "normal_block b" if b: "b \<in> set bs" for b
    using emap_Inr_elem [OF bs(1) b] mk_draft_block_normal by blast
  with bs(2) show ?thesis by (simp add: list_all_iff)
qed

text \<open>A draft that reached the code: validated, and without fully equivalent blocks.\<close>

definition accepted_draft :: "(string \<Rightarrow> string) \<Rightarrow> grounded_draft \<Rightarrow> bool" where
  "accepted_draft casefold d \<longleftrightarrow> list_all normal_block (gd_answer_blocks d) \<and>
     (gd_status d = Status_Insufficient \<longleftrightarrow> gd_answer_blocks d = []) \<and>
     (gd_status d = Status_Complete \<longrightarrow> \<not> list_ex (\<lambda>v. strip v \<noteq> []) (gd_limitations d)) \<and>
     (gd_status d \<noteq> Status_Complete \<longrightarrow> list_ex (\<lambda>v. strip v \<noteq> []) (gd_limitations d)) \<and>
     duplicate_issues casefold (gd_answer_blocks d) 0 [] = []"

lemma no_issues_accepted:
  assumes "validate_grounded_answer casefold d = []" and "list_all normal_block (gd_answer_blocks d)"
  shows "accepted_draft casefold (downgraded d)"
proof (cases "gd_status d")
  case Status_Complete
  with assms show ?thesis
    by (auto simp: validate_grounded_answer_def shape_issues_def accepted_draft_def downgraded_def Let_def
        split: if_splits)
qed (use assms in \<open>auto simp: validate_grounded_answer_def shape_issues_def accepted_draft_def downgraded_def
    Let_def split: if_splits\<close>)

section \<open>Calls\<close>

lemma failed_call_draft: "failed_call A x got kind = Inr (c, usage) \<Longrightarrow> cr_draft c = None"
  by (auto simp: failed_call_def Let_def split: option.splits sum.splits)

lemma call_model_normal:
  assumes "snd (call_model A p step messages allowed timeout kind callbacks) = Inr (c, usage)" and "cr_draft c = Some d"
  shows "list_all normal_block (gd_answer_blocks d)"
proof -
  have "\<exists>r raw. received_draft r = Inr raw \<and> d = deduplicated_draft allowed raw"
    using assms failed_call_draft
    by (fastforce simp: call_model_def Let_def split: if_splits prod.splits sum.splits)
  then obtain r raw where raw: "received_draft r = Inr raw" "d = deduplicated_draft allowed raw" by blast
  obtain x where "mk_grounded_draft x = Inr raw" using raw(1) by (auto simp: received_draft_def split: option.splits)
  then have "list_all normal_block (gd_answer_blocks raw)" by (rule mk_grounded_draft_normal)
  then show ?thesis
    using dedupe_blocks_subset [of allowed "[]" "gd_answer_blocks raw"]
    by (auto simp: raw(2) deduplicated_draft_def list_all_iff)
qed

lemma call_issues_accepted:
  assumes "snd (call_model A p step messages allowed timeout kind callbacks) = Inr (c, usage)"
    and "call_issues A c fallback = []"
  shows "\<exists>d. cr_draft c = Some d \<and> accepted_draft (an_casefold A) (downgraded d)"
proof (cases "cr_draft c")
  case None
  with assms(2) show ?thesis by (simp add: call_issues_def)
next
  case (Some d)
  with assms no_issues_accepted call_model_normal show ?thesis by (auto simp: call_issues_def)
qed

text \<open>What every result of \<open>answer\<close> satisfies: calls are counted, and a draft is accepted.\<close>

definition sound_result :: "answer_env \<Rightarrow> grounded_result \<Rightarrow> bool" where
  "sound_result A g \<longleftrightarrow>
     0 \<le> gr_provider_call_count g \<and> gr_provider_call_count g \<le> (if gr_repair_used g then 2 else 1) \<and>
     gr_repair_calls g = (if gr_repair_used g then 1 else 0) \<and>
     (\<forall>d. gr_draft g = Some d \<longrightarrow> accepted_draft (an_casefold A) d)"

lemma soundI_none:
  "gr_draft g = None \<Longrightarrow> 0 \<le> gr_provider_call_count g \<Longrightarrow>
     gr_provider_call_count g \<le> (if gr_repair_used g then 2 else 1) \<Longrightarrow>
     gr_repair_calls g = (if gr_repair_used g then 1 else 0) \<Longrightarrow> sound_result A g"
  by (simp add: sound_result_def)

lemma repaired_result_sound:
  "0 \<le> n \<Longrightarrow> n \<le> 2 \<Longrightarrow> (\<And>d. draft = Some d \<Longrightarrow> accepted_draft (an_casefold A) d) \<Longrightarrow>
     sound_result A (repaired_result c issues usage n retries draft errors e code)"
  by (simp add: sound_result_def repaired_result_def)

lemma first_result_sound:
  "(\<And>d. draft = Some d \<Longrightarrow> accepted_draft (an_casefold A) d) \<Longrightarrow> sound_result A (first_result usage c draft)"
  by (simp add: sound_result_def first_result_def)

lemma repair_call_sound:
  assumes "repair_call A p query cx deadline kind c usage issues = Inr g"
  shows "sound_result A g"
proof -
  obtain timeout r usage' where t: "remaining_time A deadline (R_Timeout Step_Second) = Inr timeout"
    and r: "snd (call_model A p Step_Second (repair_messages A query cx issues)
      (cx_citation_allowlist cx) timeout kind False) = Inr (r, usage')"
    using assms by (auto simp: repair_call_def split: sum.splits prod.splits)
  have ok: "accepted_draft (an_casefold A) d"
    if "call_issues A r ''repair output is invalid'' = []" "map_option downgraded (cr_draft r) = Some d" for d
    using call_issues_accepted [OF r that(1)] that(2) by auto
  show ?thesis
    using assms ok by (auto simp: repair_call_def t r Let_def intro!: repaired_result_sound split: if_splits)
qed

lemma judge_first_sound:
  assumes "snd (judge_first A p query cx deadline callbacks c usage) = Inr g"
    and "snd (call_model A p Step_First messages allowed timeout kind streaming) = Inr (c, usage)"
  shows "sound_result A g"
proof -
  have ok: "accepted_draft (an_casefold A) d"
    if "call_issues A c ''provider output is invalid'' = []" "map_option downgraded (cr_draft c) = Some d" for d
    using call_issues_accepted [OF assms(2) that(1)] that(2) by auto
  have "sound_result A g" if "repair_first A p query cx deadline c usage issues = Inr g" for issues
    using that by (auto simp: repair_first_def intro: repair_call_sound repaired_result_sound split: if_splits sum.splits)
  then show ?thesis
    using assms(1) ok
    by (auto simp: judge_first_def Let_def first_deadline_result_def
        intro!: first_result_sound soundI_none split: if_splits)
qed

lemma answer_sound:
  assumes "answer A query cx deadline callbacks = (inputs, Inr g)"
  shows "sound_result A g"
proof (cases "an_factory A Step_First ''grounded_answer''")
  case (Inl x)
  then show ?thesis using assms by (auto simp: answer_def no_provider_def Let_def intro!: soundI_none)
next
  case (Inr p)
  then obtain timeout where t: "remaining_time A deadline (R_Timeout Step_First) = Inr timeout"
    using assms by (cases "remaining_time A deadline (R_Timeout Step_First)") (simp_all add: answer_def)
  obtain fed called where called: "call_model A p Step_First (answer_messages A query cx) (cx_citation_allowlist cx)
      timeout Call_Initial callbacks = (fed, called)" by fastforce
  then obtain c usage where c: "called = Inr (c, usage)"
    using assms by (cases called) (auto simp: answer_def Inr t)
  have "snd (judge_first A p query cx deadline callbacks c usage) = Inr g"
    using assms by (auto simp: answer_def Inr t called c split: prod.splits)
  from judge_first_sound [OF this] called c show ?thesis by (metis snd_conv)
qed

lemma repair_sound:
  assumes "repair A query cx issues failed deadline = Inr g"
  shows "0 \<le> gr_provider_call_count g \<and> gr_provider_call_count g \<le> 1 \<and> gr_repair_calls g = 1 \<and>
    (\<forall>d. gr_draft g = Some d \<longrightarrow> accepted_draft (an_casefold A) d)"
proof (cases "an_factory A Step_Local ''grounded_answer''")
  case (Inl x)
  then show ?thesis using assms by (auto simp: repair_def local_result_def)
next
  case (Inr p)
  obtain timeout c usage where t: "remaining_time A deadline (R_Timeout Step_Local) = Inr timeout"
    and c: "snd (call_model A p Step_Local (local_repair_messages A query cx issues failed)
      (cx_citation_allowlist cx) timeout Call_Validation_Repair False) = Inr (c, usage)"
    using assms by (auto simp: repair_def Inr split: sum.splits prod.splits)
  have ok: "accepted_draft (an_casefold A) d"
    if "call_issues A c ''repair output is invalid'' = []" "map_option downgraded (cr_draft c) = Some d" for d
    using call_issues_accepted [OF c that(1)] that(2) by auto
  show ?thesis using assms ok by (auto simp: repair_def Inr t c Let_def local_result_def split: if_splits)
qed

section \<open>The gate\<close>

definition gate_reason :: "(evidence_span \<Rightarrow> bool) \<Rightarrow> trust_kwargs \<Rightarrow> string \<Rightarrow> string option" where
  "gate_reason current k =
     reference_reason current (dict_of sp_citation_id (tk_spans k)) (dict_of ci_citation_id (tk_citations k))"

definition passes_gate :: "(string \<Rightarrow> string option) \<Rightarrow> draft_block \<Rightarrow> bool" where
  "passes_gate reason b \<longleftrightarrow> db_citation_ids b \<noteq> [] \<and> (\<forall>i \<in> set (db_citation_ids b). reason i = None)"

definition strict_block :: "draft_block \<Rightarrow> answer_block" where
  "strict_block b = \<lparr>ab_text = db_text b, ab_citation_ids = fromkeys (db_citation_ids b)\<rparr>"

lemma map_filter_Nil: "List.map_filter f xs = [] \<longleftrightarrow> (\<forall>x \<in> set xs. f x = None)"
  by (induction xs) (auto simp: map_filter_simps split: option.splits)

lemma block_reasons_Nil:
  "block_reasons reason (fromkeys (db_citation_ids b)) = [] \<longleftrightarrow> passes_gate reason b"
  by (auto simp: block_reasons_def passes_gate_def map_filter_Nil)

lemma gate_reason_None:
  assumes "gate_reason current k i = None"
  shows "i \<noteq> [] \<and> (\<exists>sp c. map_of (dict_of sp_citation_id (tk_spans k)) i = Some sp \<and> current sp \<and>
    map_of (dict_of ci_citation_id (tk_citations k)) i = Some c)"
  using assms by (auto simp: gate_reason_def reference_reason_def split: option.splits if_splits)

lemma strict_block_made:
  assumes "normal_block b" and "passes_gate reason b" and "\<And>i. reason i = None \<Longrightarrow> i \<noteq> []"
  shows "mk_answer_block (db_text b) (fromkeys (db_citation_ids b)) = Inr (strict_block b)"
proof -
  have strip: "strip i = i" if "i \<in> set (db_citation_ids b)" for i
    using assms(1) that by (auto simp: normal_block_def map_eq_conv [of strip _ "\<lambda>x. x", simplified])
  have "map strip (fromkeys (db_citation_ids b)) = fromkeys (db_citation_ids b)"
    by (rule map_idI) (simp add: strip)
  moreover have "\<not> list_ex (\<lambda>i. strip i = []) (fromkeys (db_citation_ids b))"
    using assms(2,3) strip by (auto simp: list_ex_iff passes_gate_def)
  ultimately show ?thesis
    using assms(1,2) by (simp add: mk_answer_block_def strict_block_def normal_block_def passes_gate_def)
qed

text \<open>What a pass of the gate writes down for each block.\<close>

definition disposed :: "(string \<Rightarrow> string option) \<Rightarrow> draft_block \<Rightarrow> trust_disposition \<Rightarrow> bool" where
  "disposed reason b d \<longleftrightarrow>
     td_outcome d = (if passes_gate reason b then Block_Allow else Block_Remove) \<and>
     td_reason_codes d = block_reasons reason (fromkeys (db_citation_ids b)) \<and>
     td_accepted_reference_ids d = (if passes_gate reason b then fromkeys (db_citation_ids b) else [])"

lemma review_block_normal:
  assumes "normal_block b" and "\<And>i. reason i = None \<Longrightarrow> i \<noteq> []"
  shows "\<exists>d. review_block P R run_id h reason n b =
      Inr (if passes_gate reason b then Some (strict_block b) else None, d) \<and> disposed reason b d"
proof (cases "passes_gate reason b")
  case True
  then have "block_reasons reason (fromkeys (db_citation_ids b)) = []" by (simp add: block_reasons_Nil)
  with True strict_block_made [OF assms(1) True assms(2)] show ?thesis
    by (simp add: review_block_def Let_def disposed_def)
next
  case False
  then have "block_reasons reason (fromkeys (db_citation_ids b)) \<noteq> []" by (simp add: block_reasons_Nil)
  with False show ?thesis by (simp add: review_block_def Let_def disposed_def)
qed

lemma review_blocks_normal:
  assumes "list_all normal_block bs" and "\<And>i. reason i = None \<Longrightarrow> i \<noteq> []"
  shows "\<exists>ds. review_blocks P R run_id h reason n bs = Inr (map strict_block (filter (passes_gate reason) bs), ds) \<and>
    list_all2 (disposed reason) bs ds"
  using assms(1)
proof (induction bs arbitrary: n)
  case (Cons b bs)
  obtain ds where ds: "review_blocks P R run_id h reason (n + 1) bs =
      Inr (map strict_block (filter (passes_gate reason) bs), ds)" "list_all2 (disposed reason) bs ds"
    using Cons by fastforce
  have "normal_block b" using Cons.prems by simp
  from review_block_normal [OF this assms(2)] obtain d where
    "review_block P R run_id h reason n b = Inr (if passes_gate reason b then Some (strict_block b) else None, d)"
    "disposed reason b d" by blast
  with ds show ?case by (cases "passes_gate reason b") simp_all
qed simp

text \<open>The citations a gate publishes: the mapped ones that a surviving block uses, in order.\<close>

definition used_citations :: "trust_kwargs \<Rightarrow> answer_block list \<Rightarrow> citation list" where
  "used_citations k blocks =
     map snd (filter (\<lambda>(i, c). i \<in> set (cited_ids blocks)) (dict_of ci_citation_id (tk_citations k)))"

definition gate_result ::
  "(notice \<Rightarrow> string) \<Rightarrow> (string \<Rightarrow> string option) \<Rightarrow> trust_kwargs \<Rightarrow> draft_block list \<Rightarrow> trusted_answer \<Rightarrow> bool"
where
  "gate_result say reason k bs t \<longleftrightarrow>
     (let kept = map strict_block (filter (passes_gate reason) bs); hidden = length bs - length kept in
      ta_answer_blocks t = kept \<and> ta_citations t = used_citations k kept \<and>
      list_all2 (disposed reason) bs (ts_dispositions (ta_summary t)) \<and>
      (if kept = []
       then ta_status t = Status_Insufficient \<and> ta_execution_outcome t = O_Claim_Support_Insufficient \<and>
         ta_termination_reason t = T_Claim_Support_Insufficient \<and>
         ta_limitations t = fromkeys (tk_limitations k @ [say N_All_Hidden])
       else ta_status t = (if hidden \<noteq> 0 \<or> tk_status k = Status_Partial then Status_Partial else tk_status k) \<and>
         ta_execution_outcome t = O_Answer_Generated \<and> ta_termination_reason t = tk_termination_reason k \<and>
         ta_limitations t = fromkeys (tk_limitations k @ (if hidden = 0 then [] else [say (N_Hidden_Blocks hidden)]))))"

lemma emit_log: "emit sink seen e = Inr seen1 \<Longrightarrow> seen1 = seen @ (if sink = None then [] else [(e, True)])"
  by (auto simp: emit_def ebind_eq_Inr split: option.splits)

lemma used_citations_Nil [simp]: "used_citations k [] = []"
  by (simp add: used_citations_def cited_ids_def)

text \<open>The two events of a pass, when it has a sink.\<close>

definition gate_events :: "event_sink option \<Rightarrow> trusted_answer \<Rightarrow> event_log \<Rightarrow> bool" where
  "gate_events sink t new \<longleftrightarrow>
     (case sink of
        None \<Rightarrow> new = []
      | Some f \<Rightarrow> \<exists>h n e. new = [(Trust_Started h n, True), (e, True)] \<and>
          (if ta_answer_blocks t = [] then e = Trust_Failed h (ta_execution_outcome t) (ta_summary t)
           else e = Trust_Passed h (ta_status t) (length (ta_answer_blocks t)) (map ci_citation_id (ta_citations t))
                      (ta_summary t)))"

lemma gate_eventsI:
  assumes "emit sink seen (Trust_Started h n) = Inr s1" and "emit sink s1 e = Inr s2"
    and "if ta_answer_blocks t = [] then e = Trust_Failed h (ta_execution_outcome t) (ta_summary t)
         else e = Trust_Passed h (ta_status t) (length (ta_answer_blocks t)) (map ci_citation_id (ta_citations t))
                    (ta_summary t)"
  shows "\<exists>new. s2 = seen @ new \<and> gate_events sink t new"
proof (cases sink)
  case None
  with emit_log [OF assms(1)] emit_log [OF assms(2)] show ?thesis by (simp add: gate_events_def)
next
  case (Some f)
  with emit_log [OF assms(1)] emit_log [OF assms(2)]
  have "s2 = seen @ [(Trust_Started h n, True), (e, True)]" by simp
  moreover have "gate_events sink t [(Trust_Started h n, True), (e, True)]"
    using Some assms(3) by (auto simp: gate_events_def)
  ultimately show ?thesis by blast
qed

lemma apply_answer_trust_gate:
  assumes "apply_answer_trust P R say k bs current sink seen = Inr (t, seen1)" and "list_all normal_block bs"
  shows "gate_result say (gate_reason current k) k bs t \<and> (\<exists>new. seen1 = seen @ new \<and> gate_events sink t new)"
proof -
  define h where "h = value_identity P R (answer_snapshot k bs)"
  have ids: "\<And>i. gate_reason current k i = None \<Longrightarrow> i \<noteq> []" using gate_reason_None by blast
  obtain ds where ds: "review_blocks P R (tk_run_id k) h (gate_reason current k) 0 bs =
      Inr (map strict_block (filter (passes_gate (gate_reason current k)) bs), ds)"
      "list_all2 (disposed (gate_reason current k)) bs ds"
    using review_blocks_normal [OF assms(2) ids] by blast
  define kept where "kept = map strict_block (filter (passes_gate (gate_reason current k)) bs)"
  obtain s1 where s1: "emit sink seen (Trust_Started h (length bs)) = Inr s1"
    using assms(1) by (auto simp: apply_answer_trust_def Let_def h_def ebind_eq_Inr)
  note run = assms(1) [unfolded apply_answer_trust_def Let_def, folded h_def, unfolded s1 ebind_Inr
      gate_reason_def [symmetric] ds(1) kept_def [symmetric] prod.case]
  show ?thesis
  proof (cases "kept = []")
    case True
    then have t: "gate_result say (gate_reason current k) k bs t" and
      e: "emit sink s1 (Trust_Failed h (ta_execution_outcome t) (ta_summary t)) = Inr seen1" "ta_answer_blocks t = []"
      using run ds(2)
      by (auto simp: trust_insufficient_def failed_verifier_def ebind_eq_Inr gate_result_def kept_def [symmetric] Let_def)
    then show ?thesis using gate_eventsI [OF s1 e(1)] by simp
  next
    case False
    then have t: "gate_result say (gate_reason current k) k bs t" and
      e: "emit sink s1 (Trust_Passed h (ta_status t) (length (ta_answer_blocks t))
            (map ci_citation_id (ta_citations t)) (ta_summary t)) = Inr seen1" "ta_answer_blocks t \<noteq> []"
      using run ds(2)
      by (auto simp: ebind_eq_Inr gate_result_def kept_def [symmetric] used_citations_def Let_def)
    then show ?thesis using gate_eventsI [OF s1 e(1)] by simp
  qed
qed

text \<open>A sink that takes every event, or none.\<close>

definition accepting :: "event_sink option \<Rightarrow> bool" where
  "accepting sink \<longleftrightarrow> (case sink of None \<Rightarrow> True | Some f \<Rightarrow> \<forall>n e. f n e = Inr ())"

lemma emit_accepting:
  "accepting sink \<Longrightarrow> emit sink seen e = Inr (seen @ (if sink = None then [] else [(e, True)]))"
  by (auto simp: accepting_def emit_def split: option.splits)

lemma apply_answer_trust_total:
  assumes "accepting sink" and "list_all normal_block bs"
  shows "\<exists>t seen1. apply_answer_trust P R say k bs current sink seen = Inr (t, seen1)"
proof -
  define h where "h = value_identity P R (answer_snapshot k bs)"
  have ids: "\<And>i. gate_reason current k i = None \<Longrightarrow> i \<noteq> []" using gate_reason_None by blast
  obtain ds where ds: "review_blocks P R (tk_run_id k) h (gate_reason current k) 0 bs =
      Inr (map strict_block (filter (passes_gate (gate_reason current k)) bs), ds)"
    using review_blocks_normal [OF assms(2) ids] by blast
  define kept where "kept = map strict_block (filter (passes_gate (gate_reason current k)) bs)"
  show ?thesis
    unfolding apply_answer_trust_def Let_def h_def [symmetric] emit_accepting [OF assms(1)] ebind_Inr
      gate_reason_def [symmetric] ds kept_def [symmetric] prod.case
    by (cases "kept = []") (simp_all add: trust_insufficient_def Let_def failed_verifier_def emit_accepting [OF assms(1)])
qed

section \<open>The local repair\<close>

text \<open>What a patched list of blocks keeps: the texts, and every block that had not failed.\<close>

definition patched :: "string list \<Rightarrow> nat list \<Rightarrow> draft_block list \<Rightarrow> draft_block list \<Rightarrow> bool" where
  "patched allowed failed blocks bs \<longleftrightarrow>
     map db_text bs = map db_text blocks \<and>
     (\<forall>i < length blocks. bs ! i = blocks ! i \<or>
        i \<in> set failed \<and> set (db_citation_ids (blocks ! i)) \<inter> set allowed \<subseteq> set (db_citation_ids (bs ! i)) \<and>
        set (db_citation_ids (bs ! i)) \<subseteq> set allowed \<and> db_citation_ids (bs ! i) \<noteq> [])"

lemma patched_refl: "patched allowed failed blocks blocks"
  by (simp add: patched_def)

lemma patched_length: "patched allowed failed blocks bs \<Longrightarrow> length bs = length blocks"
  unfolding patched_def by (metis length_map)

lemma patch_block_cases:
  assumes "map_of originals (db_text p) = Some i"
  shows "patch_block allowed originals p bs = bs \<or>
    patch_block allowed originals p bs = bs[i := p] \<and> db_citation_ids p \<noteq> [] \<and>
    set (db_citation_ids p) \<subseteq> set allowed \<and> set (db_citation_ids (bs ! i)) \<inter> set allowed \<subseteq> set (db_citation_ids p)"
  by (simp add: patch_block_def Let_def assms)

lemma patch_block_patched:
  assumes "patched allowed failed blocks bs" and "map_of (originals_of blocks failed) (db_text p) = Some i"
    and "set failed \<subseteq> {..<length blocks}"
  shows "patched allowed failed blocks (patch_block allowed (originals_of blocks failed) p bs)"
proof (cases "patch_block allowed (originals_of blocks failed) p bs = bs")
  case True
  with assms(1) show ?thesis by simp
next
  case False
  note changed = patch_block_cases [OF assms(2), of allowed bs]
  have i: "i \<in> set failed" "db_text (blocks ! i) = db_text p" "i < length blocks"
    using dict_of_entry [OF assms(2) [unfolded originals_of_def]] assms(3) by auto
  note len = patched_length [OF assms(1)]
  have texts: "map db_text bs = map db_text blocks" using assms(1) by (simp add: patched_def)
  then have "db_text (bs ! i) = db_text p" using i len by (metis nth_map)
  then have "map db_text (bs[i := p]) = map db_text blocks"
    using texts i len by (metis list_update_id map_update nth_map)
  moreover have "set (db_citation_ids (blocks ! i)) \<inter> set allowed \<subseteq> set (db_citation_ids (bs ! i)) \<inter> set allowed"
    using assms(1) i(3) by (auto simp: patched_def)
  ultimately show ?thesis
    using assms(1) changed False i len by (auto simp: patched_def nth_list_update)
qed

lemma patch_blocks_patched:
  assumes "patched allowed failed blocks bs" and "\<And>p. p \<in> set ps \<Longrightarrow> map_of (originals_of blocks failed) (db_text p) \<noteq> None"
    and "set failed \<subseteq> {..<length blocks}"
  shows "patched allowed failed blocks (fold (patch_block allowed (originals_of blocks failed)) ps bs)"
  using assms(1,2)
proof (induction ps arbitrary: bs)
  case (Cons p ps)
  obtain i where "map_of (originals_of blocks failed) (db_text p) = Some i" using Cons.prems(2) [of p] by auto
  from Cons.IH [OF patch_block_patched [OF Cons.prems(1) this assms(3)]] Cons.prems(2) show ?case by simp
qed simp

lemma patch_blocks_normal:
  assumes "list_all normal_block bs" and "list_all normal_block ps"
  shows "list_all normal_block (fold (patch_block allowed originals) ps bs)"
  using assms
proof (induction ps arbitrary: bs)
  case (Cons p ps)
  have "list_all normal_block (patch_block allowed originals p bs)"
    using Cons.prems set_update_subset_insert [of bs _ p]
    by (fastforce simp: patch_block_def Let_def list_all_iff)
  with Cons show ?case by simp
qed simp

lemma failed_indices_bound: "set (failed_indices ds) \<subseteq> {..<length ds}"
  by (auto simp: failed_indices_def)

lemma local_repair_patched:
  assumes "local_repair F q cx ds failed blocks trace = (bs, t, notes)" and "list_all normal_block blocks"
    and "set failed \<subseteq> {..<length blocks}"
  shows "patched (cx_citation_allowlist cx) failed blocks bs \<and> list_all normal_block bs"
proof (cases "bs = blocks")
  case True
  with assms(2) patched_refl show ?thesis by simp
next
  case False
  obtain g d where g: "repair (fz_env F) (fq_query q) cx (repair_issues ds failed) (map ((!) blocks) failed)
      (Some (case fq_deadline q of None \<Rightarrow> repair_cap F | Some d \<Rightarrow> min d (repair_cap F))) = Inr g"
    and d: "gr_draft g = Some d"
      "patched_blocks (cx_citation_allowlist cx) failed (gd_answer_blocks d) blocks = Some bs"
    using assms(1) False
    by (auto simp: local_repair_def Let_def split: sum.splits option.splits if_splits)
  have normal: "list_all normal_block (gd_answer_blocks d)"
    using repair_sound [OF g] d(1) by (auto simp: accepted_draft_def)
  have bs: "bs = fold (patch_block (cx_citation_allowlist cx) (originals_of blocks failed)) (gd_answer_blocks d) blocks"
    and known: "\<And>p. p \<in> set (gd_answer_blocks d) \<Longrightarrow> map_of (originals_of blocks failed) (db_text p) \<noteq> None"
    using d(2) by (auto simp: patched_blocks_def Let_def list_ex_iff split: if_splits)
  show ?thesis
    unfolding bs using patch_blocks_patched [OF patched_refl known assms(3)] patch_blocks_normal [OF assms(2) normal]
    by blast
qed

lemma citation_repair_patched:
  assumes "citation_repair F q cx g ds blocks trace = (attempted, bs, t, notes)" and "list_all normal_block blocks"
    and "length ds = length blocks"
  shows "patched (cx_citation_allowlist cx) (failed_indices ds) blocks bs \<and> list_all normal_block bs"
proof -
  have bound: "set (failed_indices ds) \<subseteq> {..<length blocks}" using failed_indices_bound [of ds] assms(3) by simp
  show ?thesis
    using assms(1,2) local_repair_patched [OF _ assms(2) bound] patched_refl
    by (auto simp: citation_repair_def Let_def split: if_splits prod.splits)
qed

section \<open>Publishing\<close>

text \<open>
  What a published answer is: the result of a pass of the gate over blocks that differ from those of
  the accepted draft in the citations of failed blocks only.
\<close>

definition gate_kwargs :: "finalizer \<Rightarrow> finalize_request \<Rightarrow> context_result \<Rightarrow> grounded_draft \<Rightarrow> trust_kwargs \<Rightarrow> bool" where
  "gate_kwargs F q cx d k \<longleftrightarrow>
     tk_spans k = cx_spans cx \<and> emap as_citation (cx_spans cx) = Inr (tk_citations k) \<and>
     (\<exists>limitations. merge_answer_gaps (an_runtime (fz_env F)) (an_say (fz_env F)) (gd_status d) (gd_limitations d)
         (fq_decision_projection q) = Inr (tk_status k, limitations) \<and>
       tk_limitations k = limitations @ (if cx_truncated cx then [an_say (fz_env F) N_Truncated] else [])) \<and>
     tk_termination_reason k = fq_termination_reason q"

definition publishes ::
  "finalizer \<Rightarrow> finalize_request \<Rightarrow> context_result \<Rightarrow> grounded_draft \<Rightarrow> trust_pass \<Rightarrow> trust_kwargs \<Rightarrow> draft_block list
    \<Rightarrow> finalized_answer \<Rightarrow> trusted_answer \<Rightarrow> bool"
where
  "publishes F q cx d pass k bs a t \<longleftrightarrow>
     gate_kwargs F q cx d k \<and> pass \<in> {Pass_Preflight, Pass_Final} \<and> list_all normal_block bs \<and>
     map db_text bs = map db_text (gd_answer_blocks d) \<and>
     gate_result (an_say (fz_env F)) (gate_reason (an_current (fz_env F) pass) k) k bs t \<and>
     fa_status a = ta_status t \<and> fa_execution_outcome a = ta_execution_outcome t \<and>
     fa_answer_blocks a = ta_answer_blocks t \<and> fa_citations a = ta_citations t \<and>
     fa_limitations a = ta_limitations t \<and> fa_termination_reason a = ta_termination_reason t \<and>
     fa_intro a = (if ta_answer_blocks t = [] then None else gd_intro d) \<and>
     fa_outro a = (if ta_answer_blocks t = [] then None else gd_outro d)"

lemma publish_facts:
  assumes "publish F q evidence cx trace seen g d = Inr (a, seen2)" and "list_all normal_block (gd_answer_blocks d)"
  shows "\<exists>pass k bs t new. publishes F q cx d pass k bs a t \<and> seen2 = seen @ new \<and>
    gate_events (fq_event_sink q) t new \<and> (\<not> needs_repair cx (gd_answer_blocks d) \<longrightarrow> bs = gd_answer_blocks d)"
proof -
  define A blocks where defs: "A = fz_env F" "blocks = gd_answer_blocks d"
  obtain status limitations where gaps: "merge_answer_gaps (an_runtime A) (an_say A) (gd_status d) (gd_limitations d)
      (fq_decision_projection q) = Inr (status, limitations)"
    using assms(1) by (auto simp: publish_def Let_def ebind_eq_Inr defs)
  obtain citations where citations: "emap as_citation (cx_spans cx) = Inr citations"
    using assms(1) by (auto simp: publish_def Let_def ebind_eq_Inr)
  define k where "k = \<lparr>tk_run_id = fq_run_id q, tk_citations = citations, tk_spans = cx_spans cx, tk_status = status,
      tk_limitations = limitations @ (if cx_truncated cx then [an_say A N_Truncated] else []),
      tk_termination_reason = fq_termination_reason q, tk_intro = gd_intro d, tk_outro = gd_outro d\<rparr>"
  have kwargs: "gate_kwargs F q cx d k" using gaps citations by (simp add: gate_kwargs_def k_def defs)
  define may where "may = (\<not> gr_repair_used g \<and> needs_repair cx blocks \<and> time_left F q R_May_Repair)"
  note run = assms(1) [unfolded publish_def Let_def, folded defs, unfolded gaps citations ebind_Inr prod.case,
      folded k_def may_def]
  obtain pre seen1 where pre: "apply_answer_trust (an_platform A) (an_runtime A) (an_say A) k blocks
      (an_current A Pass_Preflight) (if may then None else fq_event_sink q) seen = Inr (pre, seen1)"
    using run by (auto simp: ebind_eq_Inr)
  have normal: "list_all normal_block blocks" using assms(2) by (simp add: defs)
  note gate = apply_answer_trust_gate [OF pre normal]
  define ds where "ds = ts_dispositions (ta_summary pre)"
  obtain attempted blocks1 trace1 hints where
    rep: "citation_repair F q cx g ds blocks trace = (attempted, blocks1, trace1, hints)" by (cases "citation_repair F q cx g ds blocks trace")
  have "length ds = length blocks" using gate by (auto simp: gate_result_def Let_def ds_def dest: list_all2_lengthD)
  note repaired = citation_repair_patched [OF rep normal this]
  note rest = run [unfolded pre ebind_Inr prod.case, folded ds_def, unfolded rep prod.case]
  show ?thesis
  proof (cases may)
    case False
    with rest gate kwargs normal show ?thesis
      by (intro exI [of _ Pass_Preflight] exI [of _ k] exI [of _ blocks] exI [of _ pre])
         (auto simp: publishes_def defs)
  next
    case True
    then obtain t where t: "apply_answer_trust (an_platform A) (an_runtime A) (an_say A) k blocks1
        (an_current A Pass_Final) (fq_event_sink q) seen1 = Inr (t, seen2)"
      using rest by (auto simp: ebind_eq_Inr)
    have "seen1 = seen" using gate True by (auto simp: gate_events_def)
    moreover note gate1 = apply_answer_trust_gate [OF t conjunct2 [OF repaired]]
    moreover have "map db_text blocks1 = map db_text blocks" using repaired by (simp add: patched_def)
    ultimately show ?thesis using rest t True kwargs repaired
      by (intro exI [of _ Pass_Final] exI [of _ k] exI [of _ blocks1] exI [of _ t])
         (auto simp: publishes_def defs may_def)
  qed
qed

lemma publish_total:
  assumes "merge_answer_gaps (an_runtime (fz_env F)) (an_say (fz_env F)) (gd_status d) (gd_limitations d)
      (fq_decision_projection q) = Inr st" and "emap as_citation (cx_spans cx) = Inr citations"
    and "list_all normal_block (gd_answer_blocks d)" and "accepting (fq_event_sink q)"
  shows "\<exists>a seen1. publish F q n cx trace seen g d = Inr (a, seen1)"
proof -
  define A blocks where defs: "A = fz_env F" "blocks = gd_answer_blocks d"
  obtain status limitations where st: "st = (status, limitations)" by fastforce
  define k where "k = \<lparr>tk_run_id = fq_run_id q, tk_citations = citations, tk_spans = cx_spans cx, tk_status = status,
      tk_limitations = limitations @ (if cx_truncated cx then [an_say A N_Truncated] else []),
      tk_termination_reason = fq_termination_reason q, tk_intro = gd_intro d, tk_outro = gd_outro d\<rparr>"
  define may where "may = (\<not> gr_repair_used g \<and> needs_repair cx blocks \<and> time_left F q R_May_Repair)"
  have normal: "list_all normal_block blocks" using assms(3) by (simp add: defs)
  have first: "accepting (if may then None else fq_event_sink q)" using assms(4) by (simp add: accepting_def)
  obtain pre seen1 where pre: "apply_answer_trust (an_platform A) (an_runtime A) (an_say A) k blocks
      (an_current A Pass_Preflight) (if may then None else fq_event_sink q) seen = Inr (pre, seen1)"
    using apply_answer_trust_total [OF first normal] by blast
  define ds where "ds = ts_dispositions (ta_summary pre)"
  have len: "length ds = length blocks"
    using apply_answer_trust_gate [OF pre normal] by (auto simp: gate_result_def Let_def ds_def dest: list_all2_lengthD)
  obtain attempted blocks1 trace1 hints where
    rep: "citation_repair F q cx g ds blocks trace = (attempted, blocks1, trace1, hints)" by (cases "citation_repair F q cx g ds blocks trace")
  have "list_all normal_block blocks1" using citation_repair_patched [OF rep normal len] by simp
  then obtain t seen2 where "apply_answer_trust (an_platform A) (an_runtime A) (an_say A) k blocks1
      (an_current A Pass_Final) (fq_event_sink q) seen1 = Inr (t, seen2)"
    using apply_answer_trust_total [OF assms(4)] by blast
  then show ?thesis
    unfolding publish_def Let_def defs [symmetric] assms(1) [unfolded st, folded defs] assms(2) ebind_Inr prod.case
      k_def [symmetric] may_def [symmetric] pre ds_def [symmetric] rep
    by (cases may) simp_all
qed

section \<open>The branches of the finalizer\<close>

definition withheld :: "finalized_answer \<Rightarrow> bool" where
  "withheld a \<longleftrightarrow> fa_status a = Status_Insufficient \<and> fa_answer_blocks a = [] \<and> fa_citations a = [] \<and>
     fa_intro a = None \<and> fa_outro a = None \<and>
     fa_execution_outcome a \<in> {O_Evidence_Insufficient, O_Generation_Failed, O_Evidence_Unavailable}"

lemma withheld_insufficient [simp]:
  "withheld (insufficient ls outcome r n trace k truncated used) \<longleftrightarrow>
     outcome \<in> {O_Evidence_Insufficient, O_Generation_Failed, O_Evidence_Unavailable}"
  by (simp add: withheld_def insufficient_def)

definition answer_context :: "finalizer \<Rightarrow> finalize_request \<Rightarrow> context_result \<Rightarrow> bool" where
  "answer_context F q cx \<longleftrightarrow>
     (case fq_prepared_context q of
        Some c \<Rightarrow> cx = c
      | None \<Rightarrow> \<exists>fused. fuse_evidence (an_runtime (fz_env F)) (an_rnd (fz_env F)) (fq_spans q) = Inr fused \<and>
          build_context (an_platform (fz_env F)) (an_runtime (fz_env F)) (fz_builder F) (fq_query q)
            (fq_normalized_intent q) fused = Inr cx)"

lemma finalize_cases:
  assumes "finalize F q = Inr (a, seen)"
  shows "withheld a \<and> seen = [] \<or>
    (\<exists>cx. answer_context F q cx \<and> cx_spans cx \<noteq> [] \<and>
       (withheld a \<and> seen = preview_evidence q cx \<or>
        (\<exists>n trace. generate_answer F q n cx trace (preview_evidence q cx) = Inr (a, seen))))"
proof (cases "fq_prepared_context q")
  case (Some cx)
  then show ?thesis using assms
    by (cases "cx_spans cx = []")
       (auto simp: finalize_def Let_def without_evidence_def answer_context_def split: if_splits)
next
  case None
  then obtain fused where fused: "fuse_evidence (an_runtime (fz_env F)) (an_rnd (fz_env F)) (fq_spans q) = Inr fused"
    using assms by (auto simp: finalize_def Let_def ebind_eq_Inr)
  show ?thesis
  proof (cases "fused = []")
    case True
    then show ?thesis using assms
      by (auto simp: finalize_def Let_def None fused without_evidence_def split: if_splits)
  next
    case False
    then obtain cx where cx: "build_context (an_platform (fz_env F)) (an_runtime (fz_env F)) (fz_builder F) (fq_query q)
        (fq_normalized_intent q) fused = Inr cx"
      using assms by (auto simp: finalize_def Let_def None fused ebind_eq_Inr)
    then have "answer_context F q cx" using None fused by (simp add: answer_context_def)
    then show ?thesis using assms False
      by (cases "cx_spans cx = []") (auto simp: finalize_def Let_def None fused cx split: if_splits)
  qed
qed

lemma generate_cases:
  assumes "generate_answer F q n cx trace seen = Inr (a, seen1)"
  shows "(\<exists>inputs first last' s. withheld a \<and> (first \<or> last') \<and>
      streamed (delivery_config_of F q cx) inputs first last' seen = (s, seen1)) \<or>
    (\<exists>inputs g d s seen0 trace1. answer (fz_env F) (fq_query q) cx (fq_deadline q) (delivery_config_of F q cx \<noteq> None)
        = (inputs, Inr g) \<and> gr_draft g = Some d \<and> gd_status d \<noteq> Status_Insufficient \<and>
      streamed (delivery_config_of F q cx) inputs False False seen = (s, seen0) \<and>
      trace1 = trace_update (answer_trace g) (trace_update s trace) \<and>
      publish F q n cx trace1 seen0 g d = Inr (a, seen1))"
proof -
  let ?C = "delivery_config_of F q cx"
  obtain inputs answered where ans: "answer (fz_env F) (fq_query q) cx (fq_deadline q) (?C \<noteq> None) = (inputs, answered)"
    by fastforce
  have kept_back: ?thesis if "withheld a" "first \<or> last'" "streamed ?C inputs first last' seen = (s, seen1)" for first last' s
    by (rule disjI1, rule exI [of _ inputs], rule exI [of _ first], rule exI [of _ last'], rule exI [of _ s])
       (use that in simp)
  show ?thesis
  proof (cases answered)
    case (Inl x)
    with assms ans have "withheld a \<and> (\<exists>s. streamed ?C inputs True False seen = (s, seen1))"
      by (auto simp: generate_answer_def Let_def split: prod.splits)
    then show ?thesis using kept_back [of True False] by auto
  next
    case (Inr g)
    show ?thesis
    proof (cases "gr_draft g")
      case None
      obtain s seen0 where s: "streamed ?C inputs False True seen = (s, seen0)" by fastforce
      have "(failed_draft F q cx (trace_update (answer_trace g) (trace_update s trace)) g, seen0) = (a, seen1)"
        using assms unfolding generate_answer_def Let_def ans Inr prod.case sum.case None option.case s sum.inject by -
      then have "withheld a \<and> streamed ?C inputs False True seen = (s, seen1)"
        using s by (auto simp: failed_draft_def)
      then show ?thesis using kept_back [of False True] by auto
    next
      case (Some d)
      show ?thesis
      proof (cases "gd_status d = Status_Insufficient")
        case True
        obtain s seen0 where s: "streamed ?C inputs False True seen = (s, seen0)" by fastforce
        have "withheld a \<and> streamed ?C inputs False True seen = (s, seen1)"
          using assms ans Inr Some s True by (auto simp: generate_answer_def Let_def insufficient_draft_def ebind_eq_Inr)
        then show ?thesis using kept_back [of False True] by auto
      next
        case False
        obtain s seen0 where "streamed ?C inputs False False seen = (s, seen0)" by fastforce
        with assms ans Inr Some False show ?thesis
          by (auto simp: generate_answer_def Let_def)
      qed
    qed
  qed
qed

text \<open>A finalized answer is withheld, or published from an accepted draft.\<close>

lemma finalize_published:
  assumes "finalize F q = Inr (a, seen)" and "\<not> withheld a"
  shows "\<exists>cx inputs g d pass k bs t. answer_context F q cx \<and>
    answer (fz_env F) (fq_query q) cx (fq_deadline q) (delivery_config_of F q cx \<noteq> None) = (inputs, Inr g) \<and>
    gr_draft g = Some d \<and> accepted_draft (an_casefold (fz_env F)) d \<and> gd_status d \<noteq> Status_Insufficient \<and>
    publishes F q cx d pass k bs a t"
proof -
  obtain cx n trace where cx: "answer_context F q cx"
    and gen: "generate_answer F q n cx trace (preview_evidence q cx) = Inr (a, seen)"
    using finalize_cases [OF assms(1)] assms(2) by blast
  obtain inputs g d s seen0 trace1 where g: "answer (fz_env F) (fq_query q) cx (fq_deadline q)
      (delivery_config_of F q cx \<noteq> None) = (inputs, Inr g)" "gr_draft g = Some d" "gd_status d \<noteq> Status_Insufficient"
    and pub: "publish F q n cx trace1 seen0 g d = Inr (a, seen)"
    using generate_cases [OF gen] assms(2) by blast
  have ok: "accepted_draft (an_casefold (fz_env F)) d" using answer_sound [OF g(1)] g(2) by (simp add: sound_result_def)
  then have "list_all normal_block (gd_answer_blocks d)" by (simp add: accepted_draft_def)
  from publish_facts [OF pub this] cx g ok show ?thesis by blast
qed

section \<open>Published blocks\<close>

lemma dict_of_map:
  "dict_of g (map f xs) = map (\<lambda>(k, x). (k, f x)) (dict_of (\<lambda>x. g (f x)) xs)"
proof -
  have upd: "AList.update k (f x) (map (\<lambda>(k, x). (k, f x)) d) = map (\<lambda>(k, x). (k, f x)) (AList.update k x d)"
    for k x d by (induction d) auto
  have "fold (\<lambda>x d. AList.update (g x) x d) (map f xs) (map (\<lambda>(k, x). (k, f x)) d) =
      map (\<lambda>(k, x). (k, f x)) (fold (\<lambda>x d. AList.update (g (f x)) x d) xs d)" for d
    by (induction xs arbitrary: d) (simp_all add: upd)
  from this [of "[]"] show ?thesis by (simp add: dict_of_def)
qed

lemma distinct_dict_of: "distinct (map fst (dict_of key xs))"
proof -
  have "distinct (map fst (fold (\<lambda>x d. AList.update (key x) x d) xs d))" if "distinct (map fst d)" for d
    using that by (induction xs arbitrary: d) (simp_all add: distinct_update)
  then show ?thesis by (simp add: dict_of_def)
qed

lemma as_citation_id: "as_citation s = Inr c \<Longrightarrow> ci_citation_id c = sp_citation_id s"
  by (auto simp: as_citation_def Let_def split: if_splits)

lemma as_citation_rel:
  assumes "emap as_citation spans = Inr citations"
  shows "citations = map (\<lambda>s. projr (as_citation s)) spans" and "s \<in> set spans \<Longrightarrow> as_citation s = Inr (projr (as_citation s))"
proof -
  have "map as_citation spans = map Inr citations" using assms by (simp add: emap_eq_Inr)
  then have "map projr (map as_citation spans) = citations" by (simp add: comp_def)
  then show "citations = map (\<lambda>s. projr (as_citation s)) spans" by (simp add: comp_def)
  show "as_citation s = Inr (projr (as_citation s))" if "s \<in> set spans"
  proof -
    have "as_citation s \<in> set (map Inr citations)"
      using that \<open>map as_citation spans = map Inr citations\<close> by (metis image_eqI set_map)
    then show ?thesis by auto
  qed
qed

lemma map_of_map_snd: "map_of (map (\<lambda>(k, x). (k, f x)) d) i = map_option f (map_of d i)"
  by (induction d) auto

text \<open>The gate is given spans with their citations.\<close>

definition cites :: "evidence_span list \<Rightarrow> trust_kwargs \<Rightarrow> bool" where
  "cites spans k \<longleftrightarrow> tk_spans k = spans \<and> emap as_citation spans = Inr (tk_citations k)"

lemma gate_kwargs_cites: "gate_kwargs F q cx d k \<Longrightarrow> cites (cx_spans cx) k"
  by (simp add: gate_kwargs_def cites_def)

text \<open>A reference that passes: its span is given and accepted, and its citation is published.\<close>

lemma passing_reference:
  assumes "cites spans k" and "gate_reason current k i = None"
  shows "\<exists>sp c. sp \<in> set spans \<and> sp_citation_id sp = i \<and> current sp \<and> as_citation sp = Inr c \<and>
    (i, c) \<in> set (dict_of ci_citation_id (tk_citations k)) \<and> ci_citation_id c = i"
proof -
  have spans: "tk_spans k = spans" and cits: "emap as_citation spans = Inr (tk_citations k)"
    using assms(1) by (auto simp: cites_def)
  obtain sp c where sp: "map_of (dict_of sp_citation_id spans) i = Some sp" "current sp"
    and c: "map_of (dict_of ci_citation_id (tk_citations k)) i = Some c"
    using gate_reason_None [OF assms(2)] spans by auto
  note entry = dict_of_entry [OF sp(1)]
  let ?f = "\<lambda>s. projr (as_citation s)"
  have keys: "map_of (dict_of (\<lambda>s. ci_citation_id (?f s)) spans) i = Some sp"
  proof -
    have "find (\<lambda>s. ci_citation_id (?f s) = i) (rev spans) = find (\<lambda>s. sp_citation_id s = i) (rev spans)"
      by (rule find_cong) (use as_citation_rel(2) [OF cits] as_citation_id in auto)
    with sp(1) show ?thesis by (simp add: map_of_dict_of)
  qed
  have "map_of (dict_of ci_citation_id (tk_citations k)) i = Some (?f sp)"
    unfolding as_citation_rel(1) [OF cits] dict_of_map map_of_map_snd keys by simp
  with c have "c = ?f sp" by simp
  moreover have "as_citation sp = Inr (?f sp)" using as_citation_rel(2) [OF cits] entry by simp
  moreover have "(i, c) \<in> set (dict_of ci_citation_id (tk_citations k))" using c by (rule map_of_SomeD)
  ultimately show ?thesis using entry sp(2) dict_of_entry [OF c] by auto
qed

lemma used_citations_ids: "map ci_citation_id (used_citations k blocks) =
    filter (\<lambda>i. i \<in> set (cited_ids blocks)) (map fst (dict_of ci_citation_id (tk_citations k)))"
proof -
  have "ci_citation_id c = i" if "(i, c) \<in> set (dict_of ci_citation_id (tk_citations k))" for i c
    using dict_of_entry [of ci_citation_id "tk_citations k" i c] that distinct_dict_of [of ci_citation_id "tk_citations k"]
    by simp
  then have "map ci_citation_id (map snd (filter (\<lambda>(i, c). P i) d)) = filter P (map fst d)"
    if "set d \<subseteq> set (dict_of ci_citation_id (tk_citations k))" for P d
    using that by (induction d) auto
  then show ?thesis by (simp add: used_citations_def)
qed

lemma published_citations:
  assumes "cites spans k" and "gate_result say (gate_reason current k) k bs t"
  shows "distinct (map ci_citation_id (ta_citations t))"
    and "set (map ci_citation_id (ta_citations t)) = set (cited_ids (ta_answer_blocks t))"
    and "b \<in> set (ta_answer_blocks t) \<Longrightarrow> ab_citation_ids b \<noteq> [] \<and> distinct (ab_citation_ids b)"
    and "b \<in> set (ta_answer_blocks t) \<Longrightarrow> i \<in> set (ab_citation_ids b) \<Longrightarrow>
      \<exists>sp c. sp \<in> set spans \<and> sp_citation_id sp = i \<and> current sp \<and> as_citation sp = Inr c \<and> c \<in> set (ta_citations t)"
proof -
  have t: "ta_answer_blocks t = map strict_block (filter (passes_gate (gate_reason current k)) bs)"
    "ta_citations t = used_citations k (ta_answer_blocks t)"
    using assms(2) by (auto simp: gate_result_def Let_def)
  show "distinct (map ci_citation_id (ta_citations t))"
    unfolding t(2) used_citations_ids using distinct_dict_of by (rule distinct_filter)
  have pass: "gate_reason current k i = None" if "b \<in> set (ta_answer_blocks t)" "i \<in> set (ab_citation_ids b)" for b i
    using that by (auto simp: t(1) strict_block_def passes_gate_def)
  show "set (map ci_citation_id (ta_citations t)) = set (cited_ids (ta_answer_blocks t))"
  proof -
    have "i \<in> fst ` set (dict_of ci_citation_id (tk_citations k))" if i: "i \<in> set (cited_ids (ta_answer_blocks t))" for i
    proof -
      obtain b where "b \<in> set (ta_answer_blocks t)" "i \<in> set (ab_citation_ids b)" using i by (auto simp: cited_ids_def)
      from passing_reference [OF assms(1) pass [OF this]] show ?thesis by force
    qed
    then show ?thesis unfolding t(2) used_citations_ids by auto
  qed
  show "ab_citation_ids b \<noteq> [] \<and> distinct (ab_citation_ids b)" if "b \<in> set (ta_answer_blocks t)"
    using that by (auto simp: t(1) strict_block_def passes_gate_def)
  show "\<exists>sp c. sp \<in> set spans \<and> sp_citation_id sp = i \<and> current sp \<and> as_citation sp = Inr c \<and> c \<in> set (ta_citations t)"
    if "b \<in> set (ta_answer_blocks t)" "i \<in> set (ab_citation_ids b)"
  proof -
    from passing_reference [OF assms(1) pass [OF that]] obtain sp c where
      sp: "sp \<in> set spans" "sp_citation_id sp = i" "current sp" "as_citation sp = Inr c"
        "(i, c) \<in> set (dict_of ci_citation_id (tk_citations k))" by blast
    have "i \<in> set (cited_ids (ta_answer_blocks t))" using that by (auto simp: cited_ids_def)
    then have "c \<in> set (ta_citations t)" using sp(5) by (subst t(2)) (force simp: used_citations_def)
    with sp show ?thesis by blast
  qed
qed

lemma merge_gaps_complete:
  assumes "merge_answer_gaps R say status ls projection = Inr (Status_Complete, out)"
  shows "status = Status_Complete \<and> ls = [] \<and> out = [] \<and>
    projected_list (case projection of None \<Rightarrow> [] | Some p \<Rightarrow> p) ''open_aspects'' = Inr [] \<and>
    (\<exists>cs. projected_list (case projection of None \<Rightarrow> [] | Some p \<Rightarrow> p) ''conflicts'' = Inr cs \<and>
       \<not> list_ex (confirmed_conflict R) cs)"
  using assms by (auto simp: merge_answer_gaps_def Let_def ebind_eq_Inr filter_empty_conv list_ex_iff split: if_splits)

lemma merge_gaps_status:
  "merge_answer_gaps R say status ls projection = Inr (st, out) \<Longrightarrow> st = Status_Insufficient \<longleftrightarrow> status = Status_Insufficient"
  by (auto simp: merge_answer_gaps_def Let_def ebind_eq_Inr split: if_splits)

end
