(* ===== verification/Answer_Properties.thy ===== *)
theory Answer_Properties
  imports Answer_Facts Context_Properties Deep_Facts "HOL-Library.Sublist"
begin

text \<open>
  What a published answer promises: every block cites evidence of the context that is current, its text
  is the model's, the response is well-formed, the model is called twice at most, and \<open>complete\<close> is
  said of an answer without gaps only.
\<close>

section \<open>A sample\<close>

definition sample_response :: "grounded_draft \<Rightarrow> answer_response" where
  "sample_response d = \<lparr>ar_output = Some d, ar_usage = VNull, ar_latency_ms = VNull, ar_finish_reason = VNull,
     ar_retry_count = None\<rparr>"

definition sample_provider :: "stream_input list \<Rightarrow> grounded_draft \<Rightarrow> answer_provider" where
  "sample_provider inputs d = \<lparr>ap_model = None, ap_thinking_enabled = None, ap_reasoning_effort = None,
     ap_supports_answer_streaming = True, ap_generate = (\<lambda>step q. (inputs, Inr (sample_response d)))\<rparr>"

definition sample_draft :: "string list \<Rightarrow> grounded_draft" where
  "sample_draft ids = \<lparr>gd_intro = None, gd_outro = None, gd_status = Status_Complete,
     gd_answer_blocks = [\<lparr>db_text = ''One.'', db_citation_ids = ids\<rparr>], gd_limitations = []\<rparr>"

definition sample_failure :: failure where
  "sample_failure = plain_failure ''ValueError'' ''no''"

text \<open>A decoder that knows the two values of the sample stream.\<close>

definition sample_decode :: "string \<Rightarrow> (jvalue \<times> nat) option" where
  "sample_decode s =
     (if take 15 s = [CHR 0x22] @ ''answer_blocks'' @ [CHR 0x22] then Some (VStr ''answer_blocks'', 14)
      else if take 2 s = ''{}''
      then Some (VDict [(''text'', VStr ''One.''), (''citation_ids'', VList [VStr ''cs1''])], 1)
      else None)"

definition sample_answer_env :: "stream_input list \<Rightarrow> (answer_step \<Rightarrow> grounded_draft) \<Rightarrow> answer_env" where
  "sample_answer_env inputs drafts =
     \<lparr>an_platform = sample_platform, an_runtime = sample_runtime, an_rnd = (\<lambda>x. x), an_say = (\<lambda>n. ''notice''),
      an_casefold = (\<lambda>s. s), an_clock = (\<lambda>r. 0), an_wall_clock = (\<lambda>b. 0), an_raw_decode = sample_decode,
      an_current = (\<lambda>pass sp. True), an_factory = (\<lambda>step role. Inr (sample_provider inputs (drafts step))),
      an_instructions = [], an_repair_instructions = [], an_local_repair_instructions = [],
      an_fast_request_preflight = False, an_invalid = sample_failure, an_not_an_integer = sample_failure\<rparr>"

definition sample_finalizer :: "stream_input list \<Rightarrow> (answer_step \<Rightarrow> grounded_draft) \<Rightarrow> finalizer" where
  "sample_finalizer inputs drafts = \<lparr>fz_env = sample_answer_env inputs drafts, fz_builder = default_context_builder,
     fz_verifier_enabled = False\<rparr>"

definition sample_request :: finalize_request where
  "sample_request = \<lparr>fq_query = ''q'', fq_normalized_intent = ''i'', fq_spans = [sample_span ''s1'' 1 ''one''],
     fq_stale_reasons = [], fq_termination_reason = T_Answer_Ready, fq_retrieval_errors = [], fq_deadline = None,
     fq_decision_projection = None, fq_run_id = ''r'', fq_event_sink = Some (\<lambda>n e. Inr ()),
     fq_prepared_context = None, fq_clarification_requests = []\<rparr>"

definition sample_stream :: "stream_input list" where
  "sample_stream = [Stream_Content (''{'' @ [CHR 0x22] @ ''answer_blocks''),
     Stream_Content ([CHR 0x22] @ '':[''), Stream_Content ''{} ]'']"

definition sample_context :: context_result where
  "sample_context = \<lparr>cx_spans = [sample_span ''s1'' 1 ''one''],
     cx_model_context = model_context sample_runtime ''q'' ''i'' [sample_span ''s1'' 1 ''one''],
     cx_citation_allowlist = [''cs1''], cx_truncated = False, cx_dropped_span_count = 0\<rparr>"

lemma sample_fused: "fuse_evidence sample_runtime (\<lambda>x. x) [sample_span ''s1'' 1 ''one''] = Inr [sample_span ''s1'' 1 ''one'']"
  by (simp add: fuse_evidence_def provenance_score_def fuse_into_def sample_span_def sample_runtime_def Let_def)

lemma sample_built: "build_context sample_platform sample_runtime default_context_builder ''q'' ''i''
    [sample_span ''s1'' 1 ''one''] = Inr sample_context"
  by (simp add: build_context_def add_span_def fit_span_def sample_span_def Let_def quote_of_def strip_def
      is_space_def default_context_builder_def initial_build_def merge_loop.simps quote_length_def sample_context_def)

definition sample_citation :: citation where
  "sample_citation = projr (as_citation (sample_span ''s1'' 1 ''one''))"

lemma sample_cited: "as_citation (sample_span ''s1'' 1 ''one'') = Inr sample_citation" "ci_citation_id sample_citation = ''cs1''"
  by (simp_all add: sample_citation_def as_citation_def sample_span_def Let_def valid_citation_def quote_of_def strip_def is_space_def)

definition quiet_request :: finalize_request where
  "quiet_request = sample_request\<lparr>fq_event_sink := None\<rparr>"

definition sample_grounded :: "string list \<Rightarrow> grounded_result" where
  "sample_grounded ids = \<lparr>gr_draft = Some (sample_draft ids), gr_repair_used = False,
     gr_usage = [[(''retry_count'', VInt 0), (''call_kind'', VStr ''initial'')]], gr_answer_calls = 1,
     gr_repair_calls = 0, gr_provider_call_count = 1, gr_transport_retry_count = 0,
     gr_initial_validation_errors = [], gr_initial_provider_error = None, gr_initial_provider_error_code = None,
     gr_validation_errors = [], gr_provider_error = None, gr_provider_error_code = None\<rparr>"

lemma sample_answered:
  assumes "ids \<in> {[''cs1''], [''x'']}" and "drafts Step_First = sample_draft ids"
  shows "answer (sample_answer_env inputs drafts) query sample_context None callbacks =
    (if callbacks then inputs else [], Inr (sample_grounded ids))"
  using assms
  by (auto simp: answer_def sample_answer_env_def remaining_time_def call_model_def Let_def sample_provider_def
      received_draft_def sample_response_def sample_draft_def mk_grounded_draft_def mk_draft_block_def strip_def is_space_def
      normalize_framing_def retry_count_def deduplicated_draft_def sample_context_def response_usage_def
      float_of_number_def judge_first_def call_issues_def validate_grounded_answer_def shape_issues_def
      deadline_reached_def first_result_def downgraded_def sample_grounded_def)

lemma finalize_generates:
  assumes "fq_prepared_context q = None"
    and "fuse_evidence (an_runtime (fz_env F)) (an_rnd (fz_env F)) (fq_spans q) = Inr fused" and "fused \<noteq> []"
    and "build_context (an_platform (fz_env F)) (an_runtime (fz_env F)) (fz_builder F) (fq_query q)
      (fq_normalized_intent q) fused = Inr cx" and "cx_spans cx \<noteq> []"
    and "\<not> deadline_reached (fz_env F) (fq_deadline q) R_Start_Answer"
  shows "\<exists>trace. finalize F q = generate_answer F q (int (length fused)) cx trace (preview_evidence q cx)"
  unfolding finalize_def Let_def assms(1) option.case assms(2) ebind_Inr assms(4) using assms(3,5,6) by auto

lemma generate_publishes:
  assumes "answer (fz_env F) (fq_query q) cx (fq_deadline q) (delivery_config_of F q cx \<noteq> None) = (inputs, Inr g)"
    and "gr_draft g = Some d" and "gd_status d \<noteq> Status_Insufficient"
    and "streamed (delivery_config_of F q cx) inputs False False seen = (s, seen0)"
  shows "generate_answer F q n cx trace seen =
    publish F q n cx (trace_update (answer_trace g) (trace_update s trace)) seen0 g d"
  unfolding generate_answer_def Let_def assms(1) prod.case sum.case assms(2) option.case
  using assms(3,4) by simp

lemma sample_normal: "list_all normal_block (gd_answer_blocks (sample_draft [''cs1'']))"
  by (simp add: sample_draft_def normal_block_def strip_def is_space_def)

lemma sample_gaps: "merge_answer_gaps R say (gd_status (sample_draft ids)) (gd_limitations (sample_draft ids)) None =
    Inr (Status_Complete, [])"
  by (simp add: merge_answer_gaps_def projected_list_def dict_get_def sample_draft_def)

lemma sample_generated:
  assumes "fq_prepared_context q = None" and "fq_spans q = [sample_span ''s1'' 1 ''one'']" and "fq_query q = ''q''"
    and "fq_normalized_intent q = ''i''" and "fq_deadline q = None" and "fq_decision_projection q = None"
    and "accepting (fq_event_sink q)"
  shows "\<exists>a seen. finalize (sample_finalizer inputs (\<lambda>step. sample_draft [''cs1''])) q = Inr (a, seen) \<and>
    (\<exists>n trace s seen0. publish (sample_finalizer inputs (\<lambda>step. sample_draft [''cs1''])) q n sample_context trace seen0
       (sample_grounded [''cs1'']) (sample_draft [''cs1'']) = Inr (a, seen) \<and>
     streamed (delivery_config_of (sample_finalizer inputs (\<lambda>step. sample_draft [''cs1''])) q sample_context)
       (if delivery_config_of (sample_finalizer inputs (\<lambda>step. sample_draft [''cs1''])) q sample_context \<noteq> None
        then inputs else []) False False (preview_evidence q sample_context) = (s, seen0))"
proof -
  let ?F = "sample_finalizer inputs (\<lambda>step. sample_draft [''cs1''])"
  let ?C = "delivery_config_of ?F q sample_context"
  have ans: "answer (sample_answer_env inputs (\<lambda>step. sample_draft [''cs1''])) ''q'' sample_context None (?C \<noteq> None) =
      (if ?C \<noteq> None then inputs else [], Inr (sample_grounded [''cs1'']))"
    by (rule sample_answered) simp_all
  obtain s seen0 where s: "streamed ?C (if ?C \<noteq> None then inputs else []) False False (preview_evidence q sample_context)
      = (s, seen0)" by fastforce
  have cited: "emap as_citation (cx_spans sample_context) = Inr [sample_citation]"
    by (simp add: sample_context_def sample_cited)
  have pub: "\<exists>a seen. publish ?F q n sample_context trace seen0 (sample_grounded [''cs1'']) (sample_draft [''cs1'']) = Inr (a, seen)"
    for n trace
    using publish_total [of ?F "sample_draft [''cs1'']" q, OF _ cited sample_normal assms(7)] sample_gaps assms(6)
    by simp
  obtain trace where fin: "finalize ?F q = generate_answer ?F q 1 sample_context trace (preview_evidence q sample_context)"
    using finalize_generates [of q ?F "[sample_span ''s1'' 1 ''one'']" sample_context] assms(1-5) sample_fused sample_built
    by (auto simp: sample_finalizer_def sample_answer_env_def sample_context_def deadline_reached_def)
  have "generate_answer ?F q 1 sample_context trace (preview_evidence q sample_context) =
      publish ?F q 1 sample_context (trace_update (answer_trace (sample_grounded [''cs1''])) (trace_update s trace)) seen0
        (sample_grounded [''cs1'']) (sample_draft [''cs1''])"
    by (rule generate_publishes [OF _ _ _ s])
       (use ans assms(3,5) in \<open>simp_all add: sample_finalizer_def sample_grounded_def sample_draft_def\<close>)
  with fin pub [of 1] s show ?thesis by metis
qed

text \<open>The sample answer is published with its block and without a gap.\<close>

lemma sample_publish:
  assumes "publish (sample_finalizer inputs drafts) q n sample_context trace seen g (sample_draft [''cs1'']) = Inr (a, seen1)"
    and "fq_decision_projection q = None"
  shows "fa_answer_blocks a = [\<lparr>ab_text = ''One.'', ab_citation_ids = [''cs1'']\<rparr>] \<and> fa_status a = Status_Complete \<and>
    fa_citations a = [sample_citation]"
proof -
  let ?F = "sample_finalizer inputs drafts"
  have "\<not> needs_repair sample_context (gd_answer_blocks (sample_draft [''cs1'']))"
    by (simp add: needs_repair_def sample_context_def sample_draft_def)
  with publish_facts [OF assms(1) sample_normal] obtain pass k t where
    pub: "publishes ?F q sample_context (sample_draft [''cs1'']) pass k (gd_answer_blocks (sample_draft [''cs1''])) a t"
    by blast
  then have k: "tk_spans k = [sample_span ''s1'' 1 ''one'']" "tk_citations k = [sample_citation]" "tk_status k = Status_Complete"
    using assms(2) sample_gaps by (auto simp: publishes_def gate_kwargs_def sample_context_def sample_cited)
  have "gate_reason (an_current (fz_env ?F) pass) k ''cs1'' = None"
    by (simp add: gate_reason_def reference_reason_def k dict_of_def sample_cited)
       (simp add: sample_span_def Let_def sample_finalizer_def sample_answer_env_def)
  then have "passes_gate (gate_reason (an_current (fz_env ?F) pass) k) \<lparr>db_text = ''One.'', db_citation_ids = [''cs1'']\<rparr>"
    by (simp add: passes_gate_def)
  with pub k show ?thesis
    by (auto simp: publishes_def gate_result_def Let_def sample_draft_def strict_block_def used_citations_def cited_ids_def
        dict_of_def sample_cited)
qed

lemma sample_finalized:
  "\<exists>a. finalize (sample_finalizer [] (\<lambda>step. sample_draft [''cs1''])) quiet_request = Inr (a, []) \<and>
     fa_answer_blocks a = [\<lparr>ab_text = ''One.'', ab_citation_ids = [''cs1'']\<rparr>] \<and> fa_status a = Status_Complete \<and>
     fa_citations a = [sample_citation]"
proof -
  have "accepting (fq_event_sink quiet_request)" by (simp add: accepting_def quiet_request_def)
  then obtain a seen n trace s seen0 where run: "finalize (sample_finalizer [] (\<lambda>step. sample_draft [''cs1''])) quiet_request = Inr (a, seen)"
    and pub: "publish (sample_finalizer [] (\<lambda>step. sample_draft [''cs1''])) quiet_request n sample_context trace seen0
       (sample_grounded [''cs1'']) (sample_draft [''cs1'']) = Inr (a, seen)"
    and st: "streamed (delivery_config_of (sample_finalizer [] (\<lambda>step. sample_draft [''cs1''])) quiet_request sample_context)
       [] False False (preview_evidence quiet_request sample_context) = (s, seen0)"
    using sample_generated [of quiet_request "[]"] by (auto simp: quiet_request_def sample_request_def)
  have "seen0 = []" using st by (simp add: streamed_def delivery_config_of_def quiet_request_def preview_evidence_def)
  moreover obtain new pass k bs t where "seen = seen0 @ new" "gate_events (fq_event_sink quiet_request) t new"
    using publish_facts [OF pub sample_normal] by blast
  ultimately have "seen = []" by (simp add: gate_events_def quiet_request_def)
  moreover note sample_publish [OF pub]
  ultimately show ?thesis using run by (auto simp: quiet_request_def sample_request_def sample_grounded_def)
qed

section \<open>Properties\<close>

text \<open>
  C2: Every published block is cited. An answer is published with no block and no citation, or its
  blocks come from the draft the model gave, in its order and with its text; each has citations, and
  each citation is one of a span of the context that the check of the source accepted in the same pass,
  and is published. The published citations are exactly the ones the blocks use, each once.
\<close>

theorem published_blocks_are_cited:
  assumes "finalize F q = Inr (a, seen)"
  shows "(fa_answer_blocks a = [] \<and> fa_citations a = []) \<or>
    (\<exists>cx inputs g d pass. answer_context F q cx \<and>
       answer (fz_env F) (fq_query q) cx (fq_deadline q) (delivery_config_of F q cx \<noteq> None) = (inputs, Inr g) \<and>
       gr_draft g = Some d \<and> subseq (map ab_text (fa_answer_blocks a)) (map db_text (gd_answer_blocks d)) \<and>
       distinct (map ci_citation_id (fa_citations a)) \<and>
       set (map ci_citation_id (fa_citations a)) = set (cited_ids (fa_answer_blocks a)) \<and>
       (\<forall>b \<in> set (fa_answer_blocks a). ab_citation_ids b \<noteq> [] \<and>
          (\<forall>i \<in> set (ab_citation_ids b). \<exists>sp c. sp \<in> set (cx_spans cx) \<and> sp_citation_id sp = i \<and>
             an_current (fz_env F) pass sp \<and> as_citation sp = Inr c \<and> c \<in> set (fa_citations a))))"
proof (cases "withheld a")
  case True
  then show ?thesis by (simp add: withheld_def)
next
  case False
  from finalize_published [OF assms False] obtain cx inputs g d pass k bs t where
    cx: "answer_context F q cx" and g: "answer (fz_env F) (fq_query q) cx (fq_deadline q)
        (delivery_config_of F q cx \<noteq> None) = (inputs, Inr g)" "gr_draft g = Some d"
    and pub: "publishes F q cx d pass k bs a t" by blast
  note p = pub [unfolded publishes_def]
  have kw: "gate_kwargs F q cx d k"
    and gate: "gate_result (an_say (fz_env F)) (gate_reason (an_current (fz_env F) pass) k) k bs t"
    and same: "fa_answer_blocks a = ta_answer_blocks t" "fa_citations a = ta_citations t"
    and texts: "map db_text bs = map db_text (gd_answer_blocks d)" using p by auto
  note facts = published_citations [OF gate_kwargs_cites [OF kw] gate, folded same]
  have "fa_answer_blocks a = map strict_block (filter (passes_gate (gate_reason (an_current (fz_env F) pass) k)) bs)"
    using gate same by (simp add: gate_result_def Let_def)
  then have "map ab_text (fa_answer_blocks a) =
      map db_text (filter (passes_gate (gate_reason (an_current (fz_env F) pass) k)) bs)"
    by (simp add: strict_block_def)
  then have "subseq (map ab_text (fa_answer_blocks a)) (map db_text (gd_answer_blocks d))"
    unfolding texts [symmetric] by (simp add: subseq_map)
  then show ?thesis using cx g facts by blast
qed

lemma published_blocks_are_cited_witness:
  "\<exists>a. finalize (sample_finalizer [] (\<lambda>step. sample_draft [''cs1''])) quiet_request = Inr (a, []) \<and>
     fa_answer_blocks a \<noteq> [] \<and> set (map ci_citation_id (fa_citations a)) = {''cs1''}"
proof -
  from sample_finalized obtain a where a: "finalize (sample_finalizer [] (\<lambda>step. sample_draft [''cs1''])) quiet_request = Inr (a, [])"
    "fa_answer_blocks a = [\<lparr>ab_text = ''One.'', ab_citation_ids = [''cs1'']\<rparr>]" by blast
  from published_blocks_are_cited [OF a(1)] a(2)
  have "set (map ci_citation_id (fa_citations a)) = set (cited_ids (fa_answer_blocks a))" by auto
  with a show ?thesis by (simp add: cited_ids_def)
qed

text \<open>
  C38: Every finalized answer makes a response. The validator of \<open>AskResponse\<close> accepts what the services
  build from it, whatever source matches they add, and leaves its status, outcome, blocks and citations
  as they are.
\<close>

theorem finalized_answer_makes_response:
  assumes "finalize F q = Inr (a, seen)"
  shows "\<exists>r. mk_ask_response (response_of matches a) = Inr r \<and> rp_status r = fa_status a \<and>
    rp_execution_outcome r = Some (fa_execution_outcome a) \<and> rp_answer_blocks r = fa_answer_blocks a \<and>
    rp_citations r = fa_citations a"
proof (cases "withheld a")
  case True
  then show ?thesis by (auto simp: withheld_def mk_ask_response_def response_of_def inferred_outcome_def Let_def)
next
  case False
  from finalize_published [OF assms False] obtain cx d pass k bs t where
    pub: "publishes F q cx d pass k bs a t" and ok: "gd_status d \<noteq> Status_Insufficient" by blast
  have kw: "gate_kwargs F q cx d k"
    and gate: "gate_result (an_say (fz_env F)) (gate_reason (an_current (fz_env F) pass) k) k bs t"
    and same: "fa_answer_blocks a = ta_answer_blocks t" "fa_citations a = ta_citations t" "fa_status a = ta_status t"
      "fa_execution_outcome a = ta_execution_outcome t" using pub by (auto simp: publishes_def)
  have st: "tk_status k \<noteq> Status_Insufficient" using kw ok merge_gaps_status by (fastforce simp: gate_kwargs_def)
  have ids: "set (ab_citation_ids b) \<subseteq> set (map ci_citation_id (fa_citations a))" if "b \<in> set (fa_answer_blocks a)" for b
    using published_citations(2) [OF gate_kwargs_cites [OF kw] gate] that by (auto simp: same cited_ids_def)
  then have "\<not> list_ex (\<lambda>b. \<not> set (ab_citation_ids b) \<subseteq> set (map ci_citation_id (fa_citations a))) (fa_answer_blocks a)"
    by (auto simp: list_ex_iff)
  moreover have "fa_answer_blocks a = [] \<longrightarrow> fa_status a = Status_Insufficient \<and>
      fa_execution_outcome a = O_Claim_Support_Insufficient"
    and "fa_answer_blocks a \<noteq> [] \<longrightarrow> fa_status a \<noteq> Status_Insufficient \<and> fa_execution_outcome a = O_Answer_Generated"
    using gate st by (auto simp: gate_result_def Let_def same)
  ultimately show ?thesis
    by (cases "fa_answer_blocks a = []") (auto simp: mk_ask_response_def response_of_def inferred_outcome_def Let_def)
qed

lemma finalized_answer_makes_response_witness:
  "\<exists>a r. finalize (sample_finalizer [] (\<lambda>step. sample_draft [''cs1''])) quiet_request = Inr (a, []) \<and>
     mk_ask_response (response_of [] a) = Inr r \<and> rp_answer_blocks r \<noteq> []"
proof -
  from sample_finalized obtain a where a: "finalize (sample_finalizer [] (\<lambda>step. sample_draft [''cs1''])) quiet_request = Inr (a, [])"
    "fa_answer_blocks a = [\<lparr>ab_text = ''One.'', ab_citation_ids = [''cs1'']\<rparr>]" by blast
  from finalized_answer_makes_response [OF a(1), of "[]"] a show ?thesis by auto
qed

text \<open>
  \<open>complete\<close> is said of answers without gaps only. A complete answer publishes every block of its
  draft, the draft names no limitation, the decision leaves no aspect open and has no confirmed conflict;
  its only limitation can be that the context was truncated.
\<close>

lemma complete_answers_have_no_gap:
  assumes "finalize F q = Inr (a, seen)" and "fa_status a = Status_Complete"
  shows "\<exists>cx inputs g d cs. answer_context F q cx \<and>
    answer (fz_env F) (fq_query q) cx (fq_deadline q) (delivery_config_of F q cx \<noteq> None) = (inputs, Inr g) \<and>
    gr_draft g = Some d \<and> gd_limitations d = [] \<and>
    map ab_text (fa_answer_blocks a) = map db_text (gd_answer_blocks d) \<and>
    projected_list (case fq_decision_projection q of None \<Rightarrow> [] | Some p \<Rightarrow> p) ''open_aspects'' = Inr [] \<and>
    projected_list (case fq_decision_projection q of None \<Rightarrow> [] | Some p \<Rightarrow> p) ''conflicts'' = Inr cs \<and>
    \<not> list_ex (confirmed_conflict (an_runtime (fz_env F))) cs \<and>
    fa_limitations a = (if cx_truncated cx then [an_say (fz_env F) N_Truncated] else [])"
proof -
  have "\<not> withheld a" using assms(2) by (simp add: withheld_def)
  from finalize_published [OF assms(1) this] obtain cx inputs g d pass k bs t where
    cx: "answer_context F q cx" and g: "answer (fz_env F) (fq_query q) cx (fq_deadline q)
        (delivery_config_of F q cx \<noteq> None) = (inputs, Inr g)" "gr_draft g = Some d"
    and pub: "publishes F q cx d pass k bs a t" by blast
  let ?ok = "passes_gate (gate_reason (an_current (fz_env F) pass) k)"
  have kw: "gate_kwargs F q cx d k"
    and gate: "gate_result (an_say (fz_env F)) (gate_reason (an_current (fz_env F) pass) k) k bs t"
    and same: "fa_answer_blocks a = ta_answer_blocks t" "fa_limitations a = ta_limitations t" "fa_status a = ta_status t"
    and texts: "map db_text bs = map db_text (gd_answer_blocks d)" using pub by (auto simp: publishes_def)
  have kept: "ta_answer_blocks t = map strict_block (filter ?ok bs)" "tk_status k = Status_Complete"
      "length bs \<le> length (filter ?ok bs)" "ta_limitations t = fromkeys (tk_limitations k)"
    using gate assms(2) by (auto simp: gate_result_def Let_def same split: if_splits)
  then have "filter ?ok bs = bs" by (metis filter_True leD length_filter_less)
  with kept have blocks: "map ab_text (fa_answer_blocks a) = map db_text (gd_answer_blocks d)"
    by (simp add: same texts [symmetric] strict_block_def)
  obtain ls where ls: "merge_answer_gaps (an_runtime (fz_env F)) (an_say (fz_env F)) (gd_status d) (gd_limitations d)
      (fq_decision_projection q) = Inr (Status_Complete, ls)"
    "tk_limitations k = ls @ (if cx_truncated cx then [an_say (fz_env F) N_Truncated] else [])"
    using kw kept(2) by (auto simp: gate_kwargs_def)
  note gaps = merge_gaps_complete [OF ls(1)]
  have "fa_limitations a = (if cx_truncated cx then [an_say (fz_env F) N_Truncated] else [])"
    using kept(4) ls(2) gaps by (simp add: same)
  then show ?thesis using cx g blocks gaps by blast
qed

end
