(* ===== verification/Streaming_Properties.thy ===== *)
theory Streaming_Properties
  imports Answer_Properties
begin

text \<open>
  The stream of an answer: how its text is cut into chunks does not show, every block shown early passed
  the gate, and blocks of an answer that is not given are withdrawn.
\<close>

section \<open>Chunks of text\<close>

definition number_value :: "jvalue \<Rightarrow> bool" where
  "number_value v \<longleftrightarrow> (case v of VInt i \<Rightarrow> True | VFloat x \<Rightarrow> True | _ \<Rightarrow> False)"

fun number_item :: "stream_item \<Rightarrow> bool" where
  "number_item (Received field index v) = number_value v"
| "number_item Invalid_Stream = False"

text \<open>
  How \<open>raw_decode\<close> reads a longer text: a value that is not a number is the same, a number may go on
  but stays a number.
\<close>

definition prefix_decoder :: "(string \<Rightarrow> (jvalue \<times> nat) option) \<Rightarrow> bool" where
  "prefix_decoder decode \<longleftrightarrow> (\<forall>x v n. decode x = Some (v, n) \<longrightarrow> n < length x \<and>
     (\<forall>y. if number_value v then \<exists>w m. decode (x @ y) = Some (w, m) \<and> number_value w
          else decode (x @ y) = Some (v, n)))"

definition append_text :: "json_stream \<Rightarrow> string \<Rightarrow> json_stream" where
  "append_text p y = p\<lparr>js_rest := js_rest p @ y, js_length := js_length p + length y\<rparr>"

lemma append_text_simps [simp]:
  "js_rest (append_text p y) = js_rest p @ y" "js_phase (append_text p y) = js_phase p"
  "js_key (append_text p y) = js_key p" "js_keys (append_text p y) = js_keys p"
  "js_index (append_text p y) = js_index p" "js_length (append_text p y) = js_length p + length y"
  "append_text p (x @ y) = append_text (append_text p x) y" "append_text p [] = p"
  by (simp_all add: append_text_def)

lemma decoded_prefix:
  assumes "prefix_decoder decode" and "decode (c # cs) = Some (v, n)"
  shows "n \<le> length cs" and "\<not> number_value v \<Longrightarrow> decode (c # cs @ y) = Some (v, n)"
    and "number_value v \<Longrightarrow> \<exists>w m. decode (c # cs @ y) = Some (w, m) \<and> number_value w"
  using assms unfolding prefix_decoder_def by (fastforce split: if_splits)+

lemma stream_step_bad_key:
  assumes "js_rest p = c # cs" and "js_phase p = Ph_Key" and "\<not> is_space c" and "c \<noteq> CHR ''}''"
    and "decode (c # cs) = Some (v, n)" and "\<forall>k. v \<noteq> VStr k"
  shows "stream_step decode p = stream_disabled p"
  using assms by (cases v) (simp_all add: stream_step_def)

text \<open>A pass of the reader does the same with more text, unless it reads a number.\<close>

lemma stream_step_append:
  assumes "prefix_decoder decode" and "stream_step decode p = Some (p', items)"
  shows "stream_step decode (append_text p y) = Some (append_text p' y, items) \<or>
    (\<exists>q items'. stream_step decode (append_text p y) = Some (q, items') \<and> list_ex number_item items')"
proof (cases "js_rest p")
  case Nil
  then show ?thesis using assms(2) by (simp add: stream_step_def)
next
  case (Cons c cs)
  have disabled: "js_phase p \<noteq> Ph_Disabled" using assms(2) Cons by (auto simp: stream_step_def)
  show ?thesis
  proof (cases "decode (c # cs)")
    case None
    then show ?thesis using assms(2) Cons disabled
      by (cases "js_phase p") (auto simp: stream_step_def stream_disabled_def append_text_def split: if_splits)
  next
    case (Some vn)
    then obtain v n where v: "decode (c # cs) = Some (v, n)" by (cases vn) simp
    note facts = decoded_prefix [OF assms(1) v]
    show ?thesis
    proof (cases "number_value v")
      case True
      then obtain w m where w: "decode (c # cs @ y) = Some (w, m)" "number_value w" using facts(3) by blast
      have v': "\<forall>k. v \<noteq> VStr k" and w': "\<forall>k. w \<noteq> VStr k" using True w(2) by (auto simp: number_value_def)
      show ?thesis
      proof (cases "is_space c")
        case True
        then show ?thesis using assms(2) disabled by (auto simp: stream_step_def append_text_def Cons)
      next
        case False
        note st = stream_step_def stream_disabled_def append_text_def Cons v w False disabled
        show ?thesis
        proof (cases "js_phase p")
          case Ph_Key
          then show ?thesis
          proof (cases "c = CHR ''}''")
            case False
            have "stream_step decode p = stream_disabled p"
              using Cons Ph_Key \<open>\<not> is_space c\<close> False v v' by (rule stream_step_bad_key)
            moreover have "stream_step decode (append_text p y) = stream_disabled (append_text p y)"
              using \<open>\<not> is_space c\<close> False w(1) w' by (intro stream_step_bad_key) (simp_all add: Cons Ph_Key)
            ultimately show ?thesis using assms(2) by (simp add: stream_disabled_def append_text_def)
          qed (use assms(2) in \<open>auto simp: st\<close>)
        next
          case Ph_Value
          then show ?thesis using assms(2) by (cases "js_key p = Some ''answer_blocks''") (auto simp: st split: if_splits)
        next
          case Ph_Block
          then show ?thesis using assms(2) by (auto simp: st split: if_splits)
        qed (use assms(2) in \<open>auto simp: st split: if_splits\<close>)
      qed
    next
      case False
      then have w: "decode (c # cs @ y) = Some (v, n)" using facts(2) by blast
      show ?thesis using assms(2) Cons disabled v w facts(1)
        by (cases "js_phase p"; cases v)
           (auto simp: stream_step_def stream_disabled_def append_text_def split: if_splits)
    qed
  qed
qed

lemma stream_loop_stuck: "stream_step decode (fst (stream_loop decode p)) = None"
proof (induction decode p rule: stream_loop.induct)
  case (1 decode p)
  then show ?case
    by (cases "stream_step decode p") (fastforce simp: stream_loop.simps [of decode p] Let_def split: prod.splits)+
qed

lemma stream_step_length: "stream_step decode p = Some (p', items) \<Longrightarrow> js_length p' = js_length p"
  by (auto simp: stream_step_def stream_disabled_def
      split: list.splits if_splits stream_phase.splits option.splits prod.splits jvalue.splits)

lemma stream_loop_length: "js_length (fst (stream_loop decode p)) = js_length p"
proof (induction decode p rule: stream_loop.induct)
  case (1 decode p)
  show ?case
  proof (cases "stream_step decode p")
    case None
    then show ?thesis by (simp add: stream_loop.simps [of decode p])
  next
    case (Some step)
    then obtain p' items where step: "stream_step decode p = Some (p', items)" by (cases step) simp
    then show ?thesis using 1 [of "(p', items)"] stream_step_length [OF step]
      by (cases "stream_loop decode p'") (simp add: stream_loop.simps [of decode p])
  qed
qed

lemma stream_loop_append:
  assumes "prefix_decoder decode" and "\<not> list_ex number_item (snd (stream_loop decode (append_text p y)))"
  shows "stream_loop decode (append_text p y) =
      (let (q, i1) = stream_loop decode p; (q', i2) = stream_loop decode (append_text q y) in (q', i1 @ i2))"
  using assms
proof (induction decode p rule: stream_loop.induct)
  case (1 decode p)
  show ?case
  proof (cases "stream_step decode p")
    case None
    then show ?thesis by (simp add: stream_loop.simps [of decode p] split: prod.splits)
  next
    case (Some step)
    then obtain p' items where step: "stream_step decode p = Some (p', items)" by (cases step) simp
    obtain step' where step': "stream_step decode (append_text p y) = Some step'"
      using stream_step_append [OF 1(2) step] by blast
    have "\<not> list_ex number_item (snd step')"
      using 1(3) by (cases "stream_loop decode (fst step')"; cases step')
        (simp add: stream_loop.simps [of decode "append_text p y"] step')
    then have more: "stream_step decode (append_text p y) = Some (append_text p' y, items)"
      using stream_step_append [OF 1(2) step, of y] step' by auto
    obtain q i1 where q: "stream_loop decode p' = (q, i1)" by fastforce
    obtain q2 i2 where q2: "stream_loop decode (append_text q y) = (q2, i2)" by fastforce
    have "\<not> list_ex number_item (snd (stream_loop decode (append_text p' y)))"
      using 1(3) by (cases "stream_loop decode (append_text p' y)")
        (simp add: stream_loop.simps [of decode "append_text p y"] more)
    with 1(1) [OF step refl 1(2)] q q2 have "stream_loop decode (append_text p' y) = (q2, i1 @ i2)" by simp
    then show ?thesis
      by (simp add: stream_loop.simps [of decode p] stream_loop.simps [of decode "append_text p y"] step more q q2)
  qed
qed

text \<open>A stream fed in chunks.\<close>

fun feed_chunks ::
  "(string \<Rightarrow> (jvalue \<times> nat) option) \<Rightarrow> json_stream \<Rightarrow> string list \<Rightarrow> json_stream \<times> stream_item list"
where
  "feed_chunks decode p [] = (p, [])"
| "feed_chunks decode p (c # cs) =
     (let (q, i1) = feed_stream decode p c; (r, i2) = feed_chunks decode q cs in (r, i1 @ i2))"

lemma feed_stream_append:
  assumes "js_length p + length body \<le> STREAM_MAX_CHARACTERS" and "js_phase p \<noteq> Ph_Disabled"
  shows "feed_stream decode p body = stream_loop decode (append_text p body)"
  using assms by (simp add: feed_stream_def Let_def append_text_def)

lemma disabled_loop: "js_phase p = Ph_Disabled \<Longrightarrow> stream_loop decode p = (p, [])"
  by (subst stream_loop.simps) (simp add: stream_step_def split: list.splits)

lemma feed_chunks_disabled: "js_phase p = Ph_Disabled \<Longrightarrow> feed_chunks decode p cs = (p, [])"
  by (induction cs) (simp_all add: feed_stream_def)

lemma feed_chunks_joined:
  assumes "prefix_decoder decode" and "js_phase p \<noteq> Ph_Disabled" and "stream_step decode p = None"
    and "js_length p + length (concat cs) \<le> STREAM_MAX_CHARACTERS"
    and "\<not> list_ex number_item (snd (feed_stream decode p (concat cs)))"
  shows "snd (feed_chunks decode p cs) = snd (feed_stream decode p (concat cs))"
  using assms(2-)
proof (induction cs arbitrary: p)
  case Nil
  have "stream_loop decode p = (p, [])" using Nil by (simp add: stream_loop.simps [of decode p])
  then show ?case using Nil by (simp add: feed_stream_append)
next
  case (Cons c cs)
  obtain q i1 where q: "stream_loop decode (append_text p c) = (q, i1)" by fastforce
  obtain r i2 where r: "stream_loop decode (append_text q (concat cs)) = (r, i2)" by fastforce
  have one: "feed_stream decode p c = (q, i1)" using Cons.prems q by (simp add: feed_stream_append)
  have all: "feed_stream decode p (concat (c # cs)) = stream_loop decode (append_text (append_text p c) (concat cs))"
    using Cons.prems by (simp add: feed_stream_append)
  with stream_loop_append [OF assms(1), of "append_text p c" "concat cs"] Cons.prems(4) q r
  have joined: "feed_stream decode p (concat (c # cs)) = (r, i1 @ i2)" by simp
  have len: "js_length q = js_length p + length c" using stream_loop_length [of decode "append_text p c"] q by simp
  show ?case
  proof (cases "js_phase q = Ph_Disabled")
    case True
    then have "i2 = []" using r disabled_loop [of "append_text q (concat cs)"] by simp
    with True joined one show ?thesis by (simp add: feed_chunks_disabled)
  next
    case False
    have "feed_stream decode q (concat cs) = (r, i2)" using Cons.prems(3) False r len by (simp add: feed_stream_append)
    moreover have "stream_step decode q = None" using stream_loop_stuck [of decode "append_text p c"] q by simp
    ultimately have "snd (feed_chunks decode q cs) = i2"
      using Cons.IH [OF False] Cons.prems(3,4) len joined by simp
    with joined one show ?thesis by (cases "feed_chunks decode q cs") simp
  qed
qed

section \<open>Deliveries that differ in their reader\<close>

text \<open>The same delivery, whatever its reader has read.\<close>

definition with_reader :: "json_stream \<Rightarrow> delivery \<Rightarrow> delivery" where
  "with_reader p s = s\<lparr>dv_stream := p\<rparr>"

lemma with_reader_simps [simp]:
  "with_reader p (with_reader q s) = with_reader p s" "dv_stream (with_reader p s) = p"
  "dv_generation (with_reader p s) = dv_generation s" "dv_intro (with_reader p s) = dv_intro s"
  "dv_outro (with_reader p s) = dv_outro s" "dv_array_complete (with_reader p s) = dv_array_complete s"
  "dv_has_blocks (with_reader p s) = dv_has_blocks s" "dv_insufficient (with_reader p s) = dv_insufficient s"
  "dv_seen (with_reader p s) = dv_seen s" "dv_parts (with_reader p s) = dv_parts s"
  "dv_metrics (with_reader p s) = dv_metrics s" "dv_events (with_reader p s) = dv_events s"
  "with_reader (dv_stream s) s = s"
  by (simp_all add: with_reader_def)

lemma deliver_event_reader: "deliver_event C e (with_reader p s) =
    (fst (deliver_event C e s), with_reader p (snd (deliver_event C e s)))"
  by (simp add: deliver_event_def Let_def with_reader_def)

lemma retract_reader: "retract C (with_reader p s) = with_reader p (retract C s)"
  by (simp add: retract_def deliver_event_def Let_def with_reader_def)

lemma deliver_framing_reader: "deliver_framing C (with_reader p s) = with_reader p (deliver_framing C s)"
  by (simp add: deliver_framing_def deliver_event_def Let_def with_reader_def shown_outro_def)

lemma show_block_reader: "show_block C index b t (with_reader p s) = with_reader p (show_block C index b t s)"
  by (auto simp: show_block_def deliver_event_def Let_def with_reader_def shown_outro_def split: list.splits)

lemma broken_delivery_reader: "\<exists>p'. broken_delivery C (with_reader p s) = with_reader p' (broken_delivery C s)"
proof -
  have "broken_delivery C (with_reader p s) = with_reader (p\<lparr>js_phase := Ph_Disabled\<rparr>) (broken_delivery C s)"
    by (simp add: broken_delivery_def retract_def deliver_event_def Let_def with_reader_def)
  then show ?thesis ..
qed

lemma receive_reader: "receive C field index v (with_reader p s) =
    (case receive C field index v s of Inl x \<Rightarrow> Inl x | Inr t \<Rightarrow> Inr (with_reader p t))"
proof -
  have upd: "(with_reader p s)\<lparr>dv_insufficient := a\<rparr> = with_reader p (s\<lparr>dv_insufficient := a\<rparr>)"
    "(with_reader p s)\<lparr>dv_intro := b\<rparr> = with_reader p (s\<lparr>dv_intro := b\<rparr>)"
    "(with_reader p s)\<lparr>dv_outro := c\<rparr> = with_reader p (s\<lparr>dv_outro := c\<rparr>)"
    "(with_reader p s)\<lparr>dv_array_complete := d\<rparr> = with_reader p (s\<lparr>dv_array_complete := d\<rparr>)"
    "(with_reader p s)\<lparr>dv_parts := n\<rparr> = with_reader p (s\<lparr>dv_parts := n\<rparr>)" for s a b c d n
    by (simp_all add: with_reader_def)
  have block: "receive_block C index v (with_reader p s) =
      (case receive_block C index v s of Inl x \<Rightarrow> Inl x | Inr t \<Rightarrow> Inr (with_reader p t))"
    by (auto simp: receive_block_def show_block_reader upd ebind_def split: sum.splits)
  show ?thesis
    by (cases "dv_outro s") (simp_all add: receive_def Let_def upd retract_reader deliver_framing_reader block)
qed

text \<open>Whether a callback raises while the items are received.\<close>

fun breaks :: "delivery_config \<Rightarrow> stream_item list \<Rightarrow> delivery \<Rightarrow> bool" where
  "breaks C [] s = False"
| "breaks C (Invalid_Stream # items) s = breaks C items (retract C s)"
| "breaks C (Received field index v # items) s =
     (case receive C field index v s of Inl x \<Rightarrow> True | Inr s1 \<Rightarrow> breaks C items s1)"

lemma receive_items_append:
  "receive_items C (xs @ ys) s =
     (if breaks C xs s then receive_items C xs s else receive_items C ys (receive_items C xs s))"
  by (induction C xs s rule: breaks.induct) (simp_all split: sum.splits)

lemma breaks_reader: "breaks C items (with_reader p s) = breaks C items s"
  by (induction C items s rule: breaks.induct) (auto simp: retract_reader receive_reader split: sum.splits)

lemma receive_items_reader: "\<exists>p'. receive_items C items (with_reader p s) = with_reader p' (receive_items C items s)"
proof (induction C items s rule: receive_items.induct)
  case (3 C field index v items s)
  show ?case
  proof (cases "receive C field index v s")
    case (Inl x)
    have "with_reader p s\<lparr>dv_parts := dv_parts s + 1\<rparr> = with_reader p (s\<lparr>dv_parts := dv_parts s + 1\<rparr>)"
      by (simp add: with_reader_def)
    moreover have "receive_items C (Received field index v # items) (with_reader p s) =
        broken_delivery C ((with_reader p s)\<lparr>dv_parts := dv_parts s + 1\<rparr>)" by (simp add: receive_reader Inl)
    moreover have "receive_items C (Received field index v # items) s = broken_delivery C (s\<lparr>dv_parts := dv_parts s + 1\<rparr>)"
      by (simp add: Inl)
    ultimately show ?thesis using broken_delivery_reader by metis
  next
    case (Inr t)
    then show ?thesis using 3 by (simp add: receive_reader)
  qed
qed (auto simp: retract_reader)

lemma retract_stream [simp]: "dv_stream (retract C s) = dv_stream s"
  by (simp add: retract_def deliver_event_def Let_def)

lemma broken_delivery_phase: "js_phase (dv_stream (broken_delivery C s)) = Ph_Disabled"
  by (simp add: broken_delivery_def)

lemma receive_stream: "receive C field index v s = Inr t \<Longrightarrow> dv_stream t = dv_stream s"
  using receive_reader [of C field index v "dv_stream s" s] by simp (metis with_reader_simps(2))

lemma receive_items_stream:
  "if breaks C items s then js_phase (dv_stream (receive_items C items s)) = Ph_Disabled
   else dv_stream (receive_items C items s) = dv_stream s"
proof (induction C items s rule: breaks.induct)
  case (3 C field index v items s)
  then show ?case
    by (cases "receive C field index v s") (use receive_stream in \<open>fastforce simp: broken_delivery_phase\<close>)+
qed simp_all

lemma feed_delivery_disabled: "js_phase (dv_stream s) = Ph_Disabled \<Longrightarrow> feed_delivery C body s = s"
  by (simp add: feed_delivery_def feed_stream_def)

lemma run_delivery_disabled:
  "js_phase (dv_stream s) = Ph_Disabled \<Longrightarrow> run_delivery C (map Stream_Content cs) s = s"
  by (induction cs) (simp_all add: run_delivery_def feed_delivery_disabled)

text \<open>A stream in chunks delivers what its items say, one after another.\<close>

lemma run_delivery_chunks:
  "\<exists>p. run_delivery C (map Stream_Content cs) s =
     with_reader p (receive_items C (snd (feed_chunks (an_raw_decode (dc_env C)) (dv_stream s) cs)) s)"
proof (induction cs arbitrary: s)
  case Nil
  have "run_delivery C (map Stream_Content []) s = with_reader (dv_stream s) s" by (simp add: run_delivery_def)
  moreover have "snd (feed_chunks (an_raw_decode (dc_env C)) (dv_stream s) []) = []" by simp
  ultimately show ?case by (metis receive_items.simps(1))
next
  case (Cons c cs)
  let ?D = "an_raw_decode (dc_env C)"
  obtain q i1 where q: "feed_stream ?D (dv_stream s) c = (q, i1)" by fastforce
  obtain r i2 where r: "feed_chunks ?D q cs = (r, i2)" by fastforce
  let ?s1 = "receive_items C i1 (with_reader q s)"
  have run: "run_delivery C (map Stream_Content (c # cs)) s = run_delivery C (map Stream_Content cs) ?s1"
    by (simp add: run_delivery_def feed_delivery_def q with_reader_def)
  obtain p1 where s1: "?s1 = with_reader p1 (receive_items C i1 s)" using receive_items_reader by blast
  show ?case
  proof (cases "breaks C i1 s")
    case True
    then have "js_phase (dv_stream ?s1) = Ph_Disabled"
      using receive_items_stream [of C i1 "with_reader q s"] by (simp add: breaks_reader)
    then have "run_delivery C (map Stream_Content (c # cs)) s = with_reader p1 (receive_items C i1 s)"
      using run run_delivery_disabled s1 by metis
    with True show ?thesis by (auto simp: q r receive_items_append)
  next
    case False
    have reader: "dv_stream ?s1 = q"
      using receive_items_stream [of C i1 "with_reader q s"] False by (simp add: breaks_reader)
    obtain p2 where "run_delivery C (map Stream_Content cs) ?s1 = with_reader p2 (receive_items C i2 ?s1)"
      using Cons [of ?s1] reader r by auto
    moreover obtain p3 where "receive_items C i2 ?s1 = with_reader p3 (receive_items C i2 (receive_items C i1 s))"
      unfolding s1 using receive_items_reader by blast
    ultimately show ?thesis using False run by (auto simp: q r receive_items_append)
  qed
qed

section \<open>Events\<close>

text \<open>A block with the citations it comes with: each is one of a span that is accepted.\<close>

definition evidenced :: "(evidence_span \<Rightarrow> bool) \<Rightarrow> evidence_span list \<Rightarrow> answer_block \<Rightarrow> citation list \<Rightarrow> bool" where
  "evidenced current spans b citations \<longleftrightarrow> ab_citation_ids b \<noteq> [] \<and>
     (\<forall>i \<in> set (ab_citation_ids b). \<exists>sp c. sp \<in> set spans \<and> sp_citation_id sp = i \<and> current sp \<and>
        as_citation sp = Inr c \<and> c \<in> set citations)"

fun part_ok :: "delivery_config \<Rightarrow> answer_event \<Rightarrow> bool" where
  "part_ok C (Answer_Part intro outro index b citations elapsed generation) \<longleftrightarrow>
     set (ab_citation_ids b) \<subseteq> set (cx_citation_allowlist (dc_context C)) \<and>
     (\<exists>n. evidenced (an_current (dc_env C) (Pass_Part n)) (cx_spans (dc_context C)) b citations)"
| "part_ok C e \<longleftrightarrow> True"

text \<open>Later in a delivery, with new events that are in order.\<close>

definition delivers :: "delivery_config \<Rightarrow> delivery \<Rightarrow> delivery \<Rightarrow> bool" where
  "delivers C s t \<longleftrightarrow> (\<exists>new. dv_events t = dv_events s @ new \<and> (\<forall>e \<in> set new. part_ok C (fst e)))"

lemma delivers_refl [simp]: "delivers C s s"
  by (simp add: delivers_def)

lemma delivers_same: "dv_events t = dv_events s \<Longrightarrow> delivers C s t"
  by (simp add: delivers_def)

lemma delivers_trans: "delivers C s t \<Longrightarrow> delivers C t u \<Longrightarrow> delivers C s u"
  by (fastforce simp: delivers_def)

lemma deliver_event_delivers: "part_ok C e \<Longrightarrow> dv_events s = dv_events s0 \<Longrightarrow> delivers C s0 (snd (deliver_event C e s))"
  by (simp add: delivers_def deliver_event_def Let_def)

lemma retract_delivers: "dv_events s = dv_events s0 \<Longrightarrow> delivers C s0 (retract C s)"
  unfolding retract_def by (rule deliver_event_delivers) simp_all

lemma new_parser_events [simp]: "dv_events (new_parser s) = dv_events s"
  by (simp add: new_parser_def)

lemma reset_delivers: "delivers C s (reset_delivery C s)"
  unfolding reset_delivery_def by (rule delivers_trans [OF retract_delivers delivers_same]) simp_all

lemma framing_delivers: "dv_events s = dv_events s0 \<Longrightarrow> delivers C s0 (deliver_framing C s)"
  unfolding deliver_framing_def by (rule deliver_event_delivers) simp_all

lemma provisional_trust_evidenced:
  assumes "provisional_trust C n b = Inr t" and "normal_block b" and "shown \<in> set (ta_answer_blocks t)"
  shows "set (ab_citation_ids shown) = set (db_citation_ids b) \<and>
    evidenced (an_current (dc_env C) (Pass_Part n)) (cx_spans (dc_context C)) shown (ta_citations t)"
proof -
  let ?A = "dc_env C"
  define spans where "spans = filter (\<lambda>s. sp_citation_id s \<in> set (db_citation_ids b)) (cx_spans (dc_context C))"
  obtain citations where citations: "emap as_citation spans = Inr citations"
    using assms(1) by (auto simp: provisional_trust_def Let_def spans_def ebind_eq_Inr)
  define k where "k = \<lparr>tk_run_id = dc_run_id C, tk_citations = citations, tk_spans = spans, tk_status = Status_Complete,
      tk_limitations = [], tk_termination_reason = T_Answer_Ready, tk_intro = None, tk_outro = None\<rparr>"
  obtain seen where run: "apply_answer_trust (an_platform ?A) (an_runtime ?A) (an_say ?A) k [b]
      (an_current ?A (Pass_Part n)) None [] = Inr (t, seen)"
    using assms(1) citations by (auto simp: provisional_trust_def Let_def spans_def k_def ebind_eq_Inr)
  have gate: "gate_result (an_say ?A) (gate_reason (an_current ?A (Pass_Part n)) k) k [b] t"
    using apply_answer_trust_gate [OF run] assms(2) by simp
  have "cites spans k" using citations by (simp add: cites_def k_def)
  note facts = published_citations [OF this gate]
  have "evidenced (an_current ?A (Pass_Part n)) spans shown (ta_citations t)"
    using facts(3,4) [OF assms(3)] by (simp add: evidenced_def)
  then have "evidenced (an_current ?A (Pass_Part n)) (cx_spans (dc_context C)) shown (ta_citations t)"
    unfolding evidenced_def spans_def by (metis filter_is_subset subsetD)
  moreover have "shown = strict_block b" using gate assms(3) by (auto simp: gate_result_def Let_def split: if_splits)
  ultimately show ?thesis by (simp add: strict_block_def)
qed

lemma show_block_delivers:
  assumes "\<And>shown. shown \<in> set (ta_answer_blocks t) \<Longrightarrow>
      set (ab_citation_ids shown) \<subseteq> set (cx_citation_allowlist (dc_context C)) \<and>
      evidenced (an_current (dc_env C) (Pass_Part n)) (cx_spans (dc_context C)) shown (ta_citations t)"
  shows "delivers C s (show_block C index b t s)"
proof (cases "ta_answer_blocks t")
  case Nil
  then show ?thesis by (simp add: show_block_def)
next
  case (Cons shown more)
  then have "part_ok C (Answer_Part i o' x shown (ta_citations t) e g)" for i o' x e g
    using assms [of shown] by auto
  then show ?thesis
    by (auto simp: show_block_def Let_def Cons deliver_event_def delivers_def)
qed

lemma draft_block_of_normal: "draft_block_of v = Inr b \<Longrightarrow> normal_block b"
  by (cases v) (auto simp: ebind_eq_Inr dest: mk_draft_block_normal split: if_splits option.splits)

lemma receive_block_delivers:
  assumes "receive_block C index v s = Inr t"
  shows "delivers C s t"
proof (cases "draft_block_of v")
  case (Inl x)
  with assms show ?thesis by (simp add: receive_block_def)
next
  case (Inr b)
  show ?thesis
  proof (cases "db_citation_ids b = [] \<or> \<not> set (db_citation_ids b) \<subseteq> set (cx_citation_allowlist (dc_context C))")
    case True
    with assms Inr show ?thesis by (auto simp: receive_block_def)
  next
    case False
    then obtain trusted where trusted: "provisional_trust C (dv_parts s) b = Inr trusted"
      "t = (show_block C index b trusted s)\<lparr>dv_parts := dv_parts s + 1\<rparr>"
      using assms Inr by (auto simp: receive_block_def ebind_eq_Inr)
    have "delivers C s (show_block C index b trusted s)"
      using provisional_trust_evidenced [OF trusted(1) draft_block_of_normal [OF Inr]] False
      by (intro show_block_delivers [where n = "dv_parts s"]) auto
    then show ?thesis using trusted(2) by (simp add: delivers_def)
  qed
qed

lemma receive_delivers: "receive C field index v s = Inr t \<Longrightarrow> delivers C s t"
  by (auto simp: receive_def Let_def intro: retract_delivers framing_delivers delivers_same receive_block_delivers
      split: if_splits)

lemma broken_delivers: "dv_events s = dv_events s0 \<Longrightarrow> delivers C s0 (broken_delivery C s)"
  unfolding broken_delivery_def by (rule retract_delivers) simp

lemma receive_items_delivers: "delivers C s (receive_items C items s)"
proof (induction C items s rule: receive_items.induct)
  case (2 C items s)
  then show ?case using delivers_trans retract_delivers by fastforce
next
  case (3 C field index v items s)
  then show ?case
    by (cases "receive C field index v s") (auto intro: broken_delivers delivers_trans receive_delivers)
qed simp

lemma run_delivers: "delivers C s (run_delivery C inputs s)"
proof (induction inputs arbitrary: s)
  case (Cons i inputs)
  have "delivers C s (stream_input_step C s i)"
  proof (cases i)
    case (Stream_Content body)
    obtain p items where p: "feed_stream (an_raw_decode (dc_env C)) (dv_stream s) body = (p, items)" by fastforce
    have "delivers C s (s\<lparr>dv_stream := p\<rparr>)" by (rule delivers_same) simp
    then show ?thesis using delivers_trans receive_items_delivers by (fastforce simp: Stream_Content feed_delivery_def p)
  qed (simp add: reset_delivers)
  with Cons show ?case by (auto simp: run_delivery_def intro: delivers_trans)
qed (simp add: run_delivery_def)

text \<open>The events of a finished answer: those of the stream, then what withdraws it or the gate says.\<close>

fun is_part :: "answer_event \<Rightarrow> bool" where
  "is_part (Answer_Part intro outro index b citations elapsed generation) = True"
| "is_part e = False"

fun withdraws :: "answer_event \<Rightarrow> bool" where
  "withdraws (Stream_Reset generation) = True"
| "withdraws (Trust_Failed h outcome summary) = True"
| "withdraws e = False"

definition no_parts :: "event_log \<Rightarrow> bool" where
  "no_parts log' \<longleftrightarrow> (\<forall>e \<in> set log'. \<not> is_part (fst e))"

lemma streamed_parts:
  assumes "streamed (Some C) inputs first last' seen = (m, seen1)"
  shows "\<exists>parts tail. seen1 = seen @ parts @ tail \<and> (\<forall>e \<in> set parts. part_ok C (fst e)) \<and> no_parts tail \<and>
    (first \<or> last' \<longrightarrow> (\<exists>e \<in> set tail. withdraws (fst e)))"
proof -
  define s1 where "s1 = run_delivery C inputs (start_delivery C seen)"
  have "delivers C (start_delivery C seen) s1" using run_delivers by (simp add: s1_def)
  then obtain new where new: "dv_events s1 = dv_events (start_delivery C seen) @ new" "\<forall>e \<in> set new. part_ok C (fst e)"
    by (auto simp: delivers_def)
  have "\<exists>ok. dv_events (start_delivery C seen) = seen @ ok \<and> (\<forall>e \<in> set ok. part_ok C (fst e))"
    by (simp add: start_delivery_def deliver_event_def Let_def)
  with new obtain parts where parts: "dv_events s1 = seen @ parts" "\<forall>e \<in> set parts. part_ok C (fst e)" by force
  have "\<exists>tail. seen1 = dv_events s1 @ tail \<and> no_parts tail \<and> (first \<or> last' \<longrightarrow> (\<exists>e \<in> set tail. withdraws (fst e)))"
    using assms
    by (auto simp: streamed_def Let_def s1_def [symmetric] retract_def finish_delivery_def deliver_event_def no_parts_def
        split: if_splits)
  with parts show ?thesis by auto
qed

lemma finalize_parts:
  assumes "finalize F q = Inr (a, seen)"
  shows "\<exists>early parts tail. seen = early @ parts @ tail \<and> no_parts early \<and> no_parts tail \<and>
    (parts \<noteq> [] \<longrightarrow> (\<exists>cx C. answer_context F q cx \<and> delivery_config_of F q cx = Some C \<and>
       (\<forall>e \<in> set parts. part_ok C (fst e))) \<and>
       (fa_answer_blocks a = [] \<longrightarrow> (\<exists>e \<in> set tail. withdraws (fst e))))"
    (is "\<exists>early parts tail. ?P early parts tail")
proof -
  have preview: "no_parts (preview_evidence q cx)" for cx
    by (auto simp: preview_evidence_def no_parts_def split: option.splits sum.splits)
  have quiet: ?thesis if "no_parts seen"
    by (rule exI [of _ seen], rule exI [of _ "[]"], rule exI [of _ "[]"]) (use that in \<open>simp add: no_parts_def\<close>)
  show ?thesis
  proof (cases "seen = [] \<or> (\<exists>cx. seen = preview_evidence q cx)")
    case True
    then show ?thesis using preview quiet by (auto simp: no_parts_def)
  next
    case False
    then obtain cx n trace where cx: "answer_context F q cx"
      and gen: "generate_answer F q n cx trace (preview_evidence q cx) = Inr (a, seen)"
      using finalize_cases [OF assms] by blast
    show ?thesis
    proof (cases "\<exists>inputs first last' s. (first \<or> last') \<and>
        streamed (delivery_config_of F q cx) inputs first last' (preview_evidence q cx) = (s, seen)")
      case True
      then obtain inputs first last' s where st: "first \<or> last'"
        "streamed (delivery_config_of F q cx) inputs first last' (preview_evidence q cx) = (s, seen)" by blast
      show ?thesis
      proof (cases "delivery_config_of F q cx")
        case None
        then show ?thesis using st(2) preview quiet by (auto simp: streamed_def)
      next
        case (Some C)
        from streamed_parts [OF st(2) [unfolded Some]] st(1) obtain parts tail where
          "seen = preview_evidence q cx @ parts @ tail" "\<forall>e \<in> set parts. part_ok C (fst e)" "no_parts tail"
          "\<exists>e \<in> set tail. withdraws (fst e)" by blast
        then have "?P (preview_evidence q cx) parts tail" using Some cx preview by blast
        then show ?thesis by blast
      qed
    next
      case no: False
      from generate_cases [OF gen] no obtain inputs g d s seen0 trace1 where
        g: "answer (fz_env F) (fq_query q) cx (fq_deadline q) (delivery_config_of F q cx \<noteq> None) = (inputs, Inr g)"
          "gr_draft g = Some d"
        and st: "streamed (delivery_config_of F q cx) inputs False False (preview_evidence q cx) = (s, seen0)"
        and pub: "publish F q n cx trace1 seen0 g d = Inr (a, seen)" by blast
      have "list_all normal_block (gd_answer_blocks d)"
        using answer_sound [OF g(1)] g(2) by (simp add: sound_result_def accepted_draft_def)
      from publish_facts [OF pub this] obtain t new where
        new: "seen = seen0 @ new" "gate_events (fq_event_sink q) t new" "fa_answer_blocks a = ta_answer_blocks t"
        by (auto simp: publishes_def)
      have new_quiet: "no_parts new" using new(2)
        by (auto simp: gate_events_def no_parts_def split: option.splits if_splits)
      show ?thesis
      proof (cases "delivery_config_of F q cx")
        case None
        then have "seen = preview_evidence q cx @ new" using st new(1) by (simp add: streamed_def)
        then have "no_parts seen" using preview new_quiet by (auto simp: no_parts_def)
        then show ?thesis by (rule quiet)
      next
        case (Some C)
        then have "fq_event_sink q \<noteq> None" by (auto simp: delivery_config_of_def split: option.splits)
        then have failed: "\<exists>e \<in> set new. withdraws (fst e)" if "fa_answer_blocks a = []"
          using new(2,3) that by (auto simp: gate_events_def)
        from streamed_parts [OF st [unfolded Some]] obtain parts tail where
          "seen0 = preview_evidence q cx @ parts @ tail" "\<forall>e \<in> set parts. part_ok C (fst e)" "no_parts tail" by blast
        then have "?P (preview_evidence q cx) parts (tail @ new)"
          using Some cx preview new(1) new_quiet failed by (auto simp: no_parts_def)
        then show ?thesis by blast
      qed
    qed
  qed
qed

section \<open>Properties\<close>

text \<open>
  C23: How the text of an answer is cut into chunks does not show. A reader that has just been set up
  leaves the same delivery, its events and metrics included, for a text in any chunks as for the text in
  one piece, when the text is within the reader's limit and it reads no number from it: a number at the
  end of a chunk is the one value that a longer text changes.
\<close>

theorem chunks_do_not_show:
  assumes "prefix_decoder (an_raw_decode (dc_env C))" and "dv_stream s = new_stream"
    and "length (concat cs) \<le> STREAM_MAX_CHARACTERS"
    and "\<not> list_ex number_item (snd (feed_stream (an_raw_decode (dc_env C)) new_stream (concat cs)))"
  shows "with_reader new_stream (run_delivery C (map Stream_Content cs) s) =
    with_reader new_stream (run_delivery C [Stream_Content (concat cs)] s)"
proof -
  let ?D = "an_raw_decode (dc_env C)"
  have start: "js_phase new_stream \<noteq> Ph_Disabled" "stream_step ?D new_stream = None" "js_length new_stream = 0"
    by (simp_all add: new_stream_def stream_step_def)
  have "snd (feed_chunks ?D new_stream ds) = snd (feed_stream ?D new_stream (concat cs))" if "concat ds = concat cs" for ds
    using feed_chunks_joined [OF assms(1) start(1,2), of ds] assms(3,4) that start(3) by simp
  then have "snd (feed_chunks ?D new_stream cs) = snd (feed_chunks ?D new_stream [concat cs])" by simp
  moreover obtain p where "run_delivery C (map Stream_Content cs) s =
      with_reader p (receive_items C (snd (feed_chunks ?D new_stream cs)) s)"
    using run_delivery_chunks [of C cs s] assms(2) by auto
  moreover obtain p' where "run_delivery C (map Stream_Content [concat cs]) s =
      with_reader p' (receive_items C (snd (feed_chunks ?D new_stream [concat cs])) s)"
    using run_delivery_chunks [of C "[concat cs]" s] assms(2) by auto
  ultimately show ?thesis by simp
qed

lemma sample_decode_prefix: "prefix_decoder sample_decode"
proof -
  have "n < length x \<and> \<not> number_value v \<and> sample_decode (x @ y) = Some (v, n)" if known: "sample_decode x = Some (v, n)" for x y v n
  proof (cases "take 15 x = [CHR 0x22] @ ''answer_blocks'' @ [CHR 0x22]")
    case True
    have "length (take 15 x) = 15" unfolding True by simp
    then have "15 \<le> length x" by simp
    moreover have "v = VStr ''answer_blocks'' \<and> n = 14" using known True by (simp add: sample_decode_def)
    ultimately show ?thesis using True by (simp add: sample_decode_def number_value_def)
  next
    case False
    then have two: "take 2 x = ''{}''" using known by (auto simp: sample_decode_def split: if_splits)
    then obtain rest where "x = CHR ''{'' # CHR ''}'' # rest" by (cases x; cases "tl x") auto
    then show ?thesis using known False by (auto simp: sample_decode_def number_value_def)
  qed
  then show ?thesis by (auto simp: prefix_decoder_def)
qed

definition sample_chunks :: "string list" where
  "sample_chunks = [''{'' @ [CHR 0x22] @ ''answer_blo'', ''cks'' @ [CHR 0x22] @ '':[{'', ''} ]'']"

definition sample_delivery :: delivery_config where
  "sample_delivery = \<lparr>dc_env = sample_answer_env [] (\<lambda>step. sample_draft [''cs1'']), dc_context = sample_context,
     dc_run_id = ''r'', dc_sink = (\<lambda>n e. Inr ())\<rparr>"

lemma sample_items: "snd (feed_stream sample_decode new_stream (concat sample_chunks)) =
    [Received ''answer_block'' (Some 0) (VDict [(''text'', VStr ''One.''), (''citation_ids'', VList [VStr ''cs1''])]),
     Received ''answer_blocks_end'' None VNull]"
proof -
  have "feed_stream sample_decode new_stream (concat sample_chunks) =
      stream_loop sample_decode (append_text new_stream (concat sample_chunks))"
    by (rule feed_stream_append) (simp_all add: new_stream_def sample_chunks_def STREAM_MAX_CHARACTERS_def)
  moreover have "snd (stream_loop sample_decode (append_text new_stream (concat sample_chunks))) =
    [Received ''answer_block'' (Some 0) (VDict [(''text'', VStr ''One.''), (''citation_ids'', VList [VStr ''cs1''])]),
     Received ''answer_blocks_end'' None VNull]"
    by code_simp
  ultimately show ?thesis by simp
qed

lemma chunks_do_not_show_witness:
  "length sample_chunks = 3 \<and>
   with_reader new_stream (run_delivery sample_delivery (map Stream_Content sample_chunks) (start_delivery sample_delivery [])) =
   with_reader new_stream (run_delivery sample_delivery [Stream_Content (concat sample_chunks)] (start_delivery sample_delivery []))"
proof -
  have env: "an_raw_decode (dc_env sample_delivery) = sample_decode"
    by (simp add: sample_delivery_def sample_answer_env_def)
  have "dv_stream (start_delivery sample_delivery []) = new_stream"
    by (simp add: start_delivery_def new_parser_def Let_def)
  then show ?thesis
    using chunks_do_not_show [of sample_delivery "start_delivery sample_delivery []" sample_chunks]
    unfolding env sample_items
    by (simp add: sample_decode_prefix number_value_def sample_chunks_def STREAM_MAX_CHARACTERS_def)
qed

section \<open>A sample that is withdrawn\<close>

definition sample_refusal :: grounded_draft where
  "sample_refusal = \<lparr>gd_intro = None, gd_outro = None, gd_status = Status_Insufficient, gd_answer_blocks = [],
     gd_limitations = [''No.'']\<rparr>"

definition refusing_finalizer :: finalizer where
  "refusing_finalizer = sample_finalizer (map Stream_Content sample_chunks) (\<lambda>step. sample_refusal)"

definition refused_result :: grounded_result where
  "refused_result = (sample_grounded [])\<lparr>gr_draft := Some sample_refusal\<rparr>"

lemma refusing_answered:
  "answer (fz_env refusing_finalizer) query sample_context None True = (map Stream_Content sample_chunks, Inr refused_result)"
  by (auto simp: answer_def sample_answer_env_def remaining_time_def call_model_def Let_def sample_provider_def
      received_draft_def sample_response_def mk_grounded_draft_def normalize_framing_def retry_count_def
      deduplicated_draft_def sample_context_def response_usage_def refusing_finalizer_def sample_finalizer_def
      float_of_number_def judge_first_def call_issues_def validate_grounded_answer_def shape_issues_def strip_def
      is_space_def sample_refusal_def deadline_reached_def first_result_def downgraded_def sample_grounded_def
      refused_result_def)

definition refusing_delivery :: delivery_config where
  "refusing_delivery = \<lparr>dc_env = fz_env refusing_finalizer, dc_context = sample_context, dc_run_id = ''r'',
     dc_sink = (\<lambda>n e. Inr ())\<rparr>"

lemma refusing_config: "delivery_config_of refusing_finalizer sample_request sample_context = Some refusing_delivery"
  by (simp add: delivery_config_of_def sample_request_def refusing_delivery_def refusing_finalizer_def sample_finalizer_def)

abbreviation sample_part :: draft_block where
  "sample_part \<equiv> \<lparr>db_text = ''One.'', db_citation_ids = [''cs1'']\<rparr>"

lemma refusing_trust:
  "\<exists>t. provisional_trust refusing_delivery n sample_part = Inr t \<and>
     ta_answer_blocks t = [\<lparr>ab_text = ''One.'', ab_citation_ids = [''cs1'']\<rparr>]"
proof -
  let ?k = "\<lparr>tk_run_id = ''r'', tk_citations = [sample_citation], tk_spans = [sample_span ''s1'' 1 ''one''],
      tk_status = Status_Complete, tk_limitations = [], tk_termination_reason = T_Answer_Ready, tk_intro = None, tk_outro = None\<rparr>"
  let ?E = "fz_env refusing_finalizer"
  have normal: "list_all normal_block [sample_part]" by (simp add: normal_block_def strip_def is_space_def)
  obtain t seen where t: "apply_answer_trust (an_platform ?E) (an_runtime ?E) (an_say ?E) ?k [sample_part]
      (an_current ?E (Pass_Part n)) None [] = Inr (t, seen)"
    using apply_answer_trust_total [OF _ normal, of None] by (fastforce simp: accepting_def)
  have "gate_reason (an_current ?E (Pass_Part n)) ?k ''cs1'' = None"
    by (simp add: gate_reason_def reference_reason_def dict_of_def sample_cited)
       (simp add: sample_span_def Let_def refusing_finalizer_def sample_finalizer_def sample_answer_env_def)
  then have "ta_answer_blocks t = [\<lparr>ab_text = ''One.'', ab_citation_ids = [''cs1'']\<rparr>]"
    using apply_answer_trust_gate [OF t normal] by (auto simp: gate_result_def Let_def passes_gate_def strict_block_def)
  moreover have "filter (\<lambda>s. sp_citation_id s = ''cs1'') (cx_spans sample_context) = [sample_span ''s1'' 1 ''one'']"
    by (simp add: sample_context_def sample_span_def Let_def)
  ultimately show ?thesis using t
    by (simp add: provisional_trust_def Let_def refusing_delivery_def sample_cited)
qed

text \<open>The sample stream shows its block.\<close>

lemma refusing_shows:
  "\<exists>citations elapsed. (Answer_Part None None (Some 0) \<lparr>ab_text = ''One.'', ab_citation_ids = [''cs1'']\<rparr> citations elapsed 0, True)
     \<in> set (dv_events (run_delivery refusing_delivery (map Stream_Content sample_chunks) (start_delivery refusing_delivery seen)))"
proof -
  let ?s = "start_delivery refusing_delivery seen" and ?D = "an_raw_decode (dc_env refusing_delivery)"
  have D: "?D = sample_decode"
    by (simp add: refusing_delivery_def refusing_finalizer_def sample_finalizer_def sample_answer_env_def)
  have new: "dv_stream ?s = new_stream" by (simp add: start_delivery_def new_parser_def Let_def)
  have "snd (feed_chunks ?D new_stream sample_chunks) = snd (feed_stream ?D new_stream (concat sample_chunks))"
    unfolding D by (rule feed_chunks_joined [OF sample_decode_prefix])
      (unfold sample_items, simp_all add: new_stream_def stream_step_def number_value_def sample_chunks_def STREAM_MAX_CHARACTERS_def)
  then have items: "snd (feed_chunks ?D new_stream sample_chunks) =
      [Received ''answer_block'' (Some 0) (VDict [(''text'', VStr ''One.''), (''citation_ids'', VList [VStr ''cs1''])]),
       Received ''answer_blocks_end'' None VNull]" by (simp add: D sample_items)
  obtain t where t: "provisional_trust refusing_delivery 0 sample_part = Inr t"
    "ta_answer_blocks t = [\<lparr>ab_text = ''One.'', ab_citation_ids = [''cs1'']\<rparr>]" using refusing_trust by blast
  have state: "dv_parts ?s = 0" "\<not> dv_insufficient ?s" "dv_intro ?s = None" "dv_outro ?s = None" "dv_seen ?s = []"
    "dv_generation ?s = 0" "\<not> dv_array_complete ?s"
    by (simp_all add: start_delivery_def new_parser_def Let_def deliver_event_def)
  have sink: "dc_sink refusing_delivery = (\<lambda>n e. Inr ())" "cx_citation_allowlist (dc_context refusing_delivery) = [''cs1'']"
    by (simp_all add: refusing_delivery_def sample_context_def)
  have block: "draft_block_of (VDict [(''text'', VStr ''One.''), (''citation_ids'', VList [VStr ''cs1''])]) = Inr sample_part"
    by (simp add: mk_draft_block_def strip_def is_space_def)
  obtain p where run: "run_delivery refusing_delivery (map Stream_Content sample_chunks) ?s =
      with_reader p (receive_items refusing_delivery (snd (feed_chunks ?D new_stream sample_chunks)) ?s)"
    using run_delivery_chunks [of refusing_delivery sample_chunks ?s] new by auto
  show ?thesis
    unfolding run items
    by (simp add: receive_def receive_block_def block sink state t show_block_def deliver_event_def Let_def shown_outro_def
        del: draft_block_of.simps) blast
qed

lemma generate_refuses:
  assumes "answer (fz_env F) (fq_query q) cx (fq_deadline q) (delivery_config_of F q cx \<noteq> None) = (inputs, Inr g)"
    and "gr_draft g = Some d" and "gd_status d = Status_Insufficient" and "fq_termination_reason q = T_Answer_Ready"
    and "streamed (delivery_config_of F q cx) inputs False True seen = (s, seen0)"
  shows "\<exists>a. generate_answer F q n cx trace seen = Inr (a, seen0) \<and> fa_answer_blocks a = []"
  unfolding generate_answer_def Let_def assms(1) prod.case sum.case assms(2) option.case
  using assms(3-5) by (simp add: insufficient_draft_def insufficient_def Let_def)

lemma refused: "\<exists>a seen i citations elapsed. finalize refusing_finalizer sample_request = Inr (a, seen) \<and>
    fa_answer_blocks a = [] \<and> i < length seen \<and>
    seen ! i = (Answer_Part None None (Some 0) \<lparr>ab_text = ''One.'', ab_citation_ids = [''cs1'']\<rparr> citations elapsed 0, True)"
proof -
  let ?early = "preview_evidence sample_request sample_context"
  obtain trace where fin: "finalize refusing_finalizer sample_request =
      generate_answer refusing_finalizer sample_request 1 sample_context trace ?early"
    using finalize_generates [of sample_request refusing_finalizer "[sample_span ''s1'' 1 ''one'']" sample_context]
      sample_fused sample_built
    by (auto simp: refusing_finalizer_def sample_finalizer_def sample_answer_env_def sample_context_def
        sample_request_def deadline_reached_def)
  obtain s seen where s: "streamed (Some refusing_delivery) (map Stream_Content sample_chunks) False True ?early = (s, seen)"
    by fastforce
  have "answer (fz_env refusing_finalizer) (fq_query sample_request) sample_context (fq_deadline sample_request)
      (delivery_config_of refusing_finalizer sample_request sample_context \<noteq> None) =
      (map Stream_Content sample_chunks, Inr refused_result)"
    unfolding refusing_config using refusing_answered by (simp add: sample_request_def)
  from generate_refuses [OF this, of sample_refusal, unfolded refusing_config, OF _ _ _ s]
  have "\<exists>a. generate_answer refusing_finalizer sample_request 1 sample_context trace ?early = Inr (a, seen) \<and>
      fa_answer_blocks a = []"
    by (simp add: refused_result_def) (simp add: sample_refusal_def sample_request_def)
  with fin obtain a where a: "finalize refusing_finalizer sample_request = Inr (a, seen)" "fa_answer_blocks a = []" by auto
  have "set (dv_events (run_delivery refusing_delivery (map Stream_Content sample_chunks)
      (start_delivery refusing_delivery ?early))) \<subseteq> set seen"
    using s by (auto simp: streamed_def Let_def retract_def finish_delivery_def deliver_event_def)
  then obtain citations elapsed where
    "(Answer_Part None None (Some 0) \<lparr>ab_text = ''One.'', ab_citation_ids = [''cs1'']\<rparr> citations elapsed 0, True) \<in> set seen"
    using refusing_shows [of ?early] by blast
  then show ?thesis using a by (metis in_set_conv_nth)
qed

text \<open>
  A block that is shown before the answer is finished passed the gate. Every part the stream
  delivers has citations; each is in the allowlist of the context, is the citation of a span of the
  context that the check of its source accepted when the part was put before the gate, and comes with it.
\<close>

lemma shown_blocks_are_evidenced:
  assumes "finalize F q = Inr (a, seen)"
    and "(Answer_Part intro outro index b citations elapsed generation, ok) \<in> set seen"
  shows "\<exists>cx n. answer_context F q cx \<and> ab_citation_ids b \<noteq> [] \<and>
    set (ab_citation_ids b) \<subseteq> set (cx_citation_allowlist cx) \<and>
    (\<forall>i \<in> set (ab_citation_ids b). \<exists>sp c. sp \<in> set (cx_spans cx) \<and> sp_citation_id sp = i \<and>
       an_current (fz_env F) (Pass_Part n) sp \<and> as_citation sp = Inr c \<and> c \<in> set citations)"
proof -
  let ?e = "Answer_Part intro outro index b citations elapsed generation"
  from finalize_parts [OF assms(1)] obtain early parts tail where
    seen: "seen = early @ parts @ tail" "no_parts early" "no_parts tail"
    and parts: "parts \<noteq> [] \<longrightarrow> (\<exists>cx C. answer_context F q cx \<and> delivery_config_of F q cx = Some C \<and>
       (\<forall>e \<in> set parts. part_ok C (fst e)))" by blast
  have here: "(?e, ok) \<in> set parts" using assms(2) seen by (auto simp: no_parts_def)
  with parts obtain cx C where cx: "answer_context F q cx" "delivery_config_of F q cx = Some C" "part_ok C ?e"
    by (metis empty_iff fst_conv list.set(1))
  then have "dc_context C = cx" "dc_env C = fz_env F" by (auto simp: delivery_config_of_def split: option.splits if_splits)
  with cx show ?thesis by (auto simp: evidenced_def)
qed

text \<open>
  C22: What was shown is taken back. When an answer publishes no block, every part that was shown before
  is followed by a reset of the stream or by the failure of the gate.
\<close>

theorem shown_blocks_are_withdrawn:
  assumes "finalize F q = Inr (a, seen)" and "fa_answer_blocks a = []"
    and "i < length seen" and "fst (seen ! i) = Answer_Part intro outro index b citations elapsed generation"
  shows "\<exists>j. i < j \<and> j < length seen \<and>
    ((\<exists>g. fst (seen ! j) = Stream_Reset g) \<or> (\<exists>h outcome summary. fst (seen ! j) = Trust_Failed h outcome summary))"
proof -
  from finalize_parts [OF assms(1)] obtain early parts tail where
    seen: "seen = early @ parts @ tail" "no_parts early" "no_parts tail"
    and parts: "parts \<noteq> [] \<longrightarrow> fa_answer_blocks a = [] \<longrightarrow> (\<exists>e \<in> set tail. withdraws (fst e))" by blast
  have part: "is_part (fst (seen ! i))" using assms(4) by simp
  have "i < length (early @ parts)"
  proof (rule ccontr)
    assume "\<not> i < length (early @ parts)"
    then have "seen ! i \<in> set tail" using assms(3) seen(1) by (auto simp: nth_append)
    with seen(3) part show False by (simp add: no_parts_def)
  qed
  moreover have "\<not> i < length early" using part seen(1,2) by (auto simp: nth_append no_parts_def)
  ultimately have "parts \<noteq> []" by auto
  with parts assms(2) obtain e where e: "e \<in> set tail" "withdraws (fst e)" by blast
  then obtain k where k: "k < length tail" "tail ! k = e" by (meson in_set_conv_nth)
  let ?j = "length (early @ parts) + k"
  have "seen ! ?j = e" using k seen(1) by (simp add: nth_append)
  moreover have "i < ?j" "?j < length seen" using \<open>i < length (early @ parts)\<close> k(1) seen(1) by simp_all
  ultimately show ?thesis using e(2) by (cases "fst e") auto
qed

lemma shown_blocks_are_withdrawn_witness:
  "\<exists>a seen i j. finalize refusing_finalizer sample_request = Inr (a, seen) \<and> is_part (fst (seen ! i)) \<and>
     i < j \<and> j < length seen \<and> withdraws (fst (seen ! j))"
proof -
  obtain a seen i citations elapsed where run: "finalize refusing_finalizer sample_request = Inr (a, seen)"
    "fa_answer_blocks a = []" and part: "i < length seen" "seen ! i =
      (Answer_Part None None (Some 0) \<lparr>ab_text = ''One.'', ab_citation_ids = [''cs1'']\<rparr> citations elapsed 0, True)"
    using refused by blast
  then have e: "fst (seen ! i) = Answer_Part None None (Some 0) \<lparr>ab_text = ''One.'', ab_citation_ids = [''cs1'']\<rparr> citations elapsed 0"
    by simp
  from shown_blocks_are_withdrawn [OF run part(1) e] obtain j where "i < j" "j < length seen" "withdraws (fst (seen ! j))"
    by auto
  with run(1) e show ?thesis by force
qed

end
