(* ===== verification/Answer_Calls.thy ===== *)
theory Answer_Calls
  imports Answer_Properties
begin

text \<open>
  How often the model is called for an answer, as its diagnostics count it: the first call, and either
  the repair of the draft or the local repair of its citations.
\<close>

section \<open>Diagnostics\<close>

lemma map_of_trace_update:
  "map_of (trace_update new trace) k = (case map_of (rev new) k of None \<Rightarrow> map_of trace k | Some v \<Rightarrow> Some v)"
proof (induction new arbitrary: trace)
  case (Cons kv new)
  have "trace_update (kv # new) trace = trace_update new (AList.update (fst kv) (snd kv) trace)"
    by (simp add: trace_update_def case_prod_beta)
  with Cons show ?case
    by (cases "map_of (rev new) k") (simp_all add: update_conv' map_add_def split: option.splits prod.splits)
qed (simp add: trace_update_def)

lemma trace_int_update:
  "trace_int (trace_update new trace) k =
     (case map_of (rev new) k of None \<Rightarrow> trace_int trace k | Some (VInt i) \<Rightarrow> i | Some v \<Rightarrow> 0)"
  by (cases "map_of (rev new) k") (simp_all add: trace_int_def map_of_trace_update split: jvalue.splits)

text \<open>The calls of the model and the repairs that the diagnostics count.\<close>

definition provider_calls :: "jdict \<Rightarrow> int" where
  "provider_calls trace = trace_int trace ''answer_provider_call_count''"

definition repair_calls :: "jdict \<Rightarrow> int" where
  "repair_calls trace = trace_int trace ''repair_calls''"

lemma calls_untouched:
  assumes "''answer_provider_call_count'' \<notin> fst ` set new" and "''repair_calls'' \<notin> fst ` set new"
  shows "provider_calls (trace_update new trace) = provider_calls trace"
    "repair_calls (trace_update new trace) = repair_calls trace"
proof -
  have "map_of (rev new) k = None" if "k \<notin> fst ` set new" for k using that by (simp add: map_of_eq_None_iff)
  with assms show "provider_calls (trace_update new trace) = provider_calls trace"
    "repair_calls (trace_update new trace) = repair_calls trace"
    by (simp_all add: provider_calls_def repair_calls_def trace_int_update)
qed

lemma answer_trace_calls:
  "provider_calls (trace_update (answer_trace g) trace) = gr_provider_call_count g"
  "repair_calls (trace_update (answer_trace g) trace) = gr_repair_calls g"
  by (simp_all add: provider_calls_def repair_calls_def trace_int_update answer_trace_def)

lemma failed_trace_calls:
  "provider_calls (trace_update (failed_answer_trace R x) trace) = 0"
  "repair_calls (trace_update (failed_answer_trace R x) trace) = 0"
  by (simp_all add: provider_calls_def repair_calls_def trace_int_update failed_answer_trace_def)

lemma streamed_trace: "streamed config inputs first last' seen = (s, seen1) \<Longrightarrow> fst ` set s \<subseteq> {''answer_stream''}"
  by (auto simp: streamed_def Let_def split: option.splits)

lemma streamed_calls:
  assumes "streamed config inputs first last' seen = (s, seen1)"
  shows "provider_calls (trace_update s trace) = provider_calls trace" "repair_calls (trace_update s trace) = repair_calls trace"
  using streamed_trace [OF assms] by (intro calls_untouched; auto)+

section \<open>Repairs\<close>

text \<open>A local repair follows a draft that was not repaired, and calls the model once at most.\<close>

lemma local_repair_calls:
  assumes "local_repair F q cx ds failed blocks trace = (bs, t, hints)"
  shows "provider_calls trace \<le> provider_calls t \<and> provider_calls t \<le> provider_calls trace + 1 \<and>
    repair_calls trace \<le> repair_calls t \<and> repair_calls t \<le> repair_calls trace + 1"
proof -
  let ?limit = "Some (case fq_deadline q of None \<Rightarrow> repair_cap F | Some d \<Rightarrow> min d (repair_cap F))"
  let ?r = "repair (fz_env F) (fq_query q) cx (repair_issues ds failed) (map ((!) blocks) failed) ?limit"
  show ?thesis
  proof (cases ?r)
    case (Inl x)
    with assms show ?thesis by (simp add: local_repair_def Let_def)
  next
    case (Inr g)
    have "provider_calls t = provider_calls trace + gr_provider_call_count g \<and>
        repair_calls t = repair_calls trace + gr_repair_calls g"
      using assms Inr
      by (auto simp: local_repair_def Let_def provider_calls_def repair_calls_def trace_int_update
          split: option.splits if_splits)
    with repair_sound [OF Inr] show ?thesis by simp
  qed
qed

lemma citation_repair_calls:
  assumes "citation_repair F q cx g ds blocks trace = (attempted, bs, t, hints)"
  shows "if attempted
    then \<not> gr_repair_used g \<and> provider_calls trace \<le> provider_calls t \<and> provider_calls t \<le> provider_calls trace + 1 \<and>
      repair_calls trace \<le> repair_calls t \<and> repair_calls t \<le> repair_calls trace + 1
    else t = trace"
proof -
  have used: "provider_calls (trace_update [(''repair_used'', VBool True)] u) = provider_calls u"
    "repair_calls (trace_update [(''repair_used'', VBool True)] u) = repair_calls u" for u
    by (rule calls_untouched; simp)+
  show ?thesis
    using assms local_repair_calls by (fastforce simp: citation_repair_def Let_def used split: if_splits prod.splits)
qed

lemma publish_calls:
  assumes "publish F q evidence cx trace seen g d = Inr (a, seen2)"
  shows "\<exists>t. provider_calls (fa_trace a) = provider_calls t \<and> repair_calls (fa_trace a) = repair_calls t \<and>
    (t = trace \<and> fa_repair_used a = gr_repair_used g \<or>
     \<not> gr_repair_used g \<and> fa_repair_used a \<and> provider_calls trace \<le> provider_calls t \<and>
       provider_calls t \<le> provider_calls trace + 1 \<and>
       repair_calls trace \<le> repair_calls t \<and> repair_calls t \<le> repair_calls trace + 1)"
proof -
  obtain status limitations citations where
    gaps: "merge_answer_gaps (an_runtime (fz_env F)) (an_say (fz_env F)) (gd_status d) (gd_limitations d)
      (fq_decision_projection q) = Inr (status, limitations)"
    and citations: "emap as_citation (cx_spans cx) = Inr citations"
    using assms by (auto simp: publish_def Let_def ebind_eq_Inr)
  note run = assms [unfolded publish_def Let_def gaps citations ebind_Inr prod.case]
  obtain pre seen1 where pre: "apply_answer_trust (an_platform (fz_env F)) (an_runtime (fz_env F)) (an_say (fz_env F))
      \<lparr>tk_run_id = fq_run_id q, tk_citations = citations, tk_spans = cx_spans cx, tk_status = status,
        tk_limitations = limitations @ (if cx_truncated cx then [an_say (fz_env F) N_Truncated] else []),
        tk_termination_reason = fq_termination_reason q, tk_intro = gd_intro d, tk_outro = gd_outro d\<rparr>
      (gd_answer_blocks d) (an_current (fz_env F) Pass_Preflight)
      (if \<not> gr_repair_used g \<and> needs_repair cx (gd_answer_blocks d) \<and> time_left F q R_May_Repair then None
       else fq_event_sink q) seen = Inr (pre, seen1)"
    using run by (auto simp: ebind_eq_Inr)
  obtain attempted blocks1 trace1 hints where rep: "citation_repair F q cx g (ts_dispositions (ta_summary pre))
      (gd_answer_blocks d) trace = (attempted, blocks1, trace1, hints)" using prod_cases4 by blast
  note rest = run [unfolded pre ebind_Inr prod.case rep]
  have calls: "provider_calls (trace_update [(''local_citation_repair'', u), (''trust_summary'', v)] trace1) = provider_calls trace1"
    "repair_calls (trace_update [(''local_citation_repair'', u), (''trust_summary'', v)] trace1) = repair_calls trace1" for u v
    by (rule calls_untouched; simp)+
  have "provider_calls (fa_trace a) = provider_calls trace1 \<and> repair_calls (fa_trace a) = repair_calls trace1 \<and>
      fa_repair_used a = (gr_repair_used g \<or> attempted)"
    using rest by (auto simp: ebind_eq_Inr calls)
  with citation_repair_calls [OF rep] show ?thesis by (intro exI [of _ trace1]) (auto split: if_splits)
qed

text \<open>What a withheld answer of the generation counts.\<close>

lemma insufficient_trace [simp]:
  "fa_trace (insufficient ls outcome r n trace k truncated used) = trace"
  "fa_repair_used (insufficient ls outcome r n trace k truncated used) = used"
  by (simp_all add: insufficient_def)

definition calls_ok :: "finalized_answer \<Rightarrow> bool" where
  "calls_ok a \<longleftrightarrow> 0 \<le> provider_calls (fa_trace a) \<and> provider_calls (fa_trace a) \<le> (if fa_repair_used a then 2 else 1) \<and>
     0 \<le> repair_calls (fa_trace a) \<and> repair_calls (fa_trace a) \<le> (if fa_repair_used a then 1 else 0)"

lemma generate_calls:
  assumes "generate_answer F q n cx trace seen = Inr (a, seen1)"
  shows "calls_ok a"
proof -
  let ?C = "delivery_config_of F q cx"
  obtain inputs answered where ans: "answer (fz_env F) (fq_query q) cx (fq_deadline q) (?C \<noteq> None) = (inputs, answered)"
    by fastforce
  note run = assms [unfolded generate_answer_def Let_def ans prod.case]
  show ?thesis
  proof (cases answered)
    case (Inl x)
    obtain s seen0 where s: "streamed ?C inputs True False seen = (s, seen0)" by fastforce
    then show ?thesis using run Inl by (auto simp: calls_ok_def streamed_calls [OF s] failed_trace_calls)
  next
    case (Inr g)
    have sound: "sound_result (fz_env F) g" using answer_sound ans Inr by blast
    show ?thesis
    proof (cases "gr_draft g")
      case None
      then show ?thesis using run Inr sound
        by (auto simp: calls_ok_def failed_draft_def answer_trace_calls sound_result_def split: prod.splits)
    next
      case (Some d)
      obtain s seen0 where s: "streamed ?C inputs False (gd_status d = Status_Insufficient) seen = (s, seen0)" by fastforce
      let ?t = "trace_update (answer_trace g) (trace_update s trace)"
      show ?thesis
      proof (cases "gd_status d = Status_Insufficient")
        case True
        then show ?thesis using run Inr Some s sound
          by (auto simp: calls_ok_def insufficient_draft_def Let_def ebind_eq_Inr answer_trace_calls sound_result_def)
      next
        case False
        then have "publish F q n cx ?t seen0 g d = Inr (a, seen1)" using run Inr Some s by auto
        from publish_calls [OF this] sound show ?thesis
          by (auto simp: calls_ok_def answer_trace_calls sound_result_def split: if_splits)
      qed
    qed
  qed
qed

text \<open>
  A call that is not counted: when the deadline passes between the check after the first call and the
  timeout of the repair, the exception leaves \<open>answer\<close> with the first call's usage, and the diagnostics
  say that the model was not called.
\<close>

lemma late_repair_uncounted:
  assumes "an_factory (fz_env F) Step_First ''grounded_answer'' = Inr p"
    and "remaining_time (fz_env F) (fq_deadline q) (R_Timeout Step_First) = Inr timeout"
    and "call_model (fz_env F) p Step_First (answer_messages (fz_env F) (fq_query q) cx) (cx_citation_allowlist cx) timeout
      Call_Initial (delivery_config_of F q cx \<noteq> None) = (inputs, Inr (c, usage))"
    and "\<not> deadline_reached (fz_env F) (fq_deadline q) (R_Deadline Step_First)"
    and "call_issues (fz_env F) c ''provider output is invalid'' \<noteq> []" and "cr_draft c \<noteq> None \<or> cr_repairable c"
    and "cr_error_code c \<notin> Some ` set ROLE_RECOVERY_ERROR_CODES"
    and "remaining_time (fz_env F) (fq_deadline q) (R_Timeout Step_Second) = Inl x"
    and "generate_answer F q n cx trace seen = Inr (a, seen1)"
  shows "provider_calls (fa_trace a) = 0"
proof -
  let ?C = "delivery_config_of F q cx"
  obtain fed where "answer (fz_env F) (fq_query q) cx (fq_deadline q) (?C \<noteq> None) = (fed, Inl x)"
    using assms(1-8) by (auto simp: answer_def judge_first_def repair_first_def repair_call_def Let_def)
  note run = assms(9) [unfolded generate_answer_def Let_def this prod.case sum.case]
  obtain s seen0 where s: "streamed ?C fed True False seen = (s, seen0)" by fastforce
  with run show ?thesis by (auto simp: streamed_calls [OF s] failed_trace_calls)
qed

text \<open>Before the generation nothing is counted.\<close>

definition uncounted :: "jdict \<Rightarrow> bool" where
  "uncounted trace \<longleftrightarrow> provider_calls trace = 0 \<and> repair_calls trace = 0"

lemma uncounted_update:
  "uncounted trace \<Longrightarrow> fst ` set new \<inter> {''answer_provider_call_count'', ''repair_calls''} = {} \<Longrightarrow>
     uncounted (trace_update new trace)"
  by (auto simp: uncounted_def calls_untouched)

lemma uncounted_base [simp]:
  "uncounted [(''valid_evidence_count'', x), (''generation_policy'', y), (''answer_structure_version'', z)]"
  by (simp add: uncounted_def provider_calls_def repair_calls_def trace_int_def)

lemma uncounted_context [simp]:
  "uncounted trace \<Longrightarrow> uncounted (trace_update [(''context_span_count'', x), (''context_truncated'', y),
     (''context_dropped_span_count'', z), (''citation_allowlist'', u)] trace)"
  by (rule uncounted_update) simp_all

lemma uncounted_ok [simp]: "uncounted trace \<Longrightarrow> calls_ok (insufficient ls outcome r n trace k truncated used)"
  by (simp add: calls_ok_def uncounted_def)

lemma without_evidence_calls: "uncounted trace \<Longrightarrow> calls_ok (without_evidence F q trace)"
  by (auto simp: without_evidence_def Let_def intro!: uncounted_ok uncounted_update)

lemma finalize_calls:
  assumes "finalize F q = Inr (a, seen)"
  shows "calls_ok a"
proof -
  obtain fused where fused: "(case fq_prepared_context q of Some cx \<Rightarrow> Inr (cx_spans cx)
      | None \<Rightarrow> fuse_evidence (an_runtime (fz_env F)) (an_rnd (fz_env F)) (fq_spans q)) = Inr fused"
    using assms by (auto simp: finalize_def Let_def ebind_eq_Inr)
  note run = assms [unfolded finalize_def Let_def fused ebind_Inr]
  show ?thesis
  proof (cases "fused = []")
    case True
    with run show ?thesis by (auto intro: without_evidence_calls)
  next
    case False
    then obtain cx where cx: "(case fq_prepared_context q of Some cx \<Rightarrow> Inr cx
        | None \<Rightarrow> build_context (an_platform (fz_env F)) (an_runtime (fz_env F)) (fz_builder F) (fq_query q)
            (fq_normalized_intent q) fused) = Inr cx"
      using run by (auto simp: ebind_eq_Inr)
    show ?thesis
      using run [unfolded cx ebind_Inr] False by (auto intro: generate_calls split: if_splits)
  qed
qed

section \<open>The property\<close>

text \<open>
  The model is called twice at most for an answer. The diagnostics of every finalized answer count
  one call, and a second one only when a repair was used; they count one repair at most, and none when
  no repair was used.
\<close>

lemma model_is_called_twice_at_most:
  assumes "finalize F q = Inr (a, seen)"
  shows "0 \<le> trace_int (fa_trace a) ''answer_provider_call_count'' \<and>
    trace_int (fa_trace a) ''answer_provider_call_count'' \<le> (if fa_repair_used a then 2 else 1) \<and>
    0 \<le> trace_int (fa_trace a) ''repair_calls'' \<and>
    trace_int (fa_trace a) ''repair_calls'' \<le> (if fa_repair_used a then 1 else 0)"
  using finalize_calls [OF assms] by (simp add: calls_ok_def provider_calls_def repair_calls_def)

end
