(* ===== verification/Trust_Properties.thy ===== *)
theory Trust_Properties
  imports Answer_Properties
begin

text \<open>
  What the gate keeps, where the quotes of a published answer come from, and what the review after
  publication may do.
\<close>

section \<open>The gate\<close>

text \<open>
  C24: The gate keeps exactly the evidenced blocks. When the given spans and citations have different
  ids, a block of a normalized draft survives if and only if it has citations and each is one of a
  given span that is current and of a given citation; the survivors keep their order and texts, and
  without any the outcome is an unsupported answer that publishes nothing.
\<close>

theorem gate_keeps_the_evidenced_blocks:
  assumes "apply_answer_trust P R say k bs current sink seen = Inr (t, seen1)" and "list_all normal_block bs"
    and "distinct (map sp_citation_id (tk_spans k))"
  shows "ta_answer_blocks t = map strict_block (filter (\<lambda>b. db_citation_ids b \<noteq> [] \<and>
      list_all (\<lambda>i. i \<noteq> [] \<and> list_ex (\<lambda>sp. sp_citation_id sp = i \<and> current sp) (tk_spans k) \<and>
        i \<in> ci_citation_id ` set (tk_citations k)) (db_citation_ids b)) bs) \<and>
    (if ta_answer_blocks t = [] then ta_status t = Status_Insufficient \<and>
       ta_execution_outcome t = O_Claim_Support_Insufficient \<and> ta_citations t = []
     else ta_execution_outcome t = O_Answer_Generated \<and>
       (ta_status t = tk_status k \<or> ta_status t = Status_Partial) \<and>
       (length (ta_answer_blocks t) < length bs \<longrightarrow> ta_status t = Status_Partial))"
proof -
  have gate: "gate_result say (gate_reason current k) k bs t" using apply_answer_trust_gate [OF assms(1,2)] by simp
  have known: "(map_of (dict_of ci_citation_id (tk_citations k)) i = None) = (i \<notin> ci_citation_id ` set (tk_citations k))" for i
    by (force simp: map_of_dict_of find_None_iff)
  have span: "map_of (dict_of sp_citation_id (tk_spans k)) i = Some sp \<longleftrightarrow> sp \<in> set (tk_spans k) \<and> sp_citation_id sp = i" for i sp
    using dict_of_entry [of sp_citation_id "tk_spans k" i sp] map_of_dict_of_distinct [OF assms(3)] by auto
  have "gate_reason current k i = None \<longleftrightarrow> i \<noteq> [] \<and> list_ex (\<lambda>sp. sp_citation_id sp = i \<and> current sp) (tk_spans k) \<and>
        i \<in> ci_citation_id ` set (tk_citations k)" for i
  proof (cases "map_of (dict_of sp_citation_id (tk_spans k)) i")
    case None
    then have "\<not> list_ex (\<lambda>sp. sp_citation_id sp = i \<and> current sp) (tk_spans k)" using span [of i] by (auto simp: list_ex_iff)
    with None show ?thesis by (simp add: gate_reason_def reference_reason_def)
  next
    case (Some sp)
    have "\<forall>x \<in> set (tk_spans k). sp_citation_id x = i \<longrightarrow> x = sp" using span [of i] Some by force
    moreover have "sp \<in> set (tk_spans k)" "sp_citation_id sp = i" using span [of i sp] Some by simp_all
    ultimately have "list_ex (\<lambda>sp. sp_citation_id sp = i \<and> current sp) (tk_spans k) = current sp"
      unfolding list_ex_iff by metis
    with Some show ?thesis by (simp add: gate_reason_def reference_reason_def known)
  qed
  then have pass: "passes_gate (gate_reason current k) = (\<lambda>b. db_citation_ids b \<noteq> [] \<and>
      list_all (\<lambda>i. i \<noteq> [] \<and> list_ex (\<lambda>sp. sp_citation_id sp = i \<and> current sp) (tk_spans k) \<and>
        i \<in> ci_citation_id ` set (tk_citations k)) (db_citation_ids b))"
    by (intro ext) (simp add: passes_gate_def list_all_iff)
  have kept: "ta_answer_blocks t = map strict_block (filter (passes_gate (gate_reason current k)) bs)"
    using gate by (simp add: gate_result_def Let_def)
  have "if ta_answer_blocks t = [] then ta_status t = Status_Insufficient \<and>
       ta_execution_outcome t = O_Claim_Support_Insufficient \<and> ta_citations t = []
     else ta_execution_outcome t = O_Answer_Generated \<and>
       (ta_status t = tk_status k \<or> ta_status t = Status_Partial) \<and>
       (length (ta_answer_blocks t) < length bs \<longrightarrow> ta_status t = Status_Partial)"
    using gate by (auto simp: gate_result_def Let_def split: if_splits)
  with kept show ?thesis unfolding pass by blast
qed

definition sample_kwargs :: trust_kwargs where
  "sample_kwargs = \<lparr>tk_run_id = ''r'', tk_citations = [sample_citation], tk_spans = [sample_span ''s1'' 1 ''one''],
     tk_status = Status_Complete, tk_limitations = [], tk_termination_reason = T_Answer_Ready, tk_intro = None, tk_outro = None\<rparr>"

lemma gate_keeps_the_evidenced_blocks_witness:
  "\<exists>t seen. apply_answer_trust sample_platform sample_runtime (\<lambda>n. ''notice'') sample_kwargs
      [\<lparr>db_text = ''One.'', db_citation_ids = [''cs1'']\<rparr>, \<lparr>db_text = ''Two.'', db_citation_ids = [''x'']\<rparr>]
      (\<lambda>sp. True) None [] = Inr (t, seen) \<and>
    ta_answer_blocks t = [\<lparr>ab_text = ''One.'', ab_citation_ids = [''cs1'']\<rparr>] \<and> ta_status t = Status_Partial"
proof -
  let ?bs = "[\<lparr>db_text = ''One.'', db_citation_ids = [''cs1'']\<rparr>, \<lparr>db_text = ''Two.'', db_citation_ids = [''x'']\<rparr>]"
  have normal: "list_all normal_block ?bs" by (simp add: normal_block_def strip_def is_space_def)
  obtain t seen where t: "apply_answer_trust sample_platform sample_runtime (\<lambda>n. ''notice'') sample_kwargs ?bs
      (\<lambda>sp. True) None [] = Inr (t, seen)"
    using apply_answer_trust_total [OF _ normal, of None] by (fastforce simp: accepting_def)
  have k: "sp_citation_id (sample_span ''s1'' 1 ''one'') = ''cs1''" "tk_spans sample_kwargs = [sample_span ''s1'' 1 ''one'']"
    "ci_citation_id ` set (tk_citations sample_kwargs) = {''cs1''}"
    by (simp_all add: sample_span_def Let_def sample_kwargs_def sample_cited)
  from gate_keeps_the_evidenced_blocks [OF t normal] t show ?thesis
    by (simp add: k strict_block_def)
qed

section \<open>Where quotes come from\<close>

text \<open>
  C4: A published quote comes from the evidence. When the finalizer is given spans, and builds the context
  itself, every citation it publishes quotes its own segments, and each of these is a segment of a given
  span of the same video, artifact, version and timeline run.
\<close>

theorem published_quotes_come_from_evidence:
  assumes "finalize F q = Inr (a, seen)" and "fq_prepared_context q = None" and "list_all wf_span (fq_spans q)"
    and "mk_context_builder (fz_builder F) = Inr (fz_builder F)" and "c \<in> set (fa_citations a)"
  shows "(\<exists>segments. ci_quote_text c = quote_of segments \<and> ci_segment_ids c = map es_segment_id segments) \<and>
    (\<forall>i \<in> set (ci_segment_ids c). \<exists>x \<in> set (fq_spans q). i \<in> set (sp_segment_ids x) \<and>
       sp_video_id x = ci_video_id c \<and> sp_source_artifact_id x = ci_source_artifact_id c \<and>
       sp_source_version x = ci_source_version c \<and> sp_timeline_run_id x = ci_timeline_run_id c)"
proof -
  have "\<not> withheld a" using assms(5) by (auto simp: withheld_def)
  from finalize_published [OF assms(1) this] obtain cx d pass k bs t where
    cx: "answer_context F q cx" and pub: "publishes F q cx d pass k bs a t" by blast
  have kw: "gate_kwargs F q cx d k" and same: "fa_citations a = ta_citations t" using pub by (auto simp: publishes_def)
  have "ta_citations t = used_citations k (ta_answer_blocks t)"
    using pub by (auto simp: publishes_def gate_result_def Let_def)
  then obtain i where "(i, c) \<in> set (dict_of ci_citation_id (tk_citations k))"
    using assms(5) by (auto simp: same used_citations_def)
  then have "c \<in> set (tk_citations k)" using dict_of_entry distinct_dict_of by (metis map_of_eq_Some_iff)
  moreover have "emap as_citation (cx_spans cx) = Inr (tk_citations k)" using kw by (simp add: gate_kwargs_def)
  ultimately obtain sp where sp: "sp \<in> set (cx_spans cx)" "as_citation sp = Inr c" using emap_Inr_elem by metis
  obtain fused where fused: "fuse_evidence (an_runtime (fz_env F)) (an_rnd (fz_env F)) (fq_spans q) = Inr fused"
    and built: "build_context (an_platform (fz_env F)) (an_runtime (fz_env F)) (fz_builder F) (fq_query q)
      (fq_normalized_intent q) fused = Inr cx"
    using cx assms(2) by (auto simp: answer_context_def)
  have origin: "\<exists>y \<in> set (fq_spans q). content x = content y" if "x \<in> set fused" for x
    using fuse_evidence_facts(2) [OF fused that] .
  have fields: "sp_segments x = sp_segments y \<and> sp_segment_ids x = sp_segment_ids y \<and> sp_quote_text x = sp_quote_text y \<and>
      sp_video_id x = sp_video_id y \<and> sp_source_artifact_id x = sp_source_artifact_id y \<and>
      sp_source_version x = sp_source_version y \<and> sp_timeline_run_id x = sp_timeline_run_id y"
    if "content x = content y" for x y
    using that by (cases x; cases y) (simp add: content_def)
  have "wf_span x" if x: "x \<in> set fused" for x
    using origin [OF x] fields assms(3) by (metis list_all_iff wf_span_def)
  then have "list_all wf_span fused" by (simp add: list_all_iff)
  from build_context_inv [OF built assms(4) this] obtain b where
    inv: "context_inv (fz_builder F) fused b" "cx_spans cx = bs_selected b" by blast
  have "wf_span sp" using inv sp(1) by (auto simp: context_inv_def within_budget_def list_all_iff)
  have c: "ci_quote_text c = sp_quote_text sp" "ci_segment_ids c = sp_segment_ids sp" "ci_video_id c = sp_video_id sp"
    "ci_source_artifact_id c = sp_source_artifact_id sp" "ci_source_version c = sp_source_version sp"
    "ci_timeline_run_id c = sp_timeline_run_id sp"
    using sp(2) by (auto simp: as_citation_def Let_def split: if_splits)
  have given: "from_given fused (bs_selected b)" using inv(1) by (simp add: context_inv_def)
  have "\<exists>x \<in> set (fq_spans q). i \<in> set (sp_segment_ids x) \<and> lineage_of x = lineage_of sp" if i: "i \<in> set (sp_segment_ids sp)" for i
  proof -
    have "i \<in> segment_set sp" using i \<open>wf_span sp\<close> by (simp add: segment_set_def wf_span_def)
    then obtain x where x: "x \<in> set fused" "lineage_of x = lineage_of sp" "i \<in> segment_set x"
      using given inv(2) sp(1) unfolding from_given_def by metis
    moreover have "i \<in> set (sp_segment_ids x)"
      using x \<open>list_all wf_span fused\<close> by (auto simp: list_all_iff wf_span_def segment_set_def)
    ultimately show ?thesis using origin [OF x(1)] fields by (metis lineage_of_def)
  qed
  then show ?thesis using \<open>wf_span sp\<close> by (fastforce simp: c wf_span_def lineage_of_def)
qed

lemma published_quotes_come_from_evidence_witness:
  "\<exists>a c. finalize (sample_finalizer [] (\<lambda>step. sample_draft [''cs1''])) quiet_request = Inr (a, []) \<and>
     c \<in> set (fa_citations a) \<and> (\<forall>i \<in> set (ci_segment_ids c). i = ''s1'')"
proof -
  let ?F = "sample_finalizer [] (\<lambda>step. sample_draft [''cs1''])"
  from sample_finalized obtain a where a: "finalize ?F quiet_request = Inr (a, [])"
    "fa_citations a = [sample_citation]" by blast
  have spans: "fq_spans quiet_request = [sample_span ''s1'' 1 ''one'']" "fq_prepared_context quiet_request = None"
    by (simp_all add: quiet_request_def sample_request_def)
  have wf: "list_all wf_span (fq_spans quiet_request)" using sample_span_wf by (simp add: spans)
  have builder: "mk_context_builder (fz_builder ?F) = Inr (fz_builder ?F)"
    by (simp add: sample_finalizer_def mk_context_builder_def default_context_builder_def)
  have ids: "sp_segment_ids (sample_span ''s1'' 1 ''one'') = [''s1'']" by (simp add: sample_span_def Let_def)
  have c: "sample_citation \<in> set (fa_citations a)" by (simp add: a(2))
  from published_quotes_come_from_evidence [OF a(1) spans(2) wf builder c] a c show ?thesis by (fastforce simp: spans ids)
qed

section \<open>The review after publication\<close>

fun status_rank :: "answer_status \<Rightarrow> nat" where
  "status_rank Status_Complete = 0"
| "status_rank Status_Partial = 1"
| "status_rank Status_Insufficient = 2"

text \<open>What publication guarantees of an answer: its citations are the used ones, and it has blocks unless insufficient.\<close>

definition publishable :: "published_answer \<Rightarrow> bool" where
  "publishable p \<longleftrightarrow> (pa_answer_blocks p = [] \<longleftrightarrow> pa_status p = Status_Insufficient) \<and>
     set (map ci_citation_id (pa_citations p)) = set (cited_ids (pa_answer_blocks p))"

lemma filter_length_same: "length (filter P xs) = length xs \<Longrightarrow> filter P xs = xs"
  by (metis filter_True length_filter_less less_irrefl)

lemma reviewed_answer_facts:
  fixes say p n m valid
  defines "invalid \<equiv> filter (\<lambda>i. \<not> valid i) (map ci_citation_id (pa_citations p))"
  defines "q \<equiv> reviewed_answer say p invalid n m"
  assumes "publishable p"
  shows "pa_answer_blocks q = filter (\<lambda>b. list_all valid (ab_citation_ids b)) (pa_answer_blocks p)"
    and "pa_citations q = filter (\<lambda>c. ci_citation_id c \<in> set (cited_ids (pa_answer_blocks q))) (pa_citations p)"
    and "publishable q"
    and "status_rank (pa_status p) \<le> status_rank (pa_status q)"
    and "pa_limitations q = pa_limitations p \<Longrightarrow> length (pa_answer_blocks q) = length (pa_answer_blocks p) \<Longrightarrow> q = p"
    and "pa_limitations q \<noteq> pa_limitations p \<or> length (pa_answer_blocks q) < length (pa_answer_blocks p) \<Longrightarrow>
      pa_status q \<noteq> Status_Complete"
proof -
  show blocks: "pa_answer_blocks q = filter (\<lambda>b. list_all valid (ab_citation_ids b)) (pa_answer_blocks p)"
  proof -
    have "list_ex (\<lambda>i. i \<in> set invalid) (ab_citation_ids b) = (\<not> list_all valid (ab_citation_ids b))"
      if "b \<in> set (pa_answer_blocks p)" for b
    proof -
      have "set (ab_citation_ids b) \<subseteq> set (map ci_citation_id (pa_citations p))"
        using assms(3) that by (auto simp: publishable_def cited_ids_def)
      then show ?thesis by (auto simp: list_ex_iff list_all_iff invalid_def)
    qed
    then show ?thesis by (simp add: q_def reviewed_answer_def Let_def cong: filter_cong)
  qed
  show citations: "pa_citations q = filter (\<lambda>c. ci_citation_id c \<in> set (cited_ids (pa_answer_blocks q))) (pa_citations p)"
    by (simp add: q_def reviewed_answer_def Let_def)
  have used: "set (cited_ids (pa_answer_blocks q)) \<subseteq> set (map ci_citation_id (pa_citations p))"
    using assms(3) by (auto simp: publishable_def blocks cited_ids_def)
  have status: "pa_status q = (if pa_answer_blocks q = [] then Status_Insufficient
      else if length (pa_answer_blocks q) < length (pa_answer_blocks p) \<or>
        (pa_limitations q \<noteq> pa_limitations p \<and> pa_status p = Status_Complete) then Status_Partial else pa_status p)"
    by (simp add: q_def reviewed_answer_def Let_def)
  have kept: "pa_answer_blocks q = pa_answer_blocks p" if "length (pa_answer_blocks q) = length (pa_answer_blocks p)"
    using that filter_length_same unfolding blocks by metis
  have fewer: "length (pa_answer_blocks q) \<le> length (pa_answer_blocks p)" by (simp add: blocks)
  have p: "pa_answer_blocks p = [] \<longleftrightarrow> pa_status p = Status_Insufficient"
    "set (map ci_citation_id (pa_citations p)) = set (cited_ids (pa_answer_blocks p))"
    using assms(3) by (auto simp: publishable_def)
  have "pa_answer_blocks p \<noteq> []" if "pa_answer_blocks q \<noteq> []" using that fewer by auto
  then have "pa_answer_blocks q = [] \<longleftrightarrow> pa_status q = Status_Insufficient" using p(1) by (auto simp: status)
  moreover have "set (map ci_citation_id (pa_citations q)) = set (cited_ids (pa_answer_blocks q))"
    unfolding citations using used by auto
  ultimately show "publishable q" by (simp add: publishable_def)
  show "status_rank (pa_status p) \<le> status_rank (pa_status q)"
    using p(1) by (cases "pa_status p") (auto simp: status)
  show "q = p" if "pa_limitations q = pa_limitations p" "length (pa_answer_blocks q) = length (pa_answer_blocks p)"
  proof -
    have "pa_citations q = pa_citations p"
      unfolding citations kept [OF that(2)] p(2) [symmetric] by (rule filter_True) auto
    moreover have "pa_status q = pa_status p" using that p(1) kept [OF that(2)] by (auto simp: status)
    ultimately show ?thesis using that(1) kept [OF that(2)] by (cases q; cases p) simp
  qed
  show "pa_status q \<noteq> Status_Complete" if "pa_limitations q \<noteq> pa_limitations p \<or> length (pa_answer_blocks q) < length (pa_answer_blocks p)"
    using that by (auto simp: status)
qed

text \<open>
  The review after publication only takes away. It keeps exactly the blocks all of whose citations
  are still valid, in order, and the citations they use; the status never improves, and is not
  \<open>complete\<close> once something changed, which makes version 2. A review without a change keeps the answer,
  its version and its hash, and a well-formed answer stays well-formed.
\<close>

lemma review_only_takes_away:
  assumes "provider_free_soft_review P R say p projection valid = Inr r" and "publishable p"
  shows "pa_answer_blocks (sr_answer r) = filter (\<lambda>b. list_all valid (ab_citation_ids b)) (pa_answer_blocks p) \<and>
    pa_citations (sr_answer r) =
      filter (\<lambda>c. ci_citation_id c \<in> set (cited_ids (pa_answer_blocks (sr_answer r)))) (pa_citations p) \<and>
    publishable (sr_answer r) \<and> status_rank (pa_status p) \<le> status_rank (pa_status (sr_answer r)) \<and>
    sr_answer_version r = (if sr_changed r then 2 else 1) \<and>
    (if sr_changed r then pa_status (sr_answer r) \<noteq> Status_Complete
     else sr_answer r = p \<and> sr_answer_snapshot_hash r = sr_previous_answer_snapshot_hash r) \<and>
    (pa_answer_blocks (sr_answer r) = [] \<longleftrightarrow> sr_execution_outcome r \<noteq> O_Answer_Generated)"
proof -
  obtain n m where q: "sr_answer r = reviewed_answer say p (filter (\<lambda>i. \<not> valid i) (map ci_citation_id (pa_citations p))) n m"
    and changed: "sr_changed r = (pa_limitations (sr_answer r) \<noteq> pa_limitations p \<or>
        length (pa_answer_blocks (sr_answer r)) < length (pa_answer_blocks p))"
    and rest: "sr_answer_version r = (if sr_changed r then 2 else 1)"
      "sr_previous_answer_snapshot_hash r = published_hash P R p 1"
      "sr_answer_snapshot_hash r = published_hash P R (sr_answer r) (sr_answer_version r)"
      "sr_execution_outcome r = (if pa_answer_blocks (sr_answer r) = [] then O_Evidence_Unavailable else O_Answer_Generated)"
    using assms(1) by (auto simp: provider_free_soft_review_def ebind_eq_Inr Let_def)
  note facts = reviewed_answer_facts [OF assms(2), of say valid n m, folded q]
  have "length (pa_answer_blocks (sr_answer r)) \<le> length (pa_answer_blocks p)" by (simp add: facts(1))
  then have same: "sr_answer r = p" if "\<not> sr_changed r" using facts(5) that by (auto simp: changed)
  have "if sr_changed r then pa_status (sr_answer r) \<noteq> Status_Complete
     else sr_answer r = p \<and> sr_answer_snapshot_hash r = sr_previous_answer_snapshot_hash r"
  proof (cases "sr_changed r")
    case True
    then show ?thesis using facts(6) unfolding changed by metis
  next
    case False
    then have "sr_answer_version r = 1" unfolding rest(1) by simp
    then show ?thesis using False same [OF False] rest(2,3) by presburger
  qed
  moreover have "pa_answer_blocks (sr_answer r) = [] \<longleftrightarrow> sr_execution_outcome r \<noteq> O_Answer_Generated"
    unfolding rest(4) by simp
  ultimately show ?thesis using facts(1-4) rest(1) by blast
qed

end
