(* ===== verification/Json_Identity.thy ===== *)
theory Json_Identity
  imports Canonical_Json
begin

text \<open>
  The canonical text of src/shiliu/evidence/decision.py and research/service.py determines the value it
  prints: two JSON values have the same text exactly when they are the same up to the order of the
  members of their objects. Hashes of the text therefore identify values up to collisions of SHA-256.
\<close>

section \<open>Texts that can be read off the front\<close>

definition ends :: "string \<Rightarrow> bool" where
  "ends x \<longleftrightarrow> x = [] \<or> hd x = CHR '','' \<or> hd x = CHR '']'' \<or> hd x = CHR ''}''"

definition separable :: "string \<Rightarrow> string \<Rightarrow> bool" where
  "separable t u \<longleftrightarrow> (\<forall>x x'. ends x \<longrightarrow> ends x' \<longrightarrow> t @ x = u @ x' \<longrightarrow> t = u \<and> x = x')"

definition starts :: "string \<Rightarrow> bool" where
  "starts t \<longleftrightarrow> \<not> ends t"

lemma ends_simps [simp]:
  "ends []" "ends (CHR '','' # x)" "ends (CHR '']'' # x)" "ends (CHR ''}'' # x)"
  by (simp_all add: ends_def)

lemma starts_append: "starts t \<Longrightarrow> starts (t @ x)"
  by (cases t) (auto simp: starts_def ends_def)

lemma separableD: "separable t u \<Longrightarrow> ends x \<Longrightarrow> ends x' \<Longrightarrow> t @ x = u @ x' \<Longrightarrow> t = u \<and> x = x'"
  by (simp add: separable_def)

text \<open>The rest of a joined list: its members and what follows the closing bracket.\<close>

fun more_members :: "string list \<Rightarrow> string" where
  "more_members [] = []"
| "more_members (t # ts) = CHR '','' # t @ more_members ts"

lemma join_members: "join '','' (t # ts) = t @ more_members ts"
  by (induction ts arbitrary: t) auto

lemma more_members_ends: "e = CHR '']'' \<or> e = CHR ''}'' \<Longrightarrow> ends (more_members ts @ e # x)"
  by (cases ts) auto

lemma more_members_unique:
  assumes "e = CHR '']'' \<or> e = CHR ''}''"
    and "more_members ts @ e # x = more_members us @ e # x'"
    and "\<And>t u. t \<in> set ts \<Longrightarrow> u \<in> set us \<Longrightarrow> separable t u"
  shows "ts = us \<and> x = x'"
  using assms(2,3)
proof (induction ts arbitrary: us)
  case Nil
  then show ?case using assms(1) by (cases us) auto
next
  case (Cons t ts)
  then obtain u us' where us: "us = u # us'" using assms(1) by (cases us) auto
  have "t @ (more_members ts @ e # x) = u @ (more_members us' @ e # x')" using Cons.prems(1) by (simp add: us)
  then have "t = u \<and> more_members ts @ e # x = more_members us' @ e # x'"
    using Cons.prems(2) us more_members_ends [OF assms(1)] by (intro separableD) simp_all
  with Cons.IH [of us'] Cons.prems(2) us show ?case by simp
qed

lemma join_unique:
  assumes "e = CHR '']'' \<or> e = CHR ''}''"
    and "join '','' ts @ e # x = join '','' us @ e # x'"
    and "\<And>t u. t \<in> set ts \<Longrightarrow> u \<in> set us \<Longrightarrow> separable t u"
    and "\<And>t. t \<in> set ts \<union> set us \<Longrightarrow> starts t"
  shows "ts = us \<and> x = x'"
proof (cases ts)
  case Nil
  then show ?thesis
  proof (cases us)
    case (Cons u us')
    with Nil assms(2) have "u @ more_members us' @ e # x' = e # x" by (simp add: join_members)
    moreover have "starts (u @ more_members us' @ e # x')" using assms(4) Cons by (simp add: starts_append)
    ultimately show ?thesis using assms(1) by (auto simp: starts_def)
  qed (use Nil assms(2) in simp)
next
  case ts: (Cons t ts')
  show ?thesis
  proof (cases us)
    case Nil
    with ts assms(2) have "t @ more_members ts' @ e # x = e # x'" by (simp add: join_members)
    moreover have "starts (t @ more_members ts' @ e # x)" using assms(4) ts by (simp add: starts_append)
    ultimately show ?thesis using assms(1) by (auto simp: starts_def)
  next
    case us: (Cons u us')
    have "more_members ts @ e # x = more_members us @ e # x'"
      using assms(2) by (simp add: ts us join_members)
    with more_members_unique [OF assms(1) this assms(3)] show ?thesis by blast
  qed
qed

section \<open>Numbers and strings\<close>

definition is_digit :: "char \<Rightarrow> bool" where
  "is_digit c \<longleftrightarrow> (48 :: nat) \<le> of_char c \<and> (of_char c :: nat) \<le> 57"

definition digit_value :: "string \<Rightarrow> nat" where
  "digit_value s = foldl (\<lambda>a c. 10 * a + (of_char c - 48)) 0 s"

lemma digit_char: "(n :: nat) < 10 \<Longrightarrow> (of_char (char_of (48 + n) :: char) :: nat) = 48 + n"
  by (simp add: of_char_of)

lemma is_digit_char: "(n :: nat) < 10 \<Longrightarrow> is_digit (char_of (48 + n))"
  using digit_char [of n] by (simp add: is_digit_def)

lemma digits_of_digits: "list_all is_digit (digits_of n)"
  by (induction n rule: digits_of.induct) (subst digits_of.simps, auto simp: is_digit_char)

lemma digits_of_value: "digit_value (digits_of n) = n"
  by (induction n rule: digits_of.induct) (subst digits_of.simps, auto simp: digit_value_def digit_char)

lemma digits_of_nonempty: "digits_of n \<noteq> []"
  by (subst digits_of.simps) simp

lemma ends_not_digit: "ends x \<Longrightarrow> takeWhile is_digit x = []"
  by (cases x) (auto simp: ends_def is_digit_def)

lemma digits_separable: "separable (digits_of n) (digits_of m)"
  unfolding separable_def
proof (intro allI impI)
  fix x x'
  assume e: "ends x" "ends x'" and eq: "digits_of n @ x = digits_of m @ x'"
  have "takeWhile is_digit (digits_of k @ y) = digits_of k" if "ends y" for k y
    using digits_of_digits [of k] ends_not_digit [OF that]
    by (subst takeWhile_append2) (auto simp: list_all_iff)
  with e eq have "digits_of n = digits_of m" by metis
  with eq show "digits_of n = digits_of m \<and> x = x'" by simp
qed

lemma digits_of_head: "\<exists>c s. digits_of n = c # s \<and> is_digit c"
  using digits_of_digits [of n] digits_of_nonempty [of n] by (cases "digits_of n") auto

lemma int_text_separable: "separable (int_text i) (int_text j)"
proof -
  have "digits_of n @ x \<noteq> CHR ''-'' # y" for n x y using digits_of_head [of n] by (auto simp: is_digit_def)
  then show ?thesis
    using digits_separable unfolding int_text_def separable_def
    by (cases "i < 0"; cases "j < 0") (auto, metis+)
qed

lemma int_text_inj: "int_text i = int_text j \<Longrightarrow> i = j"
proof -
  assume eq: "int_text i = int_text j"
  have head: "digits_of n \<noteq> CHR ''-'' # y" for n y using digits_of_head [of n] by (auto simp: is_digit_def)
  have inj: "digits_of n = digits_of m \<Longrightarrow> n = m" for n m by (metis digits_of_value)
  show "i = j"
    using eq head inj [of "nat i" "nat j"] inj [of "nat (- i)" "nat (- j)"]
    by (auto simp: int_text_def split: if_splits) metis+
qed

text \<open>Reading one escaped character.\<close>

definition unhex :: "char \<Rightarrow> nat" where
  "unhex c = (if (of_char c :: nat) \<ge> 97 then of_char c - 87 else of_char c - 48)"

definition short_escape :: "char \<Rightarrow> char" where
  "short_escape e =
     (if e = CHR ''b'' then char_of (8 :: nat) else if e = CHR ''t'' then char_of (9 :: nat)
      else if e = CHR ''n'' then char_of (10 :: nat) else if e = CHR ''f'' then char_of (12 :: nat)
      else if e = CHR ''r'' then char_of (13 :: nat) else e)"

fun unescape :: "string \<Rightarrow> char \<times> string" where
  "unescape (c # s) =
     (if c \<noteq> CHR 0x5C then (c, s)
      else case s of
        e # s' \<Rightarrow> if e = CHR ''u'' then (char_of (16 * unhex (s' ! 2) + unhex (s' ! 3)), drop 4 s') else (short_escape e, s')
      | [] \<Rightarrow> (c, s))"
| "unescape [] = (CHR 0x00, [])"

lemma unhex_hex_digit: "unhex (hex_digit n) = n mod 16"
proof -
  have "m = 0 \<or> m = 1 \<or> m = 2 \<or> m = 3 \<or> m = 4 \<or> m = 5 \<or> m = 6 \<or> m = 7 \<or> m = 8 \<or> m = 9 \<or> m = 10 \<or> m = 11 \<or>
      m = 12 \<or> m = 13 \<or> m = 14 \<or> m = 15" if "m < 16" for m :: nat
    using that by arith
  note cases = this
  have "unhex (''0123456789abcdef'' ! m) = m" if "m < 16" for m
    using cases [OF that] by (elim disjE) (simp_all add: unhex_def)
  then show ?thesis by (simp add: hex_digit_def)
qed

lemma small_hex: "n < 32 \<Longrightarrow> 16 * unhex (hex_digit (n div 16)) + unhex (hex_digit n) = n"
  by (simp add: unhex_hex_digit less_mult_imp_div_less)

lemma unescape_escape: "unescape (escape_char c @ x) = (c, x)"
proof -
  define n where "n = (of_char c :: nat)"
  have c: "c = char_of n" by (simp add: n_def)
  have e: "escape_char c =
     (if n = 34 then [CHR 0x5C, CHR 0x22] else if n = 92 then [CHR 0x5C, CHR 0x5C]
      else if n = 8 then [CHR 0x5C, CHR ''b''] else if n = 9 then [CHR 0x5C, CHR ''t'']
      else if n = 10 then [CHR 0x5C, CHR ''n''] else if n = 12 then [CHR 0x5C, CHR ''f'']
      else if n = 13 then [CHR 0x5C, CHR ''r'']
      else if n < 32 then [CHR 0x5C, CHR ''u'', CHR ''0'', CHR ''0'', hex_digit (n div 16), hex_digit n]
      else [c])"
    by (simp add: escape_char_def n_def Let_def)
  have nb: "n \<noteq> 92 \<Longrightarrow> c \<noteq> CHR 0x5C" by (auto simp: n_def)
  have q: "n = 34 \<Longrightarrow> c = CHR 0x22" "n = 92 \<Longrightarrow> c = CHR 0x5C"
    using char_of_char [of "CHR 0x22", where 'a = nat] char_of_char [of "CHR 0x5C", where 'a = nat] by (simp_all add: c)
  have s: "short_escape (CHR 0x22) = CHR 0x22" "short_escape (CHR 0x5C) = CHR 0x5C" by (simp_all add: short_escape_def)
  show ?thesis
    unfolding e using nb q s c small_hex [of n]
    by (auto simp: short_escape_def)
qed

lemma escape_not_quote: "escape_char c @ x \<noteq> CHR 0x22 # y"
proof
  assume "escape_char c @ x = CHR 0x22 # y"
  then have "of_char c = (34 :: nat) \<Longrightarrow> False" and "escape_char c = [c] \<Longrightarrow> c = CHR 0x22"
    by (auto simp: escape_char_def)
  then show False using \<open>escape_char c @ x = CHR 0x22 # y\<close>
    by (auto simp: escape_char_def Let_def split: if_splits)
qed

lemma escaped_unique:
  "concat (map escape_char s) @ CHR 0x22 # x = concat (map escape_char s') @ CHR 0x22 # x' \<Longrightarrow> s = s' \<and> x = x'"
proof (induction s arbitrary: s')
  case Nil
  then show ?case using escape_not_quote by (cases s') (auto, metis)
next
  case (Cons c s)
  then obtain d t where s': "s' = d # t" using escape_not_quote by (cases s') auto
  have "unescape (escape_char c @ concat (map escape_char s) @ CHR 0x22 # x) =
      unescape (escape_char d @ concat (map escape_char t) @ CHR 0x22 # x')"
    using Cons.prems s' by simp
  then have "c = d" "concat (map escape_char s) @ CHR 0x22 # x = concat (map escape_char t) @ CHR 0x22 # x'"
    by (simp_all only: unescape_escape prod.inject)
  with Cons.IH [of t] s' show ?case by simp
qed

lemma string_text_unique: "string_text s @ x = string_text s' @ x' \<Longrightarrow> s = s' \<and> x = x'"
  using escaped_unique [of s x s' x'] by (simp add: string_text_def)

lemma string_text_inj [simp]: "string_text s = string_text s' \<longleftrightarrow> s = s'"
  using string_text_unique [of s "[]" s' "[]"] by auto

section \<open>Values\<close>

text \<open>The value up to member order: the members of every object sorted by their keys.\<close>

fun normal :: "json \<Rightarrow> json" where
  "normal (JArr vs) = JArr (map normal vs)"
| "normal (JObj kvs) = JObj (sort_key fst (map (\<lambda>(k, v). (k, normal v)) kvs))"
| "normal v = v"

lemma insort_key_map:
  "(\<And>x. fst (h x) = fst x) \<Longrightarrow> insort_key fst (h x) (map h xs) = map h (insort_key fst x xs)"
  by (induction xs) auto

lemma sort_key_map:
  assumes "\<And>x. fst (h x) = fst x"
  shows "sort_key fst (map h xs) = map h (sort_key fst xs)"
  by (induction xs) (simp_all add: insort_key_map [OF assms])

lemma map_members:
  "map (\<lambda>(k, t). F k t) (map (\<lambda>(k, v). (k, G v)) xs) = map (\<lambda>(k, v). F k (G v)) xs"
  by (induction xs) auto

definition members :: "(string \<times> json) list \<Rightarrow> string list" where
  "members kvs = map (\<lambda>(k, v). string_text k @ '':'' @ canonical_json v) (sort_key fst kvs)"

lemma canonical_members: "canonical_json (JObj kvs) = CHR ''{'' # join '','' (members kvs) @ ''}''"
proof -
  have "sort_key fst (map (\<lambda>(k, v). (k, canonical_json v)) kvs) = map (\<lambda>(k, v). (k, canonical_json v)) (sort_key fst kvs)"
    by (rule sort_key_map) auto
  then show ?thesis by (simp only: canonical_json.simps members_def map_members append_Cons append_Nil)
qed

lemma canonical_array: "canonical_json (JArr vs) = CHR ''['' # join '','' (map canonical_json vs) @ '']''"
  by simp

lemma canonical_head:
  "canonical_json v = (c # s) \<Longrightarrow>
    (case v of JNull \<Rightarrow> c = CHR ''n'' | JBool b \<Rightarrow> c = (if b then CHR ''t'' else CHR ''f'')
     | JInt i \<Rightarrow> c = CHR ''-'' \<or> is_digit c | JStr _ \<Rightarrow> c = CHR 0x22
     | JArr _ \<Rightarrow> c = CHR ''['' | JObj _ \<Rightarrow> c = CHR ''{'')"
  using digits_of_head [of "nat (case v of JInt i \<Rightarrow> i)"]
  by (cases v) (auto simp: int_text_def string_text_def canonical_members simp del: canonical_json.simps(6) split: if_splits)

lemma canonical_nonempty: "canonical_json v \<noteq> []"
  using digits_of_nonempty
  by (cases v) (auto simp: int_text_def string_text_def)

lemma canonical_starts: "starts (canonical_json v)"
proof (cases "canonical_json v")
  case (Cons c s)
  from canonical_head [OF Cons] show ?thesis
    unfolding Cons by (cases v) (auto simp: starts_def ends_def is_digit_def split: if_splits)
qed (simp add: canonical_nonempty)

lemma canonical_normal: "canonical_json (normal v) = canonical_json v"
proof (induction v)
  case (JArr vs)
  then have "map canonical_json (map normal vs) = map canonical_json vs" by simp
  then show ?case by (simp only: normal.simps canonical_json.simps)
next
  case (JObj kvs)
  have srt: "sort_key fst (map (\<lambda>(k, v). (k, normal v)) kvs) = map (\<lambda>(k, v). (k, normal v)) (sort_key fst kvs)"
    by (rule sort_key_map) auto
  have "members (sort_key fst (map (\<lambda>(k, v). (k, normal v)) kvs)) = members kvs"
    using JObj.IH unfolding srt members_def
    by (subst sort_key_id_if_sorted) (auto simp: comp_def case_prod_unfold)
  then show ?case by (simp only: normal.simps canonical_members)
qed auto

lemma normal_eq_canonical: "normal v = normal w \<Longrightarrow> canonical_json v = canonical_json w"
  by (metis canonical_normal)

lemma member_separable:
  assumes "separable (canonical_json v) (canonical_json w)"
  shows "separable (string_text k @ '':'' @ canonical_json v) (string_text l @ '':'' @ canonical_json w)"
  unfolding separable_def
proof (intro allI impI)
  fix x x'
  assume e: "ends x" "ends x'"
    and eq: "(string_text k @ '':'' @ canonical_json v) @ x = (string_text l @ '':'' @ canonical_json w) @ x'"
  from eq have "string_text k @ ('':'' @ canonical_json v @ x) = string_text l @ ('':'' @ canonical_json w @ x')" by simp
  then have kl: "k = l" and "canonical_json v @ x = canonical_json w @ x'" by (auto dest!: string_text_unique)
  with separableD [OF assms e] show
    "string_text k @ '':'' @ canonical_json v = string_text l @ '':'' @ canonical_json w \<and> x = x'" by simp
qed

lemma member_starts: "starts (string_text k @ '':'' @ t)"
  by (simp add: starts_def ends_def string_text_def)

lemma set_members: "set (members kvs) = (\<lambda>(k, v). string_text k @ '':'' @ canonical_json v) ` set kvs"
  by (simp add: members_def)

lemma members_eq:
  assumes "members kvs = members lvs"
    and "\<And>k v l w. (k, v) \<in> set kvs \<Longrightarrow> canonical_json v = canonical_json w \<Longrightarrow> normal v = normal w"
  shows "normal (JObj kvs) = normal (JObj lvs)"
proof -
  have "map (\<lambda>(k, v). (k, normal v)) xs = map (\<lambda>(k, v). (k, normal v)) ys"
    if "map (\<lambda>(k, v). string_text k @ '':'' @ canonical_json v) xs = map (\<lambda>(k, v). string_text k @ '':'' @ canonical_json v) ys"
      and "set xs \<subseteq> set kvs" for xs ys :: "(string \<times> json) list"
    using that
  proof (induction xs arbitrary: ys)
    case (Cons p xs)
    then obtain q ys' where ys: "ys = q # ys'" by (cases ys) auto
    obtain k v l w where p: "p = (k, v)" "q = (l, w)" by (cases p; cases q)
    have "string_text k @ ('':'' @ canonical_json v) = string_text l @ ('':'' @ canonical_json w)"
      using Cons.prems(1) by (simp add: ys p)
    then have "k = l \<and> '':'' @ canonical_json v = '':'' @ canonical_json w" by (rule string_text_unique)
    then have "k = l" "canonical_json v = canonical_json w" by auto
    with assms(2) [of k v w] Cons.prems(2) Cons.IH [of ys'] Cons.prems show ?case by (simp add: ys p)
  qed simp
  from this [of "sort_key fst kvs" "sort_key fst lvs"] assms(1)
  have "map (\<lambda>(k, v). (k, normal v)) (sort_key fst kvs) = map (\<lambda>(k, v). (k, normal v)) (sort_key fst lvs)"
    by (simp add: members_def)
  moreover have "sort_key fst (map (\<lambda>(k, v). (k, normal v)) zs) = map (\<lambda>(k, v). (k, normal v)) (sort_key fst zs)"
    for zs :: "(string \<times> json) list" by (rule sort_key_map) auto
  ultimately show ?thesis by simp
qed

lemma canonical_unique:
  "ends x \<Longrightarrow> ends x' \<Longrightarrow> canonical_json v @ x = canonical_json w @ x' \<Longrightarrow> normal v = normal w \<and> x = x'"
proof (induction v arbitrary: w x x')
  case JNull
  obtain d u where w: "canonical_json w = d # u" using canonical_nonempty [of w] by (cases "canonical_json w") auto
  have "d = CHR ''n''" using JNull.prems(3) w by simp
  with canonical_head [OF w] have "w = JNull" by (cases w) (auto simp: is_digit_def split: if_splits)
  with JNull.prems(3) show ?case by simp
next
  case (JBool b)
  obtain d u where w: "canonical_json w = d # u" using canonical_nonempty [of w] by (cases "canonical_json w") auto
  have "d = (if b then CHR ''t'' else CHR ''f'')" using JBool.prems(3) w by (cases b) simp_all
  with canonical_head [OF w] have "w = JBool b" by (cases w) (auto simp: is_digit_def split: if_splits)
  with JBool.prems(3) show ?case by simp
next
  case (JInt i)
  obtain c s where t: "canonical_json (JInt i) = c # s" using canonical_nonempty [of "JInt i"] by (cases "canonical_json (JInt i)") auto
  obtain d u where w: "canonical_json w = d # u" using canonical_nonempty [of w] by (cases "canonical_json w") auto
  have "c = d" using JInt.prems(3) t w by simp
  with canonical_head [OF t] canonical_head [OF w] obtain j where j: "w = JInt j"
    by (cases w) (auto simp: is_digit_def split: if_splits)
  have "int_text i = int_text j \<and> x = x'"
    using JInt.prems by (intro separableD [OF int_text_separable]) (simp_all add: j)
  then show ?case by (auto simp: j dest: int_text_inj)
next
  case (JStr k)
  obtain d u where w: "canonical_json w = d # u" using canonical_nonempty [of w] by (cases "canonical_json w") auto
  have "d = CHR 0x22" using JStr.prems(3) w by (simp add: string_text_def)
  with canonical_head [OF w] obtain l where l: "w = JStr l"
    by (cases w) (auto simp: is_digit_def split: if_splits)
  have "k = l \<and> x = x'" using JStr.prems(3) by (intro string_text_unique) (simp add: l)
  then show ?case by (simp add: l)
next
  case (JArr vs)
  obtain d u where w: "canonical_json w = d # u" using canonical_nonempty [of w] by (cases "canonical_json w") auto
  have "d = CHR ''[''" using JArr.prems(3) w by simp
  with canonical_head [OF w] obtain ws where ws: "w = JArr ws"
    by (cases w) (auto simp: is_digit_def split: if_splits)
  have "map canonical_json vs = map canonical_json ws \<and> x = x'"
  proof (rule join_unique)
    show "join '','' (map canonical_json vs) @ CHR '']'' # x = join '','' (map canonical_json ws) @ CHR '']'' # x'"
      using JArr.prems(3) by (simp add: ws)
    show "separable t u" if "t \<in> set (map canonical_json vs)" "u \<in> set (map canonical_json ws)" for t u
    proof -
      from that obtain v v' where v: "v \<in> set vs" "t = canonical_json v" "u = canonical_json v'" by auto
      from JArr.IH [OF v(1)] normal_eq_canonical show ?thesis unfolding separable_def v(2,3) by blast
    qed
    show "starts t" if "t \<in> set (map canonical_json vs) \<union> set (map canonical_json ws)" for t
      using that canonical_starts by auto
  qed simp
  moreover have "map normal vs = map normal ws" if "map canonical_json vs = map canonical_json ws"
  proof (rule nth_equalityI)
    show "length (map normal vs) = length (map normal ws)" using map_eq_imp_length_eq [OF that] by simp
    fix n assume n: "n < length (map normal vs)"
    with that have "canonical_json (vs ! n) @ [] = canonical_json (ws ! n) @ []"
      by (metis length_map nth_map)
    with JArr.IH [of "vs ! n" "[]" "[]" "ws ! n"] n show "map normal vs ! n = map normal ws ! n"
      using map_eq_imp_length_eq [OF that] by simp
  qed
  ultimately show ?case by (simp add: ws)
next
  case (JObj kvs)
  obtain d u where w: "canonical_json w = d # u" using canonical_nonempty [of w] by (cases "canonical_json w") auto
  have "d = CHR ''{''" using JObj.prems(3) w by (simp add: canonical_members del: canonical_json.simps)
  with canonical_head [OF w] obtain lvs where lvs: "w = JObj lvs"
    by (cases w) (auto simp: is_digit_def split: if_splits)
  have IH: "normal v = normal w' \<and> y = y'"
    if "(k, v) \<in> set kvs" "ends y" "ends y'" "canonical_json v @ y = canonical_json w' @ y'" for k v w' y y'
    using JObj.IH [of "(k, v)" v y y' w'] that by simp
  have "members kvs = members lvs \<and> x = x'"
  proof (rule join_unique)
    show "join '','' (members kvs) @ CHR ''}'' # x = join '','' (members lvs) @ CHR ''}'' # x'"
      using JObj.prems(3) by (simp add: lvs canonical_members del: canonical_json.simps)
    show "separable t u" if "t \<in> set (members kvs)" "u \<in> set (members lvs)" for t u
    proof -
      from that obtain k v l w' where m: "(k, v) \<in> set kvs" "t = string_text k @ '':'' @ canonical_json v"
          "u = string_text l @ '':'' @ canonical_json w'"
        by (auto simp: set_members)
      have "separable (canonical_json v) (canonical_json w')"
        using IH [OF m(1)] normal_eq_canonical unfolding separable_def by blast
      then show ?thesis unfolding m by (rule member_separable)
    qed
    show "starts t" if "t \<in> set (members kvs) \<union> set (members lvs)" for t
      using that member_starts by (auto simp: set_members)
  qed simp
  moreover have "normal (JObj kvs) = normal (JObj lvs)" if "members kvs = members lvs"
    using IH [of _ _ "[]" "[]"] by (intro members_eq [OF that]) simp
  ultimately show ?case by (simp add: lvs)
qed

text \<open>Equal texts, equal values up to member order; in particular equal fields.\<close>

lemma canonical_eq_normal: "canonical_json v = canonical_json w \<longleftrightarrow> normal v = normal w"
proof
  assume "canonical_json v = canonical_json w"
  then have "canonical_json v @ [] = canonical_json w @ []" by (simp only:)
  with canonical_unique [of "[]" "[]" v w] show "normal v = normal w" by (simp only: ends_simps)
qed (rule normal_eq_canonical)

lemma map_of_sort_key:
  assumes "distinct (map fst xs)"
  shows "map_of (sort_key fst xs) k = map_of xs k"
proof -
  have "mset (map fst (sort_key fst xs)) = mset (map fst xs)" by simp
  then have d: "distinct (map fst (sort_key fst xs))" using assms mset_eq_imp_distinct_iff by blast
  have "map_of (sort_key fst xs) k = Some v \<longleftrightarrow> map_of xs k = Some v" for v
    using assms d by (simp add: map_of_eq_Some_iff)
  then show ?thesis by (metis not_None_eq)
qed

text \<open>A field of two objects with the same text.\<close>

lemma canonical_field:
  assumes "canonical_json (JObj kvs) = canonical_json (JObj lvs)"
    and "distinct (map fst kvs)" and "distinct (map fst lvs)"
  shows "map_option normal (map_of kvs k) = map_option normal (map_of lvs k)"
proof -
  have field: "map_of (sort_key fst (map (\<lambda>(k, v). (k, normal v)) zs)) k = map_option normal (map_of zs k)"
    if "distinct (map fst zs)" for zs
  proof -
    have "map fst (map (\<lambda>(k, v). (k, normal v)) zs) = map fst zs" by (induction zs) auto
    with that have "map_of (sort_key fst (map (\<lambda>(k, v). (k, normal v)) zs)) k = map_of (map (\<lambda>(k, v). (k, normal v)) zs) k"
      by (intro map_of_sort_key) (simp only:)
    then show ?thesis by (simp add: map_of_map)
  qed
  have "sort_key fst (map (\<lambda>(k, v). (k, normal v)) kvs) = sort_key fst (map (\<lambda>(k, v). (k, normal v)) lvs)"
    using assms(1) by (simp add: canonical_eq_normal del: canonical_json.simps)
  with field [OF assms(2)] field [OF assms(3)] show ?thesis by metis
qed

text \<open>
  C39: The canonical text of a payload, of which the identities and the payload hashes are taken,
  determines the payload: two values have the same text exactly when sorting the members of their
  objects by name, at every depth, makes them equal.
\<close>

theorem canonical_text_identifies_value: "canonical_json v = canonical_json w \<longleftrightarrow> normal v = normal w"
  by (rule canonical_eq_normal)

end
