(* ===== verification/Research_State.thy ===== *)
theory Research_State
  imports Storage_Fences Python_Values
begin

text \<open>
  The tables of the research kernel (research/service.py, research/execution.py): research tasks
  with their goals, attempts, checkpoints, results, side effects, events, command receipts, traces
  and execution metadata, and the enumerations of research/contracts.py.

  Every statement of the kernel carries \<open>workspace_id=%s\<close> of the service's context, so a database
  holds the rows of that workspace; \<open>kt_owner_user\<close> tells its users apart. A row keeps the columns
  the kernel reads or writes. The UNIQUE constraints of migrations/sql/0002.sql are part of the
  statements: an INSERT that violates one raises SQLSTATE 23505, which \<open>_transaction\<close> turns into
  \<open>research identity conflict\<close>. \<open>uuid4\<close> is a parameter: \<open>kd_draws\<close> counts its calls, and nothing is
  assumed of its values, so a collision is a branch of the model.
\<close>

section \<open>Enumerations\<close>

datatype task_status = Ts_Ready | Ts_Running | Ts_Blocked | Ts_Waiting_User | Ts_Terminal

fun task_status_text :: "task_status \<Rightarrow> string" where
  "task_status_text Ts_Ready = ''ready''"
| "task_status_text Ts_Running = ''running''"
| "task_status_text Ts_Blocked = ''blocked''"
| "task_status_text Ts_Waiting_User = ''waiting_user''"
| "task_status_text Ts_Terminal = ''terminal''"

datatype attempt_status = At_Pending | At_Running | At_Blocked | At_Waiting_User | At_Terminal

datatype attempt_cause = Ca_Initial | Ca_Resume | Ca_Retry | Ca_Goal_Revision | Ca_Branch | Ca_Replay

fun attempt_cause_text :: "attempt_cause \<Rightarrow> string" where
  "attempt_cause_text Ca_Initial = ''initial''"
| "attempt_cause_text Ca_Resume = ''resume''"
| "attempt_cause_text Ca_Retry = ''retry''"
| "attempt_cause_text Ca_Goal_Revision = ''goal_revision''"
| "attempt_cause_text Ca_Branch = ''branch''"
| "attempt_cause_text Ca_Replay = ''replay''"

datatype attempt_answer = Aw_Valid_Success | Aw_Valid_Partial | Aw_Valid_Insufficient | Aw_Not_Produced

fun answer_status_text :: "attempt_answer \<Rightarrow> string" where
  "answer_status_text Aw_Valid_Success = ''valid_success''"
| "answer_status_text Aw_Valid_Partial = ''valid_partial''"
| "answer_status_text Aw_Valid_Insufficient = ''valid_insufficient''"
| "answer_status_text Aw_Not_Produced = ''not_produced''"

datatype research_termination =
    Rt_Answer_Ready | Rt_Budget_Exhausted | Rt_No_New_Evidence | Rt_Repeated_Action | Rt_Evidence_Unavailable
  | Rt_Needs_User_Input | Rt_Cancelled | Rt_Goal_Revised | Rt_External_Side_Effect_Unknown | Rt_Provider_Error
  | Rt_Implementation_Error | Rt_Targeted_Continuation | Rt_Constraint_Unsatisfied

fun research_termination_text :: "research_termination \<Rightarrow> string" where
  "research_termination_text Rt_Answer_Ready = ''answer_ready''"
| "research_termination_text Rt_Budget_Exhausted = ''budget_exhausted''"
| "research_termination_text Rt_No_New_Evidence = ''no_new_evidence''"
| "research_termination_text Rt_Repeated_Action = ''repeated_action''"
| "research_termination_text Rt_Evidence_Unavailable = ''evidence_unavailable''"
| "research_termination_text Rt_Needs_User_Input = ''needs_user_input''"
| "research_termination_text Rt_Cancelled = ''cancelled''"
| "research_termination_text Rt_Goal_Revised = ''goal_revised''"
| "research_termination_text Rt_External_Side_Effect_Unknown = ''external_side_effect_unknown''"
| "research_termination_text Rt_Provider_Error = ''provider_error''"
| "research_termination_text Rt_Implementation_Error = ''implementation_error''"
| "research_termination_text Rt_Targeted_Continuation = ''targeted_continuation''"
| "research_termination_text Rt_Constraint_Unsatisfied = ''constraint_unsatisfied''"

datatype failure_class =
    Fc_None | Fc_Implementation_Failure | Fc_Provider_Failure | Fc_Product_Quality_Failure
  | Fc_Infrastructure_Invalid_Run | Fc_Evaluation_Invalid_Run

fun failure_class_text :: "failure_class \<Rightarrow> string" where
  "failure_class_text Fc_None = ''none''"
| "failure_class_text Fc_Implementation_Failure = ''implementation_failure''"
| "failure_class_text Fc_Provider_Failure = ''provider_failure''"
| "failure_class_text Fc_Product_Quality_Failure = ''product_quality_failure''"
| "failure_class_text Fc_Infrastructure_Invalid_Run = ''infrastructure_invalid_run''"
| "failure_class_text Fc_Evaluation_Invalid_Run = ''evaluation_invalid_run''"

datatype side_effect_status = Fx_Reserved | Fx_In_Flight | Fx_Succeeded | Fx_Failed | Fx_Unknown

fun side_effect_status_text :: "side_effect_status \<Rightarrow> string" where
  "side_effect_status_text Fx_Reserved = ''reserved''"
| "side_effect_status_text Fx_In_Flight = ''in_flight''"
| "side_effect_status_text Fx_Succeeded = ''succeeded''"
| "side_effect_status_text Fx_Failed = ''failed''"
| "side_effect_status_text Fx_Unknown = ''unknown''"

section \<open>Rows\<close>

record kernel_task =
  kt_owner_user :: string
  kt_parent :: "string option"
  kt_status :: task_status
  kt_goal :: "string option"
  kt_version :: int
  kt_owner :: "string option"
  kt_epoch :: int
  kt_lease :: "int option"
  kt_result :: "string option"
  kt_created :: int
  kt_updated :: int

record kernel_goal =
  kg_task :: string
  kg_revision :: int
  kg_parent :: "string option"
  kg_objective :: string
  kg_constraints :: json
  kg_policy :: json
  kg_event :: "string option"
  kg_created :: int

record kernel_attempt =
  ka_task :: string
  ka_goal :: string
  ka_ordinal :: int
  ka_cause :: attempt_cause
  ka_parent :: "string option"
  ka_source :: "string option"
  ka_status :: attempt_status
  ka_epoch :: int
  ka_result :: "string option"
  ka_started :: int
  ka_ended :: "int option"

record kernel_checkpoint =
  kc_task :: string
  kc_goal :: string
  kc_attempt :: string
  kc_parent :: "string option"
  kc_sequence :: int
  kc_schema :: string
  kc_hash :: string
  kc_payload :: json
  kc_complete :: bool
  kc_epoch :: int
  kc_created :: int

record kernel_result =
  kr_task :: string
  kr_goal :: string
  kr_attempt :: string
  kr_checkpoint :: "string option"
  kr_answer :: attempt_answer
  kr_termination :: research_termination
  kr_failure :: failure_class
  kr_detail :: string
  kr_terminal :: bool
  kr_epoch :: int
  kr_created :: int

record kernel_effect =
  ks_task :: string
  ks_attempt :: string
  ks_command :: string
  ks_key :: string
  ks_kind :: string
  ks_hash :: string
  ks_request :: json
  ks_status :: side_effect_status
  ks_epoch :: int
  ks_operation :: "string option"
  ks_receipt_hash :: "string option"
  ks_reference :: "string option"
  ks_created :: int
  ks_updated :: int

record kernel_event =
  ke_task :: string
  ke_goal :: "string option"
  ke_attempt :: "string option"
  ke_checkpoint :: "string option"
  ke_seq :: int
  ke_type :: string
  ke_payload :: json
  ke_command :: "string option"
  ke_epoch :: int
  ke_created :: int

record kernel_receipt =
  kx_task :: string
  kx_command :: string
  kx_type :: string
  kx_hash :: string
  kx_outcome :: "string option"
  kx_response :: json
  kx_epoch :: int
  kx_created :: int

record kernel_trace =
  kz_task :: string
  kz_attempt :: string
  kz_schema :: string
  kz_started :: int
  kz_ended :: "int option"
  kz_termination :: "research_termination option"

record kernel_execution =
  km_policy :: string
  km_budget :: int
  km_consumed :: int
  km_segment :: "(string \<times> string \<times> int) option"
  km_settled :: int
  km_reserved :: int
  km_ticks :: int
  km_timing :: string
  km_intent :: string
  km_scheduling :: string
  km_run_command :: "string option"
  km_reason :: "string option"
  km_failures :: int
  km_lifetime_failures :: int
  km_generation :: int
  km_next_retry :: "int option"
  km_failure_code :: "string option"
  km_created :: int
  km_updated :: int

record research_db =
  kd_guard :: bool
  kd_tasks :: "(string, kernel_task) table"
  kd_goals :: "(string, kernel_goal) table"
  kd_attempts :: "(string, kernel_attempt) table"
  kd_checkpoints :: "(string, kernel_checkpoint) table"
  kd_results :: "(string, kernel_result) table"
  kd_effects :: "(string, kernel_effect) table"
  kd_events :: "(string, kernel_event) table"
  kd_receipts :: "(string, kernel_receipt) table"
  kd_traces :: "(string, kernel_trace) table"
  kd_execution :: "(string, kernel_execution) table"
  kd_draws :: nat

text \<open>
  \<open>kd_guard\<close>: the workspace has its row of \<open>workspace_guards\<close>. \<open>km_segment\<close> holds the three segment
  columns, which a CHECK keeps null together: segment id, owner and owner epoch.
\<close>

definition empty_research :: research_db where
  "empty_research = \<lparr>kd_guard = True, kd_tasks = [], kd_goals = [], kd_attempts = [], kd_checkpoints = [],
     kd_results = [], kd_effects = [], kd_events = [], kd_receipts = [], kd_traces = [], kd_execution = [],
     kd_draws = 0\<rparr>"

section \<open>Environment of a call\<close>

text \<open>
  What lies outside the database: the platform's digest, \<open>uuid4\<close>, the ISO text of a timestamp; and
  for one call its resource context, the service's clock, the database's clock (in microseconds) and
  the fault injector, which raises at the points where it holds.
\<close>

record research_env =
  en_platform :: platform
  en_uuid :: "nat \<Rightarrow> string"
  en_iso :: "int \<Rightarrow> string"

record research_call =
  cl_context :: resource_context
  cl_now :: int
  cl_db_now :: int
  cl_fault :: "string \<Rightarrow> bool"

definition fault_injector :: "research_call \<Rightarrow> string \<Rightarrow> unit result" where
  "fault_injector c point = (if cl_fault c point then Inl Simulated_Crash else Inr ())"

definition research_hash :: "research_env \<Rightarrow> json \<Rightarrow> string" where
  "research_hash E v = sha256_hexdigest (en_platform E) (utf8_encode (canonical_json v))"

definition new_id :: "research_env \<Rightarrow> string \<Rightarrow> research_db \<Rightarrow> string \<times> research_db" where
  "new_id E prefix db = (prefix @ ''_'' @ en_uuid E (kd_draws db), db\<lparr>kd_draws := kd_draws db + 1\<rparr>)"

definition opt_str :: "string option \<Rightarrow> json" where
  "opt_str s = (case s of None \<Rightarrow> JNull | Some x \<Rightarrow> JStr x)"

text \<open>\<open>str(x)\<close> of a nullable column, and \<open>str(x or "")\<close>.\<close>

definition str_of :: "string option \<Rightarrow> string" where
  "str_of s = (case s of None \<Rightarrow> ''None'' | Some x \<Rightarrow> x)"

definition text_or_empty :: "string option \<Rightarrow> string" where
  "text_or_empty s = (case s of None \<Rightarrow> [] | Some x \<Rightarrow> x)"

definition identity_conflict :: py_error where
  "identity_conflict = Research_Conflict ''research identity conflict''"

definition insert_new :: "string \<Rightarrow> 'v \<Rightarrow> (string, 'v) table \<Rightarrow> (string, 'v) table result" where
  "insert_new k v t = (if select_row t k = None then Inr (insert_row k v t) else Inl identity_conflict)"

lemma insert_new_Inr:
  "insert_new k v t = Inr t' \<longleftrightarrow> select_row t k = None \<and> t' = insert_row k v t"
  by (auto simp: insert_new_def)

end
