(* ===== verification/Research_Kernel.thy ===== *)
theory Research_Kernel
  imports Research_State
begin

text \<open>
  The plumbing of \<open>ResearchTaskService\<close> (research/service.py): row lookups under their locks, the
  guards, events, command receipts and the transaction of a command. A command is one atomic step
  under the lock of its task row: the body runs on the database and either raises, which rolls the
  transaction back, or returns the new database. The audit of a payload mismatch alone commits and
  then raises.
\<close>

section \<open>Lookups and guards\<close>

text \<open>\<open>_task\<close>, \<open>_attempt\<close>, \<open>_side_effect\<close>: the row, if it exists and its task belongs to the caller.\<close>

definition fetch_task :: "research_call \<Rightarrow> string \<Rightarrow> research_db \<Rightarrow> kernel_task result" where
  "fetch_task c i db =
     (case select_row (kd_tasks db) i of
        None \<Rightarrow> Inl (Research_Not_Found ''task'')
      | Some t \<Rightarrow> if kt_owner_user t = user_id (cl_context c) then Inr t else Inl (Research_Not_Found ''task''))"

definition fetch_attempt :: "research_call \<Rightarrow> string \<Rightarrow> research_db \<Rightarrow> kernel_attempt result" where
  "fetch_attempt c i db =
     (case select_row (kd_attempts db) i of
        None \<Rightarrow> Inl (Research_Not_Found ''attempt'')
      | Some a \<Rightarrow> ebind (fetch_task c (ka_task a) db) (\<lambda>_. Inr a))"

definition fetch_effect :: "research_call \<Rightarrow> string \<Rightarrow> research_db \<Rightarrow> kernel_effect result" where
  "fetch_effect c i db =
     (case select_row (kd_effects db) i of
        None \<Rightarrow> Inl (Research_Not_Found ''side effect'')
      | Some s \<Rightarrow> ebind (fetch_task c (ks_task s) db) (\<lambda>_. Inr s))"

definition kernel_lease_valid :: "research_call \<Rightarrow> kernel_task \<Rightarrow> bool" where
  "kernel_lease_valid c t = (case kt_lease t of None \<Rightarrow> False | Some u \<Rightarrow> u > cl_db_now c)"

definition assert_expected :: "kernel_task \<Rightarrow> int \<Rightarrow> unit result" where
  "assert_expected t expected = guard_or (kt_version t = expected) (Research_Conflict ''stale task state'')"

definition assert_nonterminal :: "kernel_task \<Rightarrow> unit result" where
  "assert_nonterminal t = guard_or (kt_status t \<noteq> Ts_Terminal) (Research_Unsafe ''terminal task'')"

definition assert_owner :: "research_call \<Rightarrow> kernel_task \<Rightarrow> string \<Rightarrow> int \<Rightarrow> unit result" where
  "assert_owner c t owner ep =
     (if text_or_empty (kt_owner t) \<noteq> owner \<or> kt_epoch t \<noteq> ep then Inl (Research_Conflict ''stale owner fence'')
      else guard_or (kernel_lease_valid c t) (Research_Conflict ''owner lease expired''))"

section \<open>Events and receipts\<close>

definition kernel_seqs :: "research_db \<Rightarrow> string \<Rightarrow> int list" where
  "kernel_seqs db i = map (ke_seq \<circ> snd) (filter (\<lambda>(_, e). ke_task e = i) (kd_events db))"

text \<open>
  \<open>_event\<close>: the caller's row, with the next sequence number of its task; returns the event id.
  \<open>event_row\<close> is a row with only the columns every event has.
\<close>

definition event_row :: "string \<Rightarrow> string \<Rightarrow> json \<Rightarrow> string \<Rightarrow> int \<Rightarrow> int \<Rightarrow> kernel_event" where
  "event_row i type payload command ep now =
     \<lparr>ke_task = i, ke_goal = None, ke_attempt = None, ke_checkpoint = None, ke_seq = 0, ke_type = type,
       ke_payload = payload, ke_command = Some command, ke_epoch = ep, ke_created = now\<rparr>"

definition append_event ::
  "research_env \<Rightarrow> research_call \<Rightarrow> kernel_event \<Rightarrow> research_db \<Rightarrow> (string \<times> research_db) result"
where
  "append_event E c e db =
     ebind (fetch_task c (ke_task e) db) (\<lambda>_.
       let (event_id, db1) = new_id E ''event'' db in
       ebind (insert_new event_id (e\<lparr>ke_seq := next_seq (kernel_seqs db (ke_task e))\<rparr>) (kd_events db1))
         (\<lambda>events. Inr (event_id, db1\<lparr>kd_events := events\<rparr>)))"

definition receipt_of :: "research_db \<Rightarrow> string \<Rightarrow> string \<Rightarrow> kernel_receipt option" where
  "receipt_of db i command =
     map_option snd (find (\<lambda>(_, r). kx_task r = i \<and> kx_command r = command) (kd_receipts db))"

definition receipt_response :: "kernel_receipt \<Rightarrow> json" where
  "receipt_response r =
     (if truthy (kx_response r) then kx_response r
      else JObj [(''outcome_reference'', opt_str (kx_outcome r))])"

text \<open>
  \<open>_existing_receipt\<close>. The fence is asked before the payload hash, at the epoch the caller names or
  else at the epoch of the receipt.
\<close>

datatype receipt_lookup = No_Receipt | Replayed json | Mismatched research_db

definition mismatch_event :: "kernel_task \<Rightarrow> string \<Rightarrow> string \<Rightarrow> string \<Rightarrow> string \<Rightarrow> int \<Rightarrow> kernel_event" where
  "mismatch_event t i command stored received now =
     (event_row i ''command_payload_mismatch_rejected''
        (JObj [(''command_id'', JStr command), (''stored_payload_hash'', JStr stored),
               (''received_payload_hash'', JStr received)]) command (kt_epoch t) now)
     \<lparr>ke_goal := kt_goal t\<rparr>"

definition existing_receipt ::
  "research_env \<Rightarrow> research_call \<Rightarrow> string \<Rightarrow> string \<Rightarrow> string \<Rightarrow> string option \<Rightarrow> int option \<Rightarrow> research_db
    \<Rightarrow> receipt_lookup result"
where
  "existing_receipt E c i command hash owner ep db =
     ebind (fetch_task c i db) (\<lambda>t.
       case receipt_of db i command of
         None \<Rightarrow> Inr No_Receipt
       | Some r \<Rightarrow>
           ebind (case owner of
                    None \<Rightarrow> Inr ()
                  | Some w \<Rightarrow> assert_owner c t w (case ep of Some x \<Rightarrow> x | None \<Rightarrow> kx_epoch r))
             (\<lambda>_. if kx_hash r \<noteq> hash
                   then ebind (append_event E c (mismatch_event t i command (kx_hash r) hash (cl_now c)) db)
                          (\<lambda>(_, db'). Inr (Mismatched db'))
                   else Inr (Replayed (receipt_response r))))"

definition insert_receipt ::
  "research_env \<Rightarrow> string \<Rightarrow> string \<Rightarrow> string \<Rightarrow> string \<Rightarrow> string option \<Rightarrow> json \<Rightarrow> int \<Rightarrow> int \<Rightarrow> research_db
    \<Rightarrow> research_db result"
where
  "insert_receipt E i command type hash outcome response ep now db =
     (let (receipt_id, db1) = new_id E ''receipt'' db in
      if receipt_of db1 i command \<noteq> None then Inl identity_conflict
      else ebind (insert_new receipt_id
             \<lparr>kx_task = i, kx_command = command, kx_type = type, kx_hash = hash, kx_outcome = outcome,
               kx_response = response, kx_epoch = ep, kx_created = now\<rparr> (kd_receipts db1))
             (\<lambda>receipts. Inr (db1\<lparr>kd_receipts := receipts\<rparr>)))"

section \<open>Transactions\<close>

text \<open>
  The outcome of an operation: the committed database and what the caller gets. \<open>run_command\<close> is the
  frame every command shares: replay of its receipt, else its body.
\<close>

type_synonym 'a outcome = "research_db \<times> 'a result"

definition transaction :: "research_db \<Rightarrow> (research_db \<times> 'a) result \<Rightarrow> 'a outcome" where
  "transaction db body = (case body of Inl e \<Rightarrow> (db, Inl e) | Inr (db', x) \<Rightarrow> (db', Inr x))"

definition payload_mismatch :: py_error where
  "payload_mismatch = Research_Conflict ''command payload mismatch''"

definition run_command ::
  "research_env \<Rightarrow> research_call \<Rightarrow> string \<Rightarrow> string \<Rightarrow> string \<Rightarrow> string option \<Rightarrow> int option
    \<Rightarrow> (research_db \<Rightarrow> (research_db \<times> json) result) \<Rightarrow> research_db \<Rightarrow> json outcome"
where
  "run_command E c i command hash owner ep body db =
     (case existing_receipt E c i command hash owner ep db of
        Inl e \<Rightarrow> (db, Inl e)
      | Inr (Mismatched db') \<Rightarrow> (db', Inl payload_mismatch)
      | Inr (Replayed response) \<Rightarrow> (db, Inr response)
      | Inr No_Receipt \<Rightarrow> transaction db (body db))"

text \<open>The end of a body: the receipt of the response that is returned.\<close>

definition commit_response ::
  "research_env \<Rightarrow> string \<Rightarrow> string \<Rightarrow> string \<Rightarrow> string \<Rightarrow> string \<Rightarrow> json \<Rightarrow> int \<Rightarrow> int \<Rightarrow> research_db
    \<Rightarrow> (research_db \<times> json) result"
where
  "commit_response E i command type hash outcome response ep now db =
     ebind (insert_receipt E i command type hash (Some outcome) response ep now db)
       (\<lambda>db'. Inr (db', response))"

text \<open>The guards the owner's commands share, on the locked task row.\<close>

definition owner_guards :: "research_call \<Rightarrow> kernel_task \<Rightarrow> string \<Rightarrow> int \<Rightarrow> int \<Rightarrow> unit result" where
  "owner_guards c t owner ep expected =
     ebind (assert_nonterminal t) (\<lambda>_.
     ebind (assert_expected t expected) (\<lambda>_. assert_owner c t owner ep))"

text \<open>\<open>UPDATE research_tasks SET \<dots>, state_version=state_version+1, updated_at=%s\<close>.\<close>

definition touch_task :: "research_call \<Rightarrow> string \<Rightarrow> (kernel_task \<Rightarrow> kernel_task) \<Rightarrow> int \<Rightarrow> research_db \<Rightarrow> research_db" where
  "touch_task c i f now db =
     db\<lparr>kd_tasks := update_where (\<lambda>k t. k = i \<and> kt_owner_user t = user_id (cl_context c))
          (\<lambda>t. (f t)\<lparr>kt_version := kt_version t + 1, kt_updated := now\<rparr>) (kd_tasks db)\<rparr>"

end
