(* ===== verification/Research_Tasks.thy ===== *)
theory Research_Tasks
  imports Research_Kernel
begin

text \<open>
  The commands of \<open>ResearchTaskService\<close> on tasks, goals, attempts, checkpoints and results
  (research/service.py). Each command is its payload, its body and the command itself: \<open>run_command\<close>
  replays the receipt of an earlier delivery, else runs the body in one transaction. A call reads
  the service's clock and the database's clock once each.
\<close>

section \<open>Creating a task\<close>

text \<open>\<open>_execution_metadata\<close>, as product_service.py fills it.\<close>

record execution_request =
  xm_policy :: string
  xm_budget :: int
  xm_intent :: string
  xm_status :: string
  xm_run_command :: string
  xm_reason :: "string option"

definition execution_request_json :: "execution_request \<Rightarrow> json" where
  "execution_request_json x =
     JObj [(''time_policy_version'', JStr (xm_policy x)), (''active_budget_ms'', JInt (xm_budget x)),
           (''scheduling_intent'', JStr (xm_intent x)), (''scheduling_status'', JStr (xm_status x)),
           (''run_command_id'', JStr (xm_run_command x)), (''resume_reason'', opt_str (xm_reason x))]"

definition scheduling_intents :: "string list" where
  "scheduling_intents = [''none'', ''queued'', ''manual'']"

definition scheduling_states :: "string list" where
  "scheduling_states =
     [''idle'', ''queued'', ''running'', ''backoff'', ''manual_required'', ''blocked'', ''complete'']"

text \<open>INSERT INTO research_execution_metadata: the columns it names, the defaults, and the CHECKs.\<close>

definition new_execution :: "execution_request \<Rightarrow> int \<Rightarrow> kernel_execution" where
  "new_execution x now =
     \<lparr>km_policy = xm_policy x, km_budget = xm_budget x, km_consumed = 0, km_segment = None, km_settled = 0,
       km_reserved = 0, km_ticks = 0, km_timing = ''idle'', km_intent = xm_intent x,
       km_scheduling = xm_status x, km_run_command = Some (xm_run_command x), km_reason = xm_reason x,
       km_failures = 0, km_lifetime_failures = 0, km_generation = 0, km_next_retry = None,
       km_failure_code = None, km_created = now, km_updated = now\<rparr>"

definition insert_execution ::
  "string \<Rightarrow> execution_request \<Rightarrow> int \<Rightarrow> research_db \<Rightarrow> research_db result"
where
  "insert_execution i x now db =
     (if xm_budget x \<le> 0 \<or> xm_intent x \<notin> set scheduling_intents \<or> xm_status x \<notin> set scheduling_states
      then Inl (Storage_Error ''23514'')
      else ebind (insert_new i (new_execution x now) (kd_execution db))
             (\<lambda>rows. Inr (db\<lparr>kd_execution := rows\<rparr>)))"

text \<open>The default identity: an imported legacy id is kept, otherwise the id is private to the scope.\<close>

definition legacy_task_id :: "research_env \<Rightarrow> string \<Rightarrow> string" where
  "legacy_task_id E command = ''rtask_'' @ take 32 (sha256_hexdigest (en_platform E) (utf8_encode command))"

definition default_task_id :: "research_env \<Rightarrow> research_call \<Rightarrow> string \<Rightarrow> research_db \<Rightarrow> string" where
  "default_task_id E c command db =
     (if isl (fetch_task c (legacy_task_id E command) db)
      then ''rtask_'' @ take 32 (research_hash E
             (strs [workspace_id (cl_context c), user_id (cl_context c), command]))
      else legacy_task_id E command)"

definition create_payload ::
  "string \<Rightarrow> string list \<Rightarrow> json \<Rightarrow> string option \<Rightarrow> string \<Rightarrow> json \<Rightarrow> execution_request option \<Rightarrow> json"
where
  "create_payload objective constraints policy parent i profile execution =
     JObj ([(''objective'', JStr objective), (''success_constraints'', strs constraints),
            (''evidence_policy'', policy), (''parent_task_id'', opt_str parent), (''task_id'', JStr i),
            (''server_constraint_profile'', profile)] @
           (case execution of None \<Rightarrow> [] | Some x \<Rightarrow> [(''execution_metadata'', execution_request_json x)]))"

definition new_task :: "research_call \<Rightarrow> string option \<Rightarrow> kernel_task" where
  "new_task c parent =
     \<lparr>kt_owner_user = user_id (cl_context c), kt_parent = parent, kt_status = Ts_Ready, kt_goal = None,
       kt_version = 0, kt_owner = None, kt_epoch = 0, kt_lease = None, kt_result = None,
       kt_created = cl_now c, kt_updated = cl_now c\<rparr>"

definition new_goal :: "string \<Rightarrow> int \<Rightarrow> string option \<Rightarrow> string \<Rightarrow> string list \<Rightarrow> json \<Rightarrow> int \<Rightarrow> kernel_goal" where
  "new_goal i revision parent objective constraints policy now =
     \<lparr>kg_task = i, kg_revision = revision, kg_parent = parent, kg_objective = objective,
       kg_constraints = strs constraints, kg_policy = policy, kg_event = None, kg_created = now\<rparr>"

definition terminal_parent :: "research_call \<Rightarrow> string option \<Rightarrow> research_db \<Rightarrow> unit result" where
  "terminal_parent c parent db =
     (case parent of
        None \<Rightarrow> Inr ()
      | Some p \<Rightarrow> ebind (fetch_task c p db) (\<lambda>t.
          guard_or (kt_status t = Ts_Terminal) (Research_Validation ''parent must be terminal'')))"

definition activate_goal :: "research_call \<Rightarrow> string \<Rightarrow> string \<Rightarrow> research_db \<Rightarrow> research_db" where
  "activate_goal c i goal_id db =
     db\<lparr>kd_tasks := update_where (\<lambda>k t. k = i \<and> kt_owner_user t = user_id (cl_context c))
          (\<lambda>t. t\<lparr>kt_goal := Some goal_id\<rparr>) (kd_tasks db)\<rparr>"

definition create_task_body ::
  "research_env \<Rightarrow> research_call \<Rightarrow> string \<Rightarrow> string \<Rightarrow> string \<Rightarrow> string list \<Rightarrow> json \<Rightarrow> string option \<Rightarrow> json
    \<Rightarrow> execution_request option \<Rightarrow> string \<Rightarrow> research_db \<Rightarrow> (research_db \<times> json) result"
where
  "create_task_body E c command i objective constraints policy parent profile execution hash db =
     ebind (terminal_parent c parent db) (\<lambda>_.
     ebind (insert_new i (new_task c parent) (kd_tasks db)) (\<lambda>tasks.
     ebind (fault_injector c ''after_task_insert'') (\<lambda>_.
       let (goal_id, db1) = new_id E ''goal'' (db\<lparr>kd_tasks := tasks\<rparr>) in
       ebind (insert_new goal_id (new_goal i 1 None objective constraints policy (cl_now c)) (kd_goals db1)) (\<lambda>goals.
         let db2 = activate_goal c i goal_id (db1\<lparr>kd_goals := goals\<rparr>) in
       ebind (case execution of None \<Rightarrow> Inr db2 | Some x \<Rightarrow> insert_execution i x (cl_now c) db2) (\<lambda>db3.
       ebind (append_event E c
           ((event_row i ''task_created''
               (JObj [(''parent_task_id'', opt_str parent), (''goal_revision'', JInt 1),
                      (''server_constraint_profile'', profile)]) command 0 (cl_now c))\<lparr>ke_goal := Some goal_id\<rparr>) db3)
         (\<lambda>(event_id, db4).
         let db5 = db4\<lparr>kd_goals := update_row goal_id (\<lambda>g. g\<lparr>kg_event := Some event_id\<rparr>) (kd_goals db4)\<rparr>
         in commit_response E i command ''create_task'' hash i
              (JObj [(''task_id'', JStr i), (''goal_id'', JStr goal_id), (''state_version'', JInt 0)])
              0 (cl_now c) db5))))))"

text \<open>
  A replay of create_task asks for no owner. Without a receipt an existing task is a conflict.
\<close>

definition create_task ::
  "research_env \<Rightarrow> research_call \<Rightarrow> string \<Rightarrow> string \<Rightarrow> string list \<Rightarrow> json \<Rightarrow> string option \<Rightarrow> string option
    \<Rightarrow> json \<Rightarrow> execution_request option \<Rightarrow> research_db \<Rightarrow> json outcome"
where
  "create_task E c command objective0 constraints policy task parent profile execution db =
     (let objective = strip objective0 in
      if objective = [] then (db, Inl (Research_Validation ''objective''))
      else
        let i = (case task of Some i \<Rightarrow> i | None \<Rightarrow> default_task_id E c command db);
            hash = research_hash E (create_payload objective constraints policy parent i profile execution)
        in
        if \<not> kd_guard db then (db, Inl (Conflict ''workspace_missing''))
        else if isl (fetch_task c i db)
        then transaction db (create_task_body E c command i objective constraints policy parent profile execution hash db)
        else run_command E c i command hash None None
               (\<lambda>_. Inl (Research_Conflict ''task_id exists, receipt does not match'')) db)"

section \<open>Ownership\<close>

definition valid_lease :: "int \<Rightarrow> bool" where
  "valid_lease seconds \<longleftrightarrow> 0 < seconds \<and> seconds \<le> 60"

definition expires_at :: "research_call \<Rightarrow> int \<Rightarrow> int" where
  "expires_at c seconds = cl_db_now c + seconds * 1000000"

definition claim_payload :: "string \<Rightarrow> int \<Rightarrow> int \<Rightarrow> json" where
  "claim_payload owner expected seconds =
     JObj [(''owner_id'', JStr owner), (''expected_state_version'', JInt expected), (''lease_seconds'', JInt seconds)]"

text \<open>The reserved effects of an earlier epoch, ORDER BY created_at, side_effect_id.\<close>

definition reserved_before :: "string \<Rightarrow> int \<Rightarrow> research_db \<Rightarrow> (string \<times> kernel_effect) list" where
  "reserved_before i ep db =
     sort_key (\<lambda>(k, s). (ks_created s, k))
       (filter (\<lambda>(_, s). ks_task s = i \<and> ks_status s = Fx_Reserved \<and> ks_epoch s < ep) (kd_effects db))"

fun rebind_effects ::
  "research_env \<Rightarrow> research_call \<Rightarrow> string \<Rightarrow> string \<Rightarrow> int \<Rightarrow> (string \<times> kernel_effect) list \<Rightarrow> research_db
    \<Rightarrow> research_db result"
where
  "rebind_effects E c i command ep [] db = Inr db"
| "rebind_effects E c i command ep ((k, s) # rows) db =
     ebind (append_event E c
         ((event_row i ''side_effect_reserved_rebound''
             (JObj [(''side_effect_id'', JStr k), (''previous_owner_epoch'', JInt (ks_epoch s)),
                    (''new_owner_epoch'', JInt ep)]) command ep (cl_db_now c))\<lparr>ke_attempt := Some (ks_attempt s)\<rparr>)
         (db\<lparr>kd_effects := update_where
            (\<lambda>k' s'. k' = k \<and> ks_status s' = Fx_Reserved \<and> ks_epoch s' = ks_epoch s)
            (\<lambda>s'. s'\<lparr>ks_epoch := ep, ks_updated := cl_db_now c\<rparr>) (kd_effects db)\<rparr>))
       (\<lambda>(_, db'). rebind_effects E c i command ep rows db')"

definition claim_owner_body ::
  "research_env \<Rightarrow> research_call \<Rightarrow> string \<Rightarrow> string \<Rightarrow> string \<Rightarrow> int \<Rightarrow> int \<Rightarrow> string \<Rightarrow> research_db
    \<Rightarrow> (research_db \<times> json) result"
where
  "claim_owner_body E c i command owner expected seconds hash db =
     ebind (fetch_task c i db) (\<lambda>t.
     ebind (assert_nonterminal t) (\<lambda>_.
     ebind (assert_expected t expected) (\<lambda>_.
     if text_or_empty (kt_owner t) \<noteq> [] \<and> kernel_lease_valid c t
     then Inl (Research_Conflict ''task has an active owner'')
     else
       let ep = kt_epoch t + 1;
           expires = expires_at c seconds;
           db1 = (touch_task c i (\<lambda>t. t\<lparr>kt_owner := Some owner, kt_epoch := ep, kt_lease := Some expires\<rparr>)
                    (cl_db_now c) db)
                 \<lparr>kd_attempts := update_where (\<lambda>_ a. ka_task a = i \<and> ka_status a \<noteq> At_Terminal)
                    (\<lambda>a. a\<lparr>ka_epoch := ep\<rparr>) (kd_attempts db)\<rparr>;
           rows = reserved_before i ep db1
       in ebind (rebind_effects E c i command ep rows db1) (\<lambda>db2.
          ebind (fault_injector c ''after_owner_claim'') (\<lambda>_.
          ebind (append_event E c (event_row i ''owner_claimed''
              (JObj [(''owner_id'', JStr owner), (''lease_until'', JStr (en_iso E expires))]) command ep (cl_db_now c)) db2)
            (\<lambda>(_, db3).
            commit_response E i command ''claim_owner'' hash i
              (JObj [(''task_id'', JStr i), (''owner_id'', JStr owner), (''owner_epoch'', JInt ep),
                     (''lease_until'', JStr (en_iso E expires)), (''state_version'', JInt (expected + 1)),
                     (''rebound_reserved_side_effect_ids'', strs (map fst rows))])
              ep (cl_db_now c) db3))))))"

definition claim_owner ::
  "research_env \<Rightarrow> research_call \<Rightarrow> string \<Rightarrow> string \<Rightarrow> string \<Rightarrow> int \<Rightarrow> int \<Rightarrow> research_db \<Rightarrow> json outcome"
where
  "claim_owner E c i command owner expected seconds db =
     (if \<not> valid_lease seconds then (db, Inl (Research_Validation ''invalid_owner_lease''))
      else
        let hash = research_hash E (claim_payload owner expected seconds)
        in run_command E c i command hash (Some owner) None
             (claim_owner_body E c i command owner expected seconds hash) db)"

definition renew_payload :: "string \<Rightarrow> int \<Rightarrow> int \<Rightarrow> int \<Rightarrow> json" where
  "renew_payload owner ep expected seconds =
     JObj [(''owner_id'', JStr owner), (''owner_epoch'', JInt ep), (''expected_state_version'', JInt expected),
           (''lease_seconds'', JInt seconds)]"

definition renew_owner_body ::
  "research_env \<Rightarrow> research_call \<Rightarrow> string \<Rightarrow> string \<Rightarrow> string \<Rightarrow> int \<Rightarrow> int \<Rightarrow> int \<Rightarrow> string \<Rightarrow> research_db
    \<Rightarrow> (research_db \<times> json) result"
where
  "renew_owner_body E c i command owner ep expected seconds hash db =
     ebind (fetch_task c i db) (\<lambda>t.
     ebind (owner_guards c t owner ep expected) (\<lambda>_.
       let expires = expires_at c seconds;
           db1 = touch_task c i (\<lambda>t. t\<lparr>kt_lease := Some expires\<rparr>) (cl_db_now c) db
       in ebind (append_event E c (event_row i ''owner_renewed''
              (JObj [(''owner_id'', JStr owner), (''lease_until'', JStr (en_iso E expires))]) command ep (cl_db_now c)) db1)
            (\<lambda>(_, db2).
            commit_response E i command ''renew_owner'' hash i
              (JObj [(''task_id'', JStr i), (''owner_epoch'', JInt ep), (''lease_until'', JStr (en_iso E expires)),
                     (''state_version'', JInt (expected + 1))]) ep (cl_db_now c) db2)))"

definition renew_owner ::
  "research_env \<Rightarrow> research_call \<Rightarrow> string \<Rightarrow> string \<Rightarrow> string \<Rightarrow> int \<Rightarrow> int \<Rightarrow> int \<Rightarrow> research_db \<Rightarrow> json outcome"
where
  "renew_owner E c i command owner ep expected seconds db =
     (if \<not> valid_lease seconds then (db, Inl (Research_Validation ''invalid_owner_lease''))
      else
        let hash = research_hash E (renew_payload owner ep expected seconds)
        in run_command E c i command hash (Some owner) (Some ep)
             (renew_owner_body E c i command owner ep expected seconds hash) db)"

end
