(* ===== verification/Research_Attempts.thy ===== *)
theory Research_Attempts
  imports Research_Tasks
begin

text \<open>
  Attempts, checkpoints, results and goal revisions of \<open>ResearchTaskService\<close> (research/service.py).
  The constraint trigger of migrations/sql/0009.sql on \<open>research_attempts\<close> repeats the lineage checks of
  \<open>start_attempt\<close>, so it never fires after them.
\<close>

section \<open>Shared statements\<close>

definition live_attempts :: "string \<Rightarrow> research_db \<Rightarrow> (string \<times> kernel_attempt) list" where
  "live_attempts i db = filter (\<lambda>(_, a). ka_task a = i \<and> ka_status a \<noteq> At_Terminal) (kd_attempts db)"

text \<open>\<open>COALESCE(MAX(ordinal), 0) + 1\<close>, and \<open>MAX(revision) + 1\<close> of a task that has a goal.\<close>

definition next_ordinal :: "string \<Rightarrow> research_db \<Rightarrow> int" where
  "next_ordinal i db = next_seq (map (ka_ordinal \<circ> snd) (filter (\<lambda>(_, a). ka_task a = i) (kd_attempts db)))"

definition next_revision :: "string \<Rightarrow> research_db \<Rightarrow> int" where
  "next_revision i db = next_seq (map (kg_revision \<circ> snd) (filter (\<lambda>(_, g). kg_task g = i) (kd_goals db)))"

definition new_attempt ::
  "research_call \<Rightarrow> string \<Rightarrow> string \<Rightarrow> int \<Rightarrow> attempt_cause \<Rightarrow> string option \<Rightarrow> string option \<Rightarrow> int
    \<Rightarrow> kernel_attempt"
where
  "new_attempt c i goal ordinal cause parent source ep =
     \<lparr>ka_task = i, ka_goal = goal, ka_ordinal = ordinal, ka_cause = cause, ka_parent = parent,
       ka_source = source, ka_status = At_Running, ka_epoch = ep, ka_result = None,
       ka_started = cl_now c, ka_ended = None\<rparr>"

text \<open>The INSERT under the partial unique index \<open>idx_research_attempts_one_active\<close>.\<close>

definition insert_attempt :: "string \<Rightarrow> kernel_attempt \<Rightarrow> research_db \<Rightarrow> research_db result" where
  "insert_attempt k a db =
     (if live_attempts (ka_task a) db \<noteq> [] then Inl identity_conflict
      else ebind (insert_new k a (kd_attempts db)) (\<lambda>rows. Inr (db\<lparr>kd_attempts := rows\<rparr>)))"

definition trace_schema :: string where
  "trace_schema = ''v5-a-stage1-trace-v1''"

definition insert_trace ::
  "research_env \<Rightarrow> research_call \<Rightarrow> string \<Rightarrow> string \<Rightarrow> research_db \<Rightarrow> (string \<times> research_db) result"
where
  "insert_trace E c i attempt db =
     (let (trace_id, db1) = new_id E ''trace'' db in
      ebind (insert_new trace_id
               \<lparr>kz_task = i, kz_attempt = attempt, kz_schema = trace_schema, kz_started = cl_now c,
                 kz_ended = None, kz_termination = None\<rparr> (kd_traces db1))
        (\<lambda>rows. Inr (trace_id, db1\<lparr>kd_traces := rows\<rparr>)))"

section \<open>Starting an attempt\<close>

lemma unvisited_decreases:
  assumes "i \<notin> set visited" and "select_row t i \<noteq> None"
  shows "card (set (map fst t) - set (i # visited)) < card (set (map fst t) - set visited)"
proof (rule psubset_card_mono)
  have "i \<in> set (map fst t)"
    using assms(2) by (auto simp: select_row_def map_of_eq_None_iff)
  with assms(1) show "set (map fst t) - set (i # visited) \<subset> set (map fst t) - set visited" by auto
qed simp

text \<open>
  The walk from the task to its ancestors in search of the source checkpoint's task. It ends because
  a task is visited once.
\<close>

function source_in_lineage ::
  "research_call \<Rightarrow> string \<Rightarrow> string option \<Rightarrow> string list \<Rightarrow> research_db \<Rightarrow> bool result"
where
  "source_in_lineage c source cursor visited db =
     (case cursor of
        None \<Rightarrow> Inr False
      | Some i \<Rightarrow>
          if i \<in> set visited then Inl (Research_Unsafe ''task lineage cycle'')
          else if i = source then Inr True
          else case select_row (kd_tasks db) i of
            None \<Rightarrow> Inl (Research_Unsafe ''task lineage parent missing'')
          | Some t \<Rightarrow>
              if kt_owner_user t \<noteq> user_id (cl_context c) then Inl (Research_Unsafe ''task lineage parent missing'')
              else source_in_lineage c source (kt_parent t) (i # visited) db)"
  by pat_completeness auto

termination
  by (relation "measure (\<lambda>(_, _, _, visited, db). card (set (map fst (kd_tasks db)) - set visited))")
     (auto simp del: list.set list.set_map set_map intro!: unvisited_decreases)

text \<open>The checks on the cause of a new attempt, in the order of the code.\<close>

definition branch_source ::
  "research_call \<Rightarrow> string \<Rightarrow> string \<Rightarrow> string option \<Rightarrow> research_db \<Rightarrow> unit result"
where
  "branch_source c i parent source db =
     (case source of
        None \<Rightarrow> Inl (Research_Validation ''branch/replay needs a source checkpoint'')
      | Some s \<Rightarrow>
          (case select_row (kd_checkpoints db) s of
             None \<Rightarrow> Inl (Research_Validation ''source checkpoint missing or incomplete'')
           | Some k \<Rightarrow>
               if \<not> kc_complete k then Inl (Research_Validation ''source checkpoint missing or incomplete'')
               else
                 ebind (fetch_attempt c (kc_attempt k) db) (\<lambda>a.
                   if kc_attempt k \<noteq> parent
                   then Inl (Research_Validation ''parent attempt is not that of the source checkpoint'')
                   else if ka_status a \<noteq> At_Terminal then Inl (Research_Validation ''source attempt must be terminal'')
                   else
                     ebind (source_in_lineage c (kc_task k) (Some i) [] db) (\<lambda>found.
                       guard_or found (Research_Validation ''source checkpoint not of the task or an ancestor'')))))"

definition cause_allowed ::
  "research_call \<Rightarrow> string \<Rightarrow> attempt_cause \<Rightarrow> string option \<Rightarrow> string option \<Rightarrow> research_db \<Rightarrow> unit result"
where
  "cause_allowed c i cause parent source db =
     (case cause of
        Ca_Initial \<Rightarrow>
          guard_or (filter (\<lambda>(_, a). ka_task a = i) (kd_attempts db) = [] \<and> parent = None \<and> source = None)
            (Research_Validation ''initial creates the first attempt only'')
      | Ca_Resume \<Rightarrow> Inl (Research_Validation ''resume creates no attempt'')
      | Ca_Goal_Revision \<Rightarrow> Inl (Research_Validation ''goal_revision is created by revise_goal'')
      | Ca_Retry \<Rightarrow>
          (case parent of
             None \<Rightarrow> Inl (Research_Validation ''retry needs a terminal parent and no source'')
           | Some p \<Rightarrow>
               if source \<noteq> None then Inl (Research_Validation ''retry needs a terminal parent and no source'')
               else
                 ebind (fetch_attempt c p db) (\<lambda>a.
                   guard_or (ka_task a = i \<and> ka_status a = At_Terminal)
                     (Research_Validation ''retry parent must be a terminal attempt of the task'')))
      | _ \<Rightarrow>
          (case parent of
             None \<Rightarrow> Inl (Research_Validation ''branch/replay needs the source attempt'')
           | Some p \<Rightarrow> branch_source c i p source db))"

text \<open>\<open>_execution_enqueue\<close>: its two keys, which may be absent.\<close>

record execution_enqueue =
  eq_run_command :: "string option"
  eq_reason :: "string option"

definition execution_enqueue_json :: "execution_enqueue \<Rightarrow> json" where
  "execution_enqueue_json x =
     present [(''run_command_id'', map_option JStr (eq_run_command x)), (''reason'', map_option JStr (eq_reason x))]"

definition unaccounted :: py_error where
  "unaccounted = Research_Unsafe ''legacy_time_unaccounted''"

definition resolvable_timing :: "kernel_execution \<Rightarrow> unit result" where
  "resolvable_timing m =
     guard_or (km_timing m \<notin> {''uncertain'', ''exhausted''}) (Research_Unsafe ''active-time state needs resolution'')"

definition enqueue_attempt ::
  "research_call \<Rightarrow> string \<Rightarrow> execution_enqueue option \<Rightarrow> research_db \<Rightarrow> research_db result"
where
  "enqueue_attempt c i enqueue db =
     (case enqueue of
        None \<Rightarrow> Inr db
      | Some x \<Rightarrow>
          (case select_row (kd_execution db) i of
             None \<Rightarrow> Inl unaccounted
           | Some m \<Rightarrow>
               ebind (resolvable_timing m) (\<lambda>_.
                 let run_command = strip (text_or_empty (eq_run_command x));
                     reason = strip (text_or_empty (eq_reason x))
                 in if run_command = [] \<or> reason = []
                    then Inl (Research_Validation ''execution enqueue requires run_command_id and reason'')
                    else Inr (db\<lparr>kd_execution := update_row i
                      (\<lambda>m. m\<lparr>km_intent := ''manual'', km_scheduling := ''queued'', km_run_command := Some run_command,
                             km_reason := Some reason, km_generation := km_generation m + 1, km_failures := 0,
                             km_next_retry := None, km_updated := cl_now c\<rparr>) (kd_execution db)\<rparr>))))"

definition start_payload ::
  "string \<Rightarrow> int \<Rightarrow> int \<Rightarrow> attempt_cause \<Rightarrow> string option \<Rightarrow> string option \<Rightarrow> execution_enqueue option \<Rightarrow> json"
where
  "start_payload owner ep expected cause parent source enqueue =
     JObj ([(''owner_id'', JStr owner), (''owner_epoch'', JInt ep), (''expected_state_version'', JInt expected),
            (''cause'', JStr (attempt_cause_text cause)), (''parent_attempt_id'', opt_str parent),
            (''source_checkpoint_id'', opt_str source)] @
           (case enqueue of None \<Rightarrow> [] | Some x \<Rightarrow> [(''execution_enqueue'', execution_enqueue_json x)]))"

definition start_attempt_body ::
  "research_env \<Rightarrow> research_call \<Rightarrow> string \<Rightarrow> string \<Rightarrow> string \<Rightarrow> int \<Rightarrow> int \<Rightarrow> attempt_cause \<Rightarrow> string option
    \<Rightarrow> string option \<Rightarrow> execution_enqueue option \<Rightarrow> string \<Rightarrow> research_db \<Rightarrow> (research_db \<times> json) result"
where
  "start_attempt_body E c i command owner ep expected cause parent source enqueue hash db =
     ebind (fetch_task c i db) (\<lambda>t.
     ebind (owner_guards c t owner ep expected) (\<lambda>_.
     if live_attempts i db \<noteq> [] then Inl (Research_Conflict ''task has a non-terminal attempt'')
     else
       ebind (cause_allowed c i cause parent source db) (\<lambda>_.
       let ordinal = next_ordinal i db;
           (attempt_id, db1) = new_id E ''attempt'' db in
       ebind (insert_attempt attempt_id (new_attempt c i (str_of (kt_goal t)) ordinal cause parent source ep) db1) (\<lambda>db2.
       ebind (insert_trace E c i attempt_id db2) (\<lambda>(trace_id, db3).
       let db4 = touch_task c i (\<lambda>t. t\<lparr>kt_status := Ts_Running\<rparr>) (cl_now c) db3 in
       ebind (fault_injector c ''after_attempt_insert'') (\<lambda>_.
       ebind (append_event E c
           ((event_row i ''attempt_started''
              (JObj [(''cause'', JStr (attempt_cause_text cause)), (''ordinal'', JInt ordinal)]) command ep (cl_now c))
            \<lparr>ke_goal := Some (str_of (kt_goal t)), ke_attempt := Some attempt_id\<rparr>) db4) (\<lambda>(_, db5).
       ebind (enqueue_attempt c i enqueue db5) (\<lambda>db6.
       commit_response E i command ''start_attempt'' hash attempt_id
         (JObj [(''task_id'', JStr i), (''attempt_id'', JStr attempt_id), (''trace_id'', JStr trace_id),
                (''state_version'', JInt (expected + 1))]) ep (cl_now c) db6))))))))"

definition start_attempt ::
  "research_env \<Rightarrow> research_call \<Rightarrow> string \<Rightarrow> string \<Rightarrow> string \<Rightarrow> int \<Rightarrow> int \<Rightarrow> attempt_cause \<Rightarrow> string option
    \<Rightarrow> string option \<Rightarrow> execution_enqueue option \<Rightarrow> research_db \<Rightarrow> json outcome"
where
  "start_attempt E c i command owner ep expected cause parent source enqueue db =
     (let hash = research_hash E (start_payload owner ep expected cause parent source enqueue)
      in run_command E c i command hash (Some owner) (Some ep)
           (start_attempt_body E c i command owner ep expected cause parent source enqueue hash) db)"

definition retry_attempt ::
  "research_env \<Rightarrow> research_call \<Rightarrow> string \<Rightarrow> string \<Rightarrow> string \<Rightarrow> string \<Rightarrow> int \<Rightarrow> int \<Rightarrow> execution_enqueue option
    \<Rightarrow> research_db \<Rightarrow> json outcome"
where
  "retry_attempt E c i parent command owner ep expected enqueue db =
     start_attempt E c i command owner ep expected Ca_Retry (Some parent) None enqueue db"

section \<open>Checkpoints\<close>

text \<open>\<open>ORDER BY sequence DESC LIMIT 1\<close>.\<close>

definition latest_checkpoint :: "string \<Rightarrow> research_db \<Rightarrow> (string \<times> kernel_checkpoint) option" where
  "latest_checkpoint attempt db =
     (case rev (sort_key (kc_sequence \<circ> snd) (filter (\<lambda>(_, k). kc_attempt k = attempt) (kd_checkpoints db))) of
        [] \<Rightarrow> None | k # _ \<Rightarrow> Some k)"

definition unresolved_effects :: "string \<Rightarrow> research_db \<Rightarrow> (string \<times> kernel_effect) list" where
  "unresolved_effects i db =
     filter (\<lambda>(_, s). ks_task s = i \<and> ks_status s \<in> {Fx_In_Flight, Fx_Unknown}) (kd_effects db)"

definition fenced_attempt :: "string \<Rightarrow> int \<Rightarrow> kernel_attempt \<Rightarrow> unit result" where
  "fenced_attempt i ep a =
     guard_or (ka_task a = i \<and> ka_status a \<noteq> At_Terminal \<and> ka_epoch a = ep)
       (Research_Conflict ''attempt does not match the task or the owner fence'')"

definition state_schema :: string where
  "state_schema = ''v5-a-stage1-state-v1''"

text \<open>\<open>_event_type\<close> and \<open>_command_type\<close> of the two callers.\<close>

datatype checkpoint_kind = Committed_Checkpoint | Resumed_Attempt

fun checkpoint_event_type :: "checkpoint_kind \<Rightarrow> string" where
  "checkpoint_event_type Committed_Checkpoint = ''checkpoint_committed''"
| "checkpoint_event_type Resumed_Attempt = ''attempt_resumed''"

fun checkpoint_command_type :: "checkpoint_kind \<Rightarrow> string" where
  "checkpoint_command_type Committed_Checkpoint = ''commit_checkpoint''"
| "checkpoint_command_type Resumed_Attempt = ''resume_attempt''"

definition checkpoint_payload ::
  "string \<Rightarrow> string \<Rightarrow> int \<Rightarrow> int \<Rightarrow> string option \<Rightarrow> json \<Rightarrow> checkpoint_kind \<Rightarrow> json"
where
  "checkpoint_payload attempt owner ep expected checkpoint state kind =
     JObj [(''attempt_id'', JStr attempt), (''owner_id'', JStr owner), (''owner_epoch'', JInt ep),
           (''expected_state_version'', JInt expected), (''expected_checkpoint_id'', opt_str checkpoint),
           (''state_payload'', state), (''operation'', JStr (checkpoint_command_type kind))]"

definition new_checkpoint ::
  "research_env \<Rightarrow> research_call \<Rightarrow> string \<Rightarrow> string \<Rightarrow> kernel_attempt \<Rightarrow> string option \<Rightarrow> int \<Rightarrow> json \<Rightarrow> int
    \<Rightarrow> kernel_checkpoint"
where
  "new_checkpoint E c i attempt a parent sequence state ep =
     \<lparr>kc_task = i, kc_goal = ka_goal a, kc_attempt = attempt, kc_parent = parent, kc_sequence = sequence,
       kc_schema = state_schema, kc_hash = research_hash E state, kc_payload = state, kc_complete = True,
       kc_epoch = ep, kc_created = cl_now c\<rparr>"

definition resume_status :: "checkpoint_kind \<Rightarrow> string \<Rightarrow> research_db \<Rightarrow> research_db" where
  "resume_status kind attempt db =
     (case kind of
        Committed_Checkpoint \<Rightarrow> db
      | Resumed_Attempt \<Rightarrow>
          db\<lparr>kd_attempts := update_row attempt (\<lambda>a. a\<lparr>ka_status := At_Running\<rparr>) (kd_attempts db)\<rparr>)"

definition commit_checkpoint_body ::
  "research_env \<Rightarrow> research_call \<Rightarrow> string \<Rightarrow> string \<Rightarrow> string \<Rightarrow> string \<Rightarrow> int \<Rightarrow> int \<Rightarrow> string option \<Rightarrow> json
    \<Rightarrow> checkpoint_kind \<Rightarrow> string \<Rightarrow> research_db \<Rightarrow> (research_db \<times> json) result"
where
  "commit_checkpoint_body E c i attempt command owner ep expected checkpoint state kind hash db =
     ebind (fetch_task c i db) (\<lambda>t.
     ebind (fetch_attempt c attempt db) (\<lambda>a.
     ebind (owner_guards c t owner ep expected) (\<lambda>_.
     ebind (fenced_attempt i ep a) (\<lambda>_.
     let latest = latest_checkpoint attempt db in
     if map_option fst latest \<noteq> checkpoint then Inl (Research_Conflict ''stale expected checkpoint'')
     else if unresolved_effects i db \<noteq> [] then Inl (Research_Unsafe ''unresolved side effects'')
     else
       let sequence = (case latest of None \<Rightarrow> 1 | Some (_, k) \<Rightarrow> kc_sequence k + 1);
           (checkpoint_id, db1) = new_id E ''checkpoint'' db in
       ebind (insert_new checkpoint_id (new_checkpoint E c i attempt a checkpoint sequence state ep) (kd_checkpoints db1))
         (\<lambda>rows.
       ebind (fault_injector c ''after_checkpoint_insert'') (\<lambda>_.
       let db2 = touch_task c i
                   (\<lambda>t. t\<lparr>kt_status := (if kind = Resumed_Attempt then Ts_Running else kt_status t)\<rparr>) (cl_now c)
                   (db1\<lparr>kd_checkpoints := rows\<rparr>);
           db3 = resume_status kind attempt db2 in
       ebind (append_event E c
           ((event_row i (checkpoint_event_type kind)
              (JObj [(''sequence'', JInt sequence), (''state_hash'', JStr (research_hash E state))]) command ep (cl_now c))
            \<lparr>ke_goal := Some (ka_goal a), ke_attempt := Some attempt, ke_checkpoint := Some checkpoint_id\<rparr>) db3)
         (\<lambda>(_, db4).
       commit_response E i command (checkpoint_command_type kind) hash checkpoint_id
         (JObj [(''task_id'', JStr i), (''attempt_id'', JStr attempt), (''checkpoint_id'', JStr checkpoint_id),
                (''parent_checkpoint_id'', opt_str checkpoint), (''state_hash'', JStr (research_hash E state)),
                (''state_version'', JInt (expected + 1))]) ep (cl_now c) db4)))))))"

definition commit_checkpoint ::
  "research_env \<Rightarrow> research_call \<Rightarrow> string \<Rightarrow> string \<Rightarrow> string \<Rightarrow> string \<Rightarrow> int \<Rightarrow> int \<Rightarrow> string option \<Rightarrow> json
    \<Rightarrow> checkpoint_kind \<Rightarrow> research_db \<Rightarrow> json outcome"
where
  "commit_checkpoint E c i attempt command owner ep expected checkpoint state kind db =
     (let hash = research_hash E (checkpoint_payload attempt owner ep expected checkpoint state kind)
      in run_command E c i command hash (Some owner) (Some ep)
           (commit_checkpoint_body E c i attempt command owner ep expected checkpoint state kind hash) db)"

definition resume_attempt ::
  "research_env \<Rightarrow> research_call \<Rightarrow> string \<Rightarrow> string \<Rightarrow> string \<Rightarrow> string \<Rightarrow> int \<Rightarrow> int \<Rightarrow> string \<Rightarrow> research_db
    \<Rightarrow> json outcome"
where
  "resume_attempt E c i attempt command owner ep expected checkpoint db =
     (case select_row (kd_checkpoints db) checkpoint of
        None \<Rightarrow> (db, Inl (Research_Not_Found ''resume checkpoint''))
      | Some k \<Rightarrow>
          if kc_task k \<noteq> i \<or> kc_attempt k \<noteq> attempt \<or> \<not> kc_complete k
          then (db, Inl (Research_Unsafe ''resume checkpoint identity''))
          else commit_checkpoint E c i attempt command owner ep expected (Some checkpoint) (kc_payload k)
                 Resumed_Attempt db)"

text \<open>
  \<open>checkpoint_lineage\<close> and \<open>task_lineage\<close>: at most \<open>max_depth\<close> rows, no row twice. The task and attempt
  expected of every row are those of the first, empty before it is read.
\<close>

function checkpoint_walk ::
  "int \<Rightarrow> string \<Rightarrow> string \<Rightarrow> string option \<Rightarrow> string list \<Rightarrow> research_db \<Rightarrow> string list result"
where
  "checkpoint_walk depth expected_task expected_attempt cursor lineage db =
     (case cursor of
        None \<Rightarrow> Inr lineage
      | Some k \<Rightarrow>
          if k \<in> set lineage then Inl (Research_Unsafe ''checkpoint lineage cycle'')
          else if int (length lineage) \<ge> depth then Inl (Research_Unsafe ''checkpoint lineage depth exceeded'')
          else case select_row (kd_checkpoints db) k of
            None \<Rightarrow> Inl (Research_Unsafe ''checkpoint parent missing'')
          | Some r \<Rightarrow>
              let task = (if expected_task = [] then kc_task r else expected_task);
                  attempt = (if expected_attempt = [] then kc_attempt r else expected_attempt)
              in if kc_task r \<noteq> task \<or> kc_attempt r \<noteq> attempt
                 then Inl (Research_Unsafe ''checkpoint lineage crosses task or attempt'')
                 else checkpoint_walk depth task attempt (kc_parent r) (lineage @ [k]) db)"
  by pat_completeness auto
termination by (relation "measure (\<lambda>(depth, _, _, _, lineage, _). nat (depth - int (length lineage)))") auto

definition checkpoint_lineage :: "string \<Rightarrow> int \<Rightarrow> research_db \<Rightarrow> string list result" where
  "checkpoint_lineage k depth db = checkpoint_walk depth [] [] (Some k) [] db"

function task_walk ::
  "research_call \<Rightarrow> int \<Rightarrow> string option \<Rightarrow> string list \<Rightarrow> research_db \<Rightarrow> string list result"
where
  "task_walk c depth cursor lineage db =
     (case cursor of
        None \<Rightarrow> Inr lineage
      | Some k \<Rightarrow>
          if k \<in> set lineage then Inl (Research_Unsafe ''task lineage cycle'')
          else if int (length lineage) \<ge> depth then Inl (Research_Unsafe ''task lineage depth exceeded'')
          else case select_row (kd_tasks db) k of
            None \<Rightarrow> Inl (Research_Unsafe ''parent task missing'')
          | Some t \<Rightarrow>
              if kt_owner_user t \<noteq> user_id (cl_context c) then Inl (Research_Unsafe ''parent task missing'')
              else task_walk c depth (kt_parent t) (lineage @ [k]) db)"
  by pat_completeness auto
termination by (relation "measure (\<lambda>(_, depth, _, lineage, _). nat (depth - int (length lineage)))") auto

definition task_lineage :: "research_call \<Rightarrow> string \<Rightarrow> int \<Rightarrow> research_db \<Rightarrow> string list result" where
  "task_lineage c i depth db = task_walk c depth (Some i) [] db"

declare source_in_lineage.simps [simp del] checkpoint_walk.simps [simp del] task_walk.simps [simp del]

section \<open>Results\<close>

definition complete_payload ::
  "string \<Rightarrow> string \<Rightarrow> int \<Rightarrow> int \<Rightarrow> attempt_answer \<Rightarrow> research_termination \<Rightarrow> failure_class \<Rightarrow> string \<Rightarrow> bool
    \<Rightarrow> task_status \<Rightarrow> string option \<Rightarrow> json"
where
  "complete_payload attempt owner ep expected answer termination failure detail terminal next_status checkpoint =
     JObj [(''attempt_id'', JStr attempt), (''owner_id'', JStr owner), (''owner_epoch'', JInt ep),
           (''expected_state_version'', JInt expected), (''answer_status'', JStr (answer_status_text answer)),
           (''termination_reason'', JStr (research_termination_text termination)),
           (''failure_class'', JStr (failure_class_text failure)), (''reason_detail'', JStr detail),
           (''task_terminal'', JBool terminal), (''next_task_status'', JStr (task_status_text next_status)),
           (''checkpoint_id'', opt_str checkpoint)]"

definition new_result ::
  "research_call \<Rightarrow> string \<Rightarrow> string \<Rightarrow> kernel_attempt \<Rightarrow> string option \<Rightarrow> attempt_answer \<Rightarrow> research_termination
    \<Rightarrow> failure_class \<Rightarrow> string \<Rightarrow> bool \<Rightarrow> int \<Rightarrow> kernel_result"
where
  "new_result c i attempt a checkpoint answer termination failure detail terminal ep =
     \<lparr>kr_task = i, kr_goal = ka_goal a, kr_attempt = attempt, kr_checkpoint = checkpoint, kr_answer = answer,
       kr_termination = termination, kr_failure = failure, kr_detail = detail, kr_terminal = terminal,
       kr_epoch = ep, kr_created = cl_now c\<rparr>"

definition end_attempt ::
  "research_call \<Rightarrow> string \<Rightarrow> string \<Rightarrow> research_termination \<Rightarrow> research_db \<Rightarrow> research_db"
where
  "end_attempt c attempt result_id termination db =
     db\<lparr>kd_attempts := update_row attempt
          (\<lambda>a. a\<lparr>ka_status := At_Terminal, ka_result := Some result_id, ka_ended := Some (cl_now c)\<rparr>) (kd_attempts db),
        kd_traces := update_where (\<lambda>_ z. kz_attempt z = attempt \<and> kz_ended z = None)
          (\<lambda>z. z\<lparr>kz_ended := Some (cl_now c), kz_termination := Some termination\<rparr>) (kd_traces db)\<rparr>"

definition complete_attempt_body ::
  "research_env \<Rightarrow> research_call \<Rightarrow> string \<Rightarrow> string \<Rightarrow> string \<Rightarrow> string \<Rightarrow> int \<Rightarrow> int \<Rightarrow> attempt_answer
    \<Rightarrow> research_termination \<Rightarrow> failure_class \<Rightarrow> string \<Rightarrow> bool \<Rightarrow> task_status \<Rightarrow> string option \<Rightarrow> string
    \<Rightarrow> research_db \<Rightarrow> (research_db \<times> json) result"
where
  "complete_attempt_body E c i attempt command owner ep expected answer termination failure detail terminal
       next_status checkpoint hash db =
     ebind (fetch_task c i db) (\<lambda>t.
     ebind (fetch_attempt c attempt db) (\<lambda>a.
     ebind (owner_guards c t owner ep expected) (\<lambda>_.
     ebind (fenced_attempt i ep a) (\<lambda>_.
     if \<not> terminal \<and> next_status \<in> {Ts_Running, Ts_Terminal}
     then Inl (Research_Validation ''a completion of an attempt leaves the task ready, blocked or waiting'')
     else
       let latest = latest_checkpoint attempt db in
       if checkpoint \<noteq> map_option fst latest then Inl (Research_Conflict ''stale expected checkpoint for result'')
       else if (case latest of None \<Rightarrow> False | Some (_, k) \<Rightarrow> kc_task k \<noteq> i \<or> kc_attempt k \<noteq> attempt)
       then Inl (Research_Validation ''result checkpoint lineage'')
       else
         let (result_id, db1) = new_id E ''result'' db in
         ebind (insert_new result_id
             (new_result c i attempt a checkpoint answer termination failure detail terminal ep) (kd_results db1)) (\<lambda>rows.
         ebind (fault_injector c ''after_result_insert'') (\<lambda>_.
         let status = (if terminal then Ts_Terminal else next_status);
             db2 = end_attempt c attempt result_id termination (db1\<lparr>kd_results := rows\<rparr>);
             db3 = touch_task c i
                     (\<lambda>t. t\<lparr>kt_status := status, kt_result := (if terminal then Some result_id else None)\<rparr>) (cl_now c) db2
         in ebind (append_event E c
              ((event_row i (if terminal then ''task_terminal_result_committed'' else ''attempt_result_committed'')
                 (JObj [(''result_id'', JStr result_id), (''answer_status'', JStr (answer_status_text answer)),
                        (''termination_reason'', JStr (research_termination_text termination)),
                        (''failure_class'', JStr (failure_class_text failure))]) command ep (cl_now c))
               \<lparr>ke_goal := Some (ka_goal a), ke_attempt := Some attempt, ke_checkpoint := checkpoint\<rparr>) db3) (\<lambda>(_, db4).
            commit_response E i command ''complete_attempt'' hash result_id
              (JObj [(''task_id'', JStr i), (''attempt_id'', JStr attempt), (''result_id'', JStr result_id),
                     (''task_status'', JStr (task_status_text status)), (''state_version'', JInt (expected + 1))])
              ep (cl_now c) db4)))))))"

definition complete_attempt ::
  "research_env \<Rightarrow> research_call \<Rightarrow> string \<Rightarrow> string \<Rightarrow> string \<Rightarrow> string \<Rightarrow> int \<Rightarrow> int \<Rightarrow> attempt_answer
    \<Rightarrow> research_termination \<Rightarrow> failure_class \<Rightarrow> string \<Rightarrow> bool \<Rightarrow> task_status \<Rightarrow> string option \<Rightarrow> research_db
    \<Rightarrow> json outcome"
where
  "complete_attempt E c i attempt command owner ep expected answer termination failure detail terminal next_status
       checkpoint db =
     (let hash = research_hash E (complete_payload attempt owner ep expected answer termination failure detail terminal
                   next_status checkpoint)
      in run_command E c i command hash (Some owner) (Some ep)
           (complete_attempt_body E c i attempt command owner ep expected answer termination failure detail terminal
              next_status checkpoint hash) db)"

text \<open>\<open>cancel_task\<close> names no checkpoint and the default next status.\<close>

definition cancel_task ::
  "research_env \<Rightarrow> research_call \<Rightarrow> string \<Rightarrow> string \<Rightarrow> string \<Rightarrow> string \<Rightarrow> int \<Rightarrow> int \<Rightarrow> string \<Rightarrow> research_db
    \<Rightarrow> json outcome"
where
  "cancel_task E c i attempt command owner ep expected detail db =
     complete_attempt E c i attempt command owner ep expected Aw_Not_Produced Rt_Cancelled Fc_None detail True
       Ts_Blocked None db"

section \<open>Goal revisions and child tasks\<close>

definition revise_payload :: "string \<Rightarrow> int \<Rightarrow> int \<Rightarrow> string \<Rightarrow> string list \<Rightarrow> json \<Rightarrow> json" where
  "revise_payload owner ep expected objective constraints policy =
     JObj [(''owner_id'', JStr owner), (''owner_epoch'', JInt ep), (''expected_state_version'', JInt expected),
           (''objective'', JStr objective), (''success_constraints'', strs constraints), (''evidence_policy'', policy)]"

definition revise_goal_body ::
  "research_env \<Rightarrow> research_call \<Rightarrow> string \<Rightarrow> string \<Rightarrow> string \<Rightarrow> int \<Rightarrow> int \<Rightarrow> string \<Rightarrow> string list \<Rightarrow> json
    \<Rightarrow> string \<Rightarrow> research_db \<Rightarrow> (research_db \<times> json) result"
where
  "revise_goal_body E c i command owner ep expected objective constraints policy hash db =
     ebind (fetch_task c i db) (\<lambda>t.
     ebind (owner_guards c t owner ep expected) (\<lambda>_.
     if live_attempts i db \<noteq> [] then Inl (Research_Conflict ''end the current attempt first'')
     else
       let previous = str_of (kt_goal t);
           revision = next_revision i db;
           (goal_id, db1) = new_id E ''goal'' db in
       ebind (insert_new goal_id (new_goal i revision (Some previous) objective constraints policy (cl_now c))
                (kd_goals db1)) (\<lambda>goals.
       let ordinal = next_ordinal i db;
           (attempt_id, db2) = new_id E ''attempt'' (db1\<lparr>kd_goals := goals\<rparr>) in
       ebind (insert_attempt attempt_id (new_attempt c i goal_id ordinal Ca_Goal_Revision None None ep) db2) (\<lambda>db3.
       ebind (insert_trace E c i attempt_id db3) (\<lambda>(trace_id, db4).
       let db5 = touch_task c i (\<lambda>t. t\<lparr>kt_goal := Some goal_id, kt_status := Ts_Running\<rparr>) (cl_now c) db4 in
       ebind (append_event E c
           ((event_row i ''goal_revised''
              (JObj [(''revision'', JInt revision), (''parent_goal_id'', JStr previous)]) command ep (cl_now c))
            \<lparr>ke_goal := Some goal_id, ke_attempt := Some attempt_id\<rparr>) db5) (\<lambda>(event_id, db6).
       let db7 = db6\<lparr>kd_goals := update_row goal_id (\<lambda>g. g\<lparr>kg_event := Some event_id\<rparr>) (kd_goals db6)\<rparr>
       in commit_response E i command ''revise_goal'' hash goal_id
            (JObj [(''task_id'', JStr i), (''goal_id'', JStr goal_id), (''attempt_id'', JStr attempt_id),
                   (''trace_id'', JStr trace_id), (''state_version'', JInt (expected + 1))]) ep (cl_now c) db7))))))"

definition revise_goal ::
  "research_env \<Rightarrow> research_call \<Rightarrow> string \<Rightarrow> string \<Rightarrow> string \<Rightarrow> int \<Rightarrow> int \<Rightarrow> string \<Rightarrow> string list \<Rightarrow> json
    \<Rightarrow> research_db \<Rightarrow> json outcome"
where
  "revise_goal E c i command owner ep expected objective0 constraints policy db =
     (let objective = strip objective0 in
      if objective = [] then (db, Inl (Research_Validation ''objective''))
      else
        let hash = research_hash E (revise_payload owner ep expected objective constraints policy)
        in run_command E c i command hash (Some owner) (Some ep)
             (revise_goal_body E c i command owner ep expected objective constraints policy hash) db)"

text \<open>
  A child of a terminal task takes over what the caller leaves open from the parent's goal. The stored
  constraints of a goal are a list of texts.
\<close>

fun json_texts :: "json \<Rightarrow> string list" where
  "json_texts (JArr vs) = concat (map (\<lambda>v. case v of JStr s \<Rightarrow> [s] | _ \<Rightarrow> []) vs)"
| "json_texts _ = []"

lemma json_texts_strs [simp]: "json_texts (strs ss) = ss"
  by (induction ss) (auto simp: strs_def)

definition child_task_id :: "research_env \<Rightarrow> string \<Rightarrow> string \<Rightarrow> string" where
  "child_task_id E parent command =
     ''rtask_'' @ take 32 (sha256_hexdigest (en_platform E) (utf8_encode (parent @ '':'' @ command)))"

definition create_child_task ::
  "research_env \<Rightarrow> research_call \<Rightarrow> string \<Rightarrow> string \<Rightarrow> string option \<Rightarrow> string list option \<Rightarrow> json option
    \<Rightarrow> research_db \<Rightarrow> json outcome"
where
  "create_child_task E c parent command objective constraints policy db =
     (case fetch_task c parent db of
        Inl e \<Rightarrow> (db, Inl e)
      | Inr t \<Rightarrow>
          if kt_status t \<noteq> Ts_Terminal then (db, Inl (Research_Validation ''child of a non-terminal task''))
          else case select_row (kd_goals db) (str_of (kt_goal t)) of
            None \<Rightarrow> (db, Inl (Research_Unsafe ''parent goal missing''))
          | Some g \<Rightarrow>
              create_task E c command
                (if text_or_empty objective = [] then kg_objective g else strip (text_or_empty objective))
                (case constraints of Some xs \<Rightarrow> xs | None \<Rightarrow> json_texts (kg_constraints g))
                (case policy of Some p \<Rightarrow> p | None \<Rightarrow> kg_policy g)
                (Some (child_task_id E parent command)) (Some parent) JNull None db)"

end
