(* ===== verification/Research_Effects.thy ===== *)
theory Research_Effects
  imports Research_Attempts
begin

text \<open>
  Side effects of the research kernel (research/service.py, research/adapter.py): reservation,
  transitions, recovery after a takeover, resolution of an unknown outcome, and the protocol around
  the deterministic adapter. \<open>execute_command\<close> dispatches a command request.
\<close>

section \<open>Reservation\<close>

definition find_effect :: "string \<Rightarrow> string \<Rightarrow> string \<Rightarrow> research_db \<Rightarrow> (string \<times> kernel_effect) option" where
  "find_effect i kind key db =
     find (\<lambda>(_, s). ks_task s = i \<and> ks_kind s = kind \<and> ks_key s = key) (kd_effects db)"

definition reserve_payload :: "string \<Rightarrow> string \<Rightarrow> int \<Rightarrow> int \<Rightarrow> string \<Rightarrow> string \<Rightarrow> string \<Rightarrow> json" where
  "reserve_payload attempt owner ep expected kind key request_hash =
     JObj [(''attempt_id'', JStr attempt), (''owner_id'', JStr owner), (''owner_epoch'', JInt ep),
           (''expected_state_version'', JInt expected), (''effect_kind'', JStr kind),
           (''idempotency_key'', JStr key), (''request_hash'', JStr request_hash)]"

definition new_effect ::
  "research_call \<Rightarrow> string \<Rightarrow> string \<Rightarrow> string \<Rightarrow> string \<Rightarrow> string \<Rightarrow> string \<Rightarrow> json \<Rightarrow> int \<Rightarrow> kernel_effect"
where
  "new_effect c i attempt command kind key request_hash request ep =
     \<lparr>ks_task = i, ks_attempt = attempt, ks_command = command, ks_key = key, ks_kind = kind,
       ks_hash = request_hash, ks_request = request, ks_status = Fx_Reserved, ks_epoch = ep,
       ks_operation = None, ks_receipt_hash = None, ks_reference = None,
       ks_created = cl_now c, ks_updated = cl_now c\<rparr>"

text \<open>The effect of the idempotency key: the one there is, or a new reservation; with the event type.\<close>

definition reserve_row ::
  "research_env \<Rightarrow> research_call \<Rightarrow> string \<Rightarrow> string \<Rightarrow> string \<Rightarrow> string \<Rightarrow> string \<Rightarrow> json \<Rightarrow> int \<Rightarrow> research_db
    \<Rightarrow> (string \<times> string \<times> research_db) result"
where
  "reserve_row E c i attempt command kind key request ep db =
     (case find_effect i kind key db of
        Some (k, s) \<Rightarrow>
          if ks_hash s \<noteq> research_hash E request
          then Inl (Research_Unsafe ''request hash of the idempotency key differs'')
          else Inr (k, ''side_effect_deduplicated'', db)
      | None \<Rightarrow>
          let (k, db1) = new_id E ''effect'' db in
          ebind (insert_new k (new_effect c i attempt command kind key (research_hash E request) request ep)
                   (kd_effects db1))
            (\<lambda>rows. Inr (k, ''side_effect_reserved'', db1\<lparr>kd_effects := rows\<rparr>)))"

definition reserve_side_effect_body ::
  "research_env \<Rightarrow> research_call \<Rightarrow> string \<Rightarrow> string \<Rightarrow> string \<Rightarrow> string \<Rightarrow> int \<Rightarrow> int \<Rightarrow> string \<Rightarrow> string
    \<Rightarrow> json \<Rightarrow> string \<Rightarrow> research_db \<Rightarrow> (research_db \<times> json) result"
where
  "reserve_side_effect_body E c i attempt command owner ep expected kind key request hash db =
     ebind (fetch_task c i db) (\<lambda>t.
     ebind (fetch_attempt c attempt db) (\<lambda>a.
     ebind (owner_guards c t owner ep expected) (\<lambda>_.
     ebind (fenced_attempt i ep a) (\<lambda>_.
     ebind (reserve_row E c i attempt command kind key request ep db) (\<lambda>(k, type, db1).
     ebind (append_event E c
         ((event_row i type
            (JObj [(''side_effect_id'', JStr k), (''effect_kind'', JStr kind), (''idempotency_key'', JStr key)])
            command ep (cl_now c))\<lparr>ke_goal := Some (ka_goal a), ke_attempt := Some attempt\<rparr>)
         (touch_task c i id (cl_now c) db1)) (\<lambda>(_, db2).
     commit_response E i command ''reserve_side_effect'' hash k
       (JObj [(''task_id'', JStr i), (''side_effect_id'', JStr k), (''state_version'', JInt (expected + 1))])
       ep (cl_now c) db2))))))"

definition reserve_side_effect ::
  "research_env \<Rightarrow> research_call \<Rightarrow> string \<Rightarrow> string \<Rightarrow> string \<Rightarrow> string \<Rightarrow> int \<Rightarrow> int \<Rightarrow> string \<Rightarrow> string
    \<Rightarrow> json \<Rightarrow> research_db \<Rightarrow> json outcome"
where
  "reserve_side_effect E c i attempt command owner ep expected kind key request db =
     (let hash = research_hash E (reserve_payload attempt owner ep expected kind key (research_hash E request))
      in run_command E c i command hash (Some owner) (Some ep)
           (reserve_side_effect_body E c i attempt command owner ep expected kind key request hash) db)"

section \<open>Transitions\<close>

definition transition_payload ::
  "string \<Rightarrow> string \<Rightarrow> int \<Rightarrow> int \<Rightarrow> side_effect_status \<Rightarrow> string option \<Rightarrow> string option \<Rightarrow> string option \<Rightarrow> json"
where
  "transition_payload k owner ep expected target operation receipt reference =
     JObj [(''side_effect_id'', JStr k), (''owner_id'', JStr owner), (''owner_epoch'', JInt ep),
           (''expected_state_version'', JInt expected), (''target_status'', JStr (side_effect_status_text target)),
           (''operation_id'', opt_str operation), (''receipt_hash'', opt_str receipt),
           (''result_reference'', opt_str reference)]"

definition transition_allowed :: "side_effect_status \<Rightarrow> side_effect_status \<Rightarrow> bool" where
  "transition_allowed current target \<longleftrightarrow>
     current = Fx_Reserved \<and> target = Fx_In_Flight \<or>
     current = Fx_In_Flight \<and> target \<in> {Fx_Succeeded, Fx_Failed}"

definition coalesce :: "'a option \<Rightarrow> 'a option \<Rightarrow> 'a option" where
  "coalesce x y = (case x of None \<Rightarrow> y | Some _ \<Rightarrow> x)"

definition moved_effect ::
  "research_call \<Rightarrow> side_effect_status \<Rightarrow> string option \<Rightarrow> string option \<Rightarrow> string option \<Rightarrow> kernel_effect \<Rightarrow> kernel_effect"
where
  "moved_effect c target operation receipt reference s =
     s\<lparr>ks_status := target, ks_operation := coalesce operation (ks_operation s),
       ks_receipt_hash := coalesce receipt (ks_receipt_hash s),
       ks_reference := coalesce reference (ks_reference s), ks_updated := cl_now c\<rparr>"

definition transition_event_type :: "side_effect_status \<Rightarrow> string" where
  "transition_event_type target =
     (if target = Fx_In_Flight then ''side_effect_started''
      else if target = Fx_Succeeded then ''side_effect_succeeded'' else ''side_effect_failed'')"

definition transition_body ::
  "research_env \<Rightarrow> research_call \<Rightarrow> string \<Rightarrow> string \<Rightarrow> string \<Rightarrow> string \<Rightarrow> int \<Rightarrow> int \<Rightarrow> side_effect_status
    \<Rightarrow> string option \<Rightarrow> string option \<Rightarrow> string option \<Rightarrow> string \<Rightarrow> research_db \<Rightarrow> (research_db \<times> json) result"
where
  "transition_body E c i k command owner ep expected target operation receipt reference hash db =
     ebind (fetch_task c i db) (\<lambda>t.
     ebind (fetch_effect c k db) (\<lambda>s.
     ebind (owner_guards c t owner ep expected) (\<lambda>_.
     if ks_task s \<noteq> i \<or> ks_epoch s \<noteq> ep then Inl (Research_Conflict ''side effect stale owner fence'')
     else if \<not> transition_allowed (ks_status s) target then Inl (Research_Unsafe ''illegal side effect transition'')
     else
       let db1 = touch_task c i id (cl_now c)
                   (db\<lparr>kd_effects := update_row k (moved_effect c target operation receipt reference) (kd_effects db)\<rparr>)
       in ebind (append_event E c
            ((event_row i (transition_event_type target)
               (JObj [(''side_effect_id'', JStr k), (''receipt_hash'', opt_str receipt)]) command ep (cl_now c))
             \<lparr>ke_attempt := Some (ks_attempt s)\<rparr>) db1) (\<lambda>(_, db2).
          commit_response E i command (''side_effect_'' @ side_effect_status_text target) hash k
            (JObj [(''task_id'', JStr i), (''side_effect_id'', JStr k),
                   (''status'', JStr (side_effect_status_text target)), (''state_version'', JInt (expected + 1))])
            ep (cl_now c) db2))))"

definition transition_side_effect ::
  "research_env \<Rightarrow> research_call \<Rightarrow> string \<Rightarrow> string \<Rightarrow> string \<Rightarrow> string \<Rightarrow> int \<Rightarrow> int \<Rightarrow> side_effect_status
    \<Rightarrow> string option \<Rightarrow> string option \<Rightarrow> string option \<Rightarrow> research_db \<Rightarrow> json outcome"
where
  "transition_side_effect E c i k command owner ep expected target operation receipt reference db =
     (if target \<notin> {Fx_In_Flight, Fx_Succeeded, Fx_Failed}
      then (db, Inl (Research_Validation ''unsupported side effect transition''))
      else
        let hash = research_hash E (transition_payload k owner ep expected target operation receipt reference)
        in run_command E c i command hash (Some owner) (Some ep)
             (transition_body E c i k command owner ep expected target operation receipt reference hash) db)"

section \<open>Recovery and resolution\<close>

definition recover_payload :: "string \<Rightarrow> int \<Rightarrow> int \<Rightarrow> json" where
  "recover_payload owner ep expected =
     JObj [(''owner_id'', JStr owner), (''owner_epoch'', JInt ep), (''expected_state_version'', JInt expected)]"

definition in_flight_before :: "string \<Rightarrow> int \<Rightarrow> research_db \<Rightarrow> (string \<times> kernel_effect) list" where
  "in_flight_before i ep db =
     sort_key (\<lambda>(k, s). (ks_created s, k))
       (filter (\<lambda>(_, s). ks_task s = i \<and> ks_status s = Fx_In_Flight \<and> ks_epoch s < ep) (kd_effects db))"

fun mark_unknown ::
  "research_env \<Rightarrow> research_call \<Rightarrow> string \<Rightarrow> string \<Rightarrow> int \<Rightarrow> (string \<times> kernel_effect) list \<Rightarrow> research_db
    \<Rightarrow> research_db result"
where
  "mark_unknown E c i command ep [] db = Inr db"
| "mark_unknown E c i command ep ((k, s) # rows) db =
     ebind (append_event E c
         ((event_row i ''side_effect_marked_unknown''
             (JObj [(''side_effect_id'', JStr k), (''fenced_owner_epoch'', JInt (ks_epoch s))]) command ep (cl_now c))
          \<lparr>ke_attempt := Some (ks_attempt s)\<rparr>)
         (db\<lparr>kd_effects := update_row k (\<lambda>s'. s'\<lparr>ks_status := Fx_Unknown, ks_updated := cl_now c\<rparr>) (kd_effects db)\<rparr>))
       (\<lambda>(_, db'). mark_unknown E c i command ep rows db')"

definition recover_body ::
  "research_env \<Rightarrow> research_call \<Rightarrow> string \<Rightarrow> string \<Rightarrow> string \<Rightarrow> int \<Rightarrow> int \<Rightarrow> string \<Rightarrow> research_db
    \<Rightarrow> (research_db \<times> json) result"
where
  "recover_body E c i command owner ep expected hash db =
     ebind (fetch_task c i db) (\<lambda>t.
     ebind (owner_guards c t owner ep expected) (\<lambda>_.
     let rows = in_flight_before i ep db in
     ebind (mark_unknown E c i command ep rows db) (\<lambda>db1.
     let db2 = touch_task c i
                 (\<lambda>t. t\<lparr>kt_status := (if rows \<noteq> [] then Ts_Blocked else kt_status t)\<rparr>) (cl_now c) db1
     in commit_response E i command ''recover_in_flight'' hash i
          (JObj [(''task_id'', JStr i), (''unknown_side_effect_ids'', strs (map fst rows)),
                 (''state_version'', JInt (expected + 1))]) ep (cl_now c) db2)))"

definition recover_in_flight ::
  "research_env \<Rightarrow> research_call \<Rightarrow> string \<Rightarrow> string \<Rightarrow> string \<Rightarrow> int \<Rightarrow> int \<Rightarrow> research_db \<Rightarrow> json outcome"
where
  "recover_in_flight E c i command owner ep expected db =
     (let hash = research_hash E (recover_payload owner ep expected)
      in run_command E c i command hash (Some owner) (Some ep) (recover_body E c i command owner ep expected hash) db)"

definition resolve_payload :: "string \<Rightarrow> string \<Rightarrow> int \<Rightarrow> int \<Rightarrow> string \<Rightarrow> json" where
  "resolve_payload k owner ep expected verdict =
     JObj [(''side_effect_id'', JStr k), (''owner_id'', JStr owner), (''owner_epoch'', JInt ep),
           (''expected_state_version'', JInt expected), (''outcome'', JStr verdict)]"

definition resolve_body ::
  "research_env \<Rightarrow> research_call \<Rightarrow> string \<Rightarrow> string \<Rightarrow> string \<Rightarrow> string \<Rightarrow> int \<Rightarrow> int \<Rightarrow> string \<Rightarrow> string
    \<Rightarrow> research_db \<Rightarrow> (research_db \<times> json) result"
where
  "resolve_body E c i k command owner ep expected verdict hash db =
     ebind (fetch_task c i db) (\<lambda>t.
     ebind (fetch_effect c k db) (\<lambda>s.
     ebind (owner_guards c t owner ep expected) (\<lambda>_.
     if ks_task s \<noteq> i \<or> ks_status s \<noteq> Fx_Unknown then Inl (Research_Unsafe ''not an unknown record of the task'')
     else
       let db1 = touch_task c i id (cl_now c)
                   (db\<lparr>kd_effects := update_row k
                      (\<lambda>s. s\<lparr>ks_status := (if verdict = ''succeeded'' then Fx_Succeeded else Fx_Failed),
                             ks_epoch := ep, ks_updated := cl_now c\<rparr>) (kd_effects db)\<rparr>)
       in ebind (append_event E c
            ((event_row i ''side_effect_resolved''
               (JObj [(''side_effect_id'', JStr k), (''outcome'', JStr verdict)]) command ep (cl_now c))
             \<lparr>ke_attempt := Some (ks_attempt s)\<rparr>) db1) (\<lambda>(_, db2).
          commit_response E i command ''resolve_unknown_side_effect'' hash k
            (JObj [(''task_id'', JStr i), (''side_effect_id'', JStr k), (''status'', JStr verdict),
                   (''state_version'', JInt (expected + 1))]) ep (cl_now c) db2))))"

definition resolve_unknown_side_effect ::
  "research_env \<Rightarrow> research_call \<Rightarrow> string \<Rightarrow> string \<Rightarrow> string \<Rightarrow> string \<Rightarrow> int \<Rightarrow> int \<Rightarrow> string \<Rightarrow> research_db
    \<Rightarrow> json outcome"
where
  "resolve_unknown_side_effect E c i k command owner ep expected verdict db =
     (if verdict \<notin> {''succeeded'', ''failed''}
      then (db, Inl (Research_Validation ''an unknown side effect is resolved to succeeded or failed''))
      else
        let hash = research_hash E (resolve_payload k owner ep expected verdict)
        in run_command E c i command hash (Some owner) (Some ep)
             (resolve_body E c i k command owner ep expected verdict hash) db)"

section \<open>The deterministic adapter\<close>

text \<open>\<open>DeterministicEffectAdapter.execute\<close>: it records the request and answers by its digest.\<close>

record adapter_result =
  ad_operation :: string
  ad_receipt_hash :: string
  ad_reference :: string

definition adapter_request :: "string \<Rightarrow> string \<Rightarrow> json \<Rightarrow> json" where
  "adapter_request kind key payload =
     JObj [(''effect_kind'', JStr kind), (''idempotency_key'', JStr key), (''payload'', payload)]"

definition adapter_execute ::
  "research_env \<Rightarrow> string \<Rightarrow> string \<Rightarrow> json \<Rightarrow> json list \<Rightarrow> adapter_result \<times> json list"
where
  "adapter_execute E kind key payload calls =
     (let request = adapter_request kind key payload;
          digest = research_hash E request
      in (\<lparr>ad_operation = ''deterministic:'' @ take 24 digest, ad_receipt_hash = digest,
           ad_reference = ''deterministic-result:'' @ digest\<rparr>, calls @ [request]))"

text \<open>The fields of a response that the protocol reads back.\<close>

definition response_text :: "string \<Rightarrow> json \<Rightarrow> string result" where
  "response_text k v =
     (case v of
        JObj kvs \<Rightarrow> (case map_of kvs k of Some (JStr s) \<Rightarrow> Inr s | Some _ \<Rightarrow> Inl Type_Error | None \<Rightarrow> Inl Key_Error)
      | _ \<Rightarrow> Inl Type_Error)"

definition response_int :: "string \<Rightarrow> json \<Rightarrow> int result" where
  "response_int k v =
     (case v of
        JObj kvs \<Rightarrow> (case map_of kvs k of Some (JInt n) \<Rightarrow> Inr n | Some _ \<Rightarrow> Inl Type_Error | None \<Rightarrow> Inl Key_Error)
      | _ \<Rightarrow> Inl Type_Error)"

definition with_flag :: "bool \<Rightarrow> json \<Rightarrow> json" where
  "with_flag b v = (case v of JObj kvs \<Rightarrow> JObj (kvs @ [(''deduplicated'', JBool b)]) | _ \<Rightarrow> v)"

text \<open>
  The read between reservation and start: a settled effect answers from its row, a reserved one
  proceeds, anything else is refused.
\<close>

definition admit_effect :: "research_call \<Rightarrow> string \<Rightarrow> string \<Rightarrow> research_db \<Rightarrow> json option result" where
  "admit_effect c i k db =
     ebind (fetch_effect c k db) (\<lambda>s.
     ebind (fetch_task c i db) (\<lambda>t.
       if ks_status s \<in> {Fx_Succeeded, Fx_Failed}
       then Inr (Some (JObj [(''task_id'', JStr i), (''side_effect_id'', JStr k),
                             (''status'', JStr (side_effect_status_text (ks_status s))),
                             (''state_version'', JInt (kt_version t)), (''deduplicated'', JBool True)]))
       else if ks_status s \<noteq> Fx_Reserved then Inl (Research_Unsafe ''adapter must not be replayed'')
       else Inr None))"

text \<open>
  The protocol, one transaction after the other: each part commits before the next begins, and an
  error leaves what was committed. The second component of the state is the adapter's call log.
\<close>

definition finish_effect ::
  "research_env \<Rightarrow> research_call \<Rightarrow> string \<Rightarrow> string \<Rightarrow> string \<Rightarrow> string \<Rightarrow> int \<Rightarrow> json \<Rightarrow> adapter_result \<Rightarrow> research_db
    \<Rightarrow> json outcome"
where
  "finish_effect E c i k command owner ep started r db =
     (case response_int ''state_version'' started of
        Inl e \<Rightarrow> (db, Inl e)
      | Inr v \<Rightarrow>
          (case transition_side_effect E c i k (command @ '':finish'') owner ep v Fx_Succeeded
                  (Some (ad_operation r)) (Some (ad_receipt_hash r)) (Some (ad_reference r)) db of
             (db', Inl e) \<Rightarrow> (db', Inl e)
           | (db', Inr completed) \<Rightarrow> (db', Inr (with_flag False completed))))"

definition start_and_call ::
  "research_env \<Rightarrow> research_call \<Rightarrow> string \<Rightarrow> string \<Rightarrow> string \<Rightarrow> string \<Rightarrow> int \<Rightarrow> int \<Rightarrow> string \<Rightarrow> string \<Rightarrow> json
    \<Rightarrow> research_db \<times> json list \<Rightarrow> (research_db \<times> json list) \<times> json result"
where
  "start_and_call E c i k command owner ep version kind key request s =
     (case transition_side_effect E c i k (command @ '':start'') owner ep version Fx_In_Flight None None None (fst s) of
        (db', Inl e) \<Rightarrow> ((db', snd s), Inl e)
      | (db', Inr started) \<Rightarrow>
          let (r, calls) = adapter_execute E kind key request (snd s) in
          (case fault_injector c ''after_external_call'' of
             Inl e \<Rightarrow> ((db', calls), Inl e)
           | Inr _ \<Rightarrow>
               (case finish_effect E c i k command owner ep started r db' of
                  (db'', res) \<Rightarrow> ((db'', calls), res))))"

text \<open>The id and the version the reservation answered, and what the read of the effect's row says.\<close>

definition admitted :: "research_call \<Rightarrow> string \<Rightarrow> json \<Rightarrow> research_db \<Rightarrow> (string \<times> int \<times> json option) result" where
  "admitted c i reserved db =
     ebind (response_text ''side_effect_id'' reserved) (\<lambda>k.
     ebind (response_int ''state_version'' reserved) (\<lambda>v.
     ebind (admit_effect c i k db) (\<lambda>settled. Inr (k, v, settled))))"

definition execute_deterministic_side_effect ::
  "research_env \<Rightarrow> research_call \<Rightarrow> string \<Rightarrow> string \<Rightarrow> string \<Rightarrow> string \<Rightarrow> int \<Rightarrow> int \<Rightarrow> string \<Rightarrow> string
    \<Rightarrow> json \<Rightarrow> research_db \<times> json list \<Rightarrow> (research_db \<times> json list) \<times> json result"
where
  "execute_deterministic_side_effect E c i attempt command owner ep expected kind key request s =
     (case reserve_side_effect E c i attempt (command @ '':reserve'') owner ep expected kind key request (fst s) of
        (db1, Inl e) \<Rightarrow> ((db1, snd s), Inl e)
      | (db1, Inr reserved) \<Rightarrow>
          (case admitted c i reserved db1 of
             Inl e \<Rightarrow> ((db1, snd s), Inl e)
           | Inr (k, v, Some response) \<Rightarrow> ((db1, snd s), Inr response)
           | Inr (k, v, None) \<Rightarrow> start_and_call E c i k command owner ep v kind key request (db1, snd s)))"


section \<open>The protocol, one transaction at a time\<close>

text \<open>
  A delivery is one process inside \<open>execute_deterministic_side_effect\<close>. Its phases are the points between
  two of its transactions, at which other processes may run; \<open>Answered\<close> is its return or exception.
\<close>

record effect_delivery =
  dl_task :: string
  dl_attempt :: string
  dl_command :: string
  dl_owner :: string
  dl_epoch :: int
  dl_expected :: int
  dl_kind :: string
  dl_key :: string
  dl_request :: json

datatype delivery_phase =
    Reserving
  | Admitting json
  | Starting string int
  | Calling string json
  | Finishing string json adapter_result
  | Answered "json result"

fun delivery_next ::
  "research_env \<Rightarrow> research_call \<Rightarrow> effect_delivery \<Rightarrow> delivery_phase \<Rightarrow> research_db \<times> json list
    \<Rightarrow> (research_db \<times> json list) \<times> delivery_phase"
where
  "delivery_next E c d Reserving s =
     (case reserve_side_effect E c (dl_task d) (dl_attempt d) (dl_command d @ '':reserve'') (dl_owner d) (dl_epoch d)
             (dl_expected d) (dl_kind d) (dl_key d) (dl_request d) (fst s) of
        (db, Inl e) \<Rightarrow> ((db, snd s), Answered (Inl e))
      | (db, Inr reserved) \<Rightarrow> ((db, snd s), Admitting reserved))"
| "delivery_next E c d (Admitting reserved) s =
     (case admitted c (dl_task d) reserved (fst s) of
        Inl e \<Rightarrow> (s, Answered (Inl e))
      | Inr (k, v, Some response) \<Rightarrow> (s, Answered (Inr response))
      | Inr (k, v, None) \<Rightarrow> (s, Starting k v))"
| "delivery_next E c d (Starting k v) s =
     (case transition_side_effect E c (dl_task d) k (dl_command d @ '':start'') (dl_owner d) (dl_epoch d) v
             Fx_In_Flight None None None (fst s) of
        (db, Inl e) \<Rightarrow> ((db, snd s), Answered (Inl e))
      | (db, Inr started) \<Rightarrow> ((db, snd s), Calling k started))"
| "delivery_next E c d (Calling k started) s =
     (let (r, calls) = adapter_execute E (dl_kind d) (dl_key d) (dl_request d) (snd s)
      in case fault_injector c ''after_external_call'' of
           Inl e \<Rightarrow> ((fst s, calls), Answered (Inl e))
         | Inr _ \<Rightarrow> ((fst s, calls), Finishing k started r))"
| "delivery_next E c d (Finishing k started r) s =
     (case finish_effect E c (dl_task d) k (dl_command d) (dl_owner d) (dl_epoch d) started r (fst s) of
        (db, res) \<Rightarrow> ((db, snd s), Answered res))"
| "delivery_next E c d (Answered res) s = (s, Answered res)"

fun delivery_steps ::
  "nat \<Rightarrow> research_env \<Rightarrow> research_call \<Rightarrow> effect_delivery \<Rightarrow> (research_db \<times> json list) \<times> delivery_phase
    \<Rightarrow> (research_db \<times> json list) \<times> delivery_phase"
where
  "delivery_steps 0 E c d sp = sp"
| "delivery_steps (Suc n) E c d sp = delivery_steps n E c d (delivery_next E c d (snd sp) (fst sp))"

text \<open>Undisturbed, the five steps are the call.\<close>

lemma delivery_alone:
  "delivery_steps 5 E c d (s, Reserving) =
     (case execute_deterministic_side_effect E c (dl_task d) (dl_attempt d) (dl_command d) (dl_owner d) (dl_epoch d)
             (dl_expected d) (dl_kind d) (dl_key d) (dl_request d) s of (s', res) \<Rightarrow> (s', Answered res))"
  by (simp add: numeral_eq_Suc execute_deterministic_side_effect_def start_and_call_def adapter_execute_def Let_def
      split: prod.split sum.split option.split)

end
