(* ===== verification/Research_Commands.thy ===== *)
theory Research_Commands
  imports Research_Effects
begin

text \<open>
  \<open>ResearchCommandRequest\<close> (research/contracts.py) and \<open>execute_command\<close> (research/service.py): the
  dispatch of a request by its kind, with the fields each kind requires.
\<close>

record command_request =
  kq_command :: string
  kq_kind :: string
  kq_expected :: "int option"
  kq_checkpoint :: "string option"
  kq_owner :: "string option"
  kq_epoch :: "int option"
  kq_lease_seconds :: int
  kq_attempt :: "string option"
  kq_parent_attempt :: "string option"
  kq_source :: "string option"
  kq_cause :: attempt_cause
  kq_state :: json
  kq_objective :: "string option"
  kq_constraints :: "string list"
  kq_policy :: json
  kq_answer :: attempt_answer
  kq_termination :: research_termination
  kq_failure :: failure_class
  kq_detail :: string
  kq_next_status :: task_status
  kq_effect_kind :: "string option"
  kq_key :: "string option"
  kq_effect_payload :: json
  kq_effect :: "string option"
  kq_verdict :: string

text \<open>The bounds pydantic checks before a request reaches the kernel.\<close>

definition valid_request :: "command_request \<Rightarrow> bool" where
  "valid_request r \<longleftrightarrow>
     kq_command r \<noteq> [] \<and> kq_kind r \<noteq> [] \<and> (\<forall>v. kq_expected r = Some v \<longrightarrow> 0 \<le> v) \<and>
     (\<forall>v. kq_epoch r = Some v \<longrightarrow> 1 \<le> v) \<and> 1 \<le> kq_lease_seconds r \<and> kq_lease_seconds r \<le> 3600"

definition required_text :: "string option \<Rightarrow> string result" where
  "required_text x =
     (case x of
        None \<Rightarrow> Inl (Research_Validation ''required field'')
      | Some s \<Rightarrow> if strip s = [] then Inl (Research_Validation ''required field'') else Inr s)"

definition required_int :: "int option \<Rightarrow> int result" where
  "required_int x = (case x of None \<Rightarrow> Inl (Research_Validation ''required field'') | Some n \<Rightarrow> Inr n)"

text \<open>\<open>owner_id\<close>, \<open>owner_epoch\<close> and \<open>expected_state_version\<close>, required in this order.\<close>

definition required_fence :: "command_request \<Rightarrow> (string \<times> int \<times> int) result" where
  "required_fence r =
     ebind (required_text (kq_owner r)) (\<lambda>owner.
     ebind (required_int (kq_epoch r)) (\<lambda>ep.
     ebind (required_int (kq_expected r)) (\<lambda>expected. Inr (owner, ep, expected))))"

type_synonym service_state = "research_db \<times> json list"

text \<open>A call whose arguments are evaluated first; operations on the database leave the adapter alone.\<close>

definition calling :: "service_state \<Rightarrow> 'a result \<Rightarrow> ('a \<Rightarrow> service_state \<times> json result) \<Rightarrow> service_state \<times> json result" where
  "calling s args f = (case args of Inl e \<Rightarrow> (s, Inl e) | Inr x \<Rightarrow> f x)"

definition on_db :: "service_state \<Rightarrow> (research_db \<Rightarrow> json outcome) \<Rightarrow> service_state \<times> json result" where
  "on_db s f = (case f (fst s) of (db, res) \<Rightarrow> ((db, snd s), res))"

definition checkpoint_command ::
  "research_env \<Rightarrow> research_call \<Rightarrow> string \<Rightarrow> command_request \<Rightarrow> service_state \<Rightarrow> service_state \<times> json result"
where
  "checkpoint_command E c i r s =
     calling s (required_text (kq_attempt r)) (\<lambda>attempt.
     calling s (required_fence r) (\<lambda>(owner, ep, expected).
       if kq_kind r = ''resume''
       then calling s (required_text (kq_checkpoint r)) (\<lambda>checkpoint.
              on_db s (resume_attempt E c i attempt (kq_command r) owner ep expected checkpoint))
       else on_db s (commit_checkpoint E c i attempt (kq_command r) owner ep expected (kq_checkpoint r) (kq_state r)
                       Committed_Checkpoint)))"

definition retry_command ::
  "research_env \<Rightarrow> research_call \<Rightarrow> string \<Rightarrow> command_request \<Rightarrow> service_state \<Rightarrow> service_state \<times> json result"
where
  "retry_command E c i r s =
     calling s (fetch_task c i (fst s)) (\<lambda>t.
       if kt_status t = Ts_Terminal
       then on_db s (create_child_task E c i (kq_command r) (kq_objective r)
              (if kq_constraints r \<noteq> [] then Some (kq_constraints r) else None)
              (if truthy (kq_policy r) then Some (kq_policy r) else None))
       else
         calling s (required_text (kq_parent_attempt r)) (\<lambda>parent.
         calling s (required_fence r) (\<lambda>(owner, ep, expected).
           on_db s (retry_attempt E c i parent (kq_command r) owner ep expected None))))"

definition revise_command ::
  "research_env \<Rightarrow> research_call \<Rightarrow> string \<Rightarrow> command_request \<Rightarrow> service_state \<Rightarrow> service_state \<times> json result"
where
  "revise_command E c i r s =
     calling s (fetch_task c i (fst s)) (\<lambda>t.
       if kt_status t = Ts_Terminal
       then calling s (required_text (kq_objective r)) (\<lambda>objective.
              on_db s (create_child_task E c i (kq_command r) (Some objective) (Some (kq_constraints r)) (Some (kq_policy r))))
       else
         calling s (required_fence r) (\<lambda>(owner, ep, expected).
         calling s (required_text (kq_objective r)) (\<lambda>objective.
           on_db s (revise_goal E c i (kq_command r) owner ep expected objective (kq_constraints r) (kq_policy r)))))"

definition completion_command ::
  "research_env \<Rightarrow> research_call \<Rightarrow> string \<Rightarrow> command_request \<Rightarrow> service_state \<Rightarrow> service_state \<times> json result"
where
  "completion_command E c i r s =
     calling s (required_text (kq_attempt r)) (\<lambda>attempt.
     calling s (required_fence r) (\<lambda>(owner, ep, expected).
       if kq_kind r = ''cancel''
       then on_db s (cancel_task E c i attempt (kq_command r) owner ep expected
              (if kq_detail r = [] then ''cancel requested'' else kq_detail r))
       else on_db s (complete_attempt E c i attempt (kq_command r) owner ep expected (kq_answer r) (kq_termination r)
              (kq_failure r) (kq_detail r) (kq_kind r = ''complete_task'') (kq_next_status r) (kq_checkpoint r))))"

definition effect_command ::
  "research_env \<Rightarrow> research_call \<Rightarrow> string \<Rightarrow> command_request \<Rightarrow> service_state \<Rightarrow> service_state \<times> json result"
where
  "effect_command E c i r s =
     calling s (required_text (kq_attempt r)) (\<lambda>attempt.
     calling s (required_fence r) (\<lambda>(owner, ep, expected).
     calling s (required_text (kq_effect_kind r)) (\<lambda>kind.
     calling s (required_text (kq_key r)) (\<lambda>key.
       execute_deterministic_side_effect E c i attempt (kq_command r) owner ep expected kind key (kq_effect_payload r) s))))"

definition execute_command ::
  "research_env \<Rightarrow> research_call \<Rightarrow> string \<Rightarrow> command_request \<Rightarrow> service_state \<Rightarrow> service_state \<times> json result"
where
  "execute_command E c i r s =
     (let kind = kq_kind r in
      if kind = ''claim_owner'' then
        calling s (required_text (kq_owner r)) (\<lambda>owner.
        calling s (required_int (kq_expected r)) (\<lambda>expected.
          on_db s (claim_owner E c i (kq_command r) owner expected (kq_lease_seconds r))))
      else if kind = ''renew_owner'' then
        calling s (required_fence r) (\<lambda>(owner, ep, expected).
          on_db s (renew_owner E c i (kq_command r) owner ep expected (kq_lease_seconds r)))
      else if kind = ''start_attempt'' then
        (if kq_cause r \<notin> {Ca_Initial, Ca_Branch, Ca_Replay}
         then (s, Inl (Research_Validation ''start_attempt takes initial, branch or replay''))
         else calling s (required_fence r) (\<lambda>(owner, ep, expected).
                on_db s (start_attempt E c i (kq_command r) owner ep expected (kq_cause r) (kq_parent_attempt r)
                           (kq_source r) None)))
      else if kind \<in> {''checkpoint'', ''resume''} then checkpoint_command E c i r s
      else if kind = ''retry'' then retry_command E c i r s
      else if kind = ''revise_goal'' then revise_command E c i r s
      else if kind \<in> {''complete_attempt'', ''complete_task'', ''cancel''} then completion_command E c i r s
      else if kind = ''execute_effect'' then effect_command E c i r s
      else if kind = ''recover_effects'' then
        calling s (required_fence r) (\<lambda>(owner, ep, expected).
          on_db s (recover_in_flight E c i (kq_command r) owner ep expected))
      else if kind = ''resolve_effect'' then
        calling s (required_text (kq_effect r)) (\<lambda>k.
        calling s (required_fence r) (\<lambda>(owner, ep, expected).
          on_db s (resolve_unknown_side_effect E c i k (kq_command r) owner ep expected (kq_verdict r))))
      else (s, Inl (Research_Validation ''unsupported research command'')))"

end
