(* ===== verification/Research_Facts.thy ===== *)
theory Research_Facts
  imports Research_Commands
begin

text \<open>
  What the commands of the research kernel do to each table. \<open>kernel_frame\<close> collects the equations of
  the shared statements; a command that commits is characterised once, table by table, and every
  later proof works with these facts.
\<close>

section \<open>The shared statements\<close>

named_theorems kernel_frame

lemma fetch_task_Inr:
  "fetch_task c i db = Inr t \<longleftrightarrow> select_row (kd_tasks db) i = Some t \<and> kt_owner_user t = user_id (cl_context c)"
  by (auto simp: fetch_task_def split: option.splits if_splits)

lemma fetch_attempt_Inr:
  "fetch_attempt c k db = Inr a \<longleftrightarrow>
     select_row (kd_attempts db) k = Some a \<and> (\<exists>t. fetch_task c (ka_task a) db = Inr t)"
  by (auto simp: fetch_attempt_def ebind_eq_Inr split: option.splits)

lemma fetch_effect_Inr:
  "fetch_effect c k db = Inr s \<longleftrightarrow>
     select_row (kd_effects db) k = Some s \<and> (\<exists>t. fetch_task c (ks_task s) db = Inr t)"
  by (auto simp: fetch_effect_def ebind_eq_Inr split: option.splits)

lemma assert_owner_Inr:
  "assert_owner c t owner ep = Inr u \<longleftrightarrow> text_or_empty (kt_owner t) = owner \<and> kt_epoch t = ep \<and> kernel_lease_valid c t"
  by (auto simp: assert_owner_def)

lemma owner_guards_Inr:
  "owner_guards c t owner ep expected = Inr u \<longleftrightarrow>
     kt_status t \<noteq> Ts_Terminal \<and> kt_version t = expected \<and> text_or_empty (kt_owner t) = owner \<and>
     kt_epoch t = ep \<and> kernel_lease_valid c t"
  by (auto simp: owner_guards_def ebind_eq_Inr assert_nonterminal_def assert_expected_def assert_owner_Inr)

lemma fenced_attempt_Inr:
  "fenced_attempt i ep a = Inr u \<longleftrightarrow> ka_task a = i \<and> ka_status a \<noteq> At_Terminal \<and> ka_epoch a = ep"
  by (auto simp: fenced_attempt_def)

lemma fault_Inr: "fault_injector c p = Inr u \<longleftrightarrow> \<not> cl_fault c p"
  by (auto simp: fault_injector_def)

lemma receipt_of_cong [kernel_frame]:
  "kd_receipts db' = kd_receipts db \<Longrightarrow> receipt_of db' i command = receipt_of db i command"
  by (simp add: receipt_of_def)

lemma append_event_Inr:
  assumes "append_event E c e db = Inr (k, db')"
  shows "db' = db\<lparr>kd_draws := Suc (kd_draws db),
           kd_events := insert_row k (e\<lparr>ke_seq := next_seq (kernel_seqs db (ke_task e))\<rparr>) (kd_events db)\<rparr>"
  using assms by (auto simp: append_event_def ebind_eq_Inr new_id_def insert_new_Inr)

lemma append_event_tables:
  assumes "append_event E c e db = Inr (k, db')"
  shows "kd_tasks db' = kd_tasks db" and "kd_goals db' = kd_goals db" and "kd_attempts db' = kd_attempts db"
    and "kd_checkpoints db' = kd_checkpoints db" and "kd_results db' = kd_results db"
    and "kd_effects db' = kd_effects db" and "kd_receipts db' = kd_receipts db"
    and "kd_execution db' = kd_execution db" and "kd_guard db' = kd_guard db" and "kd_traces db' = kd_traces db"
    and "kernel_seqs db' i = (if i = ke_task e then kernel_seqs db i @ [next_seq (kernel_seqs db i)] else kernel_seqs db i)"
  unfolding append_event_Inr [OF assms] by (auto simp: kernel_seqs_def insert_row_def)

definition response_row :: "string \<Rightarrow> string \<Rightarrow> string \<Rightarrow> string \<Rightarrow> string \<Rightarrow> json \<Rightarrow> int \<Rightarrow> int \<Rightarrow> kernel_receipt" where
  "response_row i command type hash outcome response ep now =
     \<lparr>kx_task = i, kx_command = command, kx_type = type, kx_hash = hash, kx_outcome = Some outcome,
       kx_response = response, kx_epoch = ep, kx_created = now\<rparr>"

lemma commit_response_Inr:
  assumes "commit_response E i command type hash outcome response ep now db = Inr (db', v)"
  obtains k where "v = response" and "receipt_of db i command = None"
    and "db' = db\<lparr>kd_draws := Suc (kd_draws db),
           kd_receipts := insert_row k (response_row i command type hash outcome response ep now) (kd_receipts db)\<rparr>"
  using assms
  by (auto simp: commit_response_def insert_receipt_def new_id_def ebind_eq_Inr insert_new_Inr response_row_def
      receipt_of_def split: if_splits)

lemma commit_response_tables:
  assumes "commit_response E i command type hash outcome response ep now db = Inr (db', v)"
  shows "kd_tasks db' = kd_tasks db" and "kd_goals db' = kd_goals db" and "kd_attempts db' = kd_attempts db"
    and "kd_checkpoints db' = kd_checkpoints db" and "kd_results db' = kd_results db"
    and "kd_effects db' = kd_effects db" and "kd_events db' = kd_events db"
    and "kd_execution db' = kd_execution db" and "kd_guard db' = kd_guard db" and "kd_traces db' = kd_traces db"
    and "kernel_seqs db' j = kernel_seqs db j"
  using assms by (auto elim!: commit_response_Inr simp: kernel_seqs_def)

text \<open>The receipts a commit leaves: those before, and the one of the command.\<close>

definition records :: "research_db \<Rightarrow> string \<Rightarrow> string \<Rightarrow> string \<Rightarrow> json \<Rightarrow> research_db \<Rightarrow> bool" where
  "records db i command hash response db' \<longleftrightarrow>
     receipt_of db i command = None \<and>
     (\<exists>k r. kd_receipts db' = kd_receipts db @ [(k, r)] \<and> kx_task r = i \<and> kx_command r = command \<and>
        kx_hash r = hash \<and> kx_response r = response)"

lemma commit_response_records:
  assumes "commit_response E i command type hash outcome response ep now db = Inr (db', v)"
    and "kd_receipts db = kd_receipts db0"
  shows "records db0 i command hash v db'"
  using assms(1)
proof (rule commit_response_Inr)
  fix k
  assume v: "v = response" and none: "receipt_of db i command = None"
    and db': "db' = db\<lparr>kd_draws := Suc (kd_draws db),
           kd_receipts := insert_row k (response_row i command type hash outcome response ep now) (kd_receipts db)\<rparr>"
  show ?thesis unfolding records_def
  proof (intro conjI exI)
    show "receipt_of db0 i command = None" using none assms(2) by (simp add: receipt_of_def)
    show "kd_receipts db' = kd_receipts db0 @ [(k, response_row i command type hash outcome response ep now)]"
      using assms(2) by (simp add: db' insert_row_def)
  qed (simp_all add: response_row_def v)
qed

lemma insert_trace_tables:
  assumes "insert_trace E c i attempt db = Inr (k, db')"
  shows "kd_tasks db' = kd_tasks db" and "kd_goals db' = kd_goals db" and "kd_attempts db' = kd_attempts db"
    and "kd_checkpoints db' = kd_checkpoints db" and "kd_results db' = kd_results db"
    and "kd_effects db' = kd_effects db" and "kd_events db' = kd_events db" and "kd_receipts db' = kd_receipts db"
    and "kd_execution db' = kd_execution db"
  using assms by (auto simp: insert_trace_def new_id_def ebind_eq_Inr)

lemma enqueue_attempt_tables:
  assumes "enqueue_attempt c i enqueue db = Inr db'"
  shows "kd_tasks db' = kd_tasks db" and "kd_goals db' = kd_goals db" and "kd_attempts db' = kd_attempts db"
    and "kd_checkpoints db' = kd_checkpoints db" and "kd_results db' = kd_results db"
    and "kd_effects db' = kd_effects db" and "kd_events db' = kd_events db" and "kd_receipts db' = kd_receipts db"
  using assms by (auto simp: enqueue_attempt_def ebind_eq_Inr Let_def split: option.splits if_splits)

section \<open>Event logs\<close>

text \<open>A step of the event table; a command is a sequence of them, so its logs stay gapless.\<close>

inductive event_step :: "research_env \<Rightarrow> research_db \<Rightarrow> research_db \<Rightarrow> bool" for E where
  appended: "append_event E c e db = Inr (k, db') \<Longrightarrow> event_step E db db'"
| unlogged: "kd_events db' = kd_events db \<Longrightarrow> event_step E db db'"

lemma event_step_seqs:
  "event_step E db db' \<Longrightarrow>
    kernel_seqs db' i = kernel_seqs db i \<or> kernel_seqs db' i = kernel_seqs db i @ [next_seq (kernel_seqs db i)]"
proof (induction rule: event_step.induct)
  case (appended c e db k db')
  from append_event_tables(11) [OF appended] show ?case by simp
next
  case (unlogged db' db)
  then show ?case by (simp add: kernel_seqs_def)
qed

interpretation kernel_log: sequenced_log "event_step E" kernel_seqs
  by unfold_locales (rule event_step_seqs)

definition logs_grow :: "research_env \<Rightarrow> research_db \<Rightarrow> research_db \<Rightarrow> bool" where
  "logs_grow E = (event_step E)\<^sup>*\<^sup>*"

lemma logs_grow_refl [simp]: "logs_grow E db db"
  by (simp add: logs_grow_def)

lemma logs_grow_trans: "logs_grow E db1 db2 \<Longrightarrow> logs_grow E db2 db3 \<Longrightarrow> logs_grow E db1 db3"
  unfolding logs_grow_def by (rule rtranclp_trans)

lemma logs_grow_events: "kd_events db' = kd_events db \<Longrightarrow> logs_grow E db db'"
  unfolding logs_grow_def by (intro r_into_rtranclp event_step.unlogged)

lemma logs_grow_then: "logs_grow E db1 db2 \<Longrightarrow> kd_events db3 = kd_events db2 \<Longrightarrow> logs_grow E db1 db3"
  using logs_grow_trans logs_grow_events by blast

lemma logs_grow_before: "kd_events db2 = kd_events db1 \<Longrightarrow> logs_grow E db2 db3 \<Longrightarrow> logs_grow E db1 db3"
  using logs_grow_trans logs_grow_events by blast

lemma append_event_logs: "append_event E c e db = Inr (k, db') \<Longrightarrow> logs_grow E db db'"
  unfolding logs_grow_def by (intro r_into_rtranclp event_step.appended)

lemma logs_grow_step:
  assumes "append_event E c e db1 = Inr (k, db2)" and "kd_events db1 = kd_events db" and "kd_events db' = kd_events db2"
  shows "logs_grow E db db'"
  using logs_grow_trans [OF logs_grow_trans [OF logs_grow_events append_event_logs [OF assms(1)]] logs_grow_events] assms(2,3)
  by blast

section \<open>Task rows\<close>

lemma touch_task_tables [simp]:
  "kd_goals (touch_task c i f now db) = kd_goals db" "kd_attempts (touch_task c i f now db) = kd_attempts db"
  "kd_checkpoints (touch_task c i f now db) = kd_checkpoints db" "kd_results (touch_task c i f now db) = kd_results db"
  "kd_effects (touch_task c i f now db) = kd_effects db" "kd_events (touch_task c i f now db) = kd_events db"
  "kd_receipts (touch_task c i f now db) = kd_receipts db" "kd_execution (touch_task c i f now db) = kd_execution db"
  "kd_draws (touch_task c i f now db) = kd_draws db" "kd_guard (touch_task c i f now db) = kd_guard db"
  "kd_traces (touch_task c i f now db) = kd_traces db"
  by (simp_all add: touch_task_def)

text \<open>A task's row after the UPDATE of its version.\<close>

definition touched :: "(kernel_task \<Rightarrow> kernel_task) \<Rightarrow> int \<Rightarrow> kernel_task \<Rightarrow> kernel_task" where
  "touched f now t = (f t)\<lparr>kt_version := kt_version t + 1, kt_updated := now\<rparr>"

lemma touch_task_select:
  assumes "fetch_task c i db = Inr t"
  shows "select_row (kd_tasks (touch_task c i f now db)) j =
    (if j = i then Some (touched f now t) else select_row (kd_tasks db) j)"
  using assms by (cases "select_row (kd_tasks db) j") (auto simp: touch_task_def table_simps touched_def fetch_task_Inr)

text \<open>The task table after a command: one row replaced.\<close>

definition task_becomes :: "research_db \<Rightarrow> string \<Rightarrow> kernel_task \<Rightarrow> research_db \<Rightarrow> bool" where
  "task_becomes db i t' db' \<longleftrightarrow>
     (\<forall>j. select_row (kd_tasks db') j = (if j = i then Some t' else select_row (kd_tasks db) j))"

lemma task_becomes_touch:
  assumes "fetch_task c i db = Inr t" and "kd_tasks db1 = kd_tasks db"
    and "kd_tasks db' = kd_tasks (touch_task c i f now db1)"
  shows "task_becomes db i (touched f now t) db'"
proof -
  have "fetch_task c i db1 = Inr t" using assms(1,2) by (simp add: fetch_task_def)
  from touch_task_select [OF this] assms(2,3) show ?thesis by (simp add: task_becomes_def)
qed

section \<open>Effects and events alone\<close>

definition effects_only :: "research_env \<Rightarrow> research_db \<Rightarrow> research_db \<Rightarrow> bool" where
  "effects_only E db db' \<longleftrightarrow>
     kd_tasks db' = kd_tasks db \<and> kd_goals db' = kd_goals db \<and> kd_attempts db' = kd_attempts db \<and>
     kd_checkpoints db' = kd_checkpoints db \<and> kd_results db' = kd_results db \<and>
     kd_receipts db' = kd_receipts db \<and> kd_execution db' = kd_execution db \<and> logs_grow E db db'"

lemma effects_only_trans: "effects_only E db1 db2 \<Longrightarrow> effects_only E db2 db3 \<Longrightarrow> effects_only E db1 db3"
  unfolding effects_only_def using logs_grow_trans by metis

lemma append_event_effects_only:
  assumes "append_event E c e (db\<lparr>kd_effects := rows\<rparr>) = Inr (k, db')"
  shows "effects_only E db db'"
  unfolding effects_only_def using append_event_tables [OF assms] logs_grow_step [OF assms, of db db'] by simp

lemma rebind_effects_only: "rebind_effects E c i command ep rows db = Inr db' \<Longrightarrow> effects_only E db db'"
proof (induction rows arbitrary: db)
  case (Cons p rows)
  then show ?case
    by (cases p) (auto simp: ebind_eq_Inr dest!: append_event_effects_only intro: effects_only_trans)
qed (simp add: effects_only_def)

lemma mark_unknown_only: "mark_unknown E c i command ep rows db = Inr db' \<Longrightarrow> effects_only E db db'"
proof (induction rows arbitrary: db)
  case (Cons p rows)
  then show ?case
    by (cases p) (auto simp: ebind_eq_Inr dest!: append_event_effects_only intro: effects_only_trans)
qed (simp add: effects_only_def)

section \<open>The end of a command\<close>

text \<open>
  From the database \<open>db1\<close> a body has written, the last event and the receipt lead to \<open>db'\<close>: the
  tables below stay, the receipt is recorded.
\<close>

definition closes ::
  "research_env \<Rightarrow> research_db \<Rightarrow> string \<Rightarrow> string \<Rightarrow> string \<Rightarrow> json \<Rightarrow> research_db \<Rightarrow> bool"
where
  "closes E db1 i command hash v db' \<longleftrightarrow>
     kd_tasks db' = kd_tasks db1 \<and> kd_attempts db' = kd_attempts db1 \<and> kd_checkpoints db' = kd_checkpoints db1 \<and>
     kd_results db' = kd_results db1 \<and> kd_effects db' = kd_effects db1 \<and> logs_grow E db1 db' \<and>
     records db1 i command hash v db'"

lemma closes_receipt:
  assumes "commit_response E i command type hash outcome response ep now db = Inr (db', v)"
  shows "closes E db i command hash v db'"
  unfolding closes_def using commit_response_tables [OF assms] commit_response_records [OF assms]
  by (simp add: logs_grow_events)

lemma closes_event:
  assumes "append_event E c e db1 = Inr (k, db2)" and "closes E db2 i command hash v db'"
  shows "closes E db1 i command hash v db'"
  using assms(2) append_event_tables [OF assms(1)] logs_grow_trans [OF append_event_logs [OF assms(1)]]
  by (simp add: closes_def records_def receipt_of_def)

lemma closes_goals:
  assumes "closes E (db\<lparr>kd_goals := goals\<rparr>) i command hash v db'"
  shows "closes E db i command hash v db'"
  using assms logs_grow_before [of "db\<lparr>kd_goals := goals\<rparr>" db E db']
  by (simp add: closes_def records_def receipt_of_def)

lemma closes_event_receipt:
  assumes "append_event E c e db1 = Inr (k, db2)"
    and "commit_response E i command type hash outcome response ep now db2 = Inr (db', v)"
  shows "closes E db1 i command hash v db'"
  by (rule closes_event [OF assms(1) closes_receipt [OF assms(2)]])

lemma closes_from:
  assumes "closes E db1 i command hash v db'" and "kd_receipts db1 = kd_receipts db" and "logs_grow E db db1"
  shows "records db i command hash v db'" and "logs_grow E db db'"
    and "kd_tasks db' = kd_tasks db1" and "kd_attempts db' = kd_attempts db1"
    and "kd_checkpoints db' = kd_checkpoints db1" and "kd_results db' = kd_results db1"
    and "kd_effects db' = kd_effects db1"
  using assms logs_grow_trans [OF assms(3)] by (auto simp: closes_def records_def receipt_of_def)

section \<open>The commands, table by table\<close>

text \<open>
  Every commit of a command on task \<open>i\<close> replaces the task's row by one of the next version, records the
  receipt and lets the logs grow. \<open>f\<close> is what the command writes into the row.
\<close>

definition commits ::
  "research_env \<Rightarrow> research_call \<Rightarrow> research_db \<Rightarrow> string \<Rightarrow> string \<Rightarrow> string \<Rightarrow> (kernel_task \<Rightarrow> kernel_task)
    \<Rightarrow> int \<Rightarrow> json \<Rightarrow> research_db \<Rightarrow> bool"
where
  "commits E c db i command hash f now v db' \<longleftrightarrow>
     (\<exists>t. fetch_task c i db = Inr t \<and> kt_status t \<noteq> Ts_Terminal \<and> task_becomes db i (touched f now t) db') \<and>
     records db i command hash v db' \<and> logs_grow E db db'"

lemma commitsI:
  assumes "fetch_task c i db = Inr t" and "kt_status t \<noteq> Ts_Terminal"
    and "closes E db2 i command hash v db'" and "kd_tasks db2 = kd_tasks (touch_task c i f now db1)"
    and "kd_tasks db1 = kd_tasks db" and "kd_receipts db2 = kd_receipts db" and "logs_grow E db db2"
  shows "commits E c db i command hash f now v db'"
proof -
  note closed = closes_from [OF assms(3,6,7)]
  have "task_becomes db i (touched f now t) db'"
    by (rule task_becomes_touch [OF assms(1,5)]) (simp add: closed(3) assms(4))
  with assms(1,2) closed(1,2) show ?thesis unfolding commits_def by blast
qed

lemma claim_owner_commit:
  assumes "claim_owner_body E c i command owner expected seconds hash db = Inr (db', v)"
  obtains t where "fetch_task c i db = Inr t" and "kt_version t = expected"
    and "text_or_empty (kt_owner t) = [] \<or> \<not> kernel_lease_valid c t"
    and "commits E c db i command hash (\<lambda>u. u\<lparr>kt_owner := Some owner, kt_epoch := kt_epoch t + 1,
           kt_lease := Some (expires_at c seconds)\<rparr>) (cl_db_now c) v db'"
    and "kd_attempts db' = update_where (\<lambda>_ a. ka_task a = i \<and> ka_status a \<noteq> At_Terminal)
           (\<lambda>a. a\<lparr>ka_epoch := kt_epoch t + 1\<rparr>) (kd_attempts db)"
    and "kd_checkpoints db' = kd_checkpoints db"
proof -
  from assms obtain t where t: "fetch_task c i db = Inr t" "kt_status t \<noteq> Ts_Terminal" "kt_version t = expected"
      "\<not> (text_or_empty (kt_owner t) \<noteq> [] \<and> kernel_lease_valid c t)"
    by (auto simp: claim_owner_body_def ebind_eq_Inr assert_nonterminal_def assert_expected_def split: if_splits)
  let ?f = "\<lambda>u. u\<lparr>kt_owner := Some owner, kt_epoch := kt_epoch t + 1, kt_lease := Some (expires_at c seconds)\<rparr>"
  define db1 where "db1 = (touch_task c i ?f (cl_db_now c) db)
         \<lparr>kd_attempts := update_where (\<lambda>_ a. ka_task a = i \<and> ka_status a \<noteq> At_Terminal)
           (\<lambda>a. a\<lparr>ka_epoch := kt_epoch t + 1\<rparr>) (kd_attempts db)\<rparr>"
  from assms obtain db2 e k db3 outcome type response ep now where
      re: "rebind_effects E c i command (kt_epoch t + 1) (reserved_before i (kt_epoch t + 1) db1) db1 = Inr db2"
    and ev: "append_event E c e db2 = Inr (k, db3)"
    and cr: "commit_response E i command type hash outcome response ep now db3 = Inr (db', v)"
    using t by (auto simp: claim_owner_body_def ebind_eq_Inr assert_nonterminal_def assert_expected_def Let_def
        db1_def [symmetric])
  note only = rebind_effects_only [OF re, unfolded effects_only_def]
  have logs: "logs_grow E db db2"
    using only logs_grow_trans [OF logs_grow_events [of db1 db]] by (simp add: db1_def)
  note closed = closes_event_receipt [OF ev cr]
  have receipts: "kd_receipts db2 = kd_receipts db" using only by (simp add: db1_def)
  show thesis
  proof (rule that [OF t(1,3)])
    show "text_or_empty (kt_owner t) = [] \<or> \<not> kernel_lease_valid c t" using t(4) by blast
    show "commits E c db i command hash ?f (cl_db_now c) v db'"
      by (rule commitsI [OF t(1,2) closed _ refl receipts logs]) (simp add: only db1_def)
  qed (simp_all add: closes_from [OF closed receipts logs] only db1_def)
qed

lemma renew_owner_commit:
  assumes "renew_owner_body E c i command owner ep expected seconds hash db = Inr (db', v)"
  obtains t where "fetch_task c i db = Inr t" and "owner_guards c t owner ep expected = Inr ()"
    and "commits E c db i command hash (\<lambda>u. u\<lparr>kt_lease := Some (expires_at c seconds)\<rparr>) (cl_db_now c) v db'"
    and "kd_attempts db' = kd_attempts db" and "kd_checkpoints db' = kd_checkpoints db"
    and "kd_effects db' = kd_effects db"
proof -
  let ?f = "\<lambda>u. u\<lparr>kt_lease := Some (expires_at c seconds)\<rparr>"
  from assms obtain t e k db2 outcome type response ep' now where
      t: "fetch_task c i db = Inr t" "owner_guards c t owner ep expected = Inr ()"
    and ev: "append_event E c e (touch_task c i ?f (cl_db_now c) db) = Inr (k, db2)"
    and cr: "commit_response E i command type hash outcome response ep' now db2 = Inr (db', v)"
    by (auto simp: renew_owner_body_def ebind_eq_Inr Let_def)
  note closed = closes_event_receipt [OF ev cr]
  have logs: "logs_grow E db (touch_task c i ?f (cl_db_now c) db)" by (rule logs_grow_events) simp
  have st: "kt_status t \<noteq> Ts_Terminal" using t(2) by (simp add: owner_guards_Inr)
  show thesis
    by (rule that [OF t commitsI [OF t(1) st closed refl refl _ logs]])
       (simp_all add: closes_from [OF closed _ logs])
qed

lemma insert_attempt_Inr:
  "insert_attempt k a db = Inr db' \<longleftrightarrow>
     live_attempts (ka_task a) db = [] \<and> select_row (kd_attempts db) k = None \<and>
     db' = db\<lparr>kd_attempts := insert_row k a (kd_attempts db)\<rparr>"
  by (auto simp: insert_attempt_def ebind_eq_Inr insert_new_Inr)

lemma live_attempts_cong: "kd_attempts db' = kd_attempts db \<Longrightarrow> live_attempts i db' = live_attempts i db"
  by (simp add: live_attempts_def)

lemma guards_open: "owner_guards c t owner ep expected = Inr u \<Longrightarrow> kt_status t \<noteq> Ts_Terminal"
  by (simp add: owner_guards_Inr)

lemma start_attempt_commit:
  assumes "start_attempt_body E c i command owner ep expected cause parent source enqueue hash db = Inr (db', v)"
  obtains t k ordinal where "fetch_task c i db = Inr t" and "owner_guards c t owner ep expected = Inr ()"
    and "live_attempts i db = []" and "cause_allowed c i cause parent source db = Inr ()"
    and "commits E c db i command hash (\<lambda>u. u\<lparr>kt_status := Ts_Running\<rparr>) (cl_now c) v db'"
    and "select_row (kd_attempts db) k = None"
    and "kd_attempts db' = insert_row k (new_attempt c i (str_of (kt_goal t)) ordinal cause parent source ep) (kd_attempts db)"
    and "kd_checkpoints db' = kd_checkpoints db" and "kd_effects db' = kd_effects db"
proof -
  let ?f = "\<lambda>u. u\<lparr>kt_status := Ts_Running\<rparr>"
  define db1 where "db1 = snd (new_id E ''attempt'' db)"
  have db1: "kd_tasks db1 = kd_tasks db" "kd_attempts db1 = kd_attempts db" "kd_checkpoints db1 = kd_checkpoints db"
    "kd_effects db1 = kd_effects db" "kd_receipts db1 = kd_receipts db" "kd_events db1 = kd_events db"
    by (simp_all add: db1_def new_id_def)
  from assms obtain t attempt db2 trace db3 e k db5 db6 outcome type response ep' now where
      t: "fetch_task c i db = Inr t" "owner_guards c t owner ep expected = Inr ()"
    and live: "live_attempts i db = []" and cause: "cause_allowed c i cause parent source db = Inr ()"
    and at: "insert_attempt attempt (new_attempt c i (str_of (kt_goal t)) (next_ordinal i db) cause parent source ep) db1 = Inr db2"
    and tr: "insert_trace E c i attempt db2 = Inr (trace, db3)"
    and ev: "append_event E c e (touch_task c i ?f (cl_now c) db3) = Inr (k, db5)"
    and en: "enqueue_attempt c i enqueue db5 = Inr db6"
    and cr: "commit_response E i command type hash outcome response ep' now db6 = Inr (db', v)"
    by (auto simp: start_attempt_body_def ebind_eq_Inr Let_def new_id_def db1_def split: if_splits)
  note row = at [unfolded insert_attempt_Inr]
  note trace = insert_trace_tables [OF tr]
  note enq = enqueue_attempt_tables [OF en]
  have "closes E db5 i command hash v db'"
    using closes_receipt [OF cr] enq logs_grow_trans [OF logs_grow_events [OF enq(7)]]
    by (simp add: closes_def records_def receipt_of_def)
  note closed = closes_event [OF ev this]
  have logs: "logs_grow E db (touch_task c i ?f (cl_now c) db3)"
    by (rule logs_grow_events) (simp add: trace row db1)
  show thesis
  proof (rule that [OF t live cause])
    show "commits E c db i command hash ?f (cl_now c) v db'"
      by (rule commitsI [OF t(1) guards_open [OF t(2)] closed refl _ _ logs]) (simp_all add: trace row db1)
    show "select_row (kd_attempts db) attempt = None" using row db1 by simp
  qed (simp_all add: closes_from [OF closed _ logs] trace row db1)
qed

lemma commit_checkpoint_commit:
  assumes "commit_checkpoint_body E c i attempt command owner ep expected checkpoint state kind hash db = Inr (db', v)"
  obtains t a k where "fetch_task c i db = Inr t" and "owner_guards c t owner ep expected = Inr ()"
    and "select_row (kd_attempts db) attempt = Some a" and "fenced_attempt i ep a = Inr ()"
    and "map_option fst (latest_checkpoint attempt db) = checkpoint" and "unresolved_effects i db = []"
    and "commits E c db i command hash
           (\<lambda>u. u\<lparr>kt_status := (if kind = Resumed_Attempt then Ts_Running else kt_status u)\<rparr>) (cl_now c) v db'"
    and "kd_attempts db' = kd_attempts (resume_status kind attempt db)"
    and "select_row (kd_checkpoints db) k = None"
    and "kd_checkpoints db' = insert_row k (new_checkpoint E c i attempt a checkpoint
           (case latest_checkpoint attempt db of None \<Rightarrow> 1 | Some (_, r) \<Rightarrow> kc_sequence r + 1) state ep) (kd_checkpoints db)"
    and "kd_effects db' = kd_effects db"
proof -
  let ?f = "\<lambda>u. u\<lparr>kt_status := (if kind = Resumed_Attempt then Ts_Running else kt_status u)\<rparr>"
  let ?k = "fst (new_id E ''checkpoint'' db)"
  define row where "row = new_checkpoint E c i attempt (the (select_row (kd_attempts db) attempt)) checkpoint
           (case latest_checkpoint attempt db of None \<Rightarrow> 1 | Some (_, r) \<Rightarrow> kc_sequence r + 1) state ep"
  define db1 where "db1 = (snd (new_id E ''checkpoint'' db))\<lparr>kd_checkpoints := insert_row ?k row (kd_checkpoints db)\<rparr>"
  define db3 where "db3 = resume_status kind attempt (touch_task c i ?f (cl_now c) db1)"
  have db3: "kd_tasks db3 = kd_tasks (touch_task c i ?f (cl_now c) db1)" "kd_tasks db1 = kd_tasks db"
    "kd_attempts db3 = kd_attempts (resume_status kind attempt db)" "kd_checkpoints db3 = insert_row ?k row (kd_checkpoints db)"
    "kd_effects db3 = kd_effects db" "kd_receipts db3 = kd_receipts db" "kd_events db3 = kd_events db"
    by (simp_all add: db3_def db1_def new_id_def resume_status_def split: checkpoint_kind.splits)
  from assms obtain t a where
      t: "fetch_task c i db = Inr t" "fetch_attempt c attempt db = Inr a" "owner_guards c t owner ep expected = Inr ()"
        "fenced_attempt i ep a = Inr ()"
    and latest: "map_option fst (latest_checkpoint attempt db) = checkpoint" and un: "unresolved_effects i db = []"
    by (auto simp: commit_checkpoint_body_def ebind_eq_Inr Let_def split: if_splits)
  have a: "the (select_row (kd_attempts db) attempt) = a" using t(2) by (simp add: fetch_attempt_Inr)
  from assms t latest un obtain e k db4 outcome type response ep' now where
      ne: "select_row (kd_checkpoints db) ?k = None"
    and ev: "append_event E c e db3 = Inr (k, db4)"
    and cr: "commit_response E i command type hash outcome response ep' now db4 = Inr (db', v)"
    by (auto simp: commit_checkpoint_body_def ebind_eq_Inr Let_def new_id_def insert_new_Inr db3_def db1_def row_def a)
  note closed = closes_event_receipt [OF ev cr]
  have logs: "logs_grow E db db3" by (rule logs_grow_events) (simp add: db3)
  show thesis
  proof (rule that [OF t(1,3) _ t(4) latest un _ _ ne])
    show "commits E c db i command hash ?f (cl_now c) v db'"
      by (rule commitsI [OF t(1) guards_open [OF t(3)] closed db3(1,2,6) logs])
    show "select_row (kd_attempts db) attempt = Some a" using t(2) by (simp add: fetch_attempt_Inr)
  qed (simp_all add: closes_from [OF closed db3(6) logs] db3 row_def a)
qed

lemma complete_attempt_commit:
  assumes "complete_attempt_body E c i attempt command owner ep expected answer termination failure detail terminal
     next_status checkpoint hash db = Inr (db', v)"
  obtains t a k where "fetch_task c i db = Inr t" and "owner_guards c t owner ep expected = Inr ()"
    and "select_row (kd_attempts db) attempt = Some a" and "fenced_attempt i ep a = Inr ()"
    and "terminal \<or> next_status \<notin> {Ts_Running, Ts_Terminal}"
    and "checkpoint = map_option fst (latest_checkpoint attempt db)"
    and "commits E c db i command hash
           (\<lambda>u. u\<lparr>kt_status := (if terminal then Ts_Terminal else next_status),
                  kt_result := (if terminal then Some k else None)\<rparr>) (cl_now c) v db'"
    and "kd_attempts db' = update_row attempt
          (\<lambda>a. a\<lparr>ka_status := At_Terminal, ka_result := Some k, ka_ended := Some (cl_now c)\<rparr>) (kd_attempts db)"
    and "kd_checkpoints db' = kd_checkpoints db" and "kd_effects db' = kd_effects db"
proof -
  let ?k = "fst (new_id E ''result'' db)"
  let ?f = "\<lambda>u. u\<lparr>kt_status := (if terminal then Ts_Terminal else next_status),
                  kt_result := (if terminal then Some ?k else None)\<rparr>"
  from assms obtain t a where
      t: "fetch_task c i db = Inr t" "fetch_attempt c attempt db = Inr a" "owner_guards c t owner ep expected = Inr ()"
        "fenced_attempt i ep a = Inr ()"
    and nx: "terminal \<or> next_status \<notin> {Ts_Running, Ts_Terminal}"
    and latest: "checkpoint = map_option fst (latest_checkpoint attempt db)"
    by (auto simp: complete_attempt_body_def ebind_eq_Inr Let_def split: if_splits)
  define row where "row = new_result c i attempt a checkpoint answer termination failure detail terminal ep"
  define db1 where "db1 = (snd (new_id E ''result'' db))\<lparr>kd_results := insert_row ?k row (kd_results db)\<rparr>"
  define db3 where "db3 = touch_task c i ?f (cl_now c) (end_attempt c attempt ?k termination db1)"
  have db3: "kd_tasks db3 = kd_tasks (touch_task c i ?f (cl_now c) (end_attempt c attempt ?k termination db1))"
    "kd_tasks (end_attempt c attempt ?k termination db1) = kd_tasks db" "kd_receipts db3 = kd_receipts db"
    "kd_attempts db3 = update_row attempt
          (\<lambda>a. a\<lparr>ka_status := At_Terminal, ka_result := Some ?k, ka_ended := Some (cl_now c)\<rparr>) (kd_attempts db)"
    "kd_checkpoints db3 = kd_checkpoints db" "kd_effects db3 = kd_effects db" "kd_events db3 = kd_events db"
    by (simp_all add: db3_def db1_def end_attempt_def new_id_def)
  from assms t nx obtain e k db4 outcome type response ep' now where
      ev: "append_event E c e db3 = Inr (k, db4)"
    and cr: "commit_response E i command type hash outcome response ep' now db4 = Inr (db', v)"
    by (auto simp: complete_attempt_body_def ebind_eq_Inr Let_def new_id_def insert_new_Inr db3_def db1_def row_def
        split: if_splits)
  note closed = closes_event_receipt [OF ev cr]
  have logs: "logs_grow E db db3" by (rule logs_grow_events) (simp add: db3)
  show thesis
  proof (rule that [OF t(1,3) _ t(4) nx latest])
    show "commits E c db i command hash ?f (cl_now c) v db'"
      by (rule commitsI [OF t(1) guards_open [OF t(3)] closed db3(1,2,3) logs])
    show "select_row (kd_attempts db) attempt = Some a" using t(2) by (simp add: fetch_attempt_Inr)
  qed (simp_all add: closes_from [OF closed db3(3) logs] db3)
qed

lemma revise_goal_commit:
  assumes "revise_goal_body E c i command owner ep expected objective constraints policy hash db = Inr (db', v)"
  obtains t k goal ordinal where "fetch_task c i db = Inr t" and "owner_guards c t owner ep expected = Inr ()"
    and "live_attempts i db = []"
    and "commits E c db i command hash (\<lambda>u. u\<lparr>kt_goal := Some goal, kt_status := Ts_Running\<rparr>) (cl_now c) v db'"
    and "select_row (kd_attempts db) k = None"
    and "kd_attempts db' = insert_row k (new_attempt c i goal ordinal Ca_Goal_Revision None None ep) (kd_attempts db)"
    and "kd_checkpoints db' = kd_checkpoints db" and "kd_effects db' = kd_effects db"
proof -
  let ?goal = "fst (new_id E ''goal'' db)"
  let ?f = "\<lambda>u. u\<lparr>kt_goal := Some ?goal, kt_status := Ts_Running\<rparr>"
  from assms obtain t where
      t: "fetch_task c i db = Inr t" "owner_guards c t owner ep expected = Inr ()" and live: "live_attempts i db = []"
    by (auto simp: revise_goal_body_def ebind_eq_Inr split: if_splits)
  define row where "row = new_goal i (next_revision i db) (Some (str_of (kt_goal t))) objective constraints policy (cl_now c)"
  define db2 where "db2 = snd (new_id E ''attempt'' ((snd (new_id E ''goal'' db))\<lparr>kd_goals := insert_row ?goal row (kd_goals db)\<rparr>))"
  have db2: "kd_tasks db2 = kd_tasks db" "kd_attempts db2 = kd_attempts db" "kd_checkpoints db2 = kd_checkpoints db"
    "kd_effects db2 = kd_effects db" "kd_receipts db2 = kd_receipts db" "kd_events db2 = kd_events db"
    by (simp_all add: db2_def new_id_def)
  from assms t live obtain attempt db3 trace db4 e k db6 outcome type response ep' now where
      at: "insert_attempt attempt (new_attempt c i ?goal (next_ordinal i db) Ca_Goal_Revision None None ep) db2 = Inr db3"
    and tr: "insert_trace E c i attempt db3 = Inr (trace, db4)"
    and ev: "append_event E c e (touch_task c i ?f (cl_now c) db4) = Inr (k, db6)"
    and cr: "commit_response E i command type hash outcome response ep' now
       (db6\<lparr>kd_goals := update_row ?goal (\<lambda>g. g\<lparr>kg_event := Some k\<rparr>) (kd_goals db6)\<rparr>) = Inr (db', v)"
    by (auto simp: revise_goal_body_def ebind_eq_Inr Let_def new_id_def insert_new_Inr db2_def row_def)
  note row = at [unfolded insert_attempt_Inr]
  note trace = insert_trace_tables [OF tr]
  have "closes E db6 i command hash v db'"
    by (rule closes_goals [OF closes_receipt [OF cr]])
  note closed = closes_event [OF ev this]
  have logs: "logs_grow E db (touch_task c i ?f (cl_now c) db4)"
    by (rule logs_grow_events) (simp add: trace row db2)
  show thesis
  proof (rule that [OF t live])
    show "commits E c db i command hash ?f (cl_now c) v db'"
      by (rule commitsI [OF t(1) guards_open [OF t(2)] closed refl _ _ logs]) (simp_all add: trace row db2)
    show "select_row (kd_attempts db) attempt = None" using row db2 by simp
  qed (simp_all add: closes_from [OF closed _ logs] trace row db2)
qed

lemma reserve_row_Inr:
  assumes "reserve_row E c i attempt command kind key request ep db = Inr (k, type, db')"
  obtains (known) s where "find_effect i kind key db = Some (k, s)" "db' = db"
  | (fresh) "find_effect i kind key db = None" "select_row (kd_effects db) k = None"
      "db' = db\<lparr>kd_draws := Suc (kd_draws db), kd_effects := insert_row k
         (new_effect c i attempt command kind key (research_hash E request) request ep) (kd_effects db)\<rparr>"
  using assms
  by (auto simp: reserve_row_def new_id_def ebind_eq_Inr insert_new_Inr split: option.splits if_splits)

lemma reserve_commit:
  assumes "reserve_side_effect_body E c i attempt command owner ep expected kind key request hash db = Inr (db', v)"
  obtains t a k type db1 where "fetch_task c i db = Inr t" and "owner_guards c t owner ep expected = Inr ()"
    and "select_row (kd_attempts db) attempt = Some a" and "fenced_attempt i ep a = Inr ()"
    and "reserve_row E c i attempt command kind key request ep db = Inr (k, type, db1)"
    and "v = JObj [(''task_id'', JStr i), (''side_effect_id'', JStr k), (''state_version'', JInt (expected + 1))]"
    and "commits E c db i command hash id (cl_now c) v db'"
    and "kd_attempts db' = kd_attempts db" and "kd_checkpoints db' = kd_checkpoints db"
    and "kd_effects db' = kd_effects db1"
proof -
  from assms obtain t a k type db1 e kk db2 outcome ty ep' now where
      t: "fetch_task c i db = Inr t" "fetch_attempt c attempt db = Inr a" "owner_guards c t owner ep expected = Inr ()"
        "fenced_attempt i ep a = Inr ()"
    and rr: "reserve_row E c i attempt command kind key request ep db = Inr (k, type, db1)"
    and ev: "append_event E c e (touch_task c i id (cl_now c) db1) = Inr (kk, db2)"
    and cr: "commit_response E i command ty hash outcome
       (JObj [(''task_id'', JStr i), (''side_effect_id'', JStr k), (''state_version'', JInt (expected + 1))])
       ep' now db2 = Inr (db', v)"
    by (auto simp: reserve_side_effect_body_def ebind_eq_Inr)
  have db1: "kd_tasks db1 = kd_tasks db" "kd_attempts db1 = kd_attempts db" "kd_checkpoints db1 = kd_checkpoints db"
    "kd_receipts db1 = kd_receipts db" "kd_events db1 = kd_events db"
    using rr by (auto elim!: reserve_row_Inr)
  note closed = closes_event_receipt [OF ev cr]
  have logs: "logs_grow E db (touch_task c i id (cl_now c) db1)" by (rule logs_grow_events) (simp add: db1)
  show thesis
  proof (rule that [OF t(1,3) _ t(4) rr])
    show "commits E c db i command hash id (cl_now c) v db'"
      by (rule commitsI [OF t(1) guards_open [OF t(3)] closed refl db1(1) _ logs]) (simp add: db1)
    show "select_row (kd_attempts db) attempt = Some a" using t(2) by (simp add: fetch_attempt_Inr)
    show "v = JObj [(''task_id'', JStr i), (''side_effect_id'', JStr k), (''state_version'', JInt (expected + 1))]"
      using cr by (rule commit_response_Inr)
  qed (simp_all add: closes_from [OF closed _ logs] db1)
qed

lemma transition_commit:
  assumes "transition_body E c i k command owner ep expected target operation receipt reference hash db = Inr (db', v)"
  obtains t s where "fetch_task c i db = Inr t" and "owner_guards c t owner ep expected = Inr ()"
    and "select_row (kd_effects db) k = Some s" and "ks_task s = i" and "ks_epoch s = ep"
    and "transition_allowed (ks_status s) target"
    and "v = JObj [(''task_id'', JStr i), (''side_effect_id'', JStr k),
                   (''status'', JStr (side_effect_status_text target)), (''state_version'', JInt (expected + 1))]"
    and "commits E c db i command hash id (cl_now c) v db'"
    and "kd_attempts db' = kd_attempts db" and "kd_checkpoints db' = kd_checkpoints db"
    and "kd_effects db' = update_row k (moved_effect c target operation receipt reference) (kd_effects db)"
proof -
  let ?db1 = "db\<lparr>kd_effects := update_row k (moved_effect c target operation receipt reference) (kd_effects db)\<rparr>"
  from assms obtain t s e kk db2 outcome ty ep' now where
      t: "fetch_task c i db = Inr t" "fetch_effect c k db = Inr s" "owner_guards c t owner ep expected = Inr ()"
        "ks_task s = i" "ks_epoch s = ep" "transition_allowed (ks_status s) target"
    and ev: "append_event E c e (touch_task c i id (cl_now c) ?db1) = Inr (kk, db2)"
    and cr: "commit_response E i command ty hash outcome
       (JObj [(''task_id'', JStr i), (''side_effect_id'', JStr k),
              (''status'', JStr (side_effect_status_text target)), (''state_version'', JInt (expected + 1))])
       ep' now db2 = Inr (db', v)"
    by (auto simp: transition_body_def ebind_eq_Inr Let_def split: if_splits)
  note closed = closes_event_receipt [OF ev cr]
  have logs: "logs_grow E db (touch_task c i id (cl_now c) ?db1)" by (rule logs_grow_events) simp
  show thesis
  proof (rule that [OF t(1,3) _ t(4,5,6)])
    show "commits E c db i command hash id (cl_now c) v db'"
      by (rule commitsI [OF t(1) guards_open [OF t(3)] closed refl _ _ logs]) simp_all
    show "select_row (kd_effects db) k = Some s" using t(2) by (simp add: fetch_effect_Inr)
    show "v = JObj [(''task_id'', JStr i), (''side_effect_id'', JStr k),
                   (''status'', JStr (side_effect_status_text target)), (''state_version'', JInt (expected + 1))]"
      using cr by (rule commit_response_Inr)
  qed (simp_all add: closes_from [OF closed _ logs])
qed

lemma resolve_commit:
  assumes "resolve_body E c i k command owner ep expected verdict hash db = Inr (db', v)"
  obtains t s where "fetch_task c i db = Inr t" and "owner_guards c t owner ep expected = Inr ()"
    and "select_row (kd_effects db) k = Some s" and "ks_task s = i" and "ks_status s = Fx_Unknown"
    and "commits E c db i command hash id (cl_now c) v db'"
    and "kd_attempts db' = kd_attempts db" and "kd_checkpoints db' = kd_checkpoints db"
    and "kd_effects db' = update_row k (\<lambda>s. s\<lparr>ks_status := (if verdict = ''succeeded'' then Fx_Succeeded else Fx_Failed),
           ks_epoch := ep, ks_updated := cl_now c\<rparr>) (kd_effects db)"
proof -
  let ?db1 = "db\<lparr>kd_effects := update_row k (\<lambda>s. s\<lparr>ks_status := (if verdict = ''succeeded'' then Fx_Succeeded else Fx_Failed),
           ks_epoch := ep, ks_updated := cl_now c\<rparr>) (kd_effects db)\<rparr>"
  from assms obtain t s e kk db2 outcome ty response ep' now where
      t: "fetch_task c i db = Inr t" "fetch_effect c k db = Inr s" "owner_guards c t owner ep expected = Inr ()"
        "ks_task s = i" "ks_status s = Fx_Unknown"
    and ev: "append_event E c e (touch_task c i id (cl_now c) ?db1) = Inr (kk, db2)"
    and cr: "commit_response E i command ty hash outcome response ep' now db2 = Inr (db', v)"
    by (auto simp: resolve_body_def ebind_eq_Inr Let_def split: if_splits)
  note closed = closes_event_receipt [OF ev cr]
  have logs: "logs_grow E db (touch_task c i id (cl_now c) ?db1)" by (rule logs_grow_events) simp
  show thesis
  proof (rule that [OF t(1,3) _ t(4,5)])
    show "commits E c db i command hash id (cl_now c) v db'"
      by (rule commitsI [OF t(1) guards_open [OF t(3)] closed refl _ _ logs]) simp_all
    show "select_row (kd_effects db) k = Some s" using t(2) by (simp add: fetch_effect_Inr)
  qed (simp_all add: closes_from [OF closed _ logs])
qed

lemma recover_commit:
  assumes "recover_body E c i command owner ep expected hash db = Inr (db', v)"
  obtains t db1 where "fetch_task c i db = Inr t" and "owner_guards c t owner ep expected = Inr ()"
    and "mark_unknown E c i command ep (in_flight_before i ep db) db = Inr db1"
    and "commits E c db i command hash
           (\<lambda>u. u\<lparr>kt_status := (if in_flight_before i ep db \<noteq> [] then Ts_Blocked else kt_status u)\<rparr>) (cl_now c) v db'"
    and "kd_attempts db' = kd_attempts db" and "kd_checkpoints db' = kd_checkpoints db"
    and "kd_effects db' = kd_effects db1"
proof -
  let ?f = "\<lambda>u. u\<lparr>kt_status := (if in_flight_before i ep db \<noteq> [] then Ts_Blocked else kt_status u)\<rparr>"
  from assms obtain t db1 outcome ty response ep' now where
      t: "fetch_task c i db = Inr t" "owner_guards c t owner ep expected = Inr ()"
    and mu: "mark_unknown E c i command ep (in_flight_before i ep db) db = Inr db1"
    and cr: "commit_response E i command ty hash outcome response ep' now (touch_task c i ?f (cl_now c) db1) = Inr (db', v)"
    by (auto simp: recover_body_def ebind_eq_Inr Let_def)
  note only = mark_unknown_only [OF mu, unfolded effects_only_def]
  note closed = closes_receipt [OF cr]
  have logs: "logs_grow E db (touch_task c i ?f (cl_now c) db1)"
    using logs_grow_then [of E db db1] only by simp
  show thesis
  proof (rule that [OF t mu])
    show "commits E c db i command hash ?f (cl_now c) v db'"
      by (rule commitsI [OF t(1) guards_open [OF t(2)] closed refl _ _ logs]) (simp_all add: only)
  qed (simp_all add: closes_from [OF closed _ logs] only)
qed

end
