(* ===== verification/Research_Steps.thy ===== *)
theory Research_Steps
  imports Research_Facts
begin

text \<open>
  The states the research kernel reaches. \<open>kernel_step\<close> is one call of the service, by any user, with any
  arguments, clocks and faults; \<open>db_step\<close> is one transaction, to which every call reduces.
\<close>

section \<open>Outcomes of a command\<close>

lemma existing_receipt_Inr:
  assumes "existing_receipt E c i command hash owner ep db = Inr found"
  obtains (missing) t where "found = No_Receipt" "fetch_task c i db = Inr t" "receipt_of db i command = None"
  | (replayed) t r where "found = Replayed (receipt_response r)" "fetch_task c i db = Inr t"
      "receipt_of db i command = Some r" "kx_hash r = hash"
      "owner \<noteq> None \<Longrightarrow> assert_owner c t (the owner) (case ep of Some x \<Rightarrow> x | None \<Rightarrow> kx_epoch r) = Inr ()"
  | (mismatched) t r k db' where "found = Mismatched db'" "fetch_task c i db = Inr t"
      "receipt_of db i command = Some r" "kx_hash r \<noteq> hash"
      "owner \<noteq> None \<Longrightarrow> assert_owner c t (the owner) (case ep of Some x \<Rightarrow> x | None \<Rightarrow> kx_epoch r) = Inr ()"
      "append_event E c (mismatch_event t i command (kx_hash r) hash (cl_now c)) db = Inr (k, db')"
proof (cases "receipt_of db i command")
  case None
  with assms missing show thesis by (auto simp: existing_receipt_def ebind_eq_Inr)
next
  case (Some r)
  from assms obtain t where t: "fetch_task c i db = Inr t" by (auto simp: existing_receipt_def ebind_eq_Inr)
  have own: "owner \<noteq> None \<Longrightarrow> assert_owner c t (the owner) (case ep of Some x \<Rightarrow> x | None \<Rightarrow> kx_epoch r) = Inr ()"
    using assms t Some by (auto simp: existing_receipt_def ebind_eq_Inr)
  show thesis
  proof (cases "kx_hash r = hash")
    case True
    with assms t Some have "found = Replayed (receipt_response r)" by (auto simp: existing_receipt_def ebind_eq_Inr)
    from replayed [OF this t Some True own] show thesis .
  next
    case False
    with assms t Some obtain k db' where "found = Mismatched db'"
        "append_event E c (mismatch_event t i command (kx_hash r) hash (cl_now c)) db = Inr (k, db')"
      by (auto simp: existing_receipt_def ebind_eq_Inr)
    from mismatched [OF this(1) t Some False own this(2)] show thesis .
  qed
qed

lemma transaction_cases:
  assumes "transaction db body = (db', res)"
  obtains (error) e where "body = Inl e" "db' = db" "res = Inl e" | (committed) v where "body = Inr (db', v)" "res = Inr v"
  using assms by (auto simp: transaction_def split: sum.splits)

lemma run_command_cases:
  assumes "run_command E c i command hash owner ep body db = (db', res)"
  obtains (error) e where "db' = db" "res = Inl e"
  | (replayed) r where "db' = db" "res = Inr (receipt_response r)" "receipt_of db i command = Some r" "kx_hash r = hash"
  | (audited) t r k where "res = Inl payload_mismatch" "receipt_of db i command = Some r" "kx_hash r \<noteq> hash"
      "append_event E c (mismatch_event t i command (kx_hash r) hash (cl_now c)) db = Inr (k, db')"
  | (committed) v where "body db = Inr (db', v)" "res = Inr v" "receipt_of db i command = None"
proof (cases "existing_receipt E c i command hash owner ep db")
  case (Inl e)
  with assms show thesis by (intro error [of e]) (auto simp: run_command_def)
next
  case (Inr found)
  then show thesis
  proof (cases rule: existing_receipt_Inr)
    case (missing t)
    from assms Inr missing(1) have "transaction db (body db) = (db', res)" by (simp add: run_command_def)
    then show thesis
    proof (cases rule: transaction_cases)
      case (error e) then show thesis by (intro that(1)) simp_all
    next
      case (committed v) with missing(3) show thesis by (intro that(4)) simp_all
    qed
  next
    case (replayed t r)
    with assms Inr show thesis by (intro that(2)) (auto simp: run_command_def)
  next
    case (mismatched t r k db1)
    with assms Inr have "res = Inl payload_mismatch" "db' = db1" by (auto simp: run_command_def)
    with mismatched(3,4,6) show thesis by (intro that(3)) simp_all
  qed
qed

section \<open>Transactions\<close>

inductive db_step :: "research_env \<Rightarrow> research_db \<Rightarrow> research_db \<Rightarrow> bool" for E where
  stay: "db_step E db db"
| audit: "append_event E c (mismatch_event t i command stored received now) db = Inr (k, db') \<Longrightarrow> db_step E db db'"
| create: "create_task_body E c command i objective constraints policy parent profile execution
    (research_hash E (create_payload objective constraints policy parent i profile execution)) db = Inr (db', v) \<Longrightarrow>
    db_step E db db'"
| claim: "claim_owner_body E c i command owner expected seconds (research_hash E (claim_payload owner expected seconds)) db
    = Inr (db', v) \<Longrightarrow> db_step E db db'"
| renew: "renew_owner_body E c i command owner ep expected seconds (research_hash E (renew_payload owner ep expected seconds)) db
    = Inr (db', v) \<Longrightarrow> db_step E db db'"
| start: "start_attempt_body E c i command owner ep expected cause parent source enqueue
    (research_hash E (start_payload owner ep expected cause parent source enqueue)) db = Inr (db', v) \<Longrightarrow> db_step E db db'"
| checkpoint: "commit_checkpoint_body E c i attempt command owner ep expected checkpoint state kind
    (research_hash E (checkpoint_payload attempt owner ep expected checkpoint state kind)) db = Inr (db', v) \<Longrightarrow>
    db_step E db db'"
| complete: "complete_attempt_body E c i attempt command owner ep expected answer termination failure detail terminal
    next_status checkpoint (research_hash E (complete_payload attempt owner ep expected answer termination failure detail
      terminal next_status checkpoint)) db = Inr (db', v) \<Longrightarrow> db_step E db db'"
| revise: "revise_goal_body E c i command owner ep expected objective constraints policy
    (research_hash E (revise_payload owner ep expected objective constraints policy)) db = Inr (db', v) \<Longrightarrow> db_step E db db'"
| reserve: "reserve_side_effect_body E c i attempt command owner ep expected kind key request
    (research_hash E (reserve_payload attempt owner ep expected kind key (research_hash E request))) db = Inr (db', v) \<Longrightarrow>
    db_step E db db'"
| transit: "transition_body E c i k command owner ep expected target operation receipt reference
    (research_hash E (transition_payload k owner ep expected target operation receipt reference)) db = Inr (db', v) \<Longrightarrow>
    db_step E db db'"
| recover: "recover_body E c i command owner ep expected (research_hash E (recover_payload owner ep expected)) db
    = Inr (db', v) \<Longrightarrow> db_step E db db'"
| resolve: "resolve_body E c i k command owner ep expected verdict
    (research_hash E (resolve_payload k owner ep expected verdict)) db = Inr (db', v) \<Longrightarrow> db_step E db db'"

lemma run_command_step:
  assumes "run_command E c i command hash owner ep body db = (db', res)"
    and "\<And>v. body db = Inr (db', v) \<Longrightarrow> db_step E db db'"
  shows "db_step E db db'"
  using assms(1)
  by (cases rule: run_command_cases) (auto intro: db_step.stay db_step.audit assms(2))

named_theorems command_steps

lemma claim_owner_step [command_steps]:
  "claim_owner E c i command owner expected seconds db = (db', res) \<Longrightarrow> db_step E db db'"
  by (auto simp: claim_owner_def Let_def split: if_splits intro: db_step.stay elim!: run_command_step intro: db_step.claim)

lemma renew_owner_step [command_steps]:
  "renew_owner E c i command owner ep expected seconds db = (db', res) \<Longrightarrow> db_step E db db'"
  by (auto simp: renew_owner_def Let_def split: if_splits intro: db_step.stay elim!: run_command_step intro: db_step.renew)

lemma start_attempt_step [command_steps]:
  "start_attempt E c i command owner ep expected cause parent source enqueue db = (db', res) \<Longrightarrow> db_step E db db'"
  by (auto simp: start_attempt_def Let_def elim!: run_command_step intro: db_step.start)

lemma commit_checkpoint_step [command_steps]:
  "commit_checkpoint E c i attempt command owner ep expected checkpoint state kind db = (db', res) \<Longrightarrow> db_step E db db'"
  by (auto simp: commit_checkpoint_def Let_def elim!: run_command_step intro: db_step.checkpoint)

lemma complete_attempt_step [command_steps]:
  "complete_attempt E c i attempt command owner ep expected answer termination failure detail terminal next_status
     checkpoint db = (db', res) \<Longrightarrow> db_step E db db'"
  by (auto simp: complete_attempt_def Let_def elim!: run_command_step intro: db_step.complete)

lemma revise_goal_step [command_steps]:
  "revise_goal E c i command owner ep expected objective constraints policy db = (db', res) \<Longrightarrow> db_step E db db'"
  by (auto simp: revise_goal_def Let_def split: if_splits intro: db_step.stay elim!: run_command_step intro: db_step.revise)

lemma reserve_side_effect_step [command_steps]:
  "reserve_side_effect E c i attempt command owner ep expected kind key request db = (db', res) \<Longrightarrow> db_step E db db'"
  by (auto simp: reserve_side_effect_def Let_def elim!: run_command_step intro: db_step.reserve)

lemma transition_side_effect_step [command_steps]:
  "transition_side_effect E c i k command owner ep expected target operation receipt reference db = (db', res) \<Longrightarrow>
    db_step E db db'"
  by (auto simp: transition_side_effect_def Let_def split: if_splits intro: db_step.stay elim!: run_command_step
      intro: db_step.transit)

lemma recover_in_flight_step [command_steps]:
  "recover_in_flight E c i command owner ep expected db = (db', res) \<Longrightarrow> db_step E db db'"
  by (auto simp: recover_in_flight_def Let_def elim!: run_command_step intro: db_step.recover)

lemma resolve_unknown_side_effect_step [command_steps]:
  "resolve_unknown_side_effect E c i k command owner ep expected verdict db = (db', res) \<Longrightarrow> db_step E db db'"
  by (auto simp: resolve_unknown_side_effect_def Let_def split: if_splits intro: db_step.stay elim!: run_command_step
      intro: db_step.resolve)

lemma create_task_step [command_steps]:
  assumes "create_task E c command objective constraints policy task parent profile execution db = (db', res)"
  shows "db_step E db db'"
  using assms
  by (auto simp: create_task_def Let_def split: if_splits intro: db_step.stay elim!: run_command_step transaction_cases
      intro: db_step.create)

lemma create_child_task_step [command_steps]:
  "create_child_task E c parent command objective constraints policy db = (db', res) \<Longrightarrow> db_step E db db'"
  by (auto simp: create_child_task_def split: sum.splits if_splits option.splits intro: db_step.stay create_task_step)

lemma resume_attempt_step [command_steps]:
  "resume_attempt E c i attempt command owner ep expected checkpoint db = (db', res) \<Longrightarrow> db_step E db db'"
  by (auto simp: resume_attempt_def split: if_splits option.splits intro: db_step.stay commit_checkpoint_step)

section \<open>Calls of the service\<close>

text \<open>
  A call is a command request, the creation of a task, an attempt started by the product service with
  its execution enqueued, or a reservation or transition of an effect by itself. The protocol around
  the adapter also takes its transactions one by one, with any other call between them.
\<close>

inductive kernel_step :: "research_env \<Rightarrow> service_state \<Rightarrow> service_state \<Rightarrow> bool" for E where
  commanded: "execute_command E c i r s = (s', res) \<Longrightarrow> kernel_step E s s'"
| created: "create_task E c command objective constraints policy task parent profile execution (fst s) = (db', res) \<Longrightarrow>
    kernel_step E s (db', snd s)"
| started: "start_attempt E c i command owner ep expected cause parent source enqueue (fst s) = (db', res) \<Longrightarrow>
    kernel_step E s (db', snd s)"
| reserved: "reserve_side_effect E c i attempt command owner ep expected kind key request (fst s) = (db', res) \<Longrightarrow>
    kernel_step E s (db', snd s)"
| transited: "transition_side_effect E c i k command owner ep expected target operation receipt reference (fst s) = (db', res) \<Longrightarrow>
    kernel_step E s (db', snd s)"
| delivered: "delivery_next E c d p s = (s', p') \<Longrightarrow> kernel_step E s s'"

lemma start_and_call_cases:
  assumes "start_and_call E c i k command owner ep version kind key request s = (s', res)"
  obtains (refused) db' e where
      "transition_side_effect E c i k (command @ '':start'') owner ep version Fx_In_Flight None None None (fst s) = (db', Inl e)"
      "s' = (db', snd s)" "res = Inl e"
  | (called) db1 started where
      "transition_side_effect E c i k (command @ '':start'') owner ep version Fx_In_Flight None None None (fst s) = (db1, Inr started)"
      "snd s' = snd s @ [adapter_request kind key request]" "db_step E db1 (fst s')"
proof -
  obtain db1 r1 where t: "transition_side_effect E c i k (command @ '':start'') owner ep version Fx_In_Flight None None None (fst s)
      = (db1, r1)" by fastforce
  show thesis
  proof (cases r1)
    case (Inl e)
    with assms t show thesis by (intro refused [of db1 e]) (auto simp: start_and_call_def)
  next
    case (Inr started)
    obtain ad where ad: "adapter_execute E kind key request (snd s) = (ad, snd s @ [adapter_request kind key request])"
      by (auto simp: adapter_execute_def Let_def)
    obtain db2 r2 where fin: "finish_effect E c i k command owner ep started ad db1 = (db2, r2)" by fastforce
    have "db_step E db1 db2"
      using fin by (auto simp: finish_effect_def split: sum.splits prod.splits
          intro: db_step.stay dest!: transition_side_effect_step)
    with assms t Inr ad fin show thesis
      by (intro called [of db1 started]) (auto simp: start_and_call_def split: sum.splits intro: db_step.stay)
  qed
qed

lemma execute_effect_cases:
  assumes "execute_deterministic_side_effect E c i attempt command owner ep expected kind key request s = (s', res)"
  obtains (uncalled) "db_step E (fst s) (fst s')" "snd s' = snd s"
  | (proceeds) db1 reserved k v where
      "reserve_side_effect E c i attempt (command @ '':reserve'') owner ep expected kind key request (fst s) = (db1, Inr reserved)"
      "admitted c i reserved db1 = Inr (k, v, None)"
      "start_and_call E c i k command owner ep v kind key request (db1, snd s) = (s', res)"
proof -
  obtain db1 r1 where r: "reserve_side_effect E c i attempt (command @ '':reserve'') owner ep expected kind key request (fst s)
      = (db1, r1)" by fastforce
  have first: "db_step E (fst s) db1" by (rule reserve_side_effect_step [OF r])
  note unfolded = assms [unfolded execute_deterministic_side_effect_def r]
  show thesis
  proof (cases r1)
    case (Inl e)
    with unfolded have "s' = (db1, snd s)" by simp
    with first show thesis by (intro uncalled) simp_all
  next
    case (Inr reserved)
    show thesis
    proof (cases "admitted c i reserved db1")
      case (Inl e)
      with Inr unfolded have "s' = (db1, snd s)" by simp
      with first show thesis by (intro uncalled) simp_all
    next
      case ad: (Inr found)
      obtain k v settled where f: "found = (k, v, settled)" by (cases found)
      show thesis
      proof (cases settled)
        case None
        with Inr unfolded ad f show thesis by (intro proceeds [of db1 reserved k v]) (simp_all add: r)
      next
        case (Some response)
        with Inr unfolded ad f have "s' = (db1, snd s)" by simp
        with first show thesis by (intro uncalled) simp_all
      qed
    qed
  qed
qed

lemma execute_effect_steps:
  assumes "execute_deterministic_side_effect E c i attempt command owner ep expected kind key request s = (s', res)"
  shows "(db_step E)\<^sup>*\<^sup>* (fst s) (fst s')"
  using assms
proof (cases rule: execute_effect_cases)
  case uncalled
  then show ?thesis by blast
next
  case (proceeds db1 reserved k v)
  note one = r_into_rtranclp [of "db_step E", OF reserve_side_effect_step [OF proceeds(1)]]
  from proceeds(3) show ?thesis
  proof (cases rule: start_and_call_cases)
    case (refused db2 e)
    with transition_side_effect_step [OF refused(1)] one show ?thesis by simp
  next
    case (called db2 answer)
    with transition_side_effect_step [OF called(1)] one show ?thesis by (simp add: rtranclp.rtrancl_into_rtrancl)
  qed
qed

lemma on_db_steps:
  assumes "on_db s f = (s', res)" and "\<And>db' res. f (fst s) = (db', res) \<Longrightarrow> db_step E (fst s) db'"
  shows "(db_step E)\<^sup>*\<^sup>* (fst s) (fst s')"
  using assms by (auto simp: on_db_def split: prod.splits)

lemma calling_steps:
  assumes "calling s args f = (s', res)" and "\<And>x. args = Inr x \<Longrightarrow> f x = (s', res) \<Longrightarrow> (db_step E)\<^sup>*\<^sup>* (fst s) (fst s')"
  shows "(db_step E)\<^sup>*\<^sup>* (fst s) (fst s')"
  using assms by (auto simp: calling_def split: sum.splits)

lemma execute_command_steps:
  assumes "execute_command E c i r s = (s', res)"
  shows "(db_step E)\<^sup>*\<^sup>* (fst s) (fst s')"
  using assms
  unfolding execute_command_def checkpoint_command_def retry_command_def revise_command_def completion_command_def
    effect_command_def retry_attempt_def cancel_task_def Let_def
  by (auto split: if_splits prod.splits elim!: calling_steps on_db_steps
      intro: command_steps execute_effect_steps)

lemma delivery_next_step: "delivery_next E c d p s = (s', p') \<Longrightarrow> db_step E (fst s) (fst s')"
  by (cases p)
     (auto simp: adapter_execute_def finish_effect_def Let_def split: prod.splits sum.splits option.splits
       intro: db_step.stay dest: reserve_side_effect_step transition_side_effect_step)

lemma kernel_step_steps: "kernel_step E s s' \<Longrightarrow> (db_step E)\<^sup>*\<^sup>* (fst s) (fst s')"
  by (induction rule: kernel_step.induct)
     (auto dest: execute_command_steps create_task_step start_attempt_step reserve_side_effect_step
       transition_side_effect_step delivery_next_step)

lemma kernel_steps: "(kernel_step E)\<^sup>*\<^sup>* s s' \<Longrightarrow> (db_step E)\<^sup>*\<^sup>* (fst s) (fst s')"
  by (induction rule: rtranclp_induct) (auto dest: kernel_step_steps)

text \<open>What every transaction keeps, every run of the service keeps.\<close>

lemma kernel_invariant:
  assumes "(kernel_step E)\<^sup>*\<^sup>* s s'" and "I (fst s)" and "\<And>db db'. db_step E db db' \<Longrightarrow> I db \<Longrightarrow> I db'"
  shows "I (fst s')"
  using kernel_steps [OF assms(1)] assms(2) by (induction rule: rtranclp_induct) (auto intro: assms(3))

end
