(* ===== verification/Research_Invariants.thy ===== *)
theory Research_Invariants
  imports Research_Steps
begin

text \<open>
  Invariants of the research kernel: how a task row may evolve, the one live attempt of a task, the
  chain of an attempt's checkpoints, the receipts.
\<close>

section \<open>Creation\<close>

lemma insert_execution_tables:
  assumes "insert_execution i x now db = Inr db'"
  shows "kd_tasks db' = kd_tasks db" and "kd_attempts db' = kd_attempts db"
    and "kd_checkpoints db' = kd_checkpoints db" and "kd_results db' = kd_results db"
    and "kd_effects db' = kd_effects db" and "kd_events db' = kd_events db" and "kd_receipts db' = kd_receipts db"
  using assms by (auto simp: insert_execution_def ebind_eq_Inr split: if_splits)

lemma create_task_commit:
  assumes "create_task_body E c command i objective constraints policy parent profile execution hash db = Inr (db', v)"
  obtains goal where "terminal_parent c parent db = Inr ()" and "select_row (kd_tasks db) i = None"
    and "task_becomes db i ((new_task c parent)\<lparr>kt_goal := Some goal\<rparr>) db'"
    and "kd_attempts db' = kd_attempts db" and "kd_checkpoints db' = kd_checkpoints db"
    and "kd_effects db' = kd_effects db" and "records db i command hash v db'" and "logs_grow E db db'"
proof -
  define db0 where "db0 = db\<lparr>kd_tasks := insert_row i (new_task c parent) (kd_tasks db)\<rparr>"
  obtain goal db1 where id: "new_id E ''goal'' db0 = (goal, db1)" by fastforce
  have db1: "kd_tasks db1 = insert_row i (new_task c parent) (kd_tasks db)" "kd_attempts db1 = kd_attempts db"
    "kd_checkpoints db1 = kd_checkpoints db" "kd_effects db1 = kd_effects db" "kd_receipts db1 = kd_receipts db"
    "kd_events db1 = kd_events db"
    using id by (auto simp: db0_def new_id_def)
  from assms obtain goals db3 e k db4 outcome ty response ep now where
      parent: "terminal_parent c parent db = Inr ()" and new: "select_row (kd_tasks db) i = None"
    and exec: "(case execution of
          None \<Rightarrow> Inr (activate_goal c i goal (db1\<lparr>kd_goals := goals\<rparr>))
        | Some x \<Rightarrow> insert_execution i x (cl_now c) (activate_goal c i goal (db1\<lparr>kd_goals := goals\<rparr>))) = Inr db3"
    and ev: "append_event E c e db3 = Inr (k, db4)"
    and cr: "commit_response E i command ty hash outcome response ep now
       (db4\<lparr>kd_goals := update_row goal (\<lambda>g. g\<lparr>kg_event := Some k\<rparr>) (kd_goals db4)\<rparr>) = Inr (db', v)"
    by (auto simp: create_task_body_def ebind_eq_Inr Let_def insert_new_Inr db0_def [symmetric] id)
  have db3: "kd_tasks db3 = kd_tasks (activate_goal c i goal db1)"
    "kd_attempts db3 = kd_attempts db" "kd_checkpoints db3 = kd_checkpoints db" "kd_effects db3 = kd_effects db"
    "kd_receipts db3 = kd_receipts db" "kd_events db3 = kd_events db"
    using exec db1 by (auto simp: insert_execution_tables activate_goal_def split: option.splits)
  note closed = closes_event [OF ev closes_goals [OF closes_receipt [OF cr]]]
  have logs: "logs_grow E db db3" by (rule logs_grow_events) (simp add: db3)
  note result = closes_from [OF closed db3(5) logs]
  have "task_becomes db i ((new_task c parent)\<lparr>kt_goal := Some goal\<rparr>) db'"
    using new by (auto simp: task_becomes_def result db3(1) activate_goal_def db1(1) table_simps new_task_def split: option.splits)
  from that [OF parent new this] result db3 show thesis by simp
qed

section \<open>Task rows\<close>

text \<open>How one transaction may change the row of a task.\<close>

definition task_evolves :: "kernel_task \<Rightarrow> kernel_task \<Rightarrow> bool" where
  "task_evolves t t' \<longleftrightarrow>
     t' = t \<or>
     kt_status t \<noteq> Ts_Terminal \<and> kt_owner_user t' = kt_owner_user t \<and> kt_parent t' = kt_parent t \<and>
     kt_epoch t \<le> kt_epoch t' \<and> kt_version t' = kt_version t + 1"

lemma task_evolves_refl [simp]: "task_evolves t t"
  by (simp add: task_evolves_def)

text \<open>What the commands write into a row leaves its owner and its parent alone.\<close>

lemma commits_evolves:
  assumes "commits E c db i command hash f now v db'" and "select_row (kd_tasks db) j = Some t"
    and "\<And>u. fetch_task c i db = Inr u \<Longrightarrow>
      kt_owner_user (f u) = kt_owner_user u \<and> kt_parent (f u) = kt_parent u \<and> kt_epoch u \<le> kt_epoch (f u)"
  shows "\<exists>t'. select_row (kd_tasks db') j = Some t' \<and> task_evolves t t'"
proof -
  from assms(1) obtain u where u: "fetch_task c i db = Inr u" "kt_status u \<noteq> Ts_Terminal"
      "task_becomes db i (touched f now u) db'"
    by (auto simp: commits_def)
  have "j = i \<Longrightarrow> u = t" using u(1) assms(2) by (simp add: fetch_task_Inr)
  with u(2,3) assms(2) assms(3) [OF u(1)] show ?thesis
    by (cases "j = i") (auto simp: task_becomes_def task_evolves_def touched_def)
qed

lemma db_step_task:
  assumes "db_step E db db'" and "select_row (kd_tasks db) j = Some t"
  shows "\<exists>t'. select_row (kd_tasks db') j = Some t' \<and> task_evolves t t'"
  using assms(1)
proof (cases rule: db_step.cases)
  case stay with assms(2) show ?thesis by auto
next
  case (audit c t i command stored received now k)
  from append_event_tables(1) [OF audit] assms(2) show ?thesis by simp
next
  case (create c command i objective constraints policy parent profile execution v)
  then show ?thesis
  proof (rule create_task_commit)
    fix goal
    assume "select_row (kd_tasks db) i = None" and "task_becomes db i ((new_task c parent)\<lparr>kt_goal := Some goal\<rparr>) db'"
    with assms(2) show ?thesis by (cases "j = i") (simp_all add: task_becomes_def)
  qed
next
  case claim then show ?thesis
    by (rule claim_owner_commit) (erule commits_evolves [OF _ assms(2)], simp)
next
  case renew then show ?thesis
    by (rule renew_owner_commit) (erule commits_evolves [OF _ assms(2)], simp)
next
  case start then show ?thesis
    by (rule start_attempt_commit) (erule commits_evolves [OF _ assms(2)], simp)
next
  case checkpoint then show ?thesis
    by (rule commit_checkpoint_commit) (erule commits_evolves [OF _ assms(2)], simp)
next
  case complete then show ?thesis
    by (rule complete_attempt_commit) (erule commits_evolves [OF _ assms(2)], simp)
next
  case revise then show ?thesis
    by (rule revise_goal_commit) (erule commits_evolves [OF _ assms(2)], simp)
next
  case reserve then show ?thesis
    by (rule reserve_commit) (erule commits_evolves [OF _ assms(2)], simp)
next
  case transit then show ?thesis
    by (rule transition_commit) (erule commits_evolves [OF _ assms(2)], simp)
next
  case recover then show ?thesis
    by (rule recover_commit) (erule commits_evolves [OF _ assms(2)], simp)
next
  case resolve then show ?thesis
    by (rule resolve_commit) (erule commits_evolves [OF _ assms(2)], simp)
qed

lemma db_steps_terminal:
  assumes "(db_step E)\<^sup>*\<^sup>* db db'" and "select_row (kd_tasks db) j = Some t" and "kt_status t = Ts_Terminal"
  shows "select_row (kd_tasks db') j = Some t"
  using assms(1)
proof (induction rule: rtranclp_induct)
  case (step db1 db2)
  from db_step_task [OF step.hyps(2) step.IH] assms(3) show ?case by (auto simp: task_evolves_def)
qed (rule assms(2))

lemma db_step_epoch:
  assumes "db_step E db db'" and "select_row (kd_tasks db) j = Some t"
  shows "\<exists>t'. select_row (kd_tasks db') j = Some t' \<and> kt_epoch t \<le> kt_epoch t'"
  using db_step_task [OF assms] by (auto simp: task_evolves_def)

section \<open>Logs and receipts\<close>

lemma commits_logs: "commits E c db i command hash f now v db' \<Longrightarrow> logs_grow E db db'"
  by (simp add: commits_def)

lemma db_step_logs: "db_step E db db' \<Longrightarrow> logs_grow E db db'"
  by (induction rule: db_step.induct)
     (auto elim!: create_task_commit claim_owner_commit renew_owner_commit start_attempt_commit commit_checkpoint_commit
       complete_attempt_commit revise_goal_commit reserve_commit transition_commit recover_commit resolve_commit
       intro: append_event_logs commits_logs)

lemma db_steps_logs: "(db_step E)\<^sup>*\<^sup>* db db' \<Longrightarrow> logs_grow E db db'"
  by (induction rule: rtranclp_induct) (auto intro: logs_grow_trans db_step_logs)

lemma records_kept:
  assumes "records db i command hash v db'" and "receipt_of db j other = Some r"
  shows "receipt_of db' j other = Some r"
  using assms by (auto simp: records_def receipt_of_def find_append)

lemma commits_kept:
  "commits E c db i command hash f now v db' \<Longrightarrow> receipt_of db j other = Some r \<Longrightarrow> receipt_of db' j other = Some r"
  by (auto simp: commits_def intro: records_kept)

lemma append_event_kept:
  "append_event E c e db = Inr (k, db') \<Longrightarrow> receipt_of db j other = Some r \<Longrightarrow> receipt_of db' j other = Some r"
  using receipt_of_cong [OF append_event_tables(7)] by metis

lemma db_step_receipt: "db_step E db db' \<Longrightarrow> receipt_of db j other = Some r \<Longrightarrow> receipt_of db' j other = Some r"
  by (induction rule: db_step.induct)
     (auto elim!: create_task_commit claim_owner_commit renew_owner_commit start_attempt_commit commit_checkpoint_commit
       complete_attempt_commit revise_goal_commit reserve_commit transition_commit recover_commit resolve_commit
       intro: commits_kept records_kept append_event_kept)

lemma db_steps_receipt:
  "(db_step E)\<^sup>*\<^sup>* db db' \<Longrightarrow> receipt_of db j other = Some r \<Longrightarrow> receipt_of db' j other = Some r"
  by (induction rule: rtranclp_induct) (auto intro: db_step_receipt)

section \<open>Attempts\<close>

definition live :: "kernel_attempt \<Rightarrow> bool" where
  "live a \<longleftrightarrow> ka_status a \<noteq> At_Terminal"

text \<open>
  Every attempt belongs to a task; a live one to an open task, at the epoch of its owner; and a task
  has at most one live attempt.
\<close>

definition attempts_inv :: "research_db \<Rightarrow> bool" where
  "attempts_inv db \<longleftrightarrow>
     keys_distinct (kd_attempts db) \<and>
     (\<forall>k a. select_row (kd_attempts db) k = Some a \<longrightarrow>
        (\<exists>t. select_row (kd_tasks db) (ka_task a) = Some t \<and>
           (live a \<longrightarrow> kt_status t \<noteq> Ts_Terminal \<and> ka_epoch a = kt_epoch t))) \<and>
     (\<forall>k a k' a'. select_row (kd_attempts db) k = Some a \<longrightarrow> select_row (kd_attempts db) k' = Some a' \<longrightarrow>
        live a \<longrightarrow> live a' \<longrightarrow> ka_task a' = ka_task a \<longrightarrow> k' = k)"

lemma no_live_attempts:
  assumes "live_attempts i db = []" and "select_row (kd_attempts db) k = Some a" and "ka_task a = i"
  shows "\<not> live a"
  using assms select_row_mem [OF assms(2)] by (auto simp: live_attempts_def live_def filter_empty_conv)

lemma commits_task:
  assumes "commits E c db i command hash f now v db'"
  obtains t where "fetch_task c i db = Inr t" and "kt_status t \<noteq> Ts_Terminal"
    and "\<forall>j. select_row (kd_tasks db') j = (if j = i then Some (touched f now t) else select_row (kd_tasks db) j)"
  using assms by (auto simp: commits_def task_becomes_def)

lemma touched_simps [simp]:
  "kt_status (touched f now t) = kt_status (f t)" "kt_epoch (touched f now t) = kt_epoch (f t)"
  "kt_result (touched f now t) = kt_result (f t)" "kt_owner (touched f now t) = kt_owner (f t)"
  "kt_lease (touched f now t) = kt_lease (f t)" "kt_version (touched f now t) = kt_version t + 1"
  "kt_owner_user (touched f now t) = kt_owner_user (f t)" "kt_parent (touched f now t) = kt_parent (f t)"
  by (simp_all add: touched_def)

text \<open>A command that leaves the task open and its epoch alone, and the attempts' tasks, epochs and liveness.\<close>

lemma attempts_inv_open:
  assumes "attempts_inv db" and "commits E c db i command hash f now v db'"
    and "\<And>t. kt_status t \<noteq> Ts_Terminal \<Longrightarrow> kt_status (f t) \<noteq> Ts_Terminal"
    and "\<And>t. kt_epoch (f t) = kt_epoch t"
    and "keys_distinct (kd_attempts db')"
    and "\<And>k a'. select_row (kd_attempts db') k = Some a' \<Longrightarrow>
      \<exists>a. select_row (kd_attempts db) k = Some a \<and> ka_task a' = ka_task a \<and> ka_epoch a' = ka_epoch a \<and> live a' = live a"
  shows "attempts_inv db'"
proof -
  from assms(2) obtain t where t: "fetch_task c i db = Inr t" "kt_status t \<noteq> Ts_Terminal"
    and tasks: "\<forall>j. select_row (kd_tasks db') j = (if j = i then Some (touched f now t) else select_row (kd_tasks db) j)"
    by (rule commits_task)
  have "\<exists>t'. select_row (kd_tasks db') (ka_task a') = Some t' \<and>
      (live a' \<longrightarrow> kt_status t' \<noteq> Ts_Terminal \<and> ka_epoch a' = kt_epoch t')"
    if "select_row (kd_attempts db') k = Some a'" for k a'
  proof -
    from assms(6) [OF that] obtain a where a: "select_row (kd_attempts db) k = Some a" "ka_task a' = ka_task a"
        "ka_epoch a' = ka_epoch a" "live a' = live a" by blast
    with assms(1) obtain u where "select_row (kd_tasks db) (ka_task a) = Some u"
        "live a \<longrightarrow> kt_status u \<noteq> Ts_Terminal \<and> ka_epoch a = kt_epoch u"
      unfolding attempts_inv_def by blast
    with t a assms(3,4) show ?thesis by (auto simp: tasks fetch_task_Inr)
  qed
  moreover have "k' = k" if "select_row (kd_attempts db') k = Some a" "select_row (kd_attempts db') k' = Some a'"
    "live a" "live a'" "ka_task a' = ka_task a" for k a k' a'
    using assms(1) assms(6) [OF that(1)] assms(6) [OF that(2)] that(3-5) unfolding attempts_inv_def by metis
  ultimately show ?thesis using assms(5) unfolding attempts_inv_def by blast
qed

lemma attempts_inv_same:
  assumes "attempts_inv db" and "commits E c db i command hash f now v db'" and "kd_attempts db' = kd_attempts db"
    and "\<And>t. kt_status t \<noteq> Ts_Terminal \<Longrightarrow> kt_status (f t) \<noteq> Ts_Terminal"
    and "\<And>t. kt_epoch (f t) = kt_epoch t"
  shows "attempts_inv db'"
  using assms(1) by (intro attempts_inv_open [OF assms(1,2,4,5)]) (auto simp: assms(3) attempts_inv_def)

text \<open>A new running attempt at the task's epoch, when the task has none.\<close>

lemma attempts_inv_insert:
  assumes inv: "attempts_inv db" and com: "commits E c db i command hash f now v db'"
    and "\<And>t. kt_status (f t) = Ts_Running" and "\<And>t. kt_epoch (f t) = kt_epoch t"
    and none: "live_attempts i db = []" and new: "select_row (kd_attempts db) k = None"
    and rows: "kd_attempts db' = insert_row k a (kd_attempts db)"
    and a: "ka_task a = i" "\<And>t. fetch_task c i db = Inr t \<Longrightarrow> ka_epoch a = kt_epoch t"
  shows "attempts_inv db'"
proof -
  from com obtain t where t: "fetch_task c i db = Inr t" "kt_status t \<noteq> Ts_Terminal"
    and tasks: "\<forall>j. select_row (kd_tasks db') j = (if j = i then Some (touched f now t) else select_row (kd_tasks db) j)"
    by (rule commits_task)
  have attempts: "select_row (kd_attempts db') j = (if j = k then Some a else select_row (kd_attempts db) j)" for j
    using new by (auto simp: rows table_simps split: option.splits)
  have owner: "\<exists>t'. select_row (kd_tasks db') (ka_task b) = Some t' \<and>
      (live b \<longrightarrow> kt_status t' \<noteq> Ts_Terminal \<and> ka_epoch b = kt_epoch t')"
    if "select_row (kd_attempts db') j = Some b" for j b
  proof (cases "j = k")
    case True
    with that a t show ?thesis using assms(3,4) by (auto simp: attempts tasks)
  next
    case False
    with that have "select_row (kd_attempts db) j = Some b" by (simp add: attempts)
    with inv obtain u where "select_row (kd_tasks db) (ka_task b) = Some u"
        "live b \<longrightarrow> kt_status u \<noteq> Ts_Terminal \<and> ka_epoch b = kt_epoch u"
      unfolding attempts_inv_def by blast
    with t assms(3,4) show ?thesis by (auto simp: tasks fetch_task_Inr)
  qed
  have "j' = j" if sel: "select_row (kd_attempts db') j = Some b" "select_row (kd_attempts db') j' = Some b'"
    and lv: "live b" "live b'" "ka_task b' = ka_task b" for j b j' b'
  proof (cases "j = k \<or> j' = k")
    case True
    with sel lv a(1) no_live_attempts [OF none] show ?thesis by (auto simp: attempts split: if_splits)
  next
    case False
    with sel inv lv show ?thesis unfolding attempts_inv_def by (metis attempts)
  qed
  moreover have "keys_distinct (kd_attempts db')"
    using inv new by (simp add: rows attempts_inv_def keys_distinct_insert)
  ultimately show ?thesis using owner unfolding attempts_inv_def by blast
qed

lemma attempts_inv_claim:
  assumes inv: "attempts_inv db" and t: "fetch_task c i db = Inr t"
    and com: "commits E c db i command hash (\<lambda>u. u\<lparr>kt_owner := Some owner, kt_epoch := kt_epoch t + 1,
           kt_lease := Some until\<rparr>) now v db'"
    and rows: "kd_attempts db' = update_where (\<lambda>_ a. ka_task a = i \<and> ka_status a \<noteq> At_Terminal)
           (\<lambda>a. a\<lparr>ka_epoch := kt_epoch t + 1\<rparr>) (kd_attempts db)"
  shows "attempts_inv db'"
proof -
  let ?f = "\<lambda>u. u\<lparr>kt_owner := Some owner, kt_epoch := kt_epoch t + 1, kt_lease := Some until\<rparr>"
  from com obtain u where u: "fetch_task c i db = Inr u" "kt_status u \<noteq> Ts_Terminal"
    and tasks: "\<forall>j. select_row (kd_tasks db') j = (if j = i then Some (touched ?f now u) else select_row (kd_tasks db) j)"
    by (rule commits_task)
  have attempts: "select_row (kd_attempts db') k = map_option
      (\<lambda>a. if ka_task a = i \<and> live a then a\<lparr>ka_epoch := kt_epoch t + 1\<rparr> else a) (select_row (kd_attempts db) k)" for k
    by (simp add: rows table_simps live_def)
  have owner: "\<exists>t'. select_row (kd_tasks db') (ka_task b) = Some t' \<and>
      (live b \<longrightarrow> kt_status t' \<noteq> Ts_Terminal \<and> ka_epoch b = kt_epoch t')"
    if "select_row (kd_attempts db') j = Some b" for j b
  proof -
    from that obtain a where a: "select_row (kd_attempts db) j = Some a"
        "b = (if ka_task a = i \<and> live a then a\<lparr>ka_epoch := kt_epoch t + 1\<rparr> else a)"
      by (auto simp: attempts)
    with inv obtain w where "select_row (kd_tasks db) (ka_task a) = Some w"
        "live a \<longrightarrow> kt_status w \<noteq> Ts_Terminal \<and> ka_epoch a = kt_epoch w"
      unfolding attempts_inv_def by blast
    with u a(2) show ?thesis by (auto simp: tasks fetch_task_Inr live_def)
  qed
  have "j' = j" if sel: "select_row (kd_attempts db') j = Some b" "select_row (kd_attempts db') j' = Some b'"
    and lv: "live b" "live b'" "ka_task b' = ka_task b" for j b j' b'
  proof -
    from sel obtain a a' where "select_row (kd_attempts db) j = Some a" "select_row (kd_attempts db) j' = Some a'"
        "ka_task b = ka_task a" "ka_task b' = ka_task a'" "live b = live a" "live b' = live a'"
      by (auto simp: attempts live_def)
    with inv lv show ?thesis unfolding attempts_inv_def by metis
  qed
  moreover have "keys_distinct (kd_attempts db')" using inv by (simp add: rows attempts_inv_def table_simps)
  ultimately show ?thesis using owner unfolding attempts_inv_def by blast
qed

lemma attempts_inv_complete:
  assumes inv: "attempts_inv db" and com: "commits E c db i command hash f now v db'"
    and "\<And>t. kt_epoch (f t) = kt_epoch t"
    and a: "select_row (kd_attempts db) k = Some a" "ka_task a = i" "live a"
    and rows: "kd_attempts db' = update_row k (\<lambda>a. a\<lparr>ka_status := At_Terminal, ka_result := r, ka_ended := w\<rparr>) (kd_attempts db)"
  shows "attempts_inv db'"
proof -
  from com obtain t where t: "fetch_task c i db = Inr t" "kt_status t \<noteq> Ts_Terminal"
    and tasks: "\<forall>j. select_row (kd_tasks db') j = (if j = i then Some (touched f now t) else select_row (kd_tasks db) j)"
    by (rule commits_task)
  have attempts: "select_row (kd_attempts db') j = (if j = k then Some (a\<lparr>ka_status := At_Terminal, ka_result := r, ka_ended := w\<rparr>)
      else select_row (kd_attempts db) j)" for j
    using a(1) by (simp add: rows table_simps)
  have only: "\<not> live b" if "select_row (kd_attempts db') j = Some b" "ka_task b = i" for j b
  proof (cases "j = k")
    case True
    with that show ?thesis by (auto simp: attempts live_def)
  next
    case False
    with that(1) have "select_row (kd_attempts db) j = Some b" by (simp add: attempts)
    with inv that(2) a False show ?thesis unfolding attempts_inv_def by metis
  qed
  have owner: "\<exists>t'. select_row (kd_tasks db') (ka_task b) = Some t' \<and>
      (live b \<longrightarrow> kt_status t' \<noteq> Ts_Terminal \<and> ka_epoch b = kt_epoch t')"
    if sel: "select_row (kd_attempts db') j = Some b" for j b
  proof (cases "ka_task b = i")
    case True
    with only [OF sel] show ?thesis by (simp add: tasks)
  next
    case False
    with sel a(2) have "select_row (kd_attempts db) j = Some b" by (auto simp: attempts split: if_splits)
    with inv False show ?thesis unfolding attempts_inv_def by (simp add: tasks)
  qed
  have "j' = j" if sel: "select_row (kd_attempts db') j = Some b" "select_row (kd_attempts db') j' = Some b'"
    and lv: "live b" "live b'" "ka_task b' = ka_task b" for j b j' b'
  proof -
    have "ka_task b \<noteq> i" "ka_task b' \<noteq> i" using only sel lv by blast+
    with sel a(2) have "select_row (kd_attempts db) j = Some b" "select_row (kd_attempts db) j' = Some b'"
      by (auto simp: attempts split: if_splits)
    with inv lv show ?thesis unfolding attempts_inv_def by metis
  qed
  moreover have "keys_distinct (kd_attempts db')" using inv by (simp add: rows attempts_inv_def table_simps)
  ultimately show ?thesis using owner unfolding attempts_inv_def by blast
qed

lemma new_attempt_simps [simp]:
  "ka_task (new_attempt c i goal ordinal cause parent source ep) = i"
  "ka_epoch (new_attempt c i goal ordinal cause parent source ep) = ep"
  by (simp_all add: new_attempt_def)

lemma fenced_live: "fenced_attempt i ep a = Inr u \<Longrightarrow> ka_task a = i \<and> live a \<and> ka_epoch a = ep"
  by (simp add: fenced_attempt_Inr live_def)

lemma db_step_attempts: "db_step E db db' \<Longrightarrow> attempts_inv db \<Longrightarrow> attempts_inv db'"
proof (induction rule: db_step.induct)
  case (stay db) then show ?case by simp
next
  case (audit c t i command stored received now db k db')
  then show ?case using append_event_tables(1,3) [OF audit(1)] by (simp add: attempts_inv_def)
next
  case (create c command i objective constraints policy parent profile execution db db' v)
  from create(1) show ?case
  proof (rule create_task_commit)
    fix goal
    assume new: "select_row (kd_tasks db) i = None" and tasks: "task_becomes db i ((new_task c parent)\<lparr>kt_goal := Some goal\<rparr>) db'"
      and rows: "kd_attempts db' = kd_attempts db"
    have "ka_task a \<noteq> i" if "select_row (kd_attempts db) k = Some a" for k a
      using create.prems new that unfolding attempts_inv_def by fastforce
    with create.prems tasks show ?thesis unfolding attempts_inv_def rows task_becomes_def by simp
  qed
next
  case claim
  from claim(1) show ?case
    by (rule claim_owner_commit) (erule (1) attempts_inv_claim [OF claim.prems], assumption)
next
  case renew
  from renew(1) show ?case
    by (rule renew_owner_commit) (erule attempts_inv_same [OF renew.prems], simp_all)
next
  case start
  from start(1) show ?case
    by (rule start_attempt_commit)
      (erule attempts_inv_insert [OF start.prems], (assumption | simp add: owner_guards_Inr)+)
next
  case (checkpoint c i attempt command owner ep expected checkpoint state kind db db' v)
  from checkpoint(1) show ?case
  proof (rule commit_checkpoint_commit)
    fix t a k
    assume a: "select_row (kd_attempts db) attempt = Some a" "fenced_attempt i ep a = Inr ()"
      and com: "commits E c db i command (research_hash E (checkpoint_payload attempt owner ep expected checkpoint state kind))
           (\<lambda>u. u\<lparr>kt_status := (if kind = Resumed_Attempt then Ts_Running else kt_status u)\<rparr>) (cl_now c) v db'"
      and rows: "kd_attempts db' = kd_attempts (resume_status kind attempt db)"
    have "live a" using a(2) by (auto dest: fenced_live)
    then have "\<exists>b. select_row (kd_attempts db) j = Some b \<and> ka_task b' = ka_task b \<and> ka_epoch b' = ka_epoch b \<and> live b' = live b"
      if "select_row (kd_attempts db') j = Some b'" for j b'
      using a(1) that by (auto simp: rows resume_status_def table_simps live_def split: checkpoint_kind.splits if_splits)
    moreover have "keys_distinct (kd_attempts db')"
      using checkpoint.prems by (auto simp: rows resume_status_def table_simps attempts_inv_def split: checkpoint_kind.splits)
    ultimately show ?thesis by (intro attempts_inv_open [OF checkpoint.prems com]) simp_all
  qed
next
  case complete
  from complete(1) show ?case
    by (rule complete_attempt_commit)
      (erule attempts_inv_complete [OF complete.prems], (assumption | simp | blast dest: fenced_live)+)
next
  case revise
  from revise(1) show ?case
    by (rule revise_goal_commit)
      (erule attempts_inv_insert [OF revise.prems], (assumption | simp add: owner_guards_Inr)+)
next
  case reserve
  from reserve(1) show ?case
    by (rule reserve_commit) (erule attempts_inv_same [OF reserve.prems], simp_all)
next
  case transit
  from transit(1) show ?case
    by (rule transition_commit) (erule attempts_inv_same [OF transit.prems], simp_all)
next
  case recover
  from recover(1) show ?case
    by (rule recover_commit) (erule attempts_inv_same [OF recover.prems], simp_all)
next
  case resolve
  from resolve(1) show ?case
    by (rule resolve_commit) (erule attempts_inv_same [OF resolve.prems], simp_all)
qed

end
