(* ===== verification/Research_Delivery.thy ===== *)
theory Research_Delivery
  imports Research_Invariants
begin

text \<open>
  Deliveries of a command request: the kinds that act under an owner fence reduce to one transaction
  framed by \<open>run_command\<close>, whose payload hash does not depend on the clock or the state. From this
  follow replays of a request and the fence against an owner that has been superseded, the latter
  through the lease contract of \<open>Coordination_Interfaces\<close>.
\<close>

section \<open>Requests under a fence\<close>

definition fenced_kinds :: "string set" where
  "fenced_kinds = {''renew_owner'', ''start_attempt'', ''checkpoint'', ''complete_attempt'', ''complete_task'', ''cancel'',
     ''recover_effects'', ''resolve_effect''}"

text \<open>
  A body that returns has found its task open, at the caller's epoch, version and lease, and has
  recorded a receipt with its answer.
\<close>

definition fenced_body ::
  "research_call \<Rightarrow> string \<Rightarrow> string \<Rightarrow> string \<Rightarrow> string \<Rightarrow> int \<Rightarrow> int
    \<Rightarrow> (research_db \<Rightarrow> (research_db \<times> json) result) \<Rightarrow> bool"
where
  "fenced_body c i command hash owner ep expected body \<longleftrightarrow>
     (\<forall>db db' v. body db = Inr (db', v) \<longrightarrow>
        (\<exists>t. fetch_task c i db = Inr t \<and> owner_guards c t owner ep expected = Inr ()) \<and>
        records db i command hash v db' \<and> truthy v)"

definition fenced_request :: "research_env \<Rightarrow> string \<Rightarrow> command_request \<Rightarrow> string \<Rightarrow> string \<Rightarrow> int \<Rightarrow> bool" where
  "fenced_request E i r hash owner ep \<longleftrightarrow>
     kq_owner r = Some owner \<and> kq_epoch r = Some ep \<and>
     (\<forall>c s. \<exists>body. fenced_body c i (kq_command r) hash owner ep (the (kq_expected r)) body \<and>
        execute_command E c i r s = on_db s (run_command E c i (kq_command r) hash (Some owner) (Some ep) body))"

lemma required_fence_cases:
  obtains (refused) e where "required_fence r = Inl e"
  | (fence) owner ep expected where "required_fence r = Inr (owner, ep, expected)" "kq_owner r = Some owner"
      "kq_epoch r = Some ep" "kq_expected r = Some expected"
proof (cases "required_fence r")
  case (Inr f)
  obtain owner ep expected where f: "f = (owner, ep, expected)" by (cases f)
  from Inr have "kq_owner r = Some owner" "kq_epoch r = Some ep" "kq_expected r = Some expected"
    by (auto simp: f required_fence_def ebind_eq_Inr required_text_def required_int_def split: option.splits if_splits)
  with Inr f show thesis by (intro fence) simp_all
qed (rule refused)

lemma fenced_bodyI:
  assumes "\<And>db db' v. body db = Inr (db', v) \<Longrightarrow>
      \<exists>t f now. fetch_task c i db = Inr t \<and> owner_guards c t owner ep expected = Inr () \<and>
        commits E c db i command hash f now v db'"
    and "\<And>db db' v. body db = Inr (db', v) \<Longrightarrow> truthy v"
  shows "fenced_body c i command hash owner ep expected body"
  unfolding fenced_body_def using assms by (metis commits_def)

lemma fenced_body_renew:
  "fenced_body c i command hash owner ep expected (renew_owner_body E c i command owner ep expected seconds hash)"
proof (rule fenced_bodyI [where E = E])
  fix db db' v assume body: "renew_owner_body E c i command owner ep expected seconds hash db = Inr (db', v)"
  then show "\<exists>t f now. fetch_task c i db = Inr t \<and> owner_guards c t owner ep expected = Inr () \<and>
      commits E c db i command hash f now v db'" by (rule renew_owner_commit) blast
  from body show "truthy v" by (auto simp: renew_owner_body_def ebind_eq_Inr Let_def elim!: commit_response_Inr)
qed

lemma fenced_body_start:
  "fenced_body c i command hash owner ep expected (start_attempt_body E c i command owner ep expected cause parent source enqueue hash)"
proof (rule fenced_bodyI [where E = E])
  fix db db' v assume body: "start_attempt_body E c i command owner ep expected cause parent source enqueue hash db = Inr (db', v)"
  then show "\<exists>t f now. fetch_task c i db = Inr t \<and> owner_guards c t owner ep expected = Inr () \<and>
      commits E c db i command hash f now v db'" by (rule start_attempt_commit) blast
  from body show "truthy v"
    by (auto simp: start_attempt_body_def ebind_eq_Inr Let_def new_id_def elim!: commit_response_Inr split: if_splits)
qed

lemma fenced_body_checkpoint:
  "fenced_body c i command hash owner ep expected
     (commit_checkpoint_body E c i attempt command owner ep expected checkpoint state kind hash)"
proof (rule fenced_bodyI [where E = E])
  fix db db' v assume body: "commit_checkpoint_body E c i attempt command owner ep expected checkpoint state kind hash db = Inr (db', v)"
  then show "\<exists>t f now. fetch_task c i db = Inr t \<and> owner_guards c t owner ep expected = Inr () \<and>
      commits E c db i command hash f now v db'" by (rule commit_checkpoint_commit) blast
  from body show "truthy v"
    by (auto simp: commit_checkpoint_body_def ebind_eq_Inr Let_def new_id_def elim!: commit_response_Inr split: if_splits)
qed

lemma fenced_body_complete:
  "fenced_body c i command hash owner ep expected (complete_attempt_body E c i attempt command owner ep expected answer
     termination failure detail terminal next_status checkpoint hash)"
proof (rule fenced_bodyI [where E = E])
  fix db db' v assume body: "complete_attempt_body E c i attempt command owner ep expected answer
     termination failure detail terminal next_status checkpoint hash db = Inr (db', v)"
  then show "\<exists>t f now. fetch_task c i db = Inr t \<and> owner_guards c t owner ep expected = Inr () \<and>
      commits E c db i command hash f now v db'" by (rule complete_attempt_commit) blast
  from body show "truthy v"
    by (auto simp: complete_attempt_body_def ebind_eq_Inr Let_def new_id_def elim!: commit_response_Inr split: if_splits)
qed

lemma fenced_body_recover:
  "fenced_body c i command hash owner ep expected (recover_body E c i command owner ep expected hash)"
proof (rule fenced_bodyI [where E = E])
  fix db db' v assume body: "recover_body E c i command owner ep expected hash db = Inr (db', v)"
  then show "\<exists>t f now. fetch_task c i db = Inr t \<and> owner_guards c t owner ep expected = Inr () \<and>
      commits E c db i command hash f now v db'" by (rule recover_commit) blast
  from body show "truthy v" by (auto simp: recover_body_def ebind_eq_Inr Let_def elim!: commit_response_Inr)
qed

lemma fenced_body_resolve:
  "fenced_body c i command hash owner ep expected (resolve_body E c i k command owner ep expected verdict hash)"
proof (rule fenced_bodyI [where E = E])
  fix db db' v assume body: "resolve_body E c i k command owner ep expected verdict hash db = Inr (db', v)"
  then show "\<exists>t f now. fetch_task c i db = Inr t \<and> owner_guards c t owner ep expected = Inr () \<and>
      commits E c db i command hash f now v db'" by (rule resolve_commit) blast
  from body show "truthy v"
    by (auto simp: resolve_body_def ebind_eq_Inr Let_def elim!: commit_response_Inr split: if_splits)
qed

lemma fenced_requestI:
  assumes "kq_owner r = Some owner" and "kq_epoch r = Some ep" and "kq_expected r = Some expected"
    and "\<And>c s. execute_command E c i r s = on_db s (run_command E c i (kq_command r) hash (Some owner) (Some ep) (body c))"
    and "\<And>c. fenced_body c i (kq_command r) hash owner ep expected (body c)"
  shows "fenced_request E i r hash owner ep"
  unfolding fenced_request_def using assms by (metis option.sel)

lemma member_cases:
  "x \<in> {a, b, c, d, e, f, g, h} \<Longrightarrow> (x = a \<Longrightarrow> P) \<Longrightarrow> (x = b \<Longrightarrow> P) \<Longrightarrow> (x = c \<Longrightarrow> P) \<Longrightarrow>
    (x \<in> {d, e, f} \<Longrightarrow> P) \<Longrightarrow> (x = g \<Longrightarrow> P) \<Longrightarrow> (x = h \<Longrightarrow> P) \<Longrightarrow> P"
  by blast

lemma fenced_kind_cases:
  assumes "kind \<in> fenced_kinds"
  obtains "kind = ''renew_owner''" | "kind = ''start_attempt''" | "kind = ''checkpoint''"
    | "kind \<in> {''complete_attempt'', ''complete_task'', ''cancel''}" | "kind = ''recover_effects''"
    | "kind = ''resolve_effect''"
  by (rule member_cases [OF assms [unfolded fenced_kinds_def] that]) assumption+

lemmas command_unfolds = execute_command_def checkpoint_command_def completion_command_def calling_def Let_def

lemma unfenced_refused:
  assumes "kq_kind r \<in> fenced_kinds" and refused: "required_fence r = Inl e"
  shows "\<exists>e. \<forall>c s. execute_command E c i r s = (s, Inl e)"
  using assms(1)
proof (cases rule: fenced_kind_cases)
  case 1
  then show ?thesis by (simp add: command_unfolds refused)
next
  case 2
  then show ?thesis by (cases "kq_cause r \<in> {Ca_Initial, Ca_Branch, Ca_Replay}") (simp_all add: command_unfolds refused)
next
  case 3
  then show ?thesis by (cases "required_text (kq_attempt r)") (simp_all add: command_unfolds refused)
next
  case 4
  then have "execute_command E c i r s = completion_command E c i r s" for c s by (auto simp: execute_command_def)
  then show ?thesis
    by (cases "required_text (kq_attempt r)") (simp_all add: completion_command_def calling_def refused)
next
  case 5
  then show ?thesis by (simp add: command_unfolds refused)
next
  case 6
  then show ?thesis by (cases "required_text (kq_effect r)") (simp_all add: command_unfolds refused)
qed

text \<open>A request of one of these kinds is refused for a missing field, or is a fenced transaction.\<close>

lemma fenced_command:
  assumes "kq_kind r \<in> fenced_kinds"
  shows "(\<exists>e. \<forall>c s. execute_command E c i r s = (s, Inl e)) \<or> (\<exists>hash owner ep. fenced_request E i r hash owner ep)"
proof (cases r rule: required_fence_cases)
  case (refused e)
  from unfenced_refused [OF assms refused] show ?thesis by (rule disjI1)
next
  case (fence owner ep expected)
  note simps = fence(1) command_unfolds
  note intro = fenced_requestI [OF fence(2,3,4)]
  from assms show ?thesis
  proof (cases rule: fenced_kind_cases)
    case 1
    then show ?thesis
    proof (cases "valid_lease (kq_lease_seconds r)")
      case True
      have "fenced_request E i r (research_hash E (renew_payload owner ep expected (kq_lease_seconds r))) owner ep"
        by (rule intro [OF _ fenced_body_renew]) (simp add: simps 1 renew_owner_def True on_db_def)
      then show ?thesis by blast
    qed (auto simp: simps renew_owner_def on_db_def)
  next
    case 2
    then show ?thesis
    proof (cases "kq_cause r \<in> {Ca_Initial, Ca_Branch, Ca_Replay}")
      case True
      have "fenced_request E i r (research_hash E (start_payload owner ep expected (kq_cause r) (kq_parent_attempt r)
          (kq_source r) None)) owner ep"
        by (rule intro [OF _ fenced_body_start]) (use True in \<open>auto simp: simps 2 start_attempt_def on_db_def\<close>)
      then show ?thesis by blast
    qed (auto simp: simps)
  next
    case 3
    then show ?thesis
    proof (cases "required_text (kq_attempt r)")
      case (Inr attempt)
      have "fenced_request E i r (research_hash E (checkpoint_payload attempt owner ep expected (kq_checkpoint r)
          (kq_state r) Committed_Checkpoint)) owner ep"
        by (rule intro [OF _ fenced_body_checkpoint]) (simp add: simps 3 Inr commit_checkpoint_def on_db_def)
      then show ?thesis by blast
    qed (auto simp: simps)
  next
    case 4
    then have completion: "execute_command E c i r s = completion_command E c i r s" for c s
      by (auto simp: execute_command_def)
    show ?thesis
    proof (cases "required_text (kq_attempt r)")
      case (Inl e)
      then show ?thesis by (simp add: completion completion_command_def calling_def)
    next
      case (Inr attempt)
      show ?thesis
      proof (cases "kq_kind r = ''cancel''")
        case True
        have "fenced_request E i r (research_hash E (complete_payload attempt owner ep expected Aw_Not_Produced Rt_Cancelled
            Fc_None (if kq_detail r = [] then ''cancel requested'' else kq_detail r) True Ts_Blocked None)) owner ep"
          by (rule intro [OF _ fenced_body_complete])
            (simp add: completion completion_command_def calling_def fence(1) True Inr cancel_task_def complete_attempt_def
              on_db_def Let_def)
        then show ?thesis by blast
      next
        case False
        have "fenced_request E i r (research_hash E (complete_payload attempt owner ep expected (kq_answer r)
            (kq_termination r) (kq_failure r) (kq_detail r) (kq_kind r = ''complete_task'') (kq_next_status r)
            (kq_checkpoint r))) owner ep"
          by (rule intro [OF _ fenced_body_complete])
            (simp add: completion completion_command_def calling_def fence(1) False Inr complete_attempt_def on_db_def Let_def)
        then show ?thesis by blast
      qed
    qed
  next
    case 5
    have "fenced_request E i r (research_hash E (recover_payload owner ep expected)) owner ep"
      by (rule intro [OF _ fenced_body_recover]) (simp add: simps 5 recover_in_flight_def on_db_def)
    then show ?thesis by blast
  next
    case 6
    show ?thesis
    proof (cases "required_text (kq_effect r)")
      case (Inl e)
      with 6 show ?thesis by (auto simp: simps)
    next
      case (Inr k)
      show ?thesis
      proof (cases "kq_verdict r \<in> {''succeeded'', ''failed''}")
        case True
        have "fenced_request E i r (research_hash E (resolve_payload k owner ep expected (kq_verdict r))) owner ep"
          by (rule intro [OF _ fenced_body_resolve])
            (use True in \<open>auto simp: simps 6 Inr resolve_unknown_side_effect_def on_db_def\<close>)
        then show ?thesis by blast
      qed (use 6 in \<open>auto simp: simps Inr resolve_unknown_side_effect_def on_db_def\<close>)
    qed
  qed
qed

section \<open>Replays\<close>

text \<open>What \<open>_existing_receipt\<close> asks of the caller of a fenced command.\<close>

definition fence_holds :: "research_call \<Rightarrow> string \<Rightarrow> string \<Rightarrow> int \<Rightarrow> research_db \<Rightarrow> bool" where
  "fence_holds c i owner ep db \<longleftrightarrow> (\<exists>t. fetch_task c i db = Inr t \<and> assert_owner c t owner ep = Inr ())"

lemma run_command_replay:
  assumes "receipt_of db i command = Some r" and "kx_hash r = hash"
  shows "fst (run_command E c i command hash (Some owner) (Some ep) body db) = db"
    and "fence_holds c i owner ep db \<Longrightarrow>
      run_command E c i command hash (Some owner) (Some ep) body db = (db, Inr (receipt_response r))"
    and "\<not> fence_holds c i owner ep db \<Longrightarrow> isl (snd (run_command E c i command hash (Some owner) (Some ep) body db))"
  using assms
  by (cases "fetch_task c i db"; cases "assert_owner c (projr (fetch_task c i db)) owner ep";
      simp add: run_command_def existing_receipt_def fence_holds_def)+

lemma records_receipt:
  assumes "records db i command hash v db'" and "truthy v"
  obtains r where "receipt_of db' i command = Some r" and "kx_hash r = hash" and "receipt_response r = v"
  using assms by (auto simp: records_def receipt_of_def find_append receipt_response_def)

lemma fenced_command_receipt:
  assumes "run_command E c i command hash (Some owner) (Some ep) body db = (db', Inr v)"
    and "fenced_body c i command hash owner ep expected body"
  obtains r where "receipt_of db' i command = Some r" and "kx_hash r = hash" and "receipt_response r = v"
  using assms(1)
proof (cases rule: run_command_cases)
  case replayed
  then show thesis by (intro that) simp_all
next
  case (committed w)
  with assms(2) have "records db i command hash v db'" "truthy v" unfolding fenced_body_def by auto
  then show thesis by (rule records_receipt) (rule that)
qed simp_all

lemma execute_command_replayed:
  assumes kind: "kq_kind r \<in> fenced_kinds" and first: "execute_command E c i r s = (s1, Inr v)"
    and steps: "(kernel_step E)\<^sup>*\<^sup>* s1 s2" and again: "execute_command E c' i r s2 = (s3, res)"
  shows "s3 = s2 \<and> (if fence_holds c' i (the (kq_owner r)) (the (kq_epoch r)) (fst s2) then res = Inr v else isl res)"
proof -
  from fenced_command [OF kind, of E i] first obtain hash owner ep where req: "fenced_request E i r hash owner ep"
    by fastforce
  from req obtain body where body: "fenced_body c i (kq_command r) hash owner ep (the (kq_expected r)) body"
      "execute_command E c i r s = on_db s (run_command E c i (kq_command r) hash (Some owner) (Some ep) body)"
    unfolding fenced_request_def by blast
  from req obtain body' where
      body': "execute_command E c' i r s2 = on_db s2 (run_command E c' i (kq_command r) hash (Some owner) (Some ep) body')"
    unfolding fenced_request_def by blast
  have "run_command E c i (kq_command r) hash (Some owner) (Some ep) body (fst s) = (fst s1, Inr v)"
    using first unfolding body(2) by (auto simp: on_db_def split: prod.splits)
  from this body(1) obtain rc where rc: "receipt_of (fst s1) i (kq_command r) = Some rc" "kx_hash rc = hash"
      "receipt_response rc = v" by (rule fenced_command_receipt)
  have "receipt_of (fst s2) i (kq_command r) = Some rc"
    by (rule db_steps_receipt [OF kernel_steps [OF steps] rc(1)])
  note replay = run_command_replay [OF this rc(2), where E = E and c = c' and owner = owner and ep = ep and body = body']
  have owner: "the (kq_owner r) = owner" "the (kq_epoch r) = ep" using req by (simp_all add: fenced_request_def)
  show ?thesis
    using again replay unfolding body' owner rc(3)
    by (cases "run_command E c' i (kq_command r) hash (Some owner) (Some ep) body' (fst s2)")
       (cases s2, auto simp: on_db_def)
qed

section \<open>Superseded owners\<close>

lemma run_command_fenced:
  assumes "fenced_body c i command hash owner ep expected body" and "\<not> fence_holds c i owner ep db"
  shows "fst (run_command E c i command hash (Some owner) (Some ep) body db) = db \<and>
    isl (snd (run_command E c i command hash (Some owner) (Some ep) body db))"
proof -
  obtain db' res where run: "run_command E c i command hash (Some owner) (Some ep) body db = (db', res)" by fastforce
  show ?thesis
  proof (cases "existing_receipt E c i command hash (Some owner) (Some ep) db")
    case (Inl e)
    then show ?thesis by (simp add: run_command_def)
  next
    case (Inr found)
    then show ?thesis
    proof (cases rule: existing_receipt_Inr)
      case (missing t)
      have "isl (body db)"
      proof (cases "body db")
        case (Inr x)
        obtain db1 v where "x = (db1, v)" by (cases x)
        with Inr assms(1) obtain u where "fetch_task c i db = Inr u" "owner_guards c u owner ep expected = Inr ()"
          unfolding fenced_body_def by blast
        with assms(2) show ?thesis by (auto simp: fence_holds_def owner_guards_Inr assert_owner_Inr)
      qed simp
      with Inr missing show ?thesis by (auto simp: run_command_def transaction_def split: sum.splits)
    next
      case (replayed t r)
      with assms(2) show ?thesis by (auto simp: fence_holds_def)
    next
      case (mismatched t r k db1)
      with assms(2) show ?thesis by (auto simp: fence_holds_def)
    qed
  qed
qed

lemma execute_command_fenced:
  assumes kind: "kq_kind r \<in> fenced_kinds" and lost: "\<not> fence_holds c i (the (kq_owner r)) (the (kq_epoch r)) (fst s)"
    and run: "execute_command E c i r s = (s', res)"
  shows "s' = s \<and> isl res"
proof (cases "\<exists>e. \<forall>c s. execute_command E c i r s = (s, Inl e)")
  case True
  with run show ?thesis by auto
next
  case False
  with fenced_command [OF kind, of E i] obtain hash owner ep where req: "fenced_request E i r hash owner ep" by blast
  from req obtain body where body: "fenced_body c i (kq_command r) hash owner ep (the (kq_expected r)) body"
      "execute_command E c i r s = on_db s (run_command E c i (kq_command r) hash (Some owner) (Some ep) body)"
    unfolding fenced_request_def by blast
  have "\<not> fence_holds c i owner ep (fst s)" using lost req by (simp add: fenced_request_def)
  from run_command_fenced [OF body(1) this, of E] run show ?thesis
    unfolding body(2) by (cases s) (auto simp: on_db_def split: prod.splits)
qed

end
