(* ===== verification/Research_Lineage.thy ===== *)
theory Research_Lineage
  imports Research_Invariants
begin

text \<open>
  The checkpoints of an attempt form one chain: numbered from 1 without a gap, each the parent of the
  next, and \<open>checkpoint_lineage\<close> walks it back to the first.
\<close>

section \<open>Chains\<close>

definition rows_of :: "string \<Rightarrow> (string, kernel_checkpoint) table \<Rightarrow> (string \<times> kernel_checkpoint) list" where
  "rows_of attempt ts = filter (\<lambda>(_, k). kc_attempt k = attempt) ts"

definition last_key :: "(string \<times> kernel_checkpoint) list \<Rightarrow> string option" where
  "last_key xs = (if xs = [] then None else Some (fst (last xs)))"

definition chained :: "(string \<times> kernel_checkpoint) list \<Rightarrow> bool" where
  "chained xs \<longleftrightarrow> gapless (map (kc_sequence \<circ> snd) xs) \<and>
     (\<forall>n < length xs. kc_parent (snd (xs ! n)) = last_key (take n xs))"

lemma chained_Nil [simp]: "chained []"
  by (simp add: chained_def)

lemma chained_snoc:
  assumes "chained xs" and "kc_sequence r = int (length xs) + 1" and "kc_parent r = last_key xs"
  shows "chained (xs @ [(k, r)])"
proof -
  have g: "gapless (map (kc_sequence \<circ> snd) xs)" using assms(1) by (simp add: chained_def)
  from gapless_append [OF g] gapless_next [OF g] assms(2)
  have "gapless (map (kc_sequence \<circ> snd) (xs @ [(k, r)]))" by simp
  with assms(1,3) show ?thesis by (auto simp: chained_def nth_append less_Suc_eq)
qed

lemma chained_sequence:
  assumes "chained xs" and "n < length xs"
  shows "kc_sequence (snd (xs ! n)) = int n + 1"
proof -
  have "map (kc_sequence \<circ> snd) xs ! n = map int [1..<Suc (length xs)] ! n"
    using assms(1) by (simp add: chained_def gapless_def del: upt_Suc)
  with assms(2) show ?thesis by (simp del: upt_Suc)
qed

lemma chained_sorted: "chained xs \<Longrightarrow> sort_key (kc_sequence \<circ> snd) xs = xs"
proof (rule sort_key_id_if_sorted)
  assume "chained xs"
  then have "map (kc_sequence \<circ> snd) xs = map int [1..<Suc (length xs)]"
    by (simp add: chained_def gapless_def del: upt_Suc)
  moreover have "sorted (map int [1..<Suc (length xs)])" by (simp add: sorted_iff_nth_mono del: upt_Suc)
  ultimately show "sorted (map (kc_sequence \<circ> snd) xs)" by (simp only:)
qed

lemma latest_of_chain:
  assumes "chained (rows_of attempt (kd_checkpoints db))"
  shows "latest_checkpoint attempt db =
    (if rows_of attempt (kd_checkpoints db) = [] then None else Some (last (rows_of attempt (kd_checkpoints db))))"
proof -
  have "sort_key (kc_sequence \<circ> snd) (filter (\<lambda>(_, k). kc_attempt k = attempt) (kd_checkpoints db)) =
      rows_of attempt (kd_checkpoints db)"
    using chained_sorted [OF assms] by (simp add: rows_of_def)
  then show ?thesis
    by (cases "rows_of attempt (kd_checkpoints db)" rule: rev_cases) (simp_all add: latest_checkpoint_def)
qed

section \<open>The invariant\<close>

definition checkpoints_inv :: "research_db \<Rightarrow> bool" where
  "checkpoints_inv db \<longleftrightarrow>
     keys_distinct (kd_checkpoints db) \<and>
     (\<forall>attempt. chained (rows_of attempt (kd_checkpoints db))) \<and>
     (\<forall>k r. select_row (kd_checkpoints db) k = Some r \<longrightarrow>
        (\<exists>a. select_row (kd_attempts db) (kc_attempt r) = Some a \<and> ka_task a = kc_task r))"

lemma checkpoints_inv_same:
  assumes "checkpoints_inv db" and "kd_checkpoints db' = kd_checkpoints db"
    and "\<And>k a. select_row (kd_attempts db) k = Some a \<Longrightarrow>
      \<exists>a'. select_row (kd_attempts db') k = Some a' \<and> ka_task a' = ka_task a"
  shows "checkpoints_inv db'"
  using assms(1) unfolding checkpoints_inv_def assms(2) by (metis assms(3))

lemma checkpoints_inv_insert:
  assumes inv: "checkpoints_inv db" and new: "select_row (kd_checkpoints db) k = None"
    and a: "select_row (kd_attempts db) attempt = Some a" "ka_task a = i"
    and latest: "map_option fst (latest_checkpoint attempt db) = parent"
    and rows: "kd_checkpoints db' = insert_row k (new_checkpoint E c i attempt b parent
           (case latest_checkpoint attempt db of None \<Rightarrow> 1 | Some (_, r) \<Rightarrow> kc_sequence r + 1) state ep) (kd_checkpoints db)"
    and attempts: "\<And>k a. select_row (kd_attempts db) k = Some a \<Longrightarrow>
      \<exists>a'. select_row (kd_attempts db') k = Some a' \<and> ka_task a' = ka_task a"
  shows "checkpoints_inv db'"
proof -
  let ?xs = "rows_of attempt (kd_checkpoints db)"
  define r where "r = new_checkpoint E c i attempt b parent
           (case latest_checkpoint attempt db of None \<Rightarrow> 1 | Some (_, r) \<Rightarrow> kc_sequence r + 1) state ep"
  have ch: "chained ?xs" using inv by (simp add: checkpoints_inv_def)
  note last = latest_of_chain [OF ch]
  have parent: "kc_parent r = last_key ?xs" using latest by (auto simp: r_def new_checkpoint_def last last_key_def)
  have sequence: "kc_sequence r = int (length ?xs) + 1"
  proof (cases "?xs = []")
    case False
    then have "last ?xs = ?xs ! (length ?xs - 1)" by (rule last_conv_nth)
    moreover have "kc_sequence (snd (?xs ! (length ?xs - 1))) = int (length ?xs)"
      using chained_sequence [OF ch, of "length ?xs - 1"] False by (cases ?xs) simp_all
    ultimately show ?thesis using False by (simp add: r_def new_checkpoint_def last split: prod.splits) (metis snd_conv)
  qed (simp add: r_def new_checkpoint_def last)
  have "rows_of w (kd_checkpoints db') = rows_of w (kd_checkpoints db) @ (if w = attempt then [(k, r)] else [])" for w
    by (auto simp: rows rows_of_def insert_row_def r_def new_checkpoint_def)
  then have "chained (rows_of w (kd_checkpoints db'))" for w
    using inv chained_snoc [OF ch sequence parent] by (auto simp: checkpoints_inv_def)
  moreover have "keys_distinct (kd_checkpoints db')"
    using inv new by (simp add: rows checkpoints_inv_def keys_distinct_insert)
  moreover have "\<exists>a. select_row (kd_attempts db') (kc_attempt q) = Some a \<and> ka_task a = kc_task q"
    if "select_row (kd_checkpoints db') j = Some q" for j q
  proof (cases "j = k")
    case True
    with that new have "q = r" by (simp add: rows table_simps r_def)
    with attempts [OF a(1)] a(2) show ?thesis by (auto simp: r_def new_checkpoint_def)
  next
    case False
    with that have "select_row (kd_checkpoints db) j = Some q" by (auto simp: rows table_simps split: option.splits)
    with inv attempts show ?thesis unfolding checkpoints_inv_def by metis
  qed
  ultimately show ?thesis unfolding checkpoints_inv_def by blast
qed

lemma update_row_keeps_task:
  assumes "select_row ts k = Some a" and "\<And>b. ka_task (f b) = ka_task b"
  shows "\<exists>a'. select_row (update_row j f ts) k = Some a' \<and> ka_task a' = ka_task a"
  using assms by (cases "k = j") (simp_all add: table_simps)

lemma insert_row_keeps_task:
  assumes "select_row ts k = Some a"
  shows "\<exists>a'. select_row (insert_row j b ts) k = Some a' \<and> ka_task a' = ka_task a"
  using assms by (simp add: table_simps)

lemma update_where_keeps_task:
  assumes "select_row ts k = Some a" and "\<And>b. ka_task (f b) = ka_task b"
  shows "\<exists>a'. select_row (update_where P f ts) k = Some a' \<and> ka_task a' = ka_task a"
  using assms by (simp add: table_simps)

lemmas keeps_task = update_row_keeps_task insert_row_keeps_task update_where_keeps_task

lemma db_step_checkpoints: "db_step E db db' \<Longrightarrow> checkpoints_inv db \<Longrightarrow> checkpoints_inv db'"
proof (induction rule: db_step.induct)
  case (stay db) then show ?case by simp
next
  case (audit c t i command stored received now db k db')
  then show ?case using append_event_tables(3,4) [OF audit(1)] by (simp add: checkpoints_inv_def)
next
  case create
  from create(1) show ?case
    by (rule create_task_commit) (rule checkpoints_inv_same [OF create.prems], simp_all)
next
  case claim
  from claim(1) show ?case
    by (rule claim_owner_commit) (rule checkpoints_inv_same [OF claim.prems], assumption, simp add: keeps_task)
next
  case renew
  from renew(1) show ?case
    by (rule renew_owner_commit) (rule checkpoints_inv_same [OF renew.prems], simp_all)
next
  case start
  from start(1) show ?case
    by (rule start_attempt_commit) (rule checkpoints_inv_same [OF start.prems], assumption, simp add: keeps_task)
next
  case (checkpoint c i attempt command owner ep expected checkpoint state kind db db' v)
  from checkpoint(1) show ?case
  proof (rule commit_checkpoint_commit)
    fix t a k
    assume a: "select_row (kd_attempts db) attempt = Some a" "fenced_attempt i ep a = Inr ()"
      and latest: "map_option fst (latest_checkpoint attempt db) = checkpoint"
      and attempts: "kd_attempts db' = kd_attempts (resume_status kind attempt db)"
      and new: "select_row (kd_checkpoints db) k = None"
      and rows: "kd_checkpoints db' = insert_row k (new_checkpoint E c i attempt a checkpoint
           (case latest_checkpoint attempt db of None \<Rightarrow> 1 | Some (_, r) \<Rightarrow> kc_sequence r + 1) state ep) (kd_checkpoints db)"
    have "ka_task a = i" using a(2) by (auto dest: fenced_live)
    moreover have "\<exists>b'. select_row (kd_attempts db') j = Some b' \<and> ka_task b' = ka_task b"
      if "select_row (kd_attempts db) j = Some b" for j b
      using that by (cases kind) (simp_all add: attempts resume_status_def keeps_task)
    ultimately show ?thesis by (intro checkpoints_inv_insert [OF checkpoint.prems new a(1) _ latest rows])
  qed
next
  case complete
  from complete(1) show ?case
    by (rule complete_attempt_commit) (rule checkpoints_inv_same [OF complete.prems], assumption, simp add: keeps_task)
next
  case revise
  from revise(1) show ?case
    by (rule revise_goal_commit) (rule checkpoints_inv_same [OF revise.prems], assumption, simp add: keeps_task)
next
  case reserve
  from reserve(1) show ?case
    by (rule reserve_commit) (rule checkpoints_inv_same [OF reserve.prems], simp_all)
next
  case transit
  from transit(1) show ?case
    by (rule transition_commit) (rule checkpoints_inv_same [OF transit.prems], simp_all)
next
  case recover
  from recover(1) show ?case
    by (rule recover_commit) (rule checkpoints_inv_same [OF recover.prems], simp_all)
next
  case resolve
  from resolve(1) show ?case
    by (rule resolve_commit) (rule checkpoints_inv_same [OF resolve.prems], simp_all)
qed

section \<open>The walk\<close>

lemma rows_distinct: "keys_distinct ts \<Longrightarrow> distinct (map fst (rows_of w ts))"
  unfolding keys_distinct_def rows_of_def by (rule distinct_map_filter)

lemma rows_select:
  assumes "keys_distinct ts" and "n < length (rows_of w ts)"
  shows "select_row ts (fst (rows_of w ts ! n)) = Some (snd (rows_of w ts ! n))" and "kc_attempt (snd (rows_of w ts ! n)) = w"
proof -
  have "rows_of w ts ! n \<in> set (rows_of w ts)" using assms(2) by simp
  then have "rows_of w ts ! n \<in> set ts" "kc_attempt (snd (rows_of w ts ! n)) = w" by (auto simp: rows_of_def)
  with assms(1) show "select_row ts (fst (rows_of w ts ! n)) = Some (snd (rows_of w ts ! n))"
    "kc_attempt (snd (rows_of w ts ! n)) = w" by (simp_all add: select_row_in)
qed

definition depth_exceeded :: py_error where
  "depth_exceeded = Research_Unsafe ''checkpoint lineage depth exceeded''"

lemma walk_chain:
  assumes inv: "checkpoints_inv db" and xs: "xs = rows_of w (kd_checkpoints db)"
    and task: "\<And>m. m < length xs \<Longrightarrow> kc_task (snd (xs ! m)) = i"
    and "n < length xs" and "p = [] \<or> p = i" and "q = [] \<or> q = w"
    and "set lineage \<inter> set (map fst (take (Suc n) xs)) = {}"
  shows "checkpoint_walk depth p q (Some (fst (xs ! n))) lineage db =
    (if int (length lineage + Suc n) \<le> depth then Inr (lineage @ rev (map fst (take (Suc n) xs))) else Inl depth_exceeded)"
  using assms(4-7)
proof (induction n arbitrary: p q lineage)
  case (0 p q lineage)
  have keys: "keys_distinct (kd_checkpoints db)" and ch: "chained xs" using inv by (simp_all add: checkpoints_inv_def xs)
  note row = rows_select [OF keys 0(1) [unfolded xs], folded xs]
  have "kc_parent (snd (xs ! 0)) = None" using ch 0(1) by (simp add: chained_def last_key_def)
  moreover have "fst (xs ! 0) \<notin> set lineage" using 0(1,4) by (cases xs) auto
  ultimately show ?case using 0 row task [OF 0(1)]
    by (cases xs) (auto simp: checkpoint_walk.simps [of depth p q "Some _"] checkpoint_walk.simps [of _ _ _ None] depth_exceeded_def)
next
  case (Suc n p q lineage)
  have keys: "keys_distinct (kd_checkpoints db)" and ch: "chained xs" using inv by (simp_all add: checkpoints_inv_def xs)
  note row = rows_select [OF keys Suc.prems(1) [unfolded xs], folded xs]
  have n: "n < length xs" using Suc.prems(1) by simp
  have take: "take (Suc (Suc n)) xs = take (Suc n) xs @ [xs ! Suc n]"
    using Suc.prems(1) by (rule take_Suc_conv_app_nth)
  have parent: "kc_parent (snd (xs ! Suc n)) = Some (fst (xs ! n))"
    using ch Suc.prems(1) n by (cases "xs = []") (simp_all add: chained_def last_key_def take_Suc_conv_app_nth)
  have out: "fst (xs ! Suc n) \<notin> set lineage" using Suc.prems(4) by (auto simp: take)
  have "distinct (map fst (take (Suc (Suc n)) xs))"
    using rows_distinct [OF keys, of w] by (metis distinct_take take_map xs)
  then have "set (lineage @ [fst (xs ! Suc n)]) \<inter> set (map fst (take (Suc n) xs)) = {}"
    using Suc.prems(4) by (auto simp: take)
  note IH = Suc.IH [OF n, of i w, OF disjI2 [OF refl] disjI2 [OF refl] this]
  have step: "checkpoint_walk depth p q (Some (fst (xs ! Suc n))) lineage db =
      (if int (length lineage) \<ge> depth then Inl depth_exceeded
       else checkpoint_walk depth i w (Some (fst (xs ! n))) (lineage @ [fst (xs ! Suc n)]) db)"
    using out row task [OF Suc.prems(1)] Suc.prems(2,3) parent
    by (subst checkpoint_walk.simps) (auto simp: depth_exceeded_def)
  show ?case unfolding step IH by (simp add: take)
qed

lemma lineage_of_chain:
  assumes inv: "checkpoints_inv db" and xs: "xs = rows_of w (kd_checkpoints db)" and n: "n < length xs"
  shows "checkpoint_lineage (fst (xs ! n)) depth db =
    (if int (Suc n) \<le> depth then Inr (rev (map fst (take (Suc n) xs))) else Inl depth_exceeded)"
proof -
  have keys: "keys_distinct (kd_checkpoints db)" using inv by (simp add: checkpoints_inv_def)
  obtain a where a: "select_row (kd_attempts db) w = Some a"
    using inv rows_select [OF keys n [unfolded xs]] unfolding checkpoints_inv_def by metis
  have "kc_task (snd (xs ! m)) = ka_task a" if "m < length xs" for m
    using inv a rows_select [OF keys that [unfolded xs], folded xs] unfolding checkpoints_inv_def by (metis option.inject)
  from walk_chain [OF inv xs this n, of "[]" "[]" "[]" depth] show ?thesis by (simp add: checkpoint_lineage_def)
qed

end
