(* ===== verification/Research_Samples.thy ===== *)
theory Research_Samples
  imports Research_Commands
begin

text \<open>
  One run of the research kernel, evaluated: a task is created, claimed, started, saved and then either
  claimed by a second owner after the lease or completed. The digest of this platform is constant, so
  the commands are told apart by their ids alone.
\<close>

section \<open>The environment\<close>

definition research_sample_env :: research_env where
  "research_sample_env =
     \<lparr>en_platform = \<lparr>sha256_hexdigest = (\<lambda>_. ''digest''), json_datetime = (\<lambda>_. [])\<rparr>,
      en_uuid = (\<lambda>n. replicate n CHR ''i''), en_iso = (\<lambda>_. ''time'')\<rparr>"

definition research_sample_call :: research_call where
  "research_sample_call =
     \<lparr>cl_context = \<lparr>workspace_id = ''w'', user_id = ''u''\<rparr>, cl_now = 5, cl_db_now = 5, cl_fault = (\<lambda>_. False)\<rparr>"

lemma research_sample_hash [simp]: "research_hash research_sample_env v = ''digest''"
  by (simp add: research_hash_def research_sample_env_def)

lemma research_sample_env_simps [simp]:
  "en_uuid research_sample_env n = replicate n CHR ''i''" "en_iso research_sample_env t = ''time''"
  by (simp_all add: research_sample_env_def)

lemma research_sample_call_simps [simp]:
  "user_id (cl_context research_sample_call) = ''u''" "cl_now research_sample_call = 5"
  "cl_db_now research_sample_call = 5" "\<not> cl_fault research_sample_call p"
  by (simp_all add: research_sample_call_def)

definition research_late_call :: research_call where
  "research_late_call =
     \<lparr>cl_context = \<lparr>workspace_id = ''w'', user_id = ''u''\<rparr>, cl_now = 70000000, cl_db_now = 70000000, cl_fault = (\<lambda>_. False)\<rparr>"

lemma research_late_call_simps [simp]:
  "user_id (cl_context research_late_call) = ''u''" "cl_now research_late_call = 70000000"
  "cl_db_now research_late_call = 70000000" "\<not> cl_fault research_late_call p"
  by (simp_all add: research_late_call_def)

lemma replicate_sample [simp]: "replicate (numeral k) x = x # replicate (pred_numeral k) x"
  by (simp add: numeral_eq_Suc)

section \<open>The run\<close>

lemmas evaluate_kernel = run_command_def existing_receipt_def transaction_def append_event_def new_id_def insert_new_def
  insert_receipt_def commit_response_def fetch_task_def fetch_attempt_def fetch_effect_def receipt_of_def fault_injector_def guard_or_def
  kernel_seqs_def next_seq_def select_row_def insert_row_def update_row_def update_where_def touch_task_def
  owner_guards_def assert_owner_def assert_expected_def assert_nonterminal_def kernel_lease_valid_def event_row_def
  text_or_empty_def str_of_def strip_def is_space_def strs_def opt_str_def
  Let_def

lemmas evaluate_rows = new_task_def new_goal_def activate_goal_def empty_research_def valid_lease_def expires_at_def
  reserved_before_def live_attempts_def cause_allowed_def next_ordinal_def new_attempt_def insert_attempt_def
  insert_trace_def enqueue_attempt_def fenced_attempt_def latest_checkpoint_def unresolved_effects_def new_checkpoint_def
  resume_status_def terminal_parent_def
  new_result_def end_attempt_def trace_schema_def state_schema_def

lemmas evaluate_commands = create_task_def create_task_body_def claim_owner_def claim_owner_body_def start_attempt_def
  start_attempt_body_def commit_checkpoint_def commit_checkpoint_body_def complete_attempt_def
  complete_attempt_body_def


definition research_created :: research_db where
  "research_created =
     \<lparr>kd_guard = True, kd_tasks = [(''t'', \<lparr>kt_owner_user = ''u'', kt_parent = None, kt_status =
     Ts_Ready, kt_goal = Some ''goal_'', kt_version = 0, kt_owner = None, kt_epoch = 0, kt_lease = None,
     kt_result = None, kt_created = 5, kt_updated = 5\<rparr>)], kd_goals = [(''goal_'', \<lparr>kg_task =
     ''t'', kg_revision = 1, kg_parent = None, kg_objective = ''goal'', kg_constraints = JArr [], kg_policy =
     JObj [], kg_event = Some ''event_i'', kg_created = 5\<rparr>)], kd_attempts = [], kd_checkpoints = [],
     kd_results = [], kd_effects = [], kd_events = [(''event_i'', \<lparr>ke_task = ''t'', ke_goal = Some
     ''goal_'', ke_attempt = None, ke_checkpoint = None, ke_seq = 1, ke_type = ''task_created'', ke_payload =
     JObj [(''parent_task_id'', JNull), (''goal_revision'', JInt 1), (''server_constraint_profile'', JObj [])],
     ke_command = Some ''create'', ke_epoch = 0, ke_created = 5\<rparr>)], kd_receipts = [(''receipt_ii'',
     \<lparr>kx_task = ''t'', kx_command = ''create'', kx_type = ''create_task'', kx_hash = ''digest'',
     kx_outcome = Some ''t'', kx_response = JObj [(''task_id'', JStr ''t''), (''goal_id'', JStr ''goal_''),
     (''state_version'', JInt 0)], kx_epoch = 0, kx_created = 5\<rparr>)], kd_traces = [], kd_execution = [],
     kd_draws = 3\<rparr>"

lemma research_created_run: "create_task research_sample_env research_sample_call ''create'' ''goal'' [] (JObj []) (Some ''t'') None (JObj []) None empty_research =
  (research_created, Inr (JObj [(''task_id'', JStr ''t''), (''goal_id'', JStr ''goal_''), (''state_version'', JInt 0)]))"
  by (simp add: research_created_def evaluate_commands evaluate_rows evaluate_kernel)

definition research_claimed :: research_db where
  "research_claimed =
     \<lparr>kd_guard = True, kd_tasks = [(''t'', \<lparr>kt_owner_user = ''u'', kt_parent = None, kt_status =
     Ts_Ready, kt_goal = Some ''goal_'', kt_version = 1, kt_owner = Some ''o'', kt_epoch = 1, kt_lease = Some
     60000005, kt_result = None, kt_created = 5, kt_updated = 5\<rparr>)], kd_goals = [(''goal_'',
     \<lparr>kg_task = ''t'', kg_revision = 1, kg_parent = None, kg_objective = ''goal'', kg_constraints = JArr
     [], kg_policy = JObj [], kg_event = Some ''event_i'', kg_created = 5\<rparr>)], kd_attempts = [],
     kd_checkpoints = [], kd_results = [], kd_effects = [], kd_events = [(''event_i'', \<lparr>ke_task = ''t'',
     ke_goal = Some ''goal_'', ke_attempt = None, ke_checkpoint = None, ke_seq = 1, ke_type = ''task_created'',
     ke_payload = JObj [(''parent_task_id'', JNull), (''goal_revision'', JInt 1),
     (''server_constraint_profile'', JObj [])], ke_command = Some ''create'', ke_epoch = 0, ke_created =
     5\<rparr>), (''event_iii'', \<lparr>ke_task = ''t'', ke_goal = None, ke_attempt = None, ke_checkpoint =
     None, ke_seq = 2, ke_type = ''owner_claimed'', ke_payload = JObj [(''owner_id'', JStr ''o''),
     (''lease_until'', JStr ''time'')], ke_command = Some ''claim'', ke_epoch = 1, ke_created = 5\<rparr>)],
     kd_receipts = [(''receipt_ii'', \<lparr>kx_task = ''t'', kx_command = ''create'', kx_type =
     ''create_task'', kx_hash = ''digest'', kx_outcome = Some ''t'', kx_response = JObj [(''task_id'', JStr
     ''t''), (''goal_id'', JStr ''goal_''), (''state_version'', JInt 0)], kx_epoch = 0, kx_created =
     5\<rparr>), (''receipt_iiii'', \<lparr>kx_task = ''t'', kx_command = ''claim'', kx_type = ''claim_owner'',
     kx_hash = ''digest'', kx_outcome = Some ''t'', kx_response = JObj [(''task_id'', JStr ''t''),
     (''owner_id'', JStr ''o''), (''owner_epoch'', JInt 1), (''lease_until'', JStr ''time''),
     (''state_version'', JInt 1), (''rebound_reserved_side_effect_ids'', JArr [])], kx_epoch = 1, kx_created =
     5\<rparr>)], kd_traces = [], kd_execution = [], kd_draws = 5\<rparr>"

lemma research_claimed_run: "claim_owner research_sample_env research_sample_call ''t'' ''claim'' ''o'' 0 60 research_created =
  (research_claimed, Inr (JObj [(''task_id'', JStr ''t''), (''owner_id'', JStr ''o''), (''owner_epoch'', JInt 1),
     (''lease_until'', JStr ''time''), (''state_version'', JInt 1), (''rebound_reserved_side_effect_ids'', JArr
     [])]))"
  by (simp add: research_created_def research_claimed_def evaluate_commands evaluate_rows evaluate_kernel)

definition research_started :: research_db where
  "research_started =
     \<lparr>kd_guard = True, kd_tasks = [(''t'', \<lparr>kt_owner_user = ''u'', kt_parent = None, kt_status =
     Ts_Running, kt_goal = Some ''goal_'', kt_version = 2, kt_owner = Some ''o'', kt_epoch = 1, kt_lease = Some
     60000005, kt_result = None, kt_created = 5, kt_updated = 5\<rparr>)], kd_goals = [(''goal_'',
     \<lparr>kg_task = ''t'', kg_revision = 1, kg_parent = None, kg_objective = ''goal'', kg_constraints = JArr
     [], kg_policy = JObj [], kg_event = Some ''event_i'', kg_created = 5\<rparr>)], kd_attempts =
     [(''attempt_iiiii'', \<lparr>ka_task = ''t'', ka_goal = ''goal_'', ka_ordinal = 1, ka_cause = Ca_Initial,
     ka_parent = None, ka_source = None, ka_status = At_Running, ka_epoch = 1, ka_result = None, ka_started =
     5, ka_ended = None\<rparr>)], kd_checkpoints = [], kd_results = [], kd_effects = [], kd_events =
     [(''event_i'', \<lparr>ke_task = ''t'', ke_goal = Some ''goal_'', ke_attempt = None, ke_checkpoint = None,
     ke_seq = 1, ke_type = ''task_created'', ke_payload = JObj [(''parent_task_id'', JNull),
     (''goal_revision'', JInt 1), (''server_constraint_profile'', JObj [])], ke_command = Some ''create'',
     ke_epoch = 0, ke_created = 5\<rparr>), (''event_iii'', \<lparr>ke_task = ''t'', ke_goal = None, ke_attempt
     = None, ke_checkpoint = None, ke_seq = 2, ke_type = ''owner_claimed'', ke_payload = JObj [(''owner_id'',
     JStr ''o''), (''lease_until'', JStr ''time'')], ke_command = Some ''claim'', ke_epoch = 1, ke_created =
     5\<rparr>), (''event_iiiiiii'', \<lparr>ke_task = ''t'', ke_goal = Some ''goal_'', ke_attempt = Some
     ''attempt_iiiii'', ke_checkpoint = None, ke_seq = 3, ke_type = ''attempt_started'', ke_payload = JObj
     [(''cause'', JStr ''initial''), (''ordinal'', JInt 1)], ke_command = Some ''start'', ke_epoch = 1,
     ke_created = 5\<rparr>)], kd_receipts = [(''receipt_ii'', \<lparr>kx_task = ''t'', kx_command =
     ''create'', kx_type = ''create_task'', kx_hash = ''digest'', kx_outcome = Some ''t'', kx_response = JObj
     [(''task_id'', JStr ''t''), (''goal_id'', JStr ''goal_''), (''state_version'', JInt 0)], kx_epoch = 0,
     kx_created = 5\<rparr>), (''receipt_iiii'', \<lparr>kx_task = ''t'', kx_command = ''claim'', kx_type =
     ''claim_owner'', kx_hash = ''digest'', kx_outcome = Some ''t'', kx_response = JObj [(''task_id'', JStr
     ''t''), (''owner_id'', JStr ''o''), (''owner_epoch'', JInt 1), (''lease_until'', JStr ''time''),
     (''state_version'', JInt 1), (''rebound_reserved_side_effect_ids'', JArr [])], kx_epoch = 1, kx_created =
     5\<rparr>), (''receipt_iiiiiiii'', \<lparr>kx_task = ''t'', kx_command = ''start'', kx_type =
     ''start_attempt'', kx_hash = ''digest'', kx_outcome = Some ''attempt_iiiii'', kx_response = JObj
     [(''task_id'', JStr ''t''), (''attempt_id'', JStr ''attempt_iiiii''), (''trace_id'', JStr
     ''trace_iiiiii''), (''state_version'', JInt 2)], kx_epoch = 1, kx_created = 5\<rparr>)], kd_traces =
     [(''trace_iiiiii'', \<lparr>kz_task = ''t'', kz_attempt = ''attempt_iiiii'', kz_schema =
     ''v5-a-stage1-trace-v1'', kz_started = 5, kz_ended = None, kz_termination = None\<rparr>)], kd_execution =
     [], kd_draws = 9\<rparr>"

lemma research_started_run: "start_attempt research_sample_env research_sample_call ''t'' ''start'' ''o'' 1 1 Ca_Initial None None None research_claimed =
  (research_started, Inr (JObj [(''task_id'', JStr ''t''), (''attempt_id'', JStr ''attempt_iiiii''), (''trace_id'', JStr
     ''trace_iiiiii''), (''state_version'', JInt 2)]))"
  by (simp add: research_claimed_def research_started_def evaluate_commands evaluate_rows evaluate_kernel)

definition research_saved :: research_db where
  "research_saved =
     \<lparr>kd_guard = True, kd_tasks = [(''t'', \<lparr>kt_owner_user = ''u'', kt_parent = None, kt_status =
     Ts_Running, kt_goal = Some ''goal_'', kt_version = 3, kt_owner = Some ''o'', kt_epoch = 1, kt_lease = Some
     60000005, kt_result = None, kt_created = 5, kt_updated = 5\<rparr>)], kd_goals = [(''goal_'',
     \<lparr>kg_task = ''t'', kg_revision = 1, kg_parent = None, kg_objective = ''goal'', kg_constraints = JArr
     [], kg_policy = JObj [], kg_event = Some ''event_i'', kg_created = 5\<rparr>)], kd_attempts =
     [(''attempt_iiiii'', \<lparr>ka_task = ''t'', ka_goal = ''goal_'', ka_ordinal = 1, ka_cause = Ca_Initial,
     ka_parent = None, ka_source = None, ka_status = At_Running, ka_epoch = 1, ka_result = None, ka_started =
     5, ka_ended = None\<rparr>)], kd_checkpoints = [(''checkpoint_iiiiiiiii'', \<lparr>kc_task = ''t'',
     kc_goal = ''goal_'', kc_attempt = ''attempt_iiiii'', kc_parent = None, kc_sequence = 1, kc_schema =
     ''v5-a-stage1-state-v1'', kc_hash = ''digest'', kc_payload = JObj [], kc_complete = True, kc_epoch = 1,
     kc_created = 5\<rparr>)], kd_results = [], kd_effects = [], kd_events = [(''event_i'', \<lparr>ke_task =
     ''t'', ke_goal = Some ''goal_'', ke_attempt = None, ke_checkpoint = None, ke_seq = 1, ke_type =
     ''task_created'', ke_payload = JObj [(''parent_task_id'', JNull), (''goal_revision'', JInt 1),
     (''server_constraint_profile'', JObj [])], ke_command = Some ''create'', ke_epoch = 0, ke_created =
     5\<rparr>), (''event_iii'', \<lparr>ke_task = ''t'', ke_goal = None, ke_attempt = None, ke_checkpoint =
     None, ke_seq = 2, ke_type = ''owner_claimed'', ke_payload = JObj [(''owner_id'', JStr ''o''),
     (''lease_until'', JStr ''time'')], ke_command = Some ''claim'', ke_epoch = 1, ke_created = 5\<rparr>),
     (''event_iiiiiii'', \<lparr>ke_task = ''t'', ke_goal = Some ''goal_'', ke_attempt = Some
     ''attempt_iiiii'', ke_checkpoint = None, ke_seq = 3, ke_type = ''attempt_started'', ke_payload = JObj
     [(''cause'', JStr ''initial''), (''ordinal'', JInt 1)], ke_command = Some ''start'', ke_epoch = 1,
     ke_created = 5\<rparr>), (''event_iiiiiiiiii'', \<lparr>ke_task = ''t'', ke_goal = Some ''goal_'',
     ke_attempt = Some ''attempt_iiiii'', ke_checkpoint = Some ''checkpoint_iiiiiiiii'', ke_seq = 4, ke_type =
     ''checkpoint_committed'', ke_payload = JObj [(''sequence'', JInt 1), (''state_hash'', JStr ''digest'')],
     ke_command = Some ''save'', ke_epoch = 1, ke_created = 5\<rparr>)], kd_receipts = [(''receipt_ii'',
     \<lparr>kx_task = ''t'', kx_command = ''create'', kx_type = ''create_task'', kx_hash = ''digest'',
     kx_outcome = Some ''t'', kx_response = JObj [(''task_id'', JStr ''t''), (''goal_id'', JStr ''goal_''),
     (''state_version'', JInt 0)], kx_epoch = 0, kx_created = 5\<rparr>), (''receipt_iiii'', \<lparr>kx_task =
     ''t'', kx_command = ''claim'', kx_type = ''claim_owner'', kx_hash = ''digest'', kx_outcome = Some ''t'',
     kx_response = JObj [(''task_id'', JStr ''t''), (''owner_id'', JStr ''o''), (''owner_epoch'', JInt 1),
     (''lease_until'', JStr ''time''), (''state_version'', JInt 1), (''rebound_reserved_side_effect_ids'', JArr
     [])], kx_epoch = 1, kx_created = 5\<rparr>), (''receipt_iiiiiiii'', \<lparr>kx_task = ''t'', kx_command =
     ''start'', kx_type = ''start_attempt'', kx_hash = ''digest'', kx_outcome = Some ''attempt_iiiii'',
     kx_response = JObj [(''task_id'', JStr ''t''), (''attempt_id'', JStr ''attempt_iiiii''), (''trace_id'',
     JStr ''trace_iiiiii''), (''state_version'', JInt 2)], kx_epoch = 1, kx_created = 5\<rparr>),
     (''receipt_iiiiiiiiiii'', \<lparr>kx_task = ''t'', kx_command = ''save'', kx_type = ''commit_checkpoint'',
     kx_hash = ''digest'', kx_outcome = Some ''checkpoint_iiiiiiiii'', kx_response = JObj [(''task_id'', JStr
     ''t''), (''attempt_id'', JStr ''attempt_iiiii''), (''checkpoint_id'', JStr ''checkpoint_iiiiiiiii''),
     (''parent_checkpoint_id'', JNull), (''state_hash'', JStr ''digest''), (''state_version'', JInt 3)],
     kx_epoch = 1, kx_created = 5\<rparr>)], kd_traces = [(''trace_iiiiii'', \<lparr>kz_task = ''t'',
     kz_attempt = ''attempt_iiiii'', kz_schema = ''v5-a-stage1-trace-v1'', kz_started = 5, kz_ended = None,
     kz_termination = None\<rparr>)], kd_execution = [], kd_draws = 12\<rparr>"

lemma research_saved_run: "commit_checkpoint research_sample_env research_sample_call ''t'' ''attempt_iiiii'' ''save'' ''o'' 1 2 None (JObj []) Committed_Checkpoint research_started =
  (research_saved, Inr (JObj [(''task_id'', JStr ''t''), (''attempt_id'', JStr ''attempt_iiiii''), (''checkpoint_id'', JStr
     ''checkpoint_iiiiiiiii''), (''parent_checkpoint_id'', JNull), (''state_hash'', JStr ''digest''),
     (''state_version'', JInt 3)]))"
  by (simp add: research_started_def research_saved_def evaluate_commands evaluate_rows evaluate_kernel)

definition research_taken :: research_db where
  "research_taken =
     \<lparr>kd_guard = True, kd_tasks = [(''t'', \<lparr>kt_owner_user = ''u'', kt_parent = None, kt_status =
     Ts_Running, kt_goal = Some ''goal_'', kt_version = 4, kt_owner = Some ''n'', kt_epoch = 2, kt_lease = Some
     130000000, kt_result = None, kt_created = 5, kt_updated = 70000000\<rparr>)], kd_goals = [(''goal_'',
     \<lparr>kg_task = ''t'', kg_revision = 1, kg_parent = None, kg_objective = ''goal'', kg_constraints = JArr
     [], kg_policy = JObj [], kg_event = Some ''event_i'', kg_created = 5\<rparr>)], kd_attempts =
     [(''attempt_iiiii'', \<lparr>ka_task = ''t'', ka_goal = ''goal_'', ka_ordinal = 1, ka_cause = Ca_Initial,
     ka_parent = None, ka_source = None, ka_status = At_Running, ka_epoch = 2, ka_result = None, ka_started =
     5, ka_ended = None\<rparr>)], kd_checkpoints = [(''checkpoint_iiiiiiiii'', \<lparr>kc_task = ''t'',
     kc_goal = ''goal_'', kc_attempt = ''attempt_iiiii'', kc_parent = None, kc_sequence = 1, kc_schema =
     ''v5-a-stage1-state-v1'', kc_hash = ''digest'', kc_payload = JObj [], kc_complete = True, kc_epoch = 1,
     kc_created = 5\<rparr>)], kd_results = [], kd_effects = [], kd_events = [(''event_i'', \<lparr>ke_task =
     ''t'', ke_goal = Some ''goal_'', ke_attempt = None, ke_checkpoint = None, ke_seq = 1, ke_type =
     ''task_created'', ke_payload = JObj [(''parent_task_id'', JNull), (''goal_revision'', JInt 1),
     (''server_constraint_profile'', JObj [])], ke_command = Some ''create'', ke_epoch = 0, ke_created =
     5\<rparr>), (''event_iii'', \<lparr>ke_task = ''t'', ke_goal = None, ke_attempt = None, ke_checkpoint =
     None, ke_seq = 2, ke_type = ''owner_claimed'', ke_payload = JObj [(''owner_id'', JStr ''o''),
     (''lease_until'', JStr ''time'')], ke_command = Some ''claim'', ke_epoch = 1, ke_created = 5\<rparr>),
     (''event_iiiiiii'', \<lparr>ke_task = ''t'', ke_goal = Some ''goal_'', ke_attempt = Some
     ''attempt_iiiii'', ke_checkpoint = None, ke_seq = 3, ke_type = ''attempt_started'', ke_payload = JObj
     [(''cause'', JStr ''initial''), (''ordinal'', JInt 1)], ke_command = Some ''start'', ke_epoch = 1,
     ke_created = 5\<rparr>), (''event_iiiiiiiiii'', \<lparr>ke_task = ''t'', ke_goal = Some ''goal_'',
     ke_attempt = Some ''attempt_iiiii'', ke_checkpoint = Some ''checkpoint_iiiiiiiii'', ke_seq = 4, ke_type =
     ''checkpoint_committed'', ke_payload = JObj [(''sequence'', JInt 1), (''state_hash'', JStr ''digest'')],
     ke_command = Some ''save'', ke_epoch = 1, ke_created = 5\<rparr>), (''event_iiiiiiiiiiii'',
     \<lparr>ke_task = ''t'', ke_goal = None, ke_attempt = None, ke_checkpoint = None, ke_seq = 5, ke_type =
     ''owner_claimed'', ke_payload = JObj [(''owner_id'', JStr ''n''), (''lease_until'', JStr ''time'')],
     ke_command = Some ''take'', ke_epoch = 2, ke_created = 70000000\<rparr>)], kd_receipts = [(''receipt_ii'',
     \<lparr>kx_task = ''t'', kx_command = ''create'', kx_type = ''create_task'', kx_hash = ''digest'',
     kx_outcome = Some ''t'', kx_response = JObj [(''task_id'', JStr ''t''), (''goal_id'', JStr ''goal_''),
     (''state_version'', JInt 0)], kx_epoch = 0, kx_created = 5\<rparr>), (''receipt_iiii'', \<lparr>kx_task =
     ''t'', kx_command = ''claim'', kx_type = ''claim_owner'', kx_hash = ''digest'', kx_outcome = Some ''t'',
     kx_response = JObj [(''task_id'', JStr ''t''), (''owner_id'', JStr ''o''), (''owner_epoch'', JInt 1),
     (''lease_until'', JStr ''time''), (''state_version'', JInt 1), (''rebound_reserved_side_effect_ids'', JArr
     [])], kx_epoch = 1, kx_created = 5\<rparr>), (''receipt_iiiiiiii'', \<lparr>kx_task = ''t'', kx_command =
     ''start'', kx_type = ''start_attempt'', kx_hash = ''digest'', kx_outcome = Some ''attempt_iiiii'',
     kx_response = JObj [(''task_id'', JStr ''t''), (''attempt_id'', JStr ''attempt_iiiii''), (''trace_id'',
     JStr ''trace_iiiiii''), (''state_version'', JInt 2)], kx_epoch = 1, kx_created = 5\<rparr>),
     (''receipt_iiiiiiiiiii'', \<lparr>kx_task = ''t'', kx_command = ''save'', kx_type = ''commit_checkpoint'',
     kx_hash = ''digest'', kx_outcome = Some ''checkpoint_iiiiiiiii'', kx_response = JObj [(''task_id'', JStr
     ''t''), (''attempt_id'', JStr ''attempt_iiiii''), (''checkpoint_id'', JStr ''checkpoint_iiiiiiiii''),
     (''parent_checkpoint_id'', JNull), (''state_hash'', JStr ''digest''), (''state_version'', JInt 3)],
     kx_epoch = 1, kx_created = 5\<rparr>), (''receipt_iiiiiiiiiiiii'', \<lparr>kx_task = ''t'', kx_command =
     ''take'', kx_type = ''claim_owner'', kx_hash = ''digest'', kx_outcome = Some ''t'', kx_response = JObj
     [(''task_id'', JStr ''t''), (''owner_id'', JStr ''n''), (''owner_epoch'', JInt 2), (''lease_until'', JStr
     ''time''), (''state_version'', JInt 4), (''rebound_reserved_side_effect_ids'', JArr [])], kx_epoch = 2,
     kx_created = 70000000\<rparr>)], kd_traces = [(''trace_iiiiii'', \<lparr>kz_task = ''t'', kz_attempt =
     ''attempt_iiiii'', kz_schema = ''v5-a-stage1-trace-v1'', kz_started = 5, kz_ended = None, kz_termination =
     None\<rparr>)], kd_execution = [], kd_draws = 14\<rparr>"

lemma research_taken_run: "claim_owner research_sample_env research_late_call ''t'' ''take'' ''n'' 3 60 research_saved =
  (research_taken, Inr (JObj [(''task_id'', JStr ''t''), (''owner_id'', JStr ''n''), (''owner_epoch'', JInt 2),
     (''lease_until'', JStr ''time''), (''state_version'', JInt 4), (''rebound_reserved_side_effect_ids'', JArr
     [])]))"
  by (simp add: research_saved_def research_taken_def evaluate_commands evaluate_rows evaluate_kernel)

definition research_completed :: research_db where
  "research_completed =
     \<lparr>kd_guard = True, kd_tasks = [(''t'', \<lparr>kt_owner_user = ''u'', kt_parent = None, kt_status =
     Ts_Terminal, kt_goal = Some ''goal_'', kt_version = 4, kt_owner = Some ''o'', kt_epoch = 1, kt_lease =
     Some 60000005, kt_result = Some ''result_iiiiiiiiiiii'', kt_created = 5, kt_updated = 5\<rparr>)],
     kd_goals = [(''goal_'', \<lparr>kg_task = ''t'', kg_revision = 1, kg_parent = None, kg_objective =
     ''goal'', kg_constraints = JArr [], kg_policy = JObj [], kg_event = Some ''event_i'', kg_created =
     5\<rparr>)], kd_attempts = [(''attempt_iiiii'', \<lparr>ka_task = ''t'', ka_goal = ''goal_'', ka_ordinal =
     1, ka_cause = Ca_Initial, ka_parent = None, ka_source = None, ka_status = At_Terminal, ka_epoch = 1,
     ka_result = Some ''result_iiiiiiiiiiii'', ka_started = 5, ka_ended = Some 5\<rparr>)], kd_checkpoints =
     [(''checkpoint_iiiiiiiii'', \<lparr>kc_task = ''t'', kc_goal = ''goal_'', kc_attempt = ''attempt_iiiii'',
     kc_parent = None, kc_sequence = 1, kc_schema = ''v5-a-stage1-state-v1'', kc_hash = ''digest'', kc_payload
     = JObj [], kc_complete = True, kc_epoch = 1, kc_created = 5\<rparr>)], kd_results =
     [(''result_iiiiiiiiiiii'', \<lparr>kr_task = ''t'', kr_goal = ''goal_'', kr_attempt = ''attempt_iiiii'',
     kr_checkpoint = Some ''checkpoint_iiiiiiiii'', kr_answer = Aw_Valid_Success, kr_termination =
     Rt_Answer_Ready, kr_failure = Fc_None, kr_detail = [], kr_terminal = True, kr_epoch = 1, kr_created =
     5\<rparr>)], kd_effects = [], kd_events = [(''event_i'', \<lparr>ke_task = ''t'', ke_goal = Some
     ''goal_'', ke_attempt = None, ke_checkpoint = None, ke_seq = 1, ke_type = ''task_created'', ke_payload =
     JObj [(''parent_task_id'', JNull), (''goal_revision'', JInt 1), (''server_constraint_profile'', JObj [])],
     ke_command = Some ''create'', ke_epoch = 0, ke_created = 5\<rparr>), (''event_iii'', \<lparr>ke_task =
     ''t'', ke_goal = None, ke_attempt = None, ke_checkpoint = None, ke_seq = 2, ke_type = ''owner_claimed'',
     ke_payload = JObj [(''owner_id'', JStr ''o''), (''lease_until'', JStr ''time'')], ke_command = Some
     ''claim'', ke_epoch = 1, ke_created = 5\<rparr>), (''event_iiiiiii'', \<lparr>ke_task = ''t'', ke_goal =
     Some ''goal_'', ke_attempt = Some ''attempt_iiiii'', ke_checkpoint = None, ke_seq = 3, ke_type =
     ''attempt_started'', ke_payload = JObj [(''cause'', JStr ''initial''), (''ordinal'', JInt 1)], ke_command
     = Some ''start'', ke_epoch = 1, ke_created = 5\<rparr>), (''event_iiiiiiiiii'', \<lparr>ke_task = ''t'',
     ke_goal = Some ''goal_'', ke_attempt = Some ''attempt_iiiii'', ke_checkpoint = Some
     ''checkpoint_iiiiiiiii'', ke_seq = 4, ke_type = ''checkpoint_committed'', ke_payload = JObj
     [(''sequence'', JInt 1), (''state_hash'', JStr ''digest'')], ke_command = Some ''save'', ke_epoch = 1,
     ke_created = 5\<rparr>), (''event_iiiiiiiiiiiii'', \<lparr>ke_task = ''t'', ke_goal = Some ''goal_'',
     ke_attempt = Some ''attempt_iiiii'', ke_checkpoint = Some ''checkpoint_iiiiiiiii'', ke_seq = 5, ke_type =
     ''task_terminal_result_committed'', ke_payload = JObj [(''result_id'', JStr ''result_iiiiiiiiiiii''),
     (''answer_status'', JStr ''valid_success''), (''termination_reason'', JStr ''answer_ready''),
     (''failure_class'', JStr ''none'')], ke_command = Some ''complete'', ke_epoch = 1, ke_created =
     5\<rparr>)], kd_receipts = [(''receipt_ii'', \<lparr>kx_task = ''t'', kx_command = ''create'', kx_type =
     ''create_task'', kx_hash = ''digest'', kx_outcome = Some ''t'', kx_response = JObj [(''task_id'', JStr
     ''t''), (''goal_id'', JStr ''goal_''), (''state_version'', JInt 0)], kx_epoch = 0, kx_created =
     5\<rparr>), (''receipt_iiii'', \<lparr>kx_task = ''t'', kx_command = ''claim'', kx_type = ''claim_owner'',
     kx_hash = ''digest'', kx_outcome = Some ''t'', kx_response = JObj [(''task_id'', JStr ''t''),
     (''owner_id'', JStr ''o''), (''owner_epoch'', JInt 1), (''lease_until'', JStr ''time''),
     (''state_version'', JInt 1), (''rebound_reserved_side_effect_ids'', JArr [])], kx_epoch = 1, kx_created =
     5\<rparr>), (''receipt_iiiiiiii'', \<lparr>kx_task = ''t'', kx_command = ''start'', kx_type =
     ''start_attempt'', kx_hash = ''digest'', kx_outcome = Some ''attempt_iiiii'', kx_response = JObj
     [(''task_id'', JStr ''t''), (''attempt_id'', JStr ''attempt_iiiii''), (''trace_id'', JStr
     ''trace_iiiiii''), (''state_version'', JInt 2)], kx_epoch = 1, kx_created = 5\<rparr>),
     (''receipt_iiiiiiiiiii'', \<lparr>kx_task = ''t'', kx_command = ''save'', kx_type = ''commit_checkpoint'',
     kx_hash = ''digest'', kx_outcome = Some ''checkpoint_iiiiiiiii'', kx_response = JObj [(''task_id'', JStr
     ''t''), (''attempt_id'', JStr ''attempt_iiiii''), (''checkpoint_id'', JStr ''checkpoint_iiiiiiiii''),
     (''parent_checkpoint_id'', JNull), (''state_hash'', JStr ''digest''), (''state_version'', JInt 3)],
     kx_epoch = 1, kx_created = 5\<rparr>), (''receipt_iiiiiiiiiiiiii'', \<lparr>kx_task = ''t'', kx_command =
     ''complete'', kx_type = ''complete_attempt'', kx_hash = ''digest'', kx_outcome = Some
     ''result_iiiiiiiiiiii'', kx_response = JObj [(''task_id'', JStr ''t''), (''attempt_id'', JStr
     ''attempt_iiiii''), (''result_id'', JStr ''result_iiiiiiiiiiii''), (''task_status'', JStr ''terminal''),
     (''state_version'', JInt 4)], kx_epoch = 1, kx_created = 5\<rparr>)], kd_traces = [(''trace_iiiiii'',
     \<lparr>kz_task = ''t'', kz_attempt = ''attempt_iiiii'', kz_schema = ''v5-a-stage1-trace-v1'', kz_started
     = 5, kz_ended = Some 5, kz_termination = Some Rt_Answer_Ready\<rparr>)], kd_execution = [], kd_draws =
     15\<rparr>"

lemma research_completed_run: "complete_attempt research_sample_env research_sample_call ''t'' ''attempt_iiiii'' ''complete'' ''o'' 1 3 Aw_Valid_Success Rt_Answer_Ready Fc_None [] True Ts_Blocked (Some ''checkpoint_iiiiiiiii'') research_saved =
  (research_completed, Inr (JObj [(''task_id'', JStr ''t''), (''attempt_id'', JStr ''attempt_iiiii''), (''result_id'', JStr
     ''result_iiiiiiiiiiii''), (''task_status'', JStr ''terminal''), (''state_version'', JInt 4)]))"
  by (simp add: research_saved_def research_completed_def evaluate_commands evaluate_rows evaluate_kernel)

end
