(* ===== verification/Research_Properties.thy ===== *)
theory Research_Properties
  imports Research_Delivery Research_Lineage Research_Samples
begin

text \<open>
  What the research kernel promises, over every run of the service: \<open>kernel_step\<close> is any call, by any
  user of the workspace, with any clock and any injected fault.
\<close>

section \<open>The run of the samples\<close>

definition research_request :: "string \<Rightarrow> string \<Rightarrow> string \<Rightarrow> int \<Rightarrow> int \<Rightarrow> command_request" where
  "research_request kind command owner ep expected =
     \<lparr>kq_command = command, kq_kind = kind, kq_expected = Some expected, kq_checkpoint = None, kq_owner = Some owner,
      kq_epoch = Some ep, kq_lease_seconds = 60, kq_attempt = Some ''attempt_iiiii'', kq_parent_attempt = None,
      kq_source = None, kq_cause = Ca_Initial, kq_state = JObj [], kq_objective = None, kq_constraints = [],
      kq_policy = JObj [], kq_answer = Aw_Valid_Success, kq_termination = Rt_Answer_Ready, kq_failure = Fc_None,
      kq_detail = [], kq_next_status = Ts_Blocked, kq_effect_kind = None, kq_key = None, kq_effect_payload = JObj [],
      kq_effect = None, kq_verdict = []\<rparr>"

lemmas evaluate_request = research_request_def execute_command_def checkpoint_command_def completion_command_def
  calling_def on_db_def required_fence_def required_text_def required_int_def strip_def is_space_def Let_def

lemma research_save_request:
  "execute_command research_sample_env research_sample_call ''t'' (research_request ''checkpoint'' ''save'' ''o'' 1 2)
     (research_started, []) = ((research_saved, []), snd (commit_checkpoint research_sample_env research_sample_call ''t''
       ''attempt_iiiii'' ''save'' ''o'' 1 2 None (JObj []) Committed_Checkpoint research_started))"
  by (simp add: evaluate_request research_saved_run)

lemma research_claim_request:
  "execute_command research_sample_env research_sample_call ''t'' (research_request ''claim_owner'' ''claim'' ''o'' 0 0)
     (research_created, []) = ((research_claimed, []), snd (claim_owner research_sample_env research_sample_call ''t''
       ''claim'' ''o'' 0 60 research_created))"
  by (simp add: evaluate_request research_claimed_run)

lemma research_take_request:
  "execute_command research_sample_env research_late_call ''t'' (research_request ''claim_owner'' ''take'' ''n'' 0 3)
     (research_saved, []) = ((research_taken, []), snd (claim_owner research_sample_env research_late_call ''t''
       ''take'' ''n'' 3 60 research_saved))"
  by (simp add: evaluate_request research_taken_run)

lemma research_complete_request:
  "execute_command research_sample_env research_sample_call ''t''
     ((research_request ''complete_task'' ''complete'' ''o'' 1 3)\<lparr>kq_checkpoint := Some ''checkpoint_iiiiiiiii''\<rparr>)
     (research_saved, []) = ((research_completed, []), snd (complete_attempt research_sample_env research_sample_call ''t''
       ''attempt_iiiii'' ''complete'' ''o'' 1 3 Aw_Valid_Success Rt_Answer_Ready Fc_None [] True Ts_Blocked
       (Some ''checkpoint_iiiiiiiii'') research_saved))"
  by (simp add: evaluate_request research_completed_run)

lemma research_sample_steps:
  "kernel_step research_sample_env (empty_research, []) (research_created, [])"
  "kernel_step research_sample_env (research_created, []) (research_claimed, [])"
  "kernel_step research_sample_env (research_claimed, []) (research_started, [])"
  "kernel_step research_sample_env (research_started, []) (research_saved, [])"
  "kernel_step research_sample_env (research_saved, []) (research_taken, [])"
  "kernel_step research_sample_env (research_saved, []) (research_completed, [])"
proof -
  show "kernel_step research_sample_env (empty_research, []) (research_created, [])"
    using kernel_step.created [where s = "(empty_research, [])"] research_created_run by fastforce
  show "kernel_step research_sample_env (research_claimed, []) (research_started, [])"
    using kernel_step.started [where s = "(research_claimed, [])"] research_started_run by fastforce
qed (rule kernel_step.commanded, rule research_claim_request research_save_request research_take_request
  research_complete_request)+

lemma research_saved_reachable: "(kernel_step research_sample_env)\<^sup>*\<^sup>* (empty_research, []) (research_saved, [])"
  using research_sample_steps(1-4) by (meson converse_rtranclp_into_rtranclp rtranclp.rtrancl_refl)

lemma research_saved_completed: "(kernel_step research_sample_env)\<^sup>*\<^sup>* (research_saved, []) (research_completed, [])"
  by (rule r_into_rtranclp) (rule research_sample_steps(6))

section \<open>Tasks\<close>

text \<open>
  C16: A task that is terminal stays as it is: no later call of the service, by whatever owner, changes
  its row, so neither its status, its result, its goal nor its version.
\<close>

theorem terminal_task_is_final:
  assumes "(kernel_step E)\<^sup>*\<^sup>* s s'" and "select_row (kd_tasks (fst s)) i = Some t" and "kt_status t = Ts_Terminal"
  shows "select_row (kd_tasks (fst s')) i = Some t"
  by (rule db_steps_terminal [OF kernel_steps [OF assms(1)] assms(2,3)])

text \<open>A request of the owner on the completed task of the samples.\<close>

lemma terminal_task_is_final_witness:
  "select_row (kd_tasks (fst (fst (execute_command research_sample_env research_sample_call ''t''
     (research_request ''renew_owner'' ''renew'' ''o'' 1 4) (research_completed, []))))) ''t'' =
   select_row (kd_tasks research_completed) ''t''"
proof -
  let ?r = "execute_command research_sample_env research_sample_call ''t''
     (research_request ''renew_owner'' ''renew'' ''o'' 1 4) (research_completed, [])"
  obtain t where t: "select_row (kd_tasks (fst (research_completed, [] :: json list))) ''t'' = Some t" "kt_status t = Ts_Terminal"
    by (simp add: research_completed_def select_row_def)
  have "(kernel_step research_sample_env)\<^sup>*\<^sup>* (research_completed, []) (fst ?r)"
    by (rule r_into_rtranclp, rule kernel_step.commanded, rule prod.collapse [symmetric])
  from terminal_task_is_final [OF this t] t(1) show ?thesis by simp
qed

text \<open>
  C18: In every reachable state each attempt belongs to a task, a task has at most one attempt that is
  not terminal, and that attempt carries the epoch of the owner of a task that is not terminal itself.
\<close>

theorem one_live_attempt:
  assumes "(kernel_step E)\<^sup>*\<^sup>* (empty_research, []) s"
  shows "attempts_inv (fst s)"
  by (rule kernel_invariant [OF assms _ db_step_attempts]) (simp_all add: attempts_inv_def empty_research_def keys_distinct_def
      select_row_def)

lemma one_live_attempt_witness: "attempts_inv research_saved \<and> length (live_attempts ''t'' research_saved) = 1"
  using one_live_attempt [OF research_saved_reachable] by (simp add: live_attempts_def research_saved_def)

section \<open>Events\<close>

lemma event_steps_rows: "(event_step E)\<^sup>*\<^sup>* db db' \<Longrightarrow> \<exists>rows. kd_events db' = kd_events db @ rows"
proof (induction rule: rtranclp_induct)
  case (step db1 db2)
  from step.hyps(2) have "\<exists>rows. kd_events db2 = kd_events db1 @ rows"
  proof (cases rule: event_step.cases)
    case (appended c e k)
    then show ?thesis by (auto simp: append_event_def ebind_eq_Inr new_id_def Let_def insert_new_Inr insert_row_def)
  qed simp
  with step.IH show ?case by (metis append.assoc)
qed simp

lemma kernel_steps_events: "(kernel_step E)\<^sup>*\<^sup>* s s' \<Longrightarrow> (event_step E)\<^sup>*\<^sup>* (fst s) (fst s')"
  using db_steps_logs [OF kernel_steps] by (simp add: logs_grow_def)

text \<open>
  The events of a task are numbered 1, 2, 3, ... in every reachable state, and the service only
  ever appends to the table of events.
\<close>

lemma research_events_gapless:
  assumes "(kernel_step E)\<^sup>*\<^sup>* (empty_research, []) s" and "(kernel_step E)\<^sup>*\<^sup>* s s'"
  shows "gapless (kernel_seqs (fst s) i) \<and> (\<exists>rows. kd_events (fst s') = kd_events (fst s) @ rows)"
  using kernel_log.stays_gapless [OF kernel_steps_events [OF assms(1)], of i] event_steps_rows [OF kernel_steps_events [OF assms(2)]]
  by (simp add: kernel_seqs_def empty_research_def)

section \<open>Checkpoints\<close>

text \<open>
  C13: In every reachable state the checkpoints of an attempt are one chain: the n-th was numbered n,
  and \<open>checkpoint_lineage\<close> of it returns the whole history down to the first, newest first, or says that
  the depth is exceeded exactly when the history is longer than the depth allowed. It never reports a
  cycle, a missing parent or a foreign row.
\<close>

theorem checkpoint_lineage_complete:
  assumes "(kernel_step E)\<^sup>*\<^sup>* (empty_research, []) s"
    and "xs = filter (\<lambda>(_, r). kc_attempt r = attempt) (kd_checkpoints (fst s))" and "n < length xs"
  shows "kc_sequence (snd (xs ! n)) = int n + 1 \<and>
    checkpoint_lineage (fst (xs ! n)) depth (fst s) =
      (if int n + 1 \<le> depth then Inr (rev (map fst (take (n + 1) xs)))
       else Inl (Research_Unsafe ''checkpoint lineage depth exceeded''))"
proof -
  have inv: "checkpoints_inv (fst s)"
    by (rule kernel_invariant [OF assms(1) _ db_step_checkpoints])
       (simp_all add: checkpoints_inv_def empty_research_def keys_distinct_def select_row_def rows_of_def)
  have xs: "xs = rows_of attempt (kd_checkpoints (fst s))" using assms(2) by (simp add: rows_of_def)
  have "chained xs" using inv by (simp add: checkpoints_inv_def xs)
  with lineage_of_chain [OF inv xs assms(3), of depth] chained_sequence [OF _ assms(3)] show ?thesis
    by (simp add: depth_exceeded_def)
qed

lemma checkpoint_lineage_complete_witness:
  "checkpoint_lineage ''checkpoint_iiiiiiiii'' 10000 research_saved = Inr [''checkpoint_iiiiiiiii'']"
  using checkpoint_lineage_complete [OF research_saved_reachable refl, of 0 "''attempt_iiiii''" 10000]
  by (simp add: research_saved_def)

section \<open>Deliveries\<close>

text \<open>
  C10: A fenced command that has returned an answer is answered the same way when the same request is
  delivered again, at any later time and in whatever state, and changes nothing; unless the caller is by
  then no longer the owner at its epoch with a valid lease, in which case it is refused and changes
  nothing.
\<close>

theorem replayed_command_answers_again:
  assumes "kq_kind r \<in> fenced_kinds" and "execute_command E c i r s = (s1, Inr v)"
    and "(kernel_step E)\<^sup>*\<^sup>* s1 s2" and "execute_command E c' i r s2 = (s3, res)"
  shows "s3 = s2 \<and> (if fence_holds c' i (the (kq_owner r)) (the (kq_epoch r)) (fst s2) then res = Inr v else isl res)"
  by (rule execute_command_replayed [OF assms])

text \<open>The saved checkpoint of the samples, delivered again after the task was completed.\<close>

lemma replayed_command_answers_again_witness:
  "execute_command research_sample_env research_sample_call ''t'' (research_request ''checkpoint'' ''save'' ''o'' 1 2)
     (research_completed, []) =
   ((research_completed, []), snd (commit_checkpoint research_sample_env research_sample_call ''t'' ''attempt_iiiii''
      ''save'' ''o'' 1 2 None (JObj []) Committed_Checkpoint research_started))"
proof -
  let ?r = "research_request ''checkpoint'' ''save'' ''o'' 1 2"
  obtain s3 res where again: "execute_command research_sample_env research_sample_call ''t'' ?r (research_completed, []) = (s3, res)"
    by fastforce
  have "kq_kind ?r \<in> fenced_kinds" by (simp add: research_request_def fenced_kinds_def)
  moreover have "fence_holds research_sample_call ''t'' (the (kq_owner ?r)) (the (kq_epoch ?r)) research_completed"
    by (simp add: fence_holds_def research_completed_def research_request_def evaluate_kernel)
  ultimately show ?thesis
    using replayed_command_answers_again [OF _ research_save_request [unfolded research_saved_run snd_conv]
        research_saved_completed again]
    by (simp add: again research_saved_run)
qed

section \<open>Owners\<close>

text \<open>The task rows of the kernel, their claims and \<open>_assert_owner\<close> are a lease.\<close>

definition kernel_epoch :: "service_state \<Rightarrow> string \<Rightarrow> int option" where
  "kernel_epoch s i = map_option kt_epoch (select_row (kd_tasks (fst s)) i)"

definition kernel_claims :: "research_env \<Rightarrow> service_state \<Rightarrow> string \<Rightarrow> string \<Rightarrow> int \<Rightarrow> service_state \<Rightarrow> bool" where
  "kernel_claims E s i owner ep s' \<longleftrightarrow>
     (\<exists>c command expected seconds v. receipt_of (fst s) i command = None \<and>
        claim_owner E c i command owner expected seconds (fst s) = (fst s', Inr v) \<and> kernel_epoch s' i = Some ep)"

definition kernel_passes :: "service_state \<Rightarrow> string \<Rightarrow> string \<Rightarrow> int \<Rightarrow> bool" where
  "kernel_passes s i owner ep \<longleftrightarrow> (\<exists>c. fence_holds c i owner ep (fst s))"

lemma kernel_step_epoch:
  assumes "kernel_step E s s'" and "kernel_epoch s i = Some e"
  shows "\<exists>e'. kernel_epoch s' i = Some e' \<and> e \<le> e'"
proof -
  have "\<exists>t'. select_row (kd_tasks db') i = Some t' \<and> e \<le> kt_epoch t'"
    if "(db_step E)\<^sup>*\<^sup>* (fst s) db'" for db'
    using that
  proof (induction rule: rtranclp_induct)
    case base then show ?case using assms(2) by (auto simp: kernel_epoch_def)
  next
    case (step db1 db2) then show ?case using db_step_epoch [OF step.hyps(2)] by (meson order_trans)
  qed
  from this [OF kernel_step_steps [OF assms(1)]] show ?thesis by (auto simp: kernel_epoch_def)
qed

lemma kernel_claims_raise:
  assumes "kernel_claims E s i owner e s'"
  shows "\<exists>e0. kernel_epoch s i = Some e0 \<and> e0 < e \<and> kernel_epoch s' i = Some e"
proof -
  from assms obtain c command expected seconds v where new: "receipt_of (fst s) i command = None"
    and run: "claim_owner E c i command owner expected seconds (fst s) = (fst s', Inr v)"
    and e: "kernel_epoch s' i = Some e" unfolding kernel_claims_def by blast
  let ?hash = "research_hash E (claim_payload owner expected seconds)"
  from run have "run_command E c i command ?hash (Some owner) None
      (claim_owner_body E c i command owner expected seconds ?hash) (fst s) = (fst s', Inr v)"
    by (auto simp: claim_owner_def Let_def split: if_splits)
  then have body: "claim_owner_body E c i command owner expected seconds ?hash (fst s) = Inr (fst s', v)"
    using new by (cases rule: run_command_cases) simp_all
  then show ?thesis
  proof (rule claim_owner_commit)
    fix t assume t: "fetch_task c i (fst s) = Inr t"
      and com: "commits E c (fst s) i command ?hash (\<lambda>u. u\<lparr>kt_owner := Some owner, kt_epoch := kt_epoch t + 1,
           kt_lease := Some (expires_at c seconds)\<rparr>) (cl_db_now c) v (fst s')"
    from com t e show ?thesis by (auto simp: kernel_epoch_def fetch_task_Inr elim!: commits_task)
  qed
qed

lemma kernel_passes_epoch: "kernel_passes s i owner e \<Longrightarrow> kernel_epoch s i = Some e"
  by (auto simp: kernel_passes_def fence_holds_def kernel_epoch_def fetch_task_Inr assert_owner_Inr)

lemma kernel_passes_owner: "kernel_passes s i owner e \<Longrightarrow> kernel_passes s i owner' e' \<Longrightarrow> owner' = owner"
  by (auto simp: kernel_passes_def fence_holds_def fetch_task_Inr assert_owner_Inr)

interpretation kernel_lease: fenced_lease "kernel_step E" kernel_epoch "kernel_claims E" kernel_passes
  by unfold_locales (rule kernel_step_epoch kernel_claims_raise kernel_passes_epoch kernel_passes_owner; assumption)+

text \<open>
  C8: Once another owner has claimed a task, every fenced command of the superseded epoch is refused for
  ever, whoever sends it, and changes nothing: a renewal, an attempt, a checkpoint, a completion, a
  cancellation, a recovery or a resolution.
\<close>

theorem superseded_owner_is_refused:
  assumes "kernel_epoch s i = Some ep" and "(kernel_step E)\<^sup>*\<^sup>* s s1" and "kernel_claims E s1 i owner ep' s2"
    and "(kernel_step E)\<^sup>*\<^sup>* s2 s3"
    and "kq_kind r \<in> fenced_kinds" and "kq_epoch r = Some ep" and "execute_command E c i r s3 = (s4, res)"
  shows "s4 = s3 \<and> isl res"
proof -
  have "\<not> kernel_passes s3 i (the (kq_owner r)) ep" by (rule kernel_lease.stale_never_passes [OF assms(1-4)])
  then have "\<not> fence_holds c i (the (kq_owner r)) (the (kq_epoch r)) (fst s3)"
    using assms(6) by (auto simp: kernel_passes_def)
  then show ?thesis by (rule execute_command_fenced [OF assms(5) _ assms(7)])
qed

text \<open>The first owner of the samples after the second has claimed the task.\<close>

lemma superseded_owner_is_refused_witness:
  "isl (snd (execute_command research_sample_env research_late_call ''t''
     (research_request ''renew_owner'' ''renew'' ''o'' 1 4) (research_taken, [])))"
proof -
  let ?r = "research_request ''renew_owner'' ''renew'' ''o'' 1 4"
  obtain s4 res where run: "execute_command research_sample_env research_late_call ''t'' ?r (research_taken, []) = (s4, res)"
    by fastforce
  have "receipt_of research_saved ''t'' ''take'' = None" by (simp add: receipt_of_def research_saved_def)
  moreover have "kernel_epoch (research_taken, []) ''t'' = Some 2" by (simp add: kernel_epoch_def research_taken_def select_row_def)
  ultimately have claim: "kernel_claims research_sample_env (research_saved, []) ''t'' ''n'' 2 (research_taken, [])"
    unfolding kernel_claims_def fst_conv using research_taken_run by blast
  have "kernel_epoch (research_saved, []) ''t'' = Some 1" by (simp add: kernel_epoch_def research_saved_def select_row_def)
  moreover have "kq_kind ?r \<in> fenced_kinds" "kq_epoch ?r = Some 1" by (simp_all add: research_request_def fenced_kinds_def)
  ultimately show ?thesis
    using superseded_owner_is_refused [OF _ rtranclp.rtrancl_refl claim rtranclp.rtrancl_refl _ _ run] by (simp add: run)
qed

end
