(* ===== verification/Research_Adapter.thy ===== *)
theory Research_Adapter
  imports Research_Invariants Json_Identity
begin

text \<open>
  What every transaction keeps of the effects: an effect keeps its task, kind and key, leaves
  \<open>reserved\<close> once and for ever, and stays the only one of its task, kind and key.
\<close>

section \<open>Effects only move on\<close>

text \<open>An effect keeps its identity and is never reserved again; the keys stay unique.\<close>

definition advances :: "kernel_effect \<Rightarrow> kernel_effect \<Rightarrow> bool" where
  "advances s s' \<longleftrightarrow> ks_task s' = ks_task s \<and> ks_kind s' = ks_kind s \<and> ks_key s' = ks_key s \<and>
     (ks_status s \<noteq> Fx_Reserved \<longrightarrow> ks_status s' \<noteq> Fx_Reserved)"

definition triple :: "kernel_effect \<Rightarrow> string \<times> string \<times> string" where
  "triple s = (ks_task s, ks_kind s, ks_key s)"

definition effects_unique :: "(string, kernel_effect) table \<Rightarrow> bool" where
  "effects_unique ts \<longleftrightarrow> keys_distinct ts \<and>
     (\<forall>k s k' s'. select_row ts k = Some s \<longrightarrow> select_row ts k' = Some s' \<longrightarrow> triple s' = triple s \<longrightarrow> k' = k)"

definition effects_advance :: "(string, kernel_effect) table \<Rightarrow> (string, kernel_effect) table \<Rightarrow> bool" where
  "effects_advance ts ts' \<longleftrightarrow>
     (\<forall>k s. select_row ts k = Some s \<longrightarrow> (\<exists>s'. select_row ts' k = Some s' \<and> advances s s')) \<and>
     (effects_unique ts \<longrightarrow> effects_unique ts')"

lemma advances_refl [simp]: "advances s s"
  by (simp add: advances_def)

lemma advances_trans: "advances s s' \<Longrightarrow> advances s' s'' \<Longrightarrow> advances s s''"
  by (auto simp: advances_def)

lemma advances_triple: "advances s s' \<Longrightarrow> triple s' = triple s"
  by (simp add: advances_def triple_def)

lemma effects_advance_refl [simp]: "effects_advance ts ts"
  by (simp add: effects_advance_def)

lemma effects_advance_trans: "effects_advance a b \<Longrightarrow> effects_advance b c \<Longrightarrow> effects_advance a c"
  unfolding effects_advance_def by (blast intro: advances_trans)

lemma effects_advance_update:
  assumes "\<And>k s. select_row ts k = Some s \<Longrightarrow> P k s \<Longrightarrow> advances s (f s)"
  shows "effects_advance ts (update_where P f ts)"
proof -
  have sel: "select_row (update_where P f ts) k = map_option (\<lambda>s. if P k s then f s else s) (select_row ts k)" for k
    by (simp add: table_simps)
  have adv: "select_row ts k = Some s \<Longrightarrow> advances s (if P k s then f s else s)" for k s
    using assms by simp
  have "effects_unique (update_where P f ts)" if u: "effects_unique ts"
    unfolding effects_unique_def
  proof (intro conjI allI impI)
    show "keys_distinct (update_where P f ts)" using u by (simp add: effects_unique_def table_simps)
    fix k s k' s'
    assume "select_row (update_where P f ts) k = Some s" "select_row (update_where P f ts) k' = Some s'" "triple s' = triple s"
    then obtain r r' where r: "select_row ts k = Some r" "s = (if P k r then f r else r)"
        "select_row ts k' = Some r'" "s' = (if P k' r' then f r' else r')" by (auto simp: sel)
    with advances_triple [OF adv [OF r(1)]] advances_triple [OF adv [OF r(3)]] \<open>triple s' = triple s\<close>
    have "triple r' = triple r" by simp
    with u r(1,3) show "k' = k" unfolding effects_unique_def by blast
  qed
  with adv show ?thesis by (auto simp: effects_advance_def sel)
qed

lemma effects_advance_row:
  assumes "select_row ts k = Some s" and "advances s (f s)"
  shows "effects_advance ts (update_row k f ts)"
  unfolding update_row_def using assms by (intro effects_advance_update) auto

lemma effects_advance_insert:
  assumes "select_row ts k = None" and "\<And>k' s'. select_row ts k' = Some s' \<Longrightarrow> triple s' \<noteq> triple s"
  shows "effects_advance ts (insert_row k s ts)"
proof -
  have sel: "select_row (insert_row k s ts) j = (if j = k then Some s else select_row ts j)" for j
    using assms(1) by (auto simp: table_simps split: option.splits)
  have "effects_unique (insert_row k s ts)" if u: "effects_unique ts"
    unfolding effects_unique_def
  proof (intro conjI allI impI)
    show "keys_distinct (insert_row k s ts)" using u assms(1) by (simp add: effects_unique_def keys_distinct_insert)
    fix j r j' r'
    assume "select_row (insert_row k s ts) j = Some r" "select_row (insert_row k s ts) j' = Some r'" "triple r' = triple r"
    then show "j' = j"
      using u assms(2) unfolding effects_unique_def sel by (metis option.inject)
  qed
  with assms(1) show ?thesis by (auto simp: effects_advance_def sel)
qed

lemma rebind_effects_advance:
  "rebind_effects E c i command ep rows db = Inr db' \<Longrightarrow> effects_advance (kd_effects db) (kd_effects db')"
proof (induction rows arbitrary: db)
  case (Cons p rows)
  obtain k s where p: "p = (k, s)" by (cases p)
  let ?ts = "update_where (\<lambda>k' s'. k' = k \<and> ks_status s' = Fx_Reserved \<and> ks_epoch s' = ks_epoch s)
            (\<lambda>s'. s'\<lparr>ks_epoch := ep, ks_updated := cl_db_now c\<rparr>) (kd_effects db)"
  from Cons.prems obtain kk e db1 where ev: "append_event E c e (db\<lparr>kd_effects := ?ts\<rparr>) = Inr (kk, db1)"
      and rest: "rebind_effects E c i command ep rows db1 = Inr db'"
    by (auto simp: p ebind_eq_Inr)
  have "effects_advance (kd_effects db) ?ts" by (rule effects_advance_update) (simp add: advances_def)
  moreover have "kd_effects db1 = ?ts" using append_event_tables(6) [OF ev] by simp
  ultimately show ?case using Cons.IH [OF rest] effects_advance_trans by metis
qed simp

lemma mark_unknown_advance:
  "mark_unknown E c i command ep rows db = Inr db' \<Longrightarrow> effects_advance (kd_effects db) (kd_effects db')"
proof (induction rows arbitrary: db)
  case (Cons p rows)
  obtain k s where p: "p = (k, s)" by (cases p)
  let ?ts = "update_row k (\<lambda>s'. s'\<lparr>ks_status := Fx_Unknown, ks_updated := cl_now c\<rparr>) (kd_effects db)"
  from Cons.prems obtain kk e db1 where ev: "append_event E c e (db\<lparr>kd_effects := ?ts\<rparr>) = Inr (kk, db1)"
      and rest: "mark_unknown E c i command ep rows db1 = Inr db'"
    by (auto simp: p ebind_eq_Inr)
  have "effects_advance (kd_effects db) ?ts"
    unfolding update_row_def by (rule effects_advance_update) (simp add: advances_def)
  moreover have "kd_effects db1 = ?ts" using append_event_tables(6) [OF ev] by simp
  ultimately show ?case using Cons.IH [OF rest] effects_advance_trans by metis
qed simp

lemma claim_owner_effects:
  assumes "claim_owner_body E c i command owner expected seconds hash db = Inr (db', v)"
  shows "effects_advance (kd_effects db) (kd_effects db')"
  using assms
  by (auto simp: claim_owner_body_def ebind_eq_Inr Let_def append_event_tables split: if_splits
      elim!: commit_response_Inr dest!: rebind_effects_advance)

lemma find_effect_row:
  assumes "find_effect i kind key db = Some (k, s)"
  shows "(k, s) \<in> set (kd_effects db)" and "triple s = (i, kind, key)"
  using assms nth_mem by (fastforce simp: find_effect_def triple_def find_Some_iff)+

lemma find_effect_absent:
  assumes "find_effect i kind key db = None" and "select_row (kd_effects db) k = Some s"
  shows "triple s \<noteq> (i, kind, key)"
  using assms select_row_mem [OF assms(2)] by (auto simp: find_effect_def triple_def find_None_iff)

lemma reserve_row_effects:
  assumes "reserve_row E c i attempt command kind key request ep db = Inr (k, type, db')"
  shows "effects_advance (kd_effects db) (kd_effects db')"
  using assms
proof (cases rule: reserve_row_Inr)
  case fresh
  have "triple (new_effect c i attempt command kind key (research_hash E request) request ep) = (i, kind, key)"
    by (simp add: triple_def new_effect_def)
  with find_effect_absent [OF fresh(1)] show ?thesis by (simp add: fresh(3) effects_advance_insert [OF fresh(2)])
qed simp

lemma db_step_effects: "db_step E db db' \<Longrightarrow> effects_advance (kd_effects db) (kd_effects db')"
proof (induction rule: db_step.induct)
  case (stay db) then show ?case by simp
next
  case (audit c t i command stored received now db k db')
  then show ?case using append_event_tables(6) [OF audit] by simp
next
  case claim then show ?case by (rule claim_owner_effects)
next
  case reserve then show ?case by (rule reserve_commit) (metis reserve_row_effects)
next
  case (transit c i k command owner ep expected target operation receipt reference db db' v)
  then show ?case
  proof (rule transition_commit)
    fix t s
    assume s: "select_row (kd_effects db) k = Some s" "transition_allowed (ks_status s) target"
      and rows: "kd_effects db' = update_row k (moved_effect c target operation receipt reference) (kd_effects db)"
    from s(2) have "advances s (moved_effect c target operation receipt reference s)"
      by (auto simp: advances_def moved_effect_def transition_allowed_def)
    with s(1) show ?case unfolding rows by (rule effects_advance_row)
  qed
next
  case recover then show ?case by (rule recover_commit) (metis mark_unknown_advance)
next
  case (resolve c i k command owner ep expected verdict db db' v)
  then show ?case
  proof (rule resolve_commit)
    fix t s
    assume s: "select_row (kd_effects db) k = Some s"
      and rows: "kd_effects db' = update_row k (\<lambda>s. s\<lparr>ks_status := (if verdict = ''succeeded'' then Fx_Succeeded else Fx_Failed),
           ks_epoch := ep, ks_updated := cl_now c\<rparr>) (kd_effects db)"
    show ?case unfolding rows by (rule effects_advance_row [OF s]) (simp add: advances_def)
  qed
qed (auto elim!: create_task_commit renew_owner_commit start_attempt_commit commit_checkpoint_commit complete_attempt_commit
    revise_goal_commit)

end
