(* ===== verification/Research_Once.thy ===== *)
theory Research_Once
  imports Research_Adapter Research_Properties
begin

text \<open>
  A payload hash identifies the payload of its receipt, as long as the digest has no collision; so the
  receipt of a reservation names the effect of its kind and key, and a start whose receipt exists has
  moved its effect on.
\<close>

section \<open>What a payload hash identifies\<close>

definition payload_field :: "string \<Rightarrow> json \<Rightarrow> json option" where
  "payload_field f v = (case v of JObj kvs \<Rightarrow> map_of kvs f | _ \<Rightarrow> None)"

definition keyed_object :: "json \<Rightarrow> bool" where
  "keyed_object v \<longleftrightarrow> (case v of JObj kvs \<Rightarrow> distinct (map fst kvs) | _ \<Rightarrow> False)"

text \<open>Payloads of the commands that neither reserve nor move an effect.\<close>

definition other_payload :: "json \<Rightarrow> bool" where
  "other_payload v \<longleftrightarrow> keyed_object v \<and> payload_field ''effect_kind'' v = None \<and> payload_field ''target_status'' v = None"

lemmas payload_simps = other_payload_def keyed_object_def payload_field_def

lemma other_payloads:
  "other_payload (claim_payload owner expected seconds)"
  "other_payload (renew_payload owner ep expected seconds)"
  "other_payload (start_payload owner ep expected cause parent source enqueue)"
  "other_payload (checkpoint_payload attempt owner ep expected checkpoint state kind)"
  "other_payload (complete_payload attempt owner ep expected answer termination failure detail terminal next_status checkpoint)"
  "other_payload (revise_payload owner ep expected objective constraints policy)"
  "other_payload (recover_payload owner ep expected)"
  "other_payload (resolve_payload k owner ep expected verdict)"
  "other_payload (create_payload objective constraints policy parent i profile execution)"
  by (simp_all add: payload_simps claim_payload_def renew_payload_def start_payload_def checkpoint_payload_def
      complete_payload_def revise_payload_def recover_payload_def resolve_payload_def create_payload_def split: option.split)

lemma reserve_fields:
  "keyed_object (reserve_payload attempt owner ep expected kind key h)"
  "payload_field ''effect_kind'' (reserve_payload attempt owner ep expected kind key h) = Some (JStr kind)"
  "payload_field ''idempotency_key'' (reserve_payload attempt owner ep expected kind key h) = Some (JStr key)"
  "payload_field ''target_status'' (reserve_payload attempt owner ep expected kind key h) = None"
  by (simp_all add: payload_simps reserve_payload_def)

lemma transition_fields:
  "keyed_object (transition_payload k owner ep expected target operation receipt reference)"
  "payload_field ''effect_kind'' (transition_payload k owner ep expected target operation receipt reference) = None"
  "payload_field ''side_effect_id'' (transition_payload k owner ep expected target operation receipt reference) = Some (JStr k)"
  "payload_field ''target_status'' (transition_payload k owner ep expected target operation receipt reference) =
     Some (JStr (side_effect_status_text target))"
  by (simp_all add: payload_simps transition_payload_def)

definition hash_collision :: "research_env \<Rightarrow> bool" where
  "hash_collision E \<longleftrightarrow> (\<exists>v w. research_hash E v = research_hash E w \<and> canonical_json v \<noteq> canonical_json w)"

lemma same_hash_field:
  assumes "\<not> hash_collision E" and "research_hash E v = research_hash E w" and "keyed_object v" and "keyed_object w"
  shows "map_option normal (payload_field f v) = map_option normal (payload_field f w)"
proof -
  obtain kvs lvs where v: "v = JObj kvs" "distinct (map fst kvs)" and w: "w = JObj lvs" "distinct (map fst lvs)"
    using assms(3,4) by (auto simp: keyed_object_def split: json.splits)
  have "canonical_json v = canonical_json w" using assms(1,2) unfolding hash_collision_def by blast
  with canonical_field [OF _ v(2) w(2), of f] show ?thesis by (simp add: v(1) w(1) payload_field_def del: canonical_json.simps)
qed

section \<open>Receipts account for the effects\<close>

text \<open>
  A receipt of a reservation names the effect of its kind and key; a receipt of a start names an effect
  that is no longer reserved.
\<close>

definition accounted :: "research_env \<Rightarrow> (string, kernel_effect) table \<Rightarrow> kernel_receipt \<Rightarrow> bool" where
  "accounted E ts r \<longleftrightarrow>
     (\<forall>attempt owner ep expected kind key h.
        kx_hash r = research_hash E (reserve_payload attempt owner ep expected kind key h) \<longrightarrow>
        (\<exists>k s. response_text ''side_effect_id'' (kx_response r) = Inr k \<and> select_row ts k = Some s \<and>
           triple s = (kx_task r, kind, key))) \<and>
     (\<forall>k owner ep expected operation receipt reference.
        kx_hash r = research_hash E (transition_payload k owner ep expected Fx_In_Flight operation receipt reference) \<longrightarrow>
        (\<exists>s. select_row ts k = Some s \<and> ks_status s \<noteq> Fx_Reserved))"

definition effects_accounted :: "research_env \<Rightarrow> research_db \<Rightarrow> bool" where
  "effects_accounted E db \<longleftrightarrow> effects_unique (kd_effects db) \<and> (\<forall>(k, r) \<in> set (kd_receipts db). accounted E (kd_effects db) r)"

lemma accounted_advance:
  assumes "accounted E ts r" and "effects_advance ts ts'"
  shows "accounted E ts' r"
proof -
  have row: "\<exists>s'. select_row ts' k = Some s' \<and> triple s' = triple s \<and> (ks_status s \<noteq> Fx_Reserved \<longrightarrow> ks_status s' \<noteq> Fx_Reserved)"
    if "select_row ts k = Some s" for k s
    using assms(2) that unfolding effects_advance_def by (meson advances_def advances_triple)
  show ?thesis
    unfolding accounted_def
  proof (intro conjI allI impI)
    fix attempt owner ep expected kind key h
    assume "kx_hash r = research_hash E (reserve_payload attempt owner ep expected kind key h)"
    then obtain k s where "response_text ''side_effect_id'' (kx_response r) = Inr k" "select_row ts k = Some s"
        "triple s = (kx_task r, kind, key)"
      using assms(1) unfolding accounted_def by blast
    with row show "\<exists>k s. response_text ''side_effect_id'' (kx_response r) = Inr k \<and> select_row ts' k = Some s \<and>
        triple s = (kx_task r, kind, key)" by metis
  next
    fix k owner ep expected operation receipt reference
    assume "kx_hash r = research_hash E (transition_payload k owner ep expected Fx_In_Flight operation receipt reference)"
    then obtain s where "select_row ts k = Some s" "ks_status s \<noteq> Fx_Reserved"
      using assms(1) unfolding accounted_def by blast
    with row show "\<exists>s. select_row ts' k = Some s \<and> ks_status s \<noteq> Fx_Reserved" by metis
  qed
qed

lemma accountedI:
  assumes "\<not> hash_collision E" and "kx_hash r = research_hash E p" and "keyed_object p"
    and "\<And>kind key. map_option normal (payload_field ''effect_kind'' p) = Some (JStr kind) \<Longrightarrow>
      map_option normal (payload_field ''idempotency_key'' p) = Some (JStr key) \<Longrightarrow>
      \<exists>k s. response_text ''side_effect_id'' (kx_response r) = Inr k \<and> select_row ts k = Some s \<and>
        triple s = (kx_task r, kind, key)"
    and "\<And>k. map_option normal (payload_field ''side_effect_id'' p) = Some (JStr k) \<Longrightarrow>
      payload_field ''target_status'' p \<noteq> None \<Longrightarrow> \<exists>s. select_row ts k = Some s \<and> ks_status s \<noteq> Fx_Reserved"
  shows "accounted E ts r"
  unfolding accounted_def assms(2)
proof (intro conjI allI impI)
  fix attempt owner ep expected kind key h
  assume "research_hash E p = research_hash E (reserve_payload attempt owner ep expected kind key h)"
  note same = same_hash_field [OF assms(1) this assms(3) reserve_fields(1)]
  show "\<exists>k s. response_text ''side_effect_id'' (kx_response r) = Inr k \<and> select_row ts k = Some s \<and>
      triple s = (kx_task r, kind, key)"
    by (rule assms(4)) (simp_all add: same reserve_fields)
next
  fix k owner ep expected operation receipt reference
  assume "research_hash E p =
      research_hash E (transition_payload k owner ep expected Fx_In_Flight operation receipt reference)"
  note same = same_hash_field [OF assms(1) this assms(3) transition_fields(1)]
  have "map_option normal (payload_field ''target_status'' p) \<noteq> None" by (simp add: same transition_fields)
  then have "payload_field ''target_status'' p \<noteq> None" by auto
  then show "\<exists>s. select_row ts k = Some s \<and> ks_status s \<noteq> Fx_Reserved"
    by (intro assms(5)) (simp_all add: same transition_fields)
qed

lemma accounted_other:
  assumes "\<not> hash_collision E" and "other_payload p" and "kx_hash r = research_hash E p"
  shows "accounted E ts r"
  by (rule accountedI [OF assms(1,3)]) (use assms(2) in \<open>simp_all add: other_payload_def\<close>)

lemma accounted_reserve:
  assumes "\<not> hash_collision E" and "kx_hash r = research_hash E (reserve_payload attempt owner ep expected kind key h)"
    and "response_text ''side_effect_id'' (kx_response r) = Inr k" and "select_row ts k = Some s"
    and "triple s = (kx_task r, kind, key)"
  shows "accounted E ts r"
  by (rule accountedI [OF assms(1,2)]) (use assms(3-5) in \<open>simp_all add: reserve_fields\<close>)

lemma accounted_transition:
  assumes "\<not> hash_collision E"
    and "kx_hash r = research_hash E (transition_payload k owner ep expected target operation receipt reference)"
    and "select_row ts k = Some s" and "ks_status s \<noteq> Fx_Reserved"
  shows "accounted E ts r"
  by (rule accountedI [OF assms(1,2)]) (use assms(3,4) in \<open>simp_all add: transition_fields\<close>)

text \<open>A command that adds a receipt, and one that adds none.\<close>

lemma effects_accounted_same:
  assumes "effects_accounted E db" and "effects_advance (kd_effects db) (kd_effects db')"
    and "kd_receipts db' = kd_receipts db"
  shows "effects_accounted E db'"
  using assms accounted_advance [OF _ assms(2)] unfolding effects_accounted_def effects_advance_def by auto

lemma effects_accounted_records:
  assumes "effects_accounted E db" and "effects_advance (kd_effects db) (kd_effects db')"
    and "records db i command hash v db'"
    and "\<And>r. kx_task r = i \<Longrightarrow> kx_hash r = hash \<Longrightarrow> kx_response r = v \<Longrightarrow> accounted E (kd_effects db') r"
  shows "effects_accounted E db'"
proof -
  from assms(3) obtain k r where r: "kd_receipts db' = kd_receipts db @ [(k, r)]" "kx_task r = i" "kx_hash r = hash"
      "kx_response r = v" by (auto simp: records_def)
  have "effects_unique (kd_effects db')" using assms(1,2) by (simp add: effects_accounted_def effects_advance_def)
  moreover have "accounted E (kd_effects db') q" if "(j, q) \<in> set (kd_receipts db)" for j q
    using assms(1) that by (intro accounted_advance [OF _ assms(2)]) (auto simp: effects_accounted_def)
  ultimately show ?thesis using assms(4) [OF r(2-4)] by (auto simp: effects_accounted_def r(1))
qed

lemma effects_accounted_other:
  assumes "\<not> hash_collision E" and "other_payload p" and "effects_accounted E db"
    and "effects_advance (kd_effects db) (kd_effects db')" and "records db i command (research_hash E p) v db'"
  shows "effects_accounted E db'"
  by (rule effects_accounted_records [OF assms(3-5)]) (rule accounted_other [OF assms(1,2)])

lemma commits_records: "commits E c db i command hash f now v db' \<Longrightarrow> records db i command hash v db'"
  by (simp add: commits_def)

lemma reserved_effect:
  assumes "effects_unique (kd_effects db)" and "reserve_row E c i attempt command kind key request ep db = Inr (k, type, db')"
  shows "\<exists>s. select_row (kd_effects db') k = Some s \<and> triple s = (i, kind, key)"
  using assms(2)
proof (cases rule: reserve_row_Inr)
  case (known s)
  with find_effect_row [OF known(1)] assms(1) show ?thesis by (auto simp: effects_unique_def select_row_in)
next
  case fresh
  then show ?thesis by (simp add: table_simps triple_def new_effect_def)
qed

lemma db_step_accounted:
  assumes free: "\<not> hash_collision E" and step: "db_step E db db'" and inv: "effects_accounted E db"
  shows "effects_accounted E db'"
proof -
  note adv = db_step_effects [OF step]
  note other = effects_accounted_other [OF free _ inv adv]
  from step show ?thesis
  proof (cases rule: db_step.cases)
    case stay with inv show ?thesis by simp
  next
    case (audit c t i command stored received now k)
    from append_event_tables(7) [OF audit] show ?thesis by (rule effects_accounted_same [OF inv adv])
  next
    case create
    then show ?thesis by (rule create_task_commit) (erule other [OF other_payloads(9)])
  next
    case claim
    then show ?thesis by (rule claim_owner_commit) (erule other [OF other_payloads(1) commits_records])
  next
    case renew
    then show ?thesis by (rule renew_owner_commit) (erule other [OF other_payloads(2) commits_records])
  next
    case start
    then show ?thesis by (rule start_attempt_commit) (erule other [OF other_payloads(3) commits_records])
  next
    case checkpoint
    then show ?thesis by (rule commit_checkpoint_commit) (erule other [OF other_payloads(4) commits_records])
  next
    case complete
    then show ?thesis by (rule complete_attempt_commit) (erule other [OF other_payloads(5) commits_records])
  next
    case revise
    then show ?thesis by (rule revise_goal_commit) (erule other [OF other_payloads(6) commits_records])
  next
    case recover
    then show ?thesis by (rule recover_commit) (erule other [OF other_payloads(7) commits_records])
  next
    case resolve
    then show ?thesis by (rule resolve_commit) (erule other [OF other_payloads(8) commits_records])
  next
    case (reserve c i attempt command owner ep expected kind key request v)
    then show ?thesis
    proof (rule reserve_commit)
      fix t a k type db1
      assume row: "reserve_row E c i attempt command kind key request ep db = Inr (k, type, db1)"
        and v: "v = JObj [(''task_id'', JStr i), (''side_effect_id'', JStr k), (''state_version'', JInt (expected + 1))]"
        and com: "commits E c db i command (research_hash E (reserve_payload attempt owner ep expected kind key
           (research_hash E request))) id (cl_now c) v db'" and fx: "kd_effects db' = kd_effects db1"
      obtain s where "select_row (kd_effects db') k = Some s" "triple s = (i, kind, key)"
        using reserved_effect [OF _ row] inv by (auto simp: effects_accounted_def fx)
      then show ?thesis
        by (intro effects_accounted_records [OF inv adv commits_records [OF com]] accounted_reserve [OF free])
          (assumption | simp add: v response_text_def)+
    qed
  next
    case (transit c i k command owner ep expected target operation receipt reference v)
    then show ?thesis
    proof (rule transition_commit)
      fix t s
      assume s: "select_row (kd_effects db) k = Some s" "transition_allowed (ks_status s) target"
        and com: "commits E c db i command (research_hash E (transition_payload k owner ep expected target operation
           receipt reference)) id (cl_now c) v db'"
        and fx: "kd_effects db' = update_row k (moved_effect c target operation receipt reference) (kd_effects db)"
      have "select_row (kd_effects db') k = Some (moved_effect c target operation receipt reference s)"
        by (simp add: fx s(1) table_simps)
      moreover have "ks_status (moved_effect c target operation receipt reference s) \<noteq> Fx_Reserved"
        using s(2) by (auto simp: moved_effect_def transition_allowed_def)
      ultimately show ?thesis
        by (intro effects_accounted_records [OF inv adv commits_records [OF com]] accounted_transition [OF free])
    qed
  qed
qed

section \<open>What the answers of the protocol say\<close>

lemma fenced_body_reserve:
  "fenced_body c i command hash owner ep expected
     (reserve_side_effect_body E c i attempt command owner ep expected kind key request hash)"
proof (rule fenced_bodyI [where E = E])
  fix db db' v assume body: "reserve_side_effect_body E c i attempt command owner ep expected kind key request hash db = Inr (db', v)"
  then show "\<exists>t f now. fetch_task c i db = Inr t \<and> owner_guards c t owner ep expected = Inr () \<and>
      commits E c db i command hash f now v db'" by (rule reserve_commit) blast
  from body show "truthy v" by (rule reserve_commit) simp
qed

lemma fenced_body_transition:
  "fenced_body c i command hash owner ep expected
     (transition_body E c i k command owner ep expected target operation receipt reference hash)"
proof (rule fenced_bodyI [where E = E])
  fix db db' v
  assume body: "transition_body E c i k command owner ep expected target operation receipt reference hash db = Inr (db', v)"
  then show "\<exists>t f now. fetch_task c i db = Inr t \<and> owner_guards c t owner ep expected = Inr () \<and>
      commits E c db i command hash f now v db'" by (rule transition_commit) blast
  from body show "truthy v" by (rule transition_commit) simp
qed

lemma receipt_of_mem: "receipt_of db i command = Some r \<Longrightarrow> \<exists>k. (k, r) \<in> set (kd_receipts db) \<and> kx_task r = i"
  by (auto simp: receipt_of_def find_Some_iff) (metis nth_mem)

lemma receipt_accounted:
  "effects_accounted E db \<Longrightarrow> receipt_of db i command = Some r \<Longrightarrow> accounted E (kd_effects db) r \<and> kx_task r = i"
  using receipt_of_mem by (fastforce simp: effects_accounted_def)

lemma response_receipt: "response_text f (kx_response r) = Inr k \<Longrightarrow> receipt_response r = kx_response r"
  by (auto simp: response_text_def receipt_response_def split: json.splits option.splits)

text \<open>What the answer of a reservation names, and what the answer of a start has moved.\<close>

lemma reservation_names:
  assumes "\<not> hash_collision E" and "effects_accounted E db"
    and run: "reserve_side_effect E c i attempt command owner ep expected kind key request db = (db', Inr v)"
    and "response_text ''side_effect_id'' v = Inr k"
  shows "\<exists>s. select_row (kd_effects db') k = Some s \<and> triple s = (i, kind, key)"
proof -
  have inv: "effects_accounted E db'" by (rule db_step_accounted [OF assms(1) reserve_side_effect_step [OF run] assms(2)])
  from run obtain r where r: "receipt_of db' i command = Some r" "receipt_response r = v"
      "kx_hash r = research_hash E (reserve_payload attempt owner ep expected kind key (research_hash E request))"
    unfolding reserve_side_effect_def Let_def by (rule fenced_command_receipt [OF _ fenced_body_reserve])
  from receipt_accounted [OF inv r(1)] r(3) obtain k' s where s: "response_text ''side_effect_id'' (kx_response r) = Inr k'"
      "select_row (kd_effects db') k' = Some s" "triple s = (i, kind, key)"
    unfolding accounted_def by blast
  with response_receipt [OF s(1)] r(2) assms(4) show ?thesis by auto
qed

lemma start_moves:
  assumes "\<not> hash_collision E" and "effects_accounted E db"
    and run: "transition_side_effect E c i k command owner ep expected Fx_In_Flight None None None db = (db', Inr v)"
  shows "\<exists>s. select_row (kd_effects db') k = Some s \<and> ks_status s \<noteq> Fx_Reserved"
proof -
  have inv: "effects_accounted E db'" by (rule db_step_accounted [OF assms(1) transition_side_effect_step [OF run] assms(2)])
  from run obtain r where r: "receipt_of db' i command = Some r"
      "kx_hash r = research_hash E (transition_payload k owner ep expected Fx_In_Flight None None None)"
    by (auto simp: transition_side_effect_def Let_def elim!: fenced_command_receipt [OF _ fenced_body_transition])
  from receipt_accounted [OF inv r(1)] r(2) show ?thesis unfolding accounted_def by blast
qed

end
