(* ===== verification/Research_Interleaving.thy ===== *)
theory Research_Interleaving
  imports Research_Once
begin

text \<open>
  The deterministic adapter under concurrency. Deliveries of effect requests take their transactions one by
  one, in any order and next to every other call of the service, and a process may die between any two.
  Two calls for the same effect then come from deliveries of the same command, so there is at most one as
  long as deliveries of a command do not overlap; the last section shows that this condition is needed.
\<close>

section \<open>Only one command starts an effect\<close>

definition starts_effect :: "research_env \<Rightarrow> string \<Rightarrow> kernel_receipt \<Rightarrow> bool" where
  "starts_effect E k r \<longleftrightarrow> (\<exists>owner ep expected operation receipt reference.
     kx_hash r = research_hash E (transition_payload k owner ep expected Fx_In_Flight operation receipt reference))"

definition starts_once :: "research_env \<Rightarrow> research_db \<Rightarrow> bool" where
  "starts_once E db \<longleftrightarrow> (\<forall>j r j' r' k. (j, r) \<in> set (kd_receipts db) \<longrightarrow> (j', r') \<in> set (kd_receipts db) \<longrightarrow>
     starts_effect E k r \<longrightarrow> starts_effect E k r' \<longrightarrow> kx_task r' = kx_task r \<and> kx_command r' = kx_command r)"

lemma start_fields:
  assumes "\<not> hash_collision E" and "kx_hash r = research_hash E p" and "keyed_object p" and "starts_effect E k r"
  shows "map_option normal (payload_field ''target_status'' p) = Some (JStr ''in_flight'')"
    and "map_option normal (payload_field ''side_effect_id'' p) = Some (JStr k)"
proof -
  obtain owner ep expected operation receipt reference where
    "research_hash E p = research_hash E (transition_payload k owner ep expected Fx_In_Flight operation receipt reference)"
    using assms(2,4) unfolding starts_effect_def by metis
  note same = same_hash_field [OF assms(1) this assms(3) transition_fields(1)]
  show "map_option normal (payload_field ''target_status'' p) = Some (JStr ''in_flight'')"
    "map_option normal (payload_field ''side_effect_id'' p) = Some (JStr k)"
    by (simp_all add: same transition_fields)
qed

lemma starts_once_records:
  assumes "starts_once E db" and "records db i command hash v db'"
    and "\<And>k r j q. kx_hash r = hash \<Longrightarrow> starts_effect E k r \<Longrightarrow> (j, q) \<in> set (kd_receipts db) \<Longrightarrow> \<not> starts_effect E k q"
  shows "starts_once E db'"
proof -
  from assms(2) obtain n r where r: "kd_receipts db' = kd_receipts db @ [(n, r)]" "kx_hash r = hash"
    by (auto simp: records_def)
  show ?thesis
    unfolding starts_once_def r(1)
  proof (intro allI impI)
    fix j q j' q' k
    assume mem: "(j, q) \<in> set (kd_receipts db @ [(n, r)])" "(j', q') \<in> set (kd_receipts db @ [(n, r)])"
      and st: "starts_effect E k q" "starts_effect E k q'"
    consider "(j, q) \<in> set (kd_receipts db)" "(j', q') \<in> set (kd_receipts db)" | "q = r" "q' = r"
      | "q = r" "(j', q') \<in> set (kd_receipts db)" | "q' = r" "(j, q) \<in> set (kd_receipts db)" using mem by auto
    then show "kx_task q' = kx_task q \<and> kx_command q' = kx_command q"
    proof cases
      case 1
      with assms(1) st show ?thesis unfolding starts_once_def by blast
    next
      case 2
      then show ?thesis by simp
    next
      case 3
      with assms(3) [OF r(2)] st show ?thesis by blast
    next
      case 4
      with assms(3) [OF r(2)] st show ?thesis by blast
    qed
  qed
qed

lemma starts_once_cong: "kd_receipts db' = kd_receipts db \<Longrightarrow> starts_once E db' = starts_once E db"
  by (simp only: starts_once_def)

lemma starts_once_quiet:
  assumes "\<not> hash_collision E" and "keyed_object p" and "payload_field ''target_status'' p = None"
    and "starts_once E db" and "records db i command (research_hash E p) v db'"
  shows "starts_once E db'"
  by (rule starts_once_records [OF assms(4,5)]) (use start_fields(1) [OF assms(1) _ assms(2)] assms(3) in fastforce)

lemma started_by_other:
  assumes "effects_accounted E db" and "(j, q) \<in> set (kd_receipts db)" and "starts_effect E k q"
  shows "\<exists>s. select_row (kd_effects db) k = Some s \<and> ks_status s \<noteq> Fx_Reserved"
  using assms unfolding effects_accounted_def accounted_def starts_effect_def by blast

lemma db_step_starts_once:
  assumes free: "\<not> hash_collision E" and step: "db_step E db db'" and inv: "effects_accounted E db" and once: "starts_once E db"
  shows "starts_once E db'"
proof -
  have other: "starts_once E db'" if "other_payload p" "records db i command (research_hash E p) v db'" for p i command v
    using starts_once_quiet [OF free _ _ once that(2)] that(1) by (simp add: other_payload_def)
  from step show ?thesis
  proof (cases rule: db_step.cases)
    case stay with once show ?thesis by simp
  next
    case (audit c t i command stored received now k)
    from starts_once_cong [OF append_event_tables(7) [OF audit]] once show ?thesis by simp
  next
    case create
    then show ?thesis by (rule create_task_commit) (erule other [OF other_payloads(9)])
  next
    case claim
    then show ?thesis by (rule claim_owner_commit) (erule other [OF other_payloads(1) commits_records])
  next
    case renew
    then show ?thesis by (rule renew_owner_commit) (erule other [OF other_payloads(2) commits_records])
  next
    case start
    then show ?thesis by (rule start_attempt_commit) (erule other [OF other_payloads(3) commits_records])
  next
    case checkpoint
    then show ?thesis by (rule commit_checkpoint_commit) (erule other [OF other_payloads(4) commits_records])
  next
    case complete
    then show ?thesis by (rule complete_attempt_commit) (erule other [OF other_payloads(5) commits_records])
  next
    case revise
    then show ?thesis by (rule revise_goal_commit) (erule other [OF other_payloads(6) commits_records])
  next
    case recover
    then show ?thesis by (rule recover_commit) (erule other [OF other_payloads(7) commits_records])
  next
    case resolve
    then show ?thesis by (rule resolve_commit) (erule other [OF other_payloads(8) commits_records])
  next
    case reserve
    then show ?thesis
      by (rule reserve_commit) (erule starts_once_quiet [OF free reserve_fields(1,4) once commits_records])
  next
    case (transit c i k command owner ep expected target operation receipt reference v)
    then show ?thesis
    proof (rule transition_commit)
      fix t s
      let ?p = "transition_payload k owner ep expected target operation receipt reference"
      assume s: "select_row (kd_effects db) k = Some s" "transition_allowed (ks_status s) target"
        and com: "commits E c db i command (research_hash E ?p) id (cl_now c) v db'"
      have "\<not> starts_effect E k' q" if r: "kx_hash r = research_hash E ?p" "starts_effect E k' r" "(j, q) \<in> set (kd_receipts db)"
        for k' r j q
      proof
        assume "starts_effect E k' q"
        then obtain s' where s': "select_row (kd_effects db) k' = Some s'" "ks_status s' \<noteq> Fx_Reserved"
          using started_by_other [OF inv r(3)] by blast
        note same = start_fields [OF free r(1) transition_fields(1) r(2)]
        from same(1) have "target = Fx_In_Flight" by (cases target) (simp_all add: transition_fields)
        moreover from same(2) have "k' = k" by (simp add: transition_fields)
        ultimately show False using s s' by (auto simp: transition_allowed_def)
      qed
      then show ?thesis by (rule starts_once_records [OF once commits_records [OF com]])
    qed
  qed
qed

section \<open>Interleaved deliveries\<close>

text \<open>
  \<open>dv_live\<close> holds the deliveries in progress by a process number and \<open>dv_made\<close>, which only the model keeps,
  the deliveries whose process called the adapter, in the order of the calls.
\<close>

record deliveries =
  dv_db :: research_db
  dv_log :: "json list"
  dv_live :: "nat \<Rightarrow> (effect_delivery \<times> delivery_phase) option"
  dv_made :: "effect_delivery list"

definition no_deliveries :: deliveries where
  "no_deliveries = \<lparr>dv_db = empty_research, dv_log = [], dv_live = (\<lambda>_. None), dv_made = []\<rparr>"

definition same_command :: "effect_delivery \<Rightarrow> effect_delivery \<Rightarrow> bool" where
  "same_command d d' \<longleftrightarrow> dl_task d' = dl_task d \<and> dl_command d' = dl_command d"

fun calling_phase :: "delivery_phase \<Rightarrow> bool" where
  "calling_phase (Calling _ _) = True"
| "calling_phase _ = False"

text \<open>
  A delivery begins, takes its next step, or its process returns or dies; any other transaction of the
  service runs, or something changes outside the tables of effects and receipts. Unless \<open>overlap\<close>, a
  delivery of a command begins only when no other one of it is in progress.
\<close>

inductive delivery_run :: "research_env \<Rightarrow> bool \<Rightarrow> deliveries \<Rightarrow> bool" for E overlap where
  nothing_yet: "delivery_run E overlap no_deliveries"
| begins: "delivery_run E overlap st \<Longrightarrow> dv_live st n = None \<Longrightarrow>
    (\<And>m d' p. \<not> overlap \<Longrightarrow> dv_live st m = Some (d', p) \<Longrightarrow> \<not> same_command d d') \<Longrightarrow>
    delivery_run E overlap (st\<lparr>dv_live := (dv_live st)(n \<mapsto> (d, Reserving))\<rparr>)"
| advances: "delivery_run E overlap st \<Longrightarrow> dv_live st n = Some (d, p) \<Longrightarrow>
    delivery_next E c d p (dv_db st, dv_log st) = ((db, calls), p') \<Longrightarrow>
    delivery_run E overlap (st\<lparr>dv_db := db, dv_log := calls, dv_live := (dv_live st)(n \<mapsto> (d, p')),
      dv_made := dv_made st @ (if calling_phase p then [d] else [])\<rparr>)"
| ends: "delivery_run E overlap st \<Longrightarrow> delivery_run E overlap (st\<lparr>dv_live := (dv_live st)(n := None)\<rparr>)"
| elsewhere: "delivery_run E overlap st \<Longrightarrow> db_step E (dv_db st) db \<Longrightarrow> delivery_run E overlap (st\<lparr>dv_db := db\<rparr>)"
| untouched: "delivery_run E overlap st \<Longrightarrow> kd_effects db = kd_effects (dv_db st) \<Longrightarrow> kd_receipts db = kd_receipts (dv_db st) \<Longrightarrow>
    delivery_run E overlap (st\<lparr>dv_db := db\<rparr>)"

section \<open>What a delivery knows\<close>

definition effect_target :: "effect_delivery \<Rightarrow> string \<times> string \<times> string" where
  "effect_target d = (dl_task d, dl_kind d, dl_key d)"

definition knows :: "research_db \<Rightarrow> effect_delivery \<Rightarrow> string \<Rightarrow> bool" where
  "knows db d k \<longleftrightarrow> (\<exists>s. select_row (kd_effects db) k = Some s \<and> triple s = effect_target d)"

text \<open>The effect was started, under the start command of the delivery.\<close>

definition begun :: "research_env \<Rightarrow> research_db \<Rightarrow> effect_delivery \<Rightarrow> string \<Rightarrow> bool" where
  "begun E db d k \<longleftrightarrow>
     (\<exists>s. select_row (kd_effects db) k = Some s \<and> triple s = effect_target d \<and> ks_status s \<noteq> Fx_Reserved) \<and>
     (\<exists>r. receipt_of db (dl_task d) (dl_command d @ '':start'') = Some r \<and> starts_effect E k r)"

fun phase_ok :: "research_env \<Rightarrow> research_db \<Rightarrow> effect_delivery \<Rightarrow> delivery_phase \<Rightarrow> bool" where
  "phase_ok E db d (Admitting v) \<longleftrightarrow> (\<forall>k. response_text ''side_effect_id'' v = Inr k \<longrightarrow> knows db d k)"
| "phase_ok E db d (Starting k v) \<longleftrightarrow> knows db d k"
| "phase_ok E db d (Calling k v) \<longleftrightarrow> begun E db d k"
| "phase_ok E db d _ \<longleftrightarrow> True"

text \<open>What the deliveries need of the database, and what every change keeps of it.\<close>

definition deliverable :: "research_env \<Rightarrow> research_db \<Rightarrow> bool" where
  "deliverable E db \<longleftrightarrow> effects_accounted E db \<and> starts_once E db"

definition carries_on :: "research_db \<Rightarrow> research_db \<Rightarrow> bool" where
  "carries_on db db' \<longleftrightarrow> effects_advance (kd_effects db) (kd_effects db') \<and>
     (\<forall>i command r. receipt_of db i command = Some r \<longrightarrow> receipt_of db' i command = Some r)"

lemma db_step_carries_on: "db_step E db db' \<Longrightarrow> carries_on db db'"
  by (auto simp: carries_on_def db_step_effects db_step_receipt)

lemma db_step_deliverable: "\<not> hash_collision E \<Longrightarrow> db_step E db db' \<Longrightarrow> deliverable E db \<Longrightarrow> deliverable E db'"
  by (auto simp: deliverable_def intro: db_step_accounted db_step_starts_once)

lemma untouched_carries_on:
  "kd_effects db' = kd_effects db \<Longrightarrow> kd_receipts db' = kd_receipts db \<Longrightarrow> carries_on db db'"
  by (simp add: carries_on_def receipt_of_def)

lemma untouched_deliverable:
  "kd_effects db' = kd_effects db \<Longrightarrow> kd_receipts db' = kd_receipts db \<Longrightarrow> deliverable E db \<Longrightarrow> deliverable E db'"
  using starts_once_cong [of db' db E] by (simp add: deliverable_def effects_accounted_def)

lemma advanced_row:
  assumes "carries_on db db'" and "select_row (kd_effects db) k = Some s"
  obtains s' where "select_row (kd_effects db') k = Some s'" "triple s' = triple s"
    "ks_status s \<noteq> Fx_Reserved \<Longrightarrow> ks_status s' \<noteq> Fx_Reserved"
proof -
  obtain s' where "select_row (kd_effects db') k = Some s'" "advances s s'"
    using assms unfolding carries_on_def effects_advance_def by blast
  with that advances_triple show thesis by (auto simp: advances_def)
qed

lemma knows_on: "carries_on db db' \<Longrightarrow> knows db d k \<Longrightarrow> knows db' d k"
  unfolding knows_def by (metis advanced_row)

lemma begun_on: "carries_on db db' \<Longrightarrow> begun E db d k \<Longrightarrow> begun E db' d k"
proof -
  assume on: "carries_on db db'" and "begun E db d k"
  then obtain s r where s: "select_row (kd_effects db) k = Some s" "triple s = effect_target d" "ks_status s \<noteq> Fx_Reserved"
      and r: "receipt_of db (dl_task d) (dl_command d @ '':start'') = Some r" "starts_effect E k r"
    unfolding begun_def by blast
  from on s obtain s' where "select_row (kd_effects db') k = Some s'" "triple s' = effect_target d" "ks_status s' \<noteq> Fx_Reserved"
    by (metis advanced_row)
  moreover from on r have "receipt_of db' (dl_task d) (dl_command d @ '':start'') = Some r" unfolding carries_on_def by blast
  ultimately show "begun E db' d k" using r(2) unfolding begun_def by blast
qed

lemma phase_ok_on: "carries_on db db' \<Longrightarrow> phase_ok E db d p \<Longrightarrow> phase_ok E db' d p"
  by (cases p) (auto intro: knows_on begun_on)

lemma receipt_of_row:
  "receipt_of db i command = Some r \<Longrightarrow> \<exists>k. (k, r) \<in> set (kd_receipts db) \<and> kx_task r = i \<and> kx_command r = command"
  by (auto simp: receipt_of_def find_Some_iff) (metis nth_mem)

lemma start_receipt:
  assumes "transition_side_effect E c i k command owner ep expected Fx_In_Flight None None None db = (db', Inr v)"
  shows "\<exists>r. receipt_of db' i command = Some r \<and> starts_effect E k r"
proof -
  from assms obtain r where "receipt_of db' i command = Some r"
      "kx_hash r = research_hash E (transition_payload k owner ep expected Fx_In_Flight None None None)"
    by (auto simp: transition_side_effect_def Let_def elim!: fenced_command_receipt [OF _ fenced_body_transition])
  then show ?thesis unfolding starts_effect_def by blast
qed

lemma same_effect:
  assumes "deliverable E db" and "select_row (kd_effects db) k = Some s" and "triple s = effect_target d"
    and "begun E db x j" and "effect_target x = effect_target d"
  shows "j = k \<and> ks_status s \<noteq> Fx_Reserved"
proof -
  obtain q where q: "select_row (kd_effects db) j = Some q" "triple q = triple s" "ks_status q \<noteq> Fx_Reserved"
    using assms(3-5) by (auto simp: begun_def)
  then have "j = k" using assms(1,2) unfolding deliverable_def effects_accounted_def effects_unique_def by blast
  with q(1,3) assms(2) show ?thesis by simp
qed

lemma begun_commands:
  assumes "deliverable E db" and "begun E db d k" and "begun E db d' k'" and "effect_target d' = effect_target d"
  shows "same_command d d'"
proof -
  obtain s where s: "select_row (kd_effects db) k = Some s" "triple s = effect_target d" using assms(2) by (auto simp: begun_def)
  from same_effect [OF assms(1) s assms(3,4)] have [simp]: "k' = k" by simp
  obtain r r' where r: "receipt_of db (dl_task d) (dl_command d @ '':start'') = Some r" "starts_effect E k r"
      "receipt_of db (dl_task d') (dl_command d' @ '':start'') = Some r'" "starts_effect E k r'"
    using assms(2,3) by (auto simp: begun_def)
  obtain j j' where mem: "(j, r) \<in> set (kd_receipts db)" "(j', r') \<in> set (kd_receipts db)"
      and ids: "kx_task r = dl_task d" "kx_command r = dl_command d @ '':start''" "kx_task r' = dl_task d'"
        "kx_command r' = dl_command d' @ '':start''"
    using receipt_of_row [OF r(1)] receipt_of_row [OF r(3)] by blast
  have "kx_task r' = kx_task r \<and> kx_command r' = kx_command r"
    using assms(1) mem r(2,4) unfolding deliverable_def starts_once_def by blast
  then show ?thesis by (simp add: ids same_command_def)
qed

text \<open>One step of a delivery.\<close>

lemma delivery_step_ok:
  assumes free: "\<not> hash_collision E" and ok: "deliverable E (fst s)" and p: "phase_ok E (fst s) d p"
    and step: "delivery_next E c d p s = (s', p')"
  shows "phase_ok E (fst s') d p'"
proof (cases p)
  case Reserving
  with step show ?thesis
    using reservation_names [OF free] ok
    by (fastforce simp: deliverable_def knows_def effect_target_def split: prod.splits sum.splits)
next
  case (Admitting v)
  with step p show ?thesis
    by (auto simp: admitted_def ebind_eq_Inr split: sum.splits option.splits)
next
  case (Starting k v)
  show ?thesis
  proof (cases "transition_side_effect E c (dl_task d) k (dl_command d @ '':start'') (dl_owner d) (dl_epoch d) v
             Fx_In_Flight None None None (fst s)")
    case (Pair db res)
    show ?thesis
    proof (cases res)
      case (Inl e)
      with step Starting Pair show ?thesis by auto
    next
      case (Inr started)
      note run = Pair [unfolded Inr]
      have next_db: "s' = (db, snd s)" "p' = Calling k started" using step Starting run by auto
      have on: "carries_on (fst s) db" by (rule db_step_carries_on [OF transition_side_effect_step [OF run]])
      from knows_on [OF on] p Starting have "knows db d k" by simp
      moreover obtain q where "select_row (kd_effects db) k = Some q" "ks_status q \<noteq> Fx_Reserved"
        using start_moves [OF free _ run] ok by (auto simp: deliverable_def)
      moreover obtain r where "receipt_of db (dl_task d) (dl_command d @ '':start'') = Some r" "starts_effect E k r"
        using start_receipt [OF run] by blast
      ultimately show ?thesis by (auto simp: next_db begun_def knows_def)
    qed
  qed
next
  case (Calling k v)
  with step show ?thesis by (auto simp: adapter_execute_def Let_def split: sum.splits)
qed (use step in \<open>auto split: prod.splits\<close>)

lemma delivery_calls:
  assumes "delivery_next E c d p s = (s', p')"
  shows "snd s' = snd s @ (if calling_phase p then [adapter_request (dl_kind d) (dl_key d) (dl_request d)] else [])"
  using assms
  by (cases p) (auto simp: adapter_execute_def Let_def split: prod.splits sum.splits option.splits)

section \<open>Runs of deliveries\<close>

definition adapter_call :: "effect_delivery \<Rightarrow> json" where
  "adapter_call d = adapter_request (dl_kind d) (dl_key d) (dl_request d)"

definition deliveries_ok :: "research_env \<Rightarrow> deliveries \<Rightarrow> bool" where
  "deliveries_ok E st \<longleftrightarrow> deliverable E (dv_db st) \<and>
     (\<forall>n d p. dv_live st n = Some (d, p) \<longrightarrow> phase_ok E (dv_db st) d p) \<and>
     (\<forall>d \<in> set (dv_made st). \<exists>k. begun E (dv_db st) d k) \<and> dv_log st = map adapter_call (dv_made st)"

lemma deliveries_ok_db:
  assumes "deliveries_ok E st" and "deliverable E db" and "carries_on (dv_db st) db"
  shows "deliveries_ok E (st\<lparr>dv_db := db\<rparr>)"
proof -
  have "\<forall>x \<in> set (dv_made st). \<exists>k. begun E db x k"
    using assms(1) begun_on [OF assms(3)] unfolding deliveries_ok_def by blast
  moreover have "\<forall>m x q. dv_live st m = Some (x, q) \<longrightarrow> phase_ok E db x q"
    using assms(1) phase_ok_on [OF assms(3)] unfolding deliveries_ok_def by blast
  ultimately show ?thesis using assms(1,2) unfolding deliveries_ok_def by auto
qed

lemma deliveries_ok_advance:
  assumes free: "\<not> hash_collision E" and ok: "deliveries_ok E st" and live: "dv_live st n = Some (d, p)"
    and step: "delivery_next E c d p (dv_db st, dv_log st) = ((db, calls), p')"
  shows "deliveries_ok E (st\<lparr>dv_db := db, dv_log := calls, dv_live := (dv_live st)(n \<mapsto> (d, p')),
      dv_made := dv_made st @ (if calling_phase p then [d] else [])\<rparr>)"
proof -
  have db: "db_step E (dv_db st) db" using delivery_next_step [OF step] by simp
  note on = db_step_carries_on [OF db]
  have p: "phase_ok E (dv_db st) d p" using ok live by (simp add: deliveries_ok_def)
  have "deliverable E db" by (rule db_step_deliverable [OF free db]) (use ok in \<open>simp add: deliveries_ok_def\<close>)
  moreover have "phase_ok E db d p'"
    using delivery_step_ok [OF free _ _ step] ok p by (simp add: deliveries_ok_def)
  moreover have "\<exists>k. begun E db d k" if "calling_phase p"
    using that p begun_on [OF on] by (cases p) auto
  moreover have "calls = map adapter_call (dv_made st @ (if calling_phase p then [d] else []))"
    using delivery_calls [OF step] ok by (simp add: deliveries_ok_def adapter_call_def)
  moreover have "\<forall>x \<in> set (dv_made st). \<exists>k. begun E db x k"
    using ok begun_on [OF on] unfolding deliveries_ok_def by blast
  moreover have "\<forall>m x q. dv_live st m = Some (x, q) \<longrightarrow> phase_ok E db x q"
    using ok phase_ok_on [OF on] unfolding deliveries_ok_def by blast
  ultimately show ?thesis unfolding deliveries_ok_def by auto
qed

lemma delivery_run_ok:
  assumes "\<not> hash_collision E" and "delivery_run E overlap st"
  shows "deliveries_ok E st"
  using assms(2)
proof (induction rule: delivery_run.induct)
  case nothing_yet
  show ?case
    by (simp add: deliveries_ok_def no_deliveries_def deliverable_def effects_accounted_def effects_unique_def starts_once_def
        empty_research_def keys_distinct_def select_row_def)
next
  case (advances st n d p c db calls p')
  then show ?case by (intro deliveries_ok_advance [OF assms(1)])
next
  case (elsewhere st db)
  have "deliverable E (dv_db st)" using elsewhere.IH by (simp add: deliveries_ok_def)
  from deliveries_ok_db [OF elsewhere.IH db_step_deliverable [OF assms(1) elsewhere.hyps(2) this]
      db_step_carries_on [OF elsewhere.hyps(2)]] show ?case .
next
  case (untouched st db)
  have "deliverable E (dv_db st)" using untouched.IH by (simp add: deliveries_ok_def)
  from deliveries_ok_db [OF untouched.IH untouched_deliverable [OF untouched.hyps(2,3) this]
      untouched_carries_on [OF untouched.hyps(2,3)]] show ?case .
qed (auto simp: deliveries_ok_def)

section \<open>Deliveries that do not overlap\<close>

definition serial_ok :: "deliveries \<Rightarrow> bool" where
  "serial_ok st \<longleftrightarrow>
     (\<forall>n m d d' p p'. dv_live st n = Some (d, p) \<longrightarrow> dv_live st m = Some (d', p') \<longrightarrow> same_command d d' \<longrightarrow> m = n) \<and>
     (\<forall>n d k v. dv_live st n = Some (d, Starting k v) \<longrightarrow>
        (\<forall>x \<in> set (dv_made st). effect_target x = effect_target d \<longrightarrow> \<not> same_command d x)) \<and>
     (\<forall>n d k v. dv_live st n = Some (d, Calling k v) \<longrightarrow> effect_target d \<notin> effect_target ` set (dv_made st)) \<and>
     distinct (map effect_target (dv_made st))"

lemma same_command_sym: "same_command d d' \<Longrightarrow> same_command d' d"
  by (simp add: same_command_def)

lemma admitted_unmade:
  assumes ok: "deliveries_ok E st" and live: "dv_live st n = Some (d, p)"
    and step: "delivery_next E c d p (dv_db st, dv_log st) = (s', Starting k v)"
    and x: "x \<in> set (dv_made st)"
  shows "effect_target x \<noteq> effect_target d"
proof
  assume same: "effect_target x = effect_target d"
  have p: "phase_ok E (dv_db st) d p" using ok live by (simp add: deliveries_ok_def)
  from step obtain reserved where "p = Admitting reserved" and ad: "admitted c (dl_task d) reserved (dv_db st) = Inr (k, v, None)"
    by (cases p) (auto simp: Let_def split: prod.splits sum.splits option.splits)
  with p obtain s where s: "select_row (kd_effects (dv_db st)) k = Some s" "triple s = effect_target d" "ks_status s = Fx_Reserved"
    by (auto simp: admitted_def admit_effect_def ebind_eq_Inr fetch_effect_Inr knows_def split: if_splits)
  from ok x obtain j where "begun E (dv_db st) x j" unfolding deliveries_ok_def by blast
  with same_effect [OF _ s(1,2) this same] ok s(3) show False by (simp add: deliveries_ok_def)
qed

lemma started_unmade:
  assumes free: "\<not> hash_collision E" and ok: "deliveries_ok E st" and serial: "serial_ok st"
    and live: "dv_live st n = Some (d, p)"
    and step: "delivery_next E c d p (dv_db st, dv_log st) = ((db, calls), Calling k v)"
    and x: "x \<in> set (dv_made st)"
  shows "effect_target x \<noteq> effect_target d"
proof
  assume same: "effect_target x = effect_target d"
  have db: "db_step E (dv_db st) db" using delivery_next_step [OF step] by simp
  obtain j w where p: "p = Starting j w"
    using step by (cases p) (auto simp: adapter_execute_def Let_def split: prod.splits sum.splits option.splits)
  with serial live x same have other: "\<not> same_command d x" unfolding serial_ok_def by blast
  have "begun E db d k"
    using delivery_step_ok [OF free _ _ step] ok live by (auto simp: deliveries_ok_def)
  moreover obtain i where "begun E db x i"
    using ok x begun_on [OF db_step_carries_on [OF db]] unfolding deliveries_ok_def by blast
  moreover have "deliverable E db"
    by (rule db_step_deliverable [OF free db]) (use ok in \<open>simp add: deliveries_ok_def\<close>)
  ultimately show False using begun_commands same other by blast
qed

lemma other_calling:
  assumes ok: "deliveries_ok E st" and serial: "serial_ok st"
    and live: "dv_live st n = Some (d, Calling k v)" "dv_live st m = Some (d', Calling k' v')" and "m \<noteq> n"
  shows "effect_target d' \<noteq> effect_target d"
proof
  assume same: "effect_target d' = effect_target d"
  from ok have all: "phase_ok E (dv_db st) x q" if "dv_live st i = Some (x, q)" for i x q
    using that unfolding deliveries_ok_def by blast
  have "begun E (dv_db st) d k" "begun E (dv_db st) d' k'" using all [OF live(1)] all [OF live(2)] by simp_all
  moreover have "deliverable E (dv_db st)" using ok by (simp add: deliveries_ok_def)
  ultimately have "same_command d d'" using begun_commands same by blast
  with serial live assms(5) show False unfolding serial_ok_def by blast
qed

lemma serial_advance:
  assumes free: "\<not> hash_collision E" and ok: "deliveries_ok E st" and serial: "serial_ok st"
    and live: "dv_live st n = Some (d, p)"
    and step: "delivery_next E c d p (dv_db st, dv_log st) = ((db, calls), p')"
  shows "serial_ok (st\<lparr>dv_db := db, dv_log := calls, dv_live := (dv_live st)(n \<mapsto> (d, p')),
      dv_made := dv_made st @ (if calling_phase p then [d] else [])\<rparr>)" (is "serial_ok ?st")
proof -
  note S = serial [unfolded serial_ok_def]
  have alone: "m = n" if "dv_live st m = Some (d', q)" "same_command d d'" for m d' q using S live that by blast
  have quiet: "\<not> calling_phase p" if "p' = Starting k v \<or> p' = Calling k w" for k v w
    using step that by (cases p) (auto simp: adapter_execute_def Let_def split: sum.splits)
  have made: "x \<in> set (dv_made ?st) \<longleftrightarrow> x \<in> set (dv_made st) \<or> calling_phase p \<and> x = d" for x by auto
  have one: "m' = m" if "dv_live ?st m = Some (x, q)" "dv_live ?st m' = Some (x', q')" "same_command x x'" for m m' x x' q q'
    using that S live same_command_sym by (auto split: if_splits)
  have two: "\<not> same_command x y" if "dv_live ?st m = Some (x, Starting k v)" "y \<in> set (dv_made ?st)"
      "effect_target y = effect_target x" for m x k v y
  proof (cases "m = n")
    case True
    with that(1) have x: "x = d" "p' = Starting k v" by auto
    with quiet made that(2) have "y \<in> set (dv_made st)" by blast
    from admitted_unmade [OF ok live step [unfolded x(2)] this] that(3) x(1) show ?thesis by simp
  next
    case False
    then have old: "dv_live st m = Some (x, Starting k v)" using that(1) by simp
    from that(2) made consider "y \<in> set (dv_made st)" | "y = d" by blast
    then show ?thesis
    proof cases
      case 1
      with S old that(3) show ?thesis by blast
    next
      case 2
      with alone [OF old] False same_command_sym show ?thesis by blast
    qed
  qed
  have three: "effect_target x \<notin> effect_target ` set (dv_made ?st)" if "dv_live ?st m = Some (x, Calling k v)" for m x k v
  proof (cases "m = n")
    case True
    with that have x: "x = d" "p' = Calling k v" by auto
    with quiet made have "dv_made ?st = dv_made st" by simp
    then show ?thesis
      using started_unmade [OF free ok serial live step [unfolded x(2)]] x(1) by fastforce
  next
    case False
    then have old: "dv_live st m = Some (x, Calling k v)" using that by simp
    then have "effect_target x \<notin> effect_target ` set (dv_made st)" using S by blast
    moreover have "effect_target x \<noteq> effect_target d" if "calling_phase p"
      using that other_calling [OF ok serial _ old False] live by (cases p) auto
    ultimately show ?thesis by auto
  qed
  have four: "distinct (map effect_target (dv_made ?st))"
  proof (cases "calling_phase p")
    case True
    then obtain k v where "p = Calling k v" by (cases p) auto
    with S live have "effect_target d \<notin> effect_target ` set (dv_made st)" "distinct (map effect_target (dv_made st))" by blast+
    with True show ?thesis by simp
  qed (use S in simp)
  show ?thesis
    unfolding serial_ok_def using one two three four by blast
qed

lemma serial_run:
  assumes free: "\<not> hash_collision E" and "delivery_run E False st"
  shows "serial_ok st"
  using assms(2)
proof (induction rule: delivery_run.induct)
  case nothing_yet
  show ?case by (simp add: serial_ok_def no_deliveries_def)
next
  case (begins st n d)
  note S = begins.IH [unfolded serial_ok_def]
  have alone: "\<not> same_command d d'" "\<not> same_command d' d" if "dv_live st m = Some (d', p)" for m d' p
    using begins.hyps(3) [OF _ that] same_command_sym by blast+
  let ?st = "st\<lparr>dv_live := (dv_live st)(n \<mapsto> (d, Reserving))\<rparr>"
  have old: "dv_live st m = Some (x, q)" if "dv_live ?st m = Some (x, q)" "q \<noteq> Reserving" for m x q
    using that by (auto split: if_splits)
  have "m' = m" if "dv_live ?st m = Some (x, q)" "dv_live ?st m' = Some (x', q')" "same_command x x'" for m m' x x' q q'
    using that S alone by (auto split: if_splits)
  moreover have "\<not> same_command x y" if "dv_live ?st m = Some (x, Starting k v)" "y \<in> set (dv_made ?st)"
      "effect_target y = effect_target x" for m x k v y
  proof -
    have "dv_live st m = Some (x, Starting k v)" "y \<in> set (dv_made st)" using old [OF that(1)] that(2) by simp_all
    with S that(3) show ?thesis by blast
  qed
  moreover have "effect_target x \<notin> effect_target ` set (dv_made ?st)" if "dv_live ?st m = Some (x, Calling k v)" for m x k v
  proof -
    have "dv_live st m = Some (x, Calling k v)" using old [OF that] by simp
    with S have "effect_target x \<notin> effect_target ` set (dv_made st)" by blast
    then show ?thesis by simp
  qed
  moreover have "distinct (map effect_target (dv_made ?st))" using S by simp
  ultimately show ?case unfolding serial_ok_def by blast
next
  case (advances st n d p c db calls p')
  show ?case by (rule serial_advance [OF free delivery_run_ok [OF free advances.hyps(1)] advances.IH advances.hyps(2,3)])
next
  case (ends st n)
  then show ?case unfolding serial_ok_def by (auto split: if_splits)
qed (simp_all add: serial_ok_def)

section \<open>Runs of one delivery and of two\<close>

text \<open>A platform whose digest is the text itself, after the creation of a task and one request of an effect.\<close>

definition plain_digest_env :: research_env where
  "plain_digest_env = research_sample_env\<lparr>en_platform := \<lparr>sha256_hexdigest = (\<lambda>t. t), json_datetime = (\<lambda>_. [])\<rparr>\<rparr>"

lemma char_of_small_inject:
  assumes "(char_of m :: char) = char_of n" and "m < (256 :: nat)" and "n < 256"
  shows "m = n"
proof -
  have "(of_char (char_of m :: char) :: nat) = of_char (char_of n :: char)" using assms(1) by simp
  with assms(2,3) show ?thesis by simp
qed

lemma utf8_char_inject:
  assumes "utf8_char c @ x = utf8_char d @ y"
  shows "c = d \<and> x = y"
proof -
  define m where m: "m = (of_char c :: nat)"
  define n where n: "n = (of_char d :: nat)"
  have chars: "c = char_of m" "d = char_of n" by (simp_all add: m n)
  have small: "m < 256" "n < 256" by (simp_all add: m n)
  have head: "m div 64 \<le> 3" "n div 64 \<le> 3" using small by linarith+
  have assm: "(if m < 128 then [char_of m] else [char_of (192 + m div 64), char_of (128 + m mod 64)]) @ x =
      (if n < 128 then [char_of n] else [char_of (192 + n div 64), char_of (128 + n mod 64)]) @ y"
    using assms unfolding utf8_char_def Let_def m n by (simp only: char_of_char)
  consider "m < 128" "n < 128" | "m < 128" "128 \<le> n" | "128 \<le> m" "n < 128" | "128 \<le> m" "128 \<le> n" by linarith
  then show ?thesis
  proof cases
    case 1
    with assm show ?thesis by (simp add: chars)
  next
    case 2
    with assm have "(char_of m :: char) = char_of (192 + n div 64)" by simp
    then have "m = 192 + n div 64" by (rule char_of_small_inject) (use head small in linarith)+
    with 2 show ?thesis by simp
  next
    case 3
    with assm have "(char_of (192 + m div 64) :: char) = char_of n" by simp
    then have "192 + m div 64 = n" by (rule char_of_small_inject) (use head small in linarith)+
    with 3 show ?thesis by simp
  next
    case 4
    with assm have eq: "(char_of (192 + m div 64) :: char) = char_of (192 + n div 64)"
        "(char_of (128 + m mod 64) :: char) = char_of (128 + n mod 64)" "x = y" by simp_all
    have "192 + m div 64 = 192 + n div 64" by (rule char_of_small_inject [OF eq(1)]) (use head in linarith)+
    moreover have "128 + m mod 64 = 128 + n mod 64"
      by (rule char_of_small_inject [OF eq(2)]) (use pos_mod_bound [of 64] in simp)+
    ultimately have "m = n" by (metis add_left_cancel div_mult_mod_eq)
    with eq(3) show ?thesis by (simp add: chars)
  qed
qed

lemma utf8_encode_inject: "utf8_encode s = utf8_encode t \<Longrightarrow> s = t"
proof (induction s arbitrary: t)
  case Nil then show ?case by (cases t) (auto simp: utf8_encode_def utf8_char_def Let_def split: if_splits)
next
  case (Cons c s)
  then obtain d u where t: "t = d # u" by (cases t) (auto simp: utf8_encode_def utf8_char_def Let_def split: if_splits)
  with Cons.prems have "utf8_char c @ utf8_encode s = utf8_char d @ utf8_encode u" by (simp add: utf8_encode_def)
  from utf8_char_inject [OF this] Cons.IH t show ?case by simp
qed

lemma plain_digest_free: "\<not> hash_collision plain_digest_env"
  using utf8_encode_inject by (auto simp: hash_collision_def research_hash_def plain_digest_env_def)

text \<open>The processes of the list take one step each, in its order.\<close>

fun interleave ::
  "research_env \<Rightarrow> research_call \<Rightarrow> effect_delivery \<Rightarrow> nat list \<Rightarrow> (research_db \<times> json list) \<times> (nat \<Rightarrow> delivery_phase)
    \<Rightarrow> (research_db \<times> json list) \<times> (nat \<Rightarrow> delivery_phase)"
where
  "interleave E c d [] sf = sf"
| "interleave E c d (n # ns) sf =
     (case delivery_next E c d (snd sf n) (fst sf) of (s, p) \<Rightarrow> interleave E c d ns (s, (snd sf)(n := p)))"

lemma interleaved_run:
  assumes "delivery_run E overlap st" and "\<forall>n \<in> set ns. dv_live st n = Some (d, f n)"
  shows "\<exists>st'. delivery_run E overlap st' \<and> (dv_db st', dv_log st') = fst (interleave E c d ns ((dv_db st, dv_log st), f))"
  using assms
proof (induction ns arbitrary: st f)
  case (Cons n ns)
  obtain db calls p where step: "delivery_next E c d (f n) (dv_db st, dv_log st) = ((db, calls), p)"
    by (metis prod.collapse)
  let ?st = "st\<lparr>dv_db := db, dv_log := calls, dv_live := (dv_live st)(n \<mapsto> (d, p)),
      dv_made := dv_made st @ (if calling_phase (f n) then [d] else [])\<rparr>"
  have "delivery_run E overlap ?st"
    by (rule delivery_run.advances [OF Cons.prems(1) _ step]) (use Cons.prems(2) in simp)
  moreover have "\<forall>m \<in> set ns. dv_live ?st m = Some (d, (f(n := p)) m)" using Cons.prems(2) by simp
  ultimately obtain st' where "delivery_run E overlap st'"
      "(dv_db st', dv_log st') = fst (interleave E c d ns ((dv_db ?st, dv_log ?st), f(n := p)))"
    using Cons.IH by blast
  then show ?case by (intro exI [of _ st']) (simp add: step)
qed auto

lemma plain_digest_simps [simp]:
  "en_uuid plain_digest_env n = replicate n CHR ''i''" "en_iso plain_digest_env t = ''time''"
  by (simp_all add: plain_digest_env_def research_sample_env_def)

definition mail_delivery :: effect_delivery where
  "mail_delivery = \<lparr>dl_task = ''t'', dl_attempt = ''attempt_iiiii'', dl_command = ''send'', dl_owner = ''o'', dl_epoch = 1,
     dl_expected = 2, dl_kind = ''mail'', dl_key = ''key'', dl_request = JNull\<rparr>"

definition mail_created :: research_db where
  "mail_created = fst (create_task plain_digest_env research_sample_call ''create'' ''goal'' [] (JObj []) (Some ''t'')
     None (JObj []) None empty_research)"

definition mail_claimed :: research_db where
  "mail_claimed = fst (claim_owner plain_digest_env research_sample_call ''t'' ''claim'' ''o'' 0 60 mail_created)"

definition mail_ready :: research_db where
  "mail_ready = fst (start_attempt plain_digest_env research_sample_call ''t'' ''start'' ''o'' 1 1 Ca_Initial None None None
     mail_claimed)"

lemma mail_prepared: "delivery_run plain_digest_env overlap (no_deliveries\<lparr>dv_db := mail_ready\<rparr>)"
proof -
  note one = create_task_step [OF prod.collapse [symmetric]] and two = claim_owner_step [OF prod.collapse [symmetric]]
    and three = start_attempt_step [OF prod.collapse [symmetric]]
  have "db_step plain_digest_env (dv_db no_deliveries) mail_created"
    unfolding mail_created_def by (simp add: no_deliveries_def one)
  from delivery_run.elsewhere [OF delivery_run.nothing_yet this]
  have "delivery_run plain_digest_env overlap (no_deliveries\<lparr>dv_db := mail_created\<rparr>)" .
  from delivery_run.elsewhere [OF this, of mail_claimed]
  have "delivery_run plain_digest_env overlap (no_deliveries\<lparr>dv_db := mail_claimed\<rparr>)"
    by (simp add: mail_claimed_def two)
  from delivery_run.elsewhere [OF this, of mail_ready] show ?thesis by (simp add: mail_ready_def three)
qed

lemmas evaluate_delivery = reserve_side_effect_def reserve_side_effect_body_def reserve_row_def find_effect_def new_effect_def
  transition_side_effect_def transition_body_def transition_allowed_def moved_effect_def coalesce_def transition_event_type_def
  admitted_def admit_effect_def response_text_def response_int_def adapter_execute_def finish_effect_def with_flag_def
  receipt_response_def mail_delivery_def

lemmas evaluate_mail = mail_ready_def mail_claimed_def mail_created_def evaluate_delivery evaluate_commands evaluate_rows
  evaluate_kernel

lemma mail_alone:
  "snd (fst (interleave plain_digest_env research_sample_call mail_delivery [0, 0, 0, 0, 0]
     ((mail_ready, []), \<lambda>_. Reserving))) = [adapter_call mail_delivery]"
  by (simp add: evaluate_mail adapter_call_def)

lemma mail_twice:
  "snd (fst (interleave plain_digest_env research_sample_call mail_delivery [0, 1, 0, 1, 0, 1, 0, 1]
     ((mail_ready, []), \<lambda>_. Reserving))) = [adapter_call mail_delivery, adapter_call mail_delivery]"
  by (simp add: evaluate_mail adapter_call_def)

lemma mail_run:
  assumes "delivery_run plain_digest_env overlap st" and "dv_db st = mail_ready" and "dv_log st = []"
    and "\<forall>n \<in> set ns. dv_live st n = Some (mail_delivery, Reserving)"
    and "snd (fst (interleave plain_digest_env research_sample_call mail_delivery ns ((mail_ready, []), \<lambda>_. Reserving))) = calls"
  shows "\<exists>st'. delivery_run plain_digest_env overlap st' \<and> dv_log st' = calls"
  using interleaved_run [OF assms(1), of ns mail_delivery "\<lambda>_. Reserving" research_sample_call] assms(2-5)
  by (metis snd_conv)

lemma mail_begun:
  "delivery_run plain_digest_env overlap (no_deliveries\<lparr>dv_db := mail_ready, dv_live := [0 \<mapsto> (mail_delivery, Reserving)]\<rparr>)"
  using delivery_run.begins [OF mail_prepared, of 0 overlap mail_delivery] by (simp add: no_deliveries_def)

section \<open>The promise\<close>

text \<open>
  C6: The adapter is called at most once for an effect, unless deliveries of one command overlap. Deliveries
  take their transactions one by one, in any order and among all other calls of the service, and may die
  between any two. As long as the digest has no collision: the adapter's log consists of the requests
  of the deliveries that called it; the effect of the task, kind and key of each such delivery is there
  and was started; all calls for one effect come from deliveries of one command; and when no two deliveries of a
  command are in progress at once, no effect is called for twice, across redeliveries after a crash too.
\<close>

theorem adapter_called_once:
  assumes "\<not> hash_collision E" and "delivery_run E overlap st"
  shows "dv_log st = map adapter_call (dv_made st) \<and>
    (\<forall>d \<in> set (dv_made st). \<exists>k s. select_row (kd_effects (dv_db st)) k = Some s \<and>
       triple s = (dl_task d, dl_kind d, dl_key d) \<and> ks_status s \<noteq> Fx_Reserved) \<and>
    (\<forall>d \<in> set (dv_made st). \<forall>d' \<in> set (dv_made st). effect_target d' = effect_target d \<longrightarrow> dl_command d' = dl_command d) \<and>
    (\<not> overlap \<longrightarrow> distinct (map effect_target (dv_made st)))"
proof -
  have ok: "deliveries_ok E st" by (rule delivery_run_ok [OF assms])
  then have log: "dv_log st = map adapter_call (dv_made st)" and made: "\<forall>d \<in> set (dv_made st). \<exists>k. begun E (dv_db st) d k"
    and db: "deliverable E (dv_db st)" by (simp_all add: deliveries_ok_def)
  have "distinct (map effect_target (dv_made st))" if "\<not> overlap"
    using serial_run [OF assms(1)] assms(2) that by (simp add: serial_ok_def)
  moreover have "dl_command d' = dl_command d" if "d \<in> set (dv_made st)" "d' \<in> set (dv_made st)"
      "effect_target d' = effect_target d" for d d'
    using made that begun_commands [OF db] unfolding same_command_def by blast
  moreover have "\<exists>k s. select_row (kd_effects (dv_db st)) k = Some s \<and>
       triple s = (dl_task d, dl_kind d, dl_key d) \<and> ks_status s \<noteq> Fx_Reserved" if "d \<in> set (dv_made st)" for d
    using made that unfolding begun_def effect_target_def by blast
  ultimately show ?thesis using log by blast
qed

text \<open>One delivery of a mail effect, from its reservation to its answer.\<close>

lemma adapter_called_once_witness:
  "\<exists>st. delivery_run plain_digest_env False st \<and> dv_log st = [adapter_call mail_delivery] \<and>
     dv_log st = map adapter_call (dv_made st) \<and> distinct (map effect_target (dv_made st))"
proof -
  obtain st where st: "delivery_run plain_digest_env False st" "dv_log st = [adapter_call mail_delivery]"
    using mail_run [OF mail_begun _ _ _ mail_alone] by (auto simp: no_deliveries_def)
  with adapter_called_once [OF plain_digest_free st(1)] show ?thesis by blast
qed

section \<open>Two limits\<close>

text \<open>
  Two deliveries of one command that overlap may call the adapter twice: both reserve, both are admitted,
  the first starts the effect, the start of the second replays its receipt.
\<close>

lemma overlapping_deliveries_call_twice:
  "\<exists>st. delivery_run plain_digest_env True st \<and> dv_log st = [adapter_call mail_delivery, adapter_call mail_delivery]"
proof -
  have "delivery_run plain_digest_env True (no_deliveries\<lparr>dv_db := mail_ready,
      dv_live := [0 \<mapsto> (mail_delivery, Reserving), 1 \<mapsto> (mail_delivery, Reserving)]\<rparr>)"
    using delivery_run.begins [OF mail_begun, of 1 True mail_delivery] by simp
  from mail_run [OF this _ _ _ mail_twice] show ?thesis by (auto simp: no_deliveries_def)
qed

text \<open>
  The admission of an effect and its start are two transactions. When the same request is delivered
  twice at once and both have been admitted, the second start only replays the receipt of the first, and
  the adapter is called again.
\<close>

lemma admitted_twice_called_twice:
  assumes "transition_side_effect E c i k (command @ '':start'') owner ep version Fx_In_Flight None None None db
      = (db1, Inr started)"
    and "fence_holds c' i owner ep db1"
  shows "snd (fst (start_and_call E c' i k command owner ep version kind key request (db1, calls))) =
    calls @ [adapter_request kind key request]"
proof -
  let ?hash = "research_hash E (transition_payload k owner ep version Fx_In_Flight None None None)"
  have run: "run_command E c i (command @ '':start'') ?hash (Some owner) (Some ep)
      (transition_body E c i k (command @ '':start'') owner ep version Fx_In_Flight None None None ?hash) db = (db1, Inr started)"
    using assms(1) by (simp add: transition_side_effect_def Let_def)
  then obtain r where r: "receipt_of db1 i (command @ '':start'') = Some r" "kx_hash r = ?hash" "receipt_response r = started"
    by (rule fenced_command_receipt [OF _ fenced_body_transition])
  from run_command_replay(2) [OF r(1,2) assms(2)] have again:
    "transition_side_effect E c' i k (command @ '':start'') owner ep version Fx_In_Flight None None None db1 = (db1, Inr started)"
    by (simp add: transition_side_effect_def Let_def r(3))
  obtain s' res where call: "start_and_call E c' i k command owner ep version kind key request (db1, calls) = (s', res)" by fastforce
  then show ?thesis
    by (cases rule: start_and_call_cases) (simp_all add: again call)
qed

text \<open>\<open>cancel_task\<close> names no checkpoint, so an attempt that has saved one cannot be cancelled by it.\<close>

lemma saved_attempt_not_cancelled:
  assumes "latest_checkpoint attempt db \<noteq> None" and "receipt_of db i command = None"
  shows "fst (cancel_task E c i attempt command owner ep expected detail db) = db \<and>
    isl (snd (cancel_task E c i attempt command owner ep expected detail db))"
proof -
  obtain db' res where run: "cancel_task E c i attempt command owner ep expected detail db = (db', res)" by fastforce
  have refused: "complete_attempt_body E c i attempt command owner ep expected answer reason failure detail terminal
      next_status None hash db \<noteq> Inr x" for answer reason failure terminal next_status hash x
    using assms(1) by (cases x) (auto simp: complete_attempt_body_def ebind_eq_Inr Let_def split: if_splits)
  from run [unfolded cancel_task_def complete_attempt_def Let_def] show ?thesis
    unfolding run using assms(2) refused by (cases rule: run_command_cases) simp_all
qed

end
