(* ===== verification/Research_Execution.thy ===== *)
theory Research_Execution
  imports Research_Commands
begin

text \<open>
  The execution ledger (research/execution.py): how much active time a task has used, the segment in
  which a process runs it, and when it is due again; and the selection and takeover of a due task
  (research/recovery.py). An operation is one transaction; \<open>settle\<close> is two, with a clock reading each.
  An UPDATE that is followed by an exception is rolled back and does not appear.
\<close>

section \<open>Snapshots\<close>

record active_time =
  at_task :: string
  at_policy :: string
  at_budget :: int
  at_consumed :: int
  at_reserved :: int
  at_timing :: string
  at_intent :: string
  at_scheduling :: string
  at_failures :: int
  at_lifetime_failures :: int
  at_generation :: int
  at_next_retry :: "string option"
  at_reason :: "string option"
  at_failure_code :: "string option"
  at_segment :: "string option"

text \<open>\<open>str(x) if x else None\<close>.\<close>

definition text_if_any :: "string option \<Rightarrow> string option" where
  "text_if_any x = (if text_or_empty x = [] then None else x)"

definition snapshot_of :: "research_env \<Rightarrow> string \<Rightarrow> kernel_execution \<Rightarrow> active_time" where
  "snapshot_of E i m =
     \<lparr>at_task = i, at_policy = km_policy m, at_budget = km_budget m, at_consumed = km_consumed m,
       at_reserved = km_reserved m, at_timing = km_timing m, at_intent = km_intent m,
       at_scheduling = km_scheduling m, at_failures = km_failures m,
       at_lifetime_failures = km_lifetime_failures m, at_generation = km_generation m,
       at_next_retry = text_if_any (map_option (en_iso E) (km_next_retry m)), at_reason = text_if_any (km_reason m),
       at_failure_code = text_if_any (km_failure_code m), at_segment = text_if_any (map_option fst (km_segment m))\<rparr>"

definition remaining_active_ms :: "active_time \<Rightarrow> int" where
  "remaining_active_ms a = max 0 (at_budget a - at_consumed a - at_reserved a)"

definition projection :: "active_time \<Rightarrow> json" where
  "projection a =
     JObj [(''time_policy_version'', JStr (at_policy a)), (''active_budget_ms'', JInt (at_budget a)),
           (''consumed_active_ms'', JInt (at_consumed a)), (''reserved_tail_ms'', JInt (at_reserved a)),
           (''remaining_active_ms'', JInt (remaining_active_ms a)), (''timing_status'', JStr (at_timing a)),
           (''scheduling_intent'', JStr (at_intent a)), (''scheduling_status'', JStr (at_scheduling a)),
           (''automatic_failure_count'', JInt (at_failures a)),
           (''lifetime_automatic_failure_count'', JInt (at_lifetime_failures a)),
           (''manual_generation'', JInt (at_generation a)), (''next_retry_at'', opt_str (at_next_retry a)),
           (''resume_reason'', opt_str (at_reason a)), (''last_failure_code'', opt_str (at_failure_code a)),
           (''active_time_is_approximate'', JBool True)]"

definition snapshot :: "research_env \<Rightarrow> research_call \<Rightarrow> string \<Rightarrow> bool \<Rightarrow> research_db \<Rightarrow> active_time option result" where
  "snapshot E c i required db =
     ebind (fetch_task c i db) (\<lambda>_.
       case select_row (kd_execution db) i of
         None \<Rightarrow> if required then Inl unaccounted else Inr None
       | Some m \<Rightarrow> Inr (Some (snapshot_of E i m)))"

section \<open>Creation and scheduling\<close>

definition time_policy :: string where
  "time_policy = ''research_active_time_v2''"

definition insert_v2 :: "research_call \<Rightarrow> string \<Rightarrow> string \<Rightarrow> bool \<Rightarrow> int \<Rightarrow> research_db \<Rightarrow> research_db result" where
  "insert_v2 c i command run_immediately budget db =
     insert_execution i
       \<lparr>xm_policy = time_policy, xm_budget = budget,
         xm_intent = (if run_immediately then ''queued'' else ''none''),
         xm_status = (if run_immediately then ''queued'' else ''idle''), xm_run_command = command,
         xm_reason = (if run_immediately then Some ''initial_run_requested'' else None)\<rparr> (cl_now c) db"

text \<open>The UPDATE of a task's row, and the snapshot of the row it leaves.\<close>

definition put_execution ::
  "research_env \<Rightarrow> string \<Rightarrow> kernel_execution \<Rightarrow> research_db \<Rightarrow> research_db \<times> active_time"
where
  "put_execution E i m db = (db\<lparr>kd_execution := update_row i (\<lambda>_. m) (kd_execution db)\<rparr>, snapshot_of E i m)"

definition enqueued :: "research_call \<Rightarrow> string \<Rightarrow> bool \<Rightarrow> string \<Rightarrow> kernel_execution \<Rightarrow> kernel_execution" where
  "enqueued c command manual reason m =
     m\<lparr>km_intent := (if manual then ''manual'' else ''queued''), km_scheduling := ''queued'',
       km_run_command := Some command, km_reason := Some reason,
       km_generation := km_generation m + (if manual then 1 else 0),
       km_failures := (if manual then 0 else km_failures m), km_next_retry := None, km_updated := cl_now c\<rparr>"

definition enqueue_execution ::
  "research_env \<Rightarrow> research_call \<Rightarrow> string \<Rightarrow> string \<Rightarrow> bool \<Rightarrow> string \<Rightarrow> research_db \<Rightarrow> active_time outcome"
where
  "enqueue_execution E c i command manual reason db = transaction db
     (ebind (fetch_task c i db) (\<lambda>t.
      if kt_status t = Ts_Terminal then Inl (Research_Unsafe ''terminal Task cannot be scheduled'')
      else case select_row (kd_execution db) i of
        None \<Rightarrow> Inl unaccounted
      | Some m \<Rightarrow> ebind (resolvable_timing m) (\<lambda>_. Inr (put_execution E i (enqueued c command manual reason m) db))))"

section \<open>Segments\<close>

definition reserved_tail :: "int \<Rightarrow> kernel_execution \<Rightarrow> int" where
  "reserved_tail reservation m = min reservation (km_budget m - km_consumed m)"

text \<open>A dead process loses the one tail it had reserved.\<close>

definition recover_segment :: "research_call \<Rightarrow> kernel_execution \<Rightarrow> kernel_execution" where
  "recover_segment c m =
     (let recovered = min (km_reserved m) (max 0 (km_budget m - km_consumed m)) in
      m\<lparr>km_consumed := km_consumed m + recovered, km_reserved := 0, km_segment := None, km_settled := 0,
        km_timing := (if km_consumed m + recovered \<ge> km_budget m then ''exhausted'' else ''idle''),
        km_updated := cl_now c\<rparr>)"

definition opened_segment ::
  "research_call \<Rightarrow> int \<Rightarrow> string \<Rightarrow> string \<Rightarrow> int \<Rightarrow> kernel_execution \<Rightarrow> kernel_execution"
where
  "opened_segment c reservation segment owner ep m =
     m\<lparr>km_segment := Some (segment, owner, ep), km_settled := 0, km_reserved := reserved_tail reservation m,
       km_ticks := km_ticks m + 1, km_timing := ''active'', km_scheduling := ''running'', km_updated := cl_now c\<rparr>"

definition segment_row ::
  "research_call \<Rightarrow> int \<Rightarrow> string \<Rightarrow> string \<Rightarrow> int \<Rightarrow> kernel_execution \<Rightarrow> (string \<times> kernel_execution) result"
where
  "segment_row c reservation segment owner ep m =
     (if map_option snd (km_segment m) = Some (owner, ep) then Inr (fst (the (km_segment m)), m)
      else
        let m1 = (if km_segment m = None then m else recover_segment c m) in
        if km_timing m1 = ''uncertain'' then Inl (Research_Unsafe ''execution_time_uncertain'')
        else if km_budget m1 - km_consumed m1 \<le> 0 then Inl (Research_Unsafe ''research active-time budget is exhausted'')
        else Inr (segment, opened_segment c reservation segment owner ep m1))"

definition begin_segment ::
  "research_env \<Rightarrow> int \<Rightarrow> research_call \<Rightarrow> string \<Rightarrow> string \<Rightarrow> int \<Rightarrow> research_db \<Rightarrow> (string \<times> active_time) outcome"
where
  "begin_segment E reservation c i owner ep db =
     (let (segment, db0) = new_id E ''rseg'' db in
      transaction db
        (ebind (fetch_task c i db0) (\<lambda>t.
         ebind (assert_nonterminal t) (\<lambda>_.
         ebind (assert_owner c t owner ep) (\<lambda>_.
         case select_row (kd_execution db0) i of
           None \<Rightarrow> Inl (Research_Unsafe ''legacy_time_unaccounted'')
         | Some m \<Rightarrow>
             ebind (segment_row c reservation segment owner ep m) (\<lambda>(s, m').
               let (db', a) = put_execution E i m' db0 in Inr (db', (s, a))))))))"

text \<open>The segment columns as the fence reads them: \<open>str(x or "")\<close> and \<open>int(x or -1)\<close>.\<close>

definition segment_fence :: "kernel_execution \<Rightarrow> string \<times> string \<times> int" where
  "segment_fence m =
     (case km_segment m of None \<Rightarrow> ([], [], -1) | Some (s, owner, ep) \<Rightarrow> (s, owner, if ep = 0 then -1 else ep))"

definition uncertain_row :: "research_call \<Rightarrow> kernel_execution \<Rightarrow> kernel_execution" where
  "uncertain_row c m =
     m\<lparr>km_timing := ''uncertain'', km_scheduling := ''manual_required'', km_intent := ''none'',
       km_reason := Some ''execution_time_uncertain'', km_failure_code := Some ''execution_time_uncertain'',
       km_updated := cl_now c\<rparr>"

definition ticked :: "research_call \<Rightarrow> int \<Rightarrow> int \<Rightarrow> kernel_execution \<Rightarrow> kernel_execution" where
  "ticked c reservation elapsed m =
     (let consumed = km_consumed m + max 0 (elapsed - km_settled m);
          remaining = max 0 (km_budget m - consumed);
          exhausted = (consumed \<ge> km_budget m)
      in m\<lparr>km_consumed := consumed, km_settled := elapsed, km_reserved := min reservation remaining,
           km_ticks := km_ticks m + 1, km_timing := (if exhausted then ''exhausted'' else ''active''),
           km_scheduling := (if exhausted then ''manual_required'' else km_scheduling m),
           km_reason := (if exhausted then Some ''active_time_exhausted'' else km_reason m),
           km_updated := cl_now c\<rparr>)"

definition tick_row :: "research_call \<Rightarrow> int \<Rightarrow> int \<Rightarrow> string \<Rightarrow> kernel_execution \<Rightarrow> kernel_execution" where
  "tick_row c reservation elapsed interval m =
     (if interval = ''uncertain'' then uncertain_row c m
      else if interval = ''running'' then ticked c reservation elapsed m else m)"

definition tick_segment ::
  "research_env \<Rightarrow> int \<Rightarrow> research_call \<Rightarrow> string \<Rightarrow> string \<Rightarrow> int \<Rightarrow> string \<Rightarrow> int \<Rightarrow> string \<Rightarrow> research_db
    \<Rightarrow> active_time outcome"
where
  "tick_segment E reservation c i owner ep segment elapsed interval db =
     (if elapsed < 0 then (db, Inl (Value_Error ''elapsed_ms must not be negative''))
      else if interval \<notin> {''running'', ''sleep'', ''uncertain''}
      then (db, Inl (Value_Error ''invalid interval classification''))
      else transaction db
        (ebind (fetch_task c i db) (\<lambda>t.
         ebind (assert_owner c t owner ep) (\<lambda>_.
         case select_row (kd_execution db) i of
           None \<Rightarrow> Inl (Research_Conflict ''stale active-time segment fence'')
         | Some m \<Rightarrow>
             if segment_fence m \<noteq> (segment, owner, ep)
             then Inl (Research_Conflict ''stale active-time segment fence'')
             else Inr (put_execution E i (tick_row c reservation elapsed interval m) db)))))"

definition closed_segment :: "research_call \<Rightarrow> string \<Rightarrow> string option \<Rightarrow> kernel_execution \<Rightarrow> kernel_execution" where
  "closed_segment c status reason m =
     m\<lparr>km_segment := None, km_settled := 0, km_reserved := 0,
       km_timing := (if km_consumed m \<ge> km_budget m then ''exhausted'' else ''idle''),
       km_scheduling := (if km_consumed m \<ge> km_budget m then ''manual_required'' else status),
       km_intent := ''none'', km_reason := coalesce reason (km_reason m), km_updated := cl_now c\<rparr>"

definition close_segment ::
  "research_env \<Rightarrow> research_call \<Rightarrow> string \<Rightarrow> string \<Rightarrow> int \<Rightarrow> string \<Rightarrow> string \<Rightarrow> string option \<Rightarrow> research_db
    \<Rightarrow> active_time outcome"
where
  "close_segment E c i owner ep segment status reason db = transaction db
     (ebind (fetch_task c i db) (\<lambda>t.
      ebind (assert_owner c t owner ep) (\<lambda>_.
      case select_row (kd_execution db) i of
        None \<Rightarrow> Inl (Research_Conflict ''stale active-time segment settle'')
      | Some m \<Rightarrow>
          if km_segment m \<noteq> Some (segment, owner, ep)
          then Inl (Research_Conflict ''stale active-time segment settle'')
          else if km_scheduling (closed_segment c status reason m) \<notin> set scheduling_states
          then Inl (Storage_Error ''23514'')
          else Inr (put_execution E i (closed_segment c status reason m) db))))"

definition settle_segment ::
  "research_env \<Rightarrow> int \<Rightarrow> research_call \<Rightarrow> research_call \<Rightarrow> string \<Rightarrow> string \<Rightarrow> int \<Rightarrow> string \<Rightarrow> int \<Rightarrow> string
    \<Rightarrow> string option \<Rightarrow> research_db \<Rightarrow> active_time outcome"
where
  "settle_segment E reservation c c' i owner ep segment elapsed status reason db =
     (case tick_segment E reservation c i owner ep segment elapsed ''running'' db of
        (db1, Inl e) \<Rightarrow> (db1, Inl e)
      | (db1, Inr _) \<Rightarrow> close_segment E c' i owner ep segment status reason db1)"

section \<open>Leases and failures\<close>

definition renew_lease_only ::
  "research_env \<Rightarrow> research_call \<Rightarrow> string \<Rightarrow> string \<Rightarrow> int \<Rightarrow> int \<Rightarrow> research_db \<Rightarrow> string outcome"
where
  "renew_lease_only E c i owner ep seconds db =
     (if \<not> valid_lease seconds then (db, Inl (Value_Error ''invalid_owner_lease''))
      else transaction db
        (ebind (fetch_task c i db) (\<lambda>t.
         ebind (assert_owner c t owner ep) (\<lambda>_.
           if kt_owner t \<noteq> Some owner then Inl (Research_Conflict ''lease-only renewal fence failed'')
           else Inr (db\<lparr>kd_tasks := update_row i
                  (\<lambda>t. t\<lparr>kt_lease := Some (expires_at c seconds), kt_updated := cl_db_now c\<rparr>) (kd_tasks db)\<rparr>,
                en_iso E (expires_at c seconds))))))"

definition failure_delays :: "int list" where
  "failure_delays = [5, 30]"

definition failed_row :: "research_call \<Rightarrow> string \<Rightarrow> bool \<Rightarrow> kernel_execution \<Rightarrow> kernel_execution" where
  "failed_row c code safe m =
     (let again = safe \<and> km_failures m < 2 in
      m\<lparr>km_failures := (if again then km_failures m + 1 else km_failures m),
        km_lifetime_failures := km_lifetime_failures m + 1,
        km_scheduling := (if again then ''backoff'' else ''manual_required''),
        km_intent := (if again then ''queued'' else ''none''),
        km_next_retry := (if again then Some (cl_now c + failure_delays ! nat (km_failures m) * 1000000) else None),
        km_failure_code := Some code, km_reason := Some (if again then ''safe_retry_backoff'' else code),
        km_updated := cl_now c\<rparr>)"

definition record_failure ::
  "research_env \<Rightarrow> research_call \<Rightarrow> string \<Rightarrow> string \<Rightarrow> bool \<Rightarrow> research_db \<Rightarrow> active_time outcome"
where
  "record_failure E c i code safe db = transaction db
     (ebind (fetch_task c i db) (\<lambda>_.
      case select_row (kd_execution db) i of
        None \<Rightarrow> Inl (Research_Unsafe ''legacy_time_unaccounted'')
      | Some m \<Rightarrow> Inr (put_execution E i (failed_row c code safe m) db)))"

section \<open>Recovery\<close>

text \<open>The scan for the next due task.\<close>

definition due_row :: "research_call \<Rightarrow> research_db \<Rightarrow> string \<times> kernel_execution \<Rightarrow> bool" where
  "due_row c db p =
     (case select_row (kd_tasks db) (fst p) of
        None \<Rightarrow> False
      | Some t \<Rightarrow>
          kt_owner_user t = user_id (cl_context c) \<and> kt_status t \<notin> {Ts_Terminal, Ts_Waiting_User} \<and>
          km_intent (snd p) \<in> {''queued'', ''manual''} \<and>
          (km_scheduling (snd p) \<in> {''queued'', ''running''} \<or>
           km_scheduling (snd p) = ''backoff'' \<and>
             (case km_next_retry (snd p) of None \<Rightarrow> False | Some u \<Rightarrow> u \<le> cl_db_now c)))"

definition due_task :: "research_call \<Rightarrow> research_db \<Rightarrow> string option" where
  "due_task c db =
     (case sort_key (\<lambda>(i, m). (km_updated m, i)) (filter (due_row c db) (kd_execution db)) of
        [] \<Rightarrow> None | (i, _) # _ \<Rightarrow> Some i)"

definition recovery_command :: "string \<Rightarrow> string \<Rightarrow> string" where
  "recovery_command i suffix = ''recovery:'' @ i @ suffix"

text \<open>The claim of a takeover: a live lease of the runner itself is kept.\<close>

definition recovery_lease_seconds :: int where
  "recovery_lease_seconds = 60"

definition runner_epoch ::
  "research_env \<Rightarrow> research_call \<Rightarrow> string \<Rightarrow> string \<Rightarrow> kernel_task \<Rightarrow> research_db \<Rightarrow> int outcome"
where
  "runner_epoch E c runner i t db =
     (if text_or_empty (kt_owner t) \<noteq> runner \<or> \<not> kernel_lease_valid c t
      then case claim_owner E c i (recovery_command i ('':claim:'' @ int_text (kt_version t))) runner (kt_version t)
                    recovery_lease_seconds db of
             (db1, claimed) \<Rightarrow> (db1, ebind claimed (response_int ''owner_epoch''))
      else (db, Inr (kt_epoch t)))"

definition response_empty :: "string \<Rightarrow> json \<Rightarrow> bool result" where
  "response_empty k v =
     (case v of
        JObj kvs \<Rightarrow> (case map_of kvs k of None \<Rightarrow> Inl Key_Error | Some x \<Rightarrow> Inr (\<not> truthy x))
      | _ \<Rightarrow> Inl Type_Error)"

text \<open>In-flight effects of earlier epochs become unknown; then the task waits for a user.\<close>

definition recover_taken ::
  "research_env \<Rightarrow> research_call \<Rightarrow> string \<Rightarrow> string \<Rightarrow> int \<Rightarrow> kernel_task \<Rightarrow> research_db \<Rightarrow> (string \<times> int) option outcome"
where
  "recover_taken E c runner i ep t db =
     (case recover_in_flight E c i
             (recovery_command i ('':in-flight:'' @ int_text ep @ '':'' @ int_text (kt_version t))) runner ep (kt_version t) db of
        (db1, Inl e) \<Rightarrow> (db1, Inl e)
      | (db1, Inr v) \<Rightarrow>
          (case response_empty ''unknown_side_effect_ids'' v of
             Inl e \<Rightarrow> (db1, Inl e)
           | Inr True \<Rightarrow> (db1, Inr (Some (runner, ep)))
           | Inr False \<Rightarrow>
               (case record_failure E c i ''provider_outcome_unknown'' False db1 of
                  (db2, Inl e) \<Rightarrow> (db2, Inl e)
                | (db2, Inr _) \<Rightarrow> (db2, Inr None))))"

definition claim_and_recover ::
  "research_env \<Rightarrow> research_call \<Rightarrow> string \<Rightarrow> string \<Rightarrow> research_db \<Rightarrow> (string \<times> int) option outcome"
where
  "claim_and_recover E c runner i db =
     (case fetch_task c i db of
        Inl e \<Rightarrow> (db, Inl e)
      | Inr t \<Rightarrow>
          if kt_status t \<in> {Ts_Terminal, Ts_Waiting_User, Ts_Blocked} then (db, Inr None)
          else if text_or_empty (kt_owner t) \<noteq> [] \<and> text_or_empty (kt_owner t) \<noteq> runner \<and> kernel_lease_valid c t
          then (db, Inr None)
          else
            (case runner_epoch E c runner i t db of
               (db1, Inl e) \<Rightarrow> (db1, Inl e)
             | (db1, Inr ep) \<Rightarrow>
                 (case fetch_task c i db1 of
                    Inl e \<Rightarrow> (db1, Inl e)
                  | Inr current \<Rightarrow> recover_taken E c runner i ep current db1)))"

end
