(* ===== verification/Research_Ledger.thy ===== *)
theory Research_Ledger
  imports Research_Execution Research_Invariants
begin

text \<open>
  The states of the execution ledger: one transaction of it or of the task kernel is a \<open>ledger_step\<close>. The
  kernel only schedules a row or creates it; what a row holds on time is the ledger's.
\<close>

section \<open>The kernel and the ledger's rows\<close>

text \<open>The columns on time are the same; a command of the kernel may reset the automatic failures.\<close>

definition same_time :: "kernel_execution \<Rightarrow> kernel_execution \<Rightarrow> bool" where
  "same_time m m' \<longleftrightarrow>
     km_budget m' = km_budget m \<and> km_consumed m' = km_consumed m \<and> km_segment m' = km_segment m \<and>
     km_settled m' = km_settled m \<and> km_reserved m' = km_reserved m \<and> km_timing m' = km_timing m \<and>
     km_failures m' \<in> {km_failures m, 0}"

definition fresh_time :: "kernel_execution \<Rightarrow> bool" where
  "fresh_time m \<longleftrightarrow>
     0 < km_budget m \<and> km_consumed m = 0 \<and> km_segment m = None \<and> km_settled m = 0 \<and> km_reserved m = 0 \<and>
     km_timing m = ''idle'' \<and> km_failures m = 0"

definition executions_kept :: "research_db \<Rightarrow> research_db \<Rightarrow> bool" where
  "executions_kept db db' \<longleftrightarrow>
     (keys_distinct (kd_execution db) \<longrightarrow> keys_distinct (kd_execution db')) \<and>
     (\<forall>i m. select_row (kd_execution db) i = Some m \<longrightarrow>
        (\<exists>m'. select_row (kd_execution db') i = Some m' \<and> same_time m m')) \<and>
     (\<forall>i m'. select_row (kd_execution db') i = Some m' \<longrightarrow>
        select_row (kd_execution db) i \<noteq> None \<or> fresh_time m')"

lemma same_time_refl [simp]: "same_time m m"
  by (simp add: same_time_def)

lemma executions_kept_same: "kd_execution db' = kd_execution db \<Longrightarrow> executions_kept db db'"
  by (auto simp: executions_kept_def)

lemma executions_kept_insert:
  assumes "insert_execution i x now db = Inr db'"
  shows "executions_kept db db'"
  using assms
  by (auto simp: executions_kept_def fresh_time_def new_execution_def insert_execution_def ebind_eq_Inr insert_new_Inr
        keys_distinct_insert table_simps
      split: if_splits option.splits)

lemma executions_kept_enqueue:
  assumes "enqueue_attempt c i enqueue db = Inr db'"
  shows "executions_kept db db'"
  using assms
  by (auto simp: executions_kept_def enqueue_attempt_def ebind_eq_Inr Let_def table_simps same_time_def
      split: if_splits option.splits)

lemma executions_kept_before: "executions_kept db1 db' \<Longrightarrow> kd_execution db1 = kd_execution db \<Longrightarrow> executions_kept db db'"
  by (simp add: executions_kept_def)

lemma executions_kept_after: "executions_kept db db1 \<Longrightarrow> kd_execution db' = kd_execution db1 \<Longrightarrow> executions_kept db db'"
  by (simp add: executions_kept_def)

lemma insert_attempt_execution: "insert_attempt k a db = Inr db' \<Longrightarrow> kd_execution db' = kd_execution db"
  by (auto simp: insert_attempt_def ebind_eq_Inr split: if_splits)

lemmas execution_tables = append_event_tables(8) commit_response_tables(8) insert_trace_tables(9) insert_attempt_execution

lemma create_task_execution:
  assumes "create_task_body E c command i objective constraints policy parent profile execution hash db = Inr (db', v)"
  shows "executions_kept db db'"
proof -
  define db0 where "db0 = db\<lparr>kd_tasks := insert_row i (new_task c parent) (kd_tasks db)\<rparr>"
  obtain goal db1 where id: "new_id E ''goal'' db0 = (goal, db1)" by fastforce
  have db1: "kd_execution db1 = kd_execution db" using id by (auto simp: db0_def new_id_def)
  from assms obtain goals db3 event k db4 outcome ty response ep now where
      exec: "(case execution of None \<Rightarrow> Inr (activate_goal c i goal (db1\<lparr>kd_goals := goals\<rparr>))
        | Some x \<Rightarrow> insert_execution i x (cl_now c) (activate_goal c i goal (db1\<lparr>kd_goals := goals\<rparr>))) = Inr db3"
    and ev: "append_event E c event db3 = Inr (k, db4)"
    and cr: "commit_response E i command ty hash outcome response ep now
       (db4\<lparr>kd_goals := update_row goal (\<lambda>g. g\<lparr>kg_event := Some k\<rparr>) (kd_goals db4)\<rparr>) = Inr (db', v)"
    by (auto simp: create_task_body_def ebind_eq_Inr Let_def insert_new_Inr db0_def [symmetric] id)
  have fin: "kd_execution db' = kd_execution db4" using commit_response_tables(8) [OF cr] by simp
  have "executions_kept db db3"
  proof (cases execution)
    case None
    with exec db1 show ?thesis by (auto intro!: executions_kept_same simp: activate_goal_def)
  next
    case (Some x)
    with exec have "executions_kept (activate_goal c i goal (db1\<lparr>kd_goals := goals\<rparr>)) db3"
      by (auto dest: executions_kept_insert)
    then show ?thesis by (rule executions_kept_before) (simp add: activate_goal_def db1)
  qed
  then show ?thesis by (rule executions_kept_after) (simp add: fin append_event_tables(8) [OF ev])
qed

lemma start_attempt_execution:
  assumes "start_attempt_body E c i command owner ep expected cause parent source enqueue hash db = Inr (db', v)"
  shows "executions_kept db db'"
proof -
  define db1 where "db1 = snd (new_id E ''attempt'' db)"
  have db1: "kd_execution db1 = kd_execution db" by (simp add: db1_def new_id_def)
  from assms obtain attempt a db2 trace db3 f event k db5 db6 outcome ty response ep' now where
      at: "insert_attempt attempt a db1 = Inr db2" and tr: "insert_trace E c i attempt db2 = Inr (trace, db3)"
    and ev: "append_event E c event (touch_task c i f (cl_now c) db3) = Inr (k, db5)"
    and en: "enqueue_attempt c i enqueue db5 = Inr db6"
    and cr: "commit_response E i command ty hash outcome response ep' now db6 = Inr (db', v)"
    by (auto simp: start_attempt_body_def ebind_eq_Inr Let_def new_id_def db1_def split: if_splits)
  have "kd_execution db5 = kd_execution db"
    by (simp add: append_event_tables(8) [OF ev] insert_trace_tables(9) [OF tr] insert_attempt_execution [OF at] db1)
  then have "executions_kept db db6" by (rule executions_kept_before [OF executions_kept_enqueue [OF en]])
  then show ?thesis by (rule executions_kept_after) (rule commit_response_tables(8) [OF cr])
qed

named_theorems quiet_execution

lemma claim_owner_execution [quiet_execution]:
  "claim_owner_body E c i command owner expected seconds hash db = Inr (db', v) \<Longrightarrow> kd_execution db' = kd_execution db"
  by (auto simp: claim_owner_body_def ebind_eq_Inr Let_def execution_tables effects_only_def
      dest!: rebind_effects_only split: if_splits)

lemma renew_owner_execution [quiet_execution]:
  "renew_owner_body E c i command owner ep expected seconds hash db = Inr (db', v) \<Longrightarrow> kd_execution db' = kd_execution db"
  by (auto simp: renew_owner_body_def ebind_eq_Inr Let_def execution_tables)

lemma commit_checkpoint_execution [quiet_execution]:
  "commit_checkpoint_body E c i attempt command owner ep expected checkpoint state kind hash db = Inr (db', v) \<Longrightarrow>
    kd_execution db' = kd_execution db"
  by (cases kind)
     (auto simp: commit_checkpoint_body_def ebind_eq_Inr Let_def new_id_def execution_tables resume_status_def split: if_splits)

lemma complete_attempt_execution [quiet_execution]:
  "complete_attempt_body E c i attempt command owner ep expected answer reason failure detail is_terminal status checkpoint
    hash db = Inr (db', v) \<Longrightarrow> kd_execution db' = kd_execution db"
  by (auto simp: complete_attempt_body_def ebind_eq_Inr Let_def new_id_def execution_tables end_attempt_def split: if_splits)

lemma revise_goal_execution [quiet_execution]:
  "revise_goal_body E c i command owner ep expected objective constraints policy hash db = Inr (db', v) \<Longrightarrow>
    kd_execution db' = kd_execution db"
  by (auto simp: revise_goal_body_def ebind_eq_Inr Let_def new_id_def execution_tables split: if_splits)

lemma reserve_execution [quiet_execution]:
  "reserve_side_effect_body E c i attempt command owner ep expected kind key request hash db = Inr (db', v) \<Longrightarrow>
    kd_execution db' = kd_execution db"
  by (auto simp: reserve_side_effect_body_def ebind_eq_Inr Let_def execution_tables elim!: reserve_row_Inr)

lemma transition_execution [quiet_execution]:
  "transition_body E c i k command owner ep expected target operation receipt reference hash db = Inr (db', v) \<Longrightarrow>
    kd_execution db' = kd_execution db"
  by (auto simp: transition_body_def ebind_eq_Inr Let_def execution_tables split: if_splits)

lemma recover_execution [quiet_execution]:
  "recover_body E c i command owner ep expected hash db = Inr (db', v) \<Longrightarrow> kd_execution db' = kd_execution db"
  by (auto simp: recover_body_def ebind_eq_Inr Let_def execution_tables effects_only_def dest!: mark_unknown_only)

lemma resolve_execution [quiet_execution]:
  "resolve_body E c i k command owner ep expected verdict hash db = Inr (db', v) \<Longrightarrow> kd_execution db' = kd_execution db"
  by (auto simp: resolve_body_def ebind_eq_Inr Let_def execution_tables split: if_splits)

lemma db_step_execution: "db_step E db db' \<Longrightarrow> executions_kept db db'"
  by (induction rule: db_step.induct)
     (auto intro: create_task_execution start_attempt_execution executions_kept_same quiet_execution append_event_tables(8))

section \<open>Steps of the ledger\<close>

inductive ledger_step :: "research_env \<Rightarrow> int \<Rightarrow> research_db \<Rightarrow> research_db \<Rightarrow> bool" for E R where
  kernel: "db_step E db db' \<Longrightarrow> ledger_step E R db db'"
| inserted: "insert_v2 c i command run budget db = Inr db' \<Longrightarrow> ledger_step E R db db'"
| enqueued: "enqueue_execution E c i command manual reason db = (db', res) \<Longrightarrow> ledger_step E R db db'"
| begun: "begin_segment E R c i owner ep db = (db', res) \<Longrightarrow> ledger_step E R db db'"
| ticked: "tick_segment E R c i owner ep segment elapsed interval db = (db', res) \<Longrightarrow> ledger_step E R db db'"
| closed: "close_segment E c i owner ep segment status reason db = (db', res) \<Longrightarrow> ledger_step E R db db'"
| renewed: "renew_lease_only E c i owner ep seconds db = (db', res) \<Longrightarrow> ledger_step E R db db'"
| failed: "record_failure E c i code safe db = (db', res) \<Longrightarrow> ledger_step E R db db'"

text \<open>A call of the ledger fails and changes nothing, or replaces the row of its task.\<close>

lemma enqueue_execution_cases:
  assumes "enqueue_execution E c i command manual reason db = (db', res)"
  obtains (refused) e where "db' = db" "res = Inl e"
  | (row) m where "select_row (kd_execution db) i = Some m" "km_timing m \<notin> {''uncertain'', ''exhausted''}"
      "db' = fst (put_execution E i (enqueued c command manual reason m) db)"
      "res = Inr (snapshot_of E i (enqueued c command manual reason m))"
  using assms unfolding enqueue_execution_def
proof (cases rule: transaction_cases)
  case (committed v)
  then obtain m where "select_row (kd_execution db) i = Some m" "km_timing m \<notin> {''uncertain'', ''exhausted''}"
      "(db', v) = put_execution E i (enqueued c command manual reason m) db"
    by (auto simp: ebind_eq_Inr resolvable_timing_def split: if_splits option.splits)
  with committed(2) show thesis by (intro row) (auto simp: put_execution_def)
qed (rule refused)

lemma begin_segment_cases:
  assumes "begin_segment E R c i owner ep db = (db', res)"
  obtains (refused) e where "db' = db" "res = Inl e"
  | (row) m t s m' where "fetch_task c i db = Inr t" "kt_status t \<noteq> Ts_Terminal" "assert_owner c t owner ep = Inr ()"
      "select_row (kd_execution db) i = Some m"
      "segment_row c R (fst (new_id E ''rseg'' db)) owner ep m = Inr (s, m')"
      "db' = fst (put_execution E i m' (snd (new_id E ''rseg'' db)))" "res = Inr (s, snapshot_of E i m')"
proof -
  obtain segment db0 where id: "new_id E ''rseg'' db = (segment, db0)" by fastforce
  then have same: "fetch_task c i db0 = fetch_task c i db" "kd_execution db0 = kd_execution db"
    by (auto simp: new_id_def fetch_task_def)
  show thesis
  proof (cases res)
    case (Inl e)
    with assms show thesis
      by (intro refused [of e])
        (auto simp: begin_segment_def id transaction_def put_execution_def split: sum.splits)
  next
    case (Inr x)
    with assms obtain t m s m' where "fetch_task c i db = Inr t" "assert_nonterminal t = Inr ()"
        "assert_owner c t owner ep = Inr ()" "select_row (kd_execution db) i = Some m"
        "segment_row c R segment owner ep m = Inr (s, m')" "db' = fst (put_execution E i m' db0)"
        "res = Inr (s, snapshot_of E i m')"
      by (auto simp: begin_segment_def id transaction_def ebind_eq_Inr put_execution_def same split: sum.splits option.splits)
    with id show thesis by (intro row) (auto simp: assert_nonterminal_def)
  qed
qed

lemma tick_segment_cases:
  assumes "tick_segment E R c i owner ep segment elapsed interval db = (db', res)"
  obtains (refused) e where "db' = db" "res = Inl e"
  | (row) m t where "0 \<le> elapsed" "fetch_task c i db = Inr t" "assert_owner c t owner ep = Inr ()"
      "select_row (kd_execution db) i = Some m" "segment_fence m = (segment, owner, ep)"
      "db' = fst (put_execution E i (tick_row c R elapsed interval m) db)"
      "res = Inr (snapshot_of E i (tick_row c R elapsed interval m))"
proof (cases "elapsed < 0 \<or> interval \<notin> {''running'', ''sleep'', ''uncertain''}")
  case True
  with assms show thesis by (cases "elapsed < 0") (auto simp: tick_segment_def intro: refused)
next
  case False
  note run = assms [unfolded tick_segment_def if_not_P [OF conjunct1 [OF False [unfolded de_Morgan_disj]]]
      if_not_P [OF conjunct2 [OF False [unfolded de_Morgan_disj]]]]
  from run show thesis
  proof (cases rule: transaction_cases)
    case (committed v)
    then obtain t m where "fetch_task c i db = Inr t" "assert_owner c t owner ep = Inr ()"
        "select_row (kd_execution db) i = Some m" "segment_fence m = (segment, owner, ep)"
        "(db', v) = put_execution E i (tick_row c R elapsed interval m) db"
      by (auto simp: ebind_eq_Inr split: if_splits option.splits)
    with False committed(2) show thesis by (intro row) (auto simp: put_execution_def)
  qed (rule refused)
qed

lemma close_segment_cases:
  assumes "close_segment E c i owner ep segment status reason db = (db', res)"
  obtains (refused) e where "db' = db" "res = Inl e"
  | (row) m t where "fetch_task c i db = Inr t" "assert_owner c t owner ep = Inr ()"
      "select_row (kd_execution db) i = Some m" "km_segment m = Some (segment, owner, ep)"
      "db' = fst (put_execution E i (closed_segment c status reason m) db)"
      "res = Inr (snapshot_of E i (closed_segment c status reason m))"
  using assms unfolding close_segment_def
proof (cases rule: transaction_cases)
  case (committed v)
  then obtain t m where "fetch_task c i db = Inr t" "assert_owner c t owner ep = Inr ()"
      "select_row (kd_execution db) i = Some m" "km_segment m = Some (segment, owner, ep)"
      "(db', v) = put_execution E i (closed_segment c status reason m) db"
    by (auto simp: ebind_eq_Inr split: if_splits option.splits)
  with committed(2) show thesis by (intro row) (auto simp: put_execution_def)
qed (rule refused)

lemma record_failure_cases:
  assumes "record_failure E c i code safe db = (db', res)"
  obtains (refused) e where "db' = db" "res = Inl e"
  | (row) m where "select_row (kd_execution db) i = Some m" "db' = fst (put_execution E i (failed_row c code safe m) db)"
      "res = Inr (snapshot_of E i (failed_row c code safe m))"
  using assms unfolding record_failure_def
proof (cases rule: transaction_cases)
  case (committed v)
  then obtain m where "select_row (kd_execution db) i = Some m" "(db', v) = put_execution E i (failed_row c code safe m) db"
    by (auto simp: ebind_eq_Inr split: option.splits)
  with committed(2) show thesis by (intro row) (auto simp: put_execution_def)
qed (rule refused)

lemma renew_lease_only_cases:
  assumes "renew_lease_only E c i owner ep seconds db = (db', res)"
  obtains (refused) e where "db' = db" "res = Inl e"
  | (renewed) t where "fetch_task c i db = Inr t" "assert_owner c t owner ep = Inr ()"
      "db' = db\<lparr>kd_tasks := update_row i (\<lambda>t. t\<lparr>kt_lease := Some (expires_at c seconds), kt_updated := cl_db_now c\<rparr>)
         (kd_tasks db)\<rparr>"
      "res = Inr (en_iso E (expires_at c seconds))"
proof (cases "valid_lease seconds")
  case False
  with assms show thesis by (auto simp: renew_lease_only_def intro: refused)
next
  case True
  from assms True show thesis
    unfolding renew_lease_only_def
    by (auto simp: ebind_eq_Inr elim!: transaction_cases intro: refused renewed split: if_splits)
qed

end
