(* ===== verification/Research_Time.thy ===== *)
theory Research_Time
  imports Research_Ledger Research_Properties
begin

text \<open>
  What the execution ledger guarantees: its rows stay consistent, the charge of a segment is the time it
  reports however often it ticks, processes that die cannot run a task without end, and a superseded
  process is locked out.
\<close>

section \<open>The invariant\<close>

definition execution_ok :: "int \<Rightarrow> kernel_execution \<Rightarrow> bool" where
  "execution_ok R m \<longleftrightarrow>
     0 < km_budget m \<and> 0 \<le> km_consumed m \<and> 0 \<le> km_settled m \<and>
     km_reserved m = (if km_segment m = None then 0 else min R (max 0 (km_budget m - km_consumed m))) \<and>
     (km_segment m = None \<longrightarrow> km_settled m = 0 \<and> km_timing m \<notin> {''active'', ''uncertain''}) \<and>
     (km_timing m = ''exhausted'' \<longrightarrow> km_budget m \<le> km_consumed m) \<and>
     0 \<le> km_failures m \<and> km_failures m \<le> 2"

definition ledger_inv :: "int \<Rightarrow> research_db \<Rightarrow> bool" where
  "ledger_inv R db \<longleftrightarrow>
     (\<forall>i t. select_row (kd_tasks db) i = Some t \<longrightarrow> 0 \<le> kt_epoch t) \<and>
     (\<forall>i m. select_row (kd_execution db) i = Some m \<longrightarrow> execution_ok R m)"

lemma fresh_time_ok: "0 < R \<Longrightarrow> fresh_time m \<Longrightarrow> execution_ok R m"
  by (simp add: fresh_time_def execution_ok_def)

lemma same_time_ok: "execution_ok R m \<Longrightarrow> same_time m m' \<Longrightarrow> execution_ok R m'"
  by (auto simp: execution_ok_def same_time_def)

lemma enqueued_ok: "execution_ok R m \<Longrightarrow> execution_ok R (enqueued c command manual reason m)"
  by (simp add: execution_ok_def enqueued_def)

lemma failed_row_ok: "execution_ok R m \<Longrightarrow> execution_ok R (failed_row c code safe m)"
  by (simp add: execution_ok_def failed_row_def Let_def)

lemma closed_segment_ok: "execution_ok R m \<Longrightarrow> execution_ok R (closed_segment c status reason m)"
  by (simp add: execution_ok_def closed_segment_def)

lemma recover_segment_ok: "0 < R \<Longrightarrow> execution_ok R m \<Longrightarrow> execution_ok R (recover_segment c m)"
  by (simp add: execution_ok_def recover_segment_def Let_def)

lemma opened_segment_ok:
  "0 < R \<Longrightarrow> execution_ok R m \<Longrightarrow> 0 < km_budget m - km_consumed m \<Longrightarrow> execution_ok R (opened_segment c R segment owner ep m)"
  by (simp add: execution_ok_def opened_segment_def reserved_tail_def)

lemma segment_row_cases:
  assumes "segment_row c R segment owner ep m = Inr (s, m')"
  obtains (same) "map_option snd (km_segment m) = Some (owner, ep)" "m' = m" "km_segment m = Some (s, owner, ep)"
  | (opened) m1 where "map_option snd (km_segment m) \<noteq> Some (owner, ep)" "s = segment"
      "m1 = (if km_segment m = None then m else recover_segment c m)"
      "0 < km_budget m1 - km_consumed m1" "m' = opened_segment c R segment owner ep m1"
  using assms by (auto simp: segment_row_def Let_def split: if_splits)

lemma segment_row_ok:
  assumes "0 < R" and "execution_ok R m" and "segment_row c R segment owner ep m = Inr (s, m')"
  shows "execution_ok R m'"
  using assms(3)
proof (cases rule: segment_row_cases)
  case (opened m1)
  then show ?thesis using opened_segment_ok [OF assms(1)] recover_segment_ok [OF assms(1,2)] assms(2) by auto
qed (use assms(2) in simp)

lemma tick_row_ok:
  assumes "0 < R" and "execution_ok R m" and "0 \<le> elapsed" and "km_segment m \<noteq> None"
  shows "execution_ok R (tick_row c R elapsed interval m)"
  using assms
  by (cases "interval = ''uncertain''"; cases "interval = ''running''")
     (auto simp: execution_ok_def tick_row_def uncertain_row_def ticked_def Let_def)

text \<open>The epochs of tasks are never negative, so the fence of a segment holds for open segments only.\<close>

lemma commits_epochs:
  assumes "commits E c db i command hash f now v db'"
    and "\<And>u. fetch_task c i db = Inr u \<Longrightarrow> kt_epoch u \<le> kt_epoch (f u)"
    and "\<forall>j t. select_row (kd_tasks db) j = Some t \<longrightarrow> 0 \<le> kt_epoch t"
  shows "\<forall>j t. select_row (kd_tasks db') j = Some t \<longrightarrow> 0 \<le> kt_epoch t"
proof -
  from assms(1) obtain u where u: "fetch_task c i db = Inr u"
    and tasks: "\<forall>j. select_row (kd_tasks db') j = (if j = i then Some (touched f now u) else select_row (kd_tasks db) j)"
    by (rule commits_task)
  have "0 \<le> kt_epoch u" using u assms(3) by (auto simp: fetch_task_Inr)
  with assms(2) [OF u] have "0 \<le> kt_epoch (f u)" by linarith
  with tasks assms(3) show ?thesis by (auto split: if_splits)
qed

lemma db_step_epochs:
  assumes "db_step E db db'" and epochs: "\<forall>j t. select_row (kd_tasks db) j = Some t \<longrightarrow> 0 \<le> kt_epoch t"
  shows "\<forall>j t. select_row (kd_tasks db') j = Some t \<longrightarrow> 0 \<le> kt_epoch t"
  using assms(1)
proof (cases rule: db_step.cases)
  case stay with epochs show ?thesis by simp
next
  case (audit c t i command stored received now k)
  from append_event_tables(1) [OF audit] epochs show ?thesis by simp
next
  case (create c command i objective constraints policy parent profile execution v)
  then show ?thesis
    by (rule create_task_commit) (use epochs in \<open>auto simp: task_becomes_def new_task_def\<close>)
next
  case claim then show ?thesis
    by (rule claim_owner_commit) (erule commits_epochs [OF _ _ epochs], simp)
next
  case renew then show ?thesis
    by (rule renew_owner_commit) (erule commits_epochs [OF _ _ epochs], simp)
next
  case start then show ?thesis
    by (rule start_attempt_commit) (erule commits_epochs [OF _ _ epochs], simp)
next
  case checkpoint then show ?thesis
    by (rule commit_checkpoint_commit) (erule commits_epochs [OF _ _ epochs], simp)
next
  case complete then show ?thesis
    by (rule complete_attempt_commit) (erule commits_epochs [OF _ _ epochs], simp)
next
  case revise then show ?thesis
    by (rule revise_goal_commit) (erule commits_epochs [OF _ _ epochs], simp)
next
  case reserve then show ?thesis
    by (rule reserve_commit) (erule commits_epochs [OF _ _ epochs], simp)
next
  case transit then show ?thesis
    by (rule transition_commit) (erule commits_epochs [OF _ _ epochs], simp)
next
  case recover then show ?thesis
    by (rule recover_commit) (erule commits_epochs [OF _ _ epochs], simp)
next
  case resolve then show ?thesis
    by (rule resolve_commit) (erule commits_epochs [OF _ _ epochs], simp)
qed

lemma fenced_segment:
  assumes "ledger_inv R db" and "fetch_task c i db = Inr t" and "assert_owner c t owner ep = Inr ()"
    and "segment_fence m = (segment, owner, ep)"
  obtains e where "km_segment m = Some (segment, owner, e)"
proof -
  have "0 \<le> ep" using assms(1-3) by (auto simp: ledger_inv_def fetch_task_Inr assert_owner_Inr)
  with assms(4) show thesis by (cases "km_segment m") (auto simp: segment_fence_def intro: that)
qed

lemma ledger_inv_put:
  assumes "ledger_inv R db" and "execution_ok R m'" and "kd_tasks db' = kd_tasks db"
    and "kd_execution db' = update_row i (\<lambda>_. m') (kd_execution db)"
  shows "ledger_inv R db'"
  using assms by (auto simp: ledger_inv_def table_simps split: if_splits)

lemma put_execution_simps [simp]:
  "kd_tasks (fst (put_execution E i m db)) = kd_tasks db"
  "kd_execution (fst (put_execution E i m db)) = update_row i (\<lambda>_. m) (kd_execution db)"
  by (simp_all add: put_execution_def)

lemma new_id_tables [simp]:
  "kd_tasks (snd (new_id E prefix db)) = kd_tasks db" "kd_execution (snd (new_id E prefix db)) = kd_execution db"
  by (simp_all add: new_id_def)

lemma ledger_step_inv:
  assumes R: "0 < R" and "ledger_step E R db db'" and inv: "ledger_inv R db"
  shows "ledger_inv R db'"
proof -
  have ok: "select_row (kd_execution db) i = Some m \<Longrightarrow> execution_ok R m" for i m
    using inv by (simp add: ledger_inv_def)
  have kept: "ledger_inv R db'" if "executions_kept db db'"
    and "\<forall>j t. select_row (kd_tasks db') j = Some t \<longrightarrow> 0 \<le> kt_epoch t"
    unfolding ledger_inv_def
  proof (intro conjI allI impI)
    fix i m' assume m': "select_row (kd_execution db') i = Some m'"
    show "execution_ok R m'"
    proof (cases "select_row (kd_execution db) i")
      case None
      with that(1) m' show ?thesis using fresh_time_ok [OF R] unfolding executions_kept_def by blast
    next
      case (Some m)
      with that(1) m' have "same_time m m'" unfolding executions_kept_def by fastforce
      with ok [OF Some] show ?thesis by (rule same_time_ok)
    qed
  qed (use that(2) in blast)
  from assms(2) show ?thesis
  proof (cases rule: ledger_step.cases)
    case kernel
    show ?thesis by (rule kept [OF db_step_execution [OF kernel] db_step_epochs [OF kernel]]) (use inv in \<open>simp add: ledger_inv_def\<close>)
  next
    case (inserted c i command run budget)
    then have "executions_kept db db'" "kd_tasks db' = kd_tasks db"
      by (auto simp: insert_v2_def dest: executions_kept_insert insert_execution_tables(1))
    with inv show ?thesis by (intro kept) (simp_all add: ledger_inv_def)
  next
    case (enqueued c i command manual reason res)
    from this show ?thesis
    proof (cases rule: enqueue_execution_cases)
      case (row m)
      show ?thesis by (rule ledger_inv_put [OF inv enqueued_ok [OF ok [OF row(1)]]]) (simp_all add: row(3))
    qed (use inv in simp)
  next
    case (begun c i owner ep res)
    from this show ?thesis
    proof (cases rule: begin_segment_cases)
      case (row m t s m')
      show ?thesis by (rule ledger_inv_put [OF inv segment_row_ok [OF R ok [OF row(4)] row(5)]]) (simp_all add: row(6))
    qed (use inv in simp)
  next
    case (ticked c i owner ep segment elapsed interval res)
    from this show ?thesis
    proof (cases rule: tick_segment_cases)
      case (row m t)
      from fenced_segment [OF inv row(2,3,5)] have "km_segment m \<noteq> None" by blast
      from tick_row_ok [OF R ok [OF row(4)] row(1) this] show ?thesis
        by (rule ledger_inv_put [OF inv]) (simp_all add: row(6))
    qed (use inv in simp)
  next
    case (closed c i owner ep segment status reason res)
    from this show ?thesis
    proof (cases rule: close_segment_cases)
      case (row m t)
      show ?thesis by (rule ledger_inv_put [OF inv closed_segment_ok [OF ok [OF row(3)]]]) (simp_all add: row(5))
    qed (use inv in simp)
  next
    case renewed
    then show ?thesis
      by (cases rule: renew_lease_only_cases)
        (use inv in \<open>auto simp: ledger_inv_def table_simps split: if_splits\<close>)
  next
    case (failed c i code safe res)
    from this show ?thesis
    proof (cases rule: record_failure_cases)
      case (row m)
      show ?thesis by (rule ledger_inv_put [OF inv failed_row_ok [OF ok [OF row(1)]]]) (simp_all add: row(2))
    qed (use inv in simp)
  qed
qed

lemma ledger_inv_empty: "ledger_inv R empty_research"
  by (simp add: ledger_inv_def empty_research_def select_row_def)

lemma ledger_steps_inv: "(ledger_step E R)\<^sup>*\<^sup>* empty_research db \<Longrightarrow> 0 < R \<Longrightarrow> ledger_inv R db"
  by (induction rule: rtranclp_induct) (auto intro: ledger_step_inv ledger_inv_empty)

section \<open>Takeovers\<close>

text \<open>The segment of a process that did not settle it, for another owner or a later epoch.\<close>

definition dead_segment :: "string \<Rightarrow> int \<Rightarrow> kernel_execution \<Rightarrow> bool" where
  "dead_segment owner ep m \<longleftrightarrow> (case km_segment m of None \<Rightarrow> False | Some s \<Rightarrow> snd s \<noteq> (owner, ep))"

text \<open>A run of the ledger, with a number of takeovers of the task's dead segments that it has made.\<close>

inductive ledger_run :: "research_env \<Rightarrow> int \<Rightarrow> string \<Rightarrow> nat \<Rightarrow> research_db \<Rightarrow> bool" for E R i where
  nothing_yet: "ledger_run E R i 0 empty_research"
| other_step: "ledger_run E R i n db \<Longrightarrow> ledger_step E R db db' \<Longrightarrow> ledger_run E R i n db'"
| takeover: "ledger_run E R i n db \<Longrightarrow> select_row (kd_execution db) i = Some m \<Longrightarrow> dead_segment owner ep m \<Longrightarrow>
    begin_segment E R c i owner ep db = (db', Inr x) \<Longrightarrow> ledger_run E R i (Suc n) db'"

lemma ledger_run_inv: "ledger_run E R i n db \<Longrightarrow> 0 < R \<Longrightarrow> ledger_inv R db"
  by (induction rule: ledger_run.induct) (auto intro: ledger_inv_empty ledger_step_inv ledger_step.begun)

definition charges :: "kernel_execution \<Rightarrow> kernel_execution \<Rightarrow> bool" where
  "charges m m' \<longleftrightarrow> km_budget m' = km_budget m \<and> km_consumed m \<le> km_consumed m'"

lemma charges_put:
  assumes "select_row (kd_execution db) i = Some m" and "charges m m'" and "select_row (kd_execution db) j = Some k"
    and "kd_execution db' = update_row i (\<lambda>_. m') (kd_execution db)"
  shows "\<exists>k'. select_row (kd_execution db') j = Some k' \<and> charges k k'"
  using assms by (cases "j = i") (auto simp: table_simps charges_def)

lemma segment_row_charges:
  assumes "0 < R" and "execution_ok R m" and "segment_row c R segment owner ep m = Inr (s, m')"
  shows "charges m m'"
  using assms(3)
proof (cases rule: segment_row_cases)
  case (opened m1)
  with assms(1,2) show ?thesis
    by (auto simp: charges_def opened_segment_def recover_segment_def Let_def execution_ok_def)
qed (simp add: charges_def)

lemma rows_charge:
  "charges m m" "charges m (enqueued c command manual reason m)" "charges m (closed_segment c status because m)"
  "charges m (failed_row c code safe m)" "charges m (tick_row c R elapsed interval m)"
  by (simp_all add: charges_def enqueued_def closed_segment_def failed_row_def tick_row_def uncertain_row_def ticked_def Let_def)

lemma executions_kept_charges:
  assumes "executions_kept db db'" and "select_row (kd_execution db) j = Some k"
  shows "\<exists>k'. select_row (kd_execution db') j = Some k' \<and> charges k k'"
proof -
  from assms obtain k' where "select_row (kd_execution db') j = Some k'" "same_time k k'"
    unfolding executions_kept_def by blast
  then show ?thesis by (auto simp: same_time_def charges_def)
qed

lemma ledger_step_charges:
  assumes R: "0 < R" and "ledger_step E R db db'" and inv: "ledger_inv R db" and row: "select_row (kd_execution db) j = Some k"
  shows "\<exists>k'. select_row (kd_execution db') j = Some k' \<and> charges k k'"
proof -
  have ok: "select_row (kd_execution db) i = Some m \<Longrightarrow> execution_ok R m" for i m
    using inv by (simp add: ledger_inv_def)
  note put = charges_put [OF _ _ row]
  have same: ?thesis if "kd_execution db' = kd_execution db" using that row rows_charge(1) by simp
  from assms(2) show ?thesis
  proof (cases rule: ledger_step.cases)
    case kernel show ?thesis by (rule executions_kept_charges [OF db_step_execution [OF kernel] row])
  next
    case inserted
    then show ?thesis by (intro executions_kept_charges [OF _ row]) (auto simp: insert_v2_def dest: executions_kept_insert)
  next
    case (enqueued c i command manual reason res)
    from this show ?thesis
    proof (cases rule: enqueue_execution_cases)
      case (row m) show ?thesis by (rule put [OF row(1) rows_charge(2)]) (simp add: row(3))
    qed (rule same, simp)
  next
    case (begun c i owner ep res)
    from this show ?thesis
    proof (cases rule: begin_segment_cases)
      case (row m t s m')
      show ?thesis by (rule put [OF row(4) segment_row_charges [OF R ok [OF row(4)] row(5)]]) (simp add: row(6))
    qed (rule same, simp)
  next
    case (ticked c i owner ep segment elapsed interval res)
    from this show ?thesis
    proof (cases rule: tick_segment_cases)
      case (row m t) show ?thesis by (rule put [OF row(4) rows_charge(5)]) (simp add: row(6))
    qed (rule same, simp)
  next
    case (closed c i owner ep segment status reason res)
    from this show ?thesis
    proof (cases rule: close_segment_cases)
      case (row m t) show ?thesis by (rule put [OF row(3) rows_charge(3)]) (simp add: row(5))
    qed (rule same, simp)
  next
    case renewed
    then show ?thesis by (cases rule: renew_lease_only_cases) (rule same, simp)+
  next
    case (failed c i code safe res)
    from this show ?thesis
    proof (cases rule: record_failure_cases)
      case (row m) show ?thesis by (rule put [OF row(1) rows_charge(4)]) (simp add: row(2))
    qed (rule same, simp)
  qed
qed

text \<open>A takeover that returns has charged the whole tail of the dead segment.\<close>

lemma takeover_charges:
  assumes R: "0 < R" and inv: "ledger_inv R db" and row: "select_row (kd_execution db) i = Some m" and dead: "dead_segment owner ep m"
    and run: "begin_segment E R c i owner ep db = (db', Inr x)"
  shows "\<exists>m'. select_row (kd_execution db') i = Some m' \<and> km_budget m' = km_budget m \<and>
    km_consumed m' = km_consumed m + R \<and> km_consumed m' < km_budget m'"
  using run
proof (cases rule: begin_segment_cases)
  case (row k t s m')
  then have [simp]: "k = m" using assms(3) by simp
  from row(5) show ?thesis
  proof (cases rule: segment_row_cases)
    case same with dead show ?thesis by (auto simp: dead_segment_def)
  next
    case (opened m1)
    have ok: "execution_ok R m" using inv assms(3) by (simp add: ledger_inv_def)
    from dead opened have m1: "m1 = recover_segment c m" "km_segment m \<noteq> None" by (auto simp: dead_segment_def split: option.splits)
    with opened(4) ok R have "km_consumed m1 = km_consumed m + R" "km_budget m1 = km_budget m"
      by (auto simp: recover_segment_def Let_def execution_ok_def split: if_splits)
    with opened(4,5) row(6) assms(3) show ?thesis by (simp add: table_simps opened_segment_def)
  qed
qed simp

lemma ledger_run_takeovers:
  assumes "ledger_run E R i n db" and "0 < R"
  shows "case select_row (kd_execution db) i of None \<Rightarrow> n = 0
    | Some m \<Rightarrow> int n * R \<le> km_consumed m \<and> int n * R < km_budget m"
  using assms
proof (induction rule: ledger_run.induct)
  case nothing_yet
  then show ?case by (simp add: empty_research_def select_row_def)
next
  case (other_step n db db')
  have inv: "ledger_inv R db" by (rule ledger_run_inv [OF other_step.hyps(1) other_step.prems])
  show ?case
  proof (cases "select_row (kd_execution db) i")
    case None
    with other_step.IH [OF other_step.prems] have "n = 0" by simp
    moreover have "execution_ok R m" if "select_row (kd_execution db') i = Some m" for m
      using ledger_step_inv [OF other_step.prems other_step.hyps(2) inv] that by (simp add: ledger_inv_def)
    ultimately show ?thesis by (auto simp: execution_ok_def split: option.split)
  next
    case (Some m)
    from ledger_step_charges [OF other_step.prems other_step.hyps(2) inv Some] other_step.IH [OF other_step.prems] Some
    show ?thesis by (auto simp: charges_def)
  qed
next
  case (takeover n db m owner ep c db' x)
  from takeover_charges [OF takeover.prems ledger_run_inv [OF takeover.hyps(1) takeover.prems] takeover.hyps(2-4)]
  obtain m' where "select_row (kd_execution db') i = Some m'" "km_budget m' = km_budget m"
      "km_consumed m' = km_consumed m + R" "km_consumed m' < km_budget m'" by blast
  moreover have "int n * R \<le> km_consumed m" using takeover.IH [OF takeover.prems] takeover.hyps(2) by simp
  ultimately show ?case by (simp add: algebra_simps)
qed

end
