(* ===== verification/Research_Metering.thy ===== *)
theory Research_Metering
  imports Research_Time Research_Samples
begin

text \<open>
  What the execution ledger promises its callers: a segment is charged the time it reports, however often
  it ticks and whatever else happens to the task; processes that die cannot run a task without end; a
  superseded process is locked out. The samples are one run: a segment, its loss and its takeover.
\<close>

section \<open>Metering\<close>

text \<open>
  A segment \<open>s\<close> from its opening on: it reports elapsed times, rising or falling, it reports sleep or an
  uncertain interval, its process begins it again, and meanwhile the kernel, the scheduler and other
  tasks go on. The list holds the elapsed times of its running ticks in their order.
\<close>

inductive metered :: "research_env \<Rightarrow> int \<Rightarrow> string \<Rightarrow> string \<Rightarrow> int \<Rightarrow> string \<Rightarrow> research_db \<Rightarrow> int list \<Rightarrow> research_db \<Rightarrow> bool"
  for E R i owner ep s db0
where
  opened: "metered E R i owner ep s db0 [] db0"
| running: "metered E R i owner ep s db0 es db \<Longrightarrow>
    tick_segment E R c i owner ep s e ''running'' db = (db', Inr a) \<Longrightarrow> metered E R i owner ep s db0 (es @ [e]) db'"
| unreported: "metered E R i owner ep s db0 es db \<Longrightarrow> interval \<noteq> ''running'' \<or> isl res \<Longrightarrow>
    tick_segment E R c i owner ep s e interval db = (db', res) \<Longrightarrow> metered E R i owner ep s db0 es db'"
| begun_again: "metered E R i owner ep s db0 es db \<Longrightarrow> begin_segment E R c i owner ep db = (db', res) \<Longrightarrow>
    metered E R i owner ep s db0 es db'"
| kernel: "metered E R i owner ep s db0 es db \<Longrightarrow> db_step E db db' \<Longrightarrow> metered E R i owner ep s db0 es db'"
| scheduled: "metered E R i owner ep s db0 es db \<Longrightarrow> enqueue_execution E c i command manual reason db = (db', res) \<Longrightarrow>
    metered E R i owner ep s db0 es db'"
| failed: "metered E R i owner ep s db0 es db \<Longrightarrow> record_failure E c i code safe db = (db', res) \<Longrightarrow>
    metered E R i owner ep s db0 es db'"
| elsewhere: "metered E R i owner ep s db0 es db \<Longrightarrow> ledger_step E R db db' \<Longrightarrow>
    select_row (kd_execution db') i = select_row (kd_execution db) i \<Longrightarrow> metered E R i owner ep s db0 es db'"

text \<open>Every rise above the report before it is charged, and a report that falls is the new mark.\<close>

fun rises :: "int \<Rightarrow> int list \<Rightarrow> int" where
  "rises mark [] = 0"
| "rises mark (e # es) = max 0 (e - mark) + rises e es"

lemma rises_append: "rises mark (es @ [e]) = rises mark es + max 0 (e - last (mark # es))"
  by (induction mark es rule: rises.induct) simp_all

lemma rises_nonneg: "0 \<le> rises mark es"
  by (induction mark es rule: rises.induct) simp_all

lemma rises_cover: "e \<in> set es \<Longrightarrow> e - mark \<le> rises mark es"
proof (induction mark es rule: rises.induct)
  case (2 mark d es)
  then show ?case using rises_nonneg [of d es] by (cases "e = d") auto
qed simp

lemma rises_sorted: "sorted (mark # es) \<Longrightarrow> rises mark es = last (mark # es) - mark"
  by (induction mark es rule: rises.induct) auto

definition meter :: "kernel_execution \<Rightarrow> int list \<Rightarrow> kernel_execution \<Rightarrow> bool" where
  "meter m0 es m \<longleftrightarrow> (\<forall>e\<in>set es. 0 \<le> e) \<and> km_segment m = km_segment m0 \<and> km_budget m = km_budget m0 \<and>
     km_settled m = last (0 # es) \<and> km_consumed m = km_consumed m0 + rises 0 es"

lemma meter_rows:
  "meter m0 es m \<Longrightarrow> meter m0 es (enqueued c command manual reason m)"
  "meter m0 es m \<Longrightarrow> meter m0 es (failed_row c code safe m)"
  "meter m0 es m \<Longrightarrow> interval \<noteq> ''running'' \<Longrightarrow> meter m0 es (tick_row c R x interval m)"
  "meter m0 es m \<Longrightarrow> same_time m m' \<Longrightarrow> meter m0 es m'"
  "meter m0 es m \<Longrightarrow> 0 \<le> e \<Longrightarrow> meter m0 (es @ [e]) (tick_row c R e ''running'' m)"
  by (simp_all add: meter_def enqueued_def failed_row_def tick_row_def uncertain_row_def same_time_def ticked_def Let_def
      rises_append)

lemma put_execution_row:
  "select_row (kd_execution db) i = Some m \<Longrightarrow> db' = fst (put_execution E i m' db) \<Longrightarrow> select_row (kd_execution db') i = Some m'"
  by (simp add: table_simps)

lemma metered_row:
  assumes "metered E R i owner ep s db0 es db" and "select_row (kd_execution db0) i = Some m0" and "km_settled m0 = 0"
    and own: "map_option snd (km_segment m0) = Some (owner, ep)"
  shows "\<exists>m. select_row (kd_execution db) i = Some m \<and> meter m0 es m"
  using assms(1-3)
proof (induction rule: metered.induct)
  case opened
  then show ?case by (simp add: meter_def)
next
  case (running es db c e db' a)
  then obtain m where m: "select_row (kd_execution db) i = Some m" "meter m0 es m" by blast
  from running.hyps(2) show ?case
  proof (cases rule: tick_segment_cases)
    case (row m1 t)
    with m have "m1 = m" by simp
    with put_execution_row [OF row(4,6)] meter_rows(5) [OF m(2) row(1)] show ?thesis by blast
  qed simp
next
  case (unreported es db interval res c e db')
  then obtain m where m: "select_row (kd_execution db) i = Some m" "meter m0 es m" by blast
  from unreported.hyps(3) show ?case
  proof (cases rule: tick_segment_cases)
    case (row m1 t)
    with m have "m1 = m" by simp
    with put_execution_row [OF row(4,6)] meter_rows(3) [OF m(2)] unreported.hyps(2) row show ?thesis by auto
  qed (use m in blast)
next
  case (begun_again es db c db' res)
  then obtain m where m: "select_row (kd_execution db) i = Some m" "meter m0 es m" by blast
  from begun_again.hyps(2) show ?case
  proof (cases rule: begin_segment_cases)
    case (row m1 t s1 m')
    with m have "m1 = m" by simp
    moreover from m(2) own have "map_option snd (km_segment m) = Some (owner, ep)" by (simp add: meter_def)
    ultimately have own': "map_option snd (km_segment m1) = Some (owner, ep)" by simp
    from row(5) have "m' = m" by (cases rule: segment_row_cases) (use own' \<open>m1 = m\<close> in auto)
    with row(6) m show ?thesis by (simp add: table_simps)
  qed (use m in auto)
next
  case (kernel es db db')
  then obtain m where m: "select_row (kd_execution db) i = Some m" "meter m0 es m" by blast
  with db_step_execution [OF kernel.hyps(2)] obtain m' where "select_row (kd_execution db') i = Some m'" "same_time m m'"
    unfolding executions_kept_def by blast
  with meter_rows(4) [OF m(2)] show ?case by blast
next
  case (scheduled es db c command manual reason db' res)
  then obtain m where m: "select_row (kd_execution db) i = Some m" "meter m0 es m" by blast
  from scheduled.hyps(2) show ?case
  proof (cases rule: enqueue_execution_cases)
    case (row m1)
    with m have "m1 = m" by simp
    with put_execution_row [OF row(1,3)] meter_rows(1) [OF m(2)] show ?thesis by blast
  qed (use m in blast)
next
  case (failed es db c code safe db' res)
  then obtain m where m: "select_row (kd_execution db) i = Some m" "meter m0 es m" by blast
  from failed.hyps(2) show ?case
  proof (cases rule: record_failure_cases)
    case (row m1)
    with m have "m1 = m" by simp
    with put_execution_row [OF row(1,2)] meter_rows(2) [OF m(2)] show ?thesis by blast
  qed (use m in blast)
qed simp

text \<open>A segment that is opened starts from zero, with what the row has consumed by then.\<close>

lemma begin_new_segment:
  assumes "begin_segment E R c i owner ep db = (db0, Inr (s, a))" and "select_row (kd_execution db) i = Some m"
    and "map_option snd (km_segment m) \<noteq> Some (owner, ep)"
  obtains m0 where "select_row (kd_execution db0) i = Some m0" "km_segment m0 = Some (s, owner, ep)" "km_settled m0 = 0"
    "at_consumed a = km_consumed m0"
  using assms(1)
proof (cases rule: begin_segment_cases)
  case (row m1 t s1 m')
  with assms(2) have [simp]: "m1 = m" "s1 = s" "a = snapshot_of E i m'" by simp_all
  from row(5) show thesis
  proof (cases rule: segment_row_cases)
    case (opened m2)
    have "select_row (kd_execution db0) i = Some m'" using row(6) assms(2) by (simp add: table_simps)
    moreover have "fst (new_id E ''rseg'' db) = s" using opened(2) by simp
    ultimately show thesis by (intro that [of m']) (simp_all add: opened(5) opened_segment_def snapshot_of_def)
  qed (use assms(3) in simp)
qed simp

lemma settle_segment_row:
  assumes "settle_segment E R c c' i owner ep s T status reason db = (db', Inr a)" and "select_row (kd_execution db) i = Some m"
  shows "a = snapshot_of E i (closed_segment c' status reason (tick_row c R T ''running'' m))"
proof -
  from assms(1) obtain db1 b where tick: "tick_segment E R c i owner ep s T ''running'' db = (db1, Inr b)"
    and close: "close_segment E c' i owner ep s status reason db1 = (db', Inr a)"
    by (auto simp: settle_segment_def split: prod.splits sum.splits)
  have one: "select_row (kd_execution db1) i = Some (tick_row c R T ''running'' m)"
    using tick by (cases rule: tick_segment_cases) (use assms(2) in \<open>auto simp: table_simps\<close>)
  from close show ?thesis by (cases rule: close_segment_cases) (use one in auto)
qed

lemma settle_nonneg:
  assumes "settle_segment E R c c' i owner ep s T status reason db = (db', Inr a)"
  shows "0 \<le> T"
  using assms by (auto simp: settle_segment_def tick_segment_def split: if_splits prod.splits sum.splits)

section \<open>The lease of a segment\<close>

lemma ledger_step_epoch:
  assumes "ledger_step E R db db'" and "kernel_epoch (db, []) i = Some e"
  shows "\<exists>e'. kernel_epoch (db', []) i = Some e' \<and> e \<le> e'"
proof -
  obtain t where t: "select_row (kd_tasks db) i = Some t" "kt_epoch t = e" using assms(2) by (auto simp: kernel_epoch_def)
  have same: ?thesis if "kd_tasks db' = kd_tasks db" using that t by (simp add: kernel_epoch_def)
  from assms(1) show ?thesis
  proof (cases rule: ledger_step.cases)
    case kernel
    from db_step_epoch [OF kernel t(1)] t(2) show ?thesis by (auto simp: kernel_epoch_def)
  next
    case inserted
    then show ?thesis by (intro same) (auto simp: insert_v2_def dest: insert_execution_tables(1))
  next
    case enqueued
    then show ?thesis by (cases rule: enqueue_execution_cases) (rule same, simp)+
  next
    case begun
    then show ?thesis by (cases rule: begin_segment_cases) (rule same, simp)+
  next
    case ticked
    then show ?thesis by (cases rule: tick_segment_cases) (rule same, simp)+
  next
    case closed
    then show ?thesis by (cases rule: close_segment_cases) (rule same, simp)+
  next
    case renewed
    then show ?thesis
      by (cases rule: renew_lease_only_cases) (use t in \<open>auto simp: kernel_epoch_def table_simps\<close>)
  next
    case failed
    then show ?thesis by (cases rule: record_failure_cases) (rule same, simp)+
  qed
qed

interpretation ledger_lease: fenced_lease "ledger_step E R" "\<lambda>db. kernel_epoch (db, [])"
    "\<lambda>db i owner ep db'. kernel_claims E (db, []) i owner ep (db', [])" "\<lambda>db. kernel_passes (db, [])"
  by unfold_locales (rule ledger_step_epoch kernel_claims_raise kernel_passes_epoch kernel_passes_owner; assumption)+

text \<open>The call failed and wrote nothing.\<close>

definition refused :: "research_db \<Rightarrow> 'a outcome \<Rightarrow> bool" where
  "refused db out \<longleftrightarrow> fst out = db \<and> isl (snd out)"

lemma unfenced_ledger_refused:
  assumes "\<not> kernel_passes (db, []) i owner ep"
  shows "refused db (begin_segment E R c i owner ep db)"
    and "refused db (tick_segment E R c i owner ep s elapsed interval db)"
    and "refused db (close_segment E c i owner ep s status reason db)"
    and "refused db (settle_segment E R c c' i owner ep s elapsed status reason db)"
    and "refused db (renew_lease_only E c i owner ep seconds db)"
proof -
  have no: "assert_owner c t owner ep \<noteq> Inr ()" if "fetch_task c i db = Inr t" for c t
    using assms that by (auto simp: kernel_passes_def fence_holds_def)
  show "refused db (begin_segment E R c i owner ep db)"
  proof (cases "begin_segment E R c i owner ep db")
    case (Pair db' res)
    then show ?thesis by (cases rule: begin_segment_cases) (simp_all add: refused_def Pair no)
  qed
  show tick: "refused db (tick_segment E R c i owner ep s elapsed interval db)" for interval
  proof (cases "tick_segment E R c i owner ep s elapsed interval db")
    case (Pair db' res)
    then show ?thesis by (cases rule: tick_segment_cases) (simp_all add: refused_def Pair no)
  qed
  show "refused db (close_segment E c i owner ep s status reason db)"
  proof (cases "close_segment E c i owner ep s status reason db")
    case (Pair db' res)
    then show ?thesis by (cases rule: close_segment_cases) (simp_all add: refused_def Pair no)
  qed
  show "refused db (settle_segment E R c c' i owner ep s elapsed status reason db)"
    using tick [of "''running''"] by (auto simp: settle_segment_def refused_def split: prod.splits sum.splits)
  show "refused db (renew_lease_only E c i owner ep seconds db)"
  proof (cases "renew_lease_only E c i owner ep seconds db")
    case (Pair db' res)
    then show ?thesis by (cases rule: renew_lease_only_cases) (simp_all add: refused_def Pair no)
  qed
qed

end
