(* ===== verification/Ledger_Properties.thy ===== *)
theory Ledger_Properties
  imports Research_Metering
begin

text \<open>
  The properties of the execution ledger, on the sample run: the claimed task of the kernel's samples is
  scheduled, a process opens a segment and dies, and after its lease a second process takes over.
\<close>

section \<open>The run\<close>

definition ledger_row :: kernel_execution where
  "ledger_row =
     \<lparr>km_policy = ''research_active_time_v2'', km_budget = 12000, km_consumed = 0, km_segment = None, km_settled = 0,
       km_reserved = 0, km_ticks = 0, km_timing = ''idle'', km_intent = ''queued'', km_scheduling = ''queued'',
       km_run_command = Some ''run'', km_reason = Some ''initial_run_requested'', km_failures = 0,
       km_lifetime_failures = 0, km_generation = 0, km_next_retry = None, km_failure_code = None, km_created = 5,
       km_updated = 5\<rparr>"

definition ledger_ready :: research_db where
  "ledger_ready = research_claimed\<lparr>kd_execution := [(''t'', ledger_row)]\<rparr>"

lemma ledger_ready_run: "insert_v2 research_sample_call ''t'' ''run'' True 12000 research_claimed = Inr ledger_ready"
  by (simp add: insert_v2_def insert_execution_def insert_new_def insert_row_def new_execution_def time_policy_def
      scheduling_intents_def scheduling_states_def ledger_ready_def ledger_row_def research_claimed_def select_row_def)

definition ledger_opened :: research_db where
  "ledger_opened = ledger_ready\<lparr>kd_execution := [(''t'', ledger_row\<lparr>km_segment := Some (''rseg_iiiii'', ''o'', 1),
     km_reserved := 5000, km_ticks := 1, km_timing := ''active'', km_scheduling := ''running''\<rparr>)], kd_draws := 6\<rparr>"

lemmas evaluate_ledger = begin_segment_def tick_segment_def close_segment_def settle_segment_def segment_row_def
  opened_segment_def recover_segment_def reserved_tail_def put_execution_def segment_fence_def tick_row_def ticked_def
  closed_segment_def snapshot_of_def text_if_any_def coalesce_def scheduling_states_def

lemma ledger_opened_run:
  "begin_segment research_sample_env 5000 research_sample_call ''t'' ''o'' 1 ledger_ready =
    (ledger_opened, Inr (''rseg_iiiii'', snapshot_of research_sample_env ''t'' (snd (hd (kd_execution ledger_opened)))))"
  by (simp add: ledger_opened_def ledger_ready_def ledger_row_def research_claimed_def evaluate_ledger evaluate_kernel)

definition ledger_lost :: research_db where
  "ledger_lost = ledger_opened\<lparr>
     kd_tasks := [(''t'', \<lparr>kt_owner_user = ''u'', kt_parent = None, kt_status = Ts_Ready, kt_goal = Some ''goal_'',
       kt_version = 2, kt_owner = Some ''n'', kt_epoch = 2, kt_lease = Some 130000000, kt_result = None, kt_created = 5,
       kt_updated = 70000000\<rparr>)],
     kd_events := kd_events research_claimed @ [(''event_iiiiii'', \<lparr>ke_task = ''t'', ke_goal = None, ke_attempt = None,
       ke_checkpoint = None, ke_seq = 3, ke_type = ''owner_claimed'', ke_payload = JObj [(''owner_id'', JStr ''n''),
       (''lease_until'', JStr ''time'')], ke_command = Some ''take'', ke_epoch = 2, ke_created = 70000000\<rparr>)],
     kd_receipts := kd_receipts research_claimed @ [(''receipt_iiiiiii'', \<lparr>kx_task = ''t'', kx_command = ''take'',
       kx_type = ''claim_owner'', kx_hash = ''digest'', kx_outcome = Some ''t'', kx_response = JObj [(''task_id'', JStr ''t''),
       (''owner_id'', JStr ''n''), (''owner_epoch'', JInt 2), (''lease_until'', JStr ''time''), (''state_version'', JInt 2),
       (''rebound_reserved_side_effect_ids'', JArr [])], kx_epoch = 2, kx_created = 70000000\<rparr>)],
     kd_draws := 8\<rparr>"

lemma ledger_lost_run:
  "claim_owner research_sample_env research_late_call ''t'' ''take'' ''n'' 1 60 ledger_opened =
    (ledger_lost, Inr (JObj [(''task_id'', JStr ''t''), (''owner_id'', JStr ''n''), (''owner_epoch'', JInt 2),
       (''lease_until'', JStr ''time''), (''state_version'', JInt 2), (''rebound_reserved_side_effect_ids'', JArr [])]))"
  by (simp add: ledger_lost_def ledger_opened_def ledger_ready_def research_claimed_def evaluate_commands evaluate_rows
      evaluate_kernel)

definition ledger_recovered :: research_db where
  "ledger_recovered = ledger_lost\<lparr>kd_execution := [(''t'', ledger_row\<lparr>km_consumed := 5000,
     km_segment := Some (''rseg_iiiiiiii'', ''n'', 2), km_reserved := 5000, km_ticks := 2, km_timing := ''active'',
     km_scheduling := ''running'', km_updated := 70000000\<rparr>)], kd_draws := 9\<rparr>"

lemma ledger_recovered_run:
  "begin_segment research_sample_env 5000 research_late_call ''t'' ''n'' 2 ledger_lost =
    (ledger_recovered, Inr (''rseg_iiiiiiii'', snapshot_of research_sample_env ''t'' (snd (hd (kd_execution ledger_recovered)))))"
  by (simp add: ledger_recovered_def ledger_lost_def ledger_opened_def ledger_ready_def ledger_row_def evaluate_ledger
      evaluate_kernel)

lemmas ledger_samples = ledger_ready_def ledger_opened_def ledger_lost_def ledger_recovered_def ledger_row_def
  research_claimed_def select_row_def

lemma ledger_steps_claimed: "(ledger_step research_sample_env R)\<^sup>*\<^sup>* empty_research ledger_ready"
proof -
  let ?step = "ledger_step research_sample_env R"
  have 1: "?step empty_research research_created" by (rule ledger_step.kernel [OF create_task_step [OF research_created_run]])
  have 2: "?step research_created research_claimed" by (rule ledger_step.kernel [OF claim_owner_step [OF research_claimed_run]])
  have 3: "?step research_claimed ledger_ready" by (rule ledger_step.inserted [OF ledger_ready_run])
  have "?step\<^sup>*\<^sup>* empty_research research_created" using 1 by (rule r_into_rtranclp)
  then have "?step\<^sup>*\<^sup>* empty_research research_claimed" using 2 by (rule rtranclp.rtrancl_into_rtrancl)
  then show ?thesis using 3 by (rule rtranclp.rtrancl_into_rtrancl)
qed

lemma ledger_steps_lost: "(ledger_step research_sample_env 5000)\<^sup>*\<^sup>* empty_research ledger_lost"
proof -
  let ?step = "ledger_step research_sample_env 5000"
  have 1: "?step ledger_ready ledger_opened" by (rule ledger_step.begun [OF ledger_opened_run])
  have 2: "?step ledger_opened ledger_lost" by (rule ledger_step.kernel [OF claim_owner_step [OF ledger_lost_run]])
  have "?step\<^sup>*\<^sup>* empty_research ledger_opened" using ledger_steps_claimed 1 by (rule rtranclp.rtrancl_into_rtrancl)
  then show ?thesis using 2 by (rule rtranclp.rtrancl_into_rtrancl)
qed

section \<open>The rows\<close>

text \<open>
  C40: In every state the ledger and the task kernel reach together, a task's row is consistent: its budget
  is positive; outside a segment nothing is settled or reserved and the clock is neither running nor in
  doubt; inside one, exactly one tail is reserved: the reservation, or what is left of the budget; a row
  marked exhausted has used its budget; and at most two automatic failures are counted.
\<close>

theorem execution_rows_consistent:
  assumes "(ledger_step E R)\<^sup>*\<^sup>* empty_research db" and "0 < R" and "select_row (kd_execution db) i = Some m"
  shows "0 < km_budget m \<and> 0 \<le> km_consumed m \<and> 0 \<le> km_settled m \<and>
    km_reserved m = (if km_segment m = None then 0 else min R (max 0 (km_budget m - km_consumed m))) \<and>
    (km_segment m = None \<longrightarrow> km_settled m = 0 \<and> km_timing m \<notin> {''active'', ''uncertain''}) \<and>
    (km_timing m = ''exhausted'' \<longrightarrow> km_budget m \<le> km_consumed m) \<and> 0 \<le> km_failures m \<and> km_failures m \<le> 2"
proof -
  have "execution_ok R m" using ledger_steps_inv [OF assms(1,2)] assms(3) unfolding ledger_inv_def by blast
  then show ?thesis unfolding execution_ok_def .
qed

text \<open>The row of the sample run after the second claim: the tail of the lost segment is still reserved.\<close>

lemma execution_rows_consistent_witness:
  "km_reserved (snd (hd (kd_execution ledger_lost))) = min 5000 (max 0 (12000 - 0))"
proof -
  have "select_row (kd_execution ledger_lost) ''t'' = Some (snd (hd (kd_execution ledger_lost)))"
    by (simp add: ledger_samples)
  note execution_rows_consistent [OF ledger_steps_lost _ this]
  then show ?thesis by (simp add: ledger_samples)
qed

section \<open>The charge of a segment\<close>

text \<open>
  C14: A settled segment is charged the rises of its reports: every elapsed time above the report before
  it is charged by the difference, a lower one charges nothing but becomes the mark of the next.
  Sleep, uncertain intervals, refused ticks, a repeated begin and whatever the kernel, the scheduler or
  other tasks did in between charge nothing. The charge is at least every time reported, it is
  exactly the time reported last when the reports never fall, and the segment is closed without a
  reserved tail.
\<close>

theorem segment_charges_elapsed:
  assumes "begin_segment E R c i owner ep db = (db0, Inr (s, a))" and "select_row (kd_execution db) i = Some m"
    and "map_option snd (km_segment m) \<noteq> Some (owner, ep)"
    and "metered E R i owner ep s db0 es db1"
    and "settle_segment E R c1 c2 i owner ep s T status reason db1 = (db2, Inr a')"
  shows "at_consumed a' = at_consumed a + rises 0 (es @ [T]) \<and> at_reserved a' = 0 \<and> at_segment a' = None \<and>
    (\<forall>e \<in> set (es @ [T]). e \<le> rises 0 (es @ [T])) \<and>
    (sorted (es @ [T]) \<longrightarrow> at_consumed a' = at_consumed a + T)"
proof -
  from begin_new_segment [OF assms(1-3)] obtain m0 where m0: "select_row (kd_execution db0) i = Some m0" "km_settled m0 = 0"
      "km_segment m0 = Some (s, owner, ep)" "at_consumed a = km_consumed m0" by blast
  from metered_row [OF assms(4) m0(1,2)] m0(3) obtain m1 where m1: "select_row (kd_execution db1) i = Some m1" "meter m0 es m1" by auto
  have T: "0 \<le> T" using settle_nonneg [OF assms(5)] .
  have closing: "meter m0 (es @ [T]) (tick_row c1 R T ''running'' m1)" by (rule meter_rows(5) [OF m1(2) T])
  have reports: "e \<le> rises 0 (es @ [T])" if "e \<in> set (es @ [T])" for e using rises_cover [OF that, of 0] by simp
  have "rises 0 (es @ [T]) = T" if "sorted (es @ [T])"
    using rises_sorted [of 0 "es @ [T]"] that T m1(2) by (simp add: meter_def)
  with settle_segment_row [OF assms(5) m1(1)] closing reports m0(4) show ?thesis
    by (simp add: meter_def snapshot_of_def closed_segment_def text_if_any_def text_or_empty_def)
qed

text \<open>
  A segment of the sample run that ticks at three seconds, falls back to two and is settled at three and a
  half: four and a half seconds are charged.
\<close>

definition ledger_ticked :: "research_db \<times> (py_error + active_time)" where
  "ledger_ticked = tick_segment research_sample_env 5000 research_sample_call ''t'' ''o'' 1 ''rseg_iiiii'' 3000 ''running''
     ledger_opened"

definition ledger_fallen :: "research_db \<times> (py_error + active_time)" where
  "ledger_fallen = tick_segment research_sample_env 5000 research_sample_call ''t'' ''o'' 1 ''rseg_iiiii'' 2000 ''running''
     (fst ledger_ticked)"

definition ledger_settled :: "research_db \<times> (py_error + active_time)" where
  "ledger_settled = settle_segment research_sample_env 5000 research_sample_call research_sample_call ''t'' ''o'' 1
     ''rseg_iiiii'' 3500 ''idle'' None (fst ledger_fallen)"

lemmas ledger_ticks = ledger_settled_def ledger_fallen_def ledger_ticked_def ledger_opened_def ledger_ready_def ledger_row_def
  research_claimed_def

lemma segment_charges_elapsed_witness: "at_consumed (projr (snd ledger_settled)) = 4500"
proof -
  let ?a = "snapshot_of research_sample_env ''t'' (snd (hd (kd_execution ledger_opened)))"
  have row: "select_row (kd_execution ledger_ready) ''t'' = Some ledger_row" "map_option snd (km_segment ledger_row) \<noteq> Some (''o'', 1)"
    by (simp_all add: ledger_ready_def ledger_row_def select_row_def)
  obtain a1 where tick: "ledger_ticked = (fst ledger_ticked, Inr a1)"
    by (simp add: ledger_ticks evaluate_ledger evaluate_kernel)
  obtain a2 where fall: "ledger_fallen = (fst ledger_fallen, Inr a2)"
    by (simp add: ledger_ticks evaluate_ledger evaluate_kernel)
  obtain a3 where settle: "ledger_settled = (fst ledger_settled, Inr a3)"
    by (simp add: ledger_ticks evaluate_ledger evaluate_kernel)
  have "metered research_sample_env 5000 ''t'' ''o'' 1 ''rseg_iiiii'' ledger_opened ([] @ [3000]) (fst ledger_ticked)"
    by (rule metered.running [OF metered.opened trans [OF ledger_ticked_def [symmetric] tick]])
  from metered.running [OF this trans [OF ledger_fallen_def [symmetric] fall]]
  have "metered research_sample_env 5000 ''t'' ''o'' 1 ''rseg_iiiii'' ledger_opened [3000, 2000] (fst ledger_fallen)" by simp
  from segment_charges_elapsed [OF ledger_opened_run row this trans [OF ledger_settled_def [symmetric] settle]]
  have "at_consumed a3 = at_consumed ?a + 4500" by simp
  moreover have "at_consumed ?a = 0" by (simp add: ledger_opened_def ledger_row_def snapshot_of_def)
  ultimately show ?thesis using settle by (metis snd_conv sum.sel(2) add_0)
qed

section \<open>Takeovers\<close>

text \<open>
  C11: Processes that die cannot run a task without end: however the calls of the ledger and the kernel
  interleave, \<open>n\<close> takeovers of a task's dead segments have charged \<open>n\<close> reservations, and they are fewer
  than fill the budget. With the defaults, a reservation of 5000 ms and a budget of 360000 ms, that is
  fewer than 72.
\<close>

theorem takeovers_are_bounded:
  assumes "ledger_run E R i n db" and "0 < R" and "select_row (kd_execution db) i = Some m"
  shows "int n * R \<le> km_consumed m \<and> int n * R < km_budget m"
  using ledger_run_takeovers [OF assms(1,2)] assms(3) by simp

lemma ledger_run_steps:
  assumes "(ledger_step E R)\<^sup>*\<^sup>* db db'" and "ledger_run E R i n db"
  shows "ledger_run E R i n db'"
  using assms by (induction rule: rtranclp_induct) (auto intro: ledger_run.other_step)

text \<open>The sample run after the takeover.\<close>

lemma takeovers_are_bounded_witness: "5000 \<le> km_consumed (snd (hd (kd_execution ledger_recovered)))"
proof -
  have lost: "ledger_run research_sample_env 5000 ''t'' 0 ledger_lost"
    by (rule ledger_run_steps [OF ledger_steps_lost ledger_run.nothing_yet])
  have row: "select_row (kd_execution ledger_lost) ''t'' = Some (snd (hd (kd_execution ledger_lost)))"
      "dead_segment ''n'' 2 (snd (hd (kd_execution ledger_lost)))"
    by (simp_all add: ledger_samples dead_segment_def)
  have recovered: "select_row (kd_execution ledger_recovered) ''t'' = Some (snd (hd (kd_execution ledger_recovered)))"
    by (simp add: ledger_samples)
  from takeovers_are_bounded [OF ledger_run.takeover [OF lost row ledger_recovered_run] _ recovered] show ?thesis by simp
qed

section \<open>Superseded processes\<close>

text \<open>
  C17: Once another claim of the task has succeeded, a process of the superseded epoch is refused for ever
  by every fenced call of the ledger, and writes nothing: it opens no segment, reports no time, settles
  nothing and cannot renew the lease.
\<close>

theorem superseded_process_locked_out:
  assumes "kernel_epoch (db, []) i = Some ep" and "(ledger_step E R)\<^sup>*\<^sup>* db db1"
    and "kernel_claims E (db1, []) i who ep' (db2, [])" and "(ledger_step E R)\<^sup>*\<^sup>* db2 db3"
  shows "refused db3 (begin_segment E R c i owner ep db3) \<and>
    refused db3 (tick_segment E R c i owner ep s elapsed interval db3) \<and>
    refused db3 (settle_segment E R c c' i owner ep s elapsed status reason db3) \<and>
    refused db3 (renew_lease_only E c i owner ep seconds db3)"
  by (intro conjI; rule unfenced_ledger_refused [OF ledger_lease.stale_never_passes [OF assms]])

text \<open>The first process of the sample run, after the takeover.\<close>

lemma superseded_process_locked_out_witness:
  "refused ledger_recovered (settle_segment research_sample_env 5000 research_late_call research_late_call ''t'' ''o'' 1
     ''rseg_iiiii'' 4000 ''complete'' None ledger_recovered)"
proof -
  have "receipt_of ledger_opened ''t'' ''take'' = None" by (simp add: receipt_of_def ledger_samples)
  moreover have "kernel_epoch (ledger_lost, []) ''t'' = Some 2" by (simp add: kernel_epoch_def ledger_samples)
  ultimately have claim: "kernel_claims research_sample_env (ledger_opened, []) ''t'' ''n'' 2 (ledger_lost, [])"
    unfolding kernel_claims_def fst_conv using ledger_lost_run by blast
  have epoch: "kernel_epoch (ledger_opened, []) ''t'' = Some 1" by (simp add: kernel_epoch_def ledger_samples)
  have "(ledger_step research_sample_env 5000)\<^sup>*\<^sup>* ledger_lost ledger_recovered"
    by (rule r_into_rtranclp, rule ledger_step.begun, rule ledger_recovered_run)
  from superseded_process_locked_out [OF epoch rtranclp.rtrancl_refl claim this] show ?thesis by blast
qed

section \<open>A budget that ran out in a dead process\<close>

text \<open>
  The takeover of a segment whose tail uses up the budget is refused inside its transaction, so the
  charge of the tail and the marks \<open>exhausted\<close> and \<open>manual_required\<close> are rolled back with it; the scan
  then selects the same task again, before every task that was updated later.
\<close>

lemma spent_segment_scanned_again:
  assumes inv: "ledger_inv R db" and row: "select_row (kd_execution db) i = Some m" and dead: "dead_segment owner ep m"
    and spent: "km_budget m - km_consumed m \<le> R" and due: "due_task c' db = Some i"
  shows "refused db (begin_segment E R c i owner ep db) \<and> due_task c' (fst (begin_segment E R c i owner ep db)) = Some i"
proof -
  have ok: "execution_ok R m" using inv row by (simp add: ledger_inv_def)
  from dead have seg: "km_segment m \<noteq> None" "map_option snd (km_segment m) \<noteq> Some (owner, ep)"
    by (auto simp: dead_segment_def split: option.splits)
  then have no: "segment_row c R s owner ep m \<noteq> Inr x" for s x
    using ok spent by (auto simp: segment_row_def recover_segment_def execution_ok_def Let_def)
  have "refused db (begin_segment E R c i owner ep db)"
  proof (cases "begin_segment E R c i owner ep db")
    case (Pair db' res)
    then show ?thesis by (cases rule: begin_segment_cases) (use row no in \<open>simp_all add: refused_def Pair\<close>)
  qed
  with due show ?thesis by (simp add: refused_def)
qed

text \<open>The guard on an uncertain clock never refuses: it is read after the takeover has reset the clock.\<close>

lemma uncertain_guard_is_dead:
  assumes "execution_ok R m" and "segment_row c R s owner ep m = Inl e"
  shows "e = Research_Unsafe ''research active-time budget is exhausted''"
  using assms by (auto simp: segment_row_def recover_segment_def execution_ok_def Let_def split: if_splits)

section \<open>The recovery of a due task\<close>

text \<open>
  A takeover by the recovery scanner is a run of transactions of the kernel and the ledger, so all the
  above holds across it.
\<close>

lemma runner_epoch_steps:
  assumes "runner_epoch E c runner i t db = (db', res)"
  shows "db_step E db db'"
  using assms by (auto simp: runner_epoch_def split: if_splits prod.splits intro: db_step.stay claim_owner_step)

lemma recover_taken_steps:
  assumes "recover_taken E c runner i ep t db = (db', res)"
  shows "(ledger_step E R)\<^sup>*\<^sup>* db db'"
proof -
  obtain db1 r where one: "recover_in_flight E c i
      (recovery_command i ('':in-flight:'' @ int_text ep @ '':'' @ int_text (kt_version t))) runner ep (kt_version t) db = (db1, r)"
    by fastforce
  then have first: "(ledger_step E R)\<^sup>*\<^sup>* db db1"
    by (intro r_into_rtranclp ledger_step.kernel recover_in_flight_step)
  have "db' = db1 \<or> db' = fst (record_failure E c i ''provider_outcome_unknown'' False db1)"
    using assms one by (auto simp: recover_taken_def split: prod.splits sum.splits bool.splits)
  moreover have "ledger_step E R db1 (fst (record_failure E c i ''provider_outcome_unknown'' False db1))"
    by (rule ledger_step.failed, rule prod.collapse [symmetric])
  ultimately show ?thesis using rtranclp.rtrancl_into_rtrancl [OF first] first by auto
qed

lemma claim_and_recover_steps:
  assumes "claim_and_recover E c runner i db = (db', res)"
  shows "(ledger_step E R)\<^sup>*\<^sup>* db db'"
proof (cases "fetch_task c i db")
  case (Inr t)
  obtain db1 r where one: "runner_epoch E c runner i t db = (db1, r)" by fastforce
  have step: "ledger_step E R db db1" by (rule ledger_step.kernel [OF runner_epoch_steps [OF one]])
  consider "db' = db" | "db' = db1" | e current where "recover_taken E c runner i e current db1 = (db', res)"
    using assms Inr one by (cases r; cases "fetch_task c i db1") (auto simp: claim_and_recover_def split: if_splits)
  then show ?thesis
  proof cases
    case 3
    from converse_rtranclp_into_rtranclp [OF step recover_taken_steps [OF 3]] show ?thesis .
  qed (simp_all add: r_into_rtranclp step)
qed (use assms in \<open>simp add: claim_and_recover_def\<close>)

text \<open>It hands a task to the runner only with the runner's own epoch, and never a task that is over, waits or is blocked.\<close>

lemma claim_and_recover_takes:
  assumes "claim_and_recover E c runner i db = (db', Inr (Some (who, ep)))"
  obtains t where "fetch_task c i db = Inr t" "kt_status t \<notin> {Ts_Terminal, Ts_Waiting_User, Ts_Blocked}" "who = runner"
    "text_or_empty (kt_owner t) \<in> {[], runner} \<or> \<not> kernel_lease_valid c t"
  using assms
  by (auto simp: claim_and_recover_def recover_taken_def split: if_splits prod.splits sum.splits bool.splits)

end
