(* ===== verification/Spec2Isabelle.thy ===== *)
theory Spec2Isabelle
  imports Evidence_Properties Continuation_Properties Budget_Properties Scheduler_Properties Receipts_Properties Retrieval_Chunking Hybrid_Properties Consolidation_Properties Candidates_Properties Context_Properties Adaptive_Properties Deep_Properties Streaming_Properties Answer_Calls Trust_Properties Json_Identity Research_Properties Research_Interleaving Ledger_Properties
begin

text \<open>
  A verification of the core of Shiliu, a local assistant that turns Bilibili favourites into a
  traceable corpus of subtitles and answers questions with citations into it. Sources are under
  src/src/shiliu/; a file named below is relative to that directory.

  \<^bold>\<open>The program.\<close> Subtitles are cut into chunks and indexed. A question is searched by a lexical and
  a dense ranking, which are fused by reciprocal rank and consolidated into videos and temporal
  windows. Hits become evidence spans with citations; spans are fused, fitted and merged into the
  context of the model. Whether an answer may be given is not the model's choice: a deterministic
  decision over requirements, coverage, freshness and conflicts selects an action and is sealed by
  hashes. A later question may continue an earlier run: its evidence is replayed from the source,
  decided upon again, and refreshed by bounded searches. Work runs as jobs and research tasks that
  several processes share through PostgreSQL, fenced by lease epochs, and every model request is
  reserved against a daily budget before it is sent.

  \<^bold>\<open>Theories, from the ground up.\<close>
    \<^item> \<open>Shiliu_Prelude\<close>: exceptions as a sum type, dictionaries as association lists, stable sorting,
      aware timestamps. \<open>Canonical_Json\<close>: JSON values, their canonical text and the SHA-256 identities.
      \<open>Python_Values\<close>: text and float operations. \<open>Sql_Table\<close>: tables and the statements issued on them.
    \<^item> \<open>Evidence_Types\<close>, \<open>Evidence_Json\<close>, \<open>Evidence_Decision\<close> model evidence/decision.py: contract
      types and their validators, the JSON of a decision, requirement resolution, the seven gates, the
      selection of the action, creation, the integrity check. \<open>Evidence_Facts\<close> relates \<open>select_action\<close> to
      the table \<open>spec_action\<close>, which looks at the input only as sets; \<open>Evidence_Properties\<close> states what a
      stored or created decision guarantees.
    \<^item> \<open>Continuation_Types\<close>, \<open>Continuation_Refresh\<close> model evidence/continuation.py: envelopes, sealing,
      binding of a child, the consumption check, and the refresh loop over an arbitrary callback.
      \<open>Continuation_Facts\<close> and \<open>Continuation_Properties\<close> prove its bounds, the exact account of its calls
      and rounds, and that its results stay bound.
    \<^item> \<open>Storage_Budget\<close> (storage/budget.py) with \<open>Budget_Facts\<close>, \<open>Budget_Properties\<close>: reservation,
      settlement and release; the ledger balances in every reachable state.
    \<^item> \<open>Storage_Scheduler\<close> (storage/scheduler.py) with \<open>Scheduler_Facts\<close>, \<open>Scheduler_Properties\<close>: claims,
      guard, transitions and recovery of jobs and the lane of the model jobs.
    \<^item> \<open>Storage_Fences\<close> (storage/fences.py, storage/receipts.py, part of storage/dto.py) with
      \<open>Fences_Properties\<close> and \<open>Receipts_Properties\<close>: runs, research tasks, event logs (which the research
      service appends to as well) and replay receipts.
    \<^item> \<open>Coordination_Interfaces\<close> holds the two contracts the storage layer is built on as locales, leases
      with an epoch and gapless event logs. Both are interpreted on the definitions of the model, the
      first for jobs, for research tasks, for the task kernel and for its execution ledger, the second for run and for task events.
    \<^item> \<open>Retrieval_Chunking\<close> (retrieval/chunking.py), \<open>Retrieval_Models\<close>, \<open>Retrieval_Hybrid\<close> with
      \<open>Hybrid_Properties\<close> (retrieval/models.py, retrieval/hybrid.py), \<open>Retrieval_Consolidation\<close> with
      \<open>Consolidation_Properties\<close> (retrieval/consolidation.py).
    \<^item> \<open>Ask_Runtime\<close>, \<open>Ask_Contracts\<close> (ask/contracts.py, ask/citations.py, ask/validation.py),
      \<open>Ask_Candidates\<close> with \<open>Candidates_Properties\<close> (ask/candidates.py), \<open>Ask_Context\<close> with
      \<open>Context_Properties\<close> (ask/context.py), \<open>Ask_Adaptive\<close> with \<open>Adaptive_Properties\<close> (ask/adaptive.py): it
      connects spans, decision and continuation; a decision made again rests on replayed spans only, one
      whose parent run is missing is returned as it was.
    \<^item> \<open>Deep_Contracts\<close> (ask/deep/contracts.py and budget.py), \<open>Deep_Reducer\<close> (reducer.py) and
      \<open>Deep_Graph\<close> (graph.py and decision.py) model the deep search: an agent that plans searches round
      by round. \<open>Deep_Facts\<close> holds the invariant of its states and the measure of its steps,
      \<open>Deep_Properties\<close> shows that it returns within langgraph's limit of 80 nodes (or raises on
      a provenance rank that is not a number), stays in its budget and takes its evidence from the transcript tools only.
    \<^item> \<open>Ask_Trust\<close> (ask/trust.py), \<open>Ask_Answer\<close> (ask/answer.py), \<open>Ask_Streaming\<close> (ask/streaming.py) and
      \<open>Ask_Finalize\<close> (ask/finalize.py, the validator of the response in ask/contracts.py) model the
      answer from its evidence to its publication: the call of the model and its one repair, the gate of
      the citations, the reader of the answer while it is streamed, the provisional blocks, and the
      finalizer. \<open>Answer_Facts\<close> says what a finished answer went through, \<open>Answer_Properties\<close> what is
      published.
      \<open>Streaming_Properties\<close>: chunks of text do not show, what is shown early passed the gate and is
      withdrawn with the answer. \<open>Answer_Calls\<close>: how often the model is called. \<open>Trust_Properties\<close>: what the
      gate keeps, where the quotes come from, and the review after publication.
    \<^item> \<open>Json_Identity\<close>: the canonical text of a JSON value determines the value, so a payload hash
      identifies a payload up to collisions of the digest.
    \<^item> \<open>Research_State\<close> (the enumerations of research/contracts.py and the tables), \<open>Research_Kernel\<close> (lookups,
      guards, events, receipts), \<open>Research_Tasks\<close>, \<open>Research_Attempts\<close>, \<open>Research_Effects\<close> and
      \<open>Research_Commands\<close> model the task kernel of research/service.py: every command, each one transaction
      under the lock of its task row, the protocol around the adapter of research/adapter.py, at once and as
      its single transactions (\<open>delivery_next\<close>), and the dispatch of a request. \<open>Research_Facts\<close> says what each command reads and writes, \<open>Research_Steps\<close> reduces
      every call of the service to transactions, \<open>Research_Invariants\<close>, \<open>Research_Lineage\<close> and
      \<open>Research_Delivery\<close> hold the invariants, \<open>Research_Samples\<close> one evaluated run, and
      \<open>Research_Properties\<close> the promises: terminal tasks are final, one live attempt, numbered events,
      complete checkpoint lineages, replays, and the fence against a superseded owner.
      \<open>Research_Adapter\<close> and \<open>Research_Once\<close>: effects only move on, and a payload hash identifies what a
      receipt answers, as long as payload hashes do not collide. \<open>Research_Interleaving\<close>: deliveries that run
      their transactions in any order call the adapter for an effect under one command only, and at most
      once when no two deliveries of a command overlap; overlapping ones may call it twice.
    \<^item> \<open>Research_Execution\<close> (research/execution.py, and from research/recovery.py the scan for a due task and
      its claim and recovery) models the execution ledger: the active time of a task, the segment in which
      a process runs it, and when it is due. \<open>Research_Ledger\<close> says what each call and the kernel do to a
      row, \<open>Research_Time\<close> holds the invariant of the rows and the charge of a takeover, \<open>Research_Metering\<close>
      the charge of a segment and the fence, and \<open>Ledger_Properties\<close> the promises: the charge of a segment by the
      rises of its reports, bounded takeovers, superseded processes locked out. \<open>spent_segment_scanned_again\<close> shows the one case in
      which the scan does not get past a task. \<open>renew_lease_only\<close> looks at the owner but not at the status,
      so unlike the commands of the kernel it may move the lease of a terminal task.

  \<^bold>\<open>How the code is rendered.\<close> A function that may raise returns \<open>'a result\<close>: \<open>Inl\<close> an exception,
  \<open>Inr\<close> the value. A pydantic model is a record with a predicate of its constraints; its constructor
  \<open>mk_\<dots>\<close> raises when they fail. A dictionary is an association list in insertion order where the
  order shows and only looked up otherwise. Strings are lists of bytes-sized characters. A finite float
  is the rational it denotes, arithmetic on it is exact arithmetic followed by an argument \<open>rnd\<close>, of
  which only monotonicity, idempotence and what a theorem names are used. A transaction maps a database
  to an error or a new database; since the code locks the rows it reads, transactions are interleaved as
  whole steps, and a protocol of several transactions step by step; and invariants are proved for every reachable state by rule induction, with steps of
  other modules as an extra, constrained kind of step where other modules write the same tables.

  \<^bold>\<open>Parameters.\<close> Code that is not in the repository is an argument: the SHA-256 digest and pydantic's text
  of a timestamp (\<open>platform\<close>; the only law assumed is that a digest has 64 hex digits), the rankings,
  the clock, model providers, event sinks, Python's JSON decoder, parsing of ISO timestamps, and Python's conversions and urllib (\<open>runtime\<close>). Witnesses
  instantiate them by the concrete \<open>sample_platform\<close>, \<open>parent_platform\<close> and \<open>sample_runtime\<close>.

  \<^bold>\<open>Termination.\<close> No fuel is used: every loop is structural or has a measure (the cursor of the chunk
  loops, the remaining selected spans of the merge loop, the unread characters of a stream), so a
  definition that returns \<open>Inr\<close> returns. The graph of the deep search runs within langgraph's limit.
  The refresh loop runs over the list of the round numbers still allowed, at most three.

  \<^bold>\<open>Not modelled.\<close> Parsing of stored JSON text by pydantic where no definition says so; foreign keys and
  statements of other modules except as constrained steps; threads, processes, files and sockets;
  prompt texts and the models behind the providers; the SQL full text and vector searches behind the two rankings. The
  assistant, taxonomy, migration and evaluation packages, the services of the research package above its
  task kernel and execution ledger (with the supervision of the provider thread), and the application shell are not modelled: they are SQL services, prompts and tools
  around the parts above.
\<close>

end
